(* ===== verification/GoPrelude.thy ===== *)
theory GoPrelude
  imports Main "HOL-Library.Sublist"
begin

text \<open>
  Shared by every component: Go's \<open>time.Time\<close> and \<open>time.Duration\<close> in nanoseconds, the
  part of package \<open>strings\<close> the sources use on byte strings, the outcome of one
  database statement as the Go caller sees it, and lemmas on association lists.

  A \<open>time.Time\<close> is the number of nanoseconds since the Unix epoch, as an unbounded
  integer; the zero value \<open>time.Time{}\<close> is the first of January of year 1.
  \<open>Sub\<close> saturates at the bounds of \<open>int64\<close>, as Go's does.
\<close>

type_synonym time = int
type_synonym duration = int

abbreviation (input) millisecond :: duration where "millisecond \<equiv> 1000000"
abbreviation (input) second :: duration where "second \<equiv> 1000000000"
abbreviation (input) minute :: duration where "minute \<equiv> 60000000000"
abbreviation (input) hour :: duration where "hour \<equiv> 3600000000000"

definition zero_time :: time where
  "zero_time = -62135596800000000000"

definition is_zero :: "time \<Rightarrow> bool" where
  "is_zero t \<longleftrightarrow> t = zero_time"

definition max_duration :: duration where
  "max_duration = 9223372036854775807"

definition min_duration :: duration where
  "min_duration = -9223372036854775808"

definition time_sub :: "time \<Rightarrow> time \<Rightarrow> duration" where
  "time_sub t u = max min_duration (min max_duration (t - u))"

text \<open>Go's integer division and conversion to whole seconds truncate towards zero.\<close>

definition trunc_div :: "int \<Rightarrow> int \<Rightarrow> int" where
  "trunc_div a b = sgn a * sgn b * (\<bar>a\<bar> div \<bar>b\<bar>)"

definition whole_seconds :: "duration \<Rightarrow> int" where
  "whole_seconds d = trunc_div d second"

text \<open>Go's \<open>int64\<close> arithmetic wraps around.\<close>

definition int64_wrap :: "int \<Rightarrow> int" where
  "int64_wrap x = (x + 2 ^ 63) mod 2 ^ 64 - 2 ^ 63"

lemma time_sub_less_iff:
  "min_duration < d \<Longrightarrow> d \<le> max_duration \<Longrightarrow> time_sub t u < d \<longleftrightarrow> t - u < d"
  by (auto simp: time_sub_def min_def max_def)

lemma time_sub_le_iff:
  "min_duration \<le> d \<Longrightarrow> d < max_duration \<Longrightarrow> time_sub t u \<le> d \<longleftrightarrow> t - u \<le> d"
  by (auto simp: time_sub_def min_def max_def)

lemma time_sub_pos_iff [simp]: "0 < time_sub t u \<longleftrightarrow> u < t"
  using time_sub_le_iff [of 0 t u] by (auto simp: min_duration_def max_duration_def not_le [symmetric])

lemma time_sub_nonneg_iff [simp]: "0 \<le> time_sub t u \<longleftrightarrow> u \<le> t"
  using time_sub_less_iff [of 0 t u] by (auto simp: min_duration_def max_duration_def not_less [symmetric])

lemma time_sub_mono: "u \<le> v \<Longrightarrow> time_sub t v \<le> time_sub t u"
  by (auto simp: time_sub_def)

section \<open>Strings\<close>

text \<open>
  A Go string is a sequence of bytes, here a \<open>string\<close>. \<open>strings.TrimSpace\<close> removes
  the code points with the White Space property; their UTF-8 encodings are one, two or
  three bytes long.
\<close>

definition ws1 :: "char \<Rightarrow> bool" where
  "ws1 a \<longleftrightarrow> (let n = (of_char a :: nat) in n = 32 \<or> 9 \<le> n \<and> n \<le> 13)"

definition ws2 :: "char \<Rightarrow> char \<Rightarrow> bool" where
  "ws2 a b \<longleftrightarrow> (of_char a :: nat) = 194 \<and> ((of_char b :: nat) = 133 \<or> (of_char b :: nat) = 160)"

definition ws3 :: "char \<Rightarrow> char \<Rightarrow> char \<Rightarrow> bool" where
  "ws3 a b c \<longleftrightarrow>
     (let x = (of_char a :: nat); y = (of_char b :: nat); z = (of_char c :: nat) in
      x = 225 \<and> y = 154 \<and> z = 128 \<or>
      x = 226 \<and> y = 128 \<and> (128 \<le> z \<and> z \<le> 138 \<or> z = 168 \<or> z = 169 \<or> z = 175) \<or>
      x = 226 \<and> y = 129 \<and> z = 159 \<or>
      x = 227 \<and> y = 128 \<and> z = 128)"

fun trim_left :: "string \<Rightarrow> string" where
  "trim_left [] = []"
| "trim_left [a] = (if ws1 a then [] else [a])"
| "trim_left [a, b] =
     (if ws1 a then trim_left [b] else if ws2 a b then [] else [a, b])"
| "trim_left (a # b # c # s) =
     (if ws1 a then trim_left (b # c # s)
      else if ws2 a b then trim_left (c # s)
      else if ws3 a b c then trim_left s
      else a # b # c # s)"

fun trim_right_rev :: "string \<Rightarrow> string" where
  "trim_right_rev [] = []"
| "trim_right_rev [a] = (if ws1 a then [] else [a])"
| "trim_right_rev [b, a] =
     (if ws1 b then trim_right_rev [a] else if ws2 a b then [] else [b, a])"
| "trim_right_rev (c # b # a # s) =
     (if ws1 c then trim_right_rev (b # a # s)
      else if ws2 b c then trim_right_rev (a # s)
      else if ws3 a b c then trim_right_rev s
      else c # b # a # s)"

definition trim_space :: "string \<Rightarrow> string" where
  "trim_space s = rev (trim_right_rev (rev (trim_left s)))"

lemma trim_left_suffix: "suffix (trim_left s) s"
  by (induction s rule: trim_left.induct) (auto intro: suffix_ConsI)

lemma trim_right_rev_suffix: "suffix (trim_right_rev s) s"
  by (induction s rule: trim_right_rev.induct) (auto intro: suffix_ConsI)

lemma trim_space_Nil [simp]: "trim_space [] = []"
  by (simp add: trim_space_def)

lemma trim_space_length: "length (trim_space s) \<le> length s"
proof -
  have "length (trim_right_rev (rev (trim_left s))) \<le> length (rev (trim_left s))"
    by (rule suffix_length_le [OF trim_right_rev_suffix])
  also have "\<dots> \<le> length s"
    using suffix_length_le [OF trim_left_suffix [of s]] by simp
  finally show ?thesis by (simp add: trim_space_def)
qed

lemma trim_left_length: "length (trim_left s) \<le> length s"
  by (rule suffix_length_le [OF trim_left_suffix])

lemma trim_left_idem [simp]: "trim_left (trim_left s) = trim_left s"
  by (induction s rule: trim_left.induct) auto

lemma trim_right_rev_idem [simp]: "trim_right_rev (trim_right_rev s) = trim_right_rev s"
  by (induction s rule: trim_right_rev.induct) auto

lemma trim_left_fixed:
  "trim_left t = t \<longleftrightarrow>
     (\<forall>a s. t = a # s \<longrightarrow> \<not> ws1 a) \<and> (\<forall>a b s. t = a # b # s \<longrightarrow> \<not> ws2 a b) \<and>
     (\<forall>a b c s. t = a # b # c # s \<longrightarrow> \<not> ws3 a b c)"
proof -
  have shorter: "trim_left s \<noteq> a # s" "trim_left s \<noteq> a # b # s" "trim_left s \<noteq> a # b # c # s" for a b c s
    using trim_left_length [of s] by (auto dest!: arg_cong [where f = length])
  show ?thesis
  proof (cases t rule: trim_left.cases)
    case (3 a b)
    then show ?thesis using shorter(1) [of "[b]" a] by auto
  next
    case (4 a b c s)
    then show ?thesis using shorter(1) [of "b # c # s" a] shorter(2) [of "c # s" a b] shorter(3) [of s a b c]
      by auto
  qed auto
qed

lemma trim_left_prefix: "trim_left t = t \<Longrightarrow> prefix p t \<Longrightarrow> trim_left p = p"
  unfolding trim_left_fixed by (auto simp: prefix_def)

lemma trim_space_idem [simp]: "trim_space (trim_space s) = trim_space s"
proof -
  have "prefix (trim_space s) (trim_left s)"
    using trim_right_rev_suffix [of "rev (trim_left s)"] by (simp add: trim_space_def suffix_to_prefix)
  then have "trim_left (trim_space s) = trim_space s" by (rule trim_left_prefix [rotated]) simp
  then show ?thesis by (simp add: trim_space_def)
qed

text \<open>\<open>strings.ToUpper\<close> on the ASCII range; bytes from 128 on are kept.\<close>

definition upper_char :: "char \<Rightarrow> char" where
  "upper_char a = (let n = (of_char a :: nat) in
     if 97 \<le> n \<and> n \<le> 122 then char_of (n - 32) else a)"

definition to_upper :: "string \<Rightarrow> string" where
  "to_upper s = map upper_char s"

text \<open>\<open>strconv.Itoa\<close>.\<close>

fun digits_of :: "nat \<Rightarrow> string" where
  "digits_of n = (if n < 10 then [char_of (48 + n)]
     else digits_of (n div 10) @ [char_of (48 + n mod 10)])"

declare digits_of.simps [simp del]

definition itoa :: "int \<Rightarrow> string" where
  "itoa i = (if i < 0 then CHR ''-'' # digits_of (nat (- i)) else digits_of (nat i))"

text \<open>Bytes in a range; decimal digits are not white space.\<close>

definition in_range :: "nat \<Rightarrow> nat \<Rightarrow> char \<Rightarrow> bool" where
  "in_range lo hi a \<longleftrightarrow> lo \<le> (of_char a :: nat) \<and> (of_char a :: nat) \<le> hi"

lemma digits_of_range: "list_all (in_range 48 57) (digits_of n)"
proof (induction n rule: digits_of.induct)
  case (1 n)
  have "in_range 48 57 (char_of (48 + n mod 10))" by (simp add: in_range_def)
  moreover have "n < 10 \<Longrightarrow> in_range 48 57 (char_of (48 + n))" by (simp add: in_range_def)
  ultimately show ?case using 1 by (simp add: digits_of.simps [of n])
qed

lemma digits_of_nonempty [simp]: "digits_of n \<noteq> []"
  by (subst digits_of.simps) simp

text \<open>Visible ASCII characters are not white space.\<close>

lemma graphic_not_space:
  "in_range 33 127 a \<Longrightarrow> \<not> ws1 a \<and> \<not> ws2 a b \<and> \<not> ws3 a b c \<and> \<not> ws2 b a \<and> \<not> ws3 c b a"
  by (auto simp: in_range_def ws1_def ws2_def ws3_def Let_def)

lemma trim_left_graphic: "in_range 33 127 a \<Longrightarrow> trim_left (a # s) = a # s"
  by (cases "a # s" rule: trim_left.cases) (auto simp: graphic_not_space)

lemma trim_right_rev_graphic: "in_range 33 127 a \<Longrightarrow> trim_right_rev (a # s) = a # s"
  by (cases "a # s" rule: trim_right_rev.cases) (auto simp: graphic_not_space)

lemma trim_space_graphic:
  assumes "list_all (in_range 33 127) s"
  shows "trim_space s = s"
proof (cases s)
  case (Cons a t)
  obtain b u where r: "rev s = b # u" using Cons by (cases "rev s") auto
  then have "b \<in> set s" by (metis list.set_intros(1) set_rev)
  with assms have "in_range 33 127 b" by (simp add: list_all_iff)
  moreover have "in_range 33 127 a" using assms Cons by simp
  ultimately have "trim_left s = s" "trim_right_rev (rev s) = rev s"
    using Cons r by (simp_all add: trim_left_graphic trim_right_rev_graphic)
  then show ?thesis by (simp add: trim_space_def)
qed simp

lemma trim_space_digits: "list_all (in_range 48 57) s \<Longrightarrow> trim_space s = s"
  by (rule trim_space_graphic) (auto simp: list_all_iff in_range_def)

section \<open>Association lists standing for Go maps\<close>

text \<open>
  A Go map whose iteration order matters to nobody but whose size does is an association
  list with distinct keys. \<open>delete\<close> drops a key, \<open>put\<close> stores a value.
\<close>

definition put :: "'k \<Rightarrow> 'v \<Rightarrow> ('k \<times> 'v) list \<Rightarrow> ('k \<times> 'v) list" where
  "put k v m = (k, v) # filter (\<lambda>p. fst p \<noteq> k) m"

definition drop_key :: "'k \<Rightarrow> ('k \<times> 'v) list \<Rightarrow> ('k \<times> 'v) list" where
  "drop_key k m = filter (\<lambda>p. fst p \<noteq> k) m"

lemma map_of_filter_neq:
  "map_of (filter (\<lambda>p. fst p \<noteq> k) m) = (map_of m)(k := None)"
  by (induction m) auto

lemma map_of_put [simp]: "map_of (put k v m) = (map_of m)(k \<mapsto> v)"
  by (auto simp: put_def map_of_filter_neq fun_eq_iff)

lemma map_of_drop_key [simp]: "map_of (drop_key k m) = (map_of m)(k := None)"
  by (simp add: drop_key_def map_of_filter_neq)

lemma distinct_keys_filter: "distinct (map fst m) \<Longrightarrow> distinct (map fst (filter P m))"
  by (induction m) auto

lemma distinct_keys_put [simp]: "distinct (map fst m) \<Longrightarrow> distinct (map fst (put k v m))"
  by (auto simp: put_def distinct_keys_filter)

lemma distinct_keys_drop_key [simp]:
  "distinct (map fst m) \<Longrightarrow> distinct (map fst (drop_key k m))"
  by (simp add: drop_key_def distinct_keys_filter)

lemma length_drop_key_le: "length (drop_key k m) \<le> length m"
  by (simp add: drop_key_def)

lemma length_drop_key_less: "map_of m k \<noteq> None \<Longrightarrow> length (drop_key k m) < length m"
  unfolding drop_key_def
  by (rule length_filter_less [where x = "(k, the (map_of m k))"])
     (auto dest: map_of_SomeD)

lemma drop_key_absent: "map_of m k = None \<Longrightarrow> drop_key k m = m"
  unfolding drop_key_def by (induction m) (auto split: if_splits)

lemma length_put_le: "length (put k v m) \<le> Suc (length m)"
  using length_drop_key_le [of k m] by (simp add: put_def drop_key_def)

lemma length_put_present: "map_of m k \<noteq> None \<Longrightarrow> length (put k v m) \<le> length m"
  using length_drop_key_less [of m k] by (simp add: put_def drop_key_def)

lemma keys_put [simp]: "fst ` set (put k v m) = insert k (fst ` set m)"
  by (auto simp: put_def image_iff)

lemma keys_drop_key: "fst ` set (drop_key k m) \<subseteq> fst ` set m"
  by (auto simp: drop_key_def)

lemma map_of_filter_live:
  "distinct (map fst m) \<Longrightarrow>
     map_of (filter (\<lambda>p. P (snd p)) m) k =
     (case map_of m k of None \<Rightarrow> None | Some v \<Rightarrow> if P v then Some v else None)"
proof (induction m)
  case (Cons p m)
  show ?case
  proof (cases "k = fst p")
    case True
    with Cons.prems have "map_of m k = None" by (simp add: map_of_eq_None_iff)
    with Cons True show ?thesis by simp
  qed (use Cons in simp)
qed simp

lemma length_drop_key_present:
  "distinct (map fst m) \<Longrightarrow> map_of m k \<noteq> None \<Longrightarrow> Suc (length (drop_key k m)) = length m"
proof (induction m)
  case (Cons p m)
  show ?case
  proof (cases "fst p = k")
    case True
    with Cons.prems have "map_of m k = None" by (auto simp: map_of_eq_None_iff)
    with True show ?thesis using drop_key_absent [of m k] by (simp add: drop_key_def)
  next
    case False
    with Cons have "Suc (length (drop_key k m)) = length m" by simp
    with False show ?thesis by (simp add: drop_key_def)
  qed
qed simp

lemma length_put:
  "distinct (map fst m) \<Longrightarrow> length (put k v m) = (if map_of m k = None then Suc (length m) else length m)"
  using length_drop_key_present [of m k] drop_key_absent [of m k]
  by (auto simp: put_def drop_key_def simp del: not_None_eq map_of_eq_Some_iff)

lemma find_append: "find P (xs @ ys) = (case find P xs of None \<Rightarrow> find P ys | Some x \<Rightarrow> Some x)"
  by (induction xs) simp_all

end
