(* ===== verification/GoErrors.thy ===== *)
theory GoErrors
  imports GoPrelude
begin

text \<open>
  \<open>internal/pkg/errors\<close>: the application error with its HTTP code, reason, metadata and
  cause. Go's \<open>error\<close> interface is one datatype: the nil error, a sentinel made by
  \<open>errors.New\<close> (identified by its text), an error wrapped by \<open>fmt.Errorf\<close> with
  \<open>%w\<close>, and an application error whose cause may be nil.
\<close>

record status =
  Code :: int
  Reason :: string
  Message :: string
  Metadata :: "(string \<times> string) list option"

datatype go_error =
    NilErr
  | PlainErr string
  | WrapErr string go_error
  | AppErr status go_error

definition New :: "int \<Rightarrow> string \<Rightarrow> string \<Rightarrow> go_error" where
  "New code reason message =
     AppErr \<lparr>Code = code, Reason = reason, Message = message, Metadata = None\<rparr> NilErr"

definition BadRequest :: "string \<Rightarrow> string \<Rightarrow> go_error" where
  "BadRequest reason message = New 400 reason message"

definition NotFound :: "string \<Rightarrow> string \<Rightarrow> go_error" where
  "NotFound reason message = New 404 reason message"

definition Conflict :: "string \<Rightarrow> string \<Rightarrow> go_error" where
  "Conflict reason message = New 409 reason message"

definition InternalServer :: "string \<Rightarrow> string \<Rightarrow> go_error" where
  "InternalServer reason message = New 500 reason message"

definition ServiceUnavailable :: "string \<Rightarrow> string \<Rightarrow> go_error" where
  "ServiceUnavailable reason message = New 503 reason message"

text \<open>\<open>WithCause\<close> and \<open>WithMetadata\<close> are methods of the application error and copy it.\<close>

fun WithCause :: "go_error \<Rightarrow> go_error \<Rightarrow> go_error" where
  "WithCause (AppErr st _) cause = AppErr st cause"
| "WithCause e _ = e"

fun WithMetadata :: "go_error \<Rightarrow> (string \<times> string) list option \<Rightarrow> go_error" where
  "WithMetadata (AppErr st cause) md = AppErr (st\<lparr>Metadata := md\<rparr>) cause"
| "WithMetadata e _ = e"

text \<open>\<open>errors.As\<close> for the application error: the first one along the chain of causes.\<close>

fun errors_as :: "go_error \<Rightarrow> status option" where
  "errors_as NilErr = None"
| "errors_as (PlainErr _) = None"
| "errors_as (WrapErr _ e) = errors_as e"
| "errors_as (AppErr st _) = Some st"

text \<open>The method \<open>Is\<close> of the application error: same code and same reason.\<close>

definition app_is :: "status \<Rightarrow> go_error \<Rightarrow> bool" where
  "app_is e target =
     (case errors_as target of
        Some se \<Rightarrow> Code se = Code e \<and> Reason se = Reason e
      | None \<Rightarrow> False)"

text \<open>\<open>errors.Is\<close>: identity with a sentinel or the method \<open>Is\<close>, along the chain.\<close>

fun errors_is :: "go_error \<Rightarrow> go_error \<Rightarrow> bool" where
  "errors_is NilErr target = (target = NilErr)"
| "errors_is (PlainErr s) target = (target = PlainErr s)"
| "errors_is (WrapErr _ e) target = errors_is e target"
| "errors_is (AppErr st cause) target =
     (app_is st target \<or> (cause \<noteq> NilErr \<and> errors_is cause target))"

definition FromError :: "go_error \<Rightarrow> status" where
  "FromError e =
     (case errors_as e of
        Some se \<Rightarrow> se
      | None \<Rightarrow> \<lparr>Code = 500, Reason = [], Message = ''internal error'', Metadata = None\<rparr>)"

definition error_code :: "go_error \<Rightarrow> int" where
  "error_code e = (if e = NilErr then 200 else Code (FromError e))"

definition error_reason :: "go_error \<Rightarrow> string" where
  "error_reason e = (if e = NilErr then [] else Reason (FromError e))"

named_theorems error_defs
  \<open>the constructors of application errors\<close>

lemmas error_constructors [error_defs] =
  New_def BadRequest_def NotFound_def Conflict_def InternalServer_def ServiceUnavailable_def

lemma errors_as_New [simp]:
  "errors_as (New c r m) = Some \<lparr>Code = c, Reason = r, Message = m, Metadata = None\<rparr>"
  by (simp add: New_def)

lemma error_reason_New [simp]: "error_reason (New c r m) = r"
  by (simp add: error_reason_def FromError_def) (simp add: New_def)

lemma error_code_New [simp]: "error_code (New c r m) = c"
  by (simp add: error_code_def FromError_def) (simp add: New_def)

lemma errors_is_WithCause [simp]: "errors_is (WithCause (New c r m) e) (New c r m)"
  by (simp add: New_def app_is_def)

lemma errors_is_WithMetadata [simp]: "errors_is (WithMetadata (New c r m) md) (New c r m)"
  by (simp add: New_def app_is_def)

lemma error_code_WithCause [simp]: "error_code (WithCause (New c r m) e) = c"
  by (simp add: error_code_def FromError_def New_def)

section \<open>Database statements with faults\<close>

text \<open>
  A statement sent to the database either runs, or fails before it ran, or runs while its
  reply is lost, so that the caller sees an error although the effect is there. Which of
  the three happens is the next element of a list of faults the environment chooses; an
  empty list means no further faults. The statement itself is a function on the tables.
\<close>

datatype fault = Runs | NeverRan | ReplyLost

type_synonym 's conn = "'s \<times> fault list"

definition conn_error :: go_error where
  "conn_error = PlainErr ''database connection error''"

definition sql_exec :: "('s \<Rightarrow> 'a \<times> 's) \<Rightarrow> 's conn \<Rightarrow> (go_error + 'a) \<times> 's conn" where
  "sql_exec stmt c =
     (case c of (s, fs) \<Rightarrow>
        (case fs of
           [] \<Rightarrow> (Inr (fst (stmt s)), snd (stmt s), [])
         | Runs # fs' \<Rightarrow> (Inr (fst (stmt s)), snd (stmt s), fs')
         | NeverRan # fs' \<Rightarrow> (Inl conn_error, s, fs')
         | ReplyLost # fs' \<Rightarrow> (Inl conn_error, snd (stmt s), fs')))"

lemma sql_exec_Inr:
  "sql_exec stmt c = (Inr a, c') \<Longrightarrow> a = fst (stmt (fst c)) \<and> fst c' = snd (stmt (fst c))"
  by (auto simp: sql_exec_def split: prod.splits list.splits fault.splits)

lemma sql_exec_cases:
  "fst (snd (sql_exec stmt c)) = fst c \<or> fst (snd (sql_exec stmt c)) = snd (stmt (fst c))"
  by (auto simp: sql_exec_def split: prod.splits list.splits fault.splits)

lemma sql_exec_inv:
  assumes "sql_exec stmt c = (r, c')" and "P (fst c)" and "P (fst c) \<Longrightarrow> P (snd (stmt (fst c)))"
  shows "P (fst c')"
  using assms sql_exec_cases [of stmt c] by auto

lemma sql_exec_healthy [simp]:
  "sql_exec stmt (s, []) = (Inr (fst (stmt s)), snd (stmt s), [])"
  by (simp add: sql_exec_def)

end
