(* ===== verification/IdempotencyStore.thy ===== *)
theory IdempotencyStore
  imports GoErrors
begin

text \<open>
  The idempotency records: the Go interface \<open>IdempotencyRepository\<close> of
  \<open>service/idempotency.go\<close> as a record of operations over a state \<open>'s\<close>, the contract its
  clients rely on as the locale \<open>idempotency_repository\<close>, and the SQL statements of
  \<open>repository/idempotency_repo.go\<close> over the table \<open>idempotency_records\<close>, which the
  contract is interpreted on.
\<close>

section \<open>Records, configuration and the repository interface\<close>

definition IdempotencyStatusProcessing :: string where
  "IdempotencyStatusProcessing = ''processing''"

definition IdempotencyStatusSucceeded :: string where
  "IdempotencyStatusSucceeded = ''succeeded''"

definition IdempotencyStatusFailedRetryable :: string where
  "IdempotencyStatusFailedRetryable = ''failed_retryable''"

lemmas idempotency_status_defs =
  IdempotencyStatusProcessing_def IdempotencyStatusSucceeded_def
  IdempotencyStatusFailedRetryable_def

lemma idempotency_status_distinct [simp]:
  "IdempotencyStatusProcessing \<noteq> IdempotencyStatusSucceeded"
  "IdempotencyStatusSucceeded \<noteq> IdempotencyStatusProcessing"
  "IdempotencyStatusProcessing \<noteq> IdempotencyStatusFailedRetryable"
  "IdempotencyStatusFailedRetryable \<noteq> IdempotencyStatusProcessing"
  "IdempotencyStatusSucceeded \<noteq> IdempotencyStatusFailedRetryable"
  "IdempotencyStatusFailedRetryable \<noteq> IdempotencyStatusSucceeded"
  by (simp_all add: idempotency_status_defs)

record IdempotencyRecord =
  ID :: int
  Scope :: string
  IdempotencyKeyHash :: string
  RequestFingerprint :: string
  Status :: string
  ResponseStatus :: "int option"
  ResponseBody :: "string option"
  ErrorReason :: "string option"
  LockedUntil :: "time option"
  ExpiresAt :: time
  CreatedAt :: time
  UpdatedAt :: time

record 's IdempotencyRepository =
  CreateProcessing ::
    "IdempotencyRecord \<Rightarrow> 's \<Rightarrow> (go_error + bool \<times> IdempotencyRecord) \<times> 's"
  GetByScopeAndKeyHash ::
    "string \<Rightarrow> string \<Rightarrow> 's \<Rightarrow> (go_error + IdempotencyRecord option) \<times> 's"
  TryReclaim ::
    "int \<Rightarrow> string \<Rightarrow> time \<Rightarrow> time \<Rightarrow> time \<Rightarrow> 's \<Rightarrow> (go_error + bool) \<times> 's"
  ExtendProcessingLock ::
    "int \<Rightarrow> string \<Rightarrow> time \<Rightarrow> time \<Rightarrow> 's \<Rightarrow> (go_error + bool) \<times> 's"
  MarkSucceeded ::
    "int \<Rightarrow> int \<Rightarrow> string \<Rightarrow> time \<Rightarrow> 's \<Rightarrow> (go_error + unit) \<times> 's"
  MarkFailedRetryable ::
    "int \<Rightarrow> string \<Rightarrow> time \<Rightarrow> time \<Rightarrow> 's \<Rightarrow> (go_error + unit) \<times> 's"
  DeleteExpired ::
    "time \<Rightarrow> int \<Rightarrow> 's \<Rightarrow> (go_error + int) \<times> 's"

section \<open>The table and the statements of the SQL repository\<close>

text \<open>
  The table holds its rows in insertion order, the next value of the \<open>id\<close> sequence and the
  database clock \<open>NOW()\<close>. The sequence advances even when \<open>ON CONFLICT DO NOTHING\<close>
  discards the row.
\<close>

record idempotency_table =
  rows :: "IdempotencyRecord list"
  next_id :: int
  db_now :: time

definition key_of :: "IdempotencyRecord \<Rightarrow> string \<times> string" where
  "key_of r = (Scope r, IdempotencyKeyHash r)"

definition row_by_key :: "idempotency_table \<Rightarrow> string \<times> string \<Rightarrow> IdempotencyRecord option" where
  "row_by_key t k = find (\<lambda>r. key_of r = k) (rows t)"

text \<open>\<open>UPDATE ... WHERE id = $1 AND ...\<close> returns the number of rows it touched.\<close>

definition update_where ::
  "(IdempotencyRecord \<Rightarrow> bool) \<Rightarrow> (IdempotencyRecord \<Rightarrow> IdempotencyRecord) \<Rightarrow>
   idempotency_table \<Rightarrow> nat \<times> idempotency_table" where
  "update_where p f t =
     (length (filter p (rows t)), t\<lparr>rows := map (\<lambda>r. if p r then f r else r) (rows t)\<rparr>)"

definition insert_row ::
  "IdempotencyRecord \<Rightarrow> idempotency_table \<Rightarrow> (bool \<times> IdempotencyRecord) \<times> idempotency_table" where
  "insert_row r t =
     (case row_by_key t (key_of r) of
        Some _ \<Rightarrow> ((False, r), t\<lparr>next_id := next_id t + 1\<rparr>)
      | None \<Rightarrow>
          (let r' = r\<lparr>ID := next_id t, CreatedAt := db_now t, UpdatedAt := db_now t\<rparr>;
               stored = r'\<lparr>ResponseStatus := None, ResponseBody := None, ErrorReason := None\<rparr>
           in ((True, r'), t\<lparr>rows := rows t @ [stored], next_id := next_id t + 1\<rparr>)))"

definition sql_CreateProcessing ::
  "IdempotencyRecord \<Rightarrow> idempotency_table conn \<Rightarrow>
   (go_error + bool \<times> IdempotencyRecord) \<times> idempotency_table conn" where
  "sql_CreateProcessing r c = sql_exec (insert_row r) c"

definition sql_GetByScopeAndKeyHash ::
  "string \<Rightarrow> string \<Rightarrow> idempotency_table conn \<Rightarrow>
   (go_error + IdempotencyRecord option) \<times> idempotency_table conn" where
  "sql_GetByScopeAndKeyHash scope h c = sql_exec (\<lambda>t. (row_by_key t (scope, h), t)) c"

definition reclaimable :: "int \<Rightarrow> string \<Rightarrow> time \<Rightarrow> IdempotencyRecord \<Rightarrow> bool" where
  "reclaimable i fromStatus now r \<longleftrightarrow>
     ID r = i \<and> Status r = fromStatus \<and>
     (case LockedUntil r of None \<Rightarrow> True | Some u \<Rightarrow> u \<le> now)"

definition reclaim_row :: "time \<Rightarrow> time \<Rightarrow> time \<Rightarrow> IdempotencyRecord \<Rightarrow> IdempotencyRecord" where
  "reclaim_row at newLockedUntil newExpiresAt r =
     r\<lparr>Status := IdempotencyStatusProcessing, LockedUntil := Some newLockedUntil,
       ErrorReason := None, UpdatedAt := at, ExpiresAt := newExpiresAt\<rparr>"

definition sql_TryReclaim ::
  "int \<Rightarrow> string \<Rightarrow> time \<Rightarrow> time \<Rightarrow> time \<Rightarrow> idempotency_table conn \<Rightarrow>
   (go_error + bool) \<times> idempotency_table conn" where
  "sql_TryReclaim i fromStatus now newLockedUntil newExpiresAt c =
     sql_exec (\<lambda>t. map_prod (\<lambda>n. 0 < n) id
       (update_where (reclaimable i fromStatus now)
          (reclaim_row (db_now t) newLockedUntil newExpiresAt) t)) c"

definition extendable :: "int \<Rightarrow> string \<Rightarrow> IdempotencyRecord \<Rightarrow> bool" where
  "extendable i fingerprint r \<longleftrightarrow>
     ID r = i \<and> Status r = IdempotencyStatusProcessing \<and> RequestFingerprint r = fingerprint"

definition extend_row :: "time \<Rightarrow> time \<Rightarrow> time \<Rightarrow> IdempotencyRecord \<Rightarrow> IdempotencyRecord" where
  "extend_row at newLockedUntil newExpiresAt r =
     r\<lparr>LockedUntil := Some newLockedUntil, ExpiresAt := newExpiresAt, UpdatedAt := at\<rparr>"

definition sql_ExtendProcessingLock ::
  "int \<Rightarrow> string \<Rightarrow> time \<Rightarrow> time \<Rightarrow> idempotency_table conn \<Rightarrow>
   (go_error + bool) \<times> idempotency_table conn" where
  "sql_ExtendProcessingLock i fingerprint newLockedUntil newExpiresAt c =
     sql_exec (\<lambda>t. map_prod (\<lambda>n. 0 < n) id
       (update_where (extendable i fingerprint)
          (extend_row (db_now t) newLockedUntil newExpiresAt) t)) c"

definition succeed_row :: "time \<Rightarrow> int \<Rightarrow> string \<Rightarrow> time \<Rightarrow> IdempotencyRecord \<Rightarrow> IdempotencyRecord" where
  "succeed_row at responseStatus responseBody expiresAt r =
     r\<lparr>Status := IdempotencyStatusSucceeded, ResponseStatus := Some responseStatus,
       ResponseBody := Some responseBody, ErrorReason := None, LockedUntil := None,
       ExpiresAt := expiresAt, UpdatedAt := at\<rparr>"

definition sql_MarkSucceeded ::
  "int \<Rightarrow> int \<Rightarrow> string \<Rightarrow> time \<Rightarrow> idempotency_table conn \<Rightarrow>
   (go_error + unit) \<times> idempotency_table conn" where
  "sql_MarkSucceeded i responseStatus responseBody expiresAt c =
     sql_exec (\<lambda>t. ((), snd (update_where (\<lambda>r. ID r = i)
       (succeed_row (db_now t) responseStatus responseBody expiresAt) t))) c"

definition fail_row :: "time \<Rightarrow> string \<Rightarrow> time \<Rightarrow> time \<Rightarrow> IdempotencyRecord \<Rightarrow> IdempotencyRecord" where
  "fail_row at errorReason lockedUntil expiresAt r =
     r\<lparr>Status := IdempotencyStatusFailedRetryable, ErrorReason := Some errorReason,
       LockedUntil := Some lockedUntil, ExpiresAt := expiresAt, UpdatedAt := at\<rparr>"

definition sql_MarkFailedRetryable ::
  "int \<Rightarrow> string \<Rightarrow> time \<Rightarrow> time \<Rightarrow> idempotency_table conn \<Rightarrow>
   (go_error + unit) \<times> idempotency_table conn" where
  "sql_MarkFailedRetryable i errorReason lockedUntil expiresAt c =
     sql_exec (\<lambda>t. ((), snd (update_where (\<lambda>r. ID r = i)
       (fail_row (db_now t) errorReason lockedUntil expiresAt) t))) c"

definition delete_expired :: "time \<Rightarrow> int \<Rightarrow> idempotency_table \<Rightarrow> int \<times> idempotency_table" where
  "delete_expired now limit t =
     (let victims = take (nat limit) (sort_key ExpiresAt (filter (\<lambda>r. ExpiresAt r \<le> now) (rows t)));
          ids = map ID victims
      in (int (length (filter (\<lambda>r. ID r \<in> set ids) (rows t))),
          t\<lparr>rows := filter (\<lambda>r. ID r \<notin> set ids) (rows t)\<rparr>))"

definition sql_DeleteExpired ::
  "time \<Rightarrow> int \<Rightarrow> idempotency_table conn \<Rightarrow> (go_error + int) \<times> idempotency_table conn" where
  "sql_DeleteExpired now limit c =
     (let l = (if limit \<le> 0 then 500 else limit) in sql_exec (delete_expired now l) c)"

definition sql_idempotency_repository :: "idempotency_table conn IdempotencyRepository" where
  "sql_idempotency_repository =
     \<lparr>CreateProcessing = sql_CreateProcessing,
      GetByScopeAndKeyHash = sql_GetByScopeAndKeyHash,
      TryReclaim = sql_TryReclaim,
      ExtendProcessingLock = sql_ExtendProcessingLock,
      MarkSucceeded = sql_MarkSucceeded,
      MarkFailedRetryable = sql_MarkFailedRetryable,
      DeleteExpired = sql_DeleteExpired\<rparr>"

lemmas sql_repository_simps [simp] =
  sql_idempotency_repository_def


section \<open>Well-formed tables\<close>

text \<open>
  The primary key, the unique index on (scope, key hash) and the sequence: identifiers are
  positive, below the next sequence value and distinct, and so are the keys.
\<close>

definition table_ok :: "idempotency_table \<Rightarrow> bool" where
  "table_ok t \<longleftrightarrow>
     distinct (map ID (rows t)) \<and> distinct (map key_of (rows t)) \<and> 0 < next_id t \<and>
     (\<forall>r \<in> set (rows t). 0 < ID r \<and> ID r < next_id t)"

lemma find_key_map_of: "find (\<lambda>r. key_of r = k) rs = map_of (map (\<lambda>r. (key_of r, r)) rs) k"
  by (induction rs) auto

lemma row_by_key_Some: "row_by_key t k = Some r \<Longrightarrow> r \<in> set (rows t) \<and> key_of r = k"
  by (auto simp: row_by_key_def find_Some_iff)

lemma row_by_key_mem:
  "table_ok t \<Longrightarrow> r \<in> set (rows t) \<Longrightarrow> row_by_key t (key_of r) = Some r"
  by (auto simp: row_by_key_def find_key_map_of table_ok_def comp_def intro!: map_of_is_SomeI)

lemma row_by_key_None: "row_by_key t k = None \<longleftrightarrow> k \<notin> key_of ` set (rows t)"
  by (auto simp: row_by_key_def find_None_iff)

lemma row_by_key_update:
  assumes "\<And>r. key_of (f r) = key_of r"
  shows "row_by_key (snd (update_where p f t)) k =
         map_option (\<lambda>r. if p r then f r else r) (row_by_key t k)"
proof -
  have "find (\<lambda>r. key_of r = k) (map (\<lambda>r. if p r then f r else r) rs) =
        map_option (\<lambda>r. if p r then f r else r) (find (\<lambda>r. key_of r = k) rs)" for rs
    by (induction rs) (auto simp: assms)
  then show ?thesis by (simp add: row_by_key_def update_where_def)
qed

lemma table_ok_update:
  assumes "table_ok t" and key: "\<And>r. key_of (f r) = key_of r" and id: "\<And>r. ID (f r) = ID r"
  shows "table_ok (snd (update_where p f t))"
proof -
  have "map ID (map (\<lambda>r. if p r then f r else r) rs) = map ID rs"
    and "map key_of (map (\<lambda>r. if p r then f r else r) rs) = map key_of rs" for rs
    by (induction rs) (auto simp: key id)
  with assms show ?thesis
    by (auto simp: table_ok_def update_where_def id simp del: map_map)
qed

text \<open>
  An update addressed by a primary key changes at most the one row with that key; it
  touches no row exactly when none satisfies its condition.
\<close>

lemma update_hit:
  assumes ok: "table_ok t" and p: "\<And>r. p r \<Longrightarrow> ID r = i" and key: "\<And>r. key_of (f r) = key_of r"
    and r: "row_by_key t k = Some r" "p r"
  shows "row_by_key (snd (update_where p f t)) = (row_by_key t)(k \<mapsto> f r)"
proof
  fix k'
  show "row_by_key (snd (update_where p f t)) k' = ((row_by_key t)(k \<mapsto> f r)) k'"
  proof (cases "row_by_key t k'")
    case None
    with r show ?thesis by (auto simp: row_by_key_update [where f = f, OF key])
  next
    case (Some r')
    have "r' = r" if "p r'"
    proof -
      have "r \<in> set (rows t)" "r' \<in> set (rows t)" "ID r = ID r'"
        using r Some p that by (auto dest: row_by_key_Some)
      with ok show ?thesis by (auto simp: table_ok_def distinct_map inj_on_def)
    qed
    moreover have "k' = k" if "r' = r"
      using that Some r by (auto dest!: row_by_key_Some)
    ultimately show ?thesis
      using r Some by (auto simp: row_by_key_update [where f = f, OF key])
  qed
qed

lemma update_miss:
  assumes "\<And>r. r \<in> set (rows t) \<Longrightarrow> \<not> p r"
  shows "snd (update_where p f t) = t"
  using assms by (simp add: update_where_def map_idI)

lemma update_count:
  assumes ok: "table_ok t"
  shows "0 < fst (update_where p f t) \<longleftrightarrow> (\<exists>k r. row_by_key t k = Some r \<and> p r)"
proof
  assume "0 < fst (update_where p f t)"
  then obtain r where "r \<in> set (rows t)" "p r"
    by (auto simp: update_where_def filter_empty_conv)
  then show "\<exists>k r. row_by_key t k = Some r \<and> p r"
    using row_by_key_mem [OF ok] by blast
next
  assume "\<exists>k r. row_by_key t k = Some r \<and> p r"
  then show "0 < fst (update_where p f t)"
    by (auto simp: update_where_def filter_empty_conv dest!: row_by_key_Some)
qed

lemma update_cases:
  assumes ok: "table_ok t" and p: "\<forall>r. p r \<longrightarrow> ID r = i" and key: "\<And>r. key_of (f r) = key_of r"
  shows "(snd (update_where p f t) = t \<and> fst (update_where p f t) = 0 \<and>
            (\<forall>k r. row_by_key t k = Some r \<longrightarrow> \<not> p r)) \<or>
         (\<exists>k r. row_by_key t k = Some r \<and> p r \<and> 0 < fst (update_where p f t) \<and>
            row_by_key (snd (update_where p f t)) = (row_by_key t)(k \<mapsto> f r))"
proof (cases "\<exists>r \<in> set (rows t). p r")
  case True
  then obtain r where "r \<in> set (rows t)" "p r" by blast
  then have hit: "row_by_key t (key_of r) = Some r" using row_by_key_mem [OF ok] by simp
  have "row_by_key (snd (update_where p f t)) = (row_by_key t)(key_of r \<mapsto> f r)"
    by (rule update_hit [where p = p and f = f and i = i]) (use ok p key hit \<open>p r\<close> in auto)
  moreover have "0 < fst (update_where p f t)"
    using update_count [OF ok] hit \<open>p r\<close> by blast
  ultimately show ?thesis using hit \<open>p r\<close> by blast
next
  case False
  then have "snd (update_where p f t) = t" by (auto intro: update_miss)
  moreover have "\<forall>k r. row_by_key t k = Some r \<longrightarrow> \<not> p r"
    using False by (auto dest: row_by_key_Some)
  moreover have "fst (update_where p f t) = 0"
    using False by (auto simp: update_where_def filter_empty_conv)
  ultimately show ?thesis by blast
qed

lemma insert_row_ok: "table_ok t \<Longrightarrow> table_ok (snd (insert_row r t))"
  by (auto simp: insert_row_def table_ok_def Let_def row_by_key_None key_of_def
      split: option.split)

lemma insert_row_taken:
  "row_by_key t (key_of r) = Some x \<Longrightarrow>
     fst (insert_row r t) = (False, r) \<and> row_by_key (snd (insert_row r t)) = row_by_key t"
  by (auto simp: insert_row_def row_by_key_def)

lemma insert_row_owner:
  assumes "row_by_key t (key_of r) = None"
  shows "fst (insert_row r t) = (True, r\<lparr>ID := next_id t, CreatedAt := db_now t, UpdatedAt := db_now t\<rparr>)"
    and "row_by_key (snd (insert_row r t)) =
           (row_by_key t)(key_of r \<mapsto> r\<lparr>ID := next_id t, CreatedAt := db_now t, UpdatedAt := db_now t,
              ResponseStatus := None, ResponseBody := None, ErrorReason := None\<rparr>)"
proof -
  show "fst (insert_row r t) = (True, r\<lparr>ID := next_id t, CreatedAt := db_now t, UpdatedAt := db_now t\<rparr>)"
    using assms by (simp add: insert_row_def Let_def)
  have find_append: "find P (xs @ [x]) = (case find P xs of None \<Rightarrow> if P x then Some x else None | Some y \<Rightarrow> Some y)"
    for P :: "IdempotencyRecord \<Rightarrow> bool" and xs x
    by (induction xs) auto
  show "row_by_key (snd (insert_row r t)) =
           (row_by_key t)(key_of r \<mapsto> r\<lparr>ID := next_id t, CreatedAt := db_now t, UpdatedAt := db_now t,
              ResponseStatus := None, ResponseBody := None, ErrorReason := None\<rparr>)"
    using assms
    by (auto simp: insert_row_def Let_def row_by_key_def fun_eq_iff find_append key_of_def
        split: option.split)
qed

lemma delete_expired_row:
  assumes ok: "table_ok t"
  shows "row_by_key (snd (delete_expired now limit t)) k = row_by_key t k \<or>
         row_by_key (snd (delete_expired now limit t)) k = None \<and>
           (\<exists>r. row_by_key t k = Some r \<and> ExpiresAt r \<le> now)"
proof -
  define victims where
    "victims = take (nat limit) (sort_key ExpiresAt (filter (\<lambda>r. ExpiresAt r \<le> now) (rows t)))"
  have vic: "r \<in> set (rows t) \<and> ExpiresAt r \<le> now" if "r \<in> set victims" for r
    using that set_take_subset [of "nat limit" "sort_key ExpiresAt (filter (\<lambda>r. ExpiresAt r \<le> now) (rows t))"]
    by (auto simp: victims_def)
  let ?keep = "\<lambda>r. ID r \<notin> ID ` set victims"
  have rows': "rows (snd (delete_expired now limit t)) = filter ?keep (rows t)"
    by (simp add: delete_expired_def victims_def Let_def)
  show ?thesis
  proof (cases "row_by_key t k")
    case None
    then have "row_by_key (snd (delete_expired now limit t)) k = None"
      using rows' by (auto simp: row_by_key_None)
    with None show ?thesis by simp
  next
    case (Some r)
    then have r: "r \<in> set (rows t)" "key_of r = k" by (auto dest: row_by_key_Some)
    show ?thesis
    proof (cases "?keep r")
      case True
      have "table_ok (snd (delete_expired now limit t))"
        using ok rows' by (auto simp: table_ok_def distinct_map_filter delete_expired_def Let_def)
      moreover have "r \<in> set (rows (snd (delete_expired now limit t)))"
        using True r rows' by simp
      ultimately show ?thesis using r Some row_by_key_mem by metis
    next
      case False
      then obtain v where v: "v \<in> set victims" "ID v = ID r" by auto
      then have "v = r"
        using vic [OF v(1)] r ok by (auto simp: table_ok_def distinct_map inj_on_def)
      then have "ExpiresAt r \<le> now" using vic [OF v(1)] by simp
      moreover have "k \<notin> key_of ` set (filter ?keep (rows t))"
      proof
        assume "k \<in> key_of ` set (filter ?keep (rows t))"
        then obtain r' where "r' \<in> set (rows t)" "key_of r' = k" "?keep r'" by auto
        then have "r' = r" using ok r by (auto simp: table_ok_def distinct_map inj_on_def)
        with False \<open>?keep r'\<close> show False by simp
      qed
      ultimately show ?thesis using Some rows' by (simp add: row_by_key_None)
    qed
  qed
qed

lemma delete_expired_ok: "table_ok t \<Longrightarrow> table_ok (snd (delete_expired now limit t))"
  by (auto simp: table_ok_def delete_expired_def Let_def distinct_map_filter)

section \<open>The contract of the repository\<close>

text \<open>
  What a client may rely on. \<open>view\<close> reads the stored record of a key and \<open>good\<close> is the
  repository's own invariant. Every operation may fail, and a failed operation may have
  had its effect: so each law says what the effect can be, and a second one what an
  acknowledged result means.
\<close>

locale idempotency_repository =
  fixes repo :: "'s IdempotencyRepository"
    and view :: "'s \<Rightarrow> string \<times> string \<Rightarrow> IdempotencyRecord option"
    and good :: "'s \<Rightarrow> bool"
  assumes view_key: "view s k = Some r \<Longrightarrow> key_of r = k"
    and view_id: "good s \<Longrightarrow> view s k = Some r \<Longrightarrow> view s k' = Some r' \<Longrightarrow> ID r = ID r' \<Longrightarrow> k = k'"
    and view_id_pos: "good s \<Longrightarrow> view s k = Some r \<Longrightarrow> 0 < ID r"
    and create_good: "good s \<Longrightarrow> CreateProcessing repo r s = (resc, s') \<Longrightarrow> good s'"
    and create_effect:
      "good s \<Longrightarrow> CreateProcessing repo r s = (resc, s') \<Longrightarrow>
         view s' = view s \<or>
         view s (key_of r) = None \<and> (\<exists>stored. view s' = (view s)(key_of r \<mapsto> stored) \<and>
           Status stored = Status r \<and> RequestFingerprint stored = RequestFingerprint r \<and>
           LockedUntil stored = LockedUntil r \<and> ExpiresAt stored = ExpiresAt r)"
    and create_owner:
      "good s \<Longrightarrow> CreateProcessing repo r s = (Inr (True, r'), s') \<Longrightarrow>
         view s (key_of r) = None \<and> (\<exists>stored. view s' = (view s)(key_of r \<mapsto> stored) \<and>
           ID stored = ID r' \<and>
           Status stored = Status r \<and> RequestFingerprint stored = RequestFingerprint r \<and>
           LockedUntil stored = LockedUntil r \<and> ExpiresAt stored = ExpiresAt r)"
    and create_taken:
      "good s \<Longrightarrow> CreateProcessing repo r s = (Inr (False, r'), s') \<Longrightarrow>
         view s (key_of r) \<noteq> None \<and> view s' = view s \<and> r' = r"
    and get_good: "good s \<Longrightarrow> GetByScopeAndKeyHash repo sc h s = (resg, s') \<Longrightarrow> good s'"
    and get_effect: "GetByScopeAndKeyHash repo sc h s = (resg, s') \<Longrightarrow> view s' = view s"
    and get_result: "GetByScopeAndKeyHash repo sc h s = (Inr x, s') \<Longrightarrow> x = view s (sc, h)"
    and reclaim_good: "good s \<Longrightarrow> TryReclaim repo i from now lu ex s = (resr, s') \<Longrightarrow> good s'"
    and reclaim_effect:
      "good s \<Longrightarrow> TryReclaim repo i from now lu ex s = (resr, s') \<Longrightarrow>
         view s' = view s \<or>
         (\<exists>k r at. view s k = Some r \<and> reclaimable i from now r \<and>
            view s' = (view s)(k \<mapsto> reclaim_row at lu ex r))"
    and reclaim_won:
      "good s \<Longrightarrow> TryReclaim repo i from now lu ex s = (Inr True, s') \<Longrightarrow>
         \<exists>k r at. view s k = Some r \<and> reclaimable i from now r \<and>
            view s' = (view s)(k \<mapsto> reclaim_row at lu ex r)"
    and reclaim_lost:
      "good s \<Longrightarrow> TryReclaim repo i from now lu ex s = (Inr False, s') \<Longrightarrow>
         view s' = view s \<and> (\<forall>k r. view s k = Some r \<longrightarrow> \<not> reclaimable i from now r)"
    and extend_good: "good s \<Longrightarrow> ExtendProcessingLock repo i fp lu ex s = (rese, s') \<Longrightarrow> good s'"
    and extend_effect:
      "good s \<Longrightarrow> ExtendProcessingLock repo i fp lu ex s = (rese, s') \<Longrightarrow>
         view s' = view s \<or>
         (\<exists>k r at. view s k = Some r \<and> extendable i fp r \<and>
            view s' = (view s)(k \<mapsto> extend_row at lu ex r))"
    and extend_lost:
      "good s \<Longrightarrow> ExtendProcessingLock repo i fp lu ex s = (Inr False, s') \<Longrightarrow> view s' = view s"
    and extend_lost_iff:
      "good s \<Longrightarrow> ExtendProcessingLock repo i fp lu ex s = (Inr b, s') \<Longrightarrow>
         b \<longleftrightarrow> (\<exists>k r. view s k = Some r \<and> extendable i fp r)"
    and succeed_good: "good s \<Longrightarrow> MarkSucceeded repo i st body ex s = (resm, s') \<Longrightarrow> good s'"
    and succeed_effect:
      "good s \<Longrightarrow> MarkSucceeded repo i st body ex s = (resm, s') \<Longrightarrow>
         view s' = view s \<or>
         (\<exists>k r at. view s k = Some r \<and> ID r = i \<and> view s' = (view s)(k \<mapsto> succeed_row at st body ex r))"
    and succeed_done:
      "good s \<Longrightarrow> MarkSucceeded repo i st body ex s = (Inr u, s') \<Longrightarrow> view s k = Some r \<Longrightarrow>
         ID r = i \<Longrightarrow> \<exists>at. view s' = (view s)(k \<mapsto> succeed_row at st body ex r)"
    and fail_good: "good s \<Longrightarrow> MarkFailedRetryable repo i why lu ex s = (resf, s') \<Longrightarrow> good s'"
    and fail_effect:
      "good s \<Longrightarrow> MarkFailedRetryable repo i why lu ex s = (resf, s') \<Longrightarrow>
         view s' = view s \<or>
         (\<exists>k r at. view s k = Some r \<and> ID r = i \<and> view s' = (view s)(k \<mapsto> fail_row at why lu ex r))"
    and fail_done:
      "good s \<Longrightarrow> MarkFailedRetryable repo i why lu ex s = (Inr u, s') \<Longrightarrow> view s k = Some r \<Longrightarrow>
         ID r = i \<Longrightarrow> \<exists>at. view s' = (view s)(k \<mapsto> fail_row at why lu ex r)"
    and delete_good: "good s \<Longrightarrow> DeleteExpired repo now limit s = (resd, s') \<Longrightarrow> good s'"
    and delete_effect:
      "good s \<Longrightarrow> DeleteExpired repo now limit s = (resd, s') \<Longrightarrow>
         view s' k = view s k \<or> view s' k = None \<and> (\<exists>r. view s k = Some r \<and> ExpiresAt r \<le> now)"

section \<open>The SQL repository keeps the contract\<close>

definition sql_view :: "idempotency_table conn \<Rightarrow> string \<times> string \<Rightarrow> IdempotencyRecord option" where
  "sql_view c = row_by_key (fst c)"

definition sql_good :: "idempotency_table conn \<Rightarrow> bool" where
  "sql_good c \<longleftrightarrow> table_ok (fst c)"

text \<open>
  One statement that updates rows by primary key: what it does to the rows (\<open>eff\<close>), and
  what an acknowledged row count says (\<open>won\<close>, \<open>lost\<close>).
\<close>

lemma sql_update_effect:
  assumes "table_ok (fst c)" "\<forall>r. p r \<longrightarrow> ID r = i" "\<And>at r. key_of (f at r) = key_of r"
    and ex: "sql_exec (\<lambda>t. (g (fst (update_where p (f (db_now t)) t)),
                snd (update_where p (f (db_now t)) t))) c = (res, c')"
  shows "sql_view c' = sql_view c \<or>
         (\<exists>k r at. sql_view c k = Some r \<and> p r \<and> sql_view c' = (sql_view c)(k \<mapsto> f at r))"
proof -
  from ex consider "fst c' = fst c"
    | "fst c' = snd (update_where p (f (db_now (fst c))) (fst c))"
    using sql_exec_cases [of "\<lambda>t. (g (fst (update_where p (f (db_now t)) t)),
                snd (update_where p (f (db_now t)) t))" c] by auto
  then show ?thesis
    using update_cases [of "fst c" p i "f (db_now (fst c))", OF assms(1-3)]
    by (cases; auto simp: sql_view_def)
qed

lemma sql_update_acked:
  assumes "table_ok (fst c)" "\<forall>r. p r \<longrightarrow> ID r = i" "\<And>at r. key_of (f at r) = key_of r"
    and ex: "sql_exec (\<lambda>t. (g (fst (update_where p (f (db_now t)) t)),
                snd (update_where p (f (db_now t)) t))) c = (Inr a, c')"
  shows "(a = g 0 \<and> sql_view c' = sql_view c \<and> (\<forall>k r. sql_view c k = Some r \<longrightarrow> \<not> p r)) \<or>
         (\<exists>n k r at. 0 < n \<and> a = g n \<and> sql_view c k = Some r \<and> p r \<and>
            sql_view c' = (sql_view c)(k \<mapsto> f at r))"
proof -
  let ?u = "update_where p (f (db_now (fst c))) (fst c)"
  from ex have a: "a = g (fst ?u)" and c': "sql_view c' = row_by_key (snd ?u)"
    by (auto dest!: sql_exec_Inr simp: sql_view_def)
  from update_cases [of "fst c" p i "f (db_now (fst c))", OF assms(1-3)] show ?thesis
  proof (elim disjE exE conjE)
    fix k r
    assume "row_by_key (fst c) k = Some r" "p r" "0 < fst ?u"
      "row_by_key (snd ?u) = (row_by_key (fst c))(k \<mapsto> f (db_now (fst c)) r)"
    then have "0 < fst ?u \<and> a = g (fst ?u) \<and> sql_view c k = Some r \<and> p r \<and>
        sql_view c' = (sql_view c)(k \<mapsto> f (db_now (fst c)) r)"
      using a c' by (simp add: sql_view_def)
    then show ?thesis by (intro disjI2 exI)
  next
    assume "snd ?u = fst c" "fst ?u = 0" "\<forall>k r. row_by_key (fst c) k = Some r \<longrightarrow> \<not> p r"
    then have "a = g 0 \<and> sql_view c' = sql_view c \<and> (\<forall>k r. sql_view c k = Some r \<longrightarrow> \<not> p r)"
      using a c' by (simp add: sql_view_def)
    then show ?thesis ..
  qed
qed

lemma sql_update_good:
  assumes "table_ok (fst c)" "\<And>at r. key_of (f at r) = key_of r" "\<And>at r. ID (f at r) = ID r"
    and ex: "sql_exec (\<lambda>t. (g (fst (update_where p (f (db_now t)) t)),
                snd (update_where p (f (db_now t)) t))) c = (res, c')"
  shows "table_ok (fst c')"
  using ex by (rule sql_exec_inv) (simp_all add: assms table_ok_update)

lemma map_prod_id_pair: "map_prod f id p = (f (fst p), snd p)"
  by (cases p) simp

lemmas sql_updates =
  sql_TryReclaim_def sql_ExtendProcessingLock_def sql_MarkSucceeded_def
  sql_MarkFailedRetryable_def map_prod_id_pair

lemma row_transformers_keep [simp]:
  "key_of (reclaim_row at lu ex r) = key_of r" "ID (reclaim_row at lu ex r) = ID r"
  "key_of (succeed_row at st body ex r) = key_of r" "ID (succeed_row at st body ex r) = ID r"
  "key_of (fail_row at why lu ex r) = key_of r" "ID (fail_row at why lu ex r) = ID r"
  by (simp_all add: reclaim_row_def succeed_row_def fail_row_def key_of_def)

lemma sql_reclaim_form:
  "sql_TryReclaim i from now lu ex c =
     sql_exec (\<lambda>t. ((\<lambda>n. 0 < n) (fst (update_where (reclaimable i from now) ((\<lambda>at. reclaim_row at lu ex) (db_now t)) t)),
       snd (update_where (reclaimable i from now) ((\<lambda>at. reclaim_row at lu ex) (db_now t)) t))) c"
  by (simp add: sql_updates)

lemma extend_row_keep [simp]:
  "key_of (extend_row at lu ex r) = key_of r" "ID (extend_row at lu ex r) = ID r"
  by (simp_all add: extend_row_def key_of_def)

lemma sql_extend_form:
  "sql_ExtendProcessingLock i fp lu ex c =
     sql_exec (\<lambda>t. ((\<lambda>n. 0 < n) (fst (update_where (extendable i fp) ((\<lambda>at. extend_row at lu ex) (db_now t)) t)),
       snd (update_where (extendable i fp) ((\<lambda>at. extend_row at lu ex) (db_now t)) t))) c"
  by (simp add: sql_updates)

lemma sql_succeed_form:
  "sql_MarkSucceeded i st body ex c =
     sql_exec (\<lambda>t. ((\<lambda>n. ()) (fst (update_where (\<lambda>r. ID r = i) ((\<lambda>at. succeed_row at st body ex) (db_now t)) t)),
       snd (update_where (\<lambda>r. ID r = i) ((\<lambda>at. succeed_row at st body ex) (db_now t)) t))) c"
  by (simp add: sql_updates)

lemma sql_fail_form:
  "sql_MarkFailedRetryable i why lu ex c =
     sql_exec (\<lambda>t. ((\<lambda>n. ()) (fst (update_where (\<lambda>r. ID r = i) ((\<lambda>at. fail_row at why lu ex) (db_now t)) t)),
       snd (update_where (\<lambda>r. ID r = i) ((\<lambda>at. fail_row at why lu ex) (db_now t)) t))) c"
  by (simp add: sql_updates)

interpretation sql_repo: idempotency_repository sql_idempotency_repository sql_view sql_good
proof
  fix c k r
  assume "sql_view c k = Some r"
  then show "key_of r = k" by (auto simp: sql_view_def dest: row_by_key_Some)
next
  fix c k r k' r'
  assume good: "sql_good c" and v: "sql_view c k = Some r" "sql_view c k' = Some r'" and id: "ID r = ID r'"
  then have "r \<in> set (rows (fst c))" "r' \<in> set (rows (fst c))" "key_of r = k" "key_of r' = k'"
    by (auto simp: sql_view_def dest: row_by_key_Some)
  with good id show "k = k'" by (auto simp: sql_good_def table_ok_def distinct_map inj_on_def)
next
  fix c k r
  assume "sql_good c" "sql_view c k = Some r"
  then show "0 < ID r" by (auto simp: sql_good_def sql_view_def table_ok_def dest: row_by_key_Some)
next
  fix c r resc c'
  assume "sql_good c" "CreateProcessing sql_idempotency_repository r c = (resc, c')"
  then show "sql_good c'"
    unfolding sql_good_def
    by (auto simp: sql_CreateProcessing_def intro: insert_row_ok elim!: sql_exec_inv)
next
  fix c r resc c'
  assume "sql_good c" and ex: "CreateProcessing sql_idempotency_repository r c = (resc, c')"
  then consider "fst c' = fst c" | "fst c' = snd (insert_row r (fst c))"
    using sql_exec_cases [of "insert_row r" c] by (auto simp: sql_CreateProcessing_def)
  then show "sql_view c' = sql_view c \<or>
         sql_view c (key_of r) = None \<and> (\<exists>stored. sql_view c' = (sql_view c)(key_of r \<mapsto> stored) \<and>
           Status stored = Status r \<and> RequestFingerprint stored = RequestFingerprint r \<and>
           LockedUntil stored = LockedUntil r \<and> ExpiresAt stored = ExpiresAt r)"
  proof cases
    case 2
    show ?thesis
    proof (cases "row_by_key (fst c) (key_of r)")
      case None
      with 2 show ?thesis by (auto simp: sql_view_def insert_row_owner(2))
    qed (use 2 in \<open>auto simp: sql_view_def dest: insert_row_taken\<close>)
  qed (simp add: sql_view_def)
next
  fix c r r' c'
  assume "CreateProcessing sql_idempotency_repository r c = (Inr (True, r'), c')"
  then have ex: "(True, r') = fst (insert_row r (fst c))" "fst c' = snd (insert_row r (fst c))"
    by (auto simp: sql_CreateProcessing_def dest!: sql_exec_Inr)
  then have none: "row_by_key (fst c) (key_of r) = None"
    using insert_row_taken [of "fst c" r] by (cases "row_by_key (fst c) (key_of r)") auto
  with ex show "sql_view c (key_of r) = None \<and> (\<exists>stored. sql_view c' = (sql_view c)(key_of r \<mapsto> stored) \<and>
           ID stored = ID r' \<and>
           Status stored = Status r \<and> RequestFingerprint stored = RequestFingerprint r \<and>
           LockedUntil stored = LockedUntil r \<and> ExpiresAt stored = ExpiresAt r)"
    by (auto simp: sql_view_def insert_row_owner)
next
  fix c r r' c'
  assume "CreateProcessing sql_idempotency_repository r c = (Inr (False, r'), c')"
  then have ex: "(False, r') = fst (insert_row r (fst c))" "fst c' = snd (insert_row r (fst c))"
    by (auto simp: sql_CreateProcessing_def dest!: sql_exec_Inr)
  then obtain x where "row_by_key (fst c) (key_of r) = Some x"
    using insert_row_owner(1) [of "fst c" r] by (cases "row_by_key (fst c) (key_of r)") auto
  with ex insert_row_taken [OF this] show "sql_view c (key_of r) \<noteq> None \<and> sql_view c' = sql_view c \<and> r' = r"
    by (auto simp: sql_view_def)
next
  fix c sc h resg c'
  assume "sql_good c" "GetByScopeAndKeyHash sql_idempotency_repository sc h c = (resg, c')"
  then show "sql_good c'"
    unfolding sql_good_def by (auto simp: sql_GetByScopeAndKeyHash_def elim!: sql_exec_inv)
next
  fix c sc h resg c'
  assume "GetByScopeAndKeyHash sql_idempotency_repository sc h c = (resg, c')"
  then show "sql_view c' = sql_view c"
    using sql_exec_cases [of "\<lambda>t. (row_by_key t (sc, h), t)" c]
    by (auto simp: sql_GetByScopeAndKeyHash_def sql_view_def)
next
  fix c sc h x c'
  assume "GetByScopeAndKeyHash sql_idempotency_repository sc h c = (Inr x, c')"
  then show "x = sql_view c (sc, h)"
    by (auto simp: sql_GetByScopeAndKeyHash_def sql_view_def dest!: sql_exec_Inr)
next
  fix c i "from" now lu ex resr c'
  assume "sql_good c" "TryReclaim sql_idempotency_repository i from now lu ex c = (resr, c')"
  then show "sql_good c'"
    by (auto simp: sql_reclaim_form sql_good_def elim!: sql_update_good [rotated 3])
next
  fix c i "from" now lu ex resr c'
  assume "sql_good c" "TryReclaim sql_idempotency_repository i from now lu ex c = (resr, c')"
  then show "sql_view c' = sql_view c \<or>
         (\<exists>k r at. sql_view c k = Some r \<and> reclaimable i from now r \<and>
            sql_view c' = (sql_view c)(k \<mapsto> reclaim_row at lu ex r))"
    using sql_update_effect [of c "reclaimable i from now" i "\<lambda>at. reclaim_row at lu ex" "\<lambda>n. 0 < n" resr c']
    by (auto simp: sql_reclaim_form sql_good_def reclaimable_def)
next
  fix c i "from" now lu ex c'
  assume "sql_good c" "TryReclaim sql_idempotency_repository i from now lu ex c = (Inr True, c')"
  then show "\<exists>k r at. sql_view c k = Some r \<and> reclaimable i from now r \<and>
            sql_view c' = (sql_view c)(k \<mapsto> reclaim_row at lu ex r)"
    using sql_update_acked [of c "reclaimable i from now" i "\<lambda>at. reclaim_row at lu ex" "\<lambda>n. 0 < n" True c']
    by (auto simp: sql_reclaim_form sql_good_def reclaimable_def)
next
  fix c i "from" now lu ex c'
  assume "sql_good c" "TryReclaim sql_idempotency_repository i from now lu ex c = (Inr False, c')"
  then show "sql_view c' = sql_view c \<and> (\<forall>k r. sql_view c k = Some r \<longrightarrow> \<not> reclaimable i from now r)"
    using sql_update_acked [of c "reclaimable i from now" i "\<lambda>at. reclaim_row at lu ex" "\<lambda>n. 0 < n" False c']
    by (auto simp: sql_reclaim_form sql_good_def reclaimable_def)
next
  fix c i fp lu ex rese c'
  assume "sql_good c" "ExtendProcessingLock sql_idempotency_repository i fp lu ex c = (rese, c')"
  then show "sql_good c'"
    by (auto simp: sql_extend_form sql_good_def elim!: sql_update_good [rotated 3])
next
  fix c i fp lu ex rese c'
  assume "sql_good c" "ExtendProcessingLock sql_idempotency_repository i fp lu ex c = (rese, c')"
  then show "sql_view c' = sql_view c \<or>
         (\<exists>k r at. sql_view c k = Some r \<and> extendable i fp r \<and>
            sql_view c' = (sql_view c)(k \<mapsto> extend_row at lu ex r))"
    using sql_update_effect [of c "extendable i fp" i "\<lambda>at. extend_row at lu ex" "\<lambda>n. 0 < n" rese c']
    by (auto simp: sql_extend_form sql_good_def extendable_def)
next
  fix c i fp lu ex c'
  assume "sql_good c" "ExtendProcessingLock sql_idempotency_repository i fp lu ex c = (Inr False, c')"
  then show "sql_view c' = sql_view c"
    using sql_update_acked [of c "extendable i fp" i "\<lambda>at. extend_row at lu ex" "\<lambda>n. 0 < n" False c']
    by (auto simp: sql_extend_form sql_good_def extendable_def)
next
  fix c i fp lu ex b c'
  assume "sql_good c" "ExtendProcessingLock sql_idempotency_repository i fp lu ex c = (Inr b, c')"
  then show "b \<longleftrightarrow> (\<exists>k r. sql_view c k = Some r \<and> extendable i fp r)"
    using sql_update_acked [of c "extendable i fp" i "\<lambda>at. extend_row at lu ex" "\<lambda>n. 0 < n" b c']
    by (fastforce simp: sql_extend_form sql_good_def extendable_def)
next
  fix c i st body ex resm c'
  assume "sql_good c" "MarkSucceeded sql_idempotency_repository i st body ex c = (resm, c')"
  then show "sql_good c'"
    by (auto simp: sql_succeed_form sql_good_def elim!: sql_update_good [rotated 3])
next
  fix c i st body ex resm c'
  assume "sql_good c" "MarkSucceeded sql_idempotency_repository i st body ex c = (resm, c')"
  then show "sql_view c' = sql_view c \<or>
         (\<exists>k r at. sql_view c k = Some r \<and> ID r = i \<and> sql_view c' = (sql_view c)(k \<mapsto> succeed_row at st body ex r))"
    using sql_update_effect [of c "\<lambda>r. ID r = i" i "\<lambda>at. succeed_row at st body ex" "\<lambda>n. ()" resm c']
    by (auto simp: sql_succeed_form sql_good_def)
next
  fix c i st body ex u c' k r
  assume "sql_good c" "MarkSucceeded sql_idempotency_repository i st body ex c = (Inr u, c')"
    "sql_view c k = Some r" "ID r = i"
  then show "\<exists>at. sql_view c' = (sql_view c)(k \<mapsto> succeed_row at st body ex r)"
    using update_hit [of "fst c" "\<lambda>r. ID r = i" i "succeed_row (db_now (fst c)) st body ex" k r]
    by (auto simp: sql_succeed_form sql_good_def sql_view_def dest!: sql_exec_Inr)
next
  fix c i why lu ex resf c'
  assume "sql_good c" "MarkFailedRetryable sql_idempotency_repository i why lu ex c = (resf, c')"
  then show "sql_good c'"
    by (auto simp: sql_fail_form sql_good_def elim!: sql_update_good [rotated 3])
next
  fix c i why lu ex resf c'
  assume "sql_good c" "MarkFailedRetryable sql_idempotency_repository i why lu ex c = (resf, c')"
  then show "sql_view c' = sql_view c \<or>
         (\<exists>k r at. sql_view c k = Some r \<and> ID r = i \<and> sql_view c' = (sql_view c)(k \<mapsto> fail_row at why lu ex r))"
    using sql_update_effect [of c "\<lambda>r. ID r = i" i "\<lambda>at. fail_row at why lu ex" "\<lambda>n. ()" resf c']
    by (auto simp: sql_fail_form sql_good_def)
next
  fix c i why lu ex u c' k r
  assume "sql_good c" "MarkFailedRetryable sql_idempotency_repository i why lu ex c = (Inr u, c')"
    "sql_view c k = Some r" "ID r = i"
  then show "\<exists>at. sql_view c' = (sql_view c)(k \<mapsto> fail_row at why lu ex r)"
    using update_hit [of "fst c" "\<lambda>r. ID r = i" i "fail_row (db_now (fst c)) why lu ex" k r]
    by (auto simp: sql_fail_form sql_good_def sql_view_def dest!: sql_exec_Inr)
next
  fix c now limit resd c'
  assume "sql_good c" "DeleteExpired sql_idempotency_repository now limit c = (resd, c')"
  then show "sql_good c'"
    unfolding sql_good_def
    by (auto simp: sql_DeleteExpired_def Let_def intro: delete_expired_ok elim!: sql_exec_inv)
next
  fix c now limit resd c' k
  assume good: "sql_good c" and ex: "DeleteExpired sql_idempotency_repository now limit c = (resd, c')"
  define l where "l = (if limit \<le> 0 then 500 else limit)"
  from ex consider "fst c' = fst c" | "fst c' = snd (delete_expired now l (fst c))"
    using sql_exec_cases [of "delete_expired now l" c]
    by (auto simp: sql_DeleteExpired_def l_def Let_def split: if_splits)
  then show "sql_view c' k = sql_view c k \<or> sql_view c' k = None \<and> (\<exists>r. sql_view c k = Some r \<and> ExpiresAt r \<le> now)"
    using good delete_expired_row [of "fst c" now l k] by cases (auto simp: sql_view_def sql_good_def)
qed

end
