(* ===== verification/IdempotencyCoordinator.thy ===== *)
theory IdempotencyCoordinator
  imports IdempotencyStore
begin

text \<open>
  \<open>service/idempotency.go\<close>: keys, fingerprints, stored responses and the coordinator's
  \<open>Execute\<close>, over any repository that keeps the contract of the previous theory.

  \<open>Execute\<close> is split where the code's own phases are: reading the stored record and
  deciding (\<open>idem_dispatch\<close>, \<open>idem_existing\<close>), claiming (\<open>idem_claim\<close>), running the
  executor and recording its outcome (\<open>idem_run\<close>). Metrics and audit lines are not modelled:
  they write to a log only. SHA-256, \<open>encoding/json\<close> and the log redaction are the
  parameters of record \<open>codec\<close>. The two readings of the clock are the arguments
  \<open>now\<close> (at the claim) and \<open>later\<close> (when the executor failed).
\<close>

section \<open>Errors and configuration\<close>

definition ErrIdempotencyKeyRequired :: go_error where
  "ErrIdempotencyKeyRequired = BadRequest ''IDEMPOTENCY_KEY_REQUIRED'' ''idempotency key is required''"

definition ErrIdempotencyKeyInvalid :: go_error where
  "ErrIdempotencyKeyInvalid = BadRequest ''IDEMPOTENCY_KEY_INVALID'' ''idempotency key is invalid''"

definition ErrIdempotencyKeyConflict :: go_error where
  "ErrIdempotencyKeyConflict =
     Conflict ''IDEMPOTENCY_KEY_CONFLICT'' ''idempotency key reused with different payload''"

definition ErrIdempotencyInProgress :: go_error where
  "ErrIdempotencyInProgress =
     Conflict ''IDEMPOTENCY_IN_PROGRESS'' ''idempotent request is still processing''"

definition ErrIdempotencyRetryBackoff :: go_error where
  "ErrIdempotencyRetryBackoff =
     Conflict ''IDEMPOTENCY_RETRY_BACKOFF'' ''idempotent request is in retry backoff window''"

definition ErrIdempotencyStoreUnavail :: go_error where
  "ErrIdempotencyStoreUnavail =
     ServiceUnavailable ''IDEMPOTENCY_STORE_UNAVAILABLE'' ''idempotency store unavailable''"

definition ErrIdempotencyInvalidPayload :: go_error where
  "ErrIdempotencyInvalidPayload =
     BadRequest ''IDEMPOTENCY_PAYLOAD_INVALID'' ''failed to normalize request payload''"

lemmas idempotency_errors [error_defs] =
  ErrIdempotencyKeyRequired_def ErrIdempotencyKeyInvalid_def ErrIdempotencyKeyConflict_def
  ErrIdempotencyInProgress_def ErrIdempotencyRetryBackoff_def ErrIdempotencyStoreUnavail_def
  ErrIdempotencyInvalidPayload_def

record IdempotencyConfig =
  DefaultTTL :: duration
  SystemOperationTTL :: duration
  ProcessingTimeout :: duration
  FailedRetryBackoff :: duration
  MaxStoredResponseLen :: int
  ObserveOnly :: bool

definition DefaultIdempotencyConfig :: IdempotencyConfig where
  "DefaultIdempotencyConfig =
     \<lparr>DefaultTTL = 24 * hour, SystemOperationTTL = 1 * hour, ProcessingTimeout = 30 * second,
      FailedRetryBackoff = 5 * second, MaxStoredResponseLen = 64 * 1024, ObserveOnly = True\<rparr>"

text \<open>The TTL helpers read the process-wide coordinator, which may not be set.\<close>

definition DefaultWriteIdempotencyTTL :: "IdempotencyConfig option \<Rightarrow> duration" where
  "DefaultWriteIdempotencyTTL coordinator =
     (case coordinator of
        Some cfg \<Rightarrow> if DefaultTTL cfg > 0 then DefaultTTL cfg else DefaultTTL DefaultIdempotencyConfig
      | None \<Rightarrow> DefaultTTL DefaultIdempotencyConfig)"

definition DefaultSystemOperationIdempotencyTTL :: "IdempotencyConfig option \<Rightarrow> duration" where
  "DefaultSystemOperationIdempotencyTTL coordinator =
     (case coordinator of
        Some cfg \<Rightarrow> if SystemOperationTTL cfg > 0 then SystemOperationTTL cfg
                    else SystemOperationTTL DefaultIdempotencyConfig
      | None \<Rightarrow> SystemOperationTTL DefaultIdempotencyConfig)"

record 'p IdempotencyExecuteOptions =
  opt_Scope :: string
  opt_ActorScope :: string
  opt_Method :: string
  opt_Route :: string
  opt_IdempotencyKey :: string
  opt_Payload :: 'p
  opt_TTL :: duration
  opt_RequireKey :: bool

record 'd IdempotencyExecuteResult =
  Data :: 'd
  Replayed :: bool

record ('p, 'd) codec =
  sha256_hex :: "string \<Rightarrow> string"
  marshal_payload :: "'p \<Rightarrow> go_error + string"
  marshal_data :: "'d \<Rightarrow> go_error + string"
  unmarshal_data :: "string \<Rightarrow> go_error + 'd"
  redact_text :: "string \<Rightarrow> string"
  empty_object :: 'd

section \<open>Keys, fingerprints and stored responses\<close>

definition printable :: "char \<Rightarrow> bool" where
  "printable a \<longleftrightarrow> 33 \<le> (of_char a :: nat) \<and> (of_char a :: nat) \<le> 126"

definition NormalizeIdempotencyKey :: "string \<Rightarrow> go_error + string" where
  "NormalizeIdempotencyKey raw =
     (let key = trim_space raw in
      if key = [] then Inr []
      else if 128 < length key then Inl ErrIdempotencyKeyInvalid
      else if \<not> list_all printable key then Inl ErrIdempotencyKeyInvalid
      else Inr key)"

definition HashIdempotencyKey :: "('p, 'd) codec \<Rightarrow> string \<Rightarrow> string" where
  "HashIdempotencyKey cd key = sha256_hex cd key"

definition BuildIdempotencyFingerprint ::
  "('p, 'd) codec \<Rightarrow> string \<Rightarrow> string \<Rightarrow> string \<Rightarrow> 'p \<Rightarrow> go_error + string" where
  "BuildIdempotencyFingerprint cd meth route actorScope payload =
     (let meth' = (if meth = [] then ''POST'' else meth);
          route' = (if route = [] then ''/'' else route);
          actor' = (if actorScope = [] then ''anonymous'' else actorScope);
          nl = [CHR 0x0A] in
      case marshal_payload cd payload of
        Inl e \<Rightarrow> Inl (WithCause ErrIdempotencyInvalidPayload e)
      | Inr raw \<Rightarrow> Inr (sha256_hex cd (to_upper meth' @ nl @ route' @ nl @ actor' @ nl @ raw)))"

text \<open>\<open>utf8.ValidString\<close>, with the accepted ranges of the second byte.\<close>

fun valid_utf8 :: "string \<Rightarrow> bool" where
  "valid_utf8 [] = True"
| "valid_utf8 (a # s) =
     (if in_range 0 127 a then valid_utf8 s
      else if in_range 194 223 a then
        (case s of b # t \<Rightarrow> in_range 128 191 b \<and> valid_utf8 t | _ \<Rightarrow> False)
      else if in_range 224 239 a then
        (case s of b # c # t \<Rightarrow>
           in_range (if in_range 224 224 a then 160 else 128)
                    (if in_range 237 237 a then 159 else 191) b \<and>
           in_range 128 191 c \<and> valid_utf8 t | _ \<Rightarrow> False)
      else if in_range 240 244 a then
        (case s of b # c # d # t \<Rightarrow>
           in_range (if in_range 240 240 a then 144 else 128)
                    (if in_range 244 244 a then 143 else 191) b \<and>
           in_range 128 191 c \<and> in_range 128 191 d \<and> valid_utf8 t | _ \<Rightarrow> False)
      else False)"

fun shrink_to_valid :: "string \<Rightarrow> nat \<Rightarrow> string" where
  "shrink_to_valid s 0 = []"
| "shrink_to_valid s (Suc n) =
     (if valid_utf8 (take (Suc n) s) then take (Suc n) s else shrink_to_valid s n)"

definition truncateUTF8 :: "string \<Rightarrow> int \<Rightarrow> string" where
  "truncateUTF8 s maxBytes =
     (if maxBytes \<le> 0 \<or> int (length s) \<le> maxBytes then s else shrink_to_valid s (nat maxBytes))"

definition marshalStoredResponse ::
  "('p, 'd) codec \<Rightarrow> IdempotencyConfig \<Rightarrow> 'd \<Rightarrow> go_error + string" where
  "marshalStoredResponse cd cfg d =
     (case marshal_data cd d of
        Inl e \<Rightarrow> Inl e
      | Inr raw \<Rightarrow>
          (let redacted = redact_text cd raw in
           if MaxStoredResponseLen cfg > 0 \<and> int (length redacted) > MaxStoredResponseLen cfg
           then Inr (truncateUTF8 redacted (MaxStoredResponseLen cfg) @ ''...(truncated)'')
           else Inr redacted))"

definition decodeStoredResponse :: "('p, 'd) codec \<Rightarrow> string option \<Rightarrow> go_error + 'd" where
  "decodeStoredResponse cd stored =
     (case stored of
        None \<Rightarrow> Inr (empty_object cd)
      | Some body \<Rightarrow>
          if trim_space body = [] then Inr (empty_object cd)
          else (case unmarshal_data cd body of
                  Inl e \<Rightarrow> Inl (WrapErr ''decode stored response'' e)
                | Inr d \<Rightarrow> Inr d))"

definition conflictWithRetryAfter :: "go_error \<Rightarrow> time option \<Rightarrow> time \<Rightarrow> go_error" where
  "conflictWithRetryAfter base lockedUntil now =
     (case lockedUntil of
        None \<Rightarrow> base
      | Some u \<Rightarrow>
          (let sec = whole_seconds (time_sub u now); sec' = (if sec \<le> 0 then 1 else sec)
           in WithMetadata base (Some [(''retry_after'', itoa sec')])))"

section \<open>Execute\<close>

datatype 'd claim = Claimed int | Replay 'd | Refused go_error

text \<open>The \<open>switch existing.Status\<close>.\<close>

definition idem_dispatch ::
  "('p, 'd) codec \<Rightarrow> 's IdempotencyRepository \<Rightarrow> IdempotencyRecord \<Rightarrow> time \<Rightarrow> time \<Rightarrow> time \<Rightarrow>
   's \<Rightarrow> 'd claim \<times> 's" where
  "idem_dispatch cd repo existing now lockedUntil expiresAt s =
     (if Status existing = IdempotencyStatusSucceeded then
        (case decodeStoredResponse cd (ResponseBody existing) of
           Inl e \<Rightarrow> (Refused (WithCause ErrIdempotencyStoreUnavail e), s)
         | Inr d \<Rightarrow> (Replay d, s))
      else if Status existing = IdempotencyStatusProcessing then
        (Refused (conflictWithRetryAfter ErrIdempotencyInProgress (LockedUntil existing) now), s)
      else if Status existing = IdempotencyStatusFailedRetryable then
        (if (case LockedUntil existing of None \<Rightarrow> False | Some u \<Rightarrow> now < u) then
           (Refused (conflictWithRetryAfter ErrIdempotencyRetryBackoff (LockedUntil existing) now), s)
         else
           (case TryReclaim repo (ID existing) IdempotencyStatusFailedRetryable now lockedUntil expiresAt s of
              (Inl e, s') \<Rightarrow> (Refused (WithCause ErrIdempotencyStoreUnavail e), s')
            | (Inr taken, s') \<Rightarrow>
                if taken then (Claimed (ID existing), s')
                else (Refused (conflictWithRetryAfter ErrIdempotencyInProgress (LockedUntil existing) now), s')))
      else (Refused ErrIdempotencyKeyConflict, s))"

text \<open>The branch \<open>!owner\<close>: read the record, take an expired one over, re-read after a lost race.\<close>

definition idem_existing ::
  "('p, 'd) codec \<Rightarrow> 's IdempotencyRepository \<Rightarrow> string \<Rightarrow> string \<Rightarrow> string \<Rightarrow> time \<Rightarrow> time \<Rightarrow> time \<Rightarrow>
   's \<Rightarrow> 'd claim \<times> 's" where
  "idem_existing cd repo scope keyHash fingerprint now lockedUntil expiresAt s =
     (case GetByScopeAndKeyHash repo scope keyHash s of
        (Inl e, s1) \<Rightarrow> (Refused (WithCause ErrIdempotencyStoreUnavail e), s1)
      | (Inr None, s1) \<Rightarrow> (Refused ErrIdempotencyStoreUnavail, s1)
      | (Inr (Some existing), s1) \<Rightarrow>
          if RequestFingerprint existing \<noteq> fingerprint then (Refused ErrIdempotencyKeyConflict, s1)
          else if \<not> now < ExpiresAt existing then
            (case TryReclaim repo (ID existing) (Status existing) now lockedUntil expiresAt s1 of
               (Inl e, s2) \<Rightarrow> (Refused (WithCause ErrIdempotencyStoreUnavail e), s2)
             | (Inr taken, s2) \<Rightarrow>
                 if taken then (Claimed (ID existing), s2)
                 else (case GetByScopeAndKeyHash repo scope keyHash s2 of
                         (Inl e, s3) \<Rightarrow> (Refused (WithCause ErrIdempotencyStoreUnavail e), s3)
                       | (Inr None, s3) \<Rightarrow> (Refused ErrIdempotencyStoreUnavail, s3)
                       | (Inr (Some latest), s3) \<Rightarrow>
                           if RequestFingerprint latest \<noteq> fingerprint
                           then (Refused ErrIdempotencyKeyConflict, s3)
                           else idem_dispatch cd repo latest now lockedUntil expiresAt s3))
          else idem_dispatch cd repo existing now lockedUntil expiresAt s1)"

definition new_processing_record ::
  "string \<Rightarrow> string \<Rightarrow> string \<Rightarrow> time \<Rightarrow> time \<Rightarrow> IdempotencyRecord" where
  "new_processing_record scope keyHash fingerprint lockedUntil expiresAt =
     \<lparr>ID = 0, Scope = scope, IdempotencyKeyHash = keyHash, RequestFingerprint = fingerprint,
      Status = IdempotencyStatusProcessing, ResponseStatus = None, ResponseBody = None,
      ErrorReason = None, LockedUntil = Some lockedUntil, ExpiresAt = expiresAt,
      CreatedAt = zero_time, UpdatedAt = zero_time\<rparr>"

definition idem_claim ::
  "('p, 'd) codec \<Rightarrow> 's IdempotencyRepository \<Rightarrow> string \<Rightarrow> string \<Rightarrow> string \<Rightarrow> time \<Rightarrow> time \<Rightarrow> time \<Rightarrow>
   's \<Rightarrow> 'd claim \<times> 's" where
  "idem_claim cd repo scope keyHash fingerprint now lockedUntil expiresAt s =
     (case CreateProcessing repo (new_processing_record scope keyHash fingerprint lockedUntil expiresAt) s of
        (Inl e, s') \<Rightarrow> (Refused (WithCause ErrIdempotencyStoreUnavail e), s')
      | (Inr (owner, record'), s') \<Rightarrow>
          if owner then (Claimed (ID record'), s')
          else idem_existing cd repo scope keyHash fingerprint now lockedUntil expiresAt s')"

text \<open>After the claim: the executor runs on the world \<open>w\<close>, and its outcome is recorded.\<close>

definition idem_run ::
  "('p, 'd) codec \<Rightarrow> IdempotencyConfig \<Rightarrow> 's IdempotencyRepository \<Rightarrow> ('w \<Rightarrow> (go_error + 'd) \<times> 'w) \<Rightarrow>
   int \<Rightarrow> time \<Rightarrow> time \<Rightarrow> 's \<Rightarrow> 'w \<Rightarrow> (go_error + 'd IdempotencyExecuteResult) \<times> 's \<times> 'w" where
  "idem_run cd cfg repo execute recordID later expiresAt s w =
     (if recordID = 0 then (Inl ErrIdempotencyStoreUnavail, s, w)
      else (case execute w of
        (Inl execErr, w') \<Rightarrow>
          (let backoffUntil = later + FailedRetryBackoff cfg;
               reason = (if error_reason execErr = [] then ''EXECUTION_FAILED'' else error_reason execErr)
           in (Inl execErr, snd (MarkFailedRetryable repo recordID reason backoffUntil expiresAt s), w'))
      | (Inr d, w') \<Rightarrow>
          (case marshalStoredResponse cd cfg d of
             Inl e \<Rightarrow> (Inl (WithCause ErrIdempotencyStoreUnavail e), s, w')
           | Inr storedBody \<Rightarrow>
               (case MarkSucceeded repo recordID 200 storedBody expiresAt s of
                  (Inl e, s') \<Rightarrow> (Inl (WithCause ErrIdempotencyStoreUnavail e), s', w')
                | (Inr _, s') \<Rightarrow> (Inr \<lparr>Data = d, Replayed = False\<rparr>, s', w')))))"

definition execute_ttl :: "IdempotencyConfig \<Rightarrow> 'p IdempotencyExecuteOptions \<Rightarrow> duration" where
  "execute_ttl cfg opts = (if opt_TTL opts \<le> 0 then DefaultTTL cfg else opt_TTL opts)"

definition Execute ::
  "('p, 'd) codec \<Rightarrow> IdempotencyConfig \<Rightarrow> 's IdempotencyRepository option \<Rightarrow>
   'p IdempotencyExecuteOptions \<Rightarrow> ('w \<Rightarrow> (go_error + 'd) \<times> 'w) option \<Rightarrow> time \<Rightarrow> time \<Rightarrow>
   's \<Rightarrow> 'w \<Rightarrow> (go_error + 'd IdempotencyExecuteResult) \<times> 's \<times> 'w" where
  "Execute cd cfg repo_opt opts execute_opt now later s w =
     (case execute_opt of
        None \<Rightarrow> (Inl (InternalServer ''IDEMPOTENCY_EXECUTOR_NIL'' ''idempotency executor is nil''), s, w)
      | Some execute \<Rightarrow>
     (case NormalizeIdempotencyKey (opt_IdempotencyKey opts) of
        Inl e \<Rightarrow> (Inl e, s, w)
      | Inr key \<Rightarrow>
          if key = [] then
            (if opt_RequireKey opts \<and> \<not> ObserveOnly cfg then (Inl ErrIdempotencyKeyRequired, s, w)
             else (case execute w of
                     (Inl e, w') \<Rightarrow> (Inl e, s, w')
                   | (Inr d, w') \<Rightarrow> (Inr \<lparr>Data = d, Replayed = False\<rparr>, s, w')))
          else
     (case repo_opt of
        None \<Rightarrow> (Inl ErrIdempotencyStoreUnavail, s, w)
      | Some repo \<Rightarrow>
          if opt_Scope opts = [] then
            (Inl (BadRequest ''IDEMPOTENCY_SCOPE_REQUIRED'' ''idempotency scope is required''), s, w)
          else
     (case BuildIdempotencyFingerprint cd (opt_Method opts) (opt_Route opts) (opt_ActorScope opts)
             (opt_Payload opts) of
        Inl e \<Rightarrow> (Inl e, s, w)
      | Inr fingerprint \<Rightarrow>
          (let expiresAt = now + execute_ttl cfg opts;
               lockedUntil = now + ProcessingTimeout cfg;
               keyHash = HashIdempotencyKey cd key
           in case idem_claim cd repo (opt_Scope opts) keyHash fingerprint now lockedUntil expiresAt s of
                (Refused e, s') \<Rightarrow> (Inl e, s', w)
              | (Replay d, s') \<Rightarrow> (Inr \<lparr>Data = d, Replayed = True\<rparr>, s', w)
              | (Claimed recordID, s') \<Rightarrow>
                  idem_run cd cfg repo execute recordID later expiresAt s' w)))))"

text \<open>\<open>RetryAfterSecondsFromError\<close>, with \<open>strconv.Atoi\<close> on the metadata value.\<close>

fun parse_digits :: "nat \<Rightarrow> string \<Rightarrow> nat option" where
  "parse_digits acc [] = Some acc"
| "parse_digits acc (a # s) =
     (if in_range 48 57 a then parse_digits (acc * 10 + (of_char a - 48)) s else None)"

definition atoi :: "string \<Rightarrow> int option" where
  "atoi s =
     (let neg = (s \<noteq> [] \<and> hd s = CHR ''-'');
          body = (if s \<noteq> [] \<and> (hd s = CHR ''-'' \<or> hd s = CHR ''+'') then tl s else s)
      in if body = [] then None
         else (case parse_digits 0 body of
                 None \<Rightarrow> None
               | Some n \<Rightarrow>
                   (let i = (if neg then - int n else int n)
                    in if i < - (2 ^ 63) \<or> 2 ^ 63 \<le> i then None else Some i)))"

definition RetryAfterSecondsFromError :: "go_error \<Rightarrow> int" where
  "RetryAfterSecondsFromError err =
     (case errors_as err of
        None \<Rightarrow> 0
      | Some appErr \<Rightarrow>
          (case Metadata appErr of
             None \<Rightarrow> 0
           | Some md \<Rightarrow>
               (let v = trim_space (case map_of md ''retry_after'' of None \<Rightarrow> [] | Some x \<Rightarrow> x)
                in if v = [] then 0
                   else (case atoi v of None \<Rightarrow> 0 | Some sec \<Rightarrow> if sec \<le> 0 then 0 else sec))))"

section \<open>What a claim does to the store\<close>

text \<open>
  A key is guarded until \<open>e\<close> when its record is being processed or has succeeded and does
  not expire before \<open>e\<close>. \<open>claim_post\<close> says what any claim for key \<open>k\<close> leaves behind:
  other keys keep their records, and a granted claim owns the record of \<open>k\<close>.
\<close>

definition guarded ::
  "('s \<Rightarrow> string \<times> string \<Rightarrow> IdempotencyRecord option) \<Rightarrow> string \<times> string \<Rightarrow> time \<Rightarrow> 's \<Rightarrow> bool" where
  "guarded view k e s \<longleftrightarrow>
     (\<exists>r. view s k = Some r \<and> e \<le> ExpiresAt r \<and>
        (Status r = IdempotencyStatusProcessing \<or> Status r = IdempotencyStatusSucceeded))"

definition owns ::
  "('s \<Rightarrow> string \<times> string \<Rightarrow> IdempotencyRecord option) \<Rightarrow> string \<times> string \<Rightarrow> int \<Rightarrow> time \<Rightarrow> 's \<Rightarrow> bool" where
  "owns view k i e s \<longleftrightarrow>
     (\<exists>r. view s k = Some r \<and> ID r = i \<and> Status r = IdempotencyStatusProcessing \<and> ExpiresAt r = e)"

definition claim_post ::
  "('s \<Rightarrow> string \<times> string \<Rightarrow> IdempotencyRecord option) \<Rightarrow> ('s \<Rightarrow> bool) \<Rightarrow> string \<times> string \<Rightarrow> time \<Rightarrow>
   's \<Rightarrow> 'd claim \<Rightarrow> 's \<Rightarrow> bool" where
  "claim_post view good k e s c s' \<longleftrightarrow>
     good s' \<and> (\<forall>k'. k' \<noteq> k \<longrightarrow> view s' k' = view s k') \<and> (\<forall>i. c = Claimed i \<longrightarrow> owns view k i e s')"

lemma owns_guarded: "owns view k i e s \<Longrightarrow> guarded view k e s"
  by (auto simp: owns_def guarded_def)

context idempotency_repository
begin

lemma reclaim_post:
  assumes "good s" and v: "view s k = Some existing"
    and "TryReclaim repo (ID existing) st now lu ex s = (res, s')"
  shows "good s'" and "k' \<noteq> k \<Longrightarrow> view s' k' = view s k'"
    and "res = Inr True \<Longrightarrow> owns view k (ID existing) ex s'"
proof -
  show "good s'" using assms by (auto intro: reclaim_good)
  have same: "k'' = k" if "view s k'' = Some r" "reclaimable (ID existing) st now r" for k'' r
    using view_id [OF assms(1) that(1) v] that(2) by (simp add: reclaimable_def)
  show "view s' k' = view s k'" if "k' \<noteq> k"
    using reclaim_effect [OF assms(1,3)] that same by auto
  show "owns view k (ID existing) ex s'" if "res = Inr True"
  proof -
    have "TryReclaim repo (ID existing) st now lu ex s = (Inr True, s')" using assms(3) that by simp
    from reclaim_won [OF assms(1) this] obtain k'' r at where r: "view s k'' = Some r"
      "reclaimable (ID existing) st now r" "view s' = (view s)(k'' \<mapsto> reclaim_row at lu ex r)"
      by (elim exE conjE)
    then show ?thesis
      using same [OF r(1,2)] v by (auto simp: owns_def reclaim_row_def)
  qed
qed

lemma dispatch_post:
  assumes "good s" and v: "view s k = Some existing"
    and d: "idem_dispatch cd repo existing now lu ex s = (c, s')"
  shows "claim_post view good k ex s c s'"
proof (cases "TryReclaim repo (ID existing) IdempotencyStatusFailedRetryable now lu ex s")
  case (Pair res s1)
  note post = reclaim_post [OF assms(1) v Pair]
  show ?thesis
    using d Pair assms(1) post
    by (auto simp: idem_dispatch_def claim_post_def split: if_splits sum.splits option.splits)
qed

lemma dispatch_guarded:
  assumes "view s k = Some existing"
    and "Status existing = IdempotencyStatusProcessing \<or> Status existing = IdempotencyStatusSucceeded"
  shows "snd (idem_dispatch cd repo existing now lu ex s) = s"
    and "fst (idem_dispatch cd repo existing now lu ex s) \<noteq> Claimed i"
  using assms by (auto simp: idem_dispatch_def split: sum.splits)

lemma get_post:
  assumes "good s" "GetByScopeAndKeyHash repo sc h s = (res, s')"
  shows "good s'" "view s' = view s" "res = Inr x \<Longrightarrow> x = view s (sc, h)"
  using assms by (auto intro: get_good get_effect get_result)

lemma existing_post:
  assumes "good s" and e: "idem_existing cd repo sc h fp now lu ex s = (c, s')"
  shows "claim_post view good (sc, h) ex s c s'"
proof (cases "GetByScopeAndKeyHash repo sc h s")
  case (Pair res s1)
  note g1 = get_post [OF assms(1) Pair]
  show ?thesis
  proof (cases res)
    case (Inl err)
    then show ?thesis using e Pair g1 by (auto simp: idem_existing_def claim_post_def)
  next
    case (Inr found)
    show ?thesis
    proof (cases found)
      case None
      then show ?thesis using e Pair g1 Inr by (auto simp: idem_existing_def claim_post_def)
    next
      case (Some existing)
      then have v1: "view s1 (sc, h) = Some existing" using g1 Inr by simp
      obtain res2 s2 where r: "TryReclaim repo (ID existing) (Status existing) now lu ex s1 = (res2, s2)"
        by fastforce
      note p2 = reclaim_post [OF g1(1) v1 r]
      obtain res3 s3 where g: "GetByScopeAndKeyHash repo sc h s2 = (res3, s3)" by fastforce
      note g3 = get_post [OF p2(1) g]
      show ?thesis
      proof (cases "\<exists>latest. res3 = Inr (Some latest)")
        case True
        then obtain latest where l: "res3 = Inr (Some latest)" by blast
        then have v3: "view s3 (sc, h) = Some latest" using g3 by simp
        have d3: "claim_post view good (sc, h) ex s3 c s'"
          if "idem_dispatch cd repo latest now lu ex s3 = (c, s')" for c and s'
          by (rule dispatch_post [OF g3(1) v3 that])
        have d1: "claim_post view good (sc, h) ex s1 c s'"
          if "idem_dispatch cd repo existing now lu ex s1 = (c, s')" for c and s'
          by (rule dispatch_post [OF g1(1) v1 that])
        show ?thesis
          using e Pair Inr Some r g l v1 v3 g1(1,2) p2 g3(1,2) d1 d3
          by (auto simp: idem_existing_def claim_post_def split: if_splits sum.splits)
      next
        case False
        have d1: "claim_post view good (sc, h) ex s1 c s'"
          if "idem_dispatch cd repo existing now lu ex s1 = (c, s')" for c and s'
          by (rule dispatch_post [OF g1(1) v1 that])
        show ?thesis
          using e Pair Inr Some r g False v1 g1(1,2) p2 g3(1,2) d1
          by (auto simp: idem_existing_def claim_post_def split: if_splits sum.splits option.splits)
      qed
    qed
  qed
qed

lemma claim_effects:
  assumes "good s" and c: "idem_claim cd repo sc h fp now lu ex s = (c, s')"
  shows "claim_post view good (sc, h) ex s c s'"
proof -
  let ?r = "new_processing_record sc h fp lu ex"
  have key: "key_of ?r = (sc, h)" by (simp add: new_processing_record_def key_of_def)
  obtain res s1 where cr: "CreateProcessing repo ?r s = (res, s1)" by fastforce
  have g1: "good s1" by (rule create_good [OF assms(1) cr])
  have frame: "view s1 k' = view s k'" if "k' \<noteq> (sc, h)" for k'
    using create_effect [OF assms(1) cr] that key by auto
  show ?thesis
  proof (cases res)
    case (Inl e)
    with c cr g1 frame show ?thesis by (auto simp: idem_claim_def claim_post_def)
  next
    case (Inr b)
    obtain owner r' where b: "b = (owner, r')" by fastforce
    show ?thesis
    proof (cases owner)
      case True
      from create_owner [OF assms(1), of ?r r' s1, unfolded key] cr Inr b True
      have "owns view (sc, h) (ID r') ex s1"
        by (auto simp: owns_def new_processing_record_def)
      with c cr Inr b True g1 frame show ?thesis by (auto simp: idem_claim_def claim_post_def)
    next
      case False
      with c cr Inr b have "idem_existing cd repo sc h fp now lu ex s1 = (c, s')"
        by (simp add: idem_claim_def)
      from existing_post [OF g1 this] frame show ?thesis by (auto simp: claim_post_def)
    qed
  qed
qed

lemma claim_guarded:
  assumes "good s" and g: "guarded view (sc, h) e s" and "now < e"
    and c: "idem_claim cd repo sc h fp now lu ex s = (c, s')"
  shows "view s' = view s" and "c \<noteq> Claimed i"
proof -
  let ?r = "new_processing_record sc h fp lu ex"
  have key: "key_of ?r = (sc, h)" by (simp add: new_processing_record_def key_of_def)
  from g obtain r where r: "view s (sc, h) = Some r" "e \<le> ExpiresAt r"
    "Status r = IdempotencyStatusProcessing \<or> Status r = IdempotencyStatusSucceeded"
    by (auto simp: guarded_def)
  obtain res s1 where cr: "CreateProcessing repo ?r s = (res, s1)" by fastforce
  have same: "view s1 = view s" using create_effect [OF assms(1) cr] r(1) key by auto
  have not_owner: "res \<noteq> Inr (True, r')" for r'
    using create_owner [OF assms(1), of ?r r' s1] cr r(1) key by auto
  obtain res2 s2 where get: "GetByScopeAndKeyHash repo sc h s1 = (res2, s2)" by fastforce
  note g2 = get_post [OF create_good [OF assms(1) cr] get]
  have "res2 = Inr x \<Longrightarrow> x = Some r" for x using g2 r(1) same by simp
  then have "view s' = view s \<and> c \<noteq> Claimed i"
    using c cr not_owner same get g2 r assms(3)
      dispatch_guarded [of s2 "(sc, h)" r cd now lu ex]
    by (cases "idem_dispatch cd repo r now lu ex s2")
       (auto simp: idem_claim_def idem_existing_def split: if_splits sum.splits option.splits, blast+)
  then show "view s' = view s" and "c \<noteq> Claimed i" by simp_all
qed

end

section \<open>Running a claimed call\<close>

definition exec_key :: "('p, 'd) codec \<Rightarrow> 'p IdempotencyExecuteOptions \<Rightarrow> string \<times> string" where
  "exec_key cd opts = (opt_Scope opts, HashIdempotencyKey cd (trim_space (opt_IdempotencyKey opts)))"

definition keyed :: "'p IdempotencyExecuteOptions \<Rightarrow> bool" where
  "keyed opts \<longleftrightarrow> trim_space (opt_IdempotencyKey opts) \<noteq> []"

lemma NormalizeIdempotencyKey_Inr:
  "NormalizeIdempotencyKey raw = Inr key \<Longrightarrow> key = trim_space raw"
  by (auto simp: NormalizeIdempotencyKey_def Let_def split: if_splits)

record ('p, 'd, 'w) call =
  c_opts :: "'p IdempotencyExecuteOptions"
  c_execute :: "('w \<Rightarrow> (go_error + 'd) \<times> 'w) option"
  c_now :: time
  c_later :: time

definition run_call ::
  "('p, 'd) codec \<Rightarrow> IdempotencyConfig \<Rightarrow> 's IdempotencyRepository \<Rightarrow> ('p, 'd, 'w) call \<Rightarrow>
   's \<times> 'w \<Rightarrow> 's \<times> 'w" where
  "run_call cd cfg repo c sw =
     snd (Execute cd cfg (Some repo) (c_opts c) (c_execute c) (c_now c) (c_later c) (fst sw) (snd sw))"

fun run_calls ::
  "('p, 'd) codec \<Rightarrow> IdempotencyConfig \<Rightarrow> 's IdempotencyRepository \<Rightarrow> ('p, 'd, 'w) call list \<Rightarrow>
   's \<times> 'w \<Rightarrow> 's \<times> 'w" where
  "run_calls cd cfg repo [] sw = sw"
| "run_calls cd cfg repo (c # cs) sw = run_calls cd cfg repo cs (run_call cd cfg repo c sw)"

context idempotency_repository
begin

lemma mark_keeps_others:
  assumes "good s" and o: "owns view k i e s"
    and m: "view s' = view s \<or> (\<exists>k r. view s k = Some r \<and> ID r = i \<and> view s' = (view s)(k \<mapsto> f r))"
  shows "k' \<noteq> k \<Longrightarrow> view s' k' = view s k'"
proof -
  from o obtain r0 where r0: "view s k = Some r0" "ID r0 = i" by (auto simp: owns_def)
  show "view s' k' = view s k'" if "k' \<noteq> k"
    using m
  proof
    assume "\<exists>k r. view s k = Some r \<and> ID r = i \<and> view s' = (view s)(k \<mapsto> f r)"
    then obtain k2 r where "view s k2 = Some r" "ID r = i" "view s' = (view s)(k2 \<mapsto> f r)" by blast
    moreover from this have "k2 = k" using view_id [OF assms(1) _ r0(1)] r0(2) by metis
    ultimately show ?thesis using that by simp
  qed simp
qed

lemma succeed_post:
  assumes "good s" and o: "owns view k i e s" and m: "MarkSucceeded repo i st body e s = (res, s')"
  shows "good s'" and "k' \<noteq> k \<Longrightarrow> view s' k' = view s k'" and "guarded view k e s'"
proof -
  show "good s'" by (rule succeed_good [OF assms(1) m])
  note eff = succeed_effect [OF assms(1) m]
  show "view s' k' = view s k'" if "k' \<noteq> k"
    using eff
  proof (elim disjE exE conjE)
    fix k2 r at
    assume "view s k2 = Some r" "ID r = i" "view s' = (view s)(k2 \<mapsto> succeed_row at st body e r)"
    then show ?thesis using mark_keeps_others [OF assms(1) o, of s' "succeed_row at st body e"] that by blast
  qed simp
  from o obtain r0 where r0: "view s k = Some r0" "ID r0 = i" by (auto simp: owns_def)
  show "guarded view k e s'"
    using eff
  proof (elim disjE exE conjE)
    fix k2 r at
    assume a: "view s k2 = Some r" "ID r = i" "view s' = (view s)(k2 \<mapsto> succeed_row at st body e r)"
    then have "k2 = k" using view_id [OF assms(1) _ r0(1)] r0(2) by metis
    with a show ?thesis by (simp add: guarded_def succeed_row_def)
  qed (use o in \<open>auto simp: guarded_def owns_def\<close>)
qed

lemma fail_post:
  assumes "good s" and o: "owns view k i e s" and m: "MarkFailedRetryable repo i why lu ex s = (res, s')"
  shows "good s'" and "k' \<noteq> k \<Longrightarrow> view s' k' = view s k'"
proof -
  show "good s'" by (rule fail_good [OF assms(1) m])
  show "view s' k' = view s k'" if "k' \<noteq> k"
    using fail_effect [OF assms(1) m]
  proof (elim disjE exE conjE)
    fix k2 r at
    assume "view s k2 = Some r" "ID r = i" "view s' = (view s)(k2 \<mapsto> fail_row at why lu ex r)"
    then show ?thesis using mark_keeps_others [OF assms(1) o, of s' "fail_row at why lu ex"] that by blast
  qed simp
qed

lemma run_post:
  assumes "good s" and o: "owns view k i e s"
    and r: "idem_run cd cfg repo execute i later e s w = (res, s', w')"
  shows "good s'" and "k' \<noteq> k \<Longrightarrow> view s' k' = view s k'"
    and "fst (execute w) = Inr d \<Longrightarrow> guarded view k e s'"
proof -
  from o obtain r0 where "view s k = Some r0" "ID r0 = i" by (auto simp: owns_def)
  with view_id_pos [OF assms(1), of k r0] have nz: "i \<noteq> 0" by simp
  obtain out w1 where ex: "execute w = (out, w1)" by fastforce
  have "good s' \<and> (\<forall>k'. k' \<noteq> k \<longrightarrow> view s' k' = view s k') \<and> (\<forall>d. out = Inr d \<longrightarrow> guarded view k e s')"
  proof (cases out)
    case (Inl err)
    let ?why = "if error_reason err = [] then ''EXECUTION_FAILED'' else error_reason err"
    obtain rf sf where m: "MarkFailedRetryable repo i ?why (later + FailedRetryBackoff cfg) e s = (rf, sf)"
      by fastforce
    from r nz ex Inl have "s' = sf" using m by (simp add: idem_run_def Let_def)
    with fail_post [OF assms(1) o m] Inl show ?thesis by simp
  next
    case (Inr dat)
    show ?thesis
    proof (cases "marshalStoredResponse cd cfg dat")
      case (Inl err)
      with r nz ex Inr assms(1) owns_guarded [OF o] show ?thesis by (simp add: idem_run_def)
    next
      case (Inr body)
      obtain rs ss where m: "MarkSucceeded repo i 200 body e s = (rs, ss)" by fastforce
      with r nz ex \<open>out = Inr dat\<close> Inr have "s' = ss"
        by (simp add: idem_run_def split: sum.splits)
      with succeed_post [OF assms(1) o m] show ?thesis by simp
    qed
  qed
  then show "good s'" and "k' \<noteq> k \<Longrightarrow> view s' k' = view s k'"
    and "fst (execute w) = Inr d \<Longrightarrow> guarded view k e s'"
    using ex by (auto simp del: split_paired_All)
qed

lemma execute_first:
  assumes "good s"
    and x: "Execute cd cfg (Some repo) opts (Some f) now later s w = (res, s', w')"
    and "keyed opts" and ran: "w' \<noteq> w" and ok: "fst (f w) = Inr d"
  shows "good s'" and "guarded view (exec_key cd opts) (now + execute_ttl cfg opts) s'"
proof -
  obtain key where key: "NormalizeIdempotencyKey (opt_IdempotencyKey opts) = Inr key" "key \<noteq> []"
    using x ran assms(3)
    by (cases "NormalizeIdempotencyKey (opt_IdempotencyKey opts)")
       (auto simp: Execute_def keyed_def dest: NormalizeIdempotencyKey_Inr)
  then have ek: "exec_key cd opts = (opt_Scope opts, HashIdempotencyKey cd key)"
    by (auto simp: exec_key_def dest: NormalizeIdempotencyKey_Inr)
  obtain fp where fp: "BuildIdempotencyFingerprint cd (opt_Method opts) (opt_Route opts)
      (opt_ActorScope opts) (opt_Payload opts) = Inr fp" and sc: "opt_Scope opts \<noteq> []"
    using x ran key by (auto simp: Execute_def split: if_splits sum.splits)
  let ?e = "now + execute_ttl cfg opts"
  obtain c s1 where c: "idem_claim cd repo (opt_Scope opts) (HashIdempotencyKey cd key) fp now
      (now + ProcessingTimeout cfg) ?e s = (c, s1)" by fastforce
  from x ran key fp sc c obtain i where i: "c = Claimed i"
    and run: "idem_run cd cfg repo f i later ?e s1 w = (res, s', w')"
    by (auto simp: Execute_def Let_def split: claim.splits)
  from claim_effects [OF assms(1) c] i have "good s1" "owns view (exec_key cd opts) i ?e s1"
    by (simp_all add: claim_post_def ek)
  from run_post [OF this run] ok show "good s'" and "guarded view (exec_key cd opts) ?e s'" by blast+
qed

lemma execute_guarded:
  assumes "good s" and g: "guarded view k e s" and "now < e"
    and x: "Execute cd cfg (Some repo) opts exo now later s w = (res, s', w')"
  shows "good s'" and "guarded view k e s'"
    and "keyed opts \<Longrightarrow> exec_key cd opts = k \<Longrightarrow> w' = w"
proof -
  have "good s' \<and> guarded view k e s' \<and> (keyed opts \<longrightarrow> exec_key cd opts = k \<longrightarrow> w' = w)"
  proof (cases "\<exists>f key fp. exo = Some f \<and> NormalizeIdempotencyKey (opt_IdempotencyKey opts) = Inr key
      \<and> key \<noteq> [] \<and> opt_Scope opts \<noteq> [] \<and> BuildIdempotencyFingerprint cd (opt_Method opts)
      (opt_Route opts) (opt_ActorScope opts) (opt_Payload opts) = Inr fp")
    case False
    then show ?thesis
      using x assms(1) g
      by (auto simp: Execute_def keyed_def split: option.splits sum.splits if_splits prod.splits
          dest: NormalizeIdempotencyKey_Inr)
  next
    case True
    then obtain f key fp where h: "exo = Some f" "NormalizeIdempotencyKey (opt_IdempotencyKey opts) = Inr key"
      "key \<noteq> []" "opt_Scope opts \<noteq> []" "BuildIdempotencyFingerprint cd (opt_Method opts)
        (opt_Route opts) (opt_ActorScope opts) (opt_Payload opts) = Inr fp" by blast
    then have ek: "exec_key cd opts = (opt_Scope opts, HashIdempotencyKey cd key)"
      by (auto simp: exec_key_def dest: NormalizeIdempotencyKey_Inr)
    let ?e = "now + execute_ttl cfg opts"
    obtain c s1 where c: "idem_claim cd repo (opt_Scope opts) (HashIdempotencyKey cd key) fp now
        (now + ProcessingTimeout cfg) ?e s = (c, s1)" by fastforce
    note post = claim_effects [OF assms(1) c, folded ek]
    from x h c have step: "(case c of Refused e \<Rightarrow> (Inl e, s1, w)
        | Replay d \<Rightarrow> (Inr \<lparr>Data = d, Replayed = True\<rparr>, s1, w)
        | Claimed i \<Rightarrow> idem_run cd cfg repo f i later ?e s1 w) = (res, s', w')"
      by (cases c) (simp_all add: Execute_def Let_def)
    show ?thesis
    proof (cases "exec_key cd opts = k")
      case True
      then have "view s1 = view s" "\<And>i. c \<noteq> Claimed i"
        using claim_guarded [OF assms(1) _ assms(3) c] g ek by auto
      with step post g show ?thesis
        by (cases c) (auto simp: claim_post_def guarded_def)
    next
      case False
      with post have same: "view s1 k = view s k" "good s1" unfolding claim_post_def by metis+
      show ?thesis
      proof (cases c)
        case (Claimed i)
        with post have o: "owns view (exec_key cd opts) i ?e s1" by (simp add: claim_post_def)
        from step Claimed have "idem_run cd cfg repo f i later ?e s1 w = (res, s', w')" by simp
        from run_post [OF same(2) o this] same False g show ?thesis by (auto simp: guarded_def)
      qed (use step same g False in \<open>auto simp: guarded_def\<close>)
    qed
  qed
  then show "good s'" and "guarded view k e s'"
    and "keyed opts \<Longrightarrow> exec_key cd opts = k \<Longrightarrow> w' = w" by auto
qed

lemma run_calls_guarded:
  assumes "good (fst sw)" "guarded view k e (fst sw)" "\<forall>c \<in> set cs. c_now c < e"
  shows "good (fst (run_calls cd cfg repo cs sw)) \<and> guarded view k e (fst (run_calls cd cfg repo cs sw))"
  using assms
proof (induction cs arbitrary: sw)
  case (Cons c cs)
  obtain res s' w' where x: "Execute cd cfg (Some repo) (c_opts c) (c_execute c) (c_now c) (c_later c)
      (fst sw) (snd sw) = (res, s', w')" by (rule prod_cases3)
  then have "run_call cd cfg repo c sw = (s', w')" by (simp add: run_call_def)
  moreover have "good s'" "guarded view k e s'"
    using execute_guarded [OF Cons.prems(1,2) _ x] Cons.prems(3) by auto
  ultimately show ?case using Cons.IH [of "(s', w')"] Cons.prems(3) by simp
qed simp

lemma success_is_final:
  assumes "good s" "keyed opts" "keyed opts'" "exec_key cd opts' = exec_key cd opts"
    and "Execute cd cfg (Some repo) opts (Some f) now later s w = (res, s1, w1)"
    and "w1 \<noteq> w" "fst (f w) = Inr d"
    and cs: "\<forall>c \<in> set cs. c_now c < now + execute_ttl cfg opts" and t: "t < now + execute_ttl cfg opts"
    and sw: "run_calls cd cfg repo cs (s1, w1) = (s2, w2)"
  shows "snd (snd (Execute cd cfg (Some repo) opts' g t t' s2 w2)) = w2"
proof -
  note first = execute_first [OF assms(1,5,2,6,7)]
  have "good s2" "guarded view (exec_key cd opts) (now + execute_ttl cfg opts) s2"
    using run_calls_guarded [of "(s1, w1)" _ _ cs cd cfg] first cs sw by auto
  from execute_guarded(3) [OF this t] assms(3,4) show ?thesis
    by (cases "Execute cd cfg (Some repo) opts' g t t' s2 w2") auto
qed

end

section \<open>Concurrent callers\<close>

text \<open>
  Many callers share the store. A caller is either deciding, which is one claim, or running
  its executor, which the list \<open>running\<close> remembers with the key, the record and the
  expiry of its claim. Time passes, records expire and are purged, and executors finish
  with either outcome. The rule \<open>tick\<close> assumes what the TTL is chosen for: that a claim
  does not expire while its executor runs.
\<close>

record 's coord =
  clock :: time
  store :: 's
  running :: "((string \<times> string) \<times> int \<times> time) list"

inductive coord_step ::
  "('p, 'd) codec \<Rightarrow> 's IdempotencyRepository \<Rightarrow> 's coord \<Rightarrow> 's coord \<Rightarrow> bool"
  for cd :: "('p, 'd) codec" and repo :: "'s IdempotencyRepository"
where
  granted: "0 < ttl \<Longrightarrow>
    idem_claim cd repo sc h fp (clock x) lu (clock x + ttl) (store x) = (Claimed i, s') \<Longrightarrow>
    coord_step cd repo x (x\<lparr>store := s', running := ((sc, h), i, clock x + ttl) # running x\<rparr>)"
| denied: "idem_claim cd repo sc h fp (clock x) lu ex (store x) = (c, s') \<Longrightarrow> \<forall>i. c \<noteq> Claimed i \<Longrightarrow>
    coord_step cd repo x (x\<lparr>store := s'\<rparr>)"
| finished: "(k, i, e) \<in> set (running x) \<Longrightarrow>
    MarkSucceeded repo i st body e (store x) = (res, s') \<Longrightarrow>
    coord_step cd repo x (x\<lparr>store := s', running := remove1 (k, i, e) (running x)\<rparr>)"
| failed: "(k, i, e) \<in> set (running x) \<Longrightarrow>
    MarkFailedRetryable repo i why lu e (store x) = (res, s') \<Longrightarrow>
    coord_step cd repo x (x\<lparr>store := s', running := remove1 (k, i, e) (running x)\<rparr>)"
| purged: "DeleteExpired repo (clock x) limit (store x) = (resd, s') \<Longrightarrow>
    coord_step cd repo x (x\<lparr>store := s'\<rparr>)"
| tick: "clock x \<le> t \<Longrightarrow> \<forall>(k, i, e) \<in> set (running x). t < e \<Longrightarrow>
    coord_step cd repo x (x\<lparr>clock := t\<rparr>)"

inductive coord_reachable ::
  "('p, 'd) codec \<Rightarrow> 's IdempotencyRepository \<Rightarrow> ('s \<Rightarrow> bool) \<Rightarrow> 's coord \<Rightarrow> bool"
  for cd :: "('p, 'd) codec" and repo :: "'s IdempotencyRepository" and good :: "'s \<Rightarrow> bool"
where
  start: "good s \<Longrightarrow> coord_reachable cd repo good \<lparr>clock = t, store = s, running = []\<rparr>"
| step: "coord_reachable cd repo good x \<Longrightarrow> coord_step cd repo x y \<Longrightarrow> coord_reachable cd repo good y"

inductive_cases coord_stepE: "coord_step cd repo x y"

definition coord_inv ::
  "('s \<Rightarrow> string \<times> string \<Rightarrow> IdempotencyRecord option) \<Rightarrow> ('s \<Rightarrow> bool) \<Rightarrow> 's coord \<Rightarrow> bool" where
  "coord_inv view good x \<longleftrightarrow>
     good (store x) \<and> distinct (map fst (running x)) \<and>
     (\<forall>(k, i, e) \<in> set (running x). clock x < e \<and> owns view k i e (store x))"

lemma distinct_keys_remove1: "distinct (map fst xs) \<Longrightarrow> distinct (map fst (remove1 x xs))"
  by (induction xs) (auto dest: set_remove1_subset [THEN subsetD])

lemma distinct_keys_others:
  "distinct (map fst xs) \<Longrightarrow> (k, v) \<in> set xs \<Longrightarrow> (k', v') \<in> set (remove1 (k, v) xs) \<Longrightarrow> k' \<noteq> k"
  using eq_key_imp_eq_value [of xs k v v'] by (auto simp: distinct_map set_remove1_eq)

context idempotency_repository
begin

lemma coord_inv_frame:
  assumes inv: "coord_inv view good x" and "good s'"
    and same: "\<And>k i e. (k, i, e) \<in> set rs \<Longrightarrow> view s' k = view (store x) k"
    and rs: "set rs \<subseteq> set (running x)" "distinct (map fst rs)"
  shows "coord_inv view good (x\<lparr>store := s', running := rs\<rparr>)"
  using assms by (fastforce simp: coord_inv_def owns_def)

lemma coord_step_inv:
  assumes "coord_step cd repo x y" and inv: "coord_inv view good x"
  shows "coord_inv view good y"
  using assms(1)
proof cases
  case (granted ttl sc h fp lu i s')
  have good: "good (store x)" using inv by (simp add: coord_inv_def)
  note post = claim_effects [OF good granted(3)]
  have free: "k \<noteq> (sc, h)" if "(k, j, e) \<in> set (running x)" for k j e
  proof
    assume "k = (sc, h)"
    with that inv have "guarded view (sc, h) e (store x)" "clock x < e"
      by (auto simp: coord_inv_def intro: owns_guarded)
    from claim_guarded(2) [OF good this granted(3)] show False by blast
  qed
  have old: "clock x < e \<and> owns view k j e s'" if "(k, j, e) \<in> set (running x)" for k j e
  proof -
    have "view s' k = view (store x) k" using post free [OF that] unfolding claim_post_def by metis
    with that inv show ?thesis by (auto simp: coord_inv_def owns_def)
  qed
  have new: "owns view (sc, h) i (clock x + ttl) s'" "good s'"
    using post by (simp_all add: claim_post_def)
  have "(sc, h) \<notin> fst ` set (running x)" using free by force
  then have "distinct (map fst (((sc, h), i, clock x + ttl) # running x))"
    using inv by (simp add: coord_inv_def)
  moreover have "\<forall>(k, j, e) \<in> set (((sc, h), i, clock x + ttl) # running x). clock x < e \<and> owns view k j e s'"
    using old new granted(2) by auto
  ultimately show ?thesis using granted(1) new(2) by (simp add: coord_inv_def)
next
  case (denied sc h fp lu ex c s')
  have good: "good (store x)" using inv by (simp add: coord_inv_def)
  note post = claim_effects [OF good denied(2)]
  have "view s' k = view (store x) k" if "(k, j, e) \<in> set (running x)" for k j e
  proof (cases "k = (sc, h)")
    case True
    with that inv have "guarded view (sc, h) e (store x)" "clock x < e"
      by (auto simp: coord_inv_def intro: owns_guarded)
    from claim_guarded(1) [OF good this denied(2)] show ?thesis by simp
  next
    case False
    with post show ?thesis unfolding claim_post_def by blast
  qed
  with coord_inv_frame [OF inv, of s' "running x"] denied(1) post inv show ?thesis
    by (auto simp: claim_post_def coord_inv_def)
next
  case (finished k i e st body res s')
  have good: "good (store x)" and d: "distinct (map fst (running x))" and o: "owns view k i e (store x)"
    using inv finished(2) by (auto simp: coord_inv_def)
  note post = succeed_post [OF good o finished(3)]
  have "view s' k' = view (store x) k'" if "(k', i', e') \<in> set (remove1 (k, i, e) (running x))" for k' i' e'
    by (rule post(2)) (rule distinct_keys_others [OF d finished(2) that])
  with coord_inv_frame [OF inv post(1), of "remove1 (k, i, e) (running x)"] finished(1)
  show ?thesis by (simp add: distinct_keys_remove1 d set_remove1_subset)
next
  case (failed k i e why lu res s')
  have good: "good (store x)" and d: "distinct (map fst (running x))" and o: "owns view k i e (store x)"
    using inv failed(2) by (auto simp: coord_inv_def)
  note post = fail_post [OF good o failed(3)]
  have "view s' k' = view (store x) k'" if "(k', i', e') \<in> set (remove1 (k, i, e) (running x))" for k' i' e'
    by (rule post(2)) (rule distinct_keys_others [OF d failed(2) that])
  with coord_inv_frame [OF inv post(1), of "remove1 (k, i, e) (running x)"] failed(1)
  show ?thesis by (simp add: distinct_keys_remove1 d set_remove1_subset)
next
  case (purged limit resd s')
  have good: "good (store x)" using inv by (simp add: coord_inv_def)
  have "view s' k = view (store x) k" if "(k, i, e) \<in> set (running x)" for k i e
    using delete_effect [OF good purged(2), of k] that inv by (fastforce simp: coord_inv_def owns_def)
  with coord_inv_frame [OF inv delete_good [OF good purged(2)], of "running x"] purged(1) inv
  show ?thesis by (auto simp: coord_inv_def)
next
  case (tick t)
  then show ?thesis using inv by (auto simp: coord_inv_def)
qed

lemma coord_reachable_inv: "coord_reachable cd repo good x \<Longrightarrow> coord_inv view good x"
proof (induction rule: coord_reachable.induct)
  case (start s t)
  then show ?case by (simp add: coord_inv_def)
next
  case (step x y)
  then show ?case using coord_step_inv by blast
qed

end

section \<open>Retry-After survives the error metadata\<close>

lemma of_char_digit: "d < 10 \<Longrightarrow> (of_char (char_of (48 + d :: nat)) :: nat) = 48 + d"
  by simp

lemma parse_digits_snoc:
  "parse_digits acc (xs @ [a]) =
     (case parse_digits acc xs of
        None \<Rightarrow> None
      | Some m \<Rightarrow> if in_range 48 57 a then Some (m * 10 + (of_char a - 48)) else None)"
  by (induction acc xs rule: parse_digits.induct) (auto split: option.split)

lemma parse_digits_of: "parse_digits 0 (digits_of n) = Some n"
proof (induction n rule: digits_of.induct)
  case (1 n)
  show ?case
  proof (cases "n < 10")
    case True
    then show ?thesis by (simp add: digits_of.simps [of n] in_range_def of_char_digit)
  next
    case False
    have "n mod 10 < 10" by simp
    then have "in_range 48 57 (char_of (48 + n mod 10))" by (simp add: in_range_def)
    moreover have "n div 10 * 10 + (of_char (char_of (48 + n mod 10) :: char) - 48) = n"
      using of_char_digit [of "n mod 10"] by simp
    ultimately show ?thesis
      using False 1 by (simp add: digits_of.simps [of n] parse_digits_snoc)
  qed
qed

lemma atoi_digits: "int n < 2 ^ 63 \<Longrightarrow> atoi (digits_of n) = Some (int n)"
proof -
  assume n: "int n < 2 ^ 63"
  obtain a s where d: "digits_of n = a # s" by (cases "digits_of n") auto
  then have "in_range 48 57 a" using digits_of_range [of n] by simp
  then have "a \<noteq> CHR ''-''" "a \<noteq> CHR ''+''" by (auto simp: in_range_def)
  then show ?thesis using d n parse_digits_of [of n] by (simp add: atoi_def Let_def)
qed

lemma retry_after_roundtrip:
  assumes "0 < i" "i < 2 ^ 63"
  shows "RetryAfterSecondsFromError (WithMetadata (New c r m) (Some [(''retry_after'', itoa i)])) = i"
proof -
  have it: "itoa i = digits_of (nat i)" using assms by (simp add: itoa_def)
  have "trim_space (itoa i) = itoa i" by (simp add: it trim_space_digits digits_of_range)
  moreover have "atoi (itoa i) = Some i" using atoi_digits [of "nat i"] assms by (simp add: it)
  ultimately show ?thesis
    using assms it by (simp add: RetryAfterSecondsFromError_def New_def Let_def)
qed

lemma conflict_retry_after:
  assumes "now < u"
  shows "RetryAfterSecondsFromError (conflictWithRetryAfter (New c r m) (Some u) now) =
           max 1 (min (u - now) max_duration div second)"
    and "errors_is (conflictWithRetryAfter (New c r m) (Some u) now) (New c r m)"
proof -
  have sub: "time_sub u now = min (u - now) max_duration"
    using assms by (simp add: time_sub_def min_duration_def max_duration_def)
  let ?d = "min (u - now) max_duration"
  have "0 < ?d" "?d \<le> max_duration" using assms by (simp_all add: max_duration_def)
  then have ws: "whole_seconds (time_sub u now) = ?d div second" "?d div second < 2 ^ 63"
    by (simp_all add: sub whole_seconds_def trunc_div_def max_duration_def)
  then show "RetryAfterSecondsFromError (conflictWithRetryAfter (New c r m) (Some u) now) =
           max 1 (?d div second)"
    by (auto simp: conflictWithRetryAfter_def Let_def retry_after_roundtrip)
  show "errors_is (conflictWithRetryAfter (New c r m) (Some u) now) (New c r m)"
    by (simp add: conflictWithRetryAfter_def Let_def)
qed

section \<open>Execute on a healthy database\<close>

lemmas execute_unfold = Execute_def idem_claim_def idem_existing_def Let_def

lemma claim_existing_healthy:
  assumes "row_by_key t (sc, h) = Some r"
  shows "idem_claim cd sql_idempotency_repository sc h fp now lu ex (t, []) =
         idem_existing cd sql_idempotency_repository sc h fp now lu ex (t\<lparr>next_id := next_id t + 1\<rparr>, [])"
proof -
  have "key_of (new_processing_record sc h fp lu ex) = (sc, h)"
    by (simp add: new_processing_record_def key_of_def)
  with assms show ?thesis by (simp add: idem_claim_def sql_CreateProcessing_def insert_row_def)
qed

lemma existing_healthy:
  assumes "row_by_key t (sc, h) = Some r" "now < ExpiresAt r"
  shows "idem_existing cd sql_idempotency_repository sc h fp now lu ex (t, []) =
         (if RequestFingerprint r \<noteq> fp then (Refused ErrIdempotencyKeyConflict, (t, []))
          else idem_dispatch cd sql_idempotency_repository r now lu ex (t, []))"
  using assms by (simp add: idem_existing_def sql_GetByScopeAndKeyHash_def)

lemma row_by_key_next_id [simp]: "row_by_key (t\<lparr>next_id := n\<rparr>) = row_by_key t"
  by (simp add: row_by_key_def fun_eq_iff)

section \<open>Properties\<close>

text \<open>A concrete codec and table for the examples below: hashing and JSON are the identity.\<close>

definition demo_codec :: "(string, string) codec" where
  "demo_codec = \<lparr>sha256_hex = id, marshal_payload = Inr, marshal_data = Inr, unmarshal_data = Inr,
     redact_text = id, empty_object = []\<rparr>"

definition demo_opts :: "string IdempotencyExecuteOptions" where
  "demo_opts = \<lparr>opt_Scope = ''s'', opt_ActorScope = ''u'', opt_Method = ''post'', opt_Route = ''r'',
     opt_IdempotencyKey = '' k'', opt_Payload = ''p'', opt_TTL = 100, opt_RequireKey = True\<rparr>"

definition demo_table :: idempotency_table where
  "demo_table = \<lparr>rows = [], next_id = 1, db_now = 0\<rparr>"

definition demo_exec :: "nat \<Rightarrow> (go_error + string) \<times> nat" where
  "demo_exec n = (Inr ''done'', Suc n)"

definition demo_row :: "string \<Rightarrow> string \<Rightarrow> time option \<Rightarrow> IdempotencyRecord" where
  "demo_row status fp locked = \<lparr>ID = 1, Scope = ''s'', IdempotencyKeyHash = ''k'', RequestFingerprint = fp,
     Status = status, ResponseStatus = Some 200, ResponseBody = Some ''done'', ErrorReason = None,
     LockedUntil = locked, ExpiresAt = 100 * second, CreatedAt = 0, UpdatedAt = 0\<rparr>"

definition demo_fp :: string where
  "demo_fp = ''POST'' @ [CHR 0x0A] @ ''r'' @ [CHR 0x0A] @ ''u'' @ [CHR 0x0A] @ ''p''"

definition demo_table_with :: "IdempotencyRecord \<Rightarrow> idempotency_table" where
  "demo_table_with r = \<lparr>rows = [r], next_id = 2, db_now = 0\<rparr>"

lemmas demo_defs = demo_codec_def demo_opts_def demo_table_def demo_exec_def demo_row_def
  demo_fp_def demo_table_with_def

lemma demo_keyed [simp]: "keyed demo_opts" "trim_space (opt_IdempotencyKey demo_opts) = ''k''"
  "exec_key demo_codec demo_opts = (''s'', ''k'')"
  by (simp_all add: keyed_def demo_defs trim_space_def ws1_def ws2_def ws3_def exec_key_def
      HashIdempotencyKey_def)

lemma demo_key [simp]: "NormalizeIdempotencyKey (opt_IdempotencyKey demo_opts) = Inr ''k''"
  by (simp add: NormalizeIdempotencyKey_def printable_def)

lemma demo_fingerprint [simp]:
  "BuildIdempotencyFingerprint demo_codec (opt_Method demo_opts) (opt_Route demo_opts)
     (opt_ActorScope demo_opts) (opt_Payload demo_opts) = Inr demo_fp"
proof -
  have "to_upper ''post'' = ''POST''" by code_simp
  then show ?thesis by (simp add: BuildIdempotencyFingerprint_def demo_defs Let_def)
qed

lemma demo_first_call:
  "Execute demo_codec DefaultIdempotencyConfig (Some sql_idempotency_repository) demo_opts
     (Some demo_exec) 0 0 (demo_table, []) 0 =
   (Inr \<lparr>Data = ''done'', Replayed = False\<rparr>,
    (\<lparr>rows = [\<lparr>ID = 1, Scope = ''s'', IdempotencyKeyHash = ''k'', RequestFingerprint = demo_fp,
        Status = IdempotencyStatusSucceeded, ResponseStatus = Some 200, ResponseBody = Some ''done'',
        ErrorReason = None, LockedUntil = None, ExpiresAt = 100, CreatedAt = 0, UpdatedAt = 0\<rparr>],
      next_id = 2, db_now = 0\<rparr>, []), 1)"
  by (simp add: Execute_def demo_key idem_claim_def Let_def)
     (simp add: demo_defs HashIdempotencyKey_def new_processing_record_def sql_CreateProcessing_def
      insert_row_def row_by_key_def Let_def idem_run_def marshalStoredResponse_def
      DefaultIdempotencyConfig_def sql_MarkSucceeded_def update_where_def succeed_row_def execute_ttl_def)



text \<open>
  A call that repeats a succeeded request before it expires, with the same fingerprint,
  returns the stored response marked as replayed, runs nothing and leaves the records alone.
\<close>

theorem execute_replays_success:
  assumes "NormalizeIdempotencyKey (opt_IdempotencyKey opts) = Inr key" "key \<noteq> []" "opt_Scope opts \<noteq> []"
    and "BuildIdempotencyFingerprint cd (opt_Method opts) (opt_Route opts) (opt_ActorScope opts)
           (opt_Payload opts) = Inr (RequestFingerprint r)"
    and "row_by_key t (opt_Scope opts, HashIdempotencyKey cd key) = Some r"
    and "Status r = IdempotencyStatusSucceeded" "now < ExpiresAt r"
    and "decodeStoredResponse cd (ResponseBody r) = Inr d"
  shows "Execute cd cfg (Some sql_idempotency_repository) opts (Some f) now later (t, []) w =
           (Inr \<lparr>Data = d, Replayed = True\<rparr>, (t\<lparr>next_id := next_id t + 1\<rparr>, []), w)"
  using assms
  by (simp add: Execute_def claim_existing_healthy [OF assms(5)] Let_def del: sql_repository_simps)
     (simp add: existing_healthy idem_dispatch_def del: sql_repository_simps)

theorem execute_replays_success_witness:
  "Execute demo_codec DefaultIdempotencyConfig (Some sql_idempotency_repository) demo_opts
     (Some demo_exec) 7 7 (demo_table_with (demo_row ''succeeded'' demo_fp None), []) 5 =
   (Inr \<lparr>Data = ''done'', Replayed = True\<rparr>,
    ((demo_table_with (demo_row ''succeeded'' demo_fp None))\<lparr>next_id := 3\<rparr>, []), 5)"
  using execute_replays_success [where opts = demo_opts and cd = demo_codec and now = 7 and d = "''done''"
      and r = "demo_row ''succeeded'' demo_fp None" and key = "''k''"
      and t = "demo_table_with (demo_row ''succeeded'' demo_fp None)" and w = 5 and later = 7
      and f = demo_exec and cfg = DefaultIdempotencyConfig]
  by (simp add: IdempotencyStatusSucceeded_def row_by_key_def key_of_def HashIdempotencyKey_def
      decodeStoredResponse_def demo_row_def demo_table_with_def trim_space_def ws1_def ws2_def ws3_def
      del: sql_repository_simps)
     (simp add: demo_opts_def demo_codec_def del: sql_repository_simps)

text \<open>
  A key that comes back with another request fingerprint is refused with the key
  conflict error while its record has not been deleted, in whatever state the record is, and
  nothing runs.
\<close>

theorem execute_refuses_other_payload:
  assumes "NormalizeIdempotencyKey (opt_IdempotencyKey opts) = Inr key" "key \<noteq> []" "opt_Scope opts \<noteq> []"
    and "BuildIdempotencyFingerprint cd (opt_Method opts) (opt_Route opts) (opt_ActorScope opts)
           (opt_Payload opts) = Inr fp"
    and "row_by_key t (opt_Scope opts, HashIdempotencyKey cd key) = Some r" "RequestFingerprint r \<noteq> fp"
  shows "Execute cd cfg (Some sql_idempotency_repository) opts (Some f) now later (t, []) w =
           (Inl ErrIdempotencyKeyConflict, (t\<lparr>next_id := next_id t + 1\<rparr>, []), w)"
  using assms
  by (simp add: Execute_def claim_existing_healthy [OF assms(5)] Let_def del: sql_repository_simps)
     (simp add: idem_existing_def sql_GetByScopeAndKeyHash_def)

theorem execute_refuses_other_payload_witness:
  "Execute demo_codec DefaultIdempotencyConfig (Some sql_idempotency_repository) demo_opts
     (Some demo_exec) 7 7 (demo_table_with (demo_row ''succeeded'' ''other'' None), []) 5 =
   (Inl ErrIdempotencyKeyConflict,
    ((demo_table_with (demo_row ''succeeded'' ''other'' None))\<lparr>next_id := 3\<rparr>, []), 5)"
  using execute_refuses_other_payload [where opts = demo_opts and cd = demo_codec and now = 7
      and r = "demo_row ''succeeded'' ''other'' None" and key = "''k''" and fp = demo_fp
      and t = "demo_table_with (demo_row ''succeeded'' ''other'' None)" and w = 5 and later = 7
      and f = demo_exec and cfg = DefaultIdempotencyConfig]
  by (simp add: row_by_key_def key_of_def HashIdempotencyKey_def demo_row_def demo_table_with_def
      del: sql_repository_simps)
     (simp add: demo_opts_def demo_codec_def demo_fp_def del: sql_repository_simps)

text \<open>
  After a failed run, calls inside the backoff window are refused without running; the
  error is the backoff error and its metadata tells the client the remaining whole seconds,
  at least one, which \<open>RetryAfterSecondsFromError\<close> reads back.
\<close>

theorem execute_backs_off:
  assumes "NormalizeIdempotencyKey (opt_IdempotencyKey opts) = Inr key" "key \<noteq> []" "opt_Scope opts \<noteq> []"
    and "BuildIdempotencyFingerprint cd (opt_Method opts) (opt_Route opts) (opt_ActorScope opts)
           (opt_Payload opts) = Inr (RequestFingerprint r)"
    and "row_by_key t (opt_Scope opts, HashIdempotencyKey cd key) = Some r"
    and "Status r = IdempotencyStatusFailedRetryable" "LockedUntil r = Some u" "now < u" "now < ExpiresAt r"
  shows "\<exists>e s'. Execute cd cfg (Some sql_idempotency_repository) opts (Some f) now later (t, []) w = (Inl e, s', w) \<and>
           errors_is e ErrIdempotencyRetryBackoff \<and>
           RetryAfterSecondsFromError e = max 1 (min (u - now) max_duration div second)"
proof -
  let ?e = "conflictWithRetryAfter ErrIdempotencyRetryBackoff (Some u) now"
  have "Execute cd cfg (Some sql_idempotency_repository) opts (Some f) now later (t, []) w =
        (Inl ?e, (t\<lparr>next_id := next_id t + 1\<rparr>, []), w)"
    using assms
    by (simp add: Execute_def claim_existing_healthy [OF assms(5)] Let_def del: sql_repository_simps)
       (simp add: existing_healthy idem_dispatch_def del: sql_repository_simps)
  with conflict_retry_after [OF assms(8)] show ?thesis
    unfolding ErrIdempotencyRetryBackoff_def Conflict_def by blast
qed

theorem execute_backs_off_witness:
  "\<exists>e s'. Execute demo_codec DefaultIdempotencyConfig (Some sql_idempotency_repository) demo_opts (Some demo_exec)
       (7 * second) 7 (demo_table_with (demo_row ''failed_retryable'' demo_fp (Some (9500 * millisecond))), []) 5 =
       (Inl e, s', 5) \<and>
     errors_is e ErrIdempotencyRetryBackoff \<and> RetryAfterSecondsFromError e = 2"
proof -
  let ?r = "demo_row ''failed_retryable'' demo_fp (Some (9500 * millisecond))"
  have "row_by_key (demo_table_with ?r) (opt_Scope demo_opts, HashIdempotencyKey demo_codec ''k'') = Some ?r"
    by (simp add: row_by_key_def key_of_def HashIdempotencyKey_def demo_defs)
  then show ?thesis
    using execute_backs_off [where opts = demo_opts and cd = demo_codec and now = "7 * second" and later = 7
        and r = ?r and key = "''k''" and t = "demo_table_with ?r" and w = 5 and f = demo_exec
        and cfg = DefaultIdempotencyConfig and u = "9500 * millisecond"]
    by (simp add: IdempotencyStatusFailedRetryable_def demo_row_def max_duration_def del: sql_repository_simps)
       (simp add: demo_opts_def del: sql_repository_simps)
qed



section \<open>Stored responses are bounded\<close>

lemma shrink_to_valid_prefix: "prefix (shrink_to_valid s n) s"
  by (induction s n rule: shrink_to_valid.induct) (auto simp: take_is_prefix)

lemma shrink_to_valid_length: "length (shrink_to_valid s n) \<le> n"
  by (induction s n rule: shrink_to_valid.induct) auto

lemma shrink_to_valid_utf8: "valid_utf8 (shrink_to_valid s n)"
  by (induction s n rule: shrink_to_valid.induct) auto

lemma shrink_to_valid_longest:
  "m \<le> n \<Longrightarrow> m \<le> length s \<Longrightarrow> valid_utf8 (take m s) \<Longrightarrow> m \<le> length (shrink_to_valid s n)"
proof (induction s n rule: shrink_to_valid.induct)
  case (2 s n)
  then show ?case by (cases "m = Suc n") auto
qed simp

lemma truncateUTF8_length: "0 < m \<Longrightarrow> int (length (truncateUTF8 s m)) \<le> m"
  using shrink_to_valid_length [of s "nat m"] by (auto simp: truncateUTF8_def)

text \<open>
  C34: The cut of a stored response is the longest prefix of the text, within the byte
  limit, that is valid UTF-8, so a multi-byte character is never split.
\<close>

theorem truncateUTF8_longest_valid_prefix:
  assumes "0 < m" "m < int (length s)"
  shows "prefix (truncateUTF8 s m) s \<and> valid_utf8 (truncateUTF8 s m) \<and>
         int (length (truncateUTF8 s m)) \<le> m \<and>
         (\<forall>p. prefix p s \<longrightarrow> valid_utf8 p \<longrightarrow> int (length p) \<le> m \<longrightarrow> length p \<le> length (truncateUTF8 s m))"
proof -
  have "length p \<le> length (shrink_to_valid s (nat m))"
    if "prefix p s" "valid_utf8 p" "int (length p) \<le> m" for p
    using that shrink_to_valid_longest [of "length p" "nat m" s] by (auto simp: prefix_def)
  then show ?thesis
    using assms truncateUTF8_length [OF assms(1), of s]
    by (simp add: truncateUTF8_def shrink_to_valid_prefix shrink_to_valid_utf8)
qed

theorem truncateUTF8_longest_valid_prefix_witness:
  "truncateUTF8 [CHR ''a'', CHR 0xC3, CHR 0xA9] 2 = ''a'' \<and>
   valid_utf8 (truncateUTF8 [CHR ''a'', CHR 0xC3, CHR 0xA9] 2)"
proof
  show "truncateUTF8 [CHR ''a'', CHR 0xC3, CHR 0xA9] 2 = ''a''" by code_simp
  show "valid_utf8 (truncateUTF8 [CHR ''a'', CHR 0xC3, CHR 0xA9] 2)"
    using truncateUTF8_longest_valid_prefix [of 2 "[CHR ''a'', CHR 0xC3, CHR 0xA9]"] by simp
qed

lemma stored_response_bounded:
  assumes "marshalStoredResponse cd cfg d = Inr body" "0 < MaxStoredResponseLen cfg"
  shows "int (length body) \<le> MaxStoredResponseLen cfg + 14"
  using assms truncateUTF8_length [of "MaxStoredResponseLen cfg"]
  by (auto simp: marshalStoredResponse_def Let_def split: sum.splits if_splits)

end
