(* ===== verification/IdempotencyRaces.thy ===== *)
theory IdempotencyRaces
  imports IdempotencyCoordinator
begin

text \<open>
  The claim of \<open>IdempotencyCoordinator.Execute\<close> (\<open>service/idempotency.go\<close>) statement by statement.
  \<open>idem_claim\<close> runs all statements of one call without interruption; here each caller has a
  program counter, the statements of many callers interleave, and executors take as long as they
  want within the lifetime of their claim. The two views agree on a caller that runs alone.
\<close>

section \<open>One caller, one statement at a time\<close>

datatype 'd claim_pc =
    AtCreate
  | AtRead
  | AtReclaim IdempotencyRecord
  | AtReread
  | AtRetry IdempotencyRecord
  | ClaimDone "'d claim"
  | Ended

record 'd claimer =
  cl_scope :: string
  cl_hash :: string
  cl_fp :: string
  cl_now :: time
  cl_lockedUntil :: time
  cl_expiresAt :: time
  cl_pc :: "'d claim_pc"

abbreviation cl_key :: "'d claimer \<Rightarrow> string \<times> string" where
  "cl_key c \<equiv> (cl_scope c, cl_hash c)"

text \<open>The \<open>switch existing.Status\<close> up to its only statement.\<close>

definition dispatch_pc :: "('p, 'd) codec \<Rightarrow> IdempotencyRecord \<Rightarrow> time \<Rightarrow> 'd claim_pc" where
  "dispatch_pc cd existing now =
     (if Status existing = IdempotencyStatusSucceeded then
        (case decodeStoredResponse cd (ResponseBody existing) of
           Inl e \<Rightarrow> ClaimDone (Refused (WithCause ErrIdempotencyStoreUnavail e))
         | Inr d \<Rightarrow> ClaimDone (Replay d))
      else if Status existing = IdempotencyStatusProcessing then
        ClaimDone (Refused (conflictWithRetryAfter ErrIdempotencyInProgress (LockedUntil existing) now))
      else if Status existing = IdempotencyStatusFailedRetryable then
        (if (case LockedUntil existing of None \<Rightarrow> False | Some u \<Rightarrow> now < u)
         then ClaimDone (Refused (conflictWithRetryAfter ErrIdempotencyRetryBackoff (LockedUntil existing) now))
         else AtRetry existing)
      else ClaimDone (Refused ErrIdempotencyKeyConflict))"

definition read_pc ::
  "('p, 'd) codec \<Rightarrow> 'd claimer \<Rightarrow> bool \<Rightarrow> go_error + IdempotencyRecord option \<Rightarrow> 'd claim_pc" where
  "read_pc cd c first found =
     (case found of
        Inl e \<Rightarrow> ClaimDone (Refused (WithCause ErrIdempotencyStoreUnavail e))
      | Inr None \<Rightarrow> ClaimDone (Refused ErrIdempotencyStoreUnavail)
      | Inr (Some existing) \<Rightarrow>
          if RequestFingerprint existing \<noteq> cl_fp c then ClaimDone (Refused ErrIdempotencyKeyConflict)
          else if first \<and> \<not> cl_now c < ExpiresAt existing then AtReclaim existing
          else dispatch_pc cd existing (cl_now c))"

definition claim_micro ::
  "('p, 'd) codec \<Rightarrow> 's IdempotencyRepository \<Rightarrow> 'd claimer \<Rightarrow> 's \<Rightarrow> 'd claim_pc \<times> 's" where
  "claim_micro cd repo c s =
     (case cl_pc c of
        AtCreate \<Rightarrow>
          (case CreateProcessing repo
                  (new_processing_record (cl_scope c) (cl_hash c) (cl_fp c) (cl_lockedUntil c) (cl_expiresAt c)) s of
             (Inl e, s') \<Rightarrow> (ClaimDone (Refused (WithCause ErrIdempotencyStoreUnavail e)), s')
           | (Inr (owner, record'), s') \<Rightarrow> (if owner then ClaimDone (Claimed (ID record')) else AtRead, s'))
      | AtRead \<Rightarrow>
          (case GetByScopeAndKeyHash repo (cl_scope c) (cl_hash c) s of (found, s') \<Rightarrow> (read_pc cd c True found, s'))
      | AtReclaim existing \<Rightarrow>
          (case TryReclaim repo (ID existing) (Status existing) (cl_now c) (cl_lockedUntil c) (cl_expiresAt c) s of
             (Inl e, s') \<Rightarrow> (ClaimDone (Refused (WithCause ErrIdempotencyStoreUnavail e)), s')
           | (Inr taken, s') \<Rightarrow> (if taken then ClaimDone (Claimed (ID existing)) else AtReread, s'))
      | AtReread \<Rightarrow>
          (case GetByScopeAndKeyHash repo (cl_scope c) (cl_hash c) s of (found, s') \<Rightarrow> (read_pc cd c False found, s'))
      | AtRetry existing \<Rightarrow>
          (case TryReclaim repo (ID existing) IdempotencyStatusFailedRetryable (cl_now c) (cl_lockedUntil c)
                  (cl_expiresAt c) s of
             (Inl e, s') \<Rightarrow> (ClaimDone (Refused (WithCause ErrIdempotencyStoreUnavail e)), s')
           | (Inr taken, s') \<Rightarrow>
               (if taken then ClaimDone (Claimed (ID existing))
                else ClaimDone (Refused (conflictWithRetryAfter ErrIdempotencyInProgress (LockedUntil existing) (cl_now c))), s'))
      | pc \<Rightarrow> (pc, s))"

fun claim_alone ::
  "('p, 'd) codec \<Rightarrow> 's IdempotencyRepository \<Rightarrow> nat \<Rightarrow> 'd claimer \<Rightarrow> 's \<Rightarrow> 'd claim_pc \<times> 's" where
  "claim_alone cd repo 0 c s = (cl_pc c, s)"
| "claim_alone cd repo (Suc n) c s =
     (case claim_micro cd repo c s of (pc, s') \<Rightarrow> claim_alone cd repo n (c\<lparr>cl_pc := pc\<rparr>) s')"

definition new_claimer :: "string \<Rightarrow> string \<Rightarrow> string \<Rightarrow> time \<Rightarrow> time \<Rightarrow> time \<Rightarrow> 'd claimer" where
  "new_claimer sc h fp now lu ex =
     \<lparr>cl_scope = sc, cl_hash = h, cl_fp = fp, cl_now = now, cl_lockedUntil = lu, cl_expiresAt = ex, cl_pc = AtCreate\<rparr>"

lemma claim_alone_done: "cl_pc c = ClaimDone r \<Longrightarrow> claim_alone cd repo n c s = (ClaimDone r, s)"
  by (induction n arbitrary: c s) (simp_all add: claim_micro_def)

lemma claim_alone_retry:
  "cl_pc c = AtRetry e \<Longrightarrow> claim_alone cd repo (Suc n) c s =
     (case TryReclaim repo (ID e) IdempotencyStatusFailedRetryable (cl_now c) (cl_lockedUntil c) (cl_expiresAt c) s of
             (Inl e, s') \<Rightarrow> (ClaimDone (Refused (WithCause ErrIdempotencyStoreUnavail e)), s')
           | (Inr taken, s') \<Rightarrow>
               (if taken then ClaimDone (Claimed (ID e))
                else ClaimDone (Refused (conflictWithRetryAfter ErrIdempotencyInProgress (LockedUntil e) (cl_now c))), s'))"
  by (auto simp: claim_micro_def claim_alone_done split: prod.split sum.split)

lemma claim_alone_dispatch:
  assumes "cl_pc c = dispatch_pc cd existing (cl_now c)"
  shows "claim_alone cd repo (Suc n) c s =
     map_prod ClaimDone id (idem_dispatch cd repo existing (cl_now c) (cl_lockedUntil c) (cl_expiresAt c) s)"
proof (cases "\<exists>e. cl_pc c = AtRetry e")
  case True
  then obtain e where e: "cl_pc c = AtRetry e" by blast
  with assms have "existing = e" "Status e = IdempotencyStatusFailedRetryable"
    "\<not> (case LockedUntil e of None \<Rightarrow> False | Some u \<Rightarrow> cl_now c < u)"
    by (auto simp: dispatch_pc_def split: if_splits sum.splits)
  then show ?thesis
    by (simp add: claim_alone_retry [OF e] idem_dispatch_def IdempotencyStatusFailedRetryable_def
        IdempotencyStatusProcessing_def IdempotencyStatusSucceeded_def del: claim_alone.simps split: prod.split sum.split)
next
  case False
  with assms obtain r where r: "cl_pc c = ClaimDone r"
    by (auto simp: dispatch_pc_def split: if_splits sum.splits)
  with assms show ?thesis
    by (auto simp: claim_alone_done [OF r] dispatch_pc_def idem_dispatch_def simp del: claim_alone.simps
        split: if_splits sum.splits)
qed

lemma claim_alone_read2:
  assumes "cl_pc c = AtReread"
  shows "claim_alone cd repo (Suc (Suc n)) c s =
    (case GetByScopeAndKeyHash repo (cl_scope c) (cl_hash c) s of
       (Inl e, s3) \<Rightarrow> (ClaimDone (Refused (WithCause ErrIdempotencyStoreUnavail e)), s3)
     | (Inr None, s3) \<Rightarrow> (ClaimDone (Refused ErrIdempotencyStoreUnavail), s3)
     | (Inr (Some latest), s3) \<Rightarrow>
         if RequestFingerprint latest \<noteq> cl_fp c then (ClaimDone (Refused ErrIdempotencyKeyConflict), s3)
         else map_prod ClaimDone id
                (idem_dispatch cd repo latest (cl_now c) (cl_lockedUntil c) (cl_expiresAt c) s3))"
  by (subst claim_alone.simps(2), subst claim_micro_def)
     (auto simp: assms read_pc_def claim_alone_dispatch claim_alone_done simp del: claim_alone.simps
        split: prod.split sum.split option.split)

lemma claim_alone_reclaim:
  assumes "cl_pc c = AtReclaim existing"
  shows "claim_alone cd repo (Suc (Suc (Suc n))) c s =
    (case TryReclaim repo (ID existing) (Status existing) (cl_now c) (cl_lockedUntil c) (cl_expiresAt c) s of
       (Inl e, s2) \<Rightarrow> (ClaimDone (Refused (WithCause ErrIdempotencyStoreUnavail e)), s2)
     | (Inr taken, s2) \<Rightarrow>
         if taken then (ClaimDone (Claimed (ID existing)), s2)
         else claim_alone cd repo (Suc (Suc n)) (c\<lparr>cl_pc := AtReread\<rparr>) s2)"
  by (subst claim_alone.simps(2), subst claim_micro_def)
     (auto simp: assms claim_alone_done simp del: claim_alone.simps split: prod.split sum.split)

lemma claim_alone_read:
  assumes "cl_pc c = AtRead"
  shows "claim_alone cd repo 4 c s =
    map_prod ClaimDone id
      (idem_existing cd repo (cl_scope c) (cl_hash c) (cl_fp c) (cl_now c) (cl_lockedUntil c) (cl_expiresAt c) s)"
proof -
  have four: "(4::nat) = Suc (Suc (Suc (Suc 0)))" by simp
  show ?thesis
    unfolding four
    by (subst claim_alone.simps(2), subst claim_micro_def)
       (auto simp: assms read_pc_def idem_existing_def claim_alone_dispatch claim_alone_done claim_alone_reclaim
          claim_alone_read2 simp del: claim_alone.simps split: prod.split sum.split option.split)
qed

text \<open>the statement-by-statement claim of a caller that runs alone is the claim of \<open>Execute\<close>: five
  statements are always enough, and result and database are the same for every repository, faults
  included.\<close>

theorem claim_alone_is_idem_claim:
  "claim_alone cd repo 5 (new_claimer sc h fp now lu ex) s =
     map_prod ClaimDone id (idem_claim cd repo sc h fp now lu ex s)"
proof -
  have five: "(5::nat) = Suc 4" by simp
  show ?thesis
    unfolding five
    by (subst claim_alone.simps(2), subst claim_micro_def)
       (auto simp: new_claimer_def idem_claim_def claim_alone_done claim_alone_read simp del: claim_alone.simps
          split: prod.split sum.split)
qed

section \<open>Many callers\<close>

record ('s, 'd) race =
  rc_clock :: time
  rc_store :: 's
  rc_callers :: "'d claimer list"

fun claiming :: "'d claim_pc \<Rightarrow> bool" where
  "claiming (ClaimDone _) = False"
| "claiming Ended = False"
| "claiming _ = True"

definition executing :: "'d claimer \<Rightarrow> int \<Rightarrow> bool" where
  "executing c i \<longleftrightarrow> cl_pc c = ClaimDone (Claimed i)"

fun reclaim_target :: "'d claim_pc \<Rightarrow> IdempotencyRecord option" where
  "reclaim_target (AtReclaim e) = Some e"
| "reclaim_target (AtRetry e) = Some e"
| "reclaim_target _ = None"

definition set_pc :: "nat \<Rightarrow> 'd claim_pc \<Rightarrow> 'd claimer list \<Rightarrow> 'd claimer list" where
  "set_pc i pc cs = cs[i := (cs ! i)\<lparr>cl_pc := pc\<rparr>]"

text \<open>
  The clock does not pass the processing timeout of a caller that is still claiming, nor the expiry
  of a claim whose executor has not reported: those are the only assumptions on speed. An executor
  may also end without a report (its response cannot be stored, or its process dies).
\<close>

definition in_time :: "duration \<Rightarrow> time \<Rightarrow> 'd claimer \<Rightarrow> bool" where
  "in_time pt t c \<longleftrightarrow>
     (claiming (cl_pc c) \<longrightarrow> t < cl_now c + pt \<and> t < cl_expiresAt c) \<and>
     ((\<exists>i. executing c i) \<longrightarrow> t < cl_expiresAt c)"

inductive race_step ::
  "('p, 'd) codec \<Rightarrow> 's IdempotencyRepository \<Rightarrow> duration \<Rightarrow> ('s, 'd) race \<Rightarrow> ('s, 'd) race \<Rightarrow> bool"
  for cd :: "('p, 'd) codec" and repo :: "'s IdempotencyRepository" and pt :: duration
where
  arrives: "0 < ttl \<Longrightarrow>
    race_step cd repo pt x
      (x\<lparr>rc_callers := rc_callers x @ [new_claimer sc h fp (rc_clock x) (rc_clock x + pt) (rc_clock x + ttl)]\<rparr>)"
| advances: "i < length (rc_callers x) \<Longrightarrow> claiming (cl_pc (rc_callers x ! i)) \<Longrightarrow>
    claim_micro cd repo (rc_callers x ! i) (rc_store x) = (pc, s') \<Longrightarrow>
    race_step cd repo pt x (x\<lparr>rc_store := s', rc_callers := set_pc i pc (rc_callers x)\<rparr>)"
| succeeds: "i < length (rc_callers x) \<Longrightarrow> executing (rc_callers x ! i) j \<Longrightarrow>
    MarkSucceeded repo j st body (cl_expiresAt (rc_callers x ! i)) (rc_store x) = (res, s') \<Longrightarrow>
    race_step cd repo pt x (x\<lparr>rc_store := s', rc_callers := set_pc i Ended (rc_callers x)\<rparr>)"
| fails: "i < length (rc_callers x) \<Longrightarrow> executing (rc_callers x ! i) j \<Longrightarrow>
    MarkFailedRetryable repo j why lu (cl_expiresAt (rc_callers x ! i)) (rc_store x) = (res, s') \<Longrightarrow>
    race_step cd repo pt x (x\<lparr>rc_store := s', rc_callers := set_pc i Ended (rc_callers x)\<rparr>)"
| gives_up: "i < length (rc_callers x) \<Longrightarrow> executing (rc_callers x ! i) j \<Longrightarrow>
    race_step cd repo pt x (x\<lparr>rc_callers := set_pc i Ended (rc_callers x)\<rparr>)"
| purges: "DeleteExpired repo (rc_clock x) limit (rc_store x) = (resd, s') \<Longrightarrow>
    race_step cd repo pt x (x\<lparr>rc_store := s'\<rparr>)"
| ticks: "rc_clock x \<le> t \<Longrightarrow> \<forall>c \<in> set (rc_callers x). in_time pt t c \<Longrightarrow>
    race_step cd repo pt x (x\<lparr>rc_clock := t\<rparr>)"

inductive race_reachable ::
  "('p, 'd) codec \<Rightarrow> 's IdempotencyRepository \<Rightarrow> ('s \<Rightarrow> bool) \<Rightarrow> duration \<Rightarrow> ('s, 'd) race \<Rightarrow> bool"
  for cd :: "('p, 'd) codec" and repo :: "'s IdempotencyRepository" and good :: "'s \<Rightarrow> bool" and pt :: duration
where
  race_start: "good s \<Longrightarrow> race_reachable cd repo good pt \<lparr>rc_clock = t, rc_store = s, rc_callers = []\<rparr>"
| race_more: "race_reachable cd repo good pt x \<Longrightarrow> race_step cd repo pt x y \<Longrightarrow> race_reachable cd repo good pt y"

inductive_cases race_stepE: "race_step cd repo pt x y"

section \<open>Identifiers are never used twice\<close>

text \<open>
  A caller that read a record names it later by its identifier. The contract of the repository is
  extended by the sequence the identifiers are drawn from.
\<close>

definition ids_kept ::
  "('s \<Rightarrow> string \<times> string \<Rightarrow> IdempotencyRecord option) \<Rightarrow> ('s \<Rightarrow> int) \<Rightarrow> 's \<Rightarrow> 's \<Rightarrow> bool" where
  "ids_kept view seq s s' \<longleftrightarrow>
     seq s \<le> seq s' \<and>
     (\<forall>k r. view s' k = Some r \<longrightarrow> (\<exists>r0. view s k = Some r0 \<and> ID r0 = ID r) \<or> seq s \<le> ID r)"

locale idempotency_sequence = idempotency_repository repo view good
  for repo :: "'s IdempotencyRepository"
    and view :: "'s \<Rightarrow> string \<times> string \<Rightarrow> IdempotencyRecord option"
    and good :: "'s \<Rightarrow> bool" +
  fixes seq :: "'s \<Rightarrow> int"
  assumes seq_above: "good s \<Longrightarrow> view s k = Some r \<Longrightarrow> ID r < seq s"
    and create_seq: "good s \<Longrightarrow> CreateProcessing repo r s = (resc, s') \<Longrightarrow>
      seq s \<le> seq s' \<and> (view s' k = Some r' \<longrightarrow> view s k = Some r' \<or> seq s \<le> ID r')"
    and get_seq: "GetByScopeAndKeyHash repo sc h s = (resg, s') \<Longrightarrow> seq s \<le> seq s'"
    and reclaim_seq: "TryReclaim repo i from now lu ex s = (resr, s') \<Longrightarrow> seq s \<le> seq s'"
    and succeed_seq: "MarkSucceeded repo i st body ex s = (resm, s') \<Longrightarrow> seq s \<le> seq s'"
    and fail_seq: "MarkFailedRetryable repo i why lu ex s = (resf, s') \<Longrightarrow> seq s \<le> seq s'"
    and delete_seq: "DeleteExpired repo now limit s = (resd, s') \<Longrightarrow> seq s \<le> seq s'"

definition sql_seq :: "idempotency_table conn \<Rightarrow> int" where
  "sql_seq c = next_id (fst c)"

lemma sql_update_seq:
  assumes "sql_exec (\<lambda>t. (g (fst (update_where p (f (db_now t)) t)), snd (update_where p (f (db_now t)) t))) c = (res, c')"
  shows "sql_seq c' = sql_seq c"
  using assms unfolding sql_seq_def
  by (rule sql_exec_inv [where P = "\<lambda>t. next_id t = next_id (fst c)"]) (simp_all add: update_where_def)

interpretation sql_sequence: idempotency_sequence sql_idempotency_repository sql_view sql_good sql_seq
proof
  fix s :: "idempotency_table conn" and k r
  assume "sql_good s" "sql_view s k = Some r"
  then show "ID r < sql_seq s"
    by (auto simp: sql_good_def sql_view_def sql_seq_def table_ok_def dest: row_by_key_Some)
next
  fix s s' :: "idempotency_table conn" and r r' resc k
  assume "sql_good s" and e: "CreateProcessing sql_idempotency_repository r s = (resc, s')"
  then have "fst s' = fst s \<or> fst s' = snd (insert_row r (fst s))"
    using sql_exec_cases [of "insert_row r" s] by (auto simp: sql_CreateProcessing_def)
  then show "sql_seq s \<le> sql_seq s' \<and> (sql_view s' k = Some r' \<longrightarrow> sql_view s k = Some r' \<or> sql_seq s \<le> ID r')"
    by (auto simp: sql_seq_def sql_view_def insert_row_def row_by_key_def Let_def find_append
        split: option.splits if_splits)
next
  fix s s' :: "idempotency_table conn" and sc h resg
  assume "GetByScopeAndKeyHash sql_idempotency_repository sc h s = (resg, s')"
  then show "sql_seq s \<le> sql_seq s'"
    using sql_exec_cases [of "\<lambda>t. (row_by_key t (sc, h), t)" s]
    by (auto simp: sql_GetByScopeAndKeyHash_def sql_seq_def)
next
  fix s s' :: "idempotency_table conn" and i "from" now lu ex resr
  assume "TryReclaim sql_idempotency_repository i from now lu ex s = (resr, s')"
  then show "sql_seq s \<le> sql_seq s'" by (auto simp: sql_reclaim_form dest!: sql_update_seq)
next
  fix s s' :: "idempotency_table conn" and i st body ex resm
  assume "MarkSucceeded sql_idempotency_repository i st body ex s = (resm, s')"
  then show "sql_seq s \<le> sql_seq s'" by (auto simp: sql_succeed_form dest!: sql_update_seq)
next
  fix s s' :: "idempotency_table conn" and i why lu ex resf
  assume "MarkFailedRetryable sql_idempotency_repository i why lu ex s = (resf, s')"
  then show "sql_seq s \<le> sql_seq s'" by (auto simp: sql_fail_form dest!: sql_update_seq)
next
  fix s s' :: "idempotency_table conn" and now limit resd
  assume "DeleteExpired sql_idempotency_repository now limit s = (resd, s')"
  then show "sql_seq s \<le> sql_seq s'"
    using sql_exec_cases [of "delete_expired now (if limit \<le> 0 then 500 else limit)" s]
    by (auto simp: sql_DeleteExpired_def sql_seq_def delete_expired_def Let_def split: if_splits)
qed

section \<open>What one statement of a claim does\<close>

definition holds_claim ::
  "('s \<Rightarrow> string \<times> string \<Rightarrow> IdempotencyRecord option) \<Rightarrow> 'd claimer \<Rightarrow> int \<Rightarrow> 's \<Rightarrow> bool" where
  "holds_claim view c i s \<longleftrightarrow>
     (\<exists>r. view s (cl_key c) = Some r \<and> ID r = i \<and> Status r = IdempotencyStatusProcessing \<and>
        ExpiresAt r = cl_expiresAt c \<and> LockedUntil r = Some (cl_lockedUntil c))"

definition target_known ::
  "('s \<Rightarrow> string \<times> string \<Rightarrow> IdempotencyRecord option) \<Rightarrow> ('s \<Rightarrow> int) \<Rightarrow> 'd claimer \<Rightarrow> 's \<Rightarrow> bool" where
  "target_known view seq c s \<longleftrightarrow>
     (\<forall>e. reclaim_target (cl_pc c) = Some e \<longrightarrow>
        ID e < seq s \<and> (\<forall>k r. view s k = Some r \<and> ID r = ID e \<longrightarrow> k = cl_key c))"

text \<open>The effect of one statement of the caller \<open>c\<close>.\<close>

definition micro_post ::
  "('s \<Rightarrow> string \<times> string \<Rightarrow> IdempotencyRecord option) \<Rightarrow> ('s \<Rightarrow> bool) \<Rightarrow> ('s \<Rightarrow> int) \<Rightarrow>
   'd claimer \<Rightarrow> 's \<Rightarrow> 'd claim_pc \<Rightarrow> 's \<Rightarrow> bool" where
  "micro_post view good seq c s pc s' \<longleftrightarrow>
     good s' \<and> ids_kept view seq s s' \<and>
     (\<forall>k. k \<noteq> cl_key c \<longrightarrow> view s' k = view s k) \<and>
     (\<forall>r u. view s (cl_key c) = Some r \<longrightarrow> LockedUntil r = Some u \<longrightarrow>
        (reclaim_target (cl_pc c) \<noteq> None \<longrightarrow> cl_now c < u) \<longrightarrow>
        view s' = view s \<and> (\<forall>i. pc \<noteq> ClaimDone (Claimed i))) \<and>
     (\<forall>i. pc = ClaimDone (Claimed i) \<longrightarrow> holds_claim view c i s') \<and>
     (\<forall>e. reclaim_target pc = Some e \<longrightarrow>
        view s' (cl_key c) = Some e \<and>
        (\<not> cl_now c < ExpiresAt e \<or> Status e = IdempotencyStatusFailedRetryable))"

lemma ids_kept_refl: "view s' = view s \<Longrightarrow> seq s \<le> seq s' \<Longrightarrow> ids_kept view seq s s'"
  by (auto simp: ids_kept_def)

lemma ids_kept_update:
  "view s' = (view s)(k \<mapsto> r') \<Longrightarrow> view s k = Some r \<Longrightarrow> ID r' = ID r \<Longrightarrow> seq s \<le> seq s' \<Longrightarrow> ids_kept view seq s s'"
  by (auto simp: ids_kept_def)

lemma dispatch_pc_target:
  "reclaim_target (dispatch_pc cd existing now) = Some e \<Longrightarrow>
     e = existing \<and> Status e = IdempotencyStatusFailedRetryable"
  "dispatch_pc cd existing now \<noteq> ClaimDone (Claimed i)"
  by (auto simp: dispatch_pc_def split: if_splits sum.splits option.splits)

lemma read_pc_target:
  "reclaim_target (read_pc cd c first found) = Some e \<Longrightarrow>
     found = Inr (Some e) \<and> (\<not> cl_now c < ExpiresAt e \<or> Status e = IdempotencyStatusFailedRetryable)"
  "read_pc cd c first found \<noteq> ClaimDone (Claimed i)"
  by (auto simp: read_pc_def dispatch_pc_target(2) split: if_splits sum.splits option.splits
      dest!: dispatch_pc_target(1))

context idempotency_sequence
begin

lemma read_micro:
  assumes "good s" "GetByScopeAndKeyHash repo (cl_scope c) (cl_hash c) s = (found, s')"
  shows "micro_post view good seq c s (read_pc cd c first found) s'"
proof -
  note g = get_post [OF assms]
  have "seq s \<le> seq s'" by (rule get_seq [OF assms(2)])
  with g(1,2) show ?thesis
    unfolding micro_post_def
    by (auto simp: ids_kept_refl read_pc_target(2) dest!: read_pc_target(1) intro: g(3) [symmetric])
qed

lemma reclaim_micro:
  assumes "good s" "target_known view seq c s" "reclaim_target (cl_pc c) = Some e"
    and ex: "TryReclaim repo (ID e) st (cl_now c) (cl_lockedUntil c) (cl_expiresAt c) s = (res, s')"
    and pc: "\<And>i. pc = ClaimDone (Claimed i) \<Longrightarrow> res = Inr True \<and> i = ID e" "reclaim_target pc = None"
  shows "micro_post view good seq c s pc s'"
proof -
  have good: "good s'" by (rule reclaim_good [OF assms(1) ex])
  have seq: "seq s \<le> seq s'" by (rule reclaim_seq [OF ex])
  have key: "k = cl_key c" if "view s k = Some r" "reclaimable (ID e) st (cl_now c) r" for k r
    using assms(2,3) that unfolding target_known_def reclaimable_def by blast
  have won: "holds_claim view c i s' \<and> (\<exists>r. view s (cl_key c) = Some r \<and> reclaimable (ID e) st (cl_now c) r)"
    if "pc = ClaimDone (Claimed i)" for i
  proof -
    have "TryReclaim repo (ID e) st (cl_now c) (cl_lockedUntil c) (cl_expiresAt c) s = (Inr True, s')"
      using ex pc(1) [OF that] by simp
    from reclaim_won [OF assms(1) this] obtain k r at' where r: "view s k = Some r"
      "reclaimable (ID e) st (cl_now c) r"
      "view s' = (view s)(k \<mapsto> reclaim_row at' (cl_lockedUntil c) (cl_expiresAt c) r)" by (elim exE conjE)
    with key [OF r(1,2)] pc(1) [OF that] show ?thesis
      by (auto simp: holds_claim_def reclaim_row_def reclaimable_def)
  qed
  consider "view s' = view s"
    | r at' where "view s (cl_key c) = Some r" "reclaimable (ID e) st (cl_now c) r"
      "view s' = (view s)(cl_key c \<mapsto> reclaim_row at' (cl_lockedUntil c) (cl_expiresAt c) r)"
    using reclaim_effect [OF assms(1) ex] key by blast
  then have ids: "ids_kept view seq s s'" and others: "\<forall>k. k \<noteq> cl_key c \<longrightarrow> view s' k = view s k"
    by (cases; simp add: ids_kept_refl ids_kept_update seq)+
  have same: "view s' = view s \<and> (\<forall>i. pc \<noteq> ClaimDone (Claimed i))"
    if "view s (cl_key c) = Some r" "LockedUntil r = Some u" "cl_now c < u" for r u
  proof -
    have "\<not> reclaimable (ID e) st (cl_now c) r" using that by (simp add: reclaimable_def)
    then show ?thesis using reclaim_effect [OF assms(1) ex] key won that(1) by fastforce
  qed
  show ?thesis
    unfolding micro_post_def using good ids others same won pc(2) assms(3) by auto
qed

lemma create_micro:
  assumes "good s" "cl_pc c = AtCreate"
    and ex: "CreateProcessing repo (new_processing_record (cl_scope c) (cl_hash c) (cl_fp c) (cl_lockedUntil c)
               (cl_expiresAt c)) s = (res, s')"
    and pc: "\<And>i. pc = ClaimDone (Claimed i) \<Longrightarrow> \<exists>r. res = Inr (True, r) \<and> i = ID r" "reclaim_target pc = None"
  shows "micro_post view good seq c s pc s'"
proof -
  let ?r = "new_processing_record (cl_scope c) (cl_hash c) (cl_fp c) (cl_lockedUntil c) (cl_expiresAt c)"
  have k: "key_of ?r = cl_key c" by (simp add: new_processing_record_def key_of_def)
  have good: "good s'" by (rule create_good [OF assms(1) ex])
  have ids: "ids_kept view seq s s'"
    using create_seq [OF assms(1) ex] by (auto simp: ids_kept_def)
  have others: "\<forall>k. k \<noteq> cl_key c \<longrightarrow> view s' k = view s k"
    using create_effect [OF assms(1) ex] k by auto
  have won: "holds_claim view c i s' \<and> view s (cl_key c) = None" if pci: "pc = ClaimDone (Claimed i)" for i
  proof -
    from pc(1) [OF pci] obtain r where r: "res = Inr (True, r)" "i = ID r" by blast
    from create_owner [OF assms(1) ex [unfolded r(1)]] k r(2) show ?thesis
      by (auto simp: holds_claim_def new_processing_record_def)
  qed
  have same: "view s' = view s" if "view s (cl_key c) = Some r" for r
    using create_effect [OF assms(1) ex] k that by auto
  show ?thesis
    unfolding micro_post_def using good ids others same won pc(2) by auto
qed

lemma claim_micro_post:
  assumes "good s" "target_known view seq c s" "claiming (cl_pc c)" "claim_micro cd repo c s = (pc, s')"
  shows "micro_post view good seq c s pc s'"
proof (cases "cl_pc c")
  case AtCreate
  with assms(4) show ?thesis
    by (auto simp: claim_micro_def intro!: create_micro [OF assms(1)] split: prod.splits sum.splits if_splits)
next
  case AtRead
  with assms(4) show ?thesis
    by (auto simp: claim_micro_def intro!: read_micro [OF assms(1)] split: prod.splits)
next
  case (AtReclaim e)
  with assms(4) show ?thesis
    by (auto simp: claim_micro_def intro!: reclaim_micro [OF assms(1,2)] split: prod.splits sum.splits if_splits)
next
  case AtReread
  with assms(4) show ?thesis
    by (auto simp: claim_micro_def intro!: read_micro [OF assms(1)] split: prod.splits)
next
  case (AtRetry e)
  with assms(4) show ?thesis
    by (auto simp: claim_micro_def intro!: reclaim_micro [OF assms(1,2)] split: prod.splits sum.splits if_splits)
qed (use assms(3) in simp_all)

end

section \<open>The invariant of the race\<close>

definition claimer_ok ::
  "('s \<Rightarrow> string \<times> string \<Rightarrow> IdempotencyRecord option) \<Rightarrow> ('s \<Rightarrow> int) \<Rightarrow> duration \<Rightarrow> time \<Rightarrow> 's \<Rightarrow>
   'd claimer \<Rightarrow> bool" where
  "claimer_ok view seq pt t s c \<longleftrightarrow>
     cl_lockedUntil c = cl_now c + pt \<and> cl_now c \<le> t \<and> in_time pt t c \<and> target_known view seq c s \<and>
     (\<forall>i. executing c i \<longrightarrow> holds_claim view c i s)"

definition apart :: "'d claimer \<Rightarrow> 'd claimer \<Rightarrow> bool" where
  "apart c d \<longleftrightarrow>
     (cl_key c = cl_key d \<longrightarrow> (\<exists>i. executing c i) \<longrightarrow>
        (\<forall>j. \<not> executing d j) \<and> (reclaim_target (cl_pc d) \<noteq> None \<longrightarrow> cl_now d < cl_lockedUntil c))"

definition race_inv ::
  "('s \<Rightarrow> string \<times> string \<Rightarrow> IdempotencyRecord option) \<Rightarrow> ('s \<Rightarrow> bool) \<Rightarrow> ('s \<Rightarrow> int) \<Rightarrow> duration \<Rightarrow>
   ('s, 'd) race \<Rightarrow> bool" where
  "race_inv view good seq pt x \<longleftrightarrow>
     good (rc_store x) \<and>
     (\<forall>i < length (rc_callers x). claimer_ok view seq pt (rc_clock x) (rc_store x) (rc_callers x ! i)) \<and>
     (\<forall>i < length (rc_callers x). \<forall>j < length (rc_callers x). i \<noteq> j \<longrightarrow>
        apart (rc_callers x ! i) (rc_callers x ! j))"

lemma race_invD:
  assumes "race_inv view good seq pt x"
  shows "good (rc_store x)"
    and "i < length (rc_callers x) \<Longrightarrow> claimer_ok view seq pt (rc_clock x) (rc_store x) (rc_callers x ! i)"
    and "i < length (rc_callers x) \<Longrightarrow> j < length (rc_callers x) \<Longrightarrow> i \<noteq> j \<Longrightarrow>
      apart (rc_callers x ! i) (rc_callers x ! j)"
  using assms by (auto simp: race_inv_def)

lemma target_known_kept:
  "target_known view seq c s \<Longrightarrow> ids_kept view seq s s' \<Longrightarrow> target_known view seq c s'"
  unfolding target_known_def ids_kept_def by (smt (verit, best))

lemma claimer_ok_kept:
  assumes "claimer_ok view seq pt t s c" "ids_kept view seq s s'"
    and "\<And>i. executing c i \<Longrightarrow> view s' (cl_key c) = view s (cl_key c)"
  shows "claimer_ok view seq pt t s' c"
  using assms target_known_kept [OF _ assms(2), of c] by (auto simp: claimer_ok_def holds_claim_def)

lemma length_set_pc [simp]: "length (set_pc i pc cs) = length cs"
  by (simp add: set_pc_def)

lemma nth_set_pc: "j < length cs \<Longrightarrow> set_pc i pc cs ! j = (if j = i then (cs ! i)\<lparr>cl_pc := pc\<rparr> else cs ! j)"
  by (simp add: set_pc_def nth_list_update)

lemma race_inv_update:
  assumes inv: "race_inv view good seq pt x" and i: "i < length (rc_callers x)"
    and s': "good s'" "ids_kept view seq (rc_store x) s'"
    and others: "\<And>j k. j < length (rc_callers x) \<Longrightarrow> j \<noteq> i \<Longrightarrow> executing (rc_callers x ! j) k \<Longrightarrow>
      view s' (cl_key (rc_callers x ! j)) = view (rc_store x) (cl_key (rc_callers x ! j))"
    and own: "claimer_ok view seq pt (rc_clock x) s' ((rc_callers x ! i)\<lparr>cl_pc := pc\<rparr>)"
    and pairs: "\<And>j. j < length (rc_callers x) \<Longrightarrow> j \<noteq> i \<Longrightarrow>
      apart ((rc_callers x ! i)\<lparr>cl_pc := pc\<rparr>) (rc_callers x ! j) \<and>
      apart (rc_callers x ! j) ((rc_callers x ! i)\<lparr>cl_pc := pc\<rparr>)"
  shows "race_inv view good seq pt (x\<lparr>rc_store := s', rc_callers := set_pc i pc (rc_callers x)\<rparr>)"
proof -
  have "claimer_ok view seq pt (rc_clock x) s' (rc_callers x ! j)" if "j < length (rc_callers x)" "j \<noteq> i" for j
    using claimer_ok_kept [OF race_invD(2) [OF inv that(1)] s'(2)] others [OF that] by blast
  then show ?thesis
    using s'(1) own pairs race_invD(3) [OF inv] i by (auto simp: race_inv_def nth_set_pc)
qed

text \<open>An executor that ends, whatever it reported about its own record.\<close>

lemma race_inv_ended:
  assumes inv: "race_inv view good seq pt x" and i: "i < length (rc_callers x)"
    and e: "executing (rc_callers x ! i) k"
    and s': "good s'" "ids_kept view seq (rc_store x) s'"
    and keys: "\<And>key. key \<noteq> cl_key (rc_callers x ! i) \<Longrightarrow> view s' key = view (rc_store x) key"
  shows "race_inv view good seq pt (x\<lparr>rc_store := s', rc_callers := set_pc i Ended (rc_callers x)\<rparr>)"
proof (rule race_inv_update [OF inv i s'])
  fix j l assume j: "j < length (rc_callers x)" "j \<noteq> i" "executing (rc_callers x ! j) l"
  have "apart (rc_callers x ! i) (rc_callers x ! j)" using race_invD(3) [OF inv i j(1)] j(2) by simp
  with e j(3) have "cl_key (rc_callers x ! j) \<noteq> cl_key (rc_callers x ! i)" unfolding apart_def by metis
  then show "view s' (cl_key (rc_callers x ! j)) = view (rc_store x) (cl_key (rc_callers x ! j))" by (rule keys)
next
  show "claimer_ok view seq pt (rc_clock x) s' ((rc_callers x ! i)\<lparr>cl_pc := Ended\<rparr>)"
    using race_invD(2) [OF inv i] by (simp add: claimer_ok_def in_time_def target_known_def executing_def)
next
  fix j assume "j < length (rc_callers x)" "j \<noteq> i"
  then show "apart ((rc_callers x ! i)\<lparr>cl_pc := Ended\<rparr>) (rc_callers x ! j) \<and>
      apart (rc_callers x ! j) ((rc_callers x ! i)\<lparr>cl_pc := Ended\<rparr>)"
    by (simp add: apart_def executing_def)
qed

context idempotency_sequence
begin

lemma race_inv_advances:
  assumes inv: "race_inv view good seq pt x" and i: "i < length (rc_callers x)"
    and c: "c = rc_callers x ! i" "claiming (cl_pc c)"
    and m: "claim_micro cd repo c (rc_store x) = (pc, s')"
  shows "race_inv view good seq pt (x\<lparr>rc_store := s', rc_callers := set_pc i pc (rc_callers x)\<rparr>)"
proof (rule race_inv_update [OF inv i])
  let ?s = "rc_store x" and ?t = "rc_clock x"
  note ok = race_invD(2) [OF inv i, folded c(1)]
  have post: "micro_post view good seq c ?s pc s'"
    using claim_micro_post [OF race_invD(1) [OF inv] _ c(2) m] ok by (simp add: claimer_ok_def)
  show "good s'" "ids_kept view seq ?s s'" using post by (simp_all add: micro_post_def)
  have now: "?t < cl_lockedUntil c" "?t < cl_expiresAt c" "cl_now c \<le> ?t"
    using ok c(2) by (simp_all add: claimer_ok_def in_time_def)
  have busy: "view s' = view ?s \<and> (\<forall>k. pc \<noteq> ClaimDone (Claimed k)) \<and> reclaim_target pc = None"
    if j: "j < length (rc_callers x)" "j \<noteq> i" "executing (rc_callers x ! j) l"
      and key: "cl_key (rc_callers x ! j) = cl_key c" for j l
  proof -
    let ?d = "rc_callers x ! j"
    have okd: "claimer_ok view seq pt ?t ?s ?d" by (rule race_invD(2) [OF inv j(1)])
    then obtain r where r: "view ?s (cl_key c) = Some r" "Status r = IdempotencyStatusProcessing"
      "ExpiresAt r = cl_expiresAt ?d" "LockedUntil r = Some (cl_lockedUntil ?d)"
      using j(3) key unfolding claimer_ok_def holds_claim_def by metis
    have "?t < cl_expiresAt ?d" using okd j(3) by (auto simp: claimer_ok_def in_time_def)
    have "apart ?d c" using race_invD(3) [OF inv j(1) i j(2)] c(1) by simp
    with j(3) key have "reclaim_target (cl_pc c) \<noteq> None \<longrightarrow> cl_now c < cl_lockedUntil ?d"
      unfolding apart_def by metis
    with post r have same: "view s' = view ?s \<and> (\<forall>k. pc \<noteq> ClaimDone (Claimed k))"
      unfolding micro_post_def by blast
    have "reclaim_target pc = None"
    proof (rule ccontr)
      assume "reclaim_target pc \<noteq> None"
      then obtain e where "reclaim_target pc = Some e" by blast
      with post have "view s' (cl_key c) = Some e"
        "\<not> cl_now c < ExpiresAt e \<or> Status e = IdempotencyStatusFailedRetryable"
        unfolding micro_post_def by blast+
      with same r \<open>?t < cl_expiresAt ?d\<close> now(3) show False
        by (auto simp: IdempotencyStatusProcessing_def IdempotencyStatusFailedRetryable_def)
    qed
    with same show ?thesis by simp
  qed
  show "view s' (cl_key (rc_callers x ! j)) = view ?s (cl_key (rc_callers x ! j))"
    if "j < length (rc_callers x)" "j \<noteq> i" "executing (rc_callers x ! j) l" for j l
  proof (cases "cl_key (rc_callers x ! j) = cl_key c")
    case True
    from busy [OF that True] show ?thesis by simp
  next
    case False
    with post show ?thesis unfolding micro_post_def by blast
  qed
  show "claimer_ok view seq pt ?t s' ((rc_callers x ! i)\<lparr>cl_pc := pc\<rparr>)"
  proof -
    have "target_known view seq (c\<lparr>cl_pc := pc\<rparr>) s'"
    proof (unfold target_known_def, intro allI impI)
      fix e assume "reclaim_target (cl_pc (c\<lparr>cl_pc := pc\<rparr>)) = Some e"
      with post have e: "view s' (cl_key c) = Some e" and good: "good s'" by (auto simp: micro_post_def)
      have "\<forall>k r. view s' k = Some r \<and> ID r = ID e \<longrightarrow> k = cl_key c" using view_id [OF good _ e] by blast
      with seq_above [OF good e] show "ID e < seq s' \<and> (\<forall>k r. view s' k = Some r \<and> ID r = ID e \<longrightarrow>
          k = cl_key (c\<lparr>cl_pc := pc\<rparr>))" by simp
    qed
    moreover have "holds_claim view (c\<lparr>cl_pc := pc\<rparr>) k s'" if "executing (c\<lparr>cl_pc := pc\<rparr>) k" for k
      using post that by (auto simp: micro_post_def executing_def holds_claim_def)
    moreover have "in_time pt ?t (c\<lparr>cl_pc := pc\<rparr>)"
      using now ok by (simp add: in_time_def claimer_ok_def)
    ultimately show ?thesis using ok by (simp add: claimer_ok_def c(1))
  qed
  show "apart ((rc_callers x ! i)\<lparr>cl_pc := pc\<rparr>) (rc_callers x ! j) \<and>
      apart (rc_callers x ! j) ((rc_callers x ! i)\<lparr>cl_pc := pc\<rparr>)"
    if j: "j < length (rc_callers x)" "j \<noteq> i" for j
  proof -
    have "cl_now (rc_callers x ! j) \<le> ?t" using race_invD(2) [OF inv j(1)] by (simp add: claimer_ok_def)
    then have early: "cl_now (rc_callers x ! j) < cl_lockedUntil c" using now by linarith
    show ?thesis
      using early busy [OF j] by (auto simp: apart_def executing_def c(1) [symmetric])
  qed
qed

lemma race_step_inv:
  assumes "race_step cd repo pt x y" and inv: "race_inv view good seq pt x" and pt: "0 < pt"
  shows "race_inv view good seq pt y"
  using assms(1)
proof cases
  case (arrives ttl sc h fp)
  let ?c = "new_claimer sc h fp (rc_clock x) (rc_clock x + pt) (rc_clock x + ttl)"
  have new: "claimer_ok view seq pt (rc_clock x) (rc_store x) ?c"
    using arrives(2) pt by (simp add: claimer_ok_def new_claimer_def in_time_def executing_def target_known_def)
  have "apart ?c d" "apart d ?c" for d :: "'b claimer"
    by (simp_all add: apart_def new_claimer_def executing_def)
  with new inv arrives(1) show ?thesis
    by (auto simp: race_inv_def nth_append less_Suc_eq)
next
  case (advances i pc s')
  with race_inv_advances [OF inv advances(2) refl advances(3,4)] show ?thesis by simp
next
  case (succeeds i k st body res s')
  have good: "good (rc_store x)" by (rule race_invD(1) [OF inv])
  have h: "holds_claim view (rc_callers x ! i) k (rc_store x)"
    using race_invD(2) [OF inv succeeds(2)] succeeds(3) by (simp add: claimer_ok_def)
  note eff = succeed_effect [OF good succeeds(4)]
  have "ids_kept view seq (rc_store x) s'"
    using eff succeed_seq [OF succeeds(4)]
    by (elim disjE exE conjE) (simp_all add: ids_kept_refl ids_kept_update)
  moreover have "view s' key = view (rc_store x) key" if "key \<noteq> cl_key (rc_callers x ! i)" for key
    using eff h view_id [OF good] that by (auto simp: holds_claim_def)
  ultimately show ?thesis
    using race_inv_ended [OF inv succeeds(2,3) succeed_good [OF good succeeds(4)]] succeeds(1) by simp
next
  case (fails i k why lu res s')
  have good: "good (rc_store x)" by (rule race_invD(1) [OF inv])
  have h: "holds_claim view (rc_callers x ! i) k (rc_store x)"
    using race_invD(2) [OF inv fails(2)] fails(3) by (simp add: claimer_ok_def)
  note eff = fail_effect [OF good fails(4)]
  have "ids_kept view seq (rc_store x) s'"
    using eff fail_seq [OF fails(4)]
    by (elim disjE exE conjE) (simp_all add: ids_kept_refl ids_kept_update)
  moreover have "view s' key = view (rc_store x) key" if "key \<noteq> cl_key (rc_callers x ! i)" for key
    using eff h view_id [OF good] that by (auto simp: holds_claim_def)
  ultimately show ?thesis
    using race_inv_ended [OF inv fails(2,3) fail_good [OF good fails(4)]] fails(1) by simp
next
  case (gives_up i k)
  have "ids_kept view seq (rc_store x) (rc_store x)" by (simp add: ids_kept_refl)
  from race_inv_ended [OF inv gives_up(2,3) race_invD(1) [OF inv] this] gives_up(1) show ?thesis by simp
next
  case (purges limit resd s')
  have good: "good (rc_store x)" by (rule race_invD(1) [OF inv])
  note eff = delete_effect [OF good purges(2)]
  have ids: "ids_kept view seq (rc_store x) s'"
    unfolding ids_kept_def using eff delete_seq [OF purges(2)] by (metis option.distinct(1))
  have "view s' (cl_key c) = view (rc_store x) (cl_key c)"
    if "claimer_ok view seq pt (rc_clock x) (rc_store x) c" "executing c k" for c :: "'b claimer" and k
    using eff [of "cl_key c"] that by (auto simp: claimer_ok_def holds_claim_def in_time_def)
  then have "claimer_ok view seq pt (rc_clock x) s' c"
    if "claimer_ok view seq pt (rc_clock x) (rc_store x) c" for c :: "'b claimer"
    using claimer_ok_kept [OF that ids] that by blast
  with inv delete_good [OF good purges(2)] purges(1) show ?thesis by (simp add: race_inv_def)
next
  case (ticks t)
  with inv show ?thesis by (auto simp: race_inv_def claimer_ok_def)
qed

lemma race_reachable_inv:
  "race_reachable cd repo good pt x \<Longrightarrow> 0 < pt \<Longrightarrow> race_inv view good seq pt x"
proof (induction rule: race_reachable.induct)
  case (race_start s t)
  then show ?case by (simp add: race_inv_def)
next
  case (race_more x y)
  then show ?case using race_step_inv by blast
qed

end

section \<open>Properties\<close>

text \<open>C3: executors exclude each other also when the statements of concurrent claims interleave. Of
  all callers with the same scope and key, whatever they read in the meantime and whichever
  statements fail or lose their reply, at most one is executing, as long as a claim takes less than
  the processing timeout and an executor less than the lifetime of its claim.\<close>

theorem interleaved_executors_exclusive:
  assumes "race_reachable cd sql_idempotency_repository sql_good pt x" "0 < pt"
    and "i < length (rc_callers x)" "j < length (rc_callers x)"
    and "executing (rc_callers x ! i) a" "executing (rc_callers x ! j) b"
    and "cl_key (rc_callers x ! i) = cl_key (rc_callers x ! j)"
  shows "i = j"
  using race_invD(3) [OF sql_sequence.race_reachable_inv [OF assms(1,2)] assms(3,4)] assms(5-7)
  unfolding apart_def by blast

text \<open>Runs of the machine as functions, for concrete executions.\<close>

definition arrive :: "duration \<Rightarrow> duration \<Rightarrow> string \<Rightarrow> ('s, 'd) race \<Rightarrow> ('s, 'd) race" where
  "arrive pt ttl fp x =
     x\<lparr>rc_callers := rc_callers x @ [new_claimer ''s'' ''k'' fp (rc_clock x) (rc_clock x + pt) (rc_clock x + ttl)]\<rparr>"

definition advance :: "('p, 'd) codec \<Rightarrow> 's IdempotencyRepository \<Rightarrow> nat \<Rightarrow> ('s, 'd) race \<Rightarrow> ('s, 'd) race" where
  "advance cd repo i x =
     x\<lparr>rc_store := snd (claim_micro cd repo (rc_callers x ! i) (rc_store x)),
       rc_callers := set_pc i (fst (claim_micro cd repo (rc_callers x ! i) (rc_store x))) (rc_callers x)\<rparr>"

definition succeed :: "'s IdempotencyRepository \<Rightarrow> nat \<Rightarrow> int \<Rightarrow> ('s, 'd) race \<Rightarrow> ('s, 'd) race" where
  "succeed repo i j x =
     x\<lparr>rc_store := snd (MarkSucceeded repo j 200 ''done'' (cl_expiresAt (rc_callers x ! i)) (rc_store x)),
       rc_callers := set_pc i Ended (rc_callers x)\<rparr>"

lemma race_runs:
  "race_reachable cd repo good pt x \<Longrightarrow> 0 < ttl \<Longrightarrow> race_reachable cd repo good pt (arrive pt ttl fp x)"
  "race_reachable cd repo good pt x \<Longrightarrow> i < length (rc_callers x) \<Longrightarrow> claiming (cl_pc (rc_callers x ! i)) \<Longrightarrow>
     race_reachable cd repo good pt (advance cd repo i x)"
  "race_reachable cd repo good pt x \<Longrightarrow> i < length (rc_callers x) \<Longrightarrow> executing (rc_callers x ! i) j \<Longrightarrow>
     race_reachable cd repo good pt (succeed repo i j x)"
  unfolding arrive_def advance_def succeed_def
  by (blast intro: race_more arrives advances succeeds prod.collapse [symmetric])+

definition expired_race :: "(idempotency_table conn, string) race" where
  "expired_race = \<lparr>rc_clock = 200 * second,
     rc_store = (demo_table_with (demo_row ''succeeded'' ''fp'' None), []), rc_callers = []\<rparr>"

abbreviation demo_advance :: "nat \<Rightarrow> (idempotency_table conn, string) race \<Rightarrow> (idempotency_table conn, string) race" where
  "demo_advance \<equiv> advance demo_codec sql_idempotency_repository"

abbreviation demo_arrive :: "(idempotency_table conn, string) race \<Rightarrow> (idempotency_table conn, string) race" where
  "demo_arrive \<equiv> arrive (30 * second) (100 * second) ''fp''"

definition both_read :: "(idempotency_table conn, string) race" where
  "both_read = demo_advance 1 (demo_advance 1 (demo_advance 0 (demo_advance 0 (demo_arrive (demo_arrive expired_race)))))"

lemmas race_eval = arrive_def advance_def succeed_def new_claimer_def claim_micro_def read_pc_def set_pc_def
  expired_race_def both_read_def sql_CreateProcessing_def sql_GetByScopeAndKeyHash_def sql_TryReclaim_def
  sql_MarkSucceeded_def insert_row_def row_by_key_def key_of_def new_processing_record_def
  demo_table_with_def demo_row_def update_where_def reclaimable_def reclaim_row_def succeed_row_def
  executing_def

lemma expired_reachable: "race_reachable demo_codec sql_idempotency_repository sql_good (30 * second) expired_race"
  unfolding expired_race_def
  by (rule race_start) (simp add: sql_good_def table_ok_def demo_table_with_def demo_row_def)

lemma both_read_reachable:
  "race_reachable demo_codec sql_idempotency_repository sql_good (30 * second) both_read"
  unfolding both_read_def
  by (intro race_runs expired_reachable) (simp_all add: race_eval)

lemma both_read_eq:
  "rc_clock both_read = 200 * second" "length (rc_callers both_read) = 2"
  "cl_key (rc_callers both_read ! 0) = (''s'', ''k'')" "cl_key (rc_callers both_read ! 1) = (''s'', ''k'')"
  "claiming (cl_pc (rc_callers both_read ! 0))" "claiming (cl_pc (rc_callers both_read ! 1))"
  by (simp_all add: race_eval)

lemma winner_reachable:
  "race_reachable demo_codec sql_idempotency_repository sql_good (30 * second) (demo_advance 0 both_read)"
  by (rule race_runs(2) [OF both_read_reachable]) (simp_all add: race_eval)

lemma winner_executes:
  "executing (rc_callers (demo_advance 0 both_read) ! 0) 1"
  "claiming (cl_pc (rc_callers (demo_advance 0 both_read) ! 1))"
  "length (rc_callers (demo_advance 0 both_read)) = 2"
  by (simp_all add: race_eval)

theorem interleaved_executors_exclusive_witness:
  "executing (rc_callers (demo_advance 1 (demo_advance 0 both_read)) ! 0) 1 \<and>
   \<not> executing (rc_callers (demo_advance 1 (demo_advance 0 both_read)) ! 1) 1"
proof -
  let ?x = "demo_advance 1 (demo_advance 0 both_read)"
  have r: "race_reachable demo_codec sql_idempotency_repository sql_good (30 * second) ?x"
    by (rule race_runs(2) [OF winner_reachable]) (simp_all add: race_eval)
  have e: "length (rc_callers ?x) = 2" "executing (rc_callers ?x ! 0) 1"
    "cl_key (rc_callers ?x ! 0) = cl_key (rc_callers ?x ! 1)"
    by (simp_all add: race_eval)
  have pos: "(0::int) < 30 * second" "0 < length (rc_callers ?x)" "1 < length (rc_callers ?x)"
    by (simp_all add: race_eval)
  have "\<not> executing (rc_callers ?x ! 1) 1"
  proof
    assume "executing (rc_callers ?x ! 1) 1"
    from interleaved_executors_exclusive [OF r pos(1,2,3) e(2) this e(3)] show False by simp
  qed
  with e(2) show ?thesis by blast
qed

definition first_done :: "(idempotency_table conn, string) race" where
  "first_done = succeed sql_idempotency_repository 0 1 (demo_advance 0 both_read)"

text \<open>What the statements cannot exclude. \<open>TryReclaim\<close> compares the status a caller read, and the
  status of an expired success is again \<open>succeeded\<close> after another caller has taken the record over
  and finished: two callers read the expired record, the first one takes it over, runs and stores its
  result for a new lifetime, and the second one still takes the record over and runs again.\<close>

theorem stale_reader_repeats_success:
  "race_reachable demo_codec sql_idempotency_repository sql_good (30 * second) first_done \<and>
   cl_pc (rc_callers first_done ! 0) = Ended \<and>
   map_option Status (row_by_key (fst (rc_store first_done)) (''s'', ''k'')) = Some IdempotencyStatusSucceeded \<and>
   map_option ExpiresAt (row_by_key (fst (rc_store first_done)) (''s'', ''k'')) = Some (300 * second) \<and>
   rc_clock first_done = 200 * second \<and>
   race_step demo_codec sql_idempotency_repository (30 * second) first_done (demo_advance 1 first_done) \<and>
   executing (rc_callers (demo_advance 1 first_done) ! 1) 1"
proof (intro conjI)
  show "race_reachable demo_codec sql_idempotency_repository sql_good (30 * second) first_done"
    unfolding first_done_def by (rule race_runs(3) [OF winner_reachable]) (simp_all add: race_eval)
  have l: "1 < length (rc_callers first_done)" "claiming (cl_pc (rc_callers first_done ! 1))"
    by (simp_all add: first_done_def race_eval)
  show "race_step demo_codec sql_idempotency_repository (30 * second) first_done (demo_advance 1 first_done)"
    unfolding advance_def by (rule advances [OF l prod.collapse [symmetric]])
qed (simp_all add: first_done_def race_eval IdempotencyStatusSucceeded_def)

end
