(* ===== verification/SystemOperationLock.thy ===== *)
theory SystemOperationLock
  imports IdempotencyCoordinator
begin

text \<open>
  \<open>service/system_operation_lock_service.go\<close>: the one global lock of the system operations
  (update, rollback, restart), a lease kept in an idempotency record. \<open>Acquire\<close>,
  \<open>Release\<close> and one round of the renewal loop are functions over the repository interface;
  the loop itself consumes the events its \<open>select\<close> can receive. The lemmas are proved over
  the repository contract and used at the SQL repository.
\<close>

definition systemOperationLockScope :: string where
  "systemOperationLockScope = ''admin.system.operations.global_lock''"

definition systemOperationLockKey :: string where
  "systemOperationLockKey = ''global-system-operation-lock''"

definition ErrSystemOperationBusy :: go_error where
  "ErrSystemOperationBusy =
     Conflict ''SYSTEM_OPERATION_BUSY'' ''another system operation is in progress''"

record SystemOperationLock =
  lock_recordID :: int
  lock_operationID :: string

record SystemOperationLockService =
  svc_lease :: duration
  svc_renewInterval :: duration
  svc_ttl :: duration

definition NewSystemOperationLockService :: "IdempotencyConfig \<Rightarrow> SystemOperationLockService" where
  "NewSystemOperationLockService cfg =
     (let lease = (if ProcessingTimeout cfg \<le> 0 then 30 * second else ProcessingTimeout cfg);
          renew = (if trunc_div lease 3 < second then second else trunc_div lease 3);
          ttl = (if SystemOperationTTL cfg \<le> 0 then hour else SystemOperationTTL cfg)
      in \<lparr>svc_lease = lease, svc_renewInterval = renew, svc_ttl = ttl\<rparr>)"

definition busyError :: "string \<Rightarrow> time option \<Rightarrow> time \<Rightarrow> go_error" where
  "busyError operationID lockedUntil now =
     (let md1 = (if operationID \<noteq> [] then [(''operation_id'', operationID)] else []);
          md2 = (case lockedUntil of
                   None \<Rightarrow> md1
                 | Some u \<Rightarrow>
                     (let sec = whole_seconds (time_sub u now); sec' = (if sec \<le> 0 then 1 else sec)
                      in put ''retry_after'' (itoa sec') md1))
      in if md2 = [] then ErrSystemOperationBusy else WithMetadata ErrSystemOperationBusy (Some md2))"

definition lock_record :: "SystemOperationLockService \<Rightarrow> string \<Rightarrow> string \<Rightarrow> time \<Rightarrow> IdempotencyRecord" where
  "lock_record svc keyHash operationID now =
     \<lparr>ID = 0, Scope = systemOperationLockScope, IdempotencyKeyHash = keyHash,
      RequestFingerprint = operationID, Status = IdempotencyStatusProcessing,
      ResponseStatus = None, ResponseBody = None, ErrorReason = None,
      LockedUntil = Some (now + svc_lease svc), ExpiresAt = now + svc_ttl svc,
      CreatedAt = zero_time, UpdatedAt = zero_time\<rparr>"

definition new_lock :: "int \<Rightarrow> string \<Rightarrow> go_error + SystemOperationLock" where
  "new_lock recordID operationID =
     (if recordID = 0 then Inl ErrIdempotencyStoreUnavail
      else Inr \<lparr>lock_recordID = recordID, lock_operationID = operationID\<rparr>)"

definition Acquire ::
  "('p, 'd) codec \<Rightarrow> SystemOperationLockService \<Rightarrow> 's IdempotencyRepository option \<Rightarrow> string \<Rightarrow> time \<Rightarrow>
   's \<Rightarrow> (go_error + SystemOperationLock) \<times> 's" where
  "Acquire cd svc repo_opt operationID now s =
     (case repo_opt of
        None \<Rightarrow> (Inl ErrIdempotencyStoreUnavail, s)
      | Some repo \<Rightarrow>
     (if operationID = [] then
        (Inl (BadRequest ''SYSTEM_OPERATION_ID_REQUIRED'' ''operation id is required''), s)
      else
     (let keyHash = HashIdempotencyKey cd systemOperationLockKey;
          lockedUntil = now + svc_lease svc; expiresAt = now + svc_ttl svc in
      case CreateProcessing repo (lock_record svc keyHash operationID now) s of
        (Inl e, s1) \<Rightarrow> (Inl (WithCause ErrIdempotencyStoreUnavail e), s1)
      | (Inr (owner, record'), s1) \<Rightarrow>
          if owner then (new_lock (ID record') operationID, s1)
          else
     (case GetByScopeAndKeyHash repo systemOperationLockScope keyHash s1 of
        (Inl e, s2) \<Rightarrow> (Inl (WithCause ErrIdempotencyStoreUnavail e), s2)
      | (Inr None, s2) \<Rightarrow> (Inl ErrIdempotencyStoreUnavail, s2)
      | (Inr (Some existing), s2) \<Rightarrow>
          if Status existing = IdempotencyStatusProcessing \<and>
             (case LockedUntil existing of None \<Rightarrow> False | Some u \<Rightarrow> now < u) then
            (Inl (busyError (RequestFingerprint existing) (LockedUntil existing) now), s2)
          else
     (case TryReclaim repo (ID existing) (Status existing) now lockedUntil expiresAt s2 of
        (Inl e, s3) \<Rightarrow> (Inl (WithCause ErrIdempotencyStoreUnavail e), s3)
      | (Inr reclaimed, s3) \<Rightarrow>
          if reclaimed then (new_lock (ID existing) operationID, s3)
          else (case GetByScopeAndKeyHash repo systemOperationLockScope keyHash s3 of
                  (Inr (Some latest), s4) \<Rightarrow>
                    (Inl (busyError (RequestFingerprint latest) (LockedUntil latest) now), s4)
                | (_, s4) \<Rightarrow> (Inl ErrSystemOperationBusy, s4)))))))"

text \<open>
  \<open>Release\<close> closes the stop channel (see \<open>renewLoop\<close>) and writes the outcome. The
  response body is the text of \<open>fmt.Sprintf\<close>.
\<close>

definition release_body :: "string \<Rightarrow> string" where
  "release_body operationID = ''{'' @ [CHR 0x22] @ ''operation_id'' @ [CHR 0x22] @ '':'' @ [CHR 0x22] @
     operationID @ [CHR 0x22] @ '','' @ [CHR 0x22] @ ''released'' @ [CHR 0x22] @ '':true}''"

definition Release ::
  "SystemOperationLockService \<Rightarrow> 's IdempotencyRepository option \<Rightarrow> SystemOperationLock option \<Rightarrow> bool \<Rightarrow>
   string \<Rightarrow> time \<Rightarrow> time \<Rightarrow> 's \<Rightarrow> (go_error + unit) \<times> 's" where
  "Release svc repo_opt lock_opt succeeded failureReason now later s =
     (case (repo_opt, lock_opt) of
        (Some repo, Some lock) \<Rightarrow>
          (let expiresAt = now + svc_ttl svc in
           if succeeded then
             MarkSucceeded repo (lock_recordID lock) 200 (release_body (lock_operationID lock)) expiresAt s
           else
             (let reason = (if failureReason = [] then ''SYSTEM_OPERATION_FAILED'' else failureReason)
              in MarkFailedRetryable repo (lock_recordID lock) reason later expiresAt s))
      | _ \<Rightarrow> (Inr (), s))"

text \<open>One round of the renewal: \<open>True\<close> when the loop goes on.\<close>

definition renew_tick ::
  "SystemOperationLockService \<Rightarrow> 's IdempotencyRepository \<Rightarrow> SystemOperationLock \<Rightarrow> time \<Rightarrow> 's \<Rightarrow> bool \<times> 's" where
  "renew_tick svc repo lock now s =
     (case ExtendProcessingLock repo (lock_recordID lock) (lock_operationID lock)
             (now + svc_lease svc) (now + svc_ttl svc) s of
        (Inl _, s') \<Rightarrow> (True, s')
      | (Inr ok, s') \<Rightarrow> (ok, s'))"

datatype renew_event = Tick time | StopClosed

text \<open>\<open>renewLoop\<close> on the events it receives; the flag says that it is still running.\<close>

fun renewLoop ::
  "SystemOperationLockService \<Rightarrow> 's IdempotencyRepository \<Rightarrow> SystemOperationLock \<Rightarrow> renew_event list \<Rightarrow> 's \<Rightarrow> bool \<times> 's" where
  "renewLoop svc repo lock [] s = (True, s)"
| "renewLoop svc repo lock (StopClosed # es) s = (False, s)"
| "renewLoop svc repo lock (Tick now # es) s =
     (case renew_tick svc repo lock now s of
        (True, s') \<Rightarrow> renewLoop svc repo lock es s'
      | (False, s') \<Rightarrow> (False, s'))"

section \<open>The lease excludes other holders\<close>

definition lock_key :: "('p, 'd) codec \<Rightarrow> string \<times> string" where
  "lock_key cd = (systemOperationLockScope, HashIdempotencyKey cd systemOperationLockKey)"

definition leased ::
  "('s \<Rightarrow> string \<times> string \<Rightarrow> IdempotencyRecord option) \<Rightarrow> string \<times> string \<Rightarrow> time \<Rightarrow> 's \<Rightarrow> bool" where
  "leased view k u s \<longleftrightarrow>
     (\<exists>r v. view s k = Some r \<and> Status r = IdempotencyStatusProcessing \<and> LockedUntil r = Some v \<and> u \<le> v)"

text \<open>What other processes may do while a lease runs: try to acquire, or renew any lock.\<close>

datatype lock_event = TryAcquire string time | Renew SystemOperationLock time

fun event_time :: "lock_event \<Rightarrow> time" where
  "event_time (TryAcquire _ t) = t"
| "event_time (Renew _ t) = t"

fun run_lock_events ::
  "('p, 'd) codec \<Rightarrow> SystemOperationLockService \<Rightarrow> 's IdempotencyRepository \<Rightarrow> lock_event list \<Rightarrow> 's \<Rightarrow>
   SystemOperationLock list \<times> 's" where
  "run_lock_events cd svc repo [] s = ([], s)"
| "run_lock_events cd svc repo (TryAcquire op t # es) s =
     (case Acquire cd svc (Some repo) op t s of
        (Inl _, s') \<Rightarrow> run_lock_events cd svc repo es s'
      | (Inr l, s') \<Rightarrow> apfst ((#) l) (run_lock_events cd svc repo es s'))"
| "run_lock_events cd svc repo (Renew l t # es) s =
     run_lock_events cd svc repo es (snd (renew_tick svc repo l t s))"

lemma lock_record_key: "key_of (lock_record svc (HashIdempotencyKey cd systemOperationLockKey) op now) = lock_key cd"
  by (simp add: lock_record_def key_of_def lock_key_def)

context idempotency_repository
begin

lemma acquire_grants:
  assumes good: "good s" and a: "Acquire cd svc (Some repo) op now s = (Inr l, s')"
  shows "good s' \<and> leased view (lock_key cd) (now + svc_lease svc) s'"
proof -
  let ?h = "HashIdempotencyKey cd systemOperationLockKey" and ?k = "lock_key cd"
  let ?lu = "now + svc_lease svc" and ?ex = "now + svc_ttl svc"
  have op: "op \<noteq> []" using a by (auto simp: Acquire_def)
  obtain res s1 where c: "CreateProcessing repo (lock_record svc ?h op now) s = (res, s1)" by fastforce
  obtain owner r' where b: "res = Inr (owner, r')" using a c op by (cases res) (auto simp: Acquire_def Let_def)
  note g1 = create_good [OF good c]
  show ?thesis
  proof (cases owner)
    case True
    with create_owner [OF good, of "lock_record svc ?h op now" r' s1, unfolded lock_record_key] c b
    have "leased view ?k ?lu s1" by (auto simp: leased_def lock_record_def)
    with a c b True op g1 show ?thesis by (auto simp: Acquire_def Let_def)
  next
    case False
    obtain res2 s2 where g: "GetByScopeAndKeyHash repo systemOperationLockScope ?h s1 = (res2, s2)" by fastforce
    note g2 = get_post [OF g1 g]
    obtain e where e: "res2 = Inr (Some e)"
      using a c b False op g by (cases res2) (auto simp: Acquire_def Let_def split: option.splits)
    then have v: "view s2 ?k = Some e" using g2(2,3) by (simp add: lock_key_def)
    obtain res3 s3 where t: "TryReclaim repo (ID e) (Status e) now ?lu ?ex s2 = (res3, s3)" by fastforce
    have won: "res3 = Inr True" "s' = s3"
      using a c b False op g e t by (auto simp: Acquire_def Let_def split: if_splits sum.splits option.splits prod.splits)
    from reclaim_won [OF g2(1)] t won obtain k r at where r: "view s2 k = Some r"
      "reclaimable (ID e) (Status e) now r" "view s3 = (view s2)(k \<mapsto> reclaim_row at ?lu ?ex r)" by blast
    have "k = ?k" using view_id [OF g2(1) r(1) v] r(2) by (simp add: reclaimable_def)
    with r(3) have "leased view ?k ?lu s3" by (auto simp: leased_def reclaim_row_def)
    with won reclaim_good [OF g2(1) t] show ?thesis by simp
  qed
qed

lemma acquire_refused:
  assumes good: "good s" and l: "leased view (lock_key cd) u s" and now: "now < u"
    and a: "Acquire cd svc (Some repo) op now s = (res, s')"
  shows "good s' \<and> view s' = view s \<and> (\<forall>l. res \<noteq> Inr l)"
proof (cases "op = []")
  case True
  with a good show ?thesis by (auto simp: Acquire_def)
next
  case op: False
  let ?h = "HashIdempotencyKey cd systemOperationLockKey" and ?k = "lock_key cd"
  from l obtain r v where r: "view s ?k = Some r" "Status r = IdempotencyStatusProcessing"
    "LockedUntil r = Some v" "now < v" using now by (auto simp: leased_def)
  obtain cres s1 where c: "CreateProcessing repo (lock_record svc ?h op now) s = (cres, s1)" by fastforce
  note g1 = create_good [OF good c]
  have v1: "view s1 = view s" using create_effect [OF good c, unfolded lock_record_key] r(1) by auto
  show ?thesis
  proof (cases cres)
    case (Inl e)
    then show ?thesis using a c op g1 v1 by (auto simp: Acquire_def Let_def)
  next
    case (Inr b)
    obtain owner r' where b: "b = (owner, r')" by fastforce
    have no: "\<not> owner"
      using create_owner [OF good, of "lock_record svc ?h op now" r' s1, unfolded lock_record_key] c Inr b r(1)
      by auto
    obtain gres s2 where g: "GetByScopeAndKeyHash repo systemOperationLockScope ?h s1 = (gres, s2)" by fastforce
    note g2 = get_post [OF g1 g]
    have "gres = Inr x \<Longrightarrow> x = Some r" for x using g2(2,3) v1 r(1) by (simp add: lock_key_def)
    then show ?thesis
      using a c Inr b no op g g2(1,2) v1 r by (auto simp: Acquire_def Let_def split: sum.splits)
  qed
qed

lemma renew_keeps_lease:
  assumes good: "good s" and l: "leased view k u s" and u: "u \<le> t + svc_lease svc"
  shows "good (snd (renew_tick svc repo lock t s)) \<and> leased view k u (snd (renew_tick svc repo lock t s))"
proof -
  obtain res s' where x: "ExtendProcessingLock repo (lock_recordID lock) (lock_operationID lock)
      (t + svc_lease svc) (t + svc_ttl svc) s = (res, s')" by fastforce
  then have "snd (renew_tick svc repo lock t s) = s'" by (simp add: renew_tick_def split: sum.split)
  moreover have "leased view k u s'"
    using extend_effect [OF good x] l u by (auto simp: leased_def extend_row_def extendable_def)
  ultimately show ?thesis using extend_good [OF good x] by simp
qed

lemma lease_excludes:
  assumes "good s" "leased view (lock_key cd) u s"
    and "\<forall>ev \<in> set es. event_time ev < u \<and> u \<le> event_time ev + svc_lease svc"
  shows "fst (run_lock_events cd svc repo es s) = [] \<and> leased view (lock_key cd) u (snd (run_lock_events cd svc repo es s))"
  using assms
proof (induction es arbitrary: s)
  case (Cons ev es)
  show ?case
  proof (cases ev)
    case (TryAcquire op t)
    obtain res s' where a: "Acquire cd svc (Some repo) op t s = (res, s')" by fastforce
    have "t < u" using Cons.prems(3) TryAcquire by simp
    from acquire_refused [OF Cons.prems(1,2) this a] Cons.prems(2,3) Cons.IH [of s'] a TryAcquire
    show ?thesis by (cases res) (auto simp: leased_def)
  next
    case (Renew l t)
    then show ?thesis
      using renew_keeps_lease [of s "lock_key cd" u t svc l] Cons.prems Cons.IH by simp
  qed
qed simp

end



section \<open>A lock taken over is not renewed\<close>

lemma reclaim_healthy:
  assumes ok: "table_ok t" and r: "row_by_key t k = Some r" "reclaimable (ID r) (Status r) now r"
  obtains t' where "sql_TryReclaim (ID r) (Status r) now lu ex (t, []) = (Inr True, (t', []))"
    "table_ok t'" "row_by_key t' = (row_by_key t)(k \<mapsto> reclaim_row (db_now t) lu ex r)"
proof
  let ?u = "update_where (reclaimable (ID r) (Status r) now) (reclaim_row (db_now t) lu ex) t"
  have "0 < fst ?u" using update_count [OF ok] r by blast
  then show "sql_TryReclaim (ID r) (Status r) now lu ex (t, []) = (Inr True, (snd ?u, []))"
    by (simp add: sql_TryReclaim_def)
  show "table_ok (snd ?u)" using ok by (rule table_ok_update) simp_all
  show "row_by_key (snd ?u) = (row_by_key t)(k \<mapsto> reclaim_row (db_now t) lu ex r)"
    by (rule update_hit [where i = "ID r", OF ok]) (use r in \<open>simp_all add: reclaimable_def\<close>)
qed

lemma table_ok_next_id: "table_ok t \<Longrightarrow> table_ok (t\<lparr>next_id := next_id t + 1\<rparr>)"
  by (auto simp: table_ok_def)

lemma acquire_takes_over:
  assumes ok: "table_ok t" and r: "row_by_key t (lock_key cd) = Some r" and op: "op \<noteq> []"
    and free: "case LockedUntil r of None \<Rightarrow> True | Some u \<Rightarrow> u \<le> now"
  obtains t' where "Acquire cd svc (Some sql_idempotency_repository) op now (t, []) =
      (Inr \<lparr>lock_recordID = ID r, lock_operationID = op\<rparr>, (t', []))"
    "table_ok t'"
    "row_by_key t' (lock_key cd) =
       Some (reclaim_row (db_now t) (now + svc_lease svc) (now + svc_ttl svc) r)"
proof -
  let ?h = "HashIdempotencyKey cd systemOperationLockKey" and ?t = "t\<lparr>next_id := next_id t + 1\<rparr>"
  have "reclaimable (ID r) (Status r) now r" using free by (simp add: reclaimable_def split: option.splits)
  with reclaim_healthy [OF table_ok_next_id [OF ok], of "lock_key cd" r now] r
  obtain t' where t': "sql_TryReclaim (ID r) (Status r) now (now + svc_lease svc) (now + svc_ttl svc) (?t, []) =
      (Inr True, (t', []))" "table_ok t'"
    "row_by_key t' = (row_by_key t)(lock_key cd \<mapsto> reclaim_row (db_now t) (now + svc_lease svc) (now + svc_ttl svc) r)"
    by (metis (no_types, lifting) row_by_key_next_id idempotency_table.select_convs(3)
        idempotency_table.surjective idempotency_table.update_convs(2))
  have c: "insert_row (lock_record svc ?h op now) t = ((False, lock_record svc ?h op now), ?t)"
    using r by (simp add: insert_row_def lock_record_key)
  have g: "row_by_key ?t (systemOperationLockScope, ?h) = Some r"
    using r by (simp add: lock_key_def)
  have "ID r \<noteq> 0" using ok row_by_key_Some [OF r] by (auto simp: table_ok_def)
  with c g t'(1) op free show thesis
    by (intro that [of t']) (auto simp: Acquire_def Let_def sql_CreateProcessing_def
        sql_GetByScopeAndKeyHash_def new_lock_def t'(2,3) split: option.splits)
qed

lemma renew_other_fingerprint:
  assumes ok: "table_ok t" and r: "row_by_key t k = Some r" and fp: "RequestFingerprint r \<noteq> op"
  shows "renew_tick svc sql_idempotency_repository \<lparr>lock_recordID = ID r, lock_operationID = op\<rparr> now (t, []) =
         (False, (t, []))"
proof -
  have "\<not> extendable (ID r) op r'" if "r' \<in> set (rows t)" for r'
  proof
    assume e: "extendable (ID r) op r'"
    then have "r' = r" using ok that row_by_key_Some [OF r]
      by (auto simp: table_ok_def distinct_map inj_on_def extendable_def)
    with e fp show False by (simp add: extendable_def)
  qed
  then show ?thesis
    by (simp add: renew_tick_def sql_ExtendProcessingLock_def update_miss)
       (simp add: update_where_def filter_empty_conv)
qed

text \<open>
  When \<open>Acquire\<close> takes over the record an earlier operation left behind, the record
  keeps the earlier operation's id, so the first renewal of the new lock reports lost
  ownership and the renewal loop ends. Once the first lease is over, another operation
  acquires the lock although the holder has not released it.
\<close>

theorem lock_taken_over_is_not_renewed:
  assumes "table_ok t" "row_by_key t (lock_key cd) = Some r"
    and "case LockedUntil r of None \<Rightarrow> True | Some u \<Rightarrow> u \<le> now"
    and "op \<noteq> []" "RequestFingerprint r \<noteq> op" "op' \<noteq> []" "now + svc_lease svc \<le> later"
  shows "\<exists>l s s2 l2 s3.
      Acquire cd svc (Some sql_idempotency_repository) op now (t, []) = (Inr l, s) \<and>
      renewLoop svc sql_idempotency_repository l (Tick at # es) s = (False, s2) \<and>
      Acquire cd svc (Some sql_idempotency_repository) op' later s2 = (Inr l2, s3)"
proof -
  obtain t1 where a: "Acquire cd svc (Some sql_idempotency_repository) op now (t, []) =
      (Inr \<lparr>lock_recordID = ID r, lock_operationID = op\<rparr>, (t1, []))" "table_ok t1"
    "row_by_key t1 (lock_key cd) = Some (reclaim_row (db_now t) (now + svc_lease svc) (now + svc_ttl svc) r)"
    using acquire_takes_over [OF assms(1,2,4,3)] .
  let ?r1 = "reclaim_row (db_now t) (now + svc_lease svc) (now + svc_ttl svc) r"
  have l: "renewLoop svc sql_idempotency_repository \<lparr>lock_recordID = ID r, lock_operationID = op\<rparr>
      (Tick at # es) (t1, []) = (False, (t1, []))"
    using renew_other_fingerprint [OF a(2,3), of op svc at] assms(5)
    by (simp add: reclaim_row_def del: sql_repository_simps)
  have "case LockedUntil ?r1 of None \<Rightarrow> True | Some u \<Rightarrow> u \<le> later"
    using assms(7) by (simp add: reclaim_row_def)
  with a(2,3) assms(6) obtain l' s3 where
    "Acquire cd svc (Some sql_idempotency_repository) op' later (t1, []) = (Inr l', s3)"
    by (elim acquire_takes_over [of t1 cd ?r1 op' later svc])
  with a(1) l show ?thesis by (intro exI conjI) assumption+
qed

definition demo_lock_row :: IdempotencyRecord where
  "demo_lock_row = (demo_row ''succeeded'' ''op1'' None)\<lparr>Scope := systemOperationLockScope,
     IdempotencyKeyHash := systemOperationLockKey\<rparr>"

definition demo_lock_service :: SystemOperationLockService where
  "demo_lock_service = \<lparr>svc_lease = 30, svc_renewInterval = 10, svc_ttl = 100\<rparr>"

theorem lock_taken_over_is_not_renewed_witness:
  "\<exists>l s s2 l2 s3.
      Acquire demo_codec demo_lock_service (Some sql_idempotency_repository) ''op2'' 50
        (demo_table_with demo_lock_row, []) = (Inr l, s) \<and>
      renewLoop demo_lock_service sql_idempotency_repository l (Tick 60 # []) s = (False, s2) \<and>
      Acquire demo_codec demo_lock_service (Some sql_idempotency_repository) ''op3'' 80 s2 = (Inr l2, s3)"
proof -
  have "table_ok (demo_table_with demo_lock_row)"
    by (simp add: table_ok_def demo_table_with_def demo_lock_row_def demo_row_def)
  moreover have "row_by_key (demo_table_with demo_lock_row) (lock_key demo_codec) = Some demo_lock_row"
    by (simp add: row_by_key_def demo_table_with_def key_of_def demo_lock_row_def lock_key_def
        HashIdempotencyKey_def demo_codec_def)
  moreover have "LockedUntil demo_lock_row = None" "RequestFingerprint demo_lock_row \<noteq> ''op2''"
    by (simp_all add: demo_lock_row_def demo_row_def)
  ultimately show ?thesis
    using lock_taken_over_is_not_renewed [where t = "demo_table_with demo_lock_row" and r = demo_lock_row
        and cd = demo_codec and svc = demo_lock_service and op = "''op2''" and op' = "''op3''"
        and now = 50 and later = 80 and at = 60 and es = "[]"]
    by (simp add: demo_lock_service_def del: sql_repository_simps renewLoop.simps)
qed

end
