(* ===== verification/UsageBilling.thy ===== *)
theory UsageBilling
  imports Complex_Main GoErrors
begin

text \<open>
  \<open>service/usage_billing.go\<close>: billing commands, their normalisation and fingerprints, and
  the rounding of amounts to the accounting scale of eight decimals.

  An amount is a Go \<open>float64\<close>. A finite one is modelled by the rational number its shortest
  decimal representation denotes, which is what \<open>decimal.NewFromFloat\<close> and PostgreSQL's
  conversion to NUMERIC read; NaN and the infinities are kept, since the code tests for
  them. Binary rounding of \<open>float64\<close> results beyond that is not modelled. SHA-256 and the
  two \<open>fmt\<close>/\<open>time\<close> renderings used inside the fingerprint are the parameters of record
  \<open>fingerprint_codec\<close>.
\<close>

section \<open>Amounts\<close>

datatype amount = Fin rat | NaN | PosInf | NegInf

fun positive :: "amount \<Rightarrow> bool" where
  "positive (Fin v) \<longleftrightarrow> 0 < v"
| "positive PosInf \<longleftrightarrow> True"
| "positive _ \<longleftrightarrow> False"

fun negative_or_not_finite :: "amount \<Rightarrow> bool" where
  "negative_or_not_finite (Fin v) \<longleftrightarrow> v < 0"
| "negative_or_not_finite _ \<longleftrightarrow> True"

definition round_half_away :: "rat \<Rightarrow> int" where
  "round_half_away x = (if 0 \<le> x then \<lfloor>x + 1 / 2\<rfloor> else - \<lfloor>- x + 1 / 2\<rfloor>)"

definition UsageBillingMonetaryScale :: nat where
  "UsageBillingMonetaryScale = 8"

definition round_to_scale :: "rat \<Rightarrow> rat" where
  "round_to_scale v =
     of_int (round_half_away (v * 10 ^ UsageBillingMonetaryScale)) / 10 ^ UsageBillingMonetaryScale"

fun QuantizeUsageBillingAmount :: "amount \<Rightarrow> amount" where
  "QuantizeUsageBillingAmount (Fin v) = (if v = 0 then Fin v else Fin (round_to_scale v))"
| "QuantizeUsageBillingAmount a = a"

definition on_scale :: "rat \<Rightarrow> bool" where
  "on_scale v \<longleftrightarrow> v * 10 ^ UsageBillingMonetaryScale \<in> \<int>"

record CostBreakdown =
  InputCost :: amount
  ImageInputCost :: amount
  OutputCost :: amount
  ImageOutputCost :: amount
  CacheCreationCost :: amount
  CacheReadCost :: amount
  TotalCost :: amount
  ActualCost :: amount

definition NormalizeMonetaryFields :: "CostBreakdown \<Rightarrow> CostBreakdown" where
  "NormalizeMonetaryFields c =
     c\<lparr>InputCost := QuantizeUsageBillingAmount (InputCost c),
       ImageInputCost := QuantizeUsageBillingAmount (ImageInputCost c),
       OutputCost := QuantizeUsageBillingAmount (OutputCost c),
       ImageOutputCost := QuantizeUsageBillingAmount (ImageOutputCost c),
       CacheCreationCost := QuantizeUsageBillingAmount (CacheCreationCost c),
       CacheReadCost := QuantizeUsageBillingAmount (CacheReadCost c),
       TotalCost := QuantizeUsageBillingAmount (TotalCost c),
       ActualCost := QuantizeUsageBillingAmount (ActualCost c)\<rparr>"

section \<open>Commands and fingerprints\<close>

definition ErrUsageBillingRequestIDRequired :: go_error where
  "ErrUsageBillingRequestIDRequired = PlainErr ''usage billing request_id is required''"

definition ErrUserNotFound :: go_error where
  "ErrUserNotFound = NotFound ''USER_NOT_FOUND'' ''user not found''"

definition ErrUsageBillingRequestConflict :: go_error where
  "ErrUsageBillingRequestConflict = PlainErr ''usage billing request fingerprint conflict''"

record UsageBillingCommand =
  uc_RequestID :: string
  uc_APIKeyID :: int
  uc_RequestFingerprint :: string
  uc_RequestPayloadHash :: string
  uc_UserID :: int
  uc_AccountID :: int
  uc_SubscriptionID :: "int option"
  uc_AccountType :: string
  uc_Model :: string
  uc_ServiceTier :: string
  uc_ReasoningEffort :: string
  uc_BillingType :: int
  uc_InputTokens :: int
  uc_OutputTokens :: int
  uc_CacheCreationTokens :: int
  uc_CacheReadTokens :: int
  uc_ImageCount :: int
  uc_MediaType :: string
  uc_BalanceCost :: amount
  uc_SubscriptionCost :: amount
  uc_APIKeyQuotaCost :: amount
  uc_APIKeyRateLimitCost :: amount
  uc_AccountQuotaCost :: amount
  uc_UserPlatformQuotaCost :: amount
  uc_Platform :: string
  uc_ChargedAt :: time
  uc_PlatformDailyWindowStart :: time
  uc_PlatformWeeklyWindowStart :: time

record fingerprint_codec =
  hash_hex :: "string \<Rightarrow> string"
  fmt_amount :: "amount \<Rightarrow> string"
  fmt_utc_nano :: "time \<Rightarrow> string"

definition quantizeMonetaryFields :: "UsageBillingCommand \<Rightarrow> UsageBillingCommand" where
  "quantizeMonetaryFields c =
     c\<lparr>uc_BalanceCost := QuantizeUsageBillingAmount (uc_BalanceCost c),
       uc_SubscriptionCost := QuantizeUsageBillingAmount (uc_SubscriptionCost c),
       uc_APIKeyQuotaCost := QuantizeUsageBillingAmount (uc_APIKeyQuotaCost c),
       uc_APIKeyRateLimitCost := QuantizeUsageBillingAmount (uc_APIKeyRateLimitCost c),
       uc_AccountQuotaCost := QuantizeUsageBillingAmount (uc_AccountQuotaCost c),
       uc_UserPlatformQuotaCost := QuantizeUsageBillingAmount (uc_UserPlatformQuotaCost c)\<rparr>"

definition valueOrZero :: "int option \<Rightarrow> int" where
  "valueOrZero v = (case v of None \<Rightarrow> 0 | Some i \<Rightarrow> i)"

text \<open>The fields of a \<open>fmt.Sprintf\<close> format whose directives are separated by bars.\<close>

fun join_bar :: "string list \<Rightarrow> string" where
  "join_bar [] = []"
| "join_bar [x] = x"
| "join_bar (x # y # xs) = x @ ''|'' @ join_bar (y # xs)"

definition billing_base_fields :: "fingerprint_codec \<Rightarrow> UsageBillingCommand \<Rightarrow> string list" where
  "billing_base_fields fc c =
     [itoa (uc_UserID c), itoa (uc_AccountID c), itoa (uc_APIKeyID c), trim_space (uc_AccountType c),
      trim_space (uc_Model c), trim_space (uc_ServiceTier c), trim_space (uc_ReasoningEffort c),
      itoa (uc_BillingType c), itoa (uc_InputTokens c), itoa (uc_OutputTokens c),
      itoa (uc_CacheCreationTokens c), itoa (uc_CacheReadTokens c), itoa (uc_ImageCount c),
      trim_space (uc_MediaType c), itoa (valueOrZero (uc_SubscriptionID c)),
      fmt_amount fc (uc_BalanceCost c), fmt_amount fc (uc_SubscriptionCost c),
      fmt_amount fc (uc_APIKeyQuotaCost c), fmt_amount fc (uc_APIKeyRateLimitCost c),
      fmt_amount fc (uc_AccountQuotaCost c)]"

definition buildUsageBillingFingerprint :: "fingerprint_codec \<Rightarrow> UsageBillingCommand \<Rightarrow> string" where
  "buildUsageBillingFingerprint fc c =
     (let payloadHash = trim_space (uc_RequestPayloadHash c);
          raw1 = join_bar (billing_base_fields fc c) @
                 (if payloadHash \<noteq> [] then ''|'' @ payloadHash else []);
          raw2 = (if positive (uc_UserPlatformQuotaCost c) then
                    raw1 @ ''|platform:'' @ trim_space (uc_Platform c) @
                    ''|platform_cost:'' @ fmt_amount fc (uc_UserPlatformQuotaCost c) @
                    (if prefix ''video:'' (trim_space (uc_RequestID c)) then
                       ''|charged_at:'' @ fmt_utc_nano fc (uc_ChargedAt c) @
                       ''|platform_day:'' @ fmt_utc_nano fc (uc_PlatformDailyWindowStart c) @
                       ''|platform_week:'' @ fmt_utc_nano fc (uc_PlatformWeeklyWindowStart c)
                     else [])
                  else raw1)
      in hash_hex fc raw2)"

definition uc_Normalize :: "fingerprint_codec \<Rightarrow> UsageBillingCommand \<Rightarrow> UsageBillingCommand" where
  "uc_Normalize fc c =
     (let c1 = c\<lparr>uc_RequestID := trim_space (uc_RequestID c)\<rparr>;
          c2 = (if trim_space (uc_RequestFingerprint c1) = []
                then c1\<lparr>uc_RequestFingerprint := buildUsageBillingFingerprint fc c1\<rparr> else c1)
      in quantizeMonetaryFields c2)"

definition HasValidFingerprint :: "fingerprint_codec \<Rightarrow> UsageBillingCommand \<Rightarrow> bool" where
  "HasValidFingerprint fc c =
     (if trim_space (uc_RequestFingerprint c) = [] then False
      else uc_RequestFingerprint (uc_Normalize fc (c\<lparr>uc_RequestFingerprint := []\<rparr>)) =
           trim_space (uc_RequestFingerprint c))"

record UsageBillingReversalCommand =
  ReversalRequestID :: string
  Original :: UsageBillingCommand

definition rc_Normalize ::
  "fingerprint_codec \<Rightarrow> UsageBillingReversalCommand \<Rightarrow> UsageBillingReversalCommand" where
  "rc_Normalize fc c =
     c\<lparr>ReversalRequestID := trim_space (ReversalRequestID c), Original := uc_Normalize fc (Original c)\<rparr>"

definition UsageBillingReversalFingerprint ::
  "fingerprint_codec \<Rightarrow> UsageBillingReversalCommand \<Rightarrow> string" where
  "UsageBillingReversalFingerprint fc c =
     (let original = uc_Normalize fc (Original c)
      in hash_hex fc (''reverse|'' @ uc_RequestID original @ ''|'' @ uc_RequestFingerprint original))"

definition HashUsageRequestPayload :: "fingerprint_codec \<Rightarrow> string \<Rightarrow> string" where
  "HashUsageRequestPayload fc payload = (if payload = [] then [] else hash_hex fc payload)"

record AccountQuotaState =
  TotalUsed :: rat
  TotalLimit :: rat
  DailyUsed :: rat
  DailyLimit :: rat
  WeeklyUsed :: rat
  WeeklyLimit :: rat

record UsageBillingApplyResult =
  ar_Applied :: bool
  APIKeyQuotaExhausted :: bool
  UserPlatformQuotaApplied :: bool
  ar_NewBalance :: "rat option"
  BalanceOverdrafted :: bool
  QuotaState :: "AccountQuotaState option"

record UsageBillingReversalResult =
  rr_Applied :: bool
  rr_NewBalance :: "rat option"

record BatchImageBalanceHoldCommand =
  hc_RequestID :: string
  hc_APIKeyID :: int
  hc_RequestFingerprint :: string
  hc_RequestPayloadHash :: string
  hc_UserID :: int
  hc_BatchID :: string
  HoldAmount :: amount
  ActualAmount :: amount

record BatchImageBalanceHoldResult =
  hr_Applied :: bool
  hr_NewBalance :: "rat option"
  FrozenBalance :: "rat option"

definition buildBatchImageBalanceHoldFingerprint ::
  "fingerprint_codec \<Rightarrow> BatchImageBalanceHoldCommand \<Rightarrow> string" where
  "buildBatchImageBalanceHoldFingerprint fc c =
     (let payloadHash = trim_space (hc_RequestPayloadHash c)
      in hash_hex fc
           (join_bar [itoa (hc_UserID c), itoa (hc_APIKeyID c), trim_space (hc_BatchID c),
              fmt_amount fc (HoldAmount c), fmt_amount fc (ActualAmount c)] @
            (if payloadHash \<noteq> [] then ''|'' @ payloadHash else [])))"

definition hc_Normalize ::
  "fingerprint_codec \<Rightarrow> BatchImageBalanceHoldCommand \<Rightarrow> BatchImageBalanceHoldCommand" where
  "hc_Normalize fc c =
     (let c1 = c\<lparr>hc_RequestID := trim_space (hc_RequestID c), hc_BatchID := trim_space (hc_BatchID c)\<rparr>;
          c2 = (if trim_space (hc_RequestFingerprint c1) = []
                then c1\<lparr>hc_RequestFingerprint := buildBatchImageBalanceHoldFingerprint fc c1\<rparr> else c1)
      in c2\<lparr>HoldAmount := QuantizeUsageBillingAmount (HoldAmount c2),
            ActualAmount := QuantizeUsageBillingAmount (ActualAmount c2)\<rparr>)"

section \<open>Rounding\<close>

lemma round_half_away_of_int [simp]: "round_half_away (of_int i) = i"
proof -
  have "\<lfloor>of_int j + 1 / 2 :: rat\<rfloor> = j" for j by linarith
  from this [of i] this [of "- i"] show ?thesis by (simp add: round_half_away_def)
qed

lemma round_half_away_minus: "round_half_away (- x) = - round_half_away x"
proof -
  have "\<lfloor>1 / 2 :: rat\<rfloor> = 0" by linarith
  then show ?thesis by (auto simp: round_half_away_def)
qed

lemma round_half_away_error: "\<bar>of_int (round_half_away x) - x\<bar> \<le> 1 / 2"
proof (cases "0 \<le> x")
  case True
  then show ?thesis unfolding round_half_away_def abs_le_iff if_P [OF True] by linarith
next
  case False
  then show ?thesis unfolding round_half_away_def abs_le_iff if_not_P [OF False] of_int_minus by linarith
qed

lemma round_half_away_mono: "x \<le> y \<Longrightarrow> round_half_away x \<le> round_half_away y"
  by (cases "0 \<le> x"; cases "0 \<le> y") (simp_all add: round_half_away_def; linarith)+

lemma on_scale_round_to_scale: "on_scale (round_to_scale v)"
  by (simp add: on_scale_def round_to_scale_def)

lemma round_to_scale_fixed: "on_scale v \<Longrightarrow> round_to_scale v = v"
  by (auto simp: on_scale_def round_to_scale_def field_simps elim!: Ints_cases)

lemma on_scale_zero [simp]: "on_scale 0"
  by (simp add: on_scale_def)

lemma on_scale_add: "on_scale a \<Longrightarrow> on_scale b \<Longrightarrow> on_scale (a + b)"
  by (simp add: on_scale_def distrib_right)

lemma on_scale_diff: "on_scale a \<Longrightarrow> on_scale b \<Longrightarrow> on_scale (a - b)"
  by (simp add: on_scale_def left_diff_distrib)

lemma round_to_scale_nonneg: "0 \<le> v \<Longrightarrow> 0 \<le> round_to_scale v"
  using round_half_away_mono [of 0 "v * 10 ^ UsageBillingMonetaryScale"] round_half_away_of_int [of 0]
  by (simp add: round_to_scale_def)

lemma round_to_scale_error: "\<bar>round_to_scale v - v\<bar> \<le> 1 / 2 / 10 ^ UsageBillingMonetaryScale"
proof -
  let ?k = "10 ^ UsageBillingMonetaryScale :: rat"
  have "\<bar>round_to_scale v - v\<bar> = \<bar>of_int (round_half_away (v * ?k)) - v * ?k\<bar> / ?k"
    by (simp add: round_to_scale_def divide_simps abs_if)
  also have "\<dots> \<le> 1 / 2 / ?k"
    by (rule divide_right_mono [OF round_half_away_error]) simp
  finally show ?thesis .
qed

lemma quantize_Fin: "QuantizeUsageBillingAmount (Fin v) = Fin (round_to_scale v)"
  by (simp add: round_to_scale_fixed)

lemma quantize_idem [simp]:
  "QuantizeUsageBillingAmount (QuantizeUsageBillingAmount a) = QuantizeUsageBillingAmount a"
  by (cases a) (simp_all del: QuantizeUsageBillingAmount.simps(1) add: quantize_Fin
      round_to_scale_fixed on_scale_round_to_scale)

text \<open>An amount the code has put on the scale.\<close>

definition amount_on_scale :: "amount \<Rightarrow> bool" where
  "amount_on_scale a = (case a of Fin v \<Rightarrow> on_scale v | _ \<Rightarrow> True)"

lemma quantize_on_scale: "amount_on_scale (QuantizeUsageBillingAmount a)"
  by (cases a) (simp_all add: amount_on_scale_def on_scale_round_to_scale)

lemma quantize_fixed: "amount_on_scale a \<Longrightarrow> QuantizeUsageBillingAmount a = a"
  by (cases a) (simp_all add: amount_on_scale_def round_to_scale_fixed)

text \<open>
  A quantized charge differs from the computed cost by at most half a unit of the eighth
  decimal, and the two NUMERIC(20,8) columns it is subtracted from and added to move by
  exactly the same amount, because neither result is rounded again when it is stored.
\<close>

theorem quantized_charge_moves_columns_equally:
  assumes "QuantizeUsageBillingAmount (Fin v) = Fin w" "on_scale balance" "on_scale used"
  shows "balance - round_to_scale (balance - w) = w \<and> round_to_scale (used + w) - used = w \<and>
         \<bar>w - v\<bar> \<le> 1 / 2 / 10 ^ UsageBillingMonetaryScale"
proof -
  have w: "w = round_to_scale v" using assms(1) by (simp only: quantize_Fin amount.inject)
  then have "on_scale w" by (simp add: on_scale_round_to_scale)
  with assms show ?thesis
    using round_to_scale_error [of v]
    by (simp add: round_to_scale_fixed on_scale_add on_scale_diff w)
qed

theorem quantized_charge_moves_columns_equally_witness:
  "let w = 0.00007813 :: rat in
     QuantizeUsageBillingAmount (Fin 0.000078125) = Fin w \<and>
     10000 - round_to_scale (10000 - w) = w \<and> round_to_scale (0 + w) - 0 = w"
proof -
  have q: "QuantizeUsageBillingAmount (Fin 0.000078125) = Fin 0.00007813" by code_simp
  have "on_scale 10000" by (simp add: on_scale_def UsageBillingMonetaryScale_def)
  from quantized_charge_moves_columns_equally [OF q this on_scale_zero] q show ?thesis by (simp add: Let_def)
qed

section \<open>Normalised commands\<close>

definition command_on_scale :: "UsageBillingCommand \<Rightarrow> bool" where
  "command_on_scale c \<longleftrightarrow>
     amount_on_scale (uc_BalanceCost c) \<and> amount_on_scale (uc_SubscriptionCost c) \<and>
     amount_on_scale (uc_APIKeyQuotaCost c) \<and> amount_on_scale (uc_APIKeyRateLimitCost c) \<and>
     amount_on_scale (uc_AccountQuotaCost c) \<and> amount_on_scale (uc_UserPlatformQuotaCost c)"

lemma quantizeMonetaryFields_fixed: "command_on_scale c \<Longrightarrow> quantizeMonetaryFields c = c"
  by (simp add: quantizeMonetaryFields_def command_on_scale_def quantize_fixed)

lemma uc_Normalize_on_scale: "command_on_scale (uc_Normalize fc c)"
  by (simp add: uc_Normalize_def quantizeMonetaryFields_def command_on_scale_def Let_def quantize_on_scale)

lemma uc_Normalize_fields [simp]:
  "uc_RequestID (uc_Normalize fc c) = trim_space (uc_RequestID c)"
  "uc_APIKeyID (uc_Normalize fc c) = uc_APIKeyID c"
  "uc_UserID (uc_Normalize fc c) = uc_UserID c"
  by (simp_all add: uc_Normalize_def quantizeMonetaryFields_def Let_def)

text \<open>
  SHA-256 in hexadecimal is never empty and has no white space around it, and the two
  renderings are fixed functions: what the fingerprint lemmas need of the codec.
\<close>

definition hex_hash :: "fingerprint_codec \<Rightarrow> bool" where
  "hex_hash fc \<longleftrightarrow> (\<forall>s. hash_hex fc s \<noteq> [] \<and> trim_space (hash_hex fc s) = hash_hex fc s)"

lemma billing_base_fields_update [simp]:
  "billing_base_fields fc (c\<lparr>uc_RequestFingerprint := x\<rparr>) = billing_base_fields fc c"
  "billing_base_fields fc (c\<lparr>uc_RequestID := x\<rparr>) = billing_base_fields fc c"
  by (simp_all add: billing_base_fields_def)

lemma fingerprint_ignores_fingerprint [simp]:
  "buildUsageBillingFingerprint fc (c\<lparr>uc_RequestFingerprint := x\<rparr>) = buildUsageBillingFingerprint fc c"
  by (simp add: buildUsageBillingFingerprint_def Let_def)

lemma fingerprint_trims_request [simp]:
  "trim_space x = trim_space (uc_RequestID c) \<Longrightarrow>
     buildUsageBillingFingerprint fc (c\<lparr>uc_RequestID := x\<rparr>) = buildUsageBillingFingerprint fc c"
  by (simp add: buildUsageBillingFingerprint_def Let_def)

lemma fingerprint_hex:
  "hex_hash fc \<Longrightarrow> buildUsageBillingFingerprint fc c \<noteq> [] \<and>
     trim_space (buildUsageBillingFingerprint fc c) = buildUsageBillingFingerprint fc c"
  by (simp add: buildUsageBillingFingerprint_def Let_def hex_hash_def)

lemma quantizeMonetaryFields_keeps [simp]:
  "uc_RequestFingerprint (quantizeMonetaryFields c) = uc_RequestFingerprint c"
  by (simp add: quantizeMonetaryFields_def)

lemma uc_Normalize_idem:
  assumes "hex_hash fc"
  shows "uc_Normalize fc (uc_Normalize fc c) = uc_Normalize fc c"
proof -
  let ?n = "uc_Normalize fc c"
  have fp: "trim_space (uc_RequestFingerprint ?n) \<noteq> []"
    using fingerprint_hex [OF assms] by (simp add: uc_Normalize_def Let_def)
  have "uc_RequestID ?n = trim_space (uc_RequestID ?n)" by simp
  then have "?n\<lparr>uc_RequestID := trim_space (uc_RequestID ?n)\<rparr> = ?n" by simp
  then show ?thesis
    using fp quantizeMonetaryFields_fixed [OF uc_Normalize_on_scale]
    by (simp add: uc_Normalize_def [of fc ?n] Let_def del: uc_Normalize_fields)
qed

text \<open>
  C35: A command whose amounts are already on the accounting scale (as the cost breakdown
  leaves them) and which carries no fingerprint is normalised into one whose fingerprint
  is valid, so the receipt of the charge can be presented for a reversal.
\<close>

theorem normalized_fingerprint_is_valid:
  assumes "hex_hash fc" "trim_space (uc_RequestFingerprint c) = []" "command_on_scale c"
  shows "HasValidFingerprint fc (uc_Normalize fc c)"
proof -
  have n: "uc_Normalize fc c = c\<lparr>uc_RequestID := trim_space (uc_RequestID c),
      uc_RequestFingerprint := buildUsageBillingFingerprint fc c\<rparr>"
    using assms quantizeMonetaryFields_fixed
    by (simp add: uc_Normalize_def Let_def command_on_scale_def)
  let ?fp = "buildUsageBillingFingerprint fc c"
  have "uc_RequestFingerprint (uc_Normalize fc (c\<lparr>uc_RequestID := trim_space (uc_RequestID c),
      uc_RequestFingerprint := []\<rparr>)) = ?fp"
    by (simp add: uc_Normalize_def Let_def del: uc_Normalize_fields)
  then show ?thesis
    unfolding n using fingerprint_hex [OF assms(1), of c] by (simp add: HasValidFingerprint_def)
qed

definition demo_fc :: fingerprint_codec where
  "demo_fc = \<lparr>hash_hex = (\<lambda>s. digits_of (length s)), fmt_amount = (\<lambda>a. ''x''), fmt_utc_nano = (\<lambda>t. ''t'')\<rparr>"

definition demo_command :: UsageBillingCommand where
  "demo_command = \<lparr>uc_RequestID = ''r1'', uc_APIKeyID = 7, uc_RequestFingerprint = [],
     uc_RequestPayloadHash = [], uc_UserID = 1, uc_AccountID = 3, uc_SubscriptionID = Some 5,
     uc_AccountType = ''apikey'', uc_Model = ''m'', uc_ServiceTier = [], uc_ReasoningEffort = [],
     uc_BillingType = 0, uc_InputTokens = 10, uc_OutputTokens = 5, uc_CacheCreationTokens = 0,
     uc_CacheReadTokens = 0, uc_ImageCount = 0, uc_MediaType = [], uc_BalanceCost = Fin 2,
     uc_SubscriptionCost = Fin 0, uc_APIKeyQuotaCost = Fin 2, uc_APIKeyRateLimitCost = Fin 0,
     uc_AccountQuotaCost = Fin 0, uc_UserPlatformQuotaCost = Fin 0, uc_Platform = [],
     uc_ChargedAt = 0, uc_PlatformDailyWindowStart = 0, uc_PlatformWeeklyWindowStart = 0\<rparr>"

theorem normalized_fingerprint_is_valid_witness:
  "HasValidFingerprint demo_fc (uc_Normalize demo_fc demo_command)"
proof (rule normalized_fingerprint_is_valid)
  have "digits_of n \<noteq> [] \<and> trim_space (digits_of n) = digits_of n" for n
    by (simp add: trim_space_digits digits_of_range)
  then show "hex_hash demo_fc" by (simp add: hex_hash_def demo_fc_def)
  show "command_on_scale demo_command"
    by (simp add: command_on_scale_def demo_command_def amount_on_scale_def on_scale_def)
qed (simp add: demo_command_def)

end
