(* ===== verification/GoStrings.thy ===== *)
theory GoStrings
  imports GoPrelude
begin

text \<open>
  Functions of the packages \<open>strings\<close> and \<open>strconv\<close> on byte strings.
\<close>

definition has_prefix :: "string \<Rightarrow> string \<Rightarrow> bool" where
  "has_prefix p s \<longleftrightarrow> take (length p) s = p"

text \<open>\<open>strings.ToLower\<close>, as far as it is compared with ASCII texts: the ASCII letters, and the two other
  code points with an ASCII lower case, U+0130 and U+212A.\<close>

definition lower_ascii :: "char \<Rightarrow> char" where
  "lower_ascii a = (let n = of_char a in if 65 \<le> n \<and> n \<le> (90 :: nat) then char_of (n + 32) else a)"

fun to_lower :: "string \<Rightarrow> string" where
  "to_lower [] = []"
| "to_lower [a] = [lower_ascii a]"
| "to_lower [a, b] =
     (if of_char a = (196 :: nat) \<and> of_char b = (176 :: nat) then ''i'' else lower_ascii a # to_lower [b])"
| "to_lower (a # b # c # s) =
     (if of_char a = (196 :: nat) \<and> of_char b = (176 :: nat) then CHR ''i'' # to_lower (c # s)
      else if of_char a = (226 :: nat) \<and> of_char b = (132 :: nat) \<and> of_char c = (170 :: nat) then CHR ''k'' # to_lower s
      else lower_ascii a # to_lower (b # c # s))"

fun contains :: "string \<Rightarrow> string \<Rightarrow> bool" where
  "contains [] p \<longleftrightarrow> p = []"
| "contains (a # s) p \<longleftrightarrow> has_prefix p (a # s) \<or> contains s p"

text \<open>
  \<open>strings.EqualFold\<close> of which one text is ASCII: ASCII letters fold, and so do the two other
  code points that fold into ASCII letters, the Kelvin sign and the long s.
\<close>

fun fold_ascii :: "string \<Rightarrow> string" where
  "fold_ascii (a # b # c # s) =
     (if [a, b, c] = [CHR 0xE2, CHR 0x84, CHR 0xAA] then CHR ''K'' # fold_ascii s
      else if [a, b] = [CHR 0xC5, CHR 0xBF] then CHR ''S'' # fold_ascii (c # s)
      else upper_char a # fold_ascii (b # c # s))"
| "fold_ascii [a, b] = (if [a, b] = [CHR 0xC5, CHR 0xBF] then ''S'' else [upper_char a, upper_char b])"
| "fold_ascii s = to_upper s"

definition equal_fold :: "string \<Rightarrow> string \<Rightarrow> bool" where
  "equal_fold s t \<longleftrightarrow> fold_ascii s = fold_ascii t"

text \<open>\<open>strconv.ParseInt\<close> of a decimal 64-bit number; \<open>strconv.Atoi\<close> is the same.\<close>

fun digits_value :: "string \<Rightarrow> int \<Rightarrow> int option" where
  "digits_value [] v = Some v"
| "digits_value (a # s) v =
     (if in_range 48 57 a then digits_value s (10 * v + (of_char a - 48)) else None)"

definition ParseInt :: "string \<Rightarrow> int option" where
  "ParseInt s =
     (let negative = has_prefix ''-'' s;
          digits = (if negative \<or> has_prefix ''+'' s then tl s else s)
      in if digits = [] then None
         else (case digits_value digits 0 of
                 None \<Rightarrow> None
               | Some v \<Rightarrow>
                   (let n = (if negative then - v else v) in
                    if - (2 ^ 63) \<le> n \<and> n < 2 ^ 63 then Some n else None)))"

text \<open>\<open>strings.Split\<close> at one byte.\<close>

fun split_at :: "char \<Rightarrow> string \<Rightarrow> string list" where
  "split_at c [] = [[]]"
| "split_at c (a # s) =
     (if a = c then [] # split_at c s
      else (case split_at c s of x # xs \<Rightarrow> (a # x) # xs | [] \<Rightarrow> [[a]]))"

text \<open>\<open>utf8.RuneCountInString\<close>: a byte that starts no valid sequence counts alone.\<close>

definition rune_width :: "char \<Rightarrow> string \<Rightarrow> nat" where
  "rune_width a s =
     (if in_range 194 223 a then
        (case s of b # _ \<Rightarrow> if in_range 128 191 b then 2 else 1 | _ \<Rightarrow> 1)
      else if in_range 224 239 a then
        (case s of b # c # _ \<Rightarrow>
           if in_range (if in_range 224 224 a then 160 else 128) (if in_range 237 237 a then 159 else 191) b \<and>
              in_range 128 191 c then 3 else 1
         | _ \<Rightarrow> 1)
      else if in_range 240 244 a then
        (case s of b # c # d # _ \<Rightarrow>
           if in_range (if in_range 240 240 a then 144 else 128) (if in_range 244 244 a then 143 else 191) b \<and>
              in_range 128 191 c \<and> in_range 128 191 d then 4 else 1
         | _ \<Rightarrow> 1)
      else 1)"

fun rune_count :: "string \<Rightarrow> nat" where
  "rune_count [] = 0"
| "rune_count (a # s) = Suc (rune_count (drop (rune_width a s - 1) s))"

end
