(* ===== verification/BillingLedger.thy ===== *)
theory BillingLedger
  imports UsageBilling GoStrings
begin

text \<open>
  The tables behind \<open>repository/usage_billing_repo.go\<close> and
  \<open>repository/frozen_balance_release.go\<close>, the transactions on them, and every statement those
  files send, one definition per Go function.

  A transaction body is a function from the ledger to an error or to a result and the new
  ledger. An error, or a return without \<open>Commit\<close>, leaves the ledger as it was: the deferred
  \<open>Rollback\<close>. The failures of statements and of the commit are the faults of
  \<open>run_tx\<close>. Concurrent transactions are taken as serialised, which the unique index on the
  deduplication table, the row locks of the updates and the advisory lock provide.
\<close>

section \<open>Tables\<close>

record user_row =
  u_balance :: rat
  u_frozen :: "rat option"
  u_deleted :: bool

record subscription_row =
  s_group :: int
  s_daily :: rat
  s_weekly :: rat
  s_monthly :: rat
  s_daily_start :: "time option"
  s_weekly_start :: "time option"
  s_monthly_start :: "time option"
  s_deleted :: bool

record api_key_row =
  k_quota :: rat
  k_quota_used :: rat
  k_status :: string
  k_usage_5h :: rat
  k_usage_1d :: rat
  k_usage_7d :: rat
  k_start_5h :: "time option"
  k_start_1d :: "time option"
  k_start_7d :: "time option"
  k_deleted :: bool

record quota_window =
  w_limit :: "rat option"
  w_used :: "rat option"
  w_start :: "time option"
  w_fixed :: bool
  w_reset_at :: "time option"

record account_row =
  a_quota_used :: "rat option"
  a_quota_limit :: "rat option"
  a_daily :: quota_window
  a_weekly :: quota_window
  a_deleted :: bool

record platform_quota_row =
  p_daily :: rat
  p_weekly :: rat
  p_monthly :: rat
  p_daily_start :: "time option"
  p_weekly_start :: "time option"
  p_monthly_start :: "time option"

record job_row =
  j_user :: int
  j_key :: int
  j_estimated :: rat
  j_hold :: "rat option"
  j_request_hash :: "string option"

record claim_row =
  c_fingerprint :: string
  c_created :: time

record usage_log_row =
  l_actual_cost :: rat
  l_account_stats_cost :: "rat option"

text \<open>
  \<open>claims\<close> is \<open>usage_billing_dedup\<close>, \<open>archive\<close> its archive, \<open>releases\<close> the rows of
  \<open>balance_hold_releases\<close> for batch images, and \<open>outbox\<close> the accounts with a
  pending scheduler event, of which the outbox keeps one per account.
\<close>

record ledger =
  users :: "int \<Rightarrow> user_row option"
  subscriptions :: "int \<Rightarrow> subscription_row option"
  live_groups :: "int \<Rightarrow> bool"
  api_keys :: "int \<Rightarrow> api_key_row option"
  accounts :: "int \<Rightarrow> account_row option"
  platform_quotas :: "int \<times> string \<Rightarrow> platform_quota_row option"
  claims :: "string \<times> int \<Rightarrow> claim_row option"
  archive :: "string \<times> int \<Rightarrow> claim_row option"
  jobs :: "string \<Rightarrow> job_row option"
  releases :: "string \<times> int \<Rightarrow> (int \<times> rat) option"
  usage_logs :: "string \<times> int \<Rightarrow> usage_log_row option"
  outbox :: "int list"
  now_db :: time

text \<open>
  Calendar arithmetic of the database, in its session time zone or in an account's own:
  \<open>date_trunc('day', _)\<close> and the next reset points of the fixed quota windows.
\<close>

record calendar =
  trunc_day :: "time \<Rightarrow> time"
  next_daily_reset :: "account_row \<Rightarrow> time \<Rightarrow> time"
  next_weekly_reset :: "account_row \<Rightarrow> time \<Rightarrow> time"

section \<open>Transactions\<close>

type_synonym 'a tx = "ledger \<Rightarrow> go_error + 'a \<times> ledger"

definition run_tx :: "'a tx \<Rightarrow> ledger conn \<Rightarrow> (go_error + 'a) \<times> ledger conn" where
  "run_tx body c =
     (case sql_exec (\<lambda>l. case body l of Inl e \<Rightarrow> (Inl e, l) | Inr (a, l') \<Rightarrow> (Inr a, l')) c of
        (Inl e, c') \<Rightarrow> (Inl e, c')
      | (Inr r, c') \<Rightarrow> (r, c'))"

definition tx_bind :: "'a tx \<Rightarrow> ('a \<Rightarrow> 'b tx) \<Rightarrow> 'b tx" where
  "tx_bind m f l = (case m l of Inl e \<Rightarrow> Inl e | Inr (a, l') \<Rightarrow> f a l')"

definition tx_return :: "'a \<Rightarrow> 'a tx" where
  "tx_return a l = Inr (a, l)"

definition tx_fail :: "go_error \<Rightarrow> 'a tx" where
  "tx_fail e l = Inl e"

text \<open>
  A step that runs under a condition, and an amount passed to a statement. The columns are
  NUMERIC(20,8), which refuses an infinity; NaN is outside the range of the model's columns
  and counted as refused as well (no guard of the code lets it reach a statement, except
  beside another positive amount of the same update).
\<close>

definition tx_when :: "bool \<Rightarrow> 'a tx \<Rightarrow> 'a \<Rightarrow> 'a tx" where
  "tx_when b m a = (if b then m else tx_return a)"

fun numeric :: "amount \<Rightarrow> (rat \<Rightarrow> 'a tx) \<Rightarrow> 'a tx" where
  "numeric (Fin v) f l = f v l"
| "numeric _ f l = Inl (PlainErr ''numeric field overflow'')"

lemmas tx_defs = tx_bind_def tx_return_def tx_fail_def tx_when_def

lemma tx_bind_Inr:
  "tx_bind m f l = Inr (b, l'') \<longleftrightarrow> (\<exists>a l'. m l = Inr (a, l') \<and> f a l' = Inr (b, l''))"
  by (auto simp: tx_bind_def split: sum.splits prod.splits)

lemma tx_return_Inr [simp]: "tx_return a l = Inr (b, l') \<longleftrightarrow> b = a \<and> l' = l"
  by (auto simp: tx_return_def)

lemma tx_fail_Inr [simp]: "tx_fail e l \<noteq> Inr x"
  by (simp add: tx_fail_def)

lemma numeric_Inr: "numeric a f l = Inr x \<longleftrightarrow> (\<exists>v. a = Fin v \<and> f v l = Inr x)"
  by (cases a) auto

section \<open>Errors\<close>

definition ErrSubscriptionNotFound :: go_error where
  "ErrSubscriptionNotFound = NotFound ''SUBSCRIPTION_NOT_FOUND'' ''subscription not found''"

definition ErrAPIKeyNotFound :: go_error where
  "ErrAPIKeyNotFound = NotFound ''API_KEY_NOT_FOUND'' ''api key not found''"

definition ErrAccountNotFound :: go_error where
  "ErrAccountNotFound = NotFound ''ACCOUNT_NOT_FOUND'' ''account not found''"

definition ErrBatchImageInsufficientBalance :: go_error where
  "ErrBatchImageInsufficientBalance =
     New 402 ''BATCH_IMAGE_INSUFFICIENT_BALANCE'' ''insufficient balance for batch image hold''"

definition ErrBatchImageSettlementCostExceedsHold :: go_error where
  "ErrBatchImageSettlementCostExceedsHold =
     New 409 ''BATCH_IMAGE_SETTLEMENT_COST_EXCEEDS_HOLD'' ''batch image settlement cost exceeds held balance''"

section \<open>Claims\<close>

definition claim_fingerprint :: "(string \<times> int \<Rightarrow> claim_row option) \<Rightarrow> string \<Rightarrow> int \<Rightarrow> string option" where
  "claim_fingerprint t requestID apiKeyID = map_option c_fingerprint (t (requestID, apiKeyID))"

definition usageBillingClaimMatches :: "string \<Rightarrow> int \<Rightarrow> string \<Rightarrow> bool tx" where
  "usageBillingClaimMatches requestID apiKeyID fingerprint l =
     (case claim_fingerprint (claims l) requestID apiKeyID of
        Some persisted \<Rightarrow>
          if trim_space persisted \<noteq> trim_space fingerprint then Inl ErrUsageBillingRequestConflict
          else Inr (True, l)
      | None \<Rightarrow>
     (case claim_fingerprint (archive l) requestID apiKeyID of
        Some persisted \<Rightarrow>
          if trim_space persisted \<noteq> trim_space fingerprint then Inl ErrUsageBillingRequestConflict
          else Inr (True, l)
      | None \<Rightarrow> Inr (False, l)))"

definition claimUsageBillingRequest :: "string \<Rightarrow> int \<Rightarrow> string \<Rightarrow> bool tx" where
  "claimUsageBillingRequest requestID apiKeyID fingerprint l =
     (case claim_fingerprint (claims l) requestID apiKeyID of
        Some existing \<Rightarrow>
          if trim_space existing \<noteq> trim_space fingerprint then Inl ErrUsageBillingRequestConflict
          else Inr (False, l)
      | None \<Rightarrow>
          (let l' = l\<lparr>claims := (claims l)((requestID, apiKeyID) \<mapsto>
                      \<lparr>c_fingerprint = fingerprint, c_created = now_db l\<rparr>)\<rparr> in
           case claim_fingerprint (archive l') requestID apiKeyID of
             Some archived \<Rightarrow>
               if trim_space archived \<noteq> trim_space fingerprint then Inl ErrUsageBillingRequestConflict
               else Inr (False, l')
           | None \<Rightarrow> Inr (True, l')))"

definition claimUsageBillingKey :: "UsageBillingCommand \<Rightarrow> bool tx" where
  "claimUsageBillingKey cmd =
     claimUsageBillingRequest (uc_RequestID cmd) (uc_APIKeyID cmd) (uc_RequestFingerprint cmd)"

definition batchImageHoldClaimExists :: "string \<Rightarrow> int \<Rightarrow> ledger \<Rightarrow> bool" where
  "batchImageHoldClaimExists holdRequestID apiKeyID l \<longleftrightarrow>
     claims l (holdRequestID, apiKeyID) \<noteq> None \<or> archive l (holdRequestID, apiKeyID) \<noteq> None"

section \<open>Statements of a charge\<close>

definition live_user :: "ledger \<Rightarrow> int \<Rightarrow> user_row option" where
  "live_user l u = (case users l u of Some r \<Rightarrow> if u_deleted r then None else Some r | None \<Rightarrow> None)"

definition put_user :: "int \<Rightarrow> user_row \<Rightarrow> ledger \<Rightarrow> ledger" where
  "put_user u r l = l\<lparr>users := (users l)(u \<mapsto> r)\<rparr>"

definition frozen_of :: "user_row \<Rightarrow> rat" where
  "frozen_of r = (case u_frozen r of None \<Rightarrow> 0 | Some f \<Rightarrow> f)"

definition userExistsForBilling :: "int \<Rightarrow> ledger \<Rightarrow> bool" where
  "userExistsForBilling u l \<longleftrightarrow> live_user l u \<noteq> None"

text \<open>The guarded update first, then the one that goes into debt; the flag is \<open>sufficient\<close>.\<close>

definition deductUsageBillingBalance :: "int \<Rightarrow> rat \<Rightarrow> (rat \<times> bool) tx" where
  "deductUsageBillingBalance userID amt l =
     (case live_user l userID of
        None \<Rightarrow> Inl ErrUserNotFound
      | Some r \<Rightarrow>
          (let r' = r\<lparr>u_balance := u_balance r - amt\<rparr>
           in if u_balance r \<ge> amt then Inr ((u_balance r', True), put_user userID r' l)
              else Inr ((u_balance r', False), put_user userID r' l)))"

definition incrementUsageBillingSubscription :: "int \<Rightarrow> rat \<Rightarrow> unit tx" where
  "incrementUsageBillingSubscription subscriptionID cost l =
     (case subscriptions l subscriptionID of
        Some r \<Rightarrow>
          if s_deleted r \<or> \<not> live_groups l (s_group r) then Inl ErrSubscriptionNotFound
          else Inr ((), l\<lparr>subscriptions := (subscriptions l)(subscriptionID \<mapsto>
                 r\<lparr>s_daily := s_daily r + cost, s_weekly := s_weekly r + cost,
                   s_monthly := s_monthly r + cost\<rparr>)\<rparr>)
      | None \<Rightarrow> Inl ErrSubscriptionNotFound)"

definition StatusAPIKeyActive :: string where
  "StatusAPIKeyActive = ''active''"

definition StatusAPIKeyQuotaExhausted :: string where
  "StatusAPIKeyQuotaExhausted = ''quota_exhausted''"

definition live_key :: "ledger \<Rightarrow> int \<Rightarrow> api_key_row option" where
  "live_key l k = (case api_keys l k of Some r \<Rightarrow> if k_deleted r then None else Some r | None \<Rightarrow> None)"

definition quota_row_after :: "rat \<Rightarrow> api_key_row \<Rightarrow> api_key_row" where
  "quota_row_after amt r =
     r\<lparr>k_quota_used := k_quota_used r + amt,
       k_status := (if 0 < k_quota r \<and> k_status r = StatusAPIKeyActive \<and> k_quota_used r < k_quota r \<and>
                       k_quota_used r + amt \<ge> k_quota r
                    then StatusAPIKeyQuotaExhausted else k_status r)\<rparr>"

text \<open>\<open>None\<close> in the result is \<open>ErrAPIKeyNotFound\<close>, which the callers ignore.\<close>

definition incrementUsageBillingAPIKeyQuota :: "int \<Rightarrow> rat \<Rightarrow> bool option tx" where
  "incrementUsageBillingAPIKeyQuota apiKeyID amt l =
     (case live_key l apiKeyID of
        None \<Rightarrow> Inr (None, l)
      | Some r \<Rightarrow>
          (let r' = quota_row_after amt r in
           Inr (Some (0 < k_quota r' \<and> k_quota_used r' \<ge> k_quota r' \<and> k_quota_used r' - amt < k_quota r'),
                l\<lparr>api_keys := (api_keys l)(apiKeyID \<mapsto> r')\<rparr>)))"

text \<open>One rate-limit window: its usage and start after a charge at \<open>ts\<close>.\<close>

definition window_over :: "duration \<Rightarrow> time \<Rightarrow> time option \<Rightarrow> bool" where
  "window_over len ts start = (case start of None \<Rightarrow> False | Some s \<Rightarrow> s + len \<le> ts)"

definition charge_usage :: "duration \<Rightarrow> time \<Rightarrow> rat \<Rightarrow> time option \<Rightarrow> rat \<Rightarrow> rat" where
  "charge_usage len ts cost start used = (if window_over len ts start then cost else used + cost)"

definition charge_start :: "duration \<Rightarrow> time \<Rightarrow> time \<Rightarrow> time option \<Rightarrow> time option" where
  "charge_start len ts fresh start =
     (if start = None \<or> window_over len ts start then Some fresh else start)"

definition charged_at :: "time \<Rightarrow> time \<Rightarrow> time" where
  "charged_at chargedAt now = (if is_zero chargedAt then now else chargedAt)"

definition rate_limit_row_after :: "calendar \<Rightarrow> rat \<Rightarrow> time \<Rightarrow> api_key_row \<Rightarrow> api_key_row" where
  "rate_limit_row_after cal cost ts r =
     r\<lparr>k_usage_5h := charge_usage (5 * hour) ts cost (k_start_5h r) (k_usage_5h r),
       k_usage_1d := charge_usage (24 * hour) ts cost (k_start_1d r) (k_usage_1d r),
       k_usage_7d := charge_usage (168 * hour) ts cost (k_start_7d r) (k_usage_7d r),
       k_start_5h := charge_start (5 * hour) ts ts (k_start_5h r),
       k_start_1d := charge_start (24 * hour) ts (trunc_day cal ts) (k_start_1d r),
       k_start_7d := charge_start (168 * hour) ts (trunc_day cal ts) (k_start_7d r)\<rparr>"

definition incrementUsageBillingAPIKeyRateLimit :: "calendar \<Rightarrow> int \<Rightarrow> rat \<Rightarrow> time \<Rightarrow> time \<Rightarrow> unit tx" where
  "incrementUsageBillingAPIKeyRateLimit cal apiKeyID cost chargedAt now l =
     (case live_key l apiKeyID of
        None \<Rightarrow> Inr ((), l)
      | Some r \<Rightarrow> Inr ((), l\<lparr>api_keys := (api_keys l)(apiKeyID \<mapsto>
            rate_limit_row_after cal cost (charged_at chargedAt now) r)\<rparr>))"

text \<open>
  The quota counters of an account live in its JSON column. An expired window (by the
  database clock) restarts with the charge; in fixed mode it gets a new reset point too.
\<close>

definition coalesce :: "'a \<Rightarrow> 'a option \<Rightarrow> 'a" where
  "coalesce d v = (case v of None \<Rightarrow> d | Some x \<Rightarrow> x)"

definition quota_window_expired :: "duration \<Rightarrow> time \<Rightarrow> quota_window \<Rightarrow> bool" where
  "quota_window_expired len now w \<longleftrightarrow>
     (if w_fixed w then coalesce 0 (w_reset_at w) \<le> now
      else coalesce 0 (w_start w) + len \<le> now)"

definition charge_window :: "duration \<Rightarrow> time \<Rightarrow> time \<Rightarrow> time \<Rightarrow> rat \<Rightarrow> quota_window \<Rightarrow> quota_window" where
  "charge_window len now next_reset ts amt w =
     (if 0 < coalesce 0 (w_limit w) then
        w\<lparr>w_used := Some (if quota_window_expired len now w then amt else coalesce 0 (w_used w) + amt),
          w_start := Some (if quota_window_expired len now w then ts else coalesce ts (w_start w)),
          w_reset_at := (if quota_window_expired len now w \<and> w_fixed w then Some next_reset else w_reset_at w)\<rparr>
      else w)"

definition charge_account :: "calendar \<Rightarrow> time \<Rightarrow> time \<Rightarrow> rat \<Rightarrow> account_row \<Rightarrow> account_row" where
  "charge_account cal now ts amt r =
     r\<lparr>a_quota_used := Some (coalesce 0 (a_quota_used r) + amt),
       a_daily := charge_window (24 * hour) now (next_daily_reset cal r now) ts amt (a_daily r),
       a_weekly := charge_window (168 * hour) now (next_weekly_reset cal r now) ts amt (a_weekly r)\<rparr>"

definition quota_state :: "account_row \<Rightarrow> AccountQuotaState" where
  "quota_state r =
     \<lparr>TotalUsed = coalesce 0 (a_quota_used r), TotalLimit = coalesce 0 (a_quota_limit r),
      DailyUsed = coalesce 0 (w_used (a_daily r)), DailyLimit = coalesce 0 (w_limit (a_daily r)),
      WeeklyUsed = coalesce 0 (w_used (a_weekly r)), WeeklyLimit = coalesce 0 (w_limit (a_weekly r))\<rparr>"

definition crossed :: "rat \<Rightarrow> rat \<Rightarrow> rat \<Rightarrow> bool" where
  "crossed limit used amt \<longleftrightarrow> 0 < limit \<and> used \<ge> limit \<and> used - amt < limit"

definition enqueueSchedulerOutbox :: "int \<Rightarrow> ledger \<Rightarrow> ledger" where
  "enqueueSchedulerOutbox accountID l =
     (if accountID \<in> set (outbox l) then l else l\<lparr>outbox := outbox l @ [accountID]\<rparr>)"

definition live_account :: "ledger \<Rightarrow> int \<Rightarrow> account_row option" where
  "live_account l a = (case accounts l a of Some r \<Rightarrow> if a_deleted r then None else Some r | None \<Rightarrow> None)"

definition incrementUsageBillingAccountQuota ::
  "calendar \<Rightarrow> int \<Rightarrow> rat \<Rightarrow> time \<Rightarrow> time \<Rightarrow> AccountQuotaState tx" where
  "incrementUsageBillingAccountQuota cal accountID amt chargedAt now l =
     (case live_account l accountID of
        None \<Rightarrow> Inl ErrAccountNotFound
      | Some r \<Rightarrow>
          (let r' = charge_account cal (now_db l) (charged_at chargedAt now) amt r;
               st = quota_state r';
               l' = l\<lparr>accounts := (accounts l)(accountID \<mapsto> r')\<rparr>;
               crossedAny = (crossed (TotalLimit st) (TotalUsed st) amt \<or>
                             crossed (DailyLimit st) (DailyUsed st) amt \<or>
                             crossed (WeeklyLimit st) (WeeklyUsed st) amt)
           in Inr (st, if crossedAny then enqueueSchedulerOutbox accountID l' else l')))"

text \<open>The upsert of a platform quota: one window compares its start with the charge's.\<close>

definition bucket_usage :: "time option \<Rightarrow> time \<Rightarrow> rat \<Rightarrow> rat \<Rightarrow> rat" where
  "bucket_usage old new used cost =
     (case old of
        None \<Rightarrow> cost
      | Some s \<Rightarrow> if s < new then cost else if s = new then used + cost else used)"

definition bucket_start :: "time option \<Rightarrow> time \<Rightarrow> time option" where
  "bucket_start old new = (case old of None \<Rightarrow> Some new | Some s \<Rightarrow> if s < new then Some new else Some s)"

definition month_usage :: "time option \<Rightarrow> time \<Rightarrow> rat \<Rightarrow> rat \<Rightarrow> rat" where
  "month_usage old new used cost =
     (case old of
        None \<Rightarrow> cost
      | Some s \<Rightarrow> if s + 720 * hour \<le> new then cost else if s \<le> new then used + cost else used)"

definition month_start :: "time option \<Rightarrow> time \<Rightarrow> time option" where
  "month_start old new =
     (case old of None \<Rightarrow> Some new | Some s \<Rightarrow> if s + 720 * hour \<le> new then Some new else Some s)"

definition charge_platform_row ::
  "platform_quota_row option \<Rightarrow> time \<Rightarrow> time \<Rightarrow> time \<Rightarrow> rat \<Rightarrow> platform_quota_row" where
  "charge_platform_row old daily weekly ts cost =
     (case old of
        None \<Rightarrow> \<lparr>p_daily = cost, p_weekly = cost, p_monthly = cost, p_daily_start = Some daily,
                 p_weekly_start = Some weekly, p_monthly_start = Some ts\<rparr>
      | Some r \<Rightarrow>
          \<lparr>p_daily = bucket_usage (p_daily_start r) daily (p_daily r) cost,
           p_weekly = bucket_usage (p_weekly_start r) weekly (p_weekly r) cost,
           p_monthly = month_usage (p_monthly_start r) ts (p_monthly r) cost,
           p_daily_start = bucket_start (p_daily_start r) daily,
           p_weekly_start = bucket_start (p_weekly_start r) weekly,
           p_monthly_start = month_start (p_monthly_start r) ts\<rparr>)"

definition incrementUsageBillingUserPlatformQuota :: "UsageBillingCommand \<Rightarrow> rat \<Rightarrow> time \<Rightarrow> unit tx" where
  "incrementUsageBillingUserPlatformQuota cmd cost now l =
     (let ts = charged_at (uc_ChargedAt cmd) now;
          daily = charged_at (uc_PlatformDailyWindowStart cmd) ts;
          weekly = charged_at (uc_PlatformWeeklyWindowStart cmd) ts;
          k = (uc_UserID cmd, trim_space (uc_Platform cmd))
      in Inr ((), l\<lparr>platform_quotas := (platform_quotas l)(k \<mapsto>
            charge_platform_row (platform_quotas l k) daily weekly ts cost)\<rparr>))"

section \<open>Apply\<close>

definition quota_account_type :: "string \<Rightarrow> bool" where
  "quota_account_type t \<longleftrightarrow> equal_fold t ''apikey'' \<or> equal_fold t ''bedrock''"

definition empty_apply_result :: "bool \<Rightarrow> UsageBillingApplyResult" where
  "empty_apply_result b =
     \<lparr>ar_Applied = b, APIKeyQuotaExhausted = False, UserPlatformQuotaApplied = False,
      ar_NewBalance = None, BalanceOverdrafted = False, QuotaState = None\<rparr>"

text \<open>The effects in the code's order; each step extends the result.\<close>

definition subscription_step :: "UsageBillingCommand \<Rightarrow> UsageBillingApplyResult \<Rightarrow> UsageBillingApplyResult tx" where
  "subscription_step cmd res =
     (case uc_SubscriptionID cmd of
        Some sid \<Rightarrow>
          tx_when (positive (uc_SubscriptionCost cmd))
            (numeric (uc_SubscriptionCost cmd) (\<lambda>v.
               tx_bind (incrementUsageBillingSubscription sid v) (\<lambda>_. tx_return res))) res
      | None \<Rightarrow> tx_return res)"

definition balance_step :: "UsageBillingCommand \<Rightarrow> UsageBillingApplyResult \<Rightarrow> UsageBillingApplyResult tx" where
  "balance_step cmd res =
     tx_when (positive (uc_BalanceCost cmd))
       (numeric (uc_BalanceCost cmd) (\<lambda>v.
          tx_bind (deductUsageBillingBalance (uc_UserID cmd) v) (\<lambda>(newBalance, sufficient).
            tx_return (res\<lparr>ar_NewBalance := Some newBalance, BalanceOverdrafted := \<not> sufficient\<rparr>)))) res"

definition key_quota_step :: "UsageBillingCommand \<Rightarrow> UsageBillingApplyResult \<Rightarrow> UsageBillingApplyResult tx" where
  "key_quota_step cmd res =
     tx_when (positive (uc_APIKeyQuotaCost cmd))
       (numeric (uc_APIKeyQuotaCost cmd) (\<lambda>v.
          tx_bind (incrementUsageBillingAPIKeyQuota (uc_APIKeyID cmd) v) (\<lambda>exhausted.
            tx_return (res\<lparr>APIKeyQuotaExhausted := (exhausted = Some True)\<rparr>)))) res"

definition rate_limit_step ::
  "calendar \<Rightarrow> time \<Rightarrow> UsageBillingCommand \<Rightarrow> UsageBillingApplyResult \<Rightarrow> UsageBillingApplyResult tx" where
  "rate_limit_step cal now cmd res =
     tx_when (positive (uc_APIKeyRateLimitCost cmd))
       (numeric (uc_APIKeyRateLimitCost cmd) (\<lambda>v.
          tx_bind (incrementUsageBillingAPIKeyRateLimit cal (uc_APIKeyID cmd) v (uc_ChargedAt cmd) now)
            (\<lambda>_. tx_return res))) res"

definition account_quota_step ::
  "calendar \<Rightarrow> time \<Rightarrow> UsageBillingCommand \<Rightarrow> UsageBillingApplyResult \<Rightarrow> UsageBillingApplyResult tx" where
  "account_quota_step cal now cmd res =
     tx_when (positive (uc_AccountQuotaCost cmd) \<and> quota_account_type (uc_AccountType cmd))
       (numeric (uc_AccountQuotaCost cmd) (\<lambda>v.
          tx_bind (incrementUsageBillingAccountQuota cal (uc_AccountID cmd) v (uc_ChargedAt cmd) now)
            (\<lambda>st. tx_return (res\<lparr>QuotaState := Some st\<rparr>)))) res"

definition platform_quota_step ::
  "time \<Rightarrow> UsageBillingCommand \<Rightarrow> UsageBillingApplyResult \<Rightarrow> UsageBillingApplyResult tx" where
  "platform_quota_step now cmd res =
     tx_when (positive (uc_UserPlatformQuotaCost cmd) \<and> trim_space (uc_Platform cmd) \<noteq> [])
       (numeric (uc_UserPlatformQuotaCost cmd) (\<lambda>v.
          tx_bind (incrementUsageBillingUserPlatformQuota cmd v now)
            (\<lambda>_. tx_return (res\<lparr>UserPlatformQuotaApplied := True\<rparr>)))) res"

definition applyUsageBillingEffects ::
  "calendar \<Rightarrow> time \<Rightarrow> UsageBillingCommand \<Rightarrow> UsageBillingApplyResult \<Rightarrow> UsageBillingApplyResult tx" where
  "applyUsageBillingEffects cal now cmd res =
     tx_bind (subscription_step cmd res) (\<lambda>r1.
     tx_bind (balance_step cmd r1) (\<lambda>r2.
     tx_bind (key_quota_step cmd r2) (\<lambda>r3.
     tx_bind (rate_limit_step cal now cmd r3) (\<lambda>r4.
     tx_bind (account_quota_step cal now cmd r4) (\<lambda>r5.
     platform_quota_step now cmd r5)))))"

text \<open>A body that returns without committing: the result is kept, the ledger is not.\<close>

definition apply_tx :: "calendar \<Rightarrow> time \<Rightarrow> UsageBillingCommand \<Rightarrow> UsageBillingApplyResult tx" where
  "apply_tx cal now cmd l =
     (case claimUsageBillingKey cmd l of
        Inl e \<Rightarrow> Inl e
      | Inr (applied, l') \<Rightarrow>
          if \<not> applied then Inr (empty_apply_result False, l)
          else applyUsageBillingEffects cal now cmd (empty_apply_result True) l')"

definition Apply ::
  "fingerprint_codec \<Rightarrow> calendar \<Rightarrow> time \<Rightarrow> UsageBillingCommand option \<Rightarrow> ledger conn \<Rightarrow>
   (go_error + UsageBillingApplyResult) \<times> ledger conn" where
  "Apply fc cal now cmd_opt c =
     (case cmd_opt of
        None \<Rightarrow> (Inr (empty_apply_result False), c)
      | Some cmd0 \<Rightarrow>
          (let cmd = uc_Normalize fc cmd0 in
           if uc_RequestID cmd = [] then (Inl ErrUsageBillingRequestIDRequired, c)
           else run_tx (apply_tx cal now cmd) c))"

section \<open>Reverse\<close>

definition refund :: "rat \<Rightarrow> rat \<Rightarrow> rat" where
  "refund used cost = max 0 (used - cost)"

definition started_before :: "time \<Rightarrow> time option \<Rightarrow> bool" where
  "started_before ts start = (case start of None \<Rightarrow> True | Some s \<Rightarrow> s \<le> ts)"

definition in_window :: "duration \<Rightarrow> time \<Rightarrow> time option \<Rightarrow> bool" where
  "in_window len ts start = (case start of None \<Rightarrow> True | Some s \<Rightarrow> s \<le> ts \<and> ts < s + len)"

definition refund_subscription :: "time \<Rightarrow> rat \<Rightarrow> subscription_row \<Rightarrow> subscription_row" where
  "refund_subscription ts cost r =
     r\<lparr>s_daily := (if started_before ts (s_daily_start r) then refund (s_daily r) cost else s_daily r),
       s_weekly := (if started_before ts (s_weekly_start r) then refund (s_weekly r) cost else s_weekly r),
       s_monthly := (if started_before ts (s_monthly_start r) then refund (s_monthly r) cost else s_monthly r)\<rparr>"

definition refund_key :: "time \<Rightarrow> rat \<Rightarrow> rat \<Rightarrow> api_key_row \<Rightarrow> api_key_row" where
  "refund_key ts quotaCost rateCost r =
     r\<lparr>k_quota_used := refund (k_quota_used r) quotaCost,
       k_usage_5h := (if in_window (5 * hour) ts (k_start_5h r) then refund (k_usage_5h r) rateCost else k_usage_5h r),
       k_usage_1d := (if in_window (24 * hour) ts (k_start_1d r) then refund (k_usage_1d r) rateCost else k_usage_1d r),
       k_usage_7d := (if in_window (168 * hour) ts (k_start_7d r) then refund (k_usage_7d r) rateCost else k_usage_7d r),
       k_status := (if k_status r = StatusAPIKeyQuotaExhausted \<and>
                       (k_quota r \<le> 0 \<or> refund (k_quota_used r) quotaCost < k_quota r)
                    then StatusAPIKeyActive else k_status r)\<rparr>"

text \<open>A comparison with a missing start is NULL in SQL, so the window is not the charge's.\<close>

definition refund_window :: "duration \<Rightarrow> time \<Rightarrow> rat \<Rightarrow> quota_window \<Rightarrow> quota_window" where
  "refund_window len ts cost w =
     (if 0 < coalesce 0 (w_limit w) then
        w\<lparr>w_used := Some
           (if (case w_start w of None \<Rightarrow> False | Some s \<Rightarrow>
                  s \<le> ts \<and> (if w_fixed w then (case w_reset_at w of None \<Rightarrow> False | Some ra \<Rightarrow> ts < ra)
                            else ts < s + len))
            then refund (coalesce 0 (w_used w)) cost else coalesce 0 (w_used w))\<rparr>
      else w)"

definition refund_account :: "time \<Rightarrow> rat \<Rightarrow> account_row \<Rightarrow> account_row" where
  "refund_account ts cost r =
     r\<lparr>a_quota_used := Some (refund (coalesce 0 (a_quota_used r)) cost),
       a_daily := refund_window (24 * hour) ts cost (a_daily r),
       a_weekly := refund_window (168 * hour) ts cost (a_weekly r)\<rparr>"

definition refund_platform_row :: "time \<Rightarrow> time \<Rightarrow> time \<Rightarrow> rat \<Rightarrow> platform_quota_row \<Rightarrow> platform_quota_row" where
  "refund_platform_row daily weekly ts cost r =
     r\<lparr>p_daily := (if p_daily_start r = Some daily then refund (p_daily r) cost else p_daily r),
       p_weekly := (if p_weekly_start r = Some weekly then refund (p_weekly r) cost else p_weekly r),
       p_monthly := (if in_window (720 * hour) ts (p_monthly_start r) then refund (p_monthly r) cost else p_monthly r)\<rparr>"

definition refund_balance_step :: "UsageBillingCommand \<Rightarrow> rat option tx" where
  "refund_balance_step orig =
     tx_when (positive (uc_BalanceCost orig))
       (numeric (uc_BalanceCost orig) (\<lambda>v l.
          case live_user l (uc_UserID orig) of
            None \<Rightarrow> Inl ErrUserNotFound
          | Some r \<Rightarrow> Inr (Some (u_balance r + v), put_user (uc_UserID orig) (r\<lparr>u_balance := u_balance r + v\<rparr>) l))) None"

definition refund_subscription_step :: "time \<Rightarrow> UsageBillingCommand \<Rightarrow> unit tx" where
  "refund_subscription_step ts orig =
     (case uc_SubscriptionID orig of
        None \<Rightarrow> tx_return ()
      | Some sid \<Rightarrow>
          tx_when (positive (uc_SubscriptionCost orig))
            (numeric (uc_SubscriptionCost orig) (\<lambda>v l.
               case subscriptions l sid of
                 Some r \<Rightarrow> if s_deleted r then Inl ErrSubscriptionNotFound
                           else Inr ((), l\<lparr>subscriptions := (subscriptions l)(sid \<mapsto> refund_subscription ts v r)\<rparr>)
               | None \<Rightarrow> Inl ErrSubscriptionNotFound)) ())"

definition refund_key_step :: "time \<Rightarrow> UsageBillingCommand \<Rightarrow> unit tx" where
  "refund_key_step ts orig =
     tx_when (positive (uc_APIKeyQuotaCost orig) \<or> positive (uc_APIKeyRateLimitCost orig))
       (numeric (uc_APIKeyQuotaCost orig) (\<lambda>q. numeric (uc_APIKeyRateLimitCost orig) (\<lambda>v l.
          case live_key l (uc_APIKeyID orig) of
            None \<Rightarrow> Inl ErrAPIKeyNotFound
          | Some r \<Rightarrow> Inr ((), l\<lparr>api_keys := (api_keys l)(uc_APIKeyID orig \<mapsto> refund_key ts q v r)\<rparr>)))) ()"

definition refund_account_step :: "time \<Rightarrow> UsageBillingCommand \<Rightarrow> unit tx" where
  "refund_account_step ts orig =
     tx_when (positive (uc_AccountQuotaCost orig))
       (numeric (uc_AccountQuotaCost orig) (\<lambda>v l.
          case live_account l (uc_AccountID orig) of
            None \<Rightarrow> Inl ErrAccountNotFound
          | Some r \<Rightarrow> Inr ((), enqueueSchedulerOutbox (uc_AccountID orig)
              (l\<lparr>accounts := (accounts l)(uc_AccountID orig \<mapsto> refund_account ts v r)\<rparr>)))) ()"

definition refund_platform_step :: "time \<Rightarrow> UsageBillingCommand \<Rightarrow> unit tx" where
  "refund_platform_step ts orig =
     tx_when (positive (uc_UserPlatformQuotaCost orig) \<and> trim_space (uc_Platform orig) \<noteq> [])
       (numeric (uc_UserPlatformQuotaCost orig) (\<lambda>v l.
          let k = (uc_UserID orig, trim_space (uc_Platform orig)) in
          Inr ((), l\<lparr>platform_quotas := (platform_quotas l)(k := map_option
            (refund_platform_row (uc_PlatformDailyWindowStart orig) (uc_PlatformWeeklyWindowStart orig) ts v)
            (platform_quotas l k))\<rparr>))) ()"

definition applyUsageBillingReversalEffects :: "time \<Rightarrow> UsageBillingCommand \<Rightarrow> rat option tx" where
  "applyUsageBillingReversalEffects now orig =
     (let ts = charged_at (uc_ChargedAt orig) now in
      tx_bind (refund_balance_step orig) (\<lambda>nb.
      tx_bind (refund_subscription_step ts orig) (\<lambda>_.
      tx_bind (refund_key_step ts orig) (\<lambda>_.
      tx_bind (refund_account_step ts orig) (\<lambda>_.
      tx_bind (refund_platform_step ts orig) (\<lambda>_. tx_return nb))))))"

definition zero_usage_log :: "string \<Rightarrow> int \<Rightarrow> ledger \<Rightarrow> ledger" where
  "zero_usage_log requestID apiKeyID l =
     l\<lparr>usage_logs := (usage_logs l)((requestID, apiKeyID) := map_option
        (\<lambda>r. r\<lparr>l_actual_cost := 0, l_account_stats_cost := map_option (\<lambda>_. 0) (l_account_stats_cost r)\<rparr>)
        (usage_logs l (requestID, apiKeyID)))\<rparr>"

definition reverse_tx :: "fingerprint_codec \<Rightarrow> time \<Rightarrow> UsageBillingReversalCommand \<Rightarrow> UsageBillingReversalResult tx" where
  "reverse_tx fc now cmd l =
     (let orig = Original cmd in
      case usageBillingClaimMatches (uc_RequestID orig) (uc_APIKeyID orig) (uc_RequestFingerprint orig) l of
        Inl e \<Rightarrow> Inl e
      | Inr (originalApplied, _) \<Rightarrow>
          if \<not> originalApplied then Inr (\<lparr>rr_Applied = False, rr_NewBalance = None\<rparr>, l)
          else
     (case claimUsageBillingRequest (ReversalRequestID cmd) (uc_APIKeyID orig)
             (UsageBillingReversalFingerprint fc cmd) l of
        Inl e \<Rightarrow> Inl e
      | Inr (applied, l1) \<Rightarrow>
          if \<not> applied then Inr (\<lparr>rr_Applied = False, rr_NewBalance = None\<rparr>, l)
          else
     (case applyUsageBillingReversalEffects now orig l1 of
        Inl e \<Rightarrow> Inl e
      | Inr (nb, l2) \<Rightarrow>
          Inr (\<lparr>rr_Applied = True, rr_NewBalance = nb\<rparr>, zero_usage_log (uc_RequestID orig) (uc_APIKeyID orig) l2))))"

definition Reverse ::
  "fingerprint_codec \<Rightarrow> time \<Rightarrow> UsageBillingReversalCommand option \<Rightarrow> ledger conn \<Rightarrow>
   (go_error + UsageBillingReversalResult) \<times> ledger conn" where
  "Reverse fc now cmd_opt c =
     (case cmd_opt of
        None \<Rightarrow> (Inr \<lparr>rr_Applied = False, rr_NewBalance = None\<rparr>, c)
      | Some cmd0 \<Rightarrow>
          (let cmd = rc_Normalize fc cmd0; orig = Original cmd in
           if ReversalRequestID cmd = [] \<or> uc_RequestID orig = [] \<or> uc_APIKeyID orig \<le> 0
           then (Inl ErrUsageBillingRequestIDRequired, c)
           else if \<not> HasValidFingerprint fc orig then (Inl ErrUsageBillingRequestConflict, c)
           else run_tx (reverse_tx fc now cmd) c))"

section \<open>Balance holds of batch images\<close>

definition BatchImageHoldRequestID :: "string \<Rightarrow> string" where
  "BatchImageHoldRequestID batchID = ''batch_image_hold:'' @ trim_space batchID"

definition BatchImageCaptureRequestID :: "string \<Rightarrow> string" where
  "BatchImageCaptureRequestID batchID = ''batch_image_capture:'' @ trim_space batchID"

definition BatchImageReleaseRequestID :: "string \<Rightarrow> string" where
  "BatchImageReleaseRequestID batchID = ''batch_image_release:'' @ trim_space batchID"

datatype hold_operation = OpReserve | OpCapture | OpRelease

fun hold_request_id :: "hold_operation \<Rightarrow> string \<Rightarrow> string" where
  "hold_request_id OpReserve b = BatchImageHoldRequestID b"
| "hold_request_id OpCapture b = BatchImageCaptureRequestID b"
| "hold_request_id OpRelease b = BatchImageReleaseRequestID b"

definition empty_hold_result :: BatchImageBalanceHoldResult where
  "empty_hold_result = \<lparr>hr_Applied = False, hr_NewBalance = None, FrozenBalance = None\<rparr>"

text \<open>
  The three updates of a user row that moves \<open>b\<close> into the balance and \<open>f\<close> into the frozen
  balance, guarded by \<open>ok\<close>; otherwise the code asks whether the user exists at all.
\<close>

definition move_user ::
  "int \<Rightarrow> (user_row \<Rightarrow> bool) \<Rightarrow> rat \<Rightarrow> rat \<Rightarrow> go_error \<Rightarrow> BatchImageBalanceHoldResult tx" where
  "move_user u ok b f failure l =
     (case live_user l u of
        None \<Rightarrow> Inl ErrUserNotFound
      | Some r \<Rightarrow>
          if ok r then
            (let r' = r\<lparr>u_balance := u_balance r + b, u_frozen := Some (frozen_of r + f)\<rparr>
             in Inr (empty_hold_result\<lparr>hr_NewBalance := Some (u_balance r'), FrozenBalance := u_frozen r'\<rparr>,
                     put_user u r' l))
          else Inl failure)"

definition err_frozen_insufficient :: go_error where
  "err_frozen_insufficient = PlainErr ''batch image frozen balance is insufficient''"

definition reserveUsageBillingBatchImageBalance :: "int \<Rightarrow> rat \<Rightarrow> BatchImageBalanceHoldResult tx" where
  "reserveUsageBillingBatchImageBalance u h =
     (if h \<le> 0 then tx_return empty_hold_result
      else move_user u (\<lambda>r. u_balance r \<ge> h) (- h) h ErrBatchImageInsufficientBalance)"

definition exceeds_hold :: "rat \<Rightarrow> rat \<Rightarrow> bool" where
  "exceeds_hold a h \<longleftrightarrow> a - h > 1 / 100000000"

definition captureUsageBillingBatchImageBalance :: "int \<Rightarrow> rat \<Rightarrow> rat \<Rightarrow> BatchImageBalanceHoldResult tx" where
  "captureUsageBillingBatchImageBalance u h a =
     (if h \<le> 0 \<and> a \<le> 0 then tx_return empty_hold_result
      else if exceeds_hold a h then tx_fail ErrBatchImageSettlementCostExceedsHold
      else move_user u (\<lambda>r. frozen_of r \<ge> h)
             ((if h > a then h - a else 0) - (if a > h then a - h else 0)) (- h) err_frozen_insufficient)"

definition releaseUsageBillingBatchImageBalance ::
  "int \<Rightarrow> int \<Rightarrow> string \<Rightarrow> rat \<Rightarrow> BatchImageBalanceHoldResult tx" where
  "releaseUsageBillingBatchImageBalance u key batchID h l =
     (if h \<le> 0 then Inr (empty_hold_result, l)
      else if \<not> batchImageHoldClaimExists (BatchImageHoldRequestID batchID) key l
      then Inr (empty_hold_result, l)
      else move_user u (\<lambda>r. frozen_of r \<ge> h) h (- h) err_frozen_insufficient l)"

definition captureExpiredBatchImageBalance :: "int \<Rightarrow> rat \<Rightarrow> rat \<Rightarrow> BatchImageBalanceHoldResult tx" where
  "captureExpiredBatchImageBalance u h a =
     (if exceeds_hold a h then tx_fail ErrBatchImageSettlementCostExceedsHold
      else tx_bind (deductUsageBillingBalance u a) (\<lambda>(balance, _).
        tx_return (empty_hold_result\<lparr>hr_NewBalance := Some balance\<rparr>)))"

definition batchImageHoldExpired :: "int \<Rightarrow> int \<Rightarrow> string \<Rightarrow> rat \<Rightarrow> ledger \<Rightarrow> go_error + bool" where
  "batchImageHoldExpired u key batchID h l =
     (case releases l (batchID, key) of
        None \<Rightarrow> Inr False
      | Some (owner, amt) \<Rightarrow>
          if owner \<noteq> u \<or> amt \<noteq> h then Inl ErrUsageBillingRequestConflict else Inr True)"

definition batchImageHoldOperationAllowed ::
  "hold_operation \<Rightarrow> int \<Rightarrow> string \<Rightarrow> rat \<Rightarrow> ledger \<Rightarrow> go_error + bool" where
  "batchImageHoldOperationAllowed op key batchID h l =
     (let captured = batchImageHoldClaimExists (BatchImageCaptureRequestID batchID) key l in
      if captured \<and> op = OpRelease then Inr False
      else
     (let released = batchImageHoldClaimExists (BatchImageReleaseRequestID batchID) key l in
      if released \<and> op \<noteq> OpRelease \<or> captured \<and> op = OpReserve then Inl ErrUsageBillingRequestConflict
      else if op = OpCapture \<and> 0 < h \<and> \<not> batchImageHoldClaimExists (BatchImageHoldRequestID batchID) key l
      then Inl ErrUsageBillingRequestConflict
      else Inr True))"

definition reserve_matches_job :: "int \<Rightarrow> int \<Rightarrow> string \<Rightarrow> rat \<Rightarrow> ledger \<Rightarrow> bool" where
  "reserve_matches_job u key batchID h l =
     (case jobs l batchID of
        None \<Rightarrow> False
      | Some j \<Rightarrow> j_user j = u \<and> j_key j = key \<and> round_to_scale (coalesce (j_estimated j) (j_hold j)) = h)"

definition hold_effect ::
  "hold_operation \<Rightarrow> bool \<Rightarrow> int \<Rightarrow> int \<Rightarrow> string \<Rightarrow> rat \<Rightarrow> rat \<Rightarrow> BatchImageBalanceHoldResult tx" where
  "hold_effect op expired u key batchID h a =
     (case op of
        OpReserve \<Rightarrow> if expired then tx_fail ErrUsageBillingRequestConflict
                     else reserveUsageBillingBatchImageBalance u h
      | OpCapture \<Rightarrow> if expired then captureExpiredBatchImageBalance u h a
                     else captureUsageBillingBatchImageBalance u h a
      | OpRelease \<Rightarrow> if expired then tx_return empty_hold_result
                     else releaseUsageBillingBatchImageBalance u key batchID h)"

definition hold_tx :: "hold_operation \<Rightarrow> BatchImageBalanceHoldCommand \<Rightarrow> rat \<Rightarrow> rat \<Rightarrow> BatchImageBalanceHoldResult tx" where
  "hold_tx op cmd h a l =
     (let u = hc_UserID cmd; key = hc_APIKeyID cmd; batchID = hc_BatchID cmd in
      if op = OpReserve \<and> \<not> reserve_matches_job u key batchID h l then Inl ErrUsageBillingRequestConflict
      else
     (case batchImageHoldOperationAllowed op key batchID h l of
        Inl e \<Rightarrow> Inl e
      | Inr allowed \<Rightarrow>
          if \<not> allowed then Inr (empty_hold_result, l)
          else
     (case batchImageHoldExpired u key batchID h l of
        Inl e \<Rightarrow> Inl e
      | Inr expired \<Rightarrow>
          if expired \<and> op = OpReserve then Inl ErrUsageBillingRequestConflict
          else
     (case claimUsageBillingRequest (hc_RequestID cmd) key (hc_RequestFingerprint cmd) l of
        Inl e \<Rightarrow> Inl e
      | Inr (applied, l1) \<Rightarrow>
          if \<not> applied then Inr (empty_hold_result, l)
          else
     (case hold_effect op expired u key batchID h a l1 of
        Inl e \<Rightarrow> Inl e
      | Inr (res, l2) \<Rightarrow> Inr (res\<lparr>hr_Applied := True\<rparr>, l2))))))"

definition applyBatchImageBalanceHold ::
  "fingerprint_codec \<Rightarrow> hold_operation \<Rightarrow> BatchImageBalanceHoldCommand option \<Rightarrow> ledger conn \<Rightarrow>
   (go_error + BatchImageBalanceHoldResult) \<times> ledger conn" where
  "applyBatchImageBalanceHold fc op cmd_opt c =
     (case cmd_opt of
        None \<Rightarrow> (Inr empty_hold_result, c)
      | Some cmd0 \<Rightarrow>
          if hc_UserID cmd0 \<le> 0 \<or> hc_APIKeyID cmd0 \<le> 0 \<or> trim_space (hc_BatchID cmd0) = []
          then (Inl ErrUsageBillingRequestConflict, c)
          else if negative_or_not_finite (HoldAmount cmd0) \<or> negative_or_not_finite (ActualAmount cmd0)
          then (Inl (PlainErr ''invalid batch image billing amount''), c)
          else
            (let cmd = hc_Normalize fc cmd0 in
             if hc_RequestID cmd = [] then (Inl ErrUsageBillingRequestIDRequired, c)
             else if hc_RequestID cmd \<noteq> hold_request_id op (hc_BatchID cmd)
             then (Inl ErrUsageBillingRequestConflict, c)
             else run_tx (numeric (HoldAmount cmd) (\<lambda>h. numeric (ActualAmount cmd) (hold_tx op cmd h))) c))"

definition ReserveBatchImageBalance ::
  "fingerprint_codec \<Rightarrow> BatchImageBalanceHoldCommand option \<Rightarrow> ledger conn \<Rightarrow>
   (go_error + BatchImageBalanceHoldResult) \<times> ledger conn" where
  "ReserveBatchImageBalance fc cmd c = applyBatchImageBalanceHold fc OpReserve cmd c"

definition CaptureBatchImageBalance ::
  "fingerprint_codec \<Rightarrow> BatchImageBalanceHoldCommand option \<Rightarrow> ledger conn \<Rightarrow>
   (go_error + BatchImageBalanceHoldResult) \<times> ledger conn" where
  "CaptureBatchImageBalance fc cmd c = applyBatchImageBalanceHold fc OpCapture cmd c"

definition ReleaseBatchImageBalance ::
  "fingerprint_codec \<Rightarrow> BatchImageBalanceHoldCommand option \<Rightarrow> ledger conn \<Rightarrow>
   (go_error + BatchImageBalanceHoldResult) \<times> ledger conn" where
  "ReleaseBatchImageBalance fc cmd c = applyBatchImageBalanceHold fc OpRelease cmd c"

section \<open>Expired holds\<close>

text \<open>
  The refund of one expired hold, re-checked inside its transaction. The candidates come
  from a query, so \<open>recoverExpiredBatchHolds\<close> takes them as the list of its rows.
\<close>

record expiredBalanceHold =
  eh_id :: string
  eh_userID :: int
  eh_keyID :: int

definition hold_claimed_before :: "string \<Rightarrow> int \<Rightarrow> time \<Rightarrow> ledger \<Rightarrow> bool" where
  "hold_claimed_before requestID key cutoff l \<longleftrightarrow>
     (case claims l (requestID, key) of Some r \<Rightarrow> c_created r \<le> cutoff | None \<Rightarrow> False) \<or>
     (case archive l (requestID, key) of Some r \<Rightarrow> c_created r \<le> cutoff | None \<Rightarrow> False)"

definition recordExpiredBalanceHold :: "expiredBalanceHold \<Rightarrow> rat \<Rightarrow> ledger \<Rightarrow> ledger" where
  "recordExpiredBalanceHold item amt l =
     l\<lparr>releases := (releases l)((eh_id item, eh_keyID item) \<mapsto> (eh_userID item, amt))\<rparr>"

definition releaseExpiredBatchHold :: "time \<Rightarrow> expiredBalanceHold \<Rightarrow> bool tx" where
  "releaseExpiredBatchHold cutoff item l =
     (let batchID = eh_id item; u = eh_userID item; key = eh_keyID item in
      case jobs l batchID of
        None \<Rightarrow> Inr (False, l)
      | Some j \<Rightarrow>
          if \<not> (j_user j = u \<and> j_key j = key \<and>
                hold_claimed_before (BatchImageHoldRequestID batchID) key cutoff l) then Inr (False, l)
          else
            (let h = round_to_scale (coalesce (j_estimated j) (j_hold j)) in
             if h \<le> 0 then Inr (False, l)
             else if batchImageHoldClaimExists (BatchImageCaptureRequestID batchID) key l then Inr (False, l)
             else if batchImageHoldClaimExists (BatchImageReleaseRequestID batchID) key l then Inr (False, l)
             else if releases l (batchID, key) \<noteq> None then Inr (False, l)
             else (case releaseUsageBillingBatchImageBalance u key (trim_space batchID) h l of
                     Inl e \<Rightarrow> Inl e
                   | Inr (_, l') \<Rightarrow> Inr (True, recordExpiredBalanceHold item h l'))))"

fun recoverExpiredBatchHolds ::
  "time \<Rightarrow> expiredBalanceHold list \<Rightarrow> ledger conn \<Rightarrow> (int list \<times> go_error list) \<times> ledger conn" where
  "recoverExpiredBatchHolds cutoff [] c = (([], []), c)"
| "recoverExpiredBatchHolds cutoff (item # items) c =
     (case run_tx (releaseExpiredBatchHold cutoff item) c of
        (Inl e, c') \<Rightarrow>
          map_prod (apsnd ((#) (WrapErr (''expired batch hold '' @ eh_id item) e))) id
            (recoverExpiredBatchHolds cutoff items c')
      | (Inr applied, c') \<Rightarrow>
          map_prod (apfst (\<lambda>us. if applied then eh_userID item # us else us)) id
            (recoverExpiredBatchHolds cutoff items c'))"

end
