(* ===== verification/BillingLaws.thy ===== *)
theory BillingLaws
  imports BillingLedger
begin

text \<open>
  What the billing transactions guarantee: a claimed request is charged at most once and a
  retried one exactly once, whatever fails in between; holds conserve money, and a hold is
  either captured or released; a reversal gives back what the charge took.
\<close>

section \<open>Frames\<close>

definition same_claims :: "ledger \<Rightarrow> ledger \<Rightarrow> bool" where
  "same_claims l l' \<longleftrightarrow>
     claims l' = claims l \<and> archive l' = archive l \<and> releases l' = releases l \<and> jobs l' = jobs l"

named_theorems billing_frame \<open>steps that leave the claims alone\<close>

lemma same_claims_refl [simp, intro]: "same_claims l l"
  by (simp add: same_claims_def)

lemma same_claims_trans: "same_claims l l' \<Longrightarrow> same_claims l' l'' \<Longrightarrow> same_claims l l''"
  by (simp add: same_claims_def)

lemma same_claims_put_user [simp]: "same_claims l (put_user u r l)"
  by (simp add: same_claims_def put_user_def)

lemma same_claims_outbox [simp]: "same_claims l (enqueueSchedulerOutbox a l') \<longleftrightarrow> same_claims l l'"
  by (simp add: same_claims_def enqueueSchedulerOutbox_def)

lemma same_claims_updates [simp]:
  "same_claims l (l\<lparr>users := x\<rparr>)" "same_claims l (l\<lparr>subscriptions := s\<rparr>)" "same_claims l (l\<lparr>api_keys := k\<rparr>)"
  "same_claims l (l\<lparr>accounts := a\<rparr>)" "same_claims l (l\<lparr>platform_quotas := p\<rparr>)" "same_claims l (l\<lparr>usage_logs := g\<rparr>)"
  by (simp_all add: same_claims_def)

definition frames :: "'a tx \<Rightarrow> bool" where
  "frames m \<longleftrightarrow> (\<forall>l a l'. m l = Inr (a, l') \<longrightarrow> same_claims l l')"

lemma frames_return [billing_frame]: "frames (tx_return a)"
  by (simp add: frames_def)

lemma frames_fail [billing_frame]: "frames (tx_fail e)"
  by (simp add: frames_def)

lemma frames_bind [billing_frame]: "frames m \<Longrightarrow> (\<And>a. frames (f a)) \<Longrightarrow> frames (tx_bind m f)"
  unfolding frames_def tx_bind_Inr by (blast intro: same_claims_trans)

lemma frames_when [billing_frame]: "frames m \<Longrightarrow> frames (tx_when b m a)"
  by (simp add: tx_when_def frames_return)

lemma frames_numeric [billing_frame]: "(\<And>v. frames (f v)) \<Longrightarrow> frames (numeric a f)"
  by (simp add: frames_def numeric_Inr) blast

lemma frames_statements [billing_frame]:
  "frames (deductUsageBillingBalance u v)" "frames (incrementUsageBillingSubscription sid v)"
  "frames (incrementUsageBillingAPIKeyQuota k v)" "frames (incrementUsageBillingAPIKeyRateLimit cal k v ts now)"
  "frames (incrementUsageBillingAccountQuota cal a v ts now)"
  "frames (incrementUsageBillingUserPlatformQuota cmd v now)"
  "frames (move_user u ok b f e)"
  by (auto simp: frames_def deductUsageBillingBalance_def incrementUsageBillingSubscription_def
      incrementUsageBillingAPIKeyQuota_def incrementUsageBillingAPIKeyRateLimit_def
      incrementUsageBillingAccountQuota_def incrementUsageBillingUserPlatformQuota_def move_user_def Let_def
      split: option.splits if_splits)

lemma frames_effects [billing_frame]: "frames (applyUsageBillingEffects cal now cmd res)"
  unfolding applyUsageBillingEffects_def subscription_step_def balance_step_def key_quota_step_def
    rate_limit_step_def account_quota_step_def platform_quota_step_def
  by (intro billing_frame | simp add: billing_frame split: option.split prod.split)+

lemma frames_reversal [billing_frame]: "frames (applyUsageBillingReversalEffects now orig)"
proof -
  have "frames (refund_balance_step orig)" "frames (refund_subscription_step ts orig)"
    "frames (refund_key_step ts orig)" "frames (refund_account_step ts orig)"
    "frames (refund_platform_step ts orig)" for ts
    unfolding refund_balance_step_def refund_subscription_step_def refund_key_step_def
      refund_account_step_def refund_platform_step_def
    by (auto simp: frames_def tx_when_def numeric_Inr Let_def split: option.splits if_splits)
  then show ?thesis
    unfolding applyUsageBillingReversalEffects_def Let_def by (intro billing_frame)
qed

lemma frames_hold_effect [billing_frame]: "frames (hold_effect op expired u key batchID h a)"
proof -
  have "frames (releaseUsageBillingBatchImageBalance u key batchID h)"
    using frames_statements(7) by (auto simp: frames_def releaseUsageBillingBatchImageBalance_def split: if_splits)
  then show ?thesis
    unfolding hold_effect_def reserveUsageBillingBatchImageBalance_def captureUsageBillingBatchImageBalance_def
      captureExpiredBatchImageBalance_def
    by (cases op) (auto intro!: billing_frame simp: split_beta)
qed

lemma frames_effects_keep: "frames m \<Longrightarrow> m l = Inr (a, l') \<Longrightarrow> same_claims l l'"
  by (auto simp: frames_def)

section \<open>Claims are never lost\<close>

text \<open>\<open>claimed\<close> is what \<open>batchImageHoldClaimExists\<close> reads: a claim, live or archived.\<close>

definition ledger_le :: "ledger \<Rightarrow> ledger \<Rightarrow> bool" where
  "ledger_le l l' \<longleftrightarrow>
     claims l \<subseteq>\<^sub>m claims l' \<and> archive l' = archive l \<and> releases l \<subseteq>\<^sub>m releases l' \<and> jobs l' = jobs l"

lemma ledger_le_refl [simp, intro]: "ledger_le l l"
  by (simp add: ledger_le_def)

lemma ledger_le_trans: "ledger_le l l' \<Longrightarrow> ledger_le l' l'' \<Longrightarrow> ledger_le l l''"
  by (auto simp: ledger_le_def intro: map_le_trans)

lemma same_claims_le: "same_claims l l' \<Longrightarrow> ledger_le l l'"
  by (simp add: same_claims_def ledger_le_def)

lemma claim_le: "claimUsageBillingRequest rid key fp l = Inr (b, l') \<Longrightarrow> ledger_le l l'"
  by (auto simp: claimUsageBillingRequest_def claim_fingerprint_def ledger_le_def Let_def map_le_def
      split: option.splits if_splits)

lemma claim_won:
  "claimUsageBillingRequest rid key fp l = Inr (True, l') \<Longrightarrow>
     l' = l\<lparr>claims := (claims l)((rid, key) \<mapsto> \<lparr>c_fingerprint = fp, c_created = now_db l\<rparr>)\<rparr> \<and>
     \<not> batchImageHoldClaimExists rid key l \<and> batchImageHoldClaimExists rid key l'"
  by (auto simp: claimUsageBillingRequest_def claim_fingerprint_def batchImageHoldClaimExists_def Let_def
      split: option.splits if_splits)

lemma claim_taken:
  "batchImageHoldClaimExists rid key l \<Longrightarrow> claimUsageBillingRequest rid key fp l \<noteq> Inr (True, l')"
  by (auto simp: claimUsageBillingRequest_def claim_fingerprint_def batchImageHoldClaimExists_def Let_def
      split: option.splits)

lemma claimed_mono: "ledger_le l l' \<Longrightarrow> batchImageHoldClaimExists rid key l \<Longrightarrow> batchImageHoldClaimExists rid key l'"
  by (force simp: batchImageHoldClaimExists_def ledger_le_def map_le_def dom_def)

lemma apply_tx_cases:
  assumes "apply_tx cal now cmd l = Inr (res, l')"
  obtains (skip) "l' = l" "res = empty_apply_result False" "batchImageHoldClaimExists (uc_RequestID cmd) (uc_APIKeyID cmd) l"
  | (ran) l1 where "claimUsageBillingKey cmd l = Inr (True, l1)"
      "applyUsageBillingEffects cal now cmd (empty_apply_result True) l1 = Inr (res, l')"
  using assms
  by (auto simp: apply_tx_def claimUsageBillingKey_def split: sum.splits if_splits)
     (auto simp: claimUsageBillingRequest_def claim_fingerprint_def batchImageHoldClaimExists_def Let_def
      split: option.splits if_splits)

lemma apply_tx_le: "apply_tx cal now cmd l = Inr (res, l') \<Longrightarrow> ledger_le l l'"
  by (erule apply_tx_cases)
     (auto simp: claimUsageBillingKey_def
       intro: ledger_le_trans [OF claim_le same_claims_le [OF frames_effects_keep [OF frames_effects]]])

lemma reverse_tx_cases:
  assumes "reverse_tx fc now cmd l = Inr (res, l')"
  obtains (skip) "l' = l" "\<not> rr_Applied res"
  | (ran) l1 nb l2 where "claimUsageBillingRequest (ReversalRequestID cmd) (uc_APIKeyID (Original cmd))
        (UsageBillingReversalFingerprint fc cmd) l = Inr (True, l1)"
      "applyUsageBillingReversalEffects now (Original cmd) l1 = Inr (nb, l2)"
      "l' = zero_usage_log (uc_RequestID (Original cmd)) (uc_APIKeyID (Original cmd)) l2"
      "res = \<lparr>rr_Applied = True, rr_NewBalance = nb\<rparr>"
  using assms by (auto simp: reverse_tx_def Let_def split: sum.splits if_splits)

lemma reverse_tx_le: "reverse_tx fc now cmd l = Inr (res, l') \<Longrightarrow> ledger_le l l'"
proof (erule reverse_tx_cases)
  fix l1 nb l2
  assume c: "claimUsageBillingRequest (ReversalRequestID cmd) (uc_APIKeyID (Original cmd))
        (UsageBillingReversalFingerprint fc cmd) l = Inr (True, l1)"
    and e: "applyUsageBillingReversalEffects now (Original cmd) l1 = Inr (nb, l2)"
    and l': "l' = zero_usage_log (uc_RequestID (Original cmd)) (uc_APIKeyID (Original cmd)) l2"
  have "same_claims l2 l'" by (simp add: l' zero_usage_log_def)
  with claim_le [OF c] frames_effects_keep [OF frames_reversal e] show "ledger_le l l'"
    by (meson ledger_le_trans same_claims_le)
qed simp

lemma hold_tx_cases:
  assumes "hold_tx op cmd h a l = Inr (res, l')"
  obtains (skip) "l' = l" "\<not> hr_Applied res"
  | (ran) expired l1 r where
      "batchImageHoldOperationAllowed op (hc_APIKeyID cmd) (hc_BatchID cmd) h l = Inr True"
      "batchImageHoldExpired (hc_UserID cmd) (hc_APIKeyID cmd) (hc_BatchID cmd) h l = Inr expired"
      "op = OpReserve \<Longrightarrow> \<not> expired \<and> reserve_matches_job (hc_UserID cmd) (hc_APIKeyID cmd) (hc_BatchID cmd) h l"
      "claimUsageBillingRequest (hc_RequestID cmd) (hc_APIKeyID cmd) (hc_RequestFingerprint cmd) l = Inr (True, l1)"
      "hold_effect op expired (hc_UserID cmd) (hc_APIKeyID cmd) (hc_BatchID cmd) h a l1 = Inr (r, l')"
      "res = r\<lparr>hr_Applied := True\<rparr>"
proof -
  have empty: "\<not> hr_Applied empty_hold_result" by (simp add: empty_hold_result_def)
  show thesis
  proof (cases "l' = l \<and> \<not> hr_Applied res")
    case False
    then show ?thesis
      using assms empty ran
      by (auto simp: hold_tx_def Let_def split: sum.splits if_splits)
  qed (use skip in simp)
qed

lemma hold_tx_le: "hold_tx op cmd h a l = Inr (res, l') \<Longrightarrow> ledger_le l l'"
  by (erule hold_tx_cases)
     (auto intro: ledger_le_trans [OF claim_le same_claims_le [OF frames_effects_keep [OF frames_hold_effect]]])

lemma release_expired_cases:
  assumes "releaseExpiredBatchHold cutoff item l = Inr (res, l')"
  obtains (skip) "l' = l" "\<not> res"
  | (ran) j h x l1 where "jobs l (eh_id item) = Some j" "j_user j = eh_userID item" "j_key j = eh_keyID item"
      "h = round_to_scale (coalesce (j_estimated j) (j_hold j))" "0 < h" "res"
      "hold_claimed_before (BatchImageHoldRequestID (eh_id item)) (eh_keyID item) cutoff l"
      "\<not> batchImageHoldClaimExists (BatchImageCaptureRequestID (eh_id item)) (eh_keyID item) l"
      "\<not> batchImageHoldClaimExists (BatchImageReleaseRequestID (eh_id item)) (eh_keyID item) l"
      "releases l (eh_id item, eh_keyID item) = None"
      "releaseUsageBillingBatchImageBalance (eh_userID item) (eh_keyID item) (trim_space (eh_id item)) h l = Inr (x, l1)"
      "l' = recordExpiredBalanceHold item h l1"
  using assms
  by (auto simp: releaseExpiredBatchHold_def Let_def not_le simp del: not_None_eq
      split: option.splits sum.splits if_splits)

lemma release_expired_le: "releaseExpiredBatchHold cutoff item l = Inr (res, l') \<Longrightarrow> ledger_le l l'"
proof (erule release_expired_cases)
  fix h x l1
  assume rel: "releaseUsageBillingBatchImageBalance (eh_userID item) (eh_keyID item) (trim_space (eh_id item)) h l = Inr (x, l1)"
    and l': "l' = recordExpiredBalanceHold item h l1" and new: "releases l (eh_id item, eh_keyID item) = None"
  have "same_claims l l1"
    using frames_effects_keep [OF frames_hold_effect, of OpRelease False] rel by (simp add: hold_effect_def)
  then show "ledger_le l l'"
    using new by (auto simp: l' recordExpiredBalanceHold_def ledger_le_def same_claims_def map_le_def)
qed simp

section \<open>Histories of billing operations\<close>

datatype billing_op =
    BApply UsageBillingCommand time
  | BReverse UsageBillingReversalCommand time
  | BHold hold_operation BatchImageBalanceHoldCommand
  | BRecover time "expiredBalanceHold list"

fun billing_step :: "fingerprint_codec \<Rightarrow> calendar \<Rightarrow> billing_op \<Rightarrow> ledger conn \<Rightarrow> ledger conn" where
  "billing_step fc cal (BApply cmd now) c = snd (Apply fc cal now (Some cmd) c)"
| "billing_step fc cal (BReverse cmd now) c = snd (Reverse fc now (Some cmd) c)"
| "billing_step fc cal (BHold op cmd) c = snd (applyBatchImageBalanceHold fc op (Some cmd) c)"
| "billing_step fc cal (BRecover cutoff items) c = snd (recoverExpiredBatchHolds cutoff items c)"

fun billing_run :: "fingerprint_codec \<Rightarrow> calendar \<Rightarrow> billing_op list \<Rightarrow> ledger conn \<Rightarrow> ledger conn" where
  "billing_run fc cal [] c = c"
| "billing_run fc cal (op # ops) c = billing_run fc cal ops (billing_step fc cal op c)"

lemma run_tx_effect:
  assumes "run_tx body c = (r, c')"
  shows "fst c' = fst c \<or> (\<exists>a. body (fst c) = Inr (a, fst c'))"
  using assms by (auto simp: run_tx_def sql_exec_def split: prod.splits list.splits fault.splits sum.splits)

lemma run_tx_acked: "run_tx body c = (Inr a, c') \<Longrightarrow> body (fst c) = Inr (a, fst c')"
  by (auto simp: run_tx_def sql_exec_def split: prod.splits list.splits fault.splits sum.splits)

lemma run_tx_refused: "run_tx body c = (Inl e, c') \<Longrightarrow> body (fst c) = Inl e' \<Longrightarrow> fst c' = fst c"
  by (auto simp: run_tx_def sql_exec_def split: prod.splits list.splits fault.splits sum.splits)

lemma run_tx_healthy [simp]:
  "run_tx body (l, []) = (case body l of Inl e \<Rightarrow> (Inl e, (l, [])) | Inr (a, l') \<Rightarrow> (Inr a, (l', [])))"
  by (simp add: run_tx_def split: sum.split prod.split)

lemma run_tx_inv:
  assumes "run_tx body c = (r, c')" "P (fst c)" "\<And>a l'. body (fst c) = Inr (a, l') \<Longrightarrow> P l'"
  shows "P (fst c')"
  using run_tx_effect [OF assms(1)] assms(2,3) by auto

text \<open>An invariant of the transactions is one of the operations and of every history.\<close>

lemma recover_inv:
  assumes "\<And>l item a l'. item \<in> set items \<Longrightarrow> P l \<Longrightarrow> releaseExpiredBatchHold cutoff item l = Inr (a, l') \<Longrightarrow> P l'"
    and "P (fst c)"
  shows "P (fst (snd (recoverExpiredBatchHolds cutoff items c)))"
  using assms
proof (induction items arbitrary: c)
  case (Cons item items)
  obtain r c1 where r: "run_tx (releaseExpiredBatchHold cutoff item) c = (r, c1)" by (rule prod.exhaust)
  have "P (fst c1)" by (rule run_tx_inv [where P = P, OF r Cons.prems(2)]) (use Cons.prems in auto)
  have "P (fst (snd (recoverExpiredBatchHolds cutoff items c1)))"
    by (rule Cons.IH, rule Cons.prems(1)) (use \<open>P (fst c1)\<close> in auto)
  with r show ?case by (cases r) auto
qed simp

lemma apply_inv:
  assumes "\<And>a l'. uc_RequestID (uc_Normalize fc cmd) \<noteq> [] \<Longrightarrow> apply_tx cal now (uc_Normalize fc cmd) (fst c) = Inr (a, l') \<Longrightarrow> P l'"
    and "P (fst c)"
  shows "P (fst (snd (Apply fc cal now (Some cmd) c)))"
proof (cases "uc_RequestID (uc_Normalize fc cmd) = []")
  case False
  obtain r c1 where r: "run_tx (apply_tx cal now (uc_Normalize fc cmd)) c = (r, c1)" by (rule prod.exhaust)
  have "P (fst c1)" by (rule run_tx_inv [where P = P, OF r assms(2)]) (use assms(1) False in auto)
  with False r show ?thesis by (simp add: Apply_def)
qed (use assms in \<open>simp add: Apply_def\<close>)

lemma reverse_inv:
  assumes "\<And>a l'. reverse_tx fc now (rc_Normalize fc cmd) (fst c) = Inr (a, l') \<Longrightarrow> P l'" and "P (fst c)"
  shows "P (fst (snd (Reverse fc now (Some cmd) c)))"
proof -
  obtain r c1 where r: "run_tx (reverse_tx fc now (rc_Normalize fc cmd)) c = (r, c1)" by (rule prod.exhaust)
  have "P (fst c1)" by (rule run_tx_inv [where P = P, OF r assms(2)]) (use assms(1) in auto)
  with r assms(2) show ?thesis by (simp add: Reverse_def Let_def)
qed

lemma hold_inv:
  assumes "\<And>h a r l'. HoldAmount (hc_Normalize fc cmd) = Fin h \<Longrightarrow> ActualAmount (hc_Normalize fc cmd) = Fin a \<Longrightarrow>
      hc_RequestID (hc_Normalize fc cmd) = hold_request_id op (hc_BatchID (hc_Normalize fc cmd)) \<Longrightarrow>
      \<not> negative_or_not_finite (HoldAmount cmd) \<Longrightarrow> \<not> negative_or_not_finite (ActualAmount cmd) \<Longrightarrow>
      hold_tx op (hc_Normalize fc cmd) h a (fst c) = Inr (r, l') \<Longrightarrow> P l'"
    and "P (fst c)"
  shows "P (fst (snd (applyBatchImageBalanceHold fc op (Some cmd) c)))"
proof (cases "\<not> negative_or_not_finite (HoldAmount cmd) \<and> \<not> negative_or_not_finite (ActualAmount cmd) \<and>
    hc_RequestID (hc_Normalize fc cmd) = hold_request_id op (hc_BatchID (hc_Normalize fc cmd))")
  case True
  let ?cmd = "hc_Normalize fc cmd"
  obtain r c1 where r: "run_tx (numeric (HoldAmount ?cmd) (\<lambda>h. numeric (ActualAmount ?cmd) (hold_tx op ?cmd h))) c = (r, c1)"
    by (rule prod.exhaust)
  have "P (fst c1)" by (rule run_tx_inv [where P = P, OF r assms(2)]) (use assms(1) True in \<open>auto simp: numeric_Inr\<close>)
  with r assms(2) show ?thesis by (simp add: applyBatchImageBalanceHold_def Let_def)
qed (use assms(2) in \<open>auto simp: applyBatchImageBalanceHold_def Let_def not_less\<close>)

lemma billing_step_le: "ledger_le (fst c) (fst (billing_step fc cal op c))"
proof (cases op)
  case (BApply cmd now)
  show ?thesis unfolding BApply billing_step.simps by (rule apply_inv) (auto intro: apply_tx_le)
next
  case (BReverse cmd now)
  show ?thesis unfolding BReverse billing_step.simps by (rule reverse_inv) (auto intro: reverse_tx_le)
next
  case (BHold hop cmd)
  show ?thesis unfolding BHold billing_step.simps by (rule hold_inv) (auto intro: hold_tx_le)
next
  case (BRecover cutoff items)
  show ?thesis unfolding BRecover billing_step.simps
    by (rule recover_inv) (auto intro: release_expired_le ledger_le_trans)
qed

lemma billing_run_le: "ledger_le (fst c) (fst (billing_run fc cal ops c))"
proof (induction ops arbitrary: c)
  case (Cons op ops)
  show ?case unfolding billing_run.simps by (rule ledger_le_trans [OF billing_step_le Cons.IH])
qed simp

section \<open>A request is charged at most once\<close>

lemma apply_claimed:
  assumes "batchImageHoldClaimExists (trim_space (uc_RequestID cmd)) (uc_APIKeyID cmd) (fst c)"
  shows "fst (snd (Apply fc cal now (Some cmd) c)) = fst c"
proof (rule apply_inv [where P = "\<lambda>l. l = fst c"])
  fix a l'
  assume "apply_tx cal now (uc_Normalize fc cmd) (fst c) = Inr (a, l')"
  then show "l' = fst c"
  proof (rule apply_tx_cases)
    fix l1
    assume "claimUsageBillingKey (uc_Normalize fc cmd) (fst c) = Inr (True, l1)"
    with claim_taken assms show ?thesis by (auto simp: claimUsageBillingKey_def)
  qed
qed simp

lemma apply_effective_claims:
  assumes "Apply fc cal now (Some cmd) c = (res, c')" "fst c' \<noteq> fst c"
  shows "batchImageHoldClaimExists (trim_space (uc_RequestID cmd)) (uc_APIKeyID cmd) (fst c')"
proof -
  let ?P = "\<lambda>l. l = fst c \<or> batchImageHoldClaimExists (trim_space (uc_RequestID cmd)) (uc_APIKeyID cmd) l"
  have body: "?P l'" if "apply_tx cal now (uc_Normalize fc cmd) (fst c) = Inr (a, l')" for a l'
    using that
  proof (rule apply_tx_cases)
    fix l1
    assume c: "claimUsageBillingKey (uc_Normalize fc cmd) (fst c) = Inr (True, l1)"
      and e: "applyUsageBillingEffects cal now (uc_Normalize fc cmd) (empty_apply_result True) l1 = Inr (a, l')"
    from claim_won [OF c [unfolded claimUsageBillingKey_def]]
    have "batchImageHoldClaimExists (trim_space (uc_RequestID cmd)) (uc_APIKeyID cmd) l1"
      unfolding uc_Normalize_fields by blast
    from claimed_mono [OF same_claims_le [OF frames_effects_keep [OF frames_effects e]] this]
    show ?thesis by simp
  qed simp
  have "?P (fst (snd (Apply fc cal now (Some cmd) c)))" by (rule apply_inv [where P = ?P], erule body, blast)
  with assms show ?thesis by simp
qed

text \<open>
  C10: A request is charged at most once. If a call of \<open>Apply\<close> changed the ledger, with or
  without its reply arriving, then after any history of charges, reversals, holds and
  recoveries, under any faults, another \<open>Apply\<close> with the same request and API key leaves
  the ledger as it is, whatever amounts it carries.
\<close>

theorem charge_at_most_once:
  assumes "Apply fc cal now (Some cmd) c = (res, c1)" "fst c1 \<noteq> fst c"
    and "trim_space (uc_RequestID cmd') = trim_space (uc_RequestID cmd)" "uc_APIKeyID cmd' = uc_APIKeyID cmd"
  shows "fst (snd (Apply fc cal later (Some cmd') (billing_run fc cal ops c1))) = fst (billing_run fc cal ops c1)"
  using apply_claimed claimed_mono [OF billing_run_le apply_effective_claims [OF assms(1,2)]] assms(3,4)
  by simp

text \<open>A ledger for the examples: one user with balance 10 and one API key.\<close>

definition demo_user :: user_row where
  "demo_user = \<lparr>u_balance = 10, u_frozen = None, u_deleted = False\<rparr>"

definition demo_key :: api_key_row where
  "demo_key = \<lparr>k_quota = 5, k_quota_used = 1, k_status = StatusAPIKeyActive, k_usage_5h = 0, k_usage_1d = 0,
     k_usage_7d = 0, k_start_5h = None, k_start_1d = None, k_start_7d = None, k_deleted = False\<rparr>"

definition demo_job :: job_row where
  "demo_job = \<lparr>j_user = 1, j_key = 7, j_estimated = 3, j_hold = Some 4, j_request_hash = None\<rparr>"

definition demo_ledger :: ledger where
  "demo_ledger = \<lparr>users = [1 \<mapsto> demo_user], subscriptions = Map.empty, live_groups = (\<lambda>_. False),
     api_keys = [7 \<mapsto> demo_key], accounts = Map.empty, platform_quotas = Map.empty, claims = Map.empty,
     archive = Map.empty, jobs = [''b'' \<mapsto> demo_job], releases = Map.empty, usage_logs = Map.empty,
     outbox = [], now_db = 0\<rparr>"

definition demo_calendar :: calendar where
  "demo_calendar = \<lparr>trunc_day = (\<lambda>t. t), next_daily_reset = (\<lambda>_ t. t), next_weekly_reset = (\<lambda>_ t. t)\<rparr>"

definition charged_ledger :: ledger where
  "charged_ledger = demo_ledger\<lparr>users := [1 \<mapsto> demo_user\<lparr>u_balance := 8\<rparr>],
     api_keys := [7 \<mapsto> demo_key\<lparr>k_quota_used := 3\<rparr>],
     claims := [(''r1'', 7) \<mapsto> \<lparr>c_fingerprint = uc_RequestFingerprint (uc_Normalize demo_fc demo_command), c_created = 0\<rparr>]\<rparr>"

lemma demo_normalized:
  "uc_Normalize demo_fc demo_command = demo_command\<lparr>uc_RequestFingerprint :=
     uc_RequestFingerprint (uc_Normalize demo_fc demo_command)\<rparr>"
  using quantizeMonetaryFields_fixed [of demo_command]
  by (simp add: uc_Normalize_def Let_def quantizeMonetaryFields_def demo_command_def round_to_scale_fixed
      on_scale_def trim_space_def ws1_def ws2_def ws3_def del: uc_Normalize_fields)

lemma demo_request_id: "uc_RequestID (uc_Normalize demo_fc demo_command) = ''r1''"
proof -
  have "trim_space ''r1'' = ''r1''" by code_simp
  then show ?thesis by (simp add: demo_command_def)
qed

lemma demo_apply_tx:
  "apply_tx demo_calendar now (uc_Normalize demo_fc demo_command) demo_ledger =
     Inr (\<lparr>ar_Applied = True, APIKeyQuotaExhausted = False, UserPlatformQuotaApplied = False,
        ar_NewBalance = Some 8, BalanceOverdrafted = False, QuotaState = None\<rparr>, charged_ledger)"
proof -
  define fp where "fp = uc_RequestFingerprint (uc_Normalize demo_fc demo_command)"
  have n: "uc_Normalize demo_fc demo_command = demo_command\<lparr>uc_RequestFingerprint := fp\<rparr>"
    using demo_normalized by (simp add: fp_def)
  show ?thesis
    unfolding charged_ledger_def fp_def [symmetric] n
    by (simp add: apply_tx_def claimUsageBillingKey_def claimUsageBillingRequest_def claim_fingerprint_def
        applyUsageBillingEffects_def subscription_step_def balance_step_def key_quota_step_def rate_limit_step_def
        account_quota_step_def platform_quota_step_def tx_defs deductUsageBillingBalance_def
        incrementUsageBillingAPIKeyQuota_def quota_row_after_def live_user_def live_key_def put_user_def
        empty_apply_result_def demo_command_def demo_ledger_def demo_user_def demo_key_def
        StatusAPIKeyActive_def StatusAPIKeyQuotaExhausted_def Let_def fun_upd_twist)
qed

lemma demo_apply_again:
  "apply_tx demo_calendar now (uc_Normalize demo_fc demo_command) charged_ledger =
     Inr (empty_apply_result False, charged_ledger)"
  using demo_request_id
  by (simp add: apply_tx_def claimUsageBillingKey_def claimUsageBillingRequest_def claim_fingerprint_def
      charged_ledger_def Let_def demo_command_def)

lemma demo_Apply:
  "Apply demo_fc demo_calendar now (Some demo_command) c =
     run_tx (apply_tx demo_calendar now (uc_Normalize demo_fc demo_command)) c"
  by (simp only: Apply_def Let_def option.case demo_request_id if_False list.distinct)

lemma demo_charge:
  "Apply demo_fc demo_calendar 0 (Some demo_command) (demo_ledger, []) =
     (Inr \<lparr>ar_Applied = True, APIKeyQuotaExhausted = False, UserPlatformQuotaApplied = False,
        ar_NewBalance = Some 8, BalanceOverdrafted = False, QuotaState = None\<rparr>, (charged_ledger, []))"
  by (simp add: demo_Apply demo_apply_tx)

theorem charge_at_most_once_witness:
  "fst (snd (Apply demo_fc demo_calendar 9 (Some (demo_command\<lparr>uc_BalanceCost := Fin 3\<rparr>))
     (billing_run demo_fc demo_calendar [BApply demo_command 5] (charged_ledger, [])))) =
   fst (billing_run demo_fc demo_calendar [BApply demo_command 5] (charged_ledger, []))"
proof (rule charge_at_most_once [OF demo_charge])
  have "u_balance (the (users charged_ledger 1)) \<noteq> u_balance (the (users demo_ledger 1))"
    by (simp add: charged_ledger_def demo_ledger_def demo_user_def)
  then show "fst (charged_ledger, []) \<noteq> fst (demo_ledger, [])" by auto
qed simp_all

section \<open>A retried charge happens exactly once\<close>

text \<open>The caller's retry: \<open>Apply\<close> at the given times until a reply arrives.\<close>

fun retry_apply ::
  "fingerprint_codec \<Rightarrow> calendar \<Rightarrow> UsageBillingCommand \<Rightarrow> time list \<Rightarrow> ledger conn \<Rightarrow>
   UsageBillingApplyResult option \<times> ledger conn" where
  "retry_apply fc cal cmd [] c = (None, c)"
| "retry_apply fc cal cmd (t # ts) c =
     (case Apply fc cal t (Some cmd) c of
        (Inr res, c') \<Rightarrow> (Some res, c')
      | (Inl e, c') \<Rightarrow> retry_apply fc cal cmd ts c')"

text \<open>With a charge time in the command, the clock of the call does not matter.\<close>

lemma statements_clock:
  assumes "\<not> is_zero ts"
  shows "incrementUsageBillingAPIKeyRateLimit cal k v ts now = incrementUsageBillingAPIKeyRateLimit cal k v ts now'"
    and "incrementUsageBillingAccountQuota cal a v ts now = incrementUsageBillingAccountQuota cal a v ts now'"
    and "uc_ChargedAt cmd = ts \<Longrightarrow>
      incrementUsageBillingUserPlatformQuota cmd v now = incrementUsageBillingUserPlatformQuota cmd v now'"
  using assms
  by (simp_all add: fun_eq_iff incrementUsageBillingAPIKeyRateLimit_def incrementUsageBillingAccountQuota_def
      incrementUsageBillingUserPlatformQuota_def charged_at_def split: option.split)

lemma effects_clock:
  assumes "\<not> is_zero (uc_ChargedAt cmd)"
  shows "applyUsageBillingEffects cal now cmd = applyUsageBillingEffects cal now' cmd"
  unfolding applyUsageBillingEffects_def [abs_def] rate_limit_step_def account_quota_step_def platform_quota_step_def
    statements_clock(1) [OF assms, of cal _ _ now now'] statements_clock(2) [OF assms, of cal _ _ now now']
    statements_clock(3) [OF assms refl, of _ now now'] ..

lemma apply_tx_clock:
  "\<not> is_zero (uc_ChargedAt cmd) \<Longrightarrow> apply_tx cal now cmd = apply_tx cal now' cmd"
  unfolding apply_tx_def [abs_def] by (subst effects_clock [where now' = now']) auto

lemma uc_Normalize_ChargedAt [simp]: "uc_ChargedAt (uc_Normalize fc cmd) = uc_ChargedAt cmd"
  by (simp add: uc_Normalize_def quantizeMonetaryFields_def Let_def)

lemma applied_effects:
  assumes "apply_tx cal now cmd l = Inr (res, l1)" "ar_Applied res"
  shows "batchImageHoldClaimExists (uc_RequestID cmd) (uc_APIKeyID cmd) l1"
  using assms(1)
proof (rule apply_tx_cases)
  fix l0
  assume c: "claimUsageBillingKey cmd l = Inr (True, l0)"
    and e: "applyUsageBillingEffects cal now cmd (empty_apply_result True) l0 = Inr (res, l1)"
  from claim_won [OF c [unfolded claimUsageBillingKey_def]]
  have "batchImageHoldClaimExists (uc_RequestID cmd) (uc_APIKeyID cmd) l0" by blast
  from claimed_mono [OF same_claims_le [OF frames_effects_keep [OF frames_effects e]] this] show ?thesis .
qed (use assms(2) in \<open>simp add: empty_apply_result_def\<close>)

text \<open>
  A charge retried until its reply arrives happens exactly once: if the transaction of
  the charge succeeds on the ledger, then after any number of attempts with lost replies and
  failed statements the ledger is either untouched or has the charge exactly once, and once
  a reply has arrived it has it.
\<close>

theorem retried_charge_exactly_once:
  assumes "\<not> is_zero (uc_ChargedAt cmd)" "trim_space (uc_RequestID cmd) \<noteq> []"
    and "apply_tx cal now (uc_Normalize fc cmd) l = Inr (res, l1)" "ar_Applied res"
    and "retry_apply fc cal cmd ts (l, fs) = (reply, (l', fs'))"
  shows "l' \<in> {l, l1} \<and> (reply \<noteq> None \<longrightarrow> l' = l1)"
proof -
  let ?n = "uc_Normalize fc cmd"
  have once: "apply_tx cal t ?n l = Inr (res, l1)" for t
    using assms(1,3) apply_tx_clock [of ?n cal t now] by simp
  have claimed: "batchImageHoldClaimExists (trim_space (uc_RequestID cmd)) (uc_APIKeyID cmd) l1"
    using applied_effects [OF assms(3,4)] by simp
  have "l' \<in> {m, l1} \<and> (reply \<noteq> None \<longrightarrow> l' = l1)"
    if "retry_apply fc cal cmd ts (m, fs) = (reply, (l', fs'))" "m \<in> {l, l1}" for m
    using that
  proof (induction ts arbitrary: m fs)
    case (Cons t ts)
    obtain r m1 fs1 where a: "Apply fc cal t (Some cmd) (m, fs) = (r, (m1, fs1))" by (rule prod_cases3)
    then have run: "run_tx (apply_tx cal t ?n) (m, fs) = (r, (m1, fs1))"
      using assms(2) by (simp add: Apply_def Let_def)
    have acked: "m1 = l1" if "r = Inr x" for x
      using run_tx_acked [of "apply_tx cal t ?n" "(m, fs)" x "(m1, fs1)"] run that once [of t] Cons.prems(2)
        apply_claimed [of cmd "(m, fs)" fc cal t] claimed a by auto
    have "m1 = m \<or> m1 = l1"
      using run_tx_effect [OF run] once [of t] Cons.prems(2) apply_claimed [of cmd "(m, fs)" fc cal t] claimed a
      by auto
    with Cons.IH [of m1 fs1] Cons.prems a acked show ?case by (cases r) auto
  qed simp
  from this [of l] assms(5) show ?thesis by blast
qed

theorem retried_charge_exactly_once_witness:
  "retry_apply demo_fc demo_calendar demo_command [1, 2, 3] (demo_ledger, [ReplyLost, NeverRan]) =
     (Some (empty_apply_result False), (charged_ledger, []))"
proof -
  obtain reply l' fs' where r: "retry_apply demo_fc demo_calendar demo_command [1, 2, 3]
      (demo_ledger, [ReplyLost, NeverRan]) = (reply, (l', fs'))" by (rule prod_cases3)
  have "\<not> is_zero (uc_ChargedAt demo_command)" by (simp add: is_zero_def zero_time_def demo_command_def)
  moreover have "trim_space (uc_RequestID demo_command) \<noteq> []" using demo_request_id by simp
  ultimately have "reply \<noteq> None \<longrightarrow> l' = charged_ledger"
    using retried_charge_exactly_once [OF _ _ demo_apply_tx _ r] by simp
  moreover have "reply = Some (empty_apply_result False) \<and> fs' = []"
    using r by (simp add: demo_Apply run_tx_def sql_exec_def demo_apply_tx demo_apply_again)
  ultimately show ?thesis using r by simp
qed

end
