(* ===== verification/BillingHolds.thy ===== *)
theory BillingHolds
  imports BillingLaws
begin

text \<open>
  The balance holds of batch images: every operation conserves money, a hold ends once, and
  the frozen balance of a user is at every moment the sum of the holds that are open.
\<close>

section \<open>What the operations move\<close>

definition money :: "ledger \<Rightarrow> int \<Rightarrow> rat" where
  "money l u = (case users l u of None \<Rightarrow> 0 | Some r \<Rightarrow> u_balance r + frozen_of r)"

definition frozen_balance :: "ledger \<Rightarrow> int \<Rightarrow> rat" where
  "frozen_balance l u = (case users l u of None \<Rightarrow> 0 | Some r \<Rightarrow> frozen_of r)"

named_theorems money_simps

lemma live_user_Some: "live_user l u = Some r \<Longrightarrow> users l u = Some r"
  by (auto simp: live_user_def split: option.splits if_splits)

lemma money_put_user [money_simps]:
  "money (put_user u r l) u' = (if u' = u then u_balance r + frozen_of r else money l u')"
  "frozen_balance (put_user u r l) u' = (if u' = u then frozen_of r else frozen_balance l u')"
  by (simp_all add: money_def frozen_balance_def put_user_def)

lemma money_live:
  "live_user l u = Some r \<Longrightarrow> money l u = u_balance r + frozen_of r \<and> frozen_balance l u = frozen_of r"
  by (simp add: money_def frozen_balance_def live_user_Some)

lemma move_user_money:
  assumes "move_user u ok b f e l = Inr (res, l')"
  shows "money l' u' = money l u' + (if u' = u then b + f else 0) \<and>
         frozen_balance l' u' = frozen_balance l u' + (if u' = u then f else 0)"
  using assms money_live [of l u]
  by (auto simp: move_user_def Let_def money_simps frozen_of_def split: option.splits if_splits)

lemma deduct_money:
  assumes "deductUsageBillingBalance u v l = Inr (res, l')"
  shows "money l' u' = money l u' - (if u' = u then v else 0) \<and> frozen_balance l' u' = frozen_balance l u'"
  using assms money_live [of l u]
  by (auto simp: deductUsageBillingBalance_def Let_def money_simps frozen_of_def split: option.splits if_splits)

lemma claim_users: "claimUsageBillingRequest rid key fp l = Inr (b, l') \<Longrightarrow> users l' = users l"
  by (auto simp: claimUsageBillingRequest_def Let_def split: option.splits if_splits)

lemma money_users: "users l' = users l \<Longrightarrow> money l' = money l \<and> frozen_balance l' = frozen_balance l"
  by (simp add: money_def frozen_balance_def fun_eq_iff)

lemma hold_effect_money:
  assumes "hold_effect op expired u key batchID h a l = Inr (res, l')" "0 \<le> h" "0 \<le> a"
  shows "money l' u' = money l u' - (if op = OpCapture \<and> u' = u then a else 0)"
    and "frozen_balance l' u' = frozen_balance l u' +
      (if u' = u \<and> \<not> expired then
         (case op of OpReserve \<Rightarrow> h | OpCapture \<Rightarrow> - h
          | OpRelease \<Rightarrow> if batchImageHoldClaimExists (BatchImageHoldRequestID batchID) key l then - h else 0)
       else 0)"
proof -
  have "money l' u' = money l u' - (if op = OpCapture \<and> u' = u then a else 0) \<and>
    frozen_balance l' u' = frozen_balance l u' +
      (if u' = u \<and> \<not> expired then
         (case op of OpReserve \<Rightarrow> h | OpCapture \<Rightarrow> - h
          | OpRelease \<Rightarrow> if batchImageHoldClaimExists (BatchImageHoldRequestID batchID) key l then - h else 0)
       else 0)"
  proof (cases op)
    case OpReserve
    with assms show ?thesis
      by (auto simp: hold_effect_def reserveUsageBillingBatchImageBalance_def split: if_splits
          dest: move_user_money [where u' = u'])
  next
    case OpCapture
    show ?thesis
    proof (cases expired)
      case True
      with OpCapture assms show ?thesis
        by (auto simp: hold_effect_def captureExpiredBatchImageBalance_def tx_bind_Inr split: if_splits
            dest: deduct_money [where u' = u'])
    next
      case False
      with OpCapture assms show ?thesis
        by (auto simp: hold_effect_def captureUsageBillingBatchImageBalance_def split: if_splits
            dest: move_user_money [where u' = u'])
    qed
  next
    case OpRelease
    with assms show ?thesis
      by (auto simp: hold_effect_def releaseUsageBillingBatchImageBalance_def split: if_splits
          dest: move_user_money [where u' = u'])
  qed
  then show "money l' u' = money l u' - (if op = OpCapture \<and> u' = u then a else 0)"
    and "frozen_balance l' u' = frozen_balance l u' +
      (if u' = u \<and> \<not> expired then
         (case op of OpReserve \<Rightarrow> h | OpCapture \<Rightarrow> - h
          | OpRelease \<Rightarrow> if batchImageHoldClaimExists (BatchImageHoldRequestID batchID) key l then - h else 0)
       else 0)" by simp_all
qed

lemma hold_tx_money:
  assumes "hold_tx op cmd h a l = Inr (res, l')" "0 \<le> h" "0 \<le> a"
  shows "money l' u = money l u - (if hr_Applied res \<and> op = OpCapture \<and> u = hc_UserID cmd then a else 0)"
  using assms(1)
proof (rule hold_tx_cases)
  fix expired l1 r
  assume c: "claimUsageBillingRequest (hc_RequestID cmd) (hc_APIKeyID cmd) (hc_RequestFingerprint cmd) l = Inr (True, l1)"
    and e: "hold_effect op expired (hc_UserID cmd) (hc_APIKeyID cmd) (hc_BatchID cmd) h a l1 = Inr (r, l')"
    and res: "res = r\<lparr>hr_Applied := True\<rparr>"
  from hold_effect_money(1) [OF e assms(2,3), of u] money_users [OF claim_users [OF c]] res show ?thesis by simp
qed simp

lemma hold_acked:
  assumes "applyBatchImageBalanceHold fc op (Some cmd) c = (Inr res, c')"
  obtains h0 a0 where "HoldAmount cmd = Fin h0" "ActualAmount cmd = Fin a0" "0 \<le> h0" "0 \<le> a0"
    "hc_RequestID (hc_Normalize fc cmd) = hold_request_id op (hc_BatchID (hc_Normalize fc cmd))"
    "hold_tx op (hc_Normalize fc cmd) (round_to_scale h0) (round_to_scale a0) (fst c) = Inr (res, fst c')"
proof -
  obtain h0 a0 where f: "HoldAmount cmd = Fin h0" "ActualAmount cmd = Fin a0" "0 \<le> h0" "0 \<le> a0"
    using assms by (cases "HoldAmount cmd"; cases "ActualAmount cmd")
      (auto simp: applyBatchImageBalanceHold_def Let_def not_less split: if_splits)
  then have n: "HoldAmount (hc_Normalize fc cmd) = Fin (round_to_scale h0)"
    "ActualAmount (hc_Normalize fc cmd) = Fin (round_to_scale a0)"
    by (simp_all add: hc_Normalize_def Let_def quantize_Fin del: QuantizeUsageBillingAmount.simps(1))
  from assms have id: "hc_RequestID (hc_Normalize fc cmd) = hold_request_id op (hc_BatchID (hc_Normalize fc cmd))"
    and r: "run_tx (numeric (HoldAmount (hc_Normalize fc cmd)) (\<lambda>h. numeric (ActualAmount (hc_Normalize fc cmd))
      (hold_tx op (hc_Normalize fc cmd) h))) c = (Inr res, c')"
    by (auto simp: applyBatchImageBalanceHold_def Let_def split: if_splits)
  from run_tx_acked [OF r] n that [OF f id] show thesis by simp
qed

text \<open>
  C21: Holds conserve money: reserving and releasing a hold move an amount between the
  balance and the frozen balance of one user and leave the sum as it is, capturing takes
  exactly the actual cost (on the accounting scale) from that sum, whether or not the hold
  had expired before, and nobody else's money moves.
\<close>

theorem holds_conserve_money:
  assumes "applyBatchImageBalanceHold fc op (Some cmd) c = (Inr res, c')" "ActualAmount cmd = Fin a"
  shows "money (fst c') u = money (fst c) u -
           (if hr_Applied res \<and> op = OpCapture \<and> u = hc_UserID cmd then round_to_scale a else 0)"
proof -
  obtain h0 a0 where f: "HoldAmount cmd = Fin h0" "ActualAmount cmd = Fin a0" "0 \<le> h0" "0 \<le> a0"
    "hold_tx op (hc_Normalize fc cmd) (round_to_scale h0) (round_to_scale a0) (fst c) = Inr (res, fst c')"
    using assms(1) by (rule hold_acked)
  have "hc_UserID (hc_Normalize fc cmd) = hc_UserID cmd" by (simp add: hc_Normalize_def Let_def)
  with hold_tx_money [OF f(5), of u] f(2,3,4) assms(2) show ?thesis by (simp add: round_to_scale_nonneg)
qed

definition demo_hold_command :: "hold_operation \<Rightarrow> BatchImageBalanceHoldCommand" where
  "demo_hold_command op = \<lparr>hc_RequestID = hold_request_id op ''b'', hc_APIKeyID = 7,
     hc_RequestFingerprint = ''f'', hc_RequestPayloadHash = [], hc_UserID = 1, hc_BatchID = ''b'',
     HoldAmount = Fin 4, ActualAmount = Fin (if op = OpCapture then 3 else 0)\<rparr>"

definition held_ledger :: ledger where
  "held_ledger = demo_ledger\<lparr>users := [1 \<mapsto> \<lparr>u_balance = 6, u_frozen = Some 4, u_deleted = False\<rparr>],
     claims := [(BatchImageHoldRequestID ''b'', 7) \<mapsto> \<lparr>c_fingerprint = ''f'', c_created = 0\<rparr>]\<rparr>"

lemma trim_b [simp]: "trim_space ''b'' = ''b''" "trim_space ''f'' = ''f''"
  "trim_space ''batch_image_hold:b'' = ''batch_image_hold:b''"
  "trim_space ''batch_image_capture:b'' = ''batch_image_capture:b''"
  "trim_space ''batch_image_release:b'' = ''batch_image_release:b''"
  by code_simp+

lemma on_scale_of_int [simp]: "on_scale (of_int i)" "on_scale (numeral n)"
  by (simp_all add: on_scale_def)

lemma demo_hold_id: "hold_request_id op ''b'' = (case op of OpReserve \<Rightarrow> ''batch_image_hold:b''
    | OpCapture \<Rightarrow> ''batch_image_capture:b'' | OpRelease \<Rightarrow> ''batch_image_release:b'')"
  by (cases op) (simp_all add: BatchImageHoldRequestID_def BatchImageCaptureRequestID_def BatchImageReleaseRequestID_def)

lemma demo_hold_normalized: "hc_Normalize fc (demo_hold_command op) = demo_hold_command op"
  by (cases op) (simp_all add: hc_Normalize_def demo_hold_command_def demo_hold_id Let_def round_to_scale_fixed)

lemmas hold_eval = applyBatchImageBalanceHold_def hold_tx_def batchImageHoldOperationAllowed_def
  batchImageHoldClaimExists_def batchImageHoldExpired_def reserve_matches_job_def claimUsageBillingRequest_def
  claim_fingerprint_def hold_effect_def Let_def

lemma demo_reserve:
  "applyBatchImageBalanceHold fc OpReserve (Some (demo_hold_command OpReserve)) (demo_ledger, []) =
     (Inr \<lparr>hr_Applied = True, hr_NewBalance = Some 6, FrozenBalance = Some 4\<rparr>, (held_ledger, []))"
  by (simp add: hold_eval demo_hold_normalized)
     (simp add: hold_eval demo_hold_command_def demo_ledger_def held_ledger_def demo_hold_id
      BatchImageHoldRequestID_def reserveUsageBillingBatchImageBalance_def demo_job_def coalesce_def
      round_to_scale_fixed move_user_def live_user_def demo_user_def frozen_of_def put_user_def
      empty_hold_result_def)

lemma demo_capture:
  "\<exists>l. applyBatchImageBalanceHold fc OpCapture (Some (demo_hold_command OpCapture)) (held_ledger, []) =
     (Inr \<lparr>hr_Applied = True, hr_NewBalance = Some 7, FrozenBalance = Some 0\<rparr>, (l, []))"
  by (simp add: hold_eval demo_hold_normalized)
     (simp add: hold_eval demo_hold_command_def held_ledger_def demo_ledger_def demo_hold_id
      BatchImageHoldRequestID_def BatchImageCaptureRequestID_def BatchImageReleaseRequestID_def
      captureUsageBillingBatchImageBalance_def exceeds_hold_def
      move_user_def live_user_def demo_user_def frozen_of_def put_user_def empty_hold_result_def)

theorem holds_conserve_money_witness:
  "\<exists>l. applyBatchImageBalanceHold demo_fc OpCapture (Some (demo_hold_command OpCapture)) (held_ledger, []) =
     (Inr \<lparr>hr_Applied = True, hr_NewBalance = Some 7, FrozenBalance = Some 0\<rparr>, (l, [])) \<and>
     money l 1 = 7"
proof -
  obtain l where c: "applyBatchImageBalanceHold demo_fc OpCapture (Some (demo_hold_command OpCapture)) (held_ledger, []) =
     (Inr \<lparr>hr_Applied = True, hr_NewBalance = Some 7, FrozenBalance = Some 0\<rparr>, (l, []))"
    using demo_capture by blast
  have "money held_ledger 1 = 10" by (simp add: money_def held_ledger_def frozen_of_def)
  moreover have "round_to_scale 3 = 3" "hc_UserID (demo_hold_command OpCapture) = 1"
    "ActualAmount (demo_hold_command OpCapture) = Fin 3"
    by (simp_all add: round_to_scale_fixed demo_hold_command_def)
  ultimately have "money l 1 = 7" using holds_conserve_money [OF c, of 3 1] by simp
  with c show ?thesis by blast
qed

section \<open>The frozen balance is the sum of the open holds\<close>

definition job_hold :: "job_row \<Rightarrow> rat" where
  "job_hold j = round_to_scale (coalesce (j_estimated j) (j_hold j))"

definition open_hold :: "ledger \<Rightarrow> string \<Rightarrow> bool" where
  "open_hold l b \<longleftrightarrow>
     (\<exists>j. jobs l b = Some j \<and> 0 < job_hold j \<and>
        batchImageHoldClaimExists (BatchImageHoldRequestID b) (j_key j) l \<and>
        \<not> batchImageHoldClaimExists (BatchImageCaptureRequestID b) (j_key j) l \<and>
        \<not> batchImageHoldClaimExists (BatchImageReleaseRequestID b) (j_key j) l \<and>
        releases l (b, j_key j) = None)"

definition open_holds :: "ledger \<Rightarrow> int \<Rightarrow> rat" where
  "open_holds l u = (\<Sum>b \<in> {b. open_hold l b \<and> j_user (the (jobs l b)) = u}. job_hold (the (jobs l b)))"

definition jobs_ok :: "ledger \<Rightarrow> bool" where
  "jobs_ok l \<longleftrightarrow> finite (dom (jobs l)) \<and> (\<forall>b \<in> dom (jobs l). trim_space b = b)"

text \<open>
  What the callers in the service keep to: a capture or a release names the user, the key
  and the hold amount of its job, and other billing requests do not use the reserved prefixes.
\<close>

definition reserved_request :: "string \<Rightarrow> bool" where
  "reserved_request s \<longleftrightarrow> (\<exists>op b. s = hold_request_id op b)"

definition matches_job :: "ledger \<Rightarrow> BatchImageBalanceHoldCommand \<Rightarrow> rat \<Rightarrow> bool" where
  "matches_job l cmd h \<longleftrightarrow>
     (\<exists>j. jobs l (hc_BatchID cmd) = Some j \<and> j_user j = hc_UserID cmd \<and> j_key j = hc_APIKeyID cmd \<and> h = job_hold j)"

fun honest :: "fingerprint_codec \<Rightarrow> ledger \<Rightarrow> billing_op \<Rightarrow> bool" where
  "honest fc l (BApply cmd now) = (\<not> reserved_request (uc_RequestID (uc_Normalize fc cmd)))"
| "honest fc l (BReverse cmd now) = (\<not> reserved_request (ReversalRequestID (rc_Normalize fc cmd)))"
| "honest fc l (BHold op cmd) =
     (\<forall>h. HoldAmount (hc_Normalize fc cmd) = Fin h \<longrightarrow> op = OpReserve \<or> matches_job l (hc_Normalize fc cmd) h)"
| "honest fc l (BRecover cutoff items) = True"

lemma hold_request_id_eq: "hold_request_id op b = hold_request_id op' b' \<longleftrightarrow> op = op' \<and> trim_space b = trim_space b'"
  by (cases op; cases op')
     (auto simp: BatchImageHoldRequestID_def BatchImageCaptureRequestID_def BatchImageReleaseRequestID_def)

lemma hold_ids: "BatchImageHoldRequestID b = hold_request_id OpReserve b"
  "BatchImageCaptureRequestID b = hold_request_id OpCapture b"
  "BatchImageReleaseRequestID b = hold_request_id OpRelease b"
  by simp_all

lemma claimed_after:
  "claimUsageBillingRequest rid key fp l = Inr (True, l1) \<Longrightarrow> same_claims l1 l' \<Longrightarrow>
     batchImageHoldClaimExists rid' key' l' \<longleftrightarrow> (rid', key') = (rid, key) \<or> batchImageHoldClaimExists rid' key' l"
  by (drule claim_won) (auto simp: batchImageHoldClaimExists_def same_claims_def)

lemma open_hold_same: "same_claims l l' \<Longrightarrow> open_hold l' = open_hold l"
  by (simp add: open_hold_def batchImageHoldClaimExists_def same_claims_def fun_eq_iff)

lemma open_hold_foreign:
  assumes "claimUsageBillingRequest rid key fp l = Inr (True, l1)" "same_claims l1 l'" "\<not> reserved_request rid"
  shows "open_hold l' = open_hold l" "jobs l' = jobs l"
proof -
  have j: "jobs l' = jobs l" "releases l' = releases l"
    using claim_won [OF assms(1)] assms(2) by (auto simp: same_claims_def)
  then show "jobs l' = jobs l" by simp
  have "batchImageHoldClaimExists (hold_request_id op b) k l' = batchImageHoldClaimExists (hold_request_id op b) k l"
    for op b k
    using claimed_after [OF assms(1,2)] assms(3) by (auto simp: reserved_request_def)
  then show "open_hold l' = open_hold l"
    using j by (simp add: open_hold_def fun_eq_iff hold_ids del: hold_request_id.simps)
qed

text \<open>The claim of one hold operation opens or closes the hold of its own batch only.\<close>

lemma open_hold_claim:
  assumes c: "claimUsageBillingRequest (hold_request_id op b) key fp l = Inr (True, l1)" "same_claims l1 l'"
    and "jobs_ok l" "trim_space b = b"
    and j: "jobs l b = Some j" "j_key j = key"
  shows "b' \<noteq> b \<Longrightarrow> open_hold l' b' = open_hold l b'"
    and "open_hold l' b \<longleftrightarrow> (if op = OpReserve then 0 < job_hold j \<and>
        \<not> batchImageHoldClaimExists (BatchImageCaptureRequestID b) key l \<and>
        \<not> batchImageHoldClaimExists (BatchImageReleaseRequestID b) key l \<and> releases l (b, key) = None
      else False)"
    and "op = OpReserve \<Longrightarrow> \<not> open_hold l b"
    and "jobs l' = jobs l"
proof -
  have same: "jobs l' = jobs l" "releases l' = releases l"
    using claim_won [OF c(1)] c(2) by (auto simp: same_claims_def)
  then show "jobs l' = jobs l" by simp
  note after = claimed_after [OF c]
  show "open_hold l' b' = open_hold l b'" if "b' \<noteq> b"
  proof (cases "jobs l b'")
    case (Some j')
    then have "trim_space b' = b'" using assms(3) by (auto simp: jobs_ok_def)
    then have "hold_request_id op' b' \<noteq> hold_request_id op b" for op'
      using that assms(4) by (simp add: hold_request_id_eq del: hold_request_id.simps)
    then show ?thesis
      using same Some by (simp add: open_hold_def hold_ids after del: hold_request_id.simps)
  qed (use same in \<open>simp add: open_hold_def\<close>)
  show "op = OpReserve \<Longrightarrow> \<not> open_hold l b"
    using claim_won [OF c(1)] j by (auto simp: open_hold_def)
  show "open_hold l' b \<longleftrightarrow> (if op = OpReserve then 0 < job_hold j \<and>
        \<not> batchImageHoldClaimExists (BatchImageCaptureRequestID b) key l \<and>
        \<not> batchImageHoldClaimExists (BatchImageReleaseRequestID b) key l \<and> releases l (b, key) = None
      else False)"
    using same j
    by (cases op) (auto simp: open_hold_def hold_ids after hold_request_id_eq simp del: hold_request_id.simps)
qed

lemma open_holds_change:
  assumes "jobs_ok l" "jobs l' = jobs l" "jobs l b = Some j" "\<And>b'. b' \<noteq> b \<Longrightarrow> open_hold l' b' = open_hold l b'"
  shows "open_holds l' u = open_holds l u +
    (if j_user j = u then (if open_hold l' b then job_hold j else 0) - (if open_hold l b then job_hold j else 0) else 0)"
proof -
  let ?S = "{b. open_hold l b \<and> j_user (the (jobs l b)) = u}"
  let ?S' = "{b. open_hold l' b \<and> j_user (the (jobs l b)) = u}"
  let ?w = "\<lambda>b. job_hold (the (jobs l b))"
  have fin: "finite ?S" "finite ?S'"
    using assms(1,2) by (auto intro!: finite_subset [of _ "dom (jobs l)"] simp: jobs_ok_def open_hold_def)
  have "?S' - {b} = ?S - {b}" using assms(4) by auto
  then have "sum ?w (?S' - {b}) = sum ?w (?S - {b})" by simp
  then have "sum ?w ?S' - (if b \<in> ?S' then ?w b else 0) = sum ?w ?S - (if b \<in> ?S then ?w b else 0)"
    using fin by (auto simp: sum_diff1 split: if_splits)
  then show ?thesis
    using assms(2,3) by (simp add: open_holds_def split: if_splits)
qed

definition frozen_backed :: "(int \<Rightarrow> rat) \<Rightarrow> ledger \<Rightarrow> bool" where
  "frozen_backed base l \<longleftrightarrow> jobs_ok l \<and> (\<forall>u. frozen_balance l u = base u + open_holds l u)"

lemma frozen_backed_step:
  assumes "frozen_backed base l" "jobs l' = jobs l"
    and "\<And>u. frozen_balance l' u - frozen_balance l u = open_holds l' u - open_holds l u"
  shows "frozen_backed base l'"
proof -
  have "frozen_balance l' u = base u + open_holds l' u" for u
    using assms(1) assms(3) [of u] by (simp add: frozen_backed_def algebra_simps)
  then show ?thesis using assms(1,2) by (simp add: frozen_backed_def jobs_ok_def)
qed

lemma hold_frozen_backed:
  assumes b: "frozen_backed base l" and r: "hold_tx op cmd h a l = Inr (res, l')" and nn: "0 \<le> h" "0 \<le> a"
    and id: "hc_RequestID cmd = hold_request_id op (hc_BatchID cmd)"
    and t: "trim_space (hc_BatchID cmd) = hc_BatchID cmd"
    and m: "op = OpReserve \<or> matches_job l cmd h"
  shows "frozen_backed base l'"
  using r
proof (rule hold_tx_cases)
  fix expired l1 r
  let ?b = "hc_BatchID cmd" and ?key = "hc_APIKeyID cmd" and ?u = "hc_UserID cmd"
  assume al: "batchImageHoldOperationAllowed op ?key ?b h l = Inr True"
    and ex: "batchImageHoldExpired ?u ?key ?b h l = Inr expired"
    and rs: "op = OpReserve \<Longrightarrow> \<not> expired \<and> reserve_matches_job ?u ?key ?b h l"
    and c: "claimUsageBillingRequest (hc_RequestID cmd) ?key (hc_RequestFingerprint cmd) l = Inr (True, l1)"
    and e: "hold_effect op expired ?u ?key ?b h a l1 = Inr (r, l')"
  from m rs obtain j where j: "jobs l ?b = Some j" "j_user j = ?u" "j_key j = ?key" "h = job_hold j"
    by (auto simp: matches_job_def reserve_matches_job_def job_hold_def split: option.splits)
  have jok: "jobs_ok l" using b by (simp add: frozen_backed_def)
  have same: "same_claims l1 l'" by (rule frames_effects_keep [OF frames_hold_effect e])
  note oh = open_hold_claim [OF c [unfolded id] same jok t j(1) j(3)]
  have ch: "open_holds l' u = open_holds l u + (if j_user j = u then (if open_hold l' ?b then job_hold j else 0) -
      (if open_hold l ?b then job_hold j else 0) else 0)" for u
    by (rule open_holds_change [OF jok oh(4) j(1)]) (rule oh(1))
  have relx: "expired \<longleftrightarrow> releases l (?b, ?key) \<noteq> None"
    using ex by (auto simp: batchImageHoldExpired_def split: option.splits if_splits)
  have held: "batchImageHoldClaimExists (BatchImageHoldRequestID ?b) ?key l1 \<longleftrightarrow>
      op = OpReserve \<or> batchImageHoldClaimExists (BatchImageHoldRequestID ?b) ?key l"
    using claimed_after [OF c same_claims_refl] id t
    by (auto simp: hold_ids hold_request_id_eq simp del: hold_request_id.simps)
  have notc: "op = OpCapture \<Longrightarrow> \<not> batchImageHoldClaimExists (BatchImageCaptureRequestID ?b) ?key l"
    and notr: "op = OpRelease \<Longrightarrow> \<not> batchImageHoldClaimExists (BatchImageReleaseRequestID ?b) ?key l"
    using claim_won [OF c] id by auto
  have open_before: "open_hold l ?b \<longleftrightarrow> op \<noteq> OpReserve \<and> \<not> expired \<and> 0 < h \<and>
      batchImageHoldClaimExists (BatchImageHoldRequestID ?b) ?key l"
    using al oh(3) j relx notc notr nn(1)
    by (cases op) (auto simp: open_hold_def batchImageHoldOperationAllowed_def Let_def split: if_splits)
  have open_after: "open_hold l' ?b \<longleftrightarrow> op = OpReserve \<and> 0 < h"
    using oh(2) al relx rs j by (auto simp: batchImageHoldOperationAllowed_def Let_def split: if_splits)
  have al': "op = OpCapture \<and> 0 < h \<Longrightarrow> batchImageHoldClaimExists (BatchImageHoldRequestID ?b) ?key l"
    using al by (auto simp: batchImageHoldOperationAllowed_def Let_def split: if_splits)
  have pos: "h = 0 \<or> 0 < h" using nn(1) by auto
  show ?thesis
  proof (rule frozen_backed_step [OF b oh(4)])
    fix u
    have fr: "frozen_balance l' u = frozen_balance l u +
      (if u = ?u \<and> \<not> expired then
         (case op of OpReserve \<Rightarrow> h | OpCapture \<Rightarrow> - h
          | OpRelease \<Rightarrow> if batchImageHoldClaimExists (BatchImageHoldRequestID ?b) ?key l1 then - h else 0)
       else 0)"
      using hold_effect_money(2) [OF e nn, of u] money_users [OF claim_users [OF c]] by simp
    show "frozen_balance l' u - frozen_balance l u = open_holds l' u - open_holds l u"
      unfolding fr ch [of u] open_before open_after held
      using j rs al' pos by (cases op) (auto simp: not_less)
  qed
qed (use b in simp)

lemma same_claims_backed:
  assumes "frozen_backed base l" "open_hold l' = open_hold l" "jobs l' = jobs l"
    and "\<And>u. frozen_balance l' u = frozen_balance l u"
  shows "frozen_backed base l'"
  using assms(1,3) by (rule frozen_backed_step) (simp add: assms open_holds_def)

lemma recover_frozen_backed:
  assumes b: "frozen_backed base l" and r: "releaseExpiredBatchHold cutoff item l = Inr (res, l')"
  shows "frozen_backed base l'"
  using r
proof (rule release_expired_cases)
  fix j h x l1
  let ?b = "eh_id item" and ?key = "eh_keyID item" and ?u = "eh_userID item"
  assume j: "jobs l ?b = Some j" "j_user j = ?u" "j_key j = ?key"
      "h = round_to_scale (coalesce (j_estimated j) (j_hold j))" "0 < h"
    and held: "hold_claimed_before (BatchImageHoldRequestID ?b) ?key cutoff l"
    and nc: "\<not> batchImageHoldClaimExists (BatchImageCaptureRequestID ?b) ?key l"
      "\<not> batchImageHoldClaimExists (BatchImageReleaseRequestID ?b) ?key l" "releases l (?b, ?key) = None"
    and rel: "releaseUsageBillingBatchImageBalance ?u ?key (trim_space ?b) h l = Inr (x, l1)"
    and l': "l' = recordExpiredBalanceHold item h l1"
  have jok: "jobs_ok l" using b by (simp add: frozen_backed_def)
  have trim: "trim_space ?b = ?b" using jok j(1) by (auto simp: jobs_ok_def)
  have jh: "h = job_hold j" using j by (simp add: job_hold_def)
  have e: "hold_effect OpRelease False ?u ?key ?b h 0 l = Inr (x, l1)"
    using rel trim by (simp add: hold_effect_def)
  have same: "same_claims l l1" by (rule frames_effects_keep [OF frames_hold_effect e])
  have ex: "batchImageHoldClaimExists (BatchImageHoldRequestID ?b) ?key l"
    using held by (auto simp: hold_claimed_before_def batchImageHoldClaimExists_def split: option.splits)
  have jobs': "jobs l' = jobs l" using same by (simp add: l' recordExpiredBalanceHold_def same_claims_def)
  have oh: "open_hold l' b' = (b' \<noteq> ?b \<and> open_hold l b')" for b'
    using same j by (auto simp: open_hold_def l' recordExpiredBalanceHold_def same_claims_def
        batchImageHoldClaimExists_def)
  have opened: "open_hold l ?b" using j jh ex nc by (auto simp: open_hold_def)
  show ?thesis
  proof (rule frozen_backed_step [OF b jobs'])
    fix u
    have "frozen_balance l' u = frozen_balance l1 u"
      by (simp add: l' recordExpiredBalanceHold_def frozen_balance_def)
    then show "frozen_balance l' u - frozen_balance l u = open_holds l' u - open_holds l u"
      using hold_effect_money(2) [OF e, of u] open_holds_change [OF jok jobs' j(1), of u] oh opened j jh ex by auto
  qed
qed (use b in simp)

definition keeps_frozen :: "'a tx \<Rightarrow> bool" where
  "keeps_frozen m \<longleftrightarrow> (\<forall>l a l'. m l = Inr (a, l') \<longrightarrow> frozen_balance l' = frozen_balance l)"

named_theorems keeps_frozen_intros

lemma keeps_frozen_combinators [keeps_frozen_intros]:
  "keeps_frozen (tx_return a)"
  "keeps_frozen m \<Longrightarrow> (\<And>a. keeps_frozen (f a)) \<Longrightarrow> keeps_frozen (tx_bind m f)"
  "keeps_frozen m \<Longrightarrow> keeps_frozen (tx_when b m a)"
  "(\<And>v. keeps_frozen (g v)) \<Longrightarrow> keeps_frozen (numeric x g)"
  by (auto simp: keeps_frozen_def tx_bind_Inr tx_when_def numeric_Inr)

lemma keeps_frozen_users: "(\<And>l a l'. m l = Inr (a, l') \<Longrightarrow> users l' = users l) \<Longrightarrow> keeps_frozen m"
  by (auto simp: keeps_frozen_def dest: money_users)

lemma keeps_frozen_statements [keeps_frozen_intros]:
  "keeps_frozen (deductUsageBillingBalance u v)" "keeps_frozen (incrementUsageBillingSubscription sid v)"
  "keeps_frozen (incrementUsageBillingAPIKeyQuota k v)" "keeps_frozen (incrementUsageBillingAPIKeyRateLimit cal k v ts now)"
  "keeps_frozen (incrementUsageBillingAccountQuota cal a v ts now)"
  "keeps_frozen (incrementUsageBillingUserPlatformQuota cmd v now)"
proof -
  show "keeps_frozen (deductUsageBillingBalance u v)"
    using deduct_money by (auto simp: keeps_frozen_def fun_eq_iff)
qed (rule keeps_frozen_users, force simp: incrementUsageBillingSubscription_def
      incrementUsageBillingAPIKeyQuota_def incrementUsageBillingAPIKeyRateLimit_def
      incrementUsageBillingAccountQuota_def incrementUsageBillingUserPlatformQuota_def Let_def
      enqueueSchedulerOutbox_def split: option.splits if_splits)+

lemma effects_keep_frozen: "keeps_frozen (applyUsageBillingEffects cal now cmd res)"
  unfolding applyUsageBillingEffects_def subscription_step_def balance_step_def key_quota_step_def
    rate_limit_step_def account_quota_step_def platform_quota_step_def
  by (intro keeps_frozen_intros | simp add: keeps_frozen_intros split: option.split prod.split)+

lemma reversal_keeps_frozen: "keeps_frozen (applyUsageBillingReversalEffects now orig)"
proof -
  have "keeps_frozen (refund_balance_step orig)"
    unfolding refund_balance_step_def
    by (auto simp: keeps_frozen_def tx_when_def numeric_Inr fun_eq_iff money_simps money_live frozen_of_def
        split: option.splits if_splits dest: money_live)
  moreover have "keeps_frozen (refund_subscription_step ts orig)"
    "keeps_frozen (refund_key_step ts orig)" "keeps_frozen (refund_account_step ts orig)"
    "keeps_frozen (refund_platform_step ts orig)" for ts
    unfolding refund_subscription_step_def refund_key_step_def refund_account_step_def refund_platform_step_def
    by (rule keeps_frozen_users, force simp: tx_when_def numeric_Inr Let_def enqueueSchedulerOutbox_def
        split: option.splits if_splits)+
  ultimately show ?thesis
    unfolding applyUsageBillingReversalEffects_def Let_def by (intro keeps_frozen_intros)
qed

lemma quantize_nonneg: "QuantizeUsageBillingAmount a = Fin v \<Longrightarrow> \<not> negative_or_not_finite a \<Longrightarrow> 0 \<le> v"
  by (cases a) (auto simp: quantize_Fin round_to_scale_nonneg simp del: QuantizeUsageBillingAmount.simps(1))

lemma hc_Normalize_amounts:
  "HoldAmount (hc_Normalize fc cmd) = QuantizeUsageBillingAmount (HoldAmount cmd)"
  "ActualAmount (hc_Normalize fc cmd) = QuantizeUsageBillingAmount (ActualAmount cmd)"
  by (simp_all add: hc_Normalize_def Let_def)

lemma frozen_usage_log [simp]: "frozen_balance (zero_usage_log rid key l) = frozen_balance l"
  by (simp add: zero_usage_log_def frozen_balance_def fun_eq_iff)

lemma claim_foreign_backed:
  assumes "frozen_backed base l" "claimUsageBillingRequest rid key fp l = Inr (True, l1)"
    and "same_claims l1 l'" "\<not> reserved_request rid" "frozen_balance l' = frozen_balance l1"
  shows "frozen_backed base l'"
  using open_hold_foreign [OF assms(2-4)] money_users [OF claim_users [OF assms(2)]] assms(5)
  by (intro same_claims_backed [OF assms(1)]) simp_all

lemma billing_step_backed:
  assumes b: "frozen_backed base (fst c)" and h: "honest fc (fst c) op"
  shows "frozen_backed base (fst (billing_step fc cal op c))"
proof (cases op)
  case (BApply cmd now)
  have "frozen_backed base l'" if "apply_tx cal now (uc_Normalize fc cmd) (fst c) = Inr (a, l')" for a l'
    using that
  proof (rule apply_tx_cases)
    fix l1
    assume cl: "claimUsageBillingKey (uc_Normalize fc cmd) (fst c) = Inr (True, l1)"
      and e: "applyUsageBillingEffects cal now (uc_Normalize fc cmd) (empty_apply_result True) l1 = Inr (a, l')"
    show ?thesis
      using h effects_keep_frozen e unfolding BApply keeps_frozen_def
      by (intro claim_foreign_backed [OF b cl [unfolded claimUsageBillingKey_def]
            frames_effects_keep [OF frames_effects e]]) auto
  qed (use b in simp)
  then show ?thesis unfolding BApply billing_step.simps by (intro apply_inv [where P = "frozen_backed base"]) (use b in auto)
next
  case (BReverse cmd now)
  have "frozen_backed base l'" if "reverse_tx fc now (rc_Normalize fc cmd) (fst c) = Inr (a, l')" for a l'
    using that
  proof (rule reverse_tx_cases)
    fix l1 nb l2
    let ?o = "Original (rc_Normalize fc cmd)"
    assume cl: "claimUsageBillingRequest (ReversalRequestID (rc_Normalize fc cmd)) (uc_APIKeyID ?o)
        (UsageBillingReversalFingerprint fc (rc_Normalize fc cmd)) (fst c) = Inr (True, l1)"
      and e: "applyUsageBillingReversalEffects now ?o l1 = Inr (nb, l2)"
      and l': "l' = zero_usage_log (uc_RequestID ?o) (uc_APIKeyID ?o) l2"
    have "same_claims l1 l'"
      using frames_effects_keep [OF frames_reversal e] by (simp add: l' zero_usage_log_def same_claims_def)
    moreover have "frozen_balance l' = frozen_balance l1"
      using reversal_keeps_frozen e unfolding l' by (auto simp: keeps_frozen_def)
    ultimately show ?thesis
      using h unfolding BReverse by (intro claim_foreign_backed [OF b cl]) auto
  qed (use b in simp)
  then show ?thesis unfolding BReverse billing_step.simps by (intro reverse_inv [where P = "frozen_backed base"]) (use b in auto)
next
  case (BHold hop cmd)
  show ?thesis
    unfolding BHold billing_step.simps
  proof (rule hold_inv [where P = "frozen_backed base", OF _ b])
    fix hv a r l'
    let ?n = "hc_Normalize fc cmd"
    assume "HoldAmount ?n = Fin hv" "ActualAmount ?n = Fin a" "hc_RequestID ?n = hold_request_id hop (hc_BatchID ?n)"
      and nn: "\<not> negative_or_not_finite (HoldAmount cmd)" "\<not> negative_or_not_finite (ActualAmount cmd)"
      and tx: "hold_tx hop ?n hv a (fst c) = Inr (r, l')"
    moreover from this have "0 \<le> hv" "0 \<le> a"
      by (simp_all add: hc_Normalize_amounts) (blast intro: quantize_nonneg)+
    moreover have "trim_space (hc_BatchID ?n) = hc_BatchID ?n" by (simp add: hc_Normalize_def Let_def)
    ultimately show "frozen_backed base l'" using h unfolding BHold by (intro hold_frozen_backed [OF b tx]) auto
  qed
next
  case (BRecover cutoff items)
  show ?thesis
    unfolding BRecover billing_step.simps
    by (rule recover_inv [where P = "frozen_backed base"]) (use b recover_frozen_backed in auto)
qed

lemma honest_step: "honest fc (fst (billing_step fc cal op c)) op' = honest fc (fst c) op'"
  using billing_step_le [of c fc cal op] by (cases op') (simp_all add: matches_job_def ledger_le_def)

text \<open>
  C20: The frozen balance of every user is the sum of the open holds of their batches (plus
  whatever was frozen outside this component): this invariant survives every history of
  charges, reversals, reservations, captures, releases and recoveries of expired holds,
  under any faults, so no operation ever spends another batch's hold.
\<close>

theorem frozen_balance_is_open_holds:
  assumes "frozen_backed base (fst c)" "\<forall>op \<in> set ops. honest fc (fst c) op"
  shows "frozen_backed base (fst (billing_run fc cal ops c))"
  using assms
proof (induction ops arbitrary: c)
  case (Cons op ops)
  have "frozen_backed base (fst (billing_step fc cal op c))"
    by (rule billing_step_backed) (use Cons.prems in simp_all)
  then show ?case using Cons.IH [of "billing_step fc cal op c"] Cons.prems(2) by (simp add: honest_step)
qed simp

theorem frozen_balance_is_open_holds_witness:
  "frozen_backed (\<lambda>_. 0) (fst (billing_run demo_fc demo_calendar
     [BHold OpReserve (demo_hold_command OpReserve), BHold OpCapture (demo_hold_command OpCapture)] (demo_ledger, [])))"
proof (rule frozen_balance_is_open_holds)
  have "jobs_ok demo_ledger" by (simp add: jobs_ok_def demo_ledger_def)
  moreover have "open_hold demo_ledger b = False" for b
    by (simp add: open_hold_def demo_ledger_def batchImageHoldClaimExists_def)
  then have "open_holds demo_ledger u = 0" for u by (simp add: open_holds_def)
  moreover have "frozen_balance demo_ledger u = 0" for u
    by (simp add: frozen_balance_def demo_ledger_def demo_user_def frozen_of_def)
  ultimately show "frozen_backed (\<lambda>_. 0) (fst (demo_ledger, []))" by (simp add: frozen_backed_def)
  show "\<forall>op \<in> set [BHold OpReserve (demo_hold_command OpReserve), BHold OpCapture (demo_hold_command OpCapture)].
      honest demo_fc (fst (demo_ledger, [])) op"
    by (simp add: demo_hold_normalized)
       (simp add: matches_job_def demo_hold_command_def demo_ledger_def demo_job_def job_hold_def coalesce_def
        round_to_scale_fixed)
qed

section \<open>A hold ends once\<close>

lemma hold_tx_after_other_end:
  assumes "hold_tx op' cmd h a l = Inr (res, l')" "op \<in> {OpCapture, OpRelease}" "op' \<in> {OpCapture, OpRelease}" "op \<noteq> op'"
    and "batchImageHoldClaimExists (hold_request_id op (hc_BatchID cmd)) (hc_APIKeyID cmd) l"
  shows "l' = l"
  using assms by (auto simp: hold_tx_def batchImageHoldOperationAllowed_def Let_def)

lemma hold_acked_claims:
  assumes "applyBatchImageBalanceHold fc op (Some cmd) c = (Inr res, c')" "hr_Applied res"
  shows "batchImageHoldClaimExists (hold_request_id op (hc_BatchID cmd)) (hc_APIKeyID cmd) (fst c')"
proof -
  obtain h a where id: "hc_RequestID (hc_Normalize fc cmd) = hold_request_id op (hc_BatchID (hc_Normalize fc cmd))"
    and tx: "hold_tx op (hc_Normalize fc cmd) h a (fst c) = Inr (res, fst c')"
    using assms(1) by (rule hold_acked)
  have b: "hold_request_id op (hc_BatchID (hc_Normalize fc cmd)) = hold_request_id op (hc_BatchID cmd)"
    and k: "hc_APIKeyID (hc_Normalize fc cmd) = hc_APIKeyID cmd"
    by (simp_all add: hold_request_id_eq hc_Normalize_def Let_def del: hold_request_id.simps)
  from tx show ?thesis
  proof (rule hold_tx_cases)
    fix expired l1 r
    assume c: "claimUsageBillingRequest (hc_RequestID (hc_Normalize fc cmd)) (hc_APIKeyID (hc_Normalize fc cmd))
        (hc_RequestFingerprint (hc_Normalize fc cmd)) (fst c) = Inr (True, l1)"
      and e: "hold_effect op expired (hc_UserID (hc_Normalize fc cmd)) (hc_APIKeyID (hc_Normalize fc cmd))
        (hc_BatchID (hc_Normalize fc cmd)) h a l1 = Inr (r, fst c')"
    from claimed_after [OF c frames_effects_keep [OF frames_hold_effect e]] id b k show ?thesis by simp
  qed (use assms(2) in simp)
qed

text \<open>
  C22: A hold ends once: after a capture was applied, no release of the same batch and key
  changes the ledger, and after a release no capture does, whatever other operations run in
  between and under any faults; so frozen money is never given back and spent as well.
\<close>

theorem capture_and_release_exclude_each_other:
  assumes "applyBatchImageBalanceHold fc op (Some cmd) c = (Inr res, c1)" "hr_Applied res"
    and "op \<in> {OpCapture, OpRelease}" "op' \<in> {OpCapture, OpRelease}" "op \<noteq> op'"
    and "trim_space (hc_BatchID cmd') = trim_space (hc_BatchID cmd)" "hc_APIKeyID cmd' = hc_APIKeyID cmd"
  shows "fst (snd (applyBatchImageBalanceHold fc op' (Some cmd') (billing_run fc cal ops c1))) =
         fst (billing_run fc cal ops c1)"
proof (rule hold_inv [where P = "\<lambda>l. l = fst (billing_run fc cal ops c1)"])
  fix h a r l'
  assume tx: "hold_tx op' (hc_Normalize fc cmd') h a (fst (billing_run fc cal ops c1)) = Inr (r, l')"
  have "batchImageHoldClaimExists (hold_request_id op (hc_BatchID cmd)) (hc_APIKeyID cmd) (fst (billing_run fc cal ops c1))"
    by (rule claimed_mono [OF billing_run_le hold_acked_claims [OF assms(1,2)]])
  moreover have "hold_request_id op (hc_BatchID (hc_Normalize fc cmd')) = hold_request_id op (hc_BatchID cmd)"
    "hc_APIKeyID (hc_Normalize fc cmd') = hc_APIKeyID cmd"
    using assms(6,7) by (simp_all add: hold_request_id_eq hc_Normalize_def Let_def del: hold_request_id.simps)
  ultimately show "l' = fst (billing_run fc cal ops c1)"
    by (intro hold_tx_after_other_end [OF tx assms(3-5)]) simp
qed simp

theorem capture_and_release_exclude_each_other_witness:
  "\<exists>l. applyBatchImageBalanceHold demo_fc OpCapture (Some (demo_hold_command OpCapture)) (held_ledger, []) =
     (Inr \<lparr>hr_Applied = True, hr_NewBalance = Some 7, FrozenBalance = Some 0\<rparr>, (l, [])) \<and>
     fst (snd (applyBatchImageBalanceHold demo_fc OpRelease (Some (demo_hold_command OpRelease))
       (billing_run demo_fc demo_calendar [] (l, [])))) = fst (billing_run demo_fc demo_calendar [] (l, []))"
proof -
  obtain l where c: "applyBatchImageBalanceHold demo_fc OpCapture (Some (demo_hold_command OpCapture)) (held_ledger, []) =
     (Inr \<lparr>hr_Applied = True, hr_NewBalance = Some 7, FrozenBalance = Some 0\<rparr>, (l, []))"
    using demo_capture by blast
  have "fst (snd (applyBatchImageBalanceHold demo_fc OpRelease (Some (demo_hold_command OpRelease))
       (billing_run demo_fc demo_calendar [] (l, [])))) = fst (billing_run demo_fc demo_calendar [] (l, []))"
    by (rule capture_and_release_exclude_each_other [OF c]) (simp_all add: demo_hold_command_def)
  with c show ?thesis by blast
qed

section \<open>A reversal gives the money back\<close>

definition moves :: "'a tx \<Rightarrow> (int \<Rightarrow> rat) \<Rightarrow> bool" where
  "moves m d \<longleftrightarrow> (\<forall>l a l' u. m l = Inr (a, l') \<longrightarrow> money l' u = money l u + d u)"

lemma movesD: "moves m d \<Longrightarrow> m l = Inr (a, l') \<Longrightarrow> money l' u = money l u + d u"
  by (auto simp: moves_def)

lemma moves_bind: "moves m d \<Longrightarrow> (\<And>a. moves (f a) d') \<Longrightarrow> moves (tx_bind m f) (\<lambda>u. d u + d' u)"
  unfolding moves_def tx_bind_Inr by (metis add.assoc)

lemma moves_bind_nothing: "moves m d \<Longrightarrow> (\<And>a. moves (f a) (\<lambda>_. 0)) \<Longrightarrow> moves (tx_bind m f) d"
  using moves_bind [of m d f "\<lambda>_. 0"] by simp

lemma nothing_bind: "moves m (\<lambda>_. 0) \<Longrightarrow> (\<And>a. moves (f a) d) \<Longrightarrow> moves (tx_bind m f) d"
  using moves_bind [of m "\<lambda>_. 0" f d] by simp

lemma moves_return: "moves (tx_return a) (\<lambda>_. 0)"
  by (simp add: moves_def)

definition charge_of :: "amount \<Rightarrow> rat" where
  "charge_of a = (case a of Fin v \<Rightarrow> max 0 v | _ \<Rightarrow> 0)"

definition keeps_users :: "'a tx \<Rightarrow> bool" where
  "keeps_users m \<longleftrightarrow> (\<forall>l a l'. m l = Inr (a, l') \<longrightarrow> users l' = users l)"

named_theorems keeps_users_intros

lemma keeps_users_combinators [keeps_users_intros]:
  "keeps_users (tx_return a)"
  "keeps_users m \<Longrightarrow> (\<And>a. keeps_users (f a)) \<Longrightarrow> keeps_users (tx_bind m f)"
  "keeps_users m \<Longrightarrow> keeps_users (tx_when b m a)"
  "(\<And>v. keeps_users (g v)) \<Longrightarrow> keeps_users (numeric x g)"
  by (auto simp: keeps_users_def tx_bind_Inr tx_when_def numeric_Inr)

lemma keeps_users_statements [keeps_users_intros]:
  "keeps_users (incrementUsageBillingSubscription sid v)"
  "keeps_users (incrementUsageBillingAPIKeyQuota k v)" "keeps_users (incrementUsageBillingAPIKeyRateLimit cal k v ts now)"
  "keeps_users (incrementUsageBillingAccountQuota cal a v ts now)"
  "keeps_users (incrementUsageBillingUserPlatformQuota cmd v now)"
  by (force simp: keeps_users_def incrementUsageBillingSubscription_def
      incrementUsageBillingAPIKeyQuota_def incrementUsageBillingAPIKeyRateLimit_def
      incrementUsageBillingAccountQuota_def incrementUsageBillingUserPlatformQuota_def Let_def
      enqueueSchedulerOutbox_def split: option.splits if_splits)+

lemma moves_users: "keeps_users m \<Longrightarrow> moves m (\<lambda>_. 0)"
  by (simp add: moves_def keeps_users_def) (metis money_users)

lemma balance_step_moves: "moves (balance_step cmd res) (\<lambda>u. if u = uc_UserID cmd then - charge_of (uc_BalanceCost cmd) else 0)"
  by (cases "uc_BalanceCost cmd")
     (auto simp: moves_def balance_step_def tx_when_def tx_bind_Inr charge_of_def max_def split: if_splits
        dest: deduct_money)

lemma effects_move:
  "moves (applyUsageBillingEffects cal now cmd res) (\<lambda>u. if u = uc_UserID cmd then - charge_of (uc_BalanceCost cmd) else 0)"
proof -
  have other: "moves (subscription_step cmd r) (\<lambda>_. 0)" "moves (key_quota_step cmd r) (\<lambda>_. 0)"
    "moves (rate_limit_step cal now cmd r) (\<lambda>_. 0)" "moves (account_quota_step cal now cmd r) (\<lambda>_. 0)"
    "moves (platform_quota_step now cmd r) (\<lambda>_. 0)" for r
    unfolding subscription_step_def key_quota_step_def rate_limit_step_def account_quota_step_def platform_quota_step_def
    by (rule moves_users, auto intro!: keeps_users_intros split: option.split)+
  show ?thesis
    unfolding applyUsageBillingEffects_def
    by (rule nothing_bind [OF other(1)], rule moves_bind_nothing [OF balance_step_moves])
       (rule nothing_bind [OF other(2)], rule nothing_bind [OF other(3)], rule nothing_bind [OF other(4)], rule other(5))
qed

lemma reversal_moves:
  "moves (applyUsageBillingReversalEffects now orig) (\<lambda>u. if u = uc_UserID orig then charge_of (uc_BalanceCost orig) else 0)"
proof -
  have bal: "moves (refund_balance_step orig) (\<lambda>u. if u = uc_UserID orig then charge_of (uc_BalanceCost orig) else 0)"
    by (cases "uc_BalanceCost orig")
       (auto simp: moves_def refund_balance_step_def tx_when_def charge_of_def max_def money_simps frozen_of_def
          split: if_splits option.splits dest: money_live)
  have other: "moves (refund_subscription_step ts orig) (\<lambda>_. 0)" "moves (refund_key_step ts orig) (\<lambda>_. 0)"
    "moves (refund_account_step ts orig) (\<lambda>_. 0)" "moves (refund_platform_step ts orig) (\<lambda>_. 0)" for ts
    unfolding refund_subscription_step_def refund_key_step_def refund_account_step_def refund_platform_step_def
    by (rule moves_users, force simp: keeps_users_def tx_when_def numeric_Inr Let_def enqueueSchedulerOutbox_def
        split: option.splits if_splits)+
  show ?thesis
    unfolding applyUsageBillingReversalEffects_def Let_def
    by (rule moves_bind_nothing [OF bal])
       (rule nothing_bind [OF other(1)], rule nothing_bind [OF other(2)], rule nothing_bind [OF other(3)],
        rule nothing_bind [OF other(4)], rule moves_return)
qed

lemma apply_acked:
  assumes "Apply fc cal now (Some cmd) c = (Inr res, c')"
  shows "apply_tx cal now (uc_Normalize fc cmd) (fst c) = Inr (res, fst c')"
  using assms by (auto simp: Apply_def Let_def split: if_splits dest: run_tx_acked)

lemma reverse_acked:
  assumes "Reverse fc now (Some cmd) c = (Inr res, c')"
  shows "reverse_tx fc now (rc_Normalize fc cmd) (fst c) = Inr (res, fst c')"
  using assms by (auto simp: Reverse_def Let_def split: if_splits dest: run_tx_acked)

lemma applied_money:
  assumes "apply_tx cal now cmd l = Inr (res, l')" "ar_Applied res"
  shows "money l' u = money l u - (if u = uc_UserID cmd then charge_of (uc_BalanceCost cmd) else 0)"
  using assms(1)
proof (rule apply_tx_cases)
  fix l1
  assume c: "claimUsageBillingKey cmd l = Inr (True, l1)"
    and e: "applyUsageBillingEffects cal now cmd (empty_apply_result True) l1 = Inr (res, l')"
  from movesD [OF effects_move e, of u] money_users [OF claim_users [OF c [unfolded claimUsageBillingKey_def]]]
  show ?thesis by simp
qed (use assms(2) in \<open>simp add: empty_apply_result_def\<close>)

lemma money_usage_log [simp]: "money (zero_usage_log rid key l) = money l"
  by (simp add: zero_usage_log_def money_def fun_eq_iff)

lemma reversed_money:
  assumes "reverse_tx fc now cmd l = Inr (res, l')" "rr_Applied res"
  shows "money l' u = money l u +
           (if u = uc_UserID (Original cmd) then charge_of (uc_BalanceCost (Original cmd)) else 0) \<and>
         batchImageHoldClaimExists (ReversalRequestID cmd) (uc_APIKeyID (Original cmd)) l'"
  using assms(1)
proof (rule reverse_tx_cases)
  fix l1 nb l2
  assume c: "claimUsageBillingRequest (ReversalRequestID cmd) (uc_APIKeyID (Original cmd))
        (UsageBillingReversalFingerprint fc cmd) l = Inr (True, l1)"
    and e: "applyUsageBillingReversalEffects now (Original cmd) l1 = Inr (nb, l2)"
    and l': "l' = zero_usage_log (uc_RequestID (Original cmd)) (uc_APIKeyID (Original cmd)) l2"
  have "same_claims l1 l'"
    using frames_effects_keep [OF frames_reversal e] by (simp add: l' zero_usage_log_def same_claims_def)
  with claimed_after [OF c this] movesD [OF reversal_moves e, of u] money_users [OF claim_users [OF c]]
  show ?thesis by (simp add: l')
qed (use assms(2) in simp)

lemma reverse_claimed:
  assumes "batchImageHoldClaimExists (trim_space (ReversalRequestID cmd)) (uc_APIKeyID (Original cmd)) (fst c)"
  shows "fst (snd (Reverse fc now (Some cmd) c)) = fst c"
proof (rule reverse_inv [where P = "\<lambda>l. l = fst c"])
  fix a l'
  assume "reverse_tx fc now (rc_Normalize fc cmd) (fst c) = Inr (a, l')"
  then show "l' = fst c"
  proof (rule reverse_tx_cases)
    fix l1
    assume "claimUsageBillingRequest (ReversalRequestID (rc_Normalize fc cmd)) (uc_APIKeyID (Original (rc_Normalize fc cmd)))
        (UsageBillingReversalFingerprint fc (rc_Normalize fc cmd)) (fst c) = Inr (True, l1)"
    with claim_taken assms show ?thesis by (auto simp: rc_Normalize_def)
  qed
qed simp


definition demo_reversal :: UsageBillingReversalCommand where
  "demo_reversal = \<lparr>ReversalRequestID = ''b'', Original = demo_command\<rparr>"

lemma hex_hash_demo: "hex_hash demo_fc"
proof -
  have "digits_of n \<noteq> [] \<and> trim_space (digits_of n) = digits_of n" for n
    by (simp add: trim_space_digits digits_of_range)
  then show ?thesis by (simp add: hex_hash_def demo_fc_def)
qed

lemma demo_reverse:
  "\<exists>l. Reverse demo_fc 9 (Some demo_reversal) (charged_ledger, []) =
     (Inr \<lparr>rr_Applied = True, rr_NewBalance = Some 10\<rparr>, (l, []))"
proof -
  define fp where "fp = uc_RequestFingerprint (uc_Normalize demo_fc demo_command)"
  have n: "uc_Normalize demo_fc demo_command = demo_command\<lparr>uc_RequestFingerprint := fp\<rparr>"
    using demo_normalized by (simp add: fp_def)
  have v: "HasValidFingerprint demo_fc (demo_command\<lparr>uc_RequestFingerprint := fp\<rparr>)"
    unfolding n [symmetric]
    by (rule normalized_fingerprint_is_valid [OF hex_hash_demo])
       (simp_all add: command_on_scale_def demo_command_def amount_on_scale_def)
  have rn: "rc_Normalize demo_fc demo_reversal = \<lparr>ReversalRequestID = ''b'', Original = demo_command\<lparr>uc_RequestFingerprint := fp\<rparr>\<rparr>"
    by (simp add: rc_Normalize_def demo_reversal_def n)
  have ids: "uc_RequestID (demo_command\<lparr>uc_RequestFingerprint := fp\<rparr>) = ''r1''"
    "uc_APIKeyID (demo_command\<lparr>uc_RequestFingerprint := fp\<rparr>) = 7" by (simp_all add: demo_command_def)
  have "Reverse demo_fc 9 (Some demo_reversal) (charged_ledger, []) =
      run_tx (reverse_tx demo_fc 9 \<lparr>ReversalRequestID = ''b'', Original = demo_command\<lparr>uc_RequestFingerprint := fp\<rparr>\<rparr>)
        (charged_ledger, [])"
    by (simp add: Reverse_def rn v ids)
  then show ?thesis
    unfolding charged_ledger_def fp_def [symmetric]
    by (simp add: reverse_tx_def usageBillingClaimMatches_def claim_fingerprint_def claimUsageBillingRequest_def
        applyUsageBillingReversalEffects_def refund_balance_step_def refund_subscription_step_def refund_key_step_def
        refund_account_step_def refund_platform_step_def tx_defs live_user_def live_key_def put_user_def
        demo_command_def demo_ledger_def demo_user_def demo_key_def Let_def)
qed


end
