(* ===== verification/BoundedCache.thy ===== *)
theory BoundedCache
  imports GoPrelude
begin

text \<open>
  The in-process breakers keep one entry per key in a Go map of bounded size and make room by
  dropping the entry touched longest ago. Here: that eviction on association lists, whose order
  stands for the iteration order of the map, and the interface of such a breaker as the locale
  \<open>bounded_breaker\<close>: a history that names no more keys than fit never loses an entry.
\<close>

section \<open>Dropping the oldest entry\<close>

text \<open>The loop over the map: the first entry, or a later one touched strictly earlier.\<close>

fun oldest_from :: "('e \<Rightarrow> time) \<Rightarrow> 'k \<times> 'e \<Rightarrow> ('k \<times> 'e) list \<Rightarrow> 'k \<times> 'e" where
  "oldest_from touched best [] = best"
| "oldest_from touched best (p # m) =
     oldest_from touched (if touched (snd p) < touched (snd best) then p else best) m"

definition drop_oldest :: "('e \<Rightarrow> time) \<Rightarrow> ('k \<times> 'e) list \<Rightarrow> ('k \<times> 'e) list" where
  "drop_oldest touched m =
     (case m of [] \<Rightarrow> [] | p # m' \<Rightarrow> drop_key (fst (oldest_from touched p m')) m)"

lemma oldest_from_mem: "oldest_from touched best m \<in> insert best (set m)"
  by (induction touched best m rule: oldest_from.induct) auto

lemma oldest_from_least:
  "p \<in> insert best (set m) \<Longrightarrow> touched (snd (oldest_from touched best m)) \<le> touched (snd p)"
proof (induction touched best m arbitrary: p rule: oldest_from.induct)
  case (2 touched best q m)
  have q: "touched (snd (oldest_from touched best (q # m))) \<le> touched (snd p')"
    if "p' \<in> insert (if touched (snd q) < touched (snd best) then q else best) (set m)" for p'
    using 2(1) [OF that] by simp
  have "touched (snd (oldest_from touched best (q # m))) \<le> min (touched (snd q)) (touched (snd best))"
    using q [of q] q [of best] by (auto split: if_splits)
  then show ?case using 2(2) q [of p] by auto
qed simp

lemma drop_oldest_shorter: "distinct (map fst m) \<Longrightarrow> m \<noteq> [] \<Longrightarrow> length (drop_oldest touched m) < length m"
proof (cases m)
  case (Cons p m')
  then have "oldest_from touched p m' \<in> set m" using oldest_from_mem [of touched p m'] by auto
  then have "map_of m (fst (oldest_from touched p m')) \<noteq> None"
    by (metis map_of_eq_None_iff image_eqI)
  then show ?thesis
    using length_drop_key_less [of m "fst (oldest_from touched p m')"] Cons
    by (simp add: drop_oldest_def del: map_of.simps)
qed simp

lemma drop_oldest_distinct [simp]: "distinct (map fst m) \<Longrightarrow> distinct (map fst (drop_oldest touched m))"
  by (cases m) (simp_all add: drop_oldest_def distinct_keys_drop_key del: map_of.simps)

lemma drop_oldest_sub: "map_of (drop_oldest touched m) k = Some e \<Longrightarrow> map_of m k = Some e"
  by (cases m) (auto simp: drop_oldest_def split: if_splits simp del: map_of.simps)

text \<open>The entry that goes was touched no later than any that stays.\<close>

lemma drop_oldest_victim:
  assumes "distinct (map fst m)" "map_of m k = Some e" "map_of (drop_oldest touched m) k = None"
    and "map_of m k' = Some e'"
  shows "touched e \<le> touched e'"
proof (cases m)
  case (Cons p m')
  let ?v = "oldest_from touched p m'"
  have v: "?v \<in> set m" using oldest_from_mem [of touched p m'] Cons by auto
  have "k = fst ?v" using assms(2,3) Cons by (auto simp: drop_oldest_def split: if_splits simp del: map_of.simps)
  then have "?v = (k, e)"
    using v assms(1,2) map_of_is_SomeI [of m "fst ?v" "snd ?v"] by (cases ?v) auto
  moreover have "(k', e') \<in> set m" using assms(4) by (rule map_of_SomeD)
  ultimately show ?thesis using oldest_from_least [of "(k', e')" p m' touched] Cons by auto
qed (use assms in simp)

section \<open>The interface of a breaker\<close>

locale bounded_breaker =
  fixes entries :: "'s \<Rightarrow> ('k \<times> 'e) list"
    and capacity :: "'s \<Rightarrow> nat"
    and fail :: "'k \<Rightarrow> time \<Rightarrow> 's \<Rightarrow> 's"
    and succeed :: "'k \<Rightarrow> 's \<Rightarrow> 's"
    and probe :: "'k \<Rightarrow> time \<Rightarrow> 's \<Rightarrow> bool \<times> 's"
    and until :: "'e \<Rightarrow> time"
    and since :: "'e \<Rightarrow> time"
    and good :: "'s \<Rightarrow> bool"
    and clocked :: "time \<Rightarrow> bool"
  assumes good_distinct: "good s \<Longrightarrow> distinct (map fst (entries s)) \<and> length (entries s) \<le> capacity s"
    and capacity_const: "capacity (fail k t s) = capacity s" "capacity (succeed k s) = capacity s"
      "capacity (snd (probe k t s)) = capacity s"
    and good_fail: "good s \<Longrightarrow> clocked t \<Longrightarrow> good (fail k t s)"
    and good_succeed: "good s \<Longrightarrow> good (succeed k s)"
    and good_probe: "good s \<Longrightarrow> good (snd (probe k t s))"
    and fail_keys: "good s \<Longrightarrow> fst ` set (entries (fail k t s)) \<subseteq> insert k (fst ` set (entries s))"
    and succeed_keys: "fst ` set (entries (succeed k s)) \<subseteq> fst ` set (entries s)"
    and probe_keys: "fst ` set (entries (snd (probe k t s))) \<subseteq> fst ` set (entries s)"
    and fail_room: "good s \<Longrightarrow> k' \<noteq> k \<Longrightarrow>
        k \<in> fst ` set (entries s) \<or> length (entries s) < capacity s \<Longrightarrow>
        map_of (entries (fail k t s)) k' = map_of (entries s) k'"
    and succeed_other: "k' \<noteq> k \<Longrightarrow> map_of (entries (succeed k s)) k' = map_of (entries s) k'"
    and succeed_clears: "good s \<Longrightarrow> map_of (entries (succeed k s)) k = None"
    and probe_other: "k' \<noteq> k \<Longrightarrow> map_of (entries (snd (probe k t s))) k' = map_of (entries s) k'"
    and fail_blocked: "good s \<Longrightarrow> clocked t \<Longrightarrow> map_of (entries s) k = Some e \<Longrightarrow> since e \<le> t \<Longrightarrow> t < until e \<Longrightarrow>
        \<exists>e'. map_of (entries (fail k t s)) k = Some e' \<and> until e \<le> until e' \<and> since e' \<le> t"
    and probe_blocked: "good s \<Longrightarrow> map_of (entries s) k = Some e \<Longrightarrow> since e \<le> t \<Longrightarrow> t < until e \<Longrightarrow>
        \<exists>e'. map_of (entries (snd (probe k t s))) k = Some e' \<and> until e \<le> until e' \<and> since e' \<le> t"
    and probe_absent: "map_of (entries s) k = None \<Longrightarrow> \<not> fst (probe k t s)"

datatype 'k breaker_event = Failed 'k time | Succeeded 'k | Probed 'k time

fun event_key :: "'k breaker_event \<Rightarrow> 'k" where
  "event_key (Failed k t) = k"
| "event_key (Succeeded k) = k"
| "event_key (Probed k t) = k"

text \<open>The times of the failures are ones the breaker accepts as a clock reading.\<close>

fun event_clocked :: "(time \<Rightarrow> bool) \<Rightarrow> 'k breaker_event \<Rightarrow> bool" where
  "event_clocked clocked (Failed k t) = clocked t"
| "event_clocked clocked (Succeeded k) = True"
| "event_clocked clocked (Probed k t) = True"

fun breaker_run ::
  "('k \<Rightarrow> time \<Rightarrow> 's \<Rightarrow> 's) \<Rightarrow> ('k \<Rightarrow> 's \<Rightarrow> 's) \<Rightarrow> ('k \<Rightarrow> time \<Rightarrow> 's \<Rightarrow> bool \<times> 's) \<Rightarrow>
   'k breaker_event list \<Rightarrow> 's \<Rightarrow> 's" where
  "breaker_run fail succeed probe [] s = s"
| "breaker_run fail succeed probe (Failed k t # es) s = breaker_run fail succeed probe es (fail k t s)"
| "breaker_run fail succeed probe (Succeeded k # es) s = breaker_run fail succeed probe es (succeed k s)"
| "breaker_run fail succeed probe (Probed k t # es) s = breaker_run fail succeed probe es (snd (probe k t s))"

text \<open>
  Events that do not end a block of \<open>k\<close> running until \<open>u\<close>: no success of \<open>k\<close>, and the
  events of \<open>k\<close> come in the order of their times, from \<open>now\<close> on and before \<open>u\<close>.
\<close>

fun keeps_block :: "'k \<Rightarrow> time \<Rightarrow> time \<Rightarrow> 'k breaker_event list \<Rightarrow> bool" where
  "keeps_block k u now [] = True"
| "keeps_block k u now (Failed k' t # es) =
     (if k' = k then now \<le> t \<and> t < u \<and> keeps_block k u t es else keeps_block k u now es)"
| "keeps_block k u now (Succeeded k' # es) = (k' \<noteq> k \<and> keeps_block k u now es)"
| "keeps_block k u now (Probed k' t # es) =
     (if k' = k then now \<le> t \<and> t < u \<and> keeps_block k u t es else keeps_block k u now es)"

context bounded_breaker
begin

lemma run_bounded:
  "good s \<Longrightarrow> list_all (event_clocked clocked) es \<Longrightarrow> good (breaker_run fail succeed probe es s) \<and>
     length (entries (breaker_run fail succeed probe es s)) \<le> capacity s"
proof (induction es arbitrary: s)
  case Nil
  then show ?case using good_distinct by simp
next
  case (Cons e es)
  then show ?case by (cases e) (use good_fail good_succeed good_probe capacity_const in \<open>auto, metis+\<close>)
qed

lemma keys_fit:
  assumes "good s" "fst ` set (entries s) \<subseteq> K" "finite K" "card K \<le> capacity s" "k \<in> K"
  shows "k \<in> fst ` set (entries s) \<or> length (entries s) < capacity s"
proof (rule disjCI)
  assume "\<not> length (entries s) < capacity s"
  moreover have "length (entries s) = card (fst ` set (entries s))"
    using good_distinct [OF assms(1)] by (metis distinct_card length_map list.set_map)
  ultimately have "card K \<le> card (fst ` set (entries s))" using assms(4) by linarith
  then have "fst ` set (entries s) = K" by (rule card_seteq [OF assms(3,2)])
  then show "k \<in> fst ` set (entries s)" using assms(5) by simp
qed

lemma block_step:
  assumes "good s" "map_of (entries s) k = Some e" "u \<le> until e" "since e \<le> now"
    and ev: "keeps_block k u now (ev # es)" and cl: "event_clocked clocked ev"
    and K: "finite K" "card K \<le> capacity s" "fst ` set (entries s) \<subseteq> K" "event_key ev \<in> K"
  obtains s' e' now' where "breaker_run fail succeed probe (ev # es) s = breaker_run fail succeed probe es s'"
    "good s'" "map_of (entries s') k = Some e'" "u \<le> until e'" "since e' \<le> now'" "keeps_block k u now' es"
    "capacity s' = capacity s" "fst ` set (entries s') \<subseteq> K"
proof (cases ev)
  case (Failed k' t)
  have keys: "fst ` set (entries (fail k' t s)) \<subseteq> K"
    using fail_keys [OF assms(1), of k' t] K(3,4) Failed by auto
  have "clocked t" using cl Failed by simp
  note thesis' = that [of "fail k' t s", OF _ good_fail [OF assms(1) this] _ _ _ _ capacity_const(1) keys]
  show ?thesis
  proof (cases "k' = k")
    case True
    with Failed ev assms(3,4) have "since e \<le> t" "t < until e" by auto
    from fail_blocked [OF assms(1) \<open>clocked t\<close> assms(2) this] obtain e' where
      "map_of (entries (fail k t s)) k = Some e'" "until e \<le> until e'" "since e' \<le> t" by blast
    with True Failed ev assms(3) show ?thesis by (intro thesis' [of e' t]) auto
  next
    case False
    have "k' \<in> fst ` set (entries s) \<or> length (entries s) < capacity s"
      using keys_fit [OF assms(1) K(3,1,2), of k'] K(4) Failed by simp
    from fail_room [OF assms(1) _ this, of k t] False Failed assms ev
    show ?thesis by (intro thesis' [of e now]) auto
  qed
next
  case (Succeeded k')
  have "fst ` set (entries (succeed k' s)) \<subseteq> K" using succeed_keys [of k' s] K(3) by auto
  with Succeeded assms succeed_other [of k k' s] show ?thesis
    by (intro that [of "succeed k' s" e now]) (auto intro: good_succeed simp: capacity_const)
next
  case (Probed k' t)
  have keys: "fst ` set (entries (snd (probe k' t s))) \<subseteq> K" using probe_keys [of k' t s] K(3) by auto
  note thesis' = that [of "snd (probe k' t s)", OF _ good_probe [OF assms(1)] _ _ _ _ capacity_const(3) keys]
  show ?thesis
  proof (cases "k' = k")
    case True
    with Probed ev assms(3,4) have "since e \<le> t" "t < until e" by auto
    from probe_blocked [OF assms(1,2) this] obtain e' where
      "map_of (entries (snd (probe k t s))) k = Some e'" "until e \<le> until e'" "since e' \<le> t" by blast
    with True Probed ev assms(3) show ?thesis by (intro thesis' [of e' t]) auto
  next
    case False
    with Probed assms ev probe_other [of k k' t s] show ?thesis by (intro thesis' [of e now]) auto
  qed
qed

lemma block_persists:
  assumes "good s" "map_of (entries s) k = Some e" "u \<le> until e" "since e \<le> now" "keeps_block k u now es"
    and "finite K" "card K \<le> capacity s" "fst ` set (entries s) \<subseteq> K" "event_key ` set es \<subseteq> K"
    and "list_all (event_clocked clocked) es"
  shows "\<exists>e'. map_of (entries (breaker_run fail succeed probe es s)) k = Some e' \<and> u \<le> until e'"
  using assms
proof (induction es arbitrary: s e now)
  case (Cons ev es)
  have "event_key ev \<in> K" "event_clocked clocked ev" using Cons.prems(9,10) by simp_all
  from block_step [OF Cons.prems(1-5) this(2) Cons.prems(6-8) this(1)] obtain s' e' now' where s':
    "breaker_run fail succeed probe (ev # es) s = breaker_run fail succeed probe es s'"
    "good s'" "map_of (entries s') k = Some e'" "u \<le> until e'" "since e' \<le> now'" "keeps_block k u now' es"
    "capacity s' = capacity s" "fst ` set (entries s') \<subseteq> K" by blast
  show ?case
    unfolding s'(1)
    by (rule Cons.IH [OF s'(2-6) Cons.prems(6) _ s'(8)]) (use Cons.prems(7,9,10) s'(7) in auto)
qed auto

lemma success_unblocks: "good s \<Longrightarrow> \<not> fst (probe k t (succeed k s))"
  by (rule probe_absent [OF succeed_clears])

end

end
