(* ===== verification/ProxyStreamCircuit.thy ===== *)
theory ProxyStreamCircuit
  imports BoundedCache
begin

text \<open>
  \<open>service/openai_proxy_stream_circuit.go\<close>: the circuit that quarantines a proxy after
  stream disconnects. A circuit is its settings and the map of entries; the methods take the
  clock as an argument. Logging is left out, and the once-only construction of the circuit in
  the gateway service is \<open>newOpenAIProxyStreamCircuit\<close> on the resolved settings.
\<close>

definition defaultOpenAIProxyStreamFailureThreshold :: int where
  "defaultOpenAIProxyStreamFailureThreshold = 2"

definition defaultOpenAIProxyStreamFailureWindow :: duration where
  "defaultOpenAIProxyStreamFailureWindow = minute"

definition defaultOpenAIProxyStreamQuarantineTTL :: duration where
  "defaultOpenAIProxyStreamQuarantineTTL = 10 * minute"

definition defaultOpenAIProxyStreamCircuitMaxEntries :: int where
  "defaultOpenAIProxyStreamCircuitMaxEntries = 4096"

definition defaultOpenAIProxyStreamFailureCollapse :: duration where
  "defaultOpenAIProxyStreamFailureCollapse = 3 * second"

record openAIProxyStreamCircuitSettings =
  disabled :: bool
  failureThreshold :: int
  failureWindow :: duration
  quarantineTTL :: duration
  collapseInterval :: duration
  maxEntries :: int

record openAIProxyStreamCircuitEntry =
  failureCount :: int
  windowStart :: time
  lastFailureAt :: time
  blockedUntil :: time
  lastTouched :: time

record openAIProxyStreamCircuit =
  pc_settings :: openAIProxyStreamCircuitSettings
  pc_entries :: "(int \<times> openAIProxyStreamCircuitEntry) list"

text \<open>The part of the gateway configuration the settings come from.\<close>

record stream_circuit_config =
  cfg_Disabled :: bool
  cfg_FailureThreshold :: int
  cfg_WindowSeconds :: int
  cfg_TTLSeconds :: int

definition resolveOpenAIProxyStreamCircuitSettings ::
  "stream_circuit_config option \<Rightarrow> openAIProxyStreamCircuitSettings" where
  "resolveOpenAIProxyStreamCircuitSettings cfg_opt =
     (let defaults = \<lparr>disabled = False, failureThreshold = defaultOpenAIProxyStreamFailureThreshold,
            failureWindow = defaultOpenAIProxyStreamFailureWindow,
            quarantineTTL = defaultOpenAIProxyStreamQuarantineTTL,
            collapseInterval = defaultOpenAIProxyStreamFailureCollapse,
            maxEntries = defaultOpenAIProxyStreamCircuitMaxEntries\<rparr> in
      case cfg_opt of
        None \<Rightarrow> defaults
      | Some cfg \<Rightarrow>
          \<lparr>disabled = cfg_Disabled cfg,
           failureThreshold = (if cfg_FailureThreshold cfg > 0 then cfg_FailureThreshold cfg else failureThreshold defaults),
           failureWindow = (if cfg_WindowSeconds cfg > 0 then int64_wrap (cfg_WindowSeconds cfg * second) else failureWindow defaults),
           quarantineTTL = (if cfg_TTLSeconds cfg > 0 then int64_wrap (cfg_TTLSeconds cfg * second) else quarantineTTL defaults),
           collapseInterval = collapseInterval defaults, maxEntries = maxEntries defaults\<rparr>)"

definition newOpenAIProxyStreamCircuit :: "openAIProxyStreamCircuitSettings \<Rightarrow> openAIProxyStreamCircuit" where
  "newOpenAIProxyStreamCircuit st =
     \<lparr>pc_settings =
        \<lparr>disabled = disabled st,
         failureThreshold = (if failureThreshold st \<le> 0 then defaultOpenAIProxyStreamFailureThreshold else failureThreshold st),
         failureWindow = (if failureWindow st \<le> 0 then defaultOpenAIProxyStreamFailureWindow else failureWindow st),
         quarantineTTL = (if quarantineTTL st \<le> 0 then defaultOpenAIProxyStreamQuarantineTTL else quarantineTTL st),
         collapseInterval = (if collapseInterval st < 0 then 0 else collapseInterval st),
         maxEntries = (if maxEntries st \<le> 0 then defaultOpenAIProxyStreamCircuitMaxEntries else maxEntries st)\<rparr>,
      pc_entries = []\<rparr>"

definition zero_entry :: openAIProxyStreamCircuitEntry where
  "zero_entry = \<lparr>failureCount = 0, windowStart = zero_time, lastFailureAt = zero_time,
     blockedUntil = zero_time, lastTouched = zero_time\<rparr>"

definition stale_entry :: "openAIProxyStreamCircuitSettings \<Rightarrow> time \<Rightarrow> openAIProxyStreamCircuitEntry \<Rightarrow> bool" where
  "stale_entry st now e \<longleftrightarrow>
     is_zero (blockedUntil e) \<and> time_sub now (lastTouched e) > failureWindow st \<or>
     \<not> is_zero (blockedUntil e) \<and> \<not> now < blockedUntil e"

definition ensureCapacityLocked ::
  "openAIProxyStreamCircuitSettings \<Rightarrow> time \<Rightarrow> (int \<times> openAIProxyStreamCircuitEntry) list \<Rightarrow>
   (int \<times> openAIProxyStreamCircuitEntry) list" where
  "ensureCapacityLocked st now m =
     (if int (length m) < maxEntries st then m
      else let m1 = filter (\<lambda>p. \<not> stale_entry st now (snd p)) m in
        if int (length m1) < maxEntries st then m1 else drop_oldest lastTouched m1)"

definition reset_window ::
  "openAIProxyStreamCircuitSettings \<Rightarrow> time \<Rightarrow> openAIProxyStreamCircuitEntry \<Rightarrow> openAIProxyStreamCircuitEntry" where
  "reset_window st now e =
     (if is_zero (windowStart e) \<or> now < windowStart e \<or> time_sub now (windowStart e) > failureWindow st
      then e\<lparr>failureCount := 0, windowStart := now, blockedUntil := zero_time\<rparr> else e)"

definition same_incident :: "openAIProxyStreamCircuitSettings \<Rightarrow> time \<Rightarrow> openAIProxyStreamCircuitEntry \<Rightarrow> bool" where
  "same_incident st now e \<longleftrightarrow>
     collapseInterval st > 0 \<and> \<not> is_zero (lastFailureAt e) \<and>
     time_sub now (lastFailureAt e) \<ge> 0 \<and> time_sub now (lastFailureAt e) < collapseInterval st"

definition pc_recordFailure ::
  "int \<Rightarrow> time \<Rightarrow> openAIProxyStreamCircuit \<Rightarrow> (bool \<times> time) \<times> openAIProxyStreamCircuit" where
  "pc_recordFailure proxyID now c =
     (let st = pc_settings c; m = pc_entries c; found = map_of m proxyID;
          entry = (case found of Some e \<Rightarrow> e | None \<Rightarrow> zero_entry) in
      if disabled st \<or> proxyID \<le> 0 then ((False, zero_time), c)
      else if found \<noteq> None \<and> now < blockedUntil entry then
        ((False, blockedUntil entry), c\<lparr>pc_entries := put proxyID (entry\<lparr>lastTouched := now\<rparr>) m\<rparr>)
      else
        (let m1 = (if found = None then ensureCapacityLocked st now m else m);
             e1 = reset_window st now entry in
         if same_incident st now e1 then
           ((False, zero_time), c\<lparr>pc_entries := put proxyID (e1\<lparr>lastTouched := now\<rparr>) m1\<rparr>)
         else
           (let e2 = e1\<lparr>failureCount := failureCount e1 + 1, lastFailureAt := now, lastTouched := now\<rparr>;
                tripped = (failureCount e2 \<ge> failureThreshold st);
                e3 = (if tripped then e2\<lparr>blockedUntil := now + quarantineTTL st\<rparr> else e2)
            in ((tripped, blockedUntil e3), c\<lparr>pc_entries := put proxyID e3 m1\<rparr>))))"

definition pc_recordSuccess :: "int \<Rightarrow> openAIProxyStreamCircuit \<Rightarrow> bool \<times> openAIProxyStreamCircuit" where
  "pc_recordSuccess proxyID c =
     (if proxyID \<le> 0 \<or> map_of (pc_entries c) proxyID = None then (False, c)
      else (True, c\<lparr>pc_entries := drop_key proxyID (pc_entries c)\<rparr>))"

definition pc_isBlocked :: "int \<Rightarrow> time \<Rightarrow> openAIProxyStreamCircuit \<Rightarrow> bool \<times> openAIProxyStreamCircuit" where
  "pc_isBlocked proxyID now c =
     (if disabled (pc_settings c) \<or> proxyID \<le> 0 then (False, c)
      else case map_of (pc_entries c) proxyID of
        None \<Rightarrow> (False, c)
      | Some e \<Rightarrow>
          if is_zero (blockedUntil e) then (False, c)
          else if \<not> now < blockedUntil e then (False, c\<lparr>pc_entries := drop_key proxyID (pc_entries c)\<rparr>)
          else (True, c))"

definition activeBlockCount :: "time \<Rightarrow> openAIProxyStreamCircuit \<Rightarrow> int" where
  "activeBlockCount now c =
     (if disabled (pc_settings c) then 0
      else int (length (filter (\<lambda>p. \<not> is_zero (blockedUntil (snd p)) \<and> now < blockedUntil (snd p)) (pc_entries c))))"

record stream_account =
  acc_Platform :: string
  acc_ProxyID :: "int option"

definition openAIProxyStreamCircuitProxyID :: "stream_account option \<Rightarrow> int option" where
  "openAIProxyStreamCircuitProxyID account =
     (case account of
        None \<Rightarrow> None
      | Some a \<Rightarrow>
          if acc_Platform a \<noteq> ''openai'' then None
          else (case acc_ProxyID a of None \<Rightarrow> None | Some p \<Rightarrow> if p \<le> 0 then None else Some p))"

text \<open>The error of a stream: cancellations and deadlines of the client are no disconnects.\<close>

datatype stream_error = NoError | ContextCanceled | DeadlineExceeded | OtherStreamError

definition recordOpenAIProxyStreamDisconnect ::
  "stream_account option \<Rightarrow> stream_error \<Rightarrow> time \<Rightarrow> openAIProxyStreamCircuit \<Rightarrow> openAIProxyStreamCircuit" where
  "recordOpenAIProxyStreamDisconnect account err now c =
     (case openAIProxyStreamCircuitProxyID account of
        None \<Rightarrow> c
      | Some p \<Rightarrow>
          if err = NoError \<or> err = ContextCanceled \<or> err = DeadlineExceeded then c
          else snd (pc_recordFailure p now c))"

definition clearOpenAIProxyStreamDisconnect ::
  "stream_account option \<Rightarrow> openAIProxyStreamCircuit \<Rightarrow> openAIProxyStreamCircuit" where
  "clearOpenAIProxyStreamDisconnect account c =
     (case openAIProxyStreamCircuitProxyID account of None \<Rightarrow> c | Some p \<Rightarrow> snd (pc_recordSuccess p c))"

definition isOpenAIProxyStreamQuarantined ::
  "bool \<Rightarrow> stream_account option \<Rightarrow> time \<Rightarrow> openAIProxyStreamCircuit \<Rightarrow> bool \<times> openAIProxyStreamCircuit" where
  "isOpenAIProxyStreamQuarantined bypassed account now c =
     (case openAIProxyStreamCircuitProxyID account of
        None \<Rightarrow> (False, c)
      | Some p \<Rightarrow> if bypassed then (False, c) else pc_isBlocked p now c)"

section \<open>The circuit is a bounded breaker\<close>

definition circuit_ok :: "openAIProxyStreamCircuit \<Rightarrow> bool" where
  "circuit_ok c \<longleftrightarrow>
     distinct (map fst (pc_entries c)) \<and> int (length (pc_entries c)) \<le> maxEntries (pc_settings c) \<and>
     0 < maxEntries (pc_settings c)"

lemma circuit_ok_new: "circuit_ok (newOpenAIProxyStreamCircuit st)"
  by (simp add: circuit_ok_def newOpenAIProxyStreamCircuit_def defaultOpenAIProxyStreamCircuitMaxEntries_def)

lemma ensureCapacity_ok:
  assumes "distinct (map fst m)" "int (length m) \<le> maxEntries st" "0 < maxEntries st"
  shows "distinct (map fst (ensureCapacityLocked st now m))"
    and "int (length (ensureCapacityLocked st now m)) < maxEntries st"
    and "fst ` set (ensureCapacityLocked st now m) \<subseteq> fst ` set m"
    and "int (length m) < maxEntries st \<Longrightarrow> ensureCapacityLocked st now m = m"
proof -
  let ?m1 = "filter (\<lambda>p. \<not> stale_entry st now (snd p)) m"
  have d1: "distinct (map fst ?m1)" by (rule distinct_keys_filter [OF assms(1)])
  then show "distinct (map fst (ensureCapacityLocked st now m))"
    using assms(1) by (simp add: ensureCapacityLocked_def Let_def)
  have l1: "length ?m1 \<le> length m" by simp
  show "int (length (ensureCapacityLocked st now m)) < maxEntries st"
  proof (cases "?m1 = []")
    case False
    from drop_oldest_shorter [OF d1 this, of lastTouched] l1 assms(2)
    have "int (length (drop_oldest lastTouched ?m1)) < maxEntries st" by linarith
    then show ?thesis by (auto simp: ensureCapacityLocked_def Let_def)
  qed (use assms(3) in \<open>auto simp: ensureCapacityLocked_def Let_def\<close>)
  have "fst ` set (drop_oldest lastTouched ?m1) \<subseteq> fst ` set ?m1"
    by (auto simp: drop_oldest_def drop_key_def split: list.splits)
  then show "fst ` set (ensureCapacityLocked st now m) \<subseteq> fst ` set m"
    by (auto simp: ensureCapacityLocked_def Let_def)
qed (simp add: ensureCapacityLocked_def)

definition pc_capacity :: "openAIProxyStreamCircuit \<Rightarrow> nat" where
  "pc_capacity c = nat (maxEntries (pc_settings c))"

lemma pc_fail_settings [simp]: "pc_settings (snd (pc_recordFailure p now c)) = pc_settings c"
  by (simp add: pc_recordFailure_def Let_def)

text \<open>The list a failure stores into, and that it stores one entry there.\<close>

definition room_for :: "int \<Rightarrow> time \<Rightarrow> openAIProxyStreamCircuit \<Rightarrow> (int \<times> openAIProxyStreamCircuitEntry) list" where
  "room_for p now c =
     (if map_of (pc_entries c) p = None then ensureCapacityLocked (pc_settings c) now (pc_entries c) else pc_entries c)"

lemma pc_fail_form:
  "snd (pc_recordFailure p now c) = c \<or> (\<exists>e. pc_entries (snd (pc_recordFailure p now c)) = put p e (room_for p now c))"
  by (auto simp: pc_recordFailure_def Let_def room_for_def)

lemma room_for_ok:
  assumes "circuit_ok c"
  shows "distinct (map fst (room_for p now c))"
    and "int (length (put p e (room_for p now c))) \<le> maxEntries (pc_settings c)"
    and "fst ` set (room_for p now c) \<subseteq> fst ` set (pc_entries c)"
    and "p \<in> fst ` set (pc_entries c) \<or> length (pc_entries c) < pc_capacity c \<Longrightarrow> room_for p now c = pc_entries c"
proof -
  have ok: "distinct (map fst (pc_entries c))" "int (length (pc_entries c)) \<le> maxEntries (pc_settings c)"
    "0 < maxEntries (pc_settings c)" using assms by (simp_all add: circuit_ok_def)
  note e = ensureCapacity_ok [OF ok]
  show "distinct (map fst (room_for p now c))" using ok(1) e(1) by (simp add: room_for_def)
  show "fst ` set (room_for p now c) \<subseteq> fst ` set (pc_entries c)" using e(3) by (simp add: room_for_def)
  show "int (length (put p e (room_for p now c))) \<le> maxEntries (pc_settings c)"
    using ok(2) e(2) [of now] length_put_le [of p e "ensureCapacityLocked (pc_settings c) now (pc_entries c)"]
      length_put_present [of "pc_entries c" p e] by (auto simp: room_for_def)
  show "room_for p now c = pc_entries c"
    if "p \<in> fst ` set (pc_entries c) \<or> length (pc_entries c) < pc_capacity c"
    using that e(4) by (auto simp: room_for_def pc_capacity_def map_of_eq_None_iff)
qed

definition circuit_good :: "openAIProxyStreamCircuit \<Rightarrow> bool" where
  "circuit_good c \<longleftrightarrow> circuit_ok c \<and> fst ` set (pc_entries c) \<subseteq> {0<..}"

lemma pc_fail_good: "circuit_good c \<Longrightarrow> circuit_good (snd (pc_recordFailure p now c))"
proof (cases "p \<le> 0")
  case False
  assume g: "circuit_good c"
  then have ok: "circuit_ok c" by (simp add: circuit_good_def)
  from pc_fail_form [of p now c] show ?thesis
  proof (elim disjE exE)
    fix e assume e: "pc_entries (snd (pc_recordFailure p now c)) = put p e (room_for p now c)"
    have "maxEntries (pc_settings c) > 0" using ok by (simp add: circuit_ok_def)
    then show ?thesis
      using room_for_ok(1,3) [OF ok, of p now] room_for_ok(2) [OF ok, of p e now] g False e
      by (simp add: circuit_good_def circuit_ok_def subset_trans)
  qed (use g in simp)
qed (simp add: pc_recordFailure_def Let_def)

lemma pc_drop_good:
  "circuit_good c \<Longrightarrow> circuit_good (c\<lparr>pc_entries := drop_key p (pc_entries c)\<rparr>)"
proof -
  assume g: "circuit_good c"
  then have d: "distinct (map fst (drop_key p (pc_entries c)))"
    by (simp add: circuit_good_def circuit_ok_def distinct_keys_drop_key)
  with g length_drop_key_le [of p "pc_entries c"] show ?thesis
    using subset_trans [OF keys_drop_key [of p "pc_entries c"], of "{0<..}"] by (simp add: circuit_good_def circuit_ok_def)
qed

lemma pc_success_form:
  "circuit_good c \<Longrightarrow> snd (pc_recordSuccess p c) = c\<lparr>pc_entries := drop_key p (pc_entries c)\<rparr>"
proof -
  assume g: "circuit_good c"
  have "map_of (pc_entries c) p = None" if "p \<le> 0"
    using g that by (fastforce simp: circuit_good_def map_of_eq_None_iff)
  then show ?thesis by (auto simp: pc_recordSuccess_def drop_key_absent)
qed

lemma pc_blocked_form:
  "snd (pc_isBlocked p now c) = c \<or> snd (pc_isBlocked p now c) = c\<lparr>pc_entries := drop_key p (pc_entries c)\<rparr>"
  by (auto simp: pc_isBlocked_def split: option.split)

lemma pc_fail_blocked:
  assumes "map_of (pc_entries c) p = Some e" "t < blockedUntil e"
  shows "\<exists>e'. map_of (pc_entries (snd (pc_recordFailure p t c))) p = Some e' \<and>
           blockedUntil e' = blockedUntil e \<and> lastFailureAt e' = lastFailureAt e"
  using assms by (simp add: pc_recordFailure_def Let_def)

interpretation proxy_breaker: bounded_breaker pc_entries pc_capacity
  "\<lambda>p t c. snd (pc_recordFailure p t c)" "\<lambda>p c. snd (pc_recordSuccess p c)" pc_isBlocked blockedUntil lastFailureAt
  circuit_good "\<lambda>t. True"
proof
  fix c
  assume "circuit_good c"
  then show "distinct (map fst (pc_entries c)) \<and> length (pc_entries c) \<le> pc_capacity c"
    by (auto simp: circuit_good_def circuit_ok_def pc_capacity_def)
next
  fix p t and c :: openAIProxyStreamCircuit show "pc_capacity (snd (pc_recordFailure p t c)) = pc_capacity c" by (simp add: pc_capacity_def)
next
  fix p c show "pc_capacity (snd (pc_recordSuccess p c)) = pc_capacity c"
    by (simp add: pc_capacity_def pc_recordSuccess_def)
next
  fix p t and c :: openAIProxyStreamCircuit show "pc_capacity (snd (pc_isBlocked p t c)) = pc_capacity c"
    using pc_blocked_form [of p t c] by (auto simp: pc_capacity_def)
next
  fix p t c assume "circuit_good c" then show "circuit_good (snd (pc_recordFailure p t c))" by (rule pc_fail_good)
next
  fix p c assume "circuit_good c" then show "circuit_good (snd (pc_recordSuccess p c))"
    by (simp add: pc_success_form pc_drop_good)
next
  fix p t c assume "circuit_good c" then show "circuit_good (snd (pc_isBlocked p t c))"
    using pc_blocked_form [of p t c] pc_drop_good by auto
next
  fix p t c assume g: "circuit_good c"
  show "fst ` set (pc_entries (snd (pc_recordFailure p t c))) \<subseteq> insert p (fst ` set (pc_entries c))"
    using pc_fail_form [of p t c] room_for_ok(3) [of c p t] g
    by (elim disjE exE) (simp_all add: circuit_good_def subset_insertI subset_insertI2 insert_mono)
next
  fix p c show "fst ` set (pc_entries (snd (pc_recordSuccess p c))) \<subseteq> fst ` set (pc_entries c)"
    by (auto simp: pc_recordSuccess_def drop_key_def)
next
  fix p t c show "fst ` set (pc_entries (snd (pc_isBlocked p t c))) \<subseteq> fst ` set (pc_entries c)"
    using pc_blocked_form [of p t c] by (auto simp: drop_key_def)
next
  fix c p' p t
  assume "circuit_good c" "p' \<noteq> p" "p \<in> fst ` set (pc_entries c) \<or> length (pc_entries c) < pc_capacity c"
  then show "map_of (pc_entries (snd (pc_recordFailure p t c))) p' = map_of (pc_entries c) p'"
    using pc_fail_form [of p t c] room_for_ok(4) [of c p t] by (auto simp: circuit_good_def)
next
  fix p' p c
  assume "p' \<noteq> (p :: int)"
  then show "map_of (pc_entries (snd (pc_recordSuccess p c))) p' = map_of (pc_entries c) p'"
    by (simp add: pc_recordSuccess_def)
next
  fix c :: openAIProxyStreamCircuit and p
  assume "circuit_good c"
  then show "map_of (pc_entries (snd (pc_recordSuccess p c))) p = None" by (simp add: pc_success_form)
next
  fix p' p t c
  assume "p' \<noteq> (p :: int)"
  then show "map_of (pc_entries (snd (pc_isBlocked p t c))) p' = map_of (pc_entries c) p'"
    using pc_blocked_form [of p t c] by auto
next
  fix c :: openAIProxyStreamCircuit and p e t
  assume "map_of (pc_entries c) p = Some e" "lastFailureAt e \<le> t" "t < blockedUntil e"
  then show "\<exists>e'. map_of (pc_entries (snd (pc_recordFailure p t c))) p = Some e' \<and>
      blockedUntil e \<le> blockedUntil e' \<and> lastFailureAt e' \<le> t"
    using pc_fail_blocked [of c p e t] by auto
next
  fix c :: openAIProxyStreamCircuit and p e t
  assume "map_of (pc_entries c) p = Some e" "lastFailureAt e \<le> t" "t < blockedUntil e"
  then show "\<exists>e'. map_of (pc_entries (snd (pc_isBlocked p t c))) p = Some e' \<and>
      blockedUntil e \<le> blockedUntil e' \<and> lastFailureAt e' \<le> t"
    by (simp add: pc_isBlocked_def)
next
  fix c :: openAIProxyStreamCircuit and p t
  assume "map_of (pc_entries c) p = None"
  then show "\<not> fst (pc_isBlocked p t c)" by (simp add: pc_isBlocked_def)
qed

abbreviation circuit_run :: "int breaker_event list \<Rightarrow> openAIProxyStreamCircuit \<Rightarrow> openAIProxyStreamCircuit" where
  "circuit_run \<equiv> breaker_run (\<lambda>p t c. snd (pc_recordFailure p t c)) (\<lambda>p c. snd (pc_recordSuccess p c)) pc_isBlocked"

section \<open>Capacity and quarantine\<close>

lemma all_clocked: "list_all (event_clocked (\<lambda>t. True)) es"
proof -
  have "event_clocked (\<lambda>t. True) ev" for ev :: "'a breaker_event" by (cases ev) simp_all
  then show ?thesis by (simp add: list_all_iff)
qed

lemma circuit_good_new: "circuit_good (newOpenAIProxyStreamCircuit st)"
  using circuit_ok_new [of st] by (simp add: circuit_good_def newOpenAIProxyStreamCircuit_def)

lemma circuit_run_settings [simp]: "pc_settings (circuit_run es c) = pc_settings c"
proof (induction es arbitrary: c)
  case (Cons ev es)
  have "pc_settings (snd (pc_isBlocked p t c)) = pc_settings c" for p t
    using pc_blocked_form [of p t c] by auto
  moreover have "pc_settings (snd (pc_recordSuccess p c)) = pc_settings c" for p
    by (simp add: pc_recordSuccess_def)
  ultimately show ?case using Cons by (cases ev) simp_all
qed simp

text \<open>Whatever is reported and asked, the circuit never holds more than \<open>maxEntries\<close>
  proxies.\<close>

theorem circuit_bounded:
  "int (length (pc_entries (circuit_run es (newOpenAIProxyStreamCircuit st))))
     \<le> maxEntries (pc_settings (newOpenAIProxyStreamCircuit st))"
  using proxy_breaker.run_bounded [OF circuit_good_new all_clocked, of es st]
  by (simp add: circuit_good_def circuit_ok_def)

lemma pc_fail_trip:
  assumes "pc_recordFailure p now c = ((True, u), c')"
  shows "\<exists>e. map_of (pc_entries c') p = Some e \<and> blockedUntil e = u \<and> lastFailureAt e = now"
    and "\<not> disabled (pc_settings c)" "0 < p" "u = now + quarantineTTL (pc_settings c)"
  using assms by (auto simp: pc_recordFailure_def Let_def split: if_splits)

text \<open>a proxy whose failure trips the circuit is refused until the quarantine ends, whatever
  happens to other proxies and however often it is asked for or fails again, as long as it has
  no success and the proxies seen fit into the circuit.\<close>

theorem quarantine_lasts:
  assumes "circuit_good c" "pc_recordFailure p now c = ((True, u), c')" "keeps_block p u now es"
    and "int (card (insert p (fst ` set (pc_entries c) \<union> event_key ` set es))) \<le> maxEntries (pc_settings c)"
    and "t < u" "zero_time < u"
  shows "fst (pc_isBlocked p t (circuit_run es c'))"
proof -
  let ?K = "insert p (fst ` set (pc_entries c) \<union> event_key ` set es)"
  note trip = pc_fail_trip [OF assms(2)]
  from trip(1) obtain e where e: "map_of (pc_entries c') p = Some e" "blockedUntil e = u" "lastFailureAt e = now"
    by blast
  have c': "c' = snd (pc_recordFailure p now c)" using assms(2) by simp
  have K: "finite ?K" "card ?K \<le> pc_capacity c'" "event_key ` set es \<subseteq> ?K"
    using assms(4) c' by (auto simp: pc_capacity_def)
  have "fst ` set (pc_entries c') \<subseteq> ?K"
    using proxy_breaker.fail_keys [OF assms(1), of p now] unfolding c' by blast
  with proxy_breaker.block_persists [OF proxy_breaker.good_fail [OF assms(1) TrueI, of p now, folded c'] e(1) _ _ assms(3) K(1,2) _ _ all_clocked] K(3)
  obtain e' where e': "map_of (pc_entries (circuit_run es c')) p = Some e'" "u \<le> blockedUntil e'"
    using e(2,3) by auto
  have "pc_settings c' = pc_settings c" unfolding c' by simp
  then show ?thesis
    using e' trip(2,3) assms(5,6) by (simp add: pc_isBlocked_def is_zero_def)
qed

definition tripped_circuit :: openAIProxyStreamCircuit where
  "tripped_circuit = snd (pc_recordFailure 7 0
     (newOpenAIProxyStreamCircuit (resolveOpenAIProxyStreamCircuitSettings None)))"

lemma tripped_circuit_good: "circuit_good tripped_circuit"
  unfolding tripped_circuit_def by (rule pc_fail_good [OF circuit_good_new])

lemmas circuit_eval = pc_recordFailure_def Let_def newOpenAIProxyStreamCircuit_def is_zero_def
  resolveOpenAIProxyStreamCircuitSettings_def zero_entry_def reset_window_def same_incident_def
  ensureCapacityLocked_def time_sub_def zero_time_def max_duration_def min_duration_def put_def
  defaultOpenAIProxyStreamFailureThreshold_def defaultOpenAIProxyStreamFailureWindow_def
  defaultOpenAIProxyStreamQuarantineTTL_def defaultOpenAIProxyStreamCircuitMaxEntries_def
  defaultOpenAIProxyStreamFailureCollapse_def

lemma tripped_circuit_entries:
  "fst ` set (pc_entries tripped_circuit) = {7}" "maxEntries (pc_settings tripped_circuit) = 4096"
  by (simp_all add: tripped_circuit_def circuit_eval)

lemma tripped_circuit_trips:
  "pc_recordFailure 7 (5 * second) tripped_circuit =
     ((True, 605 * second), snd (pc_recordFailure 7 (5 * second) tripped_circuit))"
  by (simp add: prod_eq_iff tripped_circuit_def circuit_eval)

theorem quarantine_lasts_witness:
  "fst (pc_isBlocked 7 (600 * second) (circuit_run
     [Failed 8 (6 * second), Probed 7 (7 * second), Succeeded 8, Failed 7 (9 * second)]
     (snd (pc_recordFailure 7 (5 * second) tripped_circuit))))"
  by (rule quarantine_lasts [OF tripped_circuit_good tripped_circuit_trips])
     (simp_all add: tripped_circuit_entries zero_time_def insert_commute)

text \<open>After a success the proxy is no longer refused.\<close>

theorem success_lifts_quarantine:
  "\<not> fst (pc_isBlocked p t (snd (pc_recordSuccess p (circuit_run es (newOpenAIProxyStreamCircuit st)))))"
  using proxy_breaker.run_bounded [OF circuit_good_new all_clocked, of es st]
  by (intro proxy_breaker.success_unblocks) blast

section \<open>What a trip says\<close>

text \<open>The reported failures of \<open>p\<close> from a time on, and the count an entry may carry.\<close>

fun failure_since :: "int \<Rightarrow> time \<Rightarrow> int breaker_event \<Rightarrow> bool" where
  "failure_since p w (Failed p' t) = (p' = p \<and> w \<le> t)"
| "failure_since p w _ = False"

fun failure_within :: "int \<Rightarrow> time \<Rightarrow> duration \<Rightarrow> int breaker_event \<Rightarrow> bool" where
  "failure_within p now d (Failed p' t) = (p' = p \<and> time_sub now t \<le> d)"
| "failure_within p now d _ = False"

definition failures_since :: "int \<Rightarrow> time \<Rightarrow> int breaker_event list \<Rightarrow> int" where
  "failures_since p w es = int (length (filter (failure_since p w) es))"

definition counts_backed :: "int breaker_event list \<Rightarrow> openAIProxyStreamCircuit \<Rightarrow> bool" where
  "counts_backed es c \<longleftrightarrow> (\<forall>p e. map_of (pc_entries c) p = Some e \<longrightarrow>
     failureCount e \<le> failures_since p (windowStart e) es)"

lemma failures_since_snoc:
  "failures_since p w (es @ [ev]) = failures_since p w es + (if failure_since p w ev then 1 else 0)"
  by (simp add: failures_since_def)

lemma failures_since_nonneg: "0 \<le> failures_since p w es"
  by (simp add: failures_since_def)

lemma ensureCapacity_sub:
  "distinct (map fst m) \<Longrightarrow> map_of (ensureCapacityLocked st now m) p = Some e \<Longrightarrow> map_of m p = Some e"
  using drop_oldest_sub [of lastTouched "filter (\<lambda>p. \<not> stale_entry st now (snd p)) m" p e]
    distinct_keys_filter [of m "\<lambda>p. \<not> stale_entry st now (snd p)"]
  by (auto simp: ensureCapacityLocked_def Let_def split: if_splits dest: map_of_SomeD)

lemma backed_fail_other:
  assumes "circuit_good c" "p' \<noteq> p" "map_of (pc_entries (snd (pc_recordFailure p now c))) p' = Some e"
  shows "map_of (pc_entries c) p' = Some e"
  using pc_fail_form [of p now c]
proof (elim disjE exE)
  fix e' assume "pc_entries (snd (pc_recordFailure p now c)) = put p e' (room_for p now c)"
  then have "map_of (room_for p now c) p' = Some e" using assms(2,3) by simp
  then show ?thesis
    using assms(1) ensureCapacity_sub
    by (auto simp: room_for_def circuit_good_def circuit_ok_def split: if_splits)
qed (use assms(3) in simp)

lemma backed_fail_self:
  assumes "map_of (pc_entries (snd (pc_recordFailure p now c))) p = Some e"
  shows "(\<exists>e0. map_of (pc_entries c) p = Some e0 \<and> failureCount e = failureCount e0 \<and> windowStart e = windowStart e0) \<or>
    failureCount e \<le> 1 \<and> windowStart e = now \<or>
    (\<exists>e0. map_of (pc_entries c) p = Some e0 \<and> failureCount e = failureCount e0 + 1 \<and>
       windowStart e = windowStart e0 \<and> windowStart e \<le> now)"
  using assms
  by (cases "map_of (pc_entries c) p")
     (auto simp: pc_recordFailure_def Let_def reset_window_def zero_entry_def is_zero_def split: if_splits)

lemma backed_fail:
  assumes "circuit_good c" "counts_backed es c"
  shows "counts_backed (es @ [Failed p now]) (snd (pc_recordFailure p now c))"
  unfolding counts_backed_def
proof (intro allI impI)
  fix p' e assume e: "map_of (pc_entries (snd (pc_recordFailure p now c))) p' = Some e"
  have old: "failureCount e0 \<le> failures_since p' (windowStart e0) es" if "map_of (pc_entries c) p' = Some e0" for e0
    using assms(2) that by (simp add: counts_backed_def)
  show "failureCount e \<le> failures_since p' (windowStart e) (es @ [Failed p now])"
  proof (cases "p' = p")
    case False
    with backed_fail_other [OF assms(1) False e] old show ?thesis by (simp add: failures_since_snoc)
  next
    case True
    from backed_fail_self [OF e [unfolded True]] show ?thesis
      using old True failures_since_nonneg [of p "windowStart e" es] by (auto simp: failures_since_snoc dest!: old)
  qed
qed

lemma backed_run:
  assumes "circuit_good c" "counts_backed es0 c"
  shows "counts_backed (es0 @ es) (circuit_run es c)"
  using assms
proof (induction es arbitrary: c es0)
  case (Cons ev es)
  have drop: "counts_backed (es0 @ [ev]) (c\<lparr>pc_entries := drop_key p (pc_entries c)\<rparr>)"
    and same: "counts_backed (es0 @ [ev]) c" for p
    using Cons.prems(2) by (fastforce simp: counts_backed_def failures_since_snoc)+
  show ?case
  proof (cases ev)
    case (Failed p t)
    with Cons.IH [OF pc_fail_good [OF Cons.prems(1)] backed_fail [OF Cons.prems], of p t] show ?thesis by simp
  next
    case (Succeeded p)
    with Cons.IH [OF pc_drop_good [OF Cons.prems(1)] drop, of p] pc_success_form [OF Cons.prems(1), of p]
    show ?thesis by simp
  next
    case (Probed p t)
    with Cons.IH [OF pc_drop_good [OF Cons.prems(1)] drop, of p] Cons.IH [OF Cons.prems(1) same]
      pc_blocked_form [of p t c]
    show ?thesis by auto
  qed
qed simp

lemma trip_count:
  assumes "fst (fst (pc_recordFailure p now c))"
  shows "failureThreshold (pc_settings c) \<le> 1 \<or>
    (\<exists>e. map_of (pc_entries c) p = Some e \<and> failureThreshold (pc_settings c) \<le> failureCount e + 1 \<and>
      time_sub now (windowStart e) \<le> failureWindow (pc_settings c))"
  using assms
  by (cases "map_of (pc_entries c) p")
     (auto simp: pc_recordFailure_def Let_def reset_window_def zero_entry_def is_zero_def split: if_splits)

lemma since_within:
  "time_sub now w \<le> d \<Longrightarrow> failures_since p w es \<le> int (length (filter (failure_within p now d) es))"
proof (induction es)
  case (Cons ev es)
  have "failure_since p w ev \<Longrightarrow> failure_within p now d ev"
    using Cons.prems time_sub_mono [of w _ now] by (cases ev) (auto intro: order_trans)
  with Cons show ?case by (auto simp: failures_since_def)
qed (simp add: failures_since_def)

text \<open>When a failure trips the circuit, at least \<open>failureThreshold\<close> failures of that proxy
  were reported within the failure window before it, the failure itself included.\<close>

theorem trip_needs_failures_in_window:
  assumes "fst (fst (pc_recordFailure p now (circuit_run es (newOpenAIProxyStreamCircuit st))))"
  shows "failureThreshold (pc_settings (newOpenAIProxyStreamCircuit st)) \<le>
    int (length (filter (failure_within p now (failureWindow (pc_settings (newOpenAIProxyStreamCircuit st)))) es)) + 1"
proof -
  let ?c = "newOpenAIProxyStreamCircuit st"
  have backed: "counts_backed es (circuit_run es ?c)"
    using backed_run [OF circuit_good_new, of "[]" st es]
    by (simp add: counts_backed_def newOpenAIProxyStreamCircuit_def)
  show ?thesis
    using trip_count [OF assms] unfolding circuit_run_settings
  proof (elim disjE exE conjE)
    fix e
    assume e: "map_of (pc_entries (circuit_run es ?c)) p = Some e"
      "failureThreshold (pc_settings ?c) \<le> failureCount e + 1"
      "time_sub now (windowStart e) \<le> failureWindow (pc_settings ?c)"
    then have "failureCount e \<le> failures_since p (windowStart e) es"
      using backed by (simp add: counts_backed_def)
    with since_within [OF e(3), of p es] e(2) show ?thesis by linarith
  qed simp
qed

theorem trip_needs_failures_in_window_witness:
  "failureThreshold (pc_settings tripped_circuit) \<le>
     int (length (filter (failure_within 7 (5 * second) (failureWindow (pc_settings tripped_circuit)))
       [Failed 7 0])) + 1"
proof -
  let ?st = "resolveOpenAIProxyStreamCircuitSettings None"
  have run: "circuit_run [Failed 7 0] (newOpenAIProxyStreamCircuit ?st) = tripped_circuit"
    by (simp add: tripped_circuit_def)
  have "pc_settings tripped_circuit = pc_settings (newOpenAIProxyStreamCircuit ?st)"
    by (simp add: tripped_circuit_def)
  moreover have "fst (fst (pc_recordFailure 7 (5 * second) (circuit_run [Failed 7 0] (newOpenAIProxyStreamCircuit ?st))))"
    unfolding run by (subst tripped_circuit_trips) simp
  from trip_needs_failures_in_window [OF this] show ?thesis using calculation by simp
qed

section \<open>Bursts\<close>

text \<open>The outcomes of a burst of failures of one proxy.\<close>

fun pc_burst :: "int \<Rightarrow> time list \<Rightarrow> openAIProxyStreamCircuit \<Rightarrow> bool list" where
  "pc_burst p [] c = []"
| "pc_burst p (t # ts) c =
     (let r = pc_recordFailure p t c in fst (fst r) # pc_burst p ts (snd r))"

lemma burst_quiet:
  assumes "0 < p" "0 < collapseInterval (pc_settings c)"
    and "map_of (pc_entries c) p = Some e" "lastFailureAt e = start" "blockedUntil e = zero_time" "zero_time < start"
    and "\<forall>t \<in> set ts. start \<le> t \<and> time_sub t start < collapseInterval (pc_settings c)"
  shows "True \<notin> set (pc_burst p ts c)"
  using assms
proof (induction ts arbitrary: c e)
  case (Cons t ts)
  show ?case
  proof (cases "disabled (pc_settings c)")
    case True
    then have "pc_recordFailure p t c = ((False, zero_time), c)" by (simp add: pc_recordFailure_def)
    moreover have "True \<notin> set (pc_burst p ts c)" using Cons.prems by (intro Cons.IH) auto
    ultimately show ?thesis by simp
  next
    case False
    define e' where "e' = (reset_window (pc_settings c) t e)\<lparr>lastTouched := t\<rparr>"
    have "\<not> t < blockedUntil e" using Cons.prems(5-7) by auto
    moreover have "same_incident (pc_settings c) t (reset_window (pc_settings c) t e)"
      using Cons.prems by (auto simp: same_incident_def reset_window_def is_zero_def)
    ultimately have r: "pc_recordFailure p t c = ((False, zero_time), c\<lparr>pc_entries := put p e' (pc_entries c)\<rparr>)"
      using Cons.prems(1,3) False by (simp add: pc_recordFailure_def Let_def e'_def)
    have "lastFailureAt e' = start" "blockedUntil e' = zero_time"
      using Cons.prems(4,5) by (simp_all add: e'_def reset_window_def)
    then have "True \<notin> set (pc_burst p ts (c\<lparr>pc_entries := put p e' (pc_entries c)\<rparr>))"
      using Cons.prems by (intro Cons.IH [of _ e']) auto
    with r show ?thesis by simp
  qed
qed simp

text \<open>One incident is one failure. Disconnects of a proxy not yet in the circuit that are
  all reported within \<open>collapseInterval\<close> of the first never trip a threshold above one.\<close>

theorem burst_never_trips:
  assumes "0 < p" "zero_time < start" "map_of (pc_entries c) p = None"
    and "2 \<le> failureThreshold (pc_settings c)" "0 < collapseInterval (pc_settings c)"
    and "\<forall>t \<in> set ts. start \<le> t \<and> time_sub t start < collapseInterval (pc_settings c)"
  shows "True \<notin> set (pc_burst p (start # ts) c)"
proof (cases "disabled (pc_settings c)")
  case True
  then have "pc_recordFailure p t c = ((False, zero_time), c)" for t by (simp add: pc_recordFailure_def)
  then have "True \<notin> set (pc_burst p ts c)" for ts by (induction ts) auto
  then show ?thesis .
next
  case False
  let ?e = "zero_entry\<lparr>failureCount := 1, windowStart := start, lastFailureAt := start, lastTouched := start\<rparr>"
  let ?c = "c\<lparr>pc_entries := put p ?e (ensureCapacityLocked (pc_settings c) start (pc_entries c))\<rparr>"
  have r: "pc_recordFailure p start c = ((False, zero_time), ?c)"
    using assms False
    by (simp add: pc_recordFailure_def Let_def reset_window_def same_incident_def zero_entry_def is_zero_def)
  have "True \<notin> set (pc_burst p ts ?c)"
    using assms by (intro burst_quiet [where e = ?e and start = start]) (auto simp: zero_entry_def)
  with r show ?thesis by simp
qed

theorem burst_never_trips_witness:
  "True \<notin> set (pc_burst 9 [0, second, 2 * second, second] tripped_circuit)"
  by (rule burst_never_trips) (simp_all add: tripped_circuit_def circuit_eval)

end
