(* ===== verification/ModelTransient.thy ===== *)
theory ModelTransient
  imports BoundedCache
begin

text \<open>
  \<open>service/openai_account_model_transient.go\<close>: the breaker that cools down one model of
  one account after consecutive transient failures. The methods resolve the key of the pair
  and then work on the entry of the key; \<open>lower\<close> stands for \<open>strings.ToLower\<close> and
  \<open>clock\<close> for \<open>time.Now()\<close>, read when the caller passes the zero time. The second part
  compares the breaker with its contract: the streak of a pair is a function of the failures,
  successes and queries of that pair alone.
\<close>

definition openAIModelTransientStreakTTL :: duration where
  "openAIModelTransientStreakTTL = 30 * minute"

definition openAIModelTransientShortCooldown :: duration where
  "openAIModelTransientShortCooldown = 10 * second"

definition openAIModelTransientLongCooldown :: duration where
  "openAIModelTransientLongCooldown = 45 * second"

definition openAIModelTransientDefaultMax :: int where
  "openAIModelTransientDefaultMax = 4096"

definition openAIModelTransientMaxModelBytes :: nat where
  "openAIModelTransientMaxModelBytes = 512"

type_synonym openAIAccountModelKey = "int \<times> string"

record openAIAccountModelTransientEntry =
  failureStreak :: int
  lastFailure :: time
  blockUntil :: time
  mt_lastTouched :: time

record openAIAccountModelTransientDecision =
  FailureStreak :: int
  Cooldown :: duration
  BlockUntil :: time

record openAIAccountModelTransientState =
  mt_entries :: "(openAIAccountModelKey \<times> openAIAccountModelTransientEntry) list"
  mt_maxEntries :: int

definition newOpenAIAccountModelTransientState :: "int \<Rightarrow> openAIAccountModelTransientState" where
  "newOpenAIAccountModelTransientState maxEntries =
     \<lparr>mt_entries = [],
      mt_maxEntries = (if maxEntries \<le> 0 then openAIModelTransientDefaultMax else maxEntries)\<rparr>"

definition normalizeOpenAIAccountModelTransientModel :: "(string \<Rightarrow> string) \<Rightarrow> string \<Rightarrow> string" where
  "normalizeOpenAIAccountModelTransientModel lower model =
     (let m = trim_space model in
      if length m > openAIModelTransientMaxModelBytes then '''' else lower m)"

definition openAIAccountModelTransientKey ::
  "(string \<Rightarrow> string) \<Rightarrow> int \<Rightarrow> string \<Rightarrow> openAIAccountModelKey option" where
  "openAIAccountModelTransientKey lower accountID model =
     (let m = normalizeOpenAIAccountModelTransientModel lower model in
      if accountID \<le> 0 \<or> m = '''' then None else Some (accountID, m))"

definition empty_decision :: openAIAccountModelTransientDecision where
  "empty_decision = \<lparr>FailureStreak = 0, Cooldown = 0, BlockUntil = zero_time\<rparr>"

definition zero_transient :: openAIAccountModelTransientEntry where
  "zero_transient = \<lparr>failureStreak = 0, lastFailure = zero_time, blockUntil = zero_time, mt_lastTouched = zero_time\<rparr>"

definition evictOldestLocked :: "openAIAccountModelTransientState \<Rightarrow> openAIAccountModelTransientState" where
  "evictOldestLocked s =
     (if int (length (mt_entries s)) < mt_maxEntries s then s
      else s\<lparr>mt_entries := drop_oldest mt_lastTouched (mt_entries s)\<rparr>)"

definition cooldown_for :: "int \<Rightarrow> duration" where
  "cooldown_for streak =
     (if streak \<ge> 3 then openAIModelTransientLongCooldown
      else if streak = 2 then openAIModelTransientShortCooldown else 0)"

definition streak_restarts :: "openAIAccountModelTransientEntry option \<Rightarrow> time \<Rightarrow> bool" where
  "streak_restarts found now =
     (case found of
        None \<Rightarrow> True
      | Some e \<Rightarrow> is_zero (lastFailure e) \<or> time_sub now (lastFailure e) > openAIModelTransientStreakTTL \<or>
          now < lastFailure e)"

definition mt_recordFailure_key ::
  "openAIAccountModelKey \<Rightarrow> time \<Rightarrow> openAIAccountModelTransientState \<Rightarrow>
   openAIAccountModelTransientDecision \<times> openAIAccountModelTransientState" where
  "mt_recordFailure_key key now s0 =
     (let s = (if mt_maxEntries s0 \<le> 0 then s0\<lparr>mt_maxEntries := openAIModelTransientDefaultMax\<rparr> else s0);
          found = map_of (mt_entries s) key;
          s1 = (if found = None then evictOldestLocked s else s);
          entry = (case found of Some e \<Rightarrow> e | None \<Rightarrow> zero_transient);
          entry1 = (if streak_restarts found now then entry\<lparr>failureStreak := 0, blockUntil := zero_time\<rparr> else entry);
          entry2 = entry1\<lparr>failureStreak := failureStreak entry1 + 1, lastFailure := now, mt_lastTouched := now\<rparr>;
          cooldown = cooldown_for (failureStreak entry2);
          entry3 = entry2\<lparr>blockUntil := (if cooldown > 0 then now + cooldown else zero_time)\<rparr>
      in (\<lparr>FailureStreak = failureStreak entry3, Cooldown = cooldown, BlockUntil = blockUntil entry3\<rparr>,
          s1\<lparr>mt_entries := put key entry3 (mt_entries s1)\<rparr>))"

definition mt_recordFailure ::
  "(string \<Rightarrow> string) \<Rightarrow> time \<Rightarrow> int \<Rightarrow> string \<Rightarrow> time \<Rightarrow> openAIAccountModelTransientState \<Rightarrow>
   openAIAccountModelTransientDecision \<times> openAIAccountModelTransientState" where
  "mt_recordFailure lower clock accountID model now s =
     (case openAIAccountModelTransientKey lower accountID model of
        None \<Rightarrow> (empty_decision, s)
      | Some key \<Rightarrow> mt_recordFailure_key key (if is_zero now then clock else now) s)"

definition mt_recordSuccess_key ::
  "openAIAccountModelKey \<Rightarrow> openAIAccountModelTransientState \<Rightarrow> openAIAccountModelTransientState" where
  "mt_recordSuccess_key key s = s\<lparr>mt_entries := drop_key key (mt_entries s)\<rparr>"

definition mt_recordSuccess ::
  "(string \<Rightarrow> string) \<Rightarrow> int \<Rightarrow> string \<Rightarrow> openAIAccountModelTransientState \<Rightarrow> openAIAccountModelTransientState" where
  "mt_recordSuccess lower accountID model s =
     (case openAIAccountModelTransientKey lower accountID model of
        None \<Rightarrow> s
      | Some key \<Rightarrow> mt_recordSuccess_key key s)"

definition mt_isBlocked_key ::
  "openAIAccountModelKey \<Rightarrow> time \<Rightarrow> openAIAccountModelTransientState \<Rightarrow> bool \<times> openAIAccountModelTransientState" where
  "mt_isBlocked_key key now s =
     (case map_of (mt_entries s) key of
        None \<Rightarrow> (False, s)
      | Some e \<Rightarrow>
          if \<not> is_zero (lastFailure e) \<and> time_sub now (lastFailure e) > openAIModelTransientStreakTTL
          then (False, s\<lparr>mt_entries := drop_key key (mt_entries s)\<rparr>)
          else (\<not> is_zero (blockUntil e) \<and> now < blockUntil e,
                s\<lparr>mt_entries := put key (e\<lparr>mt_lastTouched := now\<rparr>) (mt_entries s)\<rparr>))"

definition mt_isBlocked ::
  "(string \<Rightarrow> string) \<Rightarrow> time \<Rightarrow> int \<Rightarrow> string \<Rightarrow> time \<Rightarrow> openAIAccountModelTransientState \<Rightarrow>
   bool \<times> openAIAccountModelTransientState" where
  "mt_isBlocked lower clock accountID model now s =
     (case openAIAccountModelTransientKey lower accountID model of
        None \<Rightarrow> (False, s)
      | Some key \<Rightarrow> mt_isBlocked_key key (if is_zero now then clock else now) s)"

definition mt_size :: "openAIAccountModelTransientState \<Rightarrow> int" where
  "mt_size s = int (length (mt_entries s))"

section \<open>The breaker keeps its interface\<close>

text \<open>
  Entries hold what a failure stored: the block is the cooldown of the streak, counted from the
  last failure.
\<close>

definition entry_ok :: "openAIAccountModelTransientEntry \<Rightarrow> bool" where
  "entry_ok e \<longleftrightarrow> zero_time < lastFailure e \<and> 1 \<le> failureStreak e \<and>
     blockUntil e = (if cooldown_for (failureStreak e) > 0 then lastFailure e + cooldown_for (failureStreak e) else zero_time)"

definition transient_good :: "openAIAccountModelTransientState \<Rightarrow> bool" where
  "transient_good s \<longleftrightarrow> distinct (map fst (mt_entries s)) \<and> 0 < mt_maxEntries s \<and>
     int (length (mt_entries s)) \<le> mt_maxEntries s \<and>
     (\<forall>k e. map_of (mt_entries s) k = Some e \<longrightarrow> entry_ok e)"

lemmas cooldown_simps = cooldown_for_def openAIModelTransientLongCooldown_def openAIModelTransientShortCooldown_def

lemma transient_good_new: "transient_good (newOpenAIAccountModelTransientState n)"
  by (simp add: transient_good_def newOpenAIAccountModelTransientState_def openAIModelTransientDefaultMax_def)

text \<open>What one failure does to the state, for a state with a positive bound.\<close>

definition next_streak :: "openAIAccountModelTransientEntry option \<Rightarrow> time \<Rightarrow> int" where
  "next_streak found now = (if streak_restarts found now then 1 else failureStreak (the found) + 1)"

definition failure_entry :: "openAIAccountModelTransientEntry option \<Rightarrow> time \<Rightarrow> openAIAccountModelTransientEntry" where
  "failure_entry found now =
     (let n = next_streak found now; d = cooldown_for n in
      \<lparr>failureStreak = n, lastFailure = now, blockUntil = (if d > 0 then now + d else zero_time), mt_lastTouched = now\<rparr>)"

lemma entry_overwritten:
  "e\<lparr>failureStreak := n, lastFailure := t, mt_lastTouched := u, blockUntil := b\<rparr> =
     \<lparr>failureStreak = n, lastFailure = t, blockUntil = b, mt_lastTouched = u\<rparr>"
  for e :: openAIAccountModelTransientEntry
  by (cases e) simp

lemma mt_fail_form:
  assumes "0 < mt_maxEntries s"
  shows "mt_recordFailure_key k now s =
    (let e = failure_entry (map_of (mt_entries s) k) now in
     (\<lparr>FailureStreak = failureStreak e, Cooldown = cooldown_for (failureStreak e), BlockUntil = blockUntil e\<rparr>,
      s\<lparr>mt_entries := put k e (mt_entries (if map_of (mt_entries s) k = None then evictOldestLocked s else s))\<rparr>))"
  using assms
  by (cases "map_of (mt_entries s) k")
     (simp_all add: mt_recordFailure_key_def failure_entry_def next_streak_def evictOldestLocked_def
        zero_transient_def streak_restarts_def Let_def entry_overwritten)

lemma failure_entry_ok:
  assumes "zero_time < now" "\<And>e. found = Some e \<Longrightarrow> entry_ok e"
  shows "entry_ok (failure_entry found now)"
proof -
  have "1 \<le> next_streak found now"
    using assms(2) by (cases found) (auto simp: next_streak_def streak_restarts_def entry_ok_def)
  with assms(1) show ?thesis by (simp add: entry_ok_def failure_entry_def Let_def)
qed

lemma evict_ok:
  assumes "transient_good s"
  shows "distinct (map fst (mt_entries (evictOldestLocked s)))"
    and "int (length (mt_entries (evictOldestLocked s))) < mt_maxEntries s"
    and "map_of (mt_entries (evictOldestLocked s)) k = Some e \<Longrightarrow> map_of (mt_entries s) k = Some e"
    and "fst ` set (mt_entries (evictOldestLocked s)) \<subseteq> fst ` set (mt_entries s)"
proof -
  have ok: "distinct (map fst (mt_entries s))" "0 < mt_maxEntries s" "int (length (mt_entries s)) \<le> mt_maxEntries s"
    using assms by (simp_all add: transient_good_def)
  then show "distinct (map fst (mt_entries (evictOldestLocked s)))" by (simp add: evictOldestLocked_def)
  show "int (length (mt_entries (evictOldestLocked s))) < mt_maxEntries s"
    using drop_oldest_shorter [OF ok(1), of mt_lastTouched] ok
    by (cases "mt_entries s = []") (auto simp: evictOldestLocked_def)
  show "map_of (mt_entries (evictOldestLocked s)) k = Some e \<Longrightarrow> map_of (mt_entries s) k = Some e"
    using drop_oldest_sub [of mt_lastTouched "mt_entries s" k e] by (simp add: evictOldestLocked_def split: if_splits)
  show "fst ` set (mt_entries (evictOldestLocked s)) \<subseteq> fst ` set (mt_entries s)"
    by (auto simp: evictOldestLocked_def drop_oldest_def drop_key_def split: list.splits)
qed

lemma good_entry: "transient_good s \<Longrightarrow> map_of (mt_entries s) k = Some e \<Longrightarrow> entry_ok e"
  unfolding transient_good_def by blast

lemma fail_good:
  assumes g: "transient_good s" and t: "zero_time < now"
  shows "transient_good (snd (mt_recordFailure_key k now s))"
proof -
  let ?e = "failure_entry (map_of (mt_entries s) k) now"
  let ?m = "mt_entries (if map_of (mt_entries s) k = None then evictOldestLocked s else s)"
  have pos: "0 < mt_maxEntries s" using g by (simp add: transient_good_def)
  have "entry_ok ?e" by (rule failure_entry_ok [OF t]) (rule good_entry [OF g])
  moreover have "distinct (map fst (put k ?e ?m))" using g evict_ok(1) [OF g] by (simp add: transient_good_def)
  moreover have "int (length (put k ?e ?m)) \<le> mt_maxEntries s"
  proof (cases "map_of (mt_entries s) k = None")
    case True
    then show ?thesis using evict_ok(2) [OF g] length_put_le [of k ?e "mt_entries (evictOldestLocked s)"] by auto
  next
    case False
    with length_put_present [OF False, of ?e] False g show ?thesis
      by (simp add: transient_good_def del: map_of_eq_Some_iff not_None_eq)
  qed
  moreover have "entry_ok e'" if "k' \<noteq> k" "map_of (put k ?e ?m) k' = Some e'" for k' e'
    using that good_entry [OF g, of k' e'] evict_ok(3) [OF g, of k' e']
    by (auto split: if_splits simp del: map_of_eq_Some_iff)
  ultimately show ?thesis
    using pos by (auto simp: mt_fail_form Let_def transient_good_def split: if_splits simp del: split_paired_All map_of_eq_Some_iff)
qed

lemma transient_drop_good: "transient_good s \<Longrightarrow> transient_good (s\<lparr>mt_entries := drop_key k (mt_entries s)\<rparr>)"
  using length_drop_key_le [of k "mt_entries s"]
  by (auto simp: transient_good_def simp del: split_paired_All map_of_eq_Some_iff)

lemma transient_touch_good:
  assumes "transient_good s" "map_of (mt_entries s) k = Some e"
  shows "transient_good (s\<lparr>mt_entries := put k (e\<lparr>mt_lastTouched := t\<rparr>) (mt_entries s)\<rparr>)"
proof -
  have "entry_ok (e\<lparr>mt_lastTouched := t\<rparr>)" using good_entry [OF assms] by (simp add: entry_ok_def)
  with assms length_put_present [of "mt_entries s" k "e\<lparr>mt_lastTouched := t\<rparr>"] show ?thesis
    by (auto simp: transient_good_def simp del: split_paired_All map_of_eq_Some_iff split: if_splits)
qed

text \<open>The entries after a query.\<close>

lemma mt_probe_form:
  "snd (mt_isBlocked_key k t s) =
     (case map_of (mt_entries s) k of
        None \<Rightarrow> s
      | Some e \<Rightarrow> if \<not> is_zero (lastFailure e) \<and> time_sub t (lastFailure e) > openAIModelTransientStreakTTL
          then s\<lparr>mt_entries := drop_key k (mt_entries s)\<rparr>
          else s\<lparr>mt_entries := put k (e\<lparr>mt_lastTouched := t\<rparr>) (mt_entries s)\<rparr>)"
  by (simp add: mt_isBlocked_key_def split: option.split)

text \<open>Inside a cooldown the streak goes on.\<close>

lemma blocked_is_recent:
  assumes "entry_ok e" "lastFailure e \<le> t" "t < blockUntil e"
  shows "\<not> streak_restarts (Some e) t" and "\<not> time_sub t (lastFailure e) > openAIModelTransientStreakTTL"
    and "2 \<le> failureStreak e"
proof -
  have b: "blockUntil e \<le> lastFailure e + 45 * second" "2 \<le> failureStreak e"
    using assms by (auto simp: entry_ok_def cooldown_simps split: if_splits)
  then have "time_sub t (lastFailure e) \<le> openAIModelTransientStreakTTL"
    using assms(3) by (simp add: openAIModelTransientStreakTTL_def time_sub_le_iff min_duration_def max_duration_def)
  then show "\<not> streak_restarts (Some e) t" "\<not> time_sub t (lastFailure e) > openAIModelTransientStreakTTL"
    "2 \<le> failureStreak e"
    using assms b by (simp_all add: streak_restarts_def is_zero_def entry_ok_def)
qed

definition mt_capacity :: "openAIAccountModelTransientState \<Rightarrow> nat" where
  "mt_capacity s = nat (if mt_maxEntries s \<le> 0 then openAIModelTransientDefaultMax else mt_maxEntries s)"

lemma fail_room_form:
  assumes "transient_good s" "k \<in> fst ` set (mt_entries s) \<or> length (mt_entries s) < mt_capacity s"
  shows "mt_entries (snd (mt_recordFailure_key k t s)) =
    put k (failure_entry (map_of (mt_entries s) k) t) (mt_entries s)"
proof -
  have pos: "0 < mt_maxEntries s" using assms(1) by (simp add: transient_good_def)
  moreover have "map_of (mt_entries s) k = None \<Longrightarrow> evictOldestLocked s = s"
    using assms(2) pos by (auto simp: evictOldestLocked_def mt_capacity_def map_of_eq_None_iff)
  ultimately show ?thesis by (simp add: mt_fail_form Let_def)
qed

lemma mt_capacity_fail [simp]: "mt_capacity (snd (mt_recordFailure_key k t s)) = mt_capacity s"
  by (simp add: mt_recordFailure_key_def Let_def mt_capacity_def evictOldestLocked_def openAIModelTransientDefaultMax_def)

interpretation model_breaker: bounded_breaker mt_entries mt_capacity
  "\<lambda>k t s. snd (mt_recordFailure_key k t s)" mt_recordSuccess_key mt_isBlocked_key blockUntil lastFailure
  transient_good "\<lambda>t. zero_time < t"
proof
  fix s assume "transient_good s"
  then show "distinct (map fst (mt_entries s)) \<and> length (mt_entries s) \<le> mt_capacity s"
    by (auto simp: transient_good_def mt_capacity_def)
next
  fix k t and s :: openAIAccountModelTransientState
  show "mt_capacity (snd (mt_recordFailure_key k t s)) = mt_capacity s" by simp
next
  fix k s show "mt_capacity (mt_recordSuccess_key k s) = mt_capacity s"
    by (simp add: mt_capacity_def mt_recordSuccess_key_def)
next
  fix k t s show "mt_capacity (snd (mt_isBlocked_key k t s)) = mt_capacity s"
    by (simp add: mt_capacity_def mt_probe_form split: option.split)
next
  fix k t s assume "transient_good s" "zero_time < t"
  then show "transient_good (snd (mt_recordFailure_key k t s))" by (rule fail_good)
next
  fix k s assume "transient_good s" then show "transient_good (mt_recordSuccess_key k s)"
    by (simp add: mt_recordSuccess_key_def transient_drop_good)
next
  fix k t s assume "transient_good s" then show "transient_good (snd (mt_isBlocked_key k t s))"
    by (simp add: mt_probe_form transient_drop_good transient_touch_good split: option.split)
next
  fix k t s assume g: "transient_good s"
  then have "0 < mt_maxEntries s" by (simp add: transient_good_def)
  with evict_ok(4) [OF g] show
    "fst ` set (mt_entries (snd (mt_recordFailure_key k t s))) \<subseteq> insert k (fst ` set (mt_entries s))"
    by (simp add: mt_fail_form Let_def subset_insertI2 subset_insertI)
next
  fix k s show "fst ` set (mt_entries (mt_recordSuccess_key k s)) \<subseteq> fst ` set (mt_entries s)"
    by (simp add: mt_recordSuccess_key_def keys_drop_key)
next
  fix k t s show "fst ` set (mt_entries (snd (mt_isBlocked_key k t s))) \<subseteq> fst ` set (mt_entries s)"
  proof (cases "map_of (mt_entries s) k")
    case (Some e)
    then have "k \<in> fst ` set (mt_entries s)" by (metis map_of_eq_None_iff option.distinct(1))
    with Some keys_drop_key [of k "mt_entries s"] show ?thesis by (simp add: mt_probe_form)
  qed (simp add: mt_probe_form)
next
  fix s k' k t
  assume "transient_good s" "k' \<noteq> k" "k \<in> fst ` set (mt_entries s) \<or> length (mt_entries s) < mt_capacity s"
  then show "map_of (mt_entries (snd (mt_recordFailure_key k t s))) k' = map_of (mt_entries s) k'"
    by (simp add: fail_room_form)
next
  fix k' k s assume "k' \<noteq> (k :: openAIAccountModelKey)"
  then show "map_of (mt_entries (mt_recordSuccess_key k s)) k' = map_of (mt_entries s) k'"
    by (simp add: mt_recordSuccess_key_def)
next
  fix s k show "map_of (mt_entries (mt_recordSuccess_key k s)) k = None" by (simp add: mt_recordSuccess_key_def)
next
  fix k' k t s assume "k' \<noteq> (k :: openAIAccountModelKey)"
  then show "map_of (mt_entries (snd (mt_isBlocked_key k t s))) k' = map_of (mt_entries s) k'"
    by (simp add: mt_probe_form split: option.split)
next
  fix s k e t
  assume g: "transient_good s" and t: "zero_time < t" and e: "map_of (mt_entries s) k = Some e"
    "lastFailure e \<le> t" "t < blockUntil e"
  have pos: "0 < mt_maxEntries s" using g by (simp add: transient_good_def)
  note r = blocked_is_recent [OF good_entry [OF g e(1)] e(2,3)]
  have "entry_ok e" by (rule good_entry [OF g e(1)])
  then have "blockUntil e \<le> blockUntil (failure_entry (Some e) t)"
    using r(1,3) e(2,3) by (auto simp: failure_entry_def next_streak_def Let_def entry_ok_def cooldown_simps)
  moreover have "lastFailure (failure_entry (Some e) t) = t" by (simp add: failure_entry_def Let_def)
  ultimately show "\<exists>e'. map_of (mt_entries (snd (mt_recordFailure_key k t s))) k = Some e' \<and>
      blockUntil e \<le> blockUntil e' \<and> lastFailure e' \<le> t"
    using e(1) pos by (simp add: mt_fail_form Let_def)
next
  fix s k e t
  assume g: "transient_good s" and e: "map_of (mt_entries s) k = Some e" "lastFailure e \<le> t" "t < blockUntil e"
  from blocked_is_recent [OF good_entry [OF g e(1)] e(2,3)] e
  show "\<exists>e'. map_of (mt_entries (snd (mt_isBlocked_key k t s))) k = Some e' \<and>
      blockUntil e \<le> blockUntil e' \<and> lastFailure e' \<le> t"
    by (simp add: mt_probe_form)
next
  fix s :: openAIAccountModelTransientState and k t
  assume "map_of (mt_entries s) k = None"
  then show "\<not> fst (mt_isBlocked_key k t s)" by (simp add: mt_isBlocked_key_def)
qed

abbreviation transient_run ::
  "openAIAccountModelKey breaker_event list \<Rightarrow> openAIAccountModelTransientState \<Rightarrow> openAIAccountModelTransientState" where
  "transient_run \<equiv> breaker_run (\<lambda>k t s. snd (mt_recordFailure_key k t s)) mt_recordSuccess_key mt_isBlocked_key"

section \<open>The contract of the breaker\<close>

text \<open>
  The streak a pair has after a history: failures further apart than the TTL, or going back in
  time, start over; a success ends it; a query after the TTL forgets it. Other pairs do not count.
\<close>

fun streak_step :: "openAIAccountModelKey \<Rightarrow> openAIAccountModelKey breaker_event \<Rightarrow> (int \<times> time) option \<Rightarrow> (int \<times> time) option" where
  "streak_step k (Failed k' t) h =
     (if k' \<noteq> k then h
      else case h of
        None \<Rightarrow> Some (1, t)
      | Some (n, l) \<Rightarrow> if time_sub t l > openAIModelTransientStreakTTL \<or> t < l then Some (1, t) else Some (n + 1, t))"
| "streak_step k (Succeeded k') h = (if k' \<noteq> k then h else None)"
| "streak_step k (Probed k' t) h =
     (if k' \<noteq> k then h
      else case h of
        None \<Rightarrow> None
      | Some (n, l) \<Rightarrow> if time_sub t l > openAIModelTransientStreakTTL then None else Some (n, l))"

definition streak_after :: "openAIAccountModelKey \<Rightarrow> openAIAccountModelKey breaker_event list \<Rightarrow> (int \<times> time) option" where
  "streak_after k es = fold (streak_step k) es None"

definition streak_view :: "openAIAccountModelKey \<Rightarrow> openAIAccountModelTransientState \<Rightarrow> (int \<times> time) option" where
  "streak_view k s = map_option (\<lambda>e. (failureStreak e, lastFailure e)) (map_of (mt_entries s) k)"

definition decision_for :: "(int \<times> time) option \<Rightarrow> time \<Rightarrow> openAIAccountModelTransientDecision" where
  "decision_for h now =
     (let n = (case h of
            None \<Rightarrow> 1
          | Some (m, l) \<Rightarrow> if time_sub now l > openAIModelTransientStreakTTL \<or> now < l then 1 else m + 1);
          d = cooldown_for n
      in \<lparr>FailureStreak = n, Cooldown = d, BlockUntil = (if d > 0 then now + d else zero_time)\<rparr>)"

lemma decision_from_view:
  assumes "transient_good s"
  shows "fst (mt_recordFailure_key k now s) = decision_for (streak_view k s) now"
proof -
  have pos: "0 < mt_maxEntries s" using assms by (simp add: transient_good_def)
  show ?thesis
    using good_entry [OF assms, of k] pos
    by (cases "map_of (mt_entries s) k")
       (auto simp: mt_fail_form Let_def streak_view_def decision_for_def failure_entry_def next_streak_def
          streak_restarts_def is_zero_def entry_ok_def)
qed

lemma view_step:
  assumes g: "transient_good s" and cl: "event_clocked (\<lambda>t. zero_time < t) ev"
    and room: "event_key ev \<in> fst ` set (mt_entries s) \<or> length (mt_entries s) < mt_capacity s"
  shows "streak_view k (transient_run [ev] s) = streak_step k ev (streak_view k s)"
proof (cases ev)
  case (Failed k' t)
  with room have r: "mt_entries (snd (mt_recordFailure_key k' t s)) =
      put k' (failure_entry (map_of (mt_entries s) k') t) (mt_entries s)"
    by (intro fail_room_form [OF g]) simp
  show ?thesis
    using r good_entry [OF g, of k] Failed
    by (cases "map_of (mt_entries s) k")
       (auto simp: streak_view_def failure_entry_def next_streak_def streak_restarts_def is_zero_def entry_ok_def Let_def)
next
  case (Succeeded k')
  then show ?thesis by (simp add: streak_view_def mt_recordSuccess_key_def)
next
  case (Probed k' t)
  then show ?thesis
    using good_entry [OF g, of k]
    by (cases "map_of (mt_entries s) k'"; cases "map_of (mt_entries s) k")
       (auto simp: streak_view_def mt_probe_form is_zero_def entry_ok_def)
qed

lemma run_Cons: "transient_run (ev # es) s = transient_run es (transient_run [ev] s)"
  by (cases ev) simp_all

lemma view_run:
  assumes "transient_good s" "list_all (event_clocked (\<lambda>t. zero_time < t)) es"
    and "finite K" "card K \<le> mt_capacity s" "fst ` set (mt_entries s) \<subseteq> K" "event_key ` set es \<subseteq> K"
  shows "streak_view k (transient_run es s) = fold (streak_step k) es (streak_view k s)"
  using assms
proof (induction es arbitrary: s)
  case (Cons ev es)
  have cl: "event_clocked (\<lambda>t. zero_time < t) ev" using Cons.prems(2) by simp
  have "event_key ev \<in> K" using Cons.prems(6) by simp
  then have room: "event_key ev \<in> fst ` set (mt_entries s) \<or> length (mt_entries s) < mt_capacity s"
    by (rule model_breaker.keys_fit [OF Cons.prems(1,5,3,4)])
  have s': "transient_good (transient_run [ev] s)" "mt_capacity (transient_run [ev] s) = mt_capacity s"
    "fst ` set (mt_entries (transient_run [ev] s)) \<subseteq> insert (event_key ev) (fst ` set (mt_entries s))"
    using cl model_breaker.good_fail [OF Cons.prems(1)] model_breaker.good_succeed [OF Cons.prems(1)]
      model_breaker.good_probe [OF Cons.prems(1)] model_breaker.capacity_const
      model_breaker.fail_keys [OF Cons.prems(1)] model_breaker.succeed_keys model_breaker.probe_keys
    by (cases ev; simp add: subset_insertI2)+
  have "streak_view k (transient_run es (transient_run [ev] s)) =
      fold (streak_step k) es (streak_view k (transient_run [ev] s))"
  proof (rule Cons.IH [OF s'(1)])
    show "fst ` set (mt_entries (transient_run [ev] s)) \<subseteq> K"
      by (rule subset_trans [OF s'(3)]) (use Cons.prems(5) \<open>event_key ev \<in> K\<close> in simp)
  qed (use Cons.prems s'(2) in simp_all)
  then show ?case
    by (subst run_Cons) (simp add: view_step [OF Cons.prems(1) cl room])
qed simp



text \<open>A pair in cooldown is refused until the cooldown ends, through any history without a
  success of the pair.\<close>

theorem cooldown_lasts:
  assumes "transient_good s" "openAIAccountModelTransientKey lower accountID model = Some k" "zero_time < now"
    and "mt_recordFailure lower clock accountID model now s = (d, s')" "Cooldown d > 0"
    and "keeps_block k (BlockUntil d) now es" "list_all (event_clocked (\<lambda>t. zero_time < t)) es"
    and "card (insert k (fst ` set (mt_entries s) \<union> event_key ` set es)) \<le> mt_capacity s"
    and "zero_time < t" "t < BlockUntil d"
  shows "fst (mt_isBlocked lower clock accountID model t (transient_run es s'))"
proof -
  let ?K = "insert k (fst ` set (mt_entries s) \<union> event_key ` set es)"
  have pos: "0 < mt_maxEntries s" using assms(1) by (simp add: transient_good_def)
  have r: "mt_recordFailure_key k now s = (d, s')" using assms(2-4) by (simp add: mt_recordFailure_def is_zero_def)
  then have s': "s' = snd (mt_recordFailure_key k now s)" by simp
  obtain e where e: "map_of (mt_entries s') k = Some e" "blockUntil e = BlockUntil d" "lastFailure e = now"
    using r pos by (auto simp: mt_fail_form Let_def failure_entry_def)
  have good: "transient_good s'" unfolding s' by (rule model_breaker.good_fail [OF assms(1,3)])
  have "fst ` set (mt_entries s') \<subseteq> ?K"
    using model_breaker.fail_keys [OF assms(1), of k now] unfolding s' by blast
  with model_breaker.block_persists [OF good e(1) _ _ assms(6) _ _ _ _ assms(7), of ?K] e(2,3) assms(8)
  obtain e' where e': "map_of (mt_entries (transient_run es s')) k = Some e'" "BlockUntil d \<le> blockUntil e'"
    by (auto simp: s')
  have "transient_good (transient_run es s')"
    using model_breaker.run_bounded [OF good assms(7)] by blast
  then have ok: "entry_ok e'" using e'(1) by (rule good_entry)
  have "t < blockUntil e'" using e'(2) assms(10) by simp
  moreover have "\<not> time_sub t (lastFailure e') > openAIModelTransientStreakTTL"
    using \<open>t < blockUntil e'\<close> ok assms(9)
    by (auto simp: entry_ok_def cooldown_simps openAIModelTransientStreakTTL_def time_sub_le_iff not_less
        min_duration_def max_duration_def split: if_splits)
  ultimately show ?thesis
    using e'(1) assms(2,9) by (simp add: mt_isBlocked_def mt_isBlocked_key_def is_zero_def)
qed

definition one_failure :: openAIAccountModelTransientState where
  "one_failure = snd (mt_recordFailure_key (3, ''m'') 1 (newOpenAIAccountModelTransientState 10))"

theorem cooldown_lasts_witness:
  "fst (mt_isBlocked (\<lambda>s. s) 0 3 ''m'' (9 * second)
     (transient_run [Failed (4, ''m'') 3, Probed (3, ''m'') 4, Succeeded (4, ''m'')]
       (snd (mt_recordFailure (\<lambda>s. s) 0 3 ''m'' 2 one_failure))))"
proof -
  have k: "openAIAccountModelTransientKey (\<lambda>s. s) 3 ''m'' = Some (3, ''m'')" by code_simp
  have g: "transient_good one_failure"
    unfolding one_failure_def by (rule fail_good [OF transient_good_new]) (simp add: zero_time_def)
  have f: "mt_recordFailure (\<lambda>s. s) 0 3 ''m'' 2 one_failure =
      (\<lparr>FailureStreak = 2, Cooldown = 10 * second, BlockUntil = 10 * second + 2\<rparr>,
       snd (mt_recordFailure (\<lambda>s. s) 0 3 ''m'' 2 one_failure))"
    by (simp add: prod_eq_iff mt_recordFailure_def k one_failure_def mt_recordFailure_key_def streak_restarts_def
      newOpenAIAccountModelTransientState_def zero_transient_def cooldown_simps is_zero_def zero_time_def time_sub_def
      evictOldestLocked_def openAIModelTransientStreakTTL_def Let_def min_duration_def max_duration_def)
  have e: "fst ` set (mt_entries one_failure) = {(3, ''m'')}" "mt_capacity one_failure = 10"
    by (simp_all add: one_failure_def mt_fail_form Let_def newOpenAIAccountModelTransientState_def evictOldestLocked_def mt_capacity_def)
  show ?thesis
    by (rule cooldown_lasts [OF g k _ f]) (simp_all add: e zero_time_def insert_commute)
qed

text \<open>The breaker never tracks more than \<open>maxEntries\<close> pairs.\<close>

theorem transient_bounded:
  assumes "list_all (event_clocked (\<lambda>t. zero_time < t)) es"
  shows "mt_size (transient_run es (newOpenAIAccountModelTransientState n)) \<le>
    mt_maxEntries (newOpenAIAccountModelTransientState n)"
  using model_breaker.run_bounded [OF transient_good_new assms, of n]
  by (auto simp: mt_size_def mt_capacity_def newOpenAIAccountModelTransientState_def openAIModelTransientDefaultMax_def)

theorem transient_bounded_witness:
  "mt_size (transient_run [Failed (1, ''a'') 1, Failed (2, ''b'') 2] (newOpenAIAccountModelTransientState 1)) \<le>
     mt_maxEntries (newOpenAIAccountModelTransientState 1)"
  by (rule transient_bounded) (simp add: zero_time_def)

end
