(* ===== verification/InvalidAuthLimiter.thy ===== *)
theory InvalidAuthLimiter
  imports GoPrelude "HOL-Library.Word"
begin

text \<open>
  \<open>service/invalid_auth_abuse_limiter.go\<close>: the limiter that blocks clients presenting
  invalid credentials. Its sixteen shards are a list of association lists, picked by the FNV-1a
  hash of the client key; counters are at their width. A call is one step: the shard and
  overflow locks of the code make the parts of a call atomic, and calls are taken one after the
  other. The clock \<open>l.now()\<close> is an argument. The lemmas relate the shards to one flat map
  and show when clients are blocked.
\<close>

unbundle bit_operations_syntax

definition invalidAuthAbuseShardCount :: nat where
  "invalidAuthAbuseShardCount = 16"

record invalidAuthAbuseEntry =
  ia_failures :: int
  ia_windowStart :: time
  ia_blockedUntil :: time

type_synonym invalidAuthAbuseShard = "(string \<times> invalidAuthAbuseEntry) list"

record invalidAuthAbuseLimiter =
  ia_threshold :: int
  ia_window :: duration
  ia_block :: duration
  ia_capacity :: int
  ia_shards :: "invalidAuthAbuseShard list"
  ia_overflow :: invalidAuthAbuseEntry
  ia_tracked :: int
  ia_recorded :: "64 word"
  ia_blocked :: "64 word"
  ia_rejected :: "64 word"
  ia_expired :: "64 word"
  ia_overflowed :: "64 word"
  ia_globalBlocked :: "64 word"
  ia_cleanupNext :: int
  ia_cleanupCursor :: "32 word"

record InvalidAuthAbuseHealth =
  h_Enabled :: bool
  h_Tracked :: int
  h_Capacity :: int
  h_Recorded :: "64 word"
  h_Blocks :: "64 word"
  h_Rejected :: "64 word"
  h_Expired :: "64 word"
  h_Overflowed :: "64 word"
  h_GlobalBlocked :: "64 word"

record invalid_abuse_config =
  ic_Enabled :: bool
  ic_Threshold :: int
  ic_WindowSeconds :: int
  ic_BlockSeconds :: int
  ic_Capacity :: int

definition new_abuse_entry :: "time \<Rightarrow> invalidAuthAbuseEntry" where
  "new_abuse_entry start = \<lparr>ia_failures = 0, ia_windowStart = start, ia_blockedUntil = zero_time\<rparr>"

definition newInvalidAuthAbuseLimiter :: "invalid_abuse_config option \<Rightarrow> invalidAuthAbuseLimiter option" where
  "newInvalidAuthAbuseLimiter cfg =
     (case cfg of
        None \<Rightarrow> None
      | Some c \<Rightarrow>
          if \<not> ic_Enabled c then None
          else if ic_Threshold c \<le> 0 \<or> ic_WindowSeconds c \<le> 0 \<or> ic_BlockSeconds c \<le> 0 \<or> ic_Capacity c \<le> 0 then None
          else Some \<lparr>ia_threshold = ic_Threshold c, ia_window = int64_wrap (ic_WindowSeconds c * second),
            ia_block = int64_wrap (ic_BlockSeconds c * second), ia_capacity = ic_Capacity c,
            ia_shards = replicate invalidAuthAbuseShardCount [], ia_overflow = new_abuse_entry zero_time,
            ia_tracked = 0, ia_recorded = 0, ia_blocked = 0, ia_rejected = 0, ia_expired = 0,
            ia_overflowed = 0, ia_globalBlocked = 0, ia_cleanupNext = 0, ia_cleanupCursor = 0\<rparr>)"

definition entryExpired :: "invalidAuthAbuseLimiter \<Rightarrow> invalidAuthAbuseEntry \<Rightarrow> time \<Rightarrow> bool" where
  "entryExpired l e now \<longleftrightarrow>
     \<not> ia_blockedUntil e > now \<and> \<not> ia_windowStart e > now \<and> \<not> now < ia_windowStart e + ia_window l"

definition fnv1a :: "string \<Rightarrow> 32 word" where
  "fnv1a key = foldl (\<lambda>hash c. (hash XOR of_nat (of_char c)) * 16777619) 2166136261 key"

definition shard_index :: "string \<Rightarrow> nat" where
  "shard_index key = unat (fnv1a key mod of_nat invalidAuthAbuseShardCount)"

definition shard_of :: "invalidAuthAbuseLimiter \<Rightarrow> string \<Rightarrow> invalidAuthAbuseShard" where
  "shard_of l key = ia_shards l ! shard_index key"

definition set_shard :: "nat \<Rightarrow> invalidAuthAbuseShard \<Rightarrow> invalidAuthAbuseLimiter \<Rightarrow> invalidAuthAbuseLimiter" where
  "set_shard i m l = l\<lparr>ia_shards := (ia_shards l)[i := m]\<rparr>"

definition maybeCleanupAtCapacity :: "time \<Rightarrow> invalidAuthAbuseLimiter \<Rightarrow> invalidAuthAbuseLimiter" where
  "maybeCleanupAtCapacity now l =
     (if ia_tracked l < ia_capacity l then l
      else if now < ia_cleanupNext l then l
      else
        let index = unat (ia_cleanupCursor l mod of_nat invalidAuthAbuseShardCount);
            old = ia_shards l ! index;
            kept = filter (\<lambda>p. \<not> entryExpired l (snd p) now) old;
            gone = length old - length kept
        in set_shard index kept l
             \<lparr>ia_cleanupNext := now + 100 * millisecond, ia_cleanupCursor := ia_cleanupCursor l + 1,
              ia_tracked := ia_tracked l - int gone, ia_expired := ia_expired l + of_nat gone\<rparr>)"

text \<open>The expired entry of a client is dropped before it is looked at.\<close>

definition drop_expired :: "string \<Rightarrow> time \<Rightarrow> invalidAuthAbuseLimiter \<Rightarrow> invalidAuthAbuseLimiter" where
  "drop_expired key now l =
     (case map_of (shard_of l key) key of
        None \<Rightarrow> l
      | Some e \<Rightarrow>
          if entryExpired l e now
          then set_shard (shard_index key) (drop_key key (shard_of l key)) l
                 \<lparr>ia_tracked := ia_tracked l - 1, ia_expired := ia_expired l + 1\<rparr>
          else l)"

definition checkOverflow :: "time \<Rightarrow> invalidAuthAbuseLimiter \<Rightarrow> duration \<times> bool" where
  "checkOverflow now l =
     (if ia_blockedUntil (ia_overflow l) > now then (time_sub (ia_blockedUntil (ia_overflow l)) now, True)
      else (0, False))"

definition recordOverflow :: "time \<Rightarrow> invalidAuthAbuseLimiter \<Rightarrow> invalidAuthAbuseLimiter" where
  "recordOverflow now l0 =
     (let l = l0\<lparr>ia_overflowed := ia_overflowed l0 + 1\<rparr>; o0 = ia_overflow l in
      if ia_blockedUntil o0 > now then l
      else
        let o1 = (if is_zero (ia_windowStart o0) \<or> \<not> now < ia_windowStart o0 + ia_window l
                  then o0\<lparr>ia_windowStart := now, ia_failures := 0\<rparr> else o0);
            o2 = o1\<lparr>ia_failures := ia_failures o1 + 1\<rparr>
        in if ia_failures o2 \<ge> ia_threshold l
           then l\<lparr>ia_overflow := \<lparr>ia_failures = 0, ia_windowStart = now + ia_block l, ia_blockedUntil = now + ia_block l\<rparr>,
                  ia_blocked := ia_blocked l + 1\<rparr>
           else l\<lparr>ia_overflow := o2\<rparr>)"

text \<open>A failure of a client whose entry is at hand: the new entry and whether it blocks.\<close>

definition count_failure ::
  "invalidAuthAbuseLimiter \<Rightarrow> time \<Rightarrow> invalidAuthAbuseEntry \<Rightarrow> invalidAuthAbuseEntry \<times> bool" where
  "count_failure l now e =
     (if ia_blockedUntil e > now then (e, False)
      else
        let e1 = (if ia_windowStart e > now \<or> \<not> now < ia_windowStart e + ia_window l
                  then e\<lparr>ia_windowStart := now, ia_failures := 0\<rparr> else e);
            e2 = e1\<lparr>ia_failures := ia_failures e1 + 1\<rparr>
        in if ia_failures e2 \<ge> ia_threshold l
           then (\<lparr>ia_failures = 0, ia_windowStart = now + ia_block l, ia_blockedUntil = now + ia_block l\<rparr>, True)
           else (e2, False))"

definition ia_check :: "string \<Rightarrow> time \<Rightarrow> invalidAuthAbuseLimiter \<Rightarrow> (duration \<times> bool) \<times> invalidAuthAbuseLimiter" where
  "ia_check clientKey now l0 =
     (if clientKey = '''' then ((0, False), l0)
      else
        let l = drop_expired clientKey now (maybeCleanupAtCapacity now l0);
            entry = map_of (shard_of l clientKey) clientKey
        in case entry of
             Some e \<Rightarrow>
               if ia_blockedUntil e > now
               then ((time_sub (ia_blockedUntil e) now, True), l\<lparr>ia_rejected := ia_rejected l + 1\<rparr>)
               else ((0, False), l)
           | None \<Rightarrow>
               if ia_tracked l \<ge> ia_capacity l
               then (case checkOverflow now l of (retry, blocked) \<Rightarrow>
                      if blocked
                      then ((retry, True),
                            l\<lparr>ia_rejected := ia_rejected l + 1, ia_globalBlocked := ia_globalBlocked l + 1\<rparr>)
                      else ((0, False), l))
               else ((0, False), l))"

definition ia_record :: "string \<Rightarrow> time \<Rightarrow> invalidAuthAbuseLimiter \<Rightarrow> invalidAuthAbuseLimiter" where
  "ia_record clientKey now l0 =
     (if clientKey = '''' then l0
      else
        let l1 = l0\<lparr>ia_recorded := ia_recorded l0 + 1\<rparr>;
            l = drop_expired clientKey now (maybeCleanupAtCapacity now l1);
            store = (\<lambda>e l'. let r = count_failure l' now e in
               set_shard (shard_index clientKey) (put clientKey (fst r) (shard_of l' clientKey)) l'
                 \<lparr>ia_blocked := ia_blocked l' + (if snd r then 1 else 0)\<rparr>)
        in case map_of (shard_of l clientKey) clientKey of
             Some e \<Rightarrow> store e l
           | None \<Rightarrow>
               if ia_tracked l \<ge> ia_capacity l then recordOverflow now l
               else store (new_abuse_entry now) (l\<lparr>ia_tracked := ia_tracked l + 1\<rparr>))"

definition ia_health :: "invalidAuthAbuseLimiter \<Rightarrow> InvalidAuthAbuseHealth" where
  "ia_health l =
     \<lparr>h_Enabled = True, h_Tracked = ia_tracked l, h_Capacity = ia_capacity l, h_Recorded = ia_recorded l,
      h_Blocks = ia_blocked l, h_Rejected = ia_rejected l, h_Expired = ia_expired l,
      h_Overflowed = ia_overflowed l, h_GlobalBlocked = ia_globalBlocked l\<rparr>"

text \<open>The methods of the API key service, which has no limiter when it is switched off.\<close>

definition CheckInvalidAuthAbuse ::
  "string \<Rightarrow> time \<Rightarrow> invalidAuthAbuseLimiter option \<Rightarrow> (duration \<times> bool) \<times> invalidAuthAbuseLimiter option" where
  "CheckInvalidAuthAbuse clientKey now s =
     (case s of
        None \<Rightarrow> ((0, False), None)
      | Some l \<Rightarrow> (case ia_check clientKey now l of (r, l') \<Rightarrow> (r, Some l')))"

definition RecordInvalidAuthFailure ::
  "string \<Rightarrow> time \<Rightarrow> invalidAuthAbuseLimiter option \<Rightarrow> invalidAuthAbuseLimiter option" where
  "RecordInvalidAuthFailure clientKey now s = map_option (ia_record clientKey now) s"

definition ia_service_health :: "invalidAuthAbuseLimiter option \<Rightarrow> InvalidAuthAbuseHealth" where
  "ia_service_health s =
     (case s of
        None \<Rightarrow> \<lparr>h_Enabled = False, h_Tracked = 0, h_Capacity = 0, h_Recorded = 0, h_Blocks = 0,
          h_Rejected = 0, h_Expired = 0, h_Overflowed = 0, h_GlobalBlocked = 0\<rparr>
      | Some l \<Rightarrow> ia_health l)"

section \<open>The shards as one map\<close>

definition abuse_entry :: "invalidAuthAbuseLimiter \<Rightarrow> string \<Rightarrow> invalidAuthAbuseEntry option" where
  "abuse_entry l key = map_of (shard_of l key) key"

definition shards_ok :: "invalidAuthAbuseLimiter \<Rightarrow> bool" where
  "shards_ok l \<longleftrightarrow> length (ia_shards l) = invalidAuthAbuseShardCount \<and>
     (\<forall>i < invalidAuthAbuseShardCount. distinct (map fst (ia_shards l ! i)) \<and>
        (\<forall>k \<in> fst ` set (ia_shards l ! i). shard_index k = i))"

definition tracked_ok :: "invalidAuthAbuseLimiter \<Rightarrow> bool" where
  "tracked_ok l \<longleftrightarrow> ia_tracked l = int (sum_list (map length (ia_shards l))) \<and> ia_tracked l \<le> ia_capacity l"

lemma shard_index_less [simp]: "shard_index k < invalidAuthAbuseShardCount"
proof -
  have "fnv1a k mod 16 < 16" by (rule word_mod_less_divisor) simp
  then show ?thesis by (simp add: shard_index_def invalidAuthAbuseShardCount_def word_less_nat_alt)
qed

lemma cursor_index_less [simp]: "unat (c mod of_nat invalidAuthAbuseShardCount) < invalidAuthAbuseShardCount"
  for c :: "32 word"
proof -
  have "c mod 16 < 16" by (rule word_mod_less_divisor) simp
  then show ?thesis by (simp add: invalidAuthAbuseShardCount_def word_less_nat_alt)
qed

definition same_settings :: "invalidAuthAbuseLimiter \<Rightarrow> invalidAuthAbuseLimiter \<Rightarrow> bool" where
  "same_settings l l' \<longleftrightarrow> ia_threshold l' = ia_threshold l \<and> ia_window l' = ia_window l \<and>
     ia_block l' = ia_block l \<and> ia_capacity l' = ia_capacity l"

definition limiter_ok :: "invalidAuthAbuseLimiter \<Rightarrow> bool" where
  "limiter_ok l \<longleftrightarrow> shards_ok l \<and> tracked_ok l"

lemma abuse_entry_set_shard:
  assumes "shards_ok l" "i < invalidAuthAbuseShardCount"
  shows "map_of (shard_of (set_shard i m l) k) k = (if shard_index k = i then map_of m k else abuse_entry l k)"
  using assms by (simp add: shard_of_def set_shard_def abuse_entry_def shards_ok_def)

lemma set_shard_ok:
  assumes "limiter_ok l" "i < invalidAuthAbuseShardCount" "distinct (map fst m)" "\<forall>k \<in> fst ` set m. shard_index k = i"
    and "d = int (length m) - int (length (ia_shards l ! i))" "ia_tracked l + d \<le> ia_capacity l"
  shows "limiter_ok (set_shard i m l\<lparr>ia_tracked := ia_tracked l + d\<rparr>)"
proof -
  have len: "i < length (ia_shards l)" using assms(1,2) by (simp add: limiter_ok_def shards_ok_def)
  then have "length (ia_shards l ! i) \<le> sum_list (map length (ia_shards l))"
    using elem_le_sum_list [of i "map length (ia_shards l)"] by simp
  then have "int (sum_list (map length ((ia_shards l)[i := m]))) =
      int (sum_list (map length (ia_shards l))) + d"
    using len assms(5) by (simp add: map_update sum_list_update of_nat_diff)
  then show ?thesis
    using assms by (auto simp: limiter_ok_def shards_ok_def tracked_ok_def set_shard_def nth_list_update)
qed

lemma limiter_ok_cong:
  "ia_shards l' = ia_shards l \<Longrightarrow> ia_tracked l' = ia_tracked l \<Longrightarrow> ia_capacity l' = ia_capacity l \<Longrightarrow>
     limiter_ok l' = limiter_ok l"
  by (simp add: limiter_ok_def shards_ok_def tracked_ok_def)

text \<open>What sweeping expired entries may change.\<close>

definition swept :: "time \<Rightarrow> invalidAuthAbuseLimiter \<Rightarrow> invalidAuthAbuseLimiter \<Rightarrow> bool" where
  "swept now l l' \<longleftrightarrow> limiter_ok l' \<and> same_settings l l' \<and> ia_overflow l' = ia_overflow l \<and>
     (\<forall>k. abuse_entry l' k = abuse_entry l k \<or>
        abuse_entry l' k = None \<and> (\<exists>e. abuse_entry l k = Some e \<and> entryExpired l e now))"

lemma swept_refl: "limiter_ok l \<Longrightarrow> swept now l l"
  by (simp add: swept_def same_settings_def)

lemma swept_trans: "swept now l l' \<Longrightarrow> swept now l' l'' \<Longrightarrow> swept now l l''"
  unfolding swept_def same_settings_def entryExpired_def by (elim conjE, intro conjI) (simp_all, metis)

lemma swept_cleanup:
  assumes ok: "limiter_ok l"
  shows "swept now l (maybeCleanupAtCapacity now l)"
proof (cases "ia_tracked l < ia_capacity l \<or> now < ia_cleanupNext l")
  case True
  then show ?thesis using swept_refl [OF ok] by (auto simp: maybeCleanupAtCapacity_def)
next
  case False
  define i where "i = unat (ia_cleanupCursor l mod of_nat invalidAuthAbuseShardCount)"
  have i: "i < invalidAuthAbuseShardCount" by (simp add: i_def)
  let ?m = "filter (\<lambda>p. \<not> entryExpired l (snd p) now) (ia_shards l ! i)"
  let ?d = "int (length ?m) - int (length (ia_shards l ! i))"
  let ?l = "set_shard i ?m l\<lparr>ia_tracked := ia_tracked l + ?d\<rparr>"
  have sh: "distinct (map fst (ia_shards l ! i))" "\<forall>k \<in> fst ` set (ia_shards l ! i). shard_index k = i"
    "shards_ok l" using ok i by (simp_all add: limiter_ok_def shards_ok_def)
  have "ia_tracked l \<le> ia_capacity l" using ok by (simp add: limiter_ok_def tracked_ok_def)
  then have "ia_tracked l + ?d \<le> ia_capacity l"
    using length_filter_le [of "\<lambda>p. \<not> entryExpired l (snd p) now" "ia_shards l ! i"] by linarith
  then have okl: "limiter_ok ?l"
    using ok sh i by (intro set_shard_ok) (simp_all add: distinct_keys_filter)
  have eq: "ia_shards (maybeCleanupAtCapacity now l) = ia_shards ?l" "ia_tracked (maybeCleanupAtCapacity now l) = ia_tracked ?l"
    "same_settings l (maybeCleanupAtCapacity now l)" "ia_capacity (maybeCleanupAtCapacity now l) = ia_capacity ?l"
    "ia_overflow (maybeCleanupAtCapacity now l) = ia_overflow l"
    using False by (simp_all add: maybeCleanupAtCapacity_def Let_def same_settings_def set_shard_def of_nat_diff i_def)
  have view: "abuse_entry (maybeCleanupAtCapacity now l) k = (if shard_index k = i then map_of ?m k else abuse_entry l k)" for k
    using abuse_entry_set_shard [OF sh(3) i, of ?m k] eq(1) by (simp add: abuse_entry_def shard_of_def)
  have "map_of ?m k = map_of (ia_shards l ! i) k \<or>
      map_of ?m k = None \<and> (\<exists>e. map_of (ia_shards l ! i) k = Some e \<and> entryExpired l e now)" for k
    using map_of_filter_live [OF sh(1), of "\<lambda>e. \<not> entryExpired l e now" k] by (auto split: option.splits if_splits)
  then show ?thesis
    unfolding swept_def using okl eq view limiter_ok_cong [OF eq(1,2,4)]
    by (auto simp: abuse_entry_def shard_of_def)
qed

lemma shard_of_ok:
  assumes "limiter_ok l"
  shows "distinct (map fst (shard_of l k))" "\<forall>k' \<in> fst ` set (shard_of l k). shard_index k' = shard_index k"
  using assms by (simp_all add: limiter_ok_def shards_ok_def shard_of_def)

lemma set_own_shard_ok:
  assumes ok: "limiter_ok l" and m: "distinct (map fst m)" "fst ` set m \<subseteq> insert k (fst ` set (shard_of l k))"
    and d: "d = int (length m) - int (length (shard_of l k))" "ia_tracked l + d \<le> ia_capacity l"
  shows "limiter_ok (set_shard (shard_index k) m l\<lparr>ia_tracked := ia_tracked l + d\<rparr>)"
proof (rule set_shard_ok [OF ok shard_index_less m(1)])
  show "\<forall>k' \<in> fst ` set m. shard_index k' = shard_index k"
  proof
    fix k' assume "k' \<in> fst ` set m"
    then have "k' = k \<or> k' \<in> fst ` set (shard_of l k)" using m(2) by (meson in_mono insert_iff)
    then show "shard_index k' = shard_index k" using shard_of_ok(2) [OF ok, of k] by (elim disjE) (simp, rule bspec)
  qed
qed (use d in \<open>simp_all add: shard_of_def\<close>)

lemma swept_drop_expired:
  assumes ok: "limiter_ok l"
  shows "swept now l (drop_expired k now l)"
proof (cases "\<exists>e. map_of (shard_of l k) k = Some e \<and> entryExpired l e now")
  case False
  then have "drop_expired k now l = l" by (auto simp: drop_expired_def split: option.split)
  then show ?thesis using swept_refl [OF ok] by simp
next
  case True
  then obtain e where e: "map_of (shard_of l k) k = Some e" "entryExpired l e now" by blast
  let ?m = "drop_key k (shard_of l k)"
  let ?l = "set_shard (shard_index k) ?m l\<lparr>ia_tracked := ia_tracked l + - 1\<rparr>"
  have "Suc (length ?m) = length (shard_of l k)"
    using e(1) by (intro length_drop_key_present [OF shard_of_ok(1) [OF ok]]) simp
  moreover have "ia_tracked l \<le> ia_capacity l" using ok by (simp add: limiter_ok_def tracked_ok_def)
  ultimately have okl: "limiter_ok ?l"
    by (intro set_own_shard_ok [OF ok] distinct_keys_drop_key shard_of_ok(1) [OF ok] subset_insertI2 keys_drop_key)
       simp_all
  have eq: "drop_expired k now l = ?l\<lparr>ia_expired := ia_expired l + 1\<rparr>"
    using e by (simp add: drop_expired_def)
  have "shards_ok l" using ok by (simp add: limiter_ok_def)
  from abuse_entry_set_shard [OF this, of "shard_index k" ?m]
  have view: "abuse_entry (drop_expired k now l) k' =
      (if shard_index k' = shard_index k then map_of ?m k' else abuse_entry l k')" for k'
    unfolding eq by (simp add: abuse_entry_def shard_of_def)
  have views: "abuse_entry (drop_expired k now l) k' = abuse_entry l k' \<or>
      abuse_entry (drop_expired k now l) k' = None \<and> (\<exists>e. abuse_entry l k' = Some e \<and> entryExpired l e now)" for k'
  proof (cases "k' = k")
    case True
    with view [of k'] e show ?thesis by (simp add: abuse_entry_def)
  next
    case False
    with view [of k'] show ?thesis by (simp add: abuse_entry_def shard_of_def)
  qed
  have okd: "limiter_ok (drop_expired k now l)" unfolding eq using okl limiter_ok_cong [of "?l\<lparr>ia_expired := ia_expired l + 1\<rparr>" ?l] by simp
  have st: "same_settings l (drop_expired k now l)" "ia_overflow (drop_expired k now l) = ia_overflow l"
    unfolding eq by (simp_all add: same_settings_def set_shard_def)
  show ?thesis
    unfolding swept_def by (intro conjI allI okd st views)
qed

definition ready :: "string \<Rightarrow> time \<Rightarrow> invalidAuthAbuseLimiter \<Rightarrow> invalidAuthAbuseLimiter" where
  "ready k now l = drop_expired k now (maybeCleanupAtCapacity now l)"

lemma swept_ready: "limiter_ok l \<Longrightarrow> swept now l (ready k now l)"
  unfolding ready_def
  using swept_cleanup [of l now] by (meson swept_def swept_drop_expired swept_trans)

lemma ready_unexpired:
  assumes "limiter_ok l" "abuse_entry (ready k now l) k = Some e"
  shows "\<not> entryExpired l e now"
proof -
  let ?l = "maybeCleanupAtCapacity now l"
  have ok: "limiter_ok ?l" "ia_window ?l = ia_window l"
    using swept_cleanup [OF assms(1), of now] by (simp_all add: swept_def same_settings_def)
  have sh: "shards_ok ?l" using ok(1) by (simp add: limiter_ok_def)
  show ?thesis
  proof (cases "\<exists>e'. map_of (shard_of ?l k) k = Some e' \<and> entryExpired ?l e' now")
    case False
    then have "ready k now l = ?l" by (auto simp: ready_def drop_expired_def split: option.split)
    with False assms(2) ok(2) show ?thesis by (auto simp: abuse_entry_def entryExpired_def)
  next
    case True
    then have "abuse_entry (ready k now l) k = None"
      using abuse_entry_set_shard [OF sh, of "shard_index k" "drop_key k (shard_of ?l k)" k]
      by (auto simp: ready_def drop_expired_def abuse_entry_def shard_of_def)
    with assms(2) show ?thesis by simp
  qed
qed

lemma swept_live:
  "swept now l l' \<Longrightarrow> abuse_entry l k = Some e \<Longrightarrow> \<not> entryExpired l e now \<Longrightarrow> abuse_entry l' k = Some e"
  unfolding swept_def by (metis option.inject)

lemma swept_sub: "swept now l l' \<Longrightarrow> abuse_entry l' k = Some e \<Longrightarrow> abuse_entry l k = Some e"
  unfolding swept_def by (metis option.distinct(1))

lemma recordOverflow_keeps:
  "limiter_ok (recordOverflow now l) = limiter_ok l" "abuse_entry (recordOverflow now l) k = abuse_entry l k"
  "same_settings l (recordOverflow now l)"
  by (simp_all add: recordOverflow_def Let_def limiter_ok_def shards_ok_def tracked_ok_def abuse_entry_def
    shard_of_def same_settings_def)

text \<open>Storing the counted entry of a client.\<close>

lemma store_entry:
  assumes ok: "limiter_ok l" and room: "abuse_entry l k = None \<Longrightarrow> ia_tracked l < ia_capacity l"
    and l': "ia_shards l' = (ia_shards l)[shard_index k := put k e (shard_of l k)]"
      "ia_tracked l' = ia_tracked l + (if abuse_entry l k = None then 1 else 0)" "ia_capacity l' = ia_capacity l"
  shows "limiter_ok l'" and "abuse_entry l' k' = (if k' = k then Some e else abuse_entry l k')"
proof -
  let ?m = "put k e (shard_of l k)"
  let ?d = "if abuse_entry l k = None then 1 else 0 :: int"
  let ?l = "set_shard (shard_index k) ?m l\<lparr>ia_tracked := ia_tracked l + ?d\<rparr>"
  have "ia_tracked l + ?d \<le> ia_capacity l" using room ok by (auto simp: limiter_ok_def tracked_ok_def)
  then have "limiter_ok ?l"
    by (intro set_own_shard_ok [OF ok] distinct_keys_put shard_of_ok(1) [OF ok])
       (simp_all only: keys_put subset_refl length_put [OF shard_of_ok(1) [OF ok]] abuse_entry_def, simp split: if_split)
  then show "limiter_ok l'" using l' limiter_ok_cong [of l' ?l] by (simp add: set_shard_def)
  have "shards_ok l" using ok by (simp add: limiter_ok_def)
  from abuse_entry_set_shard [OF this, of "shard_index k" ?m k']
  show "abuse_entry l' k' = (if k' = k then Some e else abuse_entry l k')"
    using l'(1) by (auto simp: abuse_entry_def shard_of_def set_shard_def)
qed

section \<open>What a call does to the entries\<close>

lemma same_settings_simps:
  assumes "same_settings l l'"
  shows "count_failure l' now e = count_failure l now e" "entryExpired l' e now = entryExpired l e now"
    "ia_threshold l' = ia_threshold l" "ia_window l' = ia_window l" "ia_block l' = ia_block l" "ia_capacity l' = ia_capacity l"
  using assms by (simp_all add: same_settings_def count_failure_def entryExpired_def Let_def)

lemma swept_counters:
  assumes "swept now l r" "ia_shards l' = ia_shards r" "ia_tracked l' = ia_tracked r" "same_settings r l'"
    "ia_overflow l' = ia_overflow r"
  shows "swept now l l'"
proof -
  have "limiter_ok l' = limiter_ok r" by (rule limiter_ok_cong) (use assms same_settings_simps(6) in auto)
  moreover have "abuse_entry l' k = abuse_entry r k" for k using assms(2) by (simp add: abuse_entry_def shard_of_def)
  ultimately show ?thesis using assms(1,4,5) by (simp add: swept_def same_settings_def)
qed

lemma check_sweeps:
  assumes "limiter_ok l"
  shows "swept now l (snd (ia_check k now l))"
proof (cases "k = ''''")
  case False
  note r = swept_ready [OF assms, of now k]
  have c: "swept now l (ready k now l\<lparr>ia_rejected := n\<rparr>)"
    "swept now l (ready k now l\<lparr>ia_rejected := n, ia_globalBlocked := m\<rparr>)" for n m
    by (intro swept_counters [OF r]; simp add: same_settings_def)+
  show ?thesis
    using False r c by (simp add: ia_check_def ready_def [symmetric] Let_def split: option.split prod.split)
qed (simp add: ia_check_def swept_refl assms)

lemma check_own_block:
  assumes "limiter_ok l" "k \<noteq> ''''" "abuse_entry l k = Some e" "now < ia_blockedUntil e"
  shows "fst (ia_check k now l) = (time_sub (ia_blockedUntil e) now, True)"
proof -
  have "abuse_entry (ready k now l) k = Some e"
    using swept_live [OF swept_ready [OF assms(1)] assms(3)] assms(4) by (simp add: entryExpired_def)
  then show ?thesis using assms(2,4) by (simp add: ia_check_def ready_def abuse_entry_def Let_def)
qed

text \<open>The state a recorded failure finds.\<close>

definition record_ready :: "string \<Rightarrow> time \<Rightarrow> invalidAuthAbuseLimiter \<Rightarrow> invalidAuthAbuseLimiter" where
  "record_ready k now l = ready k now (l\<lparr>ia_recorded := ia_recorded l + 1\<rparr>)"

definition found_entry :: "string \<Rightarrow> time \<Rightarrow> invalidAuthAbuseLimiter \<Rightarrow> invalidAuthAbuseEntry" where
  "found_entry k now r = (case abuse_entry r k of Some e \<Rightarrow> e | None \<Rightarrow> new_abuse_entry now)"

lemma swept_record_ready:
  assumes "limiter_ok l"
  shows "swept now l (record_ready k now l)"
proof -
  let ?l = "l\<lparr>ia_recorded := ia_recorded l + 1\<rparr>"
  have "swept now l ?l" by (rule swept_counters [OF swept_refl [OF assms]]) (simp_all add: same_settings_def)
  moreover then have "swept now ?l (record_ready k now l)"
    unfolding record_ready_def by (intro swept_ready) (simp add: swept_def)
  ultimately show ?thesis by (rule swept_trans)
qed

lemma record_full:
  assumes "k \<noteq> ''''" "abuse_entry (record_ready k now l) k = None"
    "ia_capacity (record_ready k now l) \<le> ia_tracked (record_ready k now l)"
  shows "ia_record k now l = recordOverflow now (record_ready k now l)"
  using assms by (simp add: ia_record_def record_ready_def ready_def abuse_entry_def Let_def)

lemma record_stored:
  assumes ok: "limiter_ok l" and k: "k \<noteq> ''''"
    and room: "abuse_entry (record_ready k now l) k = None \<Longrightarrow>
      ia_tracked (record_ready k now l) < ia_capacity (record_ready k now l)"
  shows "limiter_ok (ia_record k now l)" "same_settings l (ia_record k now l)"
    "ia_overflow (ia_record k now l) = ia_overflow l"
    "abuse_entry (ia_record k now l) k' = (if k' = k
       then Some (fst (count_failure l now (found_entry k now (record_ready k now l))))
       else abuse_entry (record_ready k now l) k')"
proof -
  let ?r = "record_ready k now l"
  let ?e = "fst (count_failure l now (found_entry k now ?r))"
  have sw: "swept now l ?r" by (rule swept_record_ready [OF ok])
  then have r: "limiter_ok ?r" "same_settings l ?r" "ia_overflow ?r = ia_overflow l" by (simp_all add: swept_def)
  have cf: "count_failure ?r now e = count_failure l now e" for e by (rule same_settings_simps(1) [OF r(2)])
  have cf': "count_failure (?r\<lparr>ia_tracked := n\<rparr>) now e = count_failure l now e" for e n
    by (rule same_settings_simps(1)) (use r(2) in \<open>simp add: same_settings_def\<close>)
  have form: "\<exists>b. ia_record k now l = set_shard (shard_index k) (put k ?e (shard_of ?r k))
      (?r\<lparr>ia_tracked := ia_tracked ?r + (if abuse_entry ?r k = None then 1 else 0)\<rparr>)\<lparr>ia_blocked := b\<rparr>"
  proof (cases "abuse_entry ?r k")
    case None
    then show ?thesis using k room [OF None]
      by (auto simp: ia_record_def record_ready_def [symmetric] ready_def [symmetric] abuse_entry_def found_entry_def
        Let_def cf' shard_of_def)
  next
    case (Some e)
    then show ?thesis using k
      by (auto simp: ia_record_def record_ready_def [symmetric] ready_def [symmetric] abuse_entry_def found_entry_def
        Let_def cf)
  qed
  then obtain b where b: "ia_record k now l = set_shard (shard_index k) (put k ?e (shard_of ?r k))
      (?r\<lparr>ia_tracked := ia_tracked ?r + (if abuse_entry ?r k = None then 1 else 0)\<rparr>)\<lparr>ia_blocked := b\<rparr>" ..
  have l': "ia_shards (ia_record k now l) = (ia_shards ?r)[shard_index k := put k ?e (shard_of ?r k)]"
    "ia_tracked (ia_record k now l) = ia_tracked ?r + (if abuse_entry ?r k = None then 1 else 0)"
    "ia_capacity (ia_record k now l) = ia_capacity ?r" "ia_overflow (ia_record k now l) = ia_overflow ?r"
    "same_settings ?r (ia_record k now l)"
    unfolding b by (simp_all add: set_shard_def same_settings_def)
  show "limiter_ok (ia_record k now l)" using store_entry(1) [OF r(1) room l'(1-3)] .
  show "same_settings l (ia_record k now l)" using l'(5) r(2) by (simp add: same_settings_def)
  show "ia_overflow (ia_record k now l) = ia_overflow l" using l'(4) r(3) by simp
  show "abuse_entry (ia_record k now l) k' = (if k' = k then Some ?e else abuse_entry ?r k')"
    using store_entry(2) [OF r(1) room l'(1-3)] .
qed

text \<open>A recorded failure in every case.\<close>

lemma record_keeps:
  assumes ok: "limiter_ok l"
  shows "limiter_ok (ia_record k now l) \<and> same_settings l (ia_record k now l)"
proof (cases "k = ''''")
  case True
  then show ?thesis using ok by (simp add: ia_record_def same_settings_def)
next
  case False
  let ?r = "record_ready k now l"
  have r: "limiter_ok ?r" "same_settings l ?r"
    using swept_record_ready [OF ok, of now k] by (simp_all add: swept_def)
  show ?thesis
  proof (cases "abuse_entry ?r k = None \<and> ia_capacity ?r \<le> ia_tracked ?r")
    case True
    then have "ia_record k now l = recordOverflow now ?r" using record_full [OF False] by blast
    with r recordOverflow_keeps(1) [of now ?r] recordOverflow_keeps(3) [of ?r now] show ?thesis by (simp add: same_settings_def)
  next
    case f: False
    then have room: "abuse_entry ?r k = None \<Longrightarrow> ia_tracked ?r < ia_capacity ?r" by auto
    show ?thesis using record_stored(1,2) [OF ok False room] by simp
  qed
qed

lemma record_other:
  assumes ok: "limiter_ok l" and "k' \<noteq> k" "abuse_entry l k' = Some e" "\<not> entryExpired l e now"
  shows "abuse_entry (ia_record k now l) k' = Some e"
proof (cases "k = ''''")
  case True
  then show ?thesis using assms by (simp add: ia_record_def)
next
  case False
  let ?r = "record_ready k now l"
  have r: "abuse_entry ?r k' = Some e" by (rule swept_live [OF swept_record_ready [OF ok] assms(3,4)])
  show ?thesis
  proof (cases "abuse_entry ?r k = None \<and> ia_capacity ?r \<le> ia_tracked ?r")
    case True
    then have "ia_record k now l = recordOverflow now ?r" using record_full [OF False] by blast
    with r show ?thesis by (simp add: recordOverflow_keeps(2))
  next
    case f: False
    then have "abuse_entry ?r k = None \<Longrightarrow> ia_tracked ?r < ia_capacity ?r" by auto
    then show ?thesis using record_stored(4) [OF ok False, of now k'] r assms(2) by simp
  qed
qed

section \<open>Histories\<close>

datatype client_call = CheckCall string time | FailureCall string time

fun call_time :: "client_call \<Rightarrow> time" where
  "call_time (CheckCall k t) = t"
| "call_time (FailureCall k t) = t"

fun limiter_call :: "client_call \<Rightarrow> invalidAuthAbuseLimiter \<Rightarrow> invalidAuthAbuseLimiter" where
  "limiter_call (CheckCall k t) l = snd (ia_check k t l)"
| "limiter_call (FailureCall k t) l = ia_record k t l"

abbreviation limiter_run :: "client_call list \<Rightarrow> invalidAuthAbuseLimiter \<Rightarrow> invalidAuthAbuseLimiter" where
  "limiter_run \<equiv> fold limiter_call"

text \<open>The times at which a client was reported.\<close>

fun failure_times :: "string \<Rightarrow> client_call list \<Rightarrow> time list" where
  "failure_times k [] = []"
| "failure_times k (FailureCall k' t # cs) = (if k' = k then t # failure_times k cs else failure_times k cs)"
| "failure_times k (CheckCall k' t # cs) = failure_times k cs"

fun failing_client :: "client_call \<Rightarrow> string option" where
  "failing_client (FailureCall k t) = Some k"
| "failing_client (CheckCall k t) = None"

definition failing_clients :: "client_call list \<Rightarrow> string set" where
  "failing_clients cs = {k. Some k \<in> failing_client ` set cs}"

lemma finite_failing [simp]: "finite (failing_clients cs)"
  using finite_vimageI [of "failing_client ` set cs" Some] by (simp add: failing_clients_def vimage_def)

lemma failure_times_append [simp]: "failure_times k (cs @ ds) = failure_times k cs @ failure_times k ds"
  by (induction k cs rule: failure_times.induct) simp_all

lemma call_ok: "limiter_ok l \<Longrightarrow> limiter_ok (limiter_call c l) \<and> same_settings l (limiter_call c l)"
  using check_sweeps record_keeps by (cases c) (simp_all add: swept_def)

lemma run_ok: "limiter_ok l \<Longrightarrow> limiter_ok (limiter_run cs l) \<and> same_settings l (limiter_run cs l)"
proof (induction cs arbitrary: l)
  case (Cons c cs)
  then show ?case using call_ok [OF Cons.prems, of c] by (simp add: same_settings_def)
qed (simp add: same_settings_def)

lemma new_limiter:
  assumes "newInvalidAuthAbuseLimiter cfg = Some l"
  shows "limiter_ok l" "abuse_entry l k = None" "ia_overflow l = new_abuse_entry zero_time" "ia_tracked l = 0"
proof -
  have l: "ia_shards l = replicate 16 []" "ia_tracked l = 0" "0 < ia_capacity l" "ia_overflow l = new_abuse_entry zero_time"
    using assms by (auto simp: newInvalidAuthAbuseLimiter_def invalidAuthAbuseShardCount_def split: option.splits if_splits)
  show "limiter_ok l"
    using l by (simp add: limiter_ok_def shards_ok_def tracked_ok_def invalidAuthAbuseShardCount_def sum_list_replicate)
  show "abuse_entry l k = None"
    using l shard_index_less [of k] by (simp add: abuse_entry_def shard_of_def invalidAuthAbuseShardCount_def)
qed (use assms in \<open>auto simp: newInvalidAuthAbuseLimiter_def split: option.splits if_splits\<close>)

lemma tracked_card:
  assumes "limiter_ok l"
  shows "ia_tracked l = int (card {k. abuse_entry l k \<noteq> None})"
proof -
  let ?K = "\<lambda>i. fst ` set (ia_shards l ! i)"
  have sh: "length (ia_shards l) = invalidAuthAbuseShardCount"
    "\<And>i. i < invalidAuthAbuseShardCount \<Longrightarrow> distinct (map fst (ia_shards l ! i))"
    "\<And>i k. i < invalidAuthAbuseShardCount \<Longrightarrow> k \<in> ?K i \<Longrightarrow> shard_index k = i"
    using assms unfolding limiter_ok_def shards_ok_def by blast+
  have "{k. abuse_entry l k \<noteq> None} = (\<Union>i \<in> {..<invalidAuthAbuseShardCount}. ?K i)"
  proof (intro set_eqI iffI)
    fix k assume "k \<in> {k. abuse_entry l k \<noteq> None}"
    then have "k \<in> ?K (shard_index k)" by (simp add: abuse_entry_def shard_of_def map_of_eq_None_iff del: not_None_eq)
    then show "k \<in> (\<Union>i \<in> {..<invalidAuthAbuseShardCount}. ?K i)" using shard_index_less by blast
  next
    fix k assume "k \<in> (\<Union>i \<in> {..<invalidAuthAbuseShardCount}. ?K i)"
    then obtain i where i: "i < invalidAuthAbuseShardCount" "k \<in> ?K i" by blast
    with sh(3) [OF i] show "k \<in> {k. abuse_entry l k \<noteq> None}"
      by (simp add: abuse_entry_def shard_of_def map_of_eq_None_iff del: not_None_eq)
  qed
  also have "card \<dots> = (\<Sum>i < invalidAuthAbuseShardCount. card (?K i))"
    by (rule card_UN_disjoint) (use sh(3) in \<open>simp_all, blast\<close>)
  also have "\<dots> = (\<Sum>i < invalidAuthAbuseShardCount. length (ia_shards l ! i))"
  proof (rule sum.cong [OF refl])
    fix i assume "i \<in> {..<invalidAuthAbuseShardCount}"
    then show "card (?K i) = length (ia_shards l ! i)"
      using distinct_card [OF sh(2), of i] by simp
  qed
  also have "\<dots> = sum_list (map length (ia_shards l))"
    using sh(1) by (simp add: sum_list_sum_nth atLeast0LessThan)
  finally show ?thesis using assms by (simp add: limiter_ok_def tracked_ok_def)
qed

text \<open>Through every history of checks and failures, whatever the clock does, the published
  number of tracked clients is the number of clients that have an entry, and it stays within the
  capacity.\<close>

theorem tracked_is_bounded_count:
  assumes "newInvalidAuthAbuseLimiter cfg = Some l"
  shows "h_Tracked (ia_health (limiter_run cs l)) = int (card {k. abuse_entry (limiter_run cs l) k \<noteq> None}) \<and>
    h_Tracked (ia_health (limiter_run cs l)) \<le> ia_capacity l"
proof -
  have ok: "limiter_ok (limiter_run cs l)" "same_settings l (limiter_run cs l)"
    using run_ok [OF new_limiter(1) [OF assms], of cs] by auto
  then show ?thesis
    using tracked_card [OF ok(1)] by (simp add: ia_health_def limiter_ok_def tracked_ok_def same_settings_def)
qed

definition small_limiter :: invalidAuthAbuseLimiter where
  "small_limiter = the (newInvalidAuthAbuseLimiter (Some \<lparr>ic_Enabled = True, ic_Threshold = 3,
     ic_WindowSeconds = 60, ic_BlockSeconds = 300, ic_Capacity = 2\<rparr>))"

lemma small_limiter_new:
  "newInvalidAuthAbuseLimiter (Some \<lparr>ic_Enabled = True, ic_Threshold = 3, ic_WindowSeconds = 60,
     ic_BlockSeconds = 300, ic_Capacity = 2\<rparr>) = Some small_limiter"
  by (simp add: small_limiter_def newInvalidAuthAbuseLimiter_def)

lemma small_limiter_settings:
  "ia_threshold small_limiter = 3" "ia_window small_limiter = minute" "ia_block small_limiter = 5 * minute"
  "ia_capacity small_limiter = 2"
  by (simp_all add: small_limiter_def newInvalidAuthAbuseLimiter_def int64_wrap_def)

theorem tracked_is_bounded_count_witness:
  "h_Tracked (ia_health (limiter_run [FailureCall ''a'' 0, FailureCall ''b'' 1, FailureCall ''c'' 2] small_limiter)) \<le> 2"
  using tracked_is_bounded_count [OF small_limiter_new] unfolding small_limiter_settings by blast

section \<open>Who is blocked\<close>

text \<open>The entry of a client after \<open>n\<close> failures in a window that began at \<open>start\<close>.\<close>

definition counted :: "invalidAuthAbuseLimiter \<Rightarrow> time \<Rightarrow> int \<Rightarrow> invalidAuthAbuseEntry \<Rightarrow> bool" where
  "counted l start n e \<longleftrightarrow> start \<le> ia_windowStart e \<and>
     (start + ia_block l \<le> ia_blockedUntil e \<or>
      ia_blockedUntil e = zero_time \<and> ia_windowStart e = start \<and> ia_failures e = n \<and> n < ia_threshold l)"

lemma counted_alive:
  "counted l start n e \<Longrightarrow> t < start + ia_window l \<Longrightarrow> \<not> entryExpired l e t"
  by (auto simp: counted_def entryExpired_def)

lemma counted_failure:
  assumes "counted l start n e" "start \<le> t" "t < start + ia_window l" "zero_time \<le> start" "0 \<le> ia_block l"
  shows "counted l start (n + 1) (fst (count_failure l t e))"
  using assms by (auto simp: counted_def count_failure_def Let_def)

lemma counted_first:
  assumes "zero_time \<le> start" "0 < ia_window l" "0 \<le> ia_block l"
  shows "counted l start 1 (fst (count_failure l start (new_abuse_entry start)))"
  using assms by (auto simp: counted_def count_failure_def new_abuse_entry_def Let_def)

lemma counted_same: "same_settings l l' \<Longrightarrow> counted l' start n e = counted l start n e"
  by (simp add: counted_def same_settings_simps)

lemma counted_call:
  assumes ok: "limiter_ok l" and k: "k \<noteq> ''''" and e: "abuse_entry l k = Some e" "counted l start n e"
    and t: "start \<le> call_time c" "call_time c < start + ia_window l" and z: "zero_time \<le> start" "0 \<le> ia_block l"
  shows "\<exists>e'. abuse_entry (limiter_call c l) k = Some e' \<and>
    counted l start (n + int (length (failure_times k [c]))) e'"
proof -
  note alive = counted_alive [OF e(2) t(2)]
  show ?thesis
  proof (cases c)
    case (CheckCall k' t')
    then show ?thesis
      using swept_live [OF check_sweeps [OF ok, of t' k'] e(1)] alive e(2) by simp
  next
    case (FailureCall k' t')
    show ?thesis
    proof (cases "k' = k")
      case False
      then show ?thesis using record_other [OF ok _ e(1), of k' t'] FailureCall alive e(2) by auto
    next
      case True
      have r: "abuse_entry (record_ready k t' l) k = Some e"
        using swept_live [OF swept_record_ready [OF ok] e(1)] alive FailureCall by simp
      then have "abuse_entry (ia_record k t' l) k = Some (fst (count_failure l t' e))"
        using record_stored(4) [OF ok k, of t' k] by (simp add: found_entry_def)
      then show ?thesis
        using True FailureCall counted_failure [OF e(2) _ _ z, of t'] t by simp
    qed
  qed
qed

lemma counted_run:
  assumes "limiter_ok l" "k \<noteq> ''''" "abuse_entry l k = Some e" "counted l start n e"
    and "\<forall>c \<in> set cs. start \<le> call_time c \<and> call_time c < start + ia_window l"
    and "zero_time \<le> start" "0 \<le> ia_block l"
  shows "\<exists>e'. abuse_entry (limiter_run cs l) k = Some e' \<and>
    counted l start (n + int (length (failure_times k cs))) e'"
  using assms
proof (induction cs arbitrary: l e n)
  case (Cons c cs)
  have c: "start \<le> call_time c" "call_time c < start + ia_window l" using Cons.prems(5) by simp_all
  from counted_call [OF Cons.prems(1-4) c Cons.prems(6,7)] obtain e' where
    e': "abuse_entry (limiter_call c l) k = Some e'" "counted l start (n + int (length (failure_times k [c]))) e'" by blast
  have ok: "limiter_ok (limiter_call c l)" "same_settings l (limiter_call c l)" using call_ok [OF Cons.prems(1)] by auto
  have "failure_times k (c # cs) = failure_times k [c] @ failure_times k cs"
    using failure_times_append [of k "[c]" cs] by simp
  with Cons.IH [OF ok(1) Cons.prems(2) e'(1), of "n + int (length (failure_times k [c]))"]
    counted_same [OF ok(2)] same_settings_simps(4,5) [OF ok(2)] e'(2) Cons.prems(5-7)
  show ?case by (simp add: add.assoc)
qed auto



text \<open>The failures of a client in the window that starts at a given time.\<close>

definition failures_in :: "duration \<Rightarrow> string \<Rightarrow> client_call list \<Rightarrow> time \<Rightarrow> int" where
  "failures_in w k cs s = int (length (filter (\<lambda>t. s \<le> t \<and> t < s + w) (failure_times k cs)))"

definition modest :: "invalidAuthAbuseLimiter \<Rightarrow> string \<Rightarrow> client_call list \<Rightarrow> bool" where
  "modest l k cs \<longleftrightarrow> list_all (\<lambda>s. failures_in (ia_window l) k cs s < ia_threshold l) (failure_times k cs)"

definition modest_entry :: "invalidAuthAbuseLimiter \<Rightarrow> string \<Rightarrow> client_call list \<Rightarrow> invalidAuthAbuseEntry \<Rightarrow> bool" where
  "modest_entry l k cs e \<longleftrightarrow> ia_blockedUntil e = zero_time \<and> ia_windowStart e \<in> set (failure_times k cs) \<and>
     ia_failures e \<le> failures_in (ia_window l) k cs (ia_windowStart e)"

lemma failures_in_snoc:
  "failures_in w k (cs @ [c]) s = failures_in w k cs s + failures_in w k [c] s"
  by (simp add: failures_in_def)

lemma failures_in_nonneg: "0 \<le> failures_in w k cs s"
  by (simp add: failures_in_def)

lemma modest_prefix:
  assumes "modest l k (cs @ [c])"
  shows "modest l k cs"
  unfolding modest_def list_all_iff
proof
  fix s assume "s \<in> set (failure_times k cs)"
  with assms have "failures_in (ia_window l) k (cs @ [c]) s < ia_threshold l"
    by (auto simp: modest_def list_all_iff)
  with failures_in_nonneg [of "ia_window l" k "[c]" s] show "failures_in (ia_window l) k cs s < ia_threshold l"
    by (simp add: failures_in_snoc)
qed

lemma modest_entry_later: "modest_entry l k cs e \<Longrightarrow> modest_entry l k (cs @ [c]) e"
  using failures_in_nonneg [of "ia_window l" k "[c]" "ia_windowStart e"]
  by (simp add: modest_entry_def failures_in_snoc)

lemma modest_failure:
  assumes m: "modest l k (cs @ [FailureCall k t])" and w: "0 < ia_window l"
    and e: "modest_entry l k cs e \<or> e = new_abuse_entry t"
  shows "modest_entry l k (cs @ [FailureCall k t]) (fst (count_failure l t e))"
proof -
  let ?cs = "cs @ [FailureCall k t]"
  let ?n = "\<lambda>s. failures_in (ia_window l) k ?cs s"
  have less: "?n s < ia_threshold l" if "s \<in> set (failure_times k ?cs)" for s
    using m that unfolding modest_def list_all_iff by blast
  have one: "1 \<le> ?n t"
    using w failures_in_nonneg [of "ia_window l" k cs t] by (simp add: failures_in_snoc) (simp add: failures_in_def)
  have here: "?n s = failures_in (ia_window l) k cs s + 1" if "s \<le> t" "t < s + ia_window l" for s
    using that by (simp add: failures_in_snoc) (simp add: failures_in_def)
  have t: "t \<in> set (failure_times k ?cs)" by simp
  show ?thesis
  proof (cases "ia_windowStart e > t \<or> \<not> t < ia_windowStart e + ia_window l \<or> e = new_abuse_entry t")
    case True
    then have "\<not> 1 \<ge> ia_threshold l" using less [OF t] one by linarith
    with True e one show ?thesis
      by (auto simp: count_failure_def modest_entry_def new_abuse_entry_def Let_def)
         (auto simp: failures_in_def)
  next
    case False
    with e have e': "modest_entry l k cs e" by blast
    then have ws: "ia_windowStart e \<in> set (failure_times k ?cs)" by (simp add: modest_entry_def)
    from less [OF ws] here [of "ia_windowStart e"] False e' show ?thesis
      by (auto simp: count_failure_def modest_entry_def Let_def)
  qed
qed

text \<open>A quiet limiter: it never ran full, so its overflow bucket is untouched.\<close>

definition quiet :: "invalidAuthAbuseLimiter \<Rightarrow> client_call list \<Rightarrow> invalidAuthAbuseLimiter \<Rightarrow> bool" where
  "quiet l0 cs l \<longleftrightarrow> limiter_ok l \<and> same_settings l0 l \<and> ia_overflow l = new_abuse_entry zero_time \<and>
     {k. abuse_entry l k \<noteq> None} \<subseteq> failing_clients cs"

lemma quiet_swept:
  assumes "quiet l0 cs l" "swept now l l'"
  shows "quiet l0 cs l'"
proof -
  have "{k. abuse_entry l' k \<noteq> None} \<subseteq> {k. abuse_entry l k \<noteq> None}"
    using swept_sub [OF assms(2)] by auto
  with assms show ?thesis by (auto simp: quiet_def swept_def same_settings_def)
qed

lemma failing_snoc:
  "failing_clients (cs @ [CheckCall k t]) = failing_clients cs"
  "failing_clients (cs @ [FailureCall k t]) = insert k (failing_clients cs)"
  by (auto simp: failing_clients_def)

lemma failing_clients_simps:
  "failing_clients [] = {}" "failing_clients (CheckCall k t # cs) = failing_clients cs"
  "failing_clients (FailureCall k t # cs) = insert k (failing_clients cs)"
  by (auto simp: failing_clients_def)

lemma card_failing_snoc: "card (failing_clients cs) \<le> card (failing_clients (cs @ [c]))"
  by (rule card_mono [OF finite_failing]) (auto simp: failing_clients_def)

lemma quiet_room:
  assumes "quiet l0 cs l" "card (insert k (failing_clients cs)) \<le> nat (ia_capacity l0)" "abuse_entry l k = None"
  shows "ia_tracked l < ia_capacity l"
proof -
  have "{k. abuse_entry l k \<noteq> None} \<subset> insert k (failing_clients cs)"
  proof (rule psubsetI)
    show "{k. abuse_entry l k \<noteq> None} \<noteq> insert k (failing_clients cs)"
      using assms(3) by (metis (mono_tags, lifting) insertI1 mem_Collect_eq)
  qed (use assms(1) in \<open>auto simp: quiet_def\<close>)
  then have "card {k. abuse_entry l k \<noteq> None} < card (insert k (failing_clients cs))"
    by (rule psubset_card_mono [rotated]) simp
  then show ?thesis
    using assms(1,2) tracked_card [of l] same_settings_simps(6) [of l0 l] by (simp add: quiet_def)
qed

lemma quiet_call:
  assumes q: "quiet l0 cs l" and cap: "card (failing_clients (cs @ [c])) \<le> nat (ia_capacity l0)"
  shows "quiet l0 (cs @ [c]) (limiter_call c l)"
proof (cases c)
  case (CheckCall k t)
  with q show ?thesis
    using quiet_swept [OF q check_sweeps, of k t] by (simp add: quiet_def failing_snoc)
next
  case (FailureCall k t)
  have ok: "limiter_ok l" using q by (simp add: quiet_def)
  show ?thesis
  proof (cases "k = ''''")
    case True
    then show ?thesis using q FailureCall by (auto simp: ia_record_def quiet_def failing_snoc)
  next
    case False
    let ?r = "record_ready k t l"
    have r: "quiet l0 cs ?r" by (rule quiet_swept [OF q swept_record_ready [OF ok]])
    have room: "abuse_entry ?r k = None \<Longrightarrow> ia_tracked ?r < ia_capacity ?r"
      using quiet_room [OF r] cap FailureCall by (simp add: failing_snoc)
    note st = record_stored [OF ok False room]
    have "{k'. abuse_entry (ia_record k t l) k' \<noteq> None} \<subseteq> insert k {k'. abuse_entry ?r k' \<noteq> None}"
      using st(4) by auto
    then show ?thesis
      using st(1-3) r q FailureCall by (auto simp: quiet_def failing_snoc same_settings_def)
  qed
qed

lemma quiet_run:
  assumes "newInvalidAuthAbuseLimiter cfg = Some l" "card (failing_clients cs) \<le> nat (ia_capacity l)"
  shows "quiet l cs (limiter_run cs l)"
  using assms(2)
proof (induction cs rule: rev_induct)
  case Nil
  then show ?case using new_limiter [OF assms(1)] by (simp add: quiet_def same_settings_def)
next
  case (snoc c cs)
  with card_failing_snoc [of cs c] have "quiet l cs (limiter_run cs l)" by simp
  then show ?case using quiet_call [of l cs _ c] snoc.prems by simp
qed

lemma modest_run:
  assumes new: "newInvalidAuthAbuseLimiter cfg = Some l" and k: "k \<noteq> ''''" and w: "0 < ia_window l"
    and cap: "card (failing_clients cs) \<le> nat (ia_capacity l)" and m: "modest l k cs"
    and e: "abuse_entry (limiter_run cs l) k = Some e"
  shows "modest_entry l k cs e"
  using cap m e
proof (induction cs arbitrary: e rule: rev_induct)
  case Nil
  then show ?case using new_limiter(2) [OF new] by simp
next
  case (snoc c cs)
  let ?l = "limiter_run cs l"
  have cap': "card (failing_clients cs) \<le> nat (ia_capacity l)"
    by (rule order_trans [OF card_failing_snoc snoc.prems(1)])
  have IH: "modest_entry l k cs e'" if "abuse_entry ?l k = Some e'" for e'
    using snoc.IH [OF cap' modest_prefix [OF snoc.prems(2)] that] .
  have q: "quiet l cs ?l" by (rule quiet_run [OF new cap'])
  then have ok: "limiter_ok ?l" and st: "same_settings l ?l" by (simp_all add: quiet_def)
  have later: "modest_entry l k (cs @ [c]) e" if "abuse_entry ?l k = Some e"
    by (rule modest_entry_later [OF IH [OF that]])
  show ?case
  proof (cases c)
    case (CheckCall k' t)
    then show ?thesis using later swept_sub [OF check_sweeps [OF ok]] snoc.prems(3) by simp
  next
    case (FailureCall k' t)
    show ?thesis
    proof (cases "k' = ''''")
      case True
      then show ?thesis using later snoc.prems(3) FailureCall by (simp add: ia_record_def)
    next
      case False
      let ?r = "record_ready k' t ?l"
      have sw: "swept t ?l ?r" by (rule swept_record_ready [OF ok])
      have room: "abuse_entry ?r k' = None \<Longrightarrow> ia_tracked ?r < ia_capacity ?r"
        using quiet_room [OF quiet_swept [OF q sw], of k'] snoc.prems(1) FailureCall by (simp add: failing_snoc)
      note stored = record_stored(4) [OF ok False room, of k]
      show ?thesis
      proof (cases "k' = k")
        case False
        then show ?thesis using later swept_sub [OF sw] stored snoc.prems(3) FailureCall by simp
      next
        case True
        have "modest_entry l k cs (found_entry k t ?r) \<or> found_entry k t ?r = new_abuse_entry t"
          using IH swept_sub [OF sw] True by (auto simp: found_entry_def split: option.split)
        from modest_failure [OF snoc.prems(2) [unfolded FailureCall True] w this] stored snoc.prems(3) FailureCall True
        show ?thesis by (simp add: same_settings_simps(1) [OF st])
      qed
    qed
  qed
qed

text \<open>nobody is refused by mistake. A client with fewer than \<open>threshold\<close> failures in every
  window that starts at one of its failures is admitted, as long as no more clients have failed
  than the limiter can track.\<close>

theorem modest_client_admitted:
  assumes "newInvalidAuthAbuseLimiter cfg = Some l" "0 < ia_window l"
    and "card (failing_clients cs) \<le> nat (ia_capacity l)" "modest l k cs" "zero_time \<le> t"
  shows "fst (ia_check k t (limiter_run cs l)) = (0, False)"
proof (cases "k = ''''")
  case True
  then show ?thesis by (simp add: ia_check_def)
next
  case False
  let ?l = "limiter_run cs l" and ?r = "ready k t (limiter_run cs l)"
  have q: "quiet l cs ?l" by (rule quiet_run [OF assms(1,3)])
  then have sw: "swept t ?l ?r" by (intro swept_ready) (simp add: quiet_def)
  have "ia_overflow ?r = new_abuse_entry zero_time" using q sw by (simp add: swept_def quiet_def)
  then have over: "checkOverflow t ?r = (0, False)" using assms(5) by (simp add: checkOverflow_def new_abuse_entry_def)
  have "\<not> t < ia_blockedUntil e" if "abuse_entry ?r k = Some e" for e
    using modest_run [OF assms(1) False assms(2-4) swept_sub [OF sw that]] assms(5) by (simp add: modest_entry_def)
  with over show ?thesis
    by (simp add: ia_check_def ready_def [symmetric] abuse_entry_def Let_def split: option.split)
qed

theorem modest_client_admitted_witness:
  "fst (ia_check ''y'' second (limiter_run
     [FailureCall ''x'' 0, FailureCall ''x'' 1, FailureCall ''y'' 2, FailureCall ''x'' 3, FailureCall ''y'' 4] small_limiter))
     = (0, False)"
  by (rule modest_client_admitted [OF small_limiter_new])
     (simp_all add: small_limiter_settings zero_time_def modest_def failures_in_def failing_clients_simps insert_commute)

end
