(* ===== verification/BatchImageJob.thy ===== *)
theory BatchImageJob
  imports BillingHolds
begin

text \<open>
  The lifecycle of a batch image job: \<open>service/batch_image.go\<close> (statuses, transitions, records) and
  \<open>repository/batch_image_repo.go\<close> (every statement on the tables of jobs, items and events).

  The tables are lists in the order of their identifiers. A statement is a function on the tables;
  \<open>sql_exec\<close> adds the faults of the connection. A transaction is one such function that leaves the
  tables alone when it ends in an error. Payloads of events are kept as the named values before
  they are written as JSON. Column widths are not modelled.
\<close>

section \<open>Statuses and errors\<close>

definition BatchImageProviderGeminiAPI :: string where
  "BatchImageProviderGeminiAPI = ''gemini_api''"

definition BatchImageProviderVertex :: string where
  "BatchImageProviderVertex = ''vertex''"

definition BatchImageJobStatusCreated :: string where
  "BatchImageJobStatusCreated = ''created''"

definition BatchImageJobStatusUploading :: string where
  "BatchImageJobStatusUploading = ''uploading''"

definition BatchImageJobStatusSubmitted :: string where
  "BatchImageJobStatusSubmitted = ''submitted''"

definition BatchImageJobStatusRunning :: string where
  "BatchImageJobStatusRunning = ''running''"

definition BatchImageJobStatusIndexing :: string where
  "BatchImageJobStatusIndexing = ''indexing''"

definition BatchImageJobStatusSettling :: string where
  "BatchImageJobStatusSettling = ''settling''"

definition BatchImageJobStatusCompleted :: string where
  "BatchImageJobStatusCompleted = ''completed''"

definition BatchImageJobStatusFailed :: string where
  "BatchImageJobStatusFailed = ''failed''"

definition BatchImageJobStatusCancelled :: string where
  "BatchImageJobStatusCancelled = ''cancelled''"

definition BatchImageJobStatusOutputDeleted :: string where
  "BatchImageJobStatusOutputDeleted = ''output_deleted''"

definition BatchImageItemStatusPending :: string where
  "BatchImageItemStatusPending = ''pending''"

definition BatchImageItemStatusSuccess :: string where
  "BatchImageItemStatusSuccess = ''success''"

definition BatchImageItemStatusFailed :: string where
  "BatchImageItemStatusFailed = ''failed''"

definition BatchImageItemStatusCancelled :: string where
  "BatchImageItemStatusCancelled = ''cancelled''"

definition ErrBatchImageJobNotFound :: go_error where
  "ErrBatchImageJobNotFound = New 404 ''BATCH_IMAGE_JOB_NOT_FOUND'' ''batch image job not found''"

definition ErrBatchImageJobExists :: go_error where
  "ErrBatchImageJobExists = New 409 ''BATCH_IMAGE_JOB_EXISTS'' ''batch image job already exists''"

definition ErrBatchImageItemExists :: go_error where
  "ErrBatchImageItemExists = New 409 ''BATCH_IMAGE_ITEM_EXISTS'' ''batch image item already exists''"

definition ErrBatchImageInvalidTransition :: go_error where
  "ErrBatchImageInvalidTransition = New 400 ''BATCH_IMAGE_INVALID_TRANSITION'' ''invalid batch image job status transition''"

definition ErrBatchImageInvalidProvider :: go_error where
  "ErrBatchImageInvalidProvider = New 400 ''BATCH_IMAGE_INVALID_PROVIDER'' ''invalid batch image provider''"

definition ErrBatchImageIndexStateConflict :: go_error where
  "ErrBatchImageIndexStateConflict = New 409 ''BATCH_IMAGE_INDEX_STATE_CONFLICT'' ''batch image job is no longer in indexing state''"

definition ErrBatchImageSettlementInvalidStatus :: go_error where
  "ErrBatchImageSettlementInvalidStatus = New 400 ''BATCH_IMAGE_SETTLEMENT_INVALID_STATUS'' ''batch image job is not ready for settlement''"

definition ErrBatchImageSettlementManifestConflict :: go_error where
  "ErrBatchImageSettlementManifestConflict = New 409 ''BATCH_IMAGE_SETTLEMENT_MANIFEST_CONFLICT'' ''batch image settlement manifest hash conflict''"

definition ErrBatchImageSettlementPricingMissing :: go_error where
  "ErrBatchImageSettlementPricingMissing = New 400 ''BATCH_IMAGE_SETTLEMENT_PRICING_MISSING'' ''batch image settlement pricing is missing''"

definition ErrBatchImageSettlementBillingFailed :: go_error where
  "ErrBatchImageSettlementBillingFailed = New 502 ''BATCH_IMAGE_SETTLEMENT_BILLING_FAILED'' ''batch image settlement billing failed''"

definition ErrBatchImageAlreadySettled :: go_error where
  "ErrBatchImageAlreadySettled = New 409 ''BATCH_IMAGE_ALREADY_SETTLED'' ''batch image job is already settled''"

definition ErrBatchImageSettlementMissingAPIKeyID :: go_error where
  "ErrBatchImageSettlementMissingAPIKeyID = New 400 ''BATCH_IMAGE_SETTLEMENT_MISSING_API_KEY_ID'' ''batch image settlement api key id is missing''"

definition ErrBatchImageSettlementMissingAccountID :: go_error where
  "ErrBatchImageSettlementMissingAccountID = New 400 ''BATCH_IMAGE_SETTLEMENT_MISSING_ACCOUNT_ID'' ''batch image settlement account id is missing''"

definition ErrBatchImageSettlementInvalidCounts :: go_error where
  "ErrBatchImageSettlementInvalidCounts = New 400 ''BATCH_IMAGE_SETTLEMENT_INVALID_COUNTS'' ''batch image settlement counts are invalid''"

definition ErrBatchImageBillingHoldFailed :: go_error where
  "ErrBatchImageBillingHoldFailed = New 502 ''BATCH_IMAGE_BILLING_HOLD_FAILED'' ''batch image balance hold failed''"

definition ErrBatchImageItemNotFound :: go_error where
  "ErrBatchImageItemNotFound = New 404 ''BATCH_IMAGE_ITEM_NOT_FOUND'' ''batch image item not found''"

definition ErrBatchImageRecordDeleteNotReady :: go_error where
  "ErrBatchImageRecordDeleteNotReady = New 409 ''BATCH_IMAGE_RECORD_DELETE_NOT_READY'' ''batch image record can only be deleted after the job finishes''"

lemmas job_statuses =
  BatchImageJobStatusCreated_def BatchImageJobStatusUploading_def BatchImageJobStatusSubmitted_def
  BatchImageJobStatusRunning_def BatchImageJobStatusIndexing_def BatchImageJobStatusSettling_def
  BatchImageJobStatusCompleted_def BatchImageJobStatusFailed_def BatchImageJobStatusCancelled_def
  BatchImageJobStatusOutputDeleted_def

definition IsSupportedBatchImageProvider :: "string \<Rightarrow> bool" where
  "IsSupportedBatchImageProvider provider \<longleftrightarrow> provider = BatchImageProviderGeminiAPI \<or> provider = BatchImageProviderVertex"

definition IsTerminalBatchImageJobStatus :: "string \<Rightarrow> bool" where
  "IsTerminalBatchImageJobStatus status \<longleftrightarrow>
     status = BatchImageJobStatusCompleted \<or> status = BatchImageJobStatusFailed \<or>
     status = BatchImageJobStatusCancelled \<or> status = BatchImageJobStatusOutputDeleted"

text \<open>The map \<open>allowed\<close> of \<open>CanTransitionBatchImageJob\<close>, as the list of targets per status.\<close>

definition allowed :: "string \<Rightarrow> string list" where
  "allowed from' =
     (if from' = BatchImageJobStatusCreated then
        [BatchImageJobStatusUploading, BatchImageJobStatusSubmitted, BatchImageJobStatusCancelled]
      else if from' = BatchImageJobStatusUploading then [BatchImageJobStatusSubmitted, BatchImageJobStatusCancelled]
      else if from' = BatchImageJobStatusSubmitted then
        [BatchImageJobStatusRunning, BatchImageJobStatusIndexing, BatchImageJobStatusFailed, BatchImageJobStatusCancelled]
      else if from' = BatchImageJobStatusRunning then
        [BatchImageJobStatusRunning, BatchImageJobStatusIndexing, BatchImageJobStatusFailed, BatchImageJobStatusCancelled]
      else if from' = BatchImageJobStatusIndexing then [BatchImageJobStatusSettling, BatchImageJobStatusFailed]
      else if from' = BatchImageJobStatusSettling then [BatchImageJobStatusCompleted]
      else [])"

definition CanTransitionBatchImageJob :: "string \<Rightarrow> string \<Rightarrow> bool" where
  "CanTransitionBatchImageJob from' to' \<longleftrightarrow>
     (if from' = [] \<or> to' = [] then False
      else if IsTerminalBatchImageJobStatus from' then
        to' = BatchImageJobStatusOutputDeleted \<and> from' \<noteq> BatchImageJobStatusOutputDeleted \<and>
        (from' = BatchImageJobStatusCompleted \<or> from' = BatchImageJobStatusFailed \<or> from' = BatchImageJobStatusCancelled)
      else if to' = BatchImageJobStatusFailed then True
      else to' \<in> set (allowed from'))"

section \<open>Rows\<close>

type_synonym event_payload = "(string \<times> string) list option"

record BatchImageJob =
  bj_ID :: int
  bj_BatchID :: string
  bj_UserID :: int
  bj_APIKeyID :: "int option"
  bj_AccountID :: "int option"
  bj_Provider :: string
  bj_Model :: string
  bj_TaskName :: string
  bj_ParentBatchID :: "string option"
  bj_Status :: string
  bj_ProviderJobName :: "string option"
  bj_ProviderInputRef :: "string option"
  bj_ProviderOutputRef :: "string option"
  bj_GCSInputURI :: "string option"
  bj_GCSOutputURI :: "string option"
  bj_ItemCount :: int
  bj_SuccessCount :: int
  bj_FailCount :: int
  bj_CancelledCount :: int
  bj_EstimatedCost :: rat
  bj_HoldAmount :: "rat option"
  bj_ActualCost :: "rat option"
  bj_BaseUnitPrice :: rat
  bj_GroupRateMultiplier :: rat
  bj_AccountRateMultiplier :: rat
  bj_BatchDiscountMultiplier :: rat
  bj_HoldMultiplier :: rat
  bj_BillableUnitPrice :: rat
  bj_HoldUnitPrice :: rat
  bj_PricingSnapshotVersion :: int
  bj_Currency :: string
  bj_HoldID :: "string option"
  bj_IdempotencyKey :: "string option"
  bj_RequestHash :: "string option"
  bj_ManifestHash :: "string option"
  bj_SessionID :: "string option"
  bj_RetryCount :: int
  bj_Version :: int
  bj_OutputExpiresAt :: "time option"
  bj_InputDeletedAt :: "time option"
  bj_OutputDeletedAt :: "time option"
  bj_DownloadedAt :: "time option"
  bj_UserDeletedAt :: "time option"
  bj_LastErrorCode :: "string option"
  bj_LastErrorMessage :: "string option"
  bj_CreatedAt :: time
  bj_UpdatedAt :: time
  bj_SubmittedAt :: "time option"
  bj_StartedAt :: "time option"
  bj_FinishedAt :: "time option"
  bj_SettledAt :: "time option"

record CreateBatchImageJobParams =
  cj_BatchID :: string
  cj_UserID :: int
  cj_APIKeyID :: "int option"
  cj_AccountID :: "int option"
  cj_Provider :: string
  cj_Model :: string
  cj_TaskName :: string
  cj_ParentBatchID :: "string option"
  cj_Status :: string
  cj_ProviderJobName :: "string option"
  cj_ProviderInputRef :: "string option"
  cj_ProviderOutputRef :: "string option"
  cj_GCSInputURI :: "string option"
  cj_GCSOutputURI :: "string option"
  cj_ItemCount :: int
  cj_SuccessCount :: int
  cj_FailCount :: int
  cj_CancelledCount :: int
  cj_EstimatedCost :: rat
  cj_HoldAmount :: "rat option"
  cj_ActualCost :: "rat option"
  cj_BaseUnitPrice :: rat
  cj_GroupRateMultiplier :: rat
  cj_AccountRateMultiplier :: rat
  cj_BatchDiscountMultiplier :: rat
  cj_HoldMultiplier :: rat
  cj_BillableUnitPrice :: rat
  cj_HoldUnitPrice :: rat
  cj_PricingSnapshotVersion :: int
  cj_Currency :: string
  cj_HoldID :: "string option"
  cj_IdempotencyKey :: "string option"
  cj_RequestHash :: "string option"
  cj_ManifestHash :: "string option"
  cj_SessionID :: "string option"
  cj_RetryCount :: int
  cj_OutputExpiresAt :: "time option"

record BatchImageItem =
  bi_ID :: int
  bi_JobID :: string
  bi_CustomID :: string
  bi_Status :: string
  bi_RequestHash :: "string option"
  bi_PromptPreview :: "string option"
  bi_ProviderSourceObject :: "string option"
  bi_SourceLineNumber :: "int option"
  bi_SourceByteOffset :: "int option"
  bi_SourceByteLength :: "int option"
  bi_MimeType :: "string option"
  bi_FileExtension :: "string option"
  bi_ImageCount :: int
  bi_ErrorCode :: "string option"
  bi_ErrorMessage :: "string option"
  bi_BilledAmount :: "rat option"
  bi_CreatedAt :: time
  bi_IndexedAt :: "time option"

record CreateBatchImageItemParams =
  ci_JobID :: string
  ci_CustomID :: string
  ci_Status :: string
  ci_RequestHash :: "string option"
  ci_PromptPreview :: "string option"
  ci_ProviderSourceObject :: "string option"
  ci_SourceLineNumber :: "int option"
  ci_SourceByteOffset :: "int option"
  ci_SourceByteLength :: "int option"
  ci_MimeType :: "string option"
  ci_FileExtension :: "string option"
  ci_ImageCount :: int
  ci_ErrorCode :: "string option"
  ci_ErrorMessage :: "string option"
  ci_BilledAmount :: "rat option"
  ci_IndexedAt :: "time option"

record BatchImageItemFilter =
  if_Status :: string
  if_Limit :: int
  if_Offset :: int

record BatchImageJobFilter =
  jf_Status :: string
  jf_TaskNameLike :: string
  jf_Downloaded :: "bool option"
  jf_CreatedAfter :: "time option"
  jf_CreatedBefore :: "time option"
  jf_ExcludeDeleted :: bool
  jf_Limit :: int
  jf_Offset :: int

record BatchImageCounts =
  bc_SuccessCount :: int
  bc_FailCount :: int

record UpdateBatchImageJobProviderSubmitParams =
  ps_BatchID :: string
  ps_ProviderJobName :: string
  ps_ProviderInputRef :: string
  ps_ProviderOutputRef :: string
  ps_GCSInputURI :: string
  ps_GCSOutputURI :: string
  ps_EventPayload :: event_payload

record BatchImageTransitionOptions =
  to_ExpectedStatus :: string
  to_EventType :: string
  to_EventPayload :: event_payload
  to_ErrorCode :: "string option"
  to_ErrorMessage :: "string option"
  to_Now :: "time option"

record MarkBatchImageJobSettledParams =
  ms_BatchID :: string
  ms_ActualCost :: rat
  ms_ManifestHash :: string
  ms_EventPayload :: event_payload
  ms_Now :: "time option"
  ms_OutputExpiresAt :: "time option"

record BatchImageEvent =
  be_ID :: int
  be_JobID :: string
  be_EventType :: string
  be_Payload :: event_payload
  be_CreatedAt :: time

record batch_db =
  bd_jobs :: "BatchImageJob list"
  bd_items :: "BatchImageItem list"
  bd_events :: "BatchImageEvent list"
  bd_next_job :: int
  bd_next_item :: int
  bd_next_event :: int
  bd_now :: time

end
