(* ===== verification/BatchImageRepository.thy ===== *)
theory BatchImageRepository
  imports BatchImageJob
begin

text \<open>
  \<open>repository/batch_image_repo.go\<close>: the statements and transactions on the tables of batch image
  jobs, items and events, one definition per Go function. \<open>time.Now()\<close> is the argument \<open>now\<close>.
\<close>

section \<open>Statements\<close>

type_synonym 'a db_stmt = "batch_db \<Rightarrow> (go_error + 'a) \<times> batch_db"

definition ErrNoRows :: go_error where
  "ErrNoRows = PlainErr ''sql: no rows in result set''"

definition unique_violation :: go_error where
  "unique_violation = PlainErr ''duplicate key value violates unique constraint''"

definition foreign_key_violation :: go_error where
  "foreign_key_violation = PlainErr ''violates foreign key constraint''"

definition translatePersistenceError :: "go_error \<Rightarrow> go_error option \<Rightarrow> go_error option \<Rightarrow> go_error" where
  "translatePersistenceError err notFound conflict =
     (if err = NilErr then NilErr
      else if notFound \<noteq> None \<and> errors_is err ErrNoRows then WithCause (the notFound) err
      else if conflict \<noteq> None \<and> errors_is err unique_violation then WithCause (the conflict) err
      else err)"

definition translated :: "go_error option \<Rightarrow> go_error option \<Rightarrow> (go_error + 'a) \<times> 'c \<Rightarrow> (go_error + 'a) \<times> 'c" where
  "translated notFound conflict r =
     (case r of (Inl e, c) \<Rightarrow> (Inl (translatePersistenceError e notFound conflict), c) | (Inr a, c) \<Rightarrow> (Inr a, c))"

definition run_stmt :: "'a db_stmt \<Rightarrow> batch_db conn \<Rightarrow> (go_error + 'a) \<times> batch_db conn" where
  "run_stmt m c = (case sql_exec m c of (Inl e, c') \<Rightarrow> (Inl e, c') | (Inr r, c') \<Rightarrow> (r, c'))"

text \<open>\<open>BeginTx\<close>, the body, \<open>Commit\<close>; an error rolls back.\<close>

definition atomically :: "'a db_stmt \<Rightarrow> 'a db_stmt" where
  "atomically m db = (case m db of (Inl e, _) \<Rightarrow> (Inl e, db) | (Inr a, db') \<Rightarrow> (Inr a, db'))"

definition and_then :: "(go_error + 'a) \<times> 's \<Rightarrow> ('a \<Rightarrow> 's \<Rightarrow> (go_error + 'b) \<times> 's) \<Rightarrow> (go_error + 'b) \<times> 's" where
  "and_then r f = (case r of (Inl e, s) \<Rightarrow> (Inl e, s) | (Inr a, s) \<Rightarrow> f a s)"

definition job_by_batch :: "string \<Rightarrow> batch_db \<Rightarrow> BatchImageJob option" where
  "job_by_batch b db = find (\<lambda>j. bj_BatchID j = b) (bd_jobs db)"

definition select_job :: "(BatchImageJob \<Rightarrow> bool) \<Rightarrow> BatchImageJob db_stmt" where
  "select_job p db = (case find p (bd_jobs db) of None \<Rightarrow> (Inl ErrNoRows, db) | Some j \<Rightarrow> (Inr j, db))"

definition update_jobs :: "(BatchImageJob \<Rightarrow> bool) \<Rightarrow> (BatchImageJob \<Rightarrow> BatchImageJob) \<Rightarrow> nat db_stmt" where
  "update_jobs p f db =
     (Inr (length (filter p (bd_jobs db))), db\<lparr>bd_jobs := map (\<lambda>j. if p j then f j else j) (bd_jobs db)\<rparr>)"

definition appendBatchImageEvent :: "string \<Rightarrow> string \<Rightarrow> event_payload \<Rightarrow> unit db_stmt" where
  "appendBatchImageEvent batchID eventType payload db =
     (if job_by_batch batchID db = None then (Inl foreign_key_violation, db\<lparr>bd_next_event := bd_next_event db + 1\<rparr>)
      else (Inr (), db\<lparr>bd_events := bd_events db @ [\<lparr>be_ID = bd_next_event db, be_JobID = batchID,
              be_EventType = eventType, be_Payload = payload, be_CreatedAt = bd_now db\<rparr>],
              bd_next_event := bd_next_event db + 1\<rparr>))"

definition AppendBatchImageEvent ::
  "string \<Rightarrow> string \<Rightarrow> event_payload \<Rightarrow> batch_db conn \<Rightarrow> (go_error + unit) \<times> batch_db conn" where
  "AppendBatchImageEvent batchID eventType payload c = run_stmt (appendBatchImageEvent batchID eventType payload) c"

text \<open>\<open>CASE WHEN x IS NULL THEN v ELSE x END\<close>.\<close>

definition keep_or :: "'a option \<Rightarrow> 'a option \<Rightarrow> 'a option" where
  "keep_or old new = (case old of None \<Rightarrow> new | Some v \<Rightarrow> Some v)"

definition nullif_empty :: "string \<Rightarrow> string option" where
  "nullif_empty s = (if s = [] then None else Some s)"

definition hash_taken :: "string option \<Rightarrow> BatchImageJob list \<Rightarrow> bool" where
  "hash_taken h js \<longleftrightarrow> h \<noteq> None \<and> h \<noteq> Some [] \<and> (\<exists>j \<in> set js. bj_ManifestHash j = h)"

section \<open>Creating and reading jobs\<close>

definition job_of_params :: "CreateBatchImageJobParams \<Rightarrow> int \<Rightarrow> time \<Rightarrow> BatchImageJob" where
  "job_of_params p i t =
     \<lparr>bj_ID = i, bj_BatchID = cj_BatchID p, bj_UserID = cj_UserID p, bj_APIKeyID = cj_APIKeyID p,
      bj_AccountID = cj_AccountID p, bj_Provider = cj_Provider p, bj_Model = cj_Model p,
      bj_TaskName = cj_TaskName p, bj_ParentBatchID = cj_ParentBatchID p, bj_Status = cj_Status p,
      bj_ProviderJobName = cj_ProviderJobName p, bj_ProviderInputRef = cj_ProviderInputRef p,
      bj_ProviderOutputRef = cj_ProviderOutputRef p, bj_GCSInputURI = cj_GCSInputURI p,
      bj_GCSOutputURI = cj_GCSOutputURI p, bj_ItemCount = cj_ItemCount p,
      bj_SuccessCount = cj_SuccessCount p, bj_FailCount = cj_FailCount p,
      bj_CancelledCount = cj_CancelledCount p, bj_EstimatedCost = cj_EstimatedCost p,
      bj_HoldAmount = cj_HoldAmount p, bj_ActualCost = cj_ActualCost p,
      bj_BaseUnitPrice = cj_BaseUnitPrice p, bj_GroupRateMultiplier = cj_GroupRateMultiplier p,
      bj_AccountRateMultiplier = cj_AccountRateMultiplier p,
      bj_BatchDiscountMultiplier = cj_BatchDiscountMultiplier p, bj_HoldMultiplier = cj_HoldMultiplier p,
      bj_BillableUnitPrice = cj_BillableUnitPrice p, bj_HoldUnitPrice = cj_HoldUnitPrice p,
      bj_PricingSnapshotVersion = cj_PricingSnapshotVersion p, bj_Currency = cj_Currency p,
      bj_HoldID = cj_HoldID p, bj_IdempotencyKey = cj_IdempotencyKey p, bj_RequestHash = cj_RequestHash p,
      bj_ManifestHash = cj_ManifestHash p, bj_SessionID = cj_SessionID p, bj_RetryCount = cj_RetryCount p,
      bj_Version = 0, bj_OutputExpiresAt = cj_OutputExpiresAt p, bj_InputDeletedAt = None,
      bj_OutputDeletedAt = None, bj_DownloadedAt = None, bj_UserDeletedAt = None,
      bj_LastErrorCode = None, bj_LastErrorMessage = None, bj_CreatedAt = t, bj_UpdatedAt = t,
      bj_SubmittedAt = None, bj_StartedAt = None, bj_FinishedAt = None, bj_SettledAt = None\<rparr>"

definition createBatchImageJobWithSQL :: "CreateBatchImageJobParams \<Rightarrow> BatchImageJob db_stmt" where
  "createBatchImageJobWithSQL p db =
     (let db1 = db\<lparr>bd_next_job := bd_next_job db + 1\<rparr>; j = job_of_params p (bd_next_job db) (bd_now db) in
      if job_by_batch (cj_BatchID p) db \<noteq> None \<or> hash_taken (cj_ManifestHash p) (bd_jobs db)
      then (Inl unique_violation, db1)
      else (Inr j, db1\<lparr>bd_jobs := bd_jobs db @ [j]\<rparr>))"

text \<open>\<open>random_id\<close> is what \<open>NewBatchImageID\<close> draws: an error of the random source, or an identifier.\<close>

definition CreateBatchImageJob ::
  "go_error + string \<Rightarrow> CreateBatchImageJobParams \<Rightarrow> batch_db conn \<Rightarrow> (go_error + BatchImageJob) \<times> batch_db conn" where
  "CreateBatchImageJob random_id params c =
     (if \<not> IsSupportedBatchImageProvider (cj_Provider params) then (Inl ErrBatchImageInvalidProvider, c)
      else
     (case (if cj_BatchID params = [] then random_id else Inr (cj_BatchID params)) of
        Inl e \<Rightarrow> (Inl e, c)
      | Inr batchID \<Rightarrow>
          (let params1 = params\<lparr>cj_BatchID := batchID\<rparr>;
               params2 = (if cj_Status params1 = [] then params1\<lparr>cj_Status := BatchImageJobStatusCreated\<rparr> else params1);
               params3 = (if cj_Currency params2 = [] then params2\<lparr>cj_Currency := ''USD''\<rparr> else params2)
           in translated None (Some ErrBatchImageJobExists) (run_stmt (createBatchImageJobWithSQL params3) c))))"

definition get_job :: "(BatchImageJob \<Rightarrow> bool) \<Rightarrow> batch_db conn \<Rightarrow> (go_error + BatchImageJob) \<times> batch_db conn" where
  "get_job p c = translated (Some ErrBatchImageJobNotFound) None (run_stmt (select_job p) c)"

definition GetBatchImageJobByBatchID ::
  "string \<Rightarrow> batch_db conn \<Rightarrow> (go_error + BatchImageJob) \<times> batch_db conn" where
  "GetBatchImageJobByBatchID batchID c = get_job (\<lambda>j. bj_BatchID j = batchID) c"

text \<open>\<open>ORDER BY id DESC LIMIT 1\<close>: the last row.\<close>

definition GetBatchImageJobByIdempotencyKey ::
  "int \<Rightarrow> int \<Rightarrow> string \<Rightarrow> batch_db conn \<Rightarrow> (go_error + BatchImageJob) \<times> batch_db conn" where
  "GetBatchImageJobByIdempotencyKey userID apiKeyID key c =
     translated (Some ErrBatchImageJobNotFound) None
       (run_stmt (\<lambda>db. case find (\<lambda>j. bj_UserID j = userID \<and> bj_APIKeyID j = Some apiKeyID \<and>
                                      bj_IdempotencyKey j = Some key) (rev (bd_jobs db)) of
                         None \<Rightarrow> (Inl ErrNoRows, db) | Some j \<Rightarrow> (Inr j, db)) c)"

definition GetBatchImageJobByBatchIDForOwner ::
  "int \<Rightarrow> int \<Rightarrow> string \<Rightarrow> batch_db conn \<Rightarrow> (go_error + BatchImageJob) \<times> batch_db conn" where
  "GetBatchImageJobByBatchIDForOwner userID apiKeyID batchID c =
     get_job (\<lambda>j. bj_BatchID j = batchID \<and> bj_UserID j = userID \<and> bj_APIKeyID j = Some apiKeyID \<and>
                  bj_UserDeletedAt j = None) c"

definition GetBatchImageJobForDownload ::
  "int \<Rightarrow> int \<Rightarrow> string \<Rightarrow> batch_db conn \<Rightarrow> (go_error + BatchImageJob) \<times> batch_db conn" where
  "GetBatchImageJobForDownload userID apiKeyID batchID c = GetBatchImageJobByBatchIDForOwner userID apiKeyID batchID c"

definition GetBatchImageJobByID :: "int \<Rightarrow> batch_db conn \<Rightarrow> (go_error + BatchImageJob) \<times> batch_db conn" where
  "GetBatchImageJobByID i c = get_job (\<lambda>j. bj_ID j = i) c"

definition list_jobs :: "(BatchImageJob list \<Rightarrow> BatchImageJob list) \<Rightarrow> batch_db conn \<Rightarrow>
   (go_error + BatchImageJob list) \<times> batch_db conn" where
  "list_jobs q c = sql_exec (\<lambda>db. (q (bd_jobs db), db)) c"

text \<open>The rows are kept in the order of their identifiers, so a stable sort breaks ties by identifier.\<close>

definition owner_jobs_query ::
  "(string \<Rightarrow> string \<Rightarrow> bool) \<Rightarrow> int \<Rightarrow> int \<Rightarrow> BatchImageJobFilter \<Rightarrow> BatchImageJob list \<Rightarrow> BatchImageJob list" where
  "owner_jobs_query ilike userID apiKeyID filt js =
     (let limit = (if jf_Limit filt \<le> 0 \<or> jf_Limit filt > 100 then 20 else jf_Limit filt);
          offset = (if jf_Offset filt < 0 then 0 else jf_Offset filt);
          chosen = [j \<leftarrow> js. bj_UserID j = userID \<and> bj_APIKeyID j = Some apiKeyID \<and>
             (jf_ExcludeDeleted filt \<longrightarrow> bj_UserDeletedAt j = None) \<and>
             (jf_Status filt = [] \<or> bj_Status j = jf_Status filt) \<and>
             (jf_TaskNameLike filt = [] \<or> ilike (bj_TaskName j) (''%'' @ jf_TaskNameLike filt @ ''%'')) \<and>
             (case jf_Downloaded filt of None \<Rightarrow> True | Some d \<Rightarrow> d = (bj_DownloadedAt j \<noteq> None)) \<and>
             (case jf_CreatedAfter filt of None \<Rightarrow> True | Some t \<Rightarrow> bj_CreatedAt j \<ge> t) \<and>
             (case jf_CreatedBefore filt of None \<Rightarrow> True | Some t \<Rightarrow> bj_CreatedAt j < t)]
      in take (nat limit) (drop (nat offset) (rev (sort_key bj_CreatedAt chosen))))"

definition ListBatchImageJobsForOwner ::
  "(string \<Rightarrow> string \<Rightarrow> bool) \<Rightarrow> int \<Rightarrow> int \<Rightarrow> BatchImageJobFilter \<Rightarrow> batch_db conn \<Rightarrow>
   (go_error + BatchImageJob list) \<times> batch_db conn" where
  "ListBatchImageJobsForOwner ilike userID apiKeyID filt c = list_jobs (owner_jobs_query ilike userID apiKeyID filt) c"

definition page_limit :: "int \<Rightarrow> nat" where
  "page_limit limit = nat (if limit \<le> 0 \<or> limit > 1000 then 100 else limit)"

definition terminal_for_cleanup :: "string list" where
  "terminal_for_cleanup = [BatchImageJobStatusCompleted, BatchImageJobStatusFailed,
     BatchImageJobStatusCancelled, BatchImageJobStatusOutputDeleted]"

definition finished_or_later :: "BatchImageJob \<Rightarrow> time" where
  "finished_or_later j =
     (case keep_or (bj_FinishedAt j) (bj_SettledAt j) of Some t \<Rightarrow> t | None \<Rightarrow> bj_UpdatedAt j)"

definition ListBatchImageJobsDueForInputCleanup ::
  "time \<Rightarrow> int \<Rightarrow> batch_db conn \<Rightarrow> (go_error + BatchImageJob list) \<times> batch_db conn" where
  "ListBatchImageJobsDueForInputCleanup cutoff limit c =
     list_jobs (\<lambda>js. take (page_limit limit) [j \<leftarrow> js. bj_InputDeletedAt j = None \<and> bj_ProviderInputRef j \<noteq> None \<and>
        bj_Status j \<in> set terminal_for_cleanup \<and> finished_or_later j \<le> cutoff]) c"

definition ListBatchImageJobsDueForOutputCleanup ::
  "time \<Rightarrow> int \<Rightarrow> batch_db conn \<Rightarrow> (go_error + BatchImageJob list) \<times> batch_db conn" where
  "ListBatchImageJobsDueForOutputCleanup now limit c =
     list_jobs (\<lambda>js. take (page_limit limit) (sort_key (\<lambda>j. the (bj_OutputExpiresAt j))
        [j \<leftarrow> js. bj_OutputDeletedAt j = None \<and> bj_ProviderOutputRef j \<noteq> None \<and>
           bj_Status j = BatchImageJobStatusCompleted \<and>
           (case bj_OutputExpiresAt j of None \<Rightarrow> False | Some t \<Rightarrow> t \<le> now)])) c"

definition unsubmitted :: "BatchImageJob \<Rightarrow> bool" where
  "unsubmitted j \<longleftrightarrow> bj_Status j = BatchImageJobStatusCreated \<or> bj_Status j = BatchImageJobStatusUploading"

definition stale_unsubmitted :: "time \<Rightarrow> BatchImageJob \<Rightarrow> bool" where
  "stale_unsubmitted cutoff j \<longleftrightarrow> unsubmitted j \<and> bj_ProviderJobName j = None \<and> bj_UpdatedAt j \<le> cutoff"

definition ListStaleUnsubmittedBatchImageJobs ::
  "time \<Rightarrow> int \<Rightarrow> batch_db conn \<Rightarrow> (go_error + BatchImageJob list) \<times> batch_db conn" where
  "ListStaleUnsubmittedBatchImageJobs cutoff limit c =
     list_jobs (\<lambda>js. take (page_limit limit) (sort_key bj_UpdatedAt
        [j \<leftarrow> js. stale_unsubmitted cutoff j \<and>
           (case bj_HoldAmount j of Some h \<Rightarrow> h | None \<Rightarrow> bj_EstimatedCost j) > 0])) c"

section \<open>Status changes\<close>

definition transition_row ::
  "string \<Rightarrow> time \<Rightarrow> string option \<Rightarrow> string option \<Rightarrow> BatchImageJob \<Rightarrow> BatchImageJob" where
  "transition_row toStatus now code message j =
     j\<lparr>bj_Status := toStatus, bj_Version := bj_Version j + 1, bj_UpdatedAt := now,
       bj_LastErrorCode := (if toStatus = BatchImageJobStatusFailed then code else bj_LastErrorCode j),
       bj_LastErrorMessage := (if toStatus = BatchImageJobStatusFailed then message else bj_LastErrorMessage j),
       bj_SubmittedAt := (if toStatus = BatchImageJobStatusSubmitted then keep_or (bj_SubmittedAt j) (Some now) else bj_SubmittedAt j),
       bj_StartedAt := (if toStatus = BatchImageJobStatusRunning then keep_or (bj_StartedAt j) (Some now) else bj_StartedAt j),
       bj_FinishedAt := (if toStatus \<in> {BatchImageJobStatusCompleted, BatchImageJobStatusFailed, BatchImageJobStatusCancelled}
                         then keep_or (bj_FinishedAt j) (Some now) else bj_FinishedAt j),
       bj_SettledAt := (if toStatus = BatchImageJobStatusCompleted then keep_or (bj_SettledAt j) (Some now) else bj_SettledAt j),
       bj_OutputDeletedAt := (if toStatus = BatchImageJobStatusOutputDeleted then keep_or (bj_OutputDeletedAt j) (Some now)
                              else bj_OutputDeletedAt j)\<rparr>"

definition job_batch :: "string \<Rightarrow> BatchImageJob \<Rightarrow> bool" where
  "job_batch b j \<longleftrightarrow> bj_BatchID j = b"

text \<open>\<open>SELECT ... FOR UPDATE\<close> inside a transaction: the row, or the not-found error.\<close>

definition locked_job :: "string \<Rightarrow> batch_db \<Rightarrow> (go_error + BatchImageJob) \<times> batch_db" where
  "locked_job b db = translated (Some ErrBatchImageJobNotFound) None (select_job (job_batch b) db)"

definition transitionBatchImageJobStatusWithSQL ::
  "string \<Rightarrow> string \<Rightarrow> BatchImageTransitionOptions \<Rightarrow> time \<Rightarrow> unit db_stmt" where
  "transitionBatchImageJobStatusWithSQL batchID toStatus opts clock db =
     and_then (locked_job batchID db) (\<lambda>current db.
       if to_ExpectedStatus opts \<noteq> [] \<and> bj_Status current \<noteq> to_ExpectedStatus opts \<or>
          \<not> CanTransitionBatchImageJob (bj_Status current) toStatus
       then (Inl ErrBatchImageInvalidTransition, db)
       else
         (let now = (case to_Now opts of None \<Rightarrow> clock | Some t \<Rightarrow> t) in
          and_then (update_jobs (job_batch batchID)
                      (transition_row toStatus now (to_ErrorCode opts) (to_ErrorMessage opts)) db)
            (\<lambda>_ db. if to_EventType opts \<noteq> []
                    then appendBatchImageEvent batchID (to_EventType opts) (to_EventPayload opts) db
                    else (Inr (), db))))"

definition TransitionBatchImageJobStatus ::
  "string \<Rightarrow> string \<Rightarrow> BatchImageTransitionOptions \<Rightarrow> time \<Rightarrow> batch_db conn \<Rightarrow> (go_error + unit) \<times> batch_db conn" where
  "TransitionBatchImageJobStatus batchID toStatus opts clock c =
     run_stmt (atomically (transitionBatchImageJobStatusWithSQL batchID toStatus opts clock)) c"

definition TouchBatchImageJobSubmitting ::
  "string \<Rightarrow> time \<Rightarrow> batch_db conn \<Rightarrow> (go_error + unit) \<times> batch_db conn" where
  "TouchBatchImageJobSubmitting batchID now c =
     and_then (run_stmt (update_jobs (\<lambda>j. job_batch batchID j \<and> unsubmitted j) (\<lambda>j. j\<lparr>bj_UpdatedAt := now\<rparr>)) c)
       (\<lambda>_ c. (Inr (), c))"

definition fail_stale_row :: "string \<Rightarrow> string \<Rightarrow> time \<Rightarrow> BatchImageJob \<Rightarrow> BatchImageJob" where
  "fail_stale_row code message now j =
     j\<lparr>bj_Status := BatchImageJobStatusFailed, bj_LastErrorCode := Some code, bj_LastErrorMessage := Some message,
       bj_FinishedAt := keep_or (bj_FinishedAt j) (Some now), bj_UpdatedAt := now, bj_Version := bj_Version j + 1\<rparr>"

text \<open>The result is the pair that Go returns: whether the row was failed, and the error of the event.\<close>

definition FailStaleUnsubmittedBatchImageJob ::
  "string \<Rightarrow> time \<Rightarrow> string \<Rightarrow> string \<Rightarrow> time \<Rightarrow> batch_db conn \<Rightarrow> (bool \<times> go_error) \<times> batch_db conn" where
  "FailStaleUnsubmittedBatchImageJob batchID cutoff code message now c =
     (case run_stmt (update_jobs (\<lambda>j. job_batch batchID j \<and> stale_unsubmitted cutoff j) (fail_stale_row code message now)) c of
        (Inl e, c1) \<Rightarrow> ((False, e), c1)
      | (Inr affected, c1) \<Rightarrow>
          if affected = 0 then ((False, NilErr), c1)
          else (case AppendBatchImageEvent batchID ''billing_hold_recovery_failed_unsubmitted''
                       (Some [(''batch_id'', batchID), (''error_code'', code)]) c1 of
                  (Inl e, c2) \<Rightarrow> ((True, e), c2)
                | (Inr _, c2) \<Rightarrow> ((True, NilErr), c2)))"

section \<open>Submission to the provider\<close>

definition UpdateBatchImageJobProviderOutputRef ::
  "string \<Rightarrow> string \<Rightarrow> time \<Rightarrow> batch_db conn \<Rightarrow> (go_error + unit) \<times> batch_db conn" where
  "UpdateBatchImageJobProviderOutputRef batchID ref now c =
     and_then (translated (Some ErrBatchImageJobNotFound) None
         (run_stmt (update_jobs (job_batch batchID)
            (\<lambda>j. j\<lparr>bj_ProviderOutputRef := Some ref, bj_UpdatedAt := now\<rparr>)) c))
       (\<lambda>affected c. (if affected = 0 then Inl ErrBatchImageJobNotFound else Inr (), c))"

definition provider_submit_row ::
  "UpdateBatchImageJobProviderSubmitParams \<Rightarrow> time \<Rightarrow> BatchImageJob \<Rightarrow> BatchImageJob" where
  "provider_submit_row p now j =
     j\<lparr>bj_Status := BatchImageJobStatusSubmitted, bj_ProviderJobName := Some (ps_ProviderJobName p),
       bj_ProviderInputRef := nullif_empty (ps_ProviderInputRef p),
       bj_ProviderOutputRef := nullif_empty (ps_ProviderOutputRef p),
       bj_GCSInputURI := nullif_empty (ps_GCSInputURI p), bj_GCSOutputURI := nullif_empty (ps_GCSOutputURI p),
       bj_SubmittedAt := keep_or (bj_SubmittedAt j) (Some now), bj_UpdatedAt := now, bj_Version := bj_Version j + 1\<rparr>"

definition updateBatchImageJobProviderSubmitWithSQL ::
  "UpdateBatchImageJobProviderSubmitParams \<Rightarrow> time \<Rightarrow> unit db_stmt" where
  "updateBatchImageJobProviderSubmitWithSQL p now db =
     and_then (locked_job (ps_BatchID p) db) (\<lambda>current db.
       if \<not> CanTransitionBatchImageJob (bj_Status current) BatchImageJobStatusSubmitted
       then (Inl ErrBatchImageInvalidTransition, db)
       else and_then (update_jobs (job_batch (ps_BatchID p)) (provider_submit_row p now) db)
         (\<lambda>_ db. appendBatchImageEvent (ps_BatchID p) ''provider_submitted'' (ps_EventPayload p) db))"

definition UpdateBatchImageJobProviderSubmit ::
  "UpdateBatchImageJobProviderSubmitParams \<Rightarrow> time \<Rightarrow> batch_db conn \<Rightarrow> (go_error + unit) \<times> batch_db conn" where
  "UpdateBatchImageJobProviderSubmit p now c = run_stmt (atomically (updateBatchImageJobProviderSubmitWithSQL p now)) c"

definition submit_failure_row :: "bool \<Rightarrow> string \<Rightarrow> string \<Rightarrow> time \<Rightarrow> BatchImageJob \<Rightarrow> BatchImageJob" where
  "submit_failure_row markFailed code message now j =
     (let st = (if markFailed then BatchImageJobStatusFailed else bj_Status j) in
      j\<lparr>bj_Status := st, bj_LastErrorCode := Some code, bj_LastErrorMessage := Some message,
        bj_FinishedAt := (if st = BatchImageJobStatusFailed then keep_or (bj_FinishedAt j) (Some now) else bj_FinishedAt j),
        bj_UpdatedAt := now, bj_Version := bj_Version j + 1\<rparr>)"

definition RecordBatchImageJobSubmitFailure ::
  "string \<Rightarrow> string \<Rightarrow> string \<Rightarrow> bool \<Rightarrow> time \<Rightarrow> batch_db conn \<Rightarrow> (go_error + unit) \<times> batch_db conn" where
  "RecordBatchImageJobSubmitFailure batchID code message markFailed now c =
     and_then (run_stmt (update_jobs (job_batch batchID) (submit_failure_row markFailed code message now)) c)
       (\<lambda>_ c. AppendBatchImageEvent batchID (if markFailed then ''submit_failed'' else ''queue_failed'')
                (Some [(''error_code'', code)]) c)"

section \<open>Settlement\<close>

definition settled_row :: "MarkBatchImageJobSettledParams \<Rightarrow> time \<Rightarrow> BatchImageJob \<Rightarrow> BatchImageJob" where
  "settled_row p now j =
     j\<lparr>bj_Status := BatchImageJobStatusCompleted, bj_ActualCost := Some (ms_ActualCost p),
       bj_ManifestHash := Some (ms_ManifestHash p), bj_SettledAt := keep_or (bj_SettledAt j) (Some now),
       bj_FinishedAt := keep_or (bj_FinishedAt j) (Some now),
       bj_OutputExpiresAt := keep_or (bj_OutputExpiresAt j) (ms_OutputExpiresAt p),
       bj_UpdatedAt := now, bj_Version := bj_Version j + 1\<rparr>"

definition settleable :: "MarkBatchImageJobSettledParams \<Rightarrow> BatchImageJob \<Rightarrow> bool" where
  "settleable p j \<longleftrightarrow>
     job_batch (ms_BatchID p) j \<and> bj_Status j = BatchImageJobStatusSettling \<and>
     (case bj_ManifestHash j of None \<Rightarrow> True | Some h \<Rightarrow> h = [] \<or> h = ms_ManifestHash p)"

text \<open>The unique index on non-empty manifest hashes of other jobs makes the update fail.\<close>

definition settle_update :: "MarkBatchImageJobSettledParams \<Rightarrow> time \<Rightarrow> nat db_stmt" where
  "settle_update p now db =
     (if (\<exists>j \<in> set (bd_jobs db). settleable p j) \<and>
         hash_taken (Some (ms_ManifestHash p)) [j \<leftarrow> bd_jobs db. \<not> job_batch (ms_BatchID p) j]
      then (Inl unique_violation, db)
      else update_jobs (settleable p) (settled_row p now) db)"

definition markBatchImageJobSettledWithSQL :: "MarkBatchImageJobSettledParams \<Rightarrow> time \<Rightarrow> unit db_stmt" where
  "markBatchImageJobSettledWithSQL p clock db =
     (let now = (case ms_Now p of None \<Rightarrow> clock | Some t \<Rightarrow> t) in
      and_then (settle_update p now db) (\<lambda>affected db.
        if affected = 0 then
          and_then (locked_job (ms_BatchID p) db) (\<lambda>job db.
            if bj_Status job \<noteq> BatchImageJobStatusSettling then
              (if bj_Status job = BatchImageJobStatusCompleted then (Inl ErrBatchImageAlreadySettled, db)
               else (Inl ErrBatchImageSettlementInvalidStatus, db))
            else (Inl ErrBatchImageSettlementManifestConflict, db))
        else appendBatchImageEvent (ms_BatchID p) ''settlement_completed'' (ms_EventPayload p) db))"

definition MarkBatchImageJobSettled ::
  "MarkBatchImageJobSettledParams \<Rightarrow> time \<Rightarrow> batch_db conn \<Rightarrow> (go_error + unit) \<times> batch_db conn" where
  "MarkBatchImageJobSettled p clock c = run_stmt (atomically (markBatchImageJobSettledWithSQL p clock)) c"

definition failure_row :: "string \<Rightarrow> string \<Rightarrow> time \<Rightarrow> BatchImageJob \<Rightarrow> BatchImageJob" where
  "failure_row code message now j =
     j\<lparr>bj_LastErrorCode := Some code, bj_LastErrorMessage := Some message, bj_RetryCount := bj_RetryCount j + 1,
       bj_UpdatedAt := now\<rparr>"

text \<open>\<open>UPDATE ... RETURNING retry_count\<close>; the error of the event comes with the count.\<close>

definition SetBatchImageJobSettlementFailed ::
  "string \<Rightarrow> string \<Rightarrow> string \<Rightarrow> time \<Rightarrow> batch_db conn \<Rightarrow> (go_error + int) \<times> batch_db conn" where
  "SetBatchImageJobSettlementFailed batchID code message now c =
     and_then (translated (Some ErrBatchImageJobNotFound) None
        (run_stmt (\<lambda>db. case job_by_batch batchID db of
             None \<Rightarrow> (Inl ErrNoRows, db)
           | Some j \<Rightarrow> (Inr (bj_RetryCount j + 1), snd (update_jobs (job_batch batchID) (failure_row code message now) db))) c))
       (\<lambda>retryCount c. and_then (AppendBatchImageEvent batchID ''settlement_failed'' (Some [(''error_code'', code)]) c)
          (\<lambda>_ c. (Inr retryCount, c)))"

section \<open>Items\<close>

definition item_of_params :: "CreateBatchImageItemParams \<Rightarrow> int \<Rightarrow> time \<Rightarrow> BatchImageItem" where
  "item_of_params p i t =
     \<lparr>bi_ID = i, bi_JobID = ci_JobID p, bi_CustomID = ci_CustomID p, bi_Status = ci_Status p,
      bi_RequestHash = ci_RequestHash p, bi_PromptPreview = ci_PromptPreview p,
      bi_ProviderSourceObject = ci_ProviderSourceObject p, bi_SourceLineNumber = ci_SourceLineNumber p,
      bi_SourceByteOffset = ci_SourceByteOffset p, bi_SourceByteLength = ci_SourceByteLength p,
      bi_MimeType = ci_MimeType p, bi_FileExtension = ci_FileExtension p, bi_ImageCount = ci_ImageCount p,
      bi_ErrorCode = ci_ErrorCode p, bi_ErrorMessage = ci_ErrorMessage p, bi_BilledAmount = ci_BilledAmount p,
      bi_CreatedAt = t, bi_IndexedAt = ci_IndexedAt p\<rparr>"

definition item_of :: "string \<Rightarrow> string \<Rightarrow> BatchImageItem \<Rightarrow> bool" where
  "item_of b customID i \<longleftrightarrow> bi_JobID i = b \<and> bi_CustomID i = customID"

definition createBatchImageItemWithSQL :: "CreateBatchImageItemParams \<Rightarrow> BatchImageItem db_stmt" where
  "createBatchImageItemWithSQL p db =
     (let i = item_of_params p (bd_next_item db) (bd_now db); db1 = db\<lparr>bd_next_item := bd_next_item db + 1\<rparr> in
      if find (item_of (ci_JobID p) (ci_CustomID p)) (bd_items db) \<noteq> None then (Inl unique_violation, db1)
      else if job_by_batch (ci_JobID p) db = None then (Inl foreign_key_violation, db1)
      else (Inr i, db1\<lparr>bd_items := bd_items db @ [i]\<rparr>))"

definition CreateBatchImageItem ::
  "CreateBatchImageItemParams \<Rightarrow> batch_db conn \<Rightarrow> (go_error + BatchImageItem) \<times> batch_db conn" where
  "CreateBatchImageItem p c = translated None (Some ErrBatchImageItemExists) (run_stmt (createBatchImageItemWithSQL p) c)"

fun insert_items :: "CreateBatchImageItemParams list \<Rightarrow> unit db_stmt" where
  "insert_items [] db = (Inr (), db)"
| "insert_items (p # ps) db =
     and_then (translated None (Some ErrBatchImageItemExists) (createBatchImageItemWithSQL p db))
       (\<lambda>_ db. insert_items ps db)"

definition BulkCreateBatchImageItems ::
  "CreateBatchImageItemParams list \<Rightarrow> batch_db conn \<Rightarrow> (go_error + unit) \<times> batch_db conn" where
  "BulkCreateBatchImageItems ps c =
     (if ps = [] then (Inr (), c) else run_stmt (atomically (insert_items ps)) c)"

text \<open>The map from custom id to non-empty preview; a later row of the result overwrites an earlier one.\<close>

definition batchImageItemPromptPreviews :: "string \<Rightarrow> batch_db \<Rightarrow> string \<Rightarrow> string option" where
  "batchImageItemPromptPreviews batchID db =
     map_of (rev [(bi_CustomID i, the (bi_PromptPreview i)).
        i \<leftarrow> bd_items db, bi_JobID i = batchID \<and> bi_PromptPreview i \<noteq> None \<and> bi_PromptPreview i \<noteq> Some []])"

definition with_preview ::
  "string \<Rightarrow> (string \<Rightarrow> string option) \<Rightarrow> CreateBatchImageItemParams \<Rightarrow> CreateBatchImageItemParams" where
  "with_preview batchID previews p =
     (let p1 = p\<lparr>ci_JobID := batchID\<rparr> in
      if ci_PromptPreview p1 = None then p1\<lparr>ci_PromptPreview := previews (ci_CustomID p1)\<rparr> else p1)"

definition replaceBatchImageItemsForJobWithSQL ::
  "string \<Rightarrow> CreateBatchImageItemParams list \<Rightarrow> BatchImageCounts \<Rightarrow> time \<Rightarrow> unit db_stmt" where
  "replaceBatchImageItemsForJobWithSQL batchID items counts now db =
     and_then (locked_job batchID db) (\<lambda>job db.
       if bj_Status job \<noteq> BatchImageJobStatusIndexing then (Inl ErrBatchImageIndexStateConflict, db)
       else
         (let previews = batchImageItemPromptPreviews batchID db;
              db1 = db\<lparr>bd_items := filter (\<lambda>i. bi_JobID i \<noteq> batchID) (bd_items db)\<rparr>
          in and_then (insert_items (map (with_preview batchID previews) items) db1) (\<lambda>_ db.
               and_then (update_jobs (job_batch batchID)
                 (\<lambda>j. j\<lparr>bj_SuccessCount := bc_SuccessCount counts, bj_FailCount := bc_FailCount counts,
                        bj_UpdatedAt := now\<rparr>) db) (\<lambda>_ db. (Inr (), db)))))"

definition ReplaceBatchImageItemsForJob ::
  "string \<Rightarrow> CreateBatchImageItemParams list \<Rightarrow> BatchImageCounts \<Rightarrow> time \<Rightarrow> batch_db conn \<Rightarrow>
   (go_error + unit) \<times> batch_db conn" where
  "ReplaceBatchImageItemsForJob batchID items counts now c =
     run_stmt (atomically (replaceBatchImageItemsForJobWithSQL batchID items counts now)) c"

definition ListBatchImageItems ::
  "string \<Rightarrow> BatchImageItemFilter \<Rightarrow> batch_db conn \<Rightarrow> (go_error + BatchImageItem list) \<times> batch_db conn" where
  "ListBatchImageItems batchID filt c =
     (let limit = (if if_Limit filt \<le> 0 \<or> if_Limit filt > 500 then 100 else if_Limit filt);
          offset = (if if_Offset filt < 0 then 0 else if_Offset filt)
      in sql_exec (\<lambda>db. (take (nat limit) (drop (nat offset)
           [i \<leftarrow> bd_items db. bi_JobID i = batchID \<and> (if_Status filt = [] \<or> bi_Status i = if_Status filt)]), db)) c)"

definition ListBatchImageItemsForOwner ::
  "int \<Rightarrow> int \<Rightarrow> string \<Rightarrow> BatchImageItemFilter \<Rightarrow> batch_db conn \<Rightarrow> (go_error + BatchImageItem list) \<times> batch_db conn" where
  "ListBatchImageItemsForOwner userID apiKeyID batchID filt c =
     and_then (GetBatchImageJobByBatchIDForOwner userID apiKeyID batchID c) (\<lambda>_ c. ListBatchImageItems batchID filt c)"

definition GetBatchImageItemForDownload ::
  "string \<Rightarrow> string \<Rightarrow> batch_db conn \<Rightarrow> (go_error + BatchImageItem) \<times> batch_db conn" where
  "GetBatchImageItemForDownload batchID customID c =
     translated (Some ErrBatchImageItemNotFound) None
       (run_stmt (\<lambda>db. case find (item_of batchID customID) (bd_items db) of
                          None \<Rightarrow> (Inl ErrNoRows, db) | Some i \<Rightarrow> (Inr i, db)) c)"

definition ListBatchImageItemsForDownload ::
  "string \<Rightarrow> string \<Rightarrow> int \<Rightarrow> batch_db conn \<Rightarrow> (go_error + BatchImageItem list) \<times> batch_db conn" where
  "ListBatchImageItemsForDownload batchID status limit c =
     ListBatchImageItems batchID \<lparr>if_Status = status, if_Limit = limit, if_Offset = 0\<rparr> c"

section \<open>Cleanup, downloads and deletion\<close>

text \<open>The shape of the next five operations: an update, an error when it found no row, an event.
  \<open>fmt_time\<close> is RFC 3339 in UTC.\<close>

definition update_with_event ::
  "(BatchImageJob \<Rightarrow> bool) \<Rightarrow> (BatchImageJob \<Rightarrow> BatchImageJob) \<Rightarrow> go_error \<Rightarrow> string \<Rightarrow> string \<Rightarrow> event_payload \<Rightarrow>
   batch_db conn \<Rightarrow> (go_error + unit) \<times> batch_db conn" where
  "update_with_event p f missing batchID eventType payload c =
     and_then (run_stmt (update_jobs p f) c) (\<lambda>affected c.
       if affected = 0 then (Inl missing, c) else AppendBatchImageEvent batchID eventType payload c)"

definition MarkBatchImageInputDeleted ::
  "(time \<Rightarrow> string) \<Rightarrow> string \<Rightarrow> time \<Rightarrow> batch_db conn \<Rightarrow> (go_error + unit) \<times> batch_db conn" where
  "MarkBatchImageInputDeleted fmt_time batchID deletedAt c =
     update_with_event (job_batch batchID)
       (\<lambda>j. j\<lparr>bj_InputDeletedAt := keep_or (bj_InputDeletedAt j) (Some deletedAt), bj_UpdatedAt := deletedAt,
              bj_Version := bj_Version j + 1\<rparr>)
       ErrBatchImageJobNotFound batchID ''input_cleanup_completed''
       (Some [(''batch_id'', batchID), (''cleanup_target'', ''input''), (''deleted_at'', fmt_time deletedAt)]) c"

definition output_deleted_row :: "time \<Rightarrow> BatchImageJob \<Rightarrow> BatchImageJob" where
  "output_deleted_row deletedAt j =
     j\<lparr>bj_Status := (if bj_Status j = BatchImageJobStatusCompleted then BatchImageJobStatusOutputDeleted else bj_Status j),
       bj_OutputDeletedAt := keep_or (bj_OutputDeletedAt j) (Some deletedAt),
       bj_FinishedAt := (if bj_Status j = BatchImageJobStatusCompleted then keep_or (bj_FinishedAt j) (Some deletedAt)
                         else bj_FinishedAt j),
       bj_UpdatedAt := deletedAt, bj_Version := bj_Version j + 1\<rparr>"

definition MarkBatchImageOutputDeleted ::
  "(time \<Rightarrow> string) \<Rightarrow> string \<Rightarrow> time \<Rightarrow> batch_db conn \<Rightarrow> (go_error + unit) \<times> batch_db conn" where
  "MarkBatchImageOutputDeleted fmt_time batchID deletedAt c =
     update_with_event (job_batch batchID) (output_deleted_row deletedAt)
       ErrBatchImageJobNotFound batchID ''output_cleanup_completed''
       (Some [(''batch_id'', batchID), (''cleanup_target'', ''output''), (''deleted_at'', fmt_time deletedAt)]) c"

definition MarkBatchImageDownloaded ::
  "(time \<Rightarrow> string) \<Rightarrow> string \<Rightarrow> time \<Rightarrow> batch_db conn \<Rightarrow> (go_error + unit) \<times> batch_db conn" where
  "MarkBatchImageDownloaded fmt_time batchID downloadedAt c =
     update_with_event (job_batch batchID)
       (\<lambda>j. j\<lparr>bj_DownloadedAt := keep_or (bj_DownloadedAt j) (Some downloadedAt), bj_UpdatedAt := downloadedAt\<rparr>)
       ErrBatchImageJobNotFound batchID ''download_completed''
       (Some [(''batch_id'', batchID), (''downloaded_at'', fmt_time downloadedAt)]) c"

definition user_deletable :: "int \<Rightarrow> int \<Rightarrow> string \<Rightarrow> BatchImageJob \<Rightarrow> bool" where
  "user_deletable userID apiKeyID batchID j \<longleftrightarrow>
     job_batch batchID j \<and> bj_UserID j = userID \<and> bj_APIKeyID j = Some apiKeyID \<and> bj_UserDeletedAt j = None \<and>
     bj_Status j \<in> set terminal_for_cleanup"

definition MarkBatchImageJobUserDeleted ::
  "(time \<Rightarrow> string) \<Rightarrow> int \<Rightarrow> int \<Rightarrow> string \<Rightarrow> time \<Rightarrow> batch_db conn \<Rightarrow> (go_error + unit) \<times> batch_db conn" where
  "MarkBatchImageJobUserDeleted fmt_time userID apiKeyID batchID deletedAt c =
     update_with_event (user_deletable userID apiKeyID batchID)
       (\<lambda>j. j\<lparr>bj_UserDeletedAt := keep_or (bj_UserDeletedAt j) (Some deletedAt), bj_UpdatedAt := deletedAt\<rparr>)
       ErrBatchImageRecordDeleteNotReady batchID ''user_record_deleted''
       (Some [(''batch_id'', batchID), (''deleted_at'', fmt_time deletedAt), (''user_id'', itoa userID),
              (''api_key_id'', itoa apiKeyID)]) c"

definition SetBatchImageOutputExpiresAt ::
  "string \<Rightarrow> time \<Rightarrow> time \<Rightarrow> batch_db conn \<Rightarrow> (go_error + unit) \<times> batch_db conn" where
  "SetBatchImageOutputExpiresAt batchID expiresAt now c =
     and_then (run_stmt (update_jobs (job_batch batchID)
         (\<lambda>j. j\<lparr>bj_OutputExpiresAt := keep_or (bj_OutputExpiresAt j) (Some expiresAt), bj_UpdatedAt := now\<rparr>)) c)
       (\<lambda>affected c. (if affected = 0 then Inl ErrBatchImageJobNotFound else Inr (), c))"

definition RecordBatchImageCleanupFailure ::
  "string \<Rightarrow> string \<Rightarrow> string \<Rightarrow> time \<Rightarrow> batch_db conn \<Rightarrow> (go_error + unit) \<times> batch_db conn" where
  "RecordBatchImageCleanupFailure batchID code message now c =
     and_then (run_stmt (update_jobs (job_batch batchID) (failure_row code message now)) c)
       (\<lambda>_ c. AppendBatchImageEvent batchID ''output_cleanup_failed'' (Some [(''error_code'', code)]) c)"

end
