(* ===== verification/BatchImageLifecycle.thy ===== *)
theory BatchImageLifecycle
  imports BatchImageRepository
begin

text \<open>
  What the statements of \<open>repository/batch_image_repo.go\<close> can do to a job over time. Each operation
  moves a row by steps of the relation \<open>row_step\<close>; everything below about the history of a job is
  an induction over these steps.
\<close>

section \<open>Steps of a row\<close>

text \<open>Updates that leave the status and what was settled alone.\<close>

definition quiet :: "BatchImageJob \<Rightarrow> BatchImageJob \<Rightarrow> bool" where
  "quiet j j' \<longleftrightarrow>
     bj_ID j' = bj_ID j \<and> bj_BatchID j' = bj_BatchID j \<and> bj_UserID j' = bj_UserID j \<and> bj_APIKeyID j' = bj_APIKeyID j \<and>
     bj_EstimatedCost j' = bj_EstimatedCost j \<and> bj_HoldAmount j' = bj_HoldAmount j \<and>
     bj_RequestHash j' = bj_RequestHash j \<and> bj_ItemCount j' = bj_ItemCount j \<and>
     bj_Status j' = bj_Status j \<and> bj_ActualCost j' = bj_ActualCost j \<and> bj_ManifestHash j' = bj_ManifestHash j \<and>
     bj_SettledAt j' = bj_SettledAt j \<and> bj_FinishedAt j' = bj_FinishedAt j \<and>
     (bj_Status j \<noteq> BatchImageJobStatusIndexing \<longrightarrow>
        bj_SuccessCount j' = bj_SuccessCount j \<and> bj_FailCount j' = bj_FailCount j)"

inductive row_step :: "string set \<Rightarrow> BatchImageJob \<Rightarrow> BatchImageJob \<Rightarrow> bool"
  for F :: "string set"
where
  row_quiet: "quiet j j' \<Longrightarrow> row_step F j j'"
| row_transition: "CanTransitionBatchImageJob (bj_Status j) to' \<Longrightarrow> row_step F j (transition_row to' t code msg j)"
| row_submitted: "CanTransitionBatchImageJob (bj_Status j) BatchImageJobStatusSubmitted \<Longrightarrow>
    row_step F j (provider_submit_row p t j)"
| row_stale: "stale_unsubmitted cutoff j \<Longrightarrow> row_step F j (fail_stale_row code msg t j)"
| row_submit_failure: "mark \<Longrightarrow> bj_BatchID j \<in> F \<Longrightarrow> row_step F j (submit_failure_row mark code msg t j)"
| row_queue_failure: "\<not> mark \<Longrightarrow> row_step F j (submit_failure_row mark code msg t j)"
| row_settled: "settleable p j \<Longrightarrow> row_step F j (settled_row p t j)"
| row_output_deleted: "row_step F j (output_deleted_row t j)"

inductive_cases row_stepE: "row_step F j j'"

text \<open>The rows of a table after some operations: the old ones, each moved by steps, and new ones.\<close>

definition rows_moved :: "string set \<Rightarrow> batch_db \<Rightarrow> batch_db \<Rightarrow> bool" where
  "rows_moved F db db' \<longleftrightarrow>
     (\<exists>olds new. bd_jobs db' = olds @ new \<and> list_all2 (row_step F)\<^sup>*\<^sup>* (bd_jobs db) olds)"

lemma rows_moved_refl: "bd_jobs db' = bd_jobs db \<Longrightarrow> rows_moved F db db'"
  unfolding rows_moved_def by (rule exI [of _ "bd_jobs db"]) (simp add: list_all2_same)

lemma rows_moved_trans:
  assumes "rows_moved F a b" "rows_moved F b c"
  shows "rows_moved F a c"
proof -
  from assms(1) obtain o1 n1 where 1: "bd_jobs b = o1 @ n1" "list_all2 (row_step F)\<^sup>*\<^sup>* (bd_jobs a) o1"
    by (auto simp: rows_moved_def)
  from assms(2) obtain o2 n2 where 2: "bd_jobs c = o2 @ n2" "list_all2 (row_step F)\<^sup>*\<^sup>* (o1 @ n1) o2"
    by (auto simp: rows_moved_def 1)
  then obtain p q where pq: "o2 = p @ q" "list_all2 (row_step F)\<^sup>*\<^sup>* o1 p"
    by (auto simp: list_all2_append1)
  have "list_all2 (row_step F)\<^sup>*\<^sup>* (bd_jobs a) p"
    by (rule list_all2_trans [OF _ 1(2) pq(2)]) (rule rtranclp_trans)
  then show ?thesis using 2(1) pq(1) by (auto simp: rows_moved_def)
qed

lemma rows_moved_mono:
  assumes "rows_moved F a b" "F \<subseteq> G"
  shows "rows_moved G a b"
proof -
  have step: "row_step F j j' \<Longrightarrow> row_step G j j'" for j j'
    by (induction rule: row_step.induct) (use assms(2) in \<open>auto intro: row_step.intros\<close>)
  have "(row_step F)\<^sup>*\<^sup>* \<le> (row_step G)\<^sup>*\<^sup>*"
    by (rule rtranclp_mono) (blast intro: step)
  then show ?thesis using assms(1) by (auto simp: rows_moved_def elim!: list_all2_mono)
qed

lemma row_step_keeps:
  assumes "row_step F j j'"
  shows "bj_BatchID j' = bj_BatchID j" "bj_ID j' = bj_ID j" "bj_UserID j' = bj_UserID j" "bj_APIKeyID j' = bj_APIKeyID j"
    "bj_EstimatedCost j' = bj_EstimatedCost j" "bj_HoldAmount j' = bj_HoldAmount j"
    "bj_RequestHash j' = bj_RequestHash j" "bj_ItemCount j' = bj_ItemCount j"
  using assms
  by (induction rule: row_step.induct)
     (simp_all add: quiet_def transition_row_def provider_submit_row_def fail_stale_row_def submit_failure_row_def
        settled_row_def output_deleted_row_def Let_def)

section \<open>Steps of the operations\<close>

text \<open>The unique index on the batch identifiers: a guard that was read from the row of a batch holds
  for every row an update of this batch touches.\<close>

definition unique_batches :: "batch_db \<Rightarrow> bool" where
  "unique_batches db \<longleftrightarrow> distinct (map bj_BatchID (bd_jobs db))"

definition moved :: "string set \<Rightarrow> batch_db \<Rightarrow> batch_db \<Rightarrow> bool" where
  "moved F db db' \<longleftrightarrow> rows_moved F db db' \<and> unique_batches db'"

definition moving :: "string set \<Rightarrow> 'a db_stmt \<Rightarrow> bool" where
  "moving F m \<longleftrightarrow> (\<forall>db. unique_batches db \<longrightarrow> moved F db (snd (m db)))"

named_theorems moving_intros

lemma moved_same: "bd_jobs db' = bd_jobs db \<Longrightarrow> unique_batches db \<Longrightarrow> moved F db db'"
  by (simp add: moved_def unique_batches_def rows_moved_refl)

lemma moved_trans: "moved F a b \<Longrightarrow> moved F b c \<Longrightarrow> moved F a c"
  unfolding moved_def by (blast intro: rows_moved_trans)

lemma moving_and_then:
  assumes "moved F db (snd r)" "\<And>a s. r = (Inr a, s) \<Longrightarrow> unique_batches s \<Longrightarrow> moved F s (snd (f a s))"
  shows "moved F db (snd (and_then r f))"
proof (cases "fst r")
  case (Inl e)
  with assms(1) show ?thesis by (cases r) (simp add: and_then_def)
next
  case (Inr a)
  then have r: "r = (Inr a, snd r)" by (cases r) simp
  have "moved F (snd r) (snd (f a (snd r)))" using assms(2) [OF r] assms(1) by (simp add: moved_def)
  with assms(1) show ?thesis by (subst r) (simp add: and_then_def moved_trans)
qed

lemma moving_atomically [moving_intros]:
  assumes "moving F m" shows "moving F (atomically m)"
proof -
  have "moved F db (snd (atomically m db))" if "unique_batches db" for db
    using assms that moved_same [OF refl that, of F] unfolding moving_def atomically_def
    by (cases "m db"; cases "fst (m db)") (auto dest: spec [of _ db])
  then show ?thesis by (simp add: moving_def)
qed

lemma snd_translated [simp]: "snd (translated nf cf r) = snd r"
  by (auto simp: translated_def split: prod.splits sum.splits)

lemma translated_Inr: "translated nf cf r = (Inr a, s) \<longleftrightarrow> r = (Inr a, s)"
  by (auto simp: translated_def split: prod.splits sum.splits)

lemma event_jobs [simp]: "bd_jobs (snd (appendBatchImageEvent b ty p db)) = bd_jobs db"
  by (simp add: appendBatchImageEvent_def)

lemma moving_event [moving_intros]: "moving F (appendBatchImageEvent b ty p)"
  by (simp add: moving_def moved_same)

lemma select_job_state [simp]: "snd (select_job p db) = db"
  by (auto simp: select_job_def split: option.splits)

lemma locked_job_state [simp]: "snd (locked_job b db) = db"
  by (simp add: locked_job_def)

lemma locked_job_Inr: "locked_job b db = (Inr j, s) \<longleftrightarrow> find (job_batch b) (bd_jobs db) = Some j \<and> s = db"
  by (auto simp: locked_job_def translated_Inr select_job_def split: option.splits)

lemma moved_update:
  assumes "\<And>j. j \<in> set (bd_jobs db) \<Longrightarrow> p j \<Longrightarrow> row_step F j (f j)" "unique_batches db"
  shows "moved F db (snd (update_jobs p f db))"
proof -
  have "rows_moved F db (snd (update_jobs p f db))"
    unfolding rows_moved_def update_jobs_def
    by (rule exI [of _ "map (\<lambda>j. if p j then f j else j) (bd_jobs db)"])
       (auto simp: list_all2_conv_all_nth intro!: r_into_rtranclp assms(1))
  moreover have "map bj_BatchID (map (\<lambda>j. if p j then f j else j) (bd_jobs db)) = map bj_BatchID (bd_jobs db)"
    using row_step_keeps(1) [OF assms(1)] by simp
  ultimately show ?thesis
    using assms(2) by (simp add: moved_def unique_batches_def update_jobs_def del: map_map)
qed

lemma moving_update [moving_intros]: "(\<And>j. p j \<Longrightarrow> row_step F j (f j)) \<Longrightarrow> moving F (update_jobs p f)"
  by (simp add: moving_def moved_update)

text \<open>An update of one batch under a guard on its row.\<close>

lemma batch_row:
  assumes "unique_batches db" "find (job_batch b) (bd_jobs db) = Some j" "j' \<in> set (bd_jobs db)" "job_batch b j'"
  shows "j' = j"
  using assms by (auto simp: unique_batches_def find_Some_iff job_batch_def distinct_map dest!: inj_onD)

lemma moved_update_batch:
  assumes "unique_batches db" "find (job_batch b) (bd_jobs db) = Some j" "row_step F j (f j)"
  shows "moved F db (snd (update_jobs (job_batch b) f db))"
  using assms(3) batch_row [OF assms(1,2)] by (intro moved_update [OF _ assms(1)]) blast

lemma run_stmt_moves:
  assumes "moving F m" "unique_batches (fst c)"
  shows "moved F (fst c) (fst (snd (run_stmt m c)))"
proof -
  have "fst (snd (run_stmt m c)) = fst c \<or> fst (snd (run_stmt m c)) = snd (m (fst c))"
    using sql_exec_cases [of m c] by (auto simp: run_stmt_def split: prod.splits sum.splits)
  then show ?thesis
    using assms moved_same [OF refl assms(2), of F] unfolding moving_def by metis
qed

lemma and_then_moves:
  assumes "unique_batches (fst c)" "moved F (fst c) (fst (snd r))"
    and "\<And>a s. r = (Inr a, s) \<Longrightarrow> unique_batches (fst s) \<Longrightarrow> moved F (fst s) (fst (snd (f a s)))"
  shows "moved F (fst c) (fst (snd (and_then r f)))"
proof (cases "fst r")
  case (Inl e)
  with assms(2) show ?thesis by (cases r) (simp add: and_then_def)
next
  case (Inr a)
  then have r: "r = (Inr a, snd r)" by (cases r) simp
  have "moved F (fst (snd r)) (fst (snd (f a (snd r))))" using assms(3) [OF r] assms(2) by (simp add: moved_def)
  with assms(2) show ?thesis by (subst r) (auto simp add: and_then_def intro: moved_trans)
qed

lemma moved_jobs_eq: "bd_jobs (snd r) = bd_jobs db \<Longrightarrow> unique_batches db \<Longrightarrow> moved F db (snd r)"
  by (rule moved_same)

lemma transition_moving [moving_intros]: "moving F (transitionBatchImageJobStatusWithSQL b to' opts clock)"
  unfolding moving_def transitionBatchImageJobStatusWithSQL_def
proof (intro allI impI moving_and_then)
  fix db assume u: "unique_batches db"
  show "moved F db (snd (locked_job b db))" by (simp add: moved_same u)
  fix j s assume "locked_job b db = (Inr j, s)"
  then have j: "find (job_batch b) (bd_jobs db) = Some j" and s: "s = db" by (simp_all add: locked_job_Inr)
  show "moved F s (snd (if to_ExpectedStatus opts \<noteq> [] \<and> bj_Status j \<noteq> to_ExpectedStatus opts \<or>
          \<not> CanTransitionBatchImageJob (bj_Status j) to'
       then (Inl ErrBatchImageInvalidTransition, s)
       else
         (let now = (case to_Now opts of None \<Rightarrow> clock | Some t \<Rightarrow> t) in
          and_then (update_jobs (job_batch b) (transition_row to' now (to_ErrorCode opts) (to_ErrorMessage opts)) s)
            (\<lambda>_ db. if to_EventType opts \<noteq> [] then appendBatchImageEvent b (to_EventType opts) (to_EventPayload opts) db
                    else (Inr (), db)))))"
  proof (cases "CanTransitionBatchImageJob (bj_Status j) to'")
    case True
    have "moved F db (snd (update_jobs (job_batch b)
        (transition_row to' t (to_ErrorCode opts) (to_ErrorMessage opts)) db))" for t
      by (rule moved_update_batch [OF u j]) (rule row_transition [OF True])
    then show ?thesis
      using u by (auto simp: s Let_def moved_same intro!: moving_and_then)
  qed (simp add: s u moved_same)
qed

lemma submit_moving [moving_intros]: "moving F (updateBatchImageJobProviderSubmitWithSQL p now)"
  unfolding moving_def updateBatchImageJobProviderSubmitWithSQL_def
proof (intro allI impI moving_and_then)
  fix db assume u: "unique_batches db"
  show "moved F db (snd (locked_job (ps_BatchID p) db))" by (simp add: moved_same u)
  fix j s assume "locked_job (ps_BatchID p) db = (Inr j, s)"
  then have j: "find (job_batch (ps_BatchID p)) (bd_jobs db) = Some j" and s: "s = db" by (simp_all add: locked_job_Inr)
  have "moved F db (snd (update_jobs (job_batch (ps_BatchID p)) (provider_submit_row p now) db))"
    if "CanTransitionBatchImageJob (bj_Status j) BatchImageJobStatusSubmitted"
    by (rule moved_update_batch [OF u j]) (rule row_submitted [OF that])
  then show "moved F s (snd (if \<not> CanTransitionBatchImageJob (bj_Status j) BatchImageJobStatusSubmitted
       then (Inl ErrBatchImageInvalidTransition, s)
       else and_then (update_jobs (job_batch (ps_BatchID p)) (provider_submit_row p now) s)
         (\<lambda>_ db. appendBatchImageEvent (ps_BatchID p) ''provider_submitted'' (ps_EventPayload p) db)))"
    using u by (auto simp: s moved_same intro!: moving_and_then)
qed

lemma settle_update_moving: "moving F (settle_update p now)"
  unfolding moving_def settle_update_def
  using moving_update [of "settleable p" F "settled_row p now"]
  by (auto simp: moving_def moved_same intro: row_settled)

lemma settled_moving [moving_intros]: "moving F (markBatchImageJobSettledWithSQL p clock)"
  unfolding moving_def markBatchImageJobSettledWithSQL_def Let_def
proof (intro allI impI moving_and_then)
  fix db assume u: "unique_batches db"
  let ?now = "case ms_Now p of None \<Rightarrow> clock | Some t \<Rightarrow> t"
  show "moved F db (snd (settle_update p ?now db))" using settle_update_moving u by (auto simp: moving_def)
  fix affected :: nat and s assume s: "unique_batches s"
  show "moved F s (snd (if affected = 0 then
          and_then (locked_job (ms_BatchID p) s) (\<lambda>job db.
            if bj_Status job \<noteq> BatchImageJobStatusSettling then
              (if bj_Status job = BatchImageJobStatusCompleted then (Inl ErrBatchImageAlreadySettled, db)
               else (Inl ErrBatchImageSettlementInvalidStatus, db))
            else (Inl ErrBatchImageSettlementManifestConflict, db))
        else appendBatchImageEvent (ms_BatchID p) ''settlement_completed'' (ms_EventPayload p) s))"
    using s by (auto simp: moved_same intro!: moving_and_then)
qed

lemma create_item_jobs [simp]: "bd_jobs (snd (createBatchImageItemWithSQL p db)) = bd_jobs db"
  by (simp add: createBatchImageItemWithSQL_def Let_def)

lemma insert_items_jobs [simp]: "bd_jobs (snd (insert_items ps db)) = bd_jobs db"
proof (induction ps arbitrary: db)
  case (Cons p ps)
  obtain r s where c: "createBatchImageItemWithSQL p db = (r, s)" by fastforce
  then have "bd_jobs s = bd_jobs db" using create_item_jobs [of p db] by simp
  with Cons c show ?case by (cases r) (simp_all add: and_then_def translated_def)
qed simp

lemma same_jobs_moving [moving_intros]:
  "moving F (createBatchImageItemWithSQL i)" "moving F (insert_items is)"
  by (simp_all add: moving_def moved_same)

lemma create_job_moving [moving_intros]: "moving F (createBatchImageJobWithSQL p)"
proof -
  have "moved F db (snd (createBatchImageJobWithSQL p db))" if u: "unique_batches db" for db
  proof (cases "job_by_batch (cj_BatchID p) db \<noteq> None \<or> hash_taken (cj_ManifestHash p) (bd_jobs db)")
    case True
    then show ?thesis by (auto simp: createBatchImageJobWithSQL_def Let_def moved_same u)
  next
    case False
    then have "cj_BatchID p \<notin> bj_BatchID ` set (bd_jobs db)"
      by (auto simp: job_by_batch_def find_None_iff)
    with False u show ?thesis
      by (auto simp: createBatchImageJobWithSQL_def Let_def moved_def unique_batches_def rows_moved_def
          job_of_params_def list_all2_same)
  qed
  then show ?thesis by (simp add: moving_def)
qed

lemma replace_moving [moving_intros]: "moving F (replaceBatchImageItemsForJobWithSQL b items counts now)"
  unfolding moving_def replaceBatchImageItemsForJobWithSQL_def
proof (intro allI impI moving_and_then)
  fix db assume u: "unique_batches db"
  show "moved F db (snd (locked_job b db))" by (simp add: moved_same u)
  fix j s assume "locked_job b db = (Inr j, s)"
  then have j: "find (job_batch b) (bd_jobs db) = Some j" and s: "s = db" by (simp_all add: locked_job_Inr)
  let ?f = "\<lambda>j. j\<lparr>bj_SuccessCount := bc_SuccessCount counts, bj_FailCount := bc_FailCount counts, bj_UpdatedAt := now\<rparr>"
  let ?items = "map (with_preview b (batchImageItemPromptPreviews b db)) items"
  let ?db1 = "db\<lparr>bd_items := filter (\<lambda>i. bi_JobID i \<noteq> b) (bd_items db)\<rparr>"
  have "moved F db (snd (and_then (insert_items ?items ?db1) (\<lambda>_ db. and_then (update_jobs (job_batch b) ?f db) (\<lambda>_ db. (Inr (), db)))))"
    if idx: "bj_Status j = BatchImageJobStatusIndexing"
  proof (rule moving_and_then)
    show "moved F db (snd (insert_items ?items ?db1))" by (rule moved_same) (simp_all add: u)
    fix a s' assume i: "insert_items ?items ?db1 = (Inr a, s')" and u': "unique_batches s'"
    have "bd_jobs s' = bd_jobs db" using insert_items_jobs [of ?items ?db1] i by simp
    with j have j': "find (job_batch b) (bd_jobs s') = Some j" by simp
    have "quiet j (?f j)" using idx by (simp add: quiet_def)
    then have "moved F s' (snd (update_jobs (job_batch b) ?f s'))"
      by (intro moved_update_batch [OF u' j'] row_quiet)
    then show "moved F s' (snd (and_then (update_jobs (job_batch b) ?f s') (\<lambda>_ db. (Inr (), db))))"
      by (rule moving_and_then) (simp add: moved_same)
  qed
  then show "moved F s (snd (if bj_Status j \<noteq> BatchImageJobStatusIndexing then (Inl ErrBatchImageIndexStateConflict, s)
       else
         (let previews = batchImageItemPromptPreviews b s;
              db1 = s\<lparr>bd_items := filter (\<lambda>i. bi_JobID i \<noteq> b) (bd_items s)\<rparr>
          in and_then (insert_items (map (with_preview b previews) items) db1) (\<lambda>_ db.
               and_then (update_jobs (job_batch b) ?f db) (\<lambda>_ db. (Inr (), db))))))"
    using u by (simp add: s Let_def moved_same)
qed

section \<open>Histories\<close>

datatype repo_op =
    RCreateJob "go_error + string" CreateBatchImageJobParams
  | RTransition string string BatchImageTransitionOptions time
  | RTouch string time
  | RFailStale string time string string time
  | ROutputRef string string time
  | RProviderSubmit UpdateBatchImageJobProviderSubmitParams time
  | RSubmitFailure string string string bool time
  | RSettled MarkBatchImageJobSettledParams time
  | RSettlementFailed string string string time
  | RCreateItem CreateBatchImageItemParams
  | RBulkItems "CreateBatchImageItemParams list"
  | RReplaceItems string "CreateBatchImageItemParams list" BatchImageCounts time
  | RInputDeleted string time
  | ROutputDeleted string time
  | RDownloaded string time
  | RUserDeleted int int string time
  | ROutputExpires string time time
  | RCleanupFailure string string string time
  | RAppendEvent string string event_payload

fun repo_step :: "(time \<Rightarrow> string) \<Rightarrow> repo_op \<Rightarrow> batch_db conn \<Rightarrow> batch_db conn" where
  "repo_step ft (RCreateJob rid p) c = snd (CreateBatchImageJob rid p c)"
| "repo_step ft (RTransition b to' opts t) c = snd (TransitionBatchImageJobStatus b to' opts t c)"
| "repo_step ft (RTouch b t) c = snd (TouchBatchImageJobSubmitting b t c)"
| "repo_step ft (RFailStale b cutoff code msg t) c = snd (FailStaleUnsubmittedBatchImageJob b cutoff code msg t c)"
| "repo_step ft (ROutputRef b ref t) c = snd (UpdateBatchImageJobProviderOutputRef b ref t c)"
| "repo_step ft (RProviderSubmit p t) c = snd (UpdateBatchImageJobProviderSubmit p t c)"
| "repo_step ft (RSubmitFailure b code msg mark t) c = snd (RecordBatchImageJobSubmitFailure b code msg mark t c)"
| "repo_step ft (RSettled p t) c = snd (MarkBatchImageJobSettled p t c)"
| "repo_step ft (RSettlementFailed b code msg t) c = snd (SetBatchImageJobSettlementFailed b code msg t c)"
| "repo_step ft (RCreateItem p) c = snd (CreateBatchImageItem p c)"
| "repo_step ft (RBulkItems ps) c = snd (BulkCreateBatchImageItems ps c)"
| "repo_step ft (RReplaceItems b items counts t) c = snd (ReplaceBatchImageItemsForJob b items counts t c)"
| "repo_step ft (RInputDeleted b t) c = snd (MarkBatchImageInputDeleted ft b t c)"
| "repo_step ft (ROutputDeleted b t) c = snd (MarkBatchImageOutputDeleted ft b t c)"
| "repo_step ft (RDownloaded b t) c = snd (MarkBatchImageDownloaded ft b t c)"
| "repo_step ft (RUserDeleted u k b t) c = snd (MarkBatchImageJobUserDeleted ft u k b t c)"
| "repo_step ft (ROutputExpires b e t) c = snd (SetBatchImageOutputExpiresAt b e t c)"
| "repo_step ft (RCleanupFailure b code msg t) c = snd (RecordBatchImageCleanupFailure b code msg t c)"
| "repo_step ft (RAppendEvent b ty p) c = snd (AppendBatchImageEvent b ty p c)"

fun repo_run :: "(time \<Rightarrow> string) \<Rightarrow> repo_op list \<Rightarrow> batch_db conn \<Rightarrow> batch_db conn" where
  "repo_run ft [] c = c"
| "repo_run ft (op # ops) c = repo_run ft ops (repo_step ft op c)"

text \<open>The batches an operation may fail without looking at their status: \<open>RecordBatchImageJobSubmitFailure\<close>
  with \<open>markFailed\<close> is the only statement that writes a status unguarded.\<close>

fun force_failed :: "repo_op \<Rightarrow> string set" where
  "force_failed (RSubmitFailure b code msg mark t) = (if mark then {b} else {})"
| "force_failed _ = {}"

lemma event_moves:
  "unique_batches (fst c) \<Longrightarrow> moved F (fst c) (fst (snd (AppendBatchImageEvent b ty p c)))"
  unfolding AppendBatchImageEvent_def by (rule run_stmt_moves [OF moving_event])

lemma update_with_event_moves:
  assumes "unique_batches (fst c)" "\<And>j. p j \<Longrightarrow> row_step F j (f j)"
  shows "moved F (fst c) (fst (snd (update_with_event p f e b ty pl c)))"
  unfolding update_with_event_def
  by (rule and_then_moves [OF assms(1) run_stmt_moves [OF moving_update [OF assms(2)] assms(1)]])
     (simp_all add: event_moves moved_same)

lemma update_then_moves:
  assumes "unique_batches (fst c)" "\<And>j. p j \<Longrightarrow> row_step F j (f j)"
    and "\<And>n s. unique_batches (fst s) \<Longrightarrow> moved F (fst s) (fst (snd (g n s)))"
  shows "moved F (fst c) (fst (snd (and_then (run_stmt (update_jobs p f) c) g)))"
  by (rule and_then_moves [OF assms(1) run_stmt_moves [OF moving_update [OF assms(2)] assms(1)] assms(3)])

lemma quiet_rows:
  "quiet j (failure_row code msg t j)" "quiet j (j\<lparr>bj_UpdatedAt := t\<rparr>)"
  "quiet j (j\<lparr>bj_ProviderOutputRef := Some ref, bj_UpdatedAt := t\<rparr>)"
  "quiet j (j\<lparr>bj_InputDeletedAt := d, bj_UpdatedAt := t, bj_Version := v\<rparr>)"
  "quiet j (j\<lparr>bj_DownloadedAt := d, bj_UpdatedAt := t\<rparr>)"
  "quiet j (j\<lparr>bj_UserDeletedAt := d, bj_UpdatedAt := t\<rparr>)"
  "quiet j (j\<lparr>bj_OutputExpiresAt := d, bj_UpdatedAt := t\<rparr>)"
  by (simp_all add: quiet_def failure_row_def)

lemma settlement_failed_moves:
  assumes u: "unique_batches (fst c)"
  shows "moved F (fst c) (fst (snd (SetBatchImageJobSettlementFailed b code msg t c)))"
  unfolding SetBatchImageJobSettlementFailed_def
proof (rule and_then_moves [OF u])
  let ?m = "\<lambda>db. case job_by_batch b db of None \<Rightarrow> (Inl ErrNoRows, db)
    | Some j \<Rightarrow> (Inr (bj_RetryCount j + 1), snd (update_jobs (job_batch b) (failure_row code msg t) db))"
  have "moving F (update_jobs (job_batch b) (failure_row code msg t))"
    by (intro moving_update row_quiet quiet_rows)
  then have "moving F (?m :: int db_stmt)" by (auto simp: moving_def moved_same split: option.split)
  from run_stmt_moves [OF this u]
  show "moved F (fst c) (fst (snd (translated (Some ErrBatchImageJobNotFound) None (run_stmt ?m c))))" by simp
  fix a :: int and s :: "batch_db conn" assume "unique_batches (fst s)"
  then show "moved F (fst s) (fst (snd (and_then (AppendBatchImageEvent b ''settlement_failed'' (Some [(''error_code'', code)]) s)
      (\<lambda>_ c. (Inr a, c)))))"
    by (intro and_then_moves event_moves) (auto simp: moved_same)
qed

lemma fail_stale_moves:
  assumes u: "unique_batches (fst c)"
  shows "moved F (fst c) (fst (snd (FailStaleUnsubmittedBatchImageJob b cutoff code msg t c)))"
proof -
  let ?r = "run_stmt (update_jobs (\<lambda>j. job_batch b j \<and> stale_unsubmitted cutoff j) (fail_stale_row code msg t)) c"
  have 1: "moved F (fst c) (fst (snd ?r))"
    by (rule run_stmt_moves [OF moving_update u]) (blast intro: row_stale)
  then have "unique_batches (fst (snd ?r))" by (simp add: moved_def)
  then have "moved F (fst c) (fst (snd (AppendBatchImageEvent b ''billing_hold_recovery_failed_unsubmitted''
      (Some [(''batch_id'', b), (''error_code'', code)]) (snd ?r))))"
    by (rule moved_trans [OF 1 event_moves])
  with 1 show ?thesis
    by (simp add: FailStaleUnsubmittedBatchImageJob_def case_prod_unfold split: sum.split)
qed

lemma update_translated_moves:
  assumes "unique_batches (fst c)" "\<And>j. p j \<Longrightarrow> row_step F j (f j)"
    and "\<And>n s. unique_batches (fst s) \<Longrightarrow> moved F (fst s) (fst (snd (g n s)))"
  shows "moved F (fst c) (fst (snd (and_then (translated nf cf (run_stmt (update_jobs p f) c)) g)))"
  by (rule and_then_moves [OF assms(1) _ assms(3)])
     (simp_all add: run_stmt_moves [OF moving_update [OF assms(2)] assms(1)])

lemma repo_step_moves:
  assumes "unique_batches (fst c)" "force_failed op \<subseteq> F"
  shows "moved F (fst c) (fst (repo_step ft op c))"
proof (cases op)
  case (RSubmitFailure b code msg mark t)
  have "row_step F j (submit_failure_row mark code msg t j)" if "job_batch b j" for j
    using assms(2) that RSubmitFailure
    by (cases mark) (auto simp: job_batch_def intro: row_submit_failure row_queue_failure)
  with assms(1) RSubmitFailure show ?thesis
    by (auto simp: RecordBatchImageJobSubmitFailure_def intro!: update_then_moves event_moves)
next
  case (RCleanupFailure b code msg t)
  with assms(1) show ?thesis
    by (auto simp: RecordBatchImageCleanupFailure_def intro!: update_then_moves event_moves row_quiet quiet_rows)
qed (use assms(1) in \<open>auto simp: CreateBatchImageJob_def TransitionBatchImageJobStatus_def
    TouchBatchImageJobSubmitting_def UpdateBatchImageJobProviderOutputRef_def UpdateBatchImageJobProviderSubmit_def
    MarkBatchImageJobSettled_def CreateBatchImageItem_def BulkCreateBatchImageItems_def
    ReplaceBatchImageItemsForJob_def MarkBatchImageInputDeleted_def MarkBatchImageOutputDeleted_def
    MarkBatchImageDownloaded_def MarkBatchImageJobUserDeleted_def SetBatchImageOutputExpiresAt_def
    Let_def moved_same settlement_failed_moves fail_stale_moves event_moves
    intro!: run_stmt_moves moving_intros update_with_event_moves update_then_moves update_translated_moves row_output_deleted row_quiet quiet_rows
    split: sum.split\<close>)

lemma repo_run_moves:
  "unique_batches (fst c) \<Longrightarrow> \<forall>op \<in> set ops. force_failed op \<subseteq> F \<Longrightarrow> moved F (fst c) (fst (repo_run ft ops c))"
proof (induction ops arbitrary: c)
  case (Cons op ops)
  have m: "moved F (fst c) (fst (repo_step ft op c))" by (rule repo_step_moves) (use Cons.prems in auto)
  with Cons.IH [of "repo_step ft op c"] Cons.prems show ?case by (auto simp: moved_def intro: rows_moved_trans)
qed (simp add: moved_same)

text \<open>The row of a batch before and after.\<close>

lemma find_moved:
  assumes "list_all2 R xs ys" "\<And>x y. R x y \<Longrightarrow> bj_BatchID y = bj_BatchID x" "find (job_batch b) xs = Some j"
  shows "\<exists>j'. find (job_batch b) (ys @ zs) = Some j' \<and> R j j'"
  using assms by (induction xs ys rule: list_all2_induct) (auto simp: job_batch_def split: if_splits)

lemma steps_keep_batch: "(row_step F)\<^sup>*\<^sup>* j j' \<Longrightarrow> bj_BatchID j' = bj_BatchID j"
  by (induction rule: rtranclp_induct) (auto simp: row_step_keeps(1))

lemma job_by_batch_find: "job_by_batch b db = find (job_batch b) (bd_jobs db)"
  unfolding job_by_batch_def by (rule arg_cong2 [where f = find]) (simp_all add: job_batch_def fun_eq_iff)

lemma job_moved:
  assumes "rows_moved F db db'" "job_by_batch b db = Some j"
  shows "\<exists>j'. job_by_batch b db' = Some j' \<and> (row_step F)\<^sup>*\<^sup>* j j'"
proof -
  obtain olds new where r: "bd_jobs db' = olds @ new" "list_all2 (row_step F)\<^sup>*\<^sup>* (bd_jobs db) olds"
    using assms(1) by (auto simp: rows_moved_def)
  from find_moved [OF r(2) steps_keep_batch] assms(2) r(1) show ?thesis by (simp add: job_by_batch_find)
qed

text \<open>A property of rows that the steps keep holds for the row of a batch from then on.\<close>

lemma job_history:
  assumes "unique_batches (fst c)" "job_by_batch b (fst c) = Some j"
    and "\<forall>op \<in> set ops. force_failed op \<subseteq> F" "P j"
    and "\<And>x y. row_step F x y \<Longrightarrow> bj_BatchID x = b \<Longrightarrow> P x \<Longrightarrow> P y"
  shows "\<exists>j'. job_by_batch b (fst (repo_run ft ops c)) = Some j' \<and> P j'"
proof -
  have "rows_moved F (fst c) (fst (repo_run ft ops c))" using repo_run_moves [OF assms(1,3)] by (simp add: moved_def)
  from job_moved [OF this assms(2)] obtain j' where j': "job_by_batch b (fst (repo_run ft ops c)) = Some j'"
    "(row_step F)\<^sup>*\<^sup>* j j'" by blast
  have b: "bj_BatchID j = b" using assms(2) by (simp add: job_by_batch_def find_Some_iff) metis
  from j'(2) have "P j' \<and> bj_BatchID j' = b"
    by (induction rule: rtranclp_induct) (use assms(4) b assms(5) row_step_keeps(1) in auto)
  with j'(1) show ?thesis by blast
qed

section \<open>The lifecycle of a job\<close>

lemma some_transitions:
  "CanTransitionBatchImageJob BatchImageJobStatusSettling BatchImageJobStatusCompleted"
  "CanTransitionBatchImageJob BatchImageJobStatusCompleted BatchImageJobStatusOutputDeleted"
  "CanTransitionBatchImageJob BatchImageJobStatusCreated BatchImageJobStatusFailed"
  "CanTransitionBatchImageJob BatchImageJobStatusUploading BatchImageJobStatusFailed"
  "\<not> CanTransitionBatchImageJob BatchImageJobStatusCancelled BatchImageJobStatusFailed"
  by code_simp+

lemma row_step_status:
  assumes "row_step F x y" "bj_BatchID x \<notin> F"
  shows "bj_Status y = bj_Status x \<or> CanTransitionBatchImageJob (bj_Status x) (bj_Status y)"
  using assms
proof (induction rule: row_step.induct)
  case (row_stale cutoff j code msg t)
  then show ?case
    using some_transitions(3,4) by (auto simp: stale_unsubmitted_def unsubmitted_def fail_stale_row_def)
next
  case (row_settled p j t)
  then show ?case using some_transitions(1) by (simp add: settleable_def settled_row_def)
next
  case (row_output_deleted j t)
  then show ?case using some_transitions(2) by (simp add: output_deleted_row_def)
qed (simp_all add: quiet_def transition_row_def provider_submit_row_def submit_failure_row_def)


definition demo_job_params :: CreateBatchImageJobParams where
  "demo_job_params =
     \<lparr>cj_BatchID = ''imgbatch_1'', cj_UserID = 1, cj_APIKeyID = Some 7, cj_AccountID = Some 3,
      cj_Provider = ''vertex'', cj_Model = ''m'', cj_TaskName = [], cj_ParentBatchID = None, cj_Status = [],
      cj_ProviderJobName = None, cj_ProviderInputRef = None, cj_ProviderOutputRef = None,
      cj_GCSInputURI = None, cj_GCSOutputURI = None, cj_ItemCount = 2, cj_SuccessCount = 0, cj_FailCount = 0,
      cj_CancelledCount = 0, cj_EstimatedCost = 4, cj_HoldAmount = Some 4, cj_ActualCost = None,
      cj_BaseUnitPrice = 2, cj_GroupRateMultiplier = 1, cj_AccountRateMultiplier = 1,
      cj_BatchDiscountMultiplier = 1, cj_HoldMultiplier = 1, cj_BillableUnitPrice = 2, cj_HoldUnitPrice = 2,
      cj_PricingSnapshotVersion = 1, cj_Currency = [], cj_HoldID = None, cj_IdempotencyKey = None,
      cj_RequestHash = None, cj_ManifestHash = None, cj_SessionID = None, cj_RetryCount = 0,
      cj_OutputExpiresAt = None\<rparr>"

definition demo_batch_db :: "string \<Rightarrow> batch_db" where
  "demo_batch_db status =
     \<lparr>bd_jobs = [(job_of_params demo_job_params 1 0)\<lparr>bj_Status := status\<rparr>], bd_items = [], bd_events = [],
      bd_next_job = 2, bd_next_item = 1, bd_next_event = 1, bd_now = 0\<rparr>"

definition demo_settle :: MarkBatchImageJobSettledParams where
  "demo_settle = \<lparr>ms_BatchID = ''imgbatch_1'', ms_ActualCost = 2, ms_ManifestHash = ''h'', ms_EventPayload = None,
     ms_Now = None, ms_OutputExpiresAt = Some 9\<rparr>"

lemma demo_unique: "unique_batches (demo_batch_db st)"
  by (simp add: unique_batches_def demo_batch_db_def)


lemma keep_or_Some [simp]: "keep_or (Some v) w = Some v"
  by (simp add: keep_or_def)

text \<open>What is fixed once a job has been settled.\<close>

definition settled_as :: "MarkBatchImageJobSettledParams \<Rightarrow> BatchImageJob \<Rightarrow> BatchImageJob \<Rightarrow> bool" where
  "settled_as p j0 j \<longleftrightarrow>
     bj_Status j \<in> {BatchImageJobStatusCompleted, BatchImageJobStatusOutputDeleted} \<and>
     bj_ActualCost j = Some (ms_ActualCost p) \<and> bj_ManifestHash j = Some (ms_ManifestHash p) \<and>
     bj_SuccessCount j = bj_SuccessCount j0 \<and> bj_FailCount j = bj_FailCount j0 \<and>
     bj_SettledAt j \<noteq> None \<and> bj_FinishedAt j \<noteq> None"

lemma transition_after_completed:
  assumes "CanTransitionBatchImageJob s s'" "s \<in> {BatchImageJobStatusCompleted, BatchImageJobStatusOutputDeleted}"
  shows "s' = BatchImageJobStatusOutputDeleted"
  using assms by (auto simp: CanTransitionBatchImageJob_def IsTerminalBatchImageJobStatus_def split: if_splits)

lemma row_step_settled_as: "row_step F x y \<Longrightarrow> bj_BatchID x \<notin> F \<Longrightarrow> settled_as p j0 x \<Longrightarrow> settled_as p j0 y"
proof (induction rule: row_step.induct)
  case (row_transition j to' t code msg)
  then have "to' = BatchImageJobStatusOutputDeleted"
    using transition_after_completed [OF row_transition(1)] by (simp add: settled_as_def)
  with row_transition(3) show ?case by (simp add: settled_as_def transition_row_def job_statuses)
next
  case (row_submitted j q t)
  have "BatchImageJobStatusSubmitted = BatchImageJobStatusOutputDeleted"
    using transition_after_completed [OF row_submitted(1)] row_submitted(3) by (simp add: settled_as_def)
  then show ?case by (simp add: job_statuses)
qed (auto simp: settled_as_def quiet_def fail_stale_row_def submit_failure_row_def settled_row_def
    output_deleted_row_def settleable_def stale_unsubmitted_def unsubmitted_def Let_def job_statuses)

lemma run_stmt_Inr: "run_stmt m c = (Inr a, c') \<Longrightarrow> m (fst c) = (Inr a, fst c')"
  by (auto simp: run_stmt_def dest!: sql_exec_Inr split: prod.splits sum.splits)

lemma atomically_Inr: "atomically m db = (Inr a, db') \<longleftrightarrow> m db = (Inr a, db')"
  by (auto simp: atomically_def split: prod.splits sum.splits)

lemma and_then_Inr:
  "and_then r f = (Inr b, s') \<longleftrightarrow> (\<exists>a s. r = (Inr a, s) \<and> f a s = (Inr b, s'))"
  by (auto simp: and_then_def split: prod.splits sum.splits)

lemma event_Inr: "appendBatchImageEvent b ty p db = (Inr (), db') \<Longrightarrow> bd_jobs db' = bd_jobs db \<and> bd_items db' = bd_items db"
  by (auto simp: appendBatchImageEvent_def split: if_splits)

lemma settled_Inr:
  assumes "markBatchImageJobSettledWithSQL p clock db = (Inr (), db')" "unique_batches db"
  shows "\<exists>j t. job_by_batch (ms_BatchID p) db = Some j \<and> settleable p j \<and>
           job_by_batch (ms_BatchID p) db' = Some (settled_row p t j)"
proof -
  let ?t = "case ms_Now p of None \<Rightarrow> clock | Some t \<Rightarrow> t"
  from assms(1) obtain n db1 where 1: "settle_update p ?t db = (Inr n, db1)" "n \<noteq> 0"
    "bd_jobs db' = bd_jobs db1"
    by (auto simp: markBatchImageJobSettledWithSQL_def Let_def and_then_Inr dest!: event_Inr split: if_splits)
  then have n: "n = length (filter (settleable p) (bd_jobs db))"
    and db1: "bd_jobs db1 = map (\<lambda>j. if settleable p j then settled_row p ?t j else j) (bd_jobs db)"
    by (auto simp: settle_update_def update_jobs_def split: if_splits)
  from n 1(2) obtain j where j: "j \<in> set (bd_jobs db)" "settleable p j" by (auto simp: filter_empty_conv)
  then have b: "job_batch (ms_BatchID p) j" by (simp add: settleable_def)
  have f: "find (job_batch (ms_BatchID p)) (bd_jobs db) = Some j"
  proof (cases "find (job_batch (ms_BatchID p)) (bd_jobs db)")
    case None
    with j(1) b show ?thesis by (auto simp: find_None_iff)
  next
    case (Some j')
    with batch_row [OF assms(2) Some j(1) b] show ?thesis by simp
  qed
  have "find (job_batch (ms_BatchID p)) (map (\<lambda>j. if settleable p j then settled_row p ?t j else j) js) =
      map_option (\<lambda>j. if settleable p j then settled_row p ?t j else j) (find (job_batch (ms_BatchID p)) js)" for js
    by (induction js) (auto simp: settled_row_def job_batch_def)
  with f j(2) db1 1(3) show ?thesis by (auto simp: job_by_batch_find)
qed

text \<open>a job is settled once. When \<open>MarkBatchImageJobSettled\<close> has succeeded, every later call for the
  batch fails, and the job keeps its cost, its manifest hash and its counts, through every sequence
  of repository operations with any faults, as long as no submit failure is forced on it.\<close>

theorem settlement_recorded_once:
  assumes "unique_batches (fst c)" "MarkBatchImageJobSettled p t c = (Inr (), c1)"
    and "job_by_batch (ms_BatchID p) (fst c) = Some j"
    and "\<forall>op \<in> set ops. ms_BatchID p \<notin> force_failed op" "ms_BatchID p' = ms_BatchID p"
  shows "fst (MarkBatchImageJobSettled p' t' (repo_run ft ops c1)) \<noteq> Inr () \<and>
         (\<exists>j'. job_by_batch (ms_BatchID p) (fst (repo_run ft ops c1)) = Some j' \<and> settled_as p j j')"
proof
  have tx: "markBatchImageJobSettledWithSQL p t (fst c) = (Inr (), fst c1)"
    using assms(2) by (auto simp: MarkBatchImageJobSettled_def atomically_Inr dest!: run_stmt_Inr)
  from settled_Inr [OF tx assms(1)] assms(3) obtain t0 where j1: "settleable p j"
    "job_by_batch (ms_BatchID p) (fst c1) = Some (settled_row p t0 j)" by auto
  have s1: "settled_as p j (settled_row p t0 j)"
    by (simp add: settled_as_def settled_row_def keep_or_def split: option.split)
  have u1: "unique_batches (fst c1)"
    using settled_moving [of "{}" p t] assms(1) tx unfolding moving_def moved_def by (metis snd_conv)
  have F: "\<forall>op \<in> set ops. force_failed op \<subseteq> - {ms_BatchID p}" using assms(4) by blast
  have keep: "settled_as p j y" if "row_step (- {ms_BatchID p}) x y" "bj_BatchID x = ms_BatchID p" "settled_as p j x" for x y
    using row_step_settled_as [OF that(1) _ that(3)] that(2) by simp
  have "\<exists>j'. job_by_batch (ms_BatchID p) (fst (repo_run ft ops c1)) = Some j' \<and> settled_as p j j'"
    by (rule job_history [OF u1 j1(2) F, where P = "settled_as p j", OF s1]) (rule keep)
  then obtain j' where j': "job_by_batch (ms_BatchID p) (fst (repo_run ft ops c1)) = Some j'" "settled_as p j j'"
    by blast
  then show "\<exists>j'. job_by_batch (ms_BatchID p) (fst (repo_run ft ops c1)) = Some j' \<and> settled_as p j j'" by blast
  have u2: "unique_batches (fst (repo_run ft ops c1))" using repo_run_moves [OF u1 F] by (simp add: moved_def)
  show "fst (MarkBatchImageJobSettled p' t' (repo_run ft ops c1)) \<noteq> Inr ()"
  proof
    assume "fst (MarkBatchImageJobSettled p' t' (repo_run ft ops c1)) = Inr ()"
    then obtain c2 where "MarkBatchImageJobSettled p' t' (repo_run ft ops c1) = (Inr (), c2)"
      by (cases "MarkBatchImageJobSettled p' t' (repo_run ft ops c1)") auto
    then have "markBatchImageJobSettledWithSQL p' t' (fst (repo_run ft ops c1)) = (Inr (), fst c2)"
      by (auto simp: MarkBatchImageJobSettled_def atomically_Inr dest!: run_stmt_Inr)
    from settled_Inr [OF this u2] j' assms(5) have "settleable p' j'" by auto
    with j'(2) show False by (auto simp: settleable_def settled_as_def job_statuses)
  qed
qed

lemma demo_settle_run:
  "\<exists>c1. MarkBatchImageJobSettled demo_settle 5 (demo_batch_db ''settling'', []) = (Inr (), c1)"
proof -
  define j where "j = (job_of_params demo_job_params 1 0)\<lparr>bj_Status := ''settling''\<rparr>"
  have jobs: "bd_jobs (demo_batch_db ''settling'') = [j]" by (simp add: demo_batch_db_def j_def)
  have "settleable demo_settle j" "bj_BatchID (settled_row demo_settle 5 j) = ''imgbatch_1''"
    by (simp_all add: settleable_def job_batch_def demo_settle_def settled_row_def j_def job_of_params_def
        demo_job_params_def BatchImageJobStatusSettling_def)
  moreover have "job_batch ''imgbatch_1'' j" by (simp add: job_batch_def j_def job_of_params_def demo_job_params_def)
  moreover have "ms_BatchID demo_settle = ''imgbatch_1''" "ms_Now demo_settle = None" by (simp_all add: demo_settle_def)
  ultimately show ?thesis
    by (simp add: MarkBatchImageJobSettled_def run_stmt_def atomically_def markBatchImageJobSettledWithSQL_def
        settle_update_def update_jobs_def jobs and_then_def appendBatchImageEvent_def job_by_batch_def hash_taken_def
        del: not_None_eq)
qed

theorem settlement_recorded_once_witness:
  "\<exists>c1 j'. fst (MarkBatchImageJobSettled demo_settle 7 (repo_run (\<lambda>_. []) [ROutputDeleted ''imgbatch_1'' 6] c1)) \<noteq> Inr () \<and>
     job_by_batch ''imgbatch_1'' (fst (repo_run (\<lambda>_. []) [ROutputDeleted ''imgbatch_1'' 6] c1)) = Some j' \<and>
     bj_ActualCost j' = Some 2"
proof -
  let ?j = "(job_of_params demo_job_params 1 0)\<lparr>bj_Status := ''settling''\<rparr>" and ?ops = "[ROutputDeleted ''imgbatch_1'' 6]"
  obtain c1 where c1: "MarkBatchImageJobSettled demo_settle 5 (demo_batch_db ''settling'', []) = (Inr (), c1)"
    using demo_settle_run by blast
  have u: "unique_batches (fst (demo_batch_db ''settling'', []))" by (simp add: demo_unique)
  have "bj_BatchID ?j = ''imgbatch_1''" by (simp add: job_of_params_def demo_job_params_def)
  then have j: "job_by_batch (ms_BatchID demo_settle) (fst (demo_batch_db ''settling'', [])) = Some ?j"
    by (simp add: job_by_batch_def demo_batch_db_def demo_settle_def)
  have f: "\<forall>op \<in> set ?ops. ms_BatchID demo_settle \<notin> force_failed op" by simp
  from settlement_recorded_once [OF u c1 j f refl, of 7 "\<lambda>_. []"] obtain j' where
    "fst (MarkBatchImageJobSettled demo_settle 7 (repo_run (\<lambda>_. []) ?ops c1)) \<noteq> Inr ()"
    "job_by_batch (ms_BatchID demo_settle) (fst (repo_run (\<lambda>_. []) ?ops c1)) = Some j'" "settled_as demo_settle ?j j'"
    by blast
  moreover have "ms_BatchID demo_settle = ''imgbatch_1''" "ms_ActualCost demo_settle = 2" by (simp_all add: demo_settle_def)
  ultimately show ?thesis unfolding settled_as_def by metis
qed

text \<open>the exception of the two properties above. \<open>RecordBatchImageJobSubmitFailure\<close> with
  \<open>markFailed\<close> does not look at the status: it fails a job that was cancelled meanwhile, a transition
  the lifecycle forbids.\<close>

theorem submit_failure_overwrites_cancelled:
  assumes "job_by_batch b db = Some j" "bj_Status j = BatchImageJobStatusCancelled"
  shows "\<exists>j'. job_by_batch b (fst (snd (RecordBatchImageJobSubmitFailure b code msg True t (db, [])))) = Some j' \<and>
           bj_Status j' = BatchImageJobStatusFailed \<and> \<not> CanTransitionBatchImageJob (bj_Status j) (bj_Status j')"
proof -
  have "find (job_batch b) (map (\<lambda>j. if job_batch b j then submit_failure_row True code msg t j else j) js) =
      map_option (submit_failure_row True code msg t) (find (job_batch b) js)" for js
    by (induction js) (auto simp: submit_failure_row_def job_batch_def Let_def)
  with assms show ?thesis
    by (auto simp: RecordBatchImageJobSubmitFailure_def run_stmt_def update_jobs_def and_then_def job_by_batch_find
        AppendBatchImageEvent_def submit_failure_row_def some_transitions)
qed

theorem submit_failure_overwrites_cancelled_witness:
  "\<exists>j'. job_by_batch ''imgbatch_1'' (fst (snd (RecordBatchImageJobSubmitFailure ''imgbatch_1'' ''ITEM_CREATE_FAILED'' [] True 5
       (demo_batch_db ''cancelled'', [])))) = Some j' \<and> bj_Status j' = ''failed''"
proof -
  let ?j = "(job_of_params demo_job_params 1 0)\<lparr>bj_Status := ''cancelled''\<rparr>"
  have "bj_BatchID ?j = ''imgbatch_1''" by (simp add: job_of_params_def demo_job_params_def)
  then have "job_by_batch ''imgbatch_1'' (demo_batch_db ''cancelled'') = Some ?j"
    by (simp add: job_by_batch_def demo_batch_db_def)
  from submit_failure_overwrites_cancelled [OF this, of "''ITEM_CREATE_FAILED''" "[]" 5] show ?thesis
    by (auto simp: job_statuses)
qed

section \<open>Well-formed tables\<close>

text \<open>Primary keys in the order of the sequence, the unique indexes on batch identifiers, on non-empty
  manifest hashes and on custom identifiers within a batch, and the foreign keys of items and events.\<close>

definition manifest_hashes :: "BatchImageJob list \<Rightarrow> string option list" where
  "manifest_hashes js = filter (\<lambda>h. h \<noteq> None \<and> h \<noteq> Some []) (map bj_ManifestHash js)"

definition item_key :: "BatchImageItem \<Rightarrow> string \<times> string" where
  "item_key i = (bi_JobID i, bi_CustomID i)"

definition has_batch :: "batch_db \<Rightarrow> string \<Rightarrow> bool" where
  "has_batch db b \<longleftrightarrow> b \<in> bj_BatchID ` set (bd_jobs db)"

definition batch_db_ok :: "batch_db \<Rightarrow> bool" where
  "batch_db_ok db \<longleftrightarrow>
     unique_batches db \<and> sorted_wrt (<) (map bj_ID (bd_jobs db)) \<and> (\<forall>j \<in> set (bd_jobs db). bj_ID j < bd_next_job db) \<and>
     distinct (manifest_hashes (bd_jobs db)) \<and>
     distinct (map item_key (bd_items db)) \<and> (\<forall>i \<in> set (bd_items db). has_batch db (bi_JobID i)) \<and>
     sorted_wrt (<) (map bi_ID (bd_items db)) \<and> (\<forall>i \<in> set (bd_items db). bi_ID i < bd_next_item db) \<and>
     (\<forall>e \<in> set (bd_events db). has_batch db (be_JobID e)) \<and>
     sorted_wrt (<) (map be_ID (bd_events db)) \<and> (\<forall>e \<in> set (bd_events db). be_ID e < bd_next_event db)"

definition sound :: "'a db_stmt \<Rightarrow> bool" where
  "sound m \<longleftrightarrow> (\<forall>db. batch_db_ok db \<longrightarrow> batch_db_ok (snd (m db)))"

named_theorems sound_intros

lemma soundD: "sound m \<Longrightarrow> batch_db_ok db \<Longrightarrow> batch_db_ok (snd (m db))"
  by (simp add: sound_def)

lemma sound_and_then:
  assumes "batch_db_ok (snd r)" "\<And>a. batch_db_ok (snd r) \<Longrightarrow> batch_db_ok (snd (f a (snd r)))"
  shows "batch_db_ok (snd (and_then r f))"
  using assms by (cases r; cases "fst r") (simp_all add: and_then_def)

lemma sound_atomically [sound_intros]: "sound m \<Longrightarrow> sound (atomically m)"
  unfolding sound_def atomically_def by (auto simp: case_prod_unfold split: sum.split)

lemma run_stmt_sound:
  assumes "sound m" "batch_db_ok (fst c)" shows "batch_db_ok (fst (snd (run_stmt m c)))"
proof -
  have "fst (snd (run_stmt m c)) = fst c \<or> fst (snd (run_stmt m c)) = snd (m (fst c))"
    using sql_exec_cases [of m c] by (auto simp: run_stmt_def split: prod.splits sum.splits)
  then show ?thesis using assms by (auto simp: sound_def)
qed

lemma conn_and_then_sound:
  assumes "batch_db_ok (fst (snd r))" "\<And>a s. batch_db_ok (fst s) \<Longrightarrow> batch_db_ok (fst (snd (f a s)))"
  shows "batch_db_ok (fst (snd (and_then r f)))"
  using assms(1) assms(2) [of "snd r"] by (cases r; cases "fst r") (simp_all add: and_then_def)

lemma has_batch_find: "job_by_batch b db \<noteq> None \<longleftrightarrow> has_batch db b"
  by (auto simp: job_by_batch_def find_None_iff has_batch_def)

text \<open>Sequences: a new row at the end with the next identifier.\<close>

lemma sorted_wrt_snoc: "sorted_wrt (<) xs \<Longrightarrow> \<forall>x \<in> set xs. x < (n::int) \<Longrightarrow> sorted_wrt (<) (xs @ [n])"
  by (simp add: sorted_wrt_append)

lemma sound_event [sound_intros]: "sound (appendBatchImageEvent b ty p)"
  using has_batch_find [of b]
  by (auto simp: sound_def appendBatchImageEvent_def batch_db_ok_def has_batch_def unique_batches_def sorted_wrt_append
      intro: less_trans)

lemma sound_update:
  assumes "\<And>j. bj_ID (f j) = bj_ID j" "\<And>j. bj_BatchID (f j) = bj_BatchID j"
    and "manifest_hashes (map (\<lambda>j. if p j then f j else j) (bd_jobs db)) = manifest_hashes (bd_jobs db) \<or>
      distinct (manifest_hashes (map (\<lambda>j. if p j then f j else j) (bd_jobs db)))"
    and "batch_db_ok db"
  shows "batch_db_ok (snd (update_jobs p f db))"
proof -
  let ?g = "\<lambda>j. if p j then f j else j"
  have g: "map bj_ID (map ?g (bd_jobs db)) = map bj_ID (bd_jobs db)"
    "map bj_BatchID (map ?g (bd_jobs db)) = map bj_BatchID (bd_jobs db)"
    using assms(1,2) by auto
  then have g3: "bj_BatchID ` set (map ?g (bd_jobs db)) = bj_BatchID ` set (bd_jobs db)"
    by (simp only: set_map [symmetric])
  have "distinct (manifest_hashes (map ?g (bd_jobs db)))"
    using assms(3,4) by (auto simp: batch_db_ok_def)
  moreover have "\<forall>j \<in> set (map ?g (bd_jobs db)). bj_ID j < bd_next_job db"
    using assms(1,4) by (auto simp: batch_db_ok_def)
  ultimately show ?thesis
    using assms(4) g g3 unfolding batch_db_ok_def update_jobs_def unique_batches_def has_batch_def
    by (simp del: map_map set_map)
qed

lemma sound_quiet_update [sound_intros]:
  assumes "\<And>j. bj_ID (f j) = bj_ID j" "\<And>j. bj_BatchID (f j) = bj_BatchID j"
    and "\<And>j. bj_ManifestHash (f j) = bj_ManifestHash j"
  shows "sound (update_jobs p f)"
proof -
  have "manifest_hashes (map (\<lambda>j. if p j then f j else j) js) = manifest_hashes js" for js
    unfolding manifest_hashes_def map_map by (rule arg_cong [where f = "filter _"]) (auto simp: assms(3))
  then show ?thesis by (auto simp: sound_def intro!: sound_update assms(1,2))
qed


definition hash_apart :: "BatchImageJob \<Rightarrow> BatchImageJob \<Rightarrow> bool" where
  "hash_apart i j \<longleftrightarrow> bj_ManifestHash i \<noteq> bj_ManifestHash j \<or> bj_ManifestHash i = None \<or> bj_ManifestHash i = Some []"

lemma distinct_manifest_hashes: "distinct (manifest_hashes js) \<longleftrightarrow> sorted_wrt hash_apart js"
  by (induction js) (auto simp: manifest_hashes_def hash_apart_def)

lemma distinct_map_sorted_wrt: "distinct (map f xs) \<longleftrightarrow> sorted_wrt (\<lambda>x y. f x \<noteq> f y) xs"
  by (induction xs) auto

lemma sorted_wrt_both:
  "sorted_wrt P xs \<Longrightarrow> sorted_wrt Q xs \<Longrightarrow>
   (\<And>x y. x \<in> set xs \<Longrightarrow> y \<in> set xs \<Longrightarrow> P x y \<Longrightarrow> Q x y \<Longrightarrow> R x y) \<Longrightarrow> sorted_wrt R xs"
  by (induction xs) auto

lemma distinct_manifest_settled:
  assumes "distinct (manifest_hashes js)" "distinct (map bj_BatchID js)"
    and free: "\<not> hash_taken (Some (ms_ManifestHash p)) [j \<leftarrow> js. \<not> job_batch (ms_BatchID p) j]"
  shows "distinct (manifest_hashes (map (\<lambda>j. if settleable p j then settled_row p t j else j) js))"
proof -
  have "sorted_wrt (\<lambda>i j. hash_apart (if settleable p i then settled_row p t i else i)
      (if settleable p j then settled_row p t j else j)) js"
  proof (rule sorted_wrt_both)
    show "sorted_wrt hash_apart js" using assms(1) by (simp add: distinct_manifest_hashes)
    show "sorted_wrt (\<lambda>i j. bj_BatchID i \<noteq> bj_BatchID j) js" using assms(2) by (simp add: distinct_map_sorted_wrt)
    fix i j assume "i \<in> set js" "j \<in> set js" "hash_apart i j" "bj_BatchID i \<noteq> bj_BatchID j"
    then show "hash_apart (if settleable p i then settled_row p t i else i) (if settleable p j then settled_row p t j else j)"
      using free by (auto simp: hash_apart_def settled_row_def settleable_def job_batch_def hash_taken_def)
  qed
  then show ?thesis by (simp add: distinct_manifest_hashes sorted_wrt_map)
qed

lemma sound_settle: "sound (settle_update p t)"
proof -
  have "batch_db_ok (snd (settle_update p t db))" if ok: "batch_db_ok db" for db
  proof (cases "(\<exists>j \<in> set (bd_jobs db). settleable p j) \<and>
         hash_taken (Some (ms_ManifestHash p)) [j \<leftarrow> bd_jobs db. \<not> job_batch (ms_BatchID p) j]")
    case True
    with ok show ?thesis by (simp add: settle_update_def)
  next
    case False
    have "manifest_hashes (map (\<lambda>j. if settleable p j then settled_row p t j else j) (bd_jobs db)) = manifest_hashes (bd_jobs db) \<or>
      distinct (manifest_hashes (map (\<lambda>j. if settleable p j then settled_row p t j else j) (bd_jobs db)))"
    proof (cases "\<exists>j \<in> set (bd_jobs db). settleable p j")
      case True
      with False ok show ?thesis
        by (intro disjI2 distinct_manifest_settled) (auto simp: batch_db_ok_def unique_batches_def)
    next
      case none: False
      then have "map (\<lambda>j. if settleable p j then settled_row p t j else j) (bd_jobs db) = bd_jobs db"
        by (simp add: map_idI)
      then show ?thesis by simp
    qed
    with False ok show ?thesis
      by (auto simp: settle_update_def settled_row_def intro!: sound_update)
  qed
  then show ?thesis by (simp add: sound_def)
qed

lemma sound_locked: "batch_db_ok db \<Longrightarrow> batch_db_ok (snd (locked_job b db))"
  by simp

lemma sound_transition [sound_intros]: "sound (transitionBatchImageJobStatusWithSQL b to' opts clock)"
  unfolding sound_def transitionBatchImageJobStatusWithSQL_def Let_def
  by (intro allI impI sound_and_then sound_locked)
     (auto intro!: sound_and_then soundD [OF sound_event] soundD [OF sound_quiet_update] simp: transition_row_def)

lemma sound_submit [sound_intros]: "sound (updateBatchImageJobProviderSubmitWithSQL p now)"
  unfolding sound_def updateBatchImageJobProviderSubmitWithSQL_def
  by (intro allI impI sound_and_then sound_locked)
     (auto intro!: sound_and_then soundD [OF sound_event] soundD [OF sound_quiet_update] simp: provider_submit_row_def)

lemma sound_settled [sound_intros]: "sound (markBatchImageJobSettledWithSQL p clock)"
  unfolding sound_def markBatchImageJobSettledWithSQL_def Let_def
  by (intro allI impI sound_and_then soundD [OF sound_settle])
     (auto intro!: sound_and_then soundD [OF sound_event])

lemma sound_create_job [sound_intros]: "sound (createBatchImageJobWithSQL p)"
proof -
  have "batch_db_ok (snd (createBatchImageJobWithSQL p db))" if ok: "batch_db_ok db" for db
  proof (cases "job_by_batch (cj_BatchID p) db \<noteq> None \<or> hash_taken (cj_ManifestHash p) (bd_jobs db)")
    case True
    with ok show ?thesis
      by (auto simp: createBatchImageJobWithSQL_def Let_def batch_db_ok_def unique_batches_def has_batch_def intro: less_trans)
  next
    case False
    then have "cj_BatchID p \<notin> bj_BatchID ` set (bd_jobs db)"
      by (auto simp: job_by_batch_def find_None_iff)
    moreover have "sorted_wrt hash_apart (bd_jobs db @ [job_of_params p i t])" for i t
      using False ok by (auto simp: sorted_wrt_append batch_db_ok_def distinct_manifest_hashes hash_apart_def
          hash_taken_def job_of_params_def)
    ultimately show ?thesis
      using False ok by (auto simp: createBatchImageJobWithSQL_def Let_def batch_db_ok_def unique_batches_def has_batch_def
          distinct_manifest_hashes sorted_wrt_append job_of_params_def intro: less_trans)
  qed
  then show ?thesis by (simp add: sound_def)
qed

lemma sound_create_item [sound_intros]: "sound (createBatchImageItemWithSQL p)"
  using has_batch_find [of "ci_JobID p"]
  by (auto simp: sound_def createBatchImageItemWithSQL_def Let_def batch_db_ok_def unique_batches_def has_batch_def
      sorted_wrt_append item_of_params_def find_None_iff item_of_def item_key_def intro: less_trans)

lemma sound_insert_items [sound_intros]: "sound (insert_items ps)"
proof (induction ps)
  case (Cons p ps)
  have "batch_db_ok (snd (insert_items (p # ps) db))" if "batch_db_ok db" for db
    using soundD [OF sound_create_item that, of p] Cons by (auto simp: sound_def intro!: sound_and_then)
  then show ?case by (simp add: sound_def)
qed (simp add: sound_def)

lemma filter_items_ok: "batch_db_ok db \<Longrightarrow> batch_db_ok (db\<lparr>bd_items := filter q (bd_items db)\<rparr>)"
  by (auto simp: batch_db_ok_def unique_batches_def has_batch_def distinct_map_filter sorted_wrt_map sorted_wrt_filter)

lemma sound_replace [sound_intros]: "sound (replaceBatchImageItemsForJobWithSQL b items counts t)"
  unfolding sound_def replaceBatchImageItemsForJobWithSQL_def Let_def
  by (intro allI impI sound_and_then sound_locked)
     (auto intro!: sound_and_then soundD [OF sound_insert_items] filter_items_ok soundD [OF sound_quiet_update])

lemma update_rows_sound [sound_intros]:
  "sound (update_jobs p (failure_row code msg t))"
  "sound (update_jobs p (fail_stale_row code msg t))"
  "sound (update_jobs p (submit_failure_row mark code msg t))"
  "sound (update_jobs p (output_deleted_row t))"
  by (rule sound_quiet_update; simp add: failure_row_def fail_stale_row_def submit_failure_row_def
      output_deleted_row_def Let_def)+

lemma event_sound: "batch_db_ok (fst c) \<Longrightarrow> batch_db_ok (fst (snd (AppendBatchImageEvent b ty p c)))"
  unfolding AppendBatchImageEvent_def by (rule run_stmt_sound [OF sound_event])

lemma update_with_event_sound:
  "sound (update_jobs p f) \<Longrightarrow> batch_db_ok (fst c) \<Longrightarrow> batch_db_ok (fst (snd (update_with_event p f e b ty pl c)))"
  unfolding update_with_event_def
  by (rule conn_and_then_sound [OF run_stmt_sound]) (simp_all add: event_sound)

lemma update_then_sound:
  assumes "batch_db_ok (fst c)" "sound (update_jobs p f)"
    and "\<And>n s. batch_db_ok (fst s) \<Longrightarrow> batch_db_ok (fst (snd (g n s)))"
  shows "batch_db_ok (fst (snd (and_then (run_stmt (update_jobs p f) c) g)))"
    and "batch_db_ok (fst (snd (and_then (translated nf cf (run_stmt (update_jobs p f) c)) g)))"
  by (rule conn_and_then_sound [OF _ assms(3)]; simp add: run_stmt_sound assms(1,2))+

lemma settlement_failed_sound:
  assumes "batch_db_ok (fst c)"
  shows "batch_db_ok (fst (snd (SetBatchImageJobSettlementFailed b code msg t c)))"
proof -
  have "sound ((\<lambda>db. case job_by_batch b db of None \<Rightarrow> (Inl ErrNoRows, db)
    | Some j \<Rightarrow> (Inr (bj_RetryCount j + 1), snd (update_jobs (job_batch b) (failure_row code msg t) db))) :: int db_stmt)"
    using update_rows_sound(1) by (auto simp: sound_def split: option.split)
  from run_stmt_sound [OF this assms] show ?thesis
    unfolding SetBatchImageJobSettlementFailed_def
    by (intro conn_and_then_sound) (simp_all add: event_sound)
qed

lemma fail_stale_sound:
  assumes "batch_db_ok (fst c)"
  shows "batch_db_ok (fst (snd (FailStaleUnsubmittedBatchImageJob b cutoff code msg t c)))"
  using run_stmt_sound [OF update_rows_sound(2) assms] event_sound [OF run_stmt_sound [OF update_rows_sound(2) assms]]
  by (simp add: FailStaleUnsubmittedBatchImageJob_def case_prod_unfold split: sum.split)



end
