(* ===== verification/BatchImageQueue.thy ===== *)
theory BatchImageQueue
  imports GoErrors "HOL-Library.Product_Lexorder" "HOL-Library.List_Lexorder" "HOL-Library.Char_ord"
begin

text \<open>
  \<open>service/batch_image_queue.go\<close>, \<open>repository/batch_image_queue.go\<close> and the worker loop
  body of \<open>service/batch_image_worker.go\<close>: the Redis queue of batch image jobs with its
  ready list, the sorted sets of delayed and active jobs, the in-flight keys that keep a job
  from being queued twice, and the job locks. Every Lua script, every MULTI/EXEC pipeline and
  every single command is one atomic statement that may fail before it runs or lose its reply
  (\<open>sql_exec\<close>). The head of the list that models the Redis list is its left end. Keys
  expire by the clock of the call; the names of the list and the two sorted sets are distinct.
\<close>

definition ErrBatchImageQueueEmpty :: go_error where
  "ErrBatchImageQueueEmpty = New 404 ''BATCH_IMAGE_QUEUE_EMPTY'' ''batch image queue is empty''"

definition ErrBatchImageAlreadyQueued :: go_error where
  "ErrBatchImageAlreadyQueued = New 409 ''BATCH_IMAGE_ALREADY_QUEUED'' ''batch image job is already queued''"

definition ErrInvalidBatchImageQueuePayload :: go_error where
  "ErrInvalidBatchImageQueuePayload = New 400 ''BATCH_IMAGE_QUEUE_INVALID_PAYLOAD'' ''invalid batch image queue payload''"

definition ctx_canceled :: go_error where
  "ctx_canceled = PlainErr ''context canceled''"

definition IsValidBatchImageID :: "string \<Rightarrow> bool" where
  "IsValidBatchImageID batchID \<longleftrightarrow> prefix ''imgbatch_'' batchID \<and> length batchID > length ''imgbatch_''"

section \<open>Redis\<close>

type_synonym zset = "(string \<times> int) list"

record redis_queue =
  r_ready :: "string list"
  r_delayed :: zset
  r_active :: zset
  r_keys :: "string \<Rightarrow> (string \<times> int) option"

definition unix_milli :: "time \<Rightarrow> int" where
  "unix_milli t = t div millisecond"

definition milliseconds :: "duration \<Rightarrow> int" where
  "milliseconds d = trunc_div d millisecond"

text \<open>\<open>ZRANGEBYSCORE key -inf max LIMIT 0 n\<close>: by score, then by the bytes of the member.\<close>

definition zrange_le :: "int \<Rightarrow> nat \<Rightarrow> zset \<Rightarrow> string list" where
  "zrange_le mx n z = take n (map fst (sort_key (\<lambda>p. (snd p, fst p)) (filter (\<lambda>p. snd p \<le> mx) z)))"

text \<open>A key that has expired is as good as absent.\<close>

definition live_key :: "time \<Rightarrow> string \<Rightarrow> redis_queue \<Rightarrow> string option" where
  "live_key now k s =
     (case r_keys s k of None \<Rightarrow> None | Some (v, exp) \<Rightarrow> if unix_milli now < exp then Some v else None)"

definition set_key :: "string \<Rightarrow> string \<Rightarrow> int \<Rightarrow> redis_queue \<Rightarrow> redis_queue" where
  "set_key k v exp s = s\<lparr>r_keys := (r_keys s)(k \<mapsto> (v, exp))\<rparr>"

text \<open>The loop of the scripts that move jobs from a sorted set to the ready list.\<close>

fun move_jobs :: "string list \<Rightarrow> zset \<times> string list \<Rightarrow> zset \<times> string list" where
  "move_jobs [] zr = zr"
| "move_jobs (job # jobs) (z, ready) = move_jobs jobs (drop_key job z, job # ready)"

definition batchImageMoveDueDelayedScript :: "int \<Rightarrow> nat \<Rightarrow> redis_queue \<Rightarrow> nat \<times> redis_queue" where
  "batchImageMoveDueDelayedScript mx n s =
     (let jobs = zrange_le mx n (r_delayed s); zr = move_jobs jobs (r_delayed s, r_ready s)
      in (length jobs, s\<lparr>r_delayed := fst zr, r_ready := snd zr\<rparr>))"

definition batchImageRecoverStaleActiveScript :: "int \<Rightarrow> nat \<Rightarrow> redis_queue \<Rightarrow> nat \<times> redis_queue" where
  "batchImageRecoverStaleActiveScript mx n s =
     (let jobs = zrange_le mx n (r_active s); zr = move_jobs jobs (r_active s, r_ready s)
      in (length jobs, s\<lparr>r_active := fst zr, r_ready := snd zr\<rparr>))"

definition batchImageReleaseLockScript :: "time \<Rightarrow> string \<Rightarrow> string \<Rightarrow> redis_queue \<Rightarrow> int \<times> redis_queue" where
  "batchImageReleaseLockScript now key token s =
     (if live_key now key s = Some token then (1, s\<lparr>r_keys := (r_keys s)(key := None)\<rparr>) else (0, s))"

definition batchImageRefreshLockScript :: "time \<Rightarrow> string \<Rightarrow> string \<Rightarrow> int \<Rightarrow> redis_queue \<Rightarrow> int \<times> redis_queue" where
  "batchImageRefreshLockScript now key token ms s =
     (if live_key now key s = Some token
      then (1, if ms \<le> 0 then s\<lparr>r_keys := (r_keys s)(key := None)\<rparr> else set_key key token (unix_milli now + ms) s)
      else (0, s))"

definition batchImageReserveScript :: "int \<Rightarrow> redis_queue \<Rightarrow> string option \<times> redis_queue" where
  "batchImageReserveScript score s =
     (if r_ready s = [] then (None, s)
      else let job = last (r_ready s)
           in (Some job, s\<lparr>r_ready := butlast (r_ready s), r_active := put job score (r_active s)\<rparr>))"

definition batchImageEnqueueScript :: "time \<Rightarrow> string \<Rightarrow> string \<Rightarrow> int \<Rightarrow> redis_queue \<Rightarrow> int \<times> redis_queue" where
  "batchImageEnqueueScript now key job ms s =
     (if live_key now key s = None
      then (1, (set_key key job (unix_milli now + ms) s)\<lparr>r_ready := job # r_ready s\<rparr>)
      else (0, s))"

section \<open>Settings\<close>

record batchImageQueueOptions =
  o_ReadyKey :: string
  o_DelayedKey :: string
  o_ActiveKey :: string
  o_InflightPrefix :: string
  o_LockPrefix :: string
  o_InflightTTL :: duration
  o_LockTTL :: duration

definition defaultBatchImageInflightTTL :: duration where
  "defaultBatchImageInflightTTL = 7 * 24 * hour"

definition defaultBatchImageJobLockTTL :: duration where
  "defaultBatchImageJobLockTTL = 5 * minute"

definition batchImageReservePollInterval :: duration where
  "batchImageReservePollInterval = second"

record batch_image_queue_config =
  bc_QueueReadyKey :: string
  bc_QueueDelayedKey :: string
  bc_QueueActiveKey :: string
  bc_InflightKeyPrefix :: string
  bc_LockKeyPrefix :: string
  bc_InflightTTLSeconds :: int
  bc_JobLockTTLSeconds :: int

definition batchImageQueueOptionsFromConfig :: "batch_image_queue_config option \<Rightarrow> batchImageQueueOptions" where
  "batchImageQueueOptionsFromConfig cfg =
     (case cfg of
        None \<Rightarrow> \<lparr>o_ReadyKey = [], o_DelayedKey = [], o_ActiveKey = [], o_InflightPrefix = [], o_LockPrefix = [],
          o_InflightTTL = 0, o_LockTTL = 0\<rparr>
      | Some c \<Rightarrow> \<lparr>o_ReadyKey = bc_QueueReadyKey c, o_DelayedKey = bc_QueueDelayedKey c, o_ActiveKey = bc_QueueActiveKey c,
          o_InflightPrefix = bc_InflightKeyPrefix c, o_LockPrefix = bc_LockKeyPrefix c,
          o_InflightTTL = int64_wrap (bc_InflightTTLSeconds c * second),
          o_LockTTL = int64_wrap (bc_JobLockTTLSeconds c * second)\<rparr>)"

definition normalizeBatchImageQueueOptions :: "batchImageQueueOptions \<Rightarrow> batchImageQueueOptions" where
  "normalizeBatchImageQueueOptions opts =
     \<lparr>o_ReadyKey = (if o_ReadyKey opts = [] then ''batch_image:queue:ready'' else o_ReadyKey opts),
      o_DelayedKey = (if o_DelayedKey opts = [] then ''batch_image:queue:delayed'' else o_DelayedKey opts),
      o_ActiveKey = (if o_ActiveKey opts = [] then ''batch_image:queue:active'' else o_ActiveKey opts),
      o_InflightPrefix = (if o_InflightPrefix opts = [] then ''batch_image:queue:inflight:'' else o_InflightPrefix opts),
      o_LockPrefix = (if o_LockPrefix opts = [] then ''batch_image:queue:lock:'' else o_LockPrefix opts),
      o_InflightTTL = (if o_InflightTTL opts \<le> 0 then defaultBatchImageInflightTTL else o_InflightTTL opts),
      o_LockTTL = (if o_LockTTL opts \<le> 0 then defaultBatchImageJobLockTTL else o_LockTTL opts)\<rparr>"

definition NewBatchImageQueue :: "batch_image_queue_config option \<Rightarrow> batchImageQueueOptions" where
  "NewBatchImageQueue cfg = normalizeBatchImageQueueOptions (batchImageQueueOptionsFromConfig cfg)"

definition inflightKey :: "batchImageQueueOptions \<Rightarrow> string \<Rightarrow> string" where
  "inflightKey q batchID = o_InflightPrefix q @ batchID"

definition lockKey :: "batchImageQueueOptions \<Rightarrow> string \<Rightarrow> string" where
  "lockKey q batchID = o_LockPrefix q @ batchID"

section \<open>The operations of the queue\<close>

text \<open>A statement of which the caller only wants to know whether it failed.\<close>

definition exec_err :: "('s \<Rightarrow> 'a \<times> 's) \<Rightarrow> 's conn \<Rightarrow> go_error \<times> 's conn" where
  "exec_err stmt c = (case sql_exec stmt c of (Inl err, c') \<Rightarrow> (err, c') | (Inr _, c') \<Rightarrow> (NilErr, c'))"

text \<open>The pipelines and single commands.\<close>

definition remove_active :: "string \<Rightarrow> redis_queue \<Rightarrow> unit \<times> redis_queue" where
  "remove_active job s = ((), s\<lparr>r_active := drop_key job (r_active s)\<rparr>)"

definition requeue_pipe :: "string \<Rightarrow> duration \<Rightarrow> time \<Rightarrow> redis_queue \<Rightarrow> unit \<times> redis_queue" where
  "requeue_pipe batchID delay now s = ((),
     let s1 = s\<lparr>r_active := drop_key batchID (r_active s), r_delayed := drop_key batchID (r_delayed s)\<rparr> in
     if delay \<le> 0 then s1\<lparr>r_ready := batchID # r_ready s1\<rparr>
     else s1\<lparr>r_delayed := put batchID (unix_milli (now + delay)) (r_delayed s1)\<rparr>)"

definition ack_pipe :: "string \<Rightarrow> string \<Rightarrow> redis_queue \<Rightarrow> unit \<times> redis_queue" where
  "ack_pipe batchID key s = ((),
     s\<lparr>r_active := drop_key batchID (r_active s), r_delayed := drop_key batchID (r_delayed s),
       r_keys := (r_keys s)(key := None)\<rparr>)"

definition zadd_existing :: "string \<Rightarrow> int \<Rightarrow> redis_queue \<Rightarrow> unit \<times> redis_queue" where
  "zadd_existing batchID score s = ((),
     if map_of (r_active s) batchID = None then s else s\<lparr>r_active := put batchID score (r_active s)\<rparr>)"

definition set_if_absent :: "time \<Rightarrow> string \<Rightarrow> string \<Rightarrow> int \<Rightarrow> redis_queue \<Rightarrow> bool \<times> redis_queue" where
  "set_if_absent now key v ms s =
     (if live_key now key s = None then (True, set_key key v (unix_milli now + ms) s) else (False, s))"

text \<open>Redis refuses a \<open>SET ... PX\<close> with a lifetime that is not positive.\<close>

definition redis_expire_error :: go_error where
  "redis_expire_error = PlainErr ''ERR invalid expire time in 'set' command''"

definition q_Enqueue :: "batchImageQueueOptions \<Rightarrow> string \<Rightarrow> time \<Rightarrow> redis_queue conn \<Rightarrow> go_error \<times> redis_queue conn" where
  "q_Enqueue q batchID now c =
     (if \<not> IsValidBatchImageID batchID then (ErrInvalidBatchImageQueuePayload, c)
      else if milliseconds (o_InflightTTL q) \<le> 0 then (redis_expire_error, c)
      else case sql_exec (batchImageEnqueueScript now (inflightKey q batchID) batchID (milliseconds (o_InflightTTL q))) c of
        (Inl err, c') \<Rightarrow> (err, c')
      | (Inr applied, c') \<Rightarrow> (if applied = 0 then ErrBatchImageAlreadyQueued else NilErr, c'))"

definition reserveOnce :: "time \<Rightarrow> redis_queue conn \<Rightarrow> (go_error + string) \<times> redis_queue conn" where
  "reserveOnce now c =
     (case sql_exec (batchImageReserveScript (unix_milli now)) c of
        (Inl err, c') \<Rightarrow> (Inl err, c')
      | (Inr None, c') \<Rightarrow> (Inl ErrBatchImageQueueEmpty, c')
      | (Inr (Some batchID), c') \<Rightarrow>
          if IsValidBatchImageID batchID then (Inr batchID, c')
          else (Inl ErrInvalidBatchImageQueuePayload,
                if batchID \<noteq> [] then snd (sql_exec (remove_active batchID) c') else c'))"

text \<open>
  The polling of \<open>Reserve\<close>: the first poll happens at once; each later element of the list is
  what ended the wait for the next poll, the timer at a given time or the cancellation of the
  context. \<open>None\<close> means that the list ended while the call was still waiting.
\<close>

datatype wakeup = TimerFired time | CtxDone

text \<open>How long a poll at \<open>now\<close> waits for the next one.\<close>

definition poll_wait :: "time \<Rightarrow> time \<Rightarrow> duration" where
  "poll_wait deadline now =
     (let remaining = time_sub deadline now in
      if remaining < batchImageReservePollInterval then remaining else batchImageReservePollInterval)"

fun reserve_loop ::
  "time \<Rightarrow> time \<Rightarrow> wakeup list \<Rightarrow> redis_queue conn \<Rightarrow> ((go_error + string) \<times> redis_queue conn) option" where
  "reserve_loop deadline now ws c =
     (case reserveOnce now c of
        (Inr batchID, c') \<Rightarrow> Some (Inr batchID, c')
      | (Inl err, c') \<Rightarrow>
          if \<not> errors_is err ErrBatchImageQueueEmpty then Some (Inl err, c')
          else if time_sub deadline now \<le> 0 then Some (Inl ErrBatchImageQueueEmpty, c')
          else case ws of
            [] \<Rightarrow> None
          | CtxDone # ws' \<Rightarrow> Some (Inl ctx_canceled, c')
          | TimerFired t # ws' \<Rightarrow> reserve_loop deadline t ws' c')"

declare reserve_loop.simps [simp del]

definition q_Reserve ::
  "duration \<Rightarrow> time \<Rightarrow> wakeup list \<Rightarrow> redis_queue conn \<Rightarrow> ((go_error + string) \<times> redis_queue conn) option" where
  "q_Reserve blockTimeout now ws c = reserve_loop (now + blockTimeout) now ws c"

definition q_RequeueAfter :: "string \<Rightarrow> duration \<Rightarrow> time \<Rightarrow> redis_queue conn \<Rightarrow> go_error \<times> redis_queue conn" where
  "q_RequeueAfter batchID delay now c =
     (if \<not> IsValidBatchImageID batchID then (ErrInvalidBatchImageQueuePayload, c)
      else exec_err (requeue_pipe batchID delay now) c)"

definition q_Ack :: "batchImageQueueOptions \<Rightarrow> string \<Rightarrow> redis_queue conn \<Rightarrow> go_error \<times> redis_queue conn" where
  "q_Ack q batchID c =
     (if \<not> IsValidBatchImageID batchID then (ErrInvalidBatchImageQueuePayload, c)
      else exec_err (ack_pipe batchID (inflightKey q batchID)) c)"

definition q_Heartbeat :: "string \<Rightarrow> time \<Rightarrow> redis_queue conn \<Rightarrow> go_error \<times> redis_queue conn" where
  "q_Heartbeat batchID now c =
     (if \<not> IsValidBatchImageID batchID then (ErrInvalidBatchImageQueuePayload, c)
      else exec_err (zadd_existing batchID (unix_milli now)) c)"

definition q_MoveDueDelayedToReady :: "int \<Rightarrow> time \<Rightarrow> redis_queue conn \<Rightarrow> (go_error + nat) \<times> redis_queue conn" where
  "q_MoveDueDelayedToReady limit now c =
     sql_exec (batchImageMoveDueDelayedScript (unix_milli now) (nat (if limit \<le> 0 then 100 else limit))) c"

definition q_RecoverStaleActive ::
  "duration \<Rightarrow> int \<Rightarrow> time \<Rightarrow> redis_queue conn \<Rightarrow> (go_error + nat) \<times> redis_queue conn" where
  "q_RecoverStaleActive staleAfter limit now c =
     (if staleAfter \<le> 0 then (Inl ErrInvalidBatchImageQueuePayload, c)
      else sql_exec (batchImageRecoverStaleActiveScript (unix_milli (now - staleAfter))
             (nat (if limit \<le> 0 then 100 else limit))) c)"

text \<open>
  A lock is its key and its random token, an argument here. The client library sends a positive
  lifetime in milliseconds, at least one.
\<close>

type_synonym job_lock = "string \<times> string"

definition lock_ms :: "duration \<Rightarrow> int" where
  "lock_ms ttl = max 1 (milliseconds ttl)"

definition q_TryAcquireJobLock ::
  "batchImageQueueOptions \<Rightarrow> string \<Rightarrow> duration \<Rightarrow> string \<Rightarrow> time \<Rightarrow> redis_queue conn \<Rightarrow>
   (go_error + job_lock option) \<times> redis_queue conn" where
  "q_TryAcquireJobLock q batchID ttl token now c =
     (if \<not> IsValidBatchImageID batchID then (Inl ErrInvalidBatchImageQueuePayload, c)
      else
        let ttl' = (if ttl \<le> 0 then o_LockTTL q else ttl); key = lockKey q batchID in
        case sql_exec (set_if_absent now key token (lock_ms ttl')) c of
          (Inl err, c') \<Rightarrow> (Inl err, c')
        | (Inr ok, c') \<Rightarrow> (Inr (if ok then Some (key, token) else None), c'))"

definition lock_Release :: "job_lock \<Rightarrow> time \<Rightarrow> redis_queue conn \<Rightarrow> go_error \<times> redis_queue conn" where
  "lock_Release lock now c =
     (if fst lock = [] \<or> snd lock = [] then (NilErr, c)
      else exec_err (batchImageReleaseLockScript now (fst lock) (snd lock)) c)"

definition lock_Refresh :: "job_lock \<Rightarrow> duration \<Rightarrow> time \<Rightarrow> redis_queue conn \<Rightarrow> go_error \<times> redis_queue conn" where
  "lock_Refresh lock ttl now c =
     (if fst lock = [] \<or> snd lock = [] then (NilErr, c)
      else exec_err (batchImageRefreshLockScript now (fst lock) (snd lock)
             (milliseconds (if ttl \<le> 0 then defaultBatchImageJobLockTTL else ttl))) c)"

text \<open>
  \<open>EnqueueBatchImageJob\<close> of the service, given what its look-up of the job returned; the
  look-up is left out when the service has no repository.
\<close>

definition EnqueueBatchImageJob ::
  "batchImageQueueOptions \<Rightarrow> go_error option \<Rightarrow> string \<Rightarrow> time \<Rightarrow> redis_queue conn \<Rightarrow> go_error \<times> redis_queue conn" where
  "EnqueueBatchImageJob q lookup_err batchID now c =
     (if \<not> IsValidBatchImageID batchID then (ErrInvalidBatchImageQueuePayload, c)
      else case lookup_err of
        Some err \<Rightarrow> if err \<noteq> NilErr then (err, c) else q_Enqueue q batchID now c
      | None \<Rightarrow> q_Enqueue q batchID now c)"

section \<open>The worker\<close>

record BatchImageWorkerOptions =
  ReserveBlockTimeout :: duration
  JobLockTTL :: duration
  LockConflictDelay :: duration
  DefaultRequeueDelay :: duration
  ErrorRetryDelay :: duration
  ErrorBackoff :: duration
  DelayedPollInterval :: duration
  RecoveryInterval :: duration
  StaleActiveAfter :: duration
  DelayedMoveLimit :: int
  RecoverLimit :: int

record BatchImageProcessResult =
  pr_RequeueAfter :: duration
  pr_Terminal :: bool

definition positive_or :: "int \<Rightarrow> int \<Rightarrow> int" where
  "positive_or x dflt = (if x \<le> 0 then dflt else x)"

definition normalizeBatchImageWorkerOptions :: "BatchImageWorkerOptions \<Rightarrow> BatchImageWorkerOptions" where
  "normalizeBatchImageWorkerOptions opts =
     \<lparr>ReserveBlockTimeout = positive_or (ReserveBlockTimeout opts) (5 * second),
      JobLockTTL = positive_or (JobLockTTL opts) (5 * minute),
      LockConflictDelay = positive_or (LockConflictDelay opts) (5 * second),
      DefaultRequeueDelay = positive_or (DefaultRequeueDelay opts) (30 * second),
      ErrorRetryDelay = positive_or (ErrorRetryDelay opts) minute,
      ErrorBackoff = positive_or (ErrorBackoff opts) second,
      DelayedPollInterval = positive_or (DelayedPollInterval opts) (5 * second),
      RecoveryInterval = positive_or (RecoveryInterval opts) (5 * minute),
      StaleActiveAfter = positive_or (StaleActiveAfter opts) (10 * minute),
      DelayedMoveLimit = positive_or (DelayedMoveLimit opts) 100,
      RecoverLimit = positive_or (RecoverLimit opts) 100\<rparr>"

definition heartbeatInterval :: "BatchImageWorkerOptions \<Rightarrow> duration" where
  "heartbeatInterval opts =
     (let interval = (if StaleActiveAfter opts < JobLockTTL opts then StaleActiveAfter opts else JobLockTTL opts);
          third = trunc_div interval 3
      in if third < second then second else third)"

text \<open>One tick of the heartbeat of a job; failures are logged and ignored.\<close>

definition heartbeat_tick ::
  "BatchImageWorkerOptions \<Rightarrow> string \<Rightarrow> job_lock \<Rightarrow> time \<Rightarrow> redis_queue conn \<Rightarrow> redis_queue conn" where
  "heartbeat_tick opts batchID lock now c =
     snd (lock_Refresh lock (JobLockTTL opts) now (snd (q_Heartbeat batchID now c)))"

text \<open>
  One round of the worker. \<open>proc\<close> is the processor on its own store; \<open>beats\<close> are the
  times of the heartbeat ticks while it runs, \<open>t1\<close> and \<open>t2\<close> the clock before and after.
\<close>

definition RunOnce ::
  "batchImageQueueOptions \<Rightarrow> BatchImageWorkerOptions \<Rightarrow>
   (string \<Rightarrow> 'w \<Rightarrow> (go_error + BatchImageProcessResult) \<times> 'w) \<Rightarrow> string \<Rightarrow>
   time \<Rightarrow> wakeup list \<Rightarrow> time \<Rightarrow> time list \<Rightarrow> time \<Rightarrow> 'w \<Rightarrow> redis_queue conn \<Rightarrow>
   (go_error \<times> 'w \<times> redis_queue conn) option" where
  "RunOnce q opts proc token now ws t1 beats t2 w c =
     (case q_Reserve (ReserveBlockTimeout opts) now ws c of
        None \<Rightarrow> None
      | Some (Inl err, c1) \<Rightarrow> Some (if errors_is err ErrBatchImageQueueEmpty then NilErr else err, w, c1)
      | Some (Inr batchID, c1) \<Rightarrow>
          (case q_TryAcquireJobLock q batchID (JobLockTTL opts) token t1 c1 of
             (Inl err, c2) \<Rightarrow>
               (case q_RequeueAfter batchID (LockConflictDelay opts) t1 c2 of (requeueErr, c3) \<Rightarrow>
                  Some (if requeueErr \<noteq> NilErr then requeueErr else err, w, c3))
           | (Inr None, c2) \<Rightarrow>
               (case q_RequeueAfter batchID (LockConflictDelay opts) t1 c2 of (err, c3) \<Rightarrow> Some (err, w, c3))
           | (Inr (Some lock), c2) \<Rightarrow>
               (let c3 = fold (heartbeat_tick opts batchID lock) beats c2 in
                case proc batchID w of (result, w') \<Rightarrow>
                  (case (case result of
                           Inl _ \<Rightarrow> q_RequeueAfter batchID (ErrorRetryDelay opts) t2 c3
                         | Inr res \<Rightarrow>
                             if pr_Terminal res then q_Ack q batchID c3
                             else q_RequeueAfter batchID
                                    (if pr_RequeueAfter res \<le> 0 then DefaultRequeueDelay opts else pr_RequeueAfter res) t2 c3) of
                     (err, c4) \<Rightarrow> Some (err, w', snd (lock_Release lock t2 c4))))))"

definition MoveDueDelayedOnce :: "BatchImageWorkerOptions \<Rightarrow> time \<Rightarrow> redis_queue conn \<Rightarrow> (go_error + nat) \<times> redis_queue conn" where
  "MoveDueDelayedOnce opts now c = q_MoveDueDelayedToReady (DelayedMoveLimit opts) now c"

definition RecoverStaleActiveOnce :: "BatchImageWorkerOptions \<Rightarrow> time \<Rightarrow> redis_queue conn \<Rightarrow> (go_error + nat) \<times> redis_queue conn" where
  "RecoverStaleActiveOnce opts now c = q_RecoverStaleActive (StaleActiveAfter opts) (RecoverLimit opts) now c"

section \<open>No job is lost\<close>

definition pending :: "redis_queue \<Rightarrow> string \<Rightarrow> bool" where
  "pending s b \<longleftrightarrow> b \<in> set (r_ready s) \<or> map_of (r_delayed s) b \<noteq> None \<or> map_of (r_active s) b \<noteq> None"

text \<open>What anyone may do to the queue, one call at a time.\<close>

datatype queue_op =
    QEnqueue string time
  | QPoll time
  | QRequeue string duration time
  | QAck string
  | QHeartbeat string time
  | QMoveDue int time
  | QRecover duration int time
  | QLock string duration string time
  | QRelease job_lock time
  | QRefresh job_lock duration time

fun queue_step :: "batchImageQueueOptions \<Rightarrow> queue_op \<Rightarrow> redis_queue conn \<Rightarrow> redis_queue conn" where
  "queue_step q (QEnqueue b t) c = snd (q_Enqueue q b t c)"
| "queue_step q (QPoll t) c = snd (reserveOnce t c)"
| "queue_step q (QRequeue b d t) c = snd (q_RequeueAfter b d t c)"
| "queue_step q (QAck b) c = snd (q_Ack q b c)"
| "queue_step q (QHeartbeat b t) c = snd (q_Heartbeat b t c)"
| "queue_step q (QMoveDue n t) c = snd (q_MoveDueDelayedToReady n t c)"
| "queue_step q (QRecover d n t) c = snd (q_RecoverStaleActive d n t c)"
| "queue_step q (QLock b ttl tok t) c = snd (q_TryAcquireJobLock q b ttl tok t c)"
| "queue_step q (QRelease l t) c = snd (lock_Release l t c)"
| "queue_step q (QRefresh l ttl t) c = snd (lock_Refresh l ttl t c)"

abbreviation queue_run :: "batchImageQueueOptions \<Rightarrow> queue_op list \<Rightarrow> redis_queue conn \<Rightarrow> redis_queue conn" where
  "queue_run q \<equiv> fold (queue_step q)"

named_theorems queue_defs
  \<open>the calls of the queue\<close>

lemmas [queue_defs] = q_Enqueue_def q_RequeueAfter_def q_Ack_def q_Heartbeat_def reserveOnce_def
  q_MoveDueDelayedToReady_def q_RecoverStaleActive_def q_TryAcquireJobLock_def lock_Release_def lock_Refresh_def

named_theorems script_defs
  \<open>the statements they send\<close>

lemmas [script_defs] = batchImageMoveDueDelayedScript_def batchImageRecoverStaleActiveScript_def
  batchImageReleaseLockScript_def batchImageRefreshLockScript_def batchImageEnqueueScript_def
  requeue_pipe_def ack_pipe_def zadd_existing_def set_if_absent_def remove_active_def set_key_def

text \<open>What every statement of a call keeps, the call keeps.\<close>

lemma sql_exec_keeps:
  "P (fst c) \<Longrightarrow> P (snd (stmt (fst c))) \<Longrightarrow> P (fst (snd (sql_exec stmt c)))"
  using sql_exec_cases [of stmt c] by auto

lemma snd_exec_err [simp]: "snd (exec_err stmt c) = snd (sql_exec stmt c)"
  by (simp add: exec_err_def split: prod.split sum.split)

lemma snd_calls:
  "snd (q_Enqueue q b t c) = (if \<not> IsValidBatchImageID b \<or> milliseconds (o_InflightTTL q) \<le> 0 then c
     else snd (sql_exec (batchImageEnqueueScript t (inflightKey q b) b (milliseconds (o_InflightTTL q))) c))"
  "snd (q_TryAcquireJobLock q b ttl tok t c) = (if \<not> IsValidBatchImageID b then c
     else snd (sql_exec (set_if_absent t (lockKey q b) tok (lock_ms (if ttl \<le> 0 then o_LockTTL q else ttl))) c))"
  by (simp_all add: q_Enqueue_def q_TryAcquireJobLock_def Let_def split: prod.split sum.split)

lemma move_jobs_parts:
  "b \<in> set (snd (move_jobs jobs zr)) \<longleftrightarrow> b \<in> set jobs \<or> b \<in> set (snd zr)"
  "map_of (fst (move_jobs jobs zr)) b = (if b \<in> set jobs then None else map_of (fst zr) b)"
  by (induction jobs zr rule: move_jobs.induct) auto

lemma pending_statements:
  assumes "pending s b"
  shows "pending (snd (batchImageMoveDueDelayedScript mx n s)) b"
    and "pending (snd (batchImageRecoverStaleActiveScript mx n s)) b"
    and "pending (snd (batchImageReleaseLockScript now key tok s)) b"
    and "pending (snd (batchImageRefreshLockScript now key tok ms s)) b"
    and "pending (snd (batchImageEnqueueScript now key job ms s)) b"
    and "pending (snd (requeue_pipe job delay now s)) b"
    and "job \<noteq> b \<Longrightarrow> pending (snd (ack_pipe job key s)) b"
    and "job \<noteq> b \<Longrightarrow> pending (snd (remove_active job s)) b"
    and "pending (snd (zadd_existing job score s)) b"
    and "pending (snd (set_if_absent now key tok ms s)) b"
  using assms by (simp_all add: pending_def script_defs Let_def move_jobs_parts del: not_None_eq)

lemma pending_exec:
  "pending (fst c) b \<Longrightarrow> pending (snd (stmt (fst c))) b \<Longrightarrow> pending (fst (snd (sql_exec stmt c))) b"
  by (rule sql_exec_keeps)

lemma pending_reserve:
  assumes "pending s b"
  shows "pending (snd (batchImageReserveScript score s)) b"
proof (cases "r_ready s" rule: rev_cases)
  case (snoc js j)
  with assms show ?thesis
    by (auto simp: pending_def batchImageReserveScript_def Let_def simp del: not_None_eq)
qed (use assms in \<open>simp add: batchImageReserveScript_def\<close>)

lemma pending_poll:
  assumes "IsValidBatchImageID b" "pending (fst c) b"
  shows "pending (fst (snd (reserveOnce t c))) b"
proof -
  have p: "pending (fst (snd (sql_exec (batchImageReserveScript (unix_milli t)) c))) b"
    by (rule pending_exec [OF assms(2)]) (rule pending_reserve [OF assms(2)])
  have rm: "pending (fst (snd (sql_exec (remove_active j) c'))) b"
    if "pending (fst c') b" "\<not> IsValidBatchImageID j" for j c'
  proof -
    have "j \<noteq> b" using that(2) assms(1) by auto
    show ?thesis
      by (rule pending_exec [OF that(1)]) (rule pending_statements(8) [OF that(1) \<open>j \<noteq> b\<close>])
  qed
  obtain r c1 where e: "sql_exec (batchImageReserveScript (unix_milli t)) c = (r, c1)" by (rule prod.exhaust)
  with p have p1: "pending (fst c1) b" by simp
  show ?thesis
    unfolding reserveOnce_def e using p1 rm [OF p1] by (simp split: sum.split option.split)
qed

lemma pending_step:
  assumes "IsValidBatchImageID b" "pending (fst c) b" "op \<noteq> QAck b"
  shows "pending (fst (queue_step q op c)) b"
  using assms pending_poll [OF assms(1,2)]
  by (cases op)
     (simp_all add: snd_calls q_RequeueAfter_def q_Ack_def q_Heartbeat_def q_MoveDueDelayedToReady_def
        q_RecoverStaleActive_def lock_Release_def lock_Refresh_def pending_exec
        pending_statements)

text \<open>C38: no job gets lost. From the moment a job was put on the queue, through every sequence of
  calls of any clients, with any faults of Redis, it stays ready, delayed or active until somebody
  acknowledges it.\<close>

theorem queued_job_stays:
  assumes "q_Enqueue q b t c = (NilErr, c')" "QAck b \<notin> set ops"
  shows "pending (fst (queue_run q ops c')) b"
proof -
  have v: "IsValidBatchImageID b" and ex: "sql_exec (batchImageEnqueueScript t (inflightKey q b) b (milliseconds (o_InflightTTL q))) c = (Inr 1, c')"
    using assms(1)
    by (auto simp: q_Enqueue_def ErrInvalidBatchImageQueuePayload_def New_def redis_expire_error_def
        ErrBatchImageAlreadyQueued_def batchImageEnqueueScript_def sql_exec_def conn_error_def
        split: if_splits sum.splits prod.splits list.splits fault.splits)
  have "pending (fst c') b"
    using sql_exec_Inr [OF ex] by (auto simp: pending_def batchImageEnqueueScript_def split: if_splits)
  then show ?thesis
    using assms(2)
  proof (induction ops arbitrary: c')
    case (Cons op ops)
    then have "pending (fst (queue_step q op c')) b" by (intro pending_step [OF v]) auto
    with Cons show ?case by simp
  qed simp
qed

definition empty_queue :: redis_queue where
  "empty_queue = \<lparr>r_ready = [], r_delayed = [], r_active = [], r_keys = \<lambda>k. None\<rparr>"

lemma demo_batch_valid: "IsValidBatchImageID ''imgbatch_1''"
  by code_simp

lemma demo_enqueue:
  "q_Enqueue (NewBatchImageQueue None) ''imgbatch_1'' 0 (empty_queue, Runs # fs) =
     (NilErr, snd (q_Enqueue (NewBatchImageQueue None) ''imgbatch_1'' 0 (empty_queue, Runs # fs)))"
  by (simp add: prod_eq_iff q_Enqueue_def demo_batch_valid NewBatchImageQueue_def normalizeBatchImageQueueOptions_def
      batchImageQueueOptionsFromConfig_def defaultBatchImageInflightTTL_def milliseconds_def trunc_div_def sql_exec_def
      batchImageEnqueueScript_def live_key_def empty_queue_def)

theorem queued_job_stays_witness:
  "pending (fst (queue_run (NewBatchImageQueue None)
     [QPoll second, QHeartbeat ''imgbatch_1'' (2 * second), QRecover minute 0 hour, QPoll hour, QAck ''imgbatch_2'']
     (snd (q_Enqueue (NewBatchImageQueue None) ''imgbatch_1'' 0 (empty_queue, [Runs, ReplyLost, NeverRan, Runs])))))
     ''imgbatch_1''"
  by (rule queued_job_stays [OF demo_enqueue]) simp

section \<open>A round of the worker\<close>

lemma pending_loop:
  assumes "IsValidBatchImageID b"
  shows "reserve_loop d now ws c = Some (r, c') \<Longrightarrow> pending (fst c) b \<Longrightarrow> pending (fst c') b"
proof (induction d now ws c rule: reserve_loop.induct)
  case (1 d now ws c)
  obtain res c1 where e: "reserveOnce now c = (res, c1)" by (rule prod.exhaust)
  have p1: "pending (fst c1) b" using pending_poll [OF assms "1.prems"(2), of now] e by simp
  show ?case
    using "1.prems" "1.IH" [OF e [symmetric]] e p1
    by (auto simp: reserve_loop.simps [of d now ws c] split: sum.splits if_splits list.splits wakeup.splits)
qed

lemma pending_heartbeat:
  "pending (fst c) b \<Longrightarrow> pending (fst (heartbeat_tick opts j lock t c)) b"
  by (simp add: heartbeat_tick_def q_Heartbeat_def lock_Refresh_def pending_exec pending_statements)

lemma pending_heartbeats:
  "pending (fst c) b \<Longrightarrow> pending (fst (fold (heartbeat_tick opts j lock) ts c)) b"
  by (induction ts arbitrary: c) (simp_all add: pending_heartbeat)

lemma pending_calls:
  assumes "pending (fst c) b"
  shows "pending (fst (snd (q_RequeueAfter j d t c))) b"
    and "pending (fst (snd (q_TryAcquireJobLock q j ttl tok t c))) b"
    and "pending (fst (snd (lock_Release lock t c))) b"
    and "j \<noteq> b \<Longrightarrow> pending (fst (snd (q_Ack q j c))) b"
  using assms
  by (simp_all add: q_RequeueAfter_def snd_calls lock_Release_def q_Ack_def pending_exec pending_statements)

lemma worker_round_store:
  "RunOnce q opts proc token now ws t1 beats t2 w c = Some (err, w', c') \<Longrightarrow> w' = w \<or> (\<exists>j. w' = snd (proc j w))"
  by (auto simp: RunOnce_def Let_def case_prod_unfold split: option.splits sum.splits prod.splits if_splits)

lemma worker_round:
  assumes "IsValidBatchImageID b" "pending (fst c) b"
    and "RunOnce q opts proc token now ws t1 beats t2 w c = Some (err, w', c')"
  shows "pending (fst c') b \<or> (\<exists>res. proc b w = (Inr res, w') \<and> pr_Terminal res)"
proof -
  obtain r c1 where res: "q_Reserve (ReserveBlockTimeout opts) now ws c = Some (r, c1)"
    using assms(3) by (auto simp: RunOnce_def split: option.splits)
  then have p1: "pending (fst c1) b" unfolding q_Reserve_def by (rule pending_loop [OF assms(1) _ assms(2)])
  show ?thesis
  proof (cases r)
    case (Inl e)
    with res assms(3) p1 show ?thesis by (simp add: RunOnce_def)
  next
    case (Inr j)
    obtain l c2 where lock: "q_TryAcquireJobLock q j (JobLockTTL opts) token t1 c1 = (l, c2)" by (rule prod.exhaust)
    have p2: "pending (fst c2) b" using pending_calls(2) [OF p1] lock by (metis snd_conv)
    show ?thesis
    proof (cases "l = Inr None \<or> (\<exists>e. l = Inl e)")
      case True
      with res assms(3) Inr lock pending_calls(1) [OF p2, of j "LockConflictDelay opts" t1] show ?thesis
        by (auto simp: RunOnce_def split: prod.splits)
    next
      case False
      then obtain k where l: "l = Inr (Some k)" by (cases l) auto
      let ?c3 = "fold (heartbeat_tick opts j k) beats c2"
      have p3: "pending (fst ?c3) b" by (rule pending_heartbeats [OF p2])
      obtain pr w1 where pr: "proc j w = (pr, w1)" by (rule prod.exhaust)
      show ?thesis
      proof (cases "\<exists>x. pr = Inr x \<and> pr_Terminal x")
        case True
        have "j \<noteq> b \<Longrightarrow> pending (fst (snd (lock_Release k t2 (snd (q_Ack q j ?c3))))) b"
          by (intro pending_calls p3)
        with True res assms(3) Inr lock l pr show ?thesis
          by (cases "j = b") (auto simp: RunOnce_def Let_def split: prod.splits)
      next
        case False
        have "pending (fst (snd (lock_Release k t2 (snd (q_RequeueAfter j d t2 ?c3))))) b" for d
          by (intro pending_calls p3)
        with False res assms(3) Inr lock l pr show ?thesis
          by (auto simp: RunOnce_def Let_def case_prod_unfold split: sum.splits if_splits)
      qed
    qed
  qed
qed

text \<open>a round of the worker never drops a job it should come back to: a job that was pending
  is still pending afterwards, whatever Redis did, unless the round took that job and the
  processor reported it as finished.\<close>

theorem worker_round_keeps_jobs:
  assumes "IsValidBatchImageID b" "pending (fst c) b"
    and "RunOnce q opts proc token now ws t1 beats t2 w c = Some (err, w', c')"
  shows "pending (fst c') b \<or> (\<exists>res. fst (proc b w) = Inr res \<and> pr_Terminal res)"
  using worker_round [OF assms] by auto

definition finished_job :: "string \<Rightarrow> int \<Rightarrow> (go_error + BatchImageProcessResult) \<times> int" where
  "finished_job b w = (if b = ''imgbatch_1'' then Inl conn_error else Inr \<lparr>pr_RequeueAfter = 0, pr_Terminal = True\<rparr>, w + 1)"

definition default_worker :: BatchImageWorkerOptions where
  "default_worker = normalizeBatchImageWorkerOptions \<lparr>ReserveBlockTimeout = 0, JobLockTTL = 0, LockConflictDelay = 0,
     DefaultRequeueDelay = 0, ErrorRetryDelay = 0, ErrorBackoff = 0, DelayedPollInterval = 0, RecoveryInterval = 0,
     StaleActiveAfter = 0, DelayedMoveLimit = 0, RecoverLimit = 0\<rparr>"

definition two_jobs :: redis_queue where
  "two_jobs = empty_queue\<lparr>r_ready := [''imgbatch_2'', ''imgbatch_1'']\<rparr>"

lemma two_jobs_reserve:
  "reserveOnce second (two_jobs, []) = (Inr ''imgbatch_1'',
     (two_jobs\<lparr>r_ready := [''imgbatch_2''], r_active := [(''imgbatch_1'', 1000)]\<rparr>, []))"
  by (simp add: reserveOnce_def batchImageReserveScript_def two_jobs_def empty_queue_def demo_batch_valid
      put_def unix_milli_def Let_def)

lemma two_jobs_round:
  "\<exists>r. RunOnce (NewBatchImageQueue None) default_worker finished_job ''t'' second [] second [2 * second] hour 0 (two_jobs, []) = Some r"
  by (simp add: RunOnce_def q_Reserve_def reserve_loop.simps two_jobs_reserve case_prod_unfold Let_def
      split: sum.split option.split)

theorem worker_round_keeps_jobs_witness:
  "\<exists>err w' c'. RunOnce (NewBatchImageQueue None) default_worker finished_job ''t'' second [] second [2 * second] hour 0 (two_jobs, [])
       = Some (err, w', c') \<and> pending (fst c') ''imgbatch_1''"
proof -
  obtain err w' c' where r: "RunOnce (NewBatchImageQueue None) default_worker finished_job ''t'' second [] second [2 * second] hour 0
      (two_jobs, []) = Some (err, w', c')" using two_jobs_round by (metis prod_cases3)
  have "pending (fst (two_jobs, [] :: fault list)) ''imgbatch_1''" by (simp add: pending_def two_jobs_def)
  from worker_round_keeps_jobs [OF demo_batch_valid this r] r show ?thesis by (auto simp: finished_job_def)
qed

section \<open>Job locks\<close>

text \<open>Calls that do not give up a lock held until \<open>u\<close>: its holder does not release it, refreshes it
  to no earlier end, and the others try to acquire it before \<open>u\<close> (in milliseconds).\<close>

fun keeps_lock :: "batchImageQueueOptions \<Rightarrow> job_lock \<Rightarrow> int \<Rightarrow> queue_op \<Rightarrow> bool" where
  "keeps_lock q l u (QRelease l' t) = (l' \<noteq> l)"
| "keeps_lock q l u (QRefresh l' ttl t) =
     (l' = l \<longrightarrow> u \<le> unix_milli t + milliseconds (if ttl \<le> 0 then defaultBatchImageJobLockTTL else ttl) \<and>
        0 < milliseconds (if ttl \<le> 0 then defaultBatchImageJobLockTTL else ttl))"
| "keeps_lock q l u (QLock b ttl tok t) = (lockKey q b = fst l \<longrightarrow> unix_milli t < u)"
| "keeps_lock q l u _ = True"

definition lock_held :: "job_lock \<Rightarrow> int \<Rightarrow> redis_queue \<Rightarrow> bool" where
  "lock_held l u s \<longleftrightarrow> (\<exists>e. r_keys s (fst l) = Some (snd l, e) \<and> u \<le> e)"

lemma lock_held_exec:
  "lock_held l u (fst c) \<Longrightarrow> lock_held l u (snd (stmt (fst c))) \<Longrightarrow> lock_held l u (fst (snd (sql_exec stmt c)))"
  by (rule sql_exec_keeps)

lemma lock_held_statements:
  assumes "lock_held l u s"
  shows "lock_held l u (snd (batchImageMoveDueDelayedScript mx n s))"
    and "lock_held l u (snd (batchImageRecoverStaleActiveScript mx n s))"
    and "(key, tok) \<noteq> l \<Longrightarrow> lock_held l u (snd (batchImageReleaseLockScript now key tok s))"
    and "(key, tok) = l \<longrightarrow> u \<le> unix_milli now + ms \<and> 0 < ms \<Longrightarrow> lock_held l u (snd (batchImageRefreshLockScript now key tok ms s))"
    and "key \<noteq> fst l \<Longrightarrow> lock_held l u (snd (batchImageEnqueueScript now key job ms s))"
    and "lock_held l u (snd (requeue_pipe job delay now s))"
    and "key \<noteq> fst l \<Longrightarrow> lock_held l u (snd (ack_pipe job key s))"
    and "lock_held l u (snd (remove_active job s))"
    and "lock_held l u (snd (zadd_existing job score s))"
    and "key = fst l \<longrightarrow> unix_milli now < u \<Longrightarrow> lock_held l u (snd (set_if_absent now key tok ms s))"
    and "lock_held l u (snd (batchImageReserveScript score s))"
  using assms
  by (auto simp: lock_held_def script_defs batchImageReserveScript_def live_key_def Let_def split: option.splits if_splits)

lemma lock_held_poll:
  assumes "lock_held l u (fst c)"
  shows "lock_held l u (fst (snd (reserveOnce t c)))"
proof -
  obtain r c1 where e: "sql_exec (batchImageReserveScript (unix_milli t)) c = (r, c1)" by (rule prod.exhaust)
  have "lock_held l u (fst c1)"
    using lock_held_exec [OF assms, of "batchImageReserveScript (unix_milli t)"] lock_held_statements(11) [OF assms] e
    by simp
  then show ?thesis
    unfolding reserveOnce_def e
    by (simp add: lock_held_exec lock_held_statements split: sum.split option.split)
qed

lemma lock_held_step:
  assumes "lock_held l u (fst c)" "keeps_lock q l u op" "\<forall>b. inflightKey q b \<noteq> fst l"
  shows "lock_held l u (fst (queue_step q op c))"
  using assms lock_held_poll [OF assms(1)]
  by (cases op)
     (auto simp: snd_calls q_RequeueAfter_def q_Ack_def q_Heartbeat_def q_MoveDueDelayedToReady_def
        q_RecoverStaleActive_def lock_Release_def lock_Refresh_def lock_held_exec lock_held_statements prod_eq_iff
        intro!: lock_held_exec lock_held_statements simp del: split_paired_All)

text \<open>job locks exclude each other. After somebody acquired the lock of a job, nobody else
  acquires it before its lifetime ends, through every sequence of calls of the others with any
  faults, refreshes by the holder included; releasing takes the holder's own token. The prefixes
  of the lock keys and the in-flight keys must not overlap.\<close>

theorem job_lock_exclusive:
  assumes "q_TryAcquireJobLock q b ttl token t c = (Inr (Some l), c')"
    and "\<forall>op \<in> set ops. keeps_lock q l (unix_milli t + lock_ms (if ttl \<le> 0 then o_LockTTL q else ttl)) op"
    and "\<forall>b'. inflightKey q b' \<noteq> lockKey q b"
    and "unix_milli t' < unix_milli t + lock_ms (if ttl \<le> 0 then o_LockTTL q else ttl)"
  shows "\<nexists>l'. fst (q_TryAcquireJobLock q b ttl' token' t' (queue_run q ops c')) = Inr (Some l')"
proof -
  let ?u = "unix_milli t + lock_ms (if ttl \<le> 0 then o_LockTTL q else ttl)"
  have l: "l = (lockKey q b, token)"
    and ex: "sql_exec (set_if_absent t (lockKey q b) token (lock_ms (if ttl \<le> 0 then o_LockTTL q else ttl))) c = (Inr True, c')"
    using assms(1) by (auto simp: q_TryAcquireJobLock_def Let_def split: if_splits prod.splits sum.splits)
  have "lock_held l ?u (fst c')"
    using sql_exec_Inr [OF ex] l by (auto simp: lock_held_def set_if_absent_def set_key_def split: if_splits)
  then have held: "lock_held l ?u (fst (queue_run q ops c'))"
    using assms(2)
  proof (induction ops arbitrary: c')
    case (Cons op ops)
    have "\<forall>b'. inflightKey q b' \<noteq> fst l" using assms(3) l by simp
    with Cons show ?case using lock_held_step [of l ?u c' q op] by simp
  qed simp
  then have "live_key t' (lockKey q b) (fst (queue_run q ops c')) \<noteq> None"
    using assms(4) l by (auto simp: lock_held_def live_key_def)
  then show ?thesis
    by (auto simp: q_TryAcquireJobLock_def Let_def set_if_absent_def sql_exec_def
        split: prod.splits sum.splits list.splits fault.splits if_splits)
qed

lemma default_prefixes: "inflightKey (NewBatchImageQueue None) b' \<noteq> lockKey (NewBatchImageQueue None) b"
  by (simp add: inflightKey_def lockKey_def NewBatchImageQueue_def normalizeBatchImageQueueOptions_def
      batchImageQueueOptionsFromConfig_def)

lemma demo_lock:
  "q_TryAcquireJobLock (NewBatchImageQueue None) ''imgbatch_1'' minute ''t1'' 0 (two_jobs, fs) =
     (Inr (Some (lockKey (NewBatchImageQueue None) ''imgbatch_1'', ''t1'')),
      snd (q_TryAcquireJobLock (NewBatchImageQueue None) ''imgbatch_1'' minute ''t1'' 0 (two_jobs, fs)))"
  if "fs = [] \<or> hd fs = Runs"
  using that
  by (cases fs) (auto simp: q_TryAcquireJobLock_def demo_batch_valid set_if_absent_def live_key_def two_jobs_def
      empty_queue_def sql_exec_def Let_def)

theorem job_lock_exclusive_witness:
  "\<nexists>l'. fst (q_TryAcquireJobLock (NewBatchImageQueue None) ''imgbatch_1'' hour ''t2'' (59 * second)
     (queue_run (NewBatchImageQueue None)
        [QLock ''imgbatch_1'' minute ''t3'' second, QRefresh (lockKey (NewBatchImageQueue None) ''imgbatch_1'', ''t1'') minute second,
         QRelease (lockKey (NewBatchImageQueue None) ''imgbatch_1'', ''t3'') second, QAck ''imgbatch_1'']
        (snd (q_TryAcquireJobLock (NewBatchImageQueue None) ''imgbatch_1'' minute ''t1'' 0 (two_jobs, [Runs, ReplyLost]))))) =
     Inr (Some l')"
  by (rule job_lock_exclusive [OF demo_lock])
     (simp_all add: default_prefixes unix_milli_def lock_ms_def milliseconds_def trunc_div_def)

section \<open>Waiting for a job ends\<close>

text \<open>Timers fire no earlier than they were set for.\<close>

fun timely :: "time \<Rightarrow> time \<Rightarrow> wakeup list \<Rightarrow> bool" where
  "timely deadline now [] = True"
| "timely deadline now (CtxDone # ws) = True"
| "timely deadline now (TimerFired t # ws) = (now + poll_wait deadline now \<le> t \<and> timely deadline t ws)"

lemma remaining_iff:
  "time_sub d now \<le> 0 \<longleftrightarrow> d \<le> now" "time_sub d now < second \<longleftrightarrow> d - now < second"
  by (simp_all add: time_sub_le_iff time_sub_less_iff min_duration_def max_duration_def)

lemma reserve_loop_returns:
  "timely d now ws \<Longrightarrow> d \<le> now \<or> (d - now) div second + 2 \<le> int (length ws) \<Longrightarrow>
     \<exists>r. reserve_loop d now ws c = Some r"
proof (induction d now ws c rule: reserve_loop.induct)
  case (1 d now ws c)
  obtain r c1 where e: "reserveOnce now c = (r, c1)" by (rule prod.exhaust)
  show ?case
  proof (cases "\<exists>err. r = Inl err \<and> errors_is err ErrBatchImageQueueEmpty \<and> \<not> d \<le> now")
    case False
    then show ?thesis using e
      by (cases r) (auto simp: reserve_loop.simps [of d now ws c] remaining_iff)
  next
    case True
    then obtain err where err: "r = Inl err" "errors_is err ErrBatchImageQueueEmpty" "\<not> d \<le> now" by blast
    have "0 \<le> (d - now) div second" using err(3) by (simp add: pos_imp_zdiv_nonneg_iff)
    with "1.prems"(2) err(3) have len: "(d - now) div second + 2 \<le> int (length ws)" "ws \<noteq> []" by auto
    then obtain x ws' where ws: "ws = x # ws'" by (cases ws) auto
    show ?thesis
    proof (cases x)
      case CtxDone
      then show ?thesis using e err ws by (simp add: reserve_loop.simps [of d now "CtxDone # ws'" c] remaining_iff)
    next
      case (TimerFired t)
      have t: "now + poll_wait d now \<le> t" "timely d t ws'" using "1.prems"(1) ws TimerFired by simp_all
      have "d \<le> t \<or> (d - t) div second + 2 \<le> int (length ws')"
      proof (cases "d - now < second")
        case True
        then have "poll_wait d now = time_sub d now"
          by (simp add: poll_wait_def Let_def batchImageReservePollInterval_def remaining_iff)
        moreover have "time_sub d now = d - now"
          using True err(3) by (simp add: time_sub_def min_duration_def max_duration_def)
        ultimately show ?thesis using t(1) by simp
      next
        case False
        then have "poll_wait d now = second"
          by (simp add: poll_wait_def Let_def batchImageReservePollInterval_def remaining_iff)
        then have "d - t \<le> d - now - second" using t(1) by simp
        then have "(d - t) div second \<le> (d - now - second) div second" by (rule zdiv_mono1) simp
        also have "\<dots> = (d - now) div second - 1" by simp
        finally show ?thesis using len(1) ws by simp
      qed
      from "1.IH" [OF e [symmetric] err(1) _ _ ws TimerFired t(2) this] err(2,3)
      have "\<exists>r. reserve_loop d t ws' c1 = Some r" by (simp add: remaining_iff)
      then show ?thesis
        using e err ws TimerFired by (simp add: reserve_loop.simps [of d now "TimerFired t # ws'" c] remaining_iff)
    qed
  qed
qed



section \<open>Heartbeats\<close>

definition active_ok :: "redis_queue \<Rightarrow> bool" where
  "active_ok s \<longleftrightarrow> distinct (map fst (r_active s))"

lemma active_ok_exec:
  "active_ok (fst c) \<Longrightarrow> active_ok (snd (stmt (fst c))) \<Longrightarrow> active_ok (fst (snd (sql_exec stmt c)))"
  by (rule sql_exec_keeps)

lemma move_jobs_distinct: "distinct (map fst (fst zr)) \<Longrightarrow> distinct (map fst (fst (move_jobs jobs zr)))"
  by (induction jobs zr rule: move_jobs.induct) simp_all

lemma active_ok_statements:
  assumes "active_ok s"
  shows "active_ok (snd (batchImageMoveDueDelayedScript mx n s))"
    and "active_ok (snd (batchImageRecoverStaleActiveScript mx n s))"
    and "active_ok (snd (batchImageReleaseLockScript now key tok s))"
    and "active_ok (snd (batchImageRefreshLockScript now key tok ms s))"
    and "active_ok (snd (batchImageEnqueueScript now key job ms s))"
    and "active_ok (snd (requeue_pipe job delay now s))"
    and "active_ok (snd (ack_pipe job key s))"
    and "active_ok (snd (remove_active job s))"
    and "active_ok (snd (zadd_existing job score s))"
    and "active_ok (snd (set_if_absent now key tok ms s))"
    and "active_ok (snd (batchImageReserveScript score s))"
  using assms
  by (simp_all add: active_ok_def script_defs batchImageReserveScript_def Let_def move_jobs_distinct)

lemma active_ok_step:
  assumes "active_ok (fst c)"
  shows "active_ok (fst (queue_step q op c))"
proof -
  have "active_ok (fst (snd (reserveOnce t c)))" for t
  proof -
    obtain r c1 where e: "sql_exec (batchImageReserveScript (unix_milli t)) c = (r, c1)" by (rule prod.exhaust)
    have "active_ok (fst c1)"
      using active_ok_exec [OF assms, of "batchImageReserveScript (unix_milli t)"] active_ok_statements(11) [OF assms] e
      by simp
    then show ?thesis
      unfolding reserveOnce_def e by (simp add: active_ok_exec active_ok_statements split: sum.split option.split)
  qed
  with assms show ?thesis
    by (cases op) (simp_all add: snd_calls q_RequeueAfter_def q_Ack_def q_Heartbeat_def q_MoveDueDelayedToReady_def
        q_RecoverStaleActive_def lock_Release_def lock_Refresh_def active_ok_exec active_ok_statements)
qed

lemma active_ok_run: "active_ok (fst c) \<Longrightarrow> active_ok (fst (queue_run q ops c))"
  by (induction ops arbitrary: c) (simp_all add: active_ok_step)

lemma zrange_le_scores:
  assumes "distinct (map fst z)" "map_of z b = Some sc" "mx < sc"
  shows "b \<notin> set (zrange_le mx n z)"
proof
  assume "b \<in> set (zrange_le mx n z)"
  then obtain s where s: "(b, s) \<in> set z" "s \<le> mx" by (auto simp: zrange_le_def dest!: in_set_takeD)
  then have "map_of z b = Some s" using assms(1) by (intro map_of_is_SomeI)
  with s(2) assms(2,3) show False by simp
qed

lemma recover_spares:
  assumes "active_ok (fst c)" "map_of (r_active (fst c)) b = Some sc" "unix_milli (now - staleAfter) < sc"
  shows "map_of (r_active (fst (snd (q_RecoverStaleActive staleAfter limit now c)))) b = Some sc"
proof -
  have stay: "map_of (r_active (snd (batchImageRecoverStaleActiveScript (unix_milli (now - staleAfter)) n (fst c)))) b = Some sc" for n
    using zrange_le_scores [OF _ assms(2,3), of n] assms(1,2)
    by (simp add: batchImageRecoverStaleActiveScript_def Let_def move_jobs_parts active_ok_def)
  have "map_of (r_active (fst (snd (sql_exec (batchImageRecoverStaleActiveScript (unix_milli (now - staleAfter)) n) c)))) b = Some sc" for n
    using sql_exec_cases [of "batchImageRecoverStaleActiveScript (unix_milli (now - staleAfter)) n" c] stay assms(2) by auto
  then show ?thesis using assms(2) by (simp add: q_RecoverStaleActive_def)
qed

lemma heartbeat_sets:
  assumes "q_Heartbeat b t c = (NilErr, c')" "map_of (r_active (fst c)) b \<noteq> None"
  shows "map_of (r_active (fst c')) b = Some (unix_milli t)"
proof -
  have "IsValidBatchImageID b \<and> sql_exec (zadd_existing b (unix_milli t)) c = (Inr (), c')"
    using assms(1) by (auto simp: q_Heartbeat_def exec_err_def ErrInvalidBatchImageQueuePayload_def New_def sql_exec_def
        conn_error_def split: if_splits sum.splits prod.splits list.splits fault.splits)
  then show ?thesis using sql_exec_Inr [of "zadd_existing b (unix_milli t)" c] assms(2)
    by (auto simp: zadd_existing_def)
qed

lemma heartbeatInterval_le:
  assumes "3 * second \<le> StaleActiveAfter opts" "0 < JobLockTTL opts"
  shows "3 * heartbeatInterval opts \<le> StaleActiveAfter opts"
  using assms by (auto simp: heartbeatInterval_def trunc_div_def Let_def)

text \<open>the recovery of stale jobs leaves a living worker alone. A job in work whose last heartbeat
  reached Redis is not put back to the ready list by a recovery within the next two heartbeat
  intervals, so one lost heartbeat is tolerated, with every configuration whose stale limit is at
  least three seconds.\<close>

theorem heartbeat_protects:
  assumes opts: "opts = normalizeBatchImageWorkerOptions o0" "3 * second \<le> StaleActiveAfter opts"
    and c: "c = queue_run q ops (empty_queue, fs)" "map_of (r_active (fst c)) b \<noteq> None"
    and beat: "q_Heartbeat b t c = (NilErr, c')"
    and now: "now \<le> t + 2 * heartbeatInterval opts"
  shows "map_of (r_active (fst (snd (RecoverStaleActiveOnce opts now c')))) b = Some (unix_milli t)"
proof -
  have "0 < JobLockTTL opts" using opts(1) by (simp add: normalizeBatchImageWorkerOptions_def positive_or_def)
  from heartbeatInterval_le [OF opts(2) this] have "now - StaleActiveAfter opts \<le> t - second"
    using opts(2) now by linarith
  then have "unix_milli (now - StaleActiveAfter opts) \<le> unix_milli (t - second)"
    unfolding unix_milli_def by (rule zdiv_mono1) simp
  also have "\<dots> < unix_milli t" by (simp add: unix_milli_def)
  finally have "unix_milli (now - StaleActiveAfter opts) < unix_milli t" .
  moreover have "active_ok (fst c)" unfolding c(1) by (rule active_ok_run) (simp add: active_ok_def empty_queue_def)
  then have "active_ok (fst (queue_step q (QHeartbeat b t) c))" by (rule active_ok_step)
  then have "active_ok (fst c')" using beat by simp
  ultimately show ?thesis
    unfolding RecoverStaleActiveOnce_def by (intro recover_spares heartbeat_sets [OF beat c(2)])
qed

lemma demo_heartbeat:
  "map_of (r_active (fst (queue_run (NewBatchImageQueue None) [QEnqueue ''imgbatch_1'' 0, QPoll second] (empty_queue, [])))) ''imgbatch_1'' \<noteq> None"
  "q_Heartbeat ''imgbatch_1'' minute (queue_run (NewBatchImageQueue None) [QEnqueue ''imgbatch_1'' 0, QPoll second] (empty_queue, [])) =
     (NilErr, snd (q_Heartbeat ''imgbatch_1'' minute
        (queue_run (NewBatchImageQueue None) [QEnqueue ''imgbatch_1'' 0, QPoll second] (empty_queue, []))))"
  by (simp_all add: prod_eq_iff q_Heartbeat_def exec_err_def q_Enqueue_def reserveOnce_def demo_batch_valid NewBatchImageQueue_def
      normalizeBatchImageQueueOptions_def batchImageQueueOptionsFromConfig_def defaultBatchImageInflightTTL_def milliseconds_def
      trunc_div_def sql_exec_def batchImageEnqueueScript_def batchImageReserveScript_def zadd_existing_def set_key_def live_key_def
      empty_queue_def put_def Let_def split: prod.split)

theorem heartbeat_protects_witness:
  "map_of (r_active (fst (snd (RecoverStaleActiveOnce default_worker (minute + 3 * minute)
     (snd (q_Heartbeat ''imgbatch_1'' minute
        (queue_run (NewBatchImageQueue None) [QEnqueue ''imgbatch_1'' 0, QPoll second] (empty_queue, []))))))))
     ''imgbatch_1'' = Some (unix_milli minute)"
  by (rule heartbeat_protects [OF default_worker_def _ refl demo_heartbeat])
     (simp_all add: default_worker_def normalizeBatchImageWorkerOptions_def positive_or_def heartbeatInterval_def
        trunc_div_def Let_def)

end
