(* ===== verification/BatchImageSettlement.thy ===== *)
theory BatchImageSettlement
  imports BatchImageLifecycle BatchImageQueue GoStrings
begin

text \<open>
  Settlement of batch image jobs: the wrappers of \<open>service/batch_image_billing_hold.go\<close> around the
  balance holds of the ledger, \<open>service/batch_image_settlement.go\<close> and the recovery of jobs that never
  reached a provider, \<open>service/batch_image_billing_recovery.go\<close>.

  These operations act on the ledger of \<open>BillingLedger\<close>, the tables of \<open>BatchImageRepository\<close> and the
  queue of \<open>BatchImageQueue\<close>; every call on any of them may meet a fault. The pricing resolver is an interface
  of the service and an argument here. The best-effort usage log and the invalidation of cached keys
  are left out. One reading of the clock stands for the calls of \<open>time.Now()\<close> within one operation.
\<close>

section \<open>Texts\<close>

definition batchImageDerefString :: "string option \<Rightarrow> string" where
  "batchImageDerefString v = (case v of None \<Rightarrow> [] | Some s \<Rightarrow> trim_space s)"

definition truncateBatchImageMessage :: "string \<Rightarrow> int \<Rightarrow> string" where
  "truncateBatchImageMessage message limit =
     (let m = trim_space message in
      if limit \<le> 0 \<or> int (length m) \<le> limit then m else take (nat limit) m)"

definition batchImageMaxErrorMessageLength :: int where
  "batchImageMaxErrorMessageLength = 1000"

section \<open>Holds of a job\<close>

definition job_hold_amount :: "BatchImageJob \<Rightarrow> rat" where
  "job_hold_amount job = (case bj_HoldAmount job of Some h \<Rightarrow> h | None \<Rightarrow> bj_EstimatedCost job)"

definition buildBatchImageHoldCommand ::
  "BatchImageJob \<Rightarrow> string \<Rightarrow> rat \<Rightarrow> string \<Rightarrow> go_error + BatchImageBalanceHoldCommand" where
  "buildBatchImageHoldCommand job requestID actualAmount payloadHash =
     (case bj_APIKeyID job of
        None \<Rightarrow> Inl ErrBatchImageSettlementMissingAPIKeyID
      | Some key \<Rightarrow>
          if key \<le> 0 then Inl ErrBatchImageSettlementMissingAPIKeyID
          else Inr \<lparr>hc_RequestID = requestID, hc_APIKeyID = key, hc_RequestFingerprint = [],
                    hc_RequestPayloadHash = trim_space payloadHash, hc_UserID = bj_UserID job,
                    hc_BatchID = bj_BatchID job,
                    HoldAmount = Fin (if job_hold_amount job < 0 then 0 else job_hold_amount job),
                    ActualAmount = Fin (if actualAmount < 0 then 0 else actualAmount)\<rparr>)"

definition reserveBatchImageBalanceHold ::
  "fingerprint_codec \<Rightarrow> BatchImageJob \<Rightarrow> string \<Rightarrow> ledger conn \<Rightarrow> go_error \<times> ledger conn" where
  "reserveBatchImageBalanceHold fc job payloadHash c =
     (case buildBatchImageHoldCommand job (BatchImageHoldRequestID (bj_BatchID job)) 0 payloadHash of
        Inl e \<Rightarrow> (e, c)
      | Inr cmd \<Rightarrow>
          if \<not> positive (HoldAmount cmd) then (NilErr, c)
          else (case ReserveBatchImageBalance fc (Some cmd) c of
                  (Inl e, c') \<Rightarrow> (if errors_is e ErrBatchImageInsufficientBalance then ErrBatchImageInsufficientBalance
                                  else WithCause ErrBatchImageBillingHoldFailed e, c')
                | (Inr _, c') \<Rightarrow> (NilErr, c')))"

definition captureBatchImageBalanceHold ::
  "fingerprint_codec \<Rightarrow> BatchImageJob \<Rightarrow> rat \<Rightarrow> string \<Rightarrow> ledger conn \<Rightarrow> go_error \<times> ledger conn" where
  "captureBatchImageBalanceHold fc job actualAmount payloadHash c =
     (case buildBatchImageHoldCommand job (BatchImageCaptureRequestID (bj_BatchID job)) actualAmount payloadHash of
        Inl e \<Rightarrow> (e, c)
      | Inr cmd \<Rightarrow>
          (case CaptureBatchImageBalance fc (Some cmd) c of
             (Inl e, c') \<Rightarrow> (WithCause ErrBatchImageSettlementBillingFailed e, c')
           | (Inr _, c') \<Rightarrow> (NilErr, c')))"

definition releaseBatchImageBalanceHold ::
  "fingerprint_codec \<Rightarrow> BatchImageJob \<Rightarrow> string \<Rightarrow> ledger conn \<Rightarrow> go_error \<times> ledger conn" where
  "releaseBatchImageBalanceHold fc job payloadHash c =
     (case buildBatchImageHoldCommand job (BatchImageReleaseRequestID (bj_BatchID job)) 0 payloadHash of
        Inl e \<Rightarrow> (e, c)
      | Inr cmd \<Rightarrow>
          if \<not> positive (HoldAmount cmd) then (NilErr, c)
          else (case ReleaseBatchImageBalance fc (Some cmd) c of
                  (Inl e, c') \<Rightarrow> (if errors_is e ErrUsageBillingRequestConflict then NilErr
                                  else WithCause ErrBatchImageBillingHoldFailed e, c')
                | (Inr _, c') \<Rightarrow> (NilErr, c')))"

section \<open>Settlement\<close>

definition batchImageSettlementRetryDelay :: duration where
  "batchImageSettlementRetryDelay = minute"

definition batchImageSettlementMaxRetries :: int where
  "batchImageSettlementMaxRetries = 5"

record settle_env =
  se_fc :: fingerprint_codec
  se_price :: "BatchImageJob \<Rightarrow> go_error + rat"
  se_error_text :: "go_error \<Rightarrow> string"
  se_fmt10 :: "rat \<Rightarrow> string"
  se_json_float :: "rat \<Rightarrow> string"
  se_retention_hours :: int

record settle_world =
  w_ledger :: "ledger conn"
  w_db :: "batch_db conn"
  w_queue :: "redis_queue conn"

record BatchImageSettlementResult =
  sr_BatchID :: string
  sr_SuccessCount :: int
  sr_FailCount :: int
  sr_ActualCost :: rat
  sr_ManifestHash :: string
  sr_RequestID :: string
  sr_AlreadySettled :: bool

fun join_nul :: "string list \<Rightarrow> string" where
  "join_nul [] = []"
| "join_nul [s] = s"
| "join_nul (s # t # ss) = s @ [CHR 0x00] @ join_nul (t # ss)"

definition manifest_parts :: "BatchImageJob \<Rightarrow> string list" where
  "manifest_parts job =
     [trim_space (bj_BatchID job), trim_space (bj_Provider job), trim_space (bj_Model job),
      batchImageDerefString (bj_ProviderJobName job), batchImageDerefString (bj_ProviderOutputRef job),
      itoa (bj_SuccessCount job), itoa (bj_FailCount job), itoa (bj_ItemCount job)]"

definition BuildBatchImageSettlementManifestHash :: "fingerprint_codec \<Rightarrow> BatchImageJob \<Rightarrow> string" where
  "BuildBatchImageSettlementManifestHash fc job = hash_hex fc (join_nul (manifest_parts job))"

definition outputRetentionAfterTerminal :: "settle_env \<Rightarrow> duration" where
  "outputRetentionAfterTerminal env =
     (if se_retention_hours env > 0 then se_retention_hours env * hour else 72 * hour)"

definition settlementUnitPrice :: "settle_env \<Rightarrow> BatchImageJob \<Rightarrow> go_error + rat" where
  "settlementUnitPrice env job =
     (if bj_PricingSnapshotVersion job \<ge> 1 then
        (if bj_BillableUnitPrice job < 0 then Inl ErrBatchImageSettlementPricingMissing
         else Inr (bj_BillableUnitPrice job))
      else se_price env job)"

definition isBatchImageSettlementRetryExhausted :: "BatchImageJob \<Rightarrow> bool" where
  "isBatchImageSettlementRetryExhausted job \<longleftrightarrow>
     bj_Status job = BatchImageJobStatusSettling \<and> bj_RetryCount job \<ge> batchImageSettlementMaxRetries \<and>
     has_prefix ''SETTLEMENT_'' (batchImageDerefString (bj_LastErrorCode job))"

definition with_db :: "(go_error + 'a) \<times> batch_db conn \<Rightarrow> settle_world \<Rightarrow> (go_error + 'a) \<times> settle_world" where
  "with_db r w = (fst r, w\<lparr>w_db := snd r\<rparr>)"

definition release_in :: "settle_env \<Rightarrow> BatchImageJob \<Rightarrow> settle_world \<Rightarrow> go_error \<times> settle_world" where
  "release_in env job w =
     (let r = releaseBatchImageBalanceHold (se_fc env) job (batchImageDerefString (bj_RequestHash job)) (w_ledger w)
      in (fst r, w\<lparr>w_ledger := snd r\<rparr>))"

definition failExhaustedSettlement ::
  "settle_env \<Rightarrow> time \<Rightarrow> BatchImageJob \<Rightarrow> string \<Rightarrow> settle_world \<Rightarrow> go_error \<times> settle_world" where
  "failExhaustedSettlement env now job message w =
     (case release_in env job w of (err, w1) \<Rightarrow>
        if err \<noteq> NilErr then
          (WithCause ErrBatchImageSettlementBillingFailed err,
           snd (with_db (SetBatchImageJobSettlementFailed (bj_BatchID job) ''SETTLEMENT_RELEASE_FAILED''
                  (truncateBatchImageMessage (se_error_text env err) batchImageMaxErrorMessageLength) now (w_db w1)) w1))
        else
          (let msg = (if trim_space message = [] then ''settlement billing retry limit reached'' else trim_space message);
               opts = \<lparr>to_ExpectedStatus = [], to_EventType = ''settlement_retry_exhausted'',
                       to_EventPayload = Some [(''batch_id'', bj_BatchID job), (''retry_count'', itoa (bj_RetryCount job))],
                       to_ErrorCode = Some ''SETTLEMENT_BILLING_RETRY_EXHAUSTED'', to_ErrorMessage = Some msg,
                       to_Now = None\<rparr>
           in case with_db (TransitionBatchImageJobStatus (bj_BatchID job) BatchImageJobStatusFailed opts now (w_db w1)) w1 of
                (Inl e, w2) \<Rightarrow> (e, w2)
              | (Inr _, w2) \<Rightarrow> (ErrBatchImageSettlementBillingFailed, w2)))"

text \<open>\<open>NilErr\<close> means that the caller reports its own error.\<close>

definition recordSettlementFailure ::
  "settle_env \<Rightarrow> time \<Rightarrow> BatchImageJob \<Rightarrow> string \<Rightarrow> string \<Rightarrow> settle_world \<Rightarrow> go_error \<times> settle_world" where
  "recordSettlementFailure env now job code message w =
     (case with_db (SetBatchImageJobSettlementFailed (bj_BatchID job) code
              (truncateBatchImageMessage message batchImageMaxErrorMessageLength) now (w_db w)) w of
        (Inl e, w1) \<Rightarrow> (NilErr, w1)
      | (Inr retryCount, w1) \<Rightarrow>
          if retryCount \<ge> batchImageSettlementMaxRetries
          then failExhaustedSettlement env now (job\<lparr>bj_RetryCount := retryCount, bj_LastErrorCode := Some code\<rparr>) message w1
          else (NilErr, w1))"

definition fail_with ::
  "settle_env \<Rightarrow> time \<Rightarrow> BatchImageJob \<Rightarrow> string \<Rightarrow> string \<Rightarrow> go_error \<Rightarrow> settle_world \<Rightarrow>
   (go_error + 'a) \<times> settle_world" where
  "fail_with env now job code message err w =
     (case recordSettlementFailure env now job code message w of (failErr, w1) \<Rightarrow>
        (Inl (if failErr \<noteq> NilErr then failErr else err), w1))"

text \<open>From the price on: the cost, the capture, the completion.\<close>

definition settle_cost :: "BatchImageJob \<Rightarrow> rat \<Rightarrow> rat" where
  "settle_cost job unitPrice = round_to_scale (of_int (bj_SuccessCount job) * unitPrice)"

definition settle_capture ::
  "settle_env \<Rightarrow> time \<Rightarrow> BatchImageJob \<Rightarrow> BatchImageSettlementResult \<Rightarrow> rat \<Rightarrow> settle_world \<Rightarrow>
   (go_error + BatchImageSettlementResult) \<times> settle_world" where
  "settle_capture env now job result unitPrice w =
     (let actualCost = settle_cost job unitPrice; manifestHash = sr_ManifestHash result in
      if exceeds_hold actualCost (job_hold_amount job) then
        fail_with env now job ''SETTLEMENT_COST_EXCEEDS_HOLD''
          (''actual cost '' @ se_fmt10 env actualCost @ '' exceeds held amount '' @ se_fmt10 env (job_hold_amount job))
          ErrBatchImageSettlementCostExceedsHold w
      else
        (case captureBatchImageBalanceHold (se_fc env) job actualCost manifestHash (w_ledger w) of (err, l1) \<Rightarrow>
           let w1 = w\<lparr>w_ledger := l1\<rparr> in
           if err \<noteq> NilErr then
             fail_with env now job ''SETTLEMENT_BILLING_FAILED''
               (truncateBatchImageMessage (se_error_text env err) batchImageMaxErrorMessageLength) err w1
           else
             (case with_db (MarkBatchImageJobSettled
                      \<lparr>ms_BatchID = bj_BatchID job, ms_ActualCost = actualCost, ms_ManifestHash = manifestHash,
                       ms_EventPayload = Some [(''batch_id'', bj_BatchID job), (''request_id'', sr_RequestID result),
                         (''success_count'', itoa (bj_SuccessCount job)), (''fail_count'', itoa (bj_FailCount job)),
                         (''actual_cost'', se_json_float env actualCost), (''manifest_hash'', manifestHash)],
                       ms_Now = Some now, ms_OutputExpiresAt = Some (now + outputRetentionAfterTerminal env)\<rparr>
                      now (w_db w1)) w1 of
                (Inl e, w2) \<Rightarrow> (Inl e, w2)
              | (Inr _, w2) \<Rightarrow> (Inr (result\<lparr>sr_ActualCost := actualCost\<rparr>), w2))))"

definition positive_id :: "int option \<Rightarrow> bool" where
  "positive_id v \<longleftrightarrow> (case v of None \<Rightarrow> False | Some i \<Rightarrow> 0 < i)"

text \<open>The checks of a settling job, in their order.\<close>

definition settle_job ::
  "settle_env \<Rightarrow> time \<Rightarrow> BatchImageJob \<Rightarrow> settle_world \<Rightarrow> (go_error + BatchImageSettlementResult) \<times> settle_world" where
  "settle_job env now job w =
     (let manifestHash = BuildBatchImageSettlementManifestHash (se_fc env) job;
          result = \<lparr>sr_BatchID = bj_BatchID job, sr_SuccessCount = bj_SuccessCount job, sr_FailCount = bj_FailCount job,
                    sr_ActualCost = (case bj_ActualCost job of None \<Rightarrow> 0 | Some a \<Rightarrow> a), sr_ManifestHash = manifestHash,
                    sr_RequestID = BatchImageCaptureRequestID (bj_BatchID job), sr_AlreadySettled = False\<rparr>
      in
      if bj_Status job = BatchImageJobStatusCompleted then (Inr (result\<lparr>sr_AlreadySettled := True\<rparr>), w)
      else if bj_Status job \<noteq> BatchImageJobStatusSettling then (Inl ErrBatchImageSettlementInvalidStatus, w)
      else if \<not> positive_id (bj_APIKeyID job) then (Inl ErrBatchImageSettlementMissingAPIKeyID, w)
      else if \<not> positive_id (bj_AccountID job) then (Inl ErrBatchImageSettlementMissingAccountID, w)
      else if isBatchImageSettlementRetryExhausted job then
        map_prod Inl id (failExhaustedSettlement env now job
          (''settlement retry limit reached: '' @ batchImageDerefString (bj_LastErrorCode job)) w)
      else if bj_SuccessCount job < 0 \<or> bj_FailCount job < 0 \<or> bj_ItemCount job < 0 \<or>
              bj_SuccessCount job + bj_FailCount job > bj_ItemCount job then
        fail_with env now job ''SETTLEMENT_INVALID_COUNTS''
          (''success='' @ itoa (bj_SuccessCount job) @ '' fail='' @ itoa (bj_FailCount job) @ '' item_count='' @
           itoa (bj_ItemCount job)) ErrBatchImageSettlementInvalidCounts w
      else if batchImageDerefString (bj_ManifestHash job) \<noteq> [] \<and>
              batchImageDerefString (bj_ManifestHash job) \<noteq> manifestHash then
        fail_with env now job ''SETTLEMENT_MANIFEST_CONFLICT'' ''manifest hash conflict''
          ErrBatchImageSettlementManifestConflict w
      else
        (case (case settlementUnitPrice env job of
                 Inl e \<Rightarrow> Inl e
               | Inr p \<Rightarrow> if p < 0 then Inl ErrBatchImageSettlementPricingMissing else Inr p) of
           Inl err \<Rightarrow> fail_with env now job ''SETTLEMENT_PRICING_MISSING'' (se_error_text env err) err w
         | Inr unitPrice \<Rightarrow> settle_capture env now job result unitPrice w))"

definition Settle ::
  "settle_env \<Rightarrow> time \<Rightarrow> string \<Rightarrow> settle_world \<Rightarrow> (go_error + BatchImageSettlementResult) \<times> settle_world" where
  "Settle env now batchID w =
     (case with_db (GetBatchImageJobByBatchID batchID (w_db w)) w of
        (Inl e, w1) \<Rightarrow> (Inl e, w1)
      | (Inr job, w1) \<Rightarrow> settle_job env now job w1)"

section \<open>Jobs that never reached a provider\<close>

definition defaultBatchImageBillingRecoveryStaleAfter :: duration where
  "defaultBatchImageBillingRecoveryStaleAfter = 10 * minute"

definition defaultBatchImageBillingRecoveryLimit :: int where
  "defaultBatchImageBillingRecoveryLimit = 100"

record BatchImageBillingRecoveryService =
  rs_StaleAfter :: duration
  rs_Limit :: int
  rs_Queue :: bool

definition recovery_message :: string where
  "recovery_message = ''batch image submission did not reach provider before recovery cutoff''"

definition enqueueReleaseRetry ::
  "BatchImageBillingRecoveryService \<Rightarrow> batchImageQueueOptions \<Rightarrow> time \<Rightarrow> string \<Rightarrow> settle_world \<Rightarrow> settle_world" where
  "enqueueReleaseRetry s q now batchID w =
     (if rs_Queue s then w\<lparr>w_queue := snd (q_Enqueue q batchID now (w_queue w))\<rparr> else w)"

text \<open>The loop over the stale jobs: how many were released, and the last error. The context is taken as
  alive; \<open>ErrBatchImageAlreadyQueued\<close> and other errors of the queue are only logged.\<close>

fun recover_jobs ::
  "settle_env \<Rightarrow> BatchImageBillingRecoveryService \<Rightarrow> batchImageQueueOptions \<Rightarrow> time \<Rightarrow> time \<Rightarrow> BatchImageJob list \<Rightarrow>
   int \<Rightarrow> go_error \<Rightarrow> settle_world \<Rightarrow> (int \<times> go_error) \<times> settle_world" where
  "recover_jobs env s q now cutoff [] released lastErr w = ((released, lastErr), w)"
| "recover_jobs env s q now cutoff (job # js) released lastErr w =
     (case FailStaleUnsubmittedBatchImageJob (bj_BatchID job) cutoff ''SUBMIT_STALE_BEFORE_PROVIDER'' recovery_message
             now (w_db w) of
        ((applied, err), c1) \<Rightarrow>
          let w1 = w\<lparr>w_db := c1\<rparr> in
          if \<not> applied then recover_jobs env s q now cutoff js released (if err \<noteq> NilErr then err else lastErr) w1
          else
            (case release_in env (job\<lparr>bj_Status := BatchImageJobStatusFailed\<rparr>) w1 of (err2, w2) \<Rightarrow>
               if err2 \<noteq> NilErr then
                 recover_jobs env s q now cutoff js released err2 (enqueueReleaseRetry s q now (bj_BatchID job) w2)
               else recover_jobs env s q now cutoff js (released + 1) lastErr w2))"

definition ReleaseStaleUnsubmittedOnce ::
  "settle_env \<Rightarrow> BatchImageBillingRecoveryService \<Rightarrow> batchImageQueueOptions \<Rightarrow> time \<Rightarrow> settle_world \<Rightarrow>
   (int \<times> go_error) \<times> settle_world" where
  "ReleaseStaleUnsubmittedOnce env s q now w =
     (let staleAfter = (if rs_StaleAfter s \<le> 0 then defaultBatchImageBillingRecoveryStaleAfter else rs_StaleAfter s);
          limit = (if rs_Limit s \<le> 0 then defaultBatchImageBillingRecoveryLimit else rs_Limit s);
          cutoff = now - staleAfter
      in case ListStaleUnsubmittedBatchImageJobs cutoff limit (w_db w) of
           (Inl e, c1) \<Rightarrow> ((0, e), w\<lparr>w_db := c1\<rparr>)
         | (Inr js, c1) \<Rightarrow> recover_jobs env s q now cutoff js 0 NilErr (w\<lparr>w_db := c1\<rparr>))"

end
