(* ===== verification/BatchImageIndex.thy ===== *)
theory BatchImageIndex
  imports BatchImageSettlement
begin

text \<open>
  Indexing the output of a batch, from \<open>service/batch_image_processor.go\<close>: parsing one result line and
  reconciling all lines with the items that were submitted.

  \<open>json.Unmarshal\<close> into a map is an argument: from a line to the fields of its object or an error. The
  output arrives as the bytes the provider delivered and the error its reader ended with, if any.
  Logging is left out; one reading of the clock stands for the calls of \<open>time.Now()\<close> in one operation.
\<close>

section \<open>Errors\<close>

definition ErrBatchImageMissingProviderJobName :: go_error where
  "ErrBatchImageMissingProviderJobName =
     New 400 ''BATCH_IMAGE_MISSING_PROVIDER_JOB_NAME'' ''batch image provider job name is missing''"

definition ErrBatchImageMissingAccountID :: go_error where
  "ErrBatchImageMissingAccountID = New 400 ''BATCH_IMAGE_MISSING_ACCOUNT_ID'' ''batch image account id is missing''"

definition ErrBatchImageUnsupportedProvider :: go_error where
  "ErrBatchImageUnsupportedProvider = New 400 ''BATCH_IMAGE_UNSUPPORTED_PROVIDER'' ''unsupported batch image provider''"

definition ErrBatchImageIndexOutputMissing :: go_error where
  "ErrBatchImageIndexOutputMissing =
     New 502 ''BATCH_IMAGE_INDEX_OUTPUT_MISSING'' ''batch image provider output is missing''"

definition ErrBatchImageIndexParseFailed :: go_error where
  "ErrBatchImageIndexParseFailed =
     New 502 ''BATCH_IMAGE_INDEX_PARSE_FAILED'' ''batch image provider output parse failed''"

definition ErrBatchImageIndexNoResultLines :: go_error where
  "ErrBatchImageIndexNoResultLines =
     New 502 ''BATCH_IMAGE_INDEX_NO_RESULT_LINES'' ''batch image provider output has no result lines''"

definition ErrBatchImageDuplicateCustomID :: go_error where
  "ErrBatchImageDuplicateCustomID =
     New 502 ''DUPLICATE_CUSTOM_ID_IN_OUTPUT'' ''batch image provider output contains duplicate custom id''"

section \<open>JSON values\<close>

text \<open>What \<open>json.Unmarshal\<close> puts into \<open>any\<close>. The keys of an object are those of a Go map: each once.\<close>

datatype json =
    JNull
  | JBool bool
  | JNumber rat
  | JString string
  | JArray "json list"
  | JObject "(string \<times> json) list"

type_synonym json_object = "(string \<times> json) list"

definition field :: "json_object \<Rightarrow> string \<Rightarrow> json" where
  "field m k = (case map_of m k of None \<Rightarrow> JNull | Some v \<Rightarrow> v)"

text \<open>The conversion of a \<open>float64\<close> to \<open>int64\<close>: towards zero; out of range it is what amd64 gives.\<close>

definition int64_of_float :: "rat \<Rightarrow> int" where
  "int64_of_float v =
     (let t = (if v < 0 then \<lceil>v\<rceil> else \<lfloor>v\<rfloor>) in if - (2 ^ 63) \<le> t \<and> t < 2 ^ 63 then t else - (2 ^ 63))"

definition batchImageMapString :: "json_object \<Rightarrow> string \<Rightarrow> string" where
  "batchImageMapString m key =
     (case field m key of JString s \<Rightarrow> trim_space s | JNumber v \<Rightarrow> itoa (int64_of_float v) | _ \<Rightarrow> [])"

fun batchImageNestedAny :: "json \<Rightarrow> string list \<Rightarrow> json" where
  "batchImageNestedAny current [] = current"
| "batchImageNestedAny (JObject m) (k # ks) = batchImageNestedAny (field m k) ks"
| "batchImageNestedAny _ (k # ks) = JNull"

definition batchImageNestedString :: "json_object \<Rightarrow> string list \<Rightarrow> string" where
  "batchImageNestedString m keys =
     (case batchImageNestedAny (JObject m) keys of JString s \<Rightarrow> trim_space s | _ \<Rightarrow> [])"

fun firstMap :: "json list \<Rightarrow> json_object option" where
  "firstMap [] = None"
| "firstMap (JObject m # vs) = Some m"
| "firstMap (v # vs) = firstMap vs"

fun batchImageFirstNonEmptyString :: "string list \<Rightarrow> string" where
  "batchImageFirstNonEmptyString [] = []"
| "batchImageFirstNonEmptyString (v # vs) =
     (if trim_space v \<noteq> [] then trim_space v else batchImageFirstNonEmptyString vs)"

definition batchImageOptionalStringPtr :: "string \<Rightarrow> string option" where
  "batchImageOptionalStringPtr v = (if trim_space v = [] then None else Some (trim_space v))"

section \<open>One result line\<close>

definition BatchImageParsedStatusSucceeded :: string where
  "BatchImageParsedStatusSucceeded = ''succeeded''"

definition BatchImageParsedStatusFailed :: string where
  "BatchImageParsedStatusFailed = ''failed''"

record ParsedBatchImageResult =
  pr_CustomID :: string
  pr_Status :: string
  pr_MimeType :: string
  pr_FileExtension :: string
  pr_ImageCount :: int
  pr_ErrorCode :: string
  pr_ErrorMessage :: string
  pr_SourceLineNumber :: int

text \<open>The loops over candidates and their parts; the pair is the count and the first mime type.\<close>

definition count_part :: "json \<Rightarrow> int \<times> string \<Rightarrow> int \<times> string" where
  "count_part partRaw acc =
     (case partRaw of
        JObject part \<Rightarrow>
          (case firstMap [field part ''inlineData'', field part ''inline_data''] of
             None \<Rightarrow> acc
           | Some inline \<Rightarrow>
               (let data = trim_space (batchImageMapString inline ''data'');
                    mime = batchImageFirstNonEmptyString
                      [batchImageMapString inline ''mimeType'', batchImageMapString inline ''mime_type'']
                in if data = [] \<or> \<not> has_prefix ''image/'' (to_lower (trim_space mime)) then acc
                   else (fst acc + 1, if snd acc = [] then trim_space mime else snd acc)))
      | _ \<Rightarrow> acc)"

definition count_candidate :: "json \<Rightarrow> int \<times> string \<Rightarrow> int \<times> string" where
  "count_candidate candidateRaw acc =
     (case candidateRaw of
        JObject candidate \<Rightarrow>
          (case batchImageNestedAny (JObject candidate) [''content'', ''parts''] of
             JArray parts \<Rightarrow> fold count_part parts acc
           | _ \<Rightarrow> acc)
      | _ \<Rightarrow> acc)"

definition batchImageFindImagePartsInCandidates :: "json \<Rightarrow> int \<times> string" where
  "batchImageFindImagePartsInCandidates raw =
     (case raw of JArray candidates \<Rightarrow> fold count_candidate candidates (0, []) | _ \<Rightarrow> (0, []))"

definition batchImageFindImageParts :: "json_object \<Rightarrow> int \<times> string" where
  "batchImageFindImageParts obj =
     (let r = batchImageFindImagePartsInCandidates (batchImageNestedAny (JObject obj) [''response'', ''candidates''])
      in if fst r > 0 then r else batchImageFindImagePartsInCandidates (field obj ''candidates''))"

definition contains_any :: "string \<Rightarrow> string list \<Rightarrow> bool" where
  "contains_any text ps \<longleftrightarrow> list_ex (contains text) ps"

definition batchImageMapFailureCode :: "string \<Rightarrow> string \<Rightarrow> string" where
  "batchImageMapFailureCode code message =
     (let text = to_lower (trim_space (code @ '' '' @ message)) in
      if contains_any text [''safety'', ''policy'', ''blocked'', ''prohibited''] then ''SAFETY_BLOCKED''
      else if contains_any text [''invalid_argument'', ''invalid argument'', ''bad request''] then ''INVALID_ARGUMENT''
      else if contains_any text [''quota'', ''rate'', ''resource_exhausted'', ''too many requests''] then ''PROVIDER_RATE_LIMITED''
      else ''PROVIDER_ITEM_FAILED'')"

definition failure_of :: "json_object \<Rightarrow> string \<times> string" where
  "failure_of m =
     (let message = batchImageFirstNonEmptyString [batchImageMapString m ''message'', batchImageMapString m ''details''];
          code = batchImageFirstNonEmptyString [batchImageMapString m ''code'', batchImageMapString m ''status'']
      in (batchImageMapFailureCode code message, message))"

definition batchImageFailureFromProviderFields :: "json_object \<Rightarrow> (string \<times> string) option" where
  "batchImageFailureFromProviderFields obj =
     (case field obj ''status'' of
        JObject m \<Rightarrow> Some (failure_of m)
      | _ \<Rightarrow> (case field obj ''error'' of JObject m \<Rightarrow> Some (failure_of m) | _ \<Rightarrow> None))"

definition batchImageFileExtension :: "string \<Rightarrow> string" where
  "batchImageFileExtension mimeType =
     (let m = to_lower (trim_space mimeType) in
      if m = ''image/png'' then ''png''
      else if m = ''image/jpeg'' \<or> m = ''image/jpg'' then ''jpg''
      else if m = ''image/webp'' then ''webp'' else [])"

definition batchImageHasCandidates :: "json_object \<Rightarrow> bool" where
  "batchImageHasCandidates obj \<longleftrightarrow>
     map_of obj ''candidates'' \<noteq> None \<or>
     (case batchImageNestedAny (JObject obj) [''response'', ''candidates''] of JArray _ \<Rightarrow> True | _ \<Rightarrow> False)"

definition failed_result :: "string \<Rightarrow> int \<Rightarrow> string \<Rightarrow> string \<Rightarrow> ParsedBatchImageResult" where
  "failed_result customID lineNumber code message =
     \<lparr>pr_CustomID = customID, pr_Status = BatchImageParsedStatusFailed, pr_MimeType = [], pr_FileExtension = [],
      pr_ImageCount = 0, pr_ErrorCode = code, pr_ErrorMessage = message, pr_SourceLineNumber = lineNumber\<rparr>"

definition ParseBatchImageResultLine ::
  "(string \<Rightarrow> go_error + json_object) \<Rightarrow> string \<Rightarrow> int \<Rightarrow> go_error + ParsedBatchImageResult" where
  "ParseBatchImageResultLine unmarshal line lineNumber =
     (case unmarshal line of
        Inl e \<Rightarrow> Inl (WithCause ErrBatchImageIndexParseFailed (WrapErr (''line '' @ itoa lineNumber) e))
      | Inr obj \<Rightarrow>
     (let customID = batchImageFirstNonEmptyString
            [batchImageMapString obj ''key'', batchImageMapString obj ''custom_id'', batchImageMapString obj ''customId'',
             batchImageNestedString obj [''request'', ''key'']]
      in if customID = [] then
           Inl (WithCause ErrBatchImageIndexParseFailed (PlainErr (''line '' @ itoa lineNumber @ '': missing custom id'')))
         else
     (case batchImageFindImageParts obj of (imageCount, mimeType) \<Rightarrow>
      if imageCount > 0 then
        Inr \<lparr>pr_CustomID = customID, pr_Status = BatchImageParsedStatusSucceeded, pr_MimeType = mimeType,
             pr_FileExtension = batchImageFileExtension mimeType, pr_ImageCount = imageCount, pr_ErrorCode = [],
             pr_ErrorMessage = [], pr_SourceLineNumber = lineNumber\<rparr>
      else
        (case batchImageFailureFromProviderFields obj of
           Some (code, message) \<Rightarrow>
             Inr (failed_result customID lineNumber code (truncateBatchImageMessage message batchImageMaxErrorMessageLength))
         | None \<Rightarrow>
             if map_of obj ''response'' \<noteq> None \<or> batchImageHasCandidates obj then
               Inr (failed_result customID lineNumber ''EMPTY_IMAGE_OUTPUT'' ''provider response contained no image output'')
             else
               Inr (failed_result customID lineNumber ''PROVIDER_ITEM_FAILED''
                      ''provider result line contained no image output'')))))"

section \<open>The lines of the output\<close>

record result_stream =
  rs_data :: string
  rs_error :: "go_error option"

text \<open>\<open>bufio.Scanner\<close> with lines of less than \<open>maximum\<close> bytes: the lines without their end, and whether a
  line was too long. The last line needs no end. A carriage return before a newline is dropped.\<close>

definition newline :: char where
  "newline = CHR 0x0A"

definition drop_cr :: "string \<Rightarrow> string" where
  "drop_cr reversed = (case reversed of [] \<Rightarrow> [] | a # s \<Rightarrow> if a = CHR 0x0D then rev s else rev (a # s))"

fun scan_lines :: "int \<Rightarrow> string \<Rightarrow> string \<Rightarrow> string list \<times> bool" where
  "scan_lines maximum acc [] =
     (if acc = [] then ([], False) else if int (length acc) \<ge> maximum then ([], True) else ([drop_cr acc], False))"
| "scan_lines maximum acc (a # s) =
     (if int (length acc) \<ge> maximum then ([], True)
      else if a = newline then (let r = scan_lines maximum [] s in (drop_cr acc # fst r, snd r))
      else scan_lines maximum (a # acc) s)"

definition batchImageMaxLine :: int where
  "batchImageMaxLine = 16 * 1024 * 1024"

definition ErrTooLong :: go_error where
  "ErrTooLong = PlainErr ''bufio.Scanner: token too long''"

definition ErrUnexpectedEOF :: go_error where
  "ErrUnexpectedEOF = PlainErr ''unexpected EOF''"

definition scanner_error :: "bool \<Rightarrow> go_error option \<Rightarrow> go_error option" where
  "scanner_error tooLong err = (if tooLong then Some ErrTooLong else err)"

section \<open>Reconciliation\<close>

text \<open>The custom ids of the items in the table, page by page.\<close>

lemma list_items_state: "fst (snd (ListBatchImageItems b f c)) = fst c"
  by (auto simp: ListBatchImageItems_def Let_def sql_exec_def split: prod.splits list.splits fault.splits)

lemma list_items_page:
  "ListBatchImageItems b \<lparr>if_Status = [], if_Limit = 500, if_Offset = int n\<rparr> c = (Inr page, c') \<Longrightarrow>
     page = take 500 (drop n [i \<leftarrow> bd_items (fst c). bi_JobID i = b]) \<and> fst c' = fst c"
  by (auto simp: ListBatchImageItems_def Let_def sql_exec_def split: prod.splits list.splits fault.splits)

definition pageSize :: nat where
  "pageSize = 500"

function expected_ids :: "string \<Rightarrow> nat \<Rightarrow> string list \<Rightarrow> batch_db conn \<Rightarrow> (go_error + string list) \<times> batch_db conn" where
  "expected_ids batchID offset expected c =
     (case ListBatchImageItems batchID \<lparr>if_Status = [], if_Limit = int pageSize, if_Offset = int offset\<rparr> c of
        (Inl e, c') \<Rightarrow> (Inl e, c')
      | (Inr page, c') \<Rightarrow>
          (let expected' = fold List.insert (map bi_CustomID page) expected in
           if length page < pageSize then (Inr expected', c')
           else expected_ids batchID (offset + length page) expected' c'))"
  by auto

termination
proof (relation "measure (\<lambda>(b, n, _, c). length (bd_items (fst c)) - n)")
  fix b n expected and c :: "batch_db conn" and r c' page x'
  assume r: "(r, c') = ListBatchImageItems b \<lparr>if_Status = [], if_Limit = int pageSize, if_Offset = int n\<rparr> c"
    "r = Inr page" "x' = fold List.insert (map bi_CustomID page) expected" "\<not> length page < pageSize"
  then have p: "page = take 500 (drop n [i \<leftarrow> bd_items (fst c). bi_JobID i = b])" "fst c' = fst c"
    using list_items_page [of b n c page c'] by (simp_all add: pageSize_def eq_commute)
  have f: "length [i \<leftarrow> bd_items (fst c). bi_JobID i = b] \<le> length (bd_items (fst c))" by (rule length_filter_le)
  have l: "500 \<le> length page" using r(4) by (simp add: pageSize_def)
  then have "n + 500 \<le> length [i \<leftarrow> bd_items (fst c). bi_JobID i = b]" unfolding p(1) by simp
  with f have n: "n + 500 \<le> length (bd_items (fst c))" by linarith
  then show "((b, n + length page, x', c'), b, n, expected, c) \<in> measure (\<lambda>(b, n, _, c). length (bd_items (fst c)) - n)"
    using l p(2) by simp
qed simp

declare expected_ids.simps [simp del]

definition listExpectedCustomIDs :: "string \<Rightarrow> batch_db conn \<Rightarrow> (go_error + string list) \<times> batch_db conn" where
  "listExpectedCustomIDs batchID c = expected_ids batchID 0 [] c"

record BatchImageIndexResult =
  ir_SuccessCount :: int
  ir_FailCount :: int
  ir_TotalCount :: int

record index_state =
  ix_seen :: "(string \<times> int) list"
  ix_unknown :: int
  ix_items :: "CreateBatchImageItemParams list"
  ix_result :: BatchImageIndexResult

definition indexed_item :: "string \<Rightarrow> string \<Rightarrow> string \<Rightarrow> time \<Rightarrow> CreateBatchImageItemParams" where
  "indexed_item batchID customID sourceObject now =
     \<lparr>ci_JobID = batchID, ci_CustomID = customID, ci_Status = BatchImageItemStatusFailed, ci_RequestHash = None,
      ci_PromptPreview = None, ci_ProviderSourceObject = batchImageOptionalStringPtr sourceObject,
      ci_SourceLineNumber = None, ci_SourceByteOffset = None, ci_SourceByteLength = None, ci_MimeType = None,
      ci_FileExtension = None, ci_ImageCount = 0, ci_ErrorCode = None, ci_ErrorMessage = None,
      ci_BilledAmount = None, ci_IndexedAt = Some now\<rparr>"

definition count_success :: "BatchImageIndexResult \<Rightarrow> BatchImageIndexResult" where
  "count_success r = r\<lparr>ir_SuccessCount := ir_SuccessCount r + 1, ir_TotalCount := ir_TotalCount r + 1\<rparr>"

definition count_failure_item :: "BatchImageIndexResult \<Rightarrow> BatchImageIndexResult" where
  "count_failure_item r = r\<lparr>ir_FailCount := ir_FailCount r + 1, ir_TotalCount := ir_TotalCount r + 1\<rparr>"

text \<open>The item of a parsed line.\<close>

definition item_of_line :: "string \<Rightarrow> string \<Rightarrow> time \<Rightarrow> ParsedBatchImageResult \<Rightarrow> CreateBatchImageItemParams" where
  "item_of_line batchID sourceObject now parsed =
     (let item = (indexed_item batchID (pr_CustomID parsed) sourceObject now)
            \<lparr>ci_SourceLineNumber := Some (pr_SourceLineNumber parsed), ci_ImageCount := pr_ImageCount parsed\<rparr> in
      if pr_Status parsed = BatchImageParsedStatusSucceeded then
        item\<lparr>ci_Status := BatchImageItemStatusSuccess, ci_MimeType := batchImageOptionalStringPtr (pr_MimeType parsed),
             ci_FileExtension := batchImageOptionalStringPtr (pr_FileExtension parsed)\<rparr>
      else
        item\<lparr>ci_ErrorCode := batchImageOptionalStringPtr (pr_ErrorCode parsed),
             ci_ErrorMessage := batchImageOptionalStringPtr (pr_ErrorMessage parsed)\<rparr>)"

definition add_line :: "string \<Rightarrow> string \<Rightarrow> time \<Rightarrow> int \<Rightarrow> ParsedBatchImageResult \<Rightarrow> index_state \<Rightarrow> index_state" where
  "add_line batchID src now n parsed st =
     st\<lparr>ix_seen := (pr_CustomID parsed, n) # ix_seen st,
        ix_items := ix_items st @ [item_of_line batchID src now parsed],
        ix_result := (if pr_Status parsed = BatchImageParsedStatusSucceeded then count_success (ix_result st)
                      else count_failure_item (ix_result st))\<rparr>"

text \<open>The loop over the lines.\<close>

fun index_lines ::
  "(string \<Rightarrow> go_error + json_object) \<Rightarrow> string list \<Rightarrow> string \<Rightarrow> string \<Rightarrow> time \<Rightarrow> int \<Rightarrow> string list \<Rightarrow> index_state \<Rightarrow>
   go_error + index_state" where
  "index_lines unmarshal expected batchID src now lineNumber [] st = Inr st"
| "index_lines unmarshal expected batchID src now lineNumber (raw # raws) st =
     (let n = lineNumber + 1; line = trim_space raw in
      if line = [] then index_lines unmarshal expected batchID src now n raws st
      else
        (case ParseBatchImageResultLine unmarshal line n of
           Inl e \<Rightarrow> Inl e
         | Inr parsed \<Rightarrow>
             if expected \<noteq> [] \<and> pr_CustomID parsed \<notin> set expected then
               index_lines unmarshal expected batchID src now n raws (st\<lparr>ix_unknown := ix_unknown st + 1\<rparr>)
             else
               (case map_of (ix_seen st) (pr_CustomID parsed) of
                  Some firstLine \<Rightarrow>
                    Inl (WithCause ErrBatchImageDuplicateCustomID (PlainErr (''custom id '' @ pr_CustomID parsed @
                      '' duplicated at lines '' @ itoa firstLine @ '' and '' @ itoa n)))
                | None \<Rightarrow>
                    index_lines unmarshal expected batchID src now n raws (add_line batchID src now n parsed st))))"

text \<open>The submitted items the output does not mention, sorted, each as a failed item.\<close>

definition missing_ids :: "string list \<Rightarrow> index_state \<Rightarrow> string list" where
  "missing_ids expected st = sort [customID \<leftarrow> expected. map_of (ix_seen st) customID = None]"

definition missing_item :: "string \<Rightarrow> string \<Rightarrow> time \<Rightarrow> string \<Rightarrow> CreateBatchImageItemParams" where
  "missing_item batchID src now customID =
     (indexed_item batchID customID src now)
       \<lparr>ci_ErrorCode := Some ''PROVIDER_RESULT_MISSING'',
        ci_ErrorMessage := Some ''provider output did not include a result for this item''\<rparr>"

definition with_missing :: "string list \<Rightarrow> string \<Rightarrow> string \<Rightarrow> time \<Rightarrow> index_state \<Rightarrow> index_state" where
  "with_missing expected batchID src now st =
     (let ids = missing_ids expected st in
      st\<lparr>ix_items := ix_items st @ map (missing_item batchID src now) ids,
         ix_result := (ix_result st)\<lparr>ir_FailCount := ir_FailCount (ix_result st) + int (length ids),
                                     ir_TotalCount := ir_TotalCount (ix_result st) + int (length ids)\<rparr>\<rparr>)"

definition start_index :: index_state where
  "start_index = \<lparr>ix_seen = [], ix_unknown = 0, ix_items = [],
     ix_result = \<lparr>ir_SuccessCount = 0, ir_FailCount = 0, ir_TotalCount = 0\<rparr>\<rparr>"

definition source_object :: "BatchImageJob \<Rightarrow> string" where
  "source_object job =
     (if batchImageDerefString (bj_ProviderOutputRef job) \<noteq> [] then batchImageDerefString (bj_ProviderOutputRef job)
      else batchImageDerefString (bj_ProviderJobName job))"

text \<open>The whole reading of one output: an error, or the items, the counts and how much was reconciled.\<close>

definition index_output ::
  "(string \<Rightarrow> go_error + json_object) \<Rightarrow> string list \<Rightarrow> BatchImageJob \<Rightarrow> time \<Rightarrow> result_stream \<Rightarrow>
   go_error + index_state \<times> nat" where
  "index_output unmarshal expected job now stream =
     (case scan_lines batchImageMaxLine [] (rs_data stream) of (ls, tooLong) \<Rightarrow>
      (case index_lines unmarshal expected (bj_BatchID job) (source_object job) now 0 ls start_index of
         Inl e \<Rightarrow> Inl e
       | Inr st \<Rightarrow>
           (case scanner_error tooLong (rs_error stream) of
              Some e \<Rightarrow> Inl (if errors_is e ErrUnexpectedEOF then WithCause ErrBatchImageIndexParseFailed e else e)
            | None \<Rightarrow>
                (let st' = with_missing expected (bj_BatchID job) (source_object job) now st in
                 if ir_TotalCount (ix_result st') = 0 then Inl ErrBatchImageIndexNoResultLines
                 else Inr (st', length (missing_ids expected st))))))"

definition reconciled_event :: "string \<Rightarrow> index_state \<Rightarrow> nat \<Rightarrow> event_payload" where
  "reconciled_event batchID st missing =
     Some [(''batch_id'', batchID), (''unknown_custom_ids'', itoa (ix_unknown st)), (''missing_custom_ids'', itoa (int missing))]"

definition Index ::
  "(string \<Rightarrow> go_error + json_object) \<Rightarrow> (BatchImageJob \<Rightarrow> go_error + result_stream) \<Rightarrow> BatchImageJob \<Rightarrow> time \<Rightarrow>
   batch_db conn \<Rightarrow> (go_error + BatchImageIndexResult) \<times> batch_db conn" where
  "Index unmarshal openResult job now c =
     (case listExpectedCustomIDs (bj_BatchID job) c of
        (Inl e, c1) \<Rightarrow> (Inl e, c1)
      | (Inr expected, c1) \<Rightarrow>
     (case openResult job of
        Inl e \<Rightarrow> (Inl (WithCause ErrBatchImageIndexOutputMissing e), c1)
      | Inr stream \<Rightarrow>
     (case index_output unmarshal expected job now stream of
        Inl e \<Rightarrow> (Inl e, c1)
      | Inr (st, missing) \<Rightarrow>
          (let c2 = (if ix_unknown st > 0 \<or> missing > 0
                     then snd (AppendBatchImageEvent (bj_BatchID job) ''index_reconciled''
                                 (reconciled_event (bj_BatchID job) st missing) c1)
                     else c1)
           in case ReplaceBatchImageItemsForJob (bj_BatchID job) (ix_items st)
                     \<lparr>bc_SuccessCount = ir_SuccessCount (ix_result st), bc_FailCount = ir_FailCount (ix_result st)\<rparr> now c2 of
                (Inl e, c3) \<Rightarrow> (Inl e, c3)
              | (Inr _, c3) \<Rightarrow> (Inr (ix_result st), c3)))))"

end
