(* ===== verification/BatchImageRequest.thy ===== *)
theory BatchImageRequest
  imports BatchImageIndex
begin

text \<open>
  What a request for a batch of images is before any state is touched: \<open>service/batch_image_public.go\<close>,
  the validation and expansion of the request, the choice of the provider and the account, and the prices
  that a new job is created with.

  Byte strings are lists of characters, so \<open>length\<close> is Go's \<open>len\<close>. Prices are exact decimals where the
  code has \<open>float64\<close>. A nil map and an empty map of metadata are both the empty list. The clock that
  \<open>defaultBatchImageTaskName\<close> formats is an argument, and so are JSON and SHA-256.
\<close>

section \<open>Errors and limits\<close>

definition ErrBatchImageDisabled :: go_error where
  "ErrBatchImageDisabled = New 404 ''BATCH_IMAGE_DISABLED'' ''batch image API is disabled''"

definition ErrBatchImageGroupDisabled :: go_error where
  "ErrBatchImageGroupDisabled = New 403 ''BATCH_IMAGE_GROUP_DISABLED'' ''batch image API is disabled for this group''"

definition ErrBatchImageInvalidModel :: go_error where
  "ErrBatchImageInvalidModel = New 400 ''BATCH_IMAGE_INVALID_MODEL'' ''batch image model is required''"

definition ErrBatchImageNoAccountAvailable :: go_error where
  "ErrBatchImageNoAccountAvailable =
     New 502 ''BATCH_IMAGE_NO_ACCOUNT_AVAILABLE'' ''no compatible batch image account is available''"

definition ErrBatchImageInvalidItems :: go_error where
  "ErrBatchImageInvalidItems = New 400 ''BATCH_IMAGE_INVALID_ITEMS'' ''batch image items are invalid''"

definition ErrBatchImageDuplicateCustomIDInRequest :: go_error where
  "ErrBatchImageDuplicateCustomIDInRequest =
     New 400 ''BATCH_IMAGE_DUPLICATE_CUSTOM_ID'' ''batch image custom ids must be unique''"

definition ErrBatchImagePromptTooLong :: go_error where
  "ErrBatchImagePromptTooLong = New 400 ''BATCH_IMAGE_PROMPT_TOO_LONG'' ''batch image prompt is too long''"

definition ErrBatchImageInvalidReferenceImage :: go_error where
  "ErrBatchImageInvalidReferenceImage =
     New 400 ''BATCH_IMAGE_INVALID_REFERENCE_IMAGE'' ''batch image reference image is invalid''"

definition ErrBatchImageTooManyReferenceImages :: go_error where
  "ErrBatchImageTooManyReferenceImages =
     New 400 ''BATCH_IMAGE_TOO_MANY_REFERENCE_IMAGES'' ''too many batch image reference images for this model''"

definition ErrBatchImageReferenceImagesTooLarge :: go_error where
  "ErrBatchImageReferenceImagesTooLarge =
     New 400 ''BATCH_IMAGE_REFERENCE_IMAGES_TOO_LARGE'' ''batch image reference images are too large''"

definition ErrBatchImageTooManyOutputImages :: go_error where
  "ErrBatchImageTooManyOutputImages =
     New 400 ''BATCH_IMAGE_TOO_MANY_OUTPUT_IMAGES'' ''too many batch image output images''"

definition defaultBatchImageMaxItems :: int where "defaultBatchImageMaxItems = 200"

definition defaultBatchImageMaxOutputImages :: int where "defaultBatchImageMaxOutputImages = 200"

definition defaultBatchImageMaxOutputCount :: int where "defaultBatchImageMaxOutputCount = 4"

definition defaultBatchImageMaxPromptChars :: int where "defaultBatchImageMaxPromptChars = 8000"

definition defaultBatchImageResponseMime :: string where "defaultBatchImageResponseMime = ''image/png''"

definition defaultBatchImageImageSize :: string where "defaultBatchImageImageSize = ''1K''"

definition defaultBatchImageDiscountMultiplier :: rat where "defaultBatchImageDiscountMultiplier = 1 / 2"

definition defaultBatchImageHoldMultiplier :: rat where "defaultBatchImageHoldMultiplier = 6 / 10"

definition maxBatchImageReferenceImageBytes :: int where "maxBatchImageReferenceImageBytes = 10 * 1024 * 1024"

definition defaultBatchImageMaxReferenceImages :: int where "defaultBatchImageMaxReferenceImages = 1000"

definition defaultBatchImageMaxReferenceBytes :: int where "defaultBatchImageMaxReferenceBytes = 128 * 1024 * 1024"

text \<open>The part of the configuration that the service reads; it may be absent.\<close>

record batch_image_config =
  cf_Enabled :: bool
  cf_MaxItemsPerJobDefault :: int
  cf_MaxOutputImagesPerJob :: int
  cf_MaxOutputImagesPerItem :: int
  cf_MaxPromptCharsPerItem :: int
  cf_MaxReferenceImagesPerJob :: int
  cf_MaxReferenceInlineBytesPerJob :: int
  cf_DefaultResponseMimeType :: string
  cf_DefaultImageSize :: string

definition config_limit :: "(batch_image_config \<Rightarrow> int) \<Rightarrow> int \<Rightarrow> batch_image_config option \<Rightarrow> int" where
  "config_limit f dflt cfg = (case cfg of None \<Rightarrow> dflt | Some c \<Rightarrow> if f c > 0 then f c else dflt)"

definition maxItems :: "batch_image_config option \<Rightarrow> int" where
  "maxItems = config_limit cf_MaxItemsPerJobDefault defaultBatchImageMaxItems"

definition maxOutputImagesPerJob :: "batch_image_config option \<Rightarrow> int" where
  "maxOutputImagesPerJob = config_limit cf_MaxOutputImagesPerJob defaultBatchImageMaxOutputImages"

definition maxOutputImagesPerItem :: "batch_image_config option \<Rightarrow> int" where
  "maxOutputImagesPerItem = config_limit cf_MaxOutputImagesPerItem defaultBatchImageMaxOutputCount"

definition maxPromptChars :: "batch_image_config option \<Rightarrow> int" where
  "maxPromptChars = config_limit cf_MaxPromptCharsPerItem defaultBatchImageMaxPromptChars"

definition maxReferenceImagesPerJob :: "batch_image_config option \<Rightarrow> int" where
  "maxReferenceImagesPerJob = config_limit cf_MaxReferenceImagesPerJob defaultBatchImageMaxReferenceImages"

definition maxReferenceInlineBytesPerJob :: "batch_image_config option \<Rightarrow> int" where
  "maxReferenceInlineBytesPerJob = config_limit cf_MaxReferenceInlineBytesPerJob defaultBatchImageMaxReferenceBytes"

definition config_text :: "(batch_image_config \<Rightarrow> string) \<Rightarrow> string \<Rightarrow> batch_image_config option \<Rightarrow> string" where
  "config_text f dflt cfg =
     (case cfg of None \<Rightarrow> dflt | Some c \<Rightarrow> if trim_space (f c) \<noteq> [] then trim_space (f c) else dflt)"

definition defaultResponseMimeType :: "batch_image_config option \<Rightarrow> string" where
  "defaultResponseMimeType = config_text cf_DefaultResponseMimeType defaultBatchImageResponseMime"

definition defaultImageSize :: "batch_image_config option \<Rightarrow> string" where
  "defaultImageSize = config_text cf_DefaultImageSize defaultBatchImageImageSize"

section \<open>The request\<close>

record BatchImageReferenceInput =
  ri_ID :: string
  ri_Type :: string
  ri_MimeType :: string
  ri_Data :: string
  ri_FileURI :: string

record BatchImageSubmitItem =
  si_CustomID :: string
  si_Prompt :: string
  si_OutputCount :: int
  si_ReferenceImages :: "BatchImageReferenceInput list"

record BatchImageSubmitRequest =
  rq_Model :: string
  rq_TaskName :: string
  rq_ParentBatchID :: string
  rq_Provider :: string
  rq_Items :: "BatchImageSubmitItem list"
  rq_ResponseMimeType :: string
  rq_AspectRatio :: string
  rq_ImageSize :: string
  rq_Metadata :: "(string \<times> string) list"
  rq_SessionID :: "string option"

text \<open>\<open>sanitizeBatchImageMetadata\<close>: the keys in their order, trimmed, at most twenty of them; an assignment
  to a key that is there already replaces its value.\<close>

fun sanitize_keys :: "(string \<times> string) list \<Rightarrow> string list \<Rightarrow> (string \<times> string) list \<Rightarrow> (string \<times> string) list" where
  "sanitize_keys inp [] out = out"
| "sanitize_keys inp (k # ks) out =
     (let key = trim_space k in
      if key = [] \<or> length key > 64 then sanitize_keys inp ks out
      else
        (let value = trim_space (case map_of inp k of Some v \<Rightarrow> v | None \<Rightarrow> []);
             out' = put key (take 256 value) out
         in if length out' \<ge> 20 then out' else sanitize_keys inp ks out'))"

definition sanitizeBatchImageMetadata :: "(string \<times> string) list \<Rightarrow> (string \<times> string) list" where
  "sanitizeBatchImageMetadata inp = sanitize_keys inp (sort (map fst inp)) []"

section \<open>Validation\<close>

definition normalizeBatchImageReferenceMimeType :: "string \<Rightarrow> string" where
  "normalizeBatchImageReferenceMimeType v =
     (let m = to_lower (trim_space v) in
      if m = ''image/jpeg'' \<or> m = ''image/jpg'' then ''image/jpeg''
      else if m = ''image/png'' then ''image/png''
      else if m = ''image/webp'' then ''image/webp''
      else [])"

definition maxBatchImageReferenceImagesForModel :: "string \<Rightarrow> int" where
  "maxBatchImageReferenceImagesForModel model =
     (let m = to_lower (trim_space model) in
      if contains m ''pro-image'' then 14 else if contains m ''flash-image'' then 3 else 0)"

definition normalize_reference :: "BatchImageReferenceInput \<Rightarrow> BatchImageReferenceInput" where
  "normalize_reference ref =
     ref\<lparr>ri_ID := truncateBatchImageMessage (trim_space (ri_ID ref)) 80,
         ri_Type := truncateBatchImageMessage (trim_space (ri_Type ref)) 40,
         ri_MimeType := normalizeBatchImageReferenceMimeType (ri_MimeType ref),
         ri_FileURI := trim_space (ri_FileURI ref)\<rparr>"

definition reference_ok :: "BatchImageReferenceInput \<Rightarrow> bool" where
  "reference_ok ref \<longleftrightarrow>
     ri_MimeType ref \<noteq> [] \<and> \<not> (ri_Data ref = [] \<and> ri_FileURI ref = []) \<and> \<not> (ri_Data ref \<noteq> [] \<and> ri_FileURI ref \<noteq> []) \<and>
     int (length (ri_Data ref)) \<le> maxBatchImageReferenceImageBytes \<and>
     \<not> (ri_FileURI ref \<noteq> [] \<and> \<not> has_prefix ''gs://'' (ri_FileURI ref))"

fun normalize_references ::
  "BatchImageReferenceInput list \<Rightarrow> BatchImageReferenceInput list \<Rightarrow> int \<Rightarrow> go_error + BatchImageReferenceInput list \<times> int" where
  "normalize_references [] out inlineBytes = Inr (out, inlineBytes)"
| "normalize_references (r # rs) out inlineBytes =
     (let ref = normalize_reference r in
      if \<not> reference_ok ref then Inl ErrBatchImageInvalidReferenceImage
      else normalize_references rs (out @ [ref]) (inlineBytes + int (length (ri_Data ref))))"

text \<open>The item with its references, their number and their inline bytes.\<close>

definition normalizeBatchImageReferenceInputs ::
  "string \<Rightarrow> BatchImageSubmitItem \<Rightarrow> go_error + BatchImageSubmitItem \<times> int \<times> int" where
  "normalizeBatchImageReferenceInputs model item =
     (if si_ReferenceImages item = [] then Inr (item, 0, 0)
      else
        (let maxRefs = maxBatchImageReferenceImagesForModel model in
         if maxRefs \<le> 0 \<or> int (length (si_ReferenceImages item)) > maxRefs then Inl ErrBatchImageTooManyReferenceImages
         else
           (case normalize_references (si_ReferenceImages item) [] 0 of
              Inl e \<Rightarrow> Inl e
            | Inr (out, inlineBytes) \<Rightarrow> Inr (item\<lparr>si_ReferenceImages := out\<rparr>, int (length out), inlineBytes))))"

text \<open>\<open>%0*d\<close> of a number that is not negative.\<close>

definition zero_padded :: "nat \<Rightarrow> int \<Rightarrow> string" where
  "zero_padded width n = replicate (width - length (itoa n)) (CHR ''0'') @ itoa n"

definition batchImageRepeatSuffixWidth :: "int \<Rightarrow> nat" where
  "batchImageRepeatSuffixWidth count = (if count < 10 then 2 else length (itoa count))"

definition repeat_item :: "BatchImageSubmitItem \<Rightarrow> int \<Rightarrow> int \<Rightarrow> BatchImageSubmitItem" where
  "repeat_item item outputCount repeatIndex =
     (let expanded = item\<lparr>si_OutputCount := 0\<rparr> in
      if outputCount > 1
      then expanded\<lparr>si_CustomID := si_CustomID item @ ''_'' @
             zero_padded (batchImageRepeatSuffixWidth outputCount) repeatIndex\<rparr>
      else expanded)"

record validate_state =
  vs_seen :: "string list"
  vs_references :: int
  vs_bytes :: int
  vs_outputs :: int
  vs_items :: "BatchImageSubmitItem list"

text \<open>The inner loop, over the repetitions of one item.\<close>

fun add_repeats :: "BatchImageSubmitItem list \<Rightarrow> validate_state \<Rightarrow> go_error + validate_state" where
  "add_repeats [] st = Inr st"
| "add_repeats (item # items) st =
     (if si_CustomID item \<in> set (vs_seen st) then Inl ErrBatchImageDuplicateCustomIDInRequest
      else add_repeats items (st\<lparr>vs_seen := si_CustomID item # vs_seen st, vs_items := vs_items st @ [item]\<rparr>))"

definition validate_item ::
  "batch_image_config option \<Rightarrow> string \<Rightarrow> int \<Rightarrow> BatchImageSubmitItem \<Rightarrow> validate_state \<Rightarrow> go_error + validate_state" where
  "validate_item cfg model i item0 st =
     (let customID = trim_space (si_CustomID item0);
          item1 = item0\<lparr>si_CustomID := (if customID = [] then ''item_'' @ zero_padded 6 (i + 1) else customID)\<rparr>;
          outputCount = (if si_OutputCount item1 = 0 then 1 else si_OutputCount item1)
      in
      if outputCount < 1 \<or> outputCount > maxOutputImagesPerItem cfg then Inl ErrBatchImageInvalidItems
      else if vs_outputs st + outputCount > maxOutputImagesPerJob cfg then Inl ErrBatchImageTooManyOutputImages
      else
        (let prompt = trim_space (si_Prompt item1); item2 = item1\<lparr>si_Prompt := prompt\<rparr> in
         if prompt = [] then Inl ErrBatchImageInvalidItems
         else if int (length prompt) > maxPromptChars cfg then Inl ErrBatchImagePromptTooLong
         else
           (case normalizeBatchImageReferenceInputs model item2 of
              Inl e \<Rightarrow> Inl e
            | Inr (item, referenceCount, inlineBytes) \<Rightarrow>
                if vs_references st + referenceCount * outputCount > maxReferenceImagesPerJob cfg then
                  Inl ErrBatchImageTooManyReferenceImages
                else if vs_bytes st + inlineBytes * outputCount > maxReferenceInlineBytesPerJob cfg then
                  Inl ErrBatchImageReferenceImagesTooLarge
                else
                  add_repeats (map (repeat_item item outputCount) [1..outputCount])
                    (st\<lparr>vs_references := vs_references st + referenceCount * outputCount,
                        vs_bytes := vs_bytes st + inlineBytes * outputCount,
                        vs_outputs := vs_outputs st + outputCount\<rparr>))))"

fun validate_items ::
  "batch_image_config option \<Rightarrow> string \<Rightarrow> int \<Rightarrow> BatchImageSubmitItem list \<Rightarrow> validate_state \<Rightarrow> go_error + validate_state" where
  "validate_items cfg model i [] st = Inr st"
| "validate_items cfg model i (item # items) st =
     (case validate_item cfg model i item st of
        Inl e \<Rightarrow> Inl e
      | Inr st' \<Rightarrow> validate_items cfg model (i + 1) items st')"

definition start_validation :: validate_state where
  "start_validation = \<lparr>vs_seen = [], vs_references = 0, vs_bytes = 0, vs_outputs = 0, vs_items = []\<rparr>"

definition trimmed_request :: "BatchImageSubmitRequest \<Rightarrow> BatchImageSubmitRequest" where
  "trimmed_request req =
     req\<lparr>rq_Model := trim_space (rq_Model req), rq_TaskName := trim_space (rq_TaskName req),
         rq_ParentBatchID := trim_space (rq_ParentBatchID req), rq_Provider := trim_space (rq_Provider req),
         rq_ResponseMimeType := trim_space (rq_ResponseMimeType req), rq_AspectRatio := trim_space (rq_AspectRatio req),
         rq_ImageSize := trim_space (rq_ImageSize req)\<rparr>"

definition validateSubmitRequest ::
  "batch_image_config option \<Rightarrow> string \<Rightarrow> BatchImageSubmitRequest \<Rightarrow> go_error + BatchImageSubmitRequest" where
  "validateSubmitRequest cfg defaultTaskName req0 =
     (let req = trimmed_request req0 in
      if rq_Model req = [] then Inl ErrBatchImageInvalidModel
      else
        (let task = (if rq_TaskName req = [] then defaultTaskName else rq_TaskName req);
             task' = (if length task > 255 then truncateBatchImageMessage task 255 else task);
             mime = (if rq_ResponseMimeType req = [] then defaultResponseMimeType cfg else rq_ResponseMimeType req);
             size = (if rq_ImageSize req = [] then defaultImageSize cfg else rq_ImageSize req)
         in
         if rq_Provider req \<noteq> [] \<and> \<not> IsSupportedBatchImageProvider (rq_Provider req) then
           Inl ErrBatchImageUnsupportedProvider
         else if rq_Items req = [] then Inl ErrBatchImageInvalidItems
         else if int (length (rq_Items req)) > maxItems cfg then Inl ErrBatchImageInvalidItems
         else if \<not> equal_fold size defaultBatchImageImageSize then Inl ErrBatchImageInvalidItems
         else
           (case validate_items cfg (rq_Model req) 0 (rq_Items req) start_validation of
              Inl e \<Rightarrow> Inl e
            | Inr st \<Rightarrow>
                Inr (req\<lparr>rq_TaskName := task', rq_ResponseMimeType := mime, rq_ImageSize := defaultBatchImageImageSize,
                         rq_Metadata := sanitizeBatchImageMetadata (rq_Metadata req), rq_Items := vs_items st\<rparr>))))"

section \<open>Accounts and groups\<close>

text \<open>An account as the service reads it: the fields of \<open>IsSchedulable\<close> and the prices, and the answers of the
  methods that read its configuration maps, \<open>IsModelSupported\<close> and
  \<open>IsAPIKeyOrBedrock() && IsQuotaExceeded()\<close>.\<close>

record Account =
  ac_ID :: int
  ac_Status :: string
  ac_Schedulable :: bool
  ac_Priority :: int
  ac_RateMultiplier :: "rat option"
  ac_AutoPauseOnExpired :: bool
  ac_ExpiresAt :: "time option"
  ac_OverloadUntil :: "time option"
  ac_RateLimitResetAt :: "time option"
  ac_TempUnschedulableUntil :: "time option"
  ac_QuotaExceeded :: bool
  ac_IsModelSupported :: "string \<Rightarrow> bool"

definition IsActive :: "Account \<Rightarrow> bool" where
  "IsActive a \<longleftrightarrow> ac_Status a = ''active''"

definition BillingRateMultiplier :: "Account option \<Rightarrow> rat" where
  "BillingRateMultiplier a =
     (case a of None \<Rightarrow> 1
      | Some acc \<Rightarrow> (case ac_RateMultiplier acc of None \<Rightarrow> 1 | Some r \<Rightarrow> if r < 0 then 1 else r))"

definition blocked_until :: "time \<Rightarrow> time option \<Rightarrow> bool" where
  "blocked_until now t \<longleftrightarrow> (case t of None \<Rightarrow> False | Some u \<Rightarrow> now < u)"

text \<open>\<open>transient\<close> is the switch of \<open>ShouldApplyTransientUnschedulableBlock\<close>.\<close>

definition IsSchedulable :: "bool \<Rightarrow> time \<Rightarrow> Account \<Rightarrow> bool" where
  "IsSchedulable transient now a \<longleftrightarrow>
     (if \<not> IsActive a \<or> \<not> ac_Schedulable a then False
      else if ac_AutoPauseOnExpired a \<and> ac_ExpiresAt a \<noteq> None \<and> \<not> now < the (ac_ExpiresAt a) then False
      else if transient \<and> (blocked_until now (ac_OverloadUntil a) \<or> blocked_until now (ac_RateLimitResetAt a) \<or>
                           blocked_until now (ac_TempUnschedulableUntil a)) then False
      else if ac_QuotaExceeded a then False
      else True)"

record BatchImageGroup =
  gr_ID :: int
  gr_Platform :: string
  gr_RateMultiplier :: rat
  gr_AllowBatchImageGeneration :: bool
  gr_ImageRateIndependent :: bool
  gr_ImageRateMultiplier :: rat
  gr_ImagePrice1K :: "rat option"
  gr_ImagePrice2K :: "rat option"
  gr_ImagePrice4K :: "rat option"
  gr_BatchImageDiscountMultiplier :: rat
  gr_BatchImageHoldMultiplier :: rat

definition PlatformGemini :: string where
  "PlatformGemini = ''gemini''"

definition GetImagePrice :: "BatchImageGroup \<Rightarrow> string \<Rightarrow> rat option" where
  "GetImagePrice g imageSize =
     (if imageSize = ''1K'' then gr_ImagePrice1K g
      else if imageSize = ''2K'' then gr_ImagePrice2K g
      else if imageSize = ''4K'' then gr_ImagePrice4K g
      else gr_ImagePrice2K g)"

record BatchImageOwner =
  ow_UserID :: int
  ow_APIKeyID :: int
  ow_GroupID :: "int option"

text \<open>What the service only reads: the repositories of accounts, groups and rates and the pricing resolver,
  each of which may be absent.\<close>

record BatchImageAccountSelectionRepository =
  ar_GetByID :: "int \<Rightarrow> go_error + Account"
  ar_ListSchedulableByPlatform :: "string \<Rightarrow> go_error + Account list"
  ar_ListSchedulableByGroupIDAndPlatform :: "int \<Rightarrow> string \<Rightarrow> go_error + Account list"

record pricing_env =
  px_GroupRepo :: "(int \<Rightarrow> go_error + BatchImageGroup option) option"
  px_UserGroupRateRepo :: "(int \<Rightarrow> int \<Rightarrow> go_error + rat option) option"
  px_Pricing :: "(string \<Rightarrow> string \<Rightarrow> go_error + rat) option"

definition ensureGroupAllowsBatchImage :: "pricing_env \<Rightarrow> int option \<Rightarrow> go_error" where
  "ensureGroupAllowsBatchImage env groupID =
     (if \<not> positive_id groupID then NilErr
      else (case px_GroupRepo env of
              None \<Rightarrow> ErrBatchImageSettlementPricingMissing
            | Some repo \<Rightarrow>
                (case repo (the groupID) of
                   Inr (Some g) \<Rightarrow>
                     if \<not> gr_AllowBatchImageGeneration g then ErrBatchImageGroupDisabled
                     else if gr_Platform g \<noteq> PlatformGemini then ErrBatchImageGroupDisabled
                     else NilErr
                 | _ \<Rightarrow> ErrBatchImageSettlementPricingMissing)))"

section \<open>The provider and the account\<close>

definition batchImageProviderPlatform :: "string \<Rightarrow> string" where
  "batchImageProviderPlatform provider = PlatformGemini"

definition batchImageProviderSelectionOrder :: "string \<Rightarrow> string list" where
  "batchImageProviderSelectionOrder requestedProvider =
     (if trim_space requestedProvider \<noteq> [] then [trim_space requestedProvider]
      else [BatchImageProviderGeminiAPI, BatchImageProviderVertex])"

definition listCandidateAccounts ::
  "BatchImageAccountSelectionRepository option \<Rightarrow> int option \<Rightarrow> string \<Rightarrow> go_error + Account list" where
  "listCandidateAccounts repo groupID platform =
     (case repo of
        None \<Rightarrow> Inl ErrBatchImageNoAccountAvailable
      | Some r \<Rightarrow>
          if positive_id groupID then ar_ListSchedulableByGroupIDAndPlatform r (the groupID) platform
          else ar_ListSchedulableByPlatform r platform)"

text \<open>The order of \<open>sort.SliceStable\<close>: by descending priority, then by identifier.\<close>

definition by_priority :: "Account list \<Rightarrow> Account list" where
  "by_priority accs = sort_key (\<lambda>a. - ac_Priority a) (sort_key ac_ID accs)"

definition usable_account :: "bool \<Rightarrow> time \<Rightarrow> string \<Rightarrow> (Account \<Rightarrow> bool) \<Rightarrow> Account \<Rightarrow> bool" where
  "usable_account transient now model supports a \<longleftrightarrow> IsSchedulable transient now a \<and> ac_IsModelSupported a model \<and> supports a"

text \<open>The loop over the providers; \<open>registry\<close> gives for a registered provider its \<open>SupportsAccount\<close>. The
  answer is the name of the provider and the account.\<close>

fun select_from ::
  "(string \<Rightarrow> (Account \<Rightarrow> bool) option) \<Rightarrow> (string \<Rightarrow> go_error + Account list) \<Rightarrow> bool \<Rightarrow> time \<Rightarrow> string \<Rightarrow>
   string list \<Rightarrow> go_error + string \<times> Account" where
  "select_from registry candidates transient now model [] = Inl ErrBatchImageNoAccountAvailable"
| "select_from registry candidates transient now model (name # names) =
     (case registry name of
        None \<Rightarrow> select_from registry candidates transient now model names
      | Some supports \<Rightarrow>
          (case candidates (batchImageProviderPlatform name) of
             Inl e \<Rightarrow> Inl e
           | Inr accs \<Rightarrow>
               (case find (usable_account transient now model supports) (by_priority accs) of
                  Some a \<Rightarrow> Inr (name, a)
                | None \<Rightarrow> select_from registry candidates transient now model names)))"

definition selectProviderAndAccount ::
  "(string \<Rightarrow> (Account \<Rightarrow> bool) option) \<Rightarrow> BatchImageAccountSelectionRepository option \<Rightarrow> bool \<Rightarrow> time \<Rightarrow> BatchImageOwner \<Rightarrow>
   string \<Rightarrow> string \<Rightarrow> go_error + string \<times> Account" where
  "selectProviderAndAccount registry repo transient now owner requestedProvider model =
     select_from registry (listCandidateAccounts repo (ow_GroupID owner)) transient now model
       (batchImageProviderSelectionOrder requestedProvider)"

section \<open>Prices\<close>

record BatchImagePricingSnapshot =
  ps_BaseUnitPrice :: rat
  ps_GroupRateMultiplier :: rat
  ps_AccountRateMultiplier :: rat
  ps_BatchDiscountMultiplier :: rat
  ps_HoldMultiplier :: rat
  ps_BillableUnitPrice :: rat
  ps_HoldUnitPrice :: rat
  ps_EstimatedCost :: rat
  ps_HoldAmount :: rat

text \<open>The multipliers of a group: for the group, the discount, the hold; and its unit price, or -1.\<close>

definition group_prices :: "pricing_env \<Rightarrow> BatchImageOwner \<Rightarrow> string \<Rightarrow> go_error + rat \<times> rat \<times> rat \<times> rat" where
  "group_prices env owner imageSize =
     (if \<not> positive_id (ow_GroupID owner) then
        Inr (1, defaultBatchImageDiscountMultiplier, defaultBatchImageHoldMultiplier, - 1)
      else (case px_GroupRepo env of
              None \<Rightarrow> Inl ErrBatchImageSettlementPricingMissing
            | Some repo \<Rightarrow>
                (case repo (the (ow_GroupID owner)) of
                   Inr (Some g) \<Rightarrow>
                     if \<not> gr_AllowBatchImageGeneration g then Inl ErrBatchImageGroupDisabled
                     else
                       (let dflt = max 0 (gr_RateMultiplier g) in
                        case (case px_UserGroupRateRepo env of
                                None \<Rightarrow> Inr dflt
                              | Some rates \<Rightarrow>
                                  (case rates (ow_UserID owner) (gr_ID g) of
                                     Inl _ \<Rightarrow> Inl ErrBatchImageSettlementPricingMissing
                                   | Inr None \<Rightarrow> Inr dflt
                                   | Inr (Some userRate) \<Rightarrow> Inr userRate)) of
                          Inl e \<Rightarrow> Inl e
                        | Inr effective \<Rightarrow>
                            Inr (max 0 (if gr_ImageRateIndependent g then gr_ImageRateMultiplier g else effective),
                                 max 0 (gr_BatchImageDiscountMultiplier g),
                                 (if gr_BatchImageHoldMultiplier g \<ge> 0 then gr_BatchImageHoldMultiplier g
                                  else defaultBatchImageHoldMultiplier),
                                 (case GetImagePrice g imageSize of
                                    Some configured \<Rightarrow> if configured \<ge> 0 then configured else - 1
                                  | None \<Rightarrow> - 1)))
                 | _ \<Rightarrow> Inl ErrBatchImageSettlementPricingMissing)))"

definition unit_price :: "pricing_env \<Rightarrow> string \<Rightarrow> string \<Rightarrow> rat \<Rightarrow> go_error + rat" where
  "unit_price env provider model unit =
     (if unit < 0 then
        (case px_Pricing env of
           None \<Rightarrow> Inl ErrBatchImageSettlementPricingMissing
         | Some pricing \<Rightarrow>
             (case pricing provider model of
                Inl _ \<Rightarrow> Inl ErrBatchImageSettlementPricingMissing
              | Inr resolved \<Rightarrow> if resolved < 0 then Inl ErrBatchImageSettlementPricingMissing else Inr resolved))
      else Inr unit)"

definition resolvePricingSnapshot ::
  "pricing_env \<Rightarrow> BatchImageOwner \<Rightarrow> BatchImageSubmitRequest \<Rightarrow> string \<Rightarrow> Account option \<Rightarrow>
   go_error + BatchImagePricingSnapshot" where
  "resolvePricingSnapshot env owner req provider account =
     (case group_prices env owner (rq_ImageSize req) of
        Inl e \<Rightarrow> Inl e
      | Inr (groupMultiplier, discountMultiplier, hold, groupUnit) \<Rightarrow>
          (case unit_price env provider (rq_Model req) groupUnit of
             Inl e \<Rightarrow> Inl e
           | Inr unit \<Rightarrow>
               (let holdMultiplier = (if hold < discountMultiplier then discountMultiplier else hold);
                    accountMultiplier = max 0 (BillingRateMultiplier account);
                    standardUnitPrice = unit * groupMultiplier * accountMultiplier;
                    billableUnitPrice = standardUnitPrice * discountMultiplier;
                    holdUnitPrice = standardUnitPrice * holdMultiplier;
                    items = of_nat (length (rq_Items req))
                in Inr \<lparr>ps_BaseUnitPrice = unit, ps_GroupRateMultiplier = groupMultiplier,
                        ps_AccountRateMultiplier = accountMultiplier, ps_BatchDiscountMultiplier = discountMultiplier,
                        ps_HoldMultiplier = holdMultiplier, ps_BillableUnitPrice = billableUnitPrice,
                        ps_HoldUnitPrice = holdUnitPrice, ps_EstimatedCost = billableUnitPrice * items,
                        ps_HoldAmount = holdUnitPrice * items\<rparr>)))"

end
