(* ===== verification/BatchImageProcessor.thy ===== *)
theory BatchImageProcessor
  imports BatchImageIndex
begin

text \<open>
  One step of a batch image job: \<open>BatchImageProviderProcessor\<close> of \<open>service/batch_image_processor.go\<close> and
  \<open>BatchImagePipelineProcessor\<close> of \<open>service/batch_image_settlement.go\<close>, which the queue worker calls.

  The providers are behind the interface \<open>BatchImageProvider\<close> and the accounts behind the account
  resolver; both are part of the environment of a call, and a later call may find another environment.
  Every call on the tables, the ledger or the queue may meet a fault. Logging and the invalidation of cached
  keys are left out; one reading of the clock stands for the calls of \<open>time.Now()\<close> in one operation.
\<close>

definition ErrBatchImageProviderUnsupportedAccount :: go_error where
  "ErrBatchImageProviderUnsupportedAccount =
     New 400 ''BATCH_IMAGE_PROVIDER_UNSUPPORTED_ACCOUNT'' ''batch image provider does not support this account''"

definition BatchProviderStateQueued :: string where "BatchProviderStateQueued = ''queued''"

definition BatchProviderStateRunning :: string where "BatchProviderStateRunning = ''running''"

definition BatchProviderStateSucceeded :: string where "BatchProviderStateSucceeded = ''succeeded''"

definition BatchProviderStateFailed :: string where "BatchProviderStateFailed = ''failed''"

definition BatchProviderStateCancelled :: string where "BatchProviderStateCancelled = ''cancelled''"

definition BatchProviderStateExpired :: string where "BatchProviderStateExpired = ''expired''"

record BatchProviderStatus =
  st_RawState :: string
  st_InternalState :: string
  st_Done :: bool
  st_ProviderOutputRef :: string
  st_ErrorCode :: string
  st_ErrorMessage :: string
  st_SuggestedRequeueAfter :: duration

text \<open>The methods of a provider that the processor calls; \<open>'a\<close> is the account.\<close>

record 'a BatchImageProvider =
  pv_SupportsAccount :: "'a \<Rightarrow> bool"
  pv_Get :: "BatchImageJob \<Rightarrow> 'a \<Rightarrow> go_error + BatchProviderStatus option"
  pv_OpenResult :: "BatchImageJob \<Rightarrow> 'a \<Rightarrow> go_error + result_stream"

record 'a processor_env =
  pe_settle :: settle_env
  pe_ProviderRegistry :: "string \<Rightarrow> 'a BatchImageProvider option"
  pe_AccountResolver :: "int \<Rightarrow> go_error + 'a"
  pe_unmarshal :: "string \<Rightarrow> go_error + json_object"
  pe_DefaultRequeue :: duration
  pe_SettlementService :: bool
  pe_RetryDelay :: duration

definition defaultBatchImageProcessorRequeue :: duration where
  "defaultBatchImageProcessorRequeue = 30 * second"

definition batchImageProviderErrorRequeue :: duration where
  "batchImageProviderErrorRequeue = minute"

definition requeueDelay :: "'a processor_env \<Rightarrow> duration \<Rightarrow> duration" where
  "requeueDelay p suggested =
     (if suggested > 0 then suggested
      else if pe_DefaultRequeue p > 0 then pe_DefaultRequeue p else defaultBatchImageProcessorRequeue)"

definition isBatchImageProcessorDoneStatus :: "string \<Rightarrow> bool" where
  "isBatchImageProcessorDoneStatus status \<longleftrightarrow> status = BatchImageJobStatusSettling \<or> IsTerminalBatchImageJobStatus status"

type_synonym process_reply = "(go_error + BatchImageProcessResult) \<times> settle_world"

definition requeue_after :: "duration \<Rightarrow> BatchImageProcessResult" where
  "requeue_after d = \<lparr>pr_RequeueAfter = d, pr_Terminal = False\<rparr>"

definition terminal_result :: BatchImageProcessResult where
  "terminal_result = \<lparr>pr_RequeueAfter = 0, pr_Terminal = True\<rparr>"

definition releaseTerminalHold :: "'a processor_env \<Rightarrow> BatchImageJob \<Rightarrow> settle_world \<Rightarrow> go_error \<times> settle_world" where
  "releaseTerminalHold p job w =
     (if bj_Status job \<noteq> BatchImageJobStatusFailed \<and> bj_Status job \<noteq> BatchImageJobStatusCancelled then (NilErr, w)
      else release_in (pe_settle p) job w)"

text \<open>The result has the job with the new reference, as the code updates it in memory.\<close>

definition persistProviderOutputRef ::
  "time \<Rightarrow> BatchImageJob \<Rightarrow> string \<Rightarrow> settle_world \<Rightarrow> (go_error + BatchImageJob) \<times> settle_world" where
  "persistProviderOutputRef now job ref w =
     (let r = trim_space ref in
      if r = [] \<or> batchImageDerefString (bj_ProviderOutputRef job) = r then (Inr job, w)
      else (case UpdateBatchImageJobProviderOutputRef (bj_BatchID job) r now (w_db w) of
              (Inl e, c) \<Rightarrow> (Inl e, w\<lparr>w_db := c\<rparr>)
            | (Inr _, c) \<Rightarrow> (Inr (job\<lparr>bj_ProviderOutputRef := Some r\<rparr>), w\<lparr>w_db := c\<rparr>)))"

text \<open>\<open>TransitionBatchImageJobStatus\<close> without an expected status.\<close>

definition transition_in ::
  "time \<Rightarrow> BatchImageJob \<Rightarrow> string \<Rightarrow> string \<Rightarrow> event_payload \<Rightarrow> string option \<Rightarrow> string option \<Rightarrow> settle_world \<Rightarrow>
   (go_error + unit) \<times> settle_world" where
  "transition_in now job toStatus eventType payload code msg w =
     with_db (TransitionBatchImageJobStatus (bj_BatchID job) toStatus
       \<lparr>to_ExpectedStatus = [], to_EventType = eventType, to_EventPayload = payload, to_ErrorCode = code,
        to_ErrorMessage = msg, to_Now = None\<rparr> now (w_db w)) w"

text \<open>A transition to a final status, the release of the hold, and the terminal answer.\<close>

definition finish_job ::
  "'a processor_env \<Rightarrow> time \<Rightarrow> BatchImageJob \<Rightarrow> string \<Rightarrow> string \<Rightarrow> event_payload \<Rightarrow> string option \<Rightarrow> string option \<Rightarrow>
   settle_world \<Rightarrow> process_reply" where
  "finish_job p now job toStatus eventType payload code msg w =
     (case transition_in now job toStatus eventType payload code msg w of
        (Inl e, w1) \<Rightarrow> (Inl e, w1)
      | (Inr _, w1) \<Rightarrow>
          (case releaseTerminalHold p (job\<lparr>bj_Status := toStatus\<rparr>) w1 of (err, w2) \<Rightarrow>
             if err \<noteq> NilErr then (Inl err, w2) else (Inr terminal_result, w2)))"

definition indexAndSettle ::
  "'a processor_env \<Rightarrow> time \<Rightarrow> BatchImageJob \<Rightarrow> 'a BatchImageProvider \<Rightarrow> 'a \<Rightarrow> settle_world \<Rightarrow> process_reply" where
  "indexAndSettle p now job provider account w =
     (case with_db (Index (pe_unmarshal p) (\<lambda>j. pv_OpenResult provider j account) job now (w_db w)) w of
        (Inl err, w1) \<Rightarrow>
          if errors_is err ErrBatchImageIndexOutputMissing then (Inl err, w1)
          else if errors_is err ErrBatchImageIndexStateConflict then (Inr (requeue_after millisecond), w1)
          else
            (let code = (if errors_is err ErrBatchImageDuplicateCustomID then ''DUPLICATE_CUSTOM_ID_IN_OUTPUT''
                         else ''INDEX_PARSE_FAILED'');
                 msg = truncateBatchImageMessage (se_error_text (pe_settle p) err) batchImageMaxErrorMessageLength
             in finish_job p now job BatchImageJobStatusFailed ''indexing_failed'' (Some [(''error_code'', code)])
                  (Some code) (batchImageOptionalStringPtr msg) w1)
      | (Inr result, w1) \<Rightarrow>
          (case transition_in now job BatchImageJobStatusSettling ''indexing_completed''
                  (Some [(''success_count'', itoa (ir_SuccessCount result)), (''fail_count'', itoa (ir_FailCount result)),
                         (''total_count'', itoa (ir_TotalCount result))]) None None w1 of
             (Inl e, w2) \<Rightarrow> (Inl e, w2)
           | (Inr _, w2) \<Rightarrow> (Inr (requeue_after millisecond), w2)))"

text \<open>What a provider status leads to.\<close>

definition failure_code :: "BatchProviderStatus \<Rightarrow> string" where
  "failure_code status =
     (let code = trim_space (st_ErrorCode status) in
      if code \<noteq> [] then code
      else if st_InternalState status = BatchProviderStateExpired then ''PROVIDER_BATCH_EXPIRED''
      else ''PROVIDER_BATCH_FAILED'')"

definition apply_status ::
  "'a processor_env \<Rightarrow> time \<Rightarrow> BatchImageJob \<Rightarrow> 'a BatchImageProvider \<Rightarrow> 'a \<Rightarrow> BatchProviderStatus \<Rightarrow> settle_world \<Rightarrow>
   process_reply" where
  "apply_status p now job provider account status w =
     (let state = st_InternalState status; wait = requeue_after (requeueDelay p (st_SuggestedRequeueAfter status));
          raw = (''provider_state'', st_RawState status)
      in
      if state = BatchProviderStateQueued then (Inr wait, w)
      else if state = BatchProviderStateRunning then
        (if bj_Status job \<noteq> BatchImageJobStatusRunning then
           (case transition_in now job BatchImageJobStatusRunning ''provider_status_checked'' (Some [raw]) None None w of
              (Inl e, w1) \<Rightarrow> (Inl e, w1) | (Inr _, w1) \<Rightarrow> (Inr wait, w1))
         else (Inr wait, w))
      else if state = BatchProviderStateSucceeded then
        (if bj_Status job \<noteq> BatchImageJobStatusIndexing then
           (case transition_in now job BatchImageJobStatusIndexing ''indexing_started'' (Some [raw]) None None w of
              (Inl e, w1) \<Rightarrow> (Inl e, w1)
            | (Inr _, w1) \<Rightarrow> indexAndSettle p now (job\<lparr>bj_Status := BatchImageJobStatusIndexing\<rparr>) provider account w1)
         else indexAndSettle p now job provider account w)
      else if state = BatchProviderStateFailed \<or> state = BatchProviderStateExpired then
        (let code = failure_code status;
             msg = truncateBatchImageMessage (st_ErrorMessage status) batchImageMaxErrorMessageLength
         in finish_job p now job BatchImageJobStatusFailed ''job_failed'' (Some [raw, (''error_code'', code)])
              (Some code) (batchImageOptionalStringPtr msg) w)
      else if state = BatchProviderStateCancelled then
        finish_job p now job BatchImageJobStatusCancelled ''job_failed''
          (Some [raw, (''error_code'', ''PROVIDER_BATCH_CANCELLED'')]) None None w
      else (Inr wait, w))"

definition process_job :: "'a processor_env \<Rightarrow> time \<Rightarrow> BatchImageJob \<Rightarrow> settle_world \<Rightarrow> process_reply" where
  "process_job p now job w =
     (if isBatchImageProcessorDoneStatus (bj_Status job) then
        (case releaseTerminalHold p job w of (err, w1) \<Rightarrow>
           if err \<noteq> NilErr then (Inl err, w1) else (Inr terminal_result, w1))
      else
        (case pe_ProviderRegistry p (bj_Provider job) of
           None \<Rightarrow> (Inl ErrBatchImageUnsupportedProvider, w)
         | Some provider \<Rightarrow>
             if \<not> positive_id (bj_AccountID job) then (Inl ErrBatchImageMissingAccountID, w)
             else
               (case pe_AccountResolver p (the (bj_AccountID job)) of
                  Inl e \<Rightarrow> (Inl e, w)
                | Inr account \<Rightarrow>
                    if \<not> pv_SupportsAccount provider account then (Inl ErrBatchImageProviderUnsupportedAccount, w)
                    else if batchImageDerefString (bj_ProviderJobName job) = [] then
                      (Inl ErrBatchImageMissingProviderJobName, w)
                    else if bj_Status job = BatchImageJobStatusIndexing then indexAndSettle p now job provider account w
                    else
                      (case pv_Get provider job account of
                         Inl e \<Rightarrow> (Inr (requeue_after batchImageProviderErrorRequeue), w)
                       | Inr None \<Rightarrow> (Inr (requeue_after (requeueDelay p 0)), w)
                       | Inr (Some status) \<Rightarrow>
                           (case persistProviderOutputRef now job (st_ProviderOutputRef status) w of
                              (Inl e, w1) \<Rightarrow> (Inl e, w1)
                            | (Inr job1, w1) \<Rightarrow> apply_status p now job1 provider account status w1)))))"

definition Process :: "'a processor_env \<Rightarrow> time \<Rightarrow> string \<Rightarrow> settle_world \<Rightarrow> process_reply" where
  "Process p now batchID w =
     (case with_db (GetBatchImageJobByBatchID batchID (w_db w)) w of
        (Inl e, w1) \<Rightarrow> (Inl e, w1)
      | (Inr job, w1) \<Rightarrow> process_job p now job w1)"

section \<open>The pipeline\<close>

definition pipeline_Process :: "'a processor_env \<Rightarrow> time \<Rightarrow> string \<Rightarrow> settle_world \<Rightarrow> process_reply" where
  "pipeline_Process p now batchID w =
     (case with_db (GetBatchImageJobByBatchID batchID (w_db w)) w of
        (Inl e, w1) \<Rightarrow> (Inl e, w1)
      | (Inr job, w1) \<Rightarrow>
          if bj_Status job = BatchImageJobStatusSettling then
            (if \<not> pe_SettlementService p then (Inr terminal_result, w1)
             else
               (case Settle (pe_settle p) now batchID w1 of
                  (Inr _, w2) \<Rightarrow> (Inr terminal_result, w2)
                | (Inl err, w2) \<Rightarrow>
                    if errors_is err ErrBatchImageSettlementBillingFailed then
                      (case with_db (GetBatchImageJobByBatchID batchID (w_db w2)) w2 of (updated, w3) \<Rightarrow>
                         let wait = requeue_after (if pe_RetryDelay p \<le> 0 then batchImageSettlementRetryDelay else pe_RetryDelay p)
                         in case updated of
                              Inr j \<Rightarrow> (if IsTerminalBatchImageJobStatus (bj_Status j) then (Inr terminal_result, w3)
                                       else (Inr wait, w3))
                            | Inl _ \<Rightarrow> (Inr wait, w3))
                    else (Inl err, w2)))
          else Process p now batchID w1)"

end
