(* ===== verification/BatchImageSettlementLaws.thy ===== *)
theory BatchImageSettlementLaws
  imports BatchImageSettlement
begin

text \<open>
  What settlement does to the money of a user: the holds stay backed, a job is charged at most once, and
  a job that settlement ends holds nothing any more.
\<close>

section \<open>The holds of a job in the ledger\<close>

lemma trim_right_rev_append:
  assumes "trim_right_rev x = x" "x \<noteq> []" "\<forall>a \<in> set y. of_char a < (128 :: nat)"
  shows "trim_right_rev (x @ y) = x @ y"
proof (cases x rule: trim_right_rev.cases)
  case 1
  with assms(2) show ?thesis by simp
next
  case (2 a)
  with assms show ?thesis
    by (cases y rule: trim_right_rev.cases) (auto simp: ws2_def ws3_def Let_def split: if_splits)
next
  case (3 b a)
  have "trim_right_rev [a] \<noteq> [b, a]" by simp
  with 3 assms show ?thesis
    by (cases y rule: trim_right_rev.cases) (auto simp: ws3_def Let_def split: if_splits)
next
  case (4 c b a s)
  have "length (trim_right_rev t) \<le> length t" for t by (rule suffix_length_le [OF trim_right_rev_suffix])
  then have "trim_right_rev (b # a # s) \<noteq> x" "trim_right_rev (a # s) \<noteq> x" "trim_right_rev s \<noteq> x"
    using 4 by (metis impossible_Cons length_Cons le_SucI)+
  with 4 assms(1) show ?thesis by (auto split: if_splits)
qed

lemma hold_request_id_trim:
  assumes "trim_space b = b" "b \<noteq> []"
  shows "trim_space (hold_request_id op b) = hold_request_id op b"
proof -
  obtain p where p: "hold_request_id op b = CHR ''b'' # CHR ''a'' # CHR ''t'' # p @ b" "\<forall>a \<in> set p. of_char a < (128 :: nat)"
    using assms(1)
    by (cases op) (auto simp: BatchImageHoldRequestID_def BatchImageCaptureRequestID_def BatchImageReleaseRequestID_def)
  have l: "trim_left (hold_request_id op b) = hold_request_id op b"
    by (simp add: p(1) ws1_def ws2_def ws3_def)
  have "trim_left b = b"
  proof -
    have "length b \<le> length (trim_left b)"
      using assms(1) suffix_length_le [OF trim_right_rev_suffix [of "rev (trim_left b)"]]
      by (metis length_rev trim_space_def)
    then show ?thesis
      using suffix_length_le [OF trim_left_suffix [of b]] trim_left_suffix [of b]
      by (metis le_antisym suffix_order.eq_iff suffix_def append_eq_append_conv append_Nil length_append add_cancel_left_left length_0_conv)
  qed
  then have "trim_right_rev (rev b) = rev b" using assms(1) by (metis rev_rev_ident trim_space_def)
  then have "trim_right_rev (rev b @ rev p @ ''tab'') = rev b @ rev p @ ''tab''"
    using assms(2) p(2) by (intro trim_right_rev_append) auto
  then show ?thesis using l by (simp add: trim_space_def p(1))
qed

text \<open>The ledger reads the jobs from the table of the service: the columns of the owner and of the hold.\<close>

definition job_view :: "BatchImageJob \<Rightarrow> int \<Rightarrow> job_row" where
  "job_view job key = \<lparr>j_user = bj_UserID job, j_key = key, j_estimated = bj_EstimatedCost job, j_hold = bj_HoldAmount job,
     j_request_hash = bj_RequestHash job\<rparr>"

definition linked :: "BatchImageJob \<Rightarrow> ledger \<Rightarrow> bool" where
  "linked job l \<longleftrightarrow>
     (\<exists>key. bj_APIKeyID job = Some key \<and> 0 < key \<and> jobs l (bj_BatchID job) = Some (job_view job key)) \<and>
     0 < bj_UserID job \<and> 0 \<le> job_hold_amount job \<and> trim_space (bj_BatchID job) = bj_BatchID job \<and> bj_BatchID job \<noteq> []"

definition same_owner :: "BatchImageJob \<Rightarrow> BatchImageJob \<Rightarrow> bool" where
  "same_owner j j' \<longleftrightarrow> bj_BatchID j' = bj_BatchID j \<and> bj_UserID j' = bj_UserID j \<and> bj_APIKeyID j' = bj_APIKeyID j \<and>
     bj_EstimatedCost j' = bj_EstimatedCost j \<and> bj_HoldAmount j' = bj_HoldAmount j \<and> bj_RequestHash j' = bj_RequestHash j"

lemma linked_same_owner: "same_owner j j' \<Longrightarrow> linked j' l = linked j l"
  by (simp add: same_owner_def linked_def job_view_def job_hold_amount_def cong: option.case_cong)

lemma linked_jobs: "jobs l' = jobs l \<Longrightarrow> linked j l' = linked j l"
  by (simp add: linked_def)

lemma same_owner_refl [simp]: "same_owner j j"
  by (simp add: same_owner_def)

lemma same_owner_trans: "same_owner a b \<Longrightarrow> same_owner b c \<Longrightarrow> same_owner a c"
  by (simp add: same_owner_def)

lemma row_steps_same_owner: "(row_step F)\<^sup>*\<^sup>* j j' \<Longrightarrow> same_owner j j'"
proof (induction rule: rtranclp_induct)
  case (step y z)
  then show ?case using row_step_keeps [OF step(2)] by (simp add: same_owner_def)
qed simp

lemma job_hold_view: "job_hold (job_view job key) = round_to_scale (job_hold_amount job)"
  by (simp add: job_hold_def job_view_def job_hold_amount_def coalesce_def split: option.split)

definition hold_command :: "BatchImageJob \<Rightarrow> hold_operation \<Rightarrow> rat \<Rightarrow> string \<Rightarrow> BatchImageBalanceHoldCommand" where
  "hold_command job op actual payloadHash =
     \<lparr>hc_RequestID = hold_request_id op (bj_BatchID job), hc_APIKeyID = the (bj_APIKeyID job), hc_RequestFingerprint = [],
      hc_RequestPayloadHash = trim_space payloadHash, hc_UserID = bj_UserID job, hc_BatchID = bj_BatchID job,
      HoldAmount = Fin (job_hold_amount job), ActualAmount = Fin (if actual < 0 then 0 else actual)\<rparr>"

lemma build_linked:
  "linked job l \<Longrightarrow> buildBatchImageHoldCommand job (hold_request_id op (bj_BatchID job)) actual h = Inr (hold_command job op actual h)"
  by (auto simp: linked_def buildBatchImageHoldCommand_def hold_command_def)

lemma capture_linked:
  assumes "linked job l"
  shows "captureBatchImageBalanceHold fc job a h c =
    (case applyBatchImageBalanceHold fc OpCapture (Some (hold_command job OpCapture a h)) c of
       (Inl e, c') \<Rightarrow> (WithCause ErrBatchImageSettlementBillingFailed e, c') | (Inr _, c') \<Rightarrow> (NilErr, c'))"
  using build_linked [OF assms, of OpCapture a h]
  by (simp add: captureBatchImageBalanceHold_def CaptureBatchImageBalance_def)

lemma release_linked:
  assumes "linked job l"
  shows "releaseBatchImageBalanceHold fc job h c =
    (if job_hold_amount job \<le> 0 then (NilErr, c)
     else case applyBatchImageBalanceHold fc OpRelease (Some (hold_command job OpRelease 0 h)) c of
       (Inl e, c') \<Rightarrow> (if errors_is e ErrUsageBillingRequestConflict then NilErr
                       else WithCause ErrBatchImageBillingHoldFailed e, c')
     | (Inr _, c') \<Rightarrow> (NilErr, c'))"
  using build_linked [OF assms, of OpRelease 0 h]
  by (simp add: releaseBatchImageBalanceHold_def ReleaseBatchImageBalance_def hold_command_def not_less cong: if_cong)

definition charged :: "rat \<Rightarrow> rat" where
  "charged a = round_to_scale (if a < 0 then 0 else a)"

lemma charged_nonneg [simp]: "0 \<le> charged a"
  by (simp add: charged_def round_to_scale_nonneg)

abbreviation job_hold_on_scale :: "BatchImageJob \<Rightarrow> rat" where
  "job_hold_on_scale job \<equiv> round_to_scale (job_hold_amount job)"

abbreviation normal_command :: "fingerprint_codec \<Rightarrow> BatchImageJob \<Rightarrow> hold_operation \<Rightarrow> rat \<Rightarrow> string \<Rightarrow> BatchImageBalanceHoldCommand" where
  "normal_command fc job op a h \<equiv> hc_Normalize fc (hold_command job op a h)"

lemma normal_fields:
  assumes "linked job l"
  shows "hc_RequestID (normal_command fc job op a h) = hold_request_id op (bj_BatchID job)"
    "hc_BatchID (normal_command fc job op a h) = bj_BatchID job"
    "hc_APIKeyID (normal_command fc job op a h) = the (bj_APIKeyID job)"
    "hc_UserID (normal_command fc job op a h) = bj_UserID job"
  using assms hold_request_id_trim [of "bj_BatchID job" op]
  by (auto simp: hc_Normalize_def hold_command_def linked_def Let_def simp del: hold_request_id.simps)

lemma normal_amounts:
  "HoldAmount (normal_command fc job op a h) = Fin (job_hold_on_scale job)"
  "ActualAmount (normal_command fc job op a h) = Fin (charged a)"
  by (simp_all add: hc_Normalize_def hold_command_def Let_def quantize_Fin charged_def del: QuantizeUsageBillingAmount.simps(1))

lemma normal_matches:
  assumes "linked job l"
  shows "matches_job l (normal_command fc job op a h) (job_hold_on_scale job)"
  using assms by (auto simp: matches_job_def normal_fields [OF assms] linked_def job_hold_view) (simp_all add: job_view_def)

lemma apply_hold_linked:
  assumes "linked job l"
  shows "applyBatchImageBalanceHold fc op (Some (hold_command job op a h)) c =
     run_tx (hold_tx op (normal_command fc job op a h) (job_hold_on_scale job) (charged a)) c"
proof -
  let ?cmd = "hold_command job op a h"
  have raw: "0 < hc_UserID ?cmd" "0 < hc_APIKeyID ?cmd" "trim_space (hc_BatchID ?cmd) \<noteq> []"
    "\<not> negative_or_not_finite (HoldAmount ?cmd)" "\<not> negative_or_not_finite (ActualAmount ?cmd)"
    using assms by (auto simp: linked_def hold_command_def)
  have "hold_request_id op b \<noteq> []" for b
    by (cases op) (simp_all add: BatchImageHoldRequestID_def BatchImageCaptureRequestID_def BatchImageReleaseRequestID_def)
  moreover have "numeric (Fin v) f = f v" for v and f :: "rat \<Rightarrow> BatchImageBalanceHoldResult tx" by (simp add: fun_eq_iff)
  ultimately show ?thesis
    using raw by (simp add: applyBatchImageBalanceHold_def Let_def normal_fields [OF assms] normal_amounts
        del: hold_request_id.simps)
qed

text \<open>One transaction of a linked job: it keeps the holds backed, keeps every claim, and says what it moved.\<close>

definition ended_by :: "BatchImageJob \<Rightarrow> hold_operation \<Rightarrow> ledger \<Rightarrow> bool" where
  "ended_by job op l \<longleftrightarrow> batchImageHoldClaimExists (hold_request_id op (bj_BatchID job)) (the (bj_APIKeyID job)) l"

lemma hold_tx_linked:
  assumes l: "linked job l" and tx: "hold_tx op (normal_command fc job op a h) (job_hold_on_scale job) (charged a) l = Inr (res, l')"
  shows "ledger_le l l'"
    and "frozen_backed base l \<Longrightarrow> frozen_backed base l'"
    and "l' = l \<or> ended_by job op l' \<and> \<not> ended_by job op l \<and>
           (op = OpRelease \<longrightarrow> \<not> ended_by job OpCapture l) \<and> (op = OpCapture \<longrightarrow> \<not> ended_by job OpRelease l)"
    and "money l' u = money l u - (if l' \<noteq> l \<and> op = OpCapture \<and> u = bj_UserID job then charged a else 0)"
proof -
  have nn: "0 \<le> job_hold_on_scale job" using l by (simp add: linked_def round_to_scale_nonneg)
  show "ledger_le l l'" by (rule hold_tx_le [OF tx])
  show "frozen_backed base l \<Longrightarrow> frozen_backed base l'"
    by (rule hold_frozen_backed [OF _ tx nn charged_nonneg])
       (use l normal_matches [OF l] in \<open>simp_all add: normal_fields [OF l] linked_def del: hold_request_id.simps\<close>)
  show t: "l' = l \<or> ended_by job op l' \<and> \<not> ended_by job op l \<and>
           (op = OpRelease \<longrightarrow> \<not> ended_by job OpCapture l) \<and> (op = OpCapture \<longrightarrow> \<not> ended_by job OpRelease l)"
    using tx
  proof (rule hold_tx_cases)
    fix expired l1 r
    assume al: "batchImageHoldOperationAllowed op (hc_APIKeyID (normal_command fc job op a h))
          (hc_BatchID (normal_command fc job op a h)) (job_hold_on_scale job) l = Inr True"
      and c: "claimUsageBillingRequest (hc_RequestID (normal_command fc job op a h)) (hc_APIKeyID (normal_command fc job op a h))
          (hc_RequestFingerprint (normal_command fc job op a h)) l = Inr (True, l1)"
      and e: "hold_effect op expired (hc_UserID (normal_command fc job op a h)) (hc_APIKeyID (normal_command fc job op a h))
          (hc_BatchID (normal_command fc job op a h)) (job_hold_on_scale job) (charged a) l1 = Inr (r, l')"
    have "ended_by job op l'" "\<not> ended_by job op l"
      using claimed_after [OF c frames_effects_keep [OF frames_hold_effect e]] claim_won [OF c]
      by (simp_all add: ended_by_def normal_fields [OF l] del: hold_request_id.simps)
    moreover have "(op = OpRelease \<longrightarrow> \<not> ended_by job OpCapture l) \<and> (op = OpCapture \<longrightarrow> \<not> ended_by job OpRelease l)"
      using al by (auto simp: batchImageHoldOperationAllowed_def ended_by_def normal_fields [OF l] Let_def split: if_splits)
    ultimately show ?thesis by blast
  qed simp
  show "money l' u = money l u - (if l' \<noteq> l \<and> op = OpCapture \<and> u = bj_UserID job then charged a else 0)"
  proof (cases "l' = l")
    case False
    have "hr_Applied res" using tx by (rule hold_tx_cases) (use False in simp_all)
    with hold_tx_money [OF tx nn charged_nonneg, of u] False show ?thesis by (simp add: normal_fields [OF l])
  qed simp
qed

lemma hold_run_linked:
  assumes l: "linked job (fst c)"
    and run: "run_tx (hold_tx op (normal_command fc job op a h) (job_hold_on_scale job) (charged a)) c = (r, c')"
  shows "ledger_le (fst c) (fst c')"
    and "frozen_backed base (fst c) \<Longrightarrow> frozen_backed base (fst c')"
    and "fst c' = fst c \<or> ended_by job op (fst c') \<and> \<not> ended_by job op (fst c) \<and>
           (op = OpRelease \<longrightarrow> \<not> ended_by job OpCapture (fst c)) \<and> (op = OpCapture \<longrightarrow> \<not> ended_by job OpRelease (fst c))"
    and "money (fst c') u = money (fst c) u - (if fst c' \<noteq> fst c \<and> op = OpCapture \<and> u = bj_UserID job then charged a else 0)"
  using run_tx_effect [OF run] hold_tx_linked [OF l, of op fc a h _ "fst c'"] by auto

lemma hold_errors:
  "errors_is conn_error ErrUsageBillingRequestConflict = False"
  "errors_is ErrUserNotFound ErrUsageBillingRequestConflict = False"
  "errors_is err_frozen_insufficient ErrUsageBillingRequestConflict = False"
  "errors_is ErrUsageBillingRequestConflict ErrUsageBillingRequestConflict"
  by code_simp+

lemma release_effect_error:
  assumes "hold_effect OpRelease expired u key b h a l = Inl e"
  shows "\<not> errors_is e ErrUsageBillingRequestConflict"
  using assms
  by (auto simp: hold_effect_def releaseUsageBillingBatchImageBalance_def move_user_def tx_return_def hold_errors
      split: if_splits option.splits)

definition closed :: "BatchImageJob \<Rightarrow> ledger \<Rightarrow> bool" where
  "closed job l \<longleftrightarrow> ended_by job OpCapture l \<or> ended_by job OpRelease l \<or>
     releases l (bj_BatchID job, the (bj_APIKeyID job)) \<noteq> None \<or> job_hold_on_scale job = 0"

lemma closed_not_open: "linked job l \<Longrightarrow> closed job l \<Longrightarrow> \<not> open_hold l (bj_BatchID job)"
  by (auto simp: linked_def closed_def open_hold_def ended_by_def hold_ids job_hold_view simp del: hold_request_id.simps)
     (simp_all add: job_view_def)

lemma closed_mono:
  assumes "ledger_le l l'" "closed job l" shows "closed job l'"
proof -
  have "releases l (bj_BatchID job, k) \<noteq> None \<Longrightarrow> releases l' (bj_BatchID job, k) \<noteq> None" for k
    using assms(1) by (force simp: ledger_le_def map_le_def dom_def)
  then show ?thesis using assms(2) claimed_mono [OF assms(1)] unfolding closed_def ended_by_def by blast
qed

lemma run_tx_error: "run_tx body c = (Inl e, c') \<Longrightarrow> e = conn_error \<or> body (fst c) = Inl e \<and> fst c' = fst c"
  by (auto simp: run_tx_def sql_exec_def split: prod.splits list.splits fault.splits sum.splits)

lemma claim_refused:
  assumes "claimUsageBillingRequest rid key fp l = r" "\<forall>l1. r \<noteq> Inr (True, l1)"
  shows "batchImageHoldClaimExists rid key l"
  using assms
  by (auto simp: claimUsageBillingRequest_def claim_fingerprint_def batchImageHoldClaimExists_def Let_def
      split: option.splits if_splits)

lemma WithCause_neq:
  "WithCause ErrBatchImageSettlementBillingFailed e \<noteq> NilErr" "WithCause ErrBatchImageBillingHoldFailed e \<noteq> NilErr"
  by (simp_all add: ErrBatchImageSettlementBillingFailed_def ErrBatchImageBillingHoldFailed_def New_def)

lemma hold_tx_applied:
  assumes l: "linked job l" and tx: "hold_tx op (normal_command fc job op a h) (job_hold_on_scale job) x l = Inr (res, l')"
    and "hr_Applied res"
  shows "ended_by job op l'"
  using tx
proof (rule hold_tx_cases)
  fix expired l1 r
  let ?n = "normal_command fc job op a h"
  assume c: "claimUsageBillingRequest (hc_RequestID ?n) (hc_APIKeyID ?n) (hc_RequestFingerprint ?n) l = Inr (True, l1)"
    and e: "hold_effect op expired (hc_UserID ?n) (hc_APIKeyID ?n) (hc_BatchID ?n) (job_hold_on_scale job) x l1 = Inr (r, l')"
  show ?thesis
    using claimed_after [OF c frames_effects_keep [OF frames_hold_effect e]]
    by (simp add: ended_by_def normal_fields [OF l] del: hold_request_id.simps)
qed (use assms(3) in simp)

lemma release_tx_closes:
  assumes l: "linked job l"
  shows "hold_tx OpRelease (normal_command fc job OpRelease a h) (job_hold_on_scale job) x l = Inr (res, l') \<Longrightarrow> closed job l'"
    and "hold_tx OpRelease (normal_command fc job OpRelease a h) (job_hold_on_scale job) x l = Inl e \<Longrightarrow>
      errors_is e ErrUsageBillingRequestConflict \<Longrightarrow> closed job l"
proof -
  let ?n = "normal_command fc job OpRelease a h" and ?h = "job_hold_on_scale job"
  note f = normal_fields [OF l, of fc OpRelease a h]
  have al: "batchImageHoldOperationAllowed OpRelease (hc_APIKeyID ?n) (hc_BatchID ?n) ?h l = Inr (\<not> ended_by job OpCapture l)"
    by (simp add: batchImageHoldOperationAllowed_def f ended_by_def Let_def)
  have ref: "closed job l" if "claimUsageBillingRequest (hc_RequestID ?n) (hc_APIKeyID ?n) (hc_RequestFingerprint ?n) l = r"
    "\<forall>l1. r \<noteq> Inr (True, l1)" for r
    using claim_refused [OF that] by (simp add: closed_def ended_by_def f)
  show "closed job l" if "hold_tx OpRelease ?n ?h x l = Inl e" "errors_is e ErrUsageBillingRequestConflict"
    using that al ref release_effect_error
    by (auto simp: hold_tx_def f batchImageHoldExpired_def closed_def Let_def split: sum.splits if_splits option.splits)
  show "closed job l'" if t: "hold_tx OpRelease ?n ?h x l = Inr (res, l')"
  proof (cases "closed job l")
    case True
    then show ?thesis by (rule closed_mono [OF hold_tx_le [OF t]])
  next
    case False
    have "\<not> ended_by job OpCapture l" using False by (simp add: closed_def)
    with t al ref False have "hr_Applied res"
      by (auto simp: hold_tx_def Let_def split: sum.splits if_splits)
    then have "ended_by job OpRelease l'" by (rule hold_tx_applied [OF l t])
    then show ?thesis by (simp add: closed_def)
  qed
qed

lemma release_closes:
  assumes l: "linked job (fst c)" and r: "releaseBatchImageBalanceHold fc job h c = (NilErr, c')"
  shows "closed job (fst c')"
proof (cases "job_hold_amount job \<le> 0")
  case True
  then have "job_hold_amount job = 0" using l by (simp add: linked_def)
  then show ?thesis by (simp add: closed_def round_to_scale_fixed [of 0])
next
  case False
  let ?body = "hold_tx OpRelease (normal_command fc job OpRelease 0 h) (job_hold_on_scale job) (charged 0)"
  obtain x c1 where run: "run_tx ?body c = (x, c1)" by (rule prod.exhaust)
  have c1: "c' = c1" using r False run
    by (auto simp: release_linked [OF l] apply_hold_linked [OF l] WithCause_neq split: sum.splits if_splits)
  show ?thesis
  proof (cases x)
    case (Inr res)
    show ?thesis using run_tx_acked [OF run [unfolded Inr]] unfolding c1 by (rule release_tx_closes(1) [OF l])
  next
    case (Inl e)
    have conflict: "errors_is e ErrUsageBillingRequestConflict"
      using r False run Inl
      by (auto simp: release_linked [OF l] apply_hold_linked [OF l] WithCause_neq split: if_splits)
    with run_tx_error [OF run [unfolded Inl]] have "?body (fst c) = Inl e" "fst c1 = fst c" by (auto simp: hold_errors)
    with release_tx_closes(2) [OF l _ conflict] c1 show ?thesis by simp
  qed
qed

lemma capture_ends:
  assumes l: "linked job (fst c)" and r: "captureBatchImageBalanceHold fc job a h c = (NilErr, c')"
  shows "ended_by job OpCapture (fst c')"
proof -
  let ?n = "normal_command fc job OpCapture a h"
  obtain res where run: "run_tx (hold_tx OpCapture ?n (job_hold_on_scale job) (charged a)) c = (Inr res, c')"
    using r by (auto simp: capture_linked [OF l] apply_hold_linked [OF l] WithCause_neq split: prod.splits sum.splits)
  have tx: "hold_tx OpCapture ?n (job_hold_on_scale job) (charged a) (fst c) = Inr (res, fst c')"
    by (rule run_tx_acked [OF run])
  show ?thesis
  proof (cases "hr_Applied res")
    case True
    with hold_tx_applied [OF l tx] show ?thesis by simp
  next
    case False
    note f = normal_fields [OF l, of fc OpCapture a h]
    have "fst c' = fst c" using tx by (rule hold_tx_cases) (use False in simp_all)
    moreover have "ended_by job OpCapture (fst c)"
      using tx False claim_refused [of "hc_RequestID ?n" "hc_APIKeyID ?n" "hc_RequestFingerprint ?n" "fst c"]
      by (auto simp: hold_tx_def batchImageHoldOperationAllowed_def ended_by_def f Let_def split: sum.splits if_splits)
    ultimately show ?thesis by simp
  qed
qed

lemma capture_effect:
  assumes l: "linked job (fst c)"
  shows "ledger_le (fst c) (fst (snd (captureBatchImageBalanceHold fc job a h c)))"
    and "frozen_backed base (fst c) \<Longrightarrow> frozen_backed base (fst (snd (captureBatchImageBalanceHold fc job a h c)))"
    and "fst (snd (captureBatchImageBalanceHold fc job a h c)) = fst c \<or>
           ended_by job OpCapture (fst (snd (captureBatchImageBalanceHold fc job a h c))) \<and> \<not> ended_by job OpCapture (fst c)"
    and "money (fst (snd (captureBatchImageBalanceHold fc job a h c))) u = money (fst c) u -
           (if fst (snd (captureBatchImageBalanceHold fc job a h c)) \<noteq> fst c \<and> u = bj_UserID job then charged a else 0)"
proof -
  let ?body = "hold_tx OpCapture (normal_command fc job OpCapture a h) (job_hold_on_scale job) (charged a)"
  obtain x c1 where run: "run_tx ?body c = (x, c1)" by (rule prod.exhaust)
  have c1: "snd (captureBatchImageBalanceHold fc job a h c) = c1"
    using run by (simp add: capture_linked [OF l] apply_hold_linked [OF l] split: sum.split)
  note e = hold_run_linked [OF l run]
  show "ledger_le (fst c) (fst (snd (captureBatchImageBalanceHold fc job a h c)))" using e(1) c1 by simp
  show "frozen_backed base (fst c) \<Longrightarrow> frozen_backed base (fst (snd (captureBatchImageBalanceHold fc job a h c)))"
    using e(2) c1 by simp
  show "fst (snd (captureBatchImageBalanceHold fc job a h c)) = fst c \<or>
           ended_by job OpCapture (fst (snd (captureBatchImageBalanceHold fc job a h c))) \<and> \<not> ended_by job OpCapture (fst c)"
    using e(3) c1 by auto
  show "money (fst (snd (captureBatchImageBalanceHold fc job a h c))) u = money (fst c) u -
           (if fst (snd (captureBatchImageBalanceHold fc job a h c)) \<noteq> fst c \<and> u = bj_UserID job then charged a else 0)"
    using e(4) [of u] c1 by simp
qed

lemma release_effect:
  assumes l: "linked job (fst c)"
  shows "ledger_le (fst c) (fst (snd (releaseBatchImageBalanceHold fc job h c)))"
    and "frozen_backed base (fst c) \<Longrightarrow> frozen_backed base (fst (snd (releaseBatchImageBalanceHold fc job h c)))"
    and "money (fst (snd (releaseBatchImageBalanceHold fc job h c))) u = money (fst c) u"
proof -
  let ?body = "hold_tx OpRelease (normal_command fc job OpRelease 0 h) (job_hold_on_scale job) (charged 0)"
  obtain x c1 where run: "run_tx ?body c = (x, c1)" by (rule prod.exhaust)
  have c1: "snd (releaseBatchImageBalanceHold fc job h c) = (if job_hold_amount job \<le> 0 then c else c1)"
    using run by (simp add: release_linked [OF l] apply_hold_linked [OF l] split: sum.split)
  note e = hold_run_linked [OF l run]
  show "ledger_le (fst c) (fst (snd (releaseBatchImageBalanceHold fc job h c)))" using e(1) c1 by simp
  show "frozen_backed base (fst c) \<Longrightarrow> frozen_backed base (fst (snd (releaseBatchImageBalanceHold fc job h c)))"
    using e(2) c1 by simp
  show "money (fst (snd (releaseBatchImageBalanceHold fc job h c))) u = money (fst c) u"
    using e(4) [of u] c1 by simp
qed

section \<open>One settlement\<close>

definition takes :: "BatchImageJob \<Rightarrow> rat \<Rightarrow> ledger \<Rightarrow> ledger \<Rightarrow> bool" where
  "takes job x l l' \<longleftrightarrow>
     ledger_le l l' \<and> (\<forall>base. frozen_backed base l \<longrightarrow> frozen_backed base l') \<and>
     (\<forall>u. money l' u = money l u - (if u = bj_UserID job then x else 0)) \<and>
     (x \<noteq> 0 \<longrightarrow> ended_by job OpCapture l' \<and> \<not> ended_by job OpCapture l)"

lemma takes_nothing [simp]: "takes job 0 l l"
  by (simp add: takes_def)

lemma ended_by_mono: "ledger_le l l' \<Longrightarrow> ended_by job op l \<Longrightarrow> ended_by job op l'"
  unfolding ended_by_def by (rule claimed_mono)

lemma takes_then_nothing: "takes job x l l' \<Longrightarrow> takes job 0 l' l'' \<Longrightarrow> takes job x l l''"
  by (auto simp: takes_def intro: ledger_le_trans ended_by_mono)

lemma capture_takes:
  assumes "linked job (fst c)"
  shows "\<exists>x. takes job x (fst c) (fst (snd (captureBatchImageBalanceHold fc job a h c))) \<and> (x = 0 \<or> x = charged a)"
proof -
  let ?l = "fst (snd (captureBatchImageBalanceHold fc job a h c))"
  note e = capture_effect [OF assms, where fc = fc and a = a and h = h]
  show ?thesis
  proof (rule exI [of _ "if ?l = fst c then 0 else charged a"])
    show "takes job (if ?l = fst c then 0 else charged a) (fst c) ?l \<and>
        ((if ?l = fst c then 0 else charged a) = 0 \<or> (if ?l = fst c then 0 else charged a) = charged a)"
      using e by (auto simp: takes_def)
  qed
qed

lemma release_takes: "linked job (fst c) \<Longrightarrow> takes job 0 (fst c) (fst (snd (releaseBatchImageBalanceHold fc job h c)))"
  using release_effect [where job = job and c = c and fc = fc and h = h] by (simp add: takes_def)

text \<open>What holds of the job during a settlement: it is still settling, or its hold has ended.\<close>

definition in_settlement :: "BatchImageJob \<Rightarrow> settle_world \<Rightarrow> bool" where
  "in_settlement job w \<longleftrightarrow>
     linked job (fst (w_ledger w)) \<and> unique_batches (fst (w_db w)) \<and>
     (\<exists>j. job_by_batch (bj_BatchID job) (fst (w_db w)) = Some j \<and> same_owner job j \<and>
        (bj_Status j = BatchImageJobStatusSettling \<or> closed job (fst (w_ledger w))))"

definition settles :: "BatchImageJob \<Rightarrow> rat \<Rightarrow> settle_world \<Rightarrow> settle_world \<Rightarrow> bool" where
  "settles job x w w' \<longleftrightarrow> in_settlement job w' \<and> takes job x (fst (w_ledger w)) (fst (w_ledger w'))"

lemma settles_refl: "in_settlement job w \<Longrightarrow> settles job 0 w w"
  by (simp add: settles_def)

lemma settles_then: "settles job x w w' \<Longrightarrow> settles job 0 w' w'' \<Longrightarrow> settles job x w w''"
  by (auto simp: settles_def intro: takes_then_nothing)

lemma in_settlement_ledger:
  assumes "in_settlement job w" "ledger_le (fst (w_ledger w)) (fst l')"
  shows "in_settlement job (w\<lparr>w_ledger := l'\<rparr>)"
  using assms closed_mono [OF assms(2)] linked_jobs [of "fst l'" "fst (w_ledger w)"]
  by (auto simp: in_settlement_def ledger_le_def)

lemma release_in_settles:
  assumes "in_settlement job w"
  shows "settles job 0 w (snd (release_in env job w))"
  using assms release_takes [of job "w_ledger w"] in_settlement_ledger [OF assms] release_effect(1) [where job = job and c = "w_ledger w"]
  by (auto simp: release_in_def settles_def Let_def in_settlement_def [of job w])

lemma in_settlement_db:
  assumes s: "in_settlement job w" and m: "moved F (fst (w_db w)) (fst d')"
    and st: "\<And>j j'. job_by_batch (bj_BatchID job) (fst (w_db w)) = Some j \<Longrightarrow>
        job_by_batch (bj_BatchID job) (fst d') = Some j' \<Longrightarrow> (row_step F)\<^sup>*\<^sup>* j j' \<Longrightarrow>
        bj_Status j = BatchImageJobStatusSettling \<Longrightarrow> bj_Status j' = BatchImageJobStatusSettling \<or> closed job (fst (w_ledger w))"
  shows "settles job 0 w (w\<lparr>w_db := d'\<rparr>)"
proof -
  obtain j where j: "job_by_batch (bj_BatchID job) (fst (w_db w)) = Some j" "same_owner job j"
    "bj_Status j = BatchImageJobStatusSettling \<or> closed job (fst (w_ledger w))"
    using s by (auto simp: in_settlement_def)
  obtain j' where j': "job_by_batch (bj_BatchID job) (fst d') = Some j'" "(row_step F)\<^sup>*\<^sup>* j j'"
    using m job_moved [OF _ j(1)] by (auto simp: moved_def)
  have "same_owner job j'" by (rule same_owner_trans [OF j(2) row_steps_same_owner [OF j'(2)]])
  then show ?thesis using s m j(3) j'(1) st [OF j(1) j'] by (auto simp: settles_def in_settlement_def moved_def)
qed

lemma run_stmt_state: "fst (snd (run_stmt m c)) = fst c \<or> fst (snd (run_stmt m c)) = snd (m (fst c))"
  using sql_exec_cases [of m c] by (auto simp: run_stmt_def split: prod.splits sum.splits)

lemma settlement_failed_rows:
  "bd_jobs (fst (snd (SetBatchImageJobSettlementFailed b code msg t c))) = bd_jobs (fst c) \<or>
   bd_jobs (fst (snd (SetBatchImageJobSettlementFailed b code msg t c))) =
     bd_jobs (snd (update_jobs (job_batch b) (failure_row code msg t) (fst c)))"
proof -
  let ?m = "\<lambda>db. case job_by_batch b db of None \<Rightarrow> (Inl ErrNoRows, db)
    | Some j \<Rightarrow> (Inr (bj_RetryCount j + 1), snd (update_jobs (job_batch b) (failure_row code msg t) db))"
  have ev: "bd_jobs (fst (snd (AppendBatchImageEvent b' ty p c'))) = bd_jobs (fst c')" for b' ty p c'
    using run_stmt_state [of "appendBatchImageEvent b' ty p" c'] by (auto simp: AppendBatchImageEvent_def)
  have then_state: "snd (and_then r f) = (case fst r of Inl e \<Rightarrow> snd r | Inr a \<Rightarrow> snd (f a (snd r)))" for r f
    by (simp add: and_then_def case_prod_unfold split: sum.split)
  have "bd_jobs (fst (snd (SetBatchImageJobSettlementFailed b code msg t c))) = bd_jobs (fst (snd (run_stmt ?m c)))"
    unfolding SetBatchImageJobSettlementFailed_def then_state by (simp add: ev split: sum.split)
  with run_stmt_state [of ?m c] show ?thesis by (auto split: option.splits)
qed

lemma settlement_failed_status:
  assumes "job_by_batch b (fst c) = Some j" "job_by_batch b (fst (snd (SetBatchImageJobSettlementFailed b code msg t c))) = Some j'"
  shows "bj_Status j' = bj_Status j"
proof -
  have "find (job_batch b) (map (\<lambda>j. if job_batch b j then f j else j) js) = map_option f (find (job_batch b) js)"
    if "\<And>j. job_batch b (f j) = job_batch b j" for f js
    using that by (induction js) auto
  then have "find (job_batch b) (bd_jobs (snd (update_jobs (job_batch b) (failure_row code msg t) (fst c)))) =
      Some (failure_row code msg t j)"
    using assms(1) by (simp add: update_jobs_def job_by_batch_find failure_row_def job_batch_def)
  with settlement_failed_rows [of b code msg t c] assms show ?thesis
    by (auto simp: job_by_batch_find failure_row_def)
qed

lemma with_db_world [simp]: "snd (with_db r w) = w\<lparr>w_db := snd r\<rparr>" "fst (with_db r w) = fst r"
  by (simp_all add: with_db_def)

lemma settlement_failed_settles:
  assumes "in_settlement job w"
  shows "settles job 0 w (w\<lparr>w_db := snd (SetBatchImageJobSettlementFailed (bj_BatchID job) code msg now (w_db w))\<rparr>)"
  by (rule in_settlement_db [OF assms, where F = "{}"])
     (use assms in \<open>auto simp: in_settlement_def dest: settlement_failed_status intro: settlement_failed_moves\<close>)

lemma transition_settles:
  assumes "in_settlement job w" "closed job (fst (w_ledger w))"
  shows "settles job 0 w (w\<lparr>w_db := snd (TransitionBatchImageJobStatus (bj_BatchID job) to' opts now (w_db w))\<rparr>)"
    "settles job 0 w (w\<lparr>w_db := snd (MarkBatchImageJobSettled p now (w_db w))\<rparr>)"
  by (rule in_settlement_db [OF assms(1), where F = "{}"], use assms in \<open>auto simp: in_settlement_def
        TransitionBatchImageJobStatus_def MarkBatchImageJobSettled_def intro!: run_stmt_moves moving_intros\<close>)+

lemma release_in_same_owner:
  assumes "same_owner job job'"
  shows "release_in env job' w = release_in env job w"
proof -
  have e: "bj_BatchID job' = bj_BatchID job" "bj_RequestHash job' = bj_RequestHash job" "job_hold_amount job' = job_hold_amount job"
    "bj_APIKeyID job' = bj_APIKeyID job" "bj_UserID job' = bj_UserID job"
    using assms by (simp_all add: same_owner_def job_hold_amount_def split: option.split)
  have "buildBatchImageHoldCommand job' rid a h = buildBatchImageHoldCommand job rid a h" for rid a h
    unfolding buildBatchImageHoldCommand_def e ..
  then show ?thesis unfolding release_in_def releaseBatchImageBalanceHold_def e by simp
qed

lemma release_in_closes:
  "in_settlement job w \<Longrightarrow> fst (release_in env job w) = NilErr \<Longrightarrow> closed job (fst (w_ledger (snd (release_in env job w))))"
  using release_closes [of job "w_ledger w" "se_fc env" "batchImageDerefString (bj_RequestHash job)"
      "snd (releaseBatchImageBalanceHold (se_fc env) job (batchImageDerefString (bj_RequestHash job)) (w_ledger w))"]
  by (auto simp: release_in_def Let_def in_settlement_def prod_eq_iff)

lemma failExhausted_settles:
  assumes s: "in_settlement job w" and o': "same_owner job job'"
  shows "settles job 0 w (snd (failExhaustedSettlement env now job' msg w))"
proof -
  obtain err w1 where r: "release_in env job w = (err, w1)" by (rule prod.exhaust)
  have s1: "settles job 0 w w1" using release_in_settles [OF s, of env] r by simp
  then have i1: "in_settlement job w1" by (simp add: settles_def)
  have b: "bj_BatchID job' = bj_BatchID job" using o' by (simp add: same_owner_def)
  show ?thesis
  proof (cases "err = NilErr")
    case True
    have "closed job (fst (w_ledger w1))" using release_in_closes [OF s, of env] r True by simp
    note t = transition_settles(1) [OF i1 this]
    show ?thesis
      using True r settles_then [OF s1 t]
      by (simp add: failExhaustedSettlement_def release_in_same_owner [OF o'] b Let_def case_prod_unfold split: sum.split)
  next
    case False
    show ?thesis
      using False r settles_then [OF s1 settlement_failed_settles [OF i1]]
      by (simp add: failExhaustedSettlement_def release_in_same_owner [OF o'] b)
  qed
qed

lemma fail_with_settles:
  assumes s: "in_settlement job w" and o': "same_owner job job'"
  shows "settles job 0 w (snd (fail_with env now job' code msg err w))"
proof -
  have b: "bj_BatchID job' = bj_BatchID job" using o' by (simp add: same_owner_def)
  let ?c = "SetBatchImageJobSettlementFailed (bj_BatchID job) code (truncateBatchImageMessage msg batchImageMaxErrorMessageLength) now (w_db w)"
  let ?w1 = "w\<lparr>w_db := snd ?c\<rparr>"
  have s1: "settles job 0 w ?w1" by (rule settlement_failed_settles [OF s])
  have o2: "same_owner job (job'\<lparr>bj_RetryCount := n, bj_LastErrorCode := e\<rparr>)" for n e
    using o' by (simp add: same_owner_def)
  have "settles job 0 ?w1 (snd (failExhaustedSettlement env now (job'\<lparr>bj_RetryCount := n, bj_LastErrorCode := e\<rparr>) msg ?w1))" for n e
    by (rule failExhausted_settles [OF _ o2]) (use s1 in \<open>simp add: settles_def\<close>)
  then have "settles job 0 w (snd (recordSettlementFailure env now job' code msg w))"
    using s1 by (auto simp: recordSettlementFailure_def b case_prod_unfold with_db_def split: sum.split intro: settles_then)
  then show ?thesis by (simp add: fail_with_def case_prod_unfold)
qed

definition within_hold :: "BatchImageJob \<Rightarrow> rat \<Rightarrow> bool" where
  "within_hold job x \<longleftrightarrow> x = 0 \<or> 0 \<le> x \<and> \<not> exceeds_hold x (job_hold_amount job)"

lemma within_hold_zero [simp]: "within_hold job 0"
  by (simp add: within_hold_def)

lemma settle_cost_charged:
  assumes "0 \<le> bj_SuccessCount job" "0 \<le> p"
  shows "charged (settle_cost job p) = settle_cost job p"
proof -
  have "0 \<le> settle_cost job p" using assms by (simp add: settle_cost_def round_to_scale_nonneg)
  moreover have "on_scale (settle_cost job p)" by (simp add: settle_cost_def on_scale_round_to_scale)
  ultimately show ?thesis by (simp add: charged_def round_to_scale_fixed)
qed

lemma settle_capture_settles:
  assumes s: "in_settlement job w" and c: "0 \<le> bj_SuccessCount job" "0 \<le> p"
  shows "\<exists>x. settles job x w (snd (settle_capture env now job res p w)) \<and> within_hold job x"
proof (cases "exceeds_hold (settle_cost job p) (job_hold_amount job)")
  case True
  then have "settles job 0 w (snd (settle_capture env now job res p w))"
    using fail_with_settles [OF s same_owner_refl] by (simp add: settle_capture_def Let_def)
  then show ?thesis using within_hold_zero by blast
next
  case False
  let ?cost = "settle_cost job p"
  obtain err l1 where r: "captureBatchImageBalanceHold (se_fc env) job ?cost (sr_ManifestHash res) (w_ledger w) = (err, l1)"
    by (rule prod.exhaust)
  have l: "linked job (fst (w_ledger w))" using s by (simp add: in_settlement_def)
  let ?w1 = "w\<lparr>w_ledger := l1\<rparr>"
  obtain x where x: "takes job x (fst (w_ledger w)) (fst l1)" "x = 0 \<or> x = charged ?cost"
    using capture_takes [OF l, of "se_fc env" ?cost "sr_ManifestHash res"] r by auto
  have ww: "within_hold job x"
    using x(2) False settle_cost_charged [OF c] charged_nonneg [of ?cost] unfolding within_hold_def by metis
  have i1: "in_settlement job ?w1"
    by (rule in_settlement_ledger [OF s]) (use x(1) in \<open>simp add: takes_def\<close>)
  then have s1: "settles job x w ?w1" using x(1) by (simp add: settles_def)
  show ?thesis
  proof (cases "err = NilErr")
    case True
    have "ended_by job OpCapture (fst l1)" using capture_ends [OF l r [unfolded True]] .
    then have cl: "closed job (fst (w_ledger ?w1))" by (simp add: closed_def)
    note t = settles_then [OF s1 transition_settles(2) [OF i1 cl]]
    have "settles job x w (snd (settle_capture env now job res p w))"
      using t False r True by (simp add: settle_capture_def Let_def case_prod_unfold split: sum.split)
    with ww show ?thesis by blast
  next
    case err: False
    note t = settles_then [OF s1 fail_with_settles [OF i1 same_owner_refl]]
    have "settles job x w (snd (settle_capture env now job res p w))"
      using t False r err by (simp add: settle_capture_def Let_def)
    with ww show ?thesis by blast
  qed
qed

lemma settle_job_settles:
  assumes s: "in_settlement job w"
  shows "\<exists>x. settles job x w (snd (settle_job env now job w)) \<and> within_hold job x"
proof -
  have same: "\<exists>x. settles job x w w \<and> within_hold job x" using settles_refl [OF s] within_hold_zero by blast
  have fail: "\<exists>x. settles job x w (snd (fail_with env now job code msg err w)) \<and> within_hold job x" for code msg err
    using fail_with_settles [OF s same_owner_refl] within_hold_zero by blast
  have "\<exists>x. settles job x w (snd (failExhaustedSettlement env now job msg w)) \<and> within_hold job x" for msg
    using failExhausted_settles [OF s same_owner_refl] within_hold_zero by blast
  then show ?thesis
    using same fail settle_capture_settles [OF s]
    by (auto simp: settle_job_def Let_def map_prod_def case_prod_unfold not_less split: sum.split)
qed

text \<open>Settlements of one batch, repeated and under faults, between other operations on the ledger.\<close>

datatype settle_event =
    SettleCall settle_env time
  | OtherBilling fingerprint_codec calendar billing_op

fun settle_step :: "string \<Rightarrow> settle_event \<Rightarrow> settle_world \<Rightarrow> settle_world" where
  "settle_step b (SettleCall env now) w = snd (Settle env now b w)"
| "settle_step b (OtherBilling fc cal op) w = w\<lparr>w_ledger := billing_step fc cal op (w_ledger w)\<rparr>"

fun settle_history :: "string \<Rightarrow> settle_event list \<Rightarrow> settle_world \<Rightarrow> settle_world" where
  "settle_history b [] w = w"
| "settle_history b (e # es) w = settle_history b es (settle_step b e w)"

lemma get_job_row:
  assumes "GetBatchImageJobByBatchID b c = (r, c')"
  shows "fst c' = fst c" "r = Inr j \<Longrightarrow> job_by_batch b (fst c) = Some j"
  using assms
  by (auto simp: GetBatchImageJobByBatchID_def get_job_def translated_def run_stmt_def sql_exec_def select_job_def job_by_batch_def
      split: prod.splits sum.splits option.splits list.splits fault.splits)

lemma settle_job_idle:
  "bj_Status job \<noteq> BatchImageJobStatusSettling \<Longrightarrow> snd (settle_job env now job w) = w"
  by (simp add: settle_job_def Let_def)

lemma settles_same_owner:
  assumes "same_owner job j"
  shows "settles j x w w' = settles job x w w'" "within_hold j x = within_hold job x" "in_settlement j w = in_settlement job w"
proof -
  have e: "bj_BatchID j = bj_BatchID job" "bj_APIKeyID j = bj_APIKeyID job" "bj_UserID j = bj_UserID job"
    "job_hold_amount j = job_hold_amount job"
    using assms by (simp_all add: same_owner_def job_hold_amount_def split: option.split)
  have en: "ended_by j = ended_by job" "closed j = closed job"
    by (simp_all add: fun_eq_iff ended_by_def closed_def e)
  have so: "same_owner j = same_owner job" using assms by (simp add: same_owner_def fun_eq_iff)
  show i: "in_settlement j w = in_settlement job w" for w
    by (simp add: in_settlement_def linked_same_owner [OF assms] e en so)
  show "settles j x w w' = settles job x w w'" "within_hold j x = within_hold job x"
    by (simp_all add: settles_def i takes_def e en within_hold_def)
qed

lemma Settle_settles:
  assumes s: "in_settlement job w"
  shows "\<exists>x. settles job x w (snd (Settle env now (bj_BatchID job) w)) \<and> within_hold job x"
proof -
  obtain r c1 where g: "GetBatchImageJobByBatchID (bj_BatchID job) (w_db w) = (r, c1)" by (rule prod.exhaust)
  let ?w1 = "w\<lparr>w_db := c1\<rparr>"
  have i1: "in_settlement job ?w1" using s get_job_row(1) [OF g] by (simp add: in_settlement_def)
  have s1: "settles job x ?w1 w' = settles job x w w'" for x w' by (simp add: settles_def)
  show ?thesis
  proof (cases r)
    case (Inl e)
    with g s1 [of 0 ?w1] settles_refl [OF i1] show ?thesis
      by (intro exI [of _ 0]) (simp add: Settle_def with_db_def)
  next
    case (Inr j)
    have "job_by_batch (bj_BatchID job) (fst (w_db w)) = Some j" by (rule get_job_row(2) [OF g Inr])
    then have o': "same_owner job j" using s by (auto simp: in_settlement_def)
    have "\<exists>x. settles j x ?w1 (snd (settle_job env now j ?w1)) \<and> within_hold j x"
      by (rule settle_job_settles) (simp add: settles_same_owner [OF o'] i1)
    with g Inr s1 show ?thesis by (simp add: Settle_def with_db_def settles_same_owner [OF o'])
  qed
qed

lemma settle_step_ok:
  assumes "in_settlement job w"
  shows "in_settlement job (settle_step (bj_BatchID job) e w)"
    "ledger_le (fst (w_ledger w)) (fst (w_ledger (settle_step (bj_BatchID job) e w)))"
proof -
  have "in_settlement job (settle_step (bj_BatchID job) e w) \<and>
    ledger_le (fst (w_ledger w)) (fst (w_ledger (settle_step (bj_BatchID job) e w)))"
  proof (cases e)
    case (SettleCall env now)
    then show ?thesis using Settle_settles [OF assms, of env now] by (auto simp: settles_def takes_def)
  next
    case (OtherBilling fc cal op)
    then show ?thesis
      using in_settlement_ledger [OF assms, of "billing_step fc cal op (w_ledger w)"] billing_step_le [of "w_ledger w" fc cal op]
      by simp
  qed
  then show "in_settlement job (settle_step (bj_BatchID job) e w)"
    "ledger_le (fst (w_ledger w)) (fst (w_ledger (settle_step (bj_BatchID job) e w)))" by simp_all
qed

lemma settle_history_ok:
  "in_settlement job w \<Longrightarrow> in_settlement job (settle_history (bj_BatchID job) es w)"
  by (induction es arbitrary: w) (simp_all add: settle_step_ok)

text \<open>Where a settlement starts: the row of the batch is settling, and the ledger reads this row.\<close>

definition settling_job :: "BatchImageJob \<Rightarrow> settle_world \<Rightarrow> bool" where
  "settling_job job w \<longleftrightarrow>
     unique_batches (fst (w_db w)) \<and> job_by_batch (bj_BatchID job) (fst (w_db w)) = Some job \<and>
     bj_Status job = BatchImageJobStatusSettling \<and> linked job (fst (w_ledger w))"

lemma settling_in_settlement: "settling_job job w \<Longrightarrow> in_settlement job w"
  by (simp add: settling_job_def in_settlement_def)

lemma honest_le: "ledger_le l l' \<Longrightarrow> honest fc l' op = honest fc l op"
  by (cases op) (simp_all add: matches_job_def ledger_le_def)

lemma settle_call_backed:
  assumes "in_settlement job w" "frozen_backed base (fst (w_ledger w))"
  shows "frozen_backed base (fst (w_ledger (snd (Settle env now (bj_BatchID job) w))))"
  using Settle_settles [OF assms(1), of env now] assms(2) by (auto simp: settles_def takes_def)

text \<open>a job that settlement ends holds nothing: whenever the status of the batch has left
  \<open>settling\<close>, whether it completed or was failed after its retries, the hold of the batch has ended (by a
  capture, by a release or by the recovery of expired holds), through every sequence of settlements with
  any prices, any faults of the database and the ledger, and any other billing operations in between.\<close>

theorem settled_job_holds_nothing:
  assumes "settling_job job w"
    and "job_by_batch (bj_BatchID job) (fst (w_db (settle_history (bj_BatchID job) es w))) = Some j"
    and "bj_Status j \<noteq> BatchImageJobStatusSettling"
  shows "\<not> open_hold (fst (w_ledger (settle_history (bj_BatchID job) es w))) (bj_BatchID job)"
  using settle_history_ok [OF settling_in_settlement [OF assms(1)], of es] assms(2,3) closed_not_open
  by (auto simp: in_settlement_def)

text \<open>C29: repeated settlements of a batch charge its user at most once, at most what was held (up to the
  tolerance of the hold check) and nobody else, with any prices and any faults of the database and the ledger.\<close>

theorem settlement_charges_once:
  assumes "settling_job job w" "\<forall>e \<in> set es. \<exists>env now. e = SettleCall env now"
  shows "\<exists>x. within_hold job x \<and>
           (\<forall>u. money (fst (w_ledger (settle_history (bj_BatchID job) es w))) u =
                money (fst (w_ledger w)) u - (if u = bj_UserID job then x else 0))"
proof -
  have "\<exists>x. takes job x (fst (w_ledger w)) (fst (w_ledger (settle_history (bj_BatchID job) es w))) \<and> within_hold job x"
    if "in_settlement job w" for w
    using that assms(2)
  proof (induction es arbitrary: w)
    case (Cons e es)
    then obtain env now where e: "e = SettleCall env now" by auto
    obtain x where x: "settles job x w (settle_step (bj_BatchID job) e w)" "within_hold job x"
      using Settle_settles [OF Cons.prems(1), of env now] e by auto
    then obtain y where y: "takes job y (fst (w_ledger (settle_step (bj_BatchID job) e w)))
        (fst (w_ledger (settle_history (bj_BatchID job) (e # es) w)))" "within_hold job y"
      using Cons.IH [of "settle_step (bj_BatchID job) e w"] Cons.prems(2) by (auto simp: settles_def)
    have "takes job (x + y) (fst (w_ledger w)) (fst (w_ledger (settle_history (bj_BatchID job) (e # es) w))) \<and> (x = 0 \<or> y = 0)"
      using x(1) y(1) by (auto simp: settles_def takes_def intro: ledger_le_trans ended_by_mono)
    then show ?case using x(2) y(2) by (metis add_0 add.right_neutral)
  next
    case Nil
    show ?case by (intro exI [of _ 0]) simp
  qed
  from this [OF settling_in_settlement [OF assms(1)]] show ?thesis by (auto simp: takes_def)
qed

text \<open>Settlement keeps the frozen balances backed: together with any other honest billing
  operations, the frozen balance of every user remains the sum of the open holds, whatever fails.\<close>

theorem settlement_keeps_holds_backed:
  assumes "settling_job job w" "frozen_backed base (fst (w_ledger w))"
    and "\<forall>fc cal op. OtherBilling fc cal op \<in> set es \<longrightarrow> honest fc (fst (w_ledger w)) op"
  shows "frozen_backed base (fst (w_ledger (settle_history (bj_BatchID job) es w)))"
  using settling_in_settlement [OF assms(1)] assms(2,3)
proof (induction es arbitrary: w)
  case (Cons e es)
  have "frozen_backed base (fst (w_ledger (settle_step (bj_BatchID job) e w)))"
  proof (cases e)
    case (SettleCall env now)
    then show ?thesis using settle_call_backed [OF Cons.prems(1,2)] by simp
  next
    case (OtherBilling fc cal op)
    then show ?thesis using billing_step_backed [OF Cons.prems(2), of fc op cal] Cons.prems(3) by simp
  qed
  moreover have "honest fc (fst (w_ledger (settle_step (bj_BatchID job) e w))) op = honest fc (fst (w_ledger w)) op" for fc op
    by (rule honest_le [OF settle_step_ok(2) [OF Cons.prems(1)]])
  ultimately show ?case using Cons.IH [of "settle_step (bj_BatchID job) e w"] settle_step_ok(1) [OF Cons.prems(1)] Cons.prems(3) by simp
qed simp

section \<open>One batch, settled\<close>

definition demo_env :: settle_env where
  "demo_env = \<lparr>se_fc = demo_fc, se_price = (\<lambda>_. Inr 0), se_error_text = (\<lambda>_. ''e''), se_fmt10 = (\<lambda>_. ''x''),
     se_json_float = (\<lambda>_. ''x''), se_retention_hours = 0\<rparr>"

definition demo_settling_job :: BatchImageJob where
  "demo_settling_job = (job_of_params demo_job_params 1 0)\<lparr>bj_Status := BatchImageJobStatusSettling, bj_SuccessCount := 2\<rparr>"

definition demo_world :: settle_world where
  "demo_world =
     \<lparr>w_ledger = (held_ledger\<lparr>jobs := [''imgbatch_1'' \<mapsto> job_view demo_settling_job 7],
         claims := [(BatchImageHoldRequestID ''imgbatch_1'', 7) \<mapsto> \<lparr>c_fingerprint = ''f'', c_created = 0\<rparr>]\<rparr>, []),
      w_db = ((demo_batch_db [])\<lparr>bd_jobs := [demo_settling_job]\<rparr>, []),
      w_queue = (empty_queue, [])\<rparr>"

lemma demo_settled:
  "map_option bj_Status (job_by_batch ''imgbatch_1''
     (fst (w_db (settle_history ''imgbatch_1'' [SettleCall demo_env 0] demo_world)))) = Some BatchImageJobStatusCompleted"
  by code_simp

lemma demo_settling: "settling_job demo_settling_job demo_world"
proof -
  have "trim_space ''imgbatch_1'' = ''imgbatch_1''" by code_simp
  then show ?thesis
    by (simp add: settling_job_def demo_world_def demo_settling_job_def demo_batch_db_def unique_batches_def job_by_batch_def
        linked_def job_of_params_def demo_job_params_def job_hold_amount_def job_view_def)
qed

lemma demo_settling_id: "bj_BatchID demo_settling_job = ''imgbatch_1''"
  by (simp add: demo_settling_job_def job_of_params_def demo_job_params_def)

theorem settled_job_holds_nothing_witness:
  "\<not> open_hold (fst (w_ledger (settle_history ''imgbatch_1'' [SettleCall demo_env 0] demo_world))) ''imgbatch_1''"
proof -
  define w' where "w' = settle_history ''imgbatch_1'' [SettleCall demo_env 0] demo_world"
  obtain j where j: "job_by_batch ''imgbatch_1'' (fst (w_db w')) = Some j" "bj_Status j = BatchImageJobStatusCompleted"
    using demo_settled unfolding w'_def [symmetric] by (cases "job_by_batch ''imgbatch_1'' (fst (w_db w'))") auto
  have "bj_Status j \<noteq> BatchImageJobStatusSettling"
    by (simp add: j(2) BatchImageJobStatusCompleted_def BatchImageJobStatusSettling_def)
  with settled_job_holds_nothing [OF demo_settling, of "[SettleCall demo_env 0]" j] j(1) show ?thesis
    unfolding w'_def demo_settling_id by blast
qed

theorem settlement_charges_once_witness:
  "\<exists>x. within_hold demo_settling_job x \<and>
     money (fst (w_ledger (settle_history ''imgbatch_1'' [SettleCall demo_env 0, SettleCall demo_env 1] demo_world))) 1 =
       money (fst (w_ledger demo_world)) 1 - x"
proof -
  have "bj_UserID demo_settling_job = 1"
    by (simp add: demo_settling_job_def job_of_params_def demo_job_params_def)
  then show ?thesis
    using settlement_charges_once [OF demo_settling, of "[SettleCall demo_env 0, SettleCall demo_env 1]"]
    unfolding demo_settling_id by auto
qed

lemma demo_world_backed: "frozen_backed (\<lambda>_. 0) (fst (w_ledger demo_world))"
proof -
  let ?l = "fst (w_ledger demo_world)"
  have t: "trim_space ''imgbatch_1'' = ''imgbatch_1''" by code_simp
  have h: "job_hold (job_view demo_settling_job 7) = 4"
    by (simp add: job_hold_view job_hold_amount_def demo_settling_job_def job_of_params_def demo_job_params_def round_to_scale_fixed)
  have u: "j_user (job_view demo_settling_job 7) = 1" "j_key (job_view demo_settling_job 7) = 7"
    by (simp_all add: job_view_def demo_settling_job_def job_of_params_def demo_job_params_def)
  have jb: "jobs ?l = [''imgbatch_1'' \<mapsto> job_view demo_settling_job 7]" by (simp add: demo_world_def)
  have "open_hold ?l b = (b = ''imgbatch_1'')" for b
    using h u by (auto simp: open_hold_def jb)
      (simp_all add: demo_world_def batchImageHoldClaimExists_def held_ledger_def demo_ledger_def
        BatchImageHoldRequestID_def BatchImageCaptureRequestID_def BatchImageReleaseRequestID_def t)
  then have "open_holds ?l x = (if x = 1 then 4 else 0)" for x
    using h u by (auto simp: open_holds_def jb cong: conj_cong)
  moreover have "frozen_balance ?l x = (if x = 1 then 4 else 0)" for x
    by (simp add: frozen_balance_def demo_world_def held_ledger_def frozen_of_def)
  moreover have "jobs_ok ?l" by (simp add: jobs_ok_def jb t)
  ultimately show ?thesis by (simp add: frozen_backed_def)
qed

theorem settlement_keeps_holds_backed_witness:
  "frozen_backed (\<lambda>_. 0) (fst (w_ledger (settle_history ''imgbatch_1'' [SettleCall demo_env 0, SettleCall demo_env 1] demo_world)))"
  using settlement_keeps_holds_backed [OF demo_settling demo_world_backed, of "[SettleCall demo_env 0, SettleCall demo_env 1]"]
  unfolding demo_settling_id by simp

end
