(* ===== verification/BatchImageIndexLaws.thy ===== *)
theory BatchImageIndexLaws
  imports BatchImageIndex BatchImageSettlementLaws
begin

text \<open>
  What indexing promises to settlement: the new items of a job are the submitted ones, each once, and the
  counts of the job are the counts of its items.
\<close>

section \<open>Reading the output\<close>

definition succeeded_items :: "CreateBatchImageItemParams list \<Rightarrow> nat" where
  "succeeded_items ps = length [p \<leftarrow> ps. ci_Status p = BatchImageItemStatusSuccess]"

definition counts_of :: "CreateBatchImageItemParams list \<Rightarrow> BatchImageIndexResult \<Rightarrow> bool" where
  "counts_of ps r \<longleftrightarrow>
     ir_SuccessCount r = int (succeeded_items ps) \<and> ir_FailCount r = int (length ps) - int (succeeded_items ps) \<and>
     ir_TotalCount r = int (length ps) \<and>
     (\<forall>p \<in> set ps. ci_Status p = BatchImageItemStatusSuccess \<or> ci_Status p = BatchImageItemStatusFailed)"

definition index_ok :: "string \<Rightarrow> string list \<Rightarrow> index_state \<Rightarrow> bool" where
  "index_ok b expected st \<longleftrightarrow>
     map ci_CustomID (ix_items st) = rev (map fst (ix_seen st)) \<and> distinct (map fst (ix_seen st)) \<and>
     (expected \<noteq> [] \<longrightarrow> set (map fst (ix_seen st)) \<subseteq> set expected) \<and> counts_of (ix_items st) (ix_result st) \<and>
     (\<forall>p \<in> set (ix_items st). ci_JobID p = b)"

lemma item_of_line_fields [simp]:
  "ci_CustomID (item_of_line b src now parsed) = pr_CustomID parsed" "ci_JobID (item_of_line b src now parsed) = b"
  "ci_Status (item_of_line b src now parsed) =
     (if pr_Status parsed = BatchImageParsedStatusSucceeded then BatchImageItemStatusSuccess else BatchImageItemStatusFailed)"
  by (simp_all add: item_of_line_def indexed_item_def Let_def)

lemma missing_item_fields [simp]:
  "ci_CustomID (missing_item b src now i) = i" "ci_JobID (missing_item b src now i) = b"
  "ci_Status (missing_item b src now i) = BatchImageItemStatusFailed"
  by (simp_all add: missing_item_def indexed_item_def)

lemma item_statuses_differ [simp]: "BatchImageItemStatusFailed \<noteq> BatchImageItemStatusSuccess"
  by (simp add: BatchImageItemStatusFailed_def BatchImageItemStatusSuccess_def)

lemma start_index_ok: "index_ok b expected start_index"
  by (simp add: index_ok_def start_index_def counts_of_def succeeded_items_def)

lemma index_lines_ok:
  assumes "index_lines unmarshal expected b src now n raws st = Inr st'" "index_ok b expected st"
  shows "index_ok b expected st'"
  using assms
proof (induction raws arbitrary: n st)
  case (Cons raw raws)
  have seen: "index_ok b expected (add_line b src now (n + 1) parsed st)"
    if "map_of (ix_seen st) (pr_CustomID parsed) = None" "expected \<noteq> [] \<longrightarrow> pr_CustomID parsed \<in> set expected" for parsed
    using that Cons.prems(2)
    by (auto simp: index_ok_def add_line_def counts_of_def succeeded_items_def count_success_def count_failure_item_def map_of_eq_None_iff)
  have unknown: "index_ok b expected (st\<lparr>ix_unknown := ix_unknown st + 1\<rparr>)"
    using Cons.prems(2) by (simp add: index_ok_def)
  show ?case
    using Cons.prems(1) Cons.IH [OF _ Cons.prems(2)] Cons.IH [OF _ unknown] Cons.IH [OF _ seen]
    by (auto simp: Let_def split: sum.splits if_splits option.splits)
qed simp

definition covers :: "string list \<Rightarrow> CreateBatchImageItemParams list \<Rightarrow> bool" where
  "covers expected ps \<longleftrightarrow> distinct (map ci_CustomID ps) \<and> (expected \<noteq> [] \<longrightarrow> set (map ci_CustomID ps) = set expected)"

lemma index_output_ok:
  assumes "index_output unmarshal expected job now stream = Inr (st, m)" "distinct expected"
  shows "covers expected (ix_items st) \<and> counts_of (ix_items st) (ix_result st) \<and>
    (\<forall>p \<in> set (ix_items st). ci_JobID p = bj_BatchID job) \<and> ix_items st \<noteq> []"
proof -
  obtain ls tooLong st0 where r: "index_lines unmarshal expected (bj_BatchID job) (source_object job) now 0 ls start_index = Inr st0"
    "st = with_missing expected (bj_BatchID job) (source_object job) now st0" "ir_TotalCount (ix_result st) \<noteq> 0"
    using assms(1) by (auto simp: index_output_def Let_def split: prod.splits sum.splits option.splits if_splits)
  have ok: "index_ok (bj_BatchID job) expected st0" by (rule index_lines_ok [OF r(1) start_index_ok])
  let ?ids = "missing_ids expected st0"
  have ids: "set ?ids = {i \<in> set expected. i \<notin> set (map fst (ix_seen st0))}" "distinct ?ids"
    using assms(2) by (auto simp: missing_ids_def map_of_eq_None_iff)
  have items: "ix_items st = ix_items st0 @ map (missing_item (bj_BatchID job) (source_object job) now) ?ids"
    by (simp add: r(2) with_missing_def Let_def)
  have names: "map ci_CustomID (ix_items st) = rev (map fst (ix_seen st0)) @ ?ids"
    using ok by (simp add: items index_ok_def comp_def)
  have "covers expected (ix_items st)"
    unfolding covers_def names using ok ids by (auto simp: index_ok_def)
  moreover have "counts_of (ix_items st) (ix_result st)"
    using ok by (auto simp: index_ok_def counts_of_def succeeded_items_def items r(2) with_missing_def Let_def)
  moreover have "\<forall>p \<in> set (ix_items st). ci_JobID p = bj_BatchID job" using ok by (auto simp: items index_ok_def)
  ultimately show ?thesis using r(3) by (auto simp: counts_of_def)
qed

section \<open>The tables before and after\<close>

definition items_of :: "string \<Rightarrow> batch_db \<Rightarrow> BatchImageItem list" where
  "items_of b db = [i \<leftarrow> bd_items db. bi_JobID i = b]"

lemma expected_ids_spec:
  assumes "expected_ids b n ids c = (Inr e, c')" "distinct ids"
    and "set ids = bi_CustomID ` set (take n (items_of b (fst c)))"
  shows "fst c' = fst c \<and> distinct e \<and> set e = bi_CustomID ` set (items_of b (fst c))"
  using assms
proof (induction b n ids c rule: expected_ids.induct)
  case (1 b n ids c)
  obtain r c1 where l: "ListBatchImageItems b \<lparr>if_Status = [], if_Limit = int pageSize, if_Offset = int n\<rparr> c = (r, c1)"
    by (rule prod.exhaust)
  show ?case
  proof (cases r)
    case (Inl x)
    then show ?thesis using "1.prems"(1) l by (simp add: expected_ids.simps [of b n])
  next
    case (Inr page)
    then have p: "page = take 500 (drop n (items_of b (fst c)))" "fst c1 = fst c"
      using list_items_page [of b n c page c1] l by (simp_all add: pageSize_def items_of_def)
    let ?ids = "fold List.insert (map bi_CustomID page) ids"
    have take: "take (n + length page) (items_of b (fst c)) = take n (items_of b (fst c)) @ page"
      unfolding take_add p(1) by (simp add: min_def)
    have fi: "distinct (fold List.insert xs ys) = distinct ys" "set (fold List.insert xs ys) = set xs \<union> set ys" for xs ys :: "string list"
      by (induction xs arbitrary: ys) auto
    have s: "set ?ids = bi_CustomID ` set (take (n + length page) (items_of b (fst c)))" "distinct ?ids"
      using "1.prems"(2,3) by (auto simp: take fi)
    show ?thesis
    proof (cases "length page < pageSize")
      case True
      then have "take (n + length page) (items_of b (fst c)) = items_of b (fst c)"
        unfolding p(1) by (simp add: pageSize_def min_def split: if_splits)
      with True "1.prems"(1) l Inr s p(2) show ?thesis by (simp add: expected_ids.simps [of b n] Let_def)
    next
      case False
      have "expected_ids b (n + length page) ?ids c1 = (Inr e, c')"
        using False "1.prems"(1) l Inr by (simp add: expected_ids.simps [of b n] Let_def)
      from "1.IH" [OF l [symmetric] Inr refl False this] s p(2) show ?thesis by simp
    qed
  qed
qed

lemma insert_items_items:
  "insert_items ps db = (Inr (), db') \<Longrightarrow>
     \<exists>is. bd_items db' = bd_items db @ is \<and> bd_jobs db' = bd_jobs db \<and>
       map bi_CustomID is = map ci_CustomID ps \<and> map bi_Status is = map ci_Status ps \<and> map bi_JobID is = map ci_JobID ps"
proof (induction ps arbitrary: db)
  case (Cons p ps)
  obtain r db1 where c: "createBatchImageItemWithSQL p db = (r, db1)" by (rule prod.exhaust)
  with Cons.prems obtain i where r: "r = Inr i" "insert_items ps db1 = (Inr (), db')"
    by (cases r) (auto simp: and_then_def translated_def)
  have i: "bd_items db1 = bd_items db @ [item_of_params p (bd_next_item db) (bd_now db)]" "bd_jobs db1 = bd_jobs db"
    using c r(1) by (auto simp: createBatchImageItemWithSQL_def Let_def split: if_splits)
  obtain is' where n: "bd_items db' = bd_items db1 @ is'" "bd_jobs db' = bd_jobs db1" "map bi_CustomID is' = map ci_CustomID ps"
    "map bi_Status is' = map ci_Status ps" "map bi_JobID is' = map ci_JobID ps"
    using Cons.IH [OF r(2)] by blast
  show ?case
    by (rule exI [of _ "item_of_params p (bd_next_item db) (bd_now db) # is'"])
       (use n i in \<open>simp add: item_of_params_def\<close>)
qed simp

lemma run_stmt_acked: "run_stmt m c = (Inr a, c') \<Longrightarrow> m (fst c) = (Inr a, fst c')"
  by (auto simp: run_stmt_def sql_exec_def prod_eq_iff split: prod.splits list.splits fault.splits sum.splits)

lemma replace_items:
  assumes "ReplaceBatchImageItemsForJob b ps counts now c = (Inr (), c')" "\<forall>p \<in> set ps. ci_JobID p = b"
  shows "(\<exists>is. items_of b (fst c') = is \<and> map bi_CustomID is = map ci_CustomID ps \<and> map bi_Status is = map ci_Status ps) \<and>
    (\<exists>j. job_by_batch b (fst c) = Some j \<and> bj_Status j = BatchImageJobStatusIndexing \<and>
       job_by_batch b (fst c') = Some (j\<lparr>bj_SuccessCount := bc_SuccessCount counts, bj_FailCount := bc_FailCount counts, bj_UpdatedAt := now\<rparr>))"
proof -
  let ?db = "fst c" and ?db' = "fst c'"
  let ?f = "\<lambda>j. j\<lparr>bj_SuccessCount := bc_SuccessCount counts, bj_FailCount := bc_FailCount counts, bj_UpdatedAt := now\<rparr>"
  let ?ps = "map (with_preview b (batchImageItemPromptPreviews b ?db)) ps"
  let ?db1 = "?db\<lparr>bd_items := filter (\<lambda>i. bi_JobID i \<noteq> b) (bd_items ?db)\<rparr>"
  have "atomically (replaceBatchImageItemsForJobWithSQL b ps counts now) ?db = (Inr (), ?db')"
    using assms(1) unfolding ReplaceBatchImageItemsForJob_def by (rule run_stmt_acked)
  then have r: "replaceBatchImageItemsForJobWithSQL b ps counts now ?db = (Inr (), ?db')"
    by (auto simp: atomically_def split: prod.splits sum.splits)
  obtain j where j: "find (job_batch b) (bd_jobs ?db) = Some j" "bj_Status j = BatchImageJobStatusIndexing"
    and ins: "and_then (insert_items ?ps ?db1) (\<lambda>_ db. and_then (update_jobs (job_batch b) ?f db) (\<lambda>_ db. (Inr (), db))) = (Inr (), ?db')"
    using r
    by (auto simp: replaceBatchImageItemsForJobWithSQL_def and_then_def [of "locked_job b ?db"] locked_job_Inr Let_def
        split: prod.splits sum.splits if_splits)
  obtain db2 where i: "insert_items ?ps ?db1 = (Inr (), db2)" and u: "?db' = snd (update_jobs (job_batch b) ?f db2)"
    using ins by (auto simp: and_then_def update_jobs_def split: prod.splits sum.splits)
  obtain is' where n: "bd_items db2 = bd_items ?db1 @ is'" "bd_jobs db2 = bd_jobs ?db1"
    "map bi_CustomID is' = map ci_CustomID ?ps" "map bi_Status is' = map ci_Status ?ps" "map bi_JobID is' = map ci_JobID ?ps"
    using insert_items_items [OF i] by blast
  have wp: "ci_CustomID (with_preview b q p) = ci_CustomID p" "ci_Status (with_preview b q p) = ci_Status p"
    "ci_JobID (with_preview b q p) = b" for q p
    by (simp_all add: with_preview_def Let_def)
  have all_b: "\<forall>i \<in> set is'. bi_JobID i = b"
    using n(5) by (metis (no_types, lifting) in_set_conv_nth length_map nth_map wp(3))
  have "items_of b ?db' = is'"
    using all_b by (simp add: items_of_def u update_jobs_def n(1) filter_id_conv)
  moreover have "map bi_CustomID is' = map ci_CustomID ps" "map bi_Status is' = map ci_Status ps"
    using n(3,4) by (simp_all add: wp comp_def)
  moreover have "find (job_batch b) (map (\<lambda>j. if job_batch b j then ?f j else j) js) = map_option ?f (find (job_batch b) js)" for js
    by (induction js) (auto simp: job_batch_def)
  then have "job_by_batch b ?db' = Some (?f j)"
    using j(1) by (simp add: job_by_batch_find u update_jobs_def n(2))
  ultimately show ?thesis using j by (simp add: job_by_batch_find)
qed

lemma event_state:
  "bd_items (fst (snd (AppendBatchImageEvent b ty p c))) = bd_items (fst c)"
  "bd_jobs (fst (snd (AppendBatchImageEvent b ty p c))) = bd_jobs (fst c)"
  using run_stmt_state [of "appendBatchImageEvent b ty p" c]
  by (auto simp: AppendBatchImageEvent_def appendBatchImageEvent_def)

definition items_with :: "string \<Rightarrow> string \<Rightarrow> batch_db \<Rightarrow> nat" where
  "items_with status b db = length [i \<leftarrow> items_of b db. bi_Status i = status]"

lemma same_statuses: "map f xs = map g ys \<Longrightarrow> length [x \<leftarrow> xs. f x = s] = length [y \<leftarrow> ys. g y = s]"
proof -
  assume "map f xs = map g ys"
  then have "length (filter (\<lambda>v. v = s) (map f xs)) = length (filter (\<lambda>v. v = s) (map g ys))" by simp
  then show ?thesis by (simp add: filter_map comp_def)
qed

lemma Index_acked:
  assumes "Index unmarshal openResult job now c = (Inr r, c')"
  obtains expected st m stream c2 where
    "distinct expected" "set expected = bi_CustomID ` set (items_of (bj_BatchID job) (fst c))"
    "index_output unmarshal expected job now stream = Inr (st, m)" "r = ix_result st" "bd_jobs (fst c2) = bd_jobs (fst c)"
    "ReplaceBatchImageItemsForJob (bj_BatchID job) (ix_items st)
       \<lparr>bc_SuccessCount = ir_SuccessCount r, bc_FailCount = ir_FailCount r\<rparr> now c2 = (Inr (), c')"
proof -
  obtain x c1 where x: "listExpectedCustomIDs (bj_BatchID job) c = (x, c1)" by (rule prod.exhaust)
  obtain expected stream st m where e: "x = Inr expected" "openResult job = Inr stream"
    "index_output unmarshal expected job now stream = Inr (st, m)"
    using assms x by (auto simp: Index_def split: sum.splits prod.splits)
  have spec: "fst c1 = fst c \<and> distinct expected \<and> set expected = bi_CustomID ` set (items_of (bj_BatchID job) (fst c))"
    by (rule expected_ids_spec [where n = 0 and ids = "[]"]) (use x e(1) in \<open>simp_all add: listExpectedCustomIDs_def\<close>)
  define c2 where "c2 = (if ix_unknown st > 0 \<or> m > 0
      then snd (AppendBatchImageEvent (bj_BatchID job) ''index_reconciled'' (reconciled_event (bj_BatchID job) st m) c1) else c1)"
  obtain y c3 where y: "ReplaceBatchImageItemsForJob (bj_BatchID job) (ix_items st)
       \<lparr>bc_SuccessCount = ir_SuccessCount (ix_result st), bc_FailCount = ir_FailCount (ix_result st)\<rparr> now c2 = (y, c3)"
    by (rule prod.exhaust)
  have "y = Inr () \<and> c3 = c' \<and> r = ix_result st"
    using assms y unfolding Index_def x e prod.case sum.case Let_def c2_def [symmetric] y by (cases y) auto
  moreover have "bd_jobs (fst c2) = bd_jobs (fst c)" using spec by (simp add: c2_def event_state)
  ultimately show thesis using that spec e(3) y by blast
qed

text \<open>C30: indexing accounts for every submitted item. When it succeeds, the items of the job are the
  submitted ones, each once, whatever lines the provider left out, repeated under other ids or added; every
  item has succeeded or failed; and the counts of the job, on which settlement bases its price, are the
  numbers of those items and add up to the number of submitted items.\<close>

theorem index_accounts_for_every_item:
  assumes "Index unmarshal openResult job now c = (Inr r, c')" "items_of (bj_BatchID job) (fst c) \<noteq> []"
  shows "\<exists>j. job_by_batch (bj_BatchID job) (fst c') = Some j \<and>
     distinct (map bi_CustomID (items_of (bj_BatchID job) (fst c'))) \<and>
     bi_CustomID ` set (items_of (bj_BatchID job) (fst c')) = bi_CustomID ` set (items_of (bj_BatchID job) (fst c)) \<and>
     bj_SuccessCount j = int (items_with BatchImageItemStatusSuccess (bj_BatchID job) (fst c')) \<and>
     bj_FailCount j = int (items_with BatchImageItemStatusFailed (bj_BatchID job) (fst c')) \<and>
     bj_SuccessCount j + bj_FailCount j = int (card (bi_CustomID ` set (items_of (bj_BatchID job) (fst c))))"
proof -
  let ?b = "bj_BatchID job"
  obtain expected st m stream c2 where e: "distinct expected" "set expected = bi_CustomID ` set (items_of ?b (fst c))"
    "index_output unmarshal expected job now stream = Inr (st, m)" "r = ix_result st"
    "ReplaceBatchImageItemsForJob ?b (ix_items st)
       \<lparr>bc_SuccessCount = ir_SuccessCount r, bc_FailCount = ir_FailCount r\<rparr> now c2 = (Inr (), c')"
    using assms(1) by (rule Index_acked)
  have o': "covers expected (ix_items st)" "counts_of (ix_items st) r" "\<forall>p \<in> set (ix_items st). ci_JobID p = ?b"
    using index_output_ok [OF e(3,1)] e(4) by simp_all
  have ne: "expected \<noteq> []" using e(2) assms(2) by auto
  obtain j where j: "map bi_CustomID (items_of ?b (fst c')) = map ci_CustomID (ix_items st)"
    "map bi_Status (items_of ?b (fst c')) = map ci_Status (ix_items st)" "job_by_batch ?b (fst c') = Some j"
    "bj_SuccessCount j = ir_SuccessCount r" "bj_FailCount j = ir_FailCount r"
    using replace_items [OF e(5) o'(3)] by auto
  have ids: "distinct (map bi_CustomID (items_of ?b (fst c')))"
    "set (map bi_CustomID (items_of ?b (fst c'))) = set expected"
    using o'(1) ne unfolding j(1) covers_def by blast+
  have len: "length (ix_items st) = card (set expected)"
    using o'(1) ne distinct_card [of "map ci_CustomID (ix_items st)"] by (simp add: covers_def)
  have "filter (\<lambda>p. ci_Status p = BatchImageItemStatusFailed) (ix_items st) =
      filter (\<lambda>p. \<not> ci_Status p = BatchImageItemStatusSuccess) (ix_items st)"
    using o'(2) item_statuses_differ item_statuses_differ [symmetric] by (intro filter_cong) (auto simp: counts_of_def)
  then have sum: "length (filter (\<lambda>p. ci_Status p = BatchImageItemStatusFailed) (ix_items st)) + succeeded_items (ix_items st) =
      length (ix_items st)"
    using sum_length_filter_compl [of "\<lambda>p. ci_Status p = BatchImageItemStatusSuccess" "ix_items st"]
    by (simp add: succeeded_items_def)
  have n: "items_with s ?b (fst c') = length (filter (\<lambda>p. ci_Status p = s) (ix_items st))" for s
    unfolding items_with_def by (rule same_statuses [OF j(2)])
  have succ: "bj_SuccessCount j = int (items_with BatchImageItemStatusSuccess ?b (fst c'))"
    using o'(2) j(4) by (simp add: n counts_of_def succeeded_items_def)
  have fail: "bj_FailCount j = int (items_with BatchImageItemStatusFailed ?b (fst c'))"
    using o'(2) j(5) sum by (simp add: n counts_of_def)
  have "bj_SuccessCount j + bj_FailCount j = int (card (set expected))"
    using o'(2) j(4,5) len by (simp add: counts_of_def)
  then show ?thesis using j(3) ids succ fail e(2) by simp
qed

definition demo_unmarshal :: "string \<Rightarrow> go_error + json_object" where
  "demo_unmarshal line =
     (let part = JObject [(''inlineData'', JObject [(''data'', JString ''x''), (''mimeType'', JString ''image/png'')])];
          image = JArray [JObject [(''content'', JObject [(''parts'', JArray [part])])]]
      in Inr (if line = ''1'' then [(''key'', JString ''a''), (''candidates'', image)]
              else [(''custom_id'', JString ''z''), (''error'', JObject [])]))"

definition demo_index_db :: batch_db where
  "demo_index_db = (demo_batch_db BatchImageJobStatusIndexing)
     \<lparr>bd_items := map (\<lambda>p. item_of_params p 1 0) [indexed_item ''imgbatch_1'' ''a'' [] 0, indexed_item ''imgbatch_1'' ''b'' [] 0]\<rparr>"

definition demo_index_job :: BatchImageJob where
  "demo_index_job = (job_of_params demo_job_params 1 0)\<lparr>bj_Status := BatchImageJobStatusIndexing\<rparr>"

text \<open>The output has a line for \<open>a\<close> and one for an unknown id, and none for \<open>b\<close>.\<close>

lemma demo_index:
  "fst (Index demo_unmarshal (\<lambda>_. Inr \<lparr>rs_data = ''1'' @ [newline] @ ''2'', rs_error = None\<rparr>) demo_index_job 5 (demo_index_db, [])) =
     Inr \<lparr>ir_SuccessCount = 1, ir_FailCount = 1, ir_TotalCount = 2\<rparr>"
  by code_simp

theorem index_accounts_for_every_item_witness:
  "\<exists>j. job_by_batch ''imgbatch_1'' (fst (snd (Index demo_unmarshal
        (\<lambda>_. Inr \<lparr>rs_data = ''1'' @ [newline] @ ''2'', rs_error = None\<rparr>) demo_index_job 5 (demo_index_db, [])))) = Some j \<and>
     bj_SuccessCount j + bj_FailCount j = 2"
proof -
  define r where "r = Index demo_unmarshal (\<lambda>_. Inr \<lparr>rs_data = ''1'' @ [newline] @ ''2'', rs_error = None\<rparr>) demo_index_job 5 (demo_index_db, [])"
  have b: "bj_BatchID demo_index_job = ''imgbatch_1''" by code_simp
  have i: "items_of ''imgbatch_1'' (fst (demo_index_db, [])) \<noteq> []" by code_simp
  have k: "card (bi_CustomID ` set (items_of ''imgbatch_1'' (fst (demo_index_db, [])))) = 2" by code_simp
  have "Index demo_unmarshal (\<lambda>_. Inr \<lparr>rs_data = ''1'' @ [newline] @ ''2'', rs_error = None\<rparr>) demo_index_job 5 (demo_index_db, []) =
      (Inr \<lparr>ir_SuccessCount = 1, ir_FailCount = 1, ir_TotalCount = 2\<rparr>, snd r)"
    using demo_index by (simp add: r_def prod_eq_iff)
  from index_accounts_for_every_item [OF this] i k show ?thesis unfolding b r_def by auto
qed

end
