(* ===== verification/BatchImageProcessorLaws.thy ===== *)
theory BatchImageProcessorLaws
  imports BatchImageProcessor BatchImageIndexLaws
begin

text \<open>
  What the pipeline and the worker promise together: a batch that leaves the queue holds no money.
\<close>

section \<open>Calls on the tables for one batch\<close>

text \<open>What a call for batch \<open>b\<close> does to the rows of the jobs: it may rewrite the row of \<open>b\<close>, keeping its
  owner and hold, and its status is the old one or one of \<open>S\<close>.\<close>

definition touches :: "string \<Rightarrow> string set \<Rightarrow> batch_db \<Rightarrow> batch_db \<Rightarrow> bool" where
  "touches b S db db' \<longleftrightarrow>
     (\<exists>f. bd_jobs db' = map (\<lambda>j. if job_batch b j then f j else j) (bd_jobs db) \<and>
        (\<forall>j. same_owner j (f j) \<and> (bj_Status (f j) = bj_Status j \<or> bj_Status (f j) \<in> S)))"

lemma touches_same: "bd_jobs db' = bd_jobs db \<Longrightarrow> touches b S db db'"
  unfolding touches_def by (rule exI [of _ "\<lambda>j. j"]) simp

lemma touches_refl [simp]: "touches b S db db"
  by (rule touches_same) simp

lemma touches_mono: "touches b S db db' \<Longrightarrow> S \<subseteq> T \<Longrightarrow> touches b T db db'"
  by (fastforce simp: touches_def)

lemma touches_trans:
  assumes "touches b S db1 db2" "touches b S db2 db3"
  shows "touches b S db1 db3"
proof -
  obtain f where f: "bd_jobs db2 = map (\<lambda>j. if job_batch b j then f j else j) (bd_jobs db1)"
    "\<And>j. same_owner j (f j)" "\<And>j. bj_Status (f j) = bj_Status j \<or> bj_Status (f j) \<in> S"
    using assms(1) by (auto simp: touches_def)
  obtain g where g: "bd_jobs db3 = map (\<lambda>j. if job_batch b j then g j else j) (bd_jobs db2)"
    "\<And>j. same_owner j (g j)" "\<And>j. bj_Status (g j) = bj_Status j \<or> bj_Status (g j) \<in> S"
    using assms(2) by (auto simp: touches_def)
  have keep: "job_batch b (f j) = job_batch b j" for j
    using f(2) [of j] by (simp add: same_owner_def job_batch_def)
  have "bd_jobs db3 = map (\<lambda>j. if job_batch b j then g (f j) else j) (bd_jobs db1)"
    by (simp add: g(1) f(1) keep)
  moreover have "same_owner j (g (f j)) \<and> (bj_Status (g (f j)) = bj_Status j \<or> bj_Status (g (f j)) \<in> S)" for j
    using same_owner_trans [OF f(2) g(2)] f(3) [of j] g(3) [of "f j"] by auto
  ultimately show ?thesis unfolding touches_def by (intro exI [of _ "\<lambda>j. g (f j)"] conjI allI) simp_all
qed

lemma touches_update:
  assumes "\<And>j. same_owner j (f j)" "\<And>j. bj_Status (f j) = bj_Status j \<or> bj_Status (f j) \<in> S"
    and "\<And>j. p j \<Longrightarrow> job_batch b j"
  shows "touches b S db (snd (update_jobs p f db))"
  unfolding touches_def
  by (rule exI [of _ "\<lambda>j. if p j then f j else j"]) (use assms in \<open>auto simp: update_jobs_def\<close>)

lemma touched_rows:
  assumes "touches b S db db'"
  shows "job_by_batch b' db' = None \<longleftrightarrow> job_by_batch b' db = None"
    and "job_by_batch b' db = Some j \<Longrightarrow> \<exists>j'. job_by_batch b' db' = Some j' \<and> same_owner j j' \<and>
           (bj_Status j' = bj_Status j \<or> b' = b \<and> bj_Status j' \<in> S)"
    and "unique_batches db \<Longrightarrow> unique_batches db'"
proof -
  obtain f where f: "bd_jobs db' = map (\<lambda>j. if job_batch b j then f j else j) (bd_jobs db)"
    "\<And>j. same_owner j (f j)" "\<And>j. bj_Status (f j) = bj_Status j \<or> bj_Status (f j) \<in> S"
    using assms by (auto simp: touches_def)
  have keep: "bj_BatchID (f j) = bj_BatchID j" for j using f(2) [of j] by (simp add: same_owner_def)
  have find: "find (job_batch b') (map (\<lambda>j. if job_batch b j then f j else j) js) =
      map_option (\<lambda>j. if job_batch b j then f j else j) (find (job_batch b') js)" for js
    by (induction js) (auto simp: job_batch_def keep)
  show "job_by_batch b' db' = None \<longleftrightarrow> job_by_batch b' db = None"
    by (simp add: job_by_batch_find f(1) find)
  show "\<exists>j'. job_by_batch b' db' = Some j' \<and> same_owner j j' \<and> (bj_Status j' = bj_Status j \<or> b' = b \<and> bj_Status j' \<in> S)"
    if "job_by_batch b' db = Some j"
  proof -
    have "bj_BatchID j = b'" using that by (auto simp: job_by_batch_find find_Some_iff job_batch_def)
    moreover have "job_by_batch b' db' = Some (if job_batch b j then f j else j)"
      using that by (simp add: job_by_batch_find f(1) find)
    ultimately show ?thesis using f(2,3) [of j] by (auto simp: job_batch_def)
  qed
  have "map bj_BatchID (map (\<lambda>j. if job_batch b j then f j else j) js) = map bj_BatchID js" for js
    by (simp add: keep)
  then show "unique_batches db \<Longrightarrow> unique_batches db'" by (simp add: unique_batches_def f(1) del: map_map)
qed

lemma and_then_touches:
  assumes "touches b S db (g (snd r))" "\<And>a. touches b S (g (snd r)) (g (snd (f a (snd r))))"
  shows "touches b S db (g (snd (and_then r f)))"
  using assms(1) touches_trans [OF assms(1) assms(2)] by (simp add: and_then_def case_prod_unfold split: sum.split)

lemma run_stmt_touches:
  "touches b S (fst c) (snd (m (fst c))) \<Longrightarrow> touches b S (fst c) (fst (snd (run_stmt m c)))"
  using run_stmt_state [of m c] by auto

lemma atomically_touches: "touches b S db (snd (m db)) \<Longrightarrow> touches b S db (snd (atomically m db))"
  by (simp add: atomically_def case_prod_unfold split: sum.split)

lemma event_touches: "touches b S (fst c) (fst (snd (AppendBatchImageEvent b' ty p c)))"
  by (rule touches_same) (simp add: event_state)

lemma same_owner_rows:
  "same_owner j (transition_row to' t code msg j)" "same_owner j (settled_row p t j)" "same_owner j (failure_row code' msg' t j)"
  "same_owner j (j\<lparr>bj_ProviderOutputRef := r, bj_UpdatedAt := t\<rparr>)"
  "same_owner j (j\<lparr>bj_SuccessCount := a, bj_FailCount := k, bj_UpdatedAt := t\<rparr>)"
  by (simp_all add: same_owner_def transition_row_def settled_row_def failure_row_def)

lemma transition_touches:
  "touches b {to'} (fst c) (fst (snd (TransitionBatchImageJobStatus b to' opts t c)))"
  unfolding TransitionBatchImageJobStatus_def
proof (intro run_stmt_touches atomically_touches)
  have u: "touches b {to'} db (snd (update_jobs (job_batch b) (transition_row to' now code msg) db))" for now code msg and db
    by (rule touches_update) (simp_all add: same_owner_rows, simp add: transition_row_def)
  have "touches b {to'} db (snd (and_then (update_jobs (job_batch b) (transition_row to' now code msg) db)
      (\<lambda>_ db. if ty \<noteq> [] then appendBatchImageEvent b ty pl db else (Inr (), db))))" for now code msg db ty pl
    by (rule and_then_touches [where g = "\<lambda>db. db"]) (auto intro: u touches_same)
  then show "touches b {to'} (fst c) (snd (transitionBatchImageJobStatusWithSQL b to' opts t (fst c)))"
    unfolding transitionBatchImageJobStatusWithSQL_def
    by (intro and_then_touches [where g = "\<lambda>db. db"]) (simp_all add: Let_def)
qed

lemma settled_touches:
  "touches (ms_BatchID p) {BatchImageJobStatusCompleted} (fst c) (fst (snd (MarkBatchImageJobSettled p t c)))"
  unfolding MarkBatchImageJobSettled_def
proof (intro run_stmt_touches atomically_touches)
  have "touches (ms_BatchID p) {BatchImageJobStatusCompleted} db (snd (update_jobs (settleable p) (settled_row p now) db))" for now db
    by (rule touches_update) (simp_all add: same_owner_rows, simp_all add: settled_row_def settleable_def)
  then have u: "touches (ms_BatchID p) {BatchImageJobStatusCompleted} db (snd (settle_update p now db))" for now db
    by (simp add: settle_update_def)
  have l: "touches (ms_BatchID p) S db (snd (and_then (locked_job (ms_BatchID p) db) (\<lambda>job db.
        if bj_Status job \<noteq> BatchImageJobStatusSettling then
          (if bj_Status job = BatchImageJobStatusCompleted then (Inl ErrBatchImageAlreadySettled, db)
           else (Inl ErrBatchImageSettlementInvalidStatus, db))
        else (Inl ErrBatchImageSettlementManifestConflict :: go_error + unit, db))))" for S db
    by (rule and_then_touches [where g = "\<lambda>db. db"]) simp_all
  show "touches (ms_BatchID p) {BatchImageJobStatusCompleted} (fst c) (snd (markBatchImageJobSettledWithSQL p t (fst c)))"
    unfolding markBatchImageJobSettledWithSQL_def Let_def
    by (rule and_then_touches [where g = "\<lambda>db. db"]) (auto intro: u l touches_same)
qed

lemma settlement_failed_touches:
  "touches b S (fst c) (fst (snd (SetBatchImageJobSettlementFailed b code msg t c)))"
proof -
  have "touches b S (fst c) (snd (update_jobs (job_batch b) (failure_row code msg t) (fst c)))"
    by (rule touches_update) (simp_all add: same_owner_rows, simp add: failure_row_def)
  then have "bd_jobs db = bd_jobs (snd (update_jobs (job_batch b) (failure_row code msg t) (fst c))) \<Longrightarrow>
      touches b S (fst c) db" for db by (simp add: touches_def)
  with settlement_failed_rows [of b code msg t c] touches_same show ?thesis by blast
qed

lemma output_ref_touches:
  "touches b S (fst c) (fst (snd (UpdateBatchImageJobProviderOutputRef b r t c)))"
  unfolding UpdateBatchImageJobProviderOutputRef_def
  by (rule and_then_touches)
     (simp_all, intro run_stmt_touches touches_update, simp_all add: same_owner_rows)

lemma replace_touches:
  "touches b S (fst c) (fst (snd (ReplaceBatchImageItemsForJob b ps counts t c)))"
  unfolding ReplaceBatchImageItemsForJob_def
proof (intro run_stmt_touches atomically_touches)
  let ?f = "\<lambda>j. j\<lparr>bj_SuccessCount := bc_SuccessCount counts, bj_FailCount := bc_FailCount counts, bj_UpdatedAt := t\<rparr>"
  have u: "touches b S db (snd (update_jobs (job_batch b) ?f db))" for db
    by (rule touches_update) (simp_all add: same_owner_rows)
  have last: "touches b S db (snd (and_then (update_jobs (job_batch b) ?f db) (\<lambda>_ db. (Inr (), db))))" for db
    by (rule and_then_touches [where g = "\<lambda>db. db"]) (simp_all add: u)
  have inner: "touches b S db (snd (and_then (insert_items is (db\<lparr>bd_items := xs\<rparr>))
      (\<lambda>_ db. and_then (update_jobs (job_batch b) ?f db) (\<lambda>_ db. (Inr (), db)))))" for db "is" xs
    by (rule and_then_touches [where g = "\<lambda>db. db"]) (simp_all add: last touches_same)
  show "touches b S (fst c) (snd (replaceBatchImageItemsForJobWithSQL b ps counts t (fst c)))"
    unfolding replaceBatchImageItemsForJobWithSQL_def
    by (intro and_then_touches [where g = "\<lambda>db. db"]) (auto simp: Let_def intro: inner)
qed

lemma expected_ids_state: "fst (snd (expected_ids b n ids c)) = fst c"
proof (induction b n ids c rule: expected_ids.induct)
  case (1 b n ids c)
  obtain r c1 where l: "ListBatchImageItems b \<lparr>if_Status = [], if_Limit = int pageSize, if_Offset = int n\<rparr> c = (r, c1)"
    by (rule prod.exhaust)
  have "fst c1 = fst c" using list_items_state [of b _ c] l by (metis snd_conv)
  with 1 l show ?case by (cases r) (simp_all add: expected_ids.simps [of b n] Let_def)
qed

lemma index_touches: "touches (bj_BatchID job) S (fst c) (fst (snd (Index unmarshal openResult job t c)))"
proof -
  obtain r c1 where l: "listExpectedCustomIDs (bj_BatchID job) c = (r, c1)" by (rule prod.exhaust)
  have c1: "fst c1 = fst c" using expected_ids_state [of "bj_BatchID job" 0 "[]" c] l by (simp add: listExpectedCustomIDs_def)
  have direct: "touches (bj_BatchID job) S (fst c) (fst (snd (ReplaceBatchImageItemsForJob (bj_BatchID job) ps counts t c1)))"
    for ps counts
    unfolding c1 [symmetric] by (rule replace_touches)
  have noted: "touches (bj_BatchID job) S (fst c)
      (fst (snd (ReplaceBatchImageItemsForJob (bj_BatchID job) ps counts t (snd (AppendBatchImageEvent b ty pl c1)))))"
    for ps counts b ty pl
    unfolding c1 [symmetric] by (rule touches_trans [OF event_touches replace_touches])
  show ?thesis
    using direct noted by (simp add: Index_def l c1 Let_def case_prod_unfold split: sum.split)
qed

section \<open>The services\<close>

definition advances :: "string \<Rightarrow> string set \<Rightarrow> settle_world \<Rightarrow> settle_world \<Rightarrow> bool" where
  "advances b S w w' \<longleftrightarrow>
     ledger_le (fst (w_ledger w)) (fst (w_ledger w')) \<and> touches b S (fst (w_db w)) (fst (w_db w'))"

lemma advances_refl [simp]: "advances b S w w"
  by (simp add: advances_def)

lemma advances_trans: "advances b S w w1 \<Longrightarrow> advances b S w1 w2 \<Longrightarrow> advances b S w w2"
  unfolding advances_def by (blast intro: ledger_le_trans touches_trans)

lemma advances_mono: "advances b S w w' \<Longrightarrow> S \<subseteq> T \<Longrightarrow> advances b T w w'"
  unfolding advances_def by (blast intro: touches_mono)

lemma advances_db: "touches b S (fst (w_db w)) (fst c) \<Longrightarrow> advances b S w (w\<lparr>w_db := c\<rparr>)"
  by (simp add: advances_def)

lemma apply_hold_le: "ledger_le (fst c) (fst (snd (applyBatchImageBalanceHold fc op (Some cmd) c)))"
  using billing_step_le [of c fc undefined "BHold op cmd"] by simp

lemma hold_wrappers_le:
  "ledger_le (fst c) (fst (snd (releaseBatchImageBalanceHold fc job h c)))"
  "ledger_le (fst c) (fst (snd (captureBatchImageBalanceHold fc job a h c)))"
  using apply_hold_le [of c fc]
  by (simp_all add: releaseBatchImageBalanceHold_def captureBatchImageBalanceHold_def ReleaseBatchImageBalance_def
      CaptureBatchImageBalance_def case_prod_unfold split: sum.split)

lemma release_in_advances: "advances b S w (snd (release_in env job w))"
  using hold_wrappers_le(1) [of "w_ledger w"] by (simp add: release_in_def Let_def advances_def)

lemma get_job_advances: "advances b S w (w\<lparr>w_db := snd (GetBatchImageJobByBatchID b' (w_db w))\<rparr>)"
  using get_job_row(1) [of b' "w_db w"] by (intro advances_db) (simp add: prod_eq_iff)

abbreviation settle_statuses :: "string set" where
  "settle_statuses \<equiv> {BatchImageJobStatusFailed, BatchImageJobStatusCompleted}"

lemma failExhausted_advances:
  "advances (bj_BatchID job) settle_statuses w (snd (failExhaustedSettlement env now job msg w))"
proof -
  obtain err w1 where r: "release_in env job w = (err, w1)" by (rule prod.exhaust)
  have a: "advances (bj_BatchID job) settle_statuses w w1" using release_in_advances [of _ _ w env job] r by simp
  have t: "advances (bj_BatchID job) settle_statuses w1
      (w1\<lparr>w_db := snd (TransitionBatchImageJobStatus (bj_BatchID job) BatchImageJobStatusFailed opts now (w_db w1))\<rparr>)" for opts
    by (intro advances_db touches_mono [OF transition_touches]) simp
  have f: "advances (bj_BatchID job) settle_statuses w1
      (w1\<lparr>w_db := snd (SetBatchImageJobSettlementFailed (bj_BatchID job) code m now (w_db w1))\<rparr>)" for code m
    by (intro advances_db settlement_failed_touches)
  show ?thesis
    using advances_trans [OF a t] advances_trans [OF a f] r
    by (simp add: failExhaustedSettlement_def Let_def case_prod_unfold split: sum.split)
qed

lemma fail_with_advances:
  "advances (bj_BatchID job) settle_statuses w (snd (fail_with env now job code msg err w))"
proof -
  let ?c = "SetBatchImageJobSettlementFailed (bj_BatchID job) code (truncateBatchImageMessage msg batchImageMaxErrorMessageLength) now (w_db w)"
  have a: "advances (bj_BatchID job) settle_statuses w (w\<lparr>w_db := snd ?c\<rparr>)"
    by (intro advances_db settlement_failed_touches)
  have "advances (bj_BatchID job) settle_statuses w (snd (failExhaustedSettlement env now
      (job\<lparr>bj_RetryCount := n, bj_LastErrorCode := e\<rparr>) msg (w\<lparr>w_db := snd ?c\<rparr>)))" for n e
    using advances_trans [OF a] failExhausted_advances [of "job\<lparr>bj_RetryCount := n, bj_LastErrorCode := e\<rparr>"] by simp
  with a show ?thesis
    by (simp add: fail_with_def recordSettlementFailure_def with_db_def case_prod_unfold split: sum.split)
qed

lemma settle_capture_advances:
  "advances (bj_BatchID job) settle_statuses w (snd (settle_capture env now job res p w))"
proof -
  obtain err l1 where r: "captureBatchImageBalanceHold (se_fc env) job (settle_cost job p) (sr_ManifestHash res) (w_ledger w) = (err, l1)"
    by (rule prod.exhaust)
  let ?w1 = "w\<lparr>w_ledger := l1\<rparr>"
  have a: "advances (bj_BatchID job) settle_statuses w ?w1"
    using hold_wrappers_le(2) [of "w_ledger w" "se_fc env" job "settle_cost job p" "sr_ManifestHash res"] r
    by (simp add: advances_def)
  have m: "ms_BatchID q = bj_BatchID job \<Longrightarrow> advances (bj_BatchID job) settle_statuses ?w1 (?w1\<lparr>w_db := snd (MarkBatchImageJobSettled q now (w_db w))\<rparr>)" for q
    using touches_mono [OF settled_touches [of q "w_db w" now], of settle_statuses] by (simp add: advances_def)
  show ?thesis
    using r fail_with_advances advances_trans [OF a fail_with_advances] advances_trans [OF a m]
    unfolding settle_capture_def Let_def r prod.case case_prod_unfold
    by (auto split: sum.split)
qed

lemma settle_job_advances:
  "advances (bj_BatchID job) settle_statuses w (snd (settle_job env now job w))"
  using fail_with_advances failExhausted_advances settle_capture_advances
  by (auto simp: settle_job_def Let_def map_prod_def case_prod_unfold split: sum.split)

lemma Settle_advances: "advances b settle_statuses w (snd (Settle env now b w))"
proof -
  obtain r c1 where g: "GetBatchImageJobByBatchID b (w_db w) = (r, c1)" by (rule prod.exhaust)
  have a: "advances b settle_statuses w (w\<lparr>w_db := c1\<rparr>)" using get_job_advances [of b _ w b] g by simp
  show ?thesis
  proof (cases r)
    case (Inl e)
    with g a show ?thesis by (simp add: Settle_def with_db_def)
  next
    case (Inr job)
    have "bj_BatchID job = b"
      using get_job_row(2) [OF g Inr] by (auto simp: job_by_batch_find find_Some_iff job_batch_def)
    with advances_trans [OF a] settle_job_advances [of job] g Inr show ?thesis
      by (simp add: Settle_def with_db_def)
  qed
qed

abbreviation process_statuses :: "string set" where
  "process_statuses \<equiv> {BatchImageJobStatusRunning, BatchImageJobStatusIndexing, BatchImageJobStatusFailed,
     BatchImageJobStatusCancelled, BatchImageJobStatusSettling}"

text \<open>An answer of the processor for a job: how the world advanced, and that a terminal answer comes
  with the end of the hold.\<close>

definition good_reply :: "BatchImageJob \<Rightarrow> settle_world \<Rightarrow> process_reply \<Rightarrow> bool" where
  "good_reply job w r \<longleftrightarrow>
     advances (bj_BatchID job) process_statuses w (snd r) \<and>
     (linked job (fst (w_ledger w)) \<longrightarrow>
        (\<forall>res. fst r = Inr res \<and> pr_Terminal res \<longrightarrow> closed job (fst (w_ledger (snd r)))))"

lemma good_reply_idle: "advances (bj_BatchID job) process_statuses w w' \<Longrightarrow> \<forall>res. x = Inr res \<longrightarrow> \<not> pr_Terminal res \<Longrightarrow> good_reply job w (x, w')"
  by (auto simp: good_reply_def)

lemma good_reply_if: "good_reply job w x \<Longrightarrow> good_reply job w y \<Longrightarrow> good_reply job w (if c then x else y)"
  by simp

lemma good_reply_wait: "good_reply job w (Inr (requeue_after d), w)"
  by (simp add: good_reply_def requeue_after_def)

lemma good_reply_error: "advances (bj_BatchID job) process_statuses w w' \<Longrightarrow> good_reply job w (Inl e, w')"
  by (simp add: good_reply_def)

lemma good_reply_requeue:
  "advances (bj_BatchID job) process_statuses w w' \<Longrightarrow> good_reply job w (Inr (requeue_after d), w')"
  by (simp add: good_reply_def requeue_after_def)

lemma linked_le: "ledger_le l l' \<Longrightarrow> linked job l' = linked job l"
  by (rule linked_jobs) (simp add: ledger_le_def)

lemma good_reply_after:
  assumes "advances (bj_BatchID job) process_statuses w w1" "good_reply job w1 r"
  shows "good_reply job w r"
  using assms linked_le [of "fst (w_ledger w)" "fst (w_ledger w1)" job]
  by (auto simp: good_reply_def intro: advances_trans) (simp_all add: advances_def)

lemma same_owner_closed: "same_owner job j \<Longrightarrow> closed j = closed job"
  by (auto simp: same_owner_def closed_def ended_by_def job_hold_amount_def fun_eq_iff split: option.split)

lemma good_reply_same_owner: "same_owner job j \<Longrightarrow> good_reply j w r = good_reply job w r"
  by (simp add: good_reply_def linked_same_owner same_owner_closed) (simp add: same_owner_def)

lemma release_in_closed:
  "linked job (fst (w_ledger w)) \<Longrightarrow> release_in env job w = (NilErr, w') \<Longrightarrow> closed job (fst (w_ledger w'))"
  using release_closes [of job "w_ledger w" "se_fc env" "batchImageDerefString (bj_RequestHash job)"
      "snd (releaseBatchImageBalanceHold (se_fc env) job (batchImageDerefString (bj_RequestHash job)) (w_ledger w))"]
  by (auto simp: release_in_def Let_def prod_eq_iff)

lemma transition_in_advances:
  "to' \<in> S \<Longrightarrow> advances (bj_BatchID job) S w (snd (transition_in now job to' ty pl code msg w))"
  using touches_mono [OF transition_touches [of "bj_BatchID job" to' "w_db w"], of S]
  by (simp add: transition_in_def advances_db)

lemma transition_in_ledger: "w_ledger (snd (transition_in now job to' ty pl code msg w)) = w_ledger w"
  by (simp add: transition_in_def)

lemma requeue_not_terminal [simp]: "\<not> pr_Terminal (requeue_after d)"
  by (simp add: requeue_after_def)

lemma status_owner [simp]: "same_owner job (job\<lparr>bj_Status := s\<rparr>)"
  by (simp add: same_owner_def)

lemma finish_job_good:
  assumes "to' = BatchImageJobStatusFailed \<or> to' = BatchImageJobStatusCancelled"
  shows "good_reply job w (finish_job p now job to' ty pl code msg w)"
proof -
  obtain x w1 where t: "transition_in now job to' ty pl code msg w = (x, w1)" by (rule prod.exhaust)
  have a: "advances (bj_BatchID job) process_statuses w w1"
    using transition_in_advances [of to' process_statuses job w now ty pl code msg] assms t by auto
  obtain err w2 where r: "release_in (pe_settle p) job w1 = (err, w2)" by (rule prod.exhaust)
  have a2: "advances (bj_BatchID job) process_statuses w w2"
    using advances_trans [OF a release_in_advances [of _ _ w1 "pe_settle p" job]] r by simp
  have rel: "releaseTerminalHold p (job\<lparr>bj_Status := to'\<rparr>) w1 = (err, w2)"
    using assms r by (auto simp: releaseTerminalHold_def release_in_same_owner [OF status_owner])
  have "w_ledger w1 = w_ledger w" using transition_in_ledger [of now job to' ty pl code msg w] t by simp
  then have cl: "linked job (fst (w_ledger w)) \<Longrightarrow> err = NilErr \<Longrightarrow> closed job (fst (w_ledger w2))"
    using release_in_closed [of job w1 "pe_settle p" w2] r by simp
  show ?thesis using a a2 cl by (cases x) (auto simp: finish_job_def t rel good_reply_def)
qed

lemma indexAndSettle_good: "good_reply job w (indexAndSettle p now job provider account w)"
proof -
  obtain r c1 where i: "Index (pe_unmarshal p) (\<lambda>j. pv_OpenResult provider j account) job now (w_db w) = (r, c1)"
    by (rule prod.exhaust)
  let ?w1 = "w\<lparr>w_db := c1\<rparr>"
  have a: "advances (bj_BatchID job) process_statuses w ?w1"
    using index_touches [of job process_statuses "w_db w" "pe_unmarshal p" "\<lambda>j. pv_OpenResult provider j account" now] i
    by (intro advances_db) simp
  note f = good_reply_after [OF a finish_job_good [OF disjI1 [OF refl]]]
  have t: "advances (bj_BatchID job) process_statuses w (snd (transition_in now job BatchImageJobStatusSettling ty pl code msg ?w1))"
    for ty pl code msg
    by (rule advances_trans [OF a transition_in_advances]) simp
  show ?thesis
  proof (cases r)
    case (Inl e)
    show ?thesis
      unfolding indexAndSettle_def with_db_def i Inl prod.case sum.case fst_conv snd_conv Let_def
      by (intro good_reply_if good_reply_error [OF a] good_reply_requeue [OF a] f)
  next
    case (Inr x)
    have "good_reply job w (case transition_in now job BatchImageJobStatusSettling ty pl code msg ?w1 of
        (Inl e, w2) \<Rightarrow> (Inl e, w2) | (Inr _, w2) \<Rightarrow> (Inr (requeue_after d), w2))" for ty pl code msg d
      by (simp add: case_prod_unfold good_reply_error [OF t] good_reply_requeue [OF t] split: sum.split)
    then show ?thesis unfolding indexAndSettle_def with_db_def i Inr prod.case sum.case fst_conv snd_conv .
  qed
qed

lemma apply_status_good: "good_reply job w (apply_status p now job provider account status w)"
proof -
  have t: "good_reply job w (case transition_in now job BatchImageJobStatusRunning ty pl code msg w of
      (Inl e, w1) \<Rightarrow> (Inl e, w1) | (Inr _, w1) \<Rightarrow> (Inr (requeue_after d), w1))" for ty pl code msg d
    using transition_in_advances [of BatchImageJobStatusRunning process_statuses job w]
    by (auto simp: case_prod_unfold split: sum.split intro!: good_reply_idle)
  have i: "good_reply job w (case transition_in now job BatchImageJobStatusIndexing ty pl code msg w of
      (Inl e, w1) \<Rightarrow> (Inl e, w1)
    | (Inr _, w1) \<Rightarrow> indexAndSettle p now (job\<lparr>bj_Status := BatchImageJobStatusIndexing\<rparr>) provider account w1)" for ty pl code msg
  proof -
    obtain x w1 where x: "transition_in now job BatchImageJobStatusIndexing ty pl code msg w = (x, w1)" by (rule prod.exhaust)
    have a: "advances (bj_BatchID job) process_statuses w w1"
      using transition_in_advances [of BatchImageJobStatusIndexing process_statuses job w now ty pl code msg] x by simp
    have "good_reply job w1 (indexAndSettle p now (job\<lparr>bj_Status := BatchImageJobStatusIndexing\<rparr>) provider account w1)"
      by (rule good_reply_same_owner [THEN iffD1, OF status_owner indexAndSettle_good])
    then show ?thesis using good_reply_after [OF a] a by (cases x) (auto simp: x intro!: good_reply_idle)
  qed
  have f: "good_reply job w (finish_job p now job BatchImageJobStatusFailed ty pl code msg w)"
    "good_reply job w (finish_job p now job BatchImageJobStatusCancelled ty pl code msg w)" for ty pl code msg
    by (rule finish_job_good, simp)+
  show ?thesis
    unfolding apply_status_def Let_def
    by (intro good_reply_if t i f good_reply_wait indexAndSettle_good)
qed

lemma process_job_good:
  assumes "bj_Status job \<noteq> BatchImageJobStatusSettling"
    and "bj_Status job = BatchImageJobStatusCompleted \<or> bj_Status job = BatchImageJobStatusOutputDeleted \<Longrightarrow> closed job (fst (w_ledger w))"
  shows "good_reply job w (process_job p now job w)"
proof (cases "isBatchImageProcessorDoneStatus (bj_Status job)")
  case True
  obtain err w1 where r: "release_in (pe_settle p) job w = (err, w1)" by (rule prod.exhaust)
  have a: "advances (bj_BatchID job) process_statuses w w1" using release_in_advances [of _ _ w "pe_settle p" job] r by simp
  have cl: "linked job (fst (w_ledger w)) \<Longrightarrow> err = NilErr \<Longrightarrow> closed job (fst (w_ledger w1))"
    using release_in_closed [of job w "pe_settle p" w1] r by simp
  have "bj_Status job \<noteq> BatchImageJobStatusFailed \<and> bj_Status job \<noteq> BatchImageJobStatusCancelled \<Longrightarrow> closed job (fst (w_ledger w))"
    using True assms by (auto simp: isBatchImageProcessorDoneStatus_def IsTerminalBatchImageJobStatus_def)
  with True a cl r show ?thesis
    by (auto simp: process_job_def releaseTerminalHold_def good_reply_def)
next
  case False
  have ref: "good_reply job w (case persistProviderOutputRef now job ref w of
      (Inl e, w1) \<Rightarrow> (Inl e, w1) | (Inr job1, w1) \<Rightarrow> apply_status p now job1 provider account status w1)"
    for ref provider account status
  proof -
    obtain x w1 where x: "persistProviderOutputRef now job ref w = (x, w1)" by (rule prod.exhaust)
    have a: "advances (bj_BatchID job) process_statuses w w1"
      using x output_ref_touches [of "bj_BatchID job" process_statuses "w_db w"]
      by (auto simp: persistProviderOutputRef_def Let_def case_prod_unfold advances_def split: if_splits sum.splits)
    have o': "x = Inr job1 \<Longrightarrow> same_owner job job1" for job1
      using x by (auto simp: persistProviderOutputRef_def Let_def case_prod_unfold same_owner_def split: if_splits sum.splits)
    show ?thesis
    proof (cases x)
      case (Inr job1)
      have "good_reply job w1 (apply_status p now job1 provider account status w1)"
        by (rule good_reply_same_owner [THEN iffD1, OF o' [OF Inr] apply_status_good])
      with good_reply_after [OF a] show ?thesis by (simp add: x Inr)
    qed (use a in \<open>simp add: x good_reply_idle\<close>)
  qed
  show ?thesis
    using False ref indexAndSettle_good
    by (auto simp: process_job_def split: option.split sum.split intro!: good_reply_idle)
qed

section \<open>The pipeline\<close>

lemma process_job_advances: "advances (bj_BatchID job) process_statuses w (snd (process_job p now job w))"
proof (cases "isBatchImageProcessorDoneStatus (bj_Status job)")
  case True
  then show ?thesis
    using release_in_advances [of "bj_BatchID job" process_statuses w "pe_settle p" job]
    by (simp add: process_job_def releaseTerminalHold_def case_prod_unfold)
next
  case False
  then have "good_reply job w (process_job p now job w)"
    by (intro process_job_good) (auto simp: isBatchImageProcessorDoneStatus_def IsTerminalBatchImageJobStatus_def)
  then show ?thesis by (simp add: good_reply_def)
qed

lemma get_job_batch:
  assumes "GetBatchImageJobByBatchID b c = (Inr job, c')"
  shows "bj_BatchID job = b" "job_by_batch b (fst c) = Some job" "fst c' = fst c"
  using get_job_row [OF assms] by (auto simp: job_by_batch_find find_Some_iff job_batch_def)

lemma Process_advances: "advances b process_statuses w (snd (Process p now b w))"
proof -
  obtain r c1 where g: "GetBatchImageJobByBatchID b (w_db w) = (r, c1)" by (rule prod.exhaust)
  have a: "advances b process_statuses w (w\<lparr>w_db := c1\<rparr>)" using get_job_advances [of b _ w b] g by simp
  show ?thesis
  proof (cases r)
    case (Inr job)
    have b: "bj_BatchID job = b" by (rule get_job_batch(1) [OF g [unfolded Inr]])
    have "advances b process_statuses w (snd (process_job p now job (w\<lparr>w_db := c1\<rparr>)))"
      by (rule advances_trans [OF a process_job_advances [of job, unfolded b]])
    with g Inr show ?thesis by (simp add: Process_def with_db_def)
  qed (use g a in \<open>simp add: Process_def with_db_def\<close>)
qed

lemma pipeline_advances: "advances b (process_statuses \<union> settle_statuses) w (snd (pipeline_Process p now b w))"
proof -
  let ?S = "process_statuses \<union> settle_statuses"
  obtain r c1 where g: "GetBatchImageJobByBatchID b (w_db w) = (r, c1)" by (rule prod.exhaust)
  let ?w1 = "w\<lparr>w_db := c1\<rparr>"
  have a: "advances b ?S w ?w1" using get_job_advances [of b _ w b] g by simp
  have pr: "advances b ?S w (snd (Process p now b ?w1))"
    by (rule advances_trans [OF a advances_mono [OF Process_advances]]) simp
  obtain x w2 where x: "Settle (pe_settle p) now b ?w1 = (x, w2)" by (rule prod.exhaust)
  have st: "advances b ?S w w2"
    using advances_trans [OF a advances_mono [OF Settle_advances [of b ?w1 "pe_settle p" now], of ?S]] x by auto
  have st2: "advances b ?S w (w2\<lparr>w_db := snd (GetBatchImageJobByBatchID b (w_db w2))\<rparr>)"
    by (rule advances_trans [OF st get_job_advances])
  show ?thesis
    using a pr st st2 by (simp add: pipeline_Process_def with_db_def g x Let_def split: sum.split)
qed

text \<open>The job of a batch, known by its owner and hold: its row has this owner and hold, and where the row is
  completed the hold has ended.\<close>

definition batch_sound :: "BatchImageJob \<Rightarrow> settle_world \<Rightarrow> bool" where
  "batch_sound job w \<longleftrightarrow>
     linked job (fst (w_ledger w)) \<and> unique_batches (fst (w_db w)) \<and>
     (\<exists>j. job_by_batch (bj_BatchID job) (fst (w_db w)) = Some j \<and> same_owner job j \<and>
        (bj_Status j = BatchImageJobStatusCompleted \<or> bj_Status j = BatchImageJobStatusOutputDeleted \<longrightarrow>
           closed job (fst (w_ledger w))))"

lemma batch_sound_advances:
  assumes s: "batch_sound job w" and a: "advances b S w w'"
    and ok: "b = bj_BatchID job \<Longrightarrow> BatchImageJobStatusCompleted \<notin> S \<and> BatchImageJobStatusOutputDeleted \<notin> S"
  shows "batch_sound job w'"
proof -
  obtain j where j: "job_by_batch (bj_BatchID job) (fst (w_db w)) = Some j" "same_owner job j"
    "bj_Status j = BatchImageJobStatusCompleted \<or> bj_Status j = BatchImageJobStatusOutputDeleted \<Longrightarrow>
       closed job (fst (w_ledger w))"
    using s by (auto simp: batch_sound_def)
  have le: "ledger_le (fst (w_ledger w)) (fst (w_ledger w'))" and t: "touches b S (fst (w_db w)) (fst (w_db w'))"
    using a by (simp_all add: advances_def)
  obtain j' where j': "job_by_batch (bj_BatchID job) (fst (w_db w')) = Some j'" "same_owner j j'"
    "bj_Status j' = bj_Status j \<or> bj_BatchID job = b \<and> bj_Status j' \<in> S"
    using touched_rows(2) [OF t j(1)] by blast
  have "closed job (fst (w_ledger w'))"
    if "bj_Status j' = BatchImageJobStatusCompleted \<or> bj_Status j' = BatchImageJobStatusOutputDeleted"
    using that j'(3) ok j(3) closed_mono [OF le] by metis
  moreover have "unique_batches (fst (w_db w'))" using touched_rows(3) [OF t] s by (simp add: batch_sound_def)
  moreover have "linked job (fst (w_ledger w'))" using linked_le [OF le, of job] s by (simp add: batch_sound_def)
  ultimately show ?thesis
    using j'(1) same_owner_trans [OF j(2) j'(2)] unfolding batch_sound_def by blast
qed

lemma in_settlement_sound: "in_settlement job w \<Longrightarrow> batch_sound job w"
  by (auto simp: in_settlement_def batch_sound_def BatchImageJobStatusSettling_def
      BatchImageJobStatusCompleted_def BatchImageJobStatusOutputDeleted_def)

lemma settle_success:
  assumes s: "in_settlement job w" and st: "bj_Status job = BatchImageJobStatusSettling"
    and r: "settle_job env now job w = (Inr x, w')"
  shows "closed job (fst (w_ledger w'))"
proof -
  have "fst (fail_with env now job code msg err w) \<noteq> Inr x" for code msg err w
    by (simp add: fail_with_def case_prod_unfold)
  then have f: "fail_with env now job code msg err w1 \<noteq> (Inr x, w')" for code msg err w1 by (metis fst_conv)
  have c: "settle_capture env now job res p w = (Inr x, w') \<Longrightarrow> closed job (fst (w_ledger w'))" for res p
    using f capture_ends [of job "w_ledger w" "se_fc env" "settle_cost job p" "sr_ManifestHash res"] s
    by (auto simp: settle_capture_def Let_def in_settlement_def closed_def with_db_def split: prod.splits sum.splits if_splits)
  show ?thesis
    using r f c st by (auto simp: settle_job_def Let_def BatchImageJobStatusSettling_def BatchImageJobStatusCompleted_def
        map_prod_def case_prod_unfold split: if_splits sum.splits)
qed

lemma in_settlement_read:
  "in_settlement job w \<Longrightarrow> fst c = fst (w_db w) \<Longrightarrow> in_settlement job (w\<lparr>w_db := c\<rparr>)"
  by (simp add: in_settlement_def)

lemma Settle_success:
  assumes s: "in_settlement job w" and j: "job_by_batch (bj_BatchID job) (fst (w_db w)) = Some j"
    and st: "bj_Status j = BatchImageJobStatusSettling" and r: "Settle env now (bj_BatchID job) w = (Inr x, w')"
  shows "closed job (fst (w_ledger w'))"
proof -
  have o': "same_owner job j" using s j by (auto simp: in_settlement_def)
  obtain c1 where g: "GetBatchImageJobByBatchID (bj_BatchID job) (w_db w) = (Inr j, c1)"
  proof -
    obtain y c1 where y: "GetBatchImageJobByBatchID (bj_BatchID job) (w_db w) = (y, c1)" by (rule prod.exhaust)
    with r obtain j2 where j2: "y = Inr j2" by (cases y) (simp_all add: Settle_def with_db_def)
    then have "j2 = j" using get_job_batch(2) [OF y [unfolded j2]] j by simp
    with y j2 that show ?thesis by simp
  qed
  have "in_settlement j (w\<lparr>w_db := c1\<rparr>)"
    unfolding settles_same_owner(3) [OF o'] by (rule in_settlement_read [OF s get_job_batch(3) [OF g]])
  moreover have "settle_job env now j (w\<lparr>w_db := c1\<rparr>) = (Inr x, w')" using r g by (simp add: Settle_def with_db_def)
  ultimately have "closed j (fst (w_ledger w'))" using settle_success st by blast
  then show ?thesis by (simp add: same_owner_closed [OF o'])
qed

lemma Process_terminal:
  assumes s: "batch_sound job w" and j: "job_by_batch (bj_BatchID job) (fst (w_db w)) = Some j"
    and st: "bj_Status j \<noteq> BatchImageJobStatusSettling"
    and r: "Process p now (bj_BatchID job) w = (Inr res, w')" "pr_Terminal res"
  shows "closed job (fst (w_ledger w'))"
proof -
  have o': "same_owner job j"
    and fin: "bj_Status j = BatchImageJobStatusCompleted \<or> bj_Status j = BatchImageJobStatusOutputDeleted \<Longrightarrow>
      closed j (fst (w_ledger w))"
    using s j same_owner_closed [of job j] by (auto simp: batch_sound_def)
  obtain c1 where g: "GetBatchImageJobByBatchID (bj_BatchID job) (w_db w) = (Inr j, c1)"
  proof -
    obtain y c1 where y: "GetBatchImageJobByBatchID (bj_BatchID job) (w_db w) = (y, c1)" by (rule prod.exhaust)
    with r(1) obtain j2 where j2: "y = Inr j2" by (cases y) (simp_all add: Process_def with_db_def)
    then have "j2 = j" using get_job_batch(2) [OF y [unfolded j2]] j by simp
    with y j2 that show ?thesis by simp
  qed
  have pj: "process_job p now j (w\<lparr>w_db := c1\<rparr>) = (Inr res, w')" using r(1) g by (simp add: Process_def with_db_def)
  have "good_reply j (w\<lparr>w_db := c1\<rparr>) (process_job p now j (w\<lparr>w_db := c1\<rparr>))"
    by (rule process_job_good) (use st fin in simp_all)
  moreover have "linked j (fst (w_ledger w))" using s by (simp add: batch_sound_def linked_same_owner [OF o'])
  ultimately have "closed j (fst (w_ledger w'))" using r(2) by (simp add: pj good_reply_def)
  then show ?thesis by (simp add: same_owner_closed [OF o'])
qed

lemma pipeline_keeps_sound:
  assumes s: "batch_sound job w"
  shows "batch_sound job (snd (pipeline_Process p now b w))"
    and "pe_SettlementService p \<Longrightarrow> fst (pipeline_Process p now (bj_BatchID job) w) = Inr res \<Longrightarrow> pr_Terminal res \<Longrightarrow>
           closed job (fst (w_ledger (snd (pipeline_Process p now (bj_BatchID job) w))))"
proof -
  let ?b = "bj_BatchID job"
  obtain r c1 where g: "GetBatchImageJobByBatchID ?b (w_db w) = (r, c1)" by (rule prod.exhaust)
  let ?w1 = "w\<lparr>w_db := c1\<rparr>"
  have s1: "batch_sound job ?w1"
    by (rule batch_sound_advances [OF s get_job_advances [of "[]" "{}" w ?b, unfolded g snd_conv]]) simp
  have both: "batch_sound job (snd (pipeline_Process p now ?b w)) \<and>
      (pe_SettlementService p \<and> fst (pipeline_Process p now ?b w) = Inr res \<and> pr_Terminal res \<longrightarrow>
        closed job (fst (w_ledger (snd (pipeline_Process p now ?b w)))))"
  proof (cases r)
    case (Inl e)
    then show ?thesis using g s1 by (simp add: pipeline_Process_def with_db_def)
  next
    case (Inr j)
    have j: "bj_BatchID j = ?b" "job_by_batch ?b (fst (w_db ?w1)) = Some j"
      using get_job_batch [OF g [unfolded Inr]] by simp_all
    have o': "same_owner job j" using s1 j(2) by (auto simp: batch_sound_def)
    show ?thesis
    proof (cases "bj_Status j = BatchImageJobStatusSettling")
      case True
      have i1: "in_settlement job ?w1" using s1 j(2) True by (auto simp: in_settlement_def batch_sound_def)
      obtain x w2 where x: "Settle (pe_settle p) now ?b ?w1 = (x, w2)" by (rule prod.exhaust)
      have i2: "in_settlement job w2" using Settle_settles [OF i1, of "pe_settle p" now] x by (auto simp: settles_def)
      have won: "x = Inr y \<Longrightarrow> closed job (fst (w_ledger w2))" for y
        using Settle_success [OF i1 j(2) True] x by blast
      obtain u c3 where u: "GetBatchImageJobByBatchID ?b (w_db w2) = (u, c3)" by (rule prod.exhaust)
      have i3: "in_settlement job (w2\<lparr>w_db := c3\<rparr>)" by (rule in_settlement_read [OF i2 get_job_row(1) [OF u]])
      have lost: "u = Inr k \<Longrightarrow> IsTerminalBatchImageJobStatus (bj_Status k) \<Longrightarrow> closed job (fst (w_ledger w2))" for k
        using i2 get_job_row(2) [OF u] by (auto simp: in_settlement_def IsTerminalBatchImageJobStatus_def job_statuses)
      show ?thesis
        using True g Inr x u i1 i2 i3 won lost
        by (auto simp: pipeline_Process_def with_db_def Let_def requeue_after_def in_settlement_sound split: sum.split)
    next
      case False
      have pr: "pipeline_Process p now ?b w = Process p now ?b ?w1"
        using False g Inr by (simp add: pipeline_Process_def with_db_def)
      have "batch_sound job (snd (Process p now ?b ?w1))"
        by (rule batch_sound_advances [OF s1 Process_advances]) (simp add: job_statuses)
      moreover have "Process p now ?b ?w1 = (Inr res, snd (Process p now ?b ?w1)) \<Longrightarrow> pr_Terminal res \<Longrightarrow>
          closed job (fst (w_ledger (snd (Process p now ?b ?w1))))"
        by (rule Process_terminal [OF s1 j(2) False])
      ultimately show ?thesis unfolding pr by (metis prod.collapse)
    qed
  qed
  show "batch_sound job (snd (pipeline_Process p now b w))"
  proof (cases "b = ?b")
    case False
    show ?thesis by (rule batch_sound_advances [OF s pipeline_advances]) (use False in simp)
  qed (use both in simp)
  show "pe_SettlementService p \<Longrightarrow> fst (pipeline_Process p now ?b w) = Inr res \<Longrightarrow> pr_Terminal res \<Longrightarrow>
      closed job (fst (w_ledger (snd (pipeline_Process p now ?b w))))"
    using both by simp
qed

section \<open>The worker and the pipeline\<close>

text \<open>The steps of a system whose workers run the pipeline: a round of a worker, with an environment of \<open>E\<close> and
  the clock it meets; a call on the queue by anyone else, who acknowledges other batches only; and any other
  operation on the ledger. Rounds are taken one after the other.\<close>

inductive pipeline_step :: "'a processor_env set \<Rightarrow> batchImageQueueOptions \<Rightarrow> string \<Rightarrow> settle_world \<Rightarrow> settle_world \<Rightarrow> bool"
  for E :: "'a processor_env set" and q :: batchImageQueueOptions and b :: string where
  round: "\<lbrakk>p \<in> E; pe_SettlementService p;
      RunOnce q opts (pipeline_Process p pnow) token now ws t1 beats t2 w (w_queue w) = Some (err, w1, c1)\<rbrakk>
      \<Longrightarrow> pipeline_step E q b w (w1\<lparr>w_queue := c1\<rparr>)"
| client: "op \<noteq> QAck b \<Longrightarrow> pipeline_step E q b w (w\<lparr>w_queue := queue_step q op (w_queue w)\<rparr>)"
| ledger: "pipeline_step E q b w (w\<lparr>w_ledger := billing_step fc cal op (w_ledger w)\<rparr>)"

definition pipeline_inv :: "BatchImageJob \<Rightarrow> settle_world \<Rightarrow> bool" where
  "pipeline_inv job w \<longleftrightarrow>
     batch_sound job w \<and> (pending (fst (w_queue w)) (bj_BatchID job) \<or> closed job (fst (w_ledger w)))"

lemma batch_sound_queue: "batch_sound job (w\<lparr>w_queue := c\<rparr>) = batch_sound job w"
  by (simp add: batch_sound_def)

lemma batch_sound_ledger:
  "batch_sound job w \<Longrightarrow> ledger_le (fst (w_ledger w)) (fst l) \<Longrightarrow> batch_sound job (w\<lparr>w_ledger := l\<rparr>)"
  by (erule batch_sound_advances [of job w "[]" "{}"]) (simp_all add: advances_def)

lemma pipeline_closed:
  "closed job (fst (w_ledger w)) \<Longrightarrow> closed job (fst (w_ledger (snd (pipeline_Process p now b w))))"
  using pipeline_advances [of b w p now] closed_mono by (auto simp: advances_def)

lemma pipeline_step_inv:
  assumes "IsValidBatchImageID (bj_BatchID job)" "pipeline_step E q (bj_BatchID job) w w'" "pipeline_inv job w"
  shows "pipeline_inv job w'"
  using assms(2,3)
proof cases
  case (round p opts pnow token now ws t1 beats t2 err w1 c1)
  note st = worker_round_store [OF round(4)]
  have s: "batch_sound job w1" using st assms(3) pipeline_keeps_sound(1) by (auto simp: pipeline_inv_def)
  have "pending (fst c1) (bj_BatchID job) \<or> closed job (fst (w_ledger w1))"
  proof (cases "closed job (fst (w_ledger w))")
    case True
    then have "closed job (fst (w_ledger w1))" using st pipeline_closed [OF True, of p pnow] by fastforce
    then show ?thesis ..
  next
    case False
    then have "pending (fst (w_queue w)) (bj_BatchID job)" using assms(3) by (simp add: pipeline_inv_def)
    from worker_round [OF assms(1) this round(4)] show ?thesis
      using pipeline_keeps_sound(2) [of job w p pnow] round(3) assms(3) by (auto simp: pipeline_inv_def)
  qed
  with s round(1) show ?thesis by (simp add: pipeline_inv_def batch_sound_queue)
next
  case (client op)
  then show ?thesis
    using assms(3) pending_step [OF assms(1) _ client(2), of "w_queue w" q] by (auto simp: pipeline_inv_def batch_sound_queue)
next
  case (ledger fc cal op)
  have le: "ledger_le (fst (w_ledger w)) (fst (billing_step fc cal op (w_ledger w)))" by (rule billing_step_le)
  then show ?thesis
    using assms(3) closed_mono [OF le] batch_sound_ledger ledger by (auto simp: pipeline_inv_def)
qed

text \<open>C28: a batch that left the queue holds no money. A batch whose job is on record and which is on
  the queue is either still on the queue or its hold has ended, after any rounds of the workers, whatever the
  providers answered, the accounts resolved to, the prices were and the databases and Redis failed to do,
  between any other calls on the queue (acknowledgements of this batch aside) and on the ledger.\<close>

theorem finished_batch_holds_nothing:
  assumes "IsValidBatchImageID (bj_BatchID job)" "batch_sound job w" "pending (fst (w_queue w)) (bj_BatchID job)"
    and "(pipeline_step E q (bj_BatchID job))\<^sup>*\<^sup>* w w'"
  shows "pending (fst (w_queue w')) (bj_BatchID job) \<or> \<not> open_hold (fst (w_ledger w')) (bj_BatchID job)"
proof -
  from assms(4) have "pipeline_inv job w'"
  proof (induction rule: rtranclp_induct)
    case base
    then show ?case using assms(2,3) by (simp add: pipeline_inv_def)
  next
    case (step y z)
    then show ?case using pipeline_step_inv [OF assms(1)] by blast
  qed
  then show ?thesis using closed_not_open by (auto simp: pipeline_inv_def batch_sound_def)
qed

definition demo_processor :: "int processor_env" where
  "demo_processor = \<lparr>pe_settle = demo_env, pe_ProviderRegistry = (\<lambda>_. None), pe_AccountResolver = Inr,
     pe_unmarshal = (\<lambda>_. Inl conn_error), pe_DefaultRequeue = 0, pe_SettlementService = True, pe_RetryDelay = 0\<rparr>"

definition demo_queued_world :: settle_world where
  "demo_queued_world = demo_world\<lparr>w_queue := (two_jobs, [])\<rparr>"

definition demo_round :: "(go_error \<times> settle_world \<times> redis_queue conn) option" where
  "demo_round = RunOnce (NewBatchImageQueue None) default_worker (pipeline_Process demo_processor 0) ''t'' second [] second
     [2 * second] hour demo_queued_world (w_queue demo_queued_world)"

lemma demo_round_drops: "map_option (\<lambda>(err, w, c). pending (fst c) ''imgbatch_1'') demo_round = Some False"
  by code_simp

theorem finished_batch_holds_nothing_witness:
  "\<exists>w'. (pipeline_step {demo_processor} (NewBatchImageQueue None) ''imgbatch_1'')\<^sup>*\<^sup>* demo_queued_world w' \<and>
     \<not> pending (fst (w_queue w')) ''imgbatch_1'' \<and> \<not> open_hold (fst (w_ledger w')) ''imgbatch_1''"
proof -
  obtain err w1 c1 where r: "demo_round = Some (err, w1, c1)" "\<not> pending (fst c1) ''imgbatch_1''"
    using demo_round_drops by (cases demo_round) auto
  have "pipeline_step {demo_processor} (NewBatchImageQueue None) ''imgbatch_1'' demo_queued_world (w1\<lparr>w_queue := c1\<rparr>)"
    by (rule pipeline_step.round [OF singletonI _ r(1) [unfolded demo_round_def]]) (simp add: demo_processor_def)
  then have st: "(pipeline_step {demo_processor} (NewBatchImageQueue None) ''imgbatch_1'')\<^sup>*\<^sup>* demo_queued_world (w1\<lparr>w_queue := c1\<rparr>)" by blast
  have "batch_sound demo_settling_job demo_queued_world"
    using in_settlement_sound [OF settling_in_settlement [OF demo_settling]]
    unfolding demo_queued_world_def batch_sound_queue .
  moreover have "pending (fst (w_queue demo_queued_world)) ''imgbatch_1''"
    by (simp add: demo_queued_world_def pending_def two_jobs_def)
  ultimately have "pending (fst c1) ''imgbatch_1'' \<or> \<not> open_hold (fst (w_ledger w1)) ''imgbatch_1''"
    using finished_batch_holds_nothing [of demo_settling_job demo_queued_world "{demo_processor}" "NewBatchImageQueue None" "w1\<lparr>w_queue := c1\<rparr>"]
      demo_batch_valid st unfolding demo_settling_id by simp
  with r(2) st show ?thesis by (intro exI [of _ "w1\<lparr>w_queue := c1\<rparr>"]) simp
qed

end
