(* ===== verification/BatchImagePublic.thy ===== *)
theory BatchImagePublic
  imports BatchImageRequest BatchImageProcessorLaws
begin

text \<open>
  The requests of a user about batches of images: \<open>BatchImagePublicService\<close> of
  \<open>service/batch_image_public.go\<close>, over the tables, the ledger and the queue.

  \<open>Submit\<close> takes several calls, and others may act between any two of them, for minutes while the provider
  is called. What they do to the world at the \<open>n\<close>-th of these moments is an argument of the model,
  \<open>others n\<close>; with the identity it is the code run alone. The accounts, groups, rates, prices and the
  providers are read through interfaces and are arguments. The state of a provider is outside the model, so
  that the cancellation of an orphaned job there shows as its event only. Logging and the invalidation of
  cached keys are left out; the ledger repository is taken as configured.
\<close>

section \<open>Views\<close>

definition ErrBatchImageProviderSubmitFailed :: go_error where
  "ErrBatchImageProviderSubmitFailed =
     New 502 ''BATCH_IMAGE_PROVIDER_SUBMIT_FAILED'' ''batch image provider submit failed''"

definition ErrBatchImageQueueFailed :: go_error where
  "ErrBatchImageQueueFailed = New 502 ''BATCH_IMAGE_QUEUE_FAILED'' ''batch image queue failed''"

definition ErrBatchImageIdempotencyConflict :: go_error where
  "ErrBatchImageIdempotencyConflict =
     New 409 ''BATCH_IMAGE_IDEMPOTENCY_CONFLICT'' ''idempotency key reused with different batch image request''"

definition ErrBatchImageCancelFailed :: go_error where
  "ErrBatchImageCancelFailed = New 502 ''BATCH_IMAGE_CANCEL_FAILED'' ''batch image cancel failed''"

definition ErrBatchImageVertexGCSBucketMissing :: go_error where
  "ErrBatchImageVertexGCSBucketMissing =
     New 502 ''BATCH_IMAGE_VERTEX_GCS_BUCKET_MISSING'' ''Vertex managed GCS bucket is not configured''"

definition ErrBatchImageProviderMissingAPIKey :: go_error where
  "ErrBatchImageProviderMissingAPIKey =
     New 400 ''BATCH_IMAGE_PROVIDER_MISSING_API_KEY'' ''batch image provider account is missing api key''"

definition ErrBatchImageProviderMissingServiceAccount :: go_error where
  "ErrBatchImageProviderMissingServiceAccount =
     New 400 ''BATCH_IMAGE_PROVIDER_MISSING_SERVICE_ACCOUNT''
       ''batch image provider account is missing service account credentials''"

definition maxBatchImagePublicErrorChars :: nat where
  "maxBatchImagePublicErrorChars = 500"

definition sanitizeBatchImagePublicMessage :: "string \<Rightarrow> string" where
  "sanitizeBatchImagePublicMessage message =
     (let m = trim_space message;
          m' = (if contains_any m [''gs://'', ''files/'', ''projects/''] then ''upstream provider operation failed'' else m)
      in take maxBatchImagePublicErrorChars m')"

record BatchImagePublicBatch =
  pub_ID :: string
  pub_Object :: string
  pub_TaskName :: string
  pub_ParentBatchID :: "string option"
  pub_Status :: string
  pub_Model :: string
  pub_Provider :: string
  pub_ItemCount :: int
  pub_SuccessCount :: int
  pub_FailCount :: int
  pub_EstimatedCost :: rat
  pub_HoldAmount :: rat
  pub_ActualCost :: "rat option"
  pub_CreatedAt :: int
  pub_SubmittedAt :: "int option"
  pub_SettledAt :: "int option"
  pub_DownloadedAt :: "int option"
  pub_OutputDeletedAt :: "int option"

definition PublicBatchImageStatus :: "string \<Rightarrow> string" where
  "PublicBatchImageStatus st =
     (if st = BatchImageJobStatusCreated \<or> st = BatchImageJobStatusUploading \<or> st = BatchImageJobStatusSubmitted
      then ''queued''
      else if st = BatchImageJobStatusRunning then ''running''
      else if st = BatchImageJobStatusIndexing then ''processing_results''
      else if st = BatchImageJobStatusSettling then ''settling''
      else if st = BatchImageJobStatusCompleted then ''completed''
      else if st = BatchImageJobStatusFailed then ''failed''
      else if st = BatchImageJobStatusCancelled then ''cancelled''
      else if st = BatchImageJobStatusOutputDeleted then ''output_deleted''
      else st)"

definition unix_seconds :: "time \<Rightarrow> int" where
  "unix_seconds t = t div second"

definition batchImageUnixPtr :: "time option \<Rightarrow> int option" where
  "batchImageUnixPtr t = map_option unix_seconds t"

text \<open>\<open>fmt\<close> is the layout of \<open>defaultBatchImageTaskName\<close>.\<close>

definition defaultBatchImageTaskName :: "(time \<Rightarrow> string) \<Rightarrow> time \<Rightarrow> time \<Rightarrow> string" where
  "defaultBatchImageTaskName fmt now t = fmt (if is_zero t then now else t)"

definition batchImagePublicTaskName :: "(time \<Rightarrow> string) \<Rightarrow> time \<Rightarrow> BatchImageJob \<Rightarrow> string" where
  "batchImagePublicTaskName fmt now job =
     (if trim_space (bj_TaskName job) \<noteq> [] then trim_space (bj_TaskName job)
      else defaultBatchImageTaskName fmt now (bj_CreatedAt job))"

definition BatchImageJobToPublic :: "(time \<Rightarrow> string) \<Rightarrow> time \<Rightarrow> BatchImageJob \<Rightarrow> BatchImagePublicBatch" where
  "BatchImageJobToPublic fmt now job =
     \<lparr>pub_ID = bj_BatchID job, pub_Object = ''image.batch'', pub_TaskName = batchImagePublicTaskName fmt now job,
      pub_ParentBatchID = bj_ParentBatchID job, pub_Status = PublicBatchImageStatus (bj_Status job),
      pub_Model = bj_Model job, pub_Provider = bj_Provider job, pub_ItemCount = bj_ItemCount job,
      pub_SuccessCount = bj_SuccessCount job, pub_FailCount = bj_FailCount job,
      pub_EstimatedCost = bj_EstimatedCost job, pub_HoldAmount = job_hold_amount job,
      pub_ActualCost = bj_ActualCost job, pub_CreatedAt = unix_seconds (bj_CreatedAt job),
      pub_SubmittedAt = batchImageUnixPtr (bj_SubmittedAt job), pub_SettledAt = batchImageUnixPtr (bj_SettledAt job),
      pub_DownloadedAt = batchImageUnixPtr (bj_DownloadedAt job),
      pub_OutputDeletedAt = batchImageUnixPtr (bj_OutputDeletedAt job)\<rparr>"

record BatchImagePublicError =
  pe_Code :: string
  pe_Message :: string
  pe_Source :: string

record BatchImagePublicItem =
  pi_CustomID :: string
  pi_Status :: string
  pi_PromptPreview :: "string option"
  pi_MimeType :: "string option"
  pi_FileExtension :: "string option"
  pi_ImageCount :: int
  pi_Error :: "BatchImagePublicError option"

definition batchImageItemErrorSource :: "BatchImageItem \<Rightarrow> string" where
  "batchImageItemErrorSource item =
     (case bi_ErrorCode item of
        None \<Rightarrow> []
      | Some raw \<Rightarrow>
          (let code = trim_space raw in
           if batchImageDerefString (bi_ProviderSourceObject item) \<noteq> [] then ''provider''
           else if code = ''EMPTY_IMAGE_OUTPUT'' \<or> code = ''PROVIDER_ITEM_FAILED'' then ''provider''
           else if code = ''INDEX_OUTPUT_MISSING'' \<or> code = ''INDEX_PARSE_FAILED'' \<or> code = ''DUPLICATE_CUSTOM_ID_IN_OUTPUT''
           then ''system''
           else []))"

definition BatchImageItemToPublic :: "BatchImageItem \<Rightarrow> BatchImagePublicItem" where
  "BatchImageItemToPublic item =
     (let out = \<lparr>pi_CustomID = bi_CustomID item, pi_Status = ''failed'', pi_PromptPreview = bi_PromptPreview item,
                 pi_MimeType = bi_MimeType item, pi_FileExtension = bi_FileExtension item,
                 pi_ImageCount = bi_ImageCount item, pi_Error = None\<rparr> in
      if bi_Status item = BatchImageItemStatusPending then out\<lparr>pi_Status := ''pending''\<rparr>
      else if bi_Status item = BatchImageItemStatusSuccess then out\<lparr>pi_Status := ''succeeded''\<rparr>
      else out\<lparr>pi_Error := Some \<lparr>pe_Code = batchImageDerefString (bi_ErrorCode item),
                 pe_Message = sanitizeBatchImagePublicMessage (batchImageDerefString (bi_ErrorMessage item)),
                 pe_Source = batchImageItemErrorSource item\<rparr>\<rparr>)"

section \<open>The service\<close>

record BatchImageInput =
  in_BatchID :: string
  in_Model :: string
  in_DisplayName :: string
  in_Items :: "(string \<times> string \<times> BatchImageReferenceInput list) list"
  in_ResponseMimeType :: string
  in_AspectRatio :: string
  in_ImageSize :: string
  in_Metadata :: "(string \<times> string) list"

record BatchProviderJob =
  pj_ProviderJobName :: string
  pj_ProviderInputRef :: string
  pj_ProviderOutputRef :: string
  pj_RawState :: string

record public_provider =
  pp_SupportsAccount :: "Account \<Rightarrow> bool"
  pp_Submit :: "BatchImageJob \<Rightarrow> Account \<Rightarrow> BatchImageInput \<Rightarrow> go_error + BatchProviderJob option"
  pp_Cancel :: "BatchImageJob \<Rightarrow> Account \<Rightarrow> go_error"

record BatchImagePublicService =
  pb_settle :: settle_env
  pb_Config :: "batch_image_config option"
  pb_AccountRepo :: "BatchImageAccountSelectionRepository option"
  pb_pricing :: pricing_env
  pb_ProviderRegistry :: "string \<Rightarrow> public_provider option"
  pb_Queue :: "batchImageQueueOptions option"
  pb_marshal :: "BatchImageSubmitRequest \<Rightarrow> string"
  pb_new_id :: "go_error + string"
  pb_task_name :: "time \<Rightarrow> string"
  pb_rfc3339 :: "time \<Rightarrow> string"
  pb_transient :: bool

definition service_enabled :: "BatchImagePublicService \<Rightarrow> bool" where
  "service_enabled s \<longleftrightarrow> pb_AccountRepo s \<noteq> None \<and> (case pb_Config s of None \<Rightarrow> False | Some c \<Rightarrow> cf_Enabled c)"

abbreviation job_to_public :: "BatchImagePublicService \<Rightarrow> time \<Rightarrow> BatchImageJob \<Rightarrow> BatchImagePublicBatch" where
  "job_to_public s now \<equiv> BatchImageJobToPublic (pb_task_name s) now"

text \<open>The session is not part of the JSON of a request.\<close>

definition HashBatchImageSubmitRequest :: "BatchImagePublicService \<Rightarrow> BatchImageSubmitRequest \<Rightarrow> string" where
  "HashBatchImageSubmitRequest s req =
     hash_hex (se_fc (pb_settle s))
       (pb_marshal s (req\<lparr>rq_Metadata := sanitizeBatchImageMetadata (rq_Metadata req), rq_SessionID := None\<rparr>))"

type_synonym public_reply = "(go_error + BatchImagePublicBatch) \<times> settle_world"

text \<open>\<open>Enqueue\<close> where a job that is queued already is no error; \<open>NilErr\<close> as well when there is no queue.\<close>

definition enqueue_in :: "BatchImagePublicService \<Rightarrow> time \<Rightarrow> string \<Rightarrow> settle_world \<Rightarrow> go_error \<times> settle_world" where
  "enqueue_in s now batchID w =
     (case pb_Queue s of
        None \<Rightarrow> (NilErr, w)
      | Some q \<Rightarrow>
          (case q_Enqueue q batchID now (w_queue w) of (err, c) \<Rightarrow>
             (if errors_is err ErrBatchImageAlreadyQueued then NilErr else err, w\<lparr>w_queue := c\<rparr>)))"

definition record_failure ::
  "time \<Rightarrow> string \<Rightarrow> string \<Rightarrow> string \<Rightarrow> bool \<Rightarrow> settle_world \<Rightarrow> settle_world" where
  "record_failure now batchID code message markFailed w =
     w\<lparr>w_db := snd (RecordBatchImageJobSubmitFailure batchID code message markFailed now (w_db w))\<rparr>"

definition public_message :: "BatchImagePublicService \<Rightarrow> go_error \<Rightarrow> string" where
  "public_message s err = sanitizeBatchImagePublicMessage (se_error_text (pb_settle s) err)"

definition append_event :: "string \<Rightarrow> string \<Rightarrow> event_payload \<Rightarrow> settle_world \<Rightarrow> settle_world" where
  "append_event batchID ty payload w = w\<lparr>w_db := snd (AppendBatchImageEvent batchID ty payload (w_db w))\<rparr>"

definition enqueueBillingRetry :: "BatchImagePublicService \<Rightarrow> time \<Rightarrow> string \<Rightarrow> settle_world \<Rightarrow> settle_world" where
  "enqueueBillingRetry s now batchID w =
     (case enqueue_in s now batchID w of (err, w1) \<Rightarrow>
        if err \<noteq> NilErr then
          append_event batchID ''billing_retry_enqueue_failed''
            (Some [(''batch_id'', batchID), (''error'', public_message s err)]) w1
        else w1)"

definition hidePreUpstreamSubmitFailure ::
  "BatchImagePublicService \<Rightarrow> time \<Rightarrow> BatchImageOwner \<Rightarrow> BatchImageJob \<Rightarrow> settle_world \<Rightarrow> settle_world" where
  "hidePreUpstreamSubmitFailure s now owner job w =
     (if bj_ProviderJobName job \<noteq> None then w
      else w\<lparr>w_db := snd (MarkBatchImageJobUserDeleted (pb_rfc3339 s) (ow_UserID owner) (ow_APIKeyID owner)
                            (bj_BatchID job) now (w_db w))\<rparr>)"

definition releaseFailedSubmitHold ::
  "BatchImagePublicService \<Rightarrow> time \<Rightarrow> BatchImageJob \<Rightarrow> string \<Rightarrow> settle_world \<Rightarrow> go_error \<times> settle_world" where
  "releaseFailedSubmitHold s now job requestHash w =
     (case releaseBatchImageBalanceHold (se_fc (pb_settle s)) job requestHash (w_ledger w) of (err, l) \<Rightarrow>
        let w1 = w\<lparr>w_ledger := l\<rparr> in
        if err \<noteq> NilErr then
          (ErrBatchImageBillingHoldFailed,
           enqueueBillingRetry s now (bj_BatchID job)
             (record_failure now (bj_BatchID job) ''BILLING_RELEASE_FAILED'' (public_message s err) True w1))
        else (NilErr, w1))"

section \<open>Submission\<close>

definition pending_item :: "batch_image_config option \<Rightarrow> string \<Rightarrow> string \<Rightarrow> BatchImageSubmitItem \<Rightarrow> CreateBatchImageItemParams" where
  "pending_item cfg batchID requestHash item =
     \<lparr>ci_JobID = batchID, ci_CustomID = si_CustomID item, ci_Status = BatchImageItemStatusPending,
      ci_RequestHash = Some requestHash,
      ci_PromptPreview = Some (truncateBatchImageMessage (si_Prompt item) (maxPromptChars cfg)),
      ci_ProviderSourceObject = None, ci_SourceLineNumber = None, ci_SourceByteOffset = None, ci_SourceByteLength = None,
      ci_MimeType = None, ci_FileExtension = None, ci_ImageCount = 0, ci_ErrorCode = None, ci_ErrorMessage = None,
      ci_BilledAmount = None, ci_IndexedAt = None\<rparr>"

definition createPendingItems ::
  "BatchImagePublicService \<Rightarrow> string \<Rightarrow> string \<Rightarrow> BatchImageSubmitItem list \<Rightarrow> settle_world \<Rightarrow>
   (go_error + unit) \<times> settle_world" where
  "createPendingItems s batchID requestHash items w =
     (if items = [] then (Inr (), w)
      else with_db (BulkCreateBatchImageItems (map (pending_item (pb_Config s) batchID requestHash) items) (w_db w)) w)"

definition batchImageGCSRef :: "string \<Rightarrow> string \<Rightarrow> string" where
  "batchImageGCSRef provider ref =
     (if provider = BatchImageProviderVertex \<and> has_prefix ''gs://'' (trim_space ref) then trim_space ref else [])"

definition batchImageProviderSubmitPublicError :: "go_error \<Rightarrow> go_error" where
  "batchImageProviderSubmitPublicError err =
     (let reason = trim_space (error_reason err) in
      if reason = ''VERTEX_MANAGED_GCS_BUCKET_MISSING'' then ErrBatchImageVertexGCSBucketMissing
      else if reason = ''BATCH_IMAGE_PROVIDER_MISSING_API_KEY'' then ErrBatchImageProviderMissingAPIKey
      else if reason = ''BATCH_IMAGE_PROVIDER_MISSING_SERVICE_ACCOUNT'' then ErrBatchImageProviderMissingServiceAccount
      else if reason = ''BATCH_IMAGE_PROVIDER_UNSUPPORTED_ACCOUNT'' then ErrBatchImageProviderUnsupportedAccount
      else ErrBatchImageProviderSubmitFailed)"

definition batchImageProviderSubmitRecordCode :: "go_error \<Rightarrow> string" where
  "batchImageProviderSubmitRecordCode err =
     (let reason = trim_space (error_reason err) in
      if reason = [] \<or> reason = ''BATCH_IMAGE_PROVIDER_SUBMIT_FAILED'' then ''PROVIDER_SUBMIT_FAILED'' else reason)"

definition provider_input :: "BatchImageJob \<Rightarrow> BatchImageSubmitRequest \<Rightarrow> BatchImageInput" where
  "provider_input job req =
     \<lparr>in_BatchID = bj_BatchID job, in_Model = rq_Model req, in_DisplayName = bj_BatchID job,
      in_Items = map (\<lambda>i. (si_CustomID i, si_Prompt i, si_ReferenceImages i)) (rq_Items req),
      in_ResponseMimeType = rq_ResponseMimeType req, in_AspectRatio = rq_AspectRatio req,
      in_ImageSize = rq_ImageSize req, in_Metadata = rq_Metadata req\<rparr>"

definition submit_job_params ::
  "string \<Rightarrow> BatchImageOwner \<Rightarrow> Account \<Rightarrow> string \<Rightarrow> BatchImageSubmitRequest \<Rightarrow> string option \<Rightarrow> BatchImagePricingSnapshot \<Rightarrow>
   string \<Rightarrow> string \<Rightarrow> CreateBatchImageJobParams" where
  "submit_job_params batchID owner account provider req parent snap key requestHash =
     \<lparr>cj_BatchID = batchID, cj_UserID = ow_UserID owner, cj_APIKeyID = Some (ow_APIKeyID owner),
      cj_AccountID = Some (ac_ID account), cj_Provider = provider, cj_Model = rq_Model req, cj_TaskName = rq_TaskName req,
      cj_ParentBatchID = parent, cj_Status = BatchImageJobStatusCreated, cj_ProviderJobName = None,
      cj_ProviderInputRef = None, cj_ProviderOutputRef = None, cj_GCSInputURI = None, cj_GCSOutputURI = None,
      cj_ItemCount = int (length (rq_Items req)), cj_SuccessCount = 0, cj_FailCount = 0, cj_CancelledCount = 0,
      cj_EstimatedCost = ps_EstimatedCost snap, cj_HoldAmount = Some (ps_HoldAmount snap), cj_ActualCost = None,
      cj_BaseUnitPrice = ps_BaseUnitPrice snap, cj_GroupRateMultiplier = ps_GroupRateMultiplier snap,
      cj_AccountRateMultiplier = ps_AccountRateMultiplier snap,
      cj_BatchDiscountMultiplier = ps_BatchDiscountMultiplier snap, cj_HoldMultiplier = ps_HoldMultiplier snap,
      cj_BillableUnitPrice = ps_BillableUnitPrice snap, cj_HoldUnitPrice = ps_HoldUnitPrice snap,
      cj_PricingSnapshotVersion = 1, cj_Currency = ''USD'', cj_HoldID = Some (BatchImageHoldRequestID batchID),
      cj_IdempotencyKey = batchImageOptionalStringPtr key, cj_RequestHash = Some requestHash, cj_ManifestHash = None,
      cj_SessionID = rq_SessionID req, cj_RetryCount = 0, cj_OutputExpiresAt = None\<rparr>"

text \<open>The ledger reads the same table of jobs: a row that was created is seen there as well.\<close>

definition seen_by_ledger :: "string \<Rightarrow> settle_world \<Rightarrow> settle_world" where
  "seen_by_ledger batchID w =
     (case job_by_batch batchID (fst (w_db w)) of
        None \<Rightarrow> w
      | Some j \<Rightarrow>
          (case bj_APIKeyID j of
             None \<Rightarrow> w
           | Some key \<Rightarrow>
               w\<lparr>w_ledger := ((fst (w_ledger w))\<lparr>jobs := (jobs (fst (w_ledger w)))(batchID \<mapsto> job_view j key)\<rparr>,
                              snd (w_ledger w))\<rparr>))"

text \<open>A failure before the provider has the job: the hold is released, then the failure recorded and the
  job hidden; the result is the error of the release, if there is one, or \<open>err\<close>.\<close>

definition fail_submit ::
  "BatchImagePublicService \<Rightarrow> time \<Rightarrow> (nat \<Rightarrow> settle_world \<Rightarrow> settle_world) \<Rightarrow> BatchImageOwner \<Rightarrow> BatchImageJob \<Rightarrow> string \<Rightarrow>
   string \<Rightarrow> string \<Rightarrow> go_error \<Rightarrow> settle_world \<Rightarrow> public_reply" where
  "fail_submit s now others owner job requestHash code message err w =
     (case releaseFailedSubmitHold s now job requestHash w of (releaseErr, w1) \<Rightarrow>
        if releaseErr \<noteq> NilErr then (Inl releaseErr, w1)
        else (Inl err, hidePreUpstreamSubmitFailure s now owner job
                         (record_failure now (bj_BatchID job) code message True (others 8 w1))))"

text \<open>The heartbeat while the provider is called.\<close>

definition runSubmitHeartbeat :: "string \<Rightarrow> time list \<Rightarrow> settle_world \<Rightarrow> settle_world" where
  "runSubmitHeartbeat batchID ticks w =
     fold (\<lambda>t w. w\<lparr>w_db := snd (TouchBatchImageJobSubmitting batchID t (w_db w))\<rparr>) ticks w"

definition submitHeartbeatInterval :: "int option \<Rightarrow> duration" where
  "submitHeartbeatInterval staleActiveAfterSeconds =
     (let staleAfter = (case staleActiveAfterSeconds of None \<Rightarrow> 10 * minute | Some n \<Rightarrow> if n > 0 then n * second else 10 * minute);
          interval = trunc_div staleAfter 3
      in if interval < 15 * second then 15 * second else interval)"

definition abortOrphanProviderJob :: "string \<Rightarrow> BatchImageJob \<Rightarrow> settle_world \<Rightarrow> settle_world" where
  "abortOrphanProviderJob provider job w =
     append_event (bj_BatchID job) ''provider_job_aborted_after_submit''
       (Some [(''batch_id'', bj_BatchID job), (''provider'', provider)]) w"

text \<open>After the provider took the job.\<close>

definition submit_accepted ::
  "BatchImagePublicService \<Rightarrow> time \<Rightarrow> (nat \<Rightarrow> settle_world \<Rightarrow> settle_world) \<Rightarrow> string \<Rightarrow> BatchImageJob \<Rightarrow> BatchProviderJob \<Rightarrow>
   settle_world \<Rightarrow> public_reply" where
  "submit_accepted s now others provider job pj w =
     (case with_db (UpdateBatchImageJobProviderSubmit
              \<lparr>ps_BatchID = bj_BatchID job, ps_ProviderJobName = pj_ProviderJobName pj,
               ps_ProviderInputRef = pj_ProviderInputRef pj, ps_ProviderOutputRef = pj_ProviderOutputRef pj,
               ps_GCSInputURI = batchImageGCSRef provider (pj_ProviderInputRef pj),
               ps_GCSOutputURI = batchImageGCSRef provider (pj_ProviderOutputRef pj),
               ps_EventPayload = Some [(''provider'', provider)]\<rparr> now (w_db w)) w of
        (Inl err, w1) \<Rightarrow> (Inl err, abortOrphanProviderJob provider job w1)
      | (Inr _, w1) \<Rightarrow>
          (case enqueue_in s now (bj_BatchID job) (others 6 w1) of (err, w2) \<Rightarrow>
             if err \<noteq> NilErr then
               (Inl ErrBatchImageQueueFailed,
                record_failure now (bj_BatchID job) ''QUEUE_FAILED'' (public_message s err) False w2)
             else
               (case with_db (GetBatchImageJobByBatchID (bj_BatchID job) (w_db (others 7 w2))) (others 7 w2) of
                  (Inl e, w3) \<Rightarrow> (Inl e, w3)
                | (Inr created, w3) \<Rightarrow> (Inr (job_to_public s now created), w3))))"

text \<open>From the upload on. \<open>ticks\<close> are the times of the heartbeats.\<close>

definition submit_upload ::
  "BatchImagePublicService \<Rightarrow> time \<Rightarrow> (nat \<Rightarrow> settle_world \<Rightarrow> settle_world) \<Rightarrow> time list \<Rightarrow> BatchImageOwner \<Rightarrow>
   BatchImageSubmitRequest \<Rightarrow> string \<Rightarrow> string \<Rightarrow> public_provider \<Rightarrow> Account \<Rightarrow> BatchImageJob \<Rightarrow> settle_world \<Rightarrow> public_reply" where
  "submit_upload s now others ticks owner req requestHash name provider account job w =
     (case transition_in now job BatchImageJobStatusUploading ''upload_started'' (Some [(''batch_id'', bj_BatchID job)])
             None None w of
        (Inl err, w1) \<Rightarrow>
          if errors_is err ErrBatchImageInvalidTransition then
            (case releaseFailedSubmitHold s now job requestHash w1 of (releaseErr, w2) \<Rightarrow>
               (Inl (if releaseErr \<noteq> NilErr then releaseErr else err), w2))
          else fail_submit s now others owner job requestHash ''UPLOAD_TRANSITION_FAILED'' (public_message s err) err w1
      | (Inr _, w1) \<Rightarrow>
          (let job1 = job\<lparr>bj_Status := BatchImageJobStatusUploading\<rparr>;
               w2 = runSubmitHeartbeat (bj_BatchID job) ticks (others 5 w1)
           in case pp_Submit provider job1 account (provider_input job req) of
                Inl err \<Rightarrow>
                  (let publicErr = batchImageProviderSubmitPublicError err in
                   fail_submit s now others owner job1 requestHash (batchImageProviderSubmitRecordCode publicErr)
                     (public_message s err) publicErr w2)
              | Inr None \<Rightarrow>
                  fail_submit s now others owner job1 requestHash ''PROVIDER_SUBMIT_FAILED'' ''provider job name missing''
                    ErrBatchImageProviderSubmitFailed w2
              | Inr (Some pj) \<Rightarrow>
                  if trim_space (pj_ProviderJobName pj) = [] then
                    fail_submit s now others owner job1 requestHash ''PROVIDER_SUBMIT_FAILED'' ''provider job name missing''
                      ErrBatchImageProviderSubmitFailed w2
                  else submit_accepted s now others name job1 pj w2))"

text \<open>From the new row on: the hold, the items, the upload.\<close>

definition submit_created ::
  "BatchImagePublicService \<Rightarrow> time \<Rightarrow> (nat \<Rightarrow> settle_world \<Rightarrow> settle_world) \<Rightarrow> time list \<Rightarrow> BatchImageOwner \<Rightarrow>
   BatchImageSubmitRequest \<Rightarrow> string \<Rightarrow> string \<Rightarrow> public_provider \<Rightarrow> Account \<Rightarrow> BatchImageJob \<Rightarrow> settle_world \<Rightarrow> public_reply" where
  "submit_created s now others ticks owner req requestHash name provider account job w =
     (case reserveBatchImageBalanceHold (se_fc (pb_settle s)) job requestHash (w_ledger w) of (err, l) \<Rightarrow>
        let w1 = w\<lparr>w_ledger := l\<rparr> in
        if err \<noteq> NilErr then
          (let code = (if errors_is err ErrBatchImageInsufficientBalance then ''INSUFFICIENT_BALANCE''
                       else ''BILLING_HOLD_FAILED'') in
           (Inl err, hidePreUpstreamSubmitFailure s now owner job
                       (record_failure now (bj_BatchID job) code (public_message s err) True w1)))
        else
          (case createPendingItems s (bj_BatchID job) requestHash (rq_Items req) (others 3 w1) of
             (Inl err, w2) \<Rightarrow>
               fail_submit s now others owner job requestHash ''ITEM_CREATE_FAILED'' (public_message s err)
                 ErrBatchImageQueueFailed w2
           | (Inr _, w2) \<Rightarrow>
               submit_upload s now others ticks owner req requestHash name provider account job (others 4 w2)))"

definition submit_parent ::
  "BatchImageOwner \<Rightarrow> BatchImageSubmitRequest \<Rightarrow> settle_world \<Rightarrow> (go_error + string option) \<times> settle_world" where
  "submit_parent owner req w =
     (case batchImageOptionalStringPtr (rq_ParentBatchID req) of
        None \<Rightarrow> (Inr None, w)
      | Some p \<Rightarrow>
          (case with_db (GetBatchImageJobByBatchIDForOwner (ow_UserID owner) (ow_APIKeyID owner) p (w_db w)) w of
             (Inl e, w1) \<Rightarrow> (Inl e, w1)
           | (Inr parent, w1) \<Rightarrow>
               (case bj_ParentBatchID parent of
                  Some pp \<Rightarrow> if trim_space pp \<noteq> [] then (Inr (batchImageOptionalStringPtr pp), w1) else (Inr (Some p), w1)
                | None \<Rightarrow> (Inr (Some p), w1))))"

definition submit_new ::
  "BatchImagePublicService \<Rightarrow> time \<Rightarrow> (nat \<Rightarrow> settle_world \<Rightarrow> settle_world) \<Rightarrow> time list \<Rightarrow> BatchImageOwner \<Rightarrow>
   BatchImageSubmitRequest \<Rightarrow> string \<Rightarrow> string \<Rightarrow> settle_world \<Rightarrow> public_reply" where
  "submit_new s now others ticks owner req requestHash key w =
     (case selectProviderAndAccount (\<lambda>n. map_option pp_SupportsAccount (pb_ProviderRegistry s n)) (pb_AccountRepo s)
             (pb_transient s) now owner (rq_Provider req) (rq_Model req) of
        Inl e \<Rightarrow> (Inl e, w)
      | Inr (name, account) \<Rightarrow>
          (case resolvePricingSnapshot (pb_pricing s) owner req name (Some account) of
             Inl e \<Rightarrow> (Inl e, w)
           | Inr snap \<Rightarrow>
               (case submit_parent owner req w of
                  (Inl e, w1) \<Rightarrow> (Inl e, w1)
                | (Inr parent, w1) \<Rightarrow>
                    (case pb_new_id s of
                       Inl e \<Rightarrow> (Inl e, w1)
                     | Inr batchID \<Rightarrow>
                         (case with_db (CreateBatchImageJob (pb_new_id s)
                                  (submit_job_params batchID owner account name req parent snap key requestHash)
                                  (w_db (others 1 w1))) (others 1 w1) of
                            (Inl e, w2) \<Rightarrow> (Inl e, seen_by_ledger batchID w2)
                          | (Inr job, w2) \<Rightarrow>
                              submit_created s now others ticks owner req requestHash name
                                (the (pb_ProviderRegistry s name)) account job
                                (others 2 (seen_by_ledger batchID w2)))))))"

definition submit_existing ::
  "BatchImagePublicService \<Rightarrow> time \<Rightarrow> BatchImageJob \<Rightarrow> string \<Rightarrow> settle_world \<Rightarrow> public_reply" where
  "submit_existing s now existing requestHash w =
     (if batchImageDerefString (bj_RequestHash existing) \<noteq> requestHash then (Inl ErrBatchImageIdempotencyConflict, w)
      else if bj_Status existing = BatchImageJobStatusSubmitted \<and> pb_Queue s \<noteq> None then
        (case enqueue_in s now (bj_BatchID existing) w of (err, w1) \<Rightarrow>
           if err \<noteq> NilErr then
             (Inl ErrBatchImageQueueFailed,
              record_failure now (bj_BatchID existing) ''QUEUE_FAILED'' (public_message s err) False w1)
           else (Inr (job_to_public s now existing), w1))
      else (Inr (job_to_public s now existing), w))"

definition Submit ::
  "BatchImagePublicService \<Rightarrow> time \<Rightarrow> (nat \<Rightarrow> settle_world \<Rightarrow> settle_world) \<Rightarrow> time list \<Rightarrow> BatchImageOwner \<Rightarrow>
   BatchImageSubmitRequest \<Rightarrow> string \<Rightarrow> settle_world \<Rightarrow> public_reply" where
  "Submit s now others ticks owner req idempotencyKey w =
     (if \<not> service_enabled s then (Inl ErrBatchImageDisabled, w)
      else
        (case validateSubmitRequest (pb_Config s) (defaultBatchImageTaskName (pb_task_name s) now now) req of
           Inl e \<Rightarrow> (Inl e, w)
         | Inr normalized \<Rightarrow>
             (let groupErr = ensureGroupAllowsBatchImage (pb_pricing s) (ow_GroupID owner);
                  requestHash = HashBatchImageSubmitRequest s normalized; key = trim_space idempotencyKey
              in
              if groupErr \<noteq> NilErr then (Inl groupErr, w)
              else if key = [] then submit_new s now others ticks owner normalized requestHash key w
              else
                (case with_db (GetBatchImageJobByIdempotencyKey (ow_UserID owner) (ow_APIKeyID owner) key (w_db w)) w of
                   (Inr existing, w1) \<Rightarrow> submit_existing s now existing requestHash w1
                 | (Inl err, w1) \<Rightarrow>
                     if \<not> errors_is err ErrBatchImageJobNotFound then (Inl err, w1)
                     else submit_new s now others ticks owner normalized requestHash key (others 0 w1)))))"

section \<open>Cancellation\<close>

definition release_for :: "BatchImagePublicService \<Rightarrow> BatchImageJob \<Rightarrow> settle_world \<Rightarrow> go_error \<times> settle_world" where
  "release_for s job w = release_in (pb_settle s) job w"

definition cancel_done :: "BatchImagePublicService \<Rightarrow> time \<Rightarrow> BatchImageJob \<Rightarrow> settle_world \<Rightarrow> public_reply" where
  "cancel_done s now job w =
     (if bj_Status job = BatchImageJobStatusFailed \<or> bj_Status job = BatchImageJobStatusCancelled then
        (case release_for s job w of (err, w1) \<Rightarrow>
           if err \<noteq> NilErr then (Inl ErrBatchImageCancelFailed, enqueueBillingRetry s now (bj_BatchID job) w1)
           else (Inr (job_to_public s now job), w1))
      else (Inr (job_to_public s now job), w))"

definition cancel_at_provider ::
  "BatchImagePublicService \<Rightarrow> time \<Rightarrow> (nat \<Rightarrow> settle_world \<Rightarrow> settle_world) \<Rightarrow> BatchImageOwner \<Rightarrow> string \<Rightarrow> BatchImageJob \<Rightarrow>
   settle_world \<Rightarrow> public_reply" where
  "cancel_at_provider s now others owner batchID job w =
     (case pb_ProviderRegistry s (bj_Provider job) of
        None \<Rightarrow> (Inl ErrBatchImageUnsupportedProvider, w)
      | Some provider \<Rightarrow>
          if bj_AccountID job = None then (Inl ErrBatchImageCancelFailed, w)
          else
            (case (case pb_AccountRepo s of None \<Rightarrow> Inl ErrBatchImageCancelFailed
                     | Some r \<Rightarrow> ar_GetByID r (the (bj_AccountID job))) of
               Inl e \<Rightarrow> (Inl ErrBatchImageCancelFailed, w)
             | Inr account \<Rightarrow>
                 if pp_Cancel provider job account \<noteq> NilErr then (Inl ErrBatchImageCancelFailed, w)
                 else
                   (let w1 = append_event (bj_BatchID job) ''job_cancel_requested'' (Some [(''batch_id'', bj_BatchID job)])
                               (others 1 w)
                    in case enqueue_in s now (bj_BatchID job) (others 2 w1) of (err, w2) \<Rightarrow>
                         if err \<noteq> NilErr then (Inl ErrBatchImageCancelFailed, w2)
                         else
                           (case with_db (GetBatchImageJobByBatchIDForOwner (ow_UserID owner) (ow_APIKeyID owner) batchID
                                   (w_db (others 3 w2))) (others 3 w2) of
                              (Inl e, w3) \<Rightarrow> (Inl e, w3)
                            | (Inr updated, w3) \<Rightarrow> (Inr (job_to_public s now updated), w3)))))"

definition cancel_created ::
  "BatchImagePublicService \<Rightarrow> time \<Rightarrow> (nat \<Rightarrow> settle_world \<Rightarrow> settle_world) \<Rightarrow> BatchImageOwner \<Rightarrow> string \<Rightarrow> BatchImageJob \<Rightarrow>
   settle_world \<Rightarrow> public_reply" where
  "cancel_created s now others owner batchID job w =
     (case with_db (TransitionBatchImageJobStatus (bj_BatchID job) BatchImageJobStatusCancelled
              \<lparr>to_ExpectedStatus = BatchImageJobStatusCreated, to_EventType = ''job_cancelled'',
               to_EventPayload = Some [(''batch_id'', bj_BatchID job)], to_ErrorCode = None, to_ErrorMessage = None,
               to_Now = None\<rparr> now (w_db w)) w of
        (Inl e, w1) \<Rightarrow> (Inl e, w1)
      | (Inr _, w1) \<Rightarrow>
          (case release_for s job (others 1 w1) of (err, w2) \<Rightarrow>
             if err \<noteq> NilErr then (Inl ErrBatchImageCancelFailed, enqueueBillingRetry s now (bj_BatchID job) w2)
             else
               (case with_db (GetBatchImageJobByBatchIDForOwner (ow_UserID owner) (ow_APIKeyID owner) batchID
                       (w_db (others 2 w2))) (others 2 w2) of
                  (Inl e, w3) \<Rightarrow> (Inl e, w3)
                | (Inr updated, w3) \<Rightarrow> (Inr (job_to_public s now updated), w3))))"

definition Cancel ::
  "BatchImagePublicService \<Rightarrow> time \<Rightarrow> (nat \<Rightarrow> settle_world \<Rightarrow> settle_world) \<Rightarrow> BatchImageOwner \<Rightarrow> string \<Rightarrow> settle_world \<Rightarrow>
   public_reply" where
  "Cancel s now others owner batchID w =
     (case with_db (GetBatchImageJobByBatchIDForOwner (ow_UserID owner) (ow_APIKeyID owner) batchID (w_db w)) w of
        (Inl e, w1) \<Rightarrow> (Inl e, w1)
      | (Inr job, w1) \<Rightarrow>
          if isBatchImageProcessorDoneStatus (bj_Status job) then cancel_done s now job (others 0 w1)
          else if batchImageDerefString (bj_ProviderJobName job) \<noteq> [] then
            cancel_at_provider s now others owner batchID job (others 0 w1)
          else if bj_Status job \<noteq> BatchImageJobStatusCreated then (Inl ErrBatchImageCancelFailed, w1)
          else cancel_created s now others owner batchID job (others 0 w1))"

section \<open>Reading, downloads and deletion\<close>

definition parseBatchImageCursor :: "string \<Rightarrow> int" where
  "parseBatchImageCursor cursor =
     (case ParseInt (trim_space cursor) of None \<Rightarrow> 0 | Some offset \<Rightarrow> if offset < 0 then 0 else offset)"

text \<open>\<open>parse\<close> is \<open>time.Parse\<close> with the layouts RFC 3339 and, after it, the date alone.\<close>

definition parseBatchImageListTime :: "(string \<Rightarrow> time option) \<Rightarrow> string \<Rightarrow> time option" where
  "parseBatchImageListTime parse raw0 =
     (let raw = trim_space raw0 in
      if raw = [] then None
      else (case ParseInt raw of
              Some unix \<Rightarrow> if unix > 0 then Some (unix * second) else parse raw
            | None \<Rightarrow> parse raw))"

record BatchImageJobsQuery =
  jq_Status :: string
  jq_TaskName :: string
  jq_Downloaded :: string
  jq_From :: string
  jq_To :: string
  jq_Limit :: int
  jq_Cursor :: string

definition list_status :: "string \<Rightarrow> string" where
  "list_status raw =
     (let st = trim_space raw in
      if st = [] \<or> st = ''all'' then []
      else if st = ''queued'' then BatchImageJobStatusSubmitted
      else if st = ''processing_results'' then BatchImageJobStatusIndexing
      else if st = ''completed'' then BatchImageJobStatusCompleted
      else if st = ''failed'' then BatchImageJobStatusFailed
      else if st = ''cancelled'' then BatchImageJobStatusCancelled
      else if st = ''output_deleted'' then BatchImageJobStatusOutputDeleted
      else st)"

definition list_downloaded :: "string \<Rightarrow> go_error + bool option" where
  "list_downloaded raw =
     (let d = trim_space (to_lower raw) in
      if d \<in> set [[], ''all''] then Inr None
      else if d \<in> set [''true'', ''1'', ''yes'', ''downloaded''] then Inr (Some True)
      else if d \<in> set [''false'', ''0'', ''no'', ''not_downloaded''] then Inr (Some False)
      else Inl ErrBatchImageInvalidItems)"

definition jobs_filter :: "(string \<Rightarrow> time option) \<Rightarrow> BatchImageJobsQuery \<Rightarrow> go_error + BatchImageJobFilter" where
  "jobs_filter parse query =
     (case list_downloaded (jq_Downloaded query) of
        Inl e \<Rightarrow> Inl e
      | Inr downloaded \<Rightarrow>
          Inr \<lparr>jf_Status = list_status (jq_Status query), jf_TaskNameLike = trim_space (jq_TaskName query),
               jf_Downloaded = downloaded, jf_CreatedAfter = parseBatchImageListTime parse (jq_From query),
               jf_CreatedBefore = parseBatchImageListTime parse (jq_To query), jf_ExcludeDeleted = True,
               jf_Limit = (if jq_Limit query \<le> 0 \<or> jq_Limit query > 100 then 20 else jq_Limit query),
               jf_Offset = parseBatchImageCursor (jq_Cursor query)\<rparr>)"

record 'a public_list =
  pl_Data :: "'a list"
  pl_HasMore :: bool

definition List ::
  "BatchImagePublicService \<Rightarrow> time \<Rightarrow> (string \<Rightarrow> time option) \<Rightarrow> (string \<Rightarrow> string \<Rightarrow> bool) \<Rightarrow> BatchImageOwner \<Rightarrow>
   BatchImageJobsQuery \<Rightarrow> settle_world \<Rightarrow> (go_error + BatchImagePublicBatch public_list) \<times> settle_world" where
  "List s now parse ilike owner query w =
     (case jobs_filter parse query of
        Inl e \<Rightarrow> (Inl e, w)
      | Inr filt \<Rightarrow>
          (case with_db (ListBatchImageJobsForOwner ilike (ow_UserID owner) (ow_APIKeyID owner) filt (w_db w)) w of
             (Inl e, w1) \<Rightarrow> (Inl e, w1)
           | (Inr js, w1) \<Rightarrow>
               (Inr \<lparr>pl_Data = map (job_to_public s now) js, pl_HasMore = (int (length js) = jf_Limit filt)\<rparr>, w1)))"

record BatchImageItemsQuery =
  iq_Status :: string
  iq_Limit :: int
  iq_Cursor :: string

definition items_filter :: "BatchImageItemsQuery \<Rightarrow> go_error + BatchImageItemFilter" where
  "items_filter query =
     (let st = trim_space (iq_Status query);
          filt = (\<lambda>v. Inr \<lparr>if_Status = v, if_Limit = (if iq_Limit query \<le> 0 \<or> iq_Limit query > 500 then 100 else iq_Limit query),
                          if_Offset = parseBatchImageCursor (iq_Cursor query)\<rparr>)
      in
      if st = [] \<or> st = ''all'' then filt []
      else if st = ''succeeded'' \<or> st = ''success'' then filt BatchImageItemStatusSuccess
      else if st = ''pending'' then filt BatchImageItemStatusPending
      else if st = ''failed'' then filt BatchImageItemStatusFailed
      else Inl ErrBatchImageInvalidItems)"

definition ListItems ::
  "BatchImageOwner \<Rightarrow> string \<Rightarrow> BatchImageItemsQuery \<Rightarrow> settle_world \<Rightarrow>
   (go_error + BatchImagePublicItem public_list) \<times> settle_world" where
  "ListItems owner batchID query w =
     (case items_filter query of
        Inl e \<Rightarrow> (Inl e, w)
      | Inr filt \<Rightarrow>
          (case with_db (ListBatchImageItemsForOwner (ow_UserID owner) (ow_APIKeyID owner) batchID filt (w_db w)) w of
             (Inl e, w1) \<Rightarrow> (Inl e, w1)
           | (Inr its, w1) \<Rightarrow>
               (Inr \<lparr>pl_Data = map BatchImageItemToPublic its, pl_HasMore = (int (length its) = if_Limit filt)\<rparr>, w1)))"

definition Get :: "BatchImagePublicService \<Rightarrow> time \<Rightarrow> BatchImageOwner \<Rightarrow> string \<Rightarrow> settle_world \<Rightarrow> public_reply" where
  "Get s now owner batchID w =
     (case with_db (GetBatchImageJobByBatchIDForOwner (ow_UserID owner) (ow_APIKeyID owner) batchID (w_db w)) w of
        (Inl e, w1) \<Rightarrow> (Inl e, w1)
      | (Inr job, w1) \<Rightarrow> (Inr (job_to_public s now job), w1))"

definition MarkDownloaded ::
  "BatchImagePublicService \<Rightarrow> time \<Rightarrow> BatchImageOwner \<Rightarrow> string \<Rightarrow> settle_world \<Rightarrow> (go_error + unit) \<times> settle_world" where
  "MarkDownloaded s now owner batchID w =
     (case with_db (GetBatchImageJobByBatchIDForOwner (ow_UserID owner) (ow_APIKeyID owner) batchID (w_db w)) w of
        (Inl e, w1) \<Rightarrow> (Inl e, w1)
      | (Inr job, w1) \<Rightarrow> with_db (MarkBatchImageDownloaded (pb_rfc3339 s) (bj_BatchID job) now (w_db w1)) w1)"

definition DeleteRecord ::
  "BatchImagePublicService \<Rightarrow> time \<Rightarrow> BatchImageOwner \<Rightarrow> string \<Rightarrow> settle_world \<Rightarrow> (go_error + unit) \<times> settle_world" where
  "DeleteRecord s now owner batchID w =
     (case with_db (GetBatchImageJobByBatchIDForOwner (ow_UserID owner) (ow_APIKeyID owner) batchID (w_db w)) w of
        (Inl e, w1) \<Rightarrow> (Inl e, w1)
      | (Inr job, w1) \<Rightarrow>
          if \<not> isBatchImageProcessorDoneStatus (bj_Status job) then (Inl ErrBatchImageRecordDeleteNotReady, w1)
          else with_db (MarkBatchImageJobUserDeleted (pb_rfc3339 s) (ow_UserID owner) (ow_APIKeyID owner)
                          (bj_BatchID job) now (w_db w1)) w1)"

end
