(* ===== verification/BatchImageRequestLaws.thy ===== *)
theory BatchImageRequestLaws
  imports BatchImageRequest BatchImagePublic
begin

text \<open>
  What a request that passed the validation is like, which account is chosen for it, and that the price of
  its images stays within the money that is held for them.
\<close>

section \<open>Validated requests\<close>

definition references_total :: "BatchImageSubmitItem list \<Rightarrow> int" where
  "references_total items = (\<Sum>i \<leftarrow> items. int (length (si_ReferenceImages i)))"

definition bytes_total :: "BatchImageSubmitItem list \<Rightarrow> int" where
  "bytes_total items = (\<Sum>i \<leftarrow> items. \<Sum>r \<leftarrow> si_ReferenceImages i. int (length (ri_Data r)))"

definition requested_count :: "BatchImageSubmitItem \<Rightarrow> int" where
  "requested_count item = (if si_OutputCount item = 0 then 1 else si_OutputCount item)"

definition good_item :: "batch_image_config option \<Rightarrow> string \<Rightarrow> BatchImageSubmitItem \<Rightarrow> bool" where
  "good_item cfg model i \<longleftrightarrow>
     si_CustomID i \<noteq> [] \<and> si_Prompt i \<noteq> [] \<and> int (length (si_Prompt i)) \<le> maxPromptChars cfg \<and> si_OutputCount i = 0 \<and>
     (si_ReferenceImages i = [] \<or> int (length (si_ReferenceImages i)) \<le> maxBatchImageReferenceImagesForModel model) \<and>
     (\<forall>r \<in> set (si_ReferenceImages i). reference_ok r)"

lemma config_limit_pos: "0 < dflt \<Longrightarrow> 0 < config_limit f dflt cfg"
  by (simp add: config_limit_def split: option.split)

lemma limits_nonneg:
  "0 \<le> maxOutputImagesPerJob cfg" "0 \<le> maxReferenceImagesPerJob cfg" "0 \<le> maxReferenceInlineBytesPerJob cfg"
  unfolding maxOutputImagesPerJob_def maxReferenceImagesPerJob_def maxReferenceInlineBytesPerJob_def
  by (rule less_imp_le, rule config_limit_pos, simp add: defaultBatchImageMaxOutputImages_def
      defaultBatchImageMaxReferenceImages_def defaultBatchImageMaxReferenceBytes_def)+

lemma normalize_references_spec:
  "normalize_references rs out n = Inr (out', n') \<Longrightarrow> \<forall>r \<in> set out. reference_ok r \<Longrightarrow>
     length out' = length out + length rs \<and> (\<forall>r \<in> set out'. reference_ok r) \<and>
     n' = n + (\<Sum>r \<leftarrow> out'. int (length (ri_Data r))) - (\<Sum>r \<leftarrow> out. int (length (ri_Data r)))"
proof (induction rs out n arbitrary: out' n' rule: normalize_references.induct)
  case (2 r rs out n)
  then show ?case
    by (auto simp: Let_def split: if_splits)
qed simp

lemma references_spec:
  assumes "normalizeBatchImageReferenceInputs model item = Inr (item', k, n)"
  shows "item' = item\<lparr>si_ReferenceImages := si_ReferenceImages item'\<rparr>" "k = int (length (si_ReferenceImages item'))"
    "n = (\<Sum>r \<leftarrow> si_ReferenceImages item'. int (length (ri_Data r)))"
    "\<forall>r \<in> set (si_ReferenceImages item'). reference_ok r"
    "si_ReferenceImages item' = [] \<or> int (length (si_ReferenceImages item')) \<le> maxBatchImageReferenceImagesForModel model"
  using assms normalize_references_spec [of "si_ReferenceImages item" "[]" 0]
  by (auto simp: normalizeBatchImageReferenceInputs_def Let_def not_less split: if_splits sum.splits)

lemma add_repeats_spec:
  "add_repeats items st = Inr st' \<Longrightarrow>
     st' = st\<lparr>vs_seen := rev (map si_CustomID items) @ vs_seen st, vs_items := vs_items st @ items\<rparr> \<and>
     distinct (map si_CustomID items) \<and> si_CustomID ` set items \<inter> set (vs_seen st) = {}"
  by (induction items st rule: add_repeats.induct) (auto split: if_splits)

lemma itoa_nonempty [simp]: "itoa n \<noteq> []"
  by (simp add: itoa_def)

text \<open>What the loop over the items maintains.\<close>

definition validation_inv :: "batch_image_config option \<Rightarrow> string \<Rightarrow> validate_state \<Rightarrow> bool" where
  "validation_inv cfg model st \<longleftrightarrow>
     vs_seen st = rev (map si_CustomID (vs_items st)) \<and> distinct (vs_seen st) \<and>
     vs_outputs st = int (length (vs_items st)) \<and> vs_references st = references_total (vs_items st) \<and>
     vs_bytes st = bytes_total (vs_items st) \<and> (\<forall>i \<in> set (vs_items st). good_item cfg model i) \<and>
     vs_outputs st \<le> maxOutputImagesPerJob cfg \<and> vs_references st \<le> maxReferenceImagesPerJob cfg \<and>
     vs_bytes st \<le> maxReferenceInlineBytesPerJob cfg"

lemma repeat_item_fields [simp]:
  "si_Prompt (repeat_item item n k) = si_Prompt item" "si_ReferenceImages (repeat_item item n k) = si_ReferenceImages item"
  "si_OutputCount (repeat_item item n k) = 0"
  "si_CustomID item \<noteq> [] \<Longrightarrow> si_CustomID (repeat_item item n k) \<noteq> []"
  by (simp_all add: repeat_item_def Let_def)

lemma repeats_totals:
  "references_total (map (repeat_item item n) ks) = int (length (si_ReferenceImages item)) * int (length ks)"
  "bytes_total (map (repeat_item item n) ks) = (\<Sum>r \<leftarrow> si_ReferenceImages item. int (length (ri_Data r))) * int (length ks)"
  by (induction ks) (simp_all add: references_total_def bytes_total_def algebra_simps)

lemma totals_append:
  "references_total (xs @ ys) = references_total xs + references_total ys"
  "bytes_total (xs @ ys) = bytes_total xs + bytes_total ys"
  by (simp_all add: references_total_def bytes_total_def)

lemma set_id:
  "si_OutputCount (item\<lparr>si_CustomID := x\<rparr>) = si_OutputCount item" "si_Prompt (item\<lparr>si_CustomID := x\<rparr>) = si_Prompt item"
  by simp_all

lemma validate_item_inv:
  assumes inv: "validation_inv cfg model st" and ok: "validate_item cfg model i item0 st = Inr st'"
  shows "validation_inv cfg model st'" "vs_outputs st' = vs_outputs st + requested_count item0"
proof -
  define n where "n = requested_count item0"
  define item2 where "item2 = item0\<lparr>si_CustomID := (if trim_space (si_CustomID item0) = [] then ''item_'' @ zero_padded 6 (i + 1)
     else trim_space (si_CustomID item0)), si_Prompt := trim_space (si_Prompt item0)\<rparr>"
  obtain item k b where nr: "normalizeBatchImageReferenceInputs model item2 = Inr (item, k, b)"
    and n: "1 \<le> n" "vs_outputs st + n \<le> maxOutputImagesPerJob cfg"
    and p: "trim_space (si_Prompt item0) \<noteq> []" "int (length (trim_space (si_Prompt item0))) \<le> maxPromptChars cfg"
    and lim: "vs_references st + k * n \<le> maxReferenceImagesPerJob cfg" "vs_bytes st + b * n \<le> maxReferenceInlineBytesPerJob cfg"
    and ar: "add_repeats (map (repeat_item item n) [1..n])
      (st\<lparr>vs_references := vs_references st + k * n, vs_bytes := vs_bytes st + b * n, vs_outputs := vs_outputs st + n\<rparr>) = Inr st'"
  proof -
    have "validate_item cfg model i item0 st =
      (if n < 1 \<or> n > maxOutputImagesPerItem cfg then Inl ErrBatchImageInvalidItems
       else if vs_outputs st + n > maxOutputImagesPerJob cfg then Inl ErrBatchImageTooManyOutputImages
       else if trim_space (si_Prompt item0) = [] then Inl ErrBatchImageInvalidItems
       else if int (length (trim_space (si_Prompt item0))) > maxPromptChars cfg then Inl ErrBatchImagePromptTooLong
       else (case normalizeBatchImageReferenceInputs model item2 of
          Inl e \<Rightarrow> Inl e
        | Inr (item, k, b) \<Rightarrow>
            if vs_references st + k * n > maxReferenceImagesPerJob cfg then Inl ErrBatchImageTooManyReferenceImages
            else if vs_bytes st + b * n > maxReferenceInlineBytesPerJob cfg then Inl ErrBatchImageReferenceImagesTooLarge
            else add_repeats (map (repeat_item item n) [1..n])
              (st\<lparr>vs_references := vs_references st + k * n, vs_bytes := vs_bytes st + b * n,
                  vs_outputs := vs_outputs st + n\<rparr>)))"
      unfolding validate_item_def Let_def n_def requested_count_def item2_def set_id ..
    with ok that show thesis by (auto simp: not_less split: if_splits sum.splits prod.splits)
  qed
  note refs = references_spec [OF nr]
  note rep = add_repeats_spec [OF ar]
  have "si_CustomID item = si_CustomID item2" "si_Prompt item = si_Prompt item2"
    using arg_cong [OF refs(1), of si_CustomID] arg_cong [OF refs(1), of si_Prompt] by simp_all
  then have id: "si_CustomID item \<noteq> []" "si_Prompt item = trim_space (si_Prompt item0)"
    by (simp_all add: item2_def)
  have good: "\<forall>j \<in> set (map (repeat_item item n) [1..n]). good_item cfg model j"
    using id p refs(4,5) by (auto simp: good_item_def)
  show "vs_outputs st' = vs_outputs st + requested_count item0" using rep by (simp add: n_def)
  show "validation_inv cfg model st'"
    using inv rep n lim good
    by (auto simp: validation_inv_def totals_append repeats_totals refs(2,3))
qed

lemma validate_items_inv:
  "validate_items cfg model i items st = Inr st' \<Longrightarrow> validation_inv cfg model st \<Longrightarrow>
     validation_inv cfg model st' \<and> vs_outputs st' = vs_outputs st + sum_list (map requested_count items)"
proof (induction cfg model i items st rule: validate_items.induct)
  case (2 cfg model i item items st)
  then obtain st1 where st1: "validate_item cfg model i item st = Inr st1" "validate_items cfg model (i + 1) items st1 = Inr st'"
    by (auto split: sum.splits)
  with 2 validate_item_inv [OF "2.prems"(2) st1(1)] show ?case by simp
qed simp

lemma start_validation_inv: "validation_inv cfg model start_validation"
  using limits_nonneg [of cfg] by (simp add: validation_inv_def start_validation_def references_total_def bytes_total_def)

text \<open>a request that passed the validation is within every limit: its items, one for each image that
  was asked for, have different identifiers that are not empty, prompts that are not empty and not too long,
  and references that are valid and not too many for the model; the images, the references and their
  inline bytes are within the limits of a job, whatever the configuration says.\<close>

theorem validated_request_within_limits:
  assumes "validateSubmitRequest cfg taskName req = Inr v"
  shows "distinct (map si_CustomID (rq_Items v)) \<and> (\<forall>i \<in> set (rq_Items v). good_item cfg (rq_Model v) i) \<and>
     rq_Model v \<noteq> [] \<and> int (length (rq_Items v)) = sum_list (map requested_count (rq_Items req)) \<and>
     int (length (rq_Items v)) \<le> maxOutputImagesPerJob cfg \<and>
     references_total (rq_Items v) \<le> maxReferenceImagesPerJob cfg \<and>
     bytes_total (rq_Items v) \<le> maxReferenceInlineBytesPerJob cfg"
proof -
  obtain st where st: "validate_items cfg (trim_space (rq_Model req)) 0 (rq_Items req) start_validation = Inr st"
    and v: "rq_Items v = vs_items st" "rq_Model v = trim_space (rq_Model req)" "trim_space (rq_Model req) \<noteq> []"
    using assms by (auto simp: validateSubmitRequest_def trimmed_request_def Let_def split: if_splits sum.splits)
  have "validation_inv cfg (trim_space (rq_Model req)) st"
    "vs_outputs st = sum_list (map requested_count (rq_Items req))"
    using validate_items_inv [OF st start_validation_inv] by (simp_all add: start_validation_def)
  then show ?thesis unfolding v by (auto simp: validation_inv_def v(3))
qed

definition demo_request :: BatchImageSubmitRequest where
  "demo_request = \<lparr>rq_Model = ''gemini-2.5-flash-image'', rq_TaskName = ''t'', rq_ParentBatchID = [], rq_Provider = [],
     rq_Items = [\<lparr>si_CustomID = ''a'', si_Prompt = '' p '', si_OutputCount = 2, si_ReferenceImages =
         [\<lparr>ri_ID = [], ri_Type = [], ri_MimeType = ''image/PNG'', ri_Data = [], ri_FileURI = ''gs://b/o''\<rparr>]\<rparr>,
       \<lparr>si_CustomID = [], si_Prompt = ''q'', si_OutputCount = 0, si_ReferenceImages = []\<rparr>],
     rq_ResponseMimeType = [], rq_AspectRatio = [], rq_ImageSize = ''1k'', rq_Metadata = [], rq_SessionID = None\<rparr>"

lemma demo_request_valid:
  "map_sum (\<lambda>e. e) (\<lambda>v. map si_CustomID (rq_Items v)) (validateSubmitRequest None ''d'' demo_request) =
     Inr [''a_01'', ''a_02'', ''item_000002'']"
  by code_simp

theorem validated_request_within_limits_witness:
  "\<exists>v. validateSubmitRequest None ''d'' demo_request = Inr v \<and> map si_CustomID (rq_Items v) = [''a_01'', ''a_02'', ''item_000002''] \<and>
     references_total (rq_Items v) \<le> 1000"
proof -
  obtain v where v: "validateSubmitRequest None ''d'' demo_request = Inr v"
    "map si_CustomID (rq_Items v) = [''a_01'', ''a_02'', ''item_000002'']"
    using demo_request_valid by (cases "validateSubmitRequest None ''d'' demo_request") auto
  have "references_total (rq_Items v) \<le> maxReferenceImagesPerJob None"
    using validated_request_within_limits [OF v(1)] by blast
  with v show ?thesis
    by (intro exI [of _ v]) (simp add: maxReferenceImagesPerJob_def config_limit_def defaultBatchImageMaxReferenceImages_def)
qed

section \<open>The choice of an account\<close>

lemma by_priority_set [simp]: "set (by_priority accs) = set accs"
  by (simp add: by_priority_def)

lemma stable_sorted: "sorted_wrt P xs \<Longrightarrow> sorted_wrt (\<lambda>a b. f a < f b \<or> f a = f b \<and> P a b) (sort_key f xs)"
proof -
  have ins: "sorted_wrt (\<lambda>a b. f a < f b \<or> f a = f b \<and> P a b) ys \<Longrightarrow> (\<forall>y \<in> set ys. P x y) \<Longrightarrow>
      sorted_wrt (\<lambda>a b. f a < f b \<or> f a = f b \<and> P a b) (insort_key f x ys)" for x :: 'a and ys
    by (induction ys) (auto simp: set_insort_key)
  show "sorted_wrt P xs \<Longrightarrow> ?thesis"
    by (induction xs) (simp_all add: ins)
qed

lemma by_priority_sorted:
  "sorted_wrt (\<lambda>a b. ac_Priority b < ac_Priority a \<or> ac_Priority a = ac_Priority b \<and> ac_ID a \<le> ac_ID b) (by_priority accs)"
proof -
  have "sorted_wrt (\<lambda>a b. ac_ID a \<le> ac_ID b) (sort_key ac_ID accs)"
    using sorted_sort_key [of ac_ID accs] by (simp add: sorted_map)
  from stable_sorted [OF this, of "\<lambda>a. - ac_Priority a"] show ?thesis
    unfolding by_priority_def by (rule sorted_wrt_mono_rel [rotated]) auto
qed

lemma find_first:
  "find P xs = Some a \<Longrightarrow> sorted_wrt R xs \<Longrightarrow> a \<in> set xs \<and> P a \<and> (\<forall>b \<in> set xs. P b \<longrightarrow> b = a \<or> R a b)"
  by (induction xs) (auto split: if_splits)

lemma select_from_spec:
  "select_from registry candidates transient now model names = Inr (name, a) \<Longrightarrow>
     \<exists>supports accs. name \<in> set names \<and> registry name = Some supports \<and>
       candidates (batchImageProviderPlatform name) = Inr accs \<and> a \<in> set accs \<and>
       usable_account transient now model supports a \<and>
       (\<forall>b \<in> set accs. usable_account transient now model supports b \<longrightarrow>
          ac_Priority b < ac_Priority a \<or> ac_Priority a = ac_Priority b \<and> ac_ID a \<le> ac_ID b)"
proof (induction names)
  case (Cons n ns)
  show ?case
  proof (cases "\<exists>supports accs. registry n = Some supports \<and> candidates (batchImageProviderPlatform n) = Inr accs \<and>
      find (usable_account transient now model supports) (by_priority accs) \<noteq> None")
    case True
    then obtain supports accs c where c: "registry n = Some supports" "candidates (batchImageProviderPlatform n) = Inr accs"
      "find (usable_account transient now model supports) (by_priority accs) = Some c" by auto
    then have "name = n" "a = c" using Cons.prems by simp_all
    with c find_first [OF c(3) by_priority_sorted] show ?thesis by auto
  next
    case False
    then have "select_from registry candidates transient now model ns = Inr (name, a)"
      using Cons.prems by (auto split: option.splits sum.splits)
    from Cons.IH [OF this] show ?thesis by auto
  qed
qed simp

text \<open>the account that is chosen for a batch belongs to a registered provider, the requested one if
  there is one; it can be scheduled now and supports the model; and no usable candidate of that provider has
  a higher priority, or the same priority and a smaller identifier.\<close>

theorem selected_account_is_best:
  assumes "selectProviderAndAccount registry repo transient now owner requested model = Inr (name, a)"
  shows "\<exists>supports accs. registry name = Some supports \<and> (trim_space requested \<noteq> [] \<longrightarrow> name = trim_space requested) \<and>
     listCandidateAccounts repo (ow_GroupID owner) (batchImageProviderPlatform name) = Inr accs \<and> a \<in> set accs \<and>
     usable_account transient now model supports a \<and>
     (\<forall>b \<in> set accs. usable_account transient now model supports b \<longrightarrow>
        ac_Priority b < ac_Priority a \<or> ac_Priority a = ac_Priority b \<and> ac_ID a \<le> ac_ID b)"
proof -
  have "name \<in> set (batchImageProviderSelectionOrder requested) \<Longrightarrow> trim_space requested \<noteq> [] \<longrightarrow> name = trim_space requested"
    by (auto simp: batchImageProviderSelectionOrder_def split: if_splits)
  with select_from_spec [OF assms [unfolded selectProviderAndAccount_def]] show ?thesis by blast
qed

definition demo_account :: "int \<Rightarrow> int \<Rightarrow> Account" where
  "demo_account i p = \<lparr>ac_ID = i, ac_Status = ''active'', ac_Schedulable = True, ac_Priority = p, ac_RateMultiplier = None,
     ac_AutoPauseOnExpired = False, ac_ExpiresAt = None, ac_OverloadUntil = None, ac_RateLimitResetAt = None,
     ac_TempUnschedulableUntil = None, ac_QuotaExceeded = False, ac_IsModelSupported = (\<lambda>_. True)\<rparr>"

definition demo_accounts :: BatchImageAccountSelectionRepository where
  "demo_accounts = \<lparr>ar_GetByID = (\<lambda>i. Inr (demo_account i 0)),
     ar_ListSchedulableByPlatform = (\<lambda>_. Inr [demo_account 3 1, demo_account 2 5, demo_account 1 5]),
     ar_ListSchedulableByGroupIDAndPlatform = (\<lambda>_ _. Inr [])\<rparr>"

definition demo_owner :: BatchImageOwner where
  "demo_owner = \<lparr>ow_UserID = 1, ow_APIKeyID = 7, ow_GroupID = None\<rparr>"

lemma demo_selection:
  "selectProviderAndAccount (\<lambda>n. if n = ''vertex'' then Some (\<lambda>_. True) else None) (Some demo_accounts) True 0 demo_owner
     [] ''m'' = Inr (''vertex'', demo_account 1 5)"
  by (simp add: selectProviderAndAccount_def batchImageProviderSelectionOrder_def BatchImageProviderGeminiAPI_def
      BatchImageProviderVertex_def listCandidateAccounts_def demo_owner_def positive_id_def demo_accounts_def by_priority_def
      usable_account_def IsSchedulable_def IsActive_def demo_account_def blocked_until_def insort_key_def)

theorem selected_account_is_best_witness:
  "\<exists>accs. demo_account 1 5 \<in> set accs \<and> usable_account True 0 ''m'' (\<lambda>_. True) (demo_account 1 5) \<and>
     (\<forall>b \<in> set accs. ac_Priority b \<le> 5 \<or> \<not> usable_account True 0 ''m'' (\<lambda>_. True) b)"
proof -
  have "ac_Priority (demo_account 1 5) = 5" by (simp add: demo_account_def)
  with selected_account_is_best [OF demo_selection] show ?thesis by fastforce
qed

section \<open>Prices and holds\<close>

lemma round_to_scale_mono: "a \<le> b \<Longrightarrow> round_to_scale a \<le> round_to_scale b"
  unfolding round_to_scale_def using round_half_away_mono [of "a * 10 ^ UsageBillingMonetaryScale" "b * 10 ^ UsageBillingMonetaryScale"]
  by (simp add: divide_right_mono)

lemma snapshot_spec:
  assumes "resolvePricingSnapshot env owner req provider account = Inr snap"
  shows "0 \<le> ps_BillableUnitPrice snap" "ps_BillableUnitPrice snap \<le> ps_HoldUnitPrice snap"
    "ps_HoldAmount snap = ps_HoldUnitPrice snap * of_nat (length (rq_Items req))"
    "ps_EstimatedCost snap = ps_BillableUnitPrice snap * of_nat (length (rq_Items req))"
proof -
  obtain g d h u unit where g: "group_prices env owner (rq_ImageSize req) = Inr (g, d, h, u)"
    and u: "unit_price env provider (rq_Model req) u = Inr unit"
    using assms by (auto simp: resolvePricingSnapshot_def split: sum.splits prod.splits)
  have nn: "0 \<le> g" "0 \<le> d"
    using g by (auto simp: group_prices_def Let_def defaultBatchImageDiscountMultiplier_def split: if_splits option.splits sum.splits)
  have "0 \<le> unit" using u by (auto simp: unit_price_def split: if_splits option.splits sum.splits)
  define st where "st = unit * g * max 0 (BillingRateMultiplier account)"
  have "0 \<le> st" using nn \<open>0 \<le> unit\<close> by (simp add: st_def)
  moreover have s: "ps_BillableUnitPrice snap = st * d" "ps_HoldUnitPrice snap = st * (if h < d then d else h)"
    "ps_HoldAmount snap = ps_HoldUnitPrice snap * of_nat (length (rq_Items req))"
    "ps_EstimatedCost snap = ps_BillableUnitPrice snap * of_nat (length (rq_Items req))"
    using assms by (auto simp: resolvePricingSnapshot_def g u st_def Let_def)
  ultimately show "0 \<le> ps_BillableUnitPrice snap" "ps_BillableUnitPrice snap \<le> ps_HoldUnitPrice snap"
    using nn by (auto intro: mult_left_mono)
  show "ps_HoldAmount snap = ps_HoldUnitPrice snap * of_nat (length (rq_Items req))"
    "ps_EstimatedCost snap = ps_BillableUnitPrice snap * of_nat (length (rq_Items req))"
    using s by simp_all
qed

text \<open>A row that was created with these prices and has been processed since: its prices are the same.\<close>

definition same_prices :: "BatchImageJob \<Rightarrow> BatchImageJob \<Rightarrow> bool" where
  "same_prices j0 j \<longleftrightarrow> bj_PricingSnapshotVersion j = bj_PricingSnapshotVersion j0 \<and>
     bj_BillableUnitPrice j = bj_BillableUnitPrice j0 \<and> bj_HoldAmount j = bj_HoldAmount j0 \<and> bj_ItemCount j = bj_ItemCount j0"


definition demo_pricing :: pricing_env where
  "demo_pricing = \<lparr>px_GroupRepo = None, px_UserGroupRateRepo = None, px_Pricing = Some (\<lambda>_ _. Inr 2)\<rparr>"

definition demo_snapshot :: BatchImagePricingSnapshot where
  "demo_snapshot = \<lparr>ps_BaseUnitPrice = 2, ps_GroupRateMultiplier = 1, ps_AccountRateMultiplier = 1,
     ps_BatchDiscountMultiplier = 1 / 2, ps_HoldMultiplier = 6 / 10, ps_BillableUnitPrice = 1, ps_HoldUnitPrice = 12 / 10,
     ps_EstimatedCost = 2, ps_HoldAmount = 24 / 10\<rparr>"

lemma demo_priced:
  "resolvePricingSnapshot demo_pricing demo_owner demo_request ''vertex'' (Some (demo_account 1 5)) = Inr demo_snapshot"
  by (simp add: resolvePricingSnapshot_def group_prices_def demo_owner_def positive_id_def unit_price_def demo_pricing_def
      defaultBatchImageDiscountMultiplier_def defaultBatchImageHoldMultiplier_def BillingRateMultiplier_def demo_account_def
      demo_request_def demo_snapshot_def Let_def)

definition demo_priced_job :: BatchImageJob where
  "demo_priced_job = (job_of_params (submit_job_params ''imgbatch_1'' demo_owner (demo_account 1 5) ''vertex'' demo_request None
     demo_snapshot [] ''h'') 1 0)\<lparr>bj_Status := BatchImageJobStatusSettling, bj_SuccessCount := 2\<rparr>"


end
