(* ===== verification/BatchImagePublicLaws.thy ===== *)
theory BatchImagePublicLaws
  imports BatchImageRequestLaws
begin

text \<open>
  What the requests of a user promise about money, whatever else happens between their calls.
\<close>

section \<open>What others do meanwhile\<close>

text \<open>The assumption about everybody else, for a batch: they keep its row as the ledger sees it and every
  claim, they do not reserve its hold.\<close>

definition held :: "string \<Rightarrow> int \<Rightarrow> ledger \<Rightarrow> bool" where
  "held b key l \<longleftrightarrow> batchImageHoldClaimExists (BatchImageHoldRequestID b) key l"

definition rely :: "string \<Rightarrow> ledger \<Rightarrow> ledger \<Rightarrow> bool" where
  "rely b l l' \<longleftrightarrow> jobs l' b = jobs l b \<and> ledger_le l (l'\<lparr>jobs := jobs l\<rparr>) \<and> (\<forall>key. held b key l' \<longrightarrow> held b key l)"

definition respectful :: "string \<Rightarrow> (nat \<Rightarrow> settle_world \<Rightarrow> settle_world) \<Rightarrow> bool" where
  "respectful b others \<longleftrightarrow> (\<forall>n w. rely b (fst (w_ledger w)) (fst (w_ledger (others n w))))"

lemma respectful_alone: "respectful b (\<lambda>n w. w)"
  by (simp add: respectful_def rely_def)

lemma rely_linked: "rely (bj_BatchID job) l l' \<Longrightarrow> linked job l' = linked job l"
  by (simp add: rely_def linked_def)

lemma closed_jobs: "closed job (l\<lparr>jobs := f\<rparr>) = closed job l"
  by (simp add: closed_def ended_by_def batchImageHoldClaimExists_def)

lemma rely_closed: "rely b l l' \<Longrightarrow> closed job l \<Longrightarrow> closed job l'"
  using closed_mono [of l "l'\<lparr>jobs := jobs l\<rparr>" job] by (simp add: rely_def closed_jobs)

text \<open>A batch identifier that the ledger has never seen.\<close>

definition unseen :: "string \<Rightarrow> ledger \<Rightarrow> bool" where
  "unseen b l \<longleftrightarrow> jobs l b = None \<and> (\<forall>key. \<not> held b key l)"

lemma rely_unseen: "rely b l l' \<Longrightarrow> unseen b l \<Longrightarrow> unseen b l'"
  by (auto simp: rely_def unseen_def)

lemma not_held_not_open: "\<forall>key. \<not> held b key l \<Longrightarrow> \<not> open_hold l b"
  by (auto simp: open_hold_def held_def)

lemma seen_held: "held b key (fst (w_ledger (seen_by_ledger b' w))) = held b key (fst (w_ledger w))"
  by (simp add: seen_by_ledger_def held_def batchImageHoldClaimExists_def split: option.split)

section \<open>Submission\<close>

lemma reserve_linked:
  assumes "linked job (fst c)"
  shows "reserveBatchImageBalanceHold fc job h c =
    (if job_hold_amount job \<le> 0 then (NilErr, c)
     else case applyBatchImageBalanceHold fc OpReserve (Some (hold_command job OpReserve 0 h)) c of
       (Inl e, c') \<Rightarrow> (if errors_is e ErrBatchImageInsufficientBalance then ErrBatchImageInsufficientBalance
                       else WithCause ErrBatchImageBillingHoldFailed e, c')
     | (Inr _, c') \<Rightarrow> (NilErr, c'))"
  using build_linked [OF assms, of OpReserve 0 h]
  by (simp add: reserveBatchImageBalanceHold_def ReserveBatchImageBalance_def hold_command_def not_less cong: if_cong)

lemma reserve_refused:
  assumes l: "linked job (fst c)" and r: "reserveBatchImageBalanceHold fc job h c = (e, c')"
    and e: "e \<noteq> NilErr" "\<not> errors_is e ErrBatchImageBillingHoldFailed"
  shows "fst c' = fst c"
proof -
  obtain x c1 where run: "run_tx (hold_tx OpReserve (normal_command fc job OpReserve 0 h) (job_hold_on_scale job) (charged 0)) c = (x, c1)"
    by (rule prod.exhaust)
  have nc: "\<not> errors_is conn_error ErrBatchImageInsufficientBalance" by code_simp
  have wc: "errors_is (WithCause ErrBatchImageBillingHoldFailed e') ErrBatchImageBillingHoldFailed" for e'
    by (simp add: ErrBatchImageBillingHoldFailed_def)
  show ?thesis
    using r e run_tx_error [of _ c _ c'] run nc wc
    by (auto simp: reserve_linked [OF l] apply_hold_linked [OF l] split: sum.splits if_splits)
qed

lemma reserve_le: "ledger_le (fst c) (fst (snd (reserveBatchImageBalanceHold fc job h c)))"
  using apply_hold_le [of c fc]
  by (simp add: reserveBatchImageBalanceHold_def ReserveBatchImageBalance_def case_prod_unfold split: sum.split)

lemma enqueue_in_rest: "w_ledger (snd (enqueue_in s now b w)) = w_ledger w" "w_db (snd (enqueue_in s now b w)) = w_db w"
  by (simp_all add: enqueue_in_def case_prod_unfold split: option.split)

lemma ledger_untouched [simp]:
  "w_ledger (record_failure now b code msg m w) = w_ledger w"
  "w_ledger (append_event b ty p w) = w_ledger w"
  "w_ledger (hidePreUpstreamSubmitFailure s now owner job w) = w_ledger w"
  "w_ledger (enqueueBillingRetry s now b w) = w_ledger w"
  "w_ledger (runSubmitHeartbeat b ticks w) = w_ledger w"
  "w_ledger (snd (createPendingItems s b h items w)) = w_ledger w"
proof -
  show "w_ledger (runSubmitHeartbeat b ticks w) = w_ledger w"
    unfolding runSubmitHeartbeat_def by (induction ticks arbitrary: w) simp_all
qed (simp_all add: record_failure_def append_event_def hidePreUpstreamSubmitFailure_def enqueueBillingRetry_def
      createPendingItems_def enqueue_in_rest case_prod_unfold)

lemma release_failed_submit:
  assumes "linked job (fst (w_ledger w))" "releaseFailedSubmitHold s now job h w = (NilErr, w')"
  shows "closed job (fst (w_ledger w'))"
  using assms release_closes [of job "w_ledger w" "se_fc (pb_settle s)" h]
  by (auto simp: releaseFailedSubmitHold_def ErrBatchImageBillingHoldFailed_def New_def Let_def split: prod.splits if_splits)

text \<open>The answer to a submission that failed although the provider never had the job: the hold has ended, or
  the error says that the ledger failed.\<close>

definition settled_failure :: "BatchImageJob \<Rightarrow> public_reply \<Rightarrow> bool" where
  "settled_failure job r \<longleftrightarrow>
     (\<forall>e. fst r = Inl e \<and> \<not> errors_is e ErrBatchImageBillingHoldFailed \<longrightarrow>
        linked job (fst (w_ledger (snd r))) \<and> closed job (fst (w_ledger (snd r))) \<or>
        (\<forall>key. \<not> held (bj_BatchID job) key (fst (w_ledger (snd r)))))"

lemma release_failed_reply:
  assumes l: "linked job (fst (w_ledger w))" and r: "releaseFailedSubmitHold s now job h w = (re, w')"
  shows "(if re = NilErr then linked job (fst (w_ledger w')) \<and> closed job (fst (w_ledger w'))
          else errors_is re ErrBatchImageBillingHoldFailed)"
proof (cases "re = NilErr")
  case True
  have "ledger_le (fst (w_ledger w)) (fst (w_ledger w'))"
    using r hold_wrappers_le(1) [of "w_ledger w" "se_fc (pb_settle s)" job h]
    by (auto simp: releaseFailedSubmitHold_def Let_def case_prod_unfold split: if_splits)
  with linked_le [OF this, of job] release_failed_submit [OF l r [unfolded True]] l True show ?thesis by simp
next
  case False
  then have "re = ErrBatchImageBillingHoldFailed"
    using r by (auto simp: releaseFailedSubmitHold_def Let_def case_prod_unfold split: if_splits)
  with False show ?thesis by (simp add: ErrBatchImageBillingHoldFailed_def New_def app_is_def)
qed

lemma fail_submit_settled:
  assumes o': "respectful (bj_BatchID job) others" and l: "linked job (fst (w_ledger w))"
  shows "settled_failure job (fail_submit s now others owner job h code msg err w)"
proof -
  obtain re w1 where r: "releaseFailedSubmitHold s now job h w = (re, w1)" by (rule prod.exhaust)
  note a = release_failed_reply [OF l r]
  have "rely (bj_BatchID job) (fst (w_ledger w1)) (fst (w_ledger (others 8 w1)))" using o' by (simp add: respectful_def)
  with a show ?thesis
    by (auto simp: fail_submit_def r settled_failure_def rely_linked rely_closed split: if_splits)
qed

lemma settled_failure_owner: "same_owner job j \<Longrightarrow> settled_failure j r = settled_failure job r"
  by (simp add: settled_failure_def linked_same_owner same_owner_closed) (simp add: same_owner_def)

text \<open>A provider that takes no job: its call fails or names no job.\<close>

definition refuses :: "public_provider \<Rightarrow> bool" where
  "refuses p \<longleftrightarrow> (\<forall>job a inp pj. pp_Submit p job a inp = Inr (Some pj) \<longrightarrow> trim_space (pj_ProviderJobName pj) = [])"

lemma submit_upload_settled:
  assumes o': "respectful (bj_BatchID job) others" and l: "linked job (fst (w_ledger w))" and p: "refuses provider"
  shows "settled_failure job (submit_upload s now others ticks owner req h name provider account job w)"
proof -
  obtain x w1 where t: "transition_in now job BatchImageJobStatusUploading ''upload_started'' (Some [(''batch_id'', bj_BatchID job)])
      None None w = (x, w1)" by (rule prod.exhaust)
  have w1: "w_ledger w1 = w_ledger w"
    using transition_in_ledger [of now job BatchImageJobStatusUploading "''upload_started''" "Some [(''batch_id'', bj_BatchID job)]" None None w] t
    by simp
  then have l1: "linked job (fst (w_ledger w1))" using l by simp
  show ?thesis
  proof (cases x)
    case (Inl err)
    obtain re w2 where r: "releaseFailedSubmitHold s now job h w1 = (re, w2)" by (rule prod.exhaust)
    have "settled_failure job (Inl (if re \<noteq> NilErr then re else err), w2)"
      using release_failed_reply [OF l1 r] by (auto simp: settled_failure_def split: if_splits)
    then show ?thesis
      using fail_submit_settled [OF o' l1] by (simp add: submit_upload_def t Inl r)
  next
    case (Inr u)
    let ?job = "job\<lparr>bj_Status := BatchImageJobStatusUploading\<rparr>"
    let ?w2 = "runSubmitHeartbeat (bj_BatchID job) ticks (others 5 w1)"
    have "rely (bj_BatchID job) (fst (w_ledger w1)) (fst (w_ledger (others 5 w1)))" using o' by (simp add: respectful_def)
    then have "linked job (fst (w_ledger ?w2))" using l1 by (simp add: rely_linked)
    then have "linked ?job (fst (w_ledger ?w2))" by (simp add: linked_same_owner [OF status_owner])
    then have f: "settled_failure job (fail_submit s now others owner ?job h code msg err ?w2)" for code msg err
      using fail_submit_settled [of ?job others ?w2] o' by (simp add: settled_failure_owner [OF status_owner])
    have "pp_Submit provider ?job account (provider_input job req) = Inr (Some pj) \<Longrightarrow> trim_space (pj_ProviderJobName pj) = []" for pj
      using p by (auto simp: refuses_def)
    with f show ?thesis
      by (auto simp: submit_upload_def t Inr Let_def split: sum.split option.split)
  qed
qed

lemma submit_created_settled:
  assumes o': "respectful (bj_BatchID job) others" and l: "linked job (fst (w_ledger w))" and p: "refuses provider"
    and fresh: "\<forall>key. \<not> held (bj_BatchID job) key (fst (w_ledger w))"
  shows "settled_failure job (submit_created s now others ticks owner req h name provider account job w)"
proof -
  obtain err c where r: "reserveBatchImageBalanceHold (se_fc (pb_settle s)) job h (w_ledger w) = (err, c)" by (rule prod.exhaust)
  show ?thesis
  proof (cases "err = NilErr")
    case False
    with fresh reserve_refused [OF l r False] show ?thesis
      by (simp add: submit_created_def r settled_failure_def Let_def)
  next
    case True
    let ?w1 = "others 3 (w\<lparr>w_ledger := c\<rparr>)"
    have "ledger_le (fst (w_ledger w)) (fst c)" using reserve_le [of "w_ledger w" "se_fc (pb_settle s)" job h] r by simp
    then have "linked job (fst c)" using l linked_le by simp
    moreover have "rely (bj_BatchID job) (fst (w_ledger (w\<lparr>w_ledger := c\<rparr>))) (fst (w_ledger ?w1))"
      using o' unfolding respectful_def by blast
    ultimately have l1: "linked job (fst (w_ledger ?w1))" by (simp add: rely_linked)
    obtain x w2 where i: "createPendingItems s (bj_BatchID job) h (rq_Items req) ?w1 = (x, w2)" by (rule prod.exhaust)
    have w2: "w_ledger w2 = w_ledger ?w1"
      using ledger_untouched(6) [of s "bj_BatchID job" h "rq_Items req" ?w1] unfolding i by simp
    have "rely (bj_BatchID job) (fst (w_ledger w2)) (fst (w_ledger (others 4 w2)))" using o' by (simp add: respectful_def)
    then have "linked job (fst (w_ledger w2))" "linked job (fst (w_ledger (others 4 w2)))"
      using l1 w2 by (simp_all add: rely_linked)
    then show ?thesis
      using submit_upload_settled [OF o' _ p] fail_submit_settled [OF o']
      by (cases x) (simp_all add: submit_created_def r True Let_def i)
  qed
qed

lemma created_job:
  assumes c: "CreateBatchImageJob rid (submit_job_params b owner account name req parent snap key h) d = (Inr job, d')"
    and b: "b \<noteq> []"
  shows "job_by_batch b (fst d') = Some job" "bj_BatchID job = b" "bj_UserID job = ow_UserID owner"
    "bj_APIKeyID job = Some (ow_APIKeyID owner)" "job_hold_amount job = ps_HoldAmount snap"
proof -
  let ?p = "submit_job_params b owner account name req parent snap key h"
  have p: "cj_BatchID ?p = b" "cj_Status ?p = BatchImageJobStatusCreated" "cj_Currency ?p = ''USD''"
    "?p\<lparr>cj_BatchID := b\<rparr> = ?p"
    by (simp_all add: submit_job_params_def)
  have "translated None (Some ErrBatchImageJobExists) (run_stmt (createBatchImageJobWithSQL ?p) d) = (Inr job, d')"
    using c b by (auto simp: CreateBatchImageJob_def Let_def p BatchImageJobStatusCreated_def split: if_splits)
  then have "createBatchImageJobWithSQL ?p (fst d) = (Inr job, fst d')"
    by (auto simp: translated_def run_stmt_def sql_exec_def prod_eq_iff split: prod.splits list.splits fault.splits sum.splits)
  then have j: "job_by_batch b (fst d) = None" "job = job_of_params ?p (bd_next_job (fst d)) (bd_now (fst d))"
    "bd_jobs (fst d') = bd_jobs (fst d) @ [job]"
    by (auto simp: createBatchImageJobWithSQL_def Let_def p split: if_splits dest: arg_cong [of _ "fst d'" bd_jobs])
  show b': "bj_BatchID job = b" "bj_UserID job = ow_UserID owner"
    "bj_APIKeyID job = Some (ow_APIKeyID owner)" "job_hold_amount job = ps_HoldAmount snap"
    by (simp_all add: j(2) job_of_params_def submit_job_params_def job_hold_amount_def)
  show "job_by_batch b (fst d') = Some job"
    using j(1) b'(1) unfolding job_by_batch_find j(3) find_append by (simp add: job_batch_def)
qed

text \<open>What holds of the ledger when a submission fails: an error that is not a failure of the ledger leaves no
  hold of the batch.\<close>

definition holds_nothing :: "string \<Rightarrow> public_reply \<Rightarrow> bool" where
  "holds_nothing b r \<longleftrightarrow>
     (\<forall>e. fst r = Inl e \<and> \<not> errors_is e ErrBatchImageBillingHoldFailed \<longrightarrow> \<not> open_hold (fst (w_ledger (snd r))) b)"

lemma holds_nothing_unseen: "unseen b (fst (w_ledger w)) \<Longrightarrow> holds_nothing b (x, w)"
  by (simp add: holds_nothing_def unseen_def not_held_not_open)

lemma settled_failure_holds: "settled_failure job r \<Longrightarrow> holds_nothing (bj_BatchID job) r"
  unfolding settled_failure_def holds_nothing_def using closed_not_open not_held_not_open by blast

lemma submit_parent_ledger: "w_ledger (snd (submit_parent owner req w)) = w_ledger w"
  by (simp add: submit_parent_def case_prod_unfold split: option.split sum.split)

lemma submit_new_holds_nothing:
  assumes o': "respectful b others" and u: "unseen b (fst (w_ledger w))" and id: "pb_new_id s = Inr b" "trim_space b = b" "b \<noteq> []"
    and ow: "0 < ow_UserID owner" "0 < ow_APIKeyID owner" and p: "\<forall>n p. pb_ProviderRegistry s n = Some p \<longrightarrow> refuses p"
  shows "holds_nothing b (submit_new s now others ticks owner req h key w)"
proof -
  let ?sel = "selectProviderAndAccount (\<lambda>n. map_option pp_SupportsAccount (pb_ProviderRegistry s n)) (pb_AccountRepo s)
             (pb_transient s) now owner (rq_Provider req) (rq_Model req)"
  show ?thesis
  proof (cases ?sel)
    case (Inl e)
    then show ?thesis by (simp add: submit_new_def holds_nothing_unseen [OF u])
  next
    case (Inr na)
    obtain name account where na: "na = (name, account)" by (rule prod.exhaust)
    have reg: "refuses (the (pb_ProviderRegistry s name))"
      using select_from_spec [OF Inr [unfolded na selectProviderAndAccount_def]] p by auto
    show ?thesis
    proof (cases "resolvePricingSnapshot (pb_pricing s) owner req name (Some account)")
      case (Inl e)
      then show ?thesis by (simp add: submit_new_def Inr na holds_nothing_unseen [OF u])
    next
      case snap: (Inr snap)
      obtain x w1 where par: "submit_parent owner req w = (x, w1)" by (rule prod.exhaust)
      have u1: "unseen b (fst (w_ledger w1))" using submit_parent_ledger [of owner req w] par u by simp
      show ?thesis
      proof (cases x)
        case (Inl e)
        then show ?thesis by (simp add: submit_new_def Inr na snap par holds_nothing_unseen [OF u1])
      next
        case parent: (Inr parent)
        let ?w1 = "others 1 w1"
        have "rely b (fst (w_ledger w1)) (fst (w_ledger ?w1))" using o' by (simp add: respectful_def)
        then have u2: "unseen b (fst (w_ledger ?w1))" using u1 rely_unseen by blast
        obtain y d where cr: "CreateBatchImageJob (Inr b) (submit_job_params b owner account name req parent snap key h) (w_db ?w1) = (y, d)"
          by (rule prod.exhaust)
        let ?w2 = "seen_by_ledger b (?w1\<lparr>w_db := d\<rparr>)"
        have nh: "\<forall>key. \<not> held b key (fst (w_ledger ?w2))" using u2 by (simp add: unseen_def seen_held)
        show ?thesis
        proof (cases y)
          case (Inl e)
          then show ?thesis
            using nh by (simp add: submit_new_def Inr na snap par parent id(1) cr with_db_def holds_nothing_def not_held_not_open
                del: One_nat_def)
        next
          case job: (Inr job)
          note j = created_job [OF cr [unfolded job] id(3)]
          have "0 \<le> job_hold_amount job"
            using snapshot_spec [OF snap] by (simp add: j(5))
          then have l: "linked job (fst (w_ledger ?w2))"
            using j ow id by (simp add: linked_def seen_by_ledger_def)
          have r: "rely b (fst (w_ledger ?w2)) (fst (w_ledger (others 2 ?w2)))" using o' by (simp add: respectful_def)
          have l': "linked job (fst (w_ledger (others 2 ?w2)))"
            using rely_linked [of job, unfolded j(2), OF r] l by simp
          have nh': "\<forall>key. \<not> held (bj_BatchID job) key (fst (w_ledger (others 2 ?w2)))"
            using r nh by (auto simp: rely_def j(2))
          have "settled_failure job (submit_created s now others ticks owner req h name (the (pb_ProviderRegistry s name)) account job
              (others 2 ?w2))"
            by (rule submit_created_settled [OF _ l' reg nh']) (simp add: j(2) o')
          then show ?thesis
            using settled_failure_holds [of job] by (simp add: submit_new_def Inr na snap par parent id(1) cr with_db_def job j(2) del: One_nat_def)
        qed
      qed
    qed
  qed
qed

text \<open>C24: a submission that failed holds no money. When \<open>Submit\<close> ends in an error although no provider took
  the job, no hold of the new batch is open, wherever it failed and whatever others did between its calls
  (keeping the row and the claims of the batch), with any faults of the tables, the queue and the ledger;
  the only exception is the error that reports a failure of the ledger itself.\<close>

theorem failed_submission_holds_nothing:
  assumes "Submit s now others ticks owner req key w = (Inl e, w')" "\<not> errors_is e ErrBatchImageBillingHoldFailed"
    and "\<forall>n p. pb_ProviderRegistry s n = Some p \<longrightarrow> refuses p"
    and "respectful b others" "pb_new_id s = Inr b" "trim_space b = b" "b \<noteq> []"
    and "0 < ow_UserID owner" "0 < ow_APIKeyID owner" "unseen b (fst (w_ledger w))"
  shows "\<not> open_hold (fst (w_ledger w')) b"
proof -
  have n: "holds_nothing b (submit_new s now others ticks owner v h k w1)" if "unseen b (fst (w_ledger w1))" for v h k w1
    by (rule submit_new_holds_nothing [OF assms(4) that assms(5-9,3)])
  have u: "unseen b (fst (w_ledger w1)) \<Longrightarrow> unseen b (fst (w_ledger (others 0 w1)))" for w1
    using assms(4) rely_unseen unfolding respectful_def by blast
  have ex: "holds_nothing b (submit_existing s now existing h w1)" if "unseen b (fst (w_ledger w1))" for existing h w1
    using that by (auto simp: submit_existing_def case_prod_unfold holds_nothing_def unseen_def not_held_not_open enqueue_in_rest)
  have "holds_nothing b (Submit s now others ticks owner req key w)"
    using assms(10) by (simp add: Submit_def Let_def with_db_def case_prod_unfold n u ex holds_nothing_unseen split: sum.split)
  then show ?thesis using assms(1,2) by (simp add: holds_nothing_def)
qed

section \<open>Submissions, step by step\<close>

definition demo_provider :: "bool \<Rightarrow> public_provider" where
  "demo_provider accepts = \<lparr>pp_SupportsAccount = (\<lambda>_. True),
     pp_Submit = (\<lambda>_ _ _. if accepts then Inr (Some \<lparr>pj_ProviderJobName = ''jobs/1'', pj_ProviderInputRef = [],
                                    pj_ProviderOutputRef = [], pj_RawState = []\<rparr>) else Inl conn_error),
     pp_Cancel = (\<lambda>_ _. NilErr)\<rparr>"

definition demo_service :: "bool \<Rightarrow> string \<Rightarrow> BatchImagePublicService" where
  "demo_service accepts b = \<lparr>pb_settle = demo_env, pb_Config = Some \<lparr>cf_Enabled = True, cf_MaxItemsPerJobDefault = 0,
       cf_MaxOutputImagesPerJob = 0, cf_MaxOutputImagesPerItem = 0, cf_MaxPromptCharsPerItem = 0,
       cf_MaxReferenceImagesPerJob = 0, cf_MaxReferenceInlineBytesPerJob = 0, cf_DefaultResponseMimeType = [],
       cf_DefaultImageSize = []\<rparr>,
     pb_AccountRepo = Some demo_accounts, pb_pricing = demo_pricing,
     pb_ProviderRegistry = (\<lambda>n. if n = BatchImageProviderVertex then Some (demo_provider accepts) else None),
     pb_Queue = Some (NewBatchImageQueue None), pb_marshal = (\<lambda>r. rq_Model r), pb_new_id = Inr b,
     pb_task_name = (\<lambda>_. ''t''), pb_rfc3339 = (\<lambda>_. ''t''), pb_transient = True\<rparr>"

definition demo_start :: "fault list \<Rightarrow> settle_world" where
  "demo_start faults = \<lparr>w_ledger = (demo_ledger, faults),
     w_db = (\<lparr>bd_jobs = [], bd_items = [], bd_events = [], bd_next_job = 1, bd_next_item = 1, bd_next_event = 1, bd_now = 0\<rparr>, []),
     w_queue = (empty_queue, [])\<rparr>"

definition alone :: "nat \<Rightarrow> settle_world \<Rightarrow> settle_world" where
  "alone n w = w"

lemma open_hold_code [code]:
  "open_hold l b \<longleftrightarrow>
     (case jobs l b of None \<Rightarrow> False | Some j \<Rightarrow> 0 < job_hold j \<and>
        batchImageHoldClaimExists (BatchImageHoldRequestID b) (j_key j) l \<and>
        \<not> batchImageHoldClaimExists (BatchImageCaptureRequestID b) (j_key j) l \<and>
        \<not> batchImageHoldClaimExists (BatchImageReleaseRequestID b) (j_key j) l \<and>
        releases l (b, j_key j) = None)"
  by (simp add: open_hold_def split: option.split)

text \<open>The error of a reply, and for a batch its status, whether its hold is open and whether it is queued.\<close>

definition report :: "string \<Rightarrow> public_reply \<Rightarrow> go_error option \<times> string option \<times> bool \<times> bool" where
  "report b r =
     (case r of (x, w) \<Rightarrow> (case x of Inl e \<Rightarrow> Some e | Inr _ \<Rightarrow> None, map_option bj_Status (job_by_batch b (fst (w_db w))),
        open_hold (fst (w_ledger w)) b, pending (fst (w_queue w)) b))"

lemma demo_refused:
  "report ''imgbatch_1'' (Submit (demo_service False ''imgbatch_1'') 0 alone [] demo_owner demo_request [] (demo_start [])) =
     (Some ErrBatchImageProviderSubmitFailed, Some BatchImageJobStatusFailed, False, False)"
  by code_simp

lemma demo_lost:
  "report ''imgbatch_1'' (Submit (demo_service True ''imgbatch_1'') 0 alone [] demo_owner demo_request [] (demo_start [ReplyLost])) =
     (Some (WithCause ErrBatchImageBillingHoldFailed conn_error), Some BatchImageJobStatusFailed, True, False)"
  by code_simp

theorem failed_submission_holds_nothing_witness:
  "\<not> open_hold (fst (w_ledger (snd (Submit (demo_service False ''imgbatch_1'') 0 alone [] demo_owner demo_request []
     (demo_start []))))) ''imgbatch_1''"
proof (rule failed_submission_holds_nothing)
  show "Submit (demo_service False ''imgbatch_1'') 0 alone [] demo_owner demo_request [] (demo_start []) =
      (Inl ErrBatchImageProviderSubmitFailed,
       snd (Submit (demo_service False ''imgbatch_1'') 0 alone [] demo_owner demo_request [] (demo_start [])))"
    using demo_refused by (auto simp: report_def prod_eq_iff split: prod.splits sum.splits)
  show "\<not> errors_is ErrBatchImageProviderSubmitFailed ErrBatchImageBillingHoldFailed" by code_simp
  show "\<forall>n p. pb_ProviderRegistry (demo_service False ''imgbatch_1'') n = Some p \<longrightarrow> refuses p"
    by (simp add: demo_service_def refuses_def demo_provider_def)
  show "respectful ''imgbatch_1'' alone" using respectful_alone by (simp add: alone_def [abs_def])
  show "trim_space ''imgbatch_1'' = ''imgbatch_1''" by code_simp
  show "unseen ''imgbatch_1'' (fst (w_ledger (demo_start [])))"
    by (simp add: unseen_def demo_start_def demo_ledger_def held_def batchImageHoldClaimExists_def)
qed (simp_all add: demo_service_def demo_owner_def)

text \<open>A hold whose reservation was committed but whose reply got lost stays open after the
  submission: the job is recorded as failed and nothing releases the hold or queues the job, so the money
  is frozen until the recovery of expired holds.\<close>

theorem lost_reservation_stays_frozen:
  "\<exists>e w'. Submit (demo_service True ''imgbatch_1'') 0 alone [] demo_owner demo_request [] (demo_start [ReplyLost]) = (Inl e, w') \<and>
     map_option bj_Status (job_by_batch ''imgbatch_1'' (fst (w_db w'))) = Some BatchImageJobStatusFailed \<and>
     open_hold (fst (w_ledger w')) ''imgbatch_1'' \<and> \<not> pending (fst (w_queue w')) ''imgbatch_1''"
  using demo_lost by (cases "Submit (demo_service True ''imgbatch_1'') 0 alone [] demo_owner demo_request [] (demo_start [ReplyLost])")
    (auto simp: report_def split: sum.splits)

text \<open>Between the look-up of the idempotency key and the creation of the row, the same request comes in again.\<close>

definition race :: "nat \<Rightarrow> settle_world \<Rightarrow> settle_world" where
  "race n w = (if n = 0 then snd (Submit (demo_service True ''imgbatch_2'') 0 alone [] demo_owner demo_request ''k'' w) else w)"

definition race_report :: "public_reply \<Rightarrow> bool \<times> nat \<times> bool \<times> bool" where
  "race_report r =
     (case r of (x, w) \<Rightarrow> (case x of Inl _ \<Rightarrow> False | Inr pub \<Rightarrow> pub_ID pub = ''imgbatch_1'',
        length [j \<leftarrow> bd_jobs (fst (w_db w)). bj_IdempotencyKey j = Some ''k'' \<and> bj_Status j = BatchImageJobStatusSubmitted],
        open_hold (fst (w_ledger w)) ''imgbatch_1'', open_hold (fst (w_ledger w)) ''imgbatch_2''))"

lemma demo_race:
  "race_report (Submit (demo_service True ''imgbatch_1'') 0 race [] demo_owner demo_request ''k'' (demo_start [])) =
     (True, 2, True, True)"
  by code_simp

text \<open>An idempotency key does not stop a request that comes twice at the same time: both calls look
  the key up before either has created its row, both create one, both hold money and both are submitted to the
  provider. Nothing makes the key of an owner unique in the table.\<close>

theorem concurrent_submissions_double:
  "\<exists>pub w'. Submit (demo_service True ''imgbatch_1'') 0 race [] demo_owner demo_request ''k'' (demo_start []) = (Inr pub, w') \<and>
     length [j \<leftarrow> bd_jobs (fst (w_db w')). bj_IdempotencyKey j = Some ''k'' \<and> bj_Status j = BatchImageJobStatusSubmitted] = 2 \<and>
     open_hold (fst (w_ledger w')) ''imgbatch_1'' \<and> open_hold (fst (w_ledger w')) ''imgbatch_2''"
  using demo_race by (cases "Submit (demo_service True ''imgbatch_1'') 0 race [] demo_owner demo_request ''k'' (demo_start [])")
    (auto simp: race_report_def split: sum.splits)

section \<open>Repeated submissions\<close>

lemma record_failure_batches:
  "map bj_BatchID (bd_jobs (fst (w_db (record_failure now b code msg m w)))) = map bj_BatchID (bd_jobs (fst (w_db w)))"
proof -
  have "touches b UNIV (fst (w_db w)) (fst (snd (RecordBatchImageJobSubmitFailure b code msg m now (w_db w))))"
    unfolding RecordBatchImageJobSubmitFailure_def
    by (rule and_then_touches)
       (intro run_stmt_touches touches_update, simp_all add: submit_failure_row_def same_owner_def Let_def event_touches)
  then obtain f where "bd_jobs (fst (snd (RecordBatchImageJobSubmitFailure b code msg m now (w_db w)))) =
      map (\<lambda>j. if job_batch b j then f j else j) (bd_jobs (fst (w_db w)))" "\<And>j. same_owner j (f j)"
    by (auto simp: touches_def)
  then show ?thesis by (simp add: record_failure_def same_owner_def)
qed

lemma get_by_key_state: "fst (snd (GetBatchImageJobByIdempotencyKey u k key c)) = fst c"
  by (auto simp: GetBatchImageJobByIdempotencyKey_def translated_def run_stmt_def sql_exec_def
      split: prod.splits sum.splits list.splits fault.splits option.splits)


definition demo_first :: settle_world where
  "demo_first = snd (Submit (demo_service True ''imgbatch_1'') 0 alone [] demo_owner demo_request ''k'' (demo_start []))"

definition replay_report :: "BatchImageSubmitRequest \<Rightarrow> settle_world \<Rightarrow> bool \<times> bool \<times> string option" where
  "replay_report req w =
     (case validateSubmitRequest (pb_Config (demo_service True ''imgbatch_2'')) ''t'' req of
        Inl _ \<Rightarrow> (False, False, None)
      | Inr v \<Rightarrow>
          (case GetBatchImageJobByIdempotencyKey 1 7 ''k'' (w_db w) of
             (Inl _, _) \<Rightarrow> (True, False, None)
           | (Inr j, _) \<Rightarrow>
               (True, batchImageDerefString (bj_RequestHash j) = HashBatchImageSubmitRequest (demo_service True ''imgbatch_2'') v,
                Some (bj_BatchID j))))"

lemma demo_replay:
  "replay_report demo_request demo_first = (True, True, Some ''imgbatch_1'') \<and>
   map bj_BatchID (bd_jobs (fst (w_db demo_first))) = [''imgbatch_1'']"
  by code_simp


section \<open>Cancellation\<close>

lemma get_owned_row:
  assumes "GetBatchImageJobByBatchIDForOwner u k b c = (r, c')"
  shows "fst c' = fst c"
    and "unique_batches (fst c) \<Longrightarrow> r = Inr j \<Longrightarrow>
      job_by_batch b (fst c) = Some j \<and> bj_UserID j = u \<and> bj_APIKeyID j = Some k \<and> bj_UserDeletedAt j = None"
proof -
  have f: "r = Inr j \<Longrightarrow> find (\<lambda>j. bj_BatchID j = b \<and> bj_UserID j = u \<and> bj_APIKeyID j = Some k \<and> bj_UserDeletedAt j = None)
      (bd_jobs (fst c)) = Some j" and "fst c' = fst c"
    using assms by (auto simp: GetBatchImageJobByBatchIDForOwner_def get_job_def translated_def run_stmt_def sql_exec_def
        select_job_def split: prod.splits sum.splits option.splits list.splits fault.splits)
  then show "fst c' = fst c" by simp
  assume u: "unique_batches (fst c)" and "r = Inr j"
  with f have j: "j \<in> set (bd_jobs (fst c))" "bj_BatchID j = b" "bj_UserID j = u" "bj_APIKeyID j = Some k"
    "bj_UserDeletedAt j = None" by (auto simp: find_Some_iff in_set_conv_nth)
  have "find (job_batch b) (bd_jobs (fst c)) \<noteq> None" using j(1,2) by (auto simp: find_None_iff job_batch_def)
  then obtain j' where j': "find (job_batch b) (bd_jobs (fst c)) = Some j'" by blast
  with batch_row [OF u j' j(1)] j show "job_by_batch b (fst c) = Some j \<and> bj_UserID j = u \<and> bj_APIKeyID j = Some k \<and>
      bj_UserDeletedAt j = None" by (simp add: job_by_batch_find job_batch_def)
qed

lemma release_in_le: "ledger_le (fst (w_ledger w)) (fst (w_ledger (snd (release_in env job w))))"
  using release_in_advances [of "[]" "{}" w env job] by (simp add: advances_def)

lemma release_in_ended:
  assumes "linked job (fst (w_ledger w))" "release_in env job w = (NilErr, w')"
  shows "linked job (fst (w_ledger w')) \<and> closed job (fst (w_ledger w'))"
  using release_in_closed [OF assms] linked_le [OF release_in_le [of w env job], of job] assms by simp

lemma respectful_linked:
  "respectful (bj_BatchID job) others \<Longrightarrow> linked job (fst (w_ledger (others n w))) = linked job (fst (w_ledger w))"
  unfolding respectful_def by (blast dest: rely_linked)

lemma respectful_closed:
  "respectful (bj_BatchID job) others \<Longrightarrow> closed job (fst (w_ledger w)) \<Longrightarrow> closed job (fst (w_ledger (others n w)))"
  unfolding respectful_def by (blast dest: rely_closed)

lemma cancel_done_closes:
  assumes "cancel_done s now job w = (Inr pub, w')" "linked job (fst (w_ledger w))"
    and "bj_Status job \<noteq> BatchImageJobStatusFailed \<Longrightarrow> bj_Status job \<noteq> BatchImageJobStatusCancelled \<Longrightarrow>
      closed job (fst (w_ledger w))"
  shows "linked job (fst (w_ledger w')) \<and> closed job (fst (w_ledger w'))"
  using assms release_in_ended [OF assms(2), of "pb_settle s"]
  by (auto simp: cancel_done_def release_for_def split: if_splits prod.splits)

lemma cancel_created_closes:
  assumes c: "cancel_created s now others owner b job w = (Inr pub, w')" and l: "linked job (fst (w_ledger w))"
    and o': "respectful (bj_BatchID job) others"
  shows "linked job (fst (w_ledger w')) \<and> closed job (fst (w_ledger w'))"
proof -
  obtain x d where t: "TransitionBatchImageJobStatus (bj_BatchID job) BatchImageJobStatusCancelled
      \<lparr>to_ExpectedStatus = BatchImageJobStatusCreated, to_EventType = ''job_cancelled'',
       to_EventPayload = Some [(''batch_id'', bj_BatchID job)], to_ErrorCode = None, to_ErrorMessage = None,
       to_Now = None\<rparr> now (w_db w) = (x, d)" by (rule prod.exhaust)
  obtain err w2 where r: "release_in (pb_settle s) job (others 1 (w\<lparr>w_db := d\<rparr>)) = (err, w2)" by (rule prod.exhaust)
  have "linked job (fst (w_ledger (others 1 (w\<lparr>w_db := d\<rparr>))))"
    using respectful_linked [OF o', of 1 "w\<lparr>w_db := d\<rparr>"] l by simp
  note ended = release_in_ended [OF this, of "pb_settle s" w2]
  obtain y d2 where u: "GetBatchImageJobByBatchIDForOwner (ow_UserID owner) (ow_APIKeyID owner) b (w_db (others 2 w2)) = (y, d2)"
    by (rule prod.exhaust)
  have "err = NilErr \<and> w' = (others 2 w2)\<lparr>w_db := d2\<rparr>"
    using c by (cases x; cases y) (auto simp: cancel_created_def with_db_def t release_for_def r u simp del: One_nat_def split: if_splits)
  then show ?thesis
    using ended r respectful_linked [OF o', of 2 w2] respectful_closed [OF o', of w2 2] by simp
qed

text \<open>C25: a cancelled batch holds no money. When \<open>Cancel\<close> answers with the job of a batch that was done (the
  settlement aside) or had not reached a provider, its hold has ended, whatever others did
  between the calls, keeping the row and the claims of the batch; a failure of the release is an error.\<close>

theorem cancelled_batch_holds_nothing:
  assumes "Cancel s now others owner (bj_BatchID job) w = (Inr pub, w')" "batch_sound job w" "respectful (bj_BatchID job) others"
    and "job_by_batch (bj_BatchID job) (fst (w_db w)) = Some j" "bj_Status j \<noteq> BatchImageJobStatusSettling"
    and "isBatchImageProcessorDoneStatus (bj_Status j) \<or> batchImageDerefString (bj_ProviderJobName j) = []"
  shows "\<not> open_hold (fst (w_ledger w')) (bj_BatchID job)"
proof -
  obtain r c where g: "GetBatchImageJobByBatchIDForOwner (ow_UserID owner) (ow_APIKeyID owner) (bj_BatchID job) (w_db w) = (r, c)"
    by (rule prod.exhaust)
  have jj: "r = Inr j2 \<Longrightarrow> j2 = j" for j2
    using get_owned_row(2) [OF g, of j2] assms(2,4) by (simp add: batch_sound_def)
  have o': "same_owner job j" and fin: "bj_Status j = BatchImageJobStatusCompleted \<or> bj_Status j = BatchImageJobStatusOutputDeleted \<Longrightarrow>
      closed j (fst (w_ledger w))" and l: "linked j (fst (w_ledger w))"
    using assms(2,4) same_owner_closed [of job j] by (auto simp: batch_sound_def linked_same_owner)
  have b: "bj_BatchID j = bj_BatchID job" using o' by (simp add: same_owner_def)
  note oj = assms(3) [folded b]
  let ?w = "others 0 (w\<lparr>w_db := c\<rparr>)"
  have l0: "linked j (fst (w_ledger ?w))" using respectful_linked [OF oj, of 0 "w\<lparr>w_db := c\<rparr>"] l by simp
  have fin0: "bj_Status j = BatchImageJobStatusCompleted \<or> bj_Status j = BatchImageJobStatusOutputDeleted \<Longrightarrow>
      closed j (fst (w_ledger ?w))" using respectful_closed [OF oj, of "w\<lparr>w_db := c\<rparr>" 0] fin by simp
  have "linked j (fst (w_ledger w')) \<and> closed j (fst (w_ledger w'))"
  proof (cases "isBatchImageProcessorDoneStatus (bj_Status j)")
    case True
    then have "cancel_done s now j ?w = (Inr pub, w')"
      using assms(1) g jj by (simp add: Cancel_def with_db_def split: sum.splits)
    then show ?thesis
      by (rule cancel_done_closes [OF _ l0])
         (use True assms(5) fin0 in \<open>auto simp: isBatchImageProcessorDoneStatus_def IsTerminalBatchImageJobStatus_def\<close>)
  next
    case False
    then have "cancel_created s now others owner (bj_BatchID job) j ?w = (Inr pub, w')"
      using assms(1,6) g jj by (simp add: Cancel_def with_db_def split: sum.splits if_splits)
    then show ?thesis by (rule cancel_created_closes [OF _ l0 oj])
  qed
  then show ?thesis using closed_not_open [of j "fst (w_ledger w')"] b by simp
qed

definition demo_created_job :: BatchImageJob where
  "demo_created_job = demo_settling_job\<lparr>bj_Status := BatchImageJobStatusCreated, bj_SuccessCount := 0, bj_ProviderJobName := None\<rparr>"

definition demo_created_world :: settle_world where
  "demo_created_world = demo_world\<lparr>w_db := ((demo_batch_db [])\<lparr>bd_jobs := [demo_created_job]\<rparr>, [])\<rparr>"

lemma demo_cancel:
  "report ''imgbatch_1'' (Cancel (demo_service True ''x'') 0 alone demo_owner ''imgbatch_1'' demo_created_world) =
     (None, Some BatchImageJobStatusCancelled, False, False) \<and>
   open_hold (fst (w_ledger demo_created_world)) ''imgbatch_1''"
  by code_simp

theorem cancelled_batch_holds_nothing_witness:
  "\<exists>pub w'. Cancel (demo_service True ''x'') 0 alone demo_owner ''imgbatch_1'' demo_created_world = (Inr pub, w') \<and>
     map_option bj_Status (job_by_batch ''imgbatch_1'' (fst (w_db w'))) = Some BatchImageJobStatusCancelled \<and>
     open_hold (fst (w_ledger demo_created_world)) ''imgbatch_1'' \<and> \<not> open_hold (fst (w_ledger w')) ''imgbatch_1''"
proof -
  obtain pub w' where c: "Cancel (demo_service True ''x'') 0 alone demo_owner ''imgbatch_1'' demo_created_world = (Inr pub, w')"
    "map_option bj_Status (job_by_batch ''imgbatch_1'' (fst (w_db w'))) = Some BatchImageJobStatusCancelled"
    using demo_cancel by (auto simp: report_def split: prod.splits sum.splits)
  have b: "bj_BatchID demo_created_job = ''imgbatch_1''"
    by (simp add: demo_created_job_def demo_settling_id)
  have j: "job_by_batch ''imgbatch_1'' (fst (w_db demo_created_world)) = Some demo_created_job"
    using b by (simp add: demo_created_world_def job_by_batch_def)
  have "linked demo_settling_job (fst (w_ledger demo_world))" using demo_settling by (simp add: settling_job_def)
  then have "linked demo_created_job (fst (w_ledger demo_created_world))"
    by (simp add: demo_created_world_def demo_created_job_def linked_def job_hold_amount_def job_view_def cong: option.case_cong)
  moreover have u: "unique_batches (fst (w_db demo_created_world))" by (simp add: demo_created_world_def unique_batches_def)
  moreover have st0: "bj_Status demo_created_job \<noteq> BatchImageJobStatusCompleted" "bj_Status demo_created_job \<noteq> BatchImageJobStatusOutputDeleted"
    by (simp_all add: demo_created_job_def BatchImageJobStatusCreated_def BatchImageJobStatusCompleted_def BatchImageJobStatusOutputDeleted_def)
  ultimately have s: "batch_sound demo_created_job demo_created_world"
    using j u st0 unfolding batch_sound_def b by simp
  have r: "respectful ''imgbatch_1'' alone" using respectful_alone by (simp add: alone_def [abs_def])
  have st: "bj_Status demo_created_job \<noteq> BatchImageJobStatusSettling" "batchImageDerefString (bj_ProviderJobName demo_created_job) = []"
    by (simp_all add: demo_created_job_def BatchImageJobStatusCreated_def BatchImageJobStatusSettling_def batchImageDerefString_def)
  show ?thesis
    using cancelled_batch_holds_nothing [of "demo_service True ''x''" 0 alone demo_owner demo_created_job] c s r j st b demo_cancel
    by auto
qed

end
