(* ===== verification/PaymentMoney.thy ===== *)
theory PaymentMoney
  imports UsageBilling
begin

text \<open>
  Amounts of payments: \<open>payment/currency.go\<close>, \<open>payment/fee.go\<close>, \<open>service/payment_amounts.go\<close> and the
  calculation of what an order is charged in \<open>service/payment_order.go\<close>.

  A finite amount is the rational its shortest decimal denotes (see \<open>UsageBilling\<close>); an amount in a decimal
  string is its value. The rounding modes are those of the package \<open>shopspring/decimal\<close>.
\<close>

section \<open>Rounding\<close>

definition round_digits :: "nat \<Rightarrow> rat \<Rightarrow> rat" where
  "round_digits n v = of_int (round_half_away (v * 10 ^ n)) / 10 ^ n"

text \<open>\<open>Decimal.RoundUp\<close>: away from zero.\<close>

definition round_up :: "nat \<Rightarrow> rat \<Rightarrow> rat" where
  "round_up n v = (if 0 \<le> v then of_int \<lceil>v * 10 ^ n\<rceil> / 10 ^ n else - (of_int \<lceil>- v * 10 ^ n\<rceil> / 10 ^ n))"

text \<open>\<open>Decimal.Div\<close> keeps \<open>DivisionPrecision\<close> digits.\<close>

definition decimal_div :: "rat \<Rightarrow> rat \<Rightarrow> rat" where
  "decimal_div a b = round_digits 16 (a / b)"

section \<open>Currencies\<close>

definition DefaultPaymentCurrency :: string where
  "DefaultPaymentCurrency = ''CNY''"

record paymentCurrencyAmountUnit =
  apiMinorUnit :: nat
  maxFractionDigits :: nat

definition twoDecimalAmountUnit :: paymentCurrencyAmountUnit where
  "twoDecimalAmountUnit = \<lparr>apiMinorUnit = 2, maxFractionDigits = 2\<rparr>"

definition paymentCurrencyAmountUnits :: "string \<Rightarrow> paymentCurrencyAmountUnit option" where
  "paymentCurrencyAmountUnits c =
     (if c \<in> set [''BIF'', ''CLP'', ''DJF'', ''GNF'', ''JPY'', ''KMF'', ''KRW'', ''MGA'', ''PYG'', ''RWF'', ''VND'', ''VUV'',
                   ''XAF'', ''XOF'', ''XPF'']
      then Some \<lparr>apiMinorUnit = 0, maxFractionDigits = 0\<rparr>
      else if c \<in> set [''ISK'', ''UGX''] then Some \<lparr>apiMinorUnit = 2, maxFractionDigits = 0\<rparr>
      else if c \<in> set [''BHD'', ''IQD'', ''JOD'', ''KWD'', ''LYD'', ''OMR'', ''TND'']
      then Some \<lparr>apiMinorUnit = 3, maxFractionDigits = 3\<rparr>
      else None)"

definition currency_error :: go_error where
  "currency_error = PlainErr ''payment currency must be a 3-letter ISO currency code''"

definition NormalizePaymentCurrency :: "string \<Rightarrow> go_error + string" where
  "NormalizePaymentCurrency raw =
     (let currency = to_upper (trim_space raw) in
      if currency = [] then Inr DefaultPaymentCurrency
      else if length currency \<noteq> 3 then Inl currency_error
      else if \<not> list_all (in_range 65 90) currency then Inl currency_error
      else Inr currency)"

definition paymentCurrencyAmountUnitFor :: "string \<Rightarrow> paymentCurrencyAmountUnit" where
  "paymentCurrencyAmountUnitFor currency =
     (case NormalizePaymentCurrency currency of
        Inl _ \<Rightarrow> twoDecimalAmountUnit
      | Inr normalized \<Rightarrow>
          (case paymentCurrencyAmountUnits normalized of Some u \<Rightarrow> u | None \<Rightarrow> twoDecimalAmountUnit))"

definition CurrencyMinorUnit :: "string \<Rightarrow> nat" where
  "CurrencyMinorUnit currency = apiMinorUnit (paymentCurrencyAmountUnitFor currency)"

definition CurrencyMaxFractionDigits :: "string \<Rightarrow> nat" where
  "CurrencyMaxFractionDigits currency = maxFractionDigits (paymentCurrencyAmountUnitFor currency)"

definition FormatAmountForCurrency :: "rat \<Rightarrow> string \<Rightarrow> rat" where
  "FormatAmountForCurrency amount currency = round_digits (CurrencyMaxFractionDigits currency) amount"

text \<open>An \<open>int64\<close>: the integer part, wrapped around. The texts of the errors are left out.\<close>

definition trunc_rat :: "rat \<Rightarrow> int" where
  "trunc_rat v = (if 0 \<le> v then \<lfloor>v\<rfloor> else - \<lfloor>- v\<rfloor>)"

definition precision_error :: go_error where
  "precision_error = PlainErr ''payment amount must not have more decimal places than its currency''"

definition AmountToMinorUnit :: "rat \<Rightarrow> string \<Rightarrow> go_error + int" where
  "AmountToMinorUnit d currency =
     (case NormalizePaymentCurrency currency of
        Inl e \<Rightarrow> Inl e
      | Inr normalized \<Rightarrow>
          (let unit = paymentCurrencyAmountUnitFor normalized; scaled = d * 10 ^ maxFractionDigits unit
           in if scaled \<noteq> of_int (trunc_rat scaled) then Inl precision_error
              else Inr (int64_wrap (trunc_rat (d * 10 ^ apiMinorUnit unit)))))"

definition MinorUnitToAmount :: "int \<Rightarrow> string \<Rightarrow> rat" where
  "MinorUnitToAmount value currency = decimal_div (of_int value) (10 ^ CurrencyMinorUnit currency)"

section \<open>What an order is charged and what it credits\<close>

definition normalizeBalanceRechargeMultiplier :: "amount \<Rightarrow> rat" where
  "normalizeBalanceRechargeMultiplier multiplier =
     (case multiplier of Fin m \<Rightarrow> if m \<le> 0 then 1 else m | _ \<Rightarrow> 1)"

definition normalizeSubscriptionUSDToCNYRate :: "amount \<Rightarrow> rat" where
  "normalizeSubscriptionUSDToCNYRate rate = (case rate of Fin r \<Rightarrow> if r < 0 then 0 else r | _ \<Rightarrow> 0)"

definition calculateCreditedBalance :: "rat \<Rightarrow> amount \<Rightarrow> rat" where
  "calculateCreditedBalance paymentAmount multiplier =
     round_digits 2 (paymentAmount * normalizeBalanceRechargeMultiplier multiplier)"

definition CalculatePayAmountForCurrency :: "rat \<Rightarrow> rat \<Rightarrow> string \<Rightarrow> rat" where
  "CalculatePayAmountForCurrency rechargeAmount feeRate currency =
     (let fractionDigits = CurrencyMaxFractionDigits currency in
      if feeRate \<le> 0 then round_digits fractionDigits rechargeAmount
      else (let fee = round_up fractionDigits (decimal_div (rechargeAmount * feeRate) 100)
            in round_digits fractionDigits (rechargeAmount + fee)))"

definition calculateSubscriptionGatewayBaseAmount :: "rat \<Rightarrow> amount \<Rightarrow> string \<Rightarrow> rat" where
  "calculateSubscriptionGatewayBaseAmount amount usdToCnyRate currency =
     (let rate = normalizeSubscriptionUSDToCNYRate usdToCnyRate in
      if rate \<le> 0 \<or> currency \<noteq> DefaultPaymentCurrency then amount
      else round_digits (CurrencyMaxFractionDigits currency) (amount * rate))"

definition validateCreateOrderAmountCurrency :: "rat \<Rightarrow> string \<Rightarrow> go_error" where
  "validateCreateOrderAmountCurrency amount currency =
     (case AmountToMinorUnit amount currency of
        Inl _ \<Rightarrow> WithMetadata (BadRequest ''INVALID_AMOUNT'' ''payment amount'') (Some [(''currency'', currency)])
      | Inr _ \<Rightarrow> NilErr)"

text \<open>The string and the number of the code are one value here.\<close>

definition calculateCreateOrderPayAmount :: "rat \<Rightarrow> rat \<Rightarrow> string \<Rightarrow> go_error + rat" where
  "calculateCreateOrderPayAmount limitAmount feeRate currency =
     (let err = validateCreateOrderAmountCurrency limitAmount currency in
      if err \<noteq> NilErr then Inl err
      else
        (let payAmount = CalculatePayAmountForCurrency limitAmount feeRate currency;
             err2 = validateCreateOrderAmountCurrency payAmount currency
         in if err2 \<noteq> NilErr then Inl err2 else Inr payAmount))"

definition calculateCreateOrderPayAmountForOrderType ::
  "rat \<Rightarrow> rat \<Rightarrow> string \<Rightarrow> string \<Rightarrow> amount \<Rightarrow> go_error + rat" where
  "calculateCreateOrderPayAmountForOrderType limitAmount feeRate currency orderType usdToCnyRate =
     calculateCreateOrderPayAmount
       (if orderType = ''subscription'' then calculateSubscriptionGatewayBaseAmount limitAmount usdToCnyRate currency
        else limitAmount) feeRate currency"

section \<open>Refunds\<close>

definition amountToleranceCNY :: rat where
  "amountToleranceCNY = 1 / 100"

definition paymentAmountToleranceForCurrency :: "string \<Rightarrow> rat" where
  "paymentAmountToleranceForCurrency currency =
     (let minorUnit = CurrencyMinorUnit currency in
      if minorUnit \<le> 2 then amountToleranceCNY else 1 / 10 ^ minorUnit / 2)"

definition calculateGatewayRefundAmount :: "rat \<Rightarrow> rat \<Rightarrow> rat \<Rightarrow> string \<Rightarrow> rat" where
  "calculateGatewayRefundAmount orderAmount payAmount refundAmount currency =
     (if orderAmount \<le> 0 \<or> payAmount \<le> 0 \<or> refundAmount \<le> 0 then 0
      else
        (let fractionDigits = CurrencyMaxFractionDigits currency in
         if \<bar>refundAmount - orderAmount\<bar> \<le> paymentAmountToleranceForCurrency currency
         then round_digits fractionDigits payAmount
         else round_digits fractionDigits (decimal_div (payAmount * refundAmount) orderAmount)))"

section \<open>Amounts of notifications\<close>

definition isValidProviderAmount :: "amount \<Rightarrow> bool" where
  "isValidProviderAmount amount = (case amount of Fin v \<Rightarrow> 0 < v | _ \<Rightarrow> False)"

definition providerAmountMatchesOrder :: "rat \<Rightarrow> rat \<Rightarrow> string \<Rightarrow> bool" where
  "providerAmountMatchesOrder paid expected currency =
     (if paid \<noteq> expected then False
      else (case AmountToMinorUnit paid currency of
              Inl _ \<Rightarrow> False
            | Inr paidMinor \<Rightarrow>
                (case AmountToMinorUnit expected currency of
                   Inl _ \<Rightarrow> False
                 | Inr expectedMinor \<Rightarrow> paidMinor = expectedMinor)))"

section \<open>Laws\<close>

lemma round_digits_mono: "a \<le> b \<Longrightarrow> round_digits n a \<le> round_digits n b"
  unfolding round_digits_def
  by (intro divide_right_mono) (simp_all add: round_half_away_mono mult_right_mono)

definition has_digits :: "nat \<Rightarrow> rat \<Rightarrow> bool" where
  "has_digits n v \<longleftrightarrow> v * 10 ^ n \<in> \<int>"

lemma round_digits_fixed: "has_digits n v \<Longrightarrow> round_digits n v = v"
proof -
  assume "has_digits n v"
  then obtain i where i: "v * 10 ^ n = of_int i" by (auto simp: has_digits_def Ints_def)
  then have "v = of_int i / 10 ^ n" by (simp add: field_simps)
  with i show ?thesis by (simp add: round_digits_def)
qed

lemma round_digits_has: "has_digits n (round_digits n v)"
  by (simp add: has_digits_def round_digits_def)

lemma has_digits_more: "has_digits m v \<Longrightarrow> m \<le> n \<Longrightarrow> has_digits n v"
proof -
  assume a: "has_digits m v" "m \<le> n"
  have "v * 10 ^ n = v * 10 ^ m * of_int (10 ^ (n - m))"
    using a(2) by (simp add: mult.assoc flip: power_add)
  with a(1) show ?thesis by (metis Ints_mult Ints_of_int has_digits_def)
qed

lemma round_digits_nonneg: "0 \<le> v \<Longrightarrow> 0 \<le> round_digits n v"
  using round_digits_mono [of 0 v n] by (simp add: round_digits_def round_half_away_def)

lemma round_digits_error: "\<bar>round_digits n v - v\<bar> \<le> 1 / (2 * 10 ^ n)"
proof -
  have "\<bar>round_digits n v - v\<bar> = \<bar>of_int (round_half_away (v * 10 ^ n)) - v * 10 ^ n\<bar> / 10 ^ n"
    by (simp add: round_digits_def field_simps abs_divide flip: abs_mult)
  also have "\<dots> \<le> (1 / 2) / 10 ^ n" by (rule divide_right_mono [OF round_half_away_error]) simp
  finally show ?thesis by simp
qed

lemma NormalizePaymentCurrency_idem:
  assumes "NormalizePaymentCurrency raw = Inr c"
  shows "NormalizePaymentCurrency c = Inr c"
proof -
  have l: "list_all (in_range 65 90) c" "length c = 3"
    using assms by (auto simp: NormalizePaymentCurrency_def Let_def DefaultPaymentCurrency_def in_range_def split: if_splits)
  then have "trim_space c = c"
    by (intro trim_space_graphic) (auto simp: list_all_iff in_range_def)
  moreover have "to_upper c = c"
    using l(1) by (auto simp: to_upper_def upper_char_def list_all_iff in_range_def Let_def intro!: map_idI)
  moreover have "c \<noteq> []" using l(2) by auto
  ultimately show ?thesis using l by (simp add: NormalizePaymentCurrency_def)
qed

lemma AmountToMinorUnit_digits:
  assumes "AmountToMinorUnit d currency = Inr m"
  shows "has_digits (CurrencyMaxFractionDigits currency) d"
proof -
  obtain c where c: "NormalizePaymentCurrency currency = Inr c" "has_digits (maxFractionDigits (paymentCurrencyAmountUnitFor c)) d"
    using assms unfolding AmountToMinorUnit_def has_digits_def
    by (auto simp: Let_def split: sum.splits if_splits) (metis Ints_of_int)
  with NormalizePaymentCurrency_idem [OF c(1)] show ?thesis
    by (simp add: CurrencyMaxFractionDigits_def paymentCurrencyAmountUnitFor_def)
qed

lemma fraction_digits_le: "CurrencyMaxFractionDigits currency \<le> 3"
  by (auto simp: CurrencyMaxFractionDigits_def paymentCurrencyAmountUnitFor_def twoDecimalAmountUnit_def
      paymentCurrencyAmountUnits_def split: sum.split option.split)

lemma has_digits_mult: "has_digits m a \<Longrightarrow> has_digits n b \<Longrightarrow> has_digits (m + n) (a * b)"
proof -
  assume "has_digits m a" "has_digits n b"
  then have "(a * 10 ^ m) * (b * 10 ^ n) \<in> \<int>" unfolding has_digits_def by (rule Ints_mult)
  then show ?thesis by (simp add: has_digits_def power_add algebra_simps)
qed

lemma has_digits_add: "has_digits n a \<Longrightarrow> has_digits n b \<Longrightarrow> has_digits n (a + b)"
  by (simp add: has_digits_def distrib_right)

text \<open>C40: what the user pays. An order is charged its amount plus the fee, rounded up to the smallest
  unit of the currency: the charge is representable in the currency, covers the fee and is less than one unit
  above it.\<close>

theorem order_pays_amount_and_fee:
  assumes "calculateCreateOrderPayAmount amount feeRate currency = Inr pay"
    and "0 \<le> amount" "0 \<le> feeRate" "has_digits 4 feeRate"
  shows "has_digits (CurrencyMaxFractionDigits currency) pay \<and> amount + amount * feeRate / 100 \<le> pay \<and>
     pay < amount + amount * feeRate / 100 + 1 / 10 ^ CurrencyMaxFractionDigits currency"
proof -
  let ?n = "CurrencyMaxFractionDigits currency"
  have pay: "pay = CalculatePayAmountForCurrency amount feeRate currency"
    using assms(1) by (simp add: calculateCreateOrderPayAmount_def Let_def split: if_splits)
  have a: "has_digits ?n amount"
    using assms(1) AmountToMinorUnit_digits [of amount currency]
    by (auto simp: calculateCreateOrderPayAmount_def validateCreateOrderAmountCurrency_def BadRequest_def New_def Let_def
        split: sum.splits if_splits)
  show ?thesis
  proof (cases "feeRate = 0")
    case True
    then show ?thesis using a by (simp add: pay CalculatePayAmountForCurrency_def round_digits_fixed)
  next
    case False
    define x where "x = amount * feeRate / 100"
    have "has_digits 2 (1 / 100)" by (simp add: has_digits_def)
    then have "has_digits (?n + 4 + 2) (amount * feeRate * (1 / 100))"
      using has_digits_mult [OF has_digits_mult [OF a assms(4)]] by blast
    then have "has_digits 16 x"
      using has_digits_more [of "?n + 4 + 2" x 16] fraction_digits_le [of currency] by (simp add: x_def)
    then have d: "decimal_div (amount * feeRate) 100 = x" by (simp add: decimal_div_def round_digits_fixed x_def)
    have x: "0 \<le> x" using assms(2,3) by (simp add: x_def)
    define fee where "fee = of_int \<lceil>x * 10 ^ ?n\<rceil> / (10 ^ ?n :: rat)"
    have f: "has_digits ?n fee" by (simp add: fee_def has_digits_def)
    have "x * 10 ^ ?n \<le> of_int \<lceil>x * 10 ^ ?n\<rceil>" "of_int \<lceil>x * 10 ^ ?n\<rceil> < x * 10 ^ ?n + 1"
      using ceiling_correct [of "x * 10 ^ ?n"] by linarith+
    then have "x \<le> fee" "fee < x + 1 / 10 ^ ?n" by (simp_all add: fee_def field_simps)
    moreover have "pay = amount + fee"
      using False assms(3) x has_digits_add [OF a f]
      by (simp add: pay CalculatePayAmountForCurrency_def d round_up_def Let_def round_digits_fixed fee_def)
    ultimately show ?thesis using has_digits_add [OF a f] by (simp add: x_def)
  qed
qed

theorem order_pays_amount_and_fee_witness:
  "calculateCreateOrderPayAmount 10 (3 / 10) ''CNY'' = Inr (1003 / 100) \<and> 10 + 10 * (3 / 10) / 100 \<le> (1003 / 100 :: rat)"
proof -
  have p: "calculateCreateOrderPayAmount 10 (3 / 10) ''CNY'' = Inr (1003 / 100)" by code_simp
  have "has_digits 4 (3 / 10)" by (simp add: has_digits_def)
  from order_pays_amount_and_fee [OF p _ _ this] p show ?thesis by simp
qed

text \<open>a refund never gives back more than was paid. Whatever part of an order up to the tolerance above
  its amount is refunded, the amount sent to the provider is not negative and not above what was paid, and
  refunding the whole order sends back exactly what was paid, in the digits of the currency.\<close>

theorem refund_never_exceeds_payment:
  assumes "0 \<le> pay" "has_digits 2 pay" "refund \<le> order + paymentAmountToleranceForCurrency currency"
  shows "0 \<le> calculateGatewayRefundAmount order pay refund currency \<and>
     calculateGatewayRefundAmount order pay refund currency \<le> round_digits (CurrencyMaxFractionDigits currency) pay \<and>
     (0 < order \<and> refund = order \<longrightarrow>
        calculateGatewayRefundAmount order pay refund currency = round_digits (CurrencyMaxFractionDigits currency) pay)"
proof -
  let ?n = "CurrencyMaxFractionDigits currency"
  have t: "0 \<le> paymentAmountToleranceForCurrency currency"
    by (simp add: paymentAmountToleranceForCurrency_def amountToleranceCNY_def Let_def)
  have r0: "0 \<le> round_digits ?n pay" by (rule round_digits_nonneg [OF assms(1)])
  have zero: "\<not> 0 < pay \<Longrightarrow> round_digits ?n pay = 0" using assms(1) by (simp add: round_digits_fixed has_digits_def)
  have part: "decimal_div (pay * refund) order \<le> pay" "0 \<le> decimal_div (pay * refund) order"
    if "0 < order" "0 < refund" "\<not> \<bar>refund - order\<bar> \<le> paymentAmountToleranceForCurrency currency"
  proof -
    have "refund \<le> order" using that(3) assms(3) t by linarith
    then have "pay * refund / order \<le> pay" using assms(1) that(1)
      by (simp add: divide_le_eq mult_left_mono)
    then have "decimal_div (pay * refund) order \<le> round_digits 16 pay" unfolding decimal_div_def by (rule round_digits_mono)
    also have "\<dots> = pay" using has_digits_more [OF assms(2), of 16] by (simp add: round_digits_fixed)
    finally show "decimal_div (pay * refund) order \<le> pay" .
    show "0 \<le> decimal_div (pay * refund) order"
      unfolding decimal_div_def using assms(1) that(1,2) by (intro round_digits_nonneg) simp
  qed
  show ?thesis
    using part r0 zero t
    by (auto simp: calculateGatewayRefundAmount_def Let_def round_digits_mono round_digits_nonneg)
qed

theorem refund_never_exceeds_payment_witness:
  "calculateGatewayRefundAmount 10 (1003 / 100) (10 / 3) ''CNY'' = 334 / 100 \<and>
   calculateGatewayRefundAmount 10 (1003 / 100) (10 / 3) ''CNY'' \<le> round_digits (CurrencyMaxFractionDigits ''CNY'') (1003 / 100)"
proof -
  have "calculateGatewayRefundAmount 10 (1003 / 100) (10 / 3) ''CNY'' = 334 / 100" by code_simp
  moreover have "has_digits 2 (1003 / 100)" by (simp add: has_digits_def)
  moreover have "10 / 3 \<le> 10 + paymentAmountToleranceForCurrency ''CNY''" by code_simp
  ultimately show ?thesis using refund_never_exceeds_payment [of "1003 / 100" "10 / 3" 10 "''CNY''"] by simp
qed

end
