(* ===== verification/GoPrograms.thy ===== *)
theory GoPrograms
  imports GoErrors
begin

text \<open>
  Concurrent programs over shared tables. A program is a tree of steps: a step sees the event of its moment (a
  clock reading, a fault, the answer of a remote service) and the shared state, changes the state at once and
  goes on. Between two steps of a program others act. \<open>complete\<close> runs a program alone; \<open>concurrent\<close> interleaves any
  number of programs with any other changes that keep a relation \<open>R\<close>.

  The reasoning is by rely and guarantee: \<open>sat E R G Q p s\<close> says that the program \<open>p\<close>, started when the state
  is \<open>s\<close>, changes the state by steps in \<open>G\<close> only and ends in \<open>Q\<close>, provided that its events are in
  \<open>E\<close> and that others change the state within \<open>R\<close>.
\<close>

section \<open>Programs\<close>

datatype ('e, 's, 'a) prog = Return 'a | Step "'e \<Rightarrow> 's \<Rightarrow> ('e, 's, 'a) prog \<times> 's"

primrec call :: "('e, 's, 'a) prog \<Rightarrow> ('a \<Rightarrow> ('e, 's, 'b) prog) \<Rightarrow> ('e, 's, 'b) prog" where
  "call (Return a) k = k a"
| "call (Step f) k = Step (\<lambda>e s. map_prod (\<lambda>p. call p k) id (f e s))"

text \<open>A program run alone, with the event of each step: its result, the state after it and the events left.\<close>

primrec complete :: "('e, 's, 'a) prog \<Rightarrow> (nat \<Rightarrow> 'e) \<Rightarrow> 's \<Rightarrow> 'a \<times> 's \<times> (nat \<Rightarrow> 'e)" where
  "complete (Return a) = (\<lambda>es s. (a, s, es))"
| "complete (Step f) = (\<lambda>es s. (case map_prod complete id (f (es 0) s) of (g, s') \<Rightarrow> g (\<lambda>n. es (Suc n)) s'))"

lemma complete_Step: "complete (Step f) es s = complete (fst (f (es 0) s)) (\<lambda>n. es (Suc n)) (snd (f (es 0) s))"
  by (simp add: case_prod_beta)

lemma complete_call:
  "complete (call p k) es s = (case complete p es s of (a, s', es') \<Rightarrow> complete (k a) es' s')"
proof (induction p arbitrary: es s)
  case (Return a)
  then show ?case by simp
next
  case (Step f)
  have "fst (f (es 0) s) \<in> Basic_BNFs.fsts (f (es 0) s)" by (rule Basic_BNFs.fsts.intros)
  then show ?case
    using Step.IH [of "f (es 0)" "f (es 0) s" "fst (f (es 0) s)"] by (simp add: case_prod_beta)
qed

text \<open>Loops over a list.\<close>

primrec for_each :: "('b \<Rightarrow> ('e, 's, 'a) prog) \<Rightarrow> 'b list \<Rightarrow> ('e, 's, 'a list) prog" where
  "for_each body [] = Return []"
| "for_each body (x # xs) = call (body x) (\<lambda>a. call (for_each body xs) (\<lambda>as. Return (a # as)))"

definition background :: "('e, 's, 'a) prog \<Rightarrow> ('e, 's, unit) prog" where
  "background p = call p (\<lambda>_. Return ())"

section \<open>Rely and guarantee\<close>

inductive sat ::
  "('e \<Rightarrow> bool) \<Rightarrow> ('s \<Rightarrow> 's \<Rightarrow> bool) \<Rightarrow> ('s \<Rightarrow> 's \<Rightarrow> bool) \<Rightarrow> ('a \<Rightarrow> 's \<Rightarrow> bool) \<Rightarrow> ('e, 's, 'a) prog \<Rightarrow> 's \<Rightarrow> bool"
  for E R G Q where
  sat_Return: "(\<And>s'. R s s' \<Longrightarrow> Q a s') \<Longrightarrow> sat E R G Q (Return a) s"
| sat_Step: "(\<And>e s'. E e \<Longrightarrow> R s s' \<Longrightarrow> G s' (snd (f e s'))) \<Longrightarrow>
    (\<And>e s'. E e \<Longrightarrow> R s s' \<Longrightarrow> sat E R G Q (fst (f e s')) (snd (f e s'))) \<Longrightarrow> sat E R G Q (Step f) s"

inductive_cases sat_ReturnE: "sat E R G Q (Return a) s"
inductive_cases sat_StepE: "sat E R G Q (Step f) s"

lemma sat_weaken:
  assumes "sat E R G Q p s" and "\<And>a s. Q a s \<Longrightarrow> Q' a s"
  shows "sat E R G Q' p s"
  using assms by (induction rule: sat.induct) (auto intro: sat.intros)

text \<open>What others may do is closed under doing nothing and doing more.\<close>

locale rely =
  fixes R :: "'s \<Rightarrow> 's \<Rightarrow> bool"
  assumes refl: "R s s" and trans: "R a b \<Longrightarrow> R b c \<Longrightarrow> R a c"
begin

lemma sat_later:
  assumes "sat E R G Q p s" "R s s'"
  shows "sat E R G Q p s'"
  using assms
proof (cases rule: sat.cases)
  case (sat_Return a)
  then show ?thesis using assms(2) by (auto intro!: sat.sat_Return dest: trans)
next
  case (sat_Step f)
  then show ?thesis using assms(2) by (auto intro!: sat.sat_Step dest: trans)
qed

lemma sat_call:
  assumes "sat E R G Q p s" and "\<And>a s. Q a s \<Longrightarrow> sat E R G Q' (k a) s"
  shows "sat E R G Q' (call p k) s"
  using assms(1)
proof (induction rule: sat.induct)
  case (sat_Return s a)
  then show ?case using assms(2) refl by simp
next
  case (sat_Step s f)
  then show ?case by (auto intro!: sat.sat_Step simp: case_prod_beta)
qed

lemma sat_for_each:
  assumes "\<And>x s. x \<in> set xs \<Longrightarrow> I s \<Longrightarrow> sat E R G (\<lambda>_. I) (body x) s" and "I s"
    and keeps: "\<And>s s'. I s \<Longrightarrow> R s s' \<Longrightarrow> I s'"
  shows "sat E R G (\<lambda>_. I) (for_each body xs) s"
  using assms(1,2)
proof (induction xs arbitrary: s)
  case Nil
  then show ?case using keeps by (auto intro!: sat_Return)
next
  case (Cons x xs)
  show ?case unfolding for_each.simps
    by (rule sat_call [where Q = "\<lambda>_. I"], rule Cons.prems, simp, rule Cons.prems, rule sat_call [where Q = "\<lambda>_. I"])
      (use Cons keeps in \<open>auto intro!: sat_Return\<close>)
qed

lemma sat_complete:
  assumes "sat E R G Q p s" and "\<And>n. E (es n)"
  shows "case complete p es s of (a, s', es') \<Rightarrow> Q a s'"
  using assms(1,2)
proof (induction arbitrary: es rule: sat.induct)
  case (sat_Return s a)
  then show ?case using refl by simp
next
  case (sat_Step s f)
  have "E (es 0)" "\<And>n. E (es (Suc n))" using sat_Step.prems by auto
  then show ?case using sat_Step.IH [of "es 0" s "\<lambda>n. es (Suc n)"] refl by (simp add: case_prod_beta)
qed

end

text \<open>Own steps that others may rely on.\<close>

locale guarantee = rely R for R :: "'s \<Rightarrow> 's \<Rightarrow> bool" +
  fixes G :: "'s \<Rightarrow> 's \<Rightarrow> bool"
  assumes idle: "G s s" and guarantee: "G a b \<Longrightarrow> R a b"

section \<open>Interleaving\<close>

text \<open>
  A state of the system: the programs started so far, the shared state, and what others changed in it, each
  change with the state before and after.
\<close>

inductive concurrent ::
  "('e \<Rightarrow> bool) \<Rightarrow> ('s \<Rightarrow> 's \<Rightarrow> bool) \<Rightarrow> (('e, 's, unit) prog \<Rightarrow> bool) \<Rightarrow> 's \<Rightarrow>
   ('e, 's, unit) prog list \<Rightarrow> 's \<Rightarrow> ('s \<times> 's) list \<Rightarrow> bool"
  for E R program s0 where
  start: "concurrent E R program s0 [] s0 []"
| spawn: "concurrent E R program s0 ps s moves \<Longrightarrow> program p \<Longrightarrow> concurrent E R program s0 (ps @ [p]) s moves"
| step: "concurrent E R program s0 ps s moves \<Longrightarrow> i < length ps \<Longrightarrow> ps ! i = Step f \<Longrightarrow> E e \<Longrightarrow>
    concurrent E R program s0 (ps[i := fst (f e s)]) (snd (f e s)) moves"
| others: "concurrent E R program s0 ps s moves \<Longrightarrow> R s s' \<Longrightarrow> concurrent E R program s0 ps s' (moves @ [(s, s')])"

text \<open>A program that is started and runs to its end before anything else happens.\<close>

lemma concurrent_run:
  assumes "concurrent E R program s0 (ps @ [p]) s moves" "\<And>n. E (es n)"
  shows "concurrent E R program s0 (ps @ [Return (fst (complete p es s))]) (fst (snd (complete p es s))) moves"
  using assms
proof (induction p arbitrary: es s)
  case (Return a)
  then show ?case by simp
next
  case (Step f)
  let ?p = "fst (f (es 0) s)"
  have "concurrent E R program s0 ((ps @ [Step f])[length ps := ?p]) (snd (f (es 0) s)) moves"
    by (rule concurrent.step [OF Step.prems(1)]) (simp_all add: Step.prems(2))
  moreover have "?p \<in> Basic_BNFs.fsts (f (es 0) s)" by (rule Basic_BNFs.fsts.intros)
  ultimately show ?case
    using Step.IH [of "f (es 0)" "f (es 0) s" ?p "snd (f (es 0) s)" "\<lambda>n. es (Suc n)"] Step.prems(2)
    by (simp add: complete_Step del: complete.simps)
qed

text \<open>\<open>Inv\<close> is an invariant of what others do, in which programs are started.\<close>

locale rely_guarantee = guarantee R G for R G :: "'s \<Rightarrow> 's \<Rightarrow> bool" +
  fixes E :: "'e \<Rightarrow> bool" and Inv :: "'s \<Rightarrow> bool" and program :: "('e, 's, unit) prog \<Rightarrow> bool"
  assumes invariant: "Inv a \<Longrightarrow> R a b \<Longrightarrow> Inv b"
    and programs: "program p \<Longrightarrow> Inv s \<Longrightarrow> sat E R G (\<lambda>_ _. True) p s"
begin

lemma system:
  assumes "concurrent E R program s0 ps s moves" "Inv s0"
  shows "R s0 s" "\<forall>p \<in> set ps. sat E R G (\<lambda>_ _. True) p s"
  using assms
proof (induction rule: concurrent.induct)
  case start
  { case 1 show ?case by (rule refl) }
  { case 2 show ?case by simp }
next
  case (spawn ps s moves p)
  { case 1 then show ?case using spawn by simp }
  { case 2 then show ?case using spawn programs invariant by auto }
next
  case (step ps s moves i f e)
  have "sat E R G (\<lambda>_ _. True) (Step f) s" if "Inv s0" using step that nth_mem by metis
  then have own: "G s (snd (f e s))" "sat E R G (\<lambda>_ _. True) (fst (f e s)) (snd (f e s))" if "Inv s0"
    using step.hyps refl that by (auto elim!: sat_StepE)
  { case 1 then show ?case using own(1) step.IH(1) guarantee trans by blast }
  { case 2
    have "sat E R G (\<lambda>_ _. True) q (snd (f e s))" if "q \<in> set ps" for q
      using that 2 step.IH(2) sat_later guarantee [OF own(1)] by blast
    then show ?case using own(2) 2 set_update_subset_insert [of ps i "fst (f e s)"] by auto }
next
  case (others ps s moves s')
  { case 1 then show ?case using others trans by blast }
  { case 2 then show ?case using others sat_later by blast }
qed

lemma own_step:
  assumes "concurrent E R program s0 ps s moves" "Inv s0" "i < length ps" "ps ! i = Step f" "E e"
  shows "G s (snd (f e s))"
  using system(2) [OF assms(1,2)] assms(3-5) refl nth_mem by (metis sat_StepE)

lemma always: "concurrent E R program s0 ps s moves \<Longrightarrow> Inv s0 \<Longrightarrow> Inv s"
  using system(1) invariant by blast

text \<open>A quantity that no step of a program changes moves only with what others do.\<close>

lemma accounted:
  fixes m :: "'s \<Rightarrow> 'm::ab_group_add"
  assumes "concurrent E R program s0 ps s moves" "Inv s0" and "\<And>a b. G a b \<Longrightarrow> Inv a \<Longrightarrow> m b = m a"
  shows "m s = m s0 + (\<Sum>(a, b)\<leftarrow>moves. m b - m a)"
  using assms(1)
proof (induction rule: concurrent.induct)
  case start
  then show ?case by simp
next
  case (spawn ps s moves p)
  then show ?case by simp
next
  case (step ps s moves i f e)
  then have "m (snd (f e s)) = m s" using own_step always assms(2,3) by blast
  then show ?case using step by simp
next
  case (others ps s moves s')
  then show ?case by simp
qed

end

end
