(* ===== verification/PaymentTables.thy ===== *)
theory PaymentTables
  imports PaymentMoney GoStrings GoPrograms
begin

text \<open>
  The tables the payments work on (\<open>ent/schema\<close>: payment orders, their audit log, redeem codes, provider
  instances, the columns of users that payments touch), the redis keys of \<open>repository/redeem_cache.go\<close>, and how a
  program runs a statement on them. Subscriptions and affiliates have tables of their own, of the type \<open>'x\<close>.

  A step of a program gets an event: the clock it reads (no order between the readings of different steps is
  assumed), what happens to its statement, and what the payment provider answers if it is asked.
\<close>

section \<open>Rows\<close>

datatype OrderStatus =
    OrderStatusPending | OrderStatusPaid | OrderStatusRecharging | OrderStatusCompleted | OrderStatusExpired
  | OrderStatusCancelled | OrderStatusFailed | OrderStatusRefundRequested | OrderStatusRefunding
  | OrderStatusRefundPending | OrderStatusPartiallyRefunded | OrderStatusRefunded | OrderStatusRefundFailed

fun status_text :: "OrderStatus \<Rightarrow> string" where
  "status_text OrderStatusPending = ''PENDING''"
| "status_text OrderStatusPaid = ''PAID''"
| "status_text OrderStatusRecharging = ''RECHARGING''"
| "status_text OrderStatusCompleted = ''COMPLETED''"
| "status_text OrderStatusExpired = ''EXPIRED''"
| "status_text OrderStatusCancelled = ''CANCELLED''"
| "status_text OrderStatusFailed = ''FAILED''"
| "status_text OrderStatusRefundRequested = ''REFUND_REQUESTED''"
| "status_text OrderStatusRefunding = ''REFUNDING''"
| "status_text OrderStatusRefundPending = ''REFUND_PENDING''"
| "status_text OrderStatusPartiallyRefunded = ''PARTIALLY_REFUNDED''"
| "status_text OrderStatusRefunded = ''REFUNDED''"
| "status_text OrderStatusRefundFailed = ''REFUND_FAILED''"

definition OrderTypeBalance :: string where "OrderTypeBalance = ''balance''"
definition OrderTypeSubscription :: string where "OrderTypeSubscription = ''subscription''"

text \<open>A value of the JSON column \<open>provider_snapshot\<close>: a text, a whole number, or anything else.\<close>

datatype snapshot_value = SnapText string | SnapInt int | SnapOther

record PaymentOrder =
  po_ID :: int
  po_UserID :: int
  po_Amount :: rat
  po_PayAmount :: rat
  po_RechargeCode :: string
  po_OutTradeNo :: string
  po_PaymentType :: string
  po_PaymentTradeNo :: string
  po_OrderType :: string
  po_SubscriptionGroupID :: "int option"
  po_SubscriptionDays :: "int option"
  po_ProviderInstanceID :: "string option"
  po_ProviderKey :: "string option"
  po_ProviderSnapshot :: "(string \<times> snapshot_value) list"
  po_Status :: OrderStatus
  po_ExpiresAt :: time
  po_PaidAt :: "time option"
  po_CompletedAt :: "time option"
  po_FailedAt :: "time option"
  po_FailedReason :: "go_error option"
  po_UpdatedAt :: time

datatype audit_value = AuditText string | AuditNumber amount | AuditTime time | AuditError go_error

record PaymentAuditLog =
  pa_OrderID :: string
  pa_Action :: string
  pa_Operator :: string
  pa_Detail :: "(string \<times> audit_value) list"
  pa_CreatedAt :: time

record RedeemCode =
  rc_ID :: int
  rc_Code :: string
  rc_Type :: string
  rc_Value :: rat
  rc_Status :: string
  rc_UsedBy :: "int option"
  rc_UsedAt :: "time option"
  rc_Notes :: string
  rc_ExpiresAt :: "time option"
  rc_GroupID :: "int option"
  rc_ValidityDays :: int

record pay_user =
  pu_ID :: int
  pu_Balance :: rat
  pu_TotalRecharged :: rat
  pu_Concurrency :: int
  pu_Deleted :: bool

record PaymentProviderInstance =
  pi_ID :: int
  pi_ProviderKey :: string
  pi_Config :: string
  pi_SupportedTypes :: string
  pi_Enabled :: bool
  pi_PaymentMode :: string

text \<open>\<open>pw_code_seq\<close>: the next id of a code. \<open>pw_redis\<close>: the value of a key and when it expires.\<close>

record 'x pay_world =
  pw_orders :: "PaymentOrder list"
  pw_audits :: "PaymentAuditLog list"
  pw_codes :: "RedeemCode list"
  pw_code_seq :: int
  pw_users :: "pay_user list"
  pw_instances :: "PaymentProviderInstance list"
  pw_redis :: "string \<Rightarrow> (int \<times> time) option"
  pw_services :: 'x

section \<open>Events\<close>

record QueryOrderResponse =
  qr_TradeNo :: string
  qr_Status :: string
  qr_Amount :: amount
  qr_Metadata :: "(string \<times> string) list"

record pay_event =
  pe_now :: time
  pe_fault :: fault
  pe_query :: "go_error + QueryOrderResponse"

type_synonym ('x, 'a) pay_prog = "(pay_event, 'x pay_world, 'a) prog"

section \<open>Statements\<close>

text \<open>A statement with the reading of the clock that its caller passes; an error of its own changes nothing.\<close>

type_synonym ('x, 'r) pay_stmt = "time \<Rightarrow> 'x pay_world \<Rightarrow> (go_error + 'r) \<times> 'x pay_world"

definition sql :: "('x, 'r) pay_stmt \<Rightarrow> ('x, go_error + 'r) pay_prog" where
  "sql stmt = Step (\<lambda>e w.
     case pe_fault e of
       Runs \<Rightarrow> (Return (fst (stmt (pe_now e) w)), snd (stmt (pe_now e) w))
     | NeverRan \<Rightarrow> (Return (Inl conn_error), w)
     | ReplyLost \<Rightarrow> (Return (Inl conn_error), snd (stmt (pe_now e) w)))"

definition time_Now :: "('x, time) pay_prog" where
  "time_Now = Step (\<lambda>e w. (Return (pe_now e), w))"

definition ask_query :: "('x, go_error + QueryOrderResponse) pay_prog" where
  "ask_query = Step (\<lambda>e w. (Return (pe_query e), w))"

text \<open>\<open>Only\<close> of the data layer, with its two errors.\<close>

definition ent_not_found :: go_error where
  "ent_not_found = PlainErr ''ent: not found''"

definition ent_not_singular :: go_error where
  "ent_not_singular = PlainErr ''ent: not singular''"

definition ent_constraint :: go_error where
  "ent_constraint = PlainErr ''ent: constraint failed''"

definition only :: "('r \<Rightarrow> bool) \<Rightarrow> 'r list \<Rightarrow> go_error + 'r" where
  "only p rows = (case filter p rows of [] \<Rightarrow> Inl ent_not_found | [r] \<Rightarrow> Inr r | _ \<Rightarrow> Inl ent_not_singular)"

definition read :: "('x pay_world \<Rightarrow> go_error + 'r) \<Rightarrow> ('x, 'r) pay_stmt" where
  "read q t w = (q w, w)"

definition get_order :: "int \<Rightarrow> ('x, go_error + PaymentOrder) pay_prog" where
  "get_order oid = sql (read (\<lambda>w. only (\<lambda>r. po_ID r = oid) (pw_orders w)))"

definition order_by_trade_no :: "string \<Rightarrow> ('x, go_error + PaymentOrder) pay_prog" where
  "order_by_trade_no no = sql (read (\<lambda>w. only (\<lambda>r. po_OutTradeNo r = no) (pw_orders w)))"

text \<open>
  An update of the orders that satisfy a condition: the setters also refresh \<open>updated_at\<close> (unless they set it),
  and the number of rows is returned.
\<close>

definition update_orders ::
  "(time \<Rightarrow> PaymentOrder \<Rightarrow> bool) \<Rightarrow> (time \<Rightarrow> PaymentOrder \<Rightarrow> PaymentOrder) \<Rightarrow> ('x, int) pay_stmt" where
  "update_orders p f t w =
     (Inr (int (length (filter (p t) (pw_orders w)))),
      w\<lparr>pw_orders := map (\<lambda>r. if p t r then f t (r\<lparr>po_UpdatedAt := t\<rparr>) else r) (pw_orders w)\<rparr>)"

text \<open>
  The audit log has a unique index over order and action (\<open>migrations/131_affiliate_rebate_hardening.sql\<close>), so an
  action is logged once for an order and a repetition fails, which \<open>writeAuditLog\<close> reports to the log only.
\<close>

definition audit_taken :: "string \<Rightarrow> string \<Rightarrow> PaymentAuditLog list \<Rightarrow> bool" where
  "audit_taken oid action audits = list_ex (\<lambda>r. pa_OrderID r = oid \<and> pa_Action r = action) audits"

definition insert_audit :: "PaymentAuditLog \<Rightarrow> ('x, unit) pay_stmt" where
  "insert_audit r t w =
     (if audit_taken (pa_OrderID r) (pa_Action r) (pw_audits w) then (Inl ent_constraint, w)
      else (Inr (), w\<lparr>pw_audits := pw_audits w @ [r\<lparr>pa_CreatedAt := t\<rparr>]\<rparr>))"

definition audit_row :: "int \<Rightarrow> string \<Rightarrow> string \<Rightarrow> (string \<times> audit_value) list \<Rightarrow> PaymentAuditLog" where
  "audit_row oid action operator detail =
     \<lparr>pa_OrderID = itoa oid, pa_Action = action, pa_Operator = operator, pa_Detail = detail, pa_CreatedAt = 0\<rparr>"

definition writeAuditLog :: "int \<Rightarrow> string \<Rightarrow> string \<Rightarrow> (string \<times> audit_value) list \<Rightarrow> ('x, unit) pay_prog" where
  "writeAuditLog oid action operator detail =
     call (sql (insert_audit (audit_row oid action operator detail))) (\<lambda>_. Return ())"

definition hasAuditLog :: "int \<Rightarrow> string \<Rightarrow> ('x, bool) pay_prog" where
  "hasAuditLog oid action =
     call (sql (read (\<lambda>w. Inr (audit_taken (itoa oid) action (pw_audits w))))) (\<lambda>r. Return (r = Inr True))"

section \<open>Reasoning about statements\<close>

locale pay_guarantee = guarantee R G for R G :: "'x pay_world \<Rightarrow> 'x pay_world \<Rightarrow> bool"
begin

lemma sat_sql:
  assumes acts: "\<And>t w'. R w w' \<Longrightarrow> G w' (snd (stmt t w'))"
    and answer: "\<And>t w' w''. R w w' \<Longrightarrow> R (snd (stmt t w')) w'' \<Longrightarrow> Q (fst (stmt t w')) w''"
    and lost: "\<And>w''. R w w'' \<Longrightarrow> Q (Inl conn_error) w''"
  shows "sat E R G Q (sql stmt) w"
  unfolding sql_def
proof (rule sat_Step)
  fix e w' assume "R w w'"
  show "G w' (snd (case pe_fault e of
       Runs \<Rightarrow> (Return (fst (stmt (pe_now e) w')), snd (stmt (pe_now e) w'))
     | NeverRan \<Rightarrow> (Return (Inl conn_error), w') | ReplyLost \<Rightarrow> (Return (Inl conn_error), snd (stmt (pe_now e) w'))))"
    using acts [OF \<open>R w w'\<close>] idle by (cases "pe_fault e") simp_all
next
  fix e w' assume "R w w'"
  have step: "R w (snd (stmt (pe_now e) w'))" using trans [OF \<open>R w w'\<close> guarantee [OF acts [OF \<open>R w w'\<close>]]] .
  show "sat E R G Q (fst (case pe_fault e of
       Runs \<Rightarrow> (Return (fst (stmt (pe_now e) w')), snd (stmt (pe_now e) w'))
     | NeverRan \<Rightarrow> (Return (Inl conn_error), w') | ReplyLost \<Rightarrow> (Return (Inl conn_error), snd (stmt (pe_now e) w'))))
    (snd (case pe_fault e of
       Runs \<Rightarrow> (Return (fst (stmt (pe_now e) w')), snd (stmt (pe_now e) w'))
     | NeverRan \<Rightarrow> (Return (Inl conn_error), w') | ReplyLost \<Rightarrow> (Return (Inl conn_error), snd (stmt (pe_now e) w'))))"
    using answer [OF \<open>R w w'\<close>] lost trans [OF step] trans [OF \<open>R w w'\<close>]
    by (cases "pe_fault e") (auto intro!: sat_Return)
qed

end

end
