(* ===== verification/RedeemCodes.thy ===== *)
theory RedeemCodes
  imports PaymentTables
begin

text \<open>
  Redeem codes: \<open>service/redeem_code.go\<close>, \<open>service/redeem_service.go\<close>, \<open>repository/redeem_code_repo.go\<close>,
  \<open>repository/redeem_cache.go\<close> and the balance statements of \<open>repository/user_repo.go\<close> they use. The subscriptions
  that a code assigns or shortens and the rebates of affiliates are services with tables of their own, arguments
  of type \<open>redeem_env\<close>. A transaction is one step: it holds the lock of the row of its code from its first
  statement on.
\<close>

section \<open>Codes\<close>

definition StatusUnused :: string where "StatusUnused = ''unused''"
definition StatusUsed :: string where "StatusUsed = ''used''"
definition StatusExpired :: string where "StatusExpired = ''expired''"
definition StatusDisabled :: string where "StatusDisabled = ''disabled''"
definition RedeemTypeBalance :: string where "RedeemTypeBalance = ''balance''"
definition RedeemTypeConcurrency :: string where "RedeemTypeConcurrency = ''concurrency''"
definition RedeemTypeSubscription :: string where "RedeemTypeSubscription = ''subscription''"
definition RedeemTypeInvitation :: string where "RedeemTypeInvitation = ''invitation''"

lemmas code_constants = StatusUnused_def StatusUsed_def StatusExpired_def StatusDisabled_def RedeemTypeBalance_def
  RedeemTypeConcurrency_def RedeemTypeSubscription_def RedeemTypeInvitation_def

definition IsUsed :: "RedeemCode \<Rightarrow> bool" where
  "IsUsed r \<longleftrightarrow> rc_Status r = StatusUsed"

definition IsExpiredAt :: "time \<Rightarrow> RedeemCode \<Rightarrow> bool" where
  "IsExpiredAt now r \<longleftrightarrow>
     rc_Status r = StatusExpired \<or>
     (rc_Status r = StatusUnused \<and> (case rc_ExpiresAt r of Some t \<Rightarrow> \<not> t > now | None \<Rightarrow> False))"

definition CanUse :: "time \<Rightarrow> RedeemCode \<Rightarrow> bool" where
  "CanUse now r \<longleftrightarrow> rc_Status r = StatusUnused \<and> \<not> IsExpiredAt now r"

definition TooManyRequests :: "string \<Rightarrow> string \<Rightarrow> go_error" where
  "TooManyRequests r message = New 429 r message"

definition ErrRedeemCodeNotFound :: go_error where
  "ErrRedeemCodeNotFound = NotFound ''REDEEM_CODE_NOT_FOUND'' ''redeem code not found''"

definition ErrRedeemCodeUsed :: go_error where
  "ErrRedeemCodeUsed = Conflict ''REDEEM_CODE_USED'' ''redeem code already used''"

definition ErrRedeemCodeExpired :: go_error where
  "ErrRedeemCodeExpired = Conflict ''REDEEM_CODE_EXPIRED'' ''redeem code expired''"

definition ErrRedeemRateLimited :: go_error where
  "ErrRedeemRateLimited = TooManyRequests ''REDEEM_RATE_LIMITED'' ''too many failed attempts, please try again later''"

definition ErrRedeemCodeLocked :: go_error where
  "ErrRedeemCodeLocked = Conflict ''REDEEM_CODE_LOCKED'' ''redeem code is being processed, please try again''"

section \<open>The repository\<close>

text \<open>The validators of the schema, the unique index over \<open>code\<close> and the scale of the column \<open>value\<close>.\<close>

definition code_fits :: "RedeemCode \<Rightarrow> bool" where
  "code_fits r \<longleftrightarrow> rc_Code r \<noteq> [] \<and> length (rc_Code r) \<le> 64 \<and> length (rc_Type r) \<le> 20 \<and> length (rc_Status r) \<le> 20"

definition code_taken :: "string \<Rightarrow> RedeemCode list \<Rightarrow> bool" where
  "code_taken code rows = list_ex (\<lambda>r. rc_Code r = code) rows"

definition repo_Create :: "RedeemCode \<Rightarrow> ('x, int) pay_stmt" where
  "repo_Create r t w =
     (if \<not> code_fits r \<or> code_taken (rc_Code r) (pw_codes w) then (Inl ent_constraint, w)
      else (Inr (pw_code_seq w),
            w\<lparr>pw_codes := pw_codes w @ [r\<lparr>rc_ID := pw_code_seq w, rc_Value := round_to_scale (rc_Value r)\<rparr>],
              pw_code_seq := pw_code_seq w + 1\<rparr>))"

fun repo_insert_all :: "RedeemCode list \<Rightarrow> ('x, unit) pay_stmt" where
  "repo_insert_all [] t w = (Inr (), w)"
| "repo_insert_all (r # rs) t w =
     (case repo_Create r t w of
        (Inl err, _) \<Rightarrow> (Inl err, w)
      | (Inr _, w') \<Rightarrow> (case repo_insert_all rs t w' of (Inl err, _) \<Rightarrow> (Inl err, w) | (Inr u, w'') \<Rightarrow> (Inr u, w'')))"

definition repo_CreateBatch :: "RedeemCode list \<Rightarrow> ('x, unit) pay_stmt" where
  "repo_CreateBatch rs = repo_insert_all rs"

definition found_code :: "go_error + RedeemCode \<Rightarrow> go_error + RedeemCode" where
  "found_code r = (case r of Inl err \<Rightarrow> Inl (if err = ent_not_found then ErrRedeemCodeNotFound else err) | Inr c \<Rightarrow> Inr c)"

definition code_by_id :: "int \<Rightarrow> 'x pay_world \<Rightarrow> go_error + RedeemCode" where
  "code_by_id i w = found_code (only (\<lambda>r. rc_ID r = i) (pw_codes w))"

definition code_by_code :: "string \<Rightarrow> 'x pay_world \<Rightarrow> go_error + RedeemCode" where
  "code_by_code code w = found_code (only (\<lambda>r. rc_Code r = code) (pw_codes w))"

definition repo_GetByID :: "int \<Rightarrow> ('x, RedeemCode) pay_stmt" where
  "repo_GetByID i = read (code_by_id i)"

definition repo_GetByCode :: "string \<Rightarrow> ('x, RedeemCode) pay_stmt" where
  "repo_GetByCode code = read (code_by_code code)"

definition update_codes :: "(RedeemCode \<Rightarrow> bool) \<Rightarrow> (RedeemCode \<Rightarrow> RedeemCode) \<Rightarrow> 'x pay_world \<Rightarrow> 'x pay_world" where
  "update_codes p f w = w\<lparr>pw_codes := map (\<lambda>r. if p r then f r else r) (pw_codes w)\<rparr>"

definition usable_at :: "int \<Rightarrow> time \<Rightarrow> RedeemCode \<Rightarrow> bool" where
  "usable_at i now r \<longleftrightarrow>
     rc_ID r = i \<and> rc_Status r = StatusUnused \<and> (case rc_ExpiresAt r of None \<Rightarrow> True | Some t \<Rightarrow> t > now)"

definition repo_Use :: "int \<Rightarrow> int \<Rightarrow> ('x, unit) pay_stmt" where
  "repo_Use i userID now w =
     (if \<not> list_ex (usable_at i now) (pw_codes w) then (Inl ErrRedeemCodeUsed, w)
      else (Inr (), update_codes (usable_at i now)
              (\<lambda>r. r\<lparr>rc_Status := StatusUsed, rc_UsedBy := Some userID, rc_UsedAt := Some now\<rparr>) w))"

definition repo_Delete :: "int \<Rightarrow> ('x, unit) pay_stmt" where
  "repo_Delete i t w = (Inr (), w\<lparr>pw_codes := filter (\<lambda>r. rc_ID r \<noteq> i) (pw_codes w)\<rparr>)"

record RedeemCodeBatchUpdateFields =
  bf_Status :: "string option"
  bf_ExpiresAt :: "time option option"
  bf_Notes :: "string option"
  bf_GroupID :: "int option option"
  bf_Type :: "string option"
  bf_Value :: "rat option"

definition HasChanges :: "RedeemCodeBatchUpdateFields \<Rightarrow> bool" where
  "HasChanges f \<longleftrightarrow> bf_Status f \<noteq> None \<or> bf_ExpiresAt f \<noteq> None \<or> bf_Notes f \<noteq> None \<or> bf_GroupID f \<noteq> None \<or>
     bf_Type f \<noteq> None \<or> bf_Value f \<noteq> None"

definition HasCoreFieldChanges :: "RedeemCodeBatchUpdateFields \<Rightarrow> bool" where
  "HasCoreFieldChanges f \<longleftrightarrow> bf_Type f \<noteq> None \<or> bf_Value f \<noteq> None"

definition TouchesUsedSensitiveFields :: "RedeemCodeBatchUpdateFields \<Rightarrow> bool" where
  "TouchesUsedSensitiveFields f \<longleftrightarrow> bf_Status f \<noteq> None \<or> bf_ExpiresAt f \<noteq> None \<or> bf_GroupID f \<noteq> None"

definition batch_row :: "RedeemCodeBatchUpdateFields \<Rightarrow> RedeemCode \<Rightarrow> RedeemCode" where
  "batch_row f r =
     r\<lparr>rc_Status := (case bf_Status f of Some v \<Rightarrow> v | None \<Rightarrow> rc_Status r),
       rc_Notes := (case bf_Notes f of Some v \<Rightarrow> v | None \<Rightarrow> rc_Notes r),
       rc_ExpiresAt := (case bf_ExpiresAt f of Some v \<Rightarrow> v | None \<Rightarrow> rc_ExpiresAt r),
       rc_GroupID := (case bf_GroupID f of Some v \<Rightarrow> v | None \<Rightarrow> rc_GroupID r)\<rparr>"

text \<open>The rows are locked when they are read, and the transaction is rolled back on every error.\<close>

definition repo_batchUpdate :: "int list \<Rightarrow> RedeemCodeBatchUpdateFields \<Rightarrow> ('x, int) pay_stmt" where
  "repo_batchUpdate ids f t w =
     (let existing = filter (\<lambda>r. rc_ID r \<in> set ids) (pw_codes w) in
      if length existing \<noteq> length ids then (Inl ErrRedeemCodeNotFound, w)
      else if TouchesUsedSensitiveFields f \<and> list_ex IsUsed existing then (Inl ErrRedeemCodeUsed, w)
      else (Inr (int (length ids)), update_codes (\<lambda>r. rc_ID r \<in> set ids) (batch_row f) w))"

definition repo_BatchUpdate :: "int list \<Rightarrow> RedeemCodeBatchUpdateFields \<Rightarrow> ('x, int) pay_stmt" where
  "repo_BatchUpdate ids f t w =
     (let unique = remdups ids in if unique = [] then (Inr 0, w) else repo_batchUpdate unique f t w)"

section \<open>Balances of users\<close>

definition user_GetByID :: "int \<Rightarrow> ('x, pay_user) pay_stmt" where
  "user_GetByID i = read (\<lambda>w. case only (\<lambda>u. pu_ID u = i \<and> \<not> pu_Deleted u) (pw_users w) of
     Inl err \<Rightarrow> Inl (if err = ent_not_found then ErrUserNotFound else err) | Inr u \<Rightarrow> Inr u)"

definition update_users ::
  "(pay_user \<Rightarrow> bool) \<Rightarrow> (pay_user \<Rightarrow> pay_user) \<Rightarrow> ('x, unit) pay_stmt" where
  "update_users p f t w =
     (if \<not> list_ex p (pw_users w) then (Inl ErrUserNotFound, w)
      else (Inr (), w\<lparr>pw_users := map (\<lambda>u. if p u then f u else u) (pw_users w)\<rparr>))"

definition UpdateBalance :: "int \<Rightarrow> rat \<Rightarrow> ('x, unit) pay_stmt" where
  "UpdateBalance i amount =
     update_users (\<lambda>u. pu_ID u = i)
       (\<lambda>u. u\<lparr>pu_Balance := round_to_scale (pu_Balance u + amount),
              pu_TotalRecharged := (if amount > 0 then round_to_scale (pu_TotalRecharged u + amount) else pu_TotalRecharged u)\<rparr>)"

definition ApplyRedeemBalanceAdjustment :: "int \<Rightarrow> rat \<Rightarrow> ('x, unit) pay_stmt" where
  "ApplyRedeemBalanceAdjustment i delta =
     update_users (\<lambda>u. pu_ID u = i \<and> \<not> pu_Deleted u) (\<lambda>u. u\<lparr>pu_Balance := round_to_scale (max (pu_Balance u + delta) 0)\<rparr>)"

definition UpdateConcurrency :: "int \<Rightarrow> int \<Rightarrow> ('x, unit) pay_stmt" where
  "UpdateConcurrency i amount = update_users (\<lambda>u. pu_ID u = i) (\<lambda>u. u\<lparr>pu_Concurrency := pu_Concurrency u + amount\<rparr>)"

definition ApplyRedeemConcurrencyAdjustment :: "int \<Rightarrow> int \<Rightarrow> ('x, unit) pay_stmt" where
  "ApplyRedeemConcurrencyAdjustment i delta =
     update_users (\<lambda>u. pu_ID u = i \<and> \<not> pu_Deleted u) (\<lambda>u. u\<lparr>pu_Concurrency := max (pu_Concurrency u + delta) 0\<rparr>)"

section \<open>Redis\<close>

definition redis_live :: "string \<Rightarrow> time \<Rightarrow> 'x pay_world \<Rightarrow> int option" where
  "redis_live key t w = (case pw_redis w key of Some (v, e) \<Rightarrow> if t < e then Some v else None | None \<Rightarrow> None)"

definition redis_put :: "string \<Rightarrow> (int \<times> time) option \<Rightarrow> 'x pay_world \<Rightarrow> 'x pay_world" where
  "redis_put key v w = w\<lparr>pw_redis := (pw_redis w)(key := v)\<rparr>"

definition redeemRateLimitKey :: "int \<Rightarrow> string" where
  "redeemRateLimitKey userID = ''redeem:ratelimit:'' @ itoa userID"

definition redeemLockKey :: "string \<Rightarrow> string" where
  "redeemLockKey code = ''redeem:lock:'' @ code"

definition redeemUserLockKey :: "int \<Rightarrow> string" where
  "redeemUserLockKey userID = ''redeem:userlock:'' @ itoa userID"

definition cacheRateLimitDuration :: duration where
  "cacheRateLimitDuration = 24 * 3600 * second"

definition GetRedeemAttemptCount :: "int \<Rightarrow> ('x, int) pay_stmt" where
  "GetRedeemAttemptCount userID t w =
     (Inr (case redis_live (redeemRateLimitKey userID) t w of Some v \<Rightarrow> v | None \<Rightarrow> 0), w)"

definition IncrementRedeemAttemptCount :: "int \<Rightarrow> ('x, unit) pay_stmt" where
  "IncrementRedeemAttemptCount userID t w =
     (let v = (case redis_live (redeemRateLimitKey userID) t w of Some v \<Rightarrow> v | None \<Rightarrow> 0) in
      (Inr (), redis_put (redeemRateLimitKey userID) (Some (v + 1, t + cacheRateLimitDuration)) w))"

definition redis_SetNX :: "string \<Rightarrow> duration \<Rightarrow> ('x, bool) pay_stmt" where
  "redis_SetNX key ttl t w =
     (if redis_live key t w \<noteq> None then (Inr False, w) else (Inr True, redis_put key (Some (1, t + ttl)) w))"

definition redis_Del :: "string \<Rightarrow> ('x, unit) pay_stmt" where
  "redis_Del key t w = (Inr (), redis_put key None w)"

section \<open>The service\<close>

text \<open>
  The configuration of the service and the services it calls: the subscription that a code assigns, extends,
  shortens or cancels for a user, and the rebate of a recharge.
\<close>

record 'x redeem_env =
  re_cache :: bool
  re_affiliate :: bool
  re_subscribe :: "time \<Rightarrow> int \<Rightarrow> RedeemCode \<Rightarrow> 'x \<Rightarrow> go_error \<times> 'x"
  re_accrue :: "time \<Rightarrow> int \<Rightarrow> rat \<Rightarrow> int option \<Rightarrow> 'x \<Rightarrow> (go_error + rat) \<times> 'x"

definition redeemMaxErrorsPerHour :: int where "redeemMaxErrorsPerHour = 20"
definition redeemLockDuration :: duration where "redeemLockDuration = 10 * second"
definition redeemCodeMaxLength :: nat where "redeemCodeMaxLength = 64"

text \<open>\<open>hex\<close>: the 32 hexadecimal digits of the 16 random bytes.\<close>

definition GenerateRandomCode :: "string \<Rightarrow> string" where
  "GenerateRandomCode hex =
     to_upper (take 8 hex) @ ''-'' @ to_upper (take 8 (drop 8 hex)) @ ''-'' @
     to_upper (take 8 (drop 16 hex)) @ ''-'' @ to_upper (take 8 (drop 24 hex))"

record GenerateCodesRequest =
  gc_Count :: int
  gc_Value :: rat
  gc_Type :: string

definition new_code :: "string \<Rightarrow> string \<Rightarrow> rat \<Rightarrow> RedeemCode" where
  "new_code code codeType value =
     \<lparr>rc_ID = 0, rc_Code = code, rc_Type = codeType, rc_Value = value, rc_Status = StatusUnused, rc_UsedBy = None,
       rc_UsedAt = None, rc_Notes = [], rc_ExpiresAt = None, rc_GroupID = None, rc_ValidityDays = 0\<rparr>"

definition GenerateCodes :: "(nat \<Rightarrow> string) \<Rightarrow> GenerateCodesRequest \<Rightarrow> ('x, go_error + RedeemCode list) pay_prog" where
  "GenerateCodes hexes req =
     (if gc_Count req \<le> 0 then Return (Inl (PlainErr ''count must be greater than 0''))
      else if gc_Type req \<noteq> RedeemTypeInvitation \<and> gc_Value req = 0 then Return (Inl (PlainErr ''value must not be zero''))
      else if gc_Count req > 1000 then Return (Inl (PlainErr ''cannot generate more than 1000 codes at once''))
      else
        (let codeType = (if gc_Type req = [] then RedeemTypeBalance else gc_Type req);
             value = (if codeType = RedeemTypeInvitation then 0 else gc_Value req);
             codes = map (\<lambda>i. new_code (GenerateRandomCode (hexes i)) codeType value) [0..<nat (gc_Count req)]
         in call (sql (repo_CreateBatch codes)) (\<lambda>r. Return
              (case r of Inl err \<Rightarrow> Inl (WrapErr ''create batch codes'' err) | Inr _ \<Rightarrow> Inr codes))))"

definition CreateCode :: "RedeemCode \<Rightarrow> ('x, go_error) pay_prog" where
  "CreateCode raw =
     (let code = raw\<lparr>rc_Code := trim_space (rc_Code raw)\<rparr> in
      if rc_Code code = [] then Return (PlainErr ''code is required'')
      else
        (let code = code\<lparr>rc_Type := (if rc_Type code = [] then RedeemTypeBalance else rc_Type code)\<rparr> in
         if rc_Type code \<noteq> RedeemTypeInvitation \<and> rc_Value code = 0 then Return (PlainErr ''value must not be zero'')
         else
           (let code = code\<lparr>rc_Status := (if rc_Status code = [] then StatusUnused else rc_Status code)\<rparr> in
            call time_Now (\<lambda>now.
              if IsExpiredAt now code then Return ErrRedeemCodeExpired
              else call (sql (repo_Create code)) (\<lambda>r. Return
                (case r of Inl err \<Rightarrow> WrapErr ''create redeem code'' err | Inr _ \<Rightarrow> NilErr))))))"

definition batch_bad :: "string \<Rightarrow> string \<Rightarrow> ('x, go_error + int) pay_prog" where
  "batch_bad reason message = Return (Inl (BadRequest reason message))"

definition BatchUpdate :: "int list \<Rightarrow> RedeemCodeBatchUpdateFields \<Rightarrow> ('x, go_error + int) pay_prog" where
  "BatchUpdate ids f =
     (if ids = [] then batch_bad ''REDEEM_CODE_BATCH_UPDATE_IDS_REQUIRED'' ''ids are required''
      else if \<not> HasChanges f then batch_bad ''REDEEM_CODE_BATCH_UPDATE_EMPTY'' ''at least one field must be selected''
      else if HasCoreFieldChanges f then
        batch_bad ''REDEEM_CODE_CORE_FIELDS_IMMUTABLE'' ''type and value cannot be batch updated''
      else if list_ex (\<lambda>i. i \<le> 0) ids then batch_bad ''REDEEM_CODE_BATCH_UPDATE_INVALID_ID'' ''ids must be positive''
      else if (case bf_Status f of Some v \<Rightarrow> v \<notin> {StatusUnused, StatusDisabled} | None \<Rightarrow> False) then
        batch_bad ''REDEEM_CODE_STATUS_INVALID'' ''status must be unused or disabled''
      else call time_Now (\<lambda>now.
        if (case bf_ExpiresAt f of Some (Some t) \<Rightarrow> \<not> t > now | _ \<Rightarrow> False) then
          batch_bad ''REDEEM_CODE_EXPIRES_AT_INVALID'' ''expires_at must be in the future''
        else if (case bf_GroupID f of Some (Some g) \<Rightarrow> g \<le> 0 | _ \<Rightarrow> False) then
          batch_bad ''REDEEM_CODE_GROUP_ID_INVALID'' ''group_id must be positive''
        else sql (repo_BatchUpdate (remdups ids) f)))"

definition checkRedeemRateLimit :: "'x redeem_env \<Rightarrow> int \<Rightarrow> ('x, go_error) pay_prog" where
  "checkRedeemRateLimit env userID =
     (if \<not> re_cache env then Return NilErr
      else call (sql (GetRedeemAttemptCount userID)) (\<lambda>r. Return
        (case r of Inl _ \<Rightarrow> NilErr | Inr count \<Rightarrow> if count \<ge> redeemMaxErrorsPerHour then ErrRedeemRateLimited else NilErr)))"

definition redeemFailureRiskAction :: string where
  "redeemFailureRiskAction = ''recharge_risk_redeem_failures''"

definition risk_order :: "int \<Rightarrow> string" where
  "risk_order userID = ''redeem-risk:'' @ itoa userID"

definition risk_row :: "int \<Rightarrow> PaymentAuditLog" where
  "risk_row userID =
     \<lparr>pa_OrderID = risk_order userID, pa_Action = redeemFailureRiskAction, pa_Operator = ''system'',
       pa_Detail = [(''detail'', AuditText ''20 or more invalid redemption attempts within one hour'')], pa_CreatedAt = 0\<rparr>"

definition recordRedeemFailureRisk :: "int \<Rightarrow> ('x, unit) pay_prog" where
  "recordRedeemFailureRisk userID =
     call time_Now (\<lambda>now.
     call (sql (read (\<lambda>w. Inr (list_ex
        (\<lambda>r. pa_OrderID r = risk_order userID \<and> pa_Action r = redeemFailureRiskAction \<and> pa_CreatedAt r \<ge> now - 3600 * second)
        (pw_audits w))))) (\<lambda>r.
     if r \<noteq> Inr False then Return ()
     else call (sql (\<lambda>_. insert_audit (risk_row userID) now)) (\<lambda>_. Return ())))"

definition incrementRedeemErrorCount :: "'x redeem_env \<Rightarrow> int \<Rightarrow> ('x, unit) pay_prog" where
  "incrementRedeemErrorCount env userID =
     (if \<not> re_cache env then Return ()
      else call (sql (GetRedeemAttemptCount userID)) (\<lambda>count.
           call (sql (IncrementRedeemAttemptCount userID)) (\<lambda>r.
             case (r, count) of
               (Inr _, Inr n) \<Rightarrow> if n + 1 \<ge> redeemMaxErrorsPerHour then recordRedeemFailureRisk userID else Return ()
             | _ \<Rightarrow> Return ())))"

definition acquire_lock :: "'x redeem_env \<Rightarrow> string \<Rightarrow> ('x, bool) pay_prog" where
  "acquire_lock env key =
     (if \<not> re_cache env then Return True
      else call (sql (redis_SetNX key redeemLockDuration)) (\<lambda>r. Return (case r of Inl _ \<Rightarrow> True | Inr ok \<Rightarrow> ok)))"

definition release_lock :: "'x redeem_env \<Rightarrow> string \<Rightarrow> ('x, unit) pay_prog" where
  "release_lock env key = (if \<not> re_cache env then Return () else call (sql (redis_Del key)) (\<lambda>_. Return ()))"

definition acquireRedeemLock :: "'x redeem_env \<Rightarrow> string \<Rightarrow> ('x, bool) pay_prog" where
  "acquireRedeemLock env code = acquire_lock env (redeemLockKey code)"

definition releaseRedeemLock :: "'x redeem_env \<Rightarrow> string \<Rightarrow> ('x, unit) pay_prog" where
  "releaseRedeemLock env code = release_lock env (redeemLockKey code)"

definition acquireRedeemUserLock :: "'x redeem_env \<Rightarrow> int \<Rightarrow> ('x, bool) pay_prog" where
  "acquireRedeemUserLock env userID = acquire_lock env (redeemUserLockKey userID)"

definition releaseRedeemUserLock :: "'x redeem_env \<Rightarrow> int \<Rightarrow> ('x, unit) pay_prog" where
  "releaseRedeemUserLock env userID = release_lock env (redeemUserLockKey userID)"

definition unsupportedRedeemTypeError :: "string \<Rightarrow> go_error" where
  "unsupportedRedeemTypeError codeType =
     (if codeType = RedeemTypeInvitation
      then BadRequest ''REDEEM_CODE_UNSUPPORTED_TYPE'' ''invitation codes can only be used during registration''
      else BadRequest ''REDEEM_CODE_UNSUPPORTED_TYPE'' (''unsupported redeem type: '' @ codeType))"

definition missing_group_error :: go_error where
  "missing_group_error = BadRequest ''REDEEM_CODE_INVALID'' ''invalid subscription redeem code: missing group_id''"

text \<open>What a code gives, inside the transaction. \<open>redeem_tx\<close> is the transaction, rolled back on every error.\<close>

definition stmt_error :: "string \<Rightarrow> (go_error + unit) \<times> 'w \<Rightarrow> go_error \<times> 'w" where
  "stmt_error text r = (case r of (Inl err, w) \<Rightarrow> (WrapErr text err, w) | (Inr _, w) \<Rightarrow> (NilErr, w))"

definition redeem_benefit :: "'x redeem_env \<Rightarrow> int \<Rightarrow> RedeemCode \<Rightarrow> time \<Rightarrow> 'x pay_world \<Rightarrow> go_error \<times> 'x pay_world" where
  "redeem_benefit env userID r t w =
     (if rc_Type r = RedeemTypeBalance then
        stmt_error ''update user balance''
          (if rc_Value r < 0 then ApplyRedeemBalanceAdjustment userID (rc_Value r) t w else UpdateBalance userID (rc_Value r) t w)
      else if rc_Type r = RedeemTypeConcurrency then
        (let delta = trunc_rat (rc_Value r) in
         stmt_error ''update user concurrency''
           (if delta < 0 then ApplyRedeemConcurrencyAdjustment userID delta t w else UpdateConcurrency userID delta t w))
      else if rc_Type r = RedeemTypeSubscription then
        (case re_subscribe env t userID r (pw_services w) of (err, x) \<Rightarrow> (err, w\<lparr>pw_services := x\<rparr>))
      else (unsupportedRedeemTypeError (rc_Type r), w))"

definition redeem_tx :: "'x redeem_env \<Rightarrow> int \<Rightarrow> int \<Rightarrow> ('x, RedeemCode) pay_stmt" where
  "redeem_tx env userID codeID t w =
     (case repo_Use codeID userID t w of
        (Inl err, _) \<Rightarrow>
          (Inl (if errors_is err ErrRedeemCodeNotFound \<or> errors_is err ErrRedeemCodeUsed then ErrRedeemCodeUsed
                else WrapErr ''mark code as used'' err), w)
      | (Inr _, w1) \<Rightarrow>
          (case code_by_id codeID w1 of
             Inl err \<Rightarrow> (Inl (WrapErr ''get locked redeem code'' err), w)
           | Inr r \<Rightarrow>
               if rc_Type r = RedeemTypeSubscription \<and> rc_GroupID r = None then (Inl missing_group_error, w)
               else (case redeem_benefit env userID r t w1 of
                       (err, w2) \<Rightarrow> if err \<noteq> NilErr then (Inl err, w) else (Inr r, w2))))"

definition accrue :: "'x redeem_env \<Rightarrow> int \<Rightarrow> rat \<Rightarrow> int option \<Rightarrow> ('x, rat) pay_stmt" where
  "accrue env userID amount source t w =
     (case re_accrue env t userID amount source (pw_services w) of (r, x) \<Rightarrow> (r, w\<lparr>pw_services := x\<rparr>))"

definition tryAccrueAffiliateRebateForRedeem :: "'x redeem_env \<Rightarrow> bool \<Rightarrow> int \<Rightarrow> rat \<Rightarrow> ('x, unit) pay_prog" where
  "tryAccrueAffiliateRebateForRedeem env skip userID amount =
     (if skip \<or> \<not> re_affiliate env then Return ()
      else call (sql (accrue env userID amount None)) (\<lambda>_. Return ()))"

text \<open>\<open>skip\<close>: the context suppresses the rebate. Caches of balances are invalidated after the commit, which is left out.\<close>

definition redeem_commit :: "'x redeem_env \<Rightarrow> bool \<Rightarrow> int \<Rightarrow> int \<Rightarrow> ('x, go_error + RedeemCode) pay_prog" where
  "redeem_commit env skip userID codeID =
     call (sql (redeem_tx env userID codeID)) (\<lambda>r. case r of
       Inl err \<Rightarrow> Return (Inl err)
     | Inr c \<Rightarrow>
         call (if rc_Type c = RedeemTypeBalance \<and> rc_Value c > 0
               then tryAccrueAffiliateRebateForRedeem env skip userID (rc_Value c) else Return ()) (\<lambda>_.
         call (sql (repo_GetByID (rc_ID c))) (\<lambda>r2. Return
           (case r2 of Inl err \<Rightarrow> Inl (WrapErr ''get updated redeem code'' err) | Inr c2 \<Rightarrow> Inr c2))))"

definition redeem_refused :: "'x redeem_env \<Rightarrow> int \<Rightarrow> go_error \<Rightarrow> ('x, go_error + RedeemCode) pay_prog" where
  "redeem_refused env userID err = call (incrementRedeemErrorCount env userID) (\<lambda>_. Return (Inl err))"

definition redeem_locked :: "'x redeem_env \<Rightarrow> bool \<Rightarrow> int \<Rightarrow> string \<Rightarrow> ('x, go_error + RedeemCode) pay_prog" where
  "redeem_locked env skip userID code =
     call (sql (repo_GetByCode code)) (\<lambda>r. case r of
       Inl err \<Rightarrow>
         if errors_is err ErrRedeemCodeNotFound then redeem_refused env userID ErrRedeemCodeNotFound
         else Return (Inl (WrapErr ''get redeem code'' err))
     | Inr c \<Rightarrow>
         call time_Now (\<lambda>now. if IsExpiredAt now c then redeem_refused env userID ErrRedeemCodeExpired else
         call time_Now (\<lambda>now. if \<not> CanUse now c then redeem_refused env userID ErrRedeemCodeUsed else
           if rc_Type c = RedeemTypeSubscription \<and> rc_GroupID c = None then Return (Inl missing_group_error)
           else if rc_Type c \<notin> {RedeemTypeBalance, RedeemTypeConcurrency, RedeemTypeSubscription}
           then Return (Inl (unsupportedRedeemTypeError (rc_Type c)))
           else call (sql (user_GetByID userID)) (\<lambda>u. case u of
                  Inl err \<Rightarrow> Return (Inl (WrapErr ''get user'' err))
                | Inr _ \<Rightarrow> redeem_commit env skip userID (rc_ID c)))))"

definition redeem :: "'x redeem_env \<Rightarrow> bool \<Rightarrow> int \<Rightarrow> string \<Rightarrow> ('x, go_error + RedeemCode) pay_prog" where
  "redeem env skip userID code =
     call (checkRedeemRateLimit env userID) (\<lambda>err. if err \<noteq> NilErr then Return (Inl err) else
     call (acquireRedeemLock env code) (\<lambda>ok. if \<not> ok then Return (Inl ErrRedeemCodeLocked) else
     call (redeem_locked env skip userID code) (\<lambda>r.
     call (releaseRedeemLock env code) (\<lambda>_. Return r))))"

definition is_payment_code :: "string \<Rightarrow> bool" where
  "is_payment_code code = has_prefix ''PAY-'' (to_upper (trim_space code))"

definition Redeem :: "'x redeem_env \<Rightarrow> int \<Rightarrow> string \<Rightarrow> ('x, go_error + RedeemCode) pay_prog" where
  "Redeem env userID code =
     (if trim_space code = [] then Return (Inl ErrRedeemCodeNotFound)
      else if is_payment_code code then Return (Inl ErrRedeemCodeNotFound)
      else call (acquireRedeemUserLock env userID) (\<lambda>ok. if \<not> ok then Return (Inl ErrRedeemCodeLocked) else
           call (if rune_count code > redeemCodeMaxLength
                 then call (checkRedeemRateLimit env userID) (\<lambda>err. if err \<noteq> NilErr then Return (Inl err)
                      else redeem_refused env userID ErrRedeemCodeNotFound)
                 else redeem env False userID code) (\<lambda>r.
           call (releaseRedeemUserLock env userID) (\<lambda>_. Return r))))"

definition GetByCode :: "string \<Rightarrow> ('x, go_error + RedeemCode) pay_prog" where
  "GetByCode code = call (sql (repo_GetByCode code)) (\<lambda>r. Return
     (case r of Inl err \<Rightarrow> Inl (WrapErr ''get redeem code'' err) | Inr c \<Rightarrow> Inr c))"

definition DeleteCode :: "int \<Rightarrow> ('x, go_error) pay_prog" where
  "DeleteCode codeID =
     call (sql (repo_GetByID codeID)) (\<lambda>r. case r of
       Inl err \<Rightarrow> Return (WrapErr ''get redeem code'' err)
     | Inr c \<Rightarrow>
         if IsUsed c then Return (Conflict ''REDEEM_CODE_DELETE_USED'' ''cannot delete used redeem code'')
         else call (sql (repo_Delete codeID)) (\<lambda>r. Return (case r of Inl err \<Rightarrow> WrapErr ''delete redeem code'' err | Inr _ \<Rightarrow> NilErr)))"

end
