(* ===== verification/PaymentProviders.thy ===== *)
theory PaymentProviders
  imports RedeemCodes
begin

text \<open>
  Which provider an order belongs to and whether a notification comes from it:
  \<open>service/payment_order_provider_snapshot.go\<close>, \<open>service/payment_webhook_provider.go\<close>, \<open>service/payment_currency.go\<close>,
  \<open>payment/registry.go\<close> and the resolution of provider instances in \<open>service/payment_refund.go\<close>. The decryption of
  configurations and the construction of the providers (clients of remote services) are arguments.
\<close>

section \<open>Payment types\<close>

definition TypeAlipay :: string where "TypeAlipay = ''alipay''"
definition TypeWxpay :: string where "TypeWxpay = ''wxpay''"
definition TypeAlipayDirect :: string where "TypeAlipayDirect = ''alipay_direct''"
definition TypeWxpayDirect :: string where "TypeWxpayDirect = ''wxpay_direct''"
definition TypeStripe :: string where "TypeStripe = ''stripe''"
definition TypeCard :: string where "TypeCard = ''card''"
definition TypeLink :: string where "TypeLink = ''link''"
definition TypeEasyPay :: string where "TypeEasyPay = ''easypay''"
definition TypeAirwallex :: string where "TypeAirwallex = ''airwallex''"

lemmas payment_types = TypeAlipay_def TypeWxpay_def TypeAlipayDirect_def TypeWxpayDirect_def TypeStripe_def
  TypeCard_def TypeLink_def TypeEasyPay_def TypeAirwallex_def

definition GetBasePaymentType :: "string \<Rightarrow> string" where
  "GetBasePaymentType t =
     (if t = TypeEasyPay then TypeEasyPay
      else if t = TypeAirwallex then TypeAirwallex
      else if t = TypeStripe \<or> t = TypeCard \<or> t = TypeLink then TypeStripe
      else if has_prefix TypeAlipay t then TypeAlipay
      else if has_prefix TypeWxpay t then TypeWxpay
      else t)"

definition normalizeVisibleMethodSupportType :: "string \<Rightarrow> string" where
  "normalizeVisibleMethodSupportType paymentType =
     (let t = trim_space paymentType in
      if t = TypeAlipay \<or> t = TypeAlipayDirect then TypeAlipay
      else if t = TypeWxpay \<or> t = TypeWxpayDirect then TypeWxpay
      else t)"

definition InstanceSupportsType :: "string \<Rightarrow> string \<Rightarrow> bool" where
  "InstanceSupportsType supportedTypes target \<longleftrightarrow>
     supportedTypes = [] \<or>
     list_ex (\<lambda>t. trim_space t = target \<or>
         normalizeVisibleMethodSupportType (trim_space t) = normalizeVisibleMethodSupportType target)
       (split_at (CHR '','') supportedTypes)"

section \<open>Providers\<close>

type_synonym config = "(string \<times> string) list"

definition lookup :: "string \<Rightarrow> config \<Rightarrow> string" where
  "lookup key m = (case map_of m key of Some v \<Rightarrow> v | None \<Rightarrow> [])"

text \<open>What the service sees of a provider: its key, the texts that identify the merchant, whether it can cancel.\<close>

record pay_provider =
  pp_ProviderKey :: string
  pp_Identity :: config
  pp_Cancelable :: bool

text \<open>The registry maps payment types to providers; \<open>GetProviderByKey\<close> takes the first in the order of iteration.\<close>

type_synonym registry = "(string \<times> pay_provider) list"

definition ErrProviderNotFound :: go_error where
  "ErrProviderNotFound = NotFound ''PROVIDER_NOT_FOUND'' ''payment provider not registered''"

definition GetProvider :: "registry \<Rightarrow> string \<Rightarrow> go_error + pay_provider" where
  "GetProvider reg t = (case map_of reg t of Some p \<Rightarrow> Inr p | None \<Rightarrow> Inl ErrProviderNotFound)"

definition GetProviderByKey :: "registry \<Rightarrow> string \<Rightarrow> go_error + pay_provider" where
  "GetProviderByKey reg key =
     (case find (\<lambda>p. pp_ProviderKey p = key) (map snd reg) of Some p \<Rightarrow> Inr p | None \<Rightarrow> Inl ErrProviderNotFound)"

definition GetProviderKey :: "registry \<Rightarrow> string \<Rightarrow> string" where
  "GetProviderKey reg t = (case map_of reg t of Some p \<Rightarrow> pp_ProviderKey p | None \<Rightarrow> [])"

text \<open>
  The payment service: the code service, whether rebates are on, the registry (loaded), decryption, construction of
  providers, and of the subscription service: whether a group is active, the notes of the subscription of a user
  in a group, and the assignment or extension of a subscription for a number of days with a note.
\<close>

record 'x pay_env =
  ps_redeem :: "'x redeem_env"
  ps_affiliate :: bool
  ps_group_active :: "int \<Rightarrow> 'x \<Rightarrow> go_error + bool"
  ps_sub_notes :: "int \<Rightarrow> int \<Rightarrow> 'x \<Rightarrow> go_error + string option"
  ps_assign :: "time \<Rightarrow> int \<Rightarrow> int \<Rightarrow> int \<Rightarrow> string \<Rightarrow> 'x \<Rightarrow> go_error \<times> 'x"
  ps_registry :: registry
  ps_decrypt :: "string \<Rightarrow> go_error + config"
  ps_create :: "string \<Rightarrow> string \<Rightarrow> config \<Rightarrow> go_error + pay_provider"

section \<open>Snapshots\<close>

record paymentOrderProviderSnapshot =
  ss_SchemaVersion :: int
  ss_ProviderInstanceID :: string
  ss_ProviderKey :: string
  ss_PaymentMode :: string
  ss_MerchantAppID :: string
  ss_MerchantID :: string
  ss_Currency :: string

definition psSnapshotStringValue :: "snapshot_value option \<Rightarrow> string" where
  "psSnapshotStringValue v = (case v of Some (SnapText s) \<Rightarrow> trim_space s | _ \<Rightarrow> [])"

definition psSnapshotIntValue :: "snapshot_value option \<Rightarrow> int" where
  "psSnapshotIntValue v =
     (case v of
        Some (SnapInt n) \<Rightarrow> n
      | Some (SnapText s) \<Rightarrow> (case ParseInt (trim_space s) of Some n \<Rightarrow> n | None \<Rightarrow> 0)
      | _ \<Rightarrow> 0)"

definition snapshot_of :: "(string \<times> snapshot_value) list \<Rightarrow> paymentOrderProviderSnapshot" where
  "snapshot_of m =
     \<lparr>ss_SchemaVersion = psSnapshotIntValue (map_of m ''schema_version''),
       ss_ProviderInstanceID = psSnapshotStringValue (map_of m ''provider_instance_id''),
       ss_ProviderKey = psSnapshotStringValue (map_of m ''provider_key''),
       ss_PaymentMode = psSnapshotStringValue (map_of m ''payment_mode''),
       ss_MerchantAppID = psSnapshotStringValue (map_of m ''merchant_app_id''),
       ss_MerchantID = psSnapshotStringValue (map_of m ''merchant_id''),
       ss_Currency = psSnapshotStringValue (map_of m ''currency'')\<rparr>"

definition psOrderProviderSnapshot :: "PaymentOrder \<Rightarrow> paymentOrderProviderSnapshot option" where
  "psOrderProviderSnapshot r =
     (if po_ProviderSnapshot r = [] then None
      else (let s = snapshot_of (po_ProviderSnapshot r) in
            if ss_SchemaVersion s = 0 \<and> ss_ProviderInstanceID s = [] \<and> ss_ProviderKey s = [] \<and> ss_PaymentMode s = [] \<and>
               ss_MerchantAppID s = [] \<and> ss_MerchantID s = [] \<and> ss_Currency s = []
            then None else Some s))"

definition psStringValue :: "string option \<Rightarrow> string" where
  "psStringValue v = (case v of Some s \<Rightarrow> s | None \<Rightarrow> [])"

definition PaymentOrderCurrency :: "PaymentOrder \<Rightarrow> string" where
  "PaymentOrderCurrency r =
     (case psOrderProviderSnapshot r of
        Some s \<Rightarrow> (case NormalizePaymentCurrency (ss_Currency s) of Inr c \<Rightarrow> c | Inl _ \<Rightarrow> DefaultPaymentCurrency)
      | None \<Rightarrow> DefaultPaymentCurrency)"

definition paymentProviderConfigCurrency :: "string \<Rightarrow> config \<Rightarrow> string" where
  "paymentProviderConfigCurrency providerKey cfg =
     (let k = trim_space providerKey in
      if k = TypeStripe \<or> k = TypeAirwallex then
        (case NormalizePaymentCurrency (lookup ''currency'' cfg) of Inr c \<Rightarrow> c | Inl _ \<Rightarrow> DefaultPaymentCurrency)
      else DefaultPaymentCurrency)"

text \<open>
  The snapshot of a chosen instance. \<open>appID\<close> is the application id that \<open>paymentOrderSnapshotWxpayAppID\<close>
  chooses; without an open id it is the configured \<open>appId\<close>.
\<close>

record InstanceSelection =
  is_InstanceID :: string
  is_ProviderKey :: string
  is_PaymentMode :: string
  is_Config :: config

definition entry :: "string \<Rightarrow> string \<Rightarrow> (string \<times> snapshot_value) list" where
  "entry key v = (if v = [] then [] else [(key, SnapText v)])"

definition buildPaymentOrderProviderSnapshot :: "InstanceSelection \<Rightarrow> string \<Rightarrow> (string \<times> snapshot_value) list" where
  "buildPaymentOrderProviderSnapshot sel appID =
     (let key = trim_space (is_ProviderKey sel); cfg = is_Config sel;
          snapshot =
            [(''schema_version'', SnapInt 2)] @
            entry ''provider_instance_id'' (trim_space (is_InstanceID sel)) @
            entry ''provider_key'' key @
            entry ''payment_mode'' (trim_space (is_PaymentMode sel)) @
            (if key = TypeWxpay then
               entry ''merchant_app_id'' appID @ entry ''merchant_id'' (trim_space (lookup ''mchId'' cfg)) @
               [(''currency'', SnapText DefaultPaymentCurrency)]
             else []) @
            (if key = TypeAlipay then entry ''merchant_app_id'' (trim_space (lookup ''appId'' cfg)) else []) @
            (if key = TypeEasyPay then entry ''merchant_id'' (trim_space (lookup ''pid'' cfg)) else []) @
            (if key = TypeStripe then [(''currency'', SnapText (paymentProviderConfigCurrency key cfg))] else []) @
            (if key = TypeAirwallex then
               entry ''merchant_id'' (trim_space (lookup ''accountId'' cfg)) @
               [(''currency'', SnapText (paymentProviderConfigCurrency key cfg))]
             else [])
      in if length snapshot = 1 then [] else snapshot)"

section \<open>The instance of an order\<close>

definition order_error :: "PaymentOrder \<Rightarrow> string \<Rightarrow> go_error" where
  "order_error r text = PlainErr (''order '' @ itoa (po_ID r) @ '' '' @ text)"

definition get_instance :: "int \<Rightarrow> ('x, go_error + PaymentProviderInstance) pay_prog" where
  "get_instance i = sql (read (\<lambda>w. only (\<lambda>p. pi_ID p = i) (pw_instances w)))"

definition resolveSnapshotOrderProviderInstance ::
  "PaymentOrder \<Rightarrow> paymentOrderProviderSnapshot \<Rightarrow> ('x, go_error + PaymentProviderInstance option) pay_prog" where
  "resolveSnapshotOrderProviderInstance r s =
     (let columnInstanceID = trim_space (psStringValue (po_ProviderInstanceID r));
          snapshotInstanceID =
            (if trim_space (ss_ProviderInstanceID s) = [] then columnInstanceID else trim_space (ss_ProviderInstanceID s))
      in if snapshotInstanceID = [] then Return (Inl (order_error r ''provider snapshot is missing provider_instance_id''))
      else if columnInstanceID \<noteq> [] \<and> ss_ProviderInstanceID s \<noteq> [] \<and> \<not> equal_fold columnInstanceID (ss_ProviderInstanceID s)
      then Return (Inl (order_error r ''provider snapshot instance mismatch''))
      else (case ParseInt snapshotInstanceID of
          None \<Rightarrow> Return (Inl (order_error r ''provider snapshot instance id is invalid''))
        | Some instID \<Rightarrow>
            call (get_instance instID) (\<lambda>res. Return (case res of
              Inl err \<Rightarrow> Inl (if err = ent_not_found then order_error r ''provider snapshot instance is missing'' else err)
            | Inr inst \<Rightarrow>
                if ss_ProviderKey s \<noteq> [] \<and> \<not> equal_fold (trim_space (pi_ProviderKey inst)) (ss_ProviderKey s)
                then Inl (order_error r ''provider snapshot key mismatch'') else Inr (Some inst)))))"

definition psLegacyOrderMatchesInstance :: "string \<Rightarrow> PaymentProviderInstance \<Rightarrow> bool" where
  "psLegacyOrderMatchesInstance orderPaymentType inst =
     (let baseType = GetBasePaymentType (trim_space orderPaymentType); key = trim_space (pi_ProviderKey inst) in
      if baseType = [] then False
      else if baseType = TypeStripe then key = TypeStripe
      else if key = TypeStripe then False
      else if key = baseType then True
      else InstanceSupportsType (pi_SupportedTypes inst) baseType)"

definition psFilterLegacyOrderProviderInstances ::
  "string \<Rightarrow> PaymentProviderInstance list \<Rightarrow> PaymentProviderInstance list" where
  "psFilterLegacyOrderProviderInstances orderPaymentType instances =
     (if trim_space orderPaymentType = [] then instances
      else filter (psLegacyOrderMatchesInstance orderPaymentType) instances)"

definition unique_instance :: "PaymentProviderInstance list \<Rightarrow> PaymentProviderInstance option" where
  "unique_instance xs = (case xs of [x] \<Rightarrow> Some x | _ \<Rightarrow> None)"

definition resolveUniqueLegacyOrderProviderInstance ::
  "PaymentOrder \<Rightarrow> ('x, go_error + PaymentProviderInstance option) pay_prog" where
  "resolveUniqueLegacyOrderProviderInstance r =
     (let paymentType = GetBasePaymentType (trim_space (po_PaymentType r));
          providerKey = trim_space (psStringValue (po_ProviderKey r))
      in if providerKey \<noteq> [] then
           sql (read (\<lambda>w. Inr (unique_instance (psFilterLegacyOrderProviderInstances paymentType
             (filter (\<lambda>p. pi_ProviderKey p = providerKey) (pw_instances w))))))
         else if paymentType = [] then Return (Inr None)
         else sql (read (\<lambda>w. Inr (unique_instance (psFilterLegacyOrderProviderInstances paymentType (pw_instances w))))))"

definition getOrderProviderInstance :: "PaymentOrder \<Rightarrow> ('x, go_error + PaymentProviderInstance option) pay_prog" where
  "getOrderProviderInstance r =
     (case psOrderProviderSnapshot r of
        Some s \<Rightarrow> resolveSnapshotOrderProviderInstance r s
      | None \<Rightarrow>
          (let instIDStr = trim_space (psStringValue (po_ProviderInstanceID r)) in
           if instIDStr = [] then resolveUniqueLegacyOrderProviderInstance r
           else (case ParseInt instIDStr of
               None \<Rightarrow> Return (Inr None)
             | Some instID \<Rightarrow> call (get_instance instID) (\<lambda>res. Return
                 (case res of Inl err \<Rightarrow> Inl err | Inr inst \<Rightarrow> Inr (Some inst))))))"
section \<open>Whom a notification must come from\<close>

definition expectedNotificationProviderKey :: "registry \<Rightarrow> string \<Rightarrow> string \<Rightarrow> string \<Rightarrow> string" where
  "expectedNotificationProviderKey reg orderPaymentType orderProviderKey instanceProviderKey =
     (if trim_space instanceProviderKey \<noteq> [] then trim_space instanceProviderKey
      else if trim_space orderProviderKey \<noteq> [] then trim_space orderProviderKey
      else if trim_space (GetProviderKey reg orderPaymentType) \<noteq> [] then trim_space (GetProviderKey reg orderPaymentType)
      else trim_space orderPaymentType)"

definition expectedNotificationProviderKeyForOrder :: "registry \<Rightarrow> PaymentOrder \<Rightarrow> string \<Rightarrow> string" where
  "expectedNotificationProviderKeyForOrder reg r instanceProviderKey =
     (let orderProviderKey =
            (case psOrderProviderSnapshot r of
               Some s \<Rightarrow> if ss_ProviderKey s \<noteq> [] then ss_ProviderKey s else psStringValue (po_ProviderKey r)
             | None \<Rightarrow> psStringValue (po_ProviderKey r))
      in expectedNotificationProviderKey reg (po_PaymentType r) orderProviderKey instanceProviderKey)"

text \<open>One comparison: an expected text that is not empty must be reported, up to the case of letters.\<close>

definition must_match :: "string \<Rightarrow> string \<Rightarrow> string \<Rightarrow> go_error" where
  "must_match name expected actual =
     (if expected = [] then NilErr
      else if actual = [] then PlainErr (name @ '' missing'')
      else if \<not> equal_fold expected actual then PlainErr (name @ '' mismatch'')
      else NilErr)"

definition state_ok :: "string \<Rightarrow> string \<Rightarrow> string \<Rightarrow> go_error" where
  "state_ok name wanted actual =
     (if actual \<noteq> [] \<and> \<not> equal_fold actual wanted then PlainErr (name @ '' mismatch'') else NilErr)"

fun first_error :: "go_error list \<Rightarrow> go_error" where
  "first_error [] = NilErr"
| "first_error (err # errs) = (if err \<noteq> NilErr then err else first_error errs)"

definition validateProviderSnapshotMetadata :: "PaymentOrder \<Rightarrow> string \<Rightarrow> config \<Rightarrow> go_error" where
  "validateProviderSnapshotMetadata r providerKey metadata =
     (if metadata = [] then NilErr
      else (case psOrderProviderSnapshot r of
          None \<Rightarrow> NilErr
        | Some s \<Rightarrow>
            (let key = trim_space providerKey;
                 md = (\<lambda>k. trim_space (lookup k metadata));
                 appID = trim_space (ss_MerchantAppID s);
                 merchantID = trim_space (ss_MerchantID s);
                 currency = trim_space (ss_Currency s)
             in if key = TypeWxpay then first_error
                  [must_match ''wxpay appid'' appID (md ''appid''),
                   must_match ''wxpay mchid'' merchantID (md ''mchid''),
                   must_match ''wxpay currency'' currency (to_upper (md ''currency'')),
                   state_ok ''wxpay trade_state'' ''SUCCESS'' (md ''trade_state'')]
                else if key = TypeAlipay then must_match ''alipay app_id'' appID (md ''app_id'')
                else if key = TypeEasyPay then must_match ''easypay pid'' merchantID (md ''pid'')
                else if key = TypeStripe then must_match ''stripe currency'' currency (to_upper (md ''currency''))
                else if key = TypeAirwallex then first_error
                  [must_match ''airwallex account_id'' merchantID (md ''account_id''),
                   must_match ''airwallex currency'' currency (to_upper (md ''currency'')),
                   state_ok ''airwallex status'' ''SUCCEEDED'' (md ''status'')]
                else NilErr)))"

definition validateProviderNotificationMetadata :: "PaymentOrder \<Rightarrow> string \<Rightarrow> config \<Rightarrow> go_error" where
  "validateProviderNotificationMetadata r providerKey metadata =
     (case psOrderProviderSnapshot r of
        Some s \<Rightarrow>
          if metadata = [] \<and> (ss_MerchantAppID s \<noteq> [] \<or> ss_MerchantID s \<noteq> [] \<or> ss_Currency s \<noteq> [])
          then PlainErr ''payment notification missing provider metadata''
          else validateProviderSnapshotMetadata r providerKey metadata
      | None \<Rightarrow> validateProviderSnapshotMetadata r providerKey metadata)"

definition GetInstanceConfig :: "'x pay_env \<Rightarrow> int \<Rightarrow> ('x, go_error + config) pay_prog" where
  "GetInstanceConfig env instanceID =
     call (get_instance instanceID) (\<lambda>res. Return
       (case res of Inl err \<Rightarrow> Inl (WrapErr ''get instance'' err) | Inr inst \<Rightarrow> ps_decrypt env (pi_Config inst)))"

definition webhookRegistryFallbackAllowed :: "string \<Rightarrow> ('x, bool) pay_prog" where
  "webhookRegistryFallbackAllowed providerKey =
     (let key = trim_space providerKey in
      if key = [] then Return False
      else call (sql (read (\<lambda>w. Inr (length (filter (\<lambda>p. pi_ProviderKey p = key \<and> pi_Enabled p) (pw_instances w))))))
             (\<lambda>res. Return (case res of Inl _ \<Rightarrow> False | Inr count \<Rightarrow> count \<le> 1)))"

definition required_fields :: "string \<Rightarrow> string list" where
  "required_fields key =
     (if key = TypeWxpay then [''merchant_app_id'', ''merchant_id'', ''currency'']
      else if key = TypeAlipay then [''merchant_app_id'']
      else if key = TypeEasyPay then [''merchant_id'']
      else if key = TypeStripe then [''currency'']
      else if key = TypeAirwallex then [''currency'']
      else [])"

definition optional_fields :: "string \<Rightarrow> string list" where
  "optional_fields key = (if key = TypeAirwallex then [''merchant_id''] else [])"

definition snap_text :: "(string \<times> snapshot_value) list \<Rightarrow> string \<Rightarrow> string" where
  "snap_text m key = psSnapshotStringValue (map_of m key)"

definition fill_field :: "(string \<times> snapshot_value) list \<Rightarrow> string \<Rightarrow> (string \<times> snapshot_value) list \<Rightarrow> (string \<times> snapshot_value) list" where
  "fill_field fallback key m =
     (if snap_text m key = [] then put key (case map_of fallback key of Some v \<Rightarrow> v | None \<Rightarrow> SnapOther) m else m)"

definition instance_fallback ::
  "PaymentProviderInstance \<Rightarrow> string \<Rightarrow> config \<Rightarrow> config \<Rightarrow> (string \<times> snapshot_value) list" where
  "instance_fallback inst providerKey cfg metadata =
     (let fallback = buildPaymentOrderProviderSnapshot
            \<lparr>is_InstanceID = itoa (pi_ID inst), is_ProviderKey = pi_ProviderKey inst, is_PaymentMode = pi_PaymentMode inst,
              is_Config = cfg\<rparr> (trim_space (lookup ''appId'' cfg));
          mpAppID = trim_space (lookup ''mpAppId'' cfg)
      in if providerKey = TypeWxpay \<and> mpAppID \<noteq> [] \<and> trim_space (lookup ''appid'' metadata) = mpAppID
         then put ''merchant_app_id'' (SnapText mpAppID) fallback else fallback)"

definition registry_fallback :: "pay_provider \<Rightarrow> string \<Rightarrow> (string \<times> snapshot_value) list" where
  "registry_fallback prov providerKey =
     (let identity = (\<lambda>k. SnapText (lookup k (pp_Identity prov))) in
      (''currency'', identity ''currency'') #
      (if providerKey = TypeWxpay then [(''merchant_app_id'', identity ''appid''), (''merchant_id'', identity ''mchid'')]
       else if providerKey = TypeAlipay then [(''merchant_app_id'', identity ''app_id'')]
       else if providerKey = TypeEasyPay then [(''merchant_id'', identity ''pid'')]
       else if providerKey = TypeAirwallex then [(''merchant_id'', identity ''account_id'')]
       else []))"

definition notification_fallback ::
  "'x pay_env \<Rightarrow> PaymentOrder \<Rightarrow> PaymentProviderInstance option \<Rightarrow> string \<Rightarrow> config \<Rightarrow>
   ('x, go_error + (string \<times> snapshot_value) list) pay_prog" where
  "notification_fallback env r instance_opt providerKey metadata =
     (case instance_opt of
        Some inst \<Rightarrow>
          call (GetInstanceConfig env (pi_ID inst)) (\<lambda>res. Return (case res of
            Inl err \<Rightarrow> Inl (WrapErr ''load notification merchant identity'' err)
          | Inr cfg \<Rightarrow> Inr (instance_fallback inst providerKey cfg metadata)))
      | None \<Rightarrow>
          call (webhookRegistryFallbackAllowed providerKey) (\<lambda>allowed.
            if \<not> allowed then Return (Inl (order_error r ''notification merchant identity is unavailable''))
            else call (sql (read (\<lambda>w. Inr (length (pw_instances w))))) (\<lambda>res.
              if res \<noteq> Inr 0 then Return (Inl (order_error r ''notification merchant identity is ambiguous''))
              else Return (case GetProviderByKey (ps_registry env) providerKey of
                  Inl err \<Rightarrow> Inl (WrapErr ''load legacy notification provider'' err)
                | Inr prov \<Rightarrow> Inr (registry_fallback prov providerKey)))))"

definition validateOrderNotificationMetadata ::
  "'x pay_env \<Rightarrow> PaymentOrder \<Rightarrow> PaymentProviderInstance option \<Rightarrow> string \<Rightarrow> config \<Rightarrow> ('x, go_error) pay_prog" where
  "validateOrderNotificationMetadata env r instance_opt providerKey metadata =
     (let required = required_fields providerKey; optional = optional_fields providerKey;
          snapshot = po_ProviderSnapshot r
      in if list_all (\<lambda>key. snap_text snapshot key \<noteq> []) (required @ optional)
         then Return (validateProviderNotificationMetadata r providerKey metadata)
         else call (notification_fallback env r instance_opt providerKey metadata) (\<lambda>res. Return (case res of
              Inl err \<Rightarrow> err
            | Inr fallback \<Rightarrow>
                (let filled = fold (fill_field fallback) (optional @ required) snapshot in
                 case find (\<lambda>key. snap_text filled key = []) required of
                   Some key \<Rightarrow> order_error r (''notification merchant identity is missing '' @ key)
                 | None \<Rightarrow> validateProviderNotificationMetadata (r\<lparr>po_ProviderSnapshot := filled\<rparr>) providerKey metadata))))"

section \<open>Providers of orders\<close>

definition createProviderFromInstance ::
  "'x pay_env \<Rightarrow> PaymentProviderInstance \<Rightarrow> ('x, go_error + pay_provider) pay_prog" where
  "createProviderFromInstance env inst =
     call (GetInstanceConfig env (pi_ID inst)) (\<lambda>res. Return (case res of
       Inl err \<Rightarrow> Inl (WrapErr ''load provider instance config'' err)
     | Inr cfg \<Rightarrow>
         (case ps_create env (pi_ProviderKey inst) (itoa (pi_ID inst))
                 (if pi_PaymentMode inst \<noteq> [] then put ''paymentMode'' (pi_PaymentMode inst) cfg else cfg) of
            Inl err \<Rightarrow> Inl (WrapErr ''create provider from instance'' err)
          | Inr prov \<Rightarrow> Inr prov)))"

definition paymentOrderAllowsRegistryFallback :: "PaymentOrder \<Rightarrow> bool" where
  "paymentOrderAllowsRegistryFallback r \<longleftrightarrow>
     psOrderProviderSnapshot r = None \<and> trim_space (psStringValue (po_ProviderInstanceID r)) = [] \<and>
     trim_space (psStringValue (po_ProviderKey r)) = []"

definition paymentOrderFallbackProviderKey :: "registry \<Rightarrow> PaymentOrder \<Rightarrow> string" where
  "paymentOrderFallbackProviderKey reg r =
     (let key = trim_space (GetProviderKey reg (po_PaymentType r)) in
      if key \<noteq> [] then key else trim_space (GetBasePaymentType (trim_space (po_PaymentType r))))"

definition getOrderProvider :: "'x pay_env \<Rightarrow> PaymentOrder \<Rightarrow> ('x, go_error + pay_provider) pay_prog" where
  "getOrderProvider env r =
     call (getOrderProviderInstance r) (\<lambda>res. case res of
       Inl err \<Rightarrow> Return (Inl (WrapErr ''load order provider instance'' err))
     | Inr (Some inst) \<Rightarrow> createProviderFromInstance env inst
     | Inr None \<Rightarrow>
         if \<not> paymentOrderAllowsRegistryFallback r then Return (Inl (order_error r ''provider instance is unresolved''))
         else (let providerKey = paymentOrderFallbackProviderKey (ps_registry env) r in
           if providerKey = [] then Return (Inl (order_error r ''provider fallback key is missing''))
           else call (webhookRegistryFallbackAllowed providerKey) (\<lambda>allowed. Return
                  (if \<not> allowed then Inl (order_error r ''provider fallback is ambiguous'')
                   else GetProvider (ps_registry env) (po_PaymentType r)))))"

definition paymentOrderQueryReference :: "PaymentOrder \<Rightarrow> pay_provider \<Rightarrow> string" where
  "paymentOrderQueryReference r prov =
     (let k1 = trim_space (pp_ProviderKey prov);
          k2 = (if k1 \<noteq> [] then k1 else (case psOrderProviderSnapshot r of Some s \<Rightarrow> trim_space (ss_ProviderKey s) | None \<Rightarrow> []));
          k3 = (if k2 \<noteq> [] then k2 else trim_space (psStringValue (po_ProviderKey r)));
          k4 = (if k3 \<noteq> [] then k3 else trim_space (po_PaymentType r))
      in if GetBasePaymentType k4 \<in> {TypeAlipay, TypeEasyPay, TypeWxpay} then trim_space (po_OutTradeNo r)
         else if trim_space (po_PaymentTradeNo r) \<noteq> [] then trim_space (po_PaymentTradeNo r)
         else trim_space (po_OutTradeNo r))"

definition paymentOrderShouldPersistUpstreamTradeNo :: "string \<Rightarrow> string \<Rightarrow> string \<Rightarrow> bool" where
  "paymentOrderShouldPersistUpstreamTradeNo queryRef upstreamTradeNo currentTradeNo =
     (let u = trim_space upstreamTradeNo in
      u \<noteq> [] \<and> \<not> equal_fold u (trim_space currentTradeNo) \<and> \<not> equal_fold u (trim_space queryRef))"

end
