(* ===== verification/PaymentFulfillment.thy ===== *)
theory PaymentFulfillment
  imports PaymentProviders
begin

text \<open>
  From a notification of a provider to the credited order: \<open>service/payment_fulfillment.go\<close>. Every statement is a
  step of its own; the transactions that claim a rebate or assign a subscription are one step each. E-mails are left
  out, the texts of wrapped errors are shortened.
\<close>

section \<open>Completing and failing an order\<close>

definition paymentFulfillmentLeaseDuration :: duration where
  "paymentFulfillmentLeaseDuration = 5 * 60 * second"

definition paymentGrace :: duration where
  "paymentGrace = 5 * 60 * second"

definition orderIDPrefix :: string where
  "orderIDPrefix = ''sub2_''"

definition ErrOrderNotFound :: go_error where
  "ErrOrderNotFound = PlainErr ''payment order not found''"

definition invalid_status :: "string \<Rightarrow> go_error" where
  "invalid_status message = BadRequest ''INVALID_STATUS'' message"

definition order_conflict :: "string \<Rightarrow> go_error" where
  "order_conflict message = Conflict ''CONFLICT'' message"

definition order_missing :: go_error where
  "order_missing = NotFound ''NOT_FOUND'' ''order not found''"

definition psIsRefundStatus :: "OrderStatus \<Rightarrow> bool" where
  "psIsRefundStatus s \<longleftrightarrow>
     s \<in> {OrderStatusRefundRequested, OrderStatusRefunding, OrderStatusRefundPending, OrderStatusPartiallyRefunded,
          OrderStatusRefunded, OrderStatusRefundFailed}"

text \<open>A lease is the \<open>updated_at\<close> of the row when it was taken.\<close>

definition lease_held :: "int \<Rightarrow> time \<Rightarrow> PaymentOrder \<Rightarrow> bool" where
  "lease_held oid version r \<longleftrightarrow> po_ID r = oid \<and> po_Status r = OrderStatusRecharging \<and> po_UpdatedAt r = version"

definition mark_completed_stmt :: "int \<Rightarrow> time \<Rightarrow> ('x, int) pay_stmt" where
  "mark_completed_stmt oid version =
     update_orders (\<lambda>t. lease_held oid version) (\<lambda>t r. r\<lparr>po_Status := OrderStatusCompleted, po_CompletedAt := Some t\<rparr>)"

definition markCompleted :: "PaymentOrder \<Rightarrow> time \<Rightarrow> string \<Rightarrow> ('x, go_error) pay_prog" where
  "markCompleted r version auditAction =
     call (sql (mark_completed_stmt (po_ID r) version)) (\<lambda>res. case res of
       Inl err \<Rightarrow> Return (WrapErr ''mark completed'' err)
     | Inr updated \<Rightarrow>
         if updated = 0 then
           call (get_order (po_ID r)) (\<lambda>cur. Return (case cur of
             Inr current \<Rightarrow>
               if po_Status current = OrderStatusCompleted then NilErr
               else order_conflict ''fulfillment lease was lost before completion''
           | Inl _ \<Rightarrow> order_conflict ''fulfillment lease was lost before completion''))
         else
           call (hasAuditLog (po_ID r) auditAction) (\<lambda>logged.
             if logged then Return NilErr
             else call (writeAuditLog (po_ID r) auditAction ''system''
                    [(''rechargeCode'', AuditText (po_RechargeCode r)), (''creditedAmount'', AuditNumber (Fin (po_Amount r))),
                     (''payAmount'', AuditNumber (Fin (po_PayAmount r)))]) (\<lambda>_. Return NilErr)))"

definition mark_failed_stmt :: "int \<Rightarrow> time \<Rightarrow> go_error \<Rightarrow> ('x, int) pay_stmt" where
  "mark_failed_stmt oid version cause =
     update_orders (\<lambda>t. lease_held oid version)
       (\<lambda>t r. r\<lparr>po_Status := OrderStatusFailed, po_FailedAt := Some t, po_FailedReason := Some cause\<rparr>)"

definition markFailed :: "int \<Rightarrow> time \<Rightarrow> go_error \<Rightarrow> ('x, unit) pay_prog" where
  "markFailed oid version cause =
     call (sql (mark_failed_stmt oid version cause)) (\<lambda>res. case res of
       Inl _ \<Rightarrow> Return ()
     | Inr c \<Rightarrow> if c > 0 then writeAuditLog oid ''FULFILLMENT_FAILED'' ''system'' [(''reason'', AuditError cause)] else Return ())"

definition lease_free :: "int \<Rightarrow> time \<Rightarrow> PaymentOrder \<Rightarrow> bool" where
  "lease_free oid now r \<longleftrightarrow>
     po_ID r = oid \<and>
     (po_Status r \<in> {OrderStatusPaid, OrderStatusFailed} \<or>
      (po_Status r = OrderStatusRecharging \<and> po_UpdatedAt r \<le> now - paymentFulfillmentLeaseDuration))"

text \<open>\<open>now\<close> is cut to microseconds before it is written.\<close>

definition truncate_micro :: "time \<Rightarrow> time" where
  "truncate_micro t = t - t mod 1000"

definition acquire_lease_stmt :: "int \<Rightarrow> ('x, int) pay_stmt" where
  "acquire_lease_stmt oid =
     update_orders (\<lambda>t. lease_free oid (truncate_micro t))
       (\<lambda>t r. r\<lparr>po_Status := OrderStatusRecharging, po_UpdatedAt := truncate_micro t, po_FailedAt := None, po_FailedReason := None\<rparr>)"

text \<open>\<open>Inr None\<close>: no lease is needed, the order is completed.\<close>

definition acquirePaymentFulfillmentLease :: "PaymentOrder \<Rightarrow> ('x, go_error + time option) pay_prog" where
  "acquirePaymentFulfillmentLease r =
     call (sql (acquire_lease_stmt (po_ID r))) (\<lambda>res. case res of
       Inl err \<Rightarrow> Return (Inl (WrapErr ''acquire fulfillment lease'' err))
     | Inr updated \<Rightarrow>
         if updated = 0 then
           call (get_order (po_ID r)) (\<lambda>cur. Return (case cur of
             Inl err \<Rightarrow> Inl (WrapErr ''reload fulfillment lease'' err)
           | Inr current \<Rightarrow>
               if po_Status current = OrderStatusCompleted then Inr None
               else if po_Status current = OrderStatusRecharging then Inl (order_conflict ''order is being processed'')
               else Inl (order_conflict ''order status changed while acquiring fulfillment lease'')))
         else
           call (get_order (po_ID r)) (\<lambda>cur. Return (case cur of
             Inl err \<Rightarrow> Inl (WrapErr ''reload acquired fulfillment lease'' err)
           | Inr claimed \<Rightarrow>
               if po_Status claimed \<noteq> OrderStatusRecharging then Inl (order_conflict ''fulfillment lease was lost'')
               else Inr (Some (po_UpdatedAt claimed)))))"

section \<open>Rebates\<close>

definition affiliateRebateBaseAmount :: "PaymentOrder \<Rightarrow> rat" where
  "affiliateRebateBaseAmount r =
     (if po_OrderType r = OrderTypeBalance \<or> po_OrderType r = OrderTypeSubscription then po_Amount r else 0)"

definition rebate_claimed :: "int \<Rightarrow> PaymentAuditLog list \<Rightarrow> bool" where
  "rebate_claimed oid audits \<longleftrightarrow>
     audit_taken (itoa oid) ''AFFILIATE_REBATE_APPLIED'' audits \<or> audit_taken (itoa oid) ''AFFILIATE_REBATE_SKIPPED'' audits"

text \<open>The transaction: claim the rebate of the order, accrue it, record what came of it.\<close>

definition rebate_tx :: "'x pay_env \<Rightarrow> PaymentOrder \<Rightarrow> rat \<Rightarrow> ('x, unit) pay_stmt" where
  "rebate_tx env r baseAmount t w =
     (if rebate_claimed (po_ID r) (pw_audits w) then (Inr (), w)
      else (case accrue (ps_redeem env) (po_UserID r) baseAmount (Some (po_ID r)) t w of
          (Inl err, _) \<Rightarrow> (Inl (WrapErr ''accrue affiliate rebate'' err), w)
        | (Inr rebateAmount, w1) \<Rightarrow>
            if rebateAmount \<le> 0
            then insert_audit (audit_row (po_ID r) ''AFFILIATE_REBATE_SKIPPED'' ''system'' [(''baseAmount'', AuditNumber (Fin baseAmount))]) t w1
            else insert_audit (audit_row (po_ID r) ''AFFILIATE_REBATE_APPLIED'' ''system''
                   [(''baseAmount'', AuditNumber (Fin baseAmount)), (''rebateAmount'', AuditNumber (Fin rebateAmount))]) t w1))"

definition applyAffiliateRebateForOrder :: "'x pay_env \<Rightarrow> PaymentOrder \<Rightarrow> ('x, go_error) pay_prog" where
  "applyAffiliateRebateForOrder env r =
     (let baseAmount = affiliateRebateBaseAmount r in
      if baseAmount \<le> 0 then Return NilErr
      else if \<not> ps_affiliate env then Return NilErr
      else call (sql (rebate_tx env r baseAmount)) (\<lambda>res. case res of
             Inr _ \<Rightarrow> Return NilErr
           | Inl err \<Rightarrow>
               call (writeAuditLog (po_ID r) ''AFFILIATE_REBATE_FAILED'' ''system'' [(''error'', AuditError err)])
                 (\<lambda>_. Return (WrapErr ''affiliate rebate'' err))))"

section \<open>Balance orders\<close>

datatype redeemAction = redeemActionCreate | redeemActionRedeem | redeemActionSkipCompleted

definition resolveRedeemAction :: "go_error + RedeemCode \<Rightarrow> redeemAction" where
  "resolveRedeemAction existing =
     (case existing of
        Inl _ \<Rightarrow> redeemActionCreate
      | Inr c \<Rightarrow> if IsUsed c then redeemActionSkipCompleted else redeemActionRedeem)"

definition code_fits_order :: "PaymentOrder \<Rightarrow> go_error + RedeemCode \<Rightarrow> go_error" where
  "code_fits_order r existing =
     (case existing of
        Inl err \<Rightarrow> if errors_is err ErrRedeemCodeNotFound then NilErr else WrapErr ''get payment fulfillment code'' err
      | Inr c \<Rightarrow>
          if rc_Type c \<noteq> RedeemTypeBalance \<or> rc_Value c \<noteq> po_Amount r
          then PlainErr ''payment fulfillment code does not match the order amount and type''
          else if IsUsed c \<and> rc_UsedBy c \<noteq> Some (po_UserID r)
          then PlainErr ''payment fulfillment code was not redeemed by the order owner''
          else NilErr)"

definition finish_balance :: "'x pay_env \<Rightarrow> PaymentOrder \<Rightarrow> time \<Rightarrow> ('x, go_error) pay_prog" where
  "finish_balance env r version =
     call (applyAffiliateRebateForOrder env r) (\<lambda>err.
       if err \<noteq> NilErr then Return err else markCompleted r version ''RECHARGE_SUCCESS'')"

definition redeem_balance :: "'x pay_env \<Rightarrow> PaymentOrder \<Rightarrow> time \<Rightarrow> ('x, go_error) pay_prog" where
  "redeem_balance env r version =
     call (redeem (ps_redeem env) True (po_UserID r) (po_RechargeCode r)) (\<lambda>res. case res of
       Inl err \<Rightarrow> Return (WrapErr ''redeem balance'' err)
     | Inr _ \<Rightarrow> finish_balance env r version)"

definition doBalance :: "'x pay_env \<Rightarrow> PaymentOrder \<Rightarrow> time \<Rightarrow> ('x, go_error) pay_prog" where
  "doBalance env r version =
     call (GetByCode (po_RechargeCode r)) (\<lambda>existing.
       let err = code_fits_order r existing in
       if err \<noteq> NilErr then Return err
       else (case resolveRedeemAction existing of
           redeemActionSkipCompleted \<Rightarrow> finish_balance env r version
         | redeemActionCreate \<Rightarrow>
             call (CreateCode (new_code (po_RechargeCode r) RedeemTypeBalance (po_Amount r))) (\<lambda>err.
               if err \<noteq> NilErr then Return (WrapErr ''create redeem code'' err) else redeem_balance env r version)
         | redeemActionRedeem \<Rightarrow> redeem_balance env r version))"

definition fulfil_status :: "OrderStatus \<Rightarrow> bool" where
  "fulfil_status s \<longleftrightarrow> s \<in> {OrderStatusPaid, OrderStatusFailed, OrderStatusRecharging}"

definition with_lease ::
  "PaymentOrder \<Rightarrow> (time \<Rightarrow> ('x, go_error) pay_prog) \<Rightarrow> ('x, go_error) pay_prog" where
  "with_lease r work =
     call (acquirePaymentFulfillmentLease r) (\<lambda>lease. case lease of
       Inl err \<Rightarrow> Return err
     | Inr None \<Rightarrow> Return NilErr
     | Inr (Some version) \<Rightarrow>
         call (work version) (\<lambda>err.
           if err \<noteq> NilErr then call (markFailed (po_ID r) version err) (\<lambda>_. Return err) else Return NilErr))"

definition ExecuteBalanceFulfillment :: "'x pay_env \<Rightarrow> int \<Rightarrow> ('x, go_error) pay_prog" where
  "ExecuteBalanceFulfillment env oid =
     call (get_order oid) (\<lambda>res. case res of
       Inl _ \<Rightarrow> Return order_missing
     | Inr r \<Rightarrow>
         if po_OrderType r \<noteq> OrderTypeBalance
         then Return (BadRequest ''INVALID_ORDER_TYPE'' ''balance fulfillment requires a balance order'')
         else if po_Status r = OrderStatusCompleted then Return NilErr
         else if psIsRefundStatus (po_Status r) then Return (invalid_status ''refund-related order cannot fulfill'')
         else if \<not> fulfil_status (po_Status r)
         then Return (invalid_status (''order cannot fulfill in status '' @ status_text (po_Status r)))
         else with_lease r (doBalance env r))"

section \<open>Subscription orders\<close>

definition paymentSubscriptionOrderNote :: "int \<Rightarrow> string" where
  "paymentSubscriptionOrderNote oid = ''payment order '' @ itoa oid"

fun unix_lines :: "string \<Rightarrow> string" where
  "unix_lines (a # b # s) =
     (if [a, b] = [CHR 0x0D, CHR 0x0A] then CHR 0x0A # unix_lines s else a # unix_lines (b # s))"
| "unix_lines s = s"

definition hasPaymentSubscriptionOrderNote :: "string \<Rightarrow> string \<Rightarrow> bool" where
  "hasPaymentSubscriptionOrderNote notes orderNote =
     list_ex (\<lambda>line. trim_space line = orderNote) (split_at (CHR 0x0A) (unix_lines notes))"

definition hasPaymentSubscriptionAssignmentAudit :: "int \<Rightarrow> PaymentAuditLog list \<Rightarrow> bool" where
  "hasPaymentSubscriptionAssignmentAudit oid audits \<longleftrightarrow>
     audit_taken (itoa oid) ''SUBSCRIPTION_ASSIGNED'' audits \<or> audit_taken (itoa oid) ''SUBSCRIPTION_SUCCESS'' audits"

text \<open>The transaction of an assignment; a second one of the order waits for the index of the audit log and finds it done.\<close>

definition assign_subscription ::
  "'x pay_env \<Rightarrow> PaymentOrder \<Rightarrow> int \<Rightarrow> int \<Rightarrow> time \<Rightarrow> 'x pay_world \<Rightarrow> go_error \<times> 'x pay_world" where
  "assign_subscription env r groupID days t w =
     (case ps_assign env t (po_UserID r) groupID days (paymentSubscriptionOrderNote (po_ID r)) (pw_services w) of
        (err, x) \<Rightarrow> if err \<noteq> NilErr then (WrapErr ''assign subscription'' err, w) else (NilErr, w\<lparr>pw_services := x\<rparr>))"

definition assign_tx :: "'x pay_env \<Rightarrow> PaymentOrder \<Rightarrow> int \<Rightarrow> int \<Rightarrow> ('x, unit) pay_stmt" where
  "assign_tx env r groupID days t w =
     (if hasPaymentSubscriptionAssignmentAudit (po_ID r) (pw_audits w) then (Inr (), w)
      else
        (let (err, w1) =
               (case ps_sub_notes env (po_UserID r) groupID (pw_services w) of
                  Inl err \<Rightarrow> (WrapErr ''check existing subscription assignment'' err, w)
                | Inr (Some notes) \<Rightarrow>
                    if hasPaymentSubscriptionOrderNote notes (paymentSubscriptionOrderNote (po_ID r)) then (NilErr, w)
                    else assign_subscription env r groupID days t w
                | Inr None \<Rightarrow> assign_subscription env r groupID days t w)
         in if err \<noteq> NilErr then (Inl err, w)
            else insert_audit (audit_row (po_ID r) ''SUBSCRIPTION_ASSIGNED'' ''system'' []) t w1))"

text \<open>The last step invalidates the cached subscription, which can fail.\<close>

definition ensurePaymentSubscriptionAssigned :: "'x pay_env \<Rightarrow> PaymentOrder \<Rightarrow> int \<Rightarrow> int \<Rightarrow> ('x, go_error) pay_prog" where
  "ensurePaymentSubscriptionAssigned env r groupID days =
     call (sql (assign_tx env r groupID days)) (\<lambda>res. case res of
       Inl err \<Rightarrow> Return err
     | Inr _ \<Rightarrow> call (sql (read (\<lambda>w. Inr ()))) (\<lambda>res. Return
         (case res of Inl err \<Rightarrow> WrapErr ''invalidate subscription cache after fulfillment'' err | Inr _ \<Rightarrow> NilErr)))"

definition doSub :: "'x pay_env \<Rightarrow> PaymentOrder \<Rightarrow> int \<Rightarrow> int \<Rightarrow> time \<Rightarrow> ('x, go_error) pay_prog" where
  "doSub env r groupID days version =
     call (sql (read (\<lambda>w. ps_group_active env groupID (pw_services w)))) (\<lambda>g.
       if g \<noteq> Inr True then Return (PlainErr ''group no longer exists or inactive'')
       else call (ensurePaymentSubscriptionAssigned env r groupID days) (\<lambda>err. if err \<noteq> NilErr then Return err
       else call (applyAffiliateRebateForOrder env r) (\<lambda>err. if err \<noteq> NilErr then Return err
       else markCompleted r version ''SUBSCRIPTION_SUCCESS'')))"

definition ExecuteSubscriptionFulfillment :: "'x pay_env \<Rightarrow> int \<Rightarrow> ('x, go_error) pay_prog" where
  "ExecuteSubscriptionFulfillment env oid =
     call (get_order oid) (\<lambda>res. case res of
       Inl _ \<Rightarrow> Return order_missing
     | Inr r \<Rightarrow>
         if po_OrderType r \<noteq> OrderTypeSubscription
         then Return (BadRequest ''INVALID_ORDER_TYPE'' ''subscription fulfillment requires a subscription order'')
         else if po_Status r = OrderStatusCompleted then Return NilErr
         else if psIsRefundStatus (po_Status r) then Return (invalid_status ''refund-related order cannot fulfill'')
         else if \<not> fulfil_status (po_Status r)
         then Return (invalid_status (''order cannot fulfill in status '' @ status_text (po_Status r)))
         else (case (po_SubscriptionGroupID r, po_SubscriptionDays r) of
             (Some groupID, Some days) \<Rightarrow> with_lease r (doSub env r groupID days)
           | _ \<Rightarrow> Return (invalid_status ''missing subscription info'')))"

section \<open>Notifications\<close>

definition validatePaymentOrderType :: "string \<Rightarrow> go_error" where
  "validatePaymentOrderType orderType =
     (if orderType \<in> {OrderTypeBalance, OrderTypeSubscription} then NilErr
      else BadRequest ''INVALID_ORDER_TYPE'' ''order_type must be balance or subscription'')"

definition executeFulfillment :: "'x pay_env \<Rightarrow> int \<Rightarrow> ('x, go_error) pay_prog" where
  "executeFulfillment env oid =
     call (get_order oid) (\<lambda>res. case res of
       Inl err \<Rightarrow> Return (WrapErr ''get order'' err)
     | Inr r \<Rightarrow>
         if po_OrderType r = OrderTypeSubscription then ExecuteSubscriptionFulfillment env oid
         else if po_OrderType r = OrderTypeBalance then ExecuteBalanceFulfillment env oid
         else Return (validatePaymentOrderType (po_OrderType r)))"

definition alreadyProcessed :: "'x pay_env \<Rightarrow> PaymentOrder \<Rightarrow> ('x, go_error) pay_prog" where
  "alreadyProcessed env r =
     call (get_order (po_ID r)) (\<lambda>res. case res of
       Inl _ \<Rightarrow> Return NilErr
     | Inr cur \<Rightarrow>
         if po_Status cur \<in> {OrderStatusCompleted, OrderStatusRefunded} then Return NilErr
         else if fulfil_status (po_Status cur) then executeFulfillment env (po_ID r)
         else if po_Status cur = OrderStatusExpired then
           call (writeAuditLog (po_ID r) ''PAYMENT_AFTER_EXPIRY'' ''system''
             [(''status'', AuditText (status_text (po_Status cur))), (''updatedAt'', AuditTime (po_UpdatedAt cur))])
             (\<lambda>_. Return NilErr)
         else Return NilErr)"

definition payable :: "int \<Rightarrow> time \<Rightarrow> PaymentOrder \<Rightarrow> bool" where
  "payable oid grace r \<longleftrightarrow>
     po_ID r = oid \<and>
     (po_Status r = OrderStatusPending \<or> po_Status r = OrderStatusCancelled \<or>
      (po_Status r = OrderStatusExpired \<and> po_UpdatedAt r \<ge> grace))"

text \<open>The column \<open>pay_amount\<close> has two decimals, the column \<open>payment_trade_no\<close> 128 characters.\<close>

definition to_paid_stmt :: "int \<Rightarrow> string \<Rightarrow> rat \<Rightarrow> ('x, int) pay_stmt" where
  "to_paid_stmt oid tradeNo paid t w =
     (if length tradeNo > 128 then (Inl ent_constraint, w)
      else update_orders (\<lambda>t. payable oid (t - paymentGrace))
        (\<lambda>t r. r\<lparr>po_Status := OrderStatusPaid, po_PayAmount := round_digits 2 paid, po_PaymentTradeNo := tradeNo,
                 po_PaidAt := Some t, po_FailedAt := None, po_FailedReason := None\<rparr>) t w)"

definition toPaid :: "'x pay_env \<Rightarrow> PaymentOrder \<Rightarrow> string \<Rightarrow> rat \<Rightarrow> string \<Rightarrow> ('x, go_error) pay_prog" where
  "toPaid env r tradeNo paid pk =
     call (sql (to_paid_stmt (po_ID r) tradeNo paid)) (\<lambda>res. case res of
       Inl err \<Rightarrow> Return (WrapErr ''update to PAID'' err)
     | Inr c \<Rightarrow>
         if c = 0 then alreadyProcessed env r
         else call (if po_Status r = OrderStatusCancelled \<or> po_Status r = OrderStatusExpired
                    then writeAuditLog (po_ID r) ''ORDER_RECOVERED'' pk
                      [(''previous_status'', AuditText (status_text (po_Status r))), (''tradeNo'', AuditText tradeNo),
                       (''paidAmount'', AuditNumber (Fin paid))]
                    else Return ()) (\<lambda>_.
              call (writeAuditLog (po_ID r) ''ORDER_PAID'' pk [(''tradeNo'', AuditText tradeNo), (''paidAmount'', AuditNumber (Fin paid))])
                (\<lambda>_. executeFulfillment env (po_ID r))))"

text \<open>The comparison of a reported amount, which may not be a number.\<close>

definition confirm_amount :: "'x pay_env \<Rightarrow> PaymentOrder \<Rightarrow> string \<Rightarrow> amount \<Rightarrow> string \<Rightarrow> ('x, go_error) pay_prog" where
  "confirm_amount env r tradeNo paid pk =
     (case paid of
        Fin v \<Rightarrow>
          if \<not> isValidProviderAmount paid then
            call (writeAuditLog (po_ID r) ''PAYMENT_INVALID_AMOUNT'' pk [(''expected'', AuditNumber (Fin (po_PayAmount r))),
              (''paid'', AuditNumber paid), (''tradeNo'', AuditText tradeNo)])
              (\<lambda>_. Return (PlainErr ''invalid paid amount from provider''))
          else if \<not> providerAmountMatchesOrder v (po_PayAmount r) (PaymentOrderCurrency r) then
            call (writeAuditLog (po_ID r) ''PAYMENT_AMOUNT_MISMATCH'' pk [(''expected'', AuditNumber (Fin (po_PayAmount r))),
              (''paid'', AuditNumber paid), (''tradeNo'', AuditText tradeNo)]) (\<lambda>_. Return (PlainErr ''amount mismatch''))
          else toPaid env r tradeNo v pk
      | _ \<Rightarrow>
          call (writeAuditLog (po_ID r) ''PAYMENT_INVALID_AMOUNT'' pk [(''expected'', AuditNumber (Fin (po_PayAmount r))),
            (''paid'', AuditNumber paid), (''tradeNo'', AuditText tradeNo)])
            (\<lambda>_. Return (PlainErr ''invalid paid amount from provider'')))"

definition confirmPayment ::
  "'x pay_env \<Rightarrow> int \<Rightarrow> string \<Rightarrow> amount \<Rightarrow> string \<Rightarrow> config \<Rightarrow> ('x, go_error) pay_prog" where
  "confirmPayment env oid tradeNo paid pk metadata =
     call (get_order oid) (\<lambda>res. case res of
       Inl _ \<Rightarrow> Return NilErr
     | Inr r \<Rightarrow>
         call (getOrderProviderInstance r) (\<lambda>instance_res. case instance_res of
           Inl err \<Rightarrow> Return (WrapErr ''load order provider instance'' err)
         | Inr inst \<Rightarrow>
             (let expected = expectedNotificationProviderKeyForOrder (ps_registry env) r
                    (case inst of Some i \<Rightarrow> pi_ProviderKey i | None \<Rightarrow> [])
              in if expected \<noteq> [] \<and> trim_space pk \<noteq> [] \<and> \<not> equal_fold expected (trim_space pk) then
                   call (writeAuditLog (po_ID r) ''PAYMENT_PROVIDER_MISMATCH'' pk [(''expectedProvider'', AuditText expected),
                     (''actualProvider'', AuditText pk), (''tradeNo'', AuditText tradeNo)])
                     (\<lambda>_. Return (PlainErr (''provider mismatch: expected '' @ expected @ '', got '' @ pk)))
                 else call (validateOrderNotificationMetadata env r inst expected metadata) (\<lambda>err.
                   if err \<noteq> NilErr then
                     call (writeAuditLog (po_ID r) ''PAYMENT_PROVIDER_METADATA_MISMATCH'' pk
                       [(''detail'', AuditError err), (''tradeNo'', AuditText tradeNo)]) (\<lambda>_. Return err)
                   else confirm_amount env r tradeNo paid pk))))"

definition parseLegacyPaymentOrderID :: "string \<Rightarrow> go_error \<Rightarrow> int option" where
  "parseLegacyPaymentOrderID orderID lookupErr =
     (if lookupErr \<noteq> ent_not_found then None
      else
        (let no = trim_space orderID; trimmed = drop (length orderIDPrefix) no in
         if \<not> has_prefix orderIDPrefix no then None
         else if trimmed = [] then None
         else (case ParseInt trimmed of Some oid \<Rightarrow> if oid \<le> 0 then None else Some oid | None \<Rightarrow> None)))"

record PaymentNotification =
  pn_TradeNo :: string
  pn_OrderID :: string
  pn_Amount :: amount
  pn_Status :: string
  pn_Metadata :: config

definition HandlePaymentNotification :: "'x pay_env \<Rightarrow> PaymentNotification \<Rightarrow> string \<Rightarrow> ('x, go_error) pay_prog" where
  "HandlePaymentNotification env n pk =
     (if pn_Status n \<noteq> ''success'' then Return NilErr
      else call (order_by_trade_no (pn_OrderID n)) (\<lambda>res. case res of
        Inr r \<Rightarrow> confirmPayment env (po_ID r) (pn_TradeNo n) (pn_Amount n) pk (pn_Metadata n)
      | Inl err \<Rightarrow>
          (case parseLegacyPaymentOrderID (pn_OrderID n) err of
             Some oid \<Rightarrow> confirmPayment env oid (pn_TradeNo n) (pn_Amount n) pk (pn_Metadata n)
           | None \<Rightarrow>
               if err = ent_not_found then Return (WrapErr (''out_trade_no='' @ pn_OrderID n) ErrOrderNotFound)
               else Return (WrapErr ''lookup order failed'' err))))"

definition RetryFulfillment :: "'x pay_env \<Rightarrow> int \<Rightarrow> ('x, go_error) pay_prog" where
  "RetryFulfillment env oid =
     call (get_order oid) (\<lambda>res. case res of
       Inl _ \<Rightarrow> Return order_missing
     | Inr r \<Rightarrow>
         if po_PaidAt r = None then Return (invalid_status ''order is not paid'')
         else if psIsRefundStatus (po_Status r) then Return (invalid_status ''refund-related order cannot retry'')
         else if po_Status r = OrderStatusCompleted then Return (invalid_status ''order already completed'')
         else if \<not> fulfil_status (po_Status r)
         then Return (invalid_status ''only paid, failed, and recoverable recharging orders can retry'')
         else call (writeAuditLog oid ''RECHARGE_RETRY'' ''admin'' [(''detail'', AuditText ''admin manual retry'')])
                (\<lambda>_. executeFulfillment env oid))"

end
