(* ===== verification/PaymentLifecycle.thy ===== *)
theory PaymentLifecycle
  imports PaymentFulfillment
begin

text \<open>
  Cancelling, expiring and reconciling orders: \<open>service/payment_order_lifecycle.go\<close>. The provider of an order
  answers queries by events. The cancellation of the context of a sweep is left out.
\<close>

section \<open>Asking the provider\<close>

definition checkPaidResultAlreadyPaid :: string where "checkPaidResultAlreadyPaid = ''already_paid''"
definition checkPaidResultCancelled :: string where "checkPaidResultCancelled = ''cancelled''"
definition ProviderStatusPaid :: string where "ProviderStatusPaid = ''paid''"

definition requeryPaidOrderOnce :: "string \<Rightarrow> ('x, QueryOrderResponse option) pay_prog" where
  "requeryPaidOrderOnce queryRef =
     (if trim_space queryRef = [] then Return None
      else call ask_query (\<lambda>res. Return (case res of
          Inl _ \<Rightarrow> None
        | Inr resp \<Rightarrow>
            if qr_Status resp \<noteq> ProviderStatusPaid \<or> \<not> isValidProviderAmount (qr_Amount resp) then None else Some resp)))"

definition notify_paid :: "'x pay_env \<Rightarrow> PaymentOrder \<Rightarrow> pay_provider \<Rightarrow> string \<Rightarrow> QueryOrderResponse \<Rightarrow> ('x, string) pay_prog" where
  "notify_paid env r prov queryRef resp =
     (let upstreamTradeNo = trim_space (qr_TradeNo resp);
          tradeNo = (if paymentOrderShouldPersistUpstreamTradeNo queryRef upstreamTradeNo (po_PaymentTradeNo r)
                     then upstreamTradeNo else po_PaymentTradeNo r)
      in call (HandlePaymentNotification env
           \<lparr>pn_TradeNo = tradeNo, pn_OrderID = po_OutTradeNo r, pn_Amount = qr_Amount resp, pn_Status = ''success'',
            pn_Metadata = qr_Metadata resp\<rparr> (pp_ProviderKey prov)) (\<lambda>_. Return checkPaidResultAlreadyPaid))"

definition cancel_upstream :: "('x, unit) pay_prog" where
  "cancel_upstream = call time_Now (\<lambda>_. Return ())"

definition checkPaidWithOptions :: "'x pay_env \<Rightarrow> PaymentOrder \<Rightarrow> bool \<Rightarrow> ('x, string) pay_prog" where
  "checkPaidWithOptions env r cancelIfUnpaid =
     call (getOrderProvider env r) (\<lambda>res. case res of
       Inl _ \<Rightarrow> Return []
     | Inr prov \<Rightarrow>
         (let queryRef = paymentOrderQueryReference r prov in
          if queryRef = [] then Return []
          else call ask_query (\<lambda>res. case res of
            Inl _ \<Rightarrow> Return []
          | Inr resp \<Rightarrow>
              if qr_Status resp = ProviderStatusPaid then
                if isValidProviderAmount (qr_Amount resp) then notify_paid env r prov queryRef resp
                else call (writeAuditLog (po_ID r) ''PAYMENT_INVALID_AMOUNT'' (pp_ProviderKey prov)
                       [(''expected'', AuditNumber (Fin (po_PayAmount r))), (''paid'', AuditNumber (qr_Amount resp)),
                        (''tradeNo'', AuditText (qr_TradeNo resp)), (''queryRef'', AuditText queryRef)]) (\<lambda>_.
                     call (requeryPaidOrderOnce queryRef) (\<lambda>retried. case retried of
                       None \<Rightarrow> Return []
                     | Some resp' \<Rightarrow> notify_paid env r prov queryRef resp'))
              else if \<not> cancelIfUnpaid then Return []
              else call (if pp_Cancelable prov then cancel_upstream else Return ()) (\<lambda>_. Return []))))"

definition checkPaid :: "'x pay_env \<Rightarrow> PaymentOrder \<Rightarrow> ('x, string) pay_prog" where
  "checkPaid env r = checkPaidWithOptions env r True"

definition reconcilePaid :: "'x pay_env \<Rightarrow> PaymentOrder \<Rightarrow> ('x, string) pay_prog" where
  "reconcilePaid env r = checkPaidWithOptions env r False"

section \<open>Cancelling and expiring\<close>

definition close_stmt :: "int \<Rightarrow> OrderStatus \<Rightarrow> ('x, int) pay_stmt" where
  "close_stmt oid fs =
     update_orders (\<lambda>t r. po_ID r = oid \<and> po_Status r = OrderStatusPending) (\<lambda>t r. r\<lparr>po_Status := fs\<rparr>)"

definition close_order :: "PaymentOrder \<Rightarrow> OrderStatus \<Rightarrow> string \<Rightarrow> string \<Rightarrow> ('x, go_error + string) pay_prog" where
  "close_order r fs operator detail =
     call (sql (close_stmt (po_ID r) fs)) (\<lambda>res. case res of
       Inl err \<Rightarrow> Return (Inl (WrapErr ''update order status'' err))
     | Inr c \<Rightarrow>
         call (if c > 0
               then writeAuditLog (po_ID r) (if fs = OrderStatusExpired then ''ORDER_EXPIRED'' else ''ORDER_CANCELLED'') operator
                      [(''detail'', AuditText detail)]
               else Return ()) (\<lambda>_. Return (Inr checkPaidResultCancelled)))"

definition cancelCore :: "'x pay_env \<Rightarrow> PaymentOrder \<Rightarrow> OrderStatus \<Rightarrow> string \<Rightarrow> string \<Rightarrow> ('x, go_error + string) pay_prog" where
  "cancelCore env r fs operator detail =
     (if po_PaymentTradeNo r \<noteq> [] \<or> po_PaymentType r \<noteq> [] then
        call (checkPaid env r) (\<lambda>outcome.
          if outcome = checkPaidResultAlreadyPaid then Return (Inr checkPaidResultAlreadyPaid)
          else close_order r fs operator detail)
      else close_order r fs operator detail)"

definition CancelOrder :: "'x pay_env \<Rightarrow> int \<Rightarrow> int \<Rightarrow> ('x, go_error + string) pay_prog" where
  "CancelOrder env orderID userID =
     call (get_order orderID) (\<lambda>res. case res of
       Inl _ \<Rightarrow> Return (Inl order_missing)
     | Inr r \<Rightarrow>
         if po_UserID r \<noteq> userID then Return (Inl order_missing)
         else if po_Status r \<noteq> OrderStatusPending
         then Return (Inl (invalid_status ''order cannot be cancelled in current status''))
         else cancelCore env r OrderStatusCancelled (''user:'' @ itoa userID) ''user cancelled order'')"

definition AdminCancelOrder :: "'x pay_env \<Rightarrow> int \<Rightarrow> ('x, go_error + string) pay_prog" where
  "AdminCancelOrder env orderID =
     call (get_order orderID) (\<lambda>res. case res of
       Inl _ \<Rightarrow> Return (Inl order_missing)
     | Inr r \<Rightarrow>
         if po_Status r \<noteq> OrderStatusPending
         then Return (Inl (invalid_status ''order cannot be cancelled in current status''))
         else cancelCore env r OrderStatusCancelled ''admin'' ''admin cancelled order'')"

definition ExpireTimedOutOrders :: "'x pay_env \<Rightarrow> ('x, go_error + int) pay_prog" where
  "ExpireTimedOutOrders env =
     call time_Now (\<lambda>now.
     call (sql (read (\<lambda>w. Inr (filter (\<lambda>r. po_Status r = OrderStatusPending \<and> po_ExpiresAt r \<le> now) (pw_orders w)))))
       (\<lambda>res. case res of
         Inl err \<Rightarrow> Return (Inl (WrapErr ''query expired'' err))
       | Inr orders \<Rightarrow>
           call (for_each (\<lambda>r. cancelCore env r OrderStatusExpired ''system'' ''order expired'') orders) (\<lambda>outcomes.
             Return (Inr (int (length (filter
               (\<lambda>out. out \<noteq> Inr checkPaidResultAlreadyPaid \<and> (case out of Inr s \<Rightarrow> s \<noteq> [] | Inl _ \<Rightarrow> False)) outcomes)))))))"

section \<open>Verifying and reconciling\<close>

definition normalizeOrderLookupOutTradeNo :: "string \<Rightarrow> go_error + string" where
  "normalizeOrderLookupOutTradeNo raw =
     (let no = trim_space raw in
      if no = [] then Inl (BadRequest ''INVALID_OUT_TRADE_NO'' ''out_trade_no is required'')
      else if length no > 64 then Inl (BadRequest ''INVALID_OUT_TRADE_NO'' ''out_trade_no is invalid'')
      else if \<not> list_all (\<lambda>a. in_range 97 122 a \<or> in_range 65 90 a \<or> in_range 48 57 a \<or> a = CHR ''_'' \<or> a = CHR ''-'') no
      then Inl (BadRequest ''INVALID_OUT_TRADE_NO'' ''out_trade_no is invalid'')
      else Inr no)"

definition VerifyOrderByOutTradeNo :: "'x pay_env \<Rightarrow> string \<Rightarrow> int \<Rightarrow> ('x, go_error + PaymentOrder) pay_prog" where
  "VerifyOrderByOutTradeNo env raw userID =
     (case normalizeOrderLookupOutTradeNo raw of
        Inl err \<Rightarrow> Return (Inl err)
      | Inr no \<Rightarrow>
          call (order_by_trade_no no) (\<lambda>res. case res of
            Inl _ \<Rightarrow> Return (Inl order_missing)
          | Inr r \<Rightarrow>
              if po_UserID r \<noteq> userID then Return (Inl order_missing)
              else if po_Status r = OrderStatusPending \<or> po_Status r = OrderStatusExpired then
                call (reconcilePaid env r) (\<lambda>outcome.
                  if outcome = checkPaidResultAlreadyPaid then
                    call (get_order (po_ID r)) (\<lambda>res. Return
                      (case res of Inl err \<Rightarrow> Inl (WrapErr ''reload order'' err) | Inr r' \<Rightarrow> Inr r'))
                  else Return (Inr r))
              else Return (Inr r)))"

definition pendingPaymentReconcileLimit :: nat where "pendingPaymentReconcileLimit = 20"

definition of_family :: "string \<Rightarrow> string \<Rightarrow> bool" where
  "of_family family key \<longleftrightarrow> key = family \<or> has_prefix (family @ ''_'') key"

definition reconcile_wanted :: "time \<Rightarrow> PaymentOrder \<Rightarrow> bool" where
  "reconcile_wanted now r \<longleftrightarrow>
     (po_Status r = OrderStatusPending \<and> po_ExpiresAt r > now \<and>
      (po_PaymentType r = TypeEasyPay \<or> of_family TypeWxpay (po_PaymentType r) \<or>
       (case po_ProviderKey r of Some k \<Rightarrow> of_family TypeEasyPay k \<or> of_family TypeWxpay k | None \<Rightarrow> False))) \<or>
     (po_Status r = OrderStatusExpired \<and> po_UpdatedAt r \<ge> now - paymentGrace \<and>
      (po_PaymentType r = TypeEasyPay \<or> (case po_ProviderKey r of Some k \<Rightarrow> of_family TypeEasyPay k | None \<Rightarrow> False)))"

definition reconcile_page :: "time \<Rightarrow> int option \<Rightarrow> ('x, PaymentOrder list) pay_stmt" where
  "reconcile_page now cursor = read (\<lambda>w. Inr (take pendingPaymentReconcileLimit (sort_key po_ID
     (filter (\<lambda>r. reconcile_wanted now r \<and> (case cursor of Some c \<Rightarrow> po_ID r > c | None \<Rightarrow> True)) (pw_orders w)))))"

text \<open>The cursor is a field of the service that the sweeps hand on; the result is the cursor and the orders recovered.\<close>

definition ReconcilePendingPaymentOrders :: "'x pay_env \<Rightarrow> int \<Rightarrow> ('x, (go_error + int) \<times> int) pay_prog" where
  "ReconcilePendingPaymentOrders env cursor =
     (let sweep = (\<lambda>cursor orders.
            call (for_each (reconcilePaid env) orders) (\<lambda>outcomes.
              Return (Inr (int (length (filter (\<lambda>out. out = checkPaidResultAlreadyPaid) outcomes))),
                      if orders = [] then cursor else po_ID (last orders))))
      in call time_Now (\<lambda>now.
         call (sql (reconcile_page now (Some cursor))) (\<lambda>res. case res of
           Inl err \<Rightarrow> Return (Inl (WrapErr ''query pending payment orders'' err), cursor)
         | Inr orders \<Rightarrow>
             if orders = [] \<and> cursor > 0 then
               call (sql (reconcile_page now None)) (\<lambda>res. case res of
                 Inl err \<Rightarrow> Return (Inl (WrapErr ''query pending payment orders after cursor wrap'' err), cursor)
               | Inr orders \<Rightarrow> sweep 0 orders)
             else sweep cursor orders)))"

end
