(* ===== verification/PaymentLaws.thy ===== *)
theory PaymentLaws
  imports PaymentLifecycle
begin

text \<open>
  What payments guarantee when any number of them run at once: notifications, retries, cancellations and
  sweeps, statement by statement interleaved with each other and with anything that keeps orders, redeemed codes
  and the codes of orders (\<open>pay_rely\<close>), under every pattern of faults and clock readings. Every completed
  order has credited its owner once, balances account for redeemed codes, statuses follow the lifecycle.
\<close>

section \<open>The invariant\<close>

definition same_order :: "PaymentOrder \<Rightarrow> PaymentOrder \<Rightarrow> bool" where
  "same_order a b \<longleftrightarrow>
     po_ID b = po_ID a \<and> po_UserID b = po_UserID a \<and> po_Amount b = po_Amount a \<and> po_RechargeCode b = po_RechargeCode a \<and>
     po_OrderType b = po_OrderType a"

definition same_code :: "RedeemCode \<Rightarrow> RedeemCode \<Rightarrow> bool" where
  "same_code a b \<longleftrightarrow>
     rc_ID b = rc_ID a \<and> rc_Code b = rc_Code a \<and> rc_Type b = rc_Type a \<and> rc_Value b = rc_Value a \<and>
     (IsUsed a \<longrightarrow> IsUsed b \<and> rc_UsedBy b = rc_UsedBy a)"

text \<open>The code that credits an order: of its amount, redeemed by its owner.\<close>

definition credits :: "PaymentOrder \<Rightarrow> RedeemCode \<Rightarrow> bool" where
  "credits r c \<longleftrightarrow>
     rc_Code c = po_RechargeCode r \<and> rc_Type c = RedeemTypeBalance \<and> rc_Value c = po_Amount r \<and> IsUsed c \<and>
     rc_UsedBy c = Some (po_UserID r)"

definition is_credited :: "RedeemCode list \<Rightarrow> PaymentOrder \<Rightarrow> bool" where
  "is_credited codes r \<longleftrightarrow> (\<exists>c \<in> set codes. credits r c)"

definition completed_status :: "OrderStatus \<Rightarrow> bool" where
  "completed_status s \<longleftrightarrow> s = OrderStatusCompleted \<or> psIsRefundStatus s"

text \<open>
  Keys are unique, a new code gets a new id; amounts and balances have the scale of their columns; a balance order
  has a positive amount and a fulfillment code of its own; a completed one has been credited.
\<close>

definition order_ok :: "RedeemCode list \<Rightarrow> PaymentOrder \<Rightarrow> bool" where
  "order_ok codes r \<longleftrightarrow>
     on_scale (po_Amount r) \<and> (po_OrderType r = OrderTypeBalance \<longrightarrow> po_Amount r > 0) \<and>
     is_payment_code (po_RechargeCode r) \<and> trim_space (po_RechargeCode r) = po_RechargeCode r \<and>
     (po_OrderType r = OrderTypeBalance \<and> completed_status (po_Status r) \<longrightarrow> is_credited codes r)"

definition codes_ok :: "'x pay_world \<Rightarrow> bool" where
  "codes_ok w \<longleftrightarrow>
     distinct (map rc_ID (pw_codes w)) \<and> distinct (map rc_Code (pw_codes w)) \<and>
     (\<forall>c \<in> set (pw_codes w). rc_ID c < pw_code_seq w \<and> on_scale (rc_Value c))"

definition pay_inv :: "'x pay_world \<Rightarrow> bool" where
  "pay_inv w \<longleftrightarrow>
     distinct (map po_ID (pw_orders w)) \<and> distinct (map po_RechargeCode (pw_orders w)) \<and>
     (\<forall>r \<in> set (pw_orders w). order_ok (pw_codes w) r) \<and> codes_ok w \<and>
     distinct (map pu_ID (pw_users w)) \<and> (\<forall>u \<in> set (pw_users w). on_scale (pu_Balance u))"

section \<open>Rely and guarantee\<close>

definition keeps_orders :: "PaymentOrder list \<Rightarrow> PaymentOrder list \<Rightarrow> bool" where
  "keeps_orders xs ys \<longleftrightarrow> (\<forall>a \<in> set xs. \<exists>b \<in> set ys. same_order a b)"

definition keeps_codes :: "RedeemCode list \<Rightarrow> RedeemCode list \<Rightarrow> bool" where
  "keeps_codes xs ys \<longleftrightarrow> (\<forall>a \<in> set xs. IsUsed a \<or> is_payment_code (rc_Code a) \<longrightarrow> (\<exists>b \<in> set ys. same_code a b))"

definition pay_rely :: "'x pay_world \<Rightarrow> 'x pay_world \<Rightarrow> bool" where
  "pay_rely w w' \<longleftrightarrow>
     (pay_inv w \<longrightarrow> pay_inv w' \<and> keeps_orders (pw_orders w) (pw_orders w') \<and> keeps_codes (pw_codes w) (pw_codes w'))"

text \<open>The balance of a user beyond the codes the user redeemed.\<close>

definition balance_of :: "int \<Rightarrow> pay_user list \<Rightarrow> rat" where
  "balance_of i users = (\<Sum>u\<leftarrow>users. if pu_ID u = i then pu_Balance u else 0)"

definition redeemed_by :: "int \<Rightarrow> RedeemCode list \<Rightarrow> rat" where
  "redeemed_by i codes =
     (\<Sum>c\<leftarrow>codes. if IsUsed c \<and> rc_UsedBy c = Some i \<and> rc_Type c = RedeemTypeBalance then rc_Value c else 0)"

definition net_balance :: "int \<Rightarrow> 'x pay_world \<Rightarrow> rat" where
  "net_balance i w = balance_of i (pw_users w) - redeemed_by i (pw_codes w)"

text \<open>The lifecycle of an order up to its completion; refunds start from there.\<close>

inductive status_move :: "OrderStatus \<Rightarrow> OrderStatus \<Rightarrow> bool" where
  paid: "s \<in> {OrderStatusPending, OrderStatusCancelled, OrderStatusExpired} \<Longrightarrow> status_move s OrderStatusPaid"
| closed: "s \<in> {OrderStatusCancelled, OrderStatusExpired} \<Longrightarrow> status_move OrderStatusPending s"
| leased: "s \<in> {OrderStatusPaid, OrderStatusFailed, OrderStatusRecharging} \<Longrightarrow> status_move s OrderStatusRecharging"
| ended: "s \<in> {OrderStatusCompleted, OrderStatusFailed} \<Longrightarrow> status_move OrderStatusRecharging s"

definition follows :: "PaymentOrder list \<Rightarrow> PaymentOrder list \<Rightarrow> bool" where
  "follows xs ys \<longleftrightarrow>
     (\<forall>a \<in> set xs. \<exists>b \<in> set ys. po_ID b = po_ID a \<and> (po_Status b = po_Status a \<or> status_move (po_Status a) (po_Status b)))"

definition pay_guar :: "'x pay_world \<Rightarrow> 'x pay_world \<Rightarrow> bool" where
  "pay_guar w w' \<longleftrightarrow>
     pay_rely w w' \<and>
     (pay_inv w \<longrightarrow> (\<forall>i. net_balance i w' = net_balance i w) \<and> follows (pw_orders w) (pw_orders w'))"

lemma same_order_refl [simp]: "same_order a a"
  by (simp add: same_order_def)

lemma same_order_trans: "same_order a b \<Longrightarrow> same_order b c \<Longrightarrow> same_order a c"
  by (simp add: same_order_def)

lemma same_code_refl [simp]: "same_code a a"
  by (simp add: same_code_def)

lemma keeps_orders_refl [simp]: "keeps_orders xs xs"
  by (auto simp: keeps_orders_def intro: same_order_refl)

lemma keeps_codes_refl [simp]: "keeps_codes xs xs"
  by (auto simp: keeps_codes_def intro: same_code_refl)

lemma follows_refl [simp]: "follows xs xs"
  by (auto simp: follows_def)

lemma keeps_orders_trans: "keeps_orders xs ys \<Longrightarrow> keeps_orders ys zs \<Longrightarrow> keeps_orders xs zs"
  unfolding keeps_orders_def by (meson same_order_trans)

lemma same_code_trans: "same_code a b \<Longrightarrow> same_code b c \<Longrightarrow> same_code a c"
  by (auto simp: same_code_def)

lemma keeps_codes_trans: "keeps_codes xs ys \<Longrightarrow> keeps_codes ys zs \<Longrightarrow> keeps_codes xs zs"
  unfolding keeps_codes_def by (metis same_code_def same_code_trans)

interpretation pay: pay_guarantee pay_rely pay_guar
proof
  show "pay_rely w w" for w :: "'a pay_world" by (simp add: pay_rely_def)
  show "pay_rely a c" if "pay_rely a b" "pay_rely b c" for a b c :: "'a pay_world"
    using that keeps_orders_trans keeps_codes_trans unfolding pay_rely_def by blast
  show "pay_guar w w" for w :: "'a pay_world" by (simp add: pay_guar_def pay_rely_def)
  show "pay_rely a b" if "pay_guar a b" for a b :: "'a pay_world" using that by (simp add: pay_guar_def)
qed

lemma rely_inv: "pay_inv w \<Longrightarrow> pay_rely w w' \<Longrightarrow> pay_inv w'"
  by (simp add: pay_rely_def)

section \<open>Single statements\<close>

text \<open>A statement that leaves orders, codes and users alone.\<close>

lemma guar_frame:
  assumes "pw_orders w' = pw_orders w" "pw_codes w' = pw_codes w" "pw_code_seq w' = pw_code_seq w" "pw_users w' = pw_users w"
  shows "pay_guar w w'"
  using assms by (simp add: pay_guar_def pay_rely_def pay_inv_def codes_ok_def net_balance_def)

lemma keeps_orders_map: "(\<And>r. same_order r (g r)) \<Longrightarrow> keeps_orders xs (map g xs)"
  by (auto simp: keeps_orders_def)

lemma keeps_codes_map: "(\<And>r. r \<in> set xs \<Longrightarrow> same_code r (g r)) \<Longrightarrow> keeps_codes xs (map g xs)"
  by (auto simp: keeps_codes_def)

lemma follows_map:
  "(\<And>r. po_ID (g r) = po_ID r) \<Longrightarrow> (\<And>r. po_Status (g r) = po_Status r \<or> status_move (po_Status r) (po_Status (g r))) \<Longrightarrow>
   follows xs (map g xs)"
  by (auto simp: follows_def)

lemma guar_updateI:
  assumes keep: "\<And>r. p t r \<Longrightarrow> same_order r (f t (r\<lparr>po_UpdatedAt := t\<rparr>))"
    and move: "\<And>r. p t r \<Longrightarrow> po_Status (f t (r\<lparr>po_UpdatedAt := t\<rparr>)) = po_Status r \<or>
        status_move (po_Status r) (po_Status (f t (r\<lparr>po_UpdatedAt := t\<rparr>)))"
    and credit: "\<And>r. pay_inv w \<Longrightarrow> r \<in> set (pw_orders w) \<Longrightarrow> p t r \<Longrightarrow> po_OrderType r = OrderTypeBalance \<Longrightarrow>
        completed_status (po_Status (f t (r\<lparr>po_UpdatedAt := t\<rparr>))) \<Longrightarrow> is_credited (pw_codes w) r"
  shows "pay_guar w (snd (update_orders p f t w))"
proof -
  let ?g = "\<lambda>r. if p t r then f t (r\<lparr>po_UpdatedAt := t\<rparr>) else r"
  have same: "same_order r (?g r)" for r using keep by simp
  have ids: "map po_ID (map ?g xs) = map po_ID xs" "map po_RechargeCode (map ?g xs) = map po_RechargeCode xs" for xs
    using same by (simp_all add: same_order_def)
  have ok: "order_ok (pw_codes w) (?g r)" if "pay_inv w" "r \<in> set (pw_orders w)" for r
  proof (cases "p t r")
    case True
    then show ?thesis
      using that keep [OF True] credit [OF that True]
      by (auto simp: order_ok_def pay_inv_def same_order_def is_credited_def credits_def)
  next
    case False
    then show ?thesis using that by (simp add: pay_inv_def)
  qed
  have inv: "pay_inv (snd (update_orders p f t w))" if "pay_inv w"
  proof -
    have "\<forall>r \<in> set (map ?g (pw_orders w)). order_ok (pw_codes w) r"
      unfolding list.set_map by (rule ballI, erule imageE, simp only:, rule ok [OF that])
    then show ?thesis
      using that ids [of "pw_orders w"] by (simp add: update_orders_def pay_inv_def codes_ok_def del: map_map set_map)
  qed
  have keep: "keeps_orders (pw_orders w) (map ?g (pw_orders w))" using same by (rule keeps_orders_map)
  have go: "follows (pw_orders w) (map ?g (pw_orders w))"
    by (rule follows_map) (use same move in \<open>simp_all add: same_order_def\<close>)
  show ?thesis
    using inv keep go by (simp add: pay_guar_def pay_rely_def net_balance_def) (simp add: update_orders_def)
qed

section \<open>Programs\<close>

text \<open>An assertion that others keep, and a program between assertions.\<close>

definition lasting :: "('x pay_world \<Rightarrow> bool) \<Rightarrow> bool" where
  "lasting K \<longleftrightarrow> (\<forall>w w'. pay_inv w \<longrightarrow> K w \<longrightarrow> pay_rely w w' \<longrightarrow> K w')"

definition pay_sat ::
  "('x pay_world \<Rightarrow> bool) \<Rightarrow> ('x, 'a) pay_prog \<Rightarrow> ('a \<Rightarrow> 'x pay_world \<Rightarrow> bool) \<Rightarrow> bool" where
  "pay_sat K p Q \<longleftrightarrow>
     (\<forall>w. pay_inv w \<longrightarrow> K w \<longrightarrow> sat (\<lambda>_. True) pay_rely pay_guar (\<lambda>a w'. pay_inv w' \<and> Q a w') p w)"

text \<open>A program that keeps every lasting assertion.\<close>

definition benign :: "('x, 'a) pay_prog \<Rightarrow> bool" where
  "benign p \<longleftrightarrow> (\<forall>K. lasting K \<longrightarrow> pay_sat K p (\<lambda>_. K))"

lemma lastingD: "lasting K \<Longrightarrow> pay_inv w \<Longrightarrow> K w \<Longrightarrow> pay_rely w w' \<Longrightarrow> K w'"
  by (simp add: lasting_def)

lemma lasting_True [simp, intro]: "lasting (\<lambda>_. True)"
  by (simp add: lasting_def)

lemma lasting_conj [intro]: "lasting K \<Longrightarrow> lasting L \<Longrightarrow> lasting (\<lambda>w. K w \<and> L w)"
  by (simp add: lasting_def)

lemma lasting_const [intro]: "lasting K \<Longrightarrow> lasting (\<lambda>w. b \<longrightarrow> K w)"
  by (simp add: lasting_def)

lemma pay_sat_Return: "lasting K \<Longrightarrow> (\<And>w. K w \<Longrightarrow> Q a w) \<Longrightarrow> pay_sat K (Return a) Q"
  unfolding pay_sat_def by (auto intro!: sat_Return dest: lastingD rely_inv)

lemma pay_sat_call:
  assumes "pay_sat K p Q" and "\<And>a. pay_sat (Q a) (k a) Q'"
  shows "pay_sat K (call p k) Q'"
  using assms unfolding pay_sat_def by (blast intro: pay.sat_call)

lemma pay_sat_weaken: "pay_sat K p Q \<Longrightarrow> (\<And>w. pay_inv w \<Longrightarrow> L w \<Longrightarrow> K w) \<Longrightarrow> (\<And>a w. Q a w \<Longrightarrow> Q' a w) \<Longrightarrow> pay_sat L p Q'"
  unfolding pay_sat_def by (blast intro: sat_weaken)

lemma pay_sat_sql:
  assumes K: "lasting K" and Q: "\<And>a. lasting (Q a)"
    and acts: "\<And>t w. pay_inv w \<Longrightarrow> K w \<Longrightarrow> pay_guar w (snd (stmt t w))"
    and answer: "\<And>t w. pay_inv w \<Longrightarrow> K w \<Longrightarrow> Q (fst (stmt t w)) (snd (stmt t w))"
    and lost: "\<And>w. K w \<Longrightarrow> Q (Inl conn_error) w"
  shows "pay_sat K (sql stmt) Q"
  unfolding pay_sat_def
proof (intro allI impI)
  fix w :: "'a pay_world" assume w: "pay_inv w" "K w"
  have later: "pay_inv w' \<and> K w'" if "pay_rely w w'" for w' using w that K rely_inv lastingD by blast
  show "sat (\<lambda>_. True) pay_rely pay_guar (\<lambda>a w'. pay_inv w' \<and> Q a w') (sql stmt) w"
  proof (rule pay.sat_sql)
    fix t w' assume "pay_rely w w'"
    then show act: "pay_guar w' (snd (stmt t w'))" using later acts by blast
    fix w'' assume more: "pay_rely (snd (stmt t w')) w''"
    have "pay_inv (snd (stmt t w'))" using later [OF \<open>pay_rely w w'\<close>] rely_inv pay.guarantee [OF act] by blast
    then show "pay_inv w'' \<and> Q (fst (stmt t w')) w''"
      using answer later [OF \<open>pay_rely w w'\<close>] lastingD [OF Q _ _ more] rely_inv [OF _ more] by blast
  next
    fix w' assume "pay_rely w w'"
    then show "pay_inv w' \<and> Q (Inl conn_error) w'" using later lost by blast
  qed
qed

lemma benignI: "(\<And>K. lasting K \<Longrightarrow> pay_sat K p (\<lambda>_. K)) \<Longrightarrow> benign p"
  by (simp add: benign_def)

lemma benignD: "benign p \<Longrightarrow> lasting K \<Longrightarrow> pay_sat K p (\<lambda>_. K)"
  by (simp add: benign_def)

named_theorems benign_intros \<open>programs that keep every lasting assertion\<close>

lemma benign_Return [benign_intros]: "benign (Return a)"
  by (rule benignI) (auto intro: pay_sat_Return)

lemma benign_call [benign_intros]: "benign p \<Longrightarrow> (\<And>a. benign (k a)) \<Longrightarrow> benign (call p k)"
  unfolding benign_def by (blast intro: pay_sat_call)

lemma benign_sql: "(\<And>t w. pay_guar w (snd (stmt t w))) \<Longrightarrow> benign (sql stmt)"
  by (rule benignI, rule pay_sat_sql) (auto dest: lastingD intro: pay.guarantee)

lemma benign_Step: "benign (Step (\<lambda>e w. (Return (f e), w)))"
  unfolding benign_def pay_sat_def
proof (intro allI impI)
  fix K :: "'a pay_world \<Rightarrow> bool" and w
  assume K: "lasting K" "pay_inv w" "K w"
  have later: "pay_inv w' \<and> K w'" if "pay_rely w w'" for w' using K that rely_inv lastingD by blast
  show "sat (\<lambda>_. True) pay_rely pay_guar (\<lambda>a w'. pay_inv w' \<and> K w') (Step (\<lambda>e w. (Return (f e), w))) w"
    by (rule sat_Step) (auto intro!: sat_Return intro: pay.idle dest: pay.trans later)
qed

lemma benign_time_Now [benign_intros]: "benign time_Now"
  unfolding time_Now_def by (rule benign_Step)

lemma benign_ask_query [benign_intros]: "benign ask_query"
  unfolding ask_query_def by (rule benign_Step)

lemma benign_read [benign_intros]: "benign (sql (read q))"
  by (rule benign_sql) (simp add: read_def pay.idle)

lemma benign_if [benign_intros]: "(b \<Longrightarrow> benign p) \<Longrightarrow> (\<not> b \<Longrightarrow> benign q) \<Longrightarrow> benign (if b then p else q)"
  by simp

lemma benign_sum [benign_intros]:
  "(\<And>a. x = Inl a \<Longrightarrow> benign (f a)) \<Longrightarrow> (\<And>b. x = Inr b \<Longrightarrow> benign (g b)) \<Longrightarrow> benign (case x of Inl a \<Rightarrow> f a | Inr b \<Rightarrow> g b)"
  by (simp split: sum.split)

lemma benign_option [benign_intros]:
  "(x = None \<Longrightarrow> benign p) \<Longrightarrow> (\<And>a. x = Some a \<Longrightarrow> benign (f a)) \<Longrightarrow> benign (case x of None \<Rightarrow> p | Some a \<Rightarrow> f a)"
  by (simp split: option.split)

lemma benign_prod [benign_intros]: "(\<And>a b. benign (f a b)) \<Longrightarrow> benign (case x of (a, b) \<Rightarrow> f a b)"
  by (simp split: prod.split)

lemma benign_Let [benign_intros]: "benign (f x) \<Longrightarrow> benign (let y = x in f y)"
  by simp

lemma benign_for_each [benign_intros]: "(\<And>x. benign (body x)) \<Longrightarrow> benign (for_each body xs)"
  by (induction xs) (auto intro!: benign_intros)

lemma guar_insert_audit: "pay_guar w (snd (insert_audit r t w))"
  by (rule guar_frame) (simp_all add: insert_audit_def)

lemma benign_audit [benign_intros]: "benign (sql (insert_audit r))"
  by (rule benign_sql) (rule guar_insert_audit)

lemma benign_writeAuditLog [benign_intros]: "benign (writeAuditLog oid action operator detail)"
  unfolding writeAuditLog_def by (intro benign_intros)

lemma benign_hasAuditLog [benign_intros]: "benign (hasAuditLog oid action)"
  unfolding hasAuditLog_def by (intro benign_intros)

lemma benign_get_order [benign_intros]: "benign (get_order oid)" "benign (order_by_trade_no no)" "benign (get_instance i)"
  unfolding get_order_def order_by_trade_no_def get_instance_def by (intro benign_intros)+

section \<open>Operations that need no knowledge\<close>

lemma benign_update:
  assumes "\<And>t r. p t r \<Longrightarrow> same_order r (f t (r\<lparr>po_UpdatedAt := t\<rparr>))"
    and "\<And>t r. p t r \<Longrightarrow> status_move (po_Status r) (po_Status (f t (r\<lparr>po_UpdatedAt := t\<rparr>)))"
    and "\<And>t r. p t r \<Longrightarrow> \<not> completed_status (po_Status (f t (r\<lparr>po_UpdatedAt := t\<rparr>)))"
  shows "benign (sql (update_orders p f))"
  by (rule benign_sql, rule guar_updateI) (use assms in auto)

lemmas frame_defs = rebate_tx_def assign_tx_def assign_subscription_def accrue_def GetRedeemAttemptCount_def
  IncrementRedeemAttemptCount_def redis_SetNX_def redis_Del_def redis_put_def insert_audit_def read_def Let_def

lemma benign_frame [benign_intros]:
  "benign (sql (rebate_tx env r base))" "benign (sql (assign_tx env r g d))" "benign (sql (accrue renv u a src))"
  "benign (sql (GetRedeemAttemptCount u))" "benign (sql (IncrementRedeemAttemptCount u))" "benign (sql (redis_SetNX key ttl))"
  "benign (sql (redis_Del key))" "benign (sql (\<lambda>_. insert_audit row now))"
  by (rule benign_sql, rule guar_frame; simp add: frame_defs split: sum.split prod.split option.split)+

lemma benign_acquire_lease [benign_intros]: "benign (sql (acquire_lease_stmt oid))"
  unfolding acquire_lease_stmt_def
  by (rule benign_update) (auto simp: same_order_def lease_free_def completed_status_def psIsRefundStatus_def intro: status_move.leased)

lemma benign_mark_failed [benign_intros]: "benign (sql (mark_failed_stmt oid version cause))"
  unfolding mark_failed_stmt_def
  by (rule benign_update) (auto simp: same_order_def lease_held_def completed_status_def psIsRefundStatus_def intro: status_move.ended)

lemma benign_close [benign_intros]: "fs \<in> {OrderStatusCancelled, OrderStatusExpired} \<Longrightarrow> benign (sql (close_stmt oid fs))"
  unfolding close_stmt_def
  by (rule benign_update) (auto simp: same_order_def completed_status_def psIsRefundStatus_def intro: status_move.closed)

lemma benign_to_paid [benign_intros]: "benign (sql (to_paid_stmt oid tradeNo paid))"
proof (rule benign_sql)
  fix t and w :: "'a pay_world"
  have "pay_guar w (snd (update_orders (\<lambda>t. payable oid (t - paymentGrace))
        (\<lambda>t r. r\<lparr>po_Status := OrderStatusPaid, po_PayAmount := round_digits 2 paid, po_PaymentTradeNo := tradeNo,
                 po_PaidAt := Some t, po_FailedAt := None, po_FailedReason := None\<rparr>) t w))"
    by (rule guar_updateI) (auto simp: same_order_def payable_def completed_status_def psIsRefundStatus_def intro: status_move.paid)
  then show "pay_guar w (snd (to_paid_stmt oid tradeNo paid t w))" by (simp add: to_paid_stmt_def pay.idle)
qed

lemma is_credited_append: "is_credited xs r \<Longrightarrow> is_credited (xs @ ys) r"
  by (auto simp: is_credited_def)

lemma order_ok_append: "order_ok xs r \<Longrightarrow> order_ok (xs @ ys) r"
  by (auto simp: order_ok_def intro: is_credited_append)

lemma redeemed_by_append: "redeemed_by i (xs @ ys) = redeemed_by i xs + redeemed_by i ys"
  by (simp add: redeemed_by_def)

lemma keeps_codes_append: "keeps_codes xs (xs @ ys)"
  unfolding keeps_codes_def by (metis UnCI same_code_refl set_append)

lemma guar_create:
  assumes "rc_Status r = StatusUnused"
  shows "pay_guar w (snd (repo_Create r t w))"
proof (cases "\<not> code_fits r \<or> code_taken (rc_Code r) (pw_codes w)")
  case True
  then show ?thesis by (auto simp: repo_Create_def pay.idle)
next
  case False
  let ?c = "r\<lparr>rc_ID := pw_code_seq w, rc_Value := round_to_scale (rc_Value r)\<rparr>"
  have fresh: "rc_Code r \<notin> rc_Code ` set (pw_codes w)" using False by (auto simp: code_taken_def list_ex_iff)
  have unused: "\<not> IsUsed ?c" using assms by (simp add: IsUsed_def code_constants)
  have codes: "codes_ok (snd (repo_Create r t w))" if "codes_ok w"
    using that fresh False on_scale_round_to_scale by (fastforce simp: repo_Create_def codes_ok_def)
  have "keeps_codes (pw_codes w) (pw_codes w @ [?c])" by (rule keeps_codes_append)
  moreover have "redeemed_by i (pw_codes w @ [?c]) = redeemed_by i (pw_codes w)" for i
    using unused by (simp add: redeemed_by_append) (simp add: redeemed_by_def)
  ultimately show ?thesis
    using codes False by (auto simp: pay_guar_def pay_rely_def pay_inv_def net_balance_def repo_Create_def order_ok_append)
qed

lemma benign_CreateCode [benign_intros]: "benign (CreateCode (new_code code ty v))"
  unfolding CreateCode_def by (intro benign_intros benign_sql guar_create) (simp add: new_code_def code_constants)

lemma benign_redeem_parts [benign_intros]:
  "benign (checkRedeemRateLimit renv u)" "benign (acquireRedeemLock renv code)" "benign (releaseRedeemLock renv code)"
  "benign (redeem_refused renv u err)" "benign (tryAccrueAffiliateRebateForRedeem renv skip u v)" "benign (GetByCode code)"
  "benign (sql (user_GetByID u))" "benign (sql (repo_GetByCode code))" "benign (sql (repo_GetByID i))"
  unfolding checkRedeemRateLimit_def acquireRedeemLock_def releaseRedeemLock_def acquire_lock_def release_lock_def
    redeem_refused_def incrementRedeemErrorCount_def recordRedeemFailureRisk_def tryAccrueAffiliateRebateForRedeem_def
    GetByCode_def user_GetByID_def repo_GetByCode_def repo_GetByID_def
  by (intro benign_intros)+

lemma benign_provider [benign_intros]:
  "benign (getOrderProviderInstance r)" "benign (GetInstanceConfig env i)" "benign (webhookRegistryFallbackAllowed key)"
  "benign (createProviderFromInstance env inst)"
  unfolding getOrderProviderInstance_def resolveSnapshotOrderProviderInstance_def resolveUniqueLegacyOrderProviderInstance_def
    GetInstanceConfig_def webhookRegistryFallbackAllowed_def createProviderFromInstance_def
  by (intro benign_intros)+

lemma benign_metadata [benign_intros]:
  "benign (validateOrderNotificationMetadata env r inst key metadata)" "benign (getOrderProvider env r)"
  unfolding validateOrderNotificationMetadata_def notification_fallback_def getOrderProvider_def
  by (intro benign_intros)+

lemma benign_fulfilment_parts [benign_intros]:
  "benign (markFailed oid version cause)" "benign (acquirePaymentFulfillmentLease r)" "benign (applyAffiliateRebateForOrder env r)"
  "benign (ensurePaymentSubscriptionAssigned env r g d)"
  unfolding markFailed_def acquirePaymentFulfillmentLease_def applyAffiliateRebateForOrder_def ensurePaymentSubscriptionAssigned_def
  by (intro benign_intros)+

section \<open>Redeeming the code of an order\<close>

lemma only_in: "only p xs = Inr x \<Longrightarrow> x \<in> set xs \<and> p x"
  by (auto simp: only_def split: list.splits dest!: arg_cong [where f = set])

lemma only_unique: "distinct (map f xs) \<Longrightarrow> x \<in> set xs \<Longrightarrow> only (\<lambda>r. f r = f x) xs = Inr x"
proof -
  assume *: "distinct (map f xs)" "x \<in> set xs"
  then obtain ys zs where xs: "xs = ys @ x # zs" by (meson split_list)
  have "filter (\<lambda>r. f r = f x) ys = []" "filter (\<lambda>r. f r = f x) zs = []"
    using * unfolding xs by (auto simp: filter_empty_conv image_iff)
  then show ?thesis by (simp add: xs only_def)
qed

definition use_code :: "int \<Rightarrow> time \<Rightarrow> RedeemCode \<Rightarrow> RedeemCode" where
  "use_code u t c = c\<lparr>rc_Status := StatusUsed, rc_UsedBy := Some u, rc_UsedAt := Some t\<rparr>"

definition add_balance :: "rat \<Rightarrow> pay_user \<Rightarrow> pay_user" where
  "add_balance v x = x\<lparr>pu_Balance := round_to_scale (pu_Balance x + v), pu_TotalRecharged := round_to_scale (pu_TotalRecharged x + v)\<rparr>"

lemma use_code_simps [simp]:
  "rc_ID (use_code u t c) = rc_ID c" "rc_Code (use_code u t c) = rc_Code c" "rc_Type (use_code u t c) = rc_Type c"
  "rc_Value (use_code u t c) = rc_Value c" "rc_UsedBy (use_code u t c) = Some u" "IsUsed (use_code u t c)"
  "rc_GroupID (use_code u t c) = rc_GroupID c"
  by (simp_all add: use_code_def IsUsed_def)

lemma map_at: "distinct (map f xs) \<Longrightarrow> x \<in> set xs \<Longrightarrow> (\<And>r. p r \<Longrightarrow> f r = f x) \<Longrightarrow> p x \<Longrightarrow>
  \<exists>ys zs. xs = ys @ x # zs \<and> map (\<lambda>r. if p r then g r else r) xs = ys @ g x # zs"
proof -
  assume *: "distinct (map f xs)" "x \<in> set xs" "\<And>r. p r \<Longrightarrow> f r = f x" "p x"
  then obtain ys zs where xs: "xs = ys @ x # zs" by (meson split_list)
  have other: "\<not> p r" if "r \<in> set ys \<union> set zs" for r
    using that *(1) *(3) [of r] by (auto simp: xs image_iff)
  have "map (\<lambda>r. if p r then g r else r) ys = ys" "map (\<lambda>r. if p r then g r else r) zs = zs"
    by (rule map_idI; simp add: other)+
  then have "map (\<lambda>r. if p r then g r else r) xs = ys @ g x # zs" using *(4) by (simp add: xs)
  then show ?thesis using xs by blast
qed

lemma repo_Use_alt:
  "repo_Use i u t w =
     (if \<not> list_ex (usable_at i t) (pw_codes w) then (Inl ErrRedeemCodeUsed, w)
      else (Inr (), w\<lparr>pw_codes := map (\<lambda>r. if usable_at i t r then use_code u t r else r) (pw_codes w)\<rparr>))"
  by (simp add: repo_Use_def update_codes_def use_code_def)

lemma use_found:
  assumes "codes_ok w" "c \<in> set (pw_codes w)" "usable_at (rc_ID c) t c"
  obtains ys zs where "pw_codes w = ys @ c # zs"
    and "repo_Use (rc_ID c) u t w = (Inr (), w\<lparr>pw_codes := ys @ use_code u t c # zs\<rparr>)"
    and "code_by_id (rc_ID c) (w\<lparr>pw_codes := ys @ use_code u t c # zs\<rparr>) = Inr (use_code u t c)"
proof -
  have dist: "distinct (map rc_ID (pw_codes w))" using assms(1) by (simp add: codes_ok_def)
  obtain ys zs where codes: "pw_codes w = ys @ c # zs"
    and used: "map (\<lambda>r. if usable_at (rc_ID c) t r then use_code u t r else r) (pw_codes w) = ys @ use_code u t c # zs"
    using map_at [OF dist assms(2), of "usable_at (rc_ID c) t" "use_code u t"] assms(3) by (auto simp: usable_at_def)
  have "list_ex (usable_at (rc_ID c) t) (pw_codes w)" using assms(2,3) by (auto simp: list_ex_iff)
  then have use: "repo_Use (rc_ID c) u t w = (Inr (), w\<lparr>pw_codes := ys @ use_code u t c # zs\<rparr>)"
    by (simp add: repo_Use_alt used)
  have "distinct (map rc_ID (ys @ use_code u t c # zs))" using dist by (simp add: codes)
  from only_unique [OF this, of "use_code u t c"]
  have "code_by_id (rc_ID c) (w\<lparr>pw_codes := ys @ use_code u t c # zs\<rparr>) = Inr (use_code u t c)"
    by (simp add: code_by_id_def found_code_def)
  then show ?thesis using that codes use by blast
qed

lemma not_usable:
  assumes "codes_ok w" "c \<in> set (pw_codes w)" "\<not> usable_at (rc_ID c) t c"
  shows "redeem_tx env u (rc_ID c) t w = (Inl ErrRedeemCodeUsed, w)"
proof -
  have "\<not> list_ex (usable_at (rc_ID c) t) (pw_codes w)"
  proof
    assume "list_ex (usable_at (rc_ID c) t) (pw_codes w)"
    then obtain d where "d \<in> set (pw_codes w)" "usable_at (rc_ID c) t d" by (auto simp: list_ex_iff)
    moreover from this have "d = c"
      using assms(1,2) by (auto simp: codes_ok_def usable_at_def distinct_map dest: inj_onD)
    ultimately show False using assms(3) by simp
  qed
  moreover have "errors_is ErrRedeemCodeUsed ErrRedeemCodeUsed" by (simp add: ErrRedeemCodeUsed_def Conflict_def New_def app_is_def)
  ultimately show ?thesis by (simp add: redeem_tx_def repo_Use_def)
qed

lemma redeem_tx_usable:
  assumes "codes_ok w" "c \<in> set (pw_codes w)" "rc_Type c = RedeemTypeBalance" "rc_Value c > 0" "usable_at (rc_ID c) t c"
  obtains ys zs where "pw_codes w = ys @ c # zs" "\<not> IsUsed c"
    and "redeem_tx env u (rc_ID c) t w =
       (if list_ex (\<lambda>y. pu_ID y = u) (pw_users w)
        then (Inr (use_code u t c), w\<lparr>pw_codes := ys @ use_code u t c # zs,
               pw_users := map (\<lambda>y. if pu_ID y = u then add_balance (rc_Value c) y else y) (pw_users w)\<rparr>)
        else (Inl (WrapErr ''update user balance'' ErrUserNotFound), w))"
proof -
  obtain ys zs where codes: "pw_codes w = ys @ c # zs"
    and use: "repo_Use (rc_ID c) u t w = (Inr (), w\<lparr>pw_codes := ys @ use_code u t c # zs\<rparr>)"
    and found: "code_by_id (rc_ID c) (w\<lparr>pw_codes := ys @ use_code u t c # zs\<rparr>) = Inr (use_code u t c)"
    using use_found [OF assms(1,2,5)] .
  have balance: "redeem_benefit env u (use_code u t c) t v =
      stmt_error ''update user balance'' (UpdateBalance u (rc_Value c) t v)" for v
    using assms(3,4) by (simp add: redeem_benefit_def)
  have kind: "\<not> (rc_Type (use_code u t c) = RedeemTypeSubscription \<and> rc_GroupID (use_code u t c) = None)"
    using assms(3) by (simp add: code_constants)
  have tx: "redeem_tx env u (rc_ID c) t w =
     (case stmt_error ''update user balance'' (UpdateBalance u (rc_Value c) t (w\<lparr>pw_codes := ys @ use_code u t c # zs\<rparr>)) of
        (err, w2) \<Rightarrow> if err \<noteq> NilErr then (Inl err, w) else (Inr (use_code u t c), w2))"
    unfolding redeem_tx_def use found prod.case sum.case balance by (simp only: kind if_False)
  have "\<not> IsUsed c" using assms(5) by (auto simp: usable_at_def IsUsed_def code_constants)
  moreover have "redeem_tx env u (rc_ID c) t w =
       (if list_ex (\<lambda>y. pu_ID y = u) (pw_users w)
        then (Inr (use_code u t c), w\<lparr>pw_codes := ys @ use_code u t c # zs,
               pw_users := map (\<lambda>y. if pu_ID y = u then add_balance (rc_Value c) y else y) (pw_users w)\<rparr>)
        else (Inl (WrapErr ''update user balance'' ErrUserNotFound), w))"
    unfolding tx using assms(4) by (simp add: UpdateBalance_def update_users_def stmt_error_def add_balance_def)
  ultimately show ?thesis using that codes by blast
qed

lemma redeem_tx_cases:
  assumes "codes_ok w" "c \<in> set (pw_codes w)" "rc_Type c = RedeemTypeBalance" "rc_Value c > 0"
  obtains err where "redeem_tx env u (rc_ID c) t w = (Inl err, w)"
  | ys zs x where "pw_codes w = ys @ c # zs" "\<not> IsUsed c" "x \<in> set (pw_users w)" "pu_ID x = u"
      "redeem_tx env u (rc_ID c) t w =
         (Inr (use_code u t c), w\<lparr>pw_codes := ys @ use_code u t c # zs,
            pw_users := map (\<lambda>y. if pu_ID y = u then add_balance (rc_Value c) y else y) (pw_users w)\<rparr>)"
proof (cases "usable_at (rc_ID c) t c")
  case True
  show ?thesis
  proof (cases rule: redeem_tx_usable [OF assms True, of env u])
    case (1 ys zs)
    then show ?thesis
      using that by (cases "list_ex (\<lambda>y. pu_ID y = u) (pw_users w)") (auto simp: list_ex_iff)
  qed
next
  case False
  then show ?thesis using that(1) not_usable [OF assms(1,2)] by blast
qed

lemma is_credited_use: "is_credited (ys @ c # zs) r \<Longrightarrow> \<not> IsUsed c \<Longrightarrow> is_credited (ys @ use_code u t c # zs) r"
  by (auto simp: is_credited_def credits_def)

lemma redeemed_by_use:
  "rc_Type c = RedeemTypeBalance \<Longrightarrow> \<not> IsUsed c \<Longrightarrow>
   redeemed_by i (ys @ use_code u t c # zs) = redeemed_by i (ys @ c # zs) + (if i = u then rc_Value c else 0)"
  by (simp add: redeemed_by_def)

lemma balance_of_add:
  assumes "distinct (map pu_ID users)" "x \<in> set users" "pu_ID x = u" "on_scale (pu_Balance x)" "on_scale v"
  shows "balance_of i (map (\<lambda>y. if pu_ID y = u then add_balance v y else y) users) =
         balance_of i users + (if i = u then v else 0)"
proof -
  obtain us vs where users: "users = us @ x # vs"
    and map: "map (\<lambda>y. if pu_ID y = u then add_balance v y else y) users = us @ add_balance v x # vs"
    using map_at [OF assms(1,2), of "\<lambda>y. pu_ID y = u" "add_balance v"] assms(3) by auto
  have "pu_Balance (add_balance v x) = pu_Balance x + v"
    using assms(4,5) by (simp add: add_balance_def round_to_scale_fixed on_scale_add)
  moreover have "pu_ID (add_balance v x) = u" using assms(3) by (simp add: add_balance_def)
  ultimately show ?thesis unfolding map by (simp add: users balance_of_def assms(3))
qed

lemma guar_redeem_tx:
  assumes "c \<in> set (pw_codes w)" "rc_Type c = RedeemTypeBalance" "rc_Value c > 0"
  shows "pay_guar w (snd (redeem_tx env u (rc_ID c) t w))"
proof (cases "pay_inv w")
  case True
  then have ok: "codes_ok w" by (simp add: pay_inv_def)
  show ?thesis
  proof (cases rule: redeem_tx_cases [OF ok assms, of env u t])
    case (1 err)
    then show ?thesis by (simp add: pay.idle)
  next
    case (2 ys zs x)
    let ?users = "map (\<lambda>y. if pu_ID y = u then add_balance (rc_Value c) y else y) (pw_users w)"
    let ?w = "w\<lparr>pw_codes := ys @ use_code u t c # zs, pw_users := ?users\<rparr>"
    have ids: "map pu_ID ?users = map pu_ID (pw_users w)" by (simp add: add_balance_def)
    have scale: "on_scale (rc_Value c)" using ok assms(1) by (simp add: codes_ok_def)
    have x: "on_scale (pu_Balance x)" using True 2(3) by (simp add: pay_inv_def)
    have "codes_ok ?w" using ok unfolding codes_ok_def 2(1) by simp
    moreover have "\<forall>r \<in> set (pw_orders w). order_ok (ys @ use_code u t c # zs) r"
      using True is_credited_use [OF _ 2(2)] unfolding pay_inv_def 2(1) order_ok_def by blast
    moreover have "\<forall>y \<in> set ?users. on_scale (pu_Balance y)"
      using True by (auto simp: pay_inv_def add_balance_def on_scale_round_to_scale)
    ultimately have inv: "pay_inv ?w" using True ids unfolding pay_inv_def by (simp del: map_map set_map)
    have keep: "keeps_codes (pw_codes w) (ys @ use_code u t c # zs)"
      unfolding 2(1) using 2(2) by (auto simp: keeps_codes_def same_code_def)
    have "net_balance i ?w = net_balance i w" for i
      using True balance_of_add [OF _ 2(3,4) x scale] redeemed_by_use [OF assms(2) 2(2), of i ys u t zs]
      by (simp add: net_balance_def pay_inv_def 2(1))
    then show ?thesis using inv keep unfolding 2(5) by (simp add: pay_guar_def pay_rely_def)
  qed
next
  case False
  then show ?thesis by (simp add: pay_guar_def pay_rely_def)
qed

section \<open>What a fulfillment knows\<close>

definition order_known :: "PaymentOrder \<Rightarrow> 'x pay_world \<Rightarrow> bool" where
  "order_known r w \<longleftrightarrow> (\<exists>b \<in> set (pw_orders w). same_order r b)"

definition is_order_code :: "PaymentOrder \<Rightarrow> RedeemCode \<Rightarrow> bool" where
  "is_order_code r c \<longleftrightarrow> rc_Code c = po_RechargeCode r \<and> rc_Type c = RedeemTypeBalance \<and> rc_Value c = po_Amount r"

definition code_known :: "PaymentOrder \<Rightarrow> (RedeemCode \<Rightarrow> bool) \<Rightarrow> 'x pay_world \<Rightarrow> bool" where
  "code_known r P w \<longleftrightarrow> order_known r w \<and> (\<exists>c \<in> set (pw_codes w). is_order_code r c \<and> P c)"

abbreviation is_redeemed :: "PaymentOrder \<Rightarrow> RedeemCode \<Rightarrow> bool" where
  "is_redeemed r c \<equiv> IsUsed c \<and> rc_UsedBy c = Some (po_UserID r)"

lemma lasting_order_known [intro, simp]: "lasting (order_known r)"
  unfolding lasting_def pay_rely_def order_known_def keeps_orders_def by (meson same_order_trans)

lemma known_order:
  assumes "pay_inv w" "order_known r w"
  shows "on_scale (po_Amount r)" "is_payment_code (po_RechargeCode r)" "po_OrderType r = OrderTypeBalance \<Longrightarrow> po_Amount r > 0"
    "trim_space (po_RechargeCode r) = po_RechargeCode r"
  using assms by (auto simp: pay_inv_def order_known_def order_ok_def same_order_def)

lemma lasting_code_known:
  assumes "\<And>a b. P a \<Longrightarrow> same_code a b \<Longrightarrow> P b"
  shows "lasting (code_known r P)"
  unfolding lasting_def
proof (intro allI impI)
  fix w w' :: "'a pay_world" assume *: "pay_inv w" "code_known r P w" "pay_rely w w'"
  then obtain c where c: "c \<in> set (pw_codes w)" "is_order_code r c" "P c" by (auto simp: code_known_def)
  have "is_payment_code (rc_Code c)" using * c(2) known_order(2) [of w r] by (simp add: code_known_def is_order_code_def)
  then obtain d where d: "d \<in> set (pw_codes w')" "same_code c d"
    using *(1,3) c(1) by (auto simp: pay_rely_def keeps_codes_def)
  moreover have "order_known r w'" using * lastingD [OF lasting_order_known] by (auto simp: code_known_def)
  ultimately show "code_known r P w'"
    using c(2,3) assms by (auto simp: code_known_def is_order_code_def same_code_def intro!: bexI [of _ d])
qed

lemma lasting_codes [intro, simp]:
  "lasting (code_known r (\<lambda>_. True))" "lasting (code_known r (\<lambda>c. rc_ID c = i))" "lasting (code_known r (is_redeemed r))"
  by (rule lasting_code_known; auto simp: same_code_def)+

lemma code_of_order:
  assumes "pay_inv w" "code_known r P w" "code_by_code (po_RechargeCode r) w = Inr c"
  shows "c \<in> set (pw_codes w)" "is_order_code r c" "P c"
proof -
  have c: "c \<in> set (pw_codes w)" "rc_Code c = po_RechargeCode r"
    using assms(3) by (auto simp: code_by_code_def found_code_def split: sum.splits if_splits dest!: only_in)
  obtain d where "d \<in> set (pw_codes w)" "is_order_code r d" "P d" using assms(2) by (auto simp: code_known_def)
  moreover have "inj_on rc_Code (set (pw_codes w))" using assms(1) by (simp add: pay_inv_def codes_ok_def distinct_map)
  from inj_onD [OF this, of c d] c calculation have "c = d" by (simp add: is_order_code_def)
  ultimately show "c \<in> set (pw_codes w)" "is_order_code r c" "P c" by simp_all
qed

section \<open>Fulfilling an order\<close>

lemma pay_sat_then: "benign p \<Longrightarrow> lasting K \<Longrightarrow> (\<And>a. pay_sat K (k a) Q) \<Longrightarrow> pay_sat K (call p k) Q"
  by (rule pay_sat_call [OF benignD])

lemma pay_sat_end:
  assumes "benign p" "lasting K" "\<And>a w. K w \<Longrightarrow> Q a w"
  shows "pay_sat K p Q"
  by (rule pay_sat_weaken [OF benignD [OF assms(1,2)]]) (use assms(3) in auto)

lemma pay_sat_if: "(b \<Longrightarrow> pay_sat K p Q) \<Longrightarrow> (\<not> b \<Longrightarrow> pay_sat K q Q) \<Longrightarrow> pay_sat K (if b then p else q) Q"
  by simp

lemma pay_sat_sum:
  "(\<And>a. x = Inl a \<Longrightarrow> pay_sat K (f a) Q) \<Longrightarrow> (\<And>b. x = Inr b \<Longrightarrow> pay_sat K (g b) Q) \<Longrightarrow>
   pay_sat K (case x of Inl a \<Rightarrow> f a | Inr b \<Rightarrow> g b) Q"
  by (simp split: sum.split)

lemma code_known_any: "code_known r P w \<Longrightarrow> code_known r (\<lambda>_. True) w"
  by (auto simp: code_known_def)

lemma code_known_order: "code_known r P w \<Longrightarrow> order_known r w"
  by (simp add: code_known_def)

text \<open>What the redemption of an order's code answers: the code is there, and redeemed after a success.\<close>

definition redeem_post :: "PaymentOrder \<Rightarrow> go_error + RedeemCode \<Rightarrow> 'x pay_world \<Rightarrow> bool" where
  "redeem_post r res w \<longleftrightarrow> code_known r (\<lambda>_. True) w \<and> (case res of Inr _ \<Rightarrow> code_known r (is_redeemed r) w | Inl _ \<Rightarrow> True)"

lemma redeem_post_simps [simp]:
  "redeem_post r (Inl err) w = code_known r (\<lambda>_. True) w"
  "redeem_post r (Inr c) w = code_known r (is_redeemed r) w"
  by (auto simp: redeem_post_def dest: code_known_any)

lemma lasting_redeem_post [intro, simp]: "lasting (redeem_post r res)"
  by (cases res) (simp_all add: lasting_def, (blast dest: lastingD [OF lasting_codes(1)] lastingD [OF lasting_codes(3)])+)

lemma sat_redeem_tx:
  assumes "po_OrderType r = OrderTypeBalance"
  shows "pay_sat (code_known r (\<lambda>c. rc_ID c = i)) (sql (redeem_tx env (po_UserID r) i)) (redeem_post r)"
proof (rule pay_sat_sql)
  fix t and w :: "'a pay_world" assume w: "pay_inv w" "code_known r (\<lambda>c. rc_ID c = i) w"
  then obtain c where c: "c \<in> set (pw_codes w)" "is_order_code r c" "rc_ID c = i" by (auto simp: code_known_def)
  have code: "rc_Type c = RedeemTypeBalance" "rc_Value c > 0"
    using c(2) known_order(3) [OF w(1) code_known_order [OF w(2)] assms] by (simp_all add: is_order_code_def)
  show act: "pay_guar w (snd (redeem_tx env (po_UserID r) i t w))" using guar_redeem_tx [OF c(1) code] c(3) by simp
  have ok: "codes_ok w" using w(1) by (simp add: pay_inv_def)
  show "redeem_post r (fst (redeem_tx env (po_UserID r) i t w)) (snd (redeem_tx env (po_UserID r) i t w))"
  proof (cases rule: redeem_tx_cases [OF ok c(1) code, of env "po_UserID r" t])
    case (1 err)
    then show ?thesis using w(2) c(3) code_known_any by auto
  next
    case (2 ys zs x)
    then show ?thesis
      using c(2,3) code_known_order [OF w(2)] by (simp add: code_known_def is_order_code_def order_known_def)
  qed
qed (auto dest: code_known_any)

lemma sat_redeem_commit:
  assumes "po_OrderType r = OrderTypeBalance"
  shows "pay_sat (code_known r (\<lambda>c. rc_ID c = i)) (redeem_commit env skip (po_UserID r) i) (redeem_post r)"
  unfolding redeem_commit_def
proof (rule pay_sat_call [OF sat_redeem_tx [OF assms]], rule pay_sat_sum, goal_cases)
  case (1 res err)
  then show ?case by (auto intro!: pay_sat_Return)
next
  case (2 res c)
  have "redeem_post r (case r2 of Inl err \<Rightarrow> Inl (WrapErr ''get updated redeem code'' err) | Inr c2 \<Rightarrow> Inr c2) w"
    if "redeem_post r res w" for r2 :: "go_error + RedeemCode" and w :: "'a pay_world"
    using that 2 by (cases r2) (auto dest: code_known_any)
  then show ?case by (intro pay_sat_then pay_sat_Return benign_intros lasting_redeem_post)
qed

lemma sat_refused:
  assumes "lasting K" "\<And>w. K w \<Longrightarrow> code_known r (\<lambda>_. True) w"
  shows "pay_sat K (redeem_refused env u err) (redeem_post r)"
proof -
  have "benign (incrementRedeemErrorCount env u)"
    unfolding incrementRedeemErrorCount_def recordRedeemFailureRisk_def by (intro benign_intros)
  then show ?thesis
    unfolding redeem_refused_def by (rule pay_sat_then) (use assms in \<open>auto intro: pay_sat_Return\<close>)
qed

lemma sat_get_code:
  "pay_sat (code_known r (\<lambda>_. True)) (sql (repo_GetByCode (po_RechargeCode r)))
     (\<lambda>res. case res of Inl _ \<Rightarrow> code_known r (\<lambda>_. True) | Inr c \<Rightarrow> code_known r (\<lambda>d. rc_ID d = rc_ID c))"
proof (rule pay_sat_sql)
  fix t and w :: "'a pay_world" assume w: "pay_inv w" "code_known r (\<lambda>_. True) w"
  show "pay_guar w (snd (repo_GetByCode (po_RechargeCode r) t w))" by (simp add: repo_GetByCode_def read_def pay.idle)
  show "(case fst (repo_GetByCode (po_RechargeCode r) t w) of Inl _ \<Rightarrow> code_known r (\<lambda>_. True)
      | Inr c \<Rightarrow> code_known r (\<lambda>d. rc_ID d = rc_ID c)) (snd (repo_GetByCode (po_RechargeCode r) t w))"
  proof (cases "code_by_code (po_RechargeCode r) w")
    case (Inl err)
    then show ?thesis using w by (simp add: repo_GetByCode_def read_def)
  next
    case (Inr c)
    show ?thesis
      using Inr w(2) code_of_order [OF w Inr] by (auto simp: repo_GetByCode_def read_def code_known_def)
  qed
qed (auto split: sum.split)

lemma sat_redeem_locked:
  assumes "po_OrderType r = OrderTypeBalance"
  shows "pay_sat (code_known r (\<lambda>_. True)) (redeem_locked env skip (po_UserID r) (po_RechargeCode r)) (redeem_post r)"
  unfolding redeem_locked_def
proof (rule pay_sat_call [OF sat_get_code], rule pay_sat_sum, goal_cases)
  case (1 res err)
  then show ?case by (auto intro!: sat_refused pay_sat_Return pay_sat_if)
next
  case (2 res c)
  have returned: "pay_sat (code_known r (\<lambda>d. rc_ID d = rc_ID c)) (Return (Inl e)) (redeem_post r)" for e
    by (rule pay_sat_Return) (auto dest: code_known_any)
  have refused: "pay_sat (code_known r (\<lambda>d. rc_ID d = rc_ID c)) (redeem_refused env u e) (redeem_post r)" for e u
    by (rule sat_refused) (auto dest: code_known_any)
  show ?case
    unfolding 2 sum.case
    by (intro pay_sat_then pay_sat_if pay_sat_sum benign_intros lasting_codes refused returned sat_redeem_commit assms)
qed

lemma sat_redeem:
  assumes "po_OrderType r = OrderTypeBalance"
  shows "pay_sat (code_known r (\<lambda>_. True)) (redeem env skip (po_UserID r) (po_RechargeCode r)) (redeem_post r)"
  unfolding redeem_def
  by (intro pay_sat_then pay_sat_if benign_intros lasting_codes pay_sat_call [OF sat_redeem_locked [OF assms]]
      pay_sat_Return lasting_redeem_post) simp_all

text \<open>What the lookup of the code of an order answers.\<close>

definition found_post :: "PaymentOrder \<Rightarrow> go_error + RedeemCode \<Rightarrow> 'x pay_world \<Rightarrow> bool" where
  "found_post r res w \<longleftrightarrow> order_known r w \<and>
     (code_fits_order r res = NilErr \<longrightarrow>
        (case resolveRedeemAction res of
           redeemActionSkipCompleted \<Rightarrow> code_known r (is_redeemed r) w
         | redeemActionRedeem \<Rightarrow> code_known r (\<lambda>_. True) w
         | redeemActionCreate \<Rightarrow> True))"

lemma lasting_found_post [intro, simp]: "lasting (found_post r res)"
  unfolding lasting_def found_post_def
  by (cases "resolveRedeemAction res")
    (auto dest: lastingD [OF lasting_codes(1)] lastingD [OF lasting_codes(3)] lastingD [OF lasting_order_known])

lemma found_post_wrap: "found_post r (Inl err) w \<Longrightarrow> found_post r (Inl err') w"
  by (simp add: found_post_def resolveRedeemAction_def)

lemma sat_GetByCode: "pay_sat (order_known r :: 'x pay_world \<Rightarrow> bool) (GetByCode (po_RechargeCode r)) (found_post r)"
  unfolding GetByCode_def
proof (rule pay_sat_call [where Q = "found_post r"])
  show "pay_sat (order_known r :: 'x pay_world \<Rightarrow> bool) (sql (repo_GetByCode (po_RechargeCode r))) (found_post r)"
  proof (rule pay_sat_sql)
    fix t and w :: "'x pay_world" assume w: "pay_inv w" "order_known r w"
    show "pay_guar w (snd (repo_GetByCode (po_RechargeCode r) t w))" by (simp add: repo_GetByCode_def read_def pay.idle)
    show "found_post r (fst (repo_GetByCode (po_RechargeCode r) t w)) (snd (repo_GetByCode (po_RechargeCode r) t w))"
    proof (cases "code_by_code (po_RechargeCode r) w")
      case (Inl err)
      then show ?thesis using w(2) by (simp add: repo_GetByCode_def read_def found_post_def resolveRedeemAction_def)
    next
      case (Inr c)
      then have c: "c \<in> set (pw_codes w)" "rc_Code c = po_RechargeCode r"
        by (auto simp: code_by_code_def found_code_def split: sum.splits if_splits dest!: only_in)
      have "found_post r (Inr c) w"
        using w(2) c by (auto simp: found_post_def code_known_def is_order_code_def code_fits_order_def resolveRedeemAction_def
            intro!: bexI [of _ c])
      then show ?thesis using Inr by (simp add: repo_GetByCode_def read_def)
    qed
  next
    show "found_post r (Inl conn_error) w" if "order_known r w" for w :: "'x pay_world"
      using that by (simp add: found_post_def resolveRedeemAction_def)
  qed simp_all
next
  fix res
  show "pay_sat (found_post r res) (Return (case res of Inl err \<Rightarrow> Inl (WrapErr ''get redeem code'' err) | Inr c \<Rightarrow> Inr c))
    (found_post r)"
    by (rule pay_sat_Return) (auto split: sum.split intro: found_post_wrap)
qed

text \<open>A created code is the code of the order.\<close>

lemma sat_create:
  assumes "po_OrderType r = OrderTypeBalance"
  shows "pay_sat (order_known r :: 'x pay_world \<Rightarrow> bool) (CreateCode (new_code (po_RechargeCode r) RedeemTypeBalance (po_Amount r)))
     (\<lambda>err w. order_known r w \<and> (err = NilErr \<longrightarrow> code_known r (\<lambda>_. True) w))"
    (is "pay_sat _ (CreateCode ?raw) ?post")
proof -
  let ?code = "new_code (trim_space (po_RechargeCode r)) RedeemTypeBalance (po_Amount r)"
  have step: "pay_sat (order_known r :: 'x pay_world \<Rightarrow> bool) (sql (repo_Create ?code))
      (\<lambda>res. case res of Inl _ \<Rightarrow> order_known r | Inr _ \<Rightarrow> code_known r (\<lambda>_. True))"
  proof (rule pay_sat_sql)
    fix t and w :: "'x pay_world" assume w: "pay_inv w" "order_known r w"
    show "pay_guar w (snd (repo_Create ?code t w))" by (rule guar_create) (simp add: new_code_def)
    show "(case fst (repo_Create ?code t w) of Inl _ \<Rightarrow> order_known r | Inr _ \<Rightarrow> code_known r (\<lambda>_. True))
        (snd (repo_Create ?code t w))"
      using w known_order(1,4) [OF w]
      by (auto simp: repo_Create_def code_known_def order_known_def is_order_code_def new_code_def round_to_scale_fixed)
  qed (auto split: sum.split)
  have finish: "pay_sat (case res of Inl _ \<Rightarrow> order_known r | Inr _ \<Rightarrow> code_known r (\<lambda>_. True))
      (Return (case res of Inl err \<Rightarrow> WrapErr ''create redeem code'' err | Inr _ \<Rightarrow> NilErr)) ?post" for res :: "go_error + int"
    by (cases res; rule pay_sat_Return) (auto simp: code_known_order)
  have failed: "pay_sat (order_known r :: 'x pay_world \<Rightarrow> bool) (Return err) ?post" if "err \<noteq> NilErr" for err
    using that by (auto intro!: pay_sat_Return)
  have code: "CreateCode ?raw =
     (if trim_space (po_RechargeCode r) = [] then Return (PlainErr ''code is required'')
      else if po_Amount r = 0 then Return (PlainErr ''value must not be zero'')
      else call time_Now (\<lambda>now. if IsExpiredAt now ?code then Return ErrRedeemCodeExpired
        else call (sql (repo_Create ?code)) (\<lambda>res. Return
           (case res of Inl err \<Rightarrow> WrapErr ''create redeem code'' err | Inr _ \<Rightarrow> NilErr))))"
    by (simp add: CreateCode_def new_code_def code_constants Let_def cong: if_cong)
  show ?thesis
    unfolding code
    by (intro pay_sat_if failed pay_sat_then [OF benign_time_Now lasting_order_known] pay_sat_call [OF step] finish)
      (simp_all add: ErrRedeemCodeExpired_def Conflict_def New_def)
qed

text \<open>What is known when an order is completed.\<close>

definition ready :: "PaymentOrder \<Rightarrow> 'x pay_world \<Rightarrow> bool" where
  "ready r w \<longleftrightarrow> order_known r w \<and> (po_OrderType r = OrderTypeBalance \<longrightarrow> code_known r (is_redeemed r) w)"

lemma lasting_ready [intro, simp]: "lasting (ready r)"
  unfolding lasting_def ready_def by (blast dest: lastingD [OF lasting_codes(3)] lastingD [OF lasting_order_known])

lemma ready_credited:
  assumes "pay_inv w" "ready r w" "q \<in> set (pw_orders w)" "po_ID q = po_ID r" "po_OrderType q = OrderTypeBalance"
  shows "is_credited (pw_codes w) q"
proof -
  obtain b where b: "b \<in> set (pw_orders w)" "same_order r b" using assms(2) by (auto simp: ready_def order_known_def)
  have "inj_on po_ID (set (pw_orders w))" using assms(1) by (simp add: pay_inv_def distinct_map)
  from inj_onD [OF this, of b q] have "b = q" using b assms(3,4) by (simp add: same_order_def)
  then have same: "same_order r q" using b by simp
  then obtain c where "c \<in> set (pw_codes w)" "is_order_code r c" "is_redeemed r c"
    using assms(2,5) by (auto simp: ready_def code_known_def same_order_def)
  then show ?thesis using same by (auto simp: is_credited_def credits_def is_order_code_def same_order_def)
qed

lemma sat_mark_completed: "pay_sat (ready r) (sql (mark_completed_stmt (po_ID r) version)) (\<lambda>_ _. True)"
proof (rule pay_sat_sql)
  fix t and w :: "'a pay_world" assume "pay_inv w" "ready r w"
  then show "pay_guar w (snd (mark_completed_stmt (po_ID r) version t w))"
    unfolding mark_completed_stmt_def
    by (intro guar_updateI) (auto simp: same_order_def lease_held_def intro: status_move.ended ready_credited)
qed simp_all

lemma sat_any: "benign p \<Longrightarrow> pay_sat K p (\<lambda>_ _. True)"
  by (rule pay_sat_weaken [OF benignD [OF _ lasting_True]]) auto

lemma sat_markCompleted: "pay_sat (ready r) (markCompleted r version action) (\<lambda>_ _. True)"
  unfolding markCompleted_def
  by (rule pay_sat_call [OF sat_mark_completed]) (intro sat_any benign_intros)

lemma sat_finish: "pay_sat (ready r) (finish_balance env r version) (\<lambda>_ _. True)"
  unfolding finish_balance_def
  by (intro pay_sat_then pay_sat_if sat_markCompleted benign_intros lasting_ready sat_any)

lemma ready_redeemed: "code_known r (is_redeemed r) w \<Longrightarrow> ready r w"
  by (simp add: ready_def code_known_order)

lemma sat_redeem_balance:
  assumes "po_OrderType r = OrderTypeBalance"
  shows "pay_sat (code_known r (\<lambda>_. True)) (redeem_balance env r version) (\<lambda>_ _. True)"
  unfolding redeem_balance_def
proof (rule pay_sat_call [OF sat_redeem [OF assms]], rule pay_sat_sum, goal_cases)
  case (1 res err)
  then show ?case by (intro sat_any benign_intros)
next
  case (2 res c)
  show ?case by (rule pay_sat_weaken [OF sat_finish]) (use 2 ready_redeemed in auto)
qed

lemma sat_doBalance:
  assumes "po_OrderType r = OrderTypeBalance"
  shows "pay_sat (order_known r) (doBalance env r version) (\<lambda>_ _. True)"
  unfolding doBalance_def Let_def
proof (rule pay_sat_call [OF sat_GetByCode], rule pay_sat_if, goal_cases)
  case (1 res)
  then show ?case by (intro sat_any benign_intros)
next
  case (2 res)
  show ?case
  proof (cases "resolveRedeemAction res")
    case redeemActionCreate
    have create: "pay_sat (order_known r) (call (CreateCode (new_code (po_RechargeCode r) RedeemTypeBalance (po_Amount r))) (\<lambda>err.
        if err \<noteq> NilErr then Return (WrapErr ''create redeem code'' err) else redeem_balance env r version)) (\<lambda>_ _. True)"
      by (rule pay_sat_call [OF sat_create [OF assms]], rule pay_sat_if, intro sat_any benign_intros)
        (rule pay_sat_weaken [OF sat_redeem_balance [OF assms]], auto)
    show ?thesis
      unfolding redeemActionCreate redeemAction.case by (rule pay_sat_weaken [OF create]) (auto simp: found_post_def)
  next
    case redeemActionRedeem
    show ?thesis
      unfolding redeemActionRedeem redeemAction.case
      by (rule pay_sat_weaken [OF sat_redeem_balance [OF assms]]) (use 2 redeemActionRedeem in \<open>auto simp: found_post_def\<close>)
  next
    case redeemActionSkipCompleted
    show ?thesis
      unfolding redeemActionSkipCompleted redeemAction.case
      by (rule pay_sat_weaken [OF sat_finish]) (use 2 redeemActionSkipCompleted ready_redeemed in \<open>auto simp: found_post_def\<close>)
  qed
qed

lemma sat_doSub:
  assumes "po_OrderType r \<noteq> OrderTypeBalance"
  shows "pay_sat (order_known r) (doSub env r g d version) (\<lambda>_ _. True)"
proof -
  have complete: "pay_sat (order_known r) (markCompleted r version action) (\<lambda>_ _. True)" for action
    by (rule pay_sat_weaken [OF sat_markCompleted]) (use assms in \<open>auto simp: ready_def\<close>)
  show ?thesis
    unfolding doSub_def
    by (intro pay_sat_then pay_sat_if benign_intros lasting_order_known complete sat_any [OF benign_Return])
qed

lemma sat_with_lease:
  assumes "\<And>version. pay_sat (order_known r) (work version) (\<lambda>_ _. True)"
  shows "pay_sat (order_known r) (with_lease r work) (\<lambda>_ _. True)"
  unfolding with_lease_def
proof (rule pay_sat_then [OF benign_fulfilment_parts(2)], simp, rule pay_sat_sum, goal_cases)
  case (1 lease err)
  then show ?case by (intro sat_any benign_intros)
next
  case (2 lease version)
  show ?case
  proof (cases version)
    case None
    then show ?thesis by (auto intro!: sat_any benign_intros)
  next
    case (Some v)
    show ?thesis
      unfolding Some option.case by (rule pay_sat_call [OF assms]) (intro sat_any benign_intros)
  qed
qed

text \<open>A program that is safe from nothing on keeps every lasting assertion, as its own steps do.\<close>

lemma sat_frame:
  assumes "sat (\<lambda>_. True) pay_rely pay_guar Q p w" "lasting L" "pay_inv w" "L w"
  shows "sat (\<lambda>_. True) pay_rely pay_guar (\<lambda>a w. pay_inv w \<and> L w) p w"
  using assms(1,3,4)
proof (induction rule: sat.induct)
  case (sat_Return w a)
  then show ?case using lastingD [OF assms(2)] rely_inv by (blast intro: sat.sat_Return)
next
  case (sat_Step w f)
  have "pay_inv (snd (f e w'))" "L (snd (f e w'))" if "pay_rely w w'" for e w'
  proof -
    have w': "pay_inv w'" "L w'" using sat_Step.prems that lastingD [OF assms(2)] rely_inv by blast+
    have step: "pay_rely w' (snd (f e w'))" using sat_Step.hyps(1) that pay.guarantee by blast
    show "pay_inv (snd (f e w'))" "L (snd (f e w'))" using rely_inv [OF w'(1) step] lastingD [OF assms(2) w' step] .
  qed
  then show ?case using sat_Step.hyps sat_Step.IH by (intro sat.sat_Step) auto
qed

lemma benign_safe: "pay_sat (\<lambda>_. True) p (\<lambda>_ _. True) \<Longrightarrow> benign p"
  unfolding benign_def pay_sat_def by (auto intro: sat_frame)

section \<open>Every operation keeps the guarantee\<close>

lemma sat_get_order:
  "pay_sat (\<lambda>_. True) (get_order oid) (\<lambda>res. case res of Inl _ \<Rightarrow> (\<lambda>_. True) | Inr r \<Rightarrow> order_known r)"
  unfolding get_order_def
proof (rule pay_sat_sql)
  fix t and w :: "'a pay_world"
  show "pay_guar w (snd (read (\<lambda>w. only (\<lambda>r. po_ID r = oid) (pw_orders w)) t w))" by (simp add: read_def pay.idle)
  show "(case fst (read (\<lambda>w. only (\<lambda>r. po_ID r = oid) (pw_orders w)) t w) of Inl _ \<Rightarrow> (\<lambda>_. True) | Inr r \<Rightarrow> order_known r)
      (snd (read (\<lambda>w. only (\<lambda>r. po_ID r = oid) (pw_orders w)) t w))"
    by (auto simp: read_def order_known_def split: sum.split dest!: only_in intro: same_order_refl)
qed (auto split: sum.split)

lemma benign_from_order:
  assumes "\<And>err. benign (f err)" "\<And>r. pay_sat (order_known r) (g r) (\<lambda>_ _. True)"
  shows "benign (call (get_order oid) (\<lambda>res. case res of Inl err \<Rightarrow> f err | Inr r \<Rightarrow> g r))"
  by (rule benign_safe, rule pay_sat_call [OF sat_get_order], rule pay_sat_sum) (auto intro: sat_any assms)

lemma benign_ExecuteBalanceFulfillment [benign_intros]: "benign (ExecuteBalanceFulfillment env oid)"
  unfolding ExecuteBalanceFulfillment_def
  by (intro benign_from_order pay_sat_if sat_with_lease sat_doBalance) (auto intro: sat_any benign_intros)

lemma benign_ExecuteSubscriptionFulfillment [benign_intros]: "benign (ExecuteSubscriptionFulfillment env oid)"
proof -
  have work: "pay_sat (order_known r) (case (po_SubscriptionGroupID r, po_SubscriptionDays r) of
      (Some g, Some d) \<Rightarrow> with_lease r (doSub env r g d)
    | _ \<Rightarrow> Return (invalid_status ''missing subscription info'')) (\<lambda>_ _. True)"
    if "\<not> po_OrderType r \<noteq> OrderTypeSubscription" for r
  proof -
    have "po_OrderType r \<noteq> OrderTypeBalance" using that by (simp add: OrderTypeBalance_def OrderTypeSubscription_def)
    then show ?thesis by (auto split: option.split intro!: sat_with_lease sat_doSub sat_any [OF benign_Return])
  qed
  show ?thesis
    unfolding ExecuteSubscriptionFulfillment_def
    by (intro benign_from_order pay_sat_if work) (auto intro: sat_any benign_intros)
qed

lemma benign_confirmPayment [benign_intros]:
  "benign (executeFulfillment env oid)" "benign (alreadyProcessed env r)" "benign (toPaid env r tradeNo v pk)"
  "benign (confirmPayment env oid tradeNo paid pk metadata)"
proof -
  show execute: "benign (executeFulfillment env oid)" for oid
    unfolding executeFulfillment_def by (intro benign_intros)
  show processed: "benign (alreadyProcessed env r)" for r
    unfolding alreadyProcessed_def by (intro benign_intros execute)
  show to_paid: "benign (toPaid env r tradeNo v pk)" for r v
    unfolding toPaid_def by (intro benign_intros execute processed)
  have "benign (confirm_amount env r tradeNo paid pk)" for r
    by (cases paid) (simp_all add: confirm_amount_def, (intro impI conjI benign_intros to_paid)+)
  then show "benign (confirmPayment env oid tradeNo paid pk metadata)"
    unfolding confirmPayment_def Let_def by (intro benign_intros)
qed

lemma benign_notification [benign_intros]:
  "benign (HandlePaymentNotification env n pk)" "benign (RetryFulfillment env oid)"
  unfolding HandlePaymentNotification_def RetryFulfillment_def by (intro benign_intros)+

lemma benign_checkPaid [benign_intros]: "benign (checkPaidWithOptions env r cancel)"
  unfolding checkPaidWithOptions_def requeryPaidOrderOnce_def notify_paid_def cancel_upstream_def Let_def
  by (intro benign_intros)

lemma benign_cancelCore [benign_intros]:
  "fs \<in> {OrderStatusCancelled, OrderStatusExpired} \<Longrightarrow> benign (cancelCore env r fs operator detail)"
  unfolding cancelCore_def checkPaid_def close_order_def by (intro benign_intros)

lemma benign_lifecycle:
  "benign (CancelOrder env oid uid)" "benign (AdminCancelOrder env oid)" "benign (ExpireTimedOutOrders env)"
  "benign (VerifyOrderByOutTradeNo env raw uid)" "benign (ReconcilePendingPaymentOrders env cursor)"
  unfolding CancelOrder_def AdminCancelOrder_def ExpireTimedOutOrders_def VerifyOrderByOutTradeNo_def reconcilePaid_def
    ReconcilePendingPaymentOrders_def reconcile_page_def Let_def
  by (intro benign_intros; simp)+

section \<open>Any number of payment operations at once\<close>

inductive pay_program :: "'x pay_env \<Rightarrow> ('x, unit) pay_prog \<Rightarrow> bool" for env where
  notified: "pay_program env (background (HandlePaymentNotification env n pk))"
| retried: "pay_program env (background (RetryFulfillment env oid))"
| cancelled: "pay_program env (background (CancelOrder env oid uid))"
| admin_cancelled: "pay_program env (background (AdminCancelOrder env oid))"
| expired: "pay_program env (background (ExpireTimedOutOrders env))"
| verified: "pay_program env (background (VerifyOrderByOutTradeNo env raw uid))"
| reconciled: "pay_program env (background (ReconcilePendingPaymentOrders env cursor))"

lemma benign_background: "benign p \<Longrightarrow> benign (background p)"
  unfolding background_def by (intro benign_intros)

lemma benign_pay_program: "pay_program env p \<Longrightarrow> benign p"
  by (induction rule: pay_program.induct) (intro benign_background benign_notification benign_lifecycle)+

interpretation payments: rely_guarantee pay_rely pay_guar "\<lambda>_. True" pay_inv "pay_program env" for env :: "'x pay_env"
proof
  show "pay_inv b" if "pay_inv a" "pay_rely a b" for a b :: "'x pay_world" using that by (rule rely_inv)
  show "sat (\<lambda>_. True) pay_rely pay_guar (\<lambda>_ _. True) p w" if "pay_program env p" "pay_inv w" for p w
  proof -
    have "pay_sat (\<lambda>_. True) p (\<lambda>_ _. True)" using benignD [OF benign_pay_program [OF that(1)] lasting_True] .
    then have "sat (\<lambda>_. True) pay_rely pay_guar (\<lambda>a w'. pay_inv w' \<and> True) p w" using that(2) by (simp add: pay_sat_def)
    then show ?thesis by (rule sat_weaken) simp
  qed
qed

abbreviation running :: "'x pay_env \<Rightarrow> 'x pay_world \<Rightarrow> ('x, unit) pay_prog list \<Rightarrow> 'x pay_world \<Rightarrow> ('x pay_world \<times> 'x pay_world) list \<Rightarrow> bool" where
  "running env \<equiv> concurrent (\<lambda>_. True) pay_rely (pay_program env)"

lemma credited_once:
  assumes inv: "pay_inv w" and r: "r \<in> set (pw_orders w)" "po_OrderType r = OrderTypeBalance" "completed_status (po_Status r)"
  shows "\<exists>!c. c \<in> set (pw_codes w) \<and> credits r c"
proof -
  have "order_ok (pw_codes w) r" using inv r(1) by (simp add: pay_inv_def)
  then obtain c where c: "c \<in> set (pw_codes w)" "credits r c" using r by (auto simp: order_ok_def is_credited_def)
  have "inj_on rc_Code (set (pw_codes w))" using inv by (simp add: pay_inv_def codes_ok_def distinct_map)
  then have "d = c" if "d \<in> set (pw_codes w)" "credits r d" for d
    using inj_onD [of rc_Code _ d c] that c by (simp add: credits_def)
  then show ?thesis using c by blast
qed

lemma credits_one_order:
  assumes inv: "pay_inv w" and "r \<in> set (pw_orders w)" "q \<in> set (pw_orders w)" "credits r c" "credits q c"
  shows "r = q"
proof -
  have "inj_on po_RechargeCode (set (pw_orders w))" using inv by (simp add: pay_inv_def distinct_map)
  then show ?thesis using inj_onD [of po_RechargeCode _ r q] assms(2-) by (simp add: credits_def)
qed

text \<open>C4: Whatever payment operations run at once, with any faults and clock readings and with others changing the
  tables within \<open>pay_rely\<close>: a completed balance order has exactly one code that credited it, a balance code of
  the order's amount redeemed by the order's owner, and this code credits no other order.\<close>

theorem completed_orders_credited_once:
  assumes "concurrent (\<lambda>_. True) pay_rely (pay_program env) w0 ps w moves" "pay_inv w0"
    and "r \<in> set (pw_orders w)" "po_OrderType r = OrderTypeBalance" "completed_status (po_Status r)"
  shows "\<exists>!c. c \<in> set (pw_codes w) \<and> credits r c \<and> (\<forall>q \<in> set (pw_orders w). credits q c \<longrightarrow> q = r)"
proof -
  have inv: "pay_inv w" by (rule payments.always [OF assms(1,2)])
  show ?thesis using credited_once [OF inv assms(3-)] credits_one_order [OF inv _ assms(3)] by metis
qed

text \<open>C5: Under the same conditions the balance of a user moves only by the codes the user redeems and by what others do:
  no interleaving, retry or fault makes a payment operation credit an amount without a code or a code twice.\<close>

theorem balances_account_for_codes:
  assumes "concurrent (\<lambda>_. True) pay_rely (pay_program env) w0 ps w moves" "pay_inv w0"
  shows "balance_of i (pw_users w) - balance_of i (pw_users w0) =
     redeemed_by i (pw_codes w) - redeemed_by i (pw_codes w0) + (\<Sum>(a, b)\<leftarrow>moves. net_balance i b - net_balance i a)"
proof -
  have "net_balance i w = net_balance i w0 + (\<Sum>(a, b)\<leftarrow>moves. net_balance i b - net_balance i a)"
    by (rule payments.accounted [OF assms]) (simp add: pay_guar_def)
  then show ?thesis by (simp add: net_balance_def)
qed

text \<open>C6: Each step of a payment operation, whatever else runs, leaves every order where it is or moves it along the
  lifecycle: pending to cancelled or expired, these three to paid, paid or failed or a stale recharge to recharging,
  recharging to completed or failed. A completed or refunded order is never touched.\<close>

theorem statuses_follow_lifecycle:
  assumes "concurrent (\<lambda>_. True) pay_rely (pay_program env) w0 ps w moves" "pay_inv w0"
    and "i < length ps" "ps ! i = Step f" and "r \<in> set (pw_orders w)"
  shows "\<exists>r' \<in> set (pw_orders (snd (f e w))).
     po_ID r' = po_ID r \<and> (po_Status r' = po_Status r \<or> status_move (po_Status r) (po_Status r'))"
proof -
  have "pay_guar w (snd (f e w))" by (rule payments.own_step [OF assms(1-4)]) simp
  then show ?thesis using payments.always [OF assms(1,2)] assms(5) by (simp add: pay_guar_def follows_def)
qed

section \<open>A paid notification\<close>

definition demo_env :: "unit pay_env" where
  "demo_env =
     \<lparr>ps_redeem = \<lparr>re_cache = True, re_affiliate = False, re_subscribe = (\<lambda>_ _ _ x. (NilErr, x)), re_accrue = (\<lambda>_ _ _ _ x. (Inr 0, x))\<rparr>,
       ps_affiliate = False, ps_group_active = (\<lambda>_ _. Inr True), ps_sub_notes = (\<lambda>_ _ _. Inr None),
       ps_assign = (\<lambda>_ _ _ _ _ x. (NilErr, x)), ps_registry = [], ps_decrypt = (\<lambda>_. Inr []),
       ps_create = (\<lambda>key _ _. Inr \<lparr>pp_ProviderKey = key, pp_Identity = [], pp_Cancelable = True\<rparr>)\<rparr>"

definition demo_order :: PaymentOrder where
  "demo_order =
     \<lparr>po_ID = 5, po_UserID = 1, po_Amount = 20, po_PayAmount = 21, po_RechargeCode = ''PAY-5-a'', po_OutTradeNo = ''sub2_x'',
       po_PaymentType = TypeAlipay, po_PaymentTradeNo = [], po_OrderType = OrderTypeBalance, po_SubscriptionGroupID = None,
       po_SubscriptionDays = None, po_ProviderInstanceID = Some ''7'', po_ProviderKey = Some TypeAlipay,
       po_ProviderSnapshot = [(''schema_version'', SnapInt 2), (''provider_instance_id'', SnapText ''7''),
         (''provider_key'', SnapText TypeAlipay), (''merchant_app_id'', SnapText ''app'')],
       po_Status = OrderStatusPending, po_ExpiresAt = 100, po_PaidAt = None, po_CompletedAt = None, po_FailedAt = None,
       po_FailedReason = None, po_UpdatedAt = 0\<rparr>"

definition demo_world :: "unit pay_world" where
  "demo_world =
     \<lparr>pw_orders = [demo_order], pw_audits = [], pw_codes = [], pw_code_seq = 1,
       pw_users = [\<lparr>pu_ID = 1, pu_Balance = 3, pu_TotalRecharged = 0, pu_Concurrency = 1, pu_Deleted = False\<rparr>],
       pw_instances = [\<lparr>pi_ID = 7, pi_ProviderKey = TypeAlipay, pi_Config = [], pi_SupportedTypes = [], pi_Enabled = True,
         pi_PaymentMode = []\<rparr>],
       pw_redis = (\<lambda>_. None), pw_services = ()\<rparr>"

definition demo_notification :: PaymentNotification where
  "demo_notification =
     \<lparr>pn_TradeNo = ''T1'', pn_OrderID = ''sub2_x'', pn_Amount = Fin 21, pn_Status = ''success'', pn_Metadata = [(''app_id'', ''app'')]\<rparr>"

definition demo_events :: "nat \<Rightarrow> pay_event" where
  "demo_events n = \<lparr>pe_now = int n, pe_fault = Runs, pe_query = Inl conn_error\<rparr>"

definition demo_end :: "unit pay_world" where
  "demo_end = fst (snd (complete (background (HandlePaymentNotification demo_env demo_notification TypeAlipay)) demo_events demo_world))"

definition demo_report :: "'x pay_world \<Rightarrow> (int \<times> string \<times> OrderStatus \<times> rat) list \<times> (string \<times> string \<times> rat \<times> string \<times> int option) list \<times> rat list" where
  "demo_report w =
     (map (\<lambda>r. (po_UserID r, po_RechargeCode r, po_Status r, po_Amount r)) (pw_orders w),
      map (\<lambda>c. (rc_Code c, rc_Type c, rc_Value c, rc_Status c, rc_UsedBy c)) (pw_codes w),
      map pu_Balance (pw_users w))"

lemma demo_reported:
  "demo_report demo_end =
     ([(1, ''PAY-5-a'', OrderStatusCompleted, 20)], [(''PAY-5-a'', ''balance'', 20, ''used'', Some 1)], [23])"
  by code_simp

lemma demo_inv: "pay_inv demo_world"
proof -
  have "is_payment_code ''PAY-5-a''" "trim_space ''PAY-5-a'' = ''PAY-5-a''" by code_simp+
  moreover have "on_scale 20" "on_scale 3" unfolding on_scale_def by simp_all
  ultimately show ?thesis
    by (simp add: pay_inv_def codes_ok_def order_ok_def demo_world_def demo_order_def completed_status_def psIsRefundStatus_def)
qed

lemma demo_runs: "running demo_env demo_world [Return ()] demo_end []"
proof -
  let ?p = "background (HandlePaymentNotification demo_env demo_notification TypeAlipay)"
  have "running demo_env demo_world ([] @ [?p]) demo_world []"
    by (rule concurrent.spawn, rule concurrent.start, rule pay_program.notified)
  from concurrent_run [OF this, of demo_events] show ?thesis by (simp add: demo_end_def)
qed

lemma demo_completed:
  obtains r where "r \<in> set (pw_orders demo_end)" "po_OrderType r = OrderTypeBalance" "po_Status r = OrderStatusCompleted"
proof -
  have "map (\<lambda>r. (po_OrderType r, po_Status r)) (pw_orders demo_end) = [(OrderTypeBalance, OrderStatusCompleted)]"
    by code_simp
  then show ?thesis using that by (auto simp: map_eq_Cons_conv)
qed

theorem completed_orders_credited_once_witness:
  "\<exists>r c. r \<in> set (pw_orders demo_end) \<and> c \<in> set (pw_codes demo_end) \<and> credits r c"
proof -
  obtain r where r: "r \<in> set (pw_orders demo_end)" "po_OrderType r = OrderTypeBalance" "completed_status (po_Status r)"
    using demo_completed by (metis completed_status_def)
  from completed_orders_credited_once [OF demo_runs demo_inv r] r(1) show ?thesis by blast
qed

theorem balances_account_for_codes_witness:
  "balance_of 1 (pw_users demo_end) - balance_of 1 (pw_users demo_world) =
     redeemed_by 1 (pw_codes demo_end) - redeemed_by 1 (pw_codes demo_world)"
  using balances_account_for_codes [OF demo_runs demo_inv, of 1] by simp

theorem statuses_follow_lifecycle_witness:
  "\<exists>f r. background (AdminCancelOrder demo_env 5) = Step f \<and> r \<in> set (pw_orders (snd (f (demo_events 0) demo_world))) \<and> po_ID r = 5"
proof -
  let ?p = "background (AdminCancelOrder demo_env 5)"
  obtain f where f: "?p = Step f" by (simp add: background_def AdminCancelOrder_def get_order_def sql_def)
  have run: "running demo_env demo_world ([] @ [?p]) demo_world []"
    by (rule concurrent.spawn, rule concurrent.start, rule pay_program.admin_cancelled)
  have "demo_order \<in> set (pw_orders demo_world)" by (simp add: demo_world_def)
  from statuses_follow_lifecycle [OF run demo_inv _ _ this, of 0 f "demo_events 0"] f
  show ?thesis by (auto simp: demo_order_def)
qed

section \<open>Who else may write\<close>

text \<open>
  Redemptions by users are among the moves that \<open>pay_rely\<close> allows, of any code, and creating codes is. Deleting a code
  is not: \<open>DeleteCode\<close> looks at the status first and deletes whatever is there later.
\<close>

lemma keeps_codes_use: "keeps_codes xs (map (\<lambda>r. if usable_at i t r then use_code u t r else r) xs)"
  by (rule keeps_codes_map) (auto simp: same_code_def usable_at_def IsUsed_def code_constants)

definition user_write :: "'x pay_world \<Rightarrow> 'x pay_world \<Rightarrow> bool" where
  "user_write w w' \<longleftrightarrow>
     pw_orders w' = pw_orders w \<and> pw_codes w' = pw_codes w \<and> pw_code_seq w' = pw_code_seq w \<and>
     map pu_ID (pw_users w') = map pu_ID (pw_users w) \<and>
     ((\<forall>u \<in> set (pw_users w). on_scale (pu_Balance u)) \<longrightarrow> (\<forall>u \<in> set (pw_users w'). on_scale (pu_Balance u)))"

lemma user_write_update:
  assumes "\<And>u. pu_ID (f u) = pu_ID u" "\<And>u. on_scale (pu_Balance u) \<Longrightarrow> on_scale (pu_Balance (f u))"
  shows "user_write w (snd (update_users p f t w))"
proof -
  have "map pu_ID (map (\<lambda>u. if p u then f u else u) xs) = map pu_ID xs" for xs
    using assms(1) by simp
  then show ?thesis using assms(2) by (auto simp: user_write_def update_users_def)
qed

lemma user_write_benefit: "user_write w (snd (redeem_benefit env u r t w))"
proof -
  have "user_write w (w\<lparr>pw_services := x\<rparr>)" for x by (simp add: user_write_def)
  moreover have "snd (stmt_error s res) = snd res" for s and res :: "(go_error + unit) \<times> 'a pay_world"
    by (auto simp: stmt_error_def split: prod.split sum.split)
  ultimately show ?thesis
    by (auto simp: redeem_benefit_def Let_def UpdateBalance_def ApplyRedeemBalanceAdjustment_def UpdateConcurrency_def
        ApplyRedeemConcurrencyAdjustment_def on_scale_round_to_scale split: prod.split intro!: user_write_update)
      (auto simp: user_write_def)
qed

lemma rely_user_write:
  assumes "user_write w w'" shows "pay_rely w w'"
  using assms by (auto simp: user_write_def pay_rely_def pay_inv_def codes_ok_def)

lemma rely_codes:
  assumes "codes_ok w \<Longrightarrow> codes_ok (w\<lparr>pw_codes := xs\<rparr>)" "\<And>r. is_credited (pw_codes w) r \<Longrightarrow> is_credited xs r"
    "keeps_codes (pw_codes w) xs"
  shows "pay_rely w (w\<lparr>pw_codes := xs\<rparr>)"
  using assms by (auto simp: pay_rely_def pay_inv_def order_ok_def)

lemma rely_use: "pay_rely w (snd (repo_Use i u t w))"
proof -
  let ?g = "\<lambda>r. if usable_at i t r then use_code u t r else r"
  have keys: "map rc_ID (map ?g xs) = map rc_ID xs" "map rc_Code (map ?g xs) = map rc_Code xs" for xs by simp_all
  have "codes_ok (w\<lparr>pw_codes := map ?g (pw_codes w)\<rparr>)" if "codes_ok w"
    using that keys [of "pw_codes w"] by (auto simp: codes_ok_def simp del: map_map)
  moreover have "is_credited (map ?g (pw_codes w)) r" if credited: "is_credited (pw_codes w) r" for r
  proof -
    obtain c where "c \<in> set (pw_codes w)" "credits r c" using credited by (auto simp: is_credited_def)
    moreover from this have "?g c = c" by (auto simp: credits_def usable_at_def IsUsed_def code_constants)
    ultimately show ?thesis unfolding is_credited_def by (auto intro!: bexI [of _ c] image_eqI [of _ _ c])
  qed
  ultimately have "pay_rely w (w\<lparr>pw_codes := map ?g (pw_codes w)\<rparr>)"
    by (rule rely_codes [OF _ _ keeps_codes_use])
  then show ?thesis by (simp add: repo_Use_alt pay.refl)
qed

lemma redemption_allowed: "pay_rely w (snd (redeem_tx env u i t w))"
proof -
  have "pay_rely w (snd (redeem_benefit env u r t (snd (repo_Use i u t w))))" for r
    using rely_use rely_user_write [OF user_write_benefit] by (rule pay.trans)
  then show ?thesis
    by (auto simp: redeem_tx_def pay.refl split: sum.split prod.split) (metis snd_conv)+
qed

end
