(* ===== verification/PaymentOutcomes.thy ===== *)
theory PaymentOutcomes
  imports PaymentLaws
begin

text \<open>
  What single payment operations do when they run alone: notifications that do not fit an order change no order, the
  fulfillment of a paid order credits and completes it. The limits of this are shown as well.
\<close>

section \<open>Programs that leave orders, codes and users alone\<close>

definition same_tables :: "'x pay_world \<Rightarrow> 'x pay_world \<Rightarrow> bool" where
  "same_tables w w' \<longleftrightarrow>
     pw_orders w' = pw_orders w \<and> pw_codes w' = pw_codes w \<and> pw_users w' = pw_users w \<and> pw_instances w' = pw_instances w"

definition world_after :: "('x, 'a) pay_prog \<Rightarrow> (nat \<Rightarrow> pay_event) \<Rightarrow> 'x pay_world \<Rightarrow> 'x pay_world" where
  "world_after p es w = fst (snd (complete p es w))"

definition quiet :: "('x, 'a) pay_prog \<Rightarrow> bool" where
  "quiet p \<longleftrightarrow> (\<forall>es w. same_tables w (world_after p es w))"

lemma same_tables_refl [simp]: "same_tables w w"
  by (simp add: same_tables_def)

lemma same_tables_trans: "same_tables a b \<Longrightarrow> same_tables b c \<Longrightarrow> same_tables a c"
  by (simp add: same_tables_def)

lemma complete_sql:
  "complete (sql stmt) es w =
     (case pe_fault (es 0) of
        Runs \<Rightarrow> (fst (stmt (pe_now (es 0)) w), snd (stmt (pe_now (es 0)) w), \<lambda>n. es (Suc n))
      | NeverRan \<Rightarrow> (Inl conn_error, w, \<lambda>n. es (Suc n))
      | ReplyLost \<Rightarrow> (Inl conn_error, snd (stmt (pe_now (es 0)) w), \<lambda>n. es (Suc n)))"
  by (simp add: sql_def split: fault.split)

lemma complete_time_Now: "complete time_Now es w = (pe_now (es 0), w, \<lambda>n. es (Suc n))"
  by (simp add: time_Now_def)

lemma complete_call_eq:
  "complete (call p k) es w = complete (k (fst (complete p es w))) (snd (snd (complete p es w))) (fst (snd (complete p es w)))"
  by (simp add: complete_call case_prod_beta)

lemma world_after_Return [simp]: "world_after (Return a) es w = w"
  by (simp add: world_after_def)

lemma world_after_call:
  "world_after (call p k) es w = world_after (k (fst (complete p es w))) (snd (snd (complete p es w))) (world_after p es w)"
  by (simp add: world_after_def complete_call_eq)

named_theorems quiet_intros \<open>programs that leave orders, codes and users alone\<close>

lemma quietD: "quiet p \<Longrightarrow> same_tables w (world_after p es w)"
  by (simp add: quiet_def)

lemma quiet_Return [quiet_intros]: "quiet (Return a)"
  by (simp add: quiet_def)

lemma quiet_then [quiet_intros]: "quiet p \<Longrightarrow> (\<And>a. quiet (k a)) \<Longrightarrow> quiet (call p k)"
  unfolding quiet_def world_after_call by (blast intro: same_tables_trans)

lemma quiet_sql: "(\<And>t w. same_tables w (snd (stmt t w))) \<Longrightarrow> quiet (sql stmt)"
  by (simp add: quiet_def world_after_def complete_sql split: fault.split)

lemma quiet_time_Now [quiet_intros]: "quiet time_Now"
  by (simp add: quiet_def world_after_def complete_time_Now)

lemma quiet_read [quiet_intros]: "quiet (sql (read q))"
  by (rule quiet_sql) (simp add: read_def)

lemma quiet_if [quiet_intros]: "(b \<Longrightarrow> quiet p) \<Longrightarrow> (\<not> b \<Longrightarrow> quiet q) \<Longrightarrow> quiet (if b then p else q)"
  by simp

lemma quiet_sum [quiet_intros]:
  "(\<And>a. x = Inl a \<Longrightarrow> quiet (f a)) \<Longrightarrow> (\<And>b. x = Inr b \<Longrightarrow> quiet (g b)) \<Longrightarrow> quiet (case x of Inl a \<Rightarrow> f a | Inr b \<Rightarrow> g b)"
  by (simp split: sum.split)

lemma quiet_option [quiet_intros]:
  "(x = None \<Longrightarrow> quiet p) \<Longrightarrow> (\<And>a. x = Some a \<Longrightarrow> quiet (f a)) \<Longrightarrow> quiet (case x of None \<Rightarrow> p | Some a \<Rightarrow> f a)"
  by (simp split: option.split)

lemma quiet_audit [quiet_intros]: "quiet (writeAuditLog oid action operator detail)"
  unfolding writeAuditLog_def
  by (intro quiet_intros quiet_sql) (simp add: insert_audit_def same_tables_def)

lemma quiet_reads [quiet_intros]:
  "quiet (get_order oid)" "quiet (order_by_trade_no no)" "quiet (get_instance i)" "quiet (webhookRegistryFallbackAllowed key)"
  "quiet (GetInstanceConfig env i)"
  unfolding get_order_def order_by_trade_no_def get_instance_def webhookRegistryFallbackAllowed_def GetInstanceConfig_def Let_def
  by (intro quiet_intros)+

lemma quiet_metadata [quiet_intros]:
  "quiet (getOrderProviderInstance r)" "quiet (validateOrderNotificationMetadata env r inst key metadata)"
  unfolding getOrderProviderInstance_def resolveSnapshotOrderProviderInstance_def resolveUniqueLegacyOrderProviderInstance_def
    validateOrderNotificationMetadata_def notification_fallback_def Let_def
  by (intro quiet_intros)+

section \<open>Notifications that do not fit\<close>

lemma read_order:
  assumes "complete (sql (read (\<lambda>w. only p (pw_orders w)))) es w = (res, w', es')"
  shows "w' = w" "res = Inr r \<Longrightarrow> r \<in> set (pw_orders w) \<and> p r"
  using assms by (auto simp: complete_sql read_def split: fault.splits dest!: only_in)

lemma complete_lookup:
  "complete (sql (read q)) es w = ((case pe_fault (es 0) of Runs \<Rightarrow> q w | _ \<Rightarrow> Inl conn_error), w, \<lambda>n. es (Suc n))"
  by (simp add: complete_sql read_def split: fault.split)

definition known_instance :: "'x pay_world \<Rightarrow> go_error + PaymentProviderInstance option \<Rightarrow> bool" where
  "known_instance w res \<longleftrightarrow> (\<forall>i. res = Inr (Some i) \<longrightarrow> i \<in> set (pw_instances w))"

lemma unique_instance_in: "unique_instance xs = Some i \<Longrightarrow> i \<in> set xs"
  by (auto simp: unique_instance_def split: list.splits)

lemma filter_legacy_sub: "set (psFilterLegacyOrderProviderInstances t xs) \<subseteq> set xs"
  by (auto simp: psFilterLegacyOrderProviderInstances_def)

lemma lookup_instance:
  "known_instance w (fst (complete (getOrderProviderInstance r) es w))"
  unfolding getOrderProviderInstance_def resolveSnapshotOrderProviderInstance_def resolveUniqueLegacyOrderProviderInstance_def
    get_instance_def Let_def
  by (auto simp: known_instance_def complete_call_eq complete_lookup split: option.splits sum.splits if_splits fault.splits
      dest!: only_in unique_instance_in dest: subsetD [OF filter_legacy_sub])

definition wrong_amount :: "PaymentOrder \<Rightarrow> amount \<Rightarrow> bool" where
  "wrong_amount r paid \<longleftrightarrow>
     (case paid of
        Fin v \<Rightarrow> \<not> isValidProviderAmount paid \<or> \<not> providerAmountMatchesOrder v (po_PayAmount r) (PaymentOrderCurrency r)
      | _ \<Rightarrow> True)"

definition wrong_provider :: "PaymentOrder \<Rightarrow> string \<Rightarrow> config \<Rightarrow> string \<Rightarrow> bool" where
  "wrong_provider r pk metadata expected \<longleftrightarrow>
     (expected \<noteq> [] \<and> trim_space pk \<noteq> [] \<and> \<not> equal_fold expected (trim_space pk)) \<or>
     (list_all (\<lambda>key. snap_text (po_ProviderSnapshot r) key \<noteq> []) (required_fields expected @ optional_fields expected) \<and>
      validateProviderNotificationMetadata r expected metadata \<noteq> NilErr)"

text \<open>The keys that can be expected for an order, with the key of any instance or of none.\<close>

definition expected_keys :: "'x pay_env \<Rightarrow> 'x pay_world \<Rightarrow> PaymentOrder \<Rightarrow> string set" where
  "expected_keys env w r =
     expectedNotificationProviderKeyForOrder (ps_registry env) r ` insert [] (pi_ProviderKey ` set (pw_instances w))"

definition refused :: "'x pay_env \<Rightarrow> 'x pay_world \<Rightarrow> PaymentNotification \<Rightarrow> string \<Rightarrow> PaymentOrder \<Rightarrow> bool" where
  "refused env w n pk r \<longleftrightarrow>
     wrong_amount r (pn_Amount n) \<or> (\<forall>key \<in> expected_keys env w r. wrong_provider r pk (pn_Metadata n) key)"

definition names_order :: "PaymentNotification \<Rightarrow> PaymentOrder \<Rightarrow> bool" where
  "names_order n r \<longleftrightarrow>
     po_OutTradeNo r = pn_OrderID n \<or> parseLegacyPaymentOrderID (pn_OrderID n) ent_not_found = Some (po_ID r)"

lemma quiet_confirm_amount: "wrong_amount r paid \<Longrightarrow> quiet (confirm_amount env r tradeNo paid pk)"
  by (cases paid) (auto simp: confirm_amount_def wrong_amount_def intro!: quiet_intros)

lemma metadata_refused:
  assumes "wrong_provider r pk metadata key" "\<not> (key \<noteq> [] \<and> trim_space pk \<noteq> [] \<and> \<not> equal_fold key (trim_space pk))"
  shows "fst (complete (validateOrderNotificationMetadata env r inst key metadata) es w) \<noteq> NilErr"
  using assms by (auto simp: wrong_provider_def validateOrderNotificationMetadata_def)

lemma confirm_refused:
  assumes "\<And>r. r \<in> set (pw_orders w) \<Longrightarrow> po_ID r = oid \<Longrightarrow>
      wrong_amount r paid \<or> (\<forall>key \<in> expected_keys env w r. wrong_provider r pk metadata key)"
  shows "same_tables w (world_after (confirmPayment env oid tradeNo paid pk metadata) es w)"
proof -
  let ?p = "confirmPayment env oid tradeNo paid pk metadata"
  obtain res es1 where look: "complete (get_order oid) es w = (res, w, es1)"
    by (simp add: get_order_def complete_lookup)
  have found: "r \<in> set (pw_orders w) \<and> po_ID r = oid" if "res = Inr r" for r
    using read_order(2) [OF look [unfolded get_order_def] that] .
  show ?thesis
  proof (cases res)
    case (Inl err)
    then show ?thesis by (simp add: confirmPayment_def world_after_call look) (simp add: world_after_def look)
  next
    case (Inr r)
    obtain inst w1 es2 where inst: "complete (getOrderProviderInstance r) es1 w = (inst, w1, es2)" by (metis prod_cases3)
    have after: "world_after (get_order oid) es w = w" "world_after (getOrderProviderInstance r) es1 w = w1"
      by (simp_all add: world_after_def look inst)
    have w1: "same_tables w w1" using quietD [OF quiet_metadata(1), of w r es1] by (simp add: world_after_def inst)
    have known: "known_instance w inst" using lookup_instance [of w r es1] by (simp add: inst)
    show ?thesis
    proof (cases inst)
      case (Inl err)
      then show ?thesis using Inr w1 by (simp add: confirmPayment_def world_after_call look inst) (simp add: world_after_def look inst)
    next
      case inst': (Inr i)
      let ?key = "expectedNotificationProviderKeyForOrder (ps_registry env) r (case i of Some i \<Rightarrow> pi_ProviderKey i | None \<Rightarrow> [])"
      have key: "?key \<in> expected_keys env w r"
        using known inst' by (cases i) (auto simp: known_instance_def expected_keys_def)
      let ?rest = "if ?key \<noteq> [] \<and> trim_space pk \<noteq> [] \<and> \<not> equal_fold ?key (trim_space pk) then
                   call (writeAuditLog (po_ID r) ''PAYMENT_PROVIDER_MISMATCH'' pk [(''expectedProvider'', AuditText ?key),
                     (''actualProvider'', AuditText pk), (''tradeNo'', AuditText tradeNo)])
                     (\<lambda>_. Return (PlainErr (''provider mismatch: expected '' @ ?key @ '', got '' @ pk)))
                 else call (validateOrderNotificationMetadata env r i ?key metadata) (\<lambda>err.
                   if err \<noteq> NilErr then
                     call (writeAuditLog (po_ID r) ''PAYMENT_PROVIDER_METADATA_MISMATCH'' pk
                       [(''detail'', AuditError err), (''tradeNo'', AuditText tradeNo)]) (\<lambda>_. Return err)
                   else confirm_amount env r tradeNo paid pk)"
      have rest: "world_after ?p es w = world_after ?rest es2 w1"
        unfolding confirmPayment_def world_after_call look fst_conv snd_conv Inr sum.case inst inst' Let_def after ..
      have "same_tables w1 (world_after ?rest es2 w1)"
      proof (cases "wrong_amount r paid")
        case True
        then show ?thesis by (intro quietD quiet_intros quiet_confirm_amount)
      next
        case False
        then have wrong: "wrong_provider r pk metadata ?key" using assms found [OF Inr] key by blast
        show ?thesis
        proof (cases "?key \<noteq> [] \<and> trim_space pk \<noteq> [] \<and> \<not> equal_fold ?key (trim_space pk)")
          case True
          show ?thesis unfolding if_P [OF True] by (intro quietD quiet_intros)
        next
          case ok: False
          have bad: "fst (complete (validateOrderNotificationMetadata env r i ?key metadata) es2 w1) \<noteq> NilErr"
            by (rule metadata_refused [OF wrong ok])
          have same: "same_tables w1 (world_after (validateOrderNotificationMetadata env r i ?key metadata) es2 w1)"
            by (intro quietD quiet_intros)
          show ?thesis
            unfolding if_not_P [OF ok]
            by (subst world_after_call, subst if_P [OF bad], rule same_tables_trans [OF same]) (intro quietD quiet_intros)
        qed
      qed
      then show ?thesis unfolding rest by (rule same_tables_trans [OF w1])
    qed
  qed
qed


definition demo_wrong :: PaymentNotification where
  "demo_wrong = demo_notification\<lparr>pn_Amount := Fin 20\<rparr>"


section \<open>Limits\<close>

text \<open>A lookup that fails acknowledges the notification although nothing was recorded.\<close>

theorem failed_lookup_acknowledged:
  "pe_fault (es 0) = NeverRan \<Longrightarrow> fst (complete (confirmPayment env oid tradeNo paid pk metadata) es w) = NilErr"
  by (simp add: confirmPayment_def complete_call_eq get_order_def complete_sql)

text \<open>An action that the audit log has for an order is not logged again.\<close>

theorem repeated_audit_lost:
  assumes "audit_taken (itoa oid) action (pw_audits w)"
  shows "world_after (writeAuditLog oid action operator detail) es w = w"
  using assms by (simp add: writeAuditLog_def world_after_call) (simp add: world_after_def complete_sql insert_audit_def audit_row_def split: fault.split)

text \<open>A failed redemption counts for a day, and every failure starts the day again.\<close>

theorem failures_count_for_a_day:
  "redis_live (redeemRateLimitKey u) t' (snd (IncrementRedeemAttemptCount u t w)) \<noteq> None \<longleftrightarrow> t' < t + 24 * 3600 * second"
  by (simp add: IncrementRedeemAttemptCount_def redis_live_def redis_put_def Let_def cacheRateLimitDuration_def)

text \<open>The code is gone after the second statement of \<open>DeleteCode\<close>, used or not by then.\<close>

theorem delete_forgets_later_use:
  assumes "DeleteCode i = Step f" "pe_fault e = Runs" "code_by_id i w = Inr c" "\<not> IsUsed c" "pe_fault e' = Runs"
  shows "\<exists>g. fst (f e w) = Step g \<and> (\<forall>w'. pw_codes (snd (g e' w')) = filter (\<lambda>r. rc_ID r \<noteq> i) (pw_codes w'))"
proof -
  have f: "f e w = (call (sql (repo_Delete i)) (\<lambda>r. Return (case r of Inl err \<Rightarrow> WrapErr ''delete redeem code'' err | Inr _ \<Rightarrow> NilErr)), w)"
    using assms by (auto simp: DeleteCode_def sql_def repo_GetByID_def read_def)
  show ?thesis unfolding f using assms(5) by (simp add: sql_def repo_Delete_def)
qed

text \<open>A user with twenty failed redemptions within the day is not credited for a payment.\<close>

definition limited_world :: "unit pay_world" where
  "limited_world = demo_world\<lparr>pw_redis := (\<lambda>_. None)(redeemRateLimitKey 1 := Some (20, 3600 * second))\<rparr>"

theorem limited_payer_not_credited:
  "demo_report (fst (snd (complete (HandlePaymentNotification demo_env demo_notification TypeAlipay) demo_events limited_world))) =
     ([(1, ''PAY-5-a'', OrderStatusFailed, 20)], [(''PAY-5-a'', ''balance'', 20, ''unused'', None)], [3])"
  by code_simp

section \<open>Runs without faults\<close>

text \<open>\<open>ends H p w P\<close>: run alone, with statements that run and clock readings in \<open>H\<close>, the program ends in \<open>P\<close>.\<close>

lemma complete_events:
  "(\<And>n. E (es n)) \<Longrightarrow> E (snd (snd (complete p es s)) n)"
proof (induction p arbitrary: es s)
  case (Return a)
  then show ?case by simp
next
  case (Step f)
  have "fst (f (es 0) s) \<in> Basic_BNFs.fsts (f (es 0) s)" by (rule Basic_BNFs.fsts.intros)
  then show ?case
    using Step.IH [of "f (es 0)" "f (es 0) s" "fst (f (es 0) s)" "\<lambda>n. es (Suc n)"] Step.prems
    by (simp add: complete_Step del: complete.simps)
qed

definition ends :: "(time \<Rightarrow> bool) \<Rightarrow> ('x, 'a) pay_prog \<Rightarrow> 'x pay_world \<Rightarrow> ('a \<Rightarrow> 'x pay_world \<Rightarrow> bool) \<Rightarrow> bool" where
  "ends H p w P \<longleftrightarrow>
     (\<forall>es. (\<forall>n. pe_fault (es n) = Runs \<and> H (pe_now (es n))) \<longrightarrow> P (fst (complete p es w)) (fst (snd (complete p es w))))"

lemma ends_Return: "P a w \<Longrightarrow> ends H (Return a) w P"
  by (simp add: ends_def)

lemma ends_call:
  assumes "ends H p w (\<lambda>a w'. ends H (k a) w' P)"
  shows "ends H (call p k) w P"
  unfolding ends_def
proof (intro allI impI)
  fix es :: "nat \<Rightarrow> pay_event" assume es: "\<forall>n. pe_fault (es n) = Runs \<and> H (pe_now (es n))"
  let ?es = "snd (snd (complete p es w))"
  have "\<forall>n. pe_fault (?es n) = Runs \<and> H (pe_now (?es n))"
    using complete_events [of "\<lambda>e. pe_fault e = Runs \<and> H (pe_now e)" es p w] es by blast
  then show "P (fst (complete (call p k) es w)) (fst (snd (complete (call p k) es w)))"
    using assms es unfolding ends_def complete_call_eq by blast
qed

lemma ends_sql: "(\<And>t. H t \<Longrightarrow> P (fst (stmt t w)) (snd (stmt t w))) \<Longrightarrow> ends H (sql stmt) w P"
  by (simp add: ends_def complete_sql)

lemma ends_read: "P (q w) w \<Longrightarrow> ends H (sql (read q)) w P"
  by (rule ends_sql) (simp add: read_def)

lemma ends_now: "(\<And>t. H t \<Longrightarrow> P t w) \<Longrightarrow> ends H time_Now w P"
  by (simp add: ends_def complete_time_Now)

lemma ends_weaken: "ends H p w P \<Longrightarrow> (\<And>a w'. P a w' \<Longrightarrow> Q a w') \<Longrightarrow> ends H p w Q"
  by (simp add: ends_def)

text \<open>Audit lines and rebates leave alone what the following steps look at.\<close>

lemma ends_audit: "(\<And>w'. same_tables w w' \<Longrightarrow> pw_redis w' = pw_redis w \<Longrightarrow> pw_code_seq w' = pw_code_seq w \<Longrightarrow> P () w') \<Longrightarrow>
   ends H (writeAuditLog oid action operator detail) w P"
  unfolding writeAuditLog_def
  by (intro ends_call ends_sql ends_Return) (simp add: insert_audit_def same_tables_def)

lemma ends_hasAuditLog: "(\<And>b. P b w) \<Longrightarrow> ends H (hasAuditLog oid action) w P"
  unfolding hasAuditLog_def by (intro ends_call ends_read ends_Return)

section \<open>A paid order is credited\<close>

text \<open>\<open>payable_in\<close>: the row \<open>q\<close> of the order \<open>r\<close>, and its owner.\<close>

definition owner_there :: "PaymentOrder \<Rightarrow> 'x pay_world \<Rightarrow> bool" where
  "owner_there r w \<longleftrightarrow> (\<exists>u \<in> set (pw_users w). pu_ID u = po_UserID r \<and> \<not> pu_Deleted u)"

definition row_of :: "PaymentOrder \<Rightarrow> PaymentOrder \<Rightarrow> 'x pay_world \<Rightarrow> bool" where
  "row_of r q w \<longleftrightarrow> pay_inv w \<and> q \<in> set (pw_orders w) \<and> same_order r q \<and> owner_there r w"

text \<open>Redis lets the redemption through: fewer than twenty failures and no lock at any of the times.\<close>

definition gate_open :: "(time \<Rightarrow> bool) \<Rightarrow> PaymentOrder \<Rightarrow> 'x pay_world \<Rightarrow> bool" where
  "gate_open H r w \<longleftrightarrow>
     (\<forall>t. H t \<longrightarrow> (case redis_live (redeemRateLimitKey (po_UserID r)) t w of Some n \<Rightarrow> n < 20 | None \<Rightarrow> True) \<and>
        redis_live (redeemLockKey (po_RechargeCode r)) t w = None)"

definition code_ready :: "PaymentOrder \<Rightarrow> RedeemCode \<Rightarrow> bool" where
  "code_ready r c \<longleftrightarrow> is_order_code r c \<and> (is_redeemed r c \<or> (rc_Status c = StatusUnused \<and> rc_ExpiresAt c = None))"

definition code_state_ok :: "PaymentOrder \<Rightarrow> 'x pay_world \<Rightarrow> bool" where
  "code_state_ok r w \<longleftrightarrow> (\<forall>c \<in> set (pw_codes w). rc_Code c = po_RechargeCode r \<longrightarrow> code_ready r c)"

lemma row_of_same:
  assumes "row_of r q w" "same_tables w w'" "pw_code_seq w' = pw_code_seq w"
  shows "row_of r q w'"
  using assms by (simp add: row_of_def same_tables_def pay_inv_def codes_ok_def owner_there_def)

lemma row_found: "row_of r q w \<Longrightarrow> only (\<lambda>x. po_ID x = po_ID r) (pw_orders w) = Inr q"
  using only_unique [of po_ID "pw_orders w" q] by (simp add: row_of_def pay_inv_def same_order_def)

lemma ends_get_order: "row_of r q w \<Longrightarrow> P (Inr q) w \<Longrightarrow> ends H (get_order (po_ID r)) w P"
  unfolding get_order_def by (rule ends_read) (simp add: row_found)

lemma ends_update:
  assumes row: "row_of r q w" and hit: "\<And>t. H t \<Longrightarrow> p t q"
    and id: "\<And>t x. p t x \<Longrightarrow> po_ID x = po_ID r" and keep: "\<And>t x. same_order x (f t (x\<lparr>po_UpdatedAt := t\<rparr>))"
    and guar: "\<And>t. pay_guar w (snd (update_orders p f t w))"
    and P: "\<And>t n w'. H t \<Longrightarrow> n \<noteq> 0 \<Longrightarrow> row_of r (f t (q\<lparr>po_UpdatedAt := t\<rparr>)) w' \<Longrightarrow>
       w' = w\<lparr>pw_orders := pw_orders w'\<rparr> \<Longrightarrow> P (Inr n) w'"
  shows "ends H (sql (update_orders p f)) w P"
proof (rule ends_sql)
  fix t assume t: "H t"
  let ?w = "snd (update_orders p f t w)" and ?q = "f t (q\<lparr>po_UpdatedAt := t\<rparr>)"
  have w': "?w = w\<lparr>pw_orders := map (\<lambda>x. if p t x then f t (x\<lparr>po_UpdatedAt := t\<rparr>) else x) (pw_orders w)\<rparr>"
    by (simp add: update_orders_def)
  have q: "q \<in> set (pw_orders w)" "pay_inv w" "same_order r q" using row by (auto simp: row_of_def)
  have "?q \<in> set (pw_orders ?w)" unfolding w' using q(1) hit [OF t] by (auto intro!: image_eqI [of _ _ q])
  moreover have "pay_inv ?w" using guar [of t] q(2) by (simp add: pay_guar_def pay_rely_def)
  moreover have "same_order r ?q" by (rule same_order_trans [OF q(3) keep])
  ultimately have "row_of r ?q ?w" using row by (simp add: row_of_def owner_there_def w')
  moreover have "filter (p t) (pw_orders w) \<noteq> []" using q(1) hit [OF t] by (auto simp: filter_empty_conv)
  ultimately show "P (fst (update_orders p f t w)) ?w"
    using P [OF t, of "int (length (filter (p t) (pw_orders w)))" ?w] by (simp add: update_orders_def)
qed

lemma ends_if: "(b \<Longrightarrow> ends H p w P) \<Longrightarrow> (\<not> b \<Longrightarrow> ends H q w P) \<Longrightarrow> ends H (if b then p else q) w P"
  by simp

lemma guar_row: "row_of r q w \<Longrightarrow> pay_guar w w' \<Longrightarrow> pay_inv w'"
  by (simp add: row_of_def pay_guar_def pay_rely_def)

text \<open>The redemption.\<close>

lemma gate_limit:
  assumes "gate_open H r w" "P NilErr w"
  shows "ends H (checkRedeemRateLimit env (po_UserID r)) w P"
  unfolding checkRedeemRateLimit_def
proof (intro ends_if ends_Return ends_call ends_sql)
  fix t assume "H t"
  then have "\<not> (case redis_live (redeemRateLimitKey (po_UserID r)) t w of Some n \<Rightarrow> n | None \<Rightarrow> 0) \<ge> redeemMaxErrorsPerHour"
    using assms(1) by (auto simp: gate_open_def redeemMaxErrorsPerHour_def split: option.splits)
  then show "P (case fst (GetRedeemAttemptCount (po_UserID r) t w) of Inl _ \<Rightarrow> NilErr
      | Inr count \<Rightarrow> if redeemMaxErrorsPerHour \<le> count then ErrRedeemRateLimited else NilErr)
     (snd (GetRedeemAttemptCount (po_UserID r) t w))"
    using assms(2) by (simp add: GetRedeemAttemptCount_def)
qed (use assms in auto)

lemma gate_lock:
  assumes "gate_open H r w" and P: "\<And>x. P True (w\<lparr>pw_redis := x\<rparr>)"
  shows "ends H (acquireRedeemLock env (po_RechargeCode r)) w P"
  unfolding acquireRedeemLock_def acquire_lock_def
proof (intro ends_if ends_Return ends_call ends_sql)
  fix t assume "H t"
  then show "P (case fst (redis_SetNX (redeemLockKey (po_RechargeCode r)) redeemLockDuration t w) of Inl _ \<Rightarrow> True | Inr ok \<Rightarrow> ok)
     (snd (redis_SetNX (redeemLockKey (po_RechargeCode r)) redeemLockDuration t w))"
    using assms(1) P by (simp add: gate_open_def redis_SetNX_def redis_put_def)
qed (use P [of "pw_redis w"] in simp)

lemma gate_release:
  assumes P: "\<And>x. P () (w\<lparr>pw_redis := x\<rparr>)"
  shows "ends H (releaseRedeemLock env code) w P"
  unfolding releaseRedeemLock_def release_lock_def
  by (intro ends_if ends_Return ends_call ends_sql) (use P P [of "pw_redis w"] in \<open>simp_all add: redis_Del_def redis_put_def\<close>)

definition redeemed_row :: "PaymentOrder \<Rightarrow> PaymentOrder \<Rightarrow> 'x pay_world \<Rightarrow> bool" where
  "redeemed_row r q w \<longleftrightarrow> row_of r q w \<and> code_known r (is_redeemed r) w"

lemma owner_there_map:
  assumes "owner_there r w" "pw_users w' = map g (pw_users w)" "\<And>u. pu_ID (g u) = pu_ID u" "\<And>u. pu_Deleted (g u) = pu_Deleted u"
  shows "owner_there r w'"
  using assms by (auto simp: owner_there_def)

lemma ends_redeem_tx:
  assumes row: "row_of r q w" and c: "c \<in> set (pw_codes w)" "is_order_code r c" "rc_Status c = StatusUnused" "rc_ExpiresAt c = None"
    and type: "po_OrderType r = OrderTypeBalance"
    and P: "\<And>d w'. redeemed_row r q w' \<Longrightarrow> d \<in> set (pw_codes w') \<Longrightarrow> rc_ID d = rc_ID c \<Longrightarrow> P (Inr d) w'"
  shows "ends H (sql (redeem_tx env (po_UserID r) (rc_ID c))) w P"
proof (rule ends_sql)
  fix t
  have inv: "pay_inv w" and known: "order_known r w" using row by (auto simp: row_of_def order_known_def)
  have code: "rc_Type c = RedeemTypeBalance" "rc_Value c > 0"
    using c(2) known_order(3) [OF inv known type] by (simp_all add: is_order_code_def)
  have ok: "codes_ok w" using inv by (simp add: pay_inv_def)
  have usable: "usable_at (rc_ID c) t c" using c(3,4) by (simp add: usable_at_def)
  have owner: "list_ex (\<lambda>y. pu_ID y = po_UserID r) (pw_users w)" using row by (auto simp: row_of_def owner_there_def list_ex_iff)
  obtain ys zs where codes: "pw_codes w = ys @ c # zs" and tx: "redeem_tx env (po_UserID r) (rc_ID c) t w =
      (Inr (use_code (po_UserID r) t c), w\<lparr>pw_codes := ys @ use_code (po_UserID r) t c # zs,
         pw_users := map (\<lambda>y. if pu_ID y = po_UserID r then add_balance (rc_Value c) y else y) (pw_users w)\<rparr>)"
    using redeem_tx_usable [OF ok c(1) code usable, of env "po_UserID r"] unfolding if_P [OF owner] by blast
  let ?w = "snd (redeem_tx env (po_UserID r) (rc_ID c) t w)"
  have "pay_inv ?w" by (rule guar_row [OF row guar_redeem_tx [OF c(1) code]])
  moreover have "owner_there r ?w"
    by (rule owner_there_map [where w = w and g = "\<lambda>y. if pu_ID y = po_UserID r then add_balance (rc_Value c) y else y"])
      (use row in \<open>simp_all add: tx row_of_def add_balance_def\<close>)
  moreover have "pw_orders ?w = pw_orders w" by (simp add: tx)
  ultimately have "row_of r q ?w" using row by (simp add: row_of_def)
  moreover have "code_known r (is_redeemed r) ?w"
    using known c(2) by (simp add: tx code_known_def order_known_def is_order_code_def)
  ultimately have "redeemed_row r q ?w" by (simp add: redeemed_row_def)
  then show "P (fst (redeem_tx env (po_UserID r) (rc_ID c) t w)) ?w"
    using P [of ?w "use_code (po_UserID r) t c"] by (simp add: tx)
qed

lemma redeemed_row_redis: "redeemed_row r q w \<Longrightarrow> w' = w\<lparr>pw_redis := x\<rparr> \<Longrightarrow> redeemed_row r q w'"
  by (simp add: redeemed_row_def row_of_def pay_inv_def codes_ok_def owner_there_def code_known_def order_known_def)

lemma ends_redeem:
  assumes row: "row_of r q w" and c: "c \<in> set (pw_codes w)" "is_order_code r c" "rc_Status c = StatusUnused" "rc_ExpiresAt c = None"
    and type: "po_OrderType r = OrderTypeBalance" and gate: "gate_open H r w"
    and P: "\<And>d w'. redeemed_row r q w' \<Longrightarrow> P (Inr d) w'"
  shows "ends H (redeem env True (po_UserID r) (po_RechargeCode r)) w P"
proof -
  have code: "code_by_code (po_RechargeCode r) v = Inr c" if "pw_codes v = pw_codes w" for v :: "'a pay_world"
    using only_unique [of rc_Code "pw_codes w" c] row c(1,2) that
    by (simp add: code_by_code_def found_code_def row_of_def pay_inv_def codes_ok_def is_order_code_def)
  have usable: "\<not> IsExpiredAt now c" "CanUse now c" for now
    using c(3,4) by (simp_all add: IsExpiredAt_def CanUse_def code_constants)
  have kind: "rc_Type c = RedeemTypeBalance" using c(2) by (simp add: is_order_code_def)
  have owner: "\<exists>u. only (\<lambda>u. pu_ID u = po_UserID r \<and> \<not> pu_Deleted u) (pw_users w) = Inr u"
  proof -
    obtain u where u: "u \<in> set (pw_users w)" "pu_ID u = po_UserID r" "\<not> pu_Deleted u"
      using row by (auto simp: row_of_def owner_there_def)
    have "distinct (map pu_ID (pw_users w))" using row by (simp add: row_of_def pay_inv_def)
    from map_at [OF this u(1), of "\<lambda>v. pu_ID v = po_UserID r \<and> \<not> pu_Deleted v" id] u
    have "only (\<lambda>v. pu_ID v = pu_ID u) (pw_users w) = Inr u" using only_unique [OF \<open>distinct (map pu_ID (pw_users w))\<close> u(1)] by simp
    then have "filter (\<lambda>v. pu_ID v = po_UserID r) (pw_users w) = [u]" using u(2) by (auto simp: only_def split: list.splits)
    then have "filter (\<lambda>v. \<not> pu_Deleted v) (filter (\<lambda>v. pu_ID v = po_UserID r) (pw_users w)) = [u]" using u(3) by simp
    then show ?thesis by (simp add: only_def conj_commute)
  qed
  have kept: "row_of r q (w\<lparr>pw_redis := x\<rparr>)" for x
    using row by (simp add: row_of_def pay_inv_def codes_ok_def owner_there_def)
  have found: "\<exists>d'. code_by_id (rc_ID d) v = Inr d'" if "redeemed_row r q v" "d \<in> set (pw_codes v)" for d and v :: "'a pay_world"
    using only_unique [of rc_ID "pw_codes v" d] that
    by (simp add: code_by_id_def found_code_def redeemed_row_def row_of_def pay_inv_def codes_ok_def)
  have commit: "ends H (redeem_commit env True (po_UserID r) (rc_ID c)) (w\<lparr>pw_redis := x\<rparr>)
      (\<lambda>res w'. (\<exists>d. res = Inr d) \<and> redeemed_row r q w')" for x
    unfolding redeem_commit_def
  proof (rule ends_call, rule ends_redeem_tx [OF kept _ c(2-4) type], goal_cases)
    case (2 d w')
    obtain d' where "code_by_id (rc_ID d) w' = Inr d'" using found [OF 2(1,2)] by blast
    then show ?case
      using 2 by (auto simp: tryAccrueAffiliateRebateForRedeem_def repo_GetByID_def intro!: ends_call ends_Return ends_read)
  qed (use c(1) in simp)
  have locked: "ends H (redeem_locked env True (po_UserID r) (po_RechargeCode r)) (w\<lparr>pw_redis := x\<rparr>)
      (\<lambda>res w'. (\<exists>d. res = Inr d) \<and> redeemed_row r q w')" for x
    unfolding redeem_locked_def repo_GetByCode_def
    using code [of "w\<lparr>pw_redis := x\<rparr>"] owner commit [of x] usable kind
    by (auto simp: user_GetByID_def code_constants intro!: ends_call ends_read ends_now)
  have rest: "ends H (call (redeem_locked env True (po_UserID r) (po_RechargeCode r)) (\<lambda>res.
      call (releaseRedeemLock env (po_RechargeCode r)) (\<lambda>_. Return res))) (w\<lparr>pw_redis := x\<rparr>) P" for x
    by (rule ends_call, rule ends_weaken [OF locked])
      (auto intro!: ends_call gate_release ends_Return P redeemed_row_redis [OF _ refl])
  have "ends H (call (acquireRedeemLock env (po_RechargeCode r)) (\<lambda>ok. if \<not> ok then Return (Inl ErrRedeemCodeLocked) else
     call (redeem_locked env True (po_UserID r) (po_RechargeCode r)) (\<lambda>res.
     call (releaseRedeemLock env (po_RechargeCode r)) (\<lambda>_. Return res)))) w P"
    by (rule ends_call, rule gate_lock [OF gate]) (simp add: rest)
  then show ?thesis unfolding redeem_def by (intro ends_call gate_limit [OF gate]) simp
qed

text \<open>The order and the end.\<close>

definition rebates_work :: "'x pay_env \<Rightarrow> bool" where
  "rebates_work env \<longleftrightarrow> (\<forall>t u a s x. isl (fst (re_accrue (ps_redeem env) t u a s x)) = False)"

lemma redeemed_row_same:
  "redeemed_row r q w \<Longrightarrow> same_tables w w' \<Longrightarrow> pw_code_seq w' = pw_code_seq w \<Longrightarrow> redeemed_row r q w'"
  unfolding redeemed_row_def by (auto simp: row_of_same) (simp add: same_tables_def code_known_def order_known_def)

lemma rebate_succeeds:
  assumes "rebates_work env"
  shows "fst (rebate_tx env r base t w) = Inr ()" "same_tables w (snd (rebate_tx env r base t w))"
    "pw_code_seq (snd (rebate_tx env r base t w)) = pw_code_seq w"
proof -
  obtain v x where acc: "re_accrue (ps_redeem env) t (po_UserID r) base (Some (po_ID r)) (pw_services w) = (Inr v, x)"
    using assms unfolding rebates_work_def by (metis isl_def prod.collapse sum.collapse(2))
  have rebate: "rebate_tx env r base t w = (Inr (), w)" if "rebate_claimed (po_ID r) (pw_audits w)"
    using that by (simp add: rebate_tx_def)
  have "fst (rebate_tx env r base t w) = Inr () \<and> same_tables w (snd (rebate_tx env r base t w)) \<and>
      pw_code_seq (snd (rebate_tx env r base t w)) = pw_code_seq w"
  proof (cases "rebate_claimed (po_ID r) (pw_audits w)")
    case False
    then show ?thesis
      using acc by (simp add: rebate_tx_def accrue_def insert_audit_def audit_row_def rebate_claimed_def same_tables_def)
  qed (simp add: rebate)
  then show "fst (rebate_tx env r base t w) = Inr ()" "same_tables w (snd (rebate_tx env r base t w))"
    "pw_code_seq (snd (rebate_tx env r base t w)) = pw_code_seq w" by simp_all
qed

lemma ends_rebate:
  assumes "rebates_work env" "\<And>w'. same_tables w w' \<Longrightarrow> pw_code_seq w' = pw_code_seq w \<Longrightarrow> P NilErr w'"
  shows "ends H (applyAffiliateRebateForOrder env r) w P"
  unfolding applyAffiliateRebateForOrder_def Let_def
  by (intro ends_if ends_Return ends_call ends_sql)
    (use assms rebate_succeeds [OF assms(1)] in \<open>auto intro!: ends_Return\<close>)

definition completed_row :: "PaymentOrder \<Rightarrow> 'x pay_world \<Rightarrow> bool" where
  "completed_row r w \<longleftrightarrow> (\<exists>q. redeemed_row r q w \<and> po_Status q = OrderStatusCompleted)"

lemma completed_row_same:
  "completed_row r w \<Longrightarrow> same_tables w w' \<Longrightarrow> pw_code_seq w' = pw_code_seq w \<Longrightarrow> completed_row r w'"
  unfolding completed_row_def using redeemed_row_same by blast

lemma ends_markCompleted:
  assumes row: "redeemed_row r q w" and held: "lease_held (po_ID r) version q" and P: "\<And>w'. completed_row r w' \<Longrightarrow> P NilErr w'"
  shows "ends H (markCompleted r version action) w P"
proof -
  have w: "row_of r q w" "code_known r (is_redeemed r) w" using row by (simp_all add: redeemed_row_def)
  have inv: "pay_inv w" "ready r w" using w ready_redeemed by (auto simp: row_of_def)
  have guar: "pay_guar w (snd (update_orders (\<lambda>t. lease_held (po_ID r) version)
      (\<lambda>t r. r\<lparr>po_Status := OrderStatusCompleted, po_CompletedAt := Some t\<rparr>) t w))" for t
    by (intro guar_updateI) (use inv in \<open>auto simp: same_order_def lease_held_def intro: status_move.ended ready_credited\<close>)
  have marked: "ends H (sql (mark_completed_stmt (po_ID r) version)) w (\<lambda>res w'. \<exists>n. res = Inr n \<and> n \<noteq> 0 \<and> completed_row r w')"
    unfolding mark_completed_stmt_def
  proof (rule ends_update [OF w(1)], goal_cases)
    case (5 t n w')
    have "pw_codes w' = pw_codes w" using arg_cong [OF 5(4), of pw_codes] by simp
    then have "code_known r (is_redeemed r) w'"
      using w(2) 5(3) by (auto simp: code_known_def order_known_def row_of_def)
    then show ?case using 5 by (auto simp: completed_row_def redeemed_row_def)
  qed (use held guar in \<open>auto simp: lease_held_def same_order_def\<close>)
  show ?thesis
    unfolding markCompleted_def
  proof (rule ends_call, rule ends_weaken [OF marked], elim exE conjE, goal_cases)
    case (1 res w' n)
    show ?case
      unfolding 1(1) sum.case if_not_P [OF 1(2)]
      by (intro ends_call ends_hasAuditLog ends_if ends_Return ends_audit P) (use 1(3) completed_row_same in blast)+
  qed
qed

lemma ends_finish:
  assumes row: "redeemed_row r q w" and held: "lease_held (po_ID r) version q" and works: "rebates_work env"
    and P: "\<And>w'. completed_row r w' \<Longrightarrow> P NilErr w'"
  shows "ends H (finish_balance env r version) w P"
  unfolding finish_balance_def
proof (rule ends_call, rule ends_rebate [OF works])
  fix w' assume "same_tables w w'" "pw_code_seq w' = pw_code_seq w"
  then have "redeemed_row r q w'" by (rule redeemed_row_same [OF row])
  then have "ends H (markCompleted r version ''RECHARGE_SUCCESS'') w' P" using held P by (rule ends_markCompleted)
  then show "ends H (if NilErr \<noteq> NilErr then Return NilErr else markCompleted r version ''RECHARGE_SUCCESS'') w' P" by simp
qed

text \<open>The code of the order is found or created.\<close>

lemma gate_open_same: "gate_open H r w \<Longrightarrow> pw_redis w' = pw_redis w \<Longrightarrow> gate_open H r w'"
  by (simp add: gate_open_def redis_live_def)

lemma create_code_alt:
  assumes "trim_space code = code" "code \<noteq> []" "v \<noteq> 0"
  shows "CreateCode (new_code code RedeemTypeBalance v) =
     call time_Now (\<lambda>now. call (sql (repo_Create (new_code code RedeemTypeBalance v))) (\<lambda>res. Return
       (case res of Inl err \<Rightarrow> WrapErr ''create redeem code'' err | Inr _ \<Rightarrow> NilErr)))"
  using assms by (simp add: CreateCode_def new_code_def code_constants Let_def IsExpiredAt_def cong: if_cong)

lemma ends_create:
  assumes row: "row_of r q w" and type: "po_OrderType r = OrderTypeBalance" and len: "length (po_RechargeCode r) \<le> 64"
    and none: "\<And>c. c \<in> set (pw_codes w) \<Longrightarrow> rc_Code c \<noteq> po_RechargeCode r"
    and P: "\<And>c w'. row_of r q w' \<Longrightarrow> pw_redis w' = pw_redis w \<Longrightarrow> c \<in> set (pw_codes w') \<Longrightarrow> is_order_code r c \<Longrightarrow>
       rc_Status c = StatusUnused \<Longrightarrow> rc_ExpiresAt c = None \<Longrightarrow> P NilErr w'"
  shows "ends H (CreateCode (new_code (po_RechargeCode r) RedeemTypeBalance (po_Amount r))) w P"
proof -
  let ?new = "new_code (po_RechargeCode r) RedeemTypeBalance (po_Amount r)"
  let ?c = "?new\<lparr>rc_ID := pw_code_seq w, rc_Value := round_to_scale (po_Amount r)\<rparr>"
  have inv: "pay_inv w" and known: "order_known r w" using row by (auto simp: row_of_def order_known_def)
  note order = known_order [OF inv known]
  have code: "po_RechargeCode r \<noteq> []" using order(2) by (auto simp: is_payment_code_def has_prefix_def trim_space_def to_upper_def)
  have "code_fits ?new" "\<not> code_taken (rc_Code ?new) (pw_codes w)"
    using len code none by (auto simp: code_fits_def code_taken_def new_code_def code_constants list_ex_iff)
  then have create: "repo_Create ?new t w = (Inr (pw_code_seq w), w\<lparr>pw_codes := pw_codes w @ [?c], pw_code_seq := pw_code_seq w + 1\<rparr>)" for t
    by (simp add: repo_Create_def new_code_def)
  let ?w = "w\<lparr>pw_codes := pw_codes w @ [?c], pw_code_seq := pw_code_seq w + 1\<rparr>"
  have "pay_guar w ?w" using guar_create [of ?new w] by (simp add: create) (simp add: new_code_def)
  from guar_row [OF row this] have "row_of r q ?w" using row by (simp add: row_of_def owner_there_def)
  moreover have "is_order_code r ?c" using order(1) by (simp add: is_order_code_def new_code_def round_to_scale_fixed)
  ultimately have "P NilErr ?w" using P [of ?w ?c] by (simp add: new_code_def)
  moreover have "po_Amount r \<noteq> 0" using order(3) [OF type] by simp
  ultimately show ?thesis
    unfolding create_code_alt [OF order(4) code \<open>po_Amount r \<noteq> 0\<close>]
    by (intro ends_call ends_now ends_sql ends_Return) (simp add: create)
qed

lemma ends_redeem_balance:
  assumes row: "row_of r q w" and c: "c \<in> set (pw_codes w)" "is_order_code r c" "rc_Status c = StatusUnused" "rc_ExpiresAt c = None"
    and type: "po_OrderType r = OrderTypeBalance" and gate: "gate_open H r w" and held: "lease_held (po_ID r) version q"
    and works: "rebates_work env" and P: "\<And>w'. completed_row r w' \<Longrightarrow> P NilErr w'"
  shows "ends H (redeem_balance env r version) w P"
proof -
  have finish: "ends H (finish_balance env r version) w' P" if "redeemed_row r q w'" for w'
    using that held works P by (rule ends_finish)
  show ?thesis
    unfolding redeem_balance_def by (rule ends_call, rule ends_redeem [OF row c type gate]) (simp add: finish)
qed

lemma ends_doBalance:
  assumes row: "row_of r q w" and type: "po_OrderType r = OrderTypeBalance" and gate: "gate_open H r w"
    and held: "lease_held (po_ID r) version q" and works: "rebates_work env"
    and state: "code_state_ok r w" and len: "length (po_RechargeCode r) \<le> 64"
    and P: "\<And>w'. completed_row r w' \<Longrightarrow> P NilErr w'"
  shows "ends H (doBalance env r version) w P"
proof (cases "\<exists>c \<in> set (pw_codes w). rc_Code c = po_RechargeCode r")
  case True
  then obtain c where c: "c \<in> set (pw_codes w)" "rc_Code c = po_RechargeCode r" by blast
  have finish: "ends H (finish_balance env r version) w P" if "redeemed_row r q w"
    using that held works P by (rule ends_finish)
  have ready: "code_ready r c" using state c by (simp add: code_state_ok_def)
  have look: "code_by_code (po_RechargeCode r) w = Inr c"
    using only_unique [of rc_Code "pw_codes w" c] row c
    by (simp add: code_by_code_def found_code_def row_of_def pay_inv_def codes_ok_def)
  have fits: "code_fits_order r (Inr c) = NilErr"
    using ready by (auto simp: code_ready_def code_fits_order_def is_order_code_def IsUsed_def code_constants)
  show ?thesis
  proof (cases "IsUsed c")
    case True
    then have "is_redeemed r c" using ready by (auto simp: code_ready_def IsUsed_def code_constants)
    then have "redeemed_row r q w"
      using row c(1) ready by (auto simp: redeemed_row_def code_known_def order_known_def row_of_def code_ready_def)
    then show ?thesis
      unfolding doBalance_def GetByCode_def repo_GetByCode_def Let_def
      using look fits True
      by (intro ends_call ends_read ends_Return) (simp add: resolveRedeemAction_def finish)
  next
    case False
    then have "is_order_code r c" "rc_Status c = StatusUnused" "rc_ExpiresAt c = None" using ready by (auto simp: code_ready_def)
    then have redeem: "ends H (redeem_balance env r version) w P"
      using ends_redeem_balance [OF row c(1) _ _ _ type gate held works, of P] P by blast
    show ?thesis
      unfolding doBalance_def GetByCode_def repo_GetByCode_def Let_def
      using look fits False
      by (intro ends_call ends_read ends_Return)
        (simp add: resolveRedeemAction_def redeem)
  qed
next
  case False
  then have none: "code_by_code (po_RechargeCode r) w = Inl ErrRedeemCodeNotFound"
    by (auto simp: code_by_code_def found_code_def only_def filter_empty_conv)
  have fits: "code_fits_order r (Inl (WrapErr ''get redeem code'' ErrRedeemCodeNotFound)) = NilErr"
    by (simp add: code_fits_order_def ErrRedeemCodeNotFound_def NotFound_def New_def app_is_def)
  have create: "ends H (CreateCode (new_code (po_RechargeCode r) RedeemTypeBalance (po_Amount r))) w
      (\<lambda>err w'. ends H (if err \<noteq> NilErr then Return (WrapErr ''create redeem code'' err) else redeem_balance env r version) w' P)"
  proof (rule ends_create [OF row type len], goal_cases)
    case (2 c w')
    have "ends H (redeem_balance env r version) w' P"
      using ends_redeem_balance [OF 2(1,3-6) type gate_open_same [OF gate 2(2)] held works, of P] P by blast
    then show ?case by simp
  qed (use False in auto)
  show ?thesis
    unfolding doBalance_def GetByCode_def repo_GetByCode_def Let_def
    using none fits by (intro ends_call ends_read ends_Return) (simp add: resolveRedeemAction_def create ends_call)
qed

lemma ends_lease:
  assumes row: "row_of r q w" and status: "po_Status q \<in> {OrderStatusPaid, OrderStatusFailed}"
    and P: "\<And>q' w'. row_of r q' w' \<Longrightarrow> lease_held (po_ID r) (po_UpdatedAt q') q' \<Longrightarrow> pw_redis w' = pw_redis w \<Longrightarrow>
       pw_codes w' = pw_codes w \<Longrightarrow> P (Inr (Some (po_UpdatedAt q'))) w'"
  shows "ends H (acquirePaymentFulfillmentLease r) w P"
proof -
  have same: "same_order r q" using row by (simp add: row_of_def)
  have acquired: "ends H (sql (acquire_lease_stmt (po_ID r))) w (\<lambda>res w'. \<exists>n q'. res = Inr n \<and> n \<noteq> 0 \<and> row_of r q' w' \<and>
      po_Status q' = OrderStatusRecharging \<and> pw_redis w' = pw_redis w \<and> pw_codes w' = pw_codes w)"
    unfolding acquire_lease_stmt_def
  proof (rule ends_update [OF row], goal_cases)
    case (4 t)
    show ?case
      by (rule guar_updateI) (auto simp: same_order_def lease_free_def completed_status_def psIsRefundStatus_def intro: status_move.leased)
  next
    case (5 t n w')
    have "pw_redis w' = pw_redis w" "pw_codes w' = pw_codes w"
      using arg_cong [OF 5(4), of pw_redis] arg_cong [OF 5(4), of pw_codes] by simp_all
    then show ?case using 5 by (intro exI conjI) auto
  qed (use same status in \<open>auto simp: lease_free_def same_order_def\<close>)
  show ?thesis
    unfolding acquirePaymentFulfillmentLease_def
  proof (rule ends_call, rule ends_weaken [OF acquired], elim exE conjE, goal_cases)
    case (1 res w' n q')
    have "po_ID q' = po_ID r" using 1(3) by (simp add: row_of_def same_order_def)
    then have "P (Inr (Some (po_UpdatedAt q'))) w'" using P [OF 1(3)] 1 by (simp add: lease_held_def)
    then show ?case
      unfolding 1(1) sum.case if_not_P [OF 1(2)]
      by (intro ends_call ends_get_order [OF 1(3)] ends_Return) (simp add: 1(4))
  qed
qed

text \<open>What a payable order needs to be credited.\<close>

definition creditable :: "(time \<Rightarrow> bool) \<Rightarrow> PaymentOrder \<Rightarrow> 'x pay_world \<Rightarrow> bool" where
  "creditable H r w \<longleftrightarrow>
     row_of r r w \<and> po_OrderType r = OrderTypeBalance \<and> po_Status r \<in> {OrderStatusPaid, OrderStatusFailed} \<and>
     gate_open H r w \<and> code_state_ok r w \<and> length (po_RechargeCode r) \<le> 64"

lemma creditable_same:
  "creditable H r w \<Longrightarrow> same_tables w w' \<Longrightarrow> pw_redis w' = pw_redis w \<Longrightarrow> pw_code_seq w' = pw_code_seq w \<Longrightarrow> creditable H r w'"
  unfolding creditable_def using gate_open_same [of H r w w'] row_of_same [of r r w w']
  by (simp add: code_state_ok_def same_tables_def)

lemma ends_fulfillment:
  assumes ok: "creditable H r w" and works: "rebates_work env" and P: "\<And>w'. completed_row r w' \<Longrightarrow> P NilErr w'"
  shows "ends H (executeFulfillment env (po_ID r)) w P"
proof -
  have row: "row_of r r w" and type: "po_OrderType r = OrderTypeBalance" and gate: "gate_open H r w"
    and status: "po_Status r \<in> {OrderStatusPaid, OrderStatusFailed}" and state: "code_state_ok r w"
    and len: "length (po_RechargeCode r) \<le> 64"
    using ok by (simp_all add: creditable_def)
  have kind: "po_OrderType r \<noteq> OrderTypeSubscription" using type by (simp add: OrderTypeBalance_def OrderTypeSubscription_def)
  have lease: "ends H (with_lease r (doBalance env r)) w P"
    unfolding with_lease_def
  proof (rule ends_call, rule ends_lease [OF row status], goal_cases)
    case (1 q' w')
    have "code_state_ok r w'" using state 1(4) by (simp add: code_state_ok_def)
    then have "ends H (doBalance env r (po_UpdatedAt q')) w'
        (\<lambda>err w''. ends H (if err \<noteq> NilErr then call (markFailed (po_ID r) (po_UpdatedAt q') err) (\<lambda>_. Return err) else Return NilErr) w'' P)"
      by (intro ends_doBalance [OF 1(1) type gate_open_same [OF gate 1(3)] 1(2) works _ len]) (simp_all add: ends_Return P)
    then show ?case by (simp add: ends_call)
  qed
  have "ends H (ExecuteBalanceFulfillment env (po_ID r)) w P"
    unfolding ExecuteBalanceFulfillment_def
    by (intro ends_call ends_get_order [OF row])
      (use lease type status in \<open>auto simp: psIsRefundStatus_def fulfil_status_def\<close>)
  then show ?thesis
    unfolding executeFulfillment_def
    by (intro ends_call ends_get_order [OF row]) (use type kind in simp)
qed

lemma ends_retry:
  assumes ok: "creditable H r w" and paid: "po_PaidAt r \<noteq> None" and works: "rebates_work env"
    and P: "\<And>w'. completed_row r w' \<Longrightarrow> P NilErr w'"
  shows "ends H (RetryFulfillment env (po_ID r)) w P"
proof -
  have row: "row_of r r w" and status: "po_Status r \<in> {OrderStatusPaid, OrderStatusFailed}" using ok by (simp_all add: creditable_def)
  have "ends H (call (writeAuditLog (po_ID r) ''RECHARGE_RETRY'' ''admin'' [(''detail'', AuditText ''admin manual retry'')])
                (\<lambda>_. executeFulfillment env (po_ID r))) w P"
  proof (rule ends_call, rule ends_audit)
    fix w' assume "same_tables w w'" "pw_redis w' = pw_redis w" "pw_code_seq w' = pw_code_seq w"
    then have "creditable H r w'" by (rule creditable_same [OF ok])
    then show "ends H (executeFulfillment env (po_ID r)) w' P" using works P by (rule ends_fulfillment)
  qed
  then show ?thesis
    unfolding RetryFulfillment_def
    by (intro ends_call ends_get_order [OF row]) (use paid status in \<open>auto simp: psIsRefundStatus_def fulfil_status_def\<close>)
qed

text \<open>Balances of a run.\<close>

lemma complete_background: "fst (snd (complete (background p) es w)) = fst (snd (complete p es w))"
  by (simp add: background_def complete_call_eq)

lemma run_accounted:
  assumes "pay_program env (background p)" "pay_inv w"
  shows "net_balance i (fst (snd (complete p es w))) = net_balance i w"
proof -
  have "running env w ([] @ [background p]) w []" by (rule concurrent.spawn, rule concurrent.start, rule assms(1))
  from concurrent_run [OF this, of es]
  have "running env w ([] @ [Return (fst (complete (background p) es w))]) (fst (snd (complete p es w))) []"
    by (simp add: complete_background)
  from payments.accounted [OF this assms(2), of "net_balance i"] show ?thesis by (simp add: pay_guar_def)
qed

lemma credited_in_the_end:
  assumes "ends H p w (\<lambda>err w'. err = NilErr \<and> completed_row r w')" "\<And>n. pe_fault (es n) = Runs \<and> H (pe_now (es n))"
    and "pay_program env (background p)" "pay_inv w"
  shows "case complete p es w of (err, w', _) \<Rightarrow>
     err = NilErr \<and> (\<exists>q \<in> set (pw_orders w'). same_order r q \<and> po_Status q = OrderStatusCompleted) \<and>
     is_credited (pw_codes w') r \<and>
     balance_of (po_UserID r) (pw_users w') = balance_of (po_UserID r) (pw_users w) +
       redeemed_by (po_UserID r) (pw_codes w') - redeemed_by (po_UserID r) (pw_codes w)"
proof -
  have ends: "fst (complete p es w) = NilErr" "completed_row r (fst (snd (complete p es w)))"
    using assms(1,2) by (auto simp: ends_def)
  obtain q where q: "redeemed_row r q (fst (snd (complete p es w)))" "po_Status q = OrderStatusCompleted"
    using ends(2) by (auto simp: completed_row_def)
  have "is_credited (pw_codes (fst (snd (complete p es w)))) r"
    using q(1) by (auto simp: redeemed_row_def code_known_def is_credited_def credits_def is_order_code_def)
  moreover have "net_balance (po_UserID r) (fst (snd (complete p es w))) = net_balance (po_UserID r) w"
    by (rule run_accounted [OF assms(3,4)])
  ultimately show ?thesis
    using ends(1) q by (auto simp: net_balance_def redeemed_row_def row_of_def case_prod_beta)
qed


definition paid_order :: PaymentOrder where
  "paid_order = demo_order\<lparr>po_Status := OrderStatusFailed, po_PaidAt := Some 1\<rparr>"

definition paid_world :: "unit pay_world" where
  "paid_world = demo_world\<lparr>pw_orders := [paid_order]\<rparr>"

lemma paid_inv: "pay_inv paid_world"
  using demo_inv
  by (simp add: paid_world_def paid_order_def demo_world_def demo_order_def pay_inv_def codes_ok_def order_ok_def
      completed_status_def psIsRefundStatus_def)

lemma paid_creditable: "creditable (\<lambda>_. True) paid_order paid_world"
  using paid_inv
  by (simp add: creditable_def row_of_def owner_there_def gate_open_def code_state_ok_def redis_live_def paid_world_def
      paid_order_def demo_world_def demo_order_def)

lemma demo_rebates: "rebates_work demo_env"
  by (simp add: rebates_work_def demo_env_def)


section \<open>A genuine notification credits\<close>

text \<open>\<open>genuine\<close>: the notification names the order by its trade number, reports its amount, and the look at the
  provider of the order ends well.\<close>

definition genuine :: "(time \<Rightarrow> bool) \<Rightarrow> 'x pay_env \<Rightarrow> PaymentNotification \<Rightarrow> string \<Rightarrow> PaymentOrder \<Rightarrow> 'x pay_world \<Rightarrow> bool" where
  "genuine H env n pk r w \<longleftrightarrow>
     pn_Status n = ''success'' \<and> length (pn_TradeNo n) \<le> 128 \<and>
     only (\<lambda>x. po_OutTradeNo x = pn_OrderID n) (pw_orders w) = Inr r \<and>
     \<not> wrong_amount r (pn_Amount n) \<and>
     ends H (getOrderProviderInstance r) w (\<lambda>res w'. w' = w \<and>
       (\<exists>inst. res = Inr inst \<and>
         (let key = expectedNotificationProviderKeyForOrder (ps_registry env) r
                (case inst of Some i \<Rightarrow> pi_ProviderKey i | None \<Rightarrow> [])
          in \<not> (key \<noteq> [] \<and> trim_space pk \<noteq> [] \<and> \<not> equal_fold key (trim_space pk)) \<and>
             ends H (validateOrderNotificationMetadata env r inst key (pn_Metadata n)) w (\<lambda>err w'. w' = w \<and> err = NilErr))))"

definition paid_row :: "PaymentOrder \<Rightarrow> PaymentOrder \<Rightarrow> bool" where
  "paid_row r q \<longleftrightarrow> same_order r q \<and> po_Status q = OrderStatusPaid"

definition awaiting :: "(time \<Rightarrow> bool) \<Rightarrow> PaymentOrder \<Rightarrow> 'x pay_world \<Rightarrow> bool" where
  "awaiting H r w \<longleftrightarrow>
     row_of r r w \<and> po_OrderType r = OrderTypeBalance \<and> po_Status r \<in> {OrderStatusPending, OrderStatusCancelled} \<and>
     gate_open H r w \<and> code_state_ok r w \<and> length (po_RechargeCode r) \<le> 64"

lemma creditable_row:
  assumes "awaiting H r w" "row_of r q w'" "po_Status q = OrderStatusPaid" "pw_redis w' = pw_redis w" "pw_codes w' = pw_codes w"
  shows "creditable H q w'"
proof -
  have same: "same_order r q" using assms(2) by (simp add: row_of_def)
  have "gate_open H q w'"
    using assms(1,4) same gate_open_same [of H r w w'] by (simp add: awaiting_def gate_open_def same_order_def)
  moreover have "code_state_ok q w'"
    using assms(1,5) same
    by (simp add: awaiting_def code_state_ok_def code_ready_def is_order_code_def same_order_def)
  moreover have "row_of q q w'" using assms(2) same by (simp add: row_of_def owner_there_def same_order_def)
  ultimately show ?thesis using assms(1,3) same by (simp add: creditable_def awaiting_def same_order_def)
qed

lemma completed_row_of: "completed_row q w \<Longrightarrow> same_order r q \<Longrightarrow> completed_row r w"
  unfolding completed_row_def redeemed_row_def row_of_def code_known_def order_known_def is_order_code_def owner_there_def
  by (auto simp: same_order_def)

lemma ends_toPaid:
  assumes wait: "awaiting H r w" and len: "length tradeNo \<le> 128" and works: "rebates_work env"
    and P: "\<And>w'. completed_row r w' \<Longrightarrow> P NilErr w'"
  shows "ends H (toPaid env r tradeNo v pk) w P"
proof -
  have row: "row_of r r w" and status: "po_Status r \<in> {OrderStatusPending, OrderStatusCancelled}" using wait by (simp_all add: awaiting_def)
  let ?f = "\<lambda>t r. r\<lparr>po_Status := OrderStatusPaid, po_PayAmount := round_digits 2 v, po_PaymentTradeNo := tradeNo,
                 po_PaidAt := Some t, po_FailedAt := None, po_FailedReason := None\<rparr>"
  have stmt: "to_paid_stmt (po_ID r) tradeNo v = update_orders (\<lambda>t. payable (po_ID r) (t - paymentGrace)) ?f"
    using len by (intro ext) (simp add: to_paid_stmt_def)
  have updated: "ends H (sql (to_paid_stmt (po_ID r) tradeNo v)) w (\<lambda>res w'. \<exists>n q. res = Inr n \<and> n \<noteq> 0 \<and>
      same_order r q \<and> creditable H q w')"
    unfolding stmt
  proof (rule ends_update [OF row], goal_cases)
    case (4 t)
    show ?case
      by (rule guar_updateI) (auto simp: same_order_def payable_def completed_status_def psIsRefundStatus_def intro: status_move.paid)
  next
    case (5 t n w')
    let ?q = "?f t (r\<lparr>po_UpdatedAt := t\<rparr>)"
    have "pw_redis w' = pw_redis w" "pw_codes w' = pw_codes w"
      using arg_cong [OF 5(4), of pw_redis] arg_cong [OF 5(4), of pw_codes] by simp_all
    then have "creditable H ?q w'" by (intro creditable_row [OF wait 5(3)]) simp_all
    then show ?case using 5(2,3) unfolding row_of_def by blast
  qed (use status in \<open>auto simp: payable_def same_order_def\<close>)
  show ?thesis
    unfolding toPaid_def
  proof (rule ends_call, rule ends_weaken [OF updated], elim exE conjE, goal_cases)
    case (1 res w' n q)
    have id: "po_ID q = po_ID r" using 1(3) by (simp add: same_order_def)
    have fulfil: "ends H (executeFulfillment env (po_ID r)) v P"
      if "same_tables w' v" "pw_redis v = pw_redis w'" "pw_code_seq v = pw_code_seq w'" for v
      unfolding id [symmetric]
      by (rule ends_fulfillment [OF creditable_same [OF 1(4) that] works]) (rule P, rule completed_row_of [OF _ 1(3)])
    have pay: "ends H (call (writeAuditLog (po_ID r) ''ORDER_PAID'' pk [(''tradeNo'', AuditText tradeNo), (''paidAmount'', AuditNumber (Fin v))])
                (\<lambda>_. executeFulfillment env (po_ID r))) u P"
      if "same_tables w' u" "pw_redis u = pw_redis w'" "pw_code_seq u = pw_code_seq w'" for u
      by (rule ends_call, rule ends_audit) (use fulfil same_tables_trans that in metis)
    show ?case
      unfolding 1(1) sum.case if_not_P [OF 1(2)]
      by (intro ends_call ends_if ends_audit ends_Return pay) simp_all
  qed
qed


lemma demo_genuine: "genuine (\<lambda>_. True) demo_env demo_notification TypeAlipay demo_order demo_world"
proof -
  let ?inst = "\<lparr>pi_ID = 7, pi_ProviderKey = TypeAlipay, pi_Config = [], pi_SupportedTypes = [], pi_Enabled = True, pi_PaymentMode = []\<rparr>"
  let ?s = "\<lparr>ss_SchemaVersion = 2, ss_ProviderInstanceID = ''7'', ss_ProviderKey = TypeAlipay, ss_PaymentMode = [],
    ss_MerchantAppID = ''app'', ss_MerchantID = [], ss_Currency = []\<rparr>"
  have program: "getOrderProviderInstance demo_order = call (get_instance 7) (\<lambda>res. Return (case res of
              Inl err \<Rightarrow> Inl (if err = ent_not_found then order_error demo_order ''provider snapshot instance is missing'' else err)
            | Inr inst \<Rightarrow>
                if ss_ProviderKey ?s \<noteq> [] \<and> \<not> equal_fold (trim_space (pi_ProviderKey inst)) (ss_ProviderKey ?s)
                then Inl (order_error demo_order ''provider snapshot key mismatch'') else Inr (Some inst)))"
  proof -
    have snap: "psOrderProviderSnapshot demo_order = Some ?s" by code_simp
    have texts: "trim_space ''7'' = ''7''" "equal_fold ''7'' ''7''" "ParseInt ''7'' = Some 7" by code_simp+
    have col: "psStringValue (po_ProviderInstanceID demo_order) = ''7''" by code_simp
    show ?thesis
      by (simp add: getOrderProviderInstance_def snap resolveSnapshotOrderProviderInstance_def col texts Let_def)
  qed
  have fits: "ss_ProviderKey ?s \<noteq> []" "equal_fold (trim_space (pi_ProviderKey ?inst)) (ss_ProviderKey ?s)" by code_simp+
  have inst: "only (\<lambda>p. pi_ID p = 7) (pw_instances demo_world) = Inr ?inst" by (simp add: only_def demo_world_def)
  have key: "expectedNotificationProviderKeyForOrder (ps_registry demo_env) demo_order TypeAlipay = TypeAlipay" by code_simp
  have pk: "equal_fold TypeAlipay (trim_space TypeAlipay)" by code_simp
  have metadata: "list_all (\<lambda>key. snap_text (po_ProviderSnapshot demo_order) key \<noteq> []) (required_fields TypeAlipay @ optional_fields TypeAlipay)"
    "validateProviderNotificationMetadata demo_order TypeAlipay (pn_Metadata demo_notification) = NilErr" by code_simp+
  have amount: "\<not> wrong_amount demo_order (pn_Amount demo_notification)" by code_simp
  have valid: "ends (\<lambda>_. True) (validateOrderNotificationMetadata demo_env demo_order i TypeAlipay (pn_Metadata demo_notification)) demo_world
      (\<lambda>err w'. w' = demo_world \<and> err = NilErr)" for i
    unfolding validateOrderNotificationMetadata_def Let_def if_P [OF metadata(1)] by (rule ends_Return) (simp add: metadata(2))
  have order: "only (\<lambda>x. po_OutTradeNo x = pn_OrderID demo_notification) (pw_orders demo_world) = Inr demo_order"
    by (simp add: only_def demo_world_def demo_order_def demo_notification_def)
  have "ends (\<lambda>_. True) (getOrderProviderInstance demo_order) demo_world (\<lambda>res w'. w' = demo_world \<and>
       (\<exists>inst. res = Inr inst \<and>
         (let key = expectedNotificationProviderKeyForOrder (ps_registry demo_env) demo_order
                (case inst of Some i \<Rightarrow> pi_ProviderKey i | None \<Rightarrow> [])
          in \<not> (key \<noteq> [] \<and> trim_space TypeAlipay \<noteq> [] \<and> \<not> equal_fold key (trim_space TypeAlipay)) \<and>
             ends (\<lambda>_. True) (validateOrderNotificationMetadata demo_env demo_order inst key (pn_Metadata demo_notification)) demo_world
               (\<lambda>err w'. w' = demo_world \<and> err = NilErr))))"
    unfolding program get_instance_def
    by (intro ends_call ends_read ends_Return) (use fits key pk valid in \<open>simp add: inst Let_def\<close>)
  then show ?thesis
    using amount order by (simp add: genuine_def) (simp add: demo_notification_def)
qed

lemma demo_awaiting: "awaiting (\<lambda>_. True) demo_order demo_world"
  using demo_inv
  by (simp add: awaiting_def row_of_def owner_there_def gate_open_def code_state_ok_def redis_live_def demo_world_def demo_order_def)


end
