(* ===== verification/ModelNames.thy ===== *)
theory ModelNames
  imports GoStrings
begin

text \<open>
  Names of models: the spellings under which a request, a price list and an administrator may write the
  same model, and the functions that reduce them (\<open>service/openai_model_alias.go\<close>, the lookup part of
  \<open>service/openai_codex_transform.go\<close>, the name part of \<open>service/pricing_service.go\<close>). Names are byte strings;
  \<open>to_lower\<close> folds the letters of ASCII names.
\<close>

section \<open>More of package strings\<close>

definition has_suffix :: "string \<Rightarrow> string \<Rightarrow> bool" where
  "has_suffix p s \<longleftrightarrow> length p \<le> length s \<and> drop (length s - length p) s = p"

definition trim_prefix :: "string \<Rightarrow> string \<Rightarrow> string" where
  "trim_prefix p s = (if has_prefix p s then drop (length p) s else s)"

definition trim_suffix :: "string \<Rightarrow> string \<Rightarrow> string" where
  "trim_suffix p s = (if has_suffix p s then take (length s - length p) s else s)"

definition cut_prefix :: "string \<Rightarrow> string \<Rightarrow> string option" where
  "cut_prefix p s = (if has_prefix p s then Some (drop (length p) s) else None)"

text \<open>\<open>strings.ReplaceAll\<close> of a text that is not empty.\<close>

function replace_all :: "string \<Rightarrow> string \<Rightarrow> string \<Rightarrow> string" where
  "replace_all old new [] = []"
| "replace_all old new (a # s) =
     (if old \<noteq> [] \<and> has_prefix old (a # s) then new @ replace_all old new (drop (length old - 1) s)
      else a # replace_all old new s)"
  by pat_completeness auto
termination by (relation "measure (\<lambda>(_, _, s). length s)") auto

fun last_index :: "string \<Rightarrow> string \<Rightarrow> nat option" where
  "last_index p [] = (if p = [] then Some 0 else None)"
| "last_index p (a # s) =
     (case last_index p s of
        Some i \<Rightarrow> Some (Suc i)
      | None \<Rightarrow> if has_prefix p (a # s) then Some 0 else None)"

definition after_last :: "string \<Rightarrow> string \<Rightarrow> string" where
  "after_last p s = (case last_index p s of Some i \<Rightarrow> drop (i + length p) s | None \<Rightarrow> s)"

fun join :: "string \<Rightarrow> string list \<Rightarrow> string" where
  "join sep [] = []"
| "join sep [x] = x"
| "join sep (x # y # xs) = x @ sep @ join sep (y # xs)"

text \<open>\<open>strings.Fields\<close>: the maximal runs without white space.\<close>

definition ws_width :: "string \<Rightarrow> nat" where
  "ws_width s =
     (case s of
        [] \<Rightarrow> 0
      | a # t \<Rightarrow>
          if ws1 a then 1
          else (case t of
                  [] \<Rightarrow> 0
                | b # u \<Rightarrow>
                    if ws2 a b then 2
                    else (case u of c # _ \<Rightarrow> if ws3 a b c then 3 else 0 | [] \<Rightarrow> 0)))"

function fields_from :: "string \<Rightarrow> string \<Rightarrow> string list" where
  "fields_from word [] = (if word = [] then [] else [rev word])"
| "fields_from word (a # s) =
     (if 0 < ws_width (a # s)
      then (if word = [] then [] else [rev word]) @ fields_from [] (drop (ws_width (a # s) - 1) s)
      else fields_from (a # word) s)"
  by pat_completeness auto
termination by (relation "measure (\<lambda>(_, s). length s)") auto

definition fields :: "string \<Rightarrow> string list" where
  "fields s = fields_from [] s"

lemma has_prefix_prefix: "has_prefix p s \<longleftrightarrow> prefix p s"
  by (auto simp: has_prefix_def prefix_def) (metis append_take_drop_id)

lemma has_suffix_suffix: "has_suffix p s \<longleftrightarrow> suffix p s"
proof
  assume "has_suffix p s"
  then show "suffix p s" by (metis has_suffix_def suffix_drop)
next
  assume "suffix p s"
  then show "has_suffix p s" by (auto simp: has_suffix_def suffix_def)
qed

lemma contains_sublist: "contains s p \<longleftrightarrow> sublist p s"
  by (induction s) (auto simp: has_prefix_prefix sublist_Cons_right)

lemma replace_all_length: "length new \<le> length old \<Longrightarrow> length (replace_all old new s) \<le> length s"
proof (induction old new s rule: replace_all.induct)
  case (2 old new a s)
  show ?case
  proof (cases "old \<noteq> [] \<and> has_prefix old (a # s)")
    case True
    then have "length old \<le> Suc (length s)" by (auto simp: has_prefix_prefix dest: prefix_length_le)
    moreover have "length (replace_all old new (drop (length old - 1) s)) \<le> length s - (length old - 1)"
      using 2(1) [OF True 2(3)] by simp
    moreover have "0 < length old" using True by simp
    ultimately show ?thesis using True 2(3) by simp
  next
    case False
    then show ?thesis using 2(2) [OF False 2(3)] by auto
  qed
qed simp

lemma replace_all_shorter:
  assumes "length new < length old" "contains s old"
  shows "length (replace_all old new s) < length s"
  using assms
proof (induction old new s rule: replace_all.induct)
  case (2 old new a s)
  show ?case
  proof (cases "old \<noteq> [] \<and> has_prefix old (a # s)")
    case True
    then have "length old \<le> Suc (length s)" by (auto simp: has_prefix_prefix dest: prefix_length_le)
    moreover have "length (replace_all old new (drop (length old - 1) s)) \<le> length s - (length old - 1)"
      using replace_all_length [of new old "drop (length old - 1) s"] 2(3) by simp
    moreover have "0 < length old" using True by simp
    ultimately show ?thesis using True 2(3) by simp
  next
    case False
    moreover have "old \<noteq> []" using 2(3) by auto
    ultimately have "contains s old" using 2(4) by simp
    then show ?thesis using 2(2) [OF False 2(3)] False by auto
  qed
qed auto

section \<open>Spellings of OpenAI models\<close>

definition lastOpenAIModelSegment :: "string \<Rightarrow> string" where
  "lastOpenAIModelSegment model =
     (let m = trim_space model in
      if m = [] then []
      else trim_space (if contains m ''/'' then last (split_at (CHR ''/'') m) else m))"

function collapse_hyphens :: "string \<Rightarrow> string" where
  "collapse_hyphens s = (if contains s ''--'' then collapse_hyphens (replace_all ''--'' ''-'' s) else s)"
  by pat_completeness auto
termination by (relation "measure length") (auto intro: replace_all_shorter)

declare collapse_hyphens.simps [simp del]

definition openai_spelling_replacements :: "(string \<times> string) list" where
  "openai_spelling_replacements =
     [(''gpt-5.4mini'', ''gpt-5.4-mini''),
      (''gpt-5.4nano'', ''gpt-5.4-nano''),
      (''gpt-5.3-codexspark'', ''gpt-5.3-codex-spark''),
      (''gpt-5.3codexspark'', ''gpt-5.3-codex-spark''),
      (''gpt-5.3codex'', ''gpt-5.3-codex'')]"

definition canonicalizeOpenAIModelAliasSpelling :: "string \<Rightarrow> string" where
  "canonicalizeOpenAIModelAliasSpelling model =
     (let m = to_lower (lastOpenAIModelSegment model) in
      if m = [] then []
      else
        let n = collapse_hyphens (join ''-'' (fields (replace_all ''_'' ''-'' m)));
            n = (if has_prefix ''gpt5'' n then ''gpt-5'' @ trim_prefix ''gpt5'' n else n)
        in if \<not> has_prefix ''gpt-'' n \<and> \<not> contains n ''codex'' then []
           else foldl (\<lambda>n (old, new). replace_all old new n) n openai_spelling_replacements)"

definition codexModelMap :: "(string \<times> string) list" where
  "codexModelMap =
     [(''gpt-5.6-sol'', ''gpt-5.6-sol''),
      (''gpt-5.6-terra'', ''gpt-5.6-terra''),
      (''gpt-5.6-luna'', ''gpt-5.6-luna''),
      (''gpt-5.5'', ''gpt-5.5''),
      (''gpt-5.5-pro'', ''gpt-5.5-pro''),
      (''codex-auto-review'', ''codex-auto-review''),
      (''gpt-5.4'', ''gpt-5.4''),
      (''gpt-5.4-mini'', ''gpt-5.4-mini''),
      (''gpt-5.4-none'', ''gpt-5.4''),
      (''gpt-5.4-low'', ''gpt-5.4''),
      (''gpt-5.4-medium'', ''gpt-5.4''),
      (''gpt-5.4-high'', ''gpt-5.4''),
      (''gpt-5.4-xhigh'', ''gpt-5.4''),
      (''gpt-5.4-chat-latest'', ''gpt-5.4''),
      (''gpt-5.3'', ''gpt-5.3-codex''),
      (''gpt-5.3-none'', ''gpt-5.3-codex''),
      (''gpt-5.3-low'', ''gpt-5.3-codex''),
      (''gpt-5.3-medium'', ''gpt-5.3-codex''),
      (''gpt-5.3-high'', ''gpt-5.3-codex''),
      (''gpt-5.3-xhigh'', ''gpt-5.3-codex''),
      (''gpt-5.3-codex'', ''gpt-5.3-codex''),
      (''gpt-5.3-codex-spark'', ''gpt-5.3-codex-spark''),
      (''gpt-5.3-codex-low'', ''gpt-5.3-codex''),
      (''gpt-5.3-codex-medium'', ''gpt-5.3-codex''),
      (''gpt-5.3-codex-high'', ''gpt-5.3-codex''),
      (''gpt-5.3-codex-xhigh'', ''gpt-5.3-codex''),
      (''gpt-5.2'', ''gpt-5.2''),
      (''gpt-5.2-none'', ''gpt-5.2''),
      (''gpt-5.2-low'', ''gpt-5.2''),
      (''gpt-5.2-medium'', ''gpt-5.2''),
      (''gpt-5.2-high'', ''gpt-5.2''),
      (''gpt-5.2-xhigh'', ''gpt-5.2''),
      (''gpt-5'', ''gpt-5.4''),
      (''gpt-5-mini'', ''gpt-5.4''),
      (''gpt-5-nano'', ''gpt-5.4''),
      (''gpt-5.1'', ''gpt-5.4''),
      (''gpt-5.1-codex'', ''gpt-5.3-codex''),
      (''gpt-5.1-codex-max'', ''gpt-5.3-codex''),
      (''gpt-5.1-codex-mini'', ''gpt-5.3-codex''),
      (''gpt-5.2-codex'', ''gpt-5.2''),
      (''codex-mini-latest'', ''gpt-5.3-codex''),
      (''gpt-5-codex'', ''gpt-5.3-codex'')]"

definition codexModelLookupKey :: "string \<Rightarrow> string" where
  "codexModelLookupKey modelID =
     (let m = trim_space modelID in
      if m = [] then []
      else to_lower (join ''-'' (fields (if contains m ''/'' then last (split_at (CHR ''/'') m) else m))))"

definition getNormalizedCodexModel :: "string \<Rightarrow> string" where
  "getNormalizedCodexModel modelID =
     (let key = codexModelLookupKey modelID in
      if key = [] then [] else (case map_of codexModelMap key of Some mapped \<Rightarrow> mapped | None \<Rightarrow> []))"

definition isCodexDateSuffix :: "string \<Rightarrow> bool" where
  "isCodexDateSuffix s \<longleftrightarrow>
     (let parts = split_at (CHR ''-'') s in
      map length parts = [4, 2, 2] \<and> list_all (list_all (in_range 48 57)) parts)"

definition isKnownCodexModelSuffix :: "string \<Rightarrow> bool" where
  "isKnownCodexModelSuffix s \<longleftrightarrow>
     s \<in> set [''none'', ''minimal'', ''low'', ''medium'', ''high'', ''xhigh''] \<or> isCodexDateSuffix s"

definition normalizeKnownOpenAICodexModel :: "string \<Rightarrow> string" where
  "normalizeKnownOpenAICodexModel model =
     (let n = canonicalizeOpenAIModelAliasSpelling model in
      if n = [] then []
      else if getNormalizedCodexModel n \<noteq> [] then getNormalizedCodexModel n
      else if has_suffix ''-openai-compact'' n \<and> getNormalizedCodexModel (trim_suffix ''-openai-compact'' n) \<noteq> []
        then getNormalizedCodexModel (trim_suffix ''-openai-compact'' n)
      else if n = ''gpt-6-astra'' \<or> has_prefix ''gpt-6-astra-'' n then ''gpt-6-astra''
      else if n = ''gpt-6-sol'' \<or> has_prefix ''gpt-6-sol-'' n then ''gpt-6-sol''
      else if n = ''gpt-6-luna'' \<or> has_prefix ''gpt-6-luna-'' n then ''gpt-6-luna''
      else if contains n ''gpt-5.6-sol'' then ''gpt-5.6-sol''
      else if contains n ''gpt-5.6-terra'' then ''gpt-5.6-terra''
      else if contains n ''gpt-5.6-luna'' then ''gpt-5.6-luna''
      else if n = ''gpt-5.6'' then ''gpt-5.6-sol''
      else if has_prefix ''gpt-5.6-'' n then
        (let s = trim_prefix ''gpt-5.6-'' n in
         if s = ''max'' \<or> isKnownCodexModelSuffix s then ''gpt-5.6-sol'' else [])
      else if contains n ''gpt-5.5-pro'' then ''gpt-5.5-pro''
      else if contains n ''gpt-5.5'' then ''gpt-5.5''
      else if contains n ''gpt-5.4-mini'' then ''gpt-5.4-mini''
      else if contains n ''gpt-5.4-nano'' then ''gpt-5.4-nano''
      else if contains n ''gpt-5.4'' then ''gpt-5.4''
      else if contains n ''gpt-5.2'' then ''gpt-5.2''
      else if contains n ''gpt-5.3-codex-spark'' then ''gpt-5.3-codex-spark''
      else if contains n ''gpt-5.3-codex'' then ''gpt-5.3-codex''
      else if contains n ''gpt-5.3'' then ''gpt-5.3-codex''
      else if contains n ''codex'' then ''gpt-5.3-codex''
      else if contains n ''gpt-5'' then ''gpt-5.4''
      else [])"

definition isOpenAIGPT56Model :: "string \<Rightarrow> bool" where
  "isOpenAIGPT56Model model \<longleftrightarrow>
     (let n = canonicalizeOpenAIModelAliasSpelling model in
      n = ''gpt-5.6'' \<or>
      (case cut_prefix ''gpt-5.6-'' n of Some s \<Rightarrow> s = ''max'' \<or> isKnownCodexModelSuffix s | None \<Rightarrow> False) \<or>
      list_ex (\<lambda>p. n = p \<or> has_prefix (p @ ''-'') n) [''gpt-5.6-sol'', ''gpt-5.6-terra'', ''gpt-5.6-luna''])"

definition usesOpenAILegacyLongContextPricing :: "string \<Rightarrow> bool" where
  "usesOpenAILegacyLongContextPricing normalized \<longleftrightarrow>
     normalized = ''gpt-5.4'' \<or> normalized = ''gpt-5.5'' \<or> normalized = ''gpt-5.5-pro''"

text \<open>The models a usage may be billed by: every name of the request in turn, each with its canonical
  spelling and its base model, without repetition up to case.\<close>

definition add_candidate :: "string \<Rightarrow> string list \<Rightarrow> string list" where
  "add_candidate candidate candidates =
     (let c = trim_space candidate in
      if c = [] \<or> to_lower c \<in> set (map to_lower candidates) then candidates else candidates @ [c])"

definition appendUsageBillingModelCandidate :: "string list \<Rightarrow> string \<Rightarrow> string list" where
  "appendUsageBillingModelCandidate candidates model =
     (let t = trim_space model in
      if t = [] then candidates
      else
        let c = add_candidate t candidates;
            canonical = canonicalizeOpenAIModelAliasSpelling t;
            c = (if canonical \<noteq> [] then add_candidate canonical c else c);
            normalized = normalizeKnownOpenAICodexModel t
        in if normalized \<noteq> [] then add_candidate normalized c else c)"

definition usageBillingModelCandidates :: "string \<Rightarrow> string list \<Rightarrow> string list" where
  "usageBillingModelCandidates primary alternates =
     foldl appendUsageBillingModelCandidate (appendUsageBillingModelCandidate [] primary) alternates"

fun firstUsageBillingModel :: "string list \<Rightarrow> string" where
  "firstUsageBillingModel [] = []"
| "firstUsageBillingModel (c # cs) = (if trim_space c \<noteq> [] then trim_space c else firstUsageBillingModel cs)"

definition IsGPTImageGenerationModel :: "string \<Rightarrow> bool" where
  "IsGPTImageGenerationModel model \<longleftrightarrow>
     (let m = to_lower (trim_space model) in
      has_prefix ''gpt-image-'' m \<or> m = ''gptimage2'' \<or> m = ''gpt-image2'' \<or> m = ''gptimage-2'')"

definition isGrokImageGenerationModel :: "string \<Rightarrow> bool" where
  "isGrokImageGenerationModel model \<longleftrightarrow>
     (let m = to_lower (trim_space model) in
      m = ''grok-imagine'' \<or> m = ''grok-imagine-edit'' \<or> has_prefix ''grok-imagine-image'' m)"

definition isCompatibleImageGenerationModel :: "string \<Rightarrow> bool" where
  "isCompatibleImageGenerationModel model \<longleftrightarrow>
     to_lower (trim_space model) \<in>
       set [''gpt-2.0'', ''gpt-2.5-fast'', ''gpt-2.5-pro'', ''gpt-2.0-4k'', ''banana-2'', ''banana-pro'']"

definition isOpenAIImageGenerationModel :: "string \<Rightarrow> bool" where
  "isOpenAIImageGenerationModel model \<longleftrightarrow>
     IsGPTImageGenerationModel model \<or> isGrokImageGenerationModel model \<or> isCompatibleImageGenerationModel model"

section \<open>Names in the price list\<close>

definition lastSegment :: "string \<Rightarrow> string" where
  "lastSegment model = after_last ''/'' model"

definition normalizeGeminiThinkingTierAlias :: "string \<Rightarrow> string" where
  "normalizeGeminiThinkingTierAlias model =
     (if list_ex (\<lambda>tier. model = ''gemini-3.6-flash'' @ tier) [''-high'', ''-low'', ''-medium'', ''-tiered'']
      then ''gemini-3.6-flash'' else model)"

definition normalizeModelNameForPricing :: "string \<Rightarrow> string" where
  "normalizeModelNameForPricing model =
     (let m = dropWhile (\<lambda>a. a = CHR ''/'') (trim_space model);
          m = trim_prefix ''publishers/google/models/'' (trim_prefix ''models/'' m);
          m = after_last ''/models/'' (after_last ''/publishers/google/models/'' m);
          m = dropWhile (\<lambda>a. a = CHR ''/'') m;
          canonical = canonicalizeOpenAIModelAliasSpelling m
      in if canonical \<noteq> [] then
           (if canonical = ''gpt-5.6'' then ''gpt-5.6-sol''
            else (case cut_prefix ''gpt-5.6-'' canonical of
                    Some s \<Rightarrow> if s = ''max'' \<or> isKnownCodexModelSuffix s then ''gpt-5.6-sol'' else canonical
                  | None \<Rightarrow> canonical))
         else normalizeGeminiThinkingTierAlias m)"

definition extractBaseName :: "string \<Rightarrow> string" where
  "extractBaseName model =
     join ''-'' (filter (\<lambda>part. \<not> (length part = 8 \<and> list_all (in_range 48 57) part) \<and> \<not> contains part '':'')
       (split_at (CHR ''-'') model))"

definition buildModelLookupCandidates :: "string \<Rightarrow> string list" where
  "buildModelLookupCandidates modelLower =
     (let raw = [modelLower, trim_prefix ''models/'' modelLower, lastSegment modelLower,
                 lastSegment (trim_prefix ''models/'' modelLower)];
          normalized = normalizeModelNameForPricing modelLower;
          candidates =
            (if normalizeGeminiThinkingTierAlias (lastSegment modelLower) \<noteq> lastSegment modelLower
             then raw @ [normalized] else normalized # raw);
          out = foldl (\<lambda>out c. let t = trim_space c in if t = [] \<or> t \<in> set out then out else out @ [t]) [] candidates
      in if out = [] then [modelLower] else out)"

text \<open>The two regular expressions of the OpenAI fallbacks: a date at the end (\<open>-\d{8}$\<close>), and a name
  that begins with a bare version (\<open>^(gpt-\d+(?:\.\d+)?)(?:-|$)\<close>).\<close>

definition without_date :: "string \<Rightarrow> string" where
  "without_date model =
     (let n = length model - 9 in
      if 9 \<le> length model \<and> model ! n = CHR ''-'' \<and> list_all (in_range 48 57) (drop (Suc n) model)
      then take n model else model)"

definition bare_version :: "string \<Rightarrow> string option" where
  "bare_version model =
     (case cut_prefix ''gpt-'' model of
        None \<Rightarrow> None
      | Some s \<Rightarrow>
          let major = takeWhile (in_range 48 57) s;
              rest = dropWhile (in_range 48 57) s;
              minor = (case rest of a # t \<Rightarrow> if a = CHR ''.'' then takeWhile (in_range 48 57) t else [] | [] \<Rightarrow> []);
              version = major @ (if minor = [] then [] else CHR ''.'' # minor);
              after = drop (length version) s
          in if major \<noteq> [] \<and> (after = [] \<or> hd after = CHR ''-'') then Some (''gpt-'' @ version) else None)"

definition generateOpenAIModelVariants :: "string \<Rightarrow> string list" where
  "generateOpenAIModelVariants model =
     (let add = (\<lambda>v vs. if v = model \<or> v \<in> set vs then vs else vs @ [v]);
          withoutDate = without_date model;
          vs = (if withoutDate \<noteq> model then add withoutDate [] else []);
          vs = (case bare_version model of Some v \<Rightarrow> add v vs | None \<Rightarrow> vs)
      in if withoutDate \<noteq> model
         then (case bare_version withoutDate of Some v \<Rightarrow> add v vs | None \<Rightarrow> vs)
         else vs)"

text \<open>Names of the price lists of channels and groups.\<close>

definition normalizeChannelPricingModelName :: "string \<Rightarrow> string" where
  "normalizeChannelPricingModelName model =
     (let m = to_lower (trim_space model) in if has_prefix ''claude-'' m then replace_all ''.'' ''-'' m else m)"

end
