(* ===== verification/UsageCost.thy ===== *)
theory UsageCost
  imports Complex_Main ModelNames
begin

text \<open>
  What the tokens of one request cost (\<open>service/usage_safety.go\<close> and the token part of
  \<open>service/billing_service.go\<close>): the counts an upstream reports and their validation, the price card of a
  model, and the breakdown of a cost. Amounts and prices, \<open>float64\<close> in the source, are exact rationals
  here; counts are Go's 64-bit \<open>int\<close>, whose bound appears where the source checks it.
\<close>

datatype price_error =
    ErrInvalidUsageTokens string
  | ErrModelPricingUnavailable string
  | PricingFailure string

definition MaxInt :: int where
  "MaxInt = 9223372036854775807"

section \<open>Reported usage\<close>

record UsageTokens =
  ut_InputTokens :: int
  ut_ImageInputTokens :: int
  ut_OutputTokens :: int
  ut_CacheCreationTokens :: int
  ut_CacheReadTokens :: int
  ut_CacheCreation5mTokens :: int
  ut_CacheCreation1hTokens :: int
  ut_ImageOutputTokens :: int

definition no_tokens :: UsageTokens where
  "no_tokens =
     \<lparr>ut_InputTokens = 0, ut_ImageInputTokens = 0, ut_OutputTokens = 0, ut_CacheCreationTokens = 0,
      ut_CacheReadTokens = 0, ut_CacheCreation5mTokens = 0, ut_CacheCreation1hTokens = 0,
      ut_ImageOutputTokens = 0\<rparr>"

definition maxReportedUsageTokens :: int where
  "maxReportedUsageTokens = 100000000"

definition maxBillableRequestCount :: int where
  "maxBillableRequestCount = maxReportedUsageTokens"

definition addBoundedReportedUsageInts :: "int \<Rightarrow> int \<Rightarrow> int option" where
  "addBoundedReportedUsageInts left right =
     (if left < 0 \<or> right < 0 \<or> left > maxReportedUsageTokens \<or> right > maxReportedUsageTokens \<or>
         left > maxReportedUsageTokens - right then None
      else Some (left + right))"

definition usage_fields :: "UsageTokens \<Rightarrow> (string \<times> int) list" where
  "usage_fields tokens =
     [(''input_tokens'', ut_InputTokens tokens),
      (''image_input_tokens'', ut_ImageInputTokens tokens),
      (''output_tokens'', ut_OutputTokens tokens),
      (''cache_creation_tokens'', ut_CacheCreationTokens tokens),
      (''cache_read_tokens'', ut_CacheReadTokens tokens),
      (''cache_creation_5m_tokens'', ut_CacheCreation5mTokens tokens),
      (''cache_creation_1h_tokens'', ut_CacheCreation1hTokens tokens),
      (''image_output_tokens'', ut_ImageOutputTokens tokens)]"

definition validateUsageTokens :: "UsageTokens \<Rightarrow> price_error option" where
  "validateUsageTokens tokens =
     (case find (\<lambda>(name, value). value < 0 \<or> value > maxReportedUsageTokens) (usage_fields tokens) of
        Some (name, _) \<Rightarrow> Some (ErrInvalidUsageTokens name)
      | None \<Rightarrow>
          if addBoundedReportedUsageInts (ut_CacheCreation5mTokens tokens) (ut_CacheCreation1hTokens tokens) = None
          then Some (ErrInvalidUsageTokens ''cache_creation_breakdown'') else None)"

definition validUsageTokens :: "UsageTokens \<Rightarrow> bool" where
  "validUsageTokens tokens \<longleftrightarrow> validateUsageTokens tokens = None"

fun sum_from :: "int \<Rightarrow> int list \<Rightarrow> int option" where
  "sum_from tot [] = Some tot"
| "sum_from tot (v # vs) = (if v < 0 \<or> tot > MaxInt - v then None else sum_from (tot + v) vs)"

definition sumNonNegativeInts :: "int list \<Rightarrow> int option" where
  "sumNonNegativeInts values = sum_from 0 values"

definition validBillableRequestCount :: "int \<Rightarrow> bool" where
  "validBillableRequestCount count \<longleftrightarrow> 0 \<le> count \<and> count \<le> maxBillableRequestCount"

definition validReportedUsageTokenCount :: "int \<Rightarrow> bool" where
  "validReportedUsageTokenCount v \<longleftrightarrow> 0 \<le> v \<and> v \<le> maxReportedUsageTokens"

text \<open>The counts as the protocols report them; a count out of range empties the whole report.\<close>

record OpenAIUsage =
  ou_InputTokens :: int
  ou_ImageInputTokens :: int
  ou_OutputTokens :: int
  ou_CacheCreationInputTokens :: int
  ou_CacheReadInputTokens :: int
  ou_ImageOutputTokens :: int

record ClaudeUsage =
  cu_InputTokens :: int
  cu_OutputTokens :: int
  cu_CacheCreationInputTokens :: int
  cu_CacheReadInputTokens :: int
  cu_CacheCreation5mTokens :: int
  cu_CacheCreation1hTokens :: int
  cu_ImageOutputTokens :: int

definition no_claude_usage :: ClaudeUsage where
  "no_claude_usage =
     \<lparr>cu_InputTokens = 0, cu_OutputTokens = 0, cu_CacheCreationInputTokens = 0, cu_CacheReadInputTokens = 0,
      cu_CacheCreation5mTokens = 0, cu_CacheCreation1hTokens = 0, cu_ImageOutputTokens = 0\<rparr>"

definition no_openai_usage :: OpenAIUsage where
  "no_openai_usage =
     \<lparr>ou_InputTokens = 0, ou_ImageInputTokens = 0, ou_OutputTokens = 0, ou_CacheCreationInputTokens = 0,
      ou_CacheReadInputTokens = 0, ou_ImageOutputTokens = 0\<rparr>"

definition sanitizeOpenAIUsage :: "OpenAIUsage \<Rightarrow> bool \<times> OpenAIUsage" where
  "sanitizeOpenAIUsage usage =
     (if list_all validReportedUsageTokenCount
           [ou_InputTokens usage, ou_ImageInputTokens usage, ou_OutputTokens usage,
            ou_CacheCreationInputTokens usage, ou_CacheReadInputTokens usage, ou_ImageOutputTokens usage]
      then (True, usage) else (False, no_openai_usage))"

definition sanitizeClaudeUsage :: "ClaudeUsage \<Rightarrow> bool \<times> ClaudeUsage" where
  "sanitizeClaudeUsage usage =
     (if list_all validReportedUsageTokenCount
           [cu_InputTokens usage, cu_OutputTokens usage, cu_CacheCreationInputTokens usage,
            cu_CacheReadInputTokens usage, cu_CacheCreation5mTokens usage, cu_CacheCreation1hTokens usage] \<and>
         \<not> cu_CacheCreation5mTokens usage > maxReportedUsageTokens - cu_CacheCreation1hTokens usage \<and>
         validReportedUsageTokenCount (cu_ImageOutputTokens usage)
      then (True, usage) else (False, no_claude_usage))"

lemma validUsageTokens_iff:
  "validUsageTokens t \<longleftrightarrow>
     list_all validReportedUsageTokenCount (map snd (usage_fields t)) \<and>
     ut_CacheCreation5mTokens t + ut_CacheCreation1hTokens t \<le> maxReportedUsageTokens"
  by (auto simp: validUsageTokens_def validateUsageTokens_def usage_fields_def validReportedUsageTokenCount_def
      addBoundedReportedUsageInts_def split: if_splits)

lemma valid_counts:
  assumes "validUsageTokens t"
  shows "0 \<le> ut_InputTokens t" "0 \<le> ut_ImageInputTokens t" "0 \<le> ut_OutputTokens t"
    "0 \<le> ut_CacheCreationTokens t" "0 \<le> ut_CacheReadTokens t" "0 \<le> ut_CacheCreation5mTokens t"
    "0 \<le> ut_CacheCreation1hTokens t" "0 \<le> ut_ImageOutputTokens t"
    "ut_InputTokens t \<le> 100000000" "ut_CacheCreationTokens t \<le> 100000000" "ut_CacheReadTokens t \<le> 100000000"
  using assms
  by (simp_all add: validUsageTokens_iff usage_fields_def validReportedUsageTokenCount_def maxReportedUsageTokens_def)

lemma context_sum:
  "validUsageTokens t \<Longrightarrow>
     sumNonNegativeInts [ut_InputTokens t, ut_CacheCreationTokens t, ut_CacheReadTokens t] =
       Some (ut_InputTokens t + ut_CacheCreationTokens t + ut_CacheReadTokens t)"
  using valid_counts [of t] by (simp add: sumNonNegativeInts_def MaxInt_def)

section \<open>Price cards and breakdowns\<close>

record ModelPricing =
  mp_InputPricePerToken :: rat
  mp_InputPricePerTokenPriority :: rat
  mp_ImageInputPricePerToken :: rat
  mp_OutputPricePerToken :: rat
  mp_OutputPricePerTokenPriority :: rat
  mp_CacheCreationPricePerToken :: rat
  mp_CacheCreationPricePerTokenPriority :: rat
  mp_CacheCreationPriceExplicit :: bool
  mp_CacheReadPricePerToken :: rat
  mp_CacheReadPricePerTokenPriority :: rat
  mp_CacheCreation5mPrice :: rat
  mp_CacheCreation1hPrice :: rat
  mp_SupportsCacheBreakdown :: bool
  mp_LongContextInputThreshold :: int
  mp_LongContextInputMultiplier :: rat
  mp_LongContextOutputMultiplier :: rat
  mp_ImageOutputPricePerToken :: rat
  mp_ImageOutputPriceExplicit :: bool

definition no_price :: ModelPricing where
  "no_price =
     \<lparr>mp_InputPricePerToken = 0, mp_InputPricePerTokenPriority = 0, mp_ImageInputPricePerToken = 0,
      mp_OutputPricePerToken = 0, mp_OutputPricePerTokenPriority = 0, mp_CacheCreationPricePerToken = 0,
      mp_CacheCreationPricePerTokenPriority = 0, mp_CacheCreationPriceExplicit = False,
      mp_CacheReadPricePerToken = 0, mp_CacheReadPricePerTokenPriority = 0, mp_CacheCreation5mPrice = 0,
      mp_CacheCreation1hPrice = 0, mp_SupportsCacheBreakdown = False, mp_LongContextInputThreshold = 0,
      mp_LongContextInputMultiplier = 0, mp_LongContextOutputMultiplier = 0, mp_ImageOutputPricePerToken = 0,
      mp_ImageOutputPriceExplicit = False\<rparr>"

text \<open>A breakdown may carry the breakdown the customer pays by; that one carries none, so the two layers
  are a record and its extension.\<close>

record CostAmounts =
  bd_InputCost :: rat
  bd_ImageInputCost :: rat
  bd_OutputCost :: rat
  bd_ImageOutputCost :: rat
  bd_CacheCreationCost :: rat
  bd_CacheReadCost :: rat
  bd_TotalCost :: rat
  bd_ActualCost :: rat
  bd_BillingMode :: string
  bd_LongContextBillingApplied :: bool

record FullCostBreakdown = CostAmounts +
  bd_CustomerBase :: "CostAmounts option"

definition no_cost :: FullCostBreakdown where
  "no_cost =
     \<lparr>bd_InputCost = 0, bd_ImageInputCost = 0, bd_OutputCost = 0, bd_ImageOutputCost = 0,
      bd_CacheCreationCost = 0, bd_CacheReadCost = 0, bd_TotalCost = 0, bd_ActualCost = 0, bd_BillingMode = [],
      bd_LongContextBillingApplied = False, bd_CustomerBase = None\<rparr>"

definition openAIGPT54LongContextInputThreshold :: int where
  "openAIGPT54LongContextInputThreshold = 272000"

definition openAIGPT54LongContextInputMultiplier :: rat where
  "openAIGPT54LongContextInputMultiplier = 2"

definition openAIGPT54LongContextOutputMultiplier :: rat where
  "openAIGPT54LongContextOutputMultiplier = 3 / 2"

definition normalizeBillingServiceTier :: "string \<Rightarrow> string" where
  "normalizeBillingServiceTier serviceTier = to_lower (trim_space serviceTier)"

definition usePriorityServiceTierPricing :: "string \<Rightarrow> ModelPricing \<Rightarrow> bool" where
  "usePriorityServiceTierPricing serviceTier pricing \<longleftrightarrow>
     normalizeBillingServiceTier serviceTier = ''priority'' \<and>
     (mp_InputPricePerTokenPriority pricing > 0 \<or> mp_OutputPricePerTokenPriority pricing > 0 \<or>
      mp_CacheCreationPricePerTokenPriority pricing > 0 \<or> mp_CacheReadPricePerTokenPriority pricing > 0)"

definition serviceTierCostMultiplier :: "string \<Rightarrow> rat" where
  "serviceTierCostMultiplier serviceTier =
     (if normalizeBillingServiceTier serviceTier = ''priority'' then 2
      else if normalizeBillingServiceTier serviceTier = ''flex'' then 1 / 2
      else 1)"

definition shouldApplySessionLongContextPricing :: "UsageTokens \<Rightarrow> ModelPricing \<Rightarrow> bool" where
  "shouldApplySessionLongContextPricing tokens pricing \<longleftrightarrow>
     \<not> (mp_LongContextInputThreshold pricing \<le> 0 \<or> \<not> validUsageTokens tokens) \<and>
     \<not> (mp_LongContextInputMultiplier pricing \<le> 1 \<and> mp_LongContextOutputMultiplier pricing \<le> 1) \<and>
     (case sumNonNegativeInts [ut_InputTokens tokens, ut_CacheCreationTokens tokens, ut_CacheReadTokens tokens] of
        None \<Rightarrow> False
      | Some tot \<Rightarrow> tot > mp_LongContextInputThreshold pricing)"

section \<open>The token breakdown\<close>

text \<open>The unit prices of one computation: those of the service tier, then those of a long context.\<close>

record unit_prices =
  up_input :: rat
  up_output :: rat
  up_cacheRead :: rat
  up_cacheCreation :: rat
  up_cacheCreationMultiplier :: rat
  up_tierMultiplier :: rat

definition tier_prices :: "ModelPricing \<Rightarrow> string \<Rightarrow> unit_prices" where
  "tier_prices pricing serviceTier =
     (if usePriorityServiceTierPricing serviceTier pricing then
        \<lparr>up_input = (if mp_InputPricePerTokenPriority pricing > 0 then mp_InputPricePerTokenPriority pricing
                    else mp_InputPricePerToken pricing),
         up_output = (if mp_OutputPricePerTokenPriority pricing > 0 then mp_OutputPricePerTokenPriority pricing
                     else mp_OutputPricePerToken pricing),
         up_cacheRead = (if mp_CacheReadPricePerTokenPriority pricing > 0 then mp_CacheReadPricePerTokenPriority pricing
                        else mp_CacheReadPricePerToken pricing),
         up_cacheCreation = (if mp_CacheCreationPricePerTokenPriority pricing > 0
                            then mp_CacheCreationPricePerTokenPriority pricing
                            else mp_CacheCreationPricePerToken pricing),
         up_cacheCreationMultiplier = 1, up_tierMultiplier = 1\<rparr>
      else
        \<lparr>up_input = mp_InputPricePerToken pricing, up_output = mp_OutputPricePerToken pricing,
         up_cacheRead = mp_CacheReadPricePerToken pricing, up_cacheCreation = mp_CacheCreationPricePerToken pricing,
         up_cacheCreationMultiplier = 1, up_tierMultiplier = serviceTierCostMultiplier serviceTier\<rparr>)"

definition long_context_prices :: "ModelPricing \<Rightarrow> unit_prices \<Rightarrow> unit_prices" where
  "long_context_prices pricing p =
     p\<lparr>up_input := up_input p * mp_LongContextInputMultiplier pricing,
       up_output := up_output p * mp_LongContextOutputMultiplier pricing,
       up_cacheRead := up_cacheRead p * mp_LongContextInputMultiplier pricing,
       up_cacheCreationMultiplier := mp_LongContextInputMultiplier pricing\<rparr>"

definition computeCacheCreationCost :: "ModelPricing \<Rightarrow> UsageTokens \<Rightarrow> rat \<Rightarrow> rat \<Rightarrow> rat" where
  "computeCacheCreationCost pricing tokens price multiplier =
     (if \<not> validUsageTokens tokens then 0
      else if mp_SupportsCacheBreakdown pricing \<and> (mp_CacheCreation5mPrice pricing > 0 \<or> mp_CacheCreation1hPrice pricing > 0) then
        (if ut_CacheCreation5mTokens tokens = 0 \<and> ut_CacheCreation1hTokens tokens = 0 \<and> ut_CacheCreationTokens tokens > 0
         then of_int (ut_CacheCreationTokens tokens) * mp_CacheCreation5mPrice pricing * multiplier
         else of_int (ut_CacheCreation5mTokens tokens) * mp_CacheCreation5mPrice pricing * multiplier +
              of_int (ut_CacheCreation1hTokens tokens) * mp_CacheCreation1hPrice pricing * multiplier)
      else of_int (ut_CacheCreationTokens tokens) * price * multiplier)"

text \<open>The body of \<open>computeTokenBreakdown\<close> after its prices are known, up to \<open>ActualCost\<close>.\<close>

definition token_amounts :: "ModelPricing \<Rightarrow> UsageTokens \<Rightarrow> unit_prices \<Rightarrow> rat \<Rightarrow> FullCostBreakdown" where
  "token_amounts pricing tokens p rateMultiplier =
     (let tier = up_tierMultiplier p;
          image = ut_ImageInputTokens tokens;
          overflow = ut_InputTokens tokens - image < 0;
          textInputTokens = (if image > 0 then (if overflow then 0 else ut_InputTokens tokens - image) else ut_InputTokens tokens);
          imageInputTokens = (if image > 0 then (if overflow then ut_InputTokens tokens else image) else 0);
          imageInputPrice = (if mp_ImageInputPricePerToken pricing = 0 then up_input p else mp_ImageInputPricePerToken pricing);
          textOutputTokens = max 0 (ut_OutputTokens tokens - ut_ImageOutputTokens tokens);
          imgPrice = (if mp_ImageOutputPricePerToken pricing = 0 \<and> \<not> mp_ImageOutputPriceExplicit pricing
                      then up_output p else mp_ImageOutputPricePerToken pricing);
          imageOutput = (if ut_ImageOutputTokens tokens > 0 then of_int (ut_ImageOutputTokens tokens) * imgPrice else 0);
          inputCost = of_int textInputTokens * up_input p * tier;
          imageInputCost = of_int imageInputTokens * imageInputPrice * tier;
          outputCost = of_int textOutputTokens * up_output p * tier;
          imageOutputCost = imageOutput * tier;
          cacheCreationCost =
            computeCacheCreationCost pricing tokens (up_cacheCreation p) (up_cacheCreationMultiplier p) * tier;
          cacheReadCost = of_int (ut_CacheReadTokens tokens) * up_cacheRead p * tier;
          tot = inputCost + imageInputCost + outputCost + imageOutputCost + cacheCreationCost + cacheReadCost
      in no_cost\<lparr>bd_InputCost := inputCost, bd_ImageInputCost := imageInputCost, bd_OutputCost := outputCost,
           bd_ImageOutputCost := imageOutputCost, bd_CacheCreationCost := cacheCreationCost,
           bd_CacheReadCost := cacheReadCost, bd_TotalCost := tot, bd_ActualCost := tot * rateMultiplier\<rparr>)"

fun computeTokenBreakdown :: "ModelPricing option \<Rightarrow> UsageTokens \<Rightarrow> rat \<Rightarrow> string \<Rightarrow> bool \<Rightarrow> FullCostBreakdown" where
  "computeTokenBreakdown None tokens rateMultiplier serviceTier applyLongCtx = no_cost"
| "computeTokenBreakdown (Some pricing) tokens rateMultiplier serviceTier applyLongCtx =
     (if \<not> validUsageTokens tokens then no_cost
      else
        let rate = (if rateMultiplier < 0 then 0 else rateMultiplier);
            p = tier_prices pricing serviceTier
        in if applyLongCtx \<and> shouldApplySessionLongContextPricing tokens pricing
           then let baselineCost = token_amounts pricing tokens p rate;
                    bd = token_amounts pricing tokens (long_context_prices pricing p) rate
                in bd\<lparr>bd_LongContextBillingApplied := bd_ActualCost bd > bd_ActualCost baselineCost\<rparr>
           else token_amounts pricing tokens p rate)"

end
