(* ===== verification/PriceCatalog.thy ===== *)
theory PriceCatalog
  imports UsageCost
begin

text \<open>
  Where the price of a model comes from without any configuration: the price list of \<open>PricingService\<close>
  (\<open>service/pricing_service.go\<close>), which is searched exactly, by base name and by family, and the built-in
  prices of \<open>BillingService\<close> (\<open>service/billing_service.go\<close>); and the cost functions that use them alone.

  A price list is an association list. Go iterates over a map in an order of its own choosing, so the order
  of the list stands for that choice; the lookups by key do not depend on it. Decoding JSON and reading
  files are not modelled: a parsed file is a list of its entries, \<open>None\<close> for one that does not decode.
  Log lines are left out.
\<close>

section \<open>The price list\<close>

record LiteLLMModelPricing =
  lp_InputCostPerToken :: rat
  lp_InputCostPerTokenPriority :: rat
  lp_OutputCostPerToken :: rat
  lp_OutputCostPerTokenPriority :: rat
  lp_CacheCreationInputTokenCost :: rat
  lp_CacheCreationInputTokenCostPriority :: rat
  lp_CacheCreationInputTokenCostAbove1hr :: rat
  lp_CacheReadInputTokenCost :: rat
  lp_CacheReadInputTokenCostPriority :: rat
  lp_LongContextInputTokenThreshold :: int
  lp_LongContextInputCostMultiplier :: rat
  lp_LongContextOutputCostMultiplier :: rat
  lp_SupportsServiceTier :: bool
  lp_LiteLLMProvider :: string
  lp_Mode :: string
  lp_SupportsPromptCaching :: bool
  lp_OutputCostPerImage :: rat
  lp_OutputCostPerImageToken :: rat
  lp_InputCostPerImageToken :: rat
  lp_TokenPricingAbsent :: bool

record LiteLLMRawEntry =
  re_InputCostPerToken :: "rat option"
  re_InputCostPerTokenPriority :: "rat option"
  re_OutputCostPerToken :: "rat option"
  re_OutputCostPerTokenPriority :: "rat option"
  re_CacheCreationInputTokenCost :: "rat option"
  re_CacheCreationInputTokenCostPriority :: "rat option"
  re_CacheCreationInputTokenCostAbove1hr :: "rat option"
  re_CacheReadInputTokenCost :: "rat option"
  re_CacheReadInputTokenCostPriority :: "rat option"
  re_LongContextInputTokenThreshold :: "int option"
  re_LongContextInputCostMultiplier :: "rat option"
  re_LongContextOutputCostMultiplier :: "rat option"
  re_SupportsServiceTier :: bool
  re_LiteLLMProvider :: string
  re_Mode :: string
  re_SupportsPromptCaching :: bool
  re_OutputCostPerImage :: "rat option"
  re_OutputCostPerImageToken :: "rat option"
  re_InputCostPerImageToken :: "rat option"

type_synonym price_list = "(string \<times> LiteLLMModelPricing) list"

definition hasTokenPrice :: "LiteLLMModelPricing \<Rightarrow> bool" where
  "hasTokenPrice p \<longleftrightarrow>
     lp_InputCostPerToken p > 0 \<or> lp_OutputCostPerToken p > 0 \<or>
     lp_CacheCreationInputTokenCost p > 0 \<or> lp_CacheReadInputTokenCost p > 0 \<or>
     lp_InputCostPerImageToken p > 0 \<or> lp_OutputCostPerImageToken p > 0"

definition or_zero :: "'a :: zero option \<Rightarrow> 'a" where
  "or_zero v = (case v of Some x \<Rightarrow> x | None \<Rightarrow> 0)"

definition priced_entry :: "LiteLLMRawEntry \<Rightarrow> LiteLLMModelPricing option" where
  "priced_entry e =
     (if re_InputCostPerToken e = None \<and> re_OutputCostPerToken e = None \<and> re_OutputCostPerImage e = None \<and>
         re_OutputCostPerImageToken e = None \<and> re_InputCostPerImageToken e = None then None
      else Some
        \<lparr>lp_InputCostPerToken = or_zero (re_InputCostPerToken e),
         lp_InputCostPerTokenPriority = or_zero (re_InputCostPerTokenPriority e),
         lp_OutputCostPerToken = or_zero (re_OutputCostPerToken e),
         lp_OutputCostPerTokenPriority = or_zero (re_OutputCostPerTokenPriority e),
         lp_CacheCreationInputTokenCost = or_zero (re_CacheCreationInputTokenCost e),
         lp_CacheCreationInputTokenCostPriority = or_zero (re_CacheCreationInputTokenCostPriority e),
         lp_CacheCreationInputTokenCostAbove1hr = or_zero (re_CacheCreationInputTokenCostAbove1hr e),
         lp_CacheReadInputTokenCost = or_zero (re_CacheReadInputTokenCost e),
         lp_CacheReadInputTokenCostPriority = or_zero (re_CacheReadInputTokenCostPriority e),
         lp_LongContextInputTokenThreshold = or_zero (re_LongContextInputTokenThreshold e),
         lp_LongContextInputCostMultiplier = or_zero (re_LongContextInputCostMultiplier e),
         lp_LongContextOutputCostMultiplier = or_zero (re_LongContextOutputCostMultiplier e),
         lp_SupportsServiceTier = re_SupportsServiceTier e,
         lp_LiteLLMProvider = re_LiteLLMProvider e,
         lp_Mode = re_Mode e,
         lp_SupportsPromptCaching = re_SupportsPromptCaching e,
         lp_OutputCostPerImage = or_zero (re_OutputCostPerImage e),
         lp_OutputCostPerImageToken = or_zero (re_OutputCostPerImageToken e),
         lp_InputCostPerImageToken = or_zero (re_InputCostPerImageToken e),
         lp_TokenPricingAbsent = (re_InputCostPerToken e = None \<and> re_OutputCostPerToken e = None)\<rparr>)"

definition parsePricingData :: "(string \<times> LiteLLMRawEntry option) list \<Rightarrow> price_error + price_list" where
  "parsePricingData rawData =
     (let result =
        concat (map (\<lambda>(modelName, rawEntry).
          if modelName = ''sample_spec'' then []
          else (case rawEntry of
                  None \<Rightarrow> []
                | Some entry \<Rightarrow> (case priced_entry entry of None \<Rightarrow> [] | Some pricing \<Rightarrow> [(modelName, pricing)]))) rawData)
      in if result = [] then Inl (PricingFailure ''no valid pricing entries found'') else Inr result)"

text \<open>\<open>fallbackData\<close> is the parsed fallback file, or \<open>None\<close> where the file is not configured, cannot be
  read or does not parse.\<close>

definition mergeFallbackPricingData :: "price_list \<Rightarrow> price_list option \<Rightarrow> price_list" where
  "mergeFallbackPricingData data fallbackData =
     (case fallbackData of
        None \<Rightarrow> data
      | Some fallback \<Rightarrow> data @ filter (\<lambda>(modelName, _). map_of data modelName = None) fallback)"

section \<open>Families of Claude models\<close>

record model_family =
  mf_name :: string
  mf_match :: "string list"
  mf_pricing :: "string list"

definition family :: "string \<Rightarrow> string list \<Rightarrow> string list \<Rightarrow> model_family" where
  "family nm m p = \<lparr>mf_name = nm, mf_match = m, mf_pricing = p\<rparr>"

definition families :: "model_family list" where
  "families =
     [family ''opus-5.5'' [''claude-opus-5-5''] [],
      family ''fable-5.1'' [''claude-fable-5-1''] [],
      family ''mythos-5.1'' [''claude-mythos-5-1''] [],
      family ''sonnet-5'' [''claude-sonnet-5''] [],
      family ''opus-5'' [''claude-opus-5''] [''claude-opus-5'', ''claude-opus-4-8''],
      family ''opus-4.8'' [''claude-opus-4-8'', ''claude-opus-4.8'']
        [''claude-opus-4-8'', ''claude-opus-4.8'', ''claude-opus-4-7''],
      family ''opus-4.7'' [''claude-opus-4-7'', ''claude-opus-4.7'']
        [''claude-opus-4-7'', ''claude-opus-4.7'', ''claude-opus-4-6''],
      family ''opus-4.6'' [''claude-opus-4-6'', ''claude-opus-4.6''] [],
      family ''opus-4.5'' [''claude-opus-4-5'', ''claude-opus-4.5''] [],
      family ''opus-4'' [''claude-opus-4'', ''claude-3-opus''] [],
      family ''sonnet-4.5'' [''claude-sonnet-4-5'', ''claude-sonnet-4.5''] [],
      family ''sonnet-4'' [''claude-sonnet-4'', ''claude-3-5-sonnet''] [],
      family ''sonnet-3.5'' [''claude-3-5-sonnet'', ''claude-3.5-sonnet''] [],
      family ''sonnet-3'' [''claude-3-sonnet''] [],
      family ''haiku-3.5'' [''claude-3-5-haiku'', ''claude-3.5-haiku''] [],
      family ''haiku-3'' [''claude-3-haiku''] []]"

definition fallback_family_name :: "string \<Rightarrow> string" where
  "fallback_family_name model =
     (if contains model ''opus'' then
        (if contains model ''opus-5-5'' then ''opus-5.5''
         else if contains model ''opus-5'' \<or> contains model ''opus5'' then ''opus-5''
         else if contains model ''4.8'' \<or> contains model ''4-8'' then ''opus-4.8''
         else if contains model ''4.7'' \<or> contains model ''4-7'' then ''opus-4.7''
         else if contains model ''4.6'' \<or> contains model ''4-6'' then ''opus-4.6''
         else if contains model ''4.5'' \<or> contains model ''4-5'' then ''opus-4.5''
         else ''opus-4'')
      else if contains model ''sonnet'' then
        (if contains model ''sonnet-5'' then ''sonnet-5''
         else if contains model ''4.5'' \<or> contains model ''4-5'' then ''sonnet-4.5''
         else if contains model ''3-5'' \<or> contains model ''3.5'' then ''sonnet-3.5''
         else ''sonnet-4'')
      else if contains model ''haiku'' then
        (if contains model ''3-5'' \<or> contains model ''3.5'' then ''haiku-3.5'' else ''haiku-3'')
      else [])"

definition matched_family :: "string \<Rightarrow> model_family option" where
  "matched_family model =
     (case find (\<lambda>f. list_ex (\<lambda>p. contains model p \<or> contains model (replace_all ''-'' [] p)) (mf_match f)) families of
        Some f \<Rightarrow> Some f
      | None \<Rightarrow>
          if fallback_family_name model = [] then None
          else find (\<lambda>f. mf_name f = fallback_family_name model) families)"

text \<open>The first price, in the order of the patterns and then of the list, whose key contains a pattern.\<close>

fun first_containing :: "price_list \<Rightarrow> string list \<Rightarrow> LiteLLMModelPricing option" where
  "first_containing data [] = None"
| "first_containing data (p # ps) =
     (case find (\<lambda>(key, _). contains (to_lower key) p) data of
        Some (_, pricing) \<Rightarrow> Some pricing
      | None \<Rightarrow> first_containing data ps)"

definition matchByModelFamily :: "price_list \<Rightarrow> string \<Rightarrow> LiteLLMModelPricing option" where
  "matchByModelFamily data model =
     (case matched_family model of
        None \<Rightarrow> None
      | Some f \<Rightarrow> first_containing data (if mf_pricing f = [] then mf_match f else mf_pricing f))"

section \<open>OpenAI models\<close>

definition no_list_price :: LiteLLMModelPricing where
  "no_list_price =
     \<lparr>lp_InputCostPerToken = 0, lp_InputCostPerTokenPriority = 0, lp_OutputCostPerToken = 0,
      lp_OutputCostPerTokenPriority = 0, lp_CacheCreationInputTokenCost = 0,
      lp_CacheCreationInputTokenCostPriority = 0, lp_CacheCreationInputTokenCostAbove1hr = 0,
      lp_CacheReadInputTokenCost = 0, lp_CacheReadInputTokenCostPriority = 0,
      lp_LongContextInputTokenThreshold = 0, lp_LongContextInputCostMultiplier = 0,
      lp_LongContextOutputCostMultiplier = 0, lp_SupportsServiceTier = False, lp_LiteLLMProvider = [],
      lp_Mode = [], lp_SupportsPromptCaching = False, lp_OutputCostPerImage = 0, lp_OutputCostPerImageToken = 0,
      lp_InputCostPerImageToken = 0, lp_TokenPricingAbsent = False\<rparr>"

definition openai_chat_price :: LiteLLMModelPricing where
  "openai_chat_price =
     no_list_price\<lparr>lp_LiteLLMProvider := ''openai'', lp_Mode := ''chat'', lp_SupportsPromptCaching := True\<rparr>"

definition openai_long_context_price :: LiteLLMModelPricing where
  "openai_long_context_price =
     openai_chat_price\<lparr>lp_LongContextInputTokenThreshold := openAIGPT54LongContextInputThreshold,
       lp_LongContextInputCostMultiplier := openAIGPT54LongContextInputMultiplier,
       lp_LongContextOutputCostMultiplier := openAIGPT54LongContextOutputMultiplier\<rparr>"

definition openAIGPT54FallbackPricing :: LiteLLMModelPricing where
  "openAIGPT54FallbackPricing =
     openai_long_context_price\<lparr>lp_InputCostPerToken := 25 / 10000000, lp_OutputCostPerToken := 15 / 1000000,
       lp_CacheReadInputTokenCost := 25 / 100000000\<rparr>"

definition openAIGPT56SolFallbackPricing :: LiteLLMModelPricing where
  "openAIGPT56SolFallbackPricing =
     openai_long_context_price\<lparr>lp_InputCostPerToken := 4 / 1000000, lp_InputCostPerTokenPriority := 8 / 1000000,
       lp_OutputCostPerToken := 2 / 100000, lp_OutputCostPerTokenPriority := 4 / 100000,
       lp_CacheCreationInputTokenCost := 5 / 1000000, lp_CacheCreationInputTokenCostPriority := 1 / 100000,
       lp_CacheReadInputTokenCost := 4 / 10000000, lp_CacheReadInputTokenCostPriority := 8 / 10000000,
       lp_SupportsServiceTier := True\<rparr>"

definition openAIGPT56TerraFallbackPricing :: LiteLLMModelPricing where
  "openAIGPT56TerraFallbackPricing =
     openai_long_context_price\<lparr>lp_InputCostPerToken := 2 / 1000000, lp_InputCostPerTokenPriority := 4 / 1000000,
       lp_OutputCostPerToken := 12 / 1000000, lp_OutputCostPerTokenPriority := 24 / 1000000,
       lp_CacheCreationInputTokenCost := 25 / 10000000, lp_CacheCreationInputTokenCostPriority := 5 / 1000000,
       lp_CacheReadInputTokenCost := 2 / 10000000, lp_CacheReadInputTokenCostPriority := 4 / 10000000,
       lp_SupportsServiceTier := True\<rparr>"

definition openAIGPT56LunaFallbackPricing :: LiteLLMModelPricing where
  "openAIGPT56LunaFallbackPricing =
     openai_long_context_price\<lparr>lp_InputCostPerToken := 2 / 10000000, lp_InputCostPerTokenPriority := 4 / 10000000,
       lp_OutputCostPerToken := 12 / 10000000, lp_OutputCostPerTokenPriority := 24 / 10000000,
       lp_CacheCreationInputTokenCost := 25 / 100000000, lp_CacheCreationInputTokenCostPriority := 5 / 10000000,
       lp_CacheReadInputTokenCost := 2 / 100000000, lp_CacheReadInputTokenCostPriority := 4 / 100000000,
       lp_SupportsServiceTier := True\<rparr>"

definition openAIGPT54MiniFallbackPricing :: LiteLLMModelPricing where
  "openAIGPT54MiniFallbackPricing =
     openai_chat_price\<lparr>lp_InputCostPerToken := 75 / 100000000, lp_OutputCostPerToken := 45 / 10000000,
       lp_CacheReadInputTokenCost := 75 / 1000000000\<rparr>"

definition openAIGPT54NanoFallbackPricing :: LiteLLMModelPricing where
  "openAIGPT54NanoFallbackPricing =
     openai_chat_price\<lparr>lp_InputCostPerToken := 2 / 10000000, lp_OutputCostPerToken := 125 / 100000000,
       lp_CacheReadInputTokenCost := 2 / 100000000\<rparr>"

fun first_key :: "price_list \<Rightarrow> string list \<Rightarrow> LiteLLMModelPricing option" where
  "first_key data [] = None"
| "first_key data (k # ks) = (case map_of data k of Some p \<Rightarrow> Some p | None \<Rightarrow> first_key data ks)"

definition DefaultTestModel :: string where
  "DefaultTestModel = ''gpt-5.4''"

definition static_openai_price :: "string \<Rightarrow> LiteLLMModelPricing option" where
  "static_openai_price model =
     (if has_prefix ''gpt-5.6-sol'' model then Some openAIGPT56SolFallbackPricing
      else if has_prefix ''gpt-5.6-terra'' model then Some openAIGPT56TerraFallbackPricing
      else if has_prefix ''gpt-5.6-luna'' model then Some openAIGPT56LunaFallbackPricing
      else if has_prefix ''gpt-5.5'' model then Some openAIGPT54FallbackPricing
      else if has_prefix ''gpt-5.4-mini'' model then Some openAIGPT54MiniFallbackPricing
      else if has_prefix ''gpt-5.4-nano'' model then Some openAIGPT54NanoFallbackPricing
      else if has_prefix ''gpt-5.4'' model then Some openAIGPT54FallbackPricing
      else None)"

definition matchOpenAIModel :: "price_list \<Rightarrow> string \<Rightarrow> LiteLLMModelPricing option" where
  "matchOpenAIModel data model =
     (if has_prefix ''gpt-5.3-codex-spark'' model \<and> map_of data ''gpt-5.1-codex'' \<noteq> None
      then map_of data ''gpt-5.1-codex''
      else (case first_key data (generateOpenAIModelVariants model) of
        Some pricing \<Rightarrow> Some pricing
      | None \<Rightarrow>
          if has_prefix ''gpt-6-'' model then None
          else if has_prefix ''gpt-5.3-codex'' model \<and> map_of data ''gpt-5.2-codex'' \<noteq> None
          then map_of data ''gpt-5.2-codex''
          else (case static_openai_price model of
            Some pricing \<Rightarrow> Some pricing
          | None \<Rightarrow>
              if isOpenAIImageGenerationModel model
              then first_key data [''gpt-image-2'', ''gpt-image-1.5'', ''gpt-image-1'']
              else map_of data (to_lower DefaultTestModel))))"

section \<open>The lookup in the price list\<close>

definition PricingService_GetModelPricing :: "price_list \<Rightarrow> string \<Rightarrow> LiteLLMModelPricing option" where
  "PricingService_GetModelPricing data modelName =
     (if modelName = [] then None
      else
        let modelLower = to_lower (trim_space modelName);
            candidates = buildModelLookupCandidates modelLower
        in case first_key data (filter (\<lambda>c. c \<noteq> []) candidates) of
             Some pricing \<Rightarrow> Some pricing
           | None \<Rightarrow>
          (case first_key data (map (replace_all ''-4-5-'' ''-4.5-'') candidates) of
             Some pricing \<Rightarrow> Some pricing
           | None \<Rightarrow>
          (case find (\<lambda>(key, _). extractBaseName (to_lower key) = extractBaseName (hd candidates)) data of
             Some (_, pricing) \<Rightarrow> Some pricing
           | None \<Rightarrow>
          (case matchByModelFamily data (hd candidates) of
             Some pricing \<Rightarrow> Some pricing
           | None \<Rightarrow>
               if has_prefix ''gpt-'' (hd candidates) then matchOpenAIModel data (hd candidates) else None))))"

section \<open>The built-in prices\<close>

definition claude_opus_4_5_price :: ModelPricing where
  "claude_opus_4_5_price =
     no_price\<lparr>mp_InputPricePerToken := 5 / 1000000, mp_OutputPricePerToken := 25 / 1000000,
     mp_CacheCreationPricePerToken := 625 / 100000000, mp_CacheReadPricePerToken := 5 / 10000000\<rparr>"

definition claude_fable_5_1_price :: ModelPricing where
  "claude_fable_5_1_price =
     no_price\<lparr>mp_InputPricePerToken := 1 / 100000, mp_OutputPricePerToken := 5 / 100000,
     mp_CacheCreationPricePerToken := 125 / 10000000, mp_CacheReadPricePerToken := 25 / 100000000\<rparr>"

definition gemini_3_8_flash_price :: ModelPricing where
  "gemini_3_8_flash_price =
     no_price\<lparr>mp_InputPricePerToken := 75 / 100000000, mp_OutputPricePerToken := 375 / 100000000,
     mp_CacheReadPricePerToken := 75 / 1000000000\<rparr>"

definition gpt_5_4_price :: ModelPricing where
  "gpt_5_4_price =
     no_price\<lparr>mp_InputPricePerToken := 25 / 10000000, mp_InputPricePerTokenPriority := 5 / 1000000,
     mp_OutputPricePerToken := 15 / 1000000, mp_OutputPricePerTokenPriority := 3 / 100000,
     mp_CacheCreationPricePerToken := 25 / 10000000, mp_CacheReadPricePerToken := 25 / 100000000,
     mp_CacheReadPricePerTokenPriority := 5 / 10000000, mp_LongContextInputThreshold :=
     openAIGPT54LongContextInputThreshold, mp_LongContextInputMultiplier := openAIGPT54LongContextInputMultiplier,
     mp_LongContextOutputMultiplier := openAIGPT54LongContextOutputMultiplier\<rparr>"

definition grok_4_7_price :: ModelPricing where
  "grok_4_7_price =
     no_price\<lparr>mp_InputPricePerToken := 2 / 1000000, mp_OutputPricePerToken := 6 / 1000000,
     mp_CacheReadPricePerToken := 5 / 10000000, mp_LongContextInputThreshold := 200000,
     mp_LongContextInputMultiplier := 2, mp_LongContextOutputMultiplier := 2\<rparr>"

definition claude_fallback_prices :: "(string \<times> ModelPricing) list" where
  "claude_fallback_prices =
     [(''claude-opus-4.5'', claude_opus_4_5_price),
      (''claude-sonnet-4'', no_price\<lparr>mp_InputPricePerToken := 3 / 1000000, mp_OutputPricePerToken := 15 / 1000000,
       mp_CacheCreationPricePerToken := 375 / 100000000, mp_CacheReadPricePerToken := 3 / 10000000\<rparr>),
      (''claude-3-5-sonnet'', no_price\<lparr>mp_InputPricePerToken := 3 / 1000000, mp_OutputPricePerToken := 15 / 1000000,
       mp_CacheCreationPricePerToken := 375 / 100000000, mp_CacheReadPricePerToken := 3 / 10000000\<rparr>),
      (''claude-3-5-haiku'', no_price\<lparr>mp_InputPricePerToken := 1 / 1000000, mp_OutputPricePerToken := 5 / 1000000,
       mp_CacheCreationPricePerToken := 125 / 100000000, mp_CacheReadPricePerToken := 1 / 10000000\<rparr>),
      (''claude-3-opus'', no_price\<lparr>mp_InputPricePerToken := 15 / 1000000, mp_OutputPricePerToken := 75 / 1000000,
       mp_CacheCreationPricePerToken := 1875 / 100000000, mp_CacheReadPricePerToken := 15 / 10000000\<rparr>),
      (''claude-3-haiku'', no_price\<lparr>mp_InputPricePerToken := 25 / 100000000, mp_OutputPricePerToken := 125 / 100000000,
       mp_CacheCreationPricePerToken := 3 / 10000000, mp_CacheReadPricePerToken := 3 / 100000000\<rparr>),
      (''claude-opus-4.6'', claude_opus_4_5_price),
      (''claude-opus-4.7'', claude_opus_4_5_price),
      (''claude-opus-4.8'', claude_opus_4_5_price),
      (''claude-opus-5'', claude_opus_4_5_price),
      (''claude-opus-5-5'', no_price\<lparr>mp_InputPricePerToken := 4 / 1000000, mp_OutputPricePerToken := 2 / 100000,
       mp_CacheCreationPricePerToken := 5 / 1000000, mp_CacheReadPricePerToken := 2 / 10000000\<rparr>),
      (''claude-fable-5-1'', claude_fable_5_1_price),
      (''claude-mythos-5-1'', claude_fable_5_1_price),
      (''claude-sonnet-5'', no_price\<lparr>mp_InputPricePerToken := 2 / 1000000, mp_OutputPricePerToken := 1 / 100000,
       mp_CacheCreationPricePerToken := 25 / 10000000, mp_CacheReadPricePerToken := 2 / 10000000\<rparr>)]"

definition gemini_fallback_prices :: "(string \<times> ModelPricing) list" where
  "gemini_fallback_prices =
     [(''gemini-3.1-pro'', no_price\<lparr>mp_InputPricePerToken := 2 / 1000000, mp_OutputPricePerToken := 12 / 1000000,
       mp_CacheCreationPricePerToken := 2 / 1000000, mp_CacheReadPricePerToken := 2 / 10000000\<rparr>),
      (''gemini-3.6-flash'', no_price\<lparr>mp_InputPricePerToken := 15 / 10000000, mp_OutputPricePerToken := 75 / 10000000,
       mp_CacheReadPricePerToken := 15 / 100000000\<rparr>),
      (''gemini-3.8-flash'', gemini_3_8_flash_price),
      (''gemini-3.7-flash'', gemini_3_8_flash_price)]"

definition openai_fallback_prices :: "(string \<times> ModelPricing) list" where
  "openai_fallback_prices =
     [(''gpt-5.4'', gpt_5_4_price),
      (''gpt-5.5'', gpt_5_4_price),
      (''gpt-5.5-pro'', gpt_5_4_price),
      (''gpt-5.6-sol'', no_price\<lparr>mp_InputPricePerToken := 4 / 1000000, mp_InputPricePerTokenPriority := 8 / 1000000,
       mp_OutputPricePerToken := 2 / 100000, mp_OutputPricePerTokenPriority := 4 / 100000,
       mp_CacheCreationPricePerToken := 5 / 1000000, mp_CacheCreationPricePerTokenPriority := 1 / 100000,
       mp_CacheReadPricePerToken := 4 / 10000000, mp_CacheReadPricePerTokenPriority := 8 / 10000000,
       mp_LongContextInputThreshold := openAIGPT54LongContextInputThreshold, mp_LongContextInputMultiplier :=
       openAIGPT54LongContextInputMultiplier, mp_LongContextOutputMultiplier :=
       openAIGPT54LongContextOutputMultiplier\<rparr>),
      (''gpt-5.6-terra'', no_price\<lparr>mp_InputPricePerToken := 2 / 1000000, mp_InputPricePerTokenPriority := 4 / 1000000,
       mp_OutputPricePerToken := 12 / 1000000, mp_OutputPricePerTokenPriority := 24 / 1000000,
       mp_CacheCreationPricePerToken := 25 / 10000000, mp_CacheCreationPricePerTokenPriority := 5 / 1000000,
       mp_CacheReadPricePerToken := 2 / 10000000, mp_CacheReadPricePerTokenPriority := 4 / 10000000,
       mp_LongContextInputThreshold := openAIGPT54LongContextInputThreshold, mp_LongContextInputMultiplier :=
       openAIGPT54LongContextInputMultiplier, mp_LongContextOutputMultiplier :=
       openAIGPT54LongContextOutputMultiplier\<rparr>),
      (''gpt-5.6-luna'', no_price\<lparr>mp_InputPricePerToken := 2 / 10000000, mp_InputPricePerTokenPriority := 4 / 10000000,
       mp_OutputPricePerToken := 12 / 10000000, mp_OutputPricePerTokenPriority := 24 / 10000000,
       mp_CacheCreationPricePerToken := 25 / 100000000, mp_CacheCreationPricePerTokenPriority := 5 / 10000000,
       mp_CacheReadPricePerToken := 2 / 100000000, mp_CacheReadPricePerTokenPriority := 4 / 100000000,
       mp_LongContextInputThreshold := openAIGPT54LongContextInputThreshold, mp_LongContextInputMultiplier :=
       openAIGPT54LongContextInputMultiplier, mp_LongContextOutputMultiplier :=
       openAIGPT54LongContextOutputMultiplier\<rparr>),
      (''gpt-6-astra'', no_price\<lparr>mp_InputPricePerToken := 1 / 100000, mp_InputPricePerTokenPriority := 2 / 100000,
       mp_OutputPricePerToken := 5 / 100000, mp_OutputPricePerTokenPriority := 1 / 10000,
       mp_CacheCreationPricePerToken := 125 / 10000000, mp_CacheCreationPricePerTokenPriority := 25 / 1000000,
       mp_CacheReadPricePerToken := 1 / 1000000, mp_CacheReadPricePerTokenPriority := 2 / 1000000,
       mp_LongContextInputThreshold := openAIGPT54LongContextInputThreshold, mp_LongContextInputMultiplier :=
       openAIGPT54LongContextInputMultiplier, mp_LongContextOutputMultiplier :=
       openAIGPT54LongContextOutputMultiplier\<rparr>),
      (''gpt-6-sol'', no_price\<lparr>mp_InputPricePerToken := 2 / 1000000, mp_InputPricePerTokenPriority := 4 / 1000000,
       mp_OutputPricePerToken := 1 / 100000, mp_OutputPricePerTokenPriority := 2 / 100000,
       mp_CacheCreationPricePerToken := 25 / 10000000, mp_CacheCreationPricePerTokenPriority := 5 / 1000000,
       mp_CacheReadPricePerToken := 2 / 10000000, mp_CacheReadPricePerTokenPriority := 4 / 10000000,
       mp_LongContextInputThreshold := openAIGPT54LongContextInputThreshold, mp_LongContextInputMultiplier :=
       openAIGPT54LongContextInputMultiplier, mp_LongContextOutputMultiplier :=
       openAIGPT54LongContextOutputMultiplier\<rparr>),
      (''gpt-6-luna'', no_price\<lparr>mp_InputPricePerToken := 1 / 10000000, mp_InputPricePerTokenPriority := 2 / 10000000,
       mp_OutputPricePerToken := 5 / 10000000, mp_OutputPricePerTokenPriority := 1 / 1000000,
       mp_CacheCreationPricePerToken := 125 / 1000000000, mp_CacheCreationPricePerTokenPriority := 25 / 100000000,
       mp_CacheReadPricePerToken := 1 / 100000000, mp_CacheReadPricePerTokenPriority := 2 / 100000000,
       mp_LongContextInputThreshold := openAIGPT54LongContextInputThreshold, mp_LongContextInputMultiplier :=
       openAIGPT54LongContextInputMultiplier, mp_LongContextOutputMultiplier :=
       openAIGPT54LongContextOutputMultiplier\<rparr>),
      (''gpt-5.4-mini'', no_price\<lparr>mp_InputPricePerToken := 75 / 100000000, mp_OutputPricePerToken := 45 / 10000000,
       mp_CacheReadPricePerToken := 75 / 1000000000\<rparr>),
      (''gpt-5.4-nano'', no_price\<lparr>mp_InputPricePerToken := 2 / 10000000, mp_OutputPricePerToken := 125 / 100000000,
       mp_CacheReadPricePerToken := 2 / 100000000\<rparr>),
      (''gpt-5.2'', no_price\<lparr>mp_InputPricePerToken := 175 / 100000000, mp_InputPricePerTokenPriority := 35 / 10000000,
       mp_OutputPricePerToken := 14 / 1000000, mp_OutputPricePerTokenPriority := 28 / 1000000,
       mp_CacheCreationPricePerToken := 175 / 100000000, mp_CacheReadPricePerToken := 175 / 1000000000,
       mp_CacheReadPricePerTokenPriority := 35 / 100000000\<rparr>),
      (''gpt-5.3-codex'', no_price\<lparr>mp_InputPricePerToken := 15 / 10000000, mp_InputPricePerTokenPriority := 3 / 1000000,
       mp_OutputPricePerToken := 12 / 1000000, mp_OutputPricePerTokenPriority := 24 / 1000000,
       mp_CacheCreationPricePerToken := 15 / 10000000, mp_CacheReadPricePerToken := 15 / 100000000,
       mp_CacheReadPricePerTokenPriority := 3 / 10000000\<rparr>)]"

definition deepseek_glm_fallback_prices :: "(string \<times> ModelPricing) list" where
  "deepseek_glm_fallback_prices =
     [(''deepseek-v4-pro'', no_price\<lparr>mp_InputPricePerToken := 435 / 1000000000, mp_OutputPricePerToken := 87 / 100000000,
       mp_CacheReadPricePerToken := 3625 / 1000000000000\<rparr>),
      (''deepseek-v4-flash'', no_price\<lparr>mp_InputPricePerToken := 14 / 100000000, mp_OutputPricePerToken := 28 / 100000000,
       mp_CacheReadPricePerToken := 28 / 10000000000\<rparr>),
      (''glm-5.2'', no_price\<lparr>mp_InputPricePerToken := 14 / 10000000, mp_OutputPricePerToken := 44 / 10000000,
       mp_CacheReadPricePerToken := 26 / 100000000\<rparr>),
      (''glm-5.1'', no_price\<lparr>mp_InputPricePerToken := 14 / 10000000, mp_OutputPricePerToken := 44 / 10000000,
       mp_CacheReadPricePerToken := 26 / 100000000\<rparr>),
      (''glm-5'', no_price\<lparr>mp_InputPricePerToken := 1 / 1000000, mp_OutputPricePerToken := 32 / 10000000,
       mp_CacheReadPricePerToken := 2 / 10000000\<rparr>),
      (''glm-5-turbo'', no_price\<lparr>mp_InputPricePerToken := 12 / 10000000, mp_OutputPricePerToken := 4 / 1000000,
       mp_CacheReadPricePerToken := 24 / 100000000\<rparr>),
      (''glm-4.7'', no_price\<lparr>mp_InputPricePerToken := 6 / 10000000, mp_OutputPricePerToken := 22 / 10000000,
       mp_CacheReadPricePerToken := 11 / 100000000\<rparr>),
      (''glm-4.7-flashx'', no_price\<lparr>mp_InputPricePerToken := 7 / 100000000, mp_OutputPricePerToken := 4 / 10000000,
       mp_CacheReadPricePerToken := 1 / 100000000\<rparr>),
      (''glm-4.6'', no_price\<lparr>mp_InputPricePerToken := 6 / 10000000, mp_OutputPricePerToken := 22 / 10000000,
       mp_CacheReadPricePerToken := 11 / 100000000\<rparr>),
      (''glm-4.5'', no_price\<lparr>mp_InputPricePerToken := 6 / 10000000, mp_OutputPricePerToken := 22 / 10000000,
       mp_CacheReadPricePerToken := 11 / 100000000\<rparr>),
      (''glm-4.5-x'', no_price\<lparr>mp_InputPricePerToken := 22 / 10000000, mp_OutputPricePerToken := 89 / 10000000,
       mp_CacheReadPricePerToken := 45 / 100000000\<rparr>),
      (''glm-4.5-air'', no_price\<lparr>mp_InputPricePerToken := 2 / 10000000, mp_OutputPricePerToken := 11 / 10000000,
       mp_CacheReadPricePerToken := 3 / 100000000\<rparr>),
      (''glm-4.5-airx'', no_price\<lparr>mp_InputPricePerToken := 11 / 10000000, mp_OutputPricePerToken := 45 / 10000000,
       mp_CacheReadPricePerToken := 22 / 100000000\<rparr>),
      (''glm-4-32b-0414-128k'', no_price\<lparr>mp_InputPricePerToken := 1 / 10000000, mp_OutputPricePerToken := 1 / 10000000\<rparr>),
      (''glm-4.5-flash'', no_price),
      (''glm-4.7-flash'', no_price)]"

definition kimi_minimax_fallback_prices :: "(string \<times> ModelPricing) list" where
  "kimi_minimax_fallback_prices =
     [(''kimi-k3'', no_price\<lparr>mp_InputPricePerToken := 3 / 1000000, mp_OutputPricePerToken := 15 / 1000000,
       mp_CacheReadPricePerToken := 3 / 10000000\<rparr>),
      (''kimi-k2.6'', no_price\<lparr>mp_InputPricePerToken := 95 / 100000000, mp_OutputPricePerToken := 4 / 1000000,
       mp_CacheReadPricePerToken := 15 / 100000000\<rparr>),
      (''kimi-for-coding'', no_price\<lparr>mp_InputPricePerToken := 95 / 100000000, mp_OutputPricePerToken := 4 / 1000000,
       mp_CacheReadPricePerToken := 15 / 100000000\<rparr>),
      (''kimi-k2.5'', no_price\<lparr>mp_InputPricePerToken := 6 / 10000000, mp_OutputPricePerToken := 3 / 1000000,
       mp_CacheReadPricePerToken := 98 / 1000000000\<rparr>),
      (''kimi-k2-thinking'', no_price\<lparr>mp_InputPricePerToken := 56 / 100000000, mp_OutputPricePerToken := 224 / 100000000,
       mp_CacheReadPricePerToken := 14 / 100000000\<rparr>),
      (''kimi-k2'', no_price\<lparr>mp_InputPricePerToken := 56 / 100000000, mp_OutputPricePerToken := 224 / 100000000,
       mp_CacheReadPricePerToken := 14 / 100000000\<rparr>),
      (''minimax-m3'', no_price\<lparr>mp_InputPricePerToken := 6 / 10000000, mp_OutputPricePerToken := 24 / 10000000,
       mp_CacheReadPricePerToken := 12 / 100000000\<rparr>),
      (''minimax-m2.7'', no_price\<lparr>mp_InputPricePerToken := 3 / 10000000, mp_OutputPricePerToken := 12 / 10000000,
       mp_CacheReadPricePerToken := 6 / 100000000\<rparr>),
      (''minimax-m2.7-highspeed'', no_price\<lparr>mp_InputPricePerToken := 6 / 10000000, mp_OutputPricePerToken := 24 / 10000000,
       mp_CacheReadPricePerToken := 6 / 100000000\<rparr>),
      (''minimax-m2.5'', no_price\<lparr>mp_InputPricePerToken := 3 / 10000000, mp_OutputPricePerToken := 12 / 10000000,
       mp_CacheReadPricePerToken := 3 / 100000000\<rparr>),
      (''minimax-m2.1'', no_price\<lparr>mp_InputPricePerToken := 3 / 10000000, mp_OutputPricePerToken := 12 / 10000000,
       mp_CacheReadPricePerToken := 3 / 100000000\<rparr>),
      (''minimax-m2'', no_price\<lparr>mp_InputPricePerToken := 3 / 10000000, mp_OutputPricePerToken := 12 / 10000000,
       mp_CacheReadPricePerToken := 3 / 100000000\<rparr>)]"

definition other_fallback_prices :: "(string \<times> ModelPricing) list" where
  "other_fallback_prices =
     [(''text-embedding-3-small'', no_price\<lparr>mp_InputPricePerToken := 2 / 100000000\<rparr>),
      (''text-embedding-3-large'', no_price\<lparr>mp_InputPricePerToken := 13 / 100000000\<rparr>),
      (''text-embedding-ada-002'', no_price\<lparr>mp_InputPricePerToken := 1 / 10000000\<rparr>),
      (''doubao-embedding-vision'', no_price\<lparr>mp_InputPricePerToken := 98 / 1000000000, mp_ImageInputPricePerToken := 252 / 1000000000,
       mp_OutputPricePerToken := 0\<rparr>),
      (''grok-4.5'', no_price\<lparr>mp_InputPricePerToken := 2 / 1000000, mp_OutputPricePerToken := 6 / 1000000,
       mp_CacheReadPricePerToken := 5 / 10000000\<rparr>),
      (''grok-4.7'', grok_4_7_price),
      (''grok-4.6'', grok_4_7_price),
      (''grok-4.3'', no_price\<lparr>mp_InputPricePerToken := 125 / 100000000, mp_OutputPricePerToken := 25 / 10000000,
       mp_CacheReadPricePerToken := 2 / 10000000, mp_LongContextInputThreshold := 1000000,
       mp_LongContextInputMultiplier := 1\<rparr>),
      (''grok-build-0.1'', no_price\<lparr>mp_InputPricePerToken := 1 / 1000000, mp_OutputPricePerToken := 2 / 1000000,
       mp_CacheReadPricePerToken := 2 / 10000000\<rparr>)]"

definition fallback_prices :: "(string \<times> ModelPricing) list" where
  "fallback_prices =
     claude_fallback_prices @ gemini_fallback_prices @ openai_fallback_prices @ deepseek_glm_fallback_prices @
     kimi_minimax_fallback_prices @ other_fallback_prices"

text \<open>\<open>getFallbackPricing\<close> decides on a key by the family of the model, then reads the price of that key.\<close>

definition claude_fallback_key :: "string \<Rightarrow> string option" where
  "claude_fallback_key m =
     (if contains m ''opus'' then
        Some (if contains m ''opus-5-5'' then ''claude-opus-5-5''
              else if contains m ''opus-5'' \<or> contains m ''opus5'' then ''claude-opus-5''
              else if contains m ''4.8'' \<or> contains m ''4-8'' then ''claude-opus-4.8''
              else if contains m ''4.7'' \<or> contains m ''4-7'' then ''claude-opus-4.7''
              else if contains m ''4.6'' \<or> contains m ''4-6'' then ''claude-opus-4.6''
              else if contains m ''4.5'' \<or> contains m ''4-5'' then ''claude-opus-4.5''
              else ''claude-3-opus'')
      else if contains m ''sonnet'' then
        Some (if contains m ''sonnet-5'' then ''claude-sonnet-5''
              else if contains m ''4'' \<and> \<not> contains m ''3'' then ''claude-sonnet-4''
              else ''claude-3-5-sonnet'')
      else if contains m ''haiku'' then
        Some (if contains m ''3-5'' \<or> contains m ''3.5'' then ''claude-3-5-haiku'' else ''claude-3-haiku'')
      else if contains m ''claude'' then
        Some (if contains m ''fable-5-1'' then ''claude-fable-5-1''
              else if contains m ''mythos-5-1'' then ''claude-mythos-5-1''
              else ''claude-sonnet-4'')
      else None)"

definition gemini_fallback_key :: "string \<Rightarrow> string option" where
  "gemini_fallback_key m =
     (if contains m ''gemini-3.1-pro'' \<or> contains m ''gemini-3-1-pro'' then Some ''gemini-3.1-pro''
      else if contains m ''gemini-3.6-flash'' \<or> contains m ''gemini-3-6-flash'' then Some ''gemini-3.6-flash''
      else map_option (\<lambda>version. ''gemini-'' @ version @ ''-flash'')
        (find (\<lambda>version. contains m (''gemini-'' @ version @ ''-flash'') \<or>
                 contains m (''gemini-'' @ replace_all ''.'' ''-'' version @ ''-flash'')) [''3.8'', ''3.7'']))"

definition deepseek_glm_fallback_key :: "string \<Rightarrow> string option" where
  "deepseek_glm_fallback_key m =
     (if contains m ''deepseek-v4-flash'' then Some ''deepseek-v4-flash''
      else if contains m ''deepseek-v4-pro'' then Some ''deepseek-v4-pro''
      else if contains m ''deepseek-chat'' \<or> contains m ''deepseek-reasoner'' then Some ''deepseek-v4-flash''
      else if contains m ''glm-5.2'' then Some ''glm-5.2''
      else if contains m ''glm-5.1'' then Some ''glm-5.1''
      else if contains m ''glm-5-turbo'' \<or> contains m ''glm-5turbo'' then Some ''glm-5-turbo''
      else if contains m ''glm-5'' then Some ''glm-5''
      else if contains m ''glm-4.7-flashx'' then Some ''glm-4.7-flashx''
      else if contains m ''glm-4.7-flash'' then Some ''glm-4.7-flash''
      else if contains m ''glm-4.7'' then Some ''glm-4.7''
      else if contains m ''glm-4.6'' then Some ''glm-4.6''
      else if contains m ''glm-4.5-flash'' then Some ''glm-4.5-flash''
      else if contains m ''glm-4.5-x'' \<or> contains m ''glm-4.5x'' then Some ''glm-4.5-x''
      else if contains m ''glm-4.5-airx'' \<or> contains m ''glm-4.5airx'' then Some ''glm-4.5-airx''
      else if contains m ''glm-4.5-air'' \<or> contains m ''glm-4.5air'' then Some ''glm-4.5-air''
      else if contains m ''glm-4.5'' then Some ''glm-4.5''
      else if contains m ''glm-4-32b'' then Some ''glm-4-32b-0414-128k''
      else None)"

definition kimi_minimax_fallback_key :: "string \<Rightarrow> string option" where
  "kimi_minimax_fallback_key m =
     (if contains m ''kimi-for-coding'' then Some ''kimi-for-coding''
      else if m = ''kimi-k3'' \<or> has_suffix ''/kimi-k3'' m \<or> m = ''k3'' \<or> m = ''k3-256k'' \<or>
         has_suffix ''/k3'' m \<or> has_suffix ''/k3-256k'' m then Some ''kimi-k3''
      else if contains m ''kimi-k2.6'' \<or> contains m ''kimi-k2-6'' then Some ''kimi-k2.6''
      else if contains m ''kimi-k2.5'' \<or> contains m ''kimi-k2-5'' then Some ''kimi-k2.5''
      else if contains m ''kimi-k2-thinking'' \<or> contains m ''kimi-k2-thinking-'' then Some ''kimi-k2-thinking''
      else if contains m ''kimi-k2'' \<or> contains m ''kimi/k2'' then Some ''kimi-k2''
      else if contains m ''minimax-m3'' then Some ''minimax-m3''
      else if contains m ''minimax-m2.7-highspeed'' \<or> contains m ''minimax-m2-7-highspeed''
        then Some ''minimax-m2.7-highspeed''
      else if contains m ''minimax-m2.7'' \<or> contains m ''minimax-m2-7'' then Some ''minimax-m2.7''
      else if contains m ''minimax-m2.5'' \<or> contains m ''minimax-m2-5'' then Some ''minimax-m2.5''
      else if contains m ''minimax-m2.1'' \<or> contains m ''minimax-m2-1'' then Some ''minimax-m2.1''
      else if contains m ''minimax-m2'' \<or> contains m ''minimax-m-2'' then Some ''minimax-m2''
      else if contains m ''doubao-embedding-vision'' then Some ''doubao-embedding-vision''
      else find (\<lambda>e. lastSegment m = e)
        [''text-embedding-3-small'', ''text-embedding-3-large'', ''text-embedding-ada-002''])"

definition openai_fallback_key :: "string \<Rightarrow> string option" where
  "openai_fallback_key m =
     (let normalized = normalizeKnownOpenAICodexModel m in
      if normalized \<in> set [''gpt-6-astra'', ''gpt-6-sol'', ''gpt-6-luna'', ''gpt-5.6-sol'', ''gpt-5.6-terra'',
           ''gpt-5.6-luna'', ''gpt-5.5-pro'', ''gpt-5.5'', ''gpt-5.4-mini'', ''gpt-5.4-nano'', ''gpt-5.4'', ''gpt-5.2'']
        then Some normalized
      else if normalized \<in> set [''gpt-5.3-codex'', ''gpt-5.3-codex-spark''] then Some ''gpt-5.3-codex''
      else None)"

definition grok_fallback_key :: "string \<Rightarrow> string option" where
  "grok_fallback_key m =
     (if m \<in> set [''grok-4.6'', ''grok-4.7''] then Some m
      else if m \<in> set [''grok'', ''grok-latest''] then Some ''grok-4.7''
      else if m \<in> set [''grok-4.5'', ''grok-4.5-latest'', ''grok-build-latest''] then Some ''grok-4.5''
      else if m \<in> set [''grok-4.3'', ''grok-4.20-0309-reasoning'', ''grok-4.20-0309-non-reasoning'',
           ''grok-4.20-multi-agent-0309'', ''grok-4.20-reasoning'', ''grok-4.20-non-reasoning'']
        then Some ''grok-4.3''
      else if m \<in> set [''grok-build'', ''grok-build-0.1'', ''grok-composer'', ''grok-composer-2.5-fast'', ''composer-2.5'']
        then Some ''grok-build-0.1''
      else None)"

fun first_some :: "('a \<Rightarrow> 'b option) list \<Rightarrow> 'a \<Rightarrow> 'b option" where
  "first_some [] x = None"
| "first_some (f # fs) x = (case f x of Some y \<Rightarrow> Some y | None \<Rightarrow> first_some fs x)"

definition fallback_key :: "string \<Rightarrow> string option" where
  "fallback_key m =
     first_some [claude_fallback_key, gemini_fallback_key, deepseek_glm_fallback_key, kimi_minimax_fallback_key,
                 openai_fallback_key, grok_fallback_key] m"

definition getFallbackPricing :: "string \<Rightarrow> ModelPricing option" where
  "getFallbackPricing model = Option.bind (fallback_key (to_lower model)) (map_of fallback_prices)"

section \<open>The price of a model\<close>

definition applyModelSpecificPricingPolicy :: "string \<Rightarrow> ModelPricing \<Rightarrow> ModelPricing" where
  "applyModelSpecificPricingPolicy model pricing =
     (let normalized = normalizeKnownOpenAICodexModel model;
          isGPT56 = isOpenAIGPT56Model normalized;
          legacy = usesOpenAILegacyLongContextPricing normalized;
          needsLongContextPolicy =
            (isGPT56 \<or> legacy) \<and>
            (mp_LongContextInputThreshold pricing \<le> 0 \<or> mp_LongContextInputMultiplier pricing \<le> 0 \<or>
             mp_LongContextOutputMultiplier pricing \<le> 0);
          needsCacheCreationPolicy =
            isGPT56 \<and> \<not> mp_CacheCreationPriceExplicit pricing \<and>
            (mp_CacheCreationPricePerToken pricing \<le> 0 \<or>
             mp_InputPricePerTokenPriority pricing > 0 \<and> mp_CacheCreationPricePerTokenPriority pricing \<le> 0)
      in if \<not> isGPT56 \<and> \<not> legacy then pricing
         else if \<not> needsLongContextPolicy \<and> \<not> needsCacheCreationPolicy then pricing
         else
           let c1 = (if isGPT56 \<and> \<not> mp_CacheCreationPriceExplicit pricing then
                       pricing\<lparr>mp_CacheCreationPricePerToken :=
                                 (if mp_CacheCreationPricePerToken pricing \<le> 0
                                  then mp_InputPricePerToken pricing * (5 / 4) else mp_CacheCreationPricePerToken pricing),
                               mp_CacheCreationPricePerTokenPriority :=
                                 (if mp_CacheCreationPricePerTokenPriority pricing \<le> 0
                                  then mp_InputPricePerTokenPriority pricing * (5 / 4)
                                  else mp_CacheCreationPricePerTokenPriority pricing)\<rparr>
                     else pricing)
           in c1\<lparr>mp_LongContextInputThreshold :=
                   (if mp_LongContextInputThreshold c1 \<le> 0 then openAIGPT54LongContextInputThreshold
                    else mp_LongContextInputThreshold c1),
                 mp_LongContextInputMultiplier :=
                   (if mp_LongContextInputMultiplier c1 \<le> 0 then openAIGPT54LongContextInputMultiplier
                    else mp_LongContextInputMultiplier c1),
                 mp_LongContextOutputMultiplier :=
                   (if mp_LongContextOutputMultiplier c1 \<le> 0 then openAIGPT54LongContextOutputMultiplier
                    else mp_LongContextOutputMultiplier c1)\<rparr>)"

definition card_of_list_price :: "LiteLLMModelPricing \<Rightarrow> ModelPricing" where
  "card_of_list_price l =
     (let price5m = lp_CacheCreationInputTokenCost l;
          price1h = lp_CacheCreationInputTokenCostAbove1hr l
      in no_price\<lparr>
           mp_InputPricePerToken := lp_InputCostPerToken l,
           mp_InputPricePerTokenPriority := lp_InputCostPerTokenPriority l,
           mp_OutputPricePerToken := lp_OutputCostPerToken l,
           mp_OutputPricePerTokenPriority := lp_OutputCostPerTokenPriority l,
           mp_CacheCreationPricePerToken := lp_CacheCreationInputTokenCost l,
           mp_CacheCreationPricePerTokenPriority := lp_CacheCreationInputTokenCostPriority l,
           mp_CacheReadPricePerToken := lp_CacheReadInputTokenCost l,
           mp_CacheReadPricePerTokenPriority := lp_CacheReadInputTokenCostPriority l,
           mp_CacheCreation5mPrice := price5m,
           mp_CacheCreation1hPrice := price1h,
           mp_SupportsCacheBreakdown := price1h > 0 \<and> price1h > price5m,
           mp_LongContextInputThreshold := lp_LongContextInputTokenThreshold l,
           mp_LongContextInputMultiplier := lp_LongContextInputCostMultiplier l,
           mp_LongContextOutputMultiplier := lp_LongContextOutputCostMultiplier l,
           mp_ImageInputPricePerToken := lp_InputCostPerImageToken l,
           mp_ImageOutputPricePerToken := lp_OutputCostPerImageToken l\<rparr>)"

text \<open>The billing service: its price list, or \<open>None\<close> without a pricing service, and the default rate
  multiplier of its configuration.\<close>

record BillingService =
  bs_pricingService :: "price_list option"
  bs_DefaultRateMultiplier :: rat

definition GetModelPricing :: "BillingService \<Rightarrow> string \<Rightarrow> price_error + ModelPricing" where
  "GetModelPricing s modelName =
     (let model = to_lower modelName;
          listed = (case bs_pricingService s of
                      None \<Rightarrow> None
                    | Some data \<Rightarrow>
                        (case PricingService_GetModelPricing data model of
                           None \<Rightarrow> None
                         | Some l \<Rightarrow> if lp_TokenPricingAbsent l \<or> \<not> hasTokenPrice l then None else Some l))
      in case listed of
           Some l \<Rightarrow> Inr (applyModelSpecificPricingPolicy model (card_of_list_price l))
         | None \<Rightarrow>
             (case getFallbackPricing model of
                Some fallback \<Rightarrow> Inr (applyModelSpecificPricingPolicy model fallback)
              | None \<Rightarrow> Inl (ErrModelPricingUnavailable model)))"

section \<open>Costs by the price list alone\<close>

definition calculateCostWithServiceTierPolicy ::
  "BillingService \<Rightarrow> string \<Rightarrow> UsageTokens \<Rightarrow> rat \<Rightarrow> string \<Rightarrow> bool \<Rightarrow> price_error + FullCostBreakdown" where
  "calculateCostWithServiceTierPolicy s model tokens rateMultiplier serviceTier longContextBillingEnabled =
     (case validateUsageTokens tokens of
        Some e \<Rightarrow> Inl e
      | None \<Rightarrow>
          (case GetModelPricing s model of
             Inl e \<Rightarrow> Inl e
           | Inr pricing \<Rightarrow>
               Inr (computeTokenBreakdown (Some pricing) tokens rateMultiplier serviceTier longContextBillingEnabled)))"

definition CalculateCostWithServiceTier ::
  "BillingService \<Rightarrow> string \<Rightarrow> UsageTokens \<Rightarrow> rat \<Rightarrow> string \<Rightarrow> price_error + FullCostBreakdown" where
  "CalculateCostWithServiceTier s model tokens rateMultiplier serviceTier =
     calculateCostWithServiceTierPolicy s model tokens rateMultiplier serviceTier True"

definition CalculateCost :: "BillingService \<Rightarrow> string \<Rightarrow> UsageTokens \<Rightarrow> rat \<Rightarrow> price_error + FullCostBreakdown" where
  "CalculateCost s model tokens rateMultiplier = calculateCostWithServiceTierPolicy s model tokens rateMultiplier [] True"

definition CalculateCostWithConfig :: "BillingService \<Rightarrow> string \<Rightarrow> UsageTokens \<Rightarrow> price_error + FullCostBreakdown" where
  "CalculateCostWithConfig s model tokens =
     CalculateCost s model tokens (if bs_DefaultRateMultiplier s \<le> 0 then 1 else bs_DefaultRateMultiplier s)"

definition GetEstimatedCost :: "BillingService \<Rightarrow> string \<Rightarrow> int \<Rightarrow> int \<Rightarrow> price_error + rat" where
  "GetEstimatedCost s model inputTokens outputTokens =
     (case CalculateCostWithConfig s model
             (no_tokens\<lparr>ut_InputTokens := inputTokens, ut_OutputTokens := outputTokens\<rparr>) of
        Inl e \<Rightarrow> Inl e
      | Inr breakdown \<Rightarrow> Inr (bd_ActualCost breakdown))"

text \<open>Long contexts at a multiple of the price beyond a threshold: first the cached tokens fill the range
  below the threshold, then the input. Returns the two halves the usage is split into.\<close>

definition long_context_split :: "UsageTokens \<Rightarrow> int \<Rightarrow> UsageTokens \<times> UsageTokens" where
  "long_context_split tokens threshold =
     (let cache = ut_CacheReadTokens tokens; inp = ut_InputTokens tokens;
          inRangeCache = (if cache \<ge> threshold then threshold else cache);
          inRangeInput = (if cache \<ge> threshold then 0 else threshold - cache);
          outRangeCache = (if cache \<ge> threshold then cache - threshold else 0);
          outRangeInput = (if cache \<ge> threshold then inp else inp - inRangeInput)
      in (no_tokens\<lparr>ut_InputTokens := inRangeInput,
            ut_OutputTokens := ut_OutputTokens tokens,
            ut_CacheCreationTokens := ut_CacheCreationTokens tokens,
            ut_CacheReadTokens := inRangeCache,
            ut_CacheCreation5mTokens := ut_CacheCreation5mTokens tokens,
            ut_CacheCreation1hTokens := ut_CacheCreation1hTokens tokens,
            ut_ImageOutputTokens := ut_ImageOutputTokens tokens\<rparr>,
          no_tokens\<lparr>ut_InputTokens := outRangeInput, ut_CacheReadTokens := outRangeCache\<rparr>))"

definition CalculateCostWithLongContext ::
  "BillingService \<Rightarrow> string \<Rightarrow> UsageTokens \<Rightarrow> rat \<Rightarrow> int \<Rightarrow> rat \<Rightarrow> price_error + FullCostBreakdown" where
  "CalculateCostWithLongContext s model tokens rateMultiplier threshold extraMultiplier =
     (case validateUsageTokens tokens of
        Some e \<Rightarrow> Inl e
      | None \<Rightarrow>
          if threshold \<le> 0 \<or> extraMultiplier \<le> 1 then CalculateCost s model tokens rateMultiplier
          else (case sumNonNegativeInts [ut_CacheReadTokens tokens, ut_InputTokens tokens] of
            None \<Rightarrow> Inl (ErrInvalidUsageTokens ''long-context token total'')
          | Some tot \<Rightarrow>
              if tot \<le> threshold then CalculateCost s model tokens rateMultiplier
              else
                let (inRangeTokens, outRangeTokens) = long_context_split tokens threshold in
                case CalculateCost s model inRangeTokens rateMultiplier of
                  Inl e \<Rightarrow> Inl e
                | Inr inRange \<Rightarrow>
                    (case CalculateCost s model outRangeTokens (rateMultiplier * extraMultiplier) of
                       Inl e \<Rightarrow> Inl e
                     | Inr outRange \<Rightarrow>
                         Inr (no_cost\<lparr>
                           bd_InputCost := bd_InputCost inRange + bd_InputCost outRange,
                           bd_ImageInputCost := bd_ImageInputCost inRange + bd_ImageInputCost outRange,
                           bd_OutputCost := bd_OutputCost inRange,
                           bd_ImageOutputCost := bd_ImageOutputCost inRange,
                           bd_CacheCreationCost := bd_CacheCreationCost inRange,
                           bd_CacheReadCost := bd_CacheReadCost inRange + bd_CacheReadCost outRange,
                           bd_TotalCost := bd_TotalCost inRange + bd_TotalCost outRange,
                           bd_ActualCost := bd_ActualCost inRange + bd_ActualCost outRange,
                           bd_LongContextBillingApplied := bd_ActualCost outRange > 0\<rparr>))))"

end
