(* ===== verification/ChannelPrices.thy ===== *)
theory ChannelPrices
  imports PriceCatalog
begin

text \<open>
  Prices an administrator sets for a channel or a group (\<open>domain/model_pricing.go\<close>, \<open>service/channel.go\<close>,
  \<open>service/channel_service.go\<close>): the entries and their intervals, the validation of a configuration, the
  cache the channel service answers from, and the search for the entry of a model.

  Of the entries, the channels and the groups the fields are kept that prices depend on. The cache is
  rebuilt from what the repository answers; several callers that rebuild it at once are not modelled, as
  \<open>singleflight\<close> runs one of them.
\<close>

section \<open>Entries and intervals\<close>

type_synonym BillingMode = string

definition BillingModeToken :: BillingMode where "BillingModeToken = ''token''"
definition BillingModePerRequest :: BillingMode where "BillingModePerRequest = ''per_request''"
definition BillingModeImage :: BillingMode where "BillingModeImage = ''image''"
definition BillingModeVideo :: BillingMode where "BillingModeVideo = ''video''"

definition BillingMode_IsValid :: "BillingMode \<Rightarrow> bool" where
  "BillingMode_IsValid m \<longleftrightarrow> m \<in> set [BillingModeToken, BillingModePerRequest, BillingModeImage, BillingModeVideo, []]"

definition request_mode :: "BillingMode \<Rightarrow> bool" where
  "request_mode m \<longleftrightarrow> m = BillingModePerRequest \<or> m = BillingModeImage \<or> m = BillingModeVideo"

lemmas billing_modes = BillingModeToken_def BillingModePerRequest_def BillingModeImage_def BillingModeVideo_def

record PricingInterval =
  iv_MinTokens :: int
  iv_MaxTokens :: "int option"
  iv_TierLabel :: string
  iv_InputPrice :: "rat option"
  iv_OutputPrice :: "rat option"
  iv_CacheWritePrice :: "rat option"
  iv_CacheReadPrice :: "rat option"
  iv_PerRequestPrice :: "rat option"

record ChannelModelPricing =
  cp_Platform :: string
  cp_Models :: "string list"
  cp_BillingMode :: BillingMode
  cp_InputPrice :: "rat option"
  cp_OutputPrice :: "rat option"
  cp_CacheWritePrice :: "rat option"
  cp_CacheReadPrice :: "rat option"
  cp_ImageInputPrice :: "rat option"
  cp_ImageOutputPrice :: "rat option"
  cp_PerRequestPrice :: "rat option"
  cp_Intervals :: "PricingInterval list"

definition in_interval :: "int \<Rightarrow> PricingInterval \<Rightarrow> bool" where
  "in_interval totalTokens iv \<longleftrightarrow>
     totalTokens > iv_MinTokens iv \<and> (case iv_MaxTokens iv of None \<Rightarrow> True | Some m \<Rightarrow> totalTokens \<le> m)"

definition FindMatchingPricingInterval :: "PricingInterval list \<Rightarrow> int \<Rightarrow> PricingInterval option" where
  "FindMatchingPricingInterval intervals totalTokens = find (in_interval totalTokens) intervals"

definition GetIntervalForContext :: "ChannelModelPricing \<Rightarrow> int \<Rightarrow> PricingInterval option" where
  "GetIntervalForContext p totalTokens = FindMatchingPricingInterval (cp_Intervals p) totalTokens"

definition GetTierByLabel :: "ChannelModelPricing \<Rightarrow> string \<Rightarrow> PricingInterval option" where
  "GetTierByLabel p label = find (\<lambda>iv. equal_fold (iv_TierLabel iv) label) (cp_Intervals p)"

definition has_token_prices :: "PricingInterval \<Rightarrow> bool" where
  "has_token_prices iv \<longleftrightarrow>
     iv_InputPrice iv \<noteq> None \<or> iv_OutputPrice iv \<noteq> None \<or> iv_CacheWritePrice iv \<noteq> None \<or> iv_CacheReadPrice iv \<noteq> None"

definition filterValidIntervals :: "PricingInterval list \<Rightarrow> PricingInterval list" where
  "filterValidIntervals intervals = filter (\<lambda>iv. has_token_prices iv \<or> iv_PerRequestPrice iv \<noteq> None) intervals"

definition filterTokenIntervals :: "PricingInterval list \<Rightarrow> PricingInterval list" where
  "filterTokenIntervals intervals = filter has_token_prices intervals"

section \<open>Validation of a configuration\<close>

definition negative :: "rat option \<Rightarrow> bool" where
  "negative v \<longleftrightarrow> (case v of Some x \<Rightarrow> x < 0 | None \<Rightarrow> False)"

definition validateIntervalPrices :: "PricingInterval \<Rightarrow> string option" where
  "validateIntervalPrices iv =
     map_option fst (find (\<lambda>(_, v). negative v)
       [(''input_price'', iv_InputPrice iv), (''output_price'', iv_OutputPrice iv),
        (''cache_write_price'', iv_CacheWritePrice iv), (''cache_read_price'', iv_CacheReadPrice iv),
        (''per_request_price'', iv_PerRequestPrice iv)])"

definition validateSingleInterval :: "PricingInterval \<Rightarrow> string option" where
  "validateSingleInterval iv =
     (if iv_MinTokens iv < 0 then Some ''min_tokens must be >= 0''
      else (case iv_MaxTokens iv of
              Some m \<Rightarrow>
                if m \<le> 0 then Some ''max_tokens must be > 0''
                else if m \<le> iv_MinTokens iv then Some ''max_tokens must be > min_tokens''
                else validateIntervalPrices iv
            | None \<Rightarrow> validateIntervalPrices iv))"

text \<open>The list is sorted; every interval but the last is bounded and ends where the next begins or before.\<close>

fun validateIntervalOverlap :: "PricingInterval list \<Rightarrow> string option" where
  "validateIntervalOverlap [] = None"
| "validateIntervalOverlap [iv] = None"
| "validateIntervalOverlap (prev # iv # ivs) =
     (case iv_MaxTokens prev of
        None \<Rightarrow> Some ''unbounded interval must be the last one''
      | Some m \<Rightarrow> if m > iv_MinTokens iv then Some ''intervals overlap'' else validateIntervalOverlap (iv # ivs))"

fun first_failure :: "('a \<Rightarrow> 'e option) \<Rightarrow> 'a list \<Rightarrow> 'e option" where
  "first_failure f [] = None"
| "first_failure f (x # xs) = (case f x of Some e \<Rightarrow> Some e | None \<Rightarrow> first_failure f xs)"

definition ValidateIntervals :: "PricingInterval list \<Rightarrow> BillingMode \<Rightarrow> string option" where
  "ValidateIntervals intervals mode =
     (let sorted_ivs = sort_key iv_MinTokens intervals in
      case first_failure validateSingleInterval sorted_ivs of
        Some e \<Rightarrow> Some e
      | None \<Rightarrow> if request_mode mode then None else validateIntervalOverlap sorted_ivs)"

definition checkBillingModeRequirements :: "ChannelModelPricing \<Rightarrow> string option" where
  "checkBillingModeRequirements p =
     (if (cp_BillingMode p = BillingModePerRequest \<or> cp_BillingMode p = BillingModeImage) \<and>
         cp_PerRequestPrice p = None \<and> cp_Intervals p = [] then Some ''BILLING_MODE_MISSING_PRICE''
      else if cp_BillingMode p = BillingModeVideo \<and> cp_PerRequestPrice p = None \<and>
         \<not> list_ex (\<lambda>iv. iv_PerRequestPrice iv \<noteq> None) (cp_Intervals p) then Some ''BILLING_MODE_MISSING_PRICE''
      else None)"

definition checkPricesNotNegative :: "ChannelModelPricing \<Rightarrow> string option" where
  "checkPricesNotNegative p =
     (if list_ex negative
           [cp_InputPrice p, cp_OutputPrice p, cp_CacheWritePrice p, cp_CacheReadPrice p, cp_ImageInputPrice p,
            cp_ImageOutputPrice p, cp_PerRequestPrice p] then Some ''NEGATIVE_PRICE'' else None)"

definition checkIntervalsHavePrices :: "ChannelModelPricing \<Rightarrow> string option" where
  "checkIntervalsHavePrices p =
     (if list_ex (\<lambda>iv. \<not> has_token_prices iv \<and> iv_PerRequestPrice iv = None) (cp_Intervals p)
      then Some ''INTERVAL_MISSING_PRICE'' else None)"

definition validatePricingBillingMode :: "ChannelModelPricing list \<Rightarrow> string option" where
  "validatePricingBillingMode pricing =
     first_failure (\<lambda>p. first_failure (\<lambda>check. check p)
       [checkBillingModeRequirements, checkPricesNotNegative, checkIntervalsHavePrices]) pricing"

definition validatePricingIntervals :: "ChannelModelPricing list \<Rightarrow> string option" where
  "validatePricingIntervals pricing =
     (if list_ex (\<lambda>p. ValidateIntervals (cp_Intervals p) (cp_BillingMode p) \<noteq> None) pricing
      then Some ''INVALID_PRICING_INTERVALS'' else None)"

text \<open>A model pattern: an exact name, or a prefix followed by an asterisk.\<close>

record modelEntry =
  me_pattern :: string
  me_prefix :: string
  me_wildcard :: bool

definition splitWildcardSuffix :: "string \<Rightarrow> string \<times> bool" where
  "splitWildcardSuffix pattern = (if has_suffix ''*'' pattern then (trim_suffix ''*'' pattern, True) else (pattern, False))"

definition toModelEntry :: "string \<Rightarrow> modelEntry" where
  "toModelEntry pattern =
     (let (prefix, isWild) = splitWildcardSuffix (to_lower pattern) in
      \<lparr>me_pattern = pattern, me_prefix = prefix, me_wildcard = isWild\<rparr>)"

definition conflictsBetween :: "modelEntry \<Rightarrow> modelEntry \<Rightarrow> bool" where
  "conflictsBetween a b \<longleftrightarrow>
     (if \<not> me_wildcard a \<and> \<not> me_wildcard b then me_prefix a = me_prefix b
      else if me_wildcard a \<and> \<not> me_wildcard b then has_prefix (me_prefix a) (me_prefix b)
      else if \<not> me_wildcard a \<and> me_wildcard b then has_prefix (me_prefix b) (me_prefix a)
      else has_prefix (me_prefix b) (me_prefix a) \<or> has_prefix (me_prefix a) (me_prefix b))"

fun detectConflicts :: "modelEntry list \<Rightarrow> bool" where
  "detectConflicts [] \<longleftrightarrow> False"
| "detectConflicts (e # es) \<longleftrightarrow> list_ex (conflictsBetween e) es \<or> detectConflicts es"

definition platform_patterns :: "ChannelModelPricing list \<Rightarrow> string \<Rightarrow> string list" where
  "platform_patterns pricing platform = concat (map cp_Models (filter (\<lambda>p. cp_Platform p = platform) pricing))"

definition validateNoConflictingModels :: "ChannelModelPricing list \<Rightarrow> string option" where
  "validateNoConflictingModels pricing =
     (if list_ex (\<lambda>platform. detectConflicts (map toModelEntry (platform_patterns pricing platform)))
           (remdups (map cp_Platform pricing))
      then Some ''MODEL_PATTERN_CONFLICT'' else None)"

definition validateNoConflictingMappings :: "(string \<times> (string \<times> string) list) list \<Rightarrow> string option" where
  "validateNoConflictingMappings mapping =
     (if list_ex (\<lambda>(_, m). detectConflicts (map (toModelEntry \<circ> fst) m)) mapping
      then Some ''MAPPING_PATTERN_CONFLICT'' else None)"

definition validatePricingEntries :: "ChannelModelPricing list \<Rightarrow> string option" where
  "validatePricingEntries pricing =
     first_failure (\<lambda>check. check pricing)
       [validateNoConflictingModels, validatePricingIntervals, validatePricingBillingMode]"

definition validateChannelConfig ::
  "ChannelModelPricing list \<Rightarrow> (string \<times> (string \<times> string) list) list \<Rightarrow> string option" where
  "validateChannelConfig pricing mapping =
     (case validatePricingEntries pricing of
        Some e \<Rightarrow> Some e
      | None \<Rightarrow> validateNoConflictingMappings mapping)"

section \<open>Groups\<close>

definition PlatformCustom :: string where "PlatformCustom = ''custom''"
definition PlatformComposite :: string where "PlatformComposite = ''composite''"

definition isPlatformPricingMatch :: "string \<Rightarrow> string \<Rightarrow> bool" where
  "isPlatformPricingMatch groupPlatform pricingPlatform \<longleftrightarrow>
     (if groupPlatform = PlatformComposite then pricingPlatform = PlatformCustom else groupPlatform = pricingPlatform)"

text \<open>One pass over the entries and their patterns: the first exact match ends it, the first wildcard that
  matches is kept for the end.\<close>

fun match_entries :: "string \<Rightarrow> (string \<times> ChannelModelPricing) list \<Rightarrow> ChannelModelPricing option \<Rightarrow> ChannelModelPricing option" where
  "match_entries model [] wildcard = wildcard"
| "match_entries model ((pattern, pricing) # ps) wildcard =
     (let pat = normalizeChannelPricingModelName pattern in
      if pat = model then Some pricing
      else match_entries model ps
        (if wildcard = None \<and> has_suffix ''*'' pat \<and> has_prefix (trim_suffix ''*'' pat) model
         then Some pricing else wildcard))"

definition entry_patterns :: "ChannelModelPricing list \<Rightarrow> (string \<times> ChannelModelPricing) list" where
  "entry_patterns entries = concat (map (\<lambda>p. map (\<lambda>m. (m, p)) (cp_Models p)) entries)"

definition matchPlatformModelPricing :: "ChannelModelPricing list \<Rightarrow> string \<Rightarrow> string \<Rightarrow> ChannelModelPricing option" where
  "matchPlatformModelPricing entries platform model =
     match_entries (normalizeChannelPricingModelName model)
       (entry_patterns
         (filter (\<lambda>p. \<not> (cp_Platform p \<noteq> [] \<and> \<not> isPlatformPricingMatch platform (cp_Platform p))) entries))
       None"

section \<open>Channels and their cache\<close>

record Channel =
  ch_ID :: int
  ch_Status :: string
  ch_BillingModelSource :: string
  ch_RestrictModels :: bool
  ch_GroupIDs :: "int list"
  ch_ModelPricing :: "ChannelModelPricing list"
  ch_ModelMapping :: "(string \<times> (string \<times> string) list) list"

definition Channel_IsActive :: "Channel \<Rightarrow> bool" where
  "Channel_IsActive c \<longleftrightarrow> ch_Status c = ''active''"

definition normalizeBillingModelSource :: "Channel \<Rightarrow> Channel" where
  "normalizeBillingModelSource c =
     (if ch_BillingModelSource c = [] then c\<lparr>ch_BillingModelSource := ''channel_mapped''\<rparr> else c)"

definition Channel_GetModelPricing :: "Channel \<Rightarrow> string \<Rightarrow> ChannelModelPricing option" where
  "Channel_GetModelPricing c model =
     find (\<lambda>p. list_ex (\<lambda>m. to_lower m = to_lower model) (cp_Models p)) (ch_ModelPricing c)"

definition GetModelPricingByPlatform :: "Channel \<Rightarrow> string \<Rightarrow> string \<Rightarrow> ChannelModelPricing option" where
  "GetModelPricingByPlatform c platform model =
     find (\<lambda>p. cp_Platform p = platform \<and> list_ex (\<lambda>m. to_lower m = to_lower model) (cp_Models p)) (ch_ModelPricing c)"

record channelCache =
  cc_pricingByGroupModel :: "int \<times> string \<times> string \<Rightarrow> ChannelModelPricing option"
  cc_wildcardByGroupPlatform :: "int \<times> string \<Rightarrow> (string \<times> ChannelModelPricing) list"
  cc_mappingByGroupModel :: "int \<times> string \<times> string \<Rightarrow> string option"
  cc_wildcardMappingByGP :: "int \<times> string \<Rightarrow> (string \<times> string) list"
  cc_channelByGroupID :: "int \<Rightarrow> Channel option"
  cc_groupPlatform :: "int \<Rightarrow> string"
  cc_loadedAt :: time

definition newEmptyChannelCache :: channelCache where
  "newEmptyChannelCache =
     \<lparr>cc_pricingByGroupModel = (\<lambda>_. None), cc_wildcardByGroupPlatform = (\<lambda>_. []),
      cc_mappingByGroupModel = (\<lambda>_. None), cc_wildcardMappingByGP = (\<lambda>_. []),
      cc_channelByGroupID = (\<lambda>_. None), cc_groupPlatform = (\<lambda>_. []), cc_loadedAt = zero_time\<rparr>"

definition add_pricing :: "int \<Rightarrow> string \<times> ChannelModelPricing \<Rightarrow> channelCache \<Rightarrow> channelCache" where
  "add_pricing gid = (\<lambda>(model, pricing) cache.
     let platform = cp_Platform pricing in
     if has_suffix ''*'' model then
       cache\<lparr>cc_wildcardByGroupPlatform :=
         (cc_wildcardByGroupPlatform cache)((gid, platform) :=
            cc_wildcardByGroupPlatform cache (gid, platform) @
              [(normalizeChannelPricingModelName (trim_suffix ''*'' model), pricing)])\<rparr>
     else
       cache\<lparr>cc_pricingByGroupModel :=
         (cc_pricingByGroupModel cache)((gid, platform, normalizeChannelPricingModelName model) := Some pricing)\<rparr>)"

definition expandPricingToCache :: "Channel \<Rightarrow> int \<Rightarrow> string \<Rightarrow> channelCache \<Rightarrow> channelCache" where
  "expandPricingToCache ch gid platform cache =
     fold (add_pricing gid)
       (entry_patterns (filter (\<lambda>p. isPlatformPricingMatch platform (cp_Platform p)) (ch_ModelPricing ch))) cache"

definition matchingPlatforms :: "string \<Rightarrow> string list" where
  "matchingPlatforms groupPlatform = (if groupPlatform = PlatformComposite then [PlatformCustom] else [groupPlatform])"

definition matchingMappingPlatforms :: "string \<Rightarrow> string list" where
  "matchingMappingPlatforms groupPlatform =
     (if groupPlatform = PlatformComposite then [PlatformCustom, PlatformComposite] else [groupPlatform])"

definition add_mapping :: "int \<Rightarrow> string \<Rightarrow> string \<times> string \<Rightarrow> channelCache \<Rightarrow> channelCache" where
  "add_mapping gid cachePlatform = (\<lambda>(src, dst) cache.
     if has_suffix ''*'' src then
       cache\<lparr>cc_wildcardMappingByGP :=
         (cc_wildcardMappingByGP cache)((gid, cachePlatform) :=
            cc_wildcardMappingByGP cache (gid, cachePlatform) @ [(to_lower (trim_suffix ''*'' src), dst)])\<rparr>
     else if cc_mappingByGroupModel cache (gid, cachePlatform, to_lower src) \<noteq> None then cache
     else
       cache\<lparr>cc_mappingByGroupModel :=
         (cc_mappingByGroupModel cache)((gid, cachePlatform, to_lower src) := Some dst)\<rparr>)"

definition expandMappingToCache :: "Channel \<Rightarrow> int \<Rightarrow> string \<Rightarrow> channelCache \<Rightarrow> channelCache" where
  "expandMappingToCache ch gid platform cache =
     fold (\<lambda>mappingPlatform cache.
         case map_of (ch_ModelMapping ch) mappingPlatform of
           None \<Rightarrow> cache
         | Some platformMapping \<Rightarrow>
             fold (add_mapping gid (if platform = PlatformComposite then PlatformCustom else mappingPlatform))
               platformMapping cache)
       (matchingMappingPlatforms platform) cache"

definition add_channel :: "(int \<Rightarrow> string) \<Rightarrow> Channel \<Rightarrow> channelCache \<Rightarrow> channelCache" where
  "add_channel groupPlatforms c cache =
     (let ch = normalizeBillingModelSource c in
      fold (\<lambda>gid cache.
          let cache1 = cache\<lparr>cc_channelByGroupID := (cc_channelByGroupID cache)(gid := Some ch)\<rparr>
          in expandMappingToCache ch gid (groupPlatforms gid)
               (expandPricingToCache ch gid (groupPlatforms gid) cache1))
        (ch_GroupIDs ch) cache)"

definition populateChannelCache :: "time \<Rightarrow> Channel list \<Rightarrow> (int \<Rightarrow> string) \<Rightarrow> channelCache" where
  "populateChannelCache now channels groupPlatforms =
     fold (add_channel groupPlatforms) channels
       (newEmptyChannelCache\<lparr>cc_groupPlatform := groupPlatforms, cc_loadedAt := now\<rparr>)"

definition channelCacheTTL :: duration where "channelCacheTTL = 600000000000"
definition channelErrorTTL :: duration where "channelErrorTTL = 5000000000"

text \<open>What the repository answers to one rebuild: the channels with the platforms of their groups, or an
  error. The state of the service is its cache.\<close>

type_synonym channel_data = "string + Channel list \<times> (int \<Rightarrow> string)"

definition buildCache :: "time \<Rightarrow> channel_data \<Rightarrow> (string + channelCache) \<times> channelCache option" where
  "buildCache now answer =
     (case answer of
        Inl e \<Rightarrow> (Inl e, Some (newEmptyChannelCache\<lparr>cc_loadedAt := now - (channelCacheTTL - channelErrorTTL)\<rparr>))
      | Inr (channels, groupPlatforms) \<Rightarrow>
          (let cache = populateChannelCache now channels groupPlatforms in (Inr cache, Some cache)))"

definition loadCache :: "time \<Rightarrow> channel_data \<Rightarrow> channelCache option \<Rightarrow> (string + channelCache) \<times> channelCache option" where
  "loadCache now answer cached =
     (case cached of
        Some cache \<Rightarrow>
          if time_sub now (cc_loadedAt cache) < channelCacheTTL then (Inr cache, cached) else buildCache now answer
      | None \<Rightarrow> buildCache now answer)"

definition invalidateCache :: "time \<Rightarrow> channel_data \<Rightarrow> channelCache option \<Rightarrow> channelCache option" where
  "invalidateCache now answer cached = snd (buildCache now answer)"

definition channelLookupPlatform :: "string option \<Rightarrow> string \<Rightarrow> string" where
  "channelLookupPlatform forcePlatform groupPlatform =
     (if groupPlatform = PlatformComposite then PlatformCustom
      else (case forcePlatform of
              Some f \<Rightarrow> if trim_space f \<noteq> [] then trim_space f else groupPlatform
            | None \<Rightarrow> groupPlatform))"

definition matchWildcard :: "channelCache \<Rightarrow> int \<Rightarrow> string \<Rightarrow> string \<Rightarrow> ChannelModelPricing option" where
  "matchWildcard c groupID platform modelLower =
     map_option snd (find (\<lambda>(prefix, _). has_prefix prefix modelLower) (cc_wildcardByGroupPlatform c (groupID, platform)))"

definition matchWildcardMapping :: "channelCache \<Rightarrow> int \<Rightarrow> string \<Rightarrow> string \<Rightarrow> string" where
  "matchWildcardMapping c groupID platform modelLower =
     (case find (\<lambda>(prefix, _). has_prefix prefix modelLower) (cc_wildcardMappingByGP c (groupID, platform)) of
        Some (_, target) \<Rightarrow> target
      | None \<Rightarrow> [])"

definition lookupPricingAcrossPlatforms :: "channelCache \<Rightarrow> int \<Rightarrow> string \<Rightarrow> string \<Rightarrow> ChannelModelPricing option" where
  "lookupPricingAcrossPlatforms cache groupID groupPlatform model =
     (let m = normalizeChannelPricingModelName model in
      case first_some (map (\<lambda>p m. cc_pricingByGroupModel cache (groupID, p, m)) (matchingPlatforms groupPlatform)) m of
        Some pricing \<Rightarrow> Some pricing
      | None \<Rightarrow> first_some (map (\<lambda>p. matchWildcard cache groupID p) (matchingPlatforms groupPlatform)) m)"

definition lookupMappingAcrossPlatforms :: "channelCache \<Rightarrow> int \<Rightarrow> string \<Rightarrow> string \<Rightarrow> string" where
  "lookupMappingAcrossPlatforms cache groupID groupPlatform modelLower =
     (case first_some (map (\<lambda>p m. cc_mappingByGroupModel cache (groupID, p, m)) (matchingMappingPlatforms groupPlatform)) modelLower of
        Some mapped \<Rightarrow> mapped
      | None \<Rightarrow>
          (case find (\<lambda>mapped. mapped \<noteq> [])
                  (map (\<lambda>p. matchWildcardMapping cache groupID p modelLower) (matchingMappingPlatforms groupPlatform)) of
             Some mapped \<Rightarrow> mapped
           | None \<Rightarrow> []))"

text \<open>The channel of a group and the platform its prices are looked up under.\<close>

definition lookupGroupChannel :: "string option \<Rightarrow> channelCache \<Rightarrow> int \<Rightarrow> (Channel \<times> string) option" where
  "lookupGroupChannel forcePlatform cache groupID =
     (case cc_channelByGroupID cache groupID of
        Some ch \<Rightarrow>
          if Channel_IsActive ch then Some (ch, channelLookupPlatform forcePlatform (cc_groupPlatform cache groupID))
          else None
      | None \<Rightarrow> None)"

definition GetChannelForGroup :: "channelCache \<Rightarrow> int \<Rightarrow> Channel option" where
  "GetChannelForGroup cache groupID =
     (case cc_channelByGroupID cache groupID of
        Some ch \<Rightarrow> if Channel_IsActive ch then Some ch else None
      | None \<Rightarrow> None)"

text \<open>The operations below take what \<open>loadCache\<close> answered.\<close>

definition GetChannelModelPricing ::
  "string option \<Rightarrow> string + channelCache \<Rightarrow> int \<Rightarrow> string \<Rightarrow> ChannelModelPricing option" where
  "GetChannelModelPricing forcePlatform loaded groupID model =
     (case loaded of
        Inl _ \<Rightarrow> None
      | Inr cache \<Rightarrow>
          (case lookupGroupChannel forcePlatform cache groupID of
             None \<Rightarrow> None
           | Some (ch, platform) \<Rightarrow> lookupPricingAcrossPlatforms cache groupID platform (to_lower model)))"

record ChannelMappingResult =
  cm_MappedModel :: string
  cm_ChannelID :: int
  cm_Mapped :: bool
  cm_BillingModelSource :: string

definition resolveMapping :: "channelCache \<Rightarrow> Channel \<times> string \<Rightarrow> int \<Rightarrow> string \<Rightarrow> ChannelMappingResult" where
  "resolveMapping cache lk groupID model =
     (let (ch, platform) = lk;
          mapped = lookupMappingAcrossPlatforms cache groupID platform (to_lower model)
      in \<lparr>cm_MappedModel = (if mapped \<noteq> [] then mapped else model), cm_ChannelID = ch_ID ch,
          cm_Mapped = (mapped \<noteq> []), cm_BillingModelSource = ch_BillingModelSource ch\<rparr>)"

definition ResolveChannelMapping :: "string option \<Rightarrow> string + channelCache \<Rightarrow> int \<Rightarrow> string \<Rightarrow> ChannelMappingResult" where
  "ResolveChannelMapping forcePlatform loaded groupID model =
     (case loaded of
        Inl _ \<Rightarrow> \<lparr>cm_MappedModel = model, cm_ChannelID = 0, cm_Mapped = False, cm_BillingModelSource = []\<rparr>
      | Inr cache \<Rightarrow>
          (case lookupGroupChannel forcePlatform cache groupID of
             None \<Rightarrow> \<lparr>cm_MappedModel = model, cm_ChannelID = 0, cm_Mapped = False, cm_BillingModelSource = []\<rparr>
           | Some lk \<Rightarrow> resolveMapping cache lk groupID model))"

definition checkRestricted :: "channelCache \<Rightarrow> Channel \<times> string \<Rightarrow> int \<Rightarrow> string \<Rightarrow> bool" where
  "checkRestricted cache lk groupID model \<longleftrightarrow>
     (let (ch, platform) = lk in
      ch_RestrictModels ch \<and> lookupPricingAcrossPlatforms cache groupID platform (to_lower model) = None)"

definition IsModelRestricted :: "string option \<Rightarrow> string + channelCache \<Rightarrow> int \<Rightarrow> string \<Rightarrow> bool" where
  "IsModelRestricted forcePlatform loaded groupID model \<longleftrightarrow>
     (case loaded of
        Inl _ \<Rightarrow> False
      | Inr cache \<Rightarrow>
          (case lookupGroupChannel forcePlatform cache groupID of
             None \<Rightarrow> False
           | Some lk \<Rightarrow> checkRestricted cache lk groupID model))"

end
