(* ===== verification/PriceResolver.thy ===== *)
theory PriceResolver
  imports ChannelPrices
begin

text \<open>
  From the prices of a group, a channel and the price list to one resolved price, and from that to the cost
  of a request (\<open>service/model_pricing_resolver.go\<close>, the unified entry of \<open>service/billing_service.go\<close>).
  Pointers to price cards are options; copying a card before it is changed is the sharing of values.
\<close>

section \<open>Resolution\<close>

definition PricingSourceGroup :: string where "PricingSourceGroup = ''group''"
definition PricingSourceChannel :: string where "PricingSourceChannel = ''channel''"
definition PricingSourceLiteLLM :: string where "PricingSourceLiteLLM = ''litellm''"
definition PricingSourceFallback :: string where "PricingSourceFallback = ''fallback''"

lemmas pricing_sources =
  PricingSourceGroup_def PricingSourceChannel_def PricingSourceLiteLLM_def PricingSourceFallback_def

record ResolvedPricing =
  rp_Mode :: BillingMode
  rp_BasePricing :: "ModelPricing option"
  rp_Intervals :: "PricingInterval list"
  rp_RequestTiers :: "PricingInterval list"
  rp_DefaultPerRequestPrice :: rat
  rp_Source :: string
  rp_SupportsCacheBreakdown :: bool
  rp_channelPricing :: "ChannelModelPricing option"
  rp_catalogBase :: bool
  rp_flatTokenPriced :: bool

text \<open>The billing group of an API key, as far as prices depend on it.\<close>

record Group =
  gr_ID :: int
  gr_Platform :: string
  gr_ModelPricing :: "ChannelModelPricing list"
  gr_RateMultiplier :: rat
  gr_FastRateEnabled :: bool
  gr_FastRateMultiplier :: rat
  gr_ImageRateIndependent :: bool
  gr_ImageRateMultiplier :: rat
  gr_VideoRateIndependent :: bool
  gr_VideoRateMultiplier :: rat
  gr_ImagePrice1K :: "rat option"
  gr_ImagePrice2K :: "rat option"
  gr_ImagePrice4K :: "rat option"
  gr_VideoPrice480P :: "rat option"
  gr_VideoPrice720P :: "rat option"
  gr_VideoPrice1080P :: "rat option"
  gr_WebSearchPricePerCall :: "rat option"
  gr_SubscriptionType :: string
  gr_PeakRateEnabled :: bool
  gr_PeakStart :: string
  gr_PeakEnd :: string
  gr_PeakRateMultiplier :: rat
  gr_CyberAutoChargeEnabled :: bool
  gr_CyberAutoChargeAmount :: rat

definition Group_GetModelPricing :: "Group \<Rightarrow> string \<Rightarrow> ChannelModelPricing option" where
  "Group_GetModelPricing g model = matchPlatformModelPricing (gr_ModelPricing g) (gr_Platform g) model"

text \<open>The resolver: the billing service and the channel service, here its answer to a group and a model;
  \<open>None\<close> without a channel service.\<close>

record ModelPricingResolver =
  rs_billingService :: BillingService
  rs_channelPricing :: "(int \<Rightarrow> string \<Rightarrow> ChannelModelPricing option) option"

record PricingInput =
  pin_Model :: string
  pin_GroupID :: "int option"
  pin_Group :: "Group option"

definition resolveBasePricing :: "ModelPricingResolver \<Rightarrow> string \<Rightarrow> ModelPricing option \<times> string" where
  "resolveBasePricing r model =
     (case GetModelPricing (rs_billingService r) model of
        Inl _ \<Rightarrow> (None, PricingSourceFallback)
      | Inr pricing \<Rightarrow> (Some pricing, PricingSourceLiteLLM))"

text \<open>The overrides of an entry or an interval: a given price replaces both the standard and the priority
  price.\<close>

definition override_input :: "rat option \<Rightarrow> ModelPricing \<Rightarrow> ModelPricing" where
  "override_input v p = (case v of None \<Rightarrow> p | Some x \<Rightarrow> p\<lparr>mp_InputPricePerToken := x, mp_InputPricePerTokenPriority := x\<rparr>)"

definition override_output :: "rat option \<Rightarrow> ModelPricing \<Rightarrow> ModelPricing" where
  "override_output v p =
     (case v of None \<Rightarrow> p | Some x \<Rightarrow> p\<lparr>mp_OutputPricePerToken := x, mp_OutputPricePerTokenPriority := x\<rparr>)"

definition override_cache_write :: "rat option \<Rightarrow> ModelPricing \<Rightarrow> ModelPricing" where
  "override_cache_write v p =
     (case v of
        None \<Rightarrow> p
      | Some x \<Rightarrow> p\<lparr>mp_CacheCreationPricePerToken := x, mp_CacheCreationPricePerTokenPriority := x,
                   mp_CacheCreationPriceExplicit := True, mp_CacheCreation5mPrice := x, mp_CacheCreation1hPrice := x\<rparr>)"

definition override_cache_read :: "rat option \<Rightarrow> ModelPricing \<Rightarrow> ModelPricing" where
  "override_cache_read v p =
     (case v of None \<Rightarrow> p | Some x \<Rightarrow> p\<lparr>mp_CacheReadPricePerToken := x, mp_CacheReadPricePerTokenPriority := x\<rparr>)"

definition applyChannelImageOutputPrice :: "ChannelModelPricing option \<Rightarrow> ModelPricing \<Rightarrow> ModelPricing" where
  "applyChannelImageOutputPrice chPricing pricing =
     (case Option.bind chPricing cp_ImageOutputPrice of
        Some x \<Rightarrow> pricing\<lparr>mp_ImageOutputPricePerToken := x, mp_ImageOutputPriceExplicit := True\<rparr>
      | None \<Rightarrow> pricing\<lparr>mp_ImageOutputPricePerToken := 0, mp_ImageOutputPriceExplicit := False\<rparr>)"

definition applyChannelImageInputPrice :: "ChannelModelPricing option \<Rightarrow> ModelPricing \<Rightarrow> ModelPricing" where
  "applyChannelImageInputPrice chPricing pricing =
     pricing\<lparr>mp_ImageInputPricePerToken :=
       (case Option.bind chPricing cp_ImageInputPrice of Some x \<Rightarrow> x | None \<Rightarrow> 0)\<rparr>"

definition applyMissingCachePrices :: "ModelPricing \<Rightarrow> bool \<Rightarrow> bool \<Rightarrow> ModelPricing" where
  "applyMissingCachePrices pricing cacheReadSet cacheWriteSet =
     (let p1 = (if cacheReadSet then pricing
                else pricing\<lparr>mp_CacheReadPricePerToken := mp_InputPricePerToken pricing,
                       mp_CacheReadPricePerTokenPriority := mp_InputPricePerTokenPriority pricing\<rparr>)
      in if cacheWriteSet then p1
         else p1\<lparr>mp_CacheCreationPricePerToken := mp_InputPricePerToken p1,
                mp_CacheCreationPricePerTokenPriority := mp_InputPricePerTokenPriority p1,
                mp_CacheCreation5mPrice := mp_InputPricePerToken p1,
                mp_CacheCreation1hPrice := mp_InputPricePerToken p1\<rparr>)"

definition override_entry :: "ChannelModelPricing \<Rightarrow> ModelPricing \<Rightarrow> ModelPricing" where
  "override_entry ch p =
     override_cache_read (cp_CacheReadPrice ch) (override_cache_write (cp_CacheWritePrice ch)
       (override_output (cp_OutputPrice ch) (override_input (cp_InputPrice ch) p)))"

definition override_interval :: "PricingInterval \<Rightarrow> ModelPricing \<Rightarrow> ModelPricing" where
  "override_interval iv p =
     override_cache_read (iv_CacheReadPrice iv) (override_cache_write (iv_CacheWritePrice iv)
       (override_output (iv_OutputPrice iv) (override_input (iv_InputPrice iv) p)))"

definition GetModelPricingWithChannel ::
  "BillingService \<Rightarrow> string \<Rightarrow> ChannelModelPricing option \<Rightarrow> price_error + ModelPricing" where
  "GetModelPricingWithChannel s model channelPricing =
     (case GetModelPricing s model of
        Inl e \<Rightarrow> Inl e
      | Inr pricing \<Rightarrow>
          (case channelPricing of
             None \<Rightarrow> Inr pricing
           | Some ch \<Rightarrow>
               Inr (applyChannelImageInputPrice (Some ch) (applyChannelImageOutputPrice (Some ch) (override_entry ch pricing)))))"

definition applyTokenOverrides :: "ChannelModelPricing \<Rightarrow> ResolvedPricing \<Rightarrow> ResolvedPricing" where
  "applyTokenOverrides ch resolved =
     (let base = (case rp_BasePricing resolved of None \<Rightarrow> no_price | Some p \<Rightarrow> p);
          p1 = applyChannelImageInputPrice (Some ch) (applyChannelImageOutputPrice (Some ch) (override_entry ch base));
          flat = cp_InputPrice ch \<noteq> None \<or> cp_OutputPrice ch \<noteq> None \<or> cp_CacheWritePrice ch \<noteq> None \<or>
                 cp_CacheReadPrice ch \<noteq> None \<or> cp_ImageInputPrice ch \<noteq> None \<or> cp_ImageOutputPrice ch \<noteq> None;
          p2 = (if rp_catalogBase resolved then p1
                else applyMissingCachePrices p1 (cp_CacheReadPrice ch \<noteq> None) (cp_CacheWritePrice ch \<noteq> None))
      in resolved\<lparr>rp_BasePricing := Some p2, rp_flatTokenPriced := flat,
                  rp_Intervals := filterTokenIntervals (cp_Intervals ch)\<rparr>)"

definition applyRequestTierOverrides :: "ChannelModelPricing \<Rightarrow> ResolvedPricing \<Rightarrow> ResolvedPricing" where
  "applyRequestTierOverrides ch resolved =
     resolved\<lparr>rp_RequestTiers := filterValidIntervals (cp_Intervals ch),
       rp_DefaultPerRequestPrice :=
         (case cp_PerRequestPrice ch of Some x \<Rightarrow> x | None \<Rightarrow> rp_DefaultPerRequestPrice resolved)\<rparr>"

definition unresolved :: ResolvedPricing where
  "unresolved =
     \<lparr>rp_Mode = [], rp_BasePricing = None, rp_Intervals = [], rp_RequestTiers = [], rp_DefaultPerRequestPrice = 0,
      rp_Source = [], rp_SupportsCacheBreakdown = False, rp_channelPricing = None, rp_catalogBase = False,
      rp_flatTokenPriced = False\<rparr>"

text \<open>The entry that applies and where it comes from: that of the group, else that of the channel.\<close>

definition custom_entry :: "ModelPricingResolver \<Rightarrow> PricingInput \<Rightarrow> (ChannelModelPricing \<times> string) option" where
  "custom_entry r input =
     (let group_entry =
        (case pin_Group input of
           Some g \<Rightarrow>
             if pin_GroupID input = None \<or> pin_GroupID input = Some (gr_ID g)
             then Group_GetModelPricing g (pin_Model input) else None
         | None \<Rightarrow> None)
      in case group_entry of
           Some p \<Rightarrow> Some (p, PricingSourceGroup)
         | None \<Rightarrow>
             (case (pin_GroupID input, rs_channelPricing r) of
                (Some gid, Some channels) \<Rightarrow> map_option (\<lambda>p. (p, PricingSourceChannel)) (channels gid (pin_Model input))
              | _ \<Rightarrow> None))"

definition Resolve :: "ModelPricingResolver \<Rightarrow> PricingInput \<Rightarrow> ResolvedPricing" where
  "Resolve r input =
     (let entry = custom_entry r input;
          token_path =
            (let (base, source) = resolveBasePricing r (pin_Model input);
                 resolved = unresolved\<lparr>rp_Mode := BillingModeToken, rp_BasePricing := base, rp_Source := source,
                    rp_SupportsCacheBreakdown := (case base of Some p \<Rightarrow> mp_SupportsCacheBreakdown p | None \<Rightarrow> False),
                    rp_catalogBase := (base \<noteq> None)\<rparr>
             in case entry of
                  None \<Rightarrow> resolved
                | Some (ch, pricingSource) \<Rightarrow>
                    applyTokenOverrides ch (resolved\<lparr>rp_Source := pricingSource, rp_channelPricing := Some ch\<rparr>))
      in case entry of
           Some (ch, pricingSource) \<Rightarrow>
             if request_mode (cp_BillingMode ch)
             then applyRequestTierOverrides ch
                    (unresolved\<lparr>rp_Mode := cp_BillingMode ch, rp_Source := pricingSource, rp_channelPricing := Some ch\<rparr>)
             else token_path
         | None \<Rightarrow> token_path)"

section \<open>Whether there is a price\<close>

definition hasCustomPricing :: "ResolvedPricing \<Rightarrow> bool" where
  "hasCustomPricing p \<longleftrightarrow> rp_Source p = PricingSourceGroup \<or> rp_Source p = PricingSourceChannel"

definition modelPricingHasTokenPrice :: "ModelPricing option \<Rightarrow> bool" where
  "modelPricingHasTokenPrice pricing \<longleftrightarrow>
     (case pricing of
        None \<Rightarrow> False
      | Some p \<Rightarrow> mp_InputPricePerToken p > 0 \<or> mp_OutputPricePerToken p > 0 \<or>
          mp_CacheCreationPricePerToken p > 0 \<or> mp_CacheReadPricePerToken p > 0 \<or>
          mp_ImageInputPricePerToken p > 0 \<or> mp_ImageOutputPricePerToken p > 0)"

definition basePriced :: "ResolvedPricing \<Rightarrow> bool" where
  "basePriced p \<longleftrightarrow> rp_catalogBase p \<or> rp_flatTokenPriced p \<or> modelPricingHasTokenPrice (rp_BasePricing p)"

definition hasDefaultPerRequestPrice :: "ResolvedPricing \<Rightarrow> bool" where
  "hasDefaultPerRequestPrice p \<longleftrightarrow>
     (case rp_channelPricing p of
        None \<Rightarrow> rp_DefaultPerRequestPrice p > 0
      | Some ch \<Rightarrow> cp_PerRequestPrice ch \<noteq> None)"

definition Billable :: "ResolvedPricing \<Rightarrow> bool" where
  "Billable p \<longleftrightarrow>
     (if request_mode (rp_Mode p)
      then hasDefaultPerRequestPrice p \<or> list_ex (\<lambda>tier. iv_PerRequestPrice tier \<noteq> None) (rp_RequestTiers p)
      else basePriced p \<or> rp_Intervals p \<noteq> [])"

section \<open>The price of a context length\<close>

text \<open>\<open>below\<close> and \<open>lowest\<close> of the loop.\<close>

fun nearest_from ::
  "int \<Rightarrow> PricingInterval list \<Rightarrow> PricingInterval option \<Rightarrow> PricingInterval option \<Rightarrow> PricingInterval option" where
  "nearest_from totalContextTokens [] below lowest = (case below of Some b \<Rightarrow> Some b | None \<Rightarrow> lowest)"
| "nearest_from totalContextTokens (iv # ivs) below lowest =
     nearest_from totalContextTokens ivs
       (if iv_MinTokens iv < totalContextTokens \<and>
           (case below of None \<Rightarrow> True | Some b \<Rightarrow> iv_MinTokens iv > iv_MinTokens b)
        then Some iv else below)
       (case lowest of None \<Rightarrow> Some iv | Some l \<Rightarrow> if iv_MinTokens iv < iv_MinTokens l then Some iv else Some l)"

definition nearestPricingInterval :: "PricingInterval list \<Rightarrow> int \<Rightarrow> PricingInterval option" where
  "nearestPricingInterval intervals totalContextTokens = nearest_from totalContextTokens intervals None None"

definition intervalToModelPricing :: "PricingInterval \<Rightarrow> ResolvedPricing \<Rightarrow> ModelPricing" where
  "intervalToModelPricing iv resolved =
     (let base = (case rp_BasePricing resolved of None \<Rightarrow> no_price | Some p \<Rightarrow> p);
          p1 = override_interval iv (base\<lparr>mp_SupportsCacheBreakdown := rp_SupportsCacheBreakdown resolved\<rparr>)
      in case rp_channelPricing resolved of
           None \<Rightarrow> p1
         | Some ch \<Rightarrow>
             (let p2 = applyChannelImageInputPrice (Some ch) (applyChannelImageOutputPrice (Some ch) p1) in
              if rp_catalogBase resolved then p2
              else applyMissingCachePrices p2
                     (iv_CacheReadPrice iv \<noteq> None \<or> cp_CacheReadPrice ch \<noteq> None)
                     (iv_CacheWritePrice iv \<noteq> None \<or> cp_CacheWritePrice ch \<noteq> None)))"

definition GetIntervalPricing :: "ResolvedPricing \<Rightarrow> int \<Rightarrow> ModelPricing option" where
  "GetIntervalPricing resolved totalContextTokens =
     (if rp_Intervals resolved = [] then rp_BasePricing resolved
      else (case FindMatchingPricingInterval (rp_Intervals resolved) totalContextTokens of
              Some iv \<Rightarrow> Some (intervalToModelPricing iv resolved)
            | None \<Rightarrow>
                if basePriced resolved then rp_BasePricing resolved
                else map_option (\<lambda>iv. intervalToModelPricing iv resolved)
                       (nearestPricingInterval (rp_Intervals resolved) totalContextTokens)))"

section \<open>Prices per request\<close>

definition requestTierPriceByLabel :: "PricingInterval list \<Rightarrow> string \<Rightarrow> rat option" where
  "requestTierPriceByLabel tiers tierLabel =
     (let label = trim_space tierLabel in
      if label = [] then None
      else Option.bind (find (\<lambda>t. iv_PerRequestPrice t \<noteq> None \<and> equal_fold (trim_space (iv_TierLabel t)) label) tiers)
             iv_PerRequestPrice)"

definition requestTierPriceByContext :: "PricingInterval list \<Rightarrow> int \<Rightarrow> rat option" where
  "requestTierPriceByContext tiers totalContextTokens =
     Option.bind (FindMatchingPricingInterval tiers totalContextTokens) iv_PerRequestPrice"

fun highest_from :: "rat option \<Rightarrow> PricingInterval list \<Rightarrow> rat option" where
  "highest_from best [] = best"
| "highest_from best (t # ts) =
     highest_from
       (case iv_PerRequestPrice t of
          None \<Rightarrow> best
        | Some x \<Rightarrow> (case best of None \<Rightarrow> Some x | Some b \<Rightarrow> if x > b then Some x else best)) ts"

definition highestRequestTierPrice :: "PricingInterval list \<Rightarrow> rat option" where
  "highestRequestTierPrice tiers = highest_from None tiers"

section \<open>The unified cost\<close>

record CostInput =
  ci_Model :: string
  ci_GroupID :: "int option"
  ci_Group :: "Group option"
  ci_Tokens :: UsageTokens
  ci_RequestCount :: int
  ci_SizeTier :: string
  ci_RateMultiplier :: rat
  ci_ServiceTier :: string
  ci_FastRateMultiplier :: rat
  ci_Resolver :: "ModelPricingResolver option"
  ci_Resolved :: "ResolvedPricing option"
  ci_LongContextBillingEnabled :: "bool option"

text \<open>The customer pays by the standard price times the Fast multiplier; the breakdown itself stays the
  cost of the upstream's priority tier.\<close>

definition with_customer_base :: "FullCostBreakdown \<Rightarrow> FullCostBreakdown \<Rightarrow> FullCostBreakdown" where
  "with_customer_base cost customerCost =
     cost\<lparr>bd_ActualCost := bd_ActualCost customerCost, bd_CustomerBase := Some (CostAmounts.truncate customerCost)\<rparr>"

definition calculateTokenCost :: "ResolvedPricing \<Rightarrow> CostInput \<Rightarrow> price_error + FullCostBreakdown" where
  "calculateTokenCost resolved input =
     (case validateUsageTokens (ci_Tokens input) of
        Some e \<Rightarrow> Inl e
      | None \<Rightarrow>
     (case sumNonNegativeInts [ut_InputTokens (ci_Tokens input), ut_CacheCreationTokens (ci_Tokens input),
                               ut_CacheReadTokens (ci_Tokens input)] of
        None \<Rightarrow> Inl (ErrInvalidUsageTokens ''context token total'')
      | Some totalContext \<Rightarrow>
     (case GetIntervalPricing resolved totalContext of
        None \<Rightarrow> Inl (ErrModelPricingUnavailable (ci_Model input))
      | Some price \<Rightarrow>
          if hasCustomPricing resolved \<and> \<not> Billable resolved then Inl (ErrModelPricingUnavailable (ci_Model input))
          else
            let pricing = applyModelSpecificPricingPolicy (ci_Model input) price;
                applyLongCtx =
                  rp_Intervals resolved = [] \<and>
                  (case ci_LongContextBillingEnabled input of Some enabled \<Rightarrow> enabled | None \<Rightarrow> True);
                cost = computeTokenBreakdown (Some pricing) (ci_Tokens input) (ci_RateMultiplier input)
                         (ci_ServiceTier input) applyLongCtx
            in if ci_FastRateMultiplier input > 0 \<and> normalizeBillingServiceTier (ci_ServiceTier input) = ''priority''
               then Inr (with_customer_base cost
                      (computeTokenBreakdown (Some pricing) (ci_Tokens input)
                         (ci_RateMultiplier input * ci_FastRateMultiplier input) [] applyLongCtx))
               else Inr cost)))"

definition request_unit_price :: "ResolvedPricing \<Rightarrow> string \<Rightarrow> int \<Rightarrow> rat option" where
  "request_unit_price resolved sizeTier totalContext =
     (case requestTierPriceByLabel (rp_RequestTiers resolved) sizeTier of
        Some x \<Rightarrow> Some x
      | None \<Rightarrow>
          (case requestTierPriceByContext (rp_RequestTiers resolved) totalContext of
             Some x \<Rightarrow> Some x
           | None \<Rightarrow>
               if hasDefaultPerRequestPrice resolved then Some (rp_DefaultPerRequestPrice resolved)
               else highestRequestTierPrice (rp_RequestTiers resolved)))"

definition calculatePerRequestCost :: "ResolvedPricing \<Rightarrow> CostInput \<Rightarrow> price_error + FullCostBreakdown" where
  "calculatePerRequestCost resolved input =
     (case validateUsageTokens (ci_Tokens input) of
        Some e \<Rightarrow> Inl e
      | None \<Rightarrow>
          (let count = (if ci_RequestCount input \<le> 0 then 1 else ci_RequestCount input);
               byLabel = requestTierPriceByLabel (rp_RequestTiers resolved) (ci_SizeTier input);
               context = sumNonNegativeInts [ut_InputTokens (ci_Tokens input),
                  ut_CacheCreationTokens (ci_Tokens input), ut_CacheReadTokens (ci_Tokens input)]
           in if \<not> validBillableRequestCount count then Inl (ErrInvalidUsageTokens ''request_count'')
              else if byLabel = None \<and> context = None then Inl (ErrInvalidUsageTokens ''context token total'')
              else (case request_unit_price resolved (ci_SizeTier input) ((case context of Some v \<Rightarrow> v | None \<Rightarrow> 0)) of
                      None \<Rightarrow> Inl (ErrModelPricingUnavailable (ci_Model input))
                    | Some unitPrice \<Rightarrow>
                        Inr (no_cost\<lparr>bd_TotalCost := unitPrice * of_int count,
                               bd_ActualCost := unitPrice * of_int count * ci_RateMultiplier input\<rparr>))))"

definition CalculateCostUnified :: "BillingService \<Rightarrow> CostInput \<Rightarrow> price_error + FullCostBreakdown" where
  "CalculateCostUnified s input =
     (case validateUsageTokens (ci_Tokens input) of
        Some e \<Rightarrow> Inl e
      | None \<Rightarrow>
     (case ci_Resolver input of
        None \<Rightarrow>
          (let longCtx = (case ci_LongContextBillingEnabled input of Some enabled \<Rightarrow> enabled | None \<Rightarrow> True) in
           case calculateCostWithServiceTierPolicy s (ci_Model input) (ci_Tokens input) (ci_RateMultiplier input)
                  (ci_ServiceTier input) longCtx of
             Inl e \<Rightarrow> Inl e
           | Inr cost \<Rightarrow>
               if ci_FastRateMultiplier input \<le> 0 \<or> normalizeBillingServiceTier (ci_ServiceTier input) \<noteq> ''priority''
               then Inr cost
               else (case calculateCostWithServiceTierPolicy s (ci_Model input) (ci_Tokens input)
                            (ci_RateMultiplier input * ci_FastRateMultiplier input) [] longCtx of
                       Inl e \<Rightarrow> Inl e
                     | Inr customerCost \<Rightarrow> Inr (with_customer_base cost customerCost)))
      | Some resolver \<Rightarrow>
          (let resolved = (case ci_Resolved input of
                 Some r \<Rightarrow> r
               | None \<Rightarrow> Resolve resolver
                   \<lparr>pin_Model = ci_Model input, pin_GroupID = ci_GroupID input, pin_Group = ci_Group input\<rparr>);
               input1 = (if ci_RateMultiplier input < 0 then input\<lparr>ci_RateMultiplier := 0\<rparr> else input);
               outcome = (if request_mode (rp_Mode resolved) then calculatePerRequestCost resolved input1
                          else calculateTokenCost resolved input1)
           in case outcome of
                Inl e \<Rightarrow> Inl e
              | Inr breakdown \<Rightarrow>
                  Inr (breakdown\<lparr>bd_BillingMode := (if rp_Mode resolved = [] then BillingModeToken else rp_Mode resolved)\<rparr>))))"

end
