(* ===== verification/MediaPrices.thy ===== *)
theory MediaPrices
  imports PriceResolver
begin

text \<open>
  Prices of images, videos and searches (\<open>service/image_billing_size.go\<close>, \<open>service/video_billing_resolution.go\<close>,
  \<open>service/media_price_config.go\<close>, the unit-price part of \<open>service/billing_service.go\<close>), and the multipliers of
  a group (\<open>service/group.go\<close>, \<open>service/group_fast_rate.go\<close>, \<open>service/image_billing_multiplier.go\<close>).
  The time of day is given in minutes in the time zone of the system. Infinities and NaN, which
  \<open>float64\<close> has and the rationals do not, are not modelled.
\<close>

section \<open>Sizes of images\<close>

definition ImageBillingSize1K :: string where "ImageBillingSize1K = ''1K''"
definition ImageBillingSize2K :: string where "ImageBillingSize2K = ''2K''"
definition ImageBillingSize4K :: string where "ImageBillingSize4K = ''4K''"

lemmas image_sizes = ImageBillingSize1K_def ImageBillingSize2K_def ImageBillingSize4K_def

definition parseImageBillingDimensions :: "string \<Rightarrow> (int \<times> int) option" where
  "parseImageBillingDimensions sz =
     (case split_at (CHR ''x'') (to_lower (trim_space sz)) of
        [w, h] \<Rightarrow>
          (case (ParseInt (trim_space w), ParseInt (trim_space h)) of
             (Some width, Some height) \<Rightarrow> if width \<le> 0 \<or> height \<le> 0 then None else Some (width, height)
           | _ \<Rightarrow> None)
      | _ \<Rightarrow> None)"

definition ClassifyImageBillingTier :: "string \<Rightarrow> string option" where
  "ClassifyImageBillingTier sz =
     (let trimmed = trim_space sz; normalized = to_lower trimmed in
      if normalized \<in> set [[], ''auto''] then None
      else if normalized = ''1k'' then Some ImageBillingSize1K
      else if normalized = ''2k'' then Some ImageBillingSize2K
      else if normalized = ''4k'' then Some ImageBillingSize4K
      else if normalized \<in> set [''2048x2048'', ''2048x1152''] then Some ImageBillingSize2K
      else if normalized \<in> set [''3840x2160'', ''2160x3840''] then Some ImageBillingSize4K
      else (case parseImageBillingDimensions trimmed of
              None \<Rightarrow> None
            | Some (width, height) \<Rightarrow>
                (let maxEdge = (if height > width then height else width) in
                 if maxEdge \<le> 1024 then Some ImageBillingSize1K
                 else if maxEdge \<le> 2048 then Some ImageBillingSize2K
                 else Some ImageBillingSize4K)))"

definition NormalizeImageBillingTierOrDefault :: "string \<Rightarrow> string" where
  "NormalizeImageBillingTierOrDefault sz =
     (case ClassifyImageBillingTier sz of Some tier \<Rightarrow> tier | None \<Rightarrow> ImageBillingSize2K)"

definition imageTierRank :: "string \<Rightarrow> nat" where
  "imageTierRank tier =
     (let t = to_upper (trim_space tier) in
      if t = ImageBillingSize1K then 1 else if t = ImageBillingSize2K then 2 else if t = ImageBillingSize4K then 3 else 0)"

record ImageBillingSizeResolution =
  sr_BillingSize :: string
  sr_InputSize :: string
  sr_OutputSize :: string
  sr_Source :: string
  sr_Breakdown :: "(string \<times> nat) list"

definition compactTrimmedStrings :: "string list \<Rightarrow> string list" where
  "compactTrimmedStrings values = filter (\<lambda>v. v \<noteq> []) (map trim_space values)"

definition firstDisplayImageOutputSize :: "string list \<Rightarrow> string" where
  "firstDisplayImageOutputSize outputSizes = (case compactTrimmedStrings outputSizes of s # _ \<Rightarrow> s | [] \<Rightarrow> [])"

definition highest_tier :: "string list \<Rightarrow> string" where
  "highest_tier tiers =
     foldl (\<lambda>best tier. if imageTierRank tier > imageTierRank best then tier else best) [] tiers"

text \<open>\<open>normalizeImageSizeBreakdown\<close> of the counts of the tiers.\<close>

definition tier_breakdown :: "string list \<Rightarrow> (string \<times> nat) list" where
  "tier_breakdown tiers =
     filter (\<lambda>(_, n). n > 0)
       (map (\<lambda>tier. (tier, length (filter (\<lambda>t. t = tier) tiers)))
          [ImageBillingSize1K, ImageBillingSize2K, ImageBillingSize4K])"

definition ResolveImageBillingSize :: "string \<Rightarrow> string list \<Rightarrow> ImageBillingSizeResolution" where
  "ResolveImageBillingSize input outputs =
     (let inputSize = trim_space input;
          outputSizes = compactTrimmedStrings outputs;
          outputSize = firstDisplayImageOutputSize outputSizes;
          tiers = List.map_filter ClassifyImageBillingTier outputSizes
      in if highest_tier tiers \<noteq> [] then
           \<lparr>sr_BillingSize = highest_tier tiers, sr_InputSize = inputSize, sr_OutputSize = outputSize,
            sr_Source = ''output'', sr_Breakdown = tier_breakdown tiers\<rparr>
         else (case ClassifyImageBillingTier inputSize of
                 Some tier \<Rightarrow>
                   \<lparr>sr_BillingSize = tier, sr_InputSize = inputSize, sr_OutputSize = outputSize,
                    sr_Source = ''input'', sr_Breakdown = []\<rparr>
               | None \<Rightarrow>
                   \<lparr>sr_BillingSize = ImageBillingSize2K, sr_InputSize = inputSize, sr_OutputSize = outputSize,
                    sr_Source = ''default'', sr_Breakdown = []\<rparr>))"

text \<open>What an upstream delivered, as far as images go: the two gateways have result types of their own that
  share these fields.\<close>

record image_result =
  im_ImageCount :: int
  im_ImageSize :: string
  im_ImageInputSize :: string
  im_ImageOutputSize :: string
  im_ImageOutputSizes :: "string list"
  im_ImageSizeSource :: string
  im_ImageSizeBreakdown :: "(string \<times> nat) list"

definition apply_image_resolution :: "'a image_result_scheme \<Rightarrow> 'a image_result_scheme" where
  "apply_image_resolution result =
     (if im_ImageCount result \<le> 0 then result
      else
        let inputSize = trim_space (im_ImageInputSize result);
            inputSize = (if inputSize = [] \<and> trim_space (im_ImageSize result) \<noteq> ImageBillingSize2K
                         then trim_space (im_ImageSize result) else inputSize);
            outputSizes = (if im_ImageOutputSizes result = [] \<and> trim_space (im_ImageOutputSize result) \<noteq> []
                           then [im_ImageOutputSize result] else im_ImageOutputSizes result);
            resolved = ResolveImageBillingSize inputSize outputSizes
        in result\<lparr>im_ImageSize := sr_BillingSize resolved, im_ImageInputSize := sr_InputSize resolved,
             im_ImageOutputSize := sr_OutputSize resolved, im_ImageSizeSource := sr_Source resolved,
             im_ImageSizeBreakdown := sr_Breakdown resolved\<rparr>)"

section \<open>Resolutions and durations of videos\<close>

definition VideoBillingResolution480P :: string where "VideoBillingResolution480P = ''480p''"
definition VideoBillingResolution720P :: string where "VideoBillingResolution720P = ''720p''"
definition VideoBillingResolution1080P :: string where "VideoBillingResolution1080P = ''1080p''"
definition VideoBillingResolution2K :: string where "VideoBillingResolution2K = ''2k''"
definition VideoBillingResolution4K :: string where "VideoBillingResolution4K = ''4k''"

lemmas video_resolutions = VideoBillingResolution480P_def VideoBillingResolution720P_def
  VideoBillingResolution1080P_def VideoBillingResolution2K_def VideoBillingResolution4K_def

definition normalizeVideoBillingResolution :: "string \<Rightarrow> string option" where
  "normalizeVideoBillingResolution resolution =
     (let r = to_lower (trim_space resolution) in
      if r \<in> set [''480'', ''480p'', ''sd'', ''854x480'', ''480x854'', ''480x480''] then Some VideoBillingResolution480P
      else if r \<in> set [''720'', ''720p'', ''hd'', ''1280x720'', ''720x1280'', ''720x720'']
        then Some VideoBillingResolution720P
      else if r \<in> set [''1080'', ''1080p'', ''full_hd'', ''full-hd'', ''fhd'', ''1920x1080'', ''1080x1920'', ''1080x1080'',
          ''1024x1792'', ''1792x1024''] then Some VideoBillingResolution1080P
      else if r \<in> set [''2k'', ''1440p'', ''2560x1440'', ''1440x2560'', ''1440x1440'', ''2048x2048'']
        then Some VideoBillingResolution2K
      else if r \<in> set [''4k'', ''2160p'', ''uhd'', ''3840x2160'', ''2160x3840'', ''2160x2160'', ''4096x4096'']
        then Some VideoBillingResolution4K
      else None)"

definition NormalizeVideoBillingResolutionOrDefault :: "string \<Rightarrow> string" where
  "NormalizeVideoBillingResolutionOrDefault resolution =
     (case normalizeVideoBillingResolution resolution of Some n \<Rightarrow> n | None \<Rightarrow> VideoBillingResolution480P)"

definition videoBillingModelBasename :: "string \<Rightarrow> string" where
  "videoBillingModelBasename model = after_last ''/'' (to_lower (trim_space model))"

definition NormalizeVideoBillingResolutionForModelOrDefault :: "string \<Rightarrow> string \<Rightarrow> string \<Rightarrow> string" where
  "NormalizeVideoBillingResolutionForModelOrDefault model resolution sz =
     (case normalizeVideoBillingResolution resolution of
        Some n \<Rightarrow> n
      | None \<Rightarrow>
     (case find (\<lambda>(suffix, _). has_suffix suffix (videoBillingModelBasename model))
             [(''-1080p'', VideoBillingResolution1080P), (''-720p'', VideoBillingResolution720P),
              (''-480p'', VideoBillingResolution480P), (''-4k'', VideoBillingResolution4K),
              (''-2k'', VideoBillingResolution2K)] of
        Some (_, r) \<Rightarrow> r
      | None \<Rightarrow>
     (case normalizeVideoBillingResolution sz of Some n \<Rightarrow> n | None \<Rightarrow> VideoBillingResolution480P)))"

definition normalizeVideoBillingDurationSeconds :: "int \<Rightarrow> int \<Rightarrow> int" where
  "normalizeVideoBillingDurationSeconds durationSeconds maxDuration =
     (if durationSeconds \<le> 0 then 8
      else if durationSeconds < 1 then 1
      else if durationSeconds > maxDuration then maxDuration
      else durationSeconds)"

definition NormalizeVideoBillingDurationSecondsForModelOrDefault :: "string \<Rightarrow> int \<Rightarrow> int" where
  "NormalizeVideoBillingDurationSecondsForModelOrDefault model durationSeconds =
     normalizeVideoBillingDurationSeconds durationSeconds
       (if has_prefix ''wan-3.0'' (videoBillingModelBasename model) then 30 else 15)"

definition NormalizeCustomVideoDurationSeconds :: "int \<Rightarrow> int" where
  "NormalizeCustomVideoDurationSeconds durationSeconds = (if durationSeconds \<le> 0 then 8 else durationSeconds)"

definition VideoReferencePriceMultiplier :: "string \<Rightarrow> bool \<Rightarrow> rat" where
  "VideoReferencePriceMultiplier model hasReferenceVideo =
     (if \<not> hasReferenceVideo then 1
      else if has_prefix ''seedance-2-5-'' (videoBillingModelBasename model) then 7 / 5
      else if has_prefix ''videos-'' (videoBillingModelBasename model) then 13 / 10
      else 1)"

definition normalizeCustomVideoBillingResolution :: "string \<Rightarrow> string" where
  "normalizeCustomVideoBillingResolution resolution =
     (case normalizeVideoBillingResolution resolution of Some n \<Rightarrow> n | None \<Rightarrow> [])"

section \<open>Prices of a group\<close>

definition Group_GetImagePrice :: "Group \<Rightarrow> string \<Rightarrow> rat option" where
  "Group_GetImagePrice g imageSize =
     (if imageSize = ''1K'' then gr_ImagePrice1K g
      else if imageSize = ''2K'' then gr_ImagePrice2K g
      else if imageSize = ''4K'' then gr_ImagePrice4K g
      else gr_ImagePrice2K g)"

definition GetVideoPrice :: "Group \<Rightarrow> string \<Rightarrow> rat option" where
  "GetVideoPrice g resolution =
     (let r = NormalizeVideoBillingResolutionOrDefault resolution in
      if r = VideoBillingResolution480P then gr_VideoPrice480P g
      else if r = VideoBillingResolution720P then gr_VideoPrice720P g
      else if r = VideoBillingResolution1080P then gr_VideoPrice1080P g
      else None)"

definition openAIFastRateMultiplier :: "Group option \<Rightarrow> string \<Rightarrow> rat" where
  "openAIFastRateMultiplier grp serviceTier =
     (case grp of
        None \<Rightarrow> 0
      | Some g \<Rightarrow>
          if gr_Platform g \<noteq> ''openai'' \<or> \<not> gr_FastRateEnabled g \<or>
             normalizeBillingServiceTier serviceTier \<noteq> ''priority'' \<or>
             gr_FastRateMultiplier g < 1 / 10 \<or> gr_FastRateMultiplier g > 100 then 0
          else gr_FastRateMultiplier g)"

definition parseMinutes :: "string \<Rightarrow> int option" where
  "parseMinutes hhmm =
     (case split_at (CHR '':'') hhmm of
        h # rest \<Rightarrow>
          (let m = join '':'' rest in
           if rest \<noteq> [] \<and> (length h = 1 \<or> length h = 2) \<and> length m = 2 \<and> list_all (in_range 48 57) (h @ m) then
             (case (digits_value h 0, digits_value m 0) of
                (Some hours, Some minutes) \<Rightarrow>
                  if hours > 23 \<or> minutes > 59 then None else Some (hours * 60 + minutes)
              | _ \<Rightarrow> None)
           else None)
      | [] \<Rightarrow> None)"

definition PeakMultiplierAt :: "Group \<Rightarrow> int \<Rightarrow> rat" where
  "PeakMultiplierAt g cur =
     (if gr_SubscriptionType g \<noteq> ''subscription'' \<or> \<not> gr_PeakRateEnabled g \<or> gr_PeakStart g = [] \<or> gr_PeakEnd g = []
      then 1
      else (case (parseMinutes (gr_PeakStart g), parseMinutes (gr_PeakEnd g)) of
              (Some start, Some stop) \<Rightarrow>
                if start \<ge> stop then 1
                else if cur \<ge> start \<and> cur < stop then gr_PeakRateMultiplier g
                else 1
            | _ \<Rightarrow> 1))"

definition ValidatePeakRateConfig :: "string \<Rightarrow> bool \<Rightarrow> string \<Rightarrow> string \<Rightarrow> rat \<Rightarrow> bool" where
  "ValidatePeakRateConfig subscriptionType enabled start stop multiplier \<longleftrightarrow>
     \<not> enabled \<or>
     subscriptionType = ''subscription'' \<and> start \<noteq> [] \<and> stop \<noteq> [] \<and>
     (case (parseMinutes start, parseMinutes stop) of (Some st, Some en) \<Rightarrow> st < en | _ \<Rightarrow> False) \<and> multiplier \<ge> 0"

definition resolveImageRateMultiplier :: "Group option \<Rightarrow> rat \<Rightarrow> rat" where
  "resolveImageRateMultiplier grp effectiveGroupMultiplier =
     (case grp of
        Some g \<Rightarrow>
          if gr_ImageRateIndependent g then (if gr_ImageRateMultiplier g < 0 then 0 else gr_ImageRateMultiplier g)
          else effectiveGroupMultiplier
      | None \<Rightarrow> effectiveGroupMultiplier)"

definition resolveVideoRateMultiplier :: "Group option \<Rightarrow> rat \<Rightarrow> rat" where
  "resolveVideoRateMultiplier grp effectiveGroupMultiplier =
     (case grp of
        Some g \<Rightarrow>
          if gr_VideoRateIndependent g then (if gr_VideoRateMultiplier g < 0 then 0 else gr_VideoRateMultiplier g)
          else effectiveGroupMultiplier
      | None \<Rightarrow> effectiveGroupMultiplier)"

definition computePeakAwareMultipliers :: "Group option \<Rightarrow> rat \<Rightarrow> int \<Rightarrow> rat \<times> rat" where
  "computePeakAwareMultipliers grp base cur =
     (base * (case grp of Some g \<Rightarrow> PeakMultiplierAt g cur | None \<Rightarrow> 1), resolveImageRateMultiplier grp base)"

definition CyberAutoCharge :: "Group option \<Rightarrow> rat" where
  "CyberAutoCharge grp =
     (case grp of
        None \<Rightarrow> 0
      | Some g \<Rightarrow>
          if \<not> gr_CyberAutoChargeEnabled g \<or> \<not> gr_CyberAutoChargeAmount g > 0 then 0 else gr_CyberAutoChargeAmount g)"

section \<open>Prices per search, image and second\<close>

definition defaultWebSearchPricePerCall :: rat where "defaultWebSearchPricePerCall = 1 / 100"
definition defaultImageGenerationPrice :: rat where "defaultImageGenerationPrice = 134 / 1000"

definition clamped_rate :: "rat \<Rightarrow> rat" where
  "clamped_rate rateMultiplier = (if rateMultiplier < 0 then 0 else rateMultiplier)"

definition CalculateWebSearchCost :: "int \<Rightarrow> rat option \<Rightarrow> rat \<Rightarrow> FullCostBreakdown" where
  "CalculateWebSearchCost callCount groupPrice rateMultiplier =
     (if callCount \<le> 0 \<or> callCount > maxBillableRequestCount then no_cost
      else
        let unitPrice = (case groupPrice of Some p \<Rightarrow> if p \<ge> 0 then p else defaultWebSearchPricePerCall
                         | None \<Rightarrow> defaultWebSearchPricePerCall);
            totalCost = unitPrice * of_int callCount
        in no_cost\<lparr>bd_TotalCost := totalCost, bd_ActualCost := totalCost * clamped_rate rateMultiplier,
             bd_BillingMode := BillingModePerRequest\<rparr>)"

record ImagePriceConfig =
  ic_Price1K :: "rat option"
  ic_Price2K :: "rat option"
  ic_Price4K :: "rat option"

record VideoPriceConfig =
  vc_Price480P :: "rat option"
  vc_Price720P :: "rat option"
  vc_Price1080P :: "rat option"

definition getGrokImagineImageTierPrice :: "string \<Rightarrow> rat \<Rightarrow> rat \<Rightarrow> rat" where
  "getGrokImagineImageTierPrice imageSize price1K price2K =
     (if NormalizeImageBillingTierOrDefault imageSize = ImageBillingSize1K then price1K else price2K)"

definition getDefaultGrokImagineImagePrice :: "string \<Rightarrow> string \<Rightarrow> rat option" where
  "getDefaultGrokImagineImagePrice model imageSize =
     (let m = to_lower (trim_space model) in
      if m = ''grok-imagine-image-quality'' then Some (getGrokImagineImageTierPrice imageSize (5 / 100) (7 / 100))
      else if m \<in> set [''grok-imagine'', ''grok-imagine-image'', ''grok-imagine-edit'']
        then Some (getGrokImagineImageTierPrice imageSize (2 / 100) (2 / 100))
      else None)"

definition getDefaultGrokImagineVideoPrice :: "string \<Rightarrow> string \<Rightarrow> rat option" where
  "getDefaultGrokImagineVideoPrice model resolution =
     (let m = to_lower (trim_space model); r = NormalizeVideoBillingResolutionOrDefault resolution in
      if has_prefix ''grok-imagine-video-1.5'' m then
        Some (if r = VideoBillingResolution480P then 8 / 100
              else if r = VideoBillingResolution720P then 14 / 100
              else if r = VideoBillingResolution1080P then 25 / 100
              else 8 / 100)
      else if has_prefix ''grok-imagine-video'' m then
        Some (if r = VideoBillingResolution480P then 5 / 100
              else if r = VideoBillingResolution720P \<or> r = VideoBillingResolution1080P then 7 / 100
              else 5 / 100)
      else None)"

definition getDefaultImagePrice :: "BillingService \<Rightarrow> string \<Rightarrow> string \<Rightarrow> rat" where
  "getDefaultImagePrice s model imageSize =
     (case getDefaultGrokImagineImagePrice model imageSize of
        Some price \<Rightarrow> price
      | None \<Rightarrow>
          (let listed = (case Option.bind (bs_pricingService s) (\<lambda>data. PricingService_GetModelPricing data model) of
                           Some l \<Rightarrow> if lp_OutputCostPerImage l > 0 then lp_OutputCostPerImage l else 0
                         | None \<Rightarrow> 0);
               basePrice = (if listed \<le> 0 then defaultImageGenerationPrice else listed)
           in if imageSize = ''2K'' then basePrice * (3 / 2)
              else if imageSize = ''4K'' then basePrice * 2
              else basePrice))"

definition getDefaultVideoPrice :: "BillingService \<Rightarrow> string \<Rightarrow> string \<Rightarrow> rat" where
  "getDefaultVideoPrice s model resolution =
     (case getDefaultGrokImagineVideoPrice model resolution of
        Some price \<Rightarrow> price
      | None \<Rightarrow> getDefaultImagePrice s model ImageBillingSize2K)"

definition getImageUnitPrice :: "BillingService \<Rightarrow> string \<Rightarrow> string \<Rightarrow> ImagePriceConfig option \<Rightarrow> rat" where
  "getImageUnitPrice s model imageSize groupConfig =
     (case Option.bind groupConfig (\<lambda>c.
             if imageSize = ''1K'' then ic_Price1K c
             else if imageSize = ''2K'' then ic_Price2K c
             else if imageSize = ''4K'' then ic_Price4K c
             else None) of
        Some price \<Rightarrow> price
      | None \<Rightarrow> getDefaultImagePrice s model imageSize)"

definition getVideoUnitPrice :: "BillingService \<Rightarrow> string \<Rightarrow> string \<Rightarrow> VideoPriceConfig option \<Rightarrow> rat" where
  "getVideoUnitPrice s model resolution groupConfig =
     (case Option.bind groupConfig (\<lambda>c.
             if resolution = VideoBillingResolution480P then vc_Price480P c
             else if resolution = VideoBillingResolution720P then vc_Price720P c
             else if resolution = VideoBillingResolution1080P then vc_Price1080P c
             else None) of
        Some price \<Rightarrow> price
      | None \<Rightarrow> getDefaultVideoPrice s model resolution)"

definition CalculateImageCost ::
  "BillingService \<Rightarrow> string \<Rightarrow> string \<Rightarrow> int \<Rightarrow> ImagePriceConfig option \<Rightarrow> rat \<Rightarrow> FullCostBreakdown" where
  "CalculateImageCost s model imageSize imageCount groupConfig rateMultiplier =
     (if imageCount \<le> 0 \<or> imageCount > maxBillableRequestCount then no_cost
      else
        let sz = NormalizeImageBillingTierOrDefault imageSize;
            totalCost = getImageUnitPrice s model sz groupConfig * of_int imageCount
        in no_cost\<lparr>bd_TotalCost := totalCost, bd_ActualCost := totalCost * clamped_rate rateMultiplier,
             bd_BillingMode := BillingModeImage\<rparr>)"

definition calculateVideoCost ::
  "BillingService \<Rightarrow> string \<Rightarrow> string \<Rightarrow> int \<Rightarrow> int \<Rightarrow> VideoPriceConfig option \<Rightarrow> rat \<Rightarrow> FullCostBreakdown" where
  "calculateVideoCost s model resolution videoCount durationSeconds groupConfig rateMultiplier =
     (if videoCount \<le> 0 \<or> videoCount > maxBillableRequestCount then no_cost
      else
        let r = NormalizeVideoBillingResolutionForModelOrDefault model resolution [];
            totalCost = getVideoUnitPrice s model r groupConfig * of_int durationSeconds * of_int videoCount
        in no_cost\<lparr>bd_TotalCost := totalCost, bd_ActualCost := totalCost * clamped_rate rateMultiplier,
             bd_BillingMode := BillingModeVideo\<rparr>)"

definition CalculateVideoCost ::
  "BillingService \<Rightarrow> string \<Rightarrow> string \<Rightarrow> int \<Rightarrow> int \<Rightarrow> VideoPriceConfig option \<Rightarrow> rat \<Rightarrow> FullCostBreakdown" where
  "CalculateVideoCost s model resolution videoCount durationSeconds groupConfig rateMultiplier =
     calculateVideoCost s model resolution videoCount
       (NormalizeVideoBillingDurationSecondsForModelOrDefault model durationSeconds) groupConfig rateMultiplier"

definition CalculateCustomVideoCost ::
  "BillingService \<Rightarrow> string \<Rightarrow> string \<Rightarrow> int \<Rightarrow> int \<Rightarrow> VideoPriceConfig option \<Rightarrow> rat \<Rightarrow> FullCostBreakdown" where
  "CalculateCustomVideoCost s model resolution videoCount durationSeconds groupConfig rateMultiplier =
     calculateVideoCost s model resolution videoCount (NormalizeCustomVideoDurationSeconds durationSeconds)
       groupConfig rateMultiplier"

definition image_price_config :: "Group \<Rightarrow> ImagePriceConfig" where
  "image_price_config g =
     \<lparr>ic_Price1K = gr_ImagePrice1K g, ic_Price2K = gr_ImagePrice2K g, ic_Price4K = gr_ImagePrice4K g\<rparr>"

definition video_price_config :: "Group \<Rightarrow> VideoPriceConfig" where
  "video_price_config g =
     \<lparr>vc_Price480P = gr_VideoPrice480P g, vc_Price720P = gr_VideoPrice720P g, vc_Price1080P = gr_VideoPrice1080P g\<rparr>"

end
