(* ===== verification/UsagePricing.thy ===== *)
theory UsagePricing
  imports MediaPrices
begin

text \<open>
  How the two gateways turn the usage of one request into its cost: the billing model, the multipliers, the
  choice between token, image, video and search prices, and the prices a media job freezes when it is
  admitted (\<open>service/gateway_usage_billing.go\<close>, \<open>service/openai_gateway_usage.go\<close>,
  \<open>service/media_image_pricing.go\<close>, \<open>applyCacheTTLOverride\<close> of \<open>service/gateway_upstream_response.go\<close>).

  The base multiplier of user and group, the answer of the repository that reads a group afresh
  (\<open>None\<close> on an error) and the time of day in minutes are arguments. Writing the usage log and applying the
  charge follow; the charge is the subject of the billing theories.
\<close>

record APIKey =
  key_GroupID :: "int option"
  key_Group :: "Group option"
  key_Managed :: bool

text \<open>A gateway, as far as prices go: both have a billing service and perhaps a resolver.\<close>

record Gateway =
  gw_billingService :: BillingService
  gw_resolver :: "ModelPricingResolver option"

record ForwardResult = image_result +
  gf_Model :: string
  gf_UpstreamModel :: string
  gf_Usage :: ClaudeUsage

record OpenAIForwardResult = image_result +
  of_Model :: string
  of_UpstreamModel :: string
  of_BillingModel :: string
  of_Usage :: OpenAIUsage
  of_VideoCount :: int
  of_VideoResolution :: string
  of_VideoDurationSeconds :: int
  of_VideoPriceMultiplier :: rat
  of_WebSearchCalls :: int

definition forwardResultBillingModel :: "string \<Rightarrow> string \<Rightarrow> string" where
  "forwardResultBillingModel requestedModel upstreamModel =
     (if trim_space requestedModel \<noteq> [] then trim_space requestedModel else trim_space upstreamModel)"

definition resolveChannelPricing :: "Gateway \<Rightarrow> string \<Rightarrow> APIKey \<Rightarrow> ResolvedPricing option" where
  "resolveChannelPricing s billingModel apiKey =
     (case (gw_resolver s, key_Group apiKey) of
        (Some resolver, Some g) \<Rightarrow>
          (let resolved = Resolve resolver \<lparr>pin_Model = billingModel, pin_GroupID = Some (gr_ID g), pin_Group = Some g\<rparr>
           in if hasCustomPricing resolved then Some resolved else None)
      | _ \<Rightarrow> None)"

definition cost_input :: "string \<Rightarrow> int option \<Rightarrow> UsageTokens \<Rightarrow> int \<Rightarrow> rat \<Rightarrow> ModelPricingResolver option \<Rightarrow> ResolvedPricing option \<Rightarrow> CostInput" where
  "cost_input model groupID tokens requestCount rateMultiplier resolver resolved =
     \<lparr>ci_Model = model, ci_GroupID = groupID, ci_Group = None, ci_Tokens = tokens, ci_RequestCount = requestCount,
      ci_SizeTier = [], ci_RateMultiplier = rateMultiplier, ci_ServiceTier = [], ci_FastRateMultiplier = 0,
      ci_Resolver = resolver, ci_Resolved = resolved, ci_LongContextBillingEnabled = None\<rparr>"

definition apiKeyHasConfiguredImagePrice :: "APIKey \<Rightarrow> string \<Rightarrow> bool" where
  "apiKeyHasConfiguredImagePrice apiKey imageSize \<longleftrightarrow>
     (case key_Group apiKey of Some g \<Rightarrow> Group_GetImagePrice g imageSize \<noteq> None | None \<Rightarrow> False)"

definition apiKeyHasConfiguredVideoPrice :: "APIKey \<Rightarrow> string \<Rightarrow> bool" where
  "apiKeyHasConfiguredVideoPrice apiKey resolution \<longleftrightarrow>
     (case key_Group apiKey of Some g \<Rightarrow> GetVideoPrice g resolution \<noteq> None | None \<Rightarrow> False)"

definition imagePriceConfigFromAPIKey :: "APIKey \<Rightarrow> ImagePriceConfig option" where
  "imagePriceConfigFromAPIKey apiKey = map_option image_price_config (key_Group apiKey)"

definition videoPriceConfigFromAPIKey :: "APIKey \<Rightarrow> VideoPriceConfig option" where
  "videoPriceConfigFromAPIKey apiKey = map_option video_price_config (key_Group apiKey)"

definition webSearchPricePerCallFromAPIKey :: "APIKey \<Rightarrow> rat option" where
  "webSearchPricePerCallFromAPIKey apiKey = Option.bind (key_Group apiKey) gr_WebSearchPricePerCall"

definition group_id :: "APIKey \<Rightarrow> int option" where
  "group_id apiKey = map_option gr_ID (key_Group apiKey)"

section \<open>The gateway of Claude and Gemini\<close>

definition hasResolvableTokenPricing :: "Gateway \<Rightarrow> string \<Rightarrow> APIKey \<Rightarrow> bool" where
  "hasResolvableTokenPricing s model apiKey \<longleftrightarrow>
     trim_space model \<noteq> [] \<and>
     (case resolveChannelPricing s model apiKey of
        Some resolved \<Rightarrow> Billable resolved
      | None \<Rightarrow> (case GetModelPricing (gw_billingService s) model of Inl _ \<Rightarrow> False | Inr _ \<Rightarrow> True))"

definition compositeBillableModel :: "Gateway \<Rightarrow> APIKey \<Rightarrow> string \<Rightarrow> string \<Rightarrow> string" where
  "compositeBillableModel s apiKey billingModel concreteBillingModel =
     (if concreteBillingModel = [] \<or> billingModel = concreteBillingModel then billingModel
      else (case resolveChannelPricing s billingModel apiKey of
              Some resolved \<Rightarrow> if Billable resolved then billingModel else concreteBillingModel
            | None \<Rightarrow> concreteBillingModel))"

definition billableModelWithFallback :: "Gateway \<Rightarrow> APIKey \<Rightarrow> string \<Rightarrow> string list \<Rightarrow> string" where
  "billableModelWithFallback s apiKey billingModel fallbacks =
     (if hasResolvableTokenPricing s billingModel apiKey then billingModel
      else (case find (\<lambda>f. f \<noteq> [] \<and> f \<noteq> billingModel \<and> hasResolvableTokenPricing s f apiKey) (map trim_space fallbacks) of
              Some fallback \<Rightarrow> fallback
            | None \<Rightarrow> billingModel))"

definition claude_tokens :: "ClaudeUsage \<Rightarrow> UsageTokens" where
  "claude_tokens u =
     no_tokens\<lparr>ut_InputTokens := cu_InputTokens u, ut_OutputTokens := cu_OutputTokens u,
       ut_CacheCreationTokens := cu_CacheCreationInputTokens u, ut_CacheReadTokens := cu_CacheReadInputTokens u,
       ut_CacheCreation5mTokens := cu_CacheCreation5mTokens u, ut_CacheCreation1hTokens := cu_CacheCreation1hTokens u,
       ut_ImageOutputTokens := cu_ImageOutputTokens u\<rparr>"

definition Gateway_calculateTokenCost ::
  "Gateway \<Rightarrow> ForwardResult \<Rightarrow> APIKey \<Rightarrow> string \<Rightarrow> rat \<Rightarrow> int \<times> rat \<Rightarrow> FullCostBreakdown" where
  "Gateway_calculateTokenCost s result apiKey billingModel multiplier opts =
     (let tokens = claude_tokens (gf_Usage result);
          cost =
            (case resolveChannelPricing s billingModel apiKey of
               Some resolved \<Rightarrow>
                 CalculateCostUnified (gw_billingService s)
                   (cost_input billingModel (group_id apiKey) tokens 1 multiplier (gw_resolver s) (Some resolved))
             | None \<Rightarrow>
                 if fst opts > 0
                 then CalculateCostWithLongContext (gw_billingService s) billingModel tokens multiplier (fst opts) (snd opts)
                 else CalculateCost (gw_billingService s) billingModel tokens multiplier)
      in case cost of Inl _ \<Rightarrow> no_cost | Inr c \<Rightarrow> c)"

definition Gateway_calculateImageCost :: "Gateway \<Rightarrow> ForwardResult \<Rightarrow> APIKey \<Rightarrow> string \<Rightarrow> rat \<Rightarrow> FullCostBreakdown" where
  "Gateway_calculateImageCost s result apiKey billingModel multiplier =
     (let sizeTier = NormalizeImageBillingTierOrDefault (im_ImageSize result);
          perImage = CalculateImageCost (gw_billingService s) billingModel sizeTier (im_ImageCount result)
                       (imagePriceConfigFromAPIKey apiKey) multiplier;
          tokens = no_tokens\<lparr>ut_InputTokens := cu_InputTokens (gf_Usage result),
                     ut_OutputTokens := cu_OutputTokens (gf_Usage result),
                     ut_ImageOutputTokens := cu_ImageOutputTokens (gf_Usage result)\<rparr>
      in if apiKeyHasConfiguredImagePrice apiKey sizeTier then perImage
         else (case resolveChannelPricing s billingModel apiKey of
                 None \<Rightarrow> perImage
               | Some resolved \<Rightarrow>
                   (case CalculateCostUnified (gw_billingService s)
                           ((cost_input billingModel (group_id apiKey) tokens (im_ImageCount result) multiplier
                               (gw_resolver s) (Some resolved))\<lparr>ci_SizeTier := sizeTier\<rparr>) of
                      Inr cost \<Rightarrow> cost
                    | Inl _ \<Rightarrow> perImage)))"

definition calculateRecordUsageCost ::
  "Gateway \<Rightarrow> ForwardResult \<Rightarrow> APIKey \<Rightarrow> string \<Rightarrow> rat \<Rightarrow> rat \<Rightarrow> int \<times> rat \<Rightarrow> FullCostBreakdown" where
  "calculateRecordUsageCost s result apiKey billingModel multiplier imageMultiplier opts =
     (if im_ImageCount result > 0 \<and>
         \<not> (case resolveChannelPricing s billingModel apiKey of
               Some resolved \<Rightarrow> rp_Mode resolved = BillingModeToken
             | None \<Rightarrow> False)
      then Gateway_calculateImageCost s result apiKey billingModel imageMultiplier
      else Gateway_calculateTokenCost s result apiKey billingModel multiplier opts)"

definition makeManagedMonitorUsageFree :: "APIKey \<Rightarrow> FullCostBreakdown \<Rightarrow> FullCostBreakdown" where
  "makeManagedMonitorUsageFree apiKey cost = (if key_Managed apiKey then cost\<lparr>bd_ActualCost := 0\<rparr> else cost)"

definition applyCyberAutoCharge :: "APIKey \<Rightarrow> FullCostBreakdown \<Rightarrow> FullCostBreakdown" where
  "applyCyberAutoCharge apiKey cost =
     (if key_Managed apiKey then cost
      else
        let charge = CyberAutoCharge (key_Group apiKey) in
        if charge \<le> 0 then cost else cost\<lparr>bd_ActualCost := bd_ActualCost cost + charge\<rparr>)"

text \<open>The account's choice of the cache lifetime its cache writes are billed as.\<close>

definition applyCacheTTLOverride :: "ClaudeUsage \<Rightarrow> string \<Rightarrow> ClaudeUsage" where
  "applyCacheTTLOverride usage target =
     (case sanitizeClaudeUsage usage of
        (False, _) \<Rightarrow> usage
      | (True, c0) \<Rightarrow>
          (let c = (if cu_CacheCreation5mTokens c0 = 0 \<and> cu_CacheCreation1hTokens c0 = 0 \<and> cu_CacheCreationInputTokens c0 > 0
                    then c0\<lparr>cu_CacheCreation5mTokens := cu_CacheCreationInputTokens c0\<rparr> else c0)
           in case addBoundedReportedUsageInts (cu_CacheCreation5mTokens c) (cu_CacheCreation1hTokens c) of
                None \<Rightarrow> usage
              | Some tot \<Rightarrow>
                  if tot = 0 then usage
                  else if target = ''1h'' \<and> cu_CacheCreation1hTokens c = tot then usage
                  else if target \<noteq> ''1h'' \<and> cu_CacheCreation5mTokens c = tot then usage
                  else
                    let c1 = (if target = ''1h''
                              then c\<lparr>cu_CacheCreation1hTokens := tot, cu_CacheCreation5mTokens := 0\<rparr>
                              else c\<lparr>cu_CacheCreation5mTokens := tot, cu_CacheCreation1hTokens := 0\<rparr>)
                    in if fst (sanitizeClaudeUsage c1) then c1 else usage))"

definition force_cache_billing :: "ClaudeUsage \<Rightarrow> ClaudeUsage" where
  "force_cache_billing usage =
     (if cu_InputTokens usage > 0 then
        (case addBoundedReportedUsageInts (cu_CacheReadInputTokens usage) (cu_InputTokens usage) of
           Some next_tokens \<Rightarrow> usage\<lparr>cu_CacheReadInputTokens := next_tokens, cu_InputTokens := 0\<rparr>
         | None \<Rightarrow> no_claude_usage)
      else usage)"

record recordUsageCoreInput =
  ri_Result :: ForwardResult
  ri_APIKey :: APIKey
  ri_ForceCacheBilling :: bool
  ri_CacheTTLOverride :: "string option"
  ri_BillingModelSource :: string
  ri_ChannelMappedModel :: string
  ri_OriginalModel :: string
  ri_CyberBlocked :: bool
  ri_LongContext :: "int \<times> rat"

text \<open>\<open>recordUsageCore\<close> up to the cost: the usage that is billed, the model it is billed by, and the cost.\<close>

definition billed_usage :: "recordUsageCoreInput \<Rightarrow> ClaudeUsage" where
  "billed_usage input =
     (let u0 = snd (sanitizeClaudeUsage (gf_Usage (ri_Result input)));
          u1 = (if ri_ForceCacheBilling input then force_cache_billing u0 else u0);
          u2 = (case ri_CacheTTLOverride input of Some target \<Rightarrow> applyCacheTTLOverride u1 target | None \<Rightarrow> u1)
      in snd (sanitizeClaudeUsage u2))"

definition recordUsageCore_model :: "Gateway \<Rightarrow> recordUsageCoreInput \<Rightarrow> string" where
  "recordUsageCore_model s input =
     (let result = ri_Result input; apiKey = ri_APIKey input;
          concrete = forwardResultBillingModel (gf_Model result) (gf_UpstreamModel result);
          m1 = (if ri_BillingModelSource input = ''channel_mapped'' \<and> ri_ChannelMappedModel input \<noteq> []
                then ri_ChannelMappedModel input else concrete);
          m2 = (if ri_BillingModelSource input = ''requested'' \<and> ri_OriginalModel input \<noteq> []
                then ri_OriginalModel input else m1);
          m3 = (case key_Group apiKey of
                  Some g \<Rightarrow> if gr_Platform g = PlatformComposite then compositeBillableModel s apiKey m2 concrete else m2
                | None \<Rightarrow> m2)
      in billableModelWithFallback s apiKey m3
           [gf_UpstreamModel result, gf_Model result, ri_ChannelMappedModel input, ri_OriginalModel input])"

definition recordUsageCore_cost :: "Gateway \<Rightarrow> rat \<Rightarrow> int \<Rightarrow> recordUsageCoreInput \<Rightarrow> FullCostBreakdown" where
  "recordUsageCore_cost s baseMultiplier minuteOfDay input =
     (let apiKey = ri_APIKey input;
          result = (apply_image_resolution (ri_Result input))\<lparr>gf_Usage := billed_usage input\<rparr>;
          (multiplier, imageMultiplier) = computePeakAwareMultipliers (key_Group apiKey) baseMultiplier minuteOfDay;
          cost = makeManagedMonitorUsageFree apiKey
                   (calculateRecordUsageCost s result apiKey (recordUsageCore_model s input) multiplier imageMultiplier
                     (ri_LongContext input))
      in if ri_CyberBlocked input then applyCyberAutoCharge apiKey cost else cost)"

section \<open>The gateway of OpenAI: tokens, searches and images\<close>

definition resolveOpenAIChannelPricing :: "Gateway \<Rightarrow> string \<Rightarrow> APIKey \<Rightarrow> ResolvedPricing option" where
  "resolveOpenAIChannelPricing s billingModel apiKey =
     (case (gw_resolver s, key_Group apiKey) of
        (Some resolver, Some g) \<Rightarrow>
          (let resolved = Resolve resolver \<lparr>pin_Model = billingModel, pin_GroupID = Some (gr_ID g), pin_Group = Some g\<rparr>
           in if hasCustomPricing resolved then Some resolved else None)
      | _ \<Rightarrow> None)"

definition openai_tokens :: "OpenAIUsage \<Rightarrow> UsageTokens" where
  "openai_tokens u =
     no_tokens\<lparr>ut_InputTokens := max 0 (ou_InputTokens u - ou_CacheReadInputTokens u - ou_CacheCreationInputTokens u),
       ut_ImageInputTokens := ou_ImageInputTokens u, ut_OutputTokens := ou_OutputTokens u,
       ut_CacheCreationTokens := ou_CacheCreationInputTokens u, ut_CacheReadTokens := ou_CacheReadInputTokens u,
       ut_ImageOutputTokens := ou_ImageOutputTokens u\<rparr>"

definition calculateOpenAIRecordUsageTokenCost ::
  "Gateway \<Rightarrow> APIKey \<Rightarrow> string \<Rightarrow> rat \<Rightarrow> UsageTokens \<Rightarrow> string \<Rightarrow> bool \<Rightarrow> price_error + FullCostBreakdown" where
  "calculateOpenAIRecordUsageTokenCost s apiKey billingModel multiplier tokens serviceTier longContextBillingEnabled =
     (let fastRate = openAIFastRateMultiplier (key_Group apiKey) serviceTier in
      if gw_resolver s \<noteq> None \<and> key_Group apiKey \<noteq> None then
        CalculateCostUnified (gw_billingService s)
          ((cost_input billingModel (group_id apiKey) tokens 1 multiplier (gw_resolver s) None)
             \<lparr>ci_Group := key_Group apiKey, ci_ServiceTier := serviceTier, ci_FastRateMultiplier := fastRate,
              ci_LongContextBillingEnabled := Some longContextBillingEnabled\<rparr>)
      else (case calculateCostWithServiceTierPolicy (gw_billingService s) billingModel tokens multiplier serviceTier
                   longContextBillingEnabled of
              Inl e \<Rightarrow> Inl e
            | Inr cost \<Rightarrow>
                if fastRate \<le> 0 then Inr cost
                else (case calculateCostWithServiceTierPolicy (gw_billingService s) billingModel tokens
                             (multiplier * fastRate) [] longContextBillingEnabled of
                        Inl e \<Rightarrow> Inl e
                      | Inr customerCost \<Rightarrow> Inr (with_customer_base cost customerCost))))"

definition groupMediaPricingLooksIncomplete :: "Group option \<Rightarrow> bool" where
  "groupMediaPricingLooksIncomplete grp \<longleftrightarrow>
     (case grp of
        None \<Rightarrow> True
      | Some g \<Rightarrow>
          \<not> (gr_ImageRateIndependent g \<or> gr_VideoRateIndependent g) \<and>
          \<not> (gr_ImageRateMultiplier g \<noteq> 0 \<or> gr_VideoRateMultiplier g \<noteq> 0) \<and>
          gr_ImagePrice1K g = None \<and> gr_ImagePrice2K g = None \<and> gr_ImagePrice4K g = None \<and>
          gr_VideoPrice480P g = None \<and> gr_VideoPrice720P g = None \<and> gr_VideoPrice1080P g = None)"

text \<open>The refreshed key, or \<open>None\<close> when the key stays as it is.\<close>

definition apiKeyWithFreshGroupMediaPricing :: "Group option \<Rightarrow> APIKey \<Rightarrow> APIKey option" where
  "apiKeyWithFreshGroupMediaPricing fresh apiKey =
     (case key_GroupID apiKey of
        None \<Rightarrow> None
      | Some gid \<Rightarrow>
          if gid \<le> 0 \<or> \<not> groupMediaPricingLooksIncomplete (key_Group apiKey) then None
          else map_option (\<lambda>g. apiKey\<lparr>key_Group := Some g\<rparr>) fresh)"

definition calculateOpenAIImageCost ::
  "Gateway \<Rightarrow> Group option \<Rightarrow> string \<Rightarrow> APIKey \<Rightarrow> 'a image_result_scheme \<Rightarrow> rat \<Rightarrow> FullCostBreakdown" where
  "calculateOpenAIImageCost s fresh billingModel apiKey result multiplier =
     (let sizeTier = NormalizeImageBillingTierOrDefault (im_ImageSize result);
          perImage = (\<lambda>key. CalculateImageCost (gw_billingService s) billingModel sizeTier (im_ImageCount result)
                       (imagePriceConfigFromAPIKey key) multiplier);
          key = (case apiKeyWithFreshGroupMediaPricing fresh apiKey of Some refreshed \<Rightarrow> refreshed | None \<Rightarrow> apiKey)
      in if apiKeyHasConfiguredImagePrice apiKey sizeTier then perImage apiKey
         else if apiKeyHasConfiguredImagePrice key sizeTier then perImage key
         else (case resolveOpenAIChannelPricing s billingModel key of
                 Some resolved \<Rightarrow>
                   if rp_Mode resolved = BillingModePerRequest \<or> rp_Mode resolved = BillingModeImage then
                     (case CalculateCostUnified (gw_billingService s)
                             ((cost_input billingModel (group_id key) no_tokens (im_ImageCount result) multiplier
                                 (gw_resolver s) (Some resolved))\<lparr>ci_SizeTier := sizeTier\<rparr>) of
                        Inr cost \<Rightarrow> cost
                      | Inl _ \<Rightarrow> perImage key)
                   else perImage key
               | None \<Rightarrow> perImage key))"

section \<open>Videos\<close>

definition isCustomVideoAPIKey :: "APIKey \<Rightarrow> bool" where
  "isCustomVideoAPIKey apiKey \<longleftrightarrow>
     (case key_Group apiKey of
        Some g \<Rightarrow> gr_Platform g = PlatformComposite \<or> gr_Platform g = PlatformCustom
      | None \<Rightarrow> False)"

text \<open>\<open>accountPlatform\<close> is the platform of the account that served the request, \<open>None\<close> without one.\<close>

definition isCustomVideoBillingRequest :: "APIKey \<Rightarrow> string option \<Rightarrow> bool" where
  "isCustomVideoBillingRequest apiKey accountPlatform \<longleftrightarrow>
     (case accountPlatform of
        Some p \<Rightarrow> if trim_space p \<noteq> [] then p = PlatformCustom \<or> p = PlatformComposite else isCustomVideoAPIKey apiKey
      | None \<Rightarrow> isCustomVideoAPIKey apiKey)"

text \<open>A custom video is priced by the tier of its resolution, moved into the default price of a copy without
  tiers.\<close>

definition custom_video_pricing :: "string \<Rightarrow> ResolvedPricing \<Rightarrow> ResolvedPricing" where
  "custom_video_pricing resolution resolved =
     (case find (\<lambda>t. resolution \<noteq> [] \<and> equal_fold (iv_TierLabel t) resolution \<and> iv_PerRequestPrice t \<noteq> None)
            (rp_RequestTiers resolved) of
        Some tier \<Rightarrow>
          resolved\<lparr>rp_RequestTiers := [],
            rp_DefaultPerRequestPrice := (case iv_PerRequestPrice tier of Some x \<Rightarrow> x | None \<Rightarrow> 0)\<rparr>
      | None \<Rightarrow> resolved\<lparr>rp_RequestTiers := []\<rparr>)"

definition channel_video_cost ::
  "Gateway \<Rightarrow> string \<Rightarrow> APIKey \<Rightarrow> ResolvedPricing \<Rightarrow> bool \<Rightarrow> string \<Rightarrow> int \<Rightarrow> int \<Rightarrow> rat \<Rightarrow> price_error + FullCostBreakdown" where
  "channel_video_cost s billingModel apiKey resolved customVideo resolution videoCount durationSeconds multiplier =
     (if rp_Mode resolved = BillingModeVideo \<and>
         (durationSeconds \<le> 0 \<or> videoCount > maxBillableRequestCount div durationSeconds) then Inr no_cost
      else
        let requestCount = (if rp_Mode resolved = BillingModeVideo then videoCount * durationSeconds else videoCount);
            channelResolved = (if customVideo \<and> rp_RequestTiers resolved \<noteq> []
                               then custom_video_pricing resolution resolved else resolved)
        in CalculateCostUnified (gw_billingService s)
             ((cost_input billingModel (group_id apiKey) no_tokens requestCount multiplier (gw_resolver s)
                 (Some channelResolved))\<lparr>ci_SizeTier := resolution\<rparr>))"

definition calculateOpenAIVideoCost ::
  "Gateway \<Rightarrow> Group option \<Rightarrow> string \<Rightarrow> APIKey \<Rightarrow> OpenAIForwardResult \<Rightarrow> rat \<Rightarrow> string option \<Rightarrow> FullCostBreakdown" where
  "calculateOpenAIVideoCost s fresh billingModel apiKey result multiplier accountPlatform =
     (let videoCount = (if of_VideoCount result \<le> 0 then 1 else of_VideoCount result);
          custom0 = isCustomVideoBillingRequest apiKey accountPlatform;
          resolution_of = (\<lambda>customVideo. if customVideo then normalizeCustomVideoBillingResolution (of_VideoResolution result)
             else NormalizeVideoBillingResolutionForModelOrDefault billingModel (of_VideoResolution result) []);
          duration_of = (\<lambda>customVideo. if customVideo then NormalizeCustomVideoDurationSeconds (of_VideoDurationSeconds result)
             else NormalizeVideoBillingDurationSecondsForModelOrDefault billingModel (of_VideoDurationSeconds result));
          group_cost = (\<lambda>customVideo key.
             if customVideo
             then CalculateCustomVideoCost (gw_billingService s) billingModel (resolution_of customVideo) videoCount
                    (duration_of customVideo) (videoPriceConfigFromAPIKey key) multiplier
             else CalculateVideoCost (gw_billingService s) billingModel (resolution_of customVideo) videoCount
                    (duration_of customVideo) (videoPriceConfigFromAPIKey key) multiplier)
      in if resolution_of custom0 \<noteq> [] \<and> apiKeyHasConfiguredVideoPrice apiKey (resolution_of custom0)
         then group_cost custom0 apiKey
         else
           let refreshed = apiKeyWithFreshGroupMediaPricing fresh apiKey;
               key = (case refreshed of Some k \<Rightarrow> k | None \<Rightarrow> apiKey);
               custom1 = (custom0 \<or> refreshed \<noteq> None \<and> isCustomVideoBillingRequest key accountPlatform)
           in if refreshed \<noteq> None \<and> resolution_of custom1 \<noteq> [] \<and> apiKeyHasConfiguredVideoPrice key (resolution_of custom1)
              then group_cost custom1 key
              else
                let fallback = (if custom1 then no_cost\<lparr>bd_BillingMode := BillingModeVideo\<rparr>
                      else CalculateVideoCost (gw_billingService s) billingModel (resolution_of custom1) videoCount
                             (duration_of custom1) (videoPriceConfigFromAPIKey key) multiplier)
                in case resolveOpenAIChannelPricing s billingModel key of
                     Some resolved \<Rightarrow>
                       if request_mode (rp_Mode resolved) then
                         (case channel_video_cost s billingModel key resolved custom1 (resolution_of custom1) videoCount
                                 (duration_of custom1) multiplier of
                            Inr cost \<Rightarrow> cost
                          | Inl _ \<Rightarrow> fallback)
                       else fallback
                   | None \<Rightarrow> fallback)"

text \<open>The gate a custom video passes before it is made. \<open>workbenchRefuses\<close> is the outcome of the model list of
  the video workbench for requests that come from it. The error is the reason, without its text.\<close>

definition hasWorkbenchModelPricing :: "ChannelModelPricing list \<Rightarrow> string \<Rightarrow> string \<Rightarrow> bool" where
  "hasWorkbenchModelPricing pricing platform kind \<longleftrightarrow>
     (let p = (if platform = PlatformComposite then PlatformCustom else platform) in
      list_ex (\<lambda>e. cp_Platform e = p \<and> cp_BillingMode e = kind \<and> list_ex (\<lambda>m. trim_space m \<noteq> []) (cp_Models e)) pricing)"

definition GroupAllowsWorkbenchVideoModel :: "Group option \<Rightarrow> string \<Rightarrow> bool" where
  "GroupAllowsWorkbenchVideoModel grp model \<longleftrightarrow>
     (case grp of
        None \<Rightarrow> True
      | Some g \<Rightarrow>
          \<not> hasWorkbenchModelPricing (gr_ModelPricing g) (gr_Platform g) ''video'' \<or>
          (case Group_GetModelPricing g model of Some p \<Rightarrow> cp_BillingMode p = BillingModeVideo | None \<Rightarrow> False))"

definition custom_video_priced :: "ResolvedPricing \<Rightarrow> string \<Rightarrow> bool" where
  "custom_video_priced resolved resolution \<longleftrightarrow>
     request_mode (rp_Mode resolved) \<and>
     (rp_DefaultPerRequestPrice resolved > 0 \<or>
      (case rp_channelPricing resolved of Some ch \<Rightarrow> cp_PerRequestPrice ch \<noteq> None | None \<Rightarrow> False) \<or>
      list_ex (\<lambda>t. resolution \<noteq> [] \<and> equal_fold (iv_TierLabel t) resolution \<and> iv_PerRequestPrice t \<noteq> None)
        (rp_RequestTiers resolved))"

definition ValidateCustomVideoPricing ::
  "Gateway \<Rightarrow> Group option \<Rightarrow> bool \<Rightarrow> APIKey \<Rightarrow> string \<Rightarrow> string \<Rightarrow> string option" where
  "ValidateCustomVideoPricing s fresh workbenchRefuses apiKey model requested =
     (if \<not> isCustomVideoAPIKey apiKey then None
      else
        let resolution = normalizeCustomVideoBillingResolution requested;
            key = (case apiKeyWithFreshGroupMediaPricing fresh apiKey of Some k \<Rightarrow> k | None \<Rightarrow> apiKey)
        in if \<not> GroupAllowsWorkbenchVideoModel (key_Group key) model \<or> workbenchRefuses
           then Some ''custom video pricing is not configured''
           else if resolution \<noteq> [] \<and> apiKeyHasConfiguredVideoPrice key resolution then None
           else (case resolveOpenAIChannelPricing s model key of
                   Some resolved \<Rightarrow>
                     if custom_video_priced resolved resolution then None
                     else Some ''custom video pricing is not configured''
                 | None \<Rightarrow> Some ''custom video pricing is not configured''))"

section \<open>The cost of a request to the OpenAI gateway\<close>

text \<open>The models are tried in turn until one has a price; the last error is kept.\<close>

fun first_priced :: "(string \<Rightarrow> price_error + FullCostBreakdown) \<Rightarrow> price_error \<Rightarrow> string list \<Rightarrow> price_error + FullCostBreakdown" where
  "first_priced cost_by lastErr [] = Inl lastErr"
| "first_priced cost_by lastErr (c # cs) =
     (let candidate = trim_space c in
      if candidate = [] then first_priced cost_by lastErr cs
      else (case cost_by candidate of Inr cost \<Rightarrow> Inr cost | Inl e \<Rightarrow> first_priced cost_by e cs))"

definition calculateOpenAIRecordUsageCost ::
  "Gateway \<Rightarrow> Group option \<Rightarrow> OpenAIForwardResult \<Rightarrow> APIKey \<Rightarrow> string list \<Rightarrow> rat \<Rightarrow> rat \<Rightarrow> rat \<Rightarrow> rat \<Rightarrow> UsageTokens \<Rightarrow>
     string \<Rightarrow> bool \<Rightarrow> string option \<Rightarrow> price_error + FullCostBreakdown" where
  "calculateOpenAIRecordUsageCost s fresh result apiKey billingModels multiplier imageMultiplier videoMultiplier
       webSearchMultiplier tokens serviceTier longContextBillingEnabled accountPlatform =
     (let billingModel = firstUsageBillingModel billingModels;
          byTokens = (case resolveOpenAIChannelPricing s billingModel apiKey of
                        Some resolved \<Rightarrow> rp_Mode resolved = BillingModeToken
                      | None \<Rightarrow> False)
      in if of_WebSearchCalls result > 0 then
           Inr (CalculateWebSearchCost (of_WebSearchCalls result) (webSearchPricePerCallFromAPIKey apiKey) webSearchMultiplier)
         else if of_VideoCount result > 0 \<and> \<not> byTokens then
           Inr (calculateOpenAIVideoCost s fresh billingModel apiKey result videoMultiplier accountPlatform)
         else if im_ImageCount result > 0 \<and> \<not> byTokens then
           Inr (calculateOpenAIImageCost s fresh billingModel apiKey result imageMultiplier)
         else if billingModels = [] \<or> billingModel = [] then Inl (PricingFailure ''openai usage billing model is empty'')
         else first_priced (\<lambda>candidate. calculateOpenAIRecordUsageTokenCost s apiKey candidate multiplier tokens serviceTier
                 longContextBillingEnabled) (PricingFailure ''no non-empty billing model candidates'') billingModels)"

section \<open>Frozen prices of images\<close>

record MediaImagePricing =
  mi_Model :: string
  mi_TokenMultiplier :: rat
  mi_ImageMultiplier :: rat
  mi_ServiceTier :: string
  mi_FastRateMultiplier :: rat
  mi_LongContextBillingEnabled :: bool
  mi_Resolved :: "ResolvedPricing option"
  mi_ChannelPricing :: "ChannelModelPricing option"
  mi_ImageUnitCosts :: "(string \<times> FullCostBreakdown) list"

text \<open>A resolved price that went through JSON: the fields that are not exported come back as zero values.\<close>

definition json_resolved :: "ResolvedPricing \<Rightarrow> ResolvedPricing" where
  "json_resolved r = r\<lparr>rp_channelPricing := None, rp_catalogBase := False, rp_flatTokenPriced := False\<rparr>"

definition captureMediaImagePricing ::
  "Gateway \<Rightarrow> Group option \<Rightarrow> APIKey \<Rightarrow> OpenAIForwardResult \<Rightarrow> string list \<Rightarrow> rat \<Rightarrow> rat \<Rightarrow> string \<Rightarrow> bool \<Rightarrow> MediaImagePricing" where
  "captureMediaImagePricing s fresh apiKey result models tokenMultiplier imageMultiplier serviceTier longContext =
     (let model = firstUsageBillingModel models;
          pricing = \<lparr>mi_Model = model, mi_TokenMultiplier = tokenMultiplier, mi_ImageMultiplier = imageMultiplier,
             mi_ServiceTier = serviceTier, mi_FastRateMultiplier = openAIFastRateMultiplier (key_Group apiKey) serviceTier,
             mi_LongContextBillingEnabled = longContext, mi_Resolved = None, mi_ChannelPricing = None,
             mi_ImageUnitCosts = []\<rparr>;
          unit_costs = map (\<lambda>tier.
             let cost = calculateOpenAIImageCost s fresh model apiKey
                          (result\<lparr>im_ImageCount := 1, im_ImageSize := tier\<rparr>) imageMultiplier
             in (tier, (if bd_BillingMode cost = [] then cost\<lparr>bd_BillingMode := BillingModeImage\<rparr> else cost)
                         \<lparr>bd_CustomerBase := None\<rparr>)) [''1K'', ''2K'', ''4K'']
      in case resolveOpenAIChannelPricing s model apiKey of
           Some resolved \<Rightarrow>
             if rp_Mode resolved = BillingModeToken
             then pricing\<lparr>mi_Resolved := Some (json_resolved resolved), mi_ChannelPricing := rp_channelPricing resolved\<rparr>
             else pricing\<lparr>mi_ImageUnitCosts := unit_costs\<rparr>
         | None \<Rightarrow> pricing\<lparr>mi_ImageUnitCosts := unit_costs\<rparr>)"

definition scale_cost :: "rat \<Rightarrow> FullCostBreakdown \<Rightarrow> FullCostBreakdown" where
  "scale_cost n c =
     c\<lparr>bd_InputCost := bd_InputCost c * n, bd_ImageInputCost := bd_ImageInputCost c * n,
       bd_OutputCost := bd_OutputCost c * n, bd_ImageOutputCost := bd_ImageOutputCost c * n,
       bd_CacheCreationCost := bd_CacheCreationCost c * n, bd_CacheReadCost := bd_CacheReadCost c * n,
       bd_TotalCost := bd_TotalCost c * n, bd_ActualCost := bd_ActualCost c * n\<rparr>"

definition MediaImagePricing_calculate ::
  "MediaImagePricing \<Rightarrow> BillingService \<Rightarrow> 'a image_result_scheme \<Rightarrow> UsageTokens \<Rightarrow> price_error + FullCostBreakdown" where
  "MediaImagePricing_calculate p s result tokens =
     (case validateUsageTokens tokens of
        Some e \<Rightarrow> Inl e
      | None \<Rightarrow>
     (case mi_Resolved p of
        Some r \<Rightarrow>
          CalculateCostUnified s
            ((cost_input (mi_Model p) None tokens (im_ImageCount result) (mi_TokenMultiplier p)
                (Some \<lparr>rs_billingService = s, rs_channelPricing = None\<rparr>)
                (Some (r\<lparr>rp_channelPricing := mi_ChannelPricing p\<rparr>)))
               \<lparr>ci_ServiceTier := mi_ServiceTier p, ci_FastRateMultiplier := mi_FastRateMultiplier p,
                ci_LongContextBillingEnabled := Some (mi_LongContextBillingEnabled p)\<rparr>)
      | None \<Rightarrow>
          if im_ImageCount result < 0 \<or> \<not> validBillableRequestCount (max 1 (im_ImageCount result))
          then Inl (PricingFailure ''invalid delivered media image count'')
          else (case map_of (mi_ImageUnitCosts p) (NormalizeImageBillingTierOrDefault (im_ImageSize result)) of
                  None \<Rightarrow> Inl (PricingFailure ''media image price snapshot is incomplete'')
                | Some unit_cost \<Rightarrow> Inr (scale_cost (of_int (im_ImageCount result)) unit_cost))))"

end
