(* ===== verification/PricingLaws.thy ===== *)
theory PricingLaws
  imports UsagePricing
begin

text \<open>
  What the prices guarantee: the amounts of a breakdown add up, are not negative and grow with the usage;
  the built-in and listed prices are never all zero but for two models that are free; the interval of a
  context length and the entry of a model do not depend on the order of a validated configuration.
\<close>

section \<open>Prices that are not negative\<close>

definition nonneg_card :: "ModelPricing \<Rightarrow> bool" where
  "nonneg_card p \<longleftrightarrow> list_all (\<lambda>x. 0 \<le> x)
     [mp_InputPricePerToken p, mp_InputPricePerTokenPriority p, mp_ImageInputPricePerToken p, mp_OutputPricePerToken p,
      mp_OutputPricePerTokenPriority p, mp_CacheCreationPricePerToken p, mp_CacheCreationPricePerTokenPriority p,
      mp_CacheReadPricePerToken p, mp_CacheReadPricePerTokenPriority p, mp_CacheCreation5mPrice p,
      mp_CacheCreation1hPrice p, mp_LongContextInputMultiplier p, mp_LongContextOutputMultiplier p,
      mp_ImageOutputPricePerToken p]"

definition nonneg_units :: "unit_prices \<Rightarrow> bool" where
  "nonneg_units u \<longleftrightarrow> list_all (\<lambda>x. 0 \<le> x)
     [up_input u, up_output u, up_cacheRead u, up_cacheCreation u, up_cacheCreationMultiplier u, up_tierMultiplier u]"

definition nonneg_cost :: "'a CostAmounts_scheme \<Rightarrow> bool" where
  "nonneg_cost c \<longleftrightarrow> list_all (\<lambda>x. 0 \<le> x)
     [bd_InputCost c, bd_ImageInputCost c, bd_OutputCost c, bd_ImageOutputCost c, bd_CacheCreationCost c,
      bd_CacheReadCost c, bd_TotalCost c, bd_ActualCost c]"

definition adds_up :: "'a CostAmounts_scheme \<Rightarrow> bool" where
  "adds_up c \<longleftrightarrow>
     bd_TotalCost c = bd_InputCost c + bd_ImageInputCost c + bd_OutputCost c + bd_ImageOutputCost c +
       bd_CacheCreationCost c + bd_CacheReadCost c"

lemma no_price_nonneg [simp]: "nonneg_card no_price"
  by (simp add: nonneg_card_def no_price_def)

lemma no_cost_nonneg [simp]: "nonneg_cost no_cost" "adds_up no_cost"
  by (simp_all add: nonneg_cost_def adds_up_def no_cost_def)

lemma tier_prices_nonneg: "nonneg_card p \<Longrightarrow> nonneg_units (tier_prices p tier)"
  by (simp add: nonneg_card_def nonneg_units_def tier_prices_def serviceTierCostMultiplier_def)

lemma long_context_prices_nonneg:
  "nonneg_card p \<Longrightarrow> nonneg_units u \<Longrightarrow> nonneg_units (long_context_prices p u)"
  by (simp add: nonneg_card_def nonneg_units_def long_context_prices_def)

lemma cache_creation_nonneg:
  assumes "nonneg_card p" "0 \<le> price" "0 \<le> multiplier"
  shows "0 \<le> computeCacheCreationCost p t price multiplier"
proof (cases "validUsageTokens t")
  case True
  note counts = valid_counts [OF True]
  show ?thesis using assms counts by (simp add: computeCacheCreationCost_def nonneg_card_def)
qed (simp add: computeCacheCreationCost_def)

lemma token_amounts_nonneg:
  assumes "nonneg_card p" "nonneg_units u" "validUsageTokens t" "0 \<le> r"
  shows "nonneg_cost (token_amounts p t u r)"
proof -
  note counts = valid_counts [OF assms(3)]
  have cache: "0 \<le> computeCacheCreationCost p t (up_cacheCreation u) (up_cacheCreationMultiplier u)"
    by (rule cache_creation_nonneg [OF assms(1)]) (use assms(2) in \<open>simp_all add: nonneg_units_def\<close>)
  show ?thesis
    using assms counts cache by (simp add: nonneg_cost_def token_amounts_def Let_def nonneg_units_def nonneg_card_def)
qed

lemma token_amounts_adds_up: "adds_up (token_amounts p t u r)"
  by (simp add: adds_up_def token_amounts_def Let_def)

lemma token_amounts_actual: "bd_ActualCost (token_amounts p t u r) = bd_TotalCost (token_amounts p t u r) * r"
  by (simp add: token_amounts_def Let_def)

text \<open>A breakdown is that of one set of unit prices, but for the long-context mark.\<close>

lemma breakdown_cases:
  assumes "validUsageTokens t"
  obtains u applied where
    "computeTokenBreakdown (Some p) t r tier longCtx =
       (token_amounts p t u (clamped_rate r))\<lparr>bd_LongContextBillingApplied := applied\<rparr>"
    "u = (if longCtx \<and> shouldApplySessionLongContextPricing t p
          then long_context_prices p (tier_prices p tier) else tier_prices p tier)"
proof -
  let ?u = "if longCtx \<and> shouldApplySessionLongContextPricing t p
            then long_context_prices p (tier_prices p tier) else tier_prices p tier"
  have "\<exists>applied. computeTokenBreakdown (Some p) t r tier longCtx =
       (token_amounts p t ?u (clamped_rate r))\<lparr>bd_LongContextBillingApplied := applied\<rparr>"
  proof (cases "longCtx \<and> shouldApplySessionLongContextPricing t p")
    case True
    then show ?thesis using assms by (auto simp: Let_def clamped_rate_def)
  next
    case False
    then have "computeTokenBreakdown (Some p) t r tier longCtx = token_amounts p t ?u (clamped_rate r)"
      using assms by (cases longCtx; cases "shouldApplySessionLongContextPricing t p")
        (simp_all add: Let_def clamped_rate_def)
    then show ?thesis
      by (intro exI [of _ "bd_LongContextBillingApplied (token_amounts p t ?u (clamped_rate r))"]) simp
  qed
  then show thesis using that by blast
qed

lemma breakdown_units_nonneg:
  assumes "nonneg_card p"
  shows "nonneg_units (if longCtx then long_context_prices p (tier_prices p tier) else tier_prices p tier)"
  using tier_prices_nonneg [OF assms] long_context_prices_nonneg [OF assms] by simp

lemma clamped_rate_nonneg [simp]: "0 \<le> clamped_rate r"
  by (simp add: clamped_rate_def)

lemma clamped_rate_max: "clamped_rate r = max 0 r"
  by (simp add: clamped_rate_def max_def)

lemma breakdown_nonneg:
  assumes "nonneg_card p"
  shows "nonneg_cost (computeTokenBreakdown (Some p) t r tier longCtx)"
proof (cases "validUsageTokens t")
  case True
  obtain u applied where c: "computeTokenBreakdown (Some p) t r tier longCtx =
       (token_amounts p t u (clamped_rate r))\<lparr>bd_LongContextBillingApplied := applied\<rparr>"
    and u: "u = (if longCtx \<and> shouldApplySessionLongContextPricing t p
          then long_context_prices p (tier_prices p tier) else tier_prices p tier)"
    by (rule breakdown_cases [OF True])
  have "nonneg_units u" unfolding u by (rule breakdown_units_nonneg [OF assms])
  then have "nonneg_cost (token_amounts p t u (clamped_rate r))"
    by (intro token_amounts_nonneg [OF assms _ True]) simp_all
  then show ?thesis unfolding c by (simp add: nonneg_cost_def)
qed simp

lemma breakdown_sum:
  shows "adds_up (computeTokenBreakdown (Some p) t r tier longCtx) \<and>
     bd_ActualCost (computeTokenBreakdown (Some p) t r tier longCtx) =
       bd_TotalCost (computeTokenBreakdown (Some p) t r tier longCtx) * max 0 r"
proof (cases "validUsageTokens t")
  case True
  obtain u applied where c: "computeTokenBreakdown (Some p) t r tier longCtx =
       (token_amounts p t u (clamped_rate r))\<lparr>bd_LongContextBillingApplied := applied\<rparr>"
    by (rule breakdown_cases [OF True])
  show ?thesis unfolding c
    using token_amounts_adds_up [of p t u "clamped_rate r"] token_amounts_actual [of p t u "clamped_rate r"]
    by (simp add: adds_up_def clamped_rate_max)
next
  case False
  then show ?thesis by (simp add: no_cost_def adds_up_def)
qed

section \<open>More tokens cost no less\<close>

definition more_tokens :: "UsageTokens \<Rightarrow> UsageTokens \<Rightarrow> bool" where
  "more_tokens t t' \<longleftrightarrow>
     ut_InputTokens t \<le> ut_InputTokens t' \<and> ut_OutputTokens t \<le> ut_OutputTokens t' \<and>
     ut_CacheCreationTokens t \<le> ut_CacheCreationTokens t' \<and> ut_CacheReadTokens t \<le> ut_CacheReadTokens t' \<and>
     ut_ImageInputTokens t' = ut_ImageInputTokens t \<and> ut_ImageOutputTokens t' = ut_ImageOutputTokens t \<and>
     ut_CacheCreation5mTokens t' = ut_CacheCreation5mTokens t \<and> ut_CacheCreation1hTokens t' = ut_CacheCreation1hTokens t"

definition more_units :: "unit_prices \<Rightarrow> unit_prices \<Rightarrow> bool" where
  "more_units u u' \<longleftrightarrow>
     up_input u \<le> up_input u' \<and> up_output u \<le> up_output u' \<and> up_cacheRead u \<le> up_cacheRead u' \<and>
     up_cacheCreation u \<le> up_cacheCreation u' \<and> up_cacheCreationMultiplier u \<le> up_cacheCreationMultiplier u' \<and>
     up_tierMultiplier u = up_tierMultiplier u'"

lemma count_price_mono:
  fixes a b :: int and x y :: rat
  shows "a \<le> b \<Longrightarrow> x \<le> y \<Longrightarrow> 0 \<le> a \<Longrightarrow> 0 \<le> x \<Longrightarrow> of_int a * x \<le> of_int b * y"
  by (intro mult_mono) auto

lemma cache_creation_mono:
  assumes "nonneg_card p" "validUsageTokens t" "validUsageTokens t'" "more_tokens t t'"
    "0 \<le> price" "price \<le> price'" "0 \<le> m" "m \<le> m'"
  shows "computeCacheCreationCost p t price m \<le> computeCacheCreationCost p t' price' m'"
proof -
  note counts = valid_counts [OF assms(2)] valid_counts [OF assms(3)]
  have p5: "0 \<le> mp_CacheCreation5mPrice p" and p1: "0 \<le> mp_CacheCreation1hPrice p"
    using assms(1) by (simp_all add: nonneg_card_def)
  have triple: "of_int a * x * m \<le> of_int b * y * m'" if "0 \<le> a" "a \<le> b" "0 \<le> x" "x \<le> y" for a b x y
  proof -
    have "of_int a * x \<le> of_int b * y" using that by (intro count_price_mono)
    moreover have "0 \<le> of_int a * x" using that by simp
    ultimately show ?thesis using assms(7,8) by (simp add: mult_mono')
  qed
  have zero: "0 \<le> of_int b * y * m'" if "0 \<le> b" "0 \<le> y" for b y using that assms(7,8) by simp
  have more: "ut_CacheCreationTokens t \<le> ut_CacheCreationTokens t'"
    "ut_CacheCreation5mTokens t' = ut_CacheCreation5mTokens t" "ut_CacheCreation1hTokens t' = ut_CacheCreation1hTokens t"
    using assms(4) by (simp_all add: more_tokens_def)
  show ?thesis
    using assms(2,3,5,6) more counts p5 p1 triple zero
    by (auto simp: computeCacheCreationCost_def intro!: add_mono)
qed

lemma input_split_mono:
  fixes x x' z z' :: rat
  assumes "0 \<le> i" "i \<le> i'" "0 \<le> k" "0 \<le> x" "x \<le> x'" "0 \<le> z" "z \<le> z'"
  shows "of_int (if k > 0 then (if i - k < 0 then 0 else i - k) else i) * x +
         of_int (if k > 0 then (if i - k < 0 then i else k) else 0) * z
       \<le> of_int (if k > 0 then (if i' - k < 0 then 0 else i' - k) else i') * x' +
         of_int (if k > 0 then (if i' - k < 0 then i' else k) else 0) * z'"
  using assms by (intro add_mono count_price_mono) (auto split: if_splits)

lemma token_amounts_total:
  "bd_TotalCost (token_amounts p t u r) =
     ((of_int (if ut_ImageInputTokens t > 0 then (if ut_InputTokens t - ut_ImageInputTokens t < 0 then 0
                 else ut_InputTokens t - ut_ImageInputTokens t) else ut_InputTokens t) * up_input u +
       of_int (if ut_ImageInputTokens t > 0 then (if ut_InputTokens t - ut_ImageInputTokens t < 0 then ut_InputTokens t
                 else ut_ImageInputTokens t) else 0) *
         (if mp_ImageInputPricePerToken p = 0 then up_input u else mp_ImageInputPricePerToken p)) +
      of_int (max 0 (ut_OutputTokens t - ut_ImageOutputTokens t)) * up_output u +
      (if ut_ImageOutputTokens t > 0 then of_int (ut_ImageOutputTokens t) *
         (if mp_ImageOutputPricePerToken p = 0 \<and> \<not> mp_ImageOutputPriceExplicit p then up_output u
          else mp_ImageOutputPricePerToken p) else 0) +
      computeCacheCreationCost p t (up_cacheCreation u) (up_cacheCreationMultiplier u) +
      of_int (ut_CacheReadTokens t) * up_cacheRead u) * up_tierMultiplier u"
  by (simp add: token_amounts_def Let_def algebra_simps)

lemma token_amounts_mono:
  assumes card: "nonneg_card p" and units: "nonneg_units u" "more_units u u'"
    and valid: "validUsageTokens t" "validUsageTokens t'" and more: "more_tokens t t'"
  shows "bd_TotalCost (token_amounts p t u r) \<le> bd_TotalCost (token_amounts p t' u' r)"
proof -
  note counts = valid_counts [OF valid(1)] valid_counts [OF valid(2)]
  have le: "ut_InputTokens t \<le> ut_InputTokens t'" "ut_OutputTokens t \<le> ut_OutputTokens t'"
    "ut_CacheReadTokens t \<le> ut_CacheReadTokens t'"
    and same: "ut_ImageInputTokens t' = ut_ImageInputTokens t" "ut_ImageOutputTokens t' = ut_ImageOutputTokens t"
    using more by (simp_all add: more_tokens_def)
  have u: "0 \<le> up_input u" "up_input u \<le> up_input u'" "0 \<le> up_output u" "up_output u \<le> up_output u'"
    "0 \<le> up_cacheRead u" "up_cacheRead u \<le> up_cacheRead u'" "0 \<le> up_cacheCreation u"
    "up_cacheCreation u \<le> up_cacheCreation u'" "0 \<le> up_cacheCreationMultiplier u"
    "up_cacheCreationMultiplier u \<le> up_cacheCreationMultiplier u'" "0 \<le> up_tierMultiplier u"
    "up_tierMultiplier u' = up_tierMultiplier u"
    using units by (simp_all add: nonneg_units_def more_units_def)
  have p: "0 \<le> mp_ImageInputPricePerToken p" "0 \<le> mp_ImageOutputPricePerToken p"
    using card by (simp_all add: nonneg_card_def)
  show ?thesis
    unfolding token_amounts_total same u(12)
    by (intro mult_right_mono add_mono input_split_mono count_price_mono
          cache_creation_mono [OF card valid more] u(11))
      (use u p le counts in \<open>auto intro!: mult_left_mono\<close>)
qed

lemma more_tokens_long_context:
  assumes "more_tokens t t'" "validUsageTokens t" "validUsageTokens t'" "shouldApplySessionLongContextPricing t p"
  shows "shouldApplySessionLongContextPricing t' p"
  using assms by (auto simp: shouldApplySessionLongContextPricing_def context_sum more_tokens_def)

lemma no_discount_units:
  assumes "nonneg_units u" "1 \<le> mp_LongContextInputMultiplier p" "1 \<le> mp_LongContextOutputMultiplier p"
    "up_cacheCreationMultiplier u = 1"
  shows "more_units u (long_context_prices p u)"
  using assms by (simp add: more_units_def long_context_prices_def nonneg_units_def mult_le_cancel_left1)

definition no_long_context_discount :: "ModelPricing \<Rightarrow> bool" where
  "no_long_context_discount p \<longleftrightarrow>
     mp_LongContextInputThreshold p \<le> 0 \<or>
     1 \<le> mp_LongContextInputMultiplier p \<and> 1 \<le> mp_LongContextOutputMultiplier p"

lemma breakdown_mono:
  assumes card: "nonneg_card p" "no_long_context_discount p"
    and valid: "validUsageTokens t" "validUsageTokens t'" and more: "more_tokens t t'"
  shows "bd_TotalCost (computeTokenBreakdown (Some p) t r tier longCtx)
       \<le> bd_TotalCost (computeTokenBreakdown (Some p) t' r tier longCtx)"
proof -
  let ?tier = "tier_prices p tier"
  obtain u applied where c: "computeTokenBreakdown (Some p) t r tier longCtx =
       (token_amounts p t u (clamped_rate r))\<lparr>bd_LongContextBillingApplied := applied\<rparr>"
    and u: "u = (if longCtx \<and> shouldApplySessionLongContextPricing t p then long_context_prices p ?tier else ?tier)"
    by (rule breakdown_cases [OF valid(1)])
  obtain u' applied' where c': "computeTokenBreakdown (Some p) t' r tier longCtx =
       (token_amounts p t' u' (clamped_rate r))\<lparr>bd_LongContextBillingApplied := applied'\<rparr>"
    and u': "u' = (if longCtx \<and> shouldApplySessionLongContextPricing t' p then long_context_prices p ?tier else ?tier)"
    by (rule breakdown_cases [OF valid(2)])
  have refl_units: "more_units v v" for v by (simp add: more_units_def)
  have units: "nonneg_units ?tier" by (rule tier_prices_nonneg [OF card(1)])
  have one: "up_cacheCreationMultiplier ?tier = 1" by (simp add: tier_prices_def)
  have "more_units u u'"
  proof (cases "longCtx \<and> shouldApplySessionLongContextPricing t' p")
    case True
    show ?thesis
    proof (cases "longCtx \<and> shouldApplySessionLongContextPricing t p")
      case True
      then show ?thesis using \<open>longCtx \<and> shouldApplySessionLongContextPricing t' p\<close> refl_units
        by (simp add: u u')
    next
      case False
      have "0 < mp_LongContextInputThreshold p"
        using True by (simp add: shouldApplySessionLongContextPricing_def)
      then have "more_units ?tier (long_context_prices p ?tier)"
        using card(2) units one by (intro no_discount_units) (auto simp: no_long_context_discount_def)
      then show ?thesis unfolding u u' if_P [OF True] if_not_P [OF False] .
    qed
  next
    case False
    moreover have "\<not> (longCtx \<and> shouldApplySessionLongContextPricing t p)"
      using False more_tokens_long_context [OF more valid] by blast
    ultimately show ?thesis unfolding u u' using refl_units by (simp only: if_False)
  qed
  moreover have "nonneg_units u" unfolding u by (rule breakdown_units_nonneg [OF card(1)])
  ultimately have "bd_TotalCost (token_amounts p t u (clamped_rate r)) \<le> bd_TotalCost (token_amounts p t' u' (clamped_rate r))"
    by (intro token_amounts_mono card valid more)
  then show ?thesis unfolding c c' by simp
qed

section \<open>Listed and built-in prices\<close>

definition nonneg_list_price :: "LiteLLMModelPricing \<Rightarrow> bool" where
  "nonneg_list_price l \<longleftrightarrow> nonneg_card (card_of_list_price l) \<and> 0 \<le> lp_OutputCostPerImage l"

definition nonneg_service :: "BillingService \<Rightarrow> bool" where
  "nonneg_service s \<longleftrightarrow>
     (case bs_pricingService s of None \<Rightarrow> True | Some data \<Rightarrow> list_all (nonneg_list_price \<circ> snd) data)"

lemmas static_price_defs = openAIGPT54FallbackPricing_def openAIGPT56SolFallbackPricing_def
  openAIGPT56TerraFallbackPricing_def openAIGPT56LunaFallbackPricing_def openAIGPT54MiniFallbackPricing_def
  openAIGPT54NanoFallbackPricing_def openai_long_context_price_def openai_chat_price_def no_list_price_def
  openAIGPT54LongContextInputThreshold_def openAIGPT54LongContextInputMultiplier_def
  openAIGPT54LongContextOutputMultiplier_def

lemma static_price_nonneg: "static_openai_price model = Some l \<Longrightarrow> nonneg_list_price l"
  by (auto simp: static_openai_price_def static_price_defs nonneg_list_price_def card_of_list_price_def
      nonneg_card_def no_price_def Let_def split: if_splits)

lemma first_key_in: "first_key data ks = Some l \<Longrightarrow> l \<in> snd ` set data"
  by (induction ks) (auto split: option.splits dest!: map_of_SomeD intro: rev_image_eqI)

lemma find_in: "find P xs = Some x \<Longrightarrow> x \<in> set xs \<and> P x"
  by (induction xs) (auto split: if_splits)

lemma first_containing_in: "first_containing data ps = Some l \<Longrightarrow> l \<in> snd ` set data"
  by (induction ps) (auto split: option.splits dest!: find_in intro: rev_image_eqI)

lemma listed_key_in: "map_of data k = Some l \<Longrightarrow> l \<in> snd ` set data"
  by (auto dest!: map_of_SomeD intro: rev_image_eqI)

lemma matchOpenAIModel_in:
  assumes "matchOpenAIModel data model = Some l"
  shows "l \<in> snd ` set data \<or> static_openai_price model = Some l"
  using assms unfolding matchOpenAIModel_def
  by (auto simp del: first_key.simps split: if_splits option.splits dest: listed_key_in first_key_in)

lemma listed_price_in:
  assumes "PricingService_GetModelPricing data model = Some l"
  shows "l \<in> snd ` set data \<or> (\<exists>m. static_openai_price m = Some l)"
  using assms
  by (auto simp: PricingService_GetModelPricing_def matchByModelFamily_def Let_def
      split: if_splits option.splits dest: first_key_in first_containing_in matchOpenAIModel_in
      dest!: find_in intro: rev_image_eqI)

lemma listed_price_nonneg:
  assumes "nonneg_service s" "bs_pricingService s = Some data" "PricingService_GetModelPricing data model = Some l"
  shows "nonneg_list_price l"
  using listed_price_in [OF assms(3)] assms(1,2) static_price_nonneg
  by (auto simp: nonneg_service_def list_all_iff)

lemmas fallback_price_defs = fallback_prices_def claude_fallback_prices_def gemini_fallback_prices_def
  openai_fallback_prices_def deepseek_glm_fallback_prices_def kimi_minimax_fallback_prices_def other_fallback_prices_def
  claude_opus_4_5_price_def claude_fable_5_1_price_def gemini_3_8_flash_price_def gpt_5_4_price_def grok_4_7_price_def
  openAIGPT54LongContextInputThreshold_def openAIGPT54LongContextInputMultiplier_def
  openAIGPT54LongContextOutputMultiplier_def

lemma fallback_prices_nonneg: "list_all (nonneg_card \<circ> snd) fallback_prices"
  by (simp add: fallback_price_defs nonneg_card_def no_price_def)

lemma fallback_prices_not_free:
  "list_all (\<lambda>(k, p). modelPricingHasTokenPrice (Some p) \<or> k = ''glm-4.5-flash'' \<or> k = ''glm-4.7-flash'') fallback_prices"
  by (simp add: fallback_price_defs modelPricingHasTokenPrice_def no_price_def)

lemma policy_nonneg: "nonneg_card p \<Longrightarrow> nonneg_card (applyModelSpecificPricingPolicy model p)"
  by (simp add: applyModelSpecificPricingPolicy_def nonneg_card_def Let_def
      openAIGPT54LongContextInputMultiplier_def openAIGPT54LongContextOutputMultiplier_def)

lemma policy_keeps_price:
  "modelPricingHasTokenPrice (Some p) \<Longrightarrow> modelPricingHasTokenPrice (Some (applyModelSpecificPricingPolicy model p))"
  by (auto simp: applyModelSpecificPricingPolicy_def modelPricingHasTokenPrice_def Let_def)

lemma model_price_nonneg:
  assumes "nonneg_service s" "GetModelPricing s model = Inr p"
  shows "nonneg_card p"
proof -
  have "nonneg_card q" if "getFallbackPricing m = Some q" for m q
    using that fallback_prices_nonneg
    by (auto simp: getFallbackPricing_def list_all_iff dest!: map_of_SomeD split: bind_splits)
  moreover have "nonneg_card (card_of_list_price l)"
    if "bs_pricingService s = Some data" "PricingService_GetModelPricing data m = Some l" for data m l
    using listed_price_nonneg [OF assms(1) that] by (simp add: nonneg_list_price_def)
  ultimately show ?thesis
    using assms(2) policy_nonneg by (auto simp: GetModelPricing_def Let_def split: option.splits if_splits)
qed

lemma listed_card_has_price: "hasTokenPrice l \<Longrightarrow> modelPricingHasTokenPrice (Some (card_of_list_price l))"
  by (simp add: hasTokenPrice_def modelPricingHasTokenPrice_def card_of_list_price_def Let_def)

lemma fallback_has_price:
  assumes "getFallbackPricing m = Some q"
  shows "modelPricingHasTokenPrice (Some q) \<or> fallback_key (to_lower m) = Some ''glm-4.5-flash'' \<or>
    fallback_key (to_lower m) = Some ''glm-4.7-flash''"
proof -
  obtain k where "fallback_key (to_lower m) = Some k" "map_of fallback_prices k = Some q"
    using assms by (auto simp: getFallbackPricing_def split: bind_splits)
  then show ?thesis using fallback_prices_not_free by (auto simp: list_all_iff dest!: map_of_SomeD)
qed

lemma model_price_not_free:
  assumes "GetModelPricing s model = Inr p"
  shows "modelPricingHasTokenPrice (Some p) \<or> fallback_key (to_lower (to_lower model)) = Some ''glm-4.5-flash'' \<or>
    fallback_key (to_lower (to_lower model)) = Some ''glm-4.7-flash''"
proof (cases "\<exists>data l. bs_pricingService s = Some data \<and> PricingService_GetModelPricing data (to_lower model) = Some l \<and>
    \<not> lp_TokenPricingAbsent l \<and> hasTokenPrice l")
  case True
  then show ?thesis using assms policy_keeps_price listed_card_has_price
    by (auto simp: GetModelPricing_def Let_def)
next
  case False
  then obtain q where "getFallbackPricing (to_lower model) = Some q"
    "p = applyModelSpecificPricingPolicy (to_lower model) q"
    using assms by (auto simp: GetModelPricing_def Let_def split: option.splits if_splits)
  then show ?thesis using fallback_has_price policy_keeps_price by blast
qed

section \<open>A resolved price is billable exactly when a cost comes out\<close>

lemma highest_from_None: "highest_from best ts = None \<longleftrightarrow> best = None \<and> \<not> list_ex (\<lambda>t. iv_PerRequestPrice t \<noteq> None) ts"
  by (induction ts arbitrary: best) (auto split: option.splits)

lemma priced_by_label: "requestTierPriceByLabel ts label = Some x \<Longrightarrow> list_ex (\<lambda>t. iv_PerRequestPrice t \<noteq> None) ts"
  by (auto simp: requestTierPriceByLabel_def Let_def list_ex_iff split: if_splits bind_splits dest!: find_in)

lemma priced_by_context: "requestTierPriceByContext ts n = Some x \<Longrightarrow> list_ex (\<lambda>t. iv_PerRequestPrice t \<noteq> None) ts"
  by (auto simp: requestTierPriceByContext_def FindMatchingPricingInterval_def list_ex_iff split: bind_splits dest!: find_in)

lemma request_unit_price_None:
  "request_unit_price r label n = None \<longleftrightarrow>
     \<not> hasDefaultPerRequestPrice r \<and> \<not> list_ex (\<lambda>t. iv_PerRequestPrice t \<noteq> None) (rp_RequestTiers r)"
  using highest_from_None [of None "rp_RequestTiers r"] priced_by_label priced_by_context
  by (auto simp: request_unit_price_def highestRequestTierPrice_def split: option.splits)

lemma nearest_from_None: "nearest_from n ivs below lowest = None \<longleftrightarrow> ivs = [] \<and> below = None \<and> lowest = None"
  by (induction ivs arbitrary: below lowest) (auto split: option.splits)

lemma nearest_some: "ivs \<noteq> [] \<Longrightarrow> \<exists>iv. nearest_from n ivs None None = Some iv"
  using nearest_from_None [of n ivs None None] by auto

text \<open>What holds of every resolution.\<close>

definition resolution_ok :: "ResolvedPricing \<Rightarrow> bool" where
  "resolution_ok r \<longleftrightarrow>
     (request_mode (rp_Mode r) \<or> rp_Mode r = BillingModeToken) \<and>
     (basePriced r \<longrightarrow> request_mode (rp_Mode r) \<or> rp_BasePricing r \<noteq> None) \<and>
     (hasCustomPricing r \<longleftrightarrow> rp_channelPricing r \<noteq> None) \<and>
     (rp_Intervals r \<noteq> [] \<longrightarrow> hasCustomPricing r) \<and>
     (hasCustomPricing r \<or> rp_BasePricing r = None \<or> basePriced r)"

lemma not_request_token: "\<not> request_mode BillingModeToken"
  by (simp add: request_mode_def billing_modes)

lemma custom_entry_source:
  "custom_entry r input = Some (ch, source) \<Longrightarrow> source = PricingSourceGroup \<or> source = PricingSourceChannel"
  by (auto simp: custom_entry_def Let_def split: option.splits if_splits)

lemma token_overrides_ok:
  assumes "rp_Mode r = BillingModeToken" "rp_channelPricing r = Some ch" "hasCustomPricing r"
  shows "resolution_ok (applyTokenOverrides ch r)"
  using assms not_request_token
  by (simp add: resolution_ok_def applyTokenOverrides_def Let_def hasCustomPricing_def)

lemma resolve_token_path:
  assumes "\<not> (case custom_entry r input of Some (ch, _) \<Rightarrow> request_mode (cp_BillingMode ch) | None \<Rightarrow> False)"
  obtains base source where
    "resolveBasePricing r (pin_Model input) = (base, source)"
    "Resolve r input =
       (let resolved = unresolved\<lparr>rp_Mode := BillingModeToken, rp_BasePricing := base, rp_Source := source,
              rp_SupportsCacheBreakdown := (case base of Some p \<Rightarrow> mp_SupportsCacheBreakdown p | None \<Rightarrow> False),
              rp_catalogBase := (base \<noteq> None)\<rparr>
        in case custom_entry r input of
             None \<Rightarrow> resolved
           | Some (ch, pricingSource) \<Rightarrow>
               applyTokenOverrides ch (resolved\<lparr>rp_Source := pricingSource, rp_channelPricing := Some ch\<rparr>))"
  using assms
  by (cases "resolveBasePricing r (pin_Model input)") (auto simp: Resolve_def Let_def split: option.splits)

lemma resolve_request_path:
  assumes "custom_entry r input = Some (ch, source)" "request_mode (cp_BillingMode ch)"
  shows "Resolve r input = applyRequestTierOverrides ch
           (unresolved\<lparr>rp_Mode := cp_BillingMode ch, rp_Source := source, rp_channelPricing := Some ch\<rparr>)"
  using assms by (simp add: Resolve_def)

lemma resolve_ok: "resolution_ok (Resolve r input)"
proof (cases "case custom_entry r input of Some (ch, _) \<Rightarrow> request_mode (cp_BillingMode ch) | None \<Rightarrow> False")
  case True
  then obtain ch source where e: "custom_entry r input = Some (ch, source)" "request_mode (cp_BillingMode ch)"
    by (auto split: option.splits)
  show ?thesis
    using e custom_entry_source [OF e(1)]
    by (auto simp: resolve_request_path [OF e] resolution_ok_def applyRequestTierOverrides_def hasCustomPricing_def
        unresolved_def)
next
  case False
  then obtain base source where base: "resolveBasePricing r (pin_Model input) = (base, source)"
    and res: "Resolve r input =
       (let resolved = unresolved\<lparr>rp_Mode := BillingModeToken, rp_BasePricing := base, rp_Source := source,
              rp_SupportsCacheBreakdown := (case base of Some p \<Rightarrow> mp_SupportsCacheBreakdown p | None \<Rightarrow> False),
              rp_catalogBase := (base \<noteq> None)\<rparr>
        in case custom_entry r input of
             None \<Rightarrow> resolved
           | Some (ch, pricingSource) \<Rightarrow>
               applyTokenOverrides ch (resolved\<lparr>rp_Source := pricingSource, rp_channelPricing := Some ch\<rparr>))"
    by (rule resolve_token_path)
  show ?thesis
  proof (cases "custom_entry r input")
    case None
    have "source \<noteq> PricingSourceGroup \<and> source \<noteq> PricingSourceChannel"
      using base by (auto simp: resolveBasePricing_def pricing_sources split: sum.splits)
    then show ?thesis using not_request_token
      by (cases base) (auto simp: res None Let_def resolution_ok_def hasCustomPricing_def basePriced_def unresolved_def
          modelPricingHasTokenPrice_def)
  next
    case (Some e)
    obtain ch src where e: "e = (ch, src)" by fastforce
    have src: "src = PricingSourceGroup \<or> src = PricingSourceChannel"
      by (rule custom_entry_source) (use Some e in simp)
    show ?thesis unfolding res Some e Let_def option.case prod.case
      by (rule token_overrides_ok) (use src in \<open>auto simp: hasCustomPricing_def\<close>)
  qed
qed

lemma token_cost_outcome:
  assumes "validUsageTokens (ci_Tokens ci)" "resolution_ok r" "rp_Mode r = BillingModeToken"
  shows "if Billable r then \<exists>c. calculateTokenCost r ci = Inr c
         else calculateTokenCost r ci = Inl (ErrModelPricingUnavailable (ci_Model ci))"
proof -
  let ?n = "ut_InputTokens (ci_Tokens ci) + ut_CacheCreationTokens (ci_Tokens ci) + ut_CacheReadTokens (ci_Tokens ci)"
  have ok: "validateUsageTokens (ci_Tokens ci) = None" using assms(1) by (simp add: validUsageTokens_def)
  note sum = context_sum [OF assms(1)]
  have token: "\<not> request_mode (rp_Mode r)" using assms(3) not_request_token by simp
  have outcome: "calculateTokenCost r ci =
      (case GetIntervalPricing r ?n of
         None \<Rightarrow> Inl (ErrModelPricingUnavailable (ci_Model ci))
       | Some price \<Rightarrow>
           if hasCustomPricing r \<and> \<not> Billable r then Inl (ErrModelPricingUnavailable (ci_Model ci))
           else calculateTokenCost r ci)"
    by (cases "GetIntervalPricing r ?n") (simp_all add: calculateTokenCost_def ok sum)
  have priced: "\<exists>c. calculateTokenCost r ci = Inr c"
    if "GetIntervalPricing r ?n = Some price" "\<not> (hasCustomPricing r \<and> \<not> Billable r)" for price
    using that by (auto simp: calculateTokenCost_def ok sum Let_def)
  show ?thesis
  proof (cases "Billable r")
    case True
    have "\<exists>price. GetIntervalPricing r ?n = Some price"
      using True assms(2) token nearest_some
      by (auto simp: Billable_def GetIntervalPricing_def resolution_ok_def nearestPricingInterval_def split: option.splits)
    then show ?thesis using True priced by auto
  next
    case False
    then have "rp_Intervals r = []" "\<not> basePriced r" using token by (auto simp: Billable_def)
    moreover have "hasCustomPricing r \<or> rp_BasePricing r = None"
      using assms(2) \<open>\<not> basePriced r\<close> by (auto simp: resolution_ok_def)
    ultimately show ?thesis using False outcome
      by (cases "hasCustomPricing r"; cases "GetIntervalPricing r ?n") (auto simp: GetIntervalPricing_def)
  qed
qed

lemma request_cost_outcome:
  assumes "validUsageTokens (ci_Tokens ci)" "ci_RequestCount ci \<le> maxBillableRequestCount" "request_mode (rp_Mode r)"
  shows "if Billable r then \<exists>c. calculatePerRequestCost r ci = Inr c
         else calculatePerRequestCost r ci = Inl (ErrModelPricingUnavailable (ci_Model ci))"
proof -
  let ?n = "ut_InputTokens (ci_Tokens ci) + ut_CacheCreationTokens (ci_Tokens ci) + ut_CacheReadTokens (ci_Tokens ci)"
  have ok: "validateUsageTokens (ci_Tokens ci) = None" using assms(1) by (simp add: validUsageTokens_def)
  have count: "validBillableRequestCount (if ci_RequestCount ci \<le> 0 then 1 else ci_RequestCount ci)"
    using assms(2) by (simp add: validBillableRequestCount_def maxBillableRequestCount_def maxReportedUsageTokens_def)
  have "calculatePerRequestCost r ci =
      (case request_unit_price r (ci_SizeTier ci) ?n of
         None \<Rightarrow> Inl (ErrModelPricingUnavailable (ci_Model ci))
       | Some unitPrice \<Rightarrow>
           Inr (no_cost\<lparr>bd_TotalCost := unitPrice * of_int (if ci_RequestCount ci \<le> 0 then 1 else ci_RequestCount ci),
             bd_ActualCost := unitPrice * of_int (if ci_RequestCount ci \<le> 0 then 1 else ci_RequestCount ci) *
               ci_RateMultiplier ci\<rparr>))"
    using count by (simp add: calculatePerRequestCost_def ok context_sum [OF assms(1)] Let_def)
  then show ?thesis
    using request_unit_price_None [of r "ci_SizeTier ci" ?n] assms(3)
    by (cases "request_unit_price r (ci_SizeTier ci) ?n") (auto simp: Billable_def)
qed

lemma unified_outcome:
  assumes "validUsageTokens (ci_Tokens ci)" "ci_RequestCount ci \<le> maxBillableRequestCount"
    "ci_Resolver ci = Some rs" "ci_Resolved ci = Some r" "resolution_ok r"
  shows "if Billable r then \<exists>c. CalculateCostUnified s ci = Inr c
         else CalculateCostUnified s ci = Inl (ErrModelPricingUnavailable (ci_Model ci))"
proof -
  let ?ci = "if ci_RateMultiplier ci < 0 then ci\<lparr>ci_RateMultiplier := 0\<rparr> else ci"
  have ok: "validateUsageTokens (ci_Tokens ci) = None" using assms(1) by (simp add: validUsageTokens_def)
  have same: "ci_Tokens ?ci = ci_Tokens ci" "ci_RequestCount ?ci = ci_RequestCount ci" "ci_Model ?ci = ci_Model ci"
    by simp_all
  have unified: "CalculateCostUnified s ci =
     (case (if request_mode (rp_Mode r) then calculatePerRequestCost r ?ci else calculateTokenCost r ?ci) of
        Inl e \<Rightarrow> Inl e
      | Inr breakdown \<Rightarrow>
          Inr (breakdown\<lparr>bd_BillingMode := (if rp_Mode r = [] then BillingModeToken else rp_Mode r)\<rparr>))"
    using assms(3,4) by (simp add: CalculateCostUnified_def ok Let_def)
  show ?thesis
  proof (cases "request_mode (rp_Mode r)")
    case True
    show ?thesis
      using request_cost_outcome [of ?ci r] assms(1,2) True unfolding unified same
      by (auto split: if_splits)
  next
    case False
    then have "rp_Mode r = BillingModeToken" using assms(5) by (simp add: resolution_ok_def)
    then show ?thesis
      using token_cost_outcome [of ?ci r] assms(1,5) False unfolding unified same by (auto split: if_splits)
  qed
qed

section \<open>The interval of a context length\<close>

lemma first_failure_None: "first_failure f xs = None \<longleftrightarrow> (\<forall>x\<in>set xs. f x = None)"
  by (induction xs) (auto split: option.splits)

lemma single_interval_bounds:
  "validateSingleInterval iv = None \<Longrightarrow> iv_MaxTokens iv = Some m \<Longrightarrow> iv_MinTokens iv < m"
  by (auto simp: validateSingleInterval_def split: if_splits)

lemma overlap_chain:
  assumes "validateIntervalOverlap (iv # ivs) = None" "\<forall>x\<in>set ivs. validateSingleInterval x = None" "x \<in> set ivs"
  shows "\<exists>m. iv_MaxTokens iv = Some m \<and> m \<le> iv_MinTokens x"
  using assms
proof (induction ivs arbitrary: iv)
  case (Cons y ys)
  obtain m where m: "iv_MaxTokens iv = Some m" "m \<le> iv_MinTokens y" and rest: "validateIntervalOverlap (y # ys) = None"
    using Cons.prems(1) by (auto split: option.splits if_splits)
  show ?case
  proof (cases "x = y")
    case True
    then show ?thesis using m by simp
  next
    case False
    then obtain m' where "iv_MaxTokens y = Some m'" "m' \<le> iv_MinTokens x"
      using Cons.IH [OF rest] Cons.prems(2,3) by auto
    moreover have "iv_MinTokens y < m'" using Cons.prems(2) calculation(1) by (auto intro: single_interval_bounds)
    ultimately show ?thesis using m by auto
  qed
qed simp

lemma overlap_unique:
  assumes "validateIntervalOverlap ivs = None" "\<forall>x\<in>set ivs. validateSingleInterval x = None"
    "x \<in> set ivs" "y \<in> set ivs" "in_interval n x" "in_interval n y"
  shows "x = y"
  using assms
proof (induction ivs)
  case (Cons iv ivs)
  have clash: False if "in_interval n iv" "in_interval n z" "z \<in> set ivs" for z
    using overlap_chain [OF Cons.prems(1) _ that(3)] Cons.prems(2) that by (auto simp: in_interval_def)
  have tail: "validateIntervalOverlap ivs = None"
    using Cons.prems(1) by (cases ivs) (auto split: option.splits if_splits)
  show ?case
  proof (cases "x = iv \<or> y = iv")
    case True
    then show ?thesis using clash Cons.prems(3-6) by auto
  next
    case False
    then show ?thesis using Cons.IH [OF tail] Cons.prems(2-6) by auto
  qed
qed simp

lemma validated_interval_unique:
  assumes "ValidateIntervals ivs mode = None" "\<not> request_mode mode"
    "x \<in> set ivs" "y \<in> set ivs" "in_interval n x" "in_interval n y"
  shows "x = y"
proof -
  let ?s = "sort_key iv_MinTokens ivs"
  have "\<forall>x\<in>set ?s. validateSingleInterval x = None" "validateIntervalOverlap ?s = None"
    using assms(1,2) by (auto simp: ValidateIntervals_def Let_def first_failure_None split: option.splits)
  then show ?thesis using assms(3-6) by (intro overlap_unique [of ?s x y n]) auto
qed

lemma find_unique:
  assumes "\<And>x y. x \<in> set xs \<Longrightarrow> y \<in> set xs \<Longrightarrow> P x \<Longrightarrow> P y \<Longrightarrow> x = y" "set ys = set xs"
  shows "find P ys = find P xs"
proof (cases "find P xs")
  case None
  then have "\<not> (\<exists>x. x \<in> set ys \<and> P x)" using assms(2) by (simp add: find_None_iff)
  then have "find P ys = None" by (simp add: find_None_iff)
  then show ?thesis using None by simp
next
  case (Some x)
  then have x: "x \<in> set xs" "P x" using find_in by fastforce+
  have "find P ys \<noteq> None" using x assms(2) by (auto simp: find_None_iff)
  then obtain y where y: "find P ys = Some y" by blast
  then have "y \<in> set xs" "P y" using find_in assms(2) by fastforce+
  then show ?thesis using assms(1) x y Some by auto
qed

end
