(* ===== verification/PricingEntries.thy ===== *)
theory PricingEntries
  imports PricingLaws
begin

text \<open>
  The entry of a model in a validated configuration: at most one pattern matches, so the search of a group
  and the cache of a channel find the same entry, whatever the order of the entries.
\<close>

section \<open>Names in plain spelling\<close>

definition visible :: "string \<Rightarrow> bool" where
  "visible s \<longleftrightarrow> list_all (in_range 33 126) s"

text \<open>A pattern in the spelling it is compared in: visible characters, no capital letters, and no dots in the
  names of Claude models.\<close>

definition plain_pattern :: "string \<Rightarrow> bool" where
  "plain_pattern m \<longleftrightarrow>
     list_all (\<lambda>a. in_range 33 126 a \<and> \<not> in_range 65 90 a) m \<and> (has_prefix ''claude-'' m \<longrightarrow> CHR ''.'' \<notin> set m)"

lemma visible_wide: "in_range 33 126 a \<Longrightarrow> in_range 33 127 a"
  by (simp add: in_range_def)

lemma visible_trim: "visible s \<Longrightarrow> trim_space s = s"
  unfolding visible_def by (rule trim_space_graphic) (auto simp: list_all_iff visible_wide)

lemma ascii_not_wide: "in_range 33 126 a \<Longrightarrow> (of_char a :: nat) \<noteq> 196 \<and> (of_char a :: nat) \<noteq> 226"
  by (simp add: in_range_def)

lemma to_lower_visible: "visible s \<Longrightarrow> to_lower s = map lower_ascii s"
  by (induction s rule: to_lower.induct) (auto simp: visible_def ascii_not_wide)

lemma lower_ascii_visible: "in_range 33 126 a \<Longrightarrow> in_range 33 126 (lower_ascii a)"
  by (simp add: lower_ascii_def in_range_def Let_def)

lemma lower_ascii_idem: "in_range 33 126 a \<Longrightarrow> lower_ascii (lower_ascii a) = lower_ascii a"
  by (simp add: lower_ascii_def in_range_def Let_def)

lemma lower_ascii_small: "\<not> in_range 65 90 a \<Longrightarrow> lower_ascii a = a"
  by (auto simp: lower_ascii_def in_range_def Let_def)

lemma to_lower_keeps_visible: "visible s \<Longrightarrow> visible (to_lower s)"
  by (simp add: to_lower_visible) (auto simp: visible_def list_all_iff lower_ascii_visible)

lemma to_lower_idem: "visible s \<Longrightarrow> to_lower (to_lower s) = to_lower s"
  using to_lower_keeps_visible [of s]
  by (simp add: to_lower_visible) (auto simp: visible_def list_all_iff lower_ascii_idem)

lemma normalize_lower: "visible s \<Longrightarrow> normalizeChannelPricingModelName (to_lower s) = normalizeChannelPricingModelName s"
  by (simp add: normalizeChannelPricingModelName_def visible_trim to_lower_keeps_visible to_lower_idem)

lemma plain_visible: "plain_pattern m \<Longrightarrow> visible m"
  by (auto simp: plain_pattern_def visible_def list_all_iff)

lemma plain_lower: "plain_pattern m \<Longrightarrow> to_lower m = m"
  using plain_visible [of m]
  by (simp add: to_lower_visible) (auto simp: plain_pattern_def list_all_iff lower_ascii_small intro!: map_idI)

lemma replace_all_absent: "c \<notin> set s \<Longrightarrow> replace_all [c] new s = s"
  by (induction "[c]" new s rule: replace_all.induct) (auto simp: has_prefix_def)

lemma plain_normal: "plain_pattern m \<Longrightarrow> normalizeChannelPricingModelName m = m"
  using plain_visible [of m] plain_lower [of m]
  by (simp add: normalizeChannelPricingModelName_def visible_trim Let_def)
    (auto simp: plain_pattern_def intro!: replace_all_absent)

section \<open>At most one pattern matches\<close>

definition pattern_matches :: "string \<Rightarrow> string \<Rightarrow> bool" where
  "pattern_matches n m \<longleftrightarrow> m = n \<or> has_suffix ''*'' m \<and> has_prefix (trim_suffix ''*'' m) n"

lemma has_prefix_linear: "has_prefix a n \<Longrightarrow> has_prefix b n \<Longrightarrow> has_prefix a b \<or> has_prefix b a"
  unfolding has_prefix_prefix by (rule prefix_same_cases)

lemma trim_suffix_prefix: "has_prefix (trim_suffix p m) m"
  unfolding has_prefix_prefix trim_suffix_def by (simp add: take_is_prefix)

lemma matching_patterns_conflict:
  assumes "plain_pattern a" "plain_pattern b" "pattern_matches n a" "pattern_matches n b"
  shows "conflictsBetween (toModelEntry a) (toModelEntry b)"
proof -
  have prefixes: "has_prefix (trim_suffix ''*'' m) n" if "pattern_matches n m" for m
    using that trim_suffix_prefix by (auto simp: pattern_matches_def)
  have exact: "m = n" if "pattern_matches n m" "\<not> has_suffix ''*'' m" for m
    using that by (auto simp: pattern_matches_def)
  show ?thesis
    using prefixes [OF assms(3)] prefixes [OF assms(4)] exact [OF assms(3)] exact [OF assms(4)]
      has_prefix_linear [of "trim_suffix ''*'' a" n "trim_suffix ''*'' b"]
    by (auto simp: conflictsBetween_def toModelEntry_def splitWildcardSuffix_def plain_lower assms(1,2))
qed

lemma no_conflict_unique:
  assumes "\<not> detectConflicts (map toModelEntry ms)" "list_all plain_pattern ms"
  shows "length (filter (pattern_matches n) ms) \<le> 1"
  using assms
proof (induction ms)
  case (Cons m ms)
  show ?case
  proof (cases "pattern_matches n m")
    case True
    have "\<not> pattern_matches n m'" if "m' \<in> set ms" for m'
      using matching_patterns_conflict [of m m' n] True that Cons.prems by (auto simp: list_ex_iff list_all_iff)
    then show ?thesis using True by (simp add: filter_empty_conv)
  next
    case False
    then show ?thesis using Cons by simp
  qed
qed simp

section \<open>The search of a group\<close>

text \<open>What the configuration says of a model: the entry of the pattern that matches it.\<close>

definition entry_of :: "(string \<times> ChannelModelPricing) list \<Rightarrow> string \<Rightarrow> ChannelModelPricing option" where
  "entry_of ps n = map_option snd (find (\<lambda>(m, _). pattern_matches n m) ps)"

lemma match_entries_none:
  assumes "list_all (plain_pattern \<circ> fst) ps" "\<forall>(m, _)\<in>set ps. \<not> pattern_matches n m"
  shows "match_entries n ps w = w"
  using assms
proof (induction ps arbitrary: w)
  case (Cons x ps)
  obtain m p where x: "x = (m, p)" by fastforce
  then show ?case using Cons by (auto simp: plain_normal pattern_matches_def Let_def)
qed simp

lemma match_entries_unique:
  assumes "list_all (plain_pattern \<circ> fst) ps" "length (filter (pattern_matches n) (map fst ps)) \<le> 1"
  shows "match_entries n ps None = entry_of ps n"
  using assms
proof (induction ps)
  case (Cons x ps)
  obtain m p where x: "x = (m, p)" by fastforce
  have plain: "normalizeChannelPricingModelName m = m" using Cons.prems(1) by (simp add: x plain_normal)
  show ?case
  proof (cases "pattern_matches n m")
    case True
    then have "length (filter (pattern_matches n) (map fst ps)) = 0" using Cons.prems(2) by (simp add: x)
    then have none: "\<forall>(m, _)\<in>set ps. \<not> pattern_matches n m" by (auto simp: filter_empty_conv)
    have "match_entries n ps w = w" for w by (rule match_entries_none) (use Cons.prems(1) none in \<open>auto simp: comp_def\<close>)
    then show ?thesis using True by (auto simp: x plain entry_of_def pattern_matches_def)
  next
    case False
    then show ?thesis using Cons by (auto simp: x plain entry_of_def pattern_matches_def)
  qed
qed (simp add: entry_of_def)

section \<open>The cache of a channel\<close>

definition exact_for :: "int \<Rightarrow> channelCache \<Rightarrow> string \<Rightarrow> string \<Rightarrow> ChannelModelPricing option" where
  "exact_for gid c q n = cc_pricingByGroupModel c (gid, q, n)"

definition wild_for :: "int \<Rightarrow> channelCache \<Rightarrow> string \<Rightarrow> (string \<times> ChannelModelPricing) list" where
  "wild_for gid c q = cc_wildcardByGroupPlatform c (gid, q)"

definition group_view ::
  "int \<Rightarrow> channelCache \<Rightarrow> (string \<Rightarrow> string \<Rightarrow> ChannelModelPricing option) \<times> (string \<Rightarrow> (string \<times> ChannelModelPricing) list) \<times>
     Channel option \<times> (int \<Rightarrow> string)" where
  "group_view gid c = (exact_for gid c, wild_for gid c, cc_channelByGroupID c gid, cc_groupPlatform c)"

lemma add_mapping_view [simp]: "group_view gid (add_mapping g q x c) = group_view gid c"
  by (cases x) (auto simp: add_mapping_def group_view_def exact_for_def wild_for_def fun_eq_iff)

lemma fold_mapping_view [simp]: "group_view gid (fold (add_mapping g q) ms c) = group_view gid c"
  by (induction ms arbitrary: c) simp_all

lemma expand_mapping_view [simp]: "group_view gid (expandMappingToCache ch g platform c) = group_view gid c"
proof -
  have "group_view gid (fold (\<lambda>mappingPlatform cache.
         case map_of (ch_ModelMapping ch) mappingPlatform of
           None \<Rightarrow> cache
         | Some platformMapping \<Rightarrow>
             fold (add_mapping g (if platform = PlatformComposite then PlatformCustom else mappingPlatform))
               platformMapping cache) ps c) = group_view gid c" for ps
    by (induction ps arbitrary: c) (simp_all split: option.splits)
  then show ?thesis by (simp add: expandMappingToCache_def)
qed

lemma add_pricing_other [simp]: "g \<noteq> gid \<Longrightarrow> group_view gid (add_pricing g x c) = group_view gid c"
  by (cases x) (auto simp: add_pricing_def group_view_def exact_for_def wild_for_def fun_eq_iff Let_def)

lemma fold_pricing_other [simp]: "g \<noteq> gid \<Longrightarrow> group_view gid (fold (add_pricing g) ps c) = group_view gid c"
  by (induction ps arbitrary: c) simp_all

lemma add_pricing_rest [simp]:
  "cc_channelByGroupID (add_pricing g x c) = cc_channelByGroupID c" "cc_groupPlatform (add_pricing g x c) = cc_groupPlatform c"
  by (cases x; simp add: add_pricing_def Let_def)+

lemma fold_pricing_rest [simp]:
  "cc_channelByGroupID (fold (add_pricing g) ps c) = cc_channelByGroupID c"
  "cc_groupPlatform (fold (add_pricing g) ps c) = cc_groupPlatform c"
  by (induction ps arbitrary: c) simp_all

lemma fold_pricing_wild:
  assumes "list_all (\<lambda>(m, p). plain_pattern (trim_suffix ''*'' m) \<and> cp_Platform p = q) ps"
  shows "wild_for gid (fold (add_pricing gid) ps c) q =
           wild_for gid c q @ map (\<lambda>(m, p). (trim_suffix ''*'' m, p)) (filter (\<lambda>(m, _). has_suffix ''*'' m) ps)"
  using assms
proof (induction ps arbitrary: c)
  case (Cons x ps)
  obtain m p where x: "x = (m, p)" by fastforce
  show ?case using Cons by (auto simp: x add_pricing_def wild_for_def plain_normal Let_def)
qed simp

lemma fold_pricing_not_exact:
  assumes "list_all (\<lambda>(m, p). plain_pattern m \<and> (has_suffix ''*'' m \<or> m \<noteq> n)) ps"
  shows "exact_for gid (fold (add_pricing gid) ps c) q n = exact_for gid c q n"
  using assms
proof (induction ps arbitrary: c)
  case (Cons x ps)
  obtain m p where x: "x = (m, p)" by fastforce
  show ?case using Cons by (auto simp: x add_pricing_def exact_for_def plain_normal Let_def)
qed simp

lemma add_pricing_exact:
  "plain_pattern n \<Longrightarrow> \<not> has_suffix ''*'' n \<Longrightarrow> cp_Platform p = q \<Longrightarrow> exact_for gid (add_pricing gid (n, p) c) q n = Some p"
  by (simp add: add_pricing_def exact_for_def plain_normal Let_def)

definition plain_entries :: "string \<Rightarrow> (string \<times> ChannelModelPricing) list \<Rightarrow> bool" where
  "plain_entries q ps \<longleftrightarrow>
     list_all (\<lambda>(m, p). plain_pattern m \<and> plain_pattern (trim_suffix ''*'' m) \<and> cp_Platform p = q) ps"

definition answer_of :: "string \<Rightarrow> ChannelModelPricing option \<Rightarrow> (string \<times> ChannelModelPricing) list \<Rightarrow> ChannelModelPricing option" where
  "answer_of n exact wild =
     (case exact of Some p \<Rightarrow> Some p | None \<Rightarrow> map_option snd (find (\<lambda>(prefix, _). has_prefix prefix n) wild))"

lemma cached_entry:
  assumes plain: "plain_entries q ps" and one: "length (filter (pattern_matches n) (map fst ps)) \<le> 1"
    and fresh: "exact_for gid c q n = None" "wild_for gid c q = []"
  shows "answer_of n (exact_for gid (fold (add_pricing gid) ps c) q n) (wild_for gid (fold (add_pricing gid) ps c) q)
       = entry_of ps n"
proof -
  let ?wild = "\<lambda>ps. map (\<lambda>(m, p). (trim_suffix ''*'' m, p)) (filter (\<lambda>(m, _). has_suffix ''*'' m) ps)"
  have wild: "wild_for gid (fold (add_pricing gid) ps c) q = ?wild ps"
    using fold_pricing_wild [of q ps gid c] plain fresh(2) by (auto simp: plain_entries_def list_all_iff)
  have no_wild: "find (\<lambda>(prefix, _). has_prefix prefix n) (?wild xs) = None"
    if "\<forall>(m, _)\<in>set xs. \<not> pattern_matches n m" for xs
    using that by (auto simp: find_None_iff pattern_matches_def)
  show ?thesis
  proof (cases "find (\<lambda>(m, _). pattern_matches n m) ps")
    case None
    then have none: "\<forall>(m, _)\<in>set ps. \<not> pattern_matches n m" by (auto simp: find_None_iff)
    have "exact_for gid (fold (add_pricing gid) ps c) q n = None"
      using none plain fresh(1)
      by (subst fold_pricing_not_exact) (auto simp: list_all_iff plain_entries_def pattern_matches_def)
    then show ?thesis using None no_wild [OF none] by (simp add: answer_of_def wild entry_of_def)
  next
    case (Some x)
    obtain m p where x: "x = (m, p)" by fastforce
    then have in_ps: "(m, p) \<in> set ps" and match: "pattern_matches n m" using find_in [OF Some] by auto
    obtain as bs where ps: "ps = as @ (m, p) # bs" using in_ps by (meson split_list)
    have "length (filter (pattern_matches n) (map fst as)) + length (filter (pattern_matches n) (map fst bs)) = 0"
      using one match by (simp add: ps)
    then have others: "\<forall>(m, _)\<in>set as. \<not> pattern_matches n m" "\<forall>(m, _)\<in>set bs. \<not> pattern_matches n m"
      by (auto simp: filter_empty_conv)
    have result: "entry_of ps n = Some p" using Some x by (simp add: entry_of_def)
    have plain_m: "plain_pattern m" "cp_Platform p = q" using plain in_ps by (auto simp: plain_entries_def list_all_iff)
    show ?thesis
    proof (cases "has_suffix ''*'' m")
      case True
      have "exact_for gid (fold (add_pricing gid) ps c) q n = None"
        using others plain fresh(1) True plain_m(1)
        by (subst fold_pricing_not_exact) (auto simp: list_all_iff plain_entries_def pattern_matches_def ps)
      moreover have "has_prefix (trim_suffix ''*'' m) n"
        using match trim_suffix_prefix by (auto simp: pattern_matches_def)
      then have "find (\<lambda>(prefix, _). has_prefix prefix n) (?wild ps) = Some (trim_suffix ''*'' m, p)"
        using True no_wild [OF others(1)] by (simp add: ps find_append)
      ultimately show ?thesis using result by (simp add: answer_of_def wild)
    next
      case False
      then have "m = n" using match by (simp add: pattern_matches_def)
      have "exact_for gid (fold (add_pricing gid) ps c) q n =
          exact_for gid (add_pricing gid (m, p) (fold (add_pricing gid) as c)) q n"
        using others(2) plain
        by (subst ps, simp, subst fold_pricing_not_exact) (auto simp: list_all_iff plain_entries_def pattern_matches_def ps)
      also have "\<dots> = Some p" using plain_m False \<open>m = n\<close> by (simp add: add_pricing_exact)
      finally show ?thesis using result by (simp add: answer_of_def)
    qed
  qed
qed

text \<open>Filling the cache: the groups of other channels, and the group itself.\<close>

definition add_group :: "(int \<Rightarrow> string) \<Rightarrow> Channel \<Rightarrow> int \<Rightarrow> channelCache \<Rightarrow> channelCache" where
  "add_group platforms ch g cache =
     expandMappingToCache ch g (platforms g)
       (expandPricingToCache ch g (platforms g)
         (cache\<lparr>cc_channelByGroupID := (cc_channelByGroupID cache)(g := Some ch)\<rparr>))"

lemma add_channel_groups:
  "add_channel platforms c cache = fold (add_group platforms (normalizeBillingModelSource c)) (ch_GroupIDs c) cache"
proof -
  have same: "ch_GroupIDs (normalizeBillingModelSource c) = ch_GroupIDs c"
    by (simp add: normalizeBillingModelSource_def)
  show ?thesis unfolding add_channel_def Let_def add_group_def same by (rule refl)
qed

lemma set_channel_view [simp]:
  "g \<noteq> gid \<Longrightarrow> group_view gid (c\<lparr>cc_channelByGroupID := (cc_channelByGroupID c)(g := x)\<rparr>) = group_view gid c"
  by (simp add: group_view_def exact_for_def wild_for_def fun_eq_iff)

lemma add_group_other [simp]: "g \<noteq> gid \<Longrightarrow> group_view gid (add_group platforms ch g c) = group_view gid c"
  by (simp add: add_group_def expandPricingToCache_def)

lemma add_groups_other: "gid \<notin> set gs \<Longrightarrow> group_view gid (fold (add_group platforms ch) gs c) = group_view gid c"
  by (induction gs arbitrary: c) auto

lemma add_channels_other:
  "\<forall>c\<in>set cs. gid \<notin> set (ch_GroupIDs c) \<Longrightarrow> group_view gid (fold (add_channel platforms) cs cache) = group_view gid cache"
  by (induction cs arbitrary: cache) (auto simp: add_channel_groups add_groups_other)

definition fresh_view :: "int \<Rightarrow> (int \<Rightarrow> string) \<Rightarrow> channelCache \<Rightarrow> bool" where
  "fresh_view gid platforms c \<longleftrightarrow> group_view gid c = (\<lambda>_ _. None, \<lambda>_. [], None, platforms)"

definition group_entries :: "Channel \<Rightarrow> string \<Rightarrow> (string \<times> ChannelModelPricing) list" where
  "group_entries ch platform =
     entry_patterns (filter (\<lambda>p. isPlatformPricingMatch platform (cp_Platform p)) (ch_ModelPricing ch))"

lemma cached_group:
  assumes channels: "channels = before @ ch # later"
    and others: "\<forall>c\<in>set (before @ later). gid \<notin> set (ch_GroupIDs c)"
    and gid: "gid \<in> set (ch_GroupIDs ch)" "distinct (ch_GroupIDs ch)"
  shows "\<exists>c0 c. fresh_view gid platforms c0 \<and>
     c = fold (add_pricing gid) (group_entries ch (platforms gid))
           (c0\<lparr>cc_channelByGroupID := (cc_channelByGroupID c0)(gid := Some (normalizeBillingModelSource ch))\<rparr>) \<and>
     group_view gid (populateChannelCache now channels platforms) = group_view gid c"
proof -
  let ?start = "newEmptyChannelCache\<lparr>cc_groupPlatform := platforms, cc_loadedAt := now\<rparr>"
  let ?ch = "normalizeBillingModelSource ch"
  obtain gs hs where groups: "ch_GroupIDs ch = gs @ gid # hs" using gid(1) by (meson split_list)
  have gs: "gid \<notin> set gs" "gid \<notin> set hs" using gid(2) by (simp_all add: groups)
  define c0 where "c0 = fold (add_group platforms ?ch) gs (fold (add_channel platforms) before ?start)"
  have "group_view gid ?start = (\<lambda>_ _. None, \<lambda>_. [], None, platforms)"
    by (simp add: group_view_def newEmptyChannelCache_def exact_for_def wild_for_def fun_eq_iff)
  then have fresh: "fresh_view gid platforms c0"
    using others by (simp add: c0_def fresh_view_def add_groups_other [OF gs(1)] add_channels_other)
  have same: "ch_ModelPricing ?ch = ch_ModelPricing ch" by (simp add: normalizeBillingModelSource_def)
  have "populateChannelCache now channels platforms =
      fold (add_channel platforms) later (fold (add_group platforms ?ch) hs (add_group platforms ?ch gid c0))"
    by (simp add: populateChannelCache_def channels add_channel_groups groups c0_def)
  then have "group_view gid (populateChannelCache now channels platforms) = group_view gid (add_group platforms ?ch gid c0)"
    using others by (simp add: add_channels_other add_groups_other [OF gs(2)])
  also have "\<dots> = group_view gid (fold (add_pricing gid) (group_entries ch (platforms gid))
           (c0\<lparr>cc_channelByGroupID := (cc_channelByGroupID c0)(gid := Some ?ch)\<rparr>))"
    by (simp add: add_group_def expandPricingToCache_def group_entries_def same)
  finally show ?thesis using fresh by blast
qed

section \<open>Group and channel find the same entry\<close>

definition effective_platform :: "string \<Rightarrow> string" where
  "effective_platform platform = (if platform = PlatformComposite then PlatformCustom else platform)"

lemma platform_match: "isPlatformPricingMatch platform q \<longleftrightarrow> q = effective_platform platform"
  by (auto simp: isPlatformPricingMatch_def effective_platform_def)

lemma effective_not_composite: "effective_platform platform \<noteq> PlatformComposite"
  by (simp add: effective_platform_def PlatformComposite_def PlatformCustom_def)

lemma entry_patterns_fst: "map fst (entry_patterns (filter (\<lambda>p. cp_Platform p = q) entries)) = platform_patterns entries q"
  by (simp add: entry_patterns_def platform_patterns_def map_concat comp_def)

lemma validated_patterns:
  assumes "validateNoConflictingModels entries = None"
  shows "\<not> detectConflicts (map toModelEntry (platform_patterns entries q))"
proof (cases "q \<in> set (map cp_Platform entries)")
  case True
  then show ?thesis using assms by (auto simp: validateNoConflictingModels_def list_ex_iff split: if_splits)
next
  case False
  then have "filter (\<lambda>p. cp_Platform p = q) entries = []" by (auto simp: filter_empty_conv)
  then show ?thesis by (simp add: platform_patterns_def)
qed

text \<open>A configuration in plain spelling: every entry has a platform and every pattern is plain.\<close>

definition plain_config :: "ChannelModelPricing list \<Rightarrow> bool" where
  "plain_config entries \<longleftrightarrow>
     list_all (\<lambda>p. cp_Platform p \<noteq> [] \<and>
       list_all (\<lambda>m. plain_pattern m \<and> plain_pattern (trim_suffix ''*'' m)) (cp_Models p)) entries"

lemma plain_config_entries:
  "plain_config entries \<Longrightarrow> plain_entries q (entry_patterns (filter (\<lambda>p. cp_Platform p = q) entries))"
  by (auto simp: plain_config_def plain_entries_def entry_patterns_def list_all_iff)

lemma one_pattern:
  assumes "validateNoConflictingModels entries = None" "plain_config entries"
  shows "length (filter (pattern_matches n) (map fst (entry_patterns (filter (\<lambda>p. cp_Platform p = q) entries)))) \<le> 1"
proof -
  have "list_all plain_pattern (platform_patterns entries q)"
    using assms(2) by (auto simp: plain_config_def platform_patterns_def list_all_iff)
  then show ?thesis unfolding entry_patterns_fst by (rule no_conflict_unique [OF validated_patterns [OF assms(1)]])
qed

lemma group_search:
  assumes "validateNoConflictingModels entries = None" "plain_config entries"
  shows "matchPlatformModelPricing entries platform model =
     entry_of (entry_patterns (filter (\<lambda>p. cp_Platform p = effective_platform platform) entries))
       (normalizeChannelPricingModelName model)"
proof -
  have "filter (\<lambda>p. \<not> (cp_Platform p \<noteq> [] \<and> \<not> isPlatformPricingMatch platform (cp_Platform p))) entries =
        filter (\<lambda>p. cp_Platform p = effective_platform platform) entries"
    using assms(2) by (intro filter_cong) (auto simp: plain_config_def list_all_iff platform_match)
  moreover have plain: "list_all (plain_pattern \<circ> fst) (entry_patterns (filter (\<lambda>p. cp_Platform p = effective_platform platform) entries))"
    using plain_config_entries [OF assms(2), of "effective_platform platform"]
    by (fastforce simp: plain_entries_def list_all_iff)
  ultimately show ?thesis
    using match_entries_unique [OF plain one_pattern [OF assms]] by (simp only: matchPlatformModelPricing_def)
qed

lemma channel_search:
  assumes channels: "channels = before @ ch # later"
    and others: "\<forall>c\<in>set (before @ later). gid \<notin> set (ch_GroupIDs c)"
    and gid: "gid \<in> set (ch_GroupIDs ch)" "distinct (ch_GroupIDs ch)"
    and active: "Channel_IsActive ch" and model: "visible model"
    and config: "validateNoConflictingModels (ch_ModelPricing ch) = None" "plain_config (ch_ModelPricing ch)"
  shows "GetChannelModelPricing None (Inr (populateChannelCache now channels platforms)) gid model =
     entry_of (entry_patterns (filter (\<lambda>p. cp_Platform p = effective_platform (platforms gid)) (ch_ModelPricing ch)))
       (normalizeChannelPricingModelName model)"
proof -
  let ?cache = "populateChannelCache now channels platforms"
  let ?q = "effective_platform (platforms gid)"
  let ?n = "normalizeChannelPricingModelName model"
  let ?ps = "entry_patterns (filter (\<lambda>p. cp_Platform p = ?q) (ch_ModelPricing ch))"
  have entries: "group_entries ch (platforms gid) = ?ps" by (simp add: group_entries_def platform_match)
  obtain c0 c where c0: "fresh_view gid platforms c0"
    and c: "c = fold (add_pricing gid) ?ps
           (c0\<lparr>cc_channelByGroupID := (cc_channelByGroupID c0)(gid := Some (normalizeBillingModelSource ch))\<rparr>)"
    and view: "group_view gid ?cache = group_view gid c"
    using cached_group [OF channels others gid, of platforms now] unfolding entries by blast
  have fresh: "cc_groupPlatform c0 = platforms"
      "exact_for gid (c0\<lparr>cc_channelByGroupID := x\<rparr>) ?q ?n = None" "wild_for gid (c0\<lparr>cc_channelByGroupID := x\<rparr>) ?q = []" for x
    using c0 by (simp_all add: fresh_view_def group_view_def exact_for_def wild_for_def fun_eq_iff)
  have found: "answer_of ?n (exact_for gid c ?q ?n) (wild_for gid c ?q) = entry_of ?ps ?n"
    unfolding c by (rule cached_entry [OF plain_config_entries [OF config(2)] one_pattern [OF config] fresh(2,3)])
  have parts: "exact_for gid ?cache = exact_for gid c" "wild_for gid ?cache = wild_for gid c"
      "cc_channelByGroupID ?cache gid = cc_channelByGroupID c gid" "cc_groupPlatform ?cache = cc_groupPlatform c"
    using view by (simp_all add: group_view_def)
  have channel: "cc_channelByGroupID ?cache gid = Some (normalizeBillingModelSource ch)"
      "cc_groupPlatform ?cache gid = platforms gid"
    using fresh(1) by (simp_all add: parts c)
  have lk: "lookupGroupChannel None ?cache gid = Some (normalizeBillingModelSource ch, ?q)"
    using active by (simp add: lookupGroupChannel_def channel Channel_IsActive_def normalizeBillingModelSource_def
        channelLookupPlatform_def effective_platform_def)
  have same: "normalizeChannelPricingModelName (to_lower model) = ?n" by (rule normalize_lower [OF model])
  have "lookupPricingAcrossPlatforms ?cache gid ?q (to_lower model) =
      answer_of ?n (exact_for gid ?cache ?q ?n) (wild_for gid ?cache ?q)"
    using effective_not_composite [of "platforms gid"]
    by (simp add: lookupPricingAcrossPlatforms_def same matchingPlatforms_def answer_of_def exact_for_def wild_for_def
        matchWildcard_def Let_def map_option_case comp_def split: option.splits)
  then show ?thesis using found by (simp add: GetChannelModelPricing_def lk parts)
qed

end
