(* ===== verification/PricingOutcomes.thy ===== *)
theory PricingOutcomes
  imports PricingEntries
begin

text \<open>
  The promises of the prices: what a breakdown adds up to, when a request has a price, that the order of a
  validated configuration does not matter, that group and channel find the same entry, and that a frozen
  price is the live one.
\<close>

section \<open>Costs by the price list\<close>

lemma policy_cost_outcome:
  assumes "calculateCostWithServiceTierPolicy s model t r tier longCtx = Inr c"
  obtains p where "GetModelPricing s model = Inr p" "validUsageTokens t" "c = computeTokenBreakdown (Some p) t r tier longCtx"
  using assms
  by (auto simp: calculateCostWithServiceTierPolicy_def validUsageTokens_def split: option.splits sum.splits
      simp del: computeTokenBreakdown.simps)

text \<open>
  C12: A cost computed by the price list adds up: no component is negative, the total is the sum of the input,
  image input, output, image output, cache creation and cache read costs, and the amount charged is the total
  times the rate multiplier, a negative multiplier counting as zero.
\<close>

theorem token_cost_adds_up:
  assumes "nonneg_service s" "calculateCostWithServiceTierPolicy s model t r tier longCtx = Inr c"
  shows "nonneg_cost c \<and> adds_up c \<and> bd_ActualCost c = bd_TotalCost c * max 0 r"
proof -
  obtain p where p: "GetModelPricing s model = Inr p" and c: "c = computeTokenBreakdown (Some p) t r tier longCtx"
    by (rule policy_cost_outcome [OF assms(2)])
  show ?thesis unfolding c
    using breakdown_nonneg [OF model_price_nonneg [OF assms(1) p]] breakdown_sum by blast
qed


text \<open>
  A model that is answered for has a price: the only models of the built-in list that cost nothing are the
  two that are free. An entry of the price list whose token prices are all zero is never used as a price.
\<close>

theorem no_silent_zero_price:
  assumes "GetModelPricing s model = Inr p"
  shows "modelPricingHasTokenPrice (Some p) \<or> fallback_key (to_lower (to_lower model)) = Some ''glm-4.5-flash'' \<or>
    fallback_key (to_lower (to_lower model)) = Some ''glm-4.7-flash''"
  by (rule model_price_not_free [OF assms])

text \<open>
  C15: A request whose usage is plausible has a cost exactly when its resolved price is billable; otherwise the
  answer is that the model has no price, and never a cost of zero.
\<close>

theorem priced_iff_billable:
  assumes "validUsageTokens (ci_Tokens ci)" "ci_RequestCount ci \<le> maxBillableRequestCount"
    "ci_Resolver ci = Some rs" "ci_Resolved ci = Some (Resolve rs input)"
  shows "if Billable (Resolve rs input) then \<exists>c. CalculateCostUnified s ci = Inr c
         else CalculateCostUnified s ci = Inl (ErrModelPricingUnavailable (ci_Model ci))"
  by (rule unified_outcome [OF assms resolve_ok])

section \<open>The order of a configuration\<close>

text \<open>
  C16: In a validated list of token intervals the order does not matter: the interval of a context length is the
  same in any list with the same intervals.
\<close>

theorem interval_choice_ignores_order:
  assumes "ValidateIntervals ivs mode = None" "\<not> request_mode mode" "set ivs' = set ivs"
  shows "FindMatchingPricingInterval ivs' n = FindMatchingPricingInterval ivs n"
  unfolding FindMatchingPricingInterval_def
  by (rule find_unique) (use assms validated_interval_unique in blast)+

text \<open>
  C17: A group and a channel that carry the same validated entries, in plain spelling, price every model alike:
  the search through the entries of the group gives the entry that the lookup in the cache of the
  channel gives, whichever other channels and groups the cache was filled from.
\<close>

theorem group_and_channel_agree:
  assumes "channels = before @ ch # later" "\<forall>c\<in>set (before @ later). gid \<notin> set (ch_GroupIDs c)"
    "gid \<in> set (ch_GroupIDs ch)" "distinct (ch_GroupIDs ch)" "Channel_IsActive ch" "visible model"
    "validateNoConflictingModels (ch_ModelPricing ch) = None" "plain_config (ch_ModelPricing ch)"
  shows "GetChannelModelPricing None (Inr (populateChannelCache now channels platforms)) gid model =
         matchPlatformModelPricing (ch_ModelPricing ch) (platforms gid) model"
  by (simp only: channel_search [OF assms] group_search [OF assms(7,8)])

section \<open>Long contexts at an extra multiple\<close>

lemma plain_context:
  assumes "mp_LongContextInputThreshold p \<le> 0" "validUsageTokens t"
  shows "computeTokenBreakdown (Some p) t r tier longCtx = token_amounts p t (tier_prices p tier) (clamped_rate r)"
  using assms by (simp add: shouldApplySessionLongContextPricing_def clamped_rate_def Let_def)

lemma plain_token_total:
  assumes "ut_ImageInputTokens t = 0"
  shows "bd_TotalCost (token_amounts p t u r) =
     (of_int (ut_InputTokens t) * up_input u + of_int (ut_CacheReadTokens t) * up_cacheRead u +
      (of_int (max 0 (ut_OutputTokens t - ut_ImageOutputTokens t)) * up_output u +
       (if ut_ImageOutputTokens t > 0 then of_int (ut_ImageOutputTokens t) *
         (if mp_ImageOutputPricePerToken p = 0 \<and> \<not> mp_ImageOutputPriceExplicit p then up_output u
          else mp_ImageOutputPricePerToken p) else 0) +
       computeCacheCreationCost p t (up_cacheCreation u) (up_cacheCreationMultiplier u))) * up_tierMultiplier u"
  using assms by (simp add: token_amounts_total algebra_simps)

lemma split_valid:
  assumes "validUsageTokens t" "0 < k" "k < ut_CacheReadTokens t + ut_InputTokens t" "long_context_split t k = (a, b)"
  shows "validUsageTokens a \<and> validUsageTokens b"
  using assms
  by (auto simp: long_context_split_def Let_def validUsageTokens_iff usage_fields_def validReportedUsageTokenCount_def
      maxReportedUsageTokens_def no_tokens_def split: if_splits)

lemma split_sums:
  assumes "long_context_split t k = (a, b)"
  shows "ut_InputTokens a + ut_InputTokens b = ut_InputTokens t" "ut_CacheReadTokens a + ut_CacheReadTokens b = ut_CacheReadTokens t"
    "ut_InputTokens a + ut_CacheReadTokens a = k"
  using assms by (auto simp: long_context_split_def Let_def no_tokens_def split: if_splits)

lemma split_rest:
  assumes "long_context_split t k = (a, b)"
  shows "ut_OutputTokens a = ut_OutputTokens t" "ut_ImageOutputTokens a = ut_ImageOutputTokens t" "ut_ImageInputTokens a = 0"
    "ut_ImageInputTokens b = 0" "ut_OutputTokens b = 0" "ut_ImageOutputTokens b = 0" "ut_CacheCreationTokens b = 0"
    "ut_CacheCreation5mTokens b = 0" "ut_CacheCreation1hTokens b = 0"
    "ut_CacheCreationTokens a = ut_CacheCreationTokens t"
    "ut_CacheCreation5mTokens a = ut_CacheCreation5mTokens t" "ut_CacheCreation1hTokens a = ut_CacheCreation1hTokens t"
  using assms by (auto simp: long_context_split_def Let_def no_tokens_def)

lemma same_cache_writes:
  assumes "validUsageTokens a" "validUsageTokens t" "ut_CacheCreationTokens a = ut_CacheCreationTokens t"
    "ut_CacheCreation5mTokens a = ut_CacheCreation5mTokens t" "ut_CacheCreation1hTokens a = ut_CacheCreation1hTokens t"
  shows "computeCacheCreationCost p a x m = computeCacheCreationCost p t x m"
  by (simp only: computeCacheCreationCost_def assms)

lemma no_cache_writes:
  "ut_CacheCreationTokens t = 0 \<Longrightarrow> ut_CacheCreation5mTokens t = 0 \<Longrightarrow> ut_CacheCreation1hTokens t = 0 \<Longrightarrow>
     computeCacheCreationCost p t x m = 0"
  by (simp add: computeCacheCreationCost_def)

lemma split_total:
  assumes "validUsageTokens t" "validUsageTokens a" "ut_ImageInputTokens t = 0" "long_context_split t k = (a, b)"
  shows "bd_TotalCost (token_amounts p a u r) + bd_TotalCost (token_amounts p b u r') = bd_TotalCost (token_amounts p t u r'')"
proof -
  note rest = split_rest [OF assms(4)]
  have "bd_TotalCost (token_amounts p b u r') =
      (of_int (ut_InputTokens b) * up_input u + of_int (ut_CacheReadTokens b) * up_cacheRead u) * up_tierMultiplier u"
    by (simp add: plain_token_total rest no_cache_writes)
  moreover have "computeCacheCreationCost p a x m = computeCacheCreationCost p t x m" for x m
    by (rule same_cache_writes) (use assms(1,2) rest in simp_all)
  ultimately show ?thesis
    unfolding plain_token_total [OF rest(3)] plain_token_total [OF assms(3)] split_sums(1,2) [OF assms(4), symmetric]
    by (simp add: rest algebra_simps)
qed

lemma plain_cost:
  assumes "GetModelPricing s model = Inr p" "mp_LongContextInputThreshold p \<le> 0" "validUsageTokens t"
  shows "CalculateCost s model t r = Inr (token_amounts p t (tier_prices p []) (clamped_rate r))"
  using assms plain_context [OF assms(2,3), of r "[]" True]
  by (simp add: CalculateCost_def calculateCostWithServiceTierPolicy_def validUsageTokens_def del: computeTokenBreakdown.simps)

lemma clamped_rate_times: "0 \<le> x \<Longrightarrow> clamped_rate (r * x) = clamped_rate r * x"
  by (auto simp: clamped_rate_def mult_less_0_iff)


section \<open>Frozen image prices\<close>

lemma resolved_channel_pricing:
  assumes "resolveOpenAIChannelPricing s model apiKey = Some r"
  obtains resolver g where "gw_resolver s = Some resolver" "key_Group apiKey = Some g"
    "r = Resolve resolver \<lparr>pin_Model = model, pin_GroupID = Some (gr_ID g), pin_Group = Some g\<rparr>" "hasCustomPricing r"
  using assms by (auto simp: resolveOpenAIChannelPricing_def Let_def split: option.splits if_splits)

text \<open>A resolution enters a token cost by its card, its intervals, its source and whether it is billable.\<close>

lemma token_cost_by_card:
  assumes "rp_Intervals q = []" "rp_Intervals r = []" "rp_BasePricing q = rp_BasePricing r" "rp_Source q = rp_Source r"
    "Billable q = Billable r"
  shows "calculateTokenCost q ci = calculateTokenCost r ci"
proof -
  have card: "GetIntervalPricing q = GetIntervalPricing r" using assms(1-3) by (simp add: GetIntervalPricing_def fun_eq_iff)
  have source: "hasCustomPricing q = hasCustomPricing r" using assms(4) by (simp add: hasCustomPricing_def)
  show ?thesis unfolding calculateTokenCost_def card source assms(1,2,5) by (rule refl)
qed

lemma token_cost_inputs:
  assumes "ci_Model i = ci_Model j" "ci_Tokens i = ci_Tokens j" "ci_RateMultiplier i = ci_RateMultiplier j"
    "ci_ServiceTier i = ci_ServiceTier j" "ci_FastRateMultiplier i = ci_FastRateMultiplier j"
    "ci_LongContextBillingEnabled i = ci_LongContextBillingEnabled j"
  shows "calculateTokenCost r i = calculateTokenCost r j"
  by (simp only: calculateTokenCost_def assms)

lemma unified_token:
  assumes "ci_Resolver ci = Some rs" "rp_Mode r = BillingModeToken"
    "r = (case ci_Resolved ci of
            Some q \<Rightarrow> q
          | None \<Rightarrow> Resolve rs \<lparr>pin_Model = ci_Model ci, pin_GroupID = ci_GroupID ci, pin_Group = ci_Group ci\<rparr>)"
  shows "CalculateCostUnified s ci =
     (case validateUsageTokens (ci_Tokens ci) of
        Some e \<Rightarrow> Inl e
      | None \<Rightarrow> map_sum id (\<lambda>c. c\<lparr>bd_BillingMode := BillingModeToken\<rparr>)
          (calculateTokenCost r (ci\<lparr>ci_RateMultiplier := max 0 (ci_RateMultiplier ci)\<rparr>)))"
proof -
  have rate: "(if ci_RateMultiplier ci < 0 then ci\<lparr>ci_RateMultiplier := 0\<rparr> else ci) =
      ci\<lparr>ci_RateMultiplier := max 0 (ci_RateMultiplier ci)\<rparr>" by simp
  have mode: "\<not> request_mode (rp_Mode r)" "rp_Mode r \<noteq> []" using assms(2) not_request_token by (simp_all add: billing_modes)
  show ?thesis
    unfolding CalculateCostUnified_def assms(1) option.case assms(3) [symmetric] Let_def rate if_not_P [OF mode(1)]
      if_not_P [OF mode(2)] unfolding assms(2)
    by (simp add: map_sum_def split: option.split sum.split)
qed


section \<open>Examples\<close>

definition built_in_prices :: BillingService where
  "built_in_prices = \<lparr>bs_pricingService = None, bs_DefaultRateMultiplier = 1\<rparr>"

definition glm_5_card :: ModelPricing where
  "glm_5_card = no_price\<lparr>mp_InputPricePerToken := 1 / 1000000, mp_OutputPricePerToken := 32 / 10000000,
     mp_CacheReadPricePerToken := 2 / 10000000\<rparr>"

definition some_usage :: UsageTokens where
  "some_usage = no_tokens\<lparr>ut_InputTokens := 1000, ut_OutputTokens := 200, ut_CacheReadTokens := 400\<rparr>"

lemma some_usage_valid: "validUsageTokens some_usage"
  by (simp add: validUsageTokens_iff some_usage_def no_tokens_def usage_fields_def validReportedUsageTokenCount_def
      maxReportedUsageTokens_def)

lemma no_fallback_clash: "map_of fallback_prices ''glm-5'' = Some glm_5_card"
  by (simp add: fallback_price_defs glm_5_card_def)

lemma glm_5_price: "GetModelPricing built_in_prices ''glm-5'' = Inr glm_5_card"
proof -
  have key: "fallback_key ''glm-5'' = Some ''glm-5''" by code_simp
  have lower: "to_lower ''glm-5'' = ''glm-5''" by code_simp
  have none: "isOpenAIGPT56Model (normalizeKnownOpenAICodexModel ''glm-5'') = False"
    "usesOpenAILegacyLongContextPricing (normalizeKnownOpenAICodexModel ''glm-5'') = False" by code_simp+
  have policy: "applyModelSpecificPricingPolicy ''glm-5'' p = p" for p
    unfolding applyModelSpecificPricingPolicy_def Let_def none by (simp only: simp_thms if_True)
  have price: "getFallbackPricing ''glm-5'' = Some glm_5_card"
    unfolding getFallbackPricing_def lower key by (simp only: Option.bind.simps no_fallback_clash)
  show ?thesis
    unfolding GetModelPricing_def Let_def built_in_prices_def lower BillingService.simps option.case price policy by (rule refl)
qed

lemma some_cost:
  "calculateCostWithServiceTierPolicy built_in_prices ''glm-5'' some_usage r tier longCtx =
     Inr (computeTokenBreakdown (Some glm_5_card) some_usage r tier longCtx)"
  using some_usage_valid unfolding calculateCostWithServiceTierPolicy_def glm_5_price validUsageTokens_def by simp

lemma built_in_nonneg: "nonneg_service built_in_prices"
  by (simp add: nonneg_service_def built_in_prices_def)

lemma glm_5_nonneg: "nonneg_card glm_5_card"
  by (rule model_price_nonneg [OF built_in_nonneg glm_5_price])

lemma token_cost_adds_up_witness:
  "\<exists>c. calculateCostWithServiceTierPolicy built_in_prices ''glm-5'' some_usage (3 / 2) [] True = Inr c \<and>
     nonneg_cost c \<and> adds_up c \<and> bd_ActualCost c = bd_TotalCost c * (3 / 2)"
  using token_cost_adds_up [OF built_in_nonneg some_cost, of "3 / 2" "[]" True] unfolding some_cost by simp

definition longer_usage :: UsageTokens where
  "longer_usage = some_usage\<lparr>ut_OutputTokens := 900, ut_CacheReadTokens := 500\<rparr>"

lemma longer_usage_valid: "validUsageTokens longer_usage"
  by (simp add: validUsageTokens_iff longer_usage_def some_usage_def no_tokens_def usage_fields_def
      validReportedUsageTokenCount_def maxReportedUsageTokens_def)


lemma no_silent_zero_price_witness: "modelPricingHasTokenPrice (Some glm_5_card)"
proof -
  have key: "fallback_key (to_lower (to_lower ''glm-5'')) = Some ''glm-5''" by code_simp
  show ?thesis using no_silent_zero_price [OF glm_5_price] unfolding key by simp
qed

definition plain_resolver :: ModelPricingResolver where
  "plain_resolver = \<lparr>rs_billingService = built_in_prices, rs_channelPricing = None\<rparr>"

definition glm_5_input :: PricingInput where
  "glm_5_input = \<lparr>pin_Model = ''glm-5'', pin_GroupID = None, pin_Group = None\<rparr>"

lemma glm_5_resolved: "Billable (Resolve plain_resolver glm_5_input)"
proof -
  have entry: "custom_entry plain_resolver glm_5_input = None"
    by (simp add: custom_entry_def glm_5_input_def plain_resolver_def)
  have base: "resolveBasePricing plain_resolver (pin_Model glm_5_input) = (Some glm_5_card, PricingSourceLiteLLM)"
    by (simp add: resolveBasePricing_def plain_resolver_def glm_5_input_def glm_5_price)
  show ?thesis unfolding Resolve_def entry base
    by (simp add: Billable_def basePriced_def request_mode_def billing_modes)
qed

lemma priced_iff_billable_witness:
  "\<exists>c. CalculateCostUnified built_in_prices
     (cost_input ''glm-5'' None some_usage 1 (3 / 2) (Some plain_resolver) (Some (Resolve plain_resolver glm_5_input))) = Inr c"
  using priced_iff_billable [of "cost_input ''glm-5'' None some_usage 1 (3 / 2) (Some plain_resolver)
      (Some (Resolve plain_resolver glm_5_input))" plain_resolver glm_5_input built_in_prices]
  by (simp add: glm_5_resolved some_usage_valid cost_input_def maxBillableRequestCount_def maxReportedUsageTokens_def)

definition token_interval :: "int \<Rightarrow> int option \<Rightarrow> rat \<Rightarrow> PricingInterval" where
  "token_interval low high price =
     \<lparr>iv_MinTokens = low, iv_MaxTokens = high, iv_TierLabel = [], iv_InputPrice = Some price, iv_OutputPrice = None,
      iv_CacheWritePrice = None, iv_CacheReadPrice = None, iv_PerRequestPrice = None\<rparr>"

lemma interval_choice_ignores_order_witness:
  "FindMatchingPricingInterval [token_interval 200000 None 6, token_interval 0 (Some 200000) 3] 250000 =
   FindMatchingPricingInterval [token_interval 0 (Some 200000) 3, token_interval 200000 None 6] 250000"
  by (rule interval_choice_ignores_order [of _ BillingModeToken])
    (auto simp: ValidateIntervals_def Let_def token_interval_def validateSingleInterval_def validateIntervalPrices_def negative_def
      request_mode_def billing_modes)

definition glm_entry :: ChannelModelPricing where
  "glm_entry =
     \<lparr>cp_Platform = ''openai'', cp_Models = [''glm-5'', ''gpt-5*''], cp_BillingMode = BillingModeToken,
      cp_InputPrice = Some (1 / 1000), cp_OutputPrice = None, cp_CacheWritePrice = None, cp_CacheReadPrice = None,
      cp_ImageInputPrice = None, cp_ImageOutputPrice = None, cp_PerRequestPrice = None, cp_Intervals = []\<rparr>"

definition glm_channel :: Channel where
  "glm_channel =
     \<lparr>ch_ID = 1, ch_Status = ''active'', ch_BillingModelSource = [], ch_RestrictModels = False, ch_GroupIDs = [7],
      ch_ModelPricing = [glm_entry], ch_ModelMapping = []\<rparr>"

lemma group_and_channel_agree_witness:
  "GetChannelModelPricing None (Inr (populateChannelCache zero_time [glm_channel] (\<lambda>_. ''openai''))) 7 ''GPT-5.2'' =
   matchPlatformModelPricing [glm_entry] ''openai'' ''GPT-5.2''"
proof -
  have "validateNoConflictingModels (ch_ModelPricing glm_channel) = None" by code_simp
  moreover have "plain_config (ch_ModelPricing glm_channel)" by code_simp
  moreover have "visible ''GPT-5.2''" by code_simp
  ultimately show ?thesis
    using group_and_channel_agree [of "[glm_channel]" "[]" glm_channel "[]" 7 "''GPT-5.2''" zero_time "\<lambda>_. ''openai''"]
    by (simp add: glm_channel_def Channel_IsActive_def)
qed

definition cached_usage :: UsageTokens where
  "cached_usage = no_tokens\<lparr>ut_InputTokens := 1000, ut_CacheReadTokens := 150000\<rparr>"

lemma cached_usage_valid: "validUsageTokens cached_usage"
  by (simp add: validUsageTokens_iff cached_usage_def no_tokens_def usage_fields_def validReportedUsageTokenCount_def
      maxReportedUsageTokens_def)


definition plain_group :: Group where
  "plain_group =
     \<lparr>gr_ID = 7, gr_Platform = ''openai'', gr_ModelPricing = [glm_entry], gr_RateMultiplier = 1, gr_FastRateEnabled = False,
      gr_FastRateMultiplier = 0, gr_ImageRateIndependent = False, gr_ImageRateMultiplier = 1,
      gr_VideoRateIndependent = False, gr_VideoRateMultiplier = 1, gr_ImagePrice1K = None, gr_ImagePrice2K = None,
      gr_ImagePrice4K = None, gr_VideoPrice480P = None, gr_VideoPrice720P = None, gr_VideoPrice1080P = None,
      gr_WebSearchPricePerCall = None, gr_SubscriptionType = [], gr_PeakRateEnabled = False, gr_PeakStart = [],
      gr_PeakEnd = [], gr_PeakRateMultiplier = 1, gr_CyberAutoChargeEnabled = False, gr_CyberAutoChargeAmount = 0\<rparr>"

definition plain_gateway :: Gateway where
  "plain_gateway = \<lparr>gw_billingService = built_in_prices, gw_resolver = Some plain_resolver\<rparr>"

definition plain_key :: APIKey where
  "plain_key = \<lparr>key_GroupID = Some 7, key_Group = Some plain_group, key_Managed = False\<rparr>"

lemma plain_key_resolved:
  "resolveOpenAIChannelPricing plain_gateway ''glm-5'' plain_key =
     Some (applyTokenOverrides glm_entry (unresolved\<lparr>rp_Mode := BillingModeToken, rp_BasePricing := Some glm_5_card,
        rp_Source := PricingSourceGroup, rp_SupportsCacheBreakdown := False, rp_catalogBase := True,
        rp_channelPricing := Some glm_entry\<rparr>))"
proof -
  let ?input = "\<lparr>pin_Model = ''glm-5'', pin_GroupID = Some (gr_ID plain_group), pin_Group = Some plain_group\<rparr>"
  have search: "Group_GetModelPricing plain_group ''glm-5'' = Some glm_entry"
  proof -
    have "matchPlatformModelPricing [glm_entry] ''openai'' ''glm-5'' = Some glm_entry" by code_simp
    then show ?thesis by (simp add: Group_GetModelPricing_def plain_group_def)
  qed
  have entry: "custom_entry plain_resolver ?input = Some (glm_entry, PricingSourceGroup)"
    using search by (simp add: custom_entry_def)
  have base: "resolveBasePricing plain_resolver ''glm-5'' = (Some glm_5_card, PricingSourceLiteLLM)"
    by (simp add: resolveBasePricing_def plain_resolver_def glm_5_price)
  have mode: "request_mode (cp_BillingMode glm_entry) = False" by (simp add: glm_entry_def not_request_token)
  have "Resolve plain_resolver ?input =
      applyTokenOverrides glm_entry (unresolved\<lparr>rp_Mode := BillingModeToken, rp_BasePricing := Some glm_5_card,
        rp_Source := PricingSourceGroup, rp_SupportsCacheBreakdown := False, rp_catalogBase := True,
        rp_channelPricing := Some glm_entry\<rparr>)"
    unfolding Resolve_def entry Let_def option.case prod.case mode if_False PricingInput.simps base
    by (simp add: glm_5_card_def no_price_def unresolved_def)
  then show ?thesis
    by (simp add: resolveOpenAIChannelPricing_def plain_gateway_def plain_key_def hasCustomPricing_def
        applyTokenOverrides_def Let_def)
qed

definition no_media :: OpenAIForwardResult where
  "no_media =
     \<lparr>im_ImageCount = 1, im_ImageSize = [], im_ImageInputSize = [], im_ImageOutputSize = [], im_ImageOutputSizes = [],
      im_ImageSizeSource = [], im_ImageSizeBreakdown = [],
      of_Model = ''glm-5'', of_UpstreamModel = ''glm-5'', of_BillingModel = [], of_Usage = no_openai_usage, of_VideoCount = 0,
      of_VideoResolution = [], of_VideoDurationSeconds = 0, of_VideoPriceMultiplier = 0, of_WebSearchCalls = 0\<rparr>"


end
