(* ===== verification/PricingCharges.thy ===== *)
theory PricingCharges
  imports PricingOutcomes
begin

text \<open>
  No request is charged a negative amount: from cards, entries and intervals whose prices are not negative,
  through the resolution and the unified cost, to the cost that is recorded.
\<close>

section \<open>Entries whose prices are not negative\<close>

definition nonneg_interval :: "PricingInterval \<Rightarrow> bool" where
  "nonneg_interval iv \<longleftrightarrow>
     \<not> negative (iv_InputPrice iv) \<and> \<not> negative (iv_OutputPrice iv) \<and> \<not> negative (iv_CacheWritePrice iv) \<and>
     \<not> negative (iv_CacheReadPrice iv) \<and> \<not> negative (iv_PerRequestPrice iv)"

definition nonneg_entry :: "ChannelModelPricing \<Rightarrow> bool" where
  "nonneg_entry ch \<longleftrightarrow>
     \<not> negative (cp_InputPrice ch) \<and> \<not> negative (cp_OutputPrice ch) \<and> \<not> negative (cp_CacheWritePrice ch) \<and>
     \<not> negative (cp_CacheReadPrice ch) \<and> \<not> negative (cp_ImageInputPrice ch) \<and> \<not> negative (cp_ImageOutputPrice ch) \<and>
     \<not> negative (cp_PerRequestPrice ch) \<and> list_all nonneg_interval (cp_Intervals ch)"

lemma negative_simps [simp]: "\<not> negative None" "negative (Some x) \<longleftrightarrow> x < 0"
  by (simp_all add: negative_def)

lemma override_nonneg:
  assumes "nonneg_card p" "\<not> negative v"
  shows "nonneg_card (override_input v p)" "nonneg_card (override_output v p)" "nonneg_card (override_cache_write v p)"
    "nonneg_card (override_cache_read v p)"
  using assms
  by (cases v; simp add: nonneg_card_def override_input_def override_output_def override_cache_write_def
      override_cache_read_def)+

lemma override_entry_nonneg: "nonneg_card p \<Longrightarrow> nonneg_entry ch \<Longrightarrow> nonneg_card (override_entry ch p)"
  by (simp add: override_entry_def nonneg_entry_def override_nonneg)

lemma override_interval_nonneg: "nonneg_card p \<Longrightarrow> nonneg_interval iv \<Longrightarrow> nonneg_card (override_interval iv p)"
  by (simp add: override_interval_def nonneg_interval_def override_nonneg)

lemma image_prices_nonneg:
  assumes "nonneg_card p" "nonneg_entry ch"
  shows "nonneg_card (applyChannelImageInputPrice (Some ch) (applyChannelImageOutputPrice (Some ch) p))"
  using assms
  by (cases "cp_ImageInputPrice ch"; cases "cp_ImageOutputPrice ch")
    (simp_all add: nonneg_card_def nonneg_entry_def applyChannelImageInputPrice_def applyChannelImageOutputPrice_def)

lemma missing_cache_nonneg: "nonneg_card p \<Longrightarrow> nonneg_card (applyMissingCachePrices p a b)"
  by (simp add: nonneg_card_def applyMissingCachePrices_def Let_def)

definition nonneg_resolution :: "ResolvedPricing \<Rightarrow> bool" where
  "nonneg_resolution r \<longleftrightarrow>
     pred_option nonneg_card (rp_BasePricing r) \<and> list_all nonneg_interval (rp_Intervals r) \<and>
     list_all nonneg_interval (rp_RequestTiers r) \<and> 0 \<le> rp_DefaultPerRequestPrice r \<and>
     pred_option nonneg_entry (rp_channelPricing r)"

lemma list_all_filter: "list_all P xs \<Longrightarrow> list_all P (filter Q xs)"
  by (auto simp: list_all_iff)

lemma base_card_nonneg: "pred_option nonneg_card base \<Longrightarrow> nonneg_card (case base of None \<Rightarrow> no_price | Some p \<Rightarrow> p)"
  by (cases base) simp_all

lemma token_overrides_nonneg:
  assumes "nonneg_entry ch" "nonneg_resolution r"
  shows "nonneg_resolution (applyTokenOverrides ch r)"
proof -
  have "nonneg_card (case rp_BasePricing r of None \<Rightarrow> no_price | Some p \<Rightarrow> p)"
    using assms(2) by (intro base_card_nonneg) (simp add: nonneg_resolution_def)
  then have card: "nonneg_card (applyChannelImageInputPrice (Some ch) (applyChannelImageOutputPrice (Some ch)
      (override_entry ch (case rp_BasePricing r of None \<Rightarrow> no_price | Some p \<Rightarrow> p))))"
    using assms(1) by (intro image_prices_nonneg override_entry_nonneg)
  have ivs: "list_all nonneg_interval (filterTokenIntervals (cp_Intervals ch))"
    using assms(1) by (simp add: filterTokenIntervals_def nonneg_entry_def list_all_filter)
  show ?thesis using assms(2) card missing_cache_nonneg [OF card] ivs
    by (simp add: applyTokenOverrides_def Let_def nonneg_resolution_def)
qed

lemma request_overrides_nonneg:
  assumes "nonneg_entry ch" "nonneg_resolution r"
  shows "nonneg_resolution (applyRequestTierOverrides ch r)"
  using assms
  by (cases "cp_PerRequestPrice ch")
    (simp_all add: applyRequestTierOverrides_def nonneg_resolution_def nonneg_entry_def filterValidIntervals_def list_all_filter)

lemma resolve_nonneg:
  assumes service: "nonneg_service (rs_billingService r)"
    and entry: "\<And>ch source. custom_entry r input = Some (ch, source) \<Longrightarrow> nonneg_entry ch"
  shows "nonneg_resolution (Resolve r input)"
proof -
  have base: "pred_option nonneg_card b" if "resolveBasePricing r m = (b, src)" for b src m
    using that model_price_nonneg [OF service] by (auto simp: resolveBasePricing_def split: sum.splits)
  show ?thesis
  proof (cases "case custom_entry r input of Some (ch, _) \<Rightarrow> request_mode (cp_BillingMode ch) | None \<Rightarrow> False")
    case True
    then obtain ch source where e: "custom_entry r input = Some (ch, source)" "request_mode (cp_BillingMode ch)"
      by (auto split: option.splits)
    show ?thesis unfolding resolve_request_path [OF e]
      by (rule request_overrides_nonneg [OF entry [OF e(1)]])
        (use entry [OF e(1)] in \<open>simp add: nonneg_resolution_def unresolved_def\<close>)
  next
    case False
    then obtain b source where b: "resolveBasePricing r (pin_Model input) = (b, source)"
      and res: "Resolve r input =
       (let resolved = unresolved\<lparr>rp_Mode := BillingModeToken, rp_BasePricing := b, rp_Source := source,
              rp_SupportsCacheBreakdown := (case b of Some p \<Rightarrow> mp_SupportsCacheBreakdown p | None \<Rightarrow> False),
              rp_catalogBase := (b \<noteq> None)\<rparr>
        in case custom_entry r input of
             None \<Rightarrow> resolved
           | Some (ch, pricingSource) \<Rightarrow>
               applyTokenOverrides ch (resolved\<lparr>rp_Source := pricingSource, rp_channelPricing := Some ch\<rparr>))"
      by (rule resolve_token_path)
    show ?thesis
    proof (cases "custom_entry r input")
      case None
      then show ?thesis using base [OF b] by (simp add: res Let_def nonneg_resolution_def unresolved_def)
    next
      case (Some e)
      obtain ch src where e: "e = (ch, src)" by fastforce
      have nn: "nonneg_entry ch" by (rule entry) (use Some e in simp)
      show ?thesis unfolding res Some e Let_def option.case prod.case
        by (rule token_overrides_nonneg [OF nn]) (use base [OF b] nn in \<open>simp add: nonneg_resolution_def unresolved_def\<close>)
    qed
  qed
qed

section \<open>Costs that are not negative\<close>

lemma interval_card_nonneg:
  assumes "nonneg_resolution r" "nonneg_interval iv"
  shows "nonneg_card (intervalToModelPricing iv r)"
proof -
  have "nonneg_card (case rp_BasePricing r of None \<Rightarrow> no_price | Some p \<Rightarrow> p)"
    using assms(1) by (intro base_card_nonneg) (simp add: nonneg_resolution_def)
  then have base: "nonneg_card (override_interval iv
      ((case rp_BasePricing r of None \<Rightarrow> no_price | Some p \<Rightarrow> p)\<lparr>mp_SupportsCacheBreakdown := rp_SupportsCacheBreakdown r\<rparr>))"
    by (intro override_interval_nonneg [OF _ assms(2)]) (simp add: nonneg_card_def)
  show ?thesis
  proof (cases "rp_channelPricing r")
    case None
    then show ?thesis using base by (simp add: intervalToModelPricing_def)
  next
    case (Some ch)
    then have "nonneg_entry ch" using assms(1) by (simp add: nonneg_resolution_def)
    note image = image_prices_nonneg [OF base this]
    show ?thesis using Some image missing_cache_nonneg [OF image] by (simp add: intervalToModelPricing_def Let_def)
  qed
qed

lemma nearest_from_in:
  "nearest_from n ivs below lowest = Some iv \<Longrightarrow> iv \<in> set ivs \<or> below = Some iv \<or> lowest = Some iv"
  by (induction ivs arbitrary: below lowest) (fastforce split: option.splits if_splits)+

lemma interval_pricing_nonneg:
  assumes "nonneg_resolution r" "GetIntervalPricing r n = Some p"
  shows "nonneg_card p"
proof -
  have "nonneg_card (intervalToModelPricing iv r)" if "iv \<in> set (rp_Intervals r)" for iv
    by (rule interval_card_nonneg [OF assms(1)]) (use assms(1) that in \<open>simp add: nonneg_resolution_def list_all_iff\<close>)
  then show ?thesis using assms
    by (auto simp: GetIntervalPricing_def FindMatchingPricingInterval_def nearestPricingInterval_def nonneg_resolution_def
        split: if_splits option.splits dest!: find_in dest: nearest_from_in)
qed

lemma customer_base_nonneg: "nonneg_cost a \<Longrightarrow> nonneg_cost b \<Longrightarrow> nonneg_cost (with_customer_base a b)"
  by (simp add: nonneg_cost_def with_customer_base_def)

lemma token_cost_nonneg:
  assumes "nonneg_resolution r" "calculateTokenCost r ci = Inr c"
  shows "nonneg_cost c"
proof -
  note card = policy_nonneg [OF interval_pricing_nonneg [OF assms(1)]]
  show ?thesis using assms(2) breakdown_nonneg [OF card] customer_base_nonneg
    by (auto simp: calculateTokenCost_def Let_def simp del: computeTokenBreakdown.simps split: option.splits if_splits)
qed

lemma tier_price_nonneg:
  assumes "list_all nonneg_interval ts" "t \<in> set ts" "iv_PerRequestPrice t = Some x"
  shows "0 \<le> x"
proof -
  have "nonneg_interval t" using assms(1,2) by (simp add: list_all_iff)
  then show ?thesis using assms(3) by (simp add: nonneg_interval_def)
qed

lemma highest_from_nonneg:
  "highest_from best ts = Some x \<Longrightarrow> list_all nonneg_interval ts \<Longrightarrow> pred_option (\<lambda>b. 0 \<le> b) best \<Longrightarrow> 0 \<le> x"
proof (induction ts arbitrary: best)
  case (Cons t ts)
  show ?case
  proof (rule Cons.IH)
    show "highest_from (case iv_PerRequestPrice t of
          None \<Rightarrow> best
        | Some x \<Rightarrow> (case best of None \<Rightarrow> Some x | Some b \<Rightarrow> if x > b then Some x else best)) ts = Some x"
      using Cons.prems(1) by simp
    show "list_all nonneg_interval ts" using Cons.prems(2) by simp
    have "0 \<le> y" if "iv_PerRequestPrice t = Some y" for y
      using tier_price_nonneg [OF Cons.prems(2), of t y] that by simp
    then show "pred_option (\<lambda>b. 0 \<le> b) (case iv_PerRequestPrice t of
          None \<Rightarrow> best
        | Some x \<Rightarrow> (case best of None \<Rightarrow> Some x | Some b \<Rightarrow> if x > b then Some x else best))"
      using Cons.prems(3) by (auto split: option.splits)
  qed
qed simp

lemma unit_price_nonneg:
  assumes "nonneg_resolution r" "request_unit_price r label n = Some x"
  shows "0 \<le> x"
proof -
  have tiers: "list_all nonneg_interval (rp_RequestTiers r)" "0 \<le> rp_DefaultPerRequestPrice r"
    using assms(1) by (simp_all add: nonneg_resolution_def)
  have by_label: "0 \<le> x" if "requestTierPriceByLabel (rp_RequestTiers r) label = Some x" for x
    using that tier_price_nonneg [OF tiers(1)]
    by (auto simp: requestTierPriceByLabel_def Let_def split: if_splits bind_splits dest!: find_in)
  have by_context: "0 \<le> x" if "requestTierPriceByContext (rp_RequestTiers r) n = Some x" for x
    using that tier_price_nonneg [OF tiers(1)]
    by (auto simp: requestTierPriceByContext_def FindMatchingPricingInterval_def split: bind_splits dest!: find_in)
  have highest: "0 \<le> x" if "highestRequestTierPrice (rp_RequestTiers r) = Some x" for x
    using highest_from_nonneg [OF _ tiers(1)] that by (simp add: highestRequestTierPrice_def)
  show ?thesis using assms(2) by_label by_context highest tiers(2)
    by (auto simp: request_unit_price_def split: option.splits if_splits)
qed

lemma request_cost_nonneg:
  assumes "nonneg_resolution r" "0 \<le> ci_RateMultiplier ci" "calculatePerRequestCost r ci = Inr c"
  shows "nonneg_cost c"
  using assms(2,3) unit_price_nonneg [OF assms(1)]
  by (fastforce simp: calculatePerRequestCost_def Let_def nonneg_cost_def no_cost_def split: option.splits if_splits)

lemma policy_cost_nonneg:
  assumes "nonneg_service s" "calculateCostWithServiceTierPolicy s model t r tier longCtx = Inr c"
  shows "nonneg_cost c"
  using assms(2) breakdown_nonneg [OF model_price_nonneg [OF assms(1)]]
  by (auto simp: calculateCostWithServiceTierPolicy_def simp del: computeTokenBreakdown.simps split: option.splits sum.splits)

lemma mode_nonneg: "nonneg_cost c \<Longrightarrow> nonneg_cost (c\<lparr>bd_BillingMode := m\<rparr>)"
  by (simp add: nonneg_cost_def)

lemma unified_nonneg:
  assumes "nonneg_resolution r" "ci_Resolver ci = Some rs" "ci_Resolved ci = Some r" "CalculateCostUnified s ci = Inr c"
  shows "nonneg_cost c"
proof -
  let ?ci = "if ci_RateMultiplier ci < 0 then ci\<lparr>ci_RateMultiplier := 0\<rparr> else ci"
  have rate: "0 \<le> ci_RateMultiplier ?ci" by simp
  obtain b where b: "(if request_mode (rp_Mode r) then calculatePerRequestCost r ?ci else calculateTokenCost r ?ci) = Inr b"
    and c: "c = b\<lparr>bd_BillingMode := (if rp_Mode r = [] then BillingModeToken else rp_Mode r)\<rparr>"
    using assms(2-4) by (auto simp: CalculateCostUnified_def Let_def split: option.splits sum.splits)
  have "nonneg_cost b"
    using b token_cost_nonneg [OF assms(1)] request_cost_nonneg [OF assms(1) rate]
    by (cases "request_mode (rp_Mode r)") (simp_all only: if_True if_False)
  then show ?thesis unfolding c by (rule mode_nonneg)
qed

lemma long_context_nonneg:
  assumes "nonneg_service s" "CalculateCostWithLongContext s model t r k x = Inr c"
  shows "nonneg_cost c"
proof -
  have plain: "nonneg_cost b" if "CalculateCost s model v q = Inr b" for v q b
    using policy_cost_nonneg [OF assms(1)] that by (simp add: CalculateCost_def)
  show ?thesis
  proof (cases "CalculateCost s model t r = Inr c")
    case True
    then show ?thesis by (rule plain)
  next
    case False
    obtain v w where vw: "long_context_split t k = (v, w)" by fastforce
    obtain a b where ab: "CalculateCost s model v r = Inr a" "CalculateCost s model w (r * x) = Inr b"
      and c: "c = no_cost\<lparr>bd_InputCost := bd_InputCost a + bd_InputCost b,
        bd_ImageInputCost := bd_ImageInputCost a + bd_ImageInputCost b, bd_OutputCost := bd_OutputCost a,
        bd_ImageOutputCost := bd_ImageOutputCost a, bd_CacheCreationCost := bd_CacheCreationCost a,
        bd_CacheReadCost := bd_CacheReadCost a + bd_CacheReadCost b, bd_TotalCost := bd_TotalCost a + bd_TotalCost b,
        bd_ActualCost := bd_ActualCost a + bd_ActualCost b, bd_LongContextBillingApplied := bd_ActualCost b > 0\<rparr>"
      using assms(2) False vw by (auto simp: CalculateCostWithLongContext_def split: option.splits sum.splits if_splits)
    show ?thesis using plain [OF ab(1)] plain [OF ab(2)] unfolding c by (simp add: nonneg_cost_def)
  qed
qed

section \<open>From the configuration to the recorded cost\<close>

definition nonneg_group :: "Group \<Rightarrow> bool" where
  "nonneg_group g \<longleftrightarrow>
     list_all nonneg_entry (gr_ModelPricing g) \<and> \<not> negative (gr_ImagePrice1K g) \<and> \<not> negative (gr_ImagePrice2K g) \<and>
     \<not> negative (gr_ImagePrice4K g)"

text \<open>The configuration of a gateway: its two price services, the answers of the channels, the group of the key.\<close>

definition nonneg_config :: "Gateway \<Rightarrow> APIKey \<Rightarrow> bool" where
  "nonneg_config s apiKey \<longleftrightarrow>
     nonneg_service (gw_billingService s) \<and>
     pred_option (\<lambda>rs. nonneg_service (rs_billingService rs) \<and>
       pred_option (\<lambda>channels. \<forall>gid model. pred_option nonneg_entry (channels gid model)) (rs_channelPricing rs))
       (gw_resolver s) \<and>
     pred_option nonneg_group (key_Group apiKey)"

lemma match_entries_in: "match_entries n ps w = Some p \<Longrightarrow> p \<in> snd ` set ps \<or> w = Some p"
  by (induction ps arbitrary: w) (force simp: Let_def split: if_splits)+

lemma group_entry_in: "Group_GetModelPricing g model = Some p \<Longrightarrow> p \<in> set (gr_ModelPricing g)"
  unfolding Group_GetModelPricing_def matchPlatformModelPricing_def
  by (drule match_entries_in) (auto simp: entry_patterns_def)

lemma custom_entry_nonneg:
  assumes "custom_entry rs input = Some (ch, source)" "pred_option nonneg_group (pin_Group input)"
    "pred_option (\<lambda>channels. \<forall>gid model. pred_option nonneg_entry (channels gid model)) (rs_channelPricing rs)"
  shows "nonneg_entry ch"
proof (cases "\<exists>g. pin_Group input = Some g \<and> Group_GetModelPricing g (pin_Model input) = Some ch")
  case True
  then show ?thesis using assms(2) by (auto simp: nonneg_group_def list_all_iff dest: group_entry_in)
next
  case False
  then obtain gid channels where c: "rs_channelPricing rs = Some channels" "channels gid (pin_Model input) = Some ch"
    using assms(1) by (auto simp: custom_entry_def Let_def split: option.splits if_splits)
  then show ?thesis using assms(3) by (metis option.pred_inject(2))
qed

lemma channel_resolution_nonneg:
  assumes "nonneg_config s apiKey" "resolveChannelPricing s model apiKey = Some r"
  shows "nonneg_resolution r \<and> gw_resolver s \<noteq> None"
proof -
  obtain rs g where rs: "gw_resolver s = Some rs" "key_Group apiKey = Some g"
    and r: "r = Resolve rs \<lparr>pin_Model = model, pin_GroupID = Some (gr_ID g), pin_Group = Some g\<rparr>"
    using assms(2) by (auto simp: resolveChannelPricing_def Let_def split: option.splits if_splits)
  have service: "nonneg_service (rs_billingService rs)"
    and channels: "pred_option (\<lambda>channels. \<forall>gid model. pred_option nonneg_entry (channels gid model)) (rs_channelPricing rs)"
    and grp: "nonneg_group g"
    using assms(1) by (simp_all add: nonneg_config_def rs)
  have "nonneg_resolution r" unfolding r
    by (rule resolve_nonneg [OF service], rule custom_entry_nonneg [OF _ _ channels], assumption) (simp add: grp)
  then show ?thesis using rs by simp
qed

lemma channel_unified_nonneg:
  assumes "nonneg_config s apiKey" "resolveChannelPricing s model apiKey = Some r" "ci_Resolver ci = gw_resolver s"
    "ci_Resolved ci = Some r" "CalculateCostUnified b ci = Inr c"
  shows "nonneg_cost c"
proof -
  obtain rs where "nonneg_resolution r" "gw_resolver s = Some rs" using channel_resolution_nonneg [OF assms(1,2)] by blast
  then show ?thesis using unified_nonneg [of r ci rs b c] assms(3-5) by simp
qed

lemma grok_image_nonneg: "getDefaultGrokImagineImagePrice model sz = Some x \<Longrightarrow> 0 \<le> x"
  by (auto simp: getDefaultGrokImagineImagePrice_def getGrokImagineImageTierPrice_def Let_def split: if_splits)

lemma default_image_nonneg: "0 \<le> getDefaultImagePrice s model sz"
  using grok_image_nonneg [of model sz]
  by (auto simp: getDefaultImagePrice_def Let_def defaultImageGenerationPrice_def split: option.splits)

lemma image_unit_nonneg:
  assumes "pred_option nonneg_group (key_Group apiKey)"
  shows "0 \<le> getImageUnitPrice s model sz (imagePriceConfigFromAPIKey apiKey)"
proof -
  have "0 \<le> x" if "v = Some x" "\<not> negative v" for v x using that by simp
  then show ?thesis using assms default_image_nonneg
    by (cases "key_Group apiKey")
      (auto simp: getImageUnitPrice_def imagePriceConfigFromAPIKey_def image_price_config_def nonneg_group_def
        split: option.splits)
qed

lemma image_cost_nonneg:
  assumes "pred_option nonneg_group (key_Group apiKey)"
  shows "nonneg_cost (CalculateImageCost s model sz n (imagePriceConfigFromAPIKey apiKey) rate)"
  using image_unit_nonneg [OF assms]
  by (simp add: CalculateImageCost_def Let_def nonneg_cost_def no_cost_def)

lemma gateway_token_nonneg:
  assumes "nonneg_config s apiKey"
  shows "nonneg_cost (Gateway_calculateTokenCost s result apiKey model rate opts)"
proof -
  have service: "nonneg_service (gw_billingService s)" using assms by (simp add: nonneg_config_def)
  have plain: "nonneg_cost c" if "CalculateCost (gw_billingService s) model t rate = Inr c" for t c
    using policy_cost_nonneg [OF service] that by (simp add: CalculateCost_def)
  have unified: "nonneg_cost c"
    if "resolveChannelPricing s model apiKey = Some r"
      "CalculateCostUnified (gw_billingService s) (cost_input model gid t n rate (gw_resolver s) (Some r)) = Inr c" for r gid t n c
    by (rule channel_unified_nonneg [OF assms that(1) _ _ that(2)]) (simp_all add: cost_input_def)
  show ?thesis
    using plain unified long_context_nonneg [OF service]
    by (auto simp: Gateway_calculateTokenCost_def Let_def split: option.split sum.split)
qed

lemma gateway_image_nonneg:
  assumes "nonneg_config s apiKey"
  shows "nonneg_cost (Gateway_calculateImageCost s result apiKey model rate)"
proof -
  have grp: "pred_option nonneg_group (key_Group apiKey)" using assms by (simp add: nonneg_config_def)
  have unified: "nonneg_cost c"
    if "resolveChannelPricing s model apiKey = Some r" "CalculateCostUnified (gw_billingService s)
         ((cost_input model gid t n rate (gw_resolver s) (Some r))\<lparr>ci_SizeTier := tier\<rparr>) = Inr c" for r gid t n c tier
    by (rule channel_unified_nonneg [OF assms that(1) _ _ that(2)]) (simp_all add: cost_input_def)
  show ?thesis
    using image_cost_nonneg [OF grp] unified
    by (auto simp: Gateway_calculateImageCost_def Let_def split: option.split sum.split)
qed

lemma cyber_nonneg: "nonneg_cost c \<Longrightarrow> nonneg_cost (applyCyberAutoCharge apiKey c)"
  by (simp add: applyCyberAutoCharge_def nonneg_cost_def Let_def)

lemma managed_nonneg: "nonneg_cost c \<Longrightarrow> nonneg_cost (makeManagedMonitorUsageFree apiKey c)"
  by (simp add: makeManagedMonitorUsageFree_def nonneg_cost_def)

lemma recorded_nonneg:
  assumes "nonneg_config s (ri_APIKey input)"
  shows "nonneg_cost (recordUsageCore_cost s base minuteOfDay input)"
proof -
  have cost: "nonneg_cost (calculateRecordUsageCost s result (ri_APIKey input) model m im opts)" for result model m im opts
    using gateway_token_nonneg [OF assms] gateway_image_nonneg [OF assms]
    by (simp only: calculateRecordUsageCost_def split: if_split) simp
  show ?thesis
    by (cases "ri_CyberBlocked input")
      (simp_all add: recordUsageCore_cost_def Let_def split_beta cyber_nonneg managed_nonneg cost)
qed

lemma recorded_charge_nonneg:
  assumes "nonneg_config s (ri_APIKey input)"
  shows "0 \<le> bd_ActualCost (recordUsageCore_cost s base minuteOfDay input)"
  using recorded_nonneg [OF assms] by (simp add: nonneg_cost_def)

text \<open>
  C14: No request is recorded with a negative cost: whatever counts the upstream reports and whatever rate
  multiplier applies, when no configured price is negative, no component of the recorded cost and
  no charge is negative, by tokens, by request, by image or by a long context, with the surcharge of a blocked
  request and the waiver of a managed key.
\<close>

theorem recorded_cost_nonneg:
  assumes "nonneg_config s (ri_APIKey input)"
  shows "nonneg_cost (recordUsageCore_cost s base minuteOfDay input)"
  by (rule recorded_nonneg [OF assms])

text \<open>
  The requests of a managed key are free: nothing is charged for them, whatever the cost of the upstream is
  and also when the request was blocked.
\<close>

theorem managed_key_pays_nothing:
  assumes "key_Managed (ri_APIKey input)"
  shows "bd_ActualCost (recordUsageCore_cost s base minuteOfDay input) = 0"
  using assms
  by (simp add: recordUsageCore_cost_def makeManagedMonitorUsageFree_def applyCyberAutoCharge_def Let_def split_beta)

section \<open>Examples\<close>

definition reported_request :: recordUsageCoreInput where
  "reported_request =
     \<lparr>ri_Result = \<lparr>im_ImageCount = 0, im_ImageSize = [], im_ImageInputSize = [], im_ImageOutputSize = [],
        im_ImageOutputSizes = [], im_ImageSizeSource = [], im_ImageSizeBreakdown = [], gf_Model = ''glm-5'',
        gf_UpstreamModel = ''glm-5'', gf_Usage = no_claude_usage\<lparr>cu_InputTokens := 1000, cu_OutputTokens := - 5\<rparr>\<rparr>,
      ri_APIKey = plain_key, ri_ForceCacheBilling = False, ri_CacheTTLOverride = None, ri_BillingModelSource = [],
      ri_ChannelMappedModel = [], ri_OriginalModel = ''glm-5'', ri_CyberBlocked = False, ri_LongContext = (0, 0)\<rparr>"

lemma plain_config_nonneg: "nonneg_config plain_gateway plain_key"
  by (simp add: nonneg_config_def plain_gateway_def plain_resolver_def plain_key_def plain_group_def built_in_nonneg
      nonneg_group_def nonneg_entry_def glm_entry_def)

lemma recorded_cost_nonneg_witness: "nonneg_cost (recordUsageCore_cost plain_gateway (- 1) 600 reported_request)"
  by (rule recorded_cost_nonneg) (simp add: reported_request_def plain_config_nonneg)

definition managed_request :: recordUsageCoreInput where
  "managed_request = reported_request\<lparr>ri_APIKey := plain_key\<lparr>key_Managed := True\<rparr>, ri_CyberBlocked := True\<rparr>"

lemma managed_key_pays_nothing_witness: "bd_ActualCost (recordUsageCore_cost plain_gateway 1 600 managed_request) = 0"
  by (rule managed_key_pays_nothing) (simp add: managed_request_def)

end
