(* ===== verification/PricingFindings.thy ===== *)
theory PricingFindings
  imports PricingCharges
begin

text \<open>
  Cases in which the prices do not do what a comment or another part of the code says, each at a concrete
  configuration.
\<close>

section \<open>A custom video with tiers alone is admitted and not charged\<close>

definition tier_720p :: PricingInterval where
  "tier_720p =
     \<lparr>iv_MinTokens = 0, iv_MaxTokens = None, iv_TierLabel = ''720p'', iv_InputPrice = None, iv_OutputPrice = None,
      iv_CacheWritePrice = None, iv_CacheReadPrice = None, iv_PerRequestPrice = Some (1 / 10)\<rparr>"

definition tiered_video_entry :: ChannelModelPricing where
  "tiered_video_entry = glm_entry\<lparr>cp_Platform := ''custom'', cp_Models := [''my-video''], cp_BillingMode := BillingModeVideo,
     cp_InputPrice := None, cp_Intervals := [tier_720p]\<rparr>"

definition tiered_video_key :: APIKey where
  "tiered_video_key = plain_key\<lparr>key_Group :=
     Some (plain_group\<lparr>gr_Platform := ''custom'', gr_ModelPricing := [tiered_video_entry]\<rparr>)\<rparr>"

definition delivered_video :: OpenAIForwardResult where
  "delivered_video = no_media\<lparr>of_VideoCount := 1, of_VideoResolution := ''720p'', of_VideoDurationSeconds := 5\<rparr>"

theorem tiered_custom_video_is_free:
  "ValidateCustomVideoPricing plain_gateway None False tiered_video_key ''my-video'' ''720p'' = None \<and>
   calculateOpenAIVideoCost plain_gateway None ''my-video'' tiered_video_key delivered_video 1 None =
     no_cost\<lparr>bd_BillingMode := BillingModeVideo\<rparr>"
  by code_simp

section \<open>Two spellings of one model in one configuration\<close>

definition dotted_entry :: ChannelModelPricing where
  "dotted_entry = glm_entry\<lparr>cp_Platform := ''anthropic'', cp_Models := [''claude-opus-4.5'']\<rparr>"

definition hyphen_entry :: ChannelModelPricing where
  "hyphen_entry = glm_entry\<lparr>cp_Platform := ''anthropic'', cp_Models := [''claude-opus-4-5''], cp_InputPrice := Some 2\<rparr>"

definition spelled_channel :: Channel where
  "spelled_channel = glm_channel\<lparr>ch_ModelPricing := [dotted_entry, hyphen_entry]\<rparr>"

theorem two_spellings_two_prices:
  "validateNoConflictingModels [dotted_entry, hyphen_entry] = None \<and>
   map_option cp_InputPrice (matchPlatformModelPricing [dotted_entry, hyphen_entry] ''anthropic'' ''claude-opus-4-5'') =
     Some (Some (1 / 1000)) \<and>
   map_option cp_InputPrice (GetChannelModelPricing None
     (Inr (populateChannelCache zero_time [spelled_channel] (\<lambda>_. ''anthropic''))) 7 ''claude-opus-4-5'') = Some (Some 2)"
  by code_simp

section \<open>An image input price of zero\<close>

theorem free_image_input_is_charged:
  "bd_ImageInputCost (computeTokenBreakdown
     (Some (applyChannelImageInputPrice (Some (glm_entry\<lparr>cp_ImageInputPrice := Some 0\<rparr>)) glm_5_card))
     (no_tokens\<lparr>ut_InputTokens := 1000, ut_ImageInputTokens := 1000\<rparr>) 1 [] True) = 1 / 1000"
  by code_simp

section \<open>The billing mode without a resolver\<close>

theorem no_resolver_no_mode:
  "map_sum id bd_BillingMode (CalculateCostUnified built_in_prices
     (cost_input ''glm-5'' None some_usage 1 1 None None)) = Inr []"
proof -
  let ?ci = "cost_input ''glm-5'' None some_usage 1 1 None None"
  have "validateUsageTokens (ci_Tokens ?ci) = None" using some_usage_valid by (simp add: validUsageTokens_def cost_input_def)
  then have "CalculateCostUnified built_in_prices ?ci = Inr (computeTokenBreakdown (Some glm_5_card) some_usage 1 [] True)"
    by (simp add: CalculateCostUnified_def cost_input_def some_cost del: computeTokenBreakdown.simps)
  moreover have "bd_BillingMode (computeTokenBreakdown (Some glm_5_card) some_usage 1 [] True) = []" by code_simp
  ultimately show ?thesis by (simp del: computeTokenBreakdown.simps)
qed

section \<open>Image tokens of a long context\<close>

definition image_usage :: UsageTokens where
  "image_usage = no_tokens\<lparr>ut_InputTokens := 2000, ut_ImageInputTokens := 2000\<rparr>"

theorem long_context_loses_image_tokens:
  "map_sum id bd_ImageInputCost (CalculateCostWithLongContext built_in_prices ''glm-5'' image_usage 1 1000 2) = Inr 0 \<and>
   map_sum id bd_ImageInputCost (CalculateCost built_in_prices ''glm-5'' image_usage 1) = Inr (1 / 500)"
  by code_simp

section \<open>Frozen prices of an entry with intervals\<close>

definition interval_resolution :: ResolvedPricing where
  "interval_resolution =
     applyTokenOverrides (glm_entry\<lparr>cp_Intervals := [token_interval 0 None (1 / 1000)]\<rparr>)
       (unresolved\<lparr>rp_Mode := BillingModeToken, rp_BasePricing := Some glm_5_card, rp_Source := PricingSourceGroup,
          rp_catalogBase := True, rp_channelPricing := Some glm_entry\<rparr>)"

theorem frozen_interval_price_differs:
  "map_option mp_CacheReadPricePerToken (GetIntervalPricing interval_resolution 151000) = Some (1 / 5000000) \<and>
   map_option mp_CacheReadPricePerToken (GetIntervalPricing
     ((json_resolved interval_resolution)\<lparr>rp_channelPricing := rp_channelPricing interval_resolution\<rparr>) 151000) =
     Some (1 / 1000)"
  by code_simp

section \<open>A failed reload of the channels\<close>

theorem failed_reload_lifts_restriction:
  "IsModelRestricted None (Inr (populateChannelCache zero_time [glm_channel\<lparr>ch_RestrictModels := True\<rparr>] (\<lambda>_. ''openai'')))
     7 ''other-model'' \<and>
   \<not> IsModelRestricted None
     (fst (loadCache 700000000000 (Inr ([glm_channel\<lparr>ch_RestrictModels := True\<rparr>], \<lambda>_. ''openai''))
        (snd (buildCache 699000000000 (Inl ''connection refused''))))) 7 ''other-model''"
  by code_simp

section \<open>Prices by the base name of a model\<close>

definition dated_prices :: price_list where
  "dated_prices =
     [(''acme-large-20240101'', openai_chat_price), (''acme-large-20240601'', openAIGPT54NanoFallbackPricing)]"

theorem base_name_price_depends_on_order:
  "PricingService_GetModelPricing dated_prices ''acme-large-20241201'' = Some openai_chat_price \<and>
   PricingService_GetModelPricing (rev dated_prices) ''acme-large-20241201'' = Some openAIGPT54NanoFallbackPricing \<and>
   distinct (map fst dated_prices) \<and> openai_chat_price \<noteq> openAIGPT54NanoFallbackPricing"
  by code_simp

end
