(* ===== verification/RecordedCharge.thy ===== *)
theory RecordedCharge
  imports PricingCharges BillingHolds
begin

text \<open>
  From the recorded cost to the ledger (the second half of \<open>service/gateway_usage_billing.go\<close>): the identity
  of the charge, the command it becomes, and its application. The refresh of caches and the notifications that
  follow an applied charge, the fallback without a ledger repository and the settlement of a reservation
  of a media job are outcomes that are not followed further.
\<close>

section \<open>The identity of a charge\<close>

definition PlatformFromAPIKey :: "APIKey \<Rightarrow> string" where
  "PlatformFromAPIKey apiKey = (case key_Group apiKey of Some g \<Rightarrow> gr_Platform g | None \<Rightarrow> [])"

text \<open>\<open>forcePlatform\<close> and \<open>resolvedTarget\<close> come from the context of the request.\<close>

definition QuotaPlatform :: "string option \<Rightarrow> string option \<Rightarrow> APIKey \<Rightarrow> string" where
  "QuotaPlatform forcePlatform resolvedTarget apiKey =
     (if PlatformFromAPIKey apiKey = PlatformComposite then PlatformCustom
      else (case forcePlatform of
              Some fp \<Rightarrow> if fp \<noteq> [] then fp else (case resolvedTarget of Some p \<Rightarrow> p | None \<Rightarrow> PlatformFromAPIKey apiKey)
            | None \<Rightarrow> (case resolvedTarget of Some p \<Rightarrow> p | None \<Rightarrow> PlatformFromAPIKey apiKey)))"

definition resolveUsageBillingRequestID :: "string \<Rightarrow> string \<Rightarrow> string \<Rightarrow> string" where
  "resolveUsageBillingRequestID clientRequestID upstreamRequestID generated =
     (if trim_space clientRequestID \<noteq> [] then ''client:'' @ trim_space clientRequestID
      else if trim_space upstreamRequestID \<noteq> [] then trim_space upstreamRequestID
      else ''generated:'' @ generated)"

definition resolveUsageBillingPayloadFingerprint :: "string \<Rightarrow> string \<Rightarrow> string" where
  "resolveUsageBillingPayloadFingerprint clientRequestID requestPayloadHash =
     (if trim_space requestPayloadHash \<noteq> [] then trim_space requestPayloadHash
      else if trim_space clientRequestID \<noteq> [] then ''client:'' @ trim_space clientRequestID
      else [])"

section \<open>The command\<close>

text \<open>The fields of the usage log a command takes over.\<close>

record UsageLog =
  ul_Model :: string
  ul_BillingType :: int
  ul_InputTokens :: int
  ul_OutputTokens :: int
  ul_CacheCreationTokens :: int
  ul_CacheReadTokens :: int
  ul_ImageCount :: int
  ul_ServiceTier :: "string option"
  ul_ReasoningEffort :: "string option"
  ul_SubscriptionID :: "int option"

text \<open>\<open>postUsageBillingParams\<close>, with the fields of key, user, account and subscription that the charge reads;
  \<open>pb_HasQuotaLimit\<close> is the answer of the account to \<open>HasAnyQuotaLimit\<close>.\<close>

record postUsageBillingParams =
  pb_Cost :: FullCostBreakdown
  pb_UserID :: int
  pb_APIKeyID :: int
  pb_Quota :: rat
  pb_RateLimit5h :: rat
  pb_RateLimit1d :: rat
  pb_RateLimit7d :: rat
  pb_AccountID :: int
  pb_AccountType :: string
  pb_HasQuotaLimit :: bool
  pb_Subscription :: "int option"
  pb_RequestPayloadHash :: string
  pb_IsSubscriptionBill :: bool
  pb_AccountRateMultiplier :: rat
  pb_HasAPIKeyService :: bool
  pb_Platform :: string
  pb_TrackUserPlatformQuota :: bool
  pb_MediaReservationID :: string

definition HasRateLimits :: "postUsageBillingParams \<Rightarrow> bool" where
  "HasRateLimits p \<longleftrightarrow> pb_RateLimit5h p > 0 \<or> pb_RateLimit1d p > 0 \<or> pb_RateLimit7d p > 0"

definition shouldDeductAPIKeyQuota :: "postUsageBillingParams \<Rightarrow> bool" where
  "shouldDeductAPIKeyQuota p \<longleftrightarrow> bd_ActualCost (pb_Cost p) > 0 \<and> pb_Quota p > 0 \<and> pb_HasAPIKeyService p"

definition shouldUpdateRateLimits :: "postUsageBillingParams \<Rightarrow> bool" where
  "shouldUpdateRateLimits p \<longleftrightarrow> bd_ActualCost (pb_Cost p) > 0 \<and> HasRateLimits p \<and> pb_HasAPIKeyService p"

definition IsAPIKeyOrBedrock :: "string \<Rightarrow> bool" where
  "IsAPIKeyOrBedrock accountType \<longleftrightarrow> accountType = ''apikey'' \<or> accountType = ''bedrock''"

definition shouldUpdateAccountQuota :: "postUsageBillingParams \<Rightarrow> bool" where
  "shouldUpdateAccountQuota p \<longleftrightarrow>
     bd_TotalCost (pb_Cost p) > 0 \<and> IsAPIKeyOrBedrock (pb_AccountType p) \<and> pb_HasQuotaLimit p"

definition quantizedAccountQuotaCost :: "rat \<Rightarrow> rat \<Rightarrow> amount" where
  "quantizedAccountQuotaCost totalCost multiplier = QuantizeUsageBillingAmount (Fin (totalCost * multiplier))"

record day_calendar =
  StartOfDay :: "time \<Rightarrow> time"
  StartOfWeek :: "time \<Rightarrow> time"

definition base_command :: "string \<Rightarrow> UsageLog option \<Rightarrow> postUsageBillingParams \<Rightarrow> time \<Rightarrow> UsageBillingCommand" where
  "base_command requestID usageLog p now =
     \<lparr>uc_RequestID = requestID, uc_APIKeyID = pb_APIKeyID p, uc_RequestFingerprint = [],
      uc_RequestPayloadHash = trim_space (pb_RequestPayloadHash p), uc_UserID = pb_UserID p, uc_AccountID = pb_AccountID p,
      uc_SubscriptionID = Option.bind usageLog ul_SubscriptionID, uc_AccountType = pb_AccountType p,
      uc_Model = (case usageLog of Some l \<Rightarrow> ul_Model l | None \<Rightarrow> []),
      uc_ServiceTier = (case Option.bind usageLog ul_ServiceTier of Some t \<Rightarrow> t | None \<Rightarrow> []),
      uc_ReasoningEffort = (case Option.bind usageLog ul_ReasoningEffort of Some e \<Rightarrow> e | None \<Rightarrow> []),
      uc_BillingType = (case usageLog of Some l \<Rightarrow> ul_BillingType l | None \<Rightarrow> 0),
      uc_InputTokens = (case usageLog of Some l \<Rightarrow> ul_InputTokens l | None \<Rightarrow> 0),
      uc_OutputTokens = (case usageLog of Some l \<Rightarrow> ul_OutputTokens l | None \<Rightarrow> 0),
      uc_CacheCreationTokens = (case usageLog of Some l \<Rightarrow> ul_CacheCreationTokens l | None \<Rightarrow> 0),
      uc_CacheReadTokens = (case usageLog of Some l \<Rightarrow> ul_CacheReadTokens l | None \<Rightarrow> 0),
      uc_ImageCount = (case usageLog of Some l \<Rightarrow> ul_ImageCount l | None \<Rightarrow> 0), uc_MediaType = [],
      uc_BalanceCost = Fin 0, uc_SubscriptionCost = Fin 0, uc_APIKeyQuotaCost = Fin 0, uc_APIKeyRateLimitCost = Fin 0,
      uc_AccountQuotaCost = Fin 0, uc_UserPlatformQuotaCost = Fin 0, uc_Platform = [], uc_ChargedAt = now,
      uc_PlatformDailyWindowStart = zero_time, uc_PlatformWeeklyWindowStart = zero_time\<rparr>"

text \<open>Who pays: the subscription of a subscription bill, else the balance.\<close>

definition with_payer :: "postUsageBillingParams \<Rightarrow> UsageBillingCommand \<Rightarrow> UsageBillingCommand" where
  "with_payer p cmd =
     (let cost = pb_Cost p in
      if pb_IsSubscriptionBill p \<and> pb_Subscription p \<noteq> None \<and> (bd_TotalCost cost > 0 \<or> bd_ActualCost cost > 0)
      then cmd\<lparr>uc_SubscriptionID := pb_Subscription p, uc_SubscriptionCost := Fin (bd_ActualCost cost)\<rparr>
      else if bd_ActualCost cost > 0 then cmd\<lparr>uc_BalanceCost := Fin (bd_ActualCost cost)\<rparr>
      else cmd)"

definition with_quotas :: "day_calendar \<Rightarrow> postUsageBillingParams \<Rightarrow> UsageBillingCommand \<Rightarrow> UsageBillingCommand" where
  "with_quotas cal p cmd =
     (let actual = Fin (bd_ActualCost (pb_Cost p));
          c1 = (if shouldDeductAPIKeyQuota p then cmd\<lparr>uc_APIKeyQuotaCost := actual\<rparr> else cmd);
          c2 = (if shouldUpdateRateLimits p then c1\<lparr>uc_APIKeyRateLimitCost := actual\<rparr> else c1);
          c3 = (if shouldUpdateAccountQuota p
                then c2\<lparr>uc_AccountQuotaCost := quantizedAccountQuotaCost (bd_TotalCost (pb_Cost p)) (pb_AccountRateMultiplier p)\<rparr>
                else c2)
      in if pb_TrackUserPlatformQuota p \<and> \<not> pb_IsSubscriptionBill p \<and> trim_space (pb_Platform p) \<noteq> [] \<and>
            bd_ActualCost (pb_Cost p) > 0
         then c3\<lparr>uc_Platform := trim_space (pb_Platform p), uc_UserPlatformQuotaCost := actual,
                uc_PlatformDailyWindowStart := StartOfDay cal (uc_ChargedAt c3),
                uc_PlatformWeeklyWindowStart := StartOfWeek cal (uc_ChargedAt c3)\<rparr>
         else c3)"

definition buildUsageBillingCommand ::
  "fingerprint_codec \<Rightarrow> day_calendar \<Rightarrow> time \<Rightarrow> string \<Rightarrow> UsageLog option \<Rightarrow> postUsageBillingParams \<Rightarrow> UsageBillingCommand" where
  "buildUsageBillingCommand fc cal now requestID usageLog p =
     uc_Normalize fc (with_quotas cal p (with_payer p (base_command requestID usageLog p now)))"

section \<open>Its application\<close>

text \<open>\<open>quotaLimited\<close> is the answer of the cache whether the user has a platform quota, \<open>None\<close> without the
  services for it; \<open>hasRepo\<close> tells whether there is a ledger.\<close>

datatype billing_route =
    LegacyBilling
  | MediaSettlement string UsageBillingCommand
  | LedgerBilling "go_error + bool" UsageBillingCommand

definition applyUsageBilling ::
  "fingerprint_codec \<Rightarrow> calendar \<Rightarrow> day_calendar \<Rightarrow> time \<Rightarrow> bool \<Rightarrow> bool option \<Rightarrow> string \<Rightarrow> UsageLog option \<Rightarrow>
     postUsageBillingParams \<Rightarrow> ledger conn \<Rightarrow> billing_route \<times> ledger conn" where
  "applyUsageBilling fc cal days now hasRepo quotaLimited requestID usageLog p0 c =
     (let p = (if \<not> pb_IsSubscriptionBill p0 \<and> pb_Platform p0 \<noteq> [] \<and> bd_ActualCost (pb_Cost p0) > 0 \<and> quotaLimited \<noteq> None
               then p0\<lparr>pb_TrackUserPlatformQuota := (quotaLimited = Some True)\<rparr> else p0);
          cmd = buildUsageBillingCommand fc days now requestID usageLog p
      in if uc_RequestID cmd = [] \<or> \<not> hasRepo then (LegacyBilling, c)
         else if pb_MediaReservationID p \<noteq> [] then (MediaSettlement (pb_MediaReservationID p) cmd, c)
         else (case Apply fc cal now (Some cmd) c of
                 (Inl e, c') \<Rightarrow> (LedgerBilling (Inl e) cmd, c')
               | (Inr result, c') \<Rightarrow> (LedgerBilling (Inr (ar_Applied result)) cmd, c')))"

section \<open>The recorded cost is what the balance loses\<close>

lemma quotas_keep_payer [simp]:
  "uc_BalanceCost (with_quotas cal p cmd) = uc_BalanceCost cmd" "uc_UserID (with_quotas cal p cmd) = uc_UserID cmd"
  "uc_RequestID (with_quotas cal p cmd) = uc_RequestID cmd" "uc_SubscriptionCost (with_quotas cal p cmd) = uc_SubscriptionCost cmd"
  by (simp_all add: with_quotas_def Let_def)

lemma payer_keeps [simp]: "uc_UserID (with_payer p cmd) = uc_UserID cmd" "uc_RequestID (with_payer p cmd) = uc_RequestID cmd"
  by (simp_all add: with_payer_def Let_def)

lemma normalized_balance: "uc_BalanceCost (uc_Normalize fc cmd) = QuantizeUsageBillingAmount (uc_BalanceCost cmd)"
  by (simp add: uc_Normalize_def quantizeMonetaryFields_def Let_def)

lemma command_balance:
  "uc_BalanceCost (buildUsageBillingCommand fc cal now rid usageLog p) =
     QuantizeUsageBillingAmount (uc_BalanceCost (with_payer p (base_command rid usageLog p now)))"
  "uc_UserID (buildUsageBillingCommand fc cal now rid usageLog p) = pb_UserID p"
  by (simp_all add: buildUsageBillingCommand_def normalized_balance) (simp add: base_command_def)

lemma charge_quantized: "0 \<le> v \<Longrightarrow> charge_of (QuantizeUsageBillingAmount (Fin v)) = round_to_scale v"
  using round_to_scale_nonneg [of v] by (simp add: charge_of_def quantize_Fin del: QuantizeUsageBillingAmount.simps(1))

definition balance_charge :: "postUsageBillingParams \<Rightarrow> rat" where
  "balance_charge p =
     (if pb_IsSubscriptionBill p \<and> pb_Subscription p \<noteq> None then 0 else round_to_scale (bd_ActualCost (pb_Cost p)))"

lemma round_to_scale_zero: "round_to_scale 0 = 0"
  by (rule round_to_scale_fixed) (simp add: on_scale_def)

lemma command_charge:
  assumes "0 \<le> bd_ActualCost (pb_Cost p)"
  shows "charge_of (uc_BalanceCost (buildUsageBillingCommand fc cal now rid usageLog p)) = balance_charge p"
proof (cases "bd_ActualCost (pb_Cost p) = 0")
  case True
  then have "uc_BalanceCost (with_payer p (base_command rid usageLog p now)) = Fin 0"
    by (simp add: with_payer_def base_command_def Let_def)
  then show ?thesis using True round_to_scale_zero
    by (simp only: command_balance charge_quantized) (simp add: balance_charge_def)
next
  case False
  then have pos: "0 < bd_ActualCost (pb_Cost p)" using assms by simp
  show ?thesis
  proof (cases "pb_IsSubscriptionBill p \<and> pb_Subscription p \<noteq> None")
    case True
    then have "uc_BalanceCost (with_payer p (base_command rid usageLog p now)) = Fin 0"
      using pos by (simp add: with_payer_def base_command_def Let_def)
    then show ?thesis using True round_to_scale_zero
      by (simp only: command_balance charge_quantized) (simp add: balance_charge_def)
  next
    case False
    then have "uc_BalanceCost (with_payer p (base_command rid usageLog p now)) = Fin (bd_ActualCost (pb_Cost p))"
      using pos by (simp add: with_payer_def base_command_def Let_def)
    then show ?thesis unfolding command_balance balance_charge_def if_not_P [OF False]
      by (simp only: charge_quantized [OF assms])
  qed
qed

text \<open>
  C11: What a user pays is the recorded cost: when the charge of a recorded request is applied, the balance of its
  user falls by the recorded cost rounded to the scale of the ledger, never rises, and falls by nothing when a
  subscription pays; no other balance changes.
\<close>

theorem recorded_cost_is_charged:
  assumes "nonneg_config s (ri_APIKey input)" "pb_Cost p = recordUsageCore_cost s base minuteOfDay input"
    "applyUsageBilling fc cal days now hasRepo quotaLimited rid usageLog p c = (LedgerBilling (Inr True) cmd, c')"
  shows "0 \<le> balance_charge p \<and>
         (\<forall>u. money (fst c') u = money (fst c) u - (if u = pb_UserID p then balance_charge p else 0))"
proof -
  have cost: "0 \<le> bd_ActualCost (pb_Cost p)"
    using recorded_charge_nonneg [OF assms(1)] unfolding assms(2) .
  let ?q = "if \<not> pb_IsSubscriptionBill p \<and> pb_Platform p \<noteq> [] \<and> bd_ActualCost (pb_Cost p) > 0 \<and> quotaLimited \<noteq> None
            then p\<lparr>pb_TrackUserPlatformQuota := (quotaLimited = Some True)\<rparr> else p"
  have q: "pb_Cost ?q = pb_Cost p" "pb_IsSubscriptionBill ?q = pb_IsSubscriptionBill p"
      "pb_Subscription ?q = pb_Subscription p" "pb_UserID ?q = pb_UserID p" by simp_all
  define q where "q = ?q"
  note q = q [folded q_def]
  obtain res where cmd: "cmd = buildUsageBillingCommand fc days now rid usageLog q"
    and ok: "Apply fc cal now (Some cmd) c = (Inr res, c')" "ar_Applied res"
    using assms(3) unfolding applyUsageBilling_def q_def [symmetric] Let_def
    by (auto split: if_splits prod.splits sum.splits)
  have "money (fst c') u = money (fst c) u -
      (if u = uc_UserID (uc_Normalize fc cmd) then charge_of (uc_BalanceCost (uc_Normalize fc cmd)) else 0)" for u
    by (rule applied_money [OF apply_acked [OF ok(1)] ok(2)])
  moreover have "uc_UserID (uc_Normalize fc cmd) = pb_UserID p"
    by (simp add: cmd command_balance q)
  moreover have "charge_of (uc_BalanceCost (uc_Normalize fc cmd)) = balance_charge p"
  proof -
    have same: "uc_BalanceCost (uc_Normalize fc cmd) = uc_BalanceCost cmd" by (simp add: cmd normalized_balance command_balance)
    have "balance_charge q = balance_charge p" by (simp only: balance_charge_def q)
    then show ?thesis using command_charge [of q fc days now rid usageLog] cost unfolding same unfolding cmd q(1) by simp
  qed
  ultimately show ?thesis using cost round_to_scale_nonneg by (simp add: balance_charge_def)
qed

section \<open>Example\<close>

lemma plain_charge_applies:
  assumes "uc_SubscriptionID cmd = None" "uc_APIKeyQuotaCost cmd = Fin 0" "uc_APIKeyRateLimitCost cmd = Fin 0"
    "uc_AccountQuotaCost cmd = Fin 0" "uc_UserPlatformQuotaCost cmd = Fin 0" "uc_UserID cmd = 1"
    "\<exists>v. uc_BalanceCost cmd = Fin v"
  shows "\<exists>res l'. apply_tx cal now cmd demo_ledger = Inr (res, l') \<and> ar_Applied res"
  using assms
  by (auto simp: apply_tx_def claimUsageBillingKey_def claimUsageBillingRequest_def claim_fingerprint_def
      applyUsageBillingEffects_def subscription_step_def balance_step_def key_quota_step_def rate_limit_step_def
      account_quota_step_def platform_quota_step_def tx_defs deductUsageBillingBalance_def live_user_def put_user_def
      empty_apply_result_def demo_ledger_def demo_user_def Let_def)

definition paid_request :: recordUsageCoreInput where
  "paid_request = reported_request\<lparr>ri_Result := (ri_Result reported_request)\<lparr>gf_Usage :=
     no_claude_usage\<lparr>cu_InputTokens := 1000\<rparr>\<rparr>\<rparr>"

definition paid_params :: postUsageBillingParams where
  "paid_params =
     \<lparr>pb_Cost = recordUsageCore_cost plain_gateway 1 600 paid_request, pb_UserID = 1, pb_APIKeyID = 7, pb_Quota = 0,
      pb_RateLimit5h = 0, pb_RateLimit1d = 0, pb_RateLimit7d = 0, pb_AccountID = 3, pb_AccountType = ''oauth'',
      pb_HasQuotaLimit = False, pb_Subscription = None, pb_RequestPayloadHash = [], pb_IsSubscriptionBill = False,
      pb_AccountRateMultiplier = 1, pb_HasAPIKeyService = True, pb_Platform = [], pb_TrackUserPlatformQuota = False,
      pb_MediaReservationID = []\<rparr>"

definition demo_days :: day_calendar where
  "demo_days = \<lparr>StartOfDay = (\<lambda>t. t), StartOfWeek = (\<lambda>t. t)\<rparr>"

lemma normalized_other [simp]:
  "uc_SubscriptionID (uc_Normalize fc cmd) = uc_SubscriptionID cmd"
  "uc_APIKeyQuotaCost (uc_Normalize fc cmd) = QuantizeUsageBillingAmount (uc_APIKeyQuotaCost cmd)"
  "uc_APIKeyRateLimitCost (uc_Normalize fc cmd) = QuantizeUsageBillingAmount (uc_APIKeyRateLimitCost cmd)"
  "uc_AccountQuotaCost (uc_Normalize fc cmd) = QuantizeUsageBillingAmount (uc_AccountQuotaCost cmd)"
  "uc_UserPlatformQuotaCost (uc_Normalize fc cmd) = QuantizeUsageBillingAmount (uc_UserPlatformQuotaCost cmd)"
  by (simp_all add: uc_Normalize_def quantizeMonetaryFields_def Let_def)

lemma paid_request_applies:
  "\<exists>cmd c'. applyUsageBilling demo_fc demo_calendar demo_days 0 True None ''r1'' None paid_params (demo_ledger, []) =
     (LedgerBilling (Inr True) cmd, c')"
proof -
  let ?cmd = "buildUsageBillingCommand demo_fc demo_days 0 ''r1'' None paid_params"
  have r1: "trim_space ''r1'' = ''r1''" by code_simp
  have rid: "uc_RequestID (uc_Normalize demo_fc ?cmd) = ''r1''" "uc_RequestID ?cmd = ''r1''"
    by (simp_all add: buildUsageBillingCommand_def base_command_def r1)
  have quotas: "with_quotas demo_days paid_params cmd = cmd" for cmd
    by (simp add: with_quotas_def Let_def shouldDeductAPIKeyQuota_def shouldUpdateRateLimits_def HasRateLimits_def
        shouldUpdateAccountQuota_def IsAPIKeyOrBedrock_def paid_params_def)
  have "\<exists>v. uc_BalanceCost (with_payer paid_params (base_command ''r1'' None paid_params 0)) = Fin v"
    by (simp add: with_payer_def base_command_def Let_def)
  then have fin: "\<exists>v. uc_BalanceCost (uc_Normalize demo_fc ?cmd) = Fin v"
    by (auto simp: buildUsageBillingCommand_def normalized_balance quotas simp del: QuantizeUsageBillingAmount.simps(1)
        simp: quantize_Fin)
  have "\<exists>res l'. apply_tx demo_calendar 0 (uc_Normalize demo_fc ?cmd) demo_ledger = Inr (res, l') \<and> ar_Applied res"
    by (rule plain_charge_applies [OF _ _ _ _ _ _ fin])
      (simp_all add: buildUsageBillingCommand_def quotas with_payer_def base_command_def Let_def, simp_all add: paid_params_def)
  then obtain res l' where "Apply demo_fc demo_calendar 0 (Some ?cmd) (demo_ledger, []) = (Inr res, (l', []))" "ar_Applied res"
    by (auto simp: Apply_def rid(1) Let_def simp del: uc_Normalize_fields)
  then have "applyUsageBilling demo_fc demo_calendar demo_days 0 True None ''r1'' None paid_params (demo_ledger, []) =
      (LedgerBilling (Inr True) ?cmd, (l', []))"
    by (simp add: applyUsageBilling_def Let_def rid(2)) (simp add: paid_params_def)
  then show ?thesis by blast
qed

lemma recorded_cost_is_charged_witness:
  "\<exists>cmd c'. applyUsageBilling demo_fc demo_calendar demo_days 0 True None ''r1'' None paid_params (demo_ledger, []) =
     (LedgerBilling (Inr True) cmd, c') \<and>
     money (fst c') 1 = money demo_ledger 1 - balance_charge paid_params \<and> 0 \<le> balance_charge paid_params"
proof -
  obtain cmd c' where a: "applyUsageBilling demo_fc demo_calendar demo_days 0 True None ''r1'' None paid_params (demo_ledger, []) =
     (LedgerBilling (Inr True) cmd, c')" using paid_request_applies by blast
  have config: "nonneg_config plain_gateway (ri_APIKey paid_request)"
    by (simp add: paid_request_def reported_request_def plain_config_nonneg)
  have cost: "pb_Cost paid_params = recordUsageCore_cost plain_gateway 1 600 paid_request" by (simp add: paid_params_def)
  have user: "pb_UserID paid_params = 1" by (simp add: paid_params_def)
  show ?thesis using recorded_cost_is_charged [OF config cost a] unfolding user using a by simp
qed

end
